(* ===== verification/Rust_Prelude.thy ===== *)
theory Rust_Prelude
  imports Main "HOL-Library.Word"
begin

text \<open>
  Shared vocabulary of the development: the machine integers of the Rust sources, the
  \<open>Result\<close> type with a third constructor for panics (\<open>expect\<close>, \<open>unreachable!\<close>), the
  loops with early return that the sources write as \<open>for\<close> with \<open>?\<close>, and the lemma
  collections the component theories extend.
\<close>

named_theorems result_simps \<open>equations that invert results of the error monad\<close>
named_theorems guard_simps \<open>unfolding of the guards and validators of the sources\<close>

section \<open>Machine integers\<close>

type_synonym u8 = "8 word"
type_synonym u16 = "16 word"
type_synonym u32 = "32 word"
type_synonym u64 = "64 word"

definition saturating_add :: "'w::len word \<Rightarrow> 'w word \<Rightarrow> 'w word" where
  "saturating_add a b =
     (if unat a + unat b < 2 ^ LENGTH('w) then a + b else - 1)"

definition checked_add :: "'w::len word \<Rightarrow> 'w word \<Rightarrow> 'w word option" where
  "checked_add a b =
     (if unat a + unat b < 2 ^ LENGTH('w) then Some (a + b) else None)"

lemma unat_add_no_overflow:
  fixes a b :: "'w::len word"
  shows "unat a + unat b < 2 ^ LENGTH('w) \<Longrightarrow> unat (a + b) = unat a + unat b"
  by (simp add: unat_word_ariths)

lemma unat_max_word: "unat (- 1 :: 'w::len word) = 2 ^ LENGTH('w) - 1"
  by (simp add: unsigned_minus_1_eq_mask mask_eq_exp_minus_1)

lemma unat_bound:
  fixes a :: "'w::len word"
  shows "unat a < 2 ^ LENGTH('w)"
  by (rule unsigned_less)

lemma unat_saturating_add:
  fixes a b :: "'w::len word"
  shows "unat (saturating_add a b) = min (unat a + unat b) (2 ^ LENGTH('w) - 1)"
proof (cases "unat a + unat b < 2 ^ LENGTH('w)")
  case True
  then show ?thesis
    by (simp add: saturating_add_def unat_add_no_overflow)
next
  case False
  then show ?thesis
    by (simp add: saturating_add_def unat_max_word)
qed

lemma checked_add_Some [result_simps]:
  fixes a b c :: "'w::len word"
  shows "checked_add a b = Some c \<longleftrightarrow> unat a + unat b < 2 ^ LENGTH('w) \<and> c = a + b"
  by (auto simp: checked_add_def)

lemma checked_add_None [result_simps]:
  fixes a b :: "'w::len word"
  shows "checked_add a b = None \<longleftrightarrow> 2 ^ LENGTH('w) \<le> unat a + unat b"
  by (auto simp: checked_add_def)

text \<open>
  \<open>i64\<close> values (Unix seconds) are integers; the one arithmetic operation the sources
  apply to them is \<open>saturating_sub\<close>, whose clamping is written out.
\<close>

type_synonym i64 = int

definition i64_min :: int where "i64_min = - (2 ^ 63)"
definition i64_max :: int where "i64_max = 2 ^ 63 - 1"

definition i64_saturating_sub :: "i64 \<Rightarrow> i64 \<Rightarrow> i64" where
  "i64_saturating_sub a b = max i64_min (min i64_max (a - b))"

lemma i64_saturating_sub_le:
  "0 \<le> w \<Longrightarrow> a - b \<le> w \<Longrightarrow> i64_saturating_sub a b \<le> w"
  by (auto simp: i64_saturating_sub_def i64_min_def i64_max_def)

section \<open>Results, early returns and panics\<close>

datatype ('e, 'a) result = Ok 'a | Err 'e | Panic

primrec bind_r :: "('e, 'a) result \<Rightarrow> ('a \<Rightarrow> ('e, 'b) result) \<Rightarrow> ('e, 'b) result" where
  "bind_r (Ok a) f = f a"
| "bind_r (Err e) f = Err e"
| "bind_r Panic f = Panic"

primrec map_err :: "('e \<Rightarrow> 'f) \<Rightarrow> ('e, 'a) result \<Rightarrow> ('f, 'a) result" where
  "map_err g (Ok a) = Ok a"
| "map_err g (Err e) = Err (g e)"
| "map_err g Panic = Panic"

definition ok_or :: "'a option \<Rightarrow> 'e \<Rightarrow> ('e, 'a) result" where
  "ok_or x e = (case x of None \<Rightarrow> Err e | Some a \<Rightarrow> Ok a)"

definition expect :: "'a option \<Rightarrow> ('e, 'a) result" where
  "expect x = (case x of None \<Rightarrow> Panic | Some a \<Rightarrow> Ok a)"

definition unwrap_or :: "'a option \<Rightarrow> 'a \<Rightarrow> 'a" where
  "unwrap_or x d = (case x of None \<Rightarrow> d | Some a \<Rightarrow> a)"

definition ensure :: "bool \<Rightarrow> 'e \<Rightarrow> ('e, unit) result" where
  "ensure b e = (if b then Ok () else Err e)"

definition is_ok :: "('e, 'a) result \<Rightarrow> bool" where
  "is_ok r = (case r of Ok _ \<Rightarrow> True | _ \<Rightarrow> False)"

lemma bind_r_Ok [result_simps]:
  "bind_r m f = Ok b \<longleftrightarrow> (\<exists>a. m = Ok a \<and> f a = Ok b)"
  by (cases m) auto

lemma bind_r_Err [result_simps]:
  "bind_r m f = Err e \<longleftrightarrow> m = Err e \<or> (\<exists>a. m = Ok a \<and> f a = Err e)"
  by (cases m) auto

lemma bind_r_Panic [result_simps]:
  "bind_r m f = Panic \<longleftrightarrow> m = Panic \<or> (\<exists>a. m = Ok a \<and> f a = Panic)"
  by (cases m) auto

lemma bind_r_assoc: "bind_r (bind_r m f) g = bind_r m (\<lambda>a. bind_r (f a) g)"
  by (cases m) auto

lemma map_err_Ok [result_simps]: "map_err g m = Ok a \<longleftrightarrow> m = Ok a"
  by (cases m) auto

lemma map_err_Err [result_simps]: "map_err g m = Err e \<longleftrightarrow> (\<exists>d. m = Err d \<and> e = g d)"
  by (cases m) auto

lemma map_err_Panic [result_simps]: "map_err g m = Panic \<longleftrightarrow> m = Panic"
  by (cases m) auto

lemma ok_or_inv [result_simps]:
  "ok_or x e = Ok a \<longleftrightarrow> x = Some a"
  "ok_or x e = Err d \<longleftrightarrow> x = None \<and> d = e"
  "ok_or x e \<noteq> Panic"
  by (auto simp: ok_or_def split: option.splits)

lemma unwrap_or_simps [simp]: "unwrap_or None d = d" "unwrap_or (Some a) d = a"
  by (simp_all add: unwrap_or_def)

lemma expect_inv [result_simps]:
  "expect x = Ok a \<longleftrightarrow> x = Some a"
  "expect x \<noteq> Err e"
  "expect x = Panic \<longleftrightarrow> x = None"
  by (auto simp: expect_def split: option.splits)

lemma ensure_inv [result_simps]:
  "ensure b e = Ok u \<longleftrightarrow> b"
  "ensure b e = Err d \<longleftrightarrow> \<not> b \<and> d = e"
  "ensure b e \<noteq> Panic"
  by (auto simp: ensure_def)

lemma bind_r_cong [fundef_cong]:
  "m = m' \<Longrightarrow> (\<And>a. m' = Ok a \<Longrightarrow> f a = f' a) \<Longrightarrow> bind_r m f = bind_r m' f'"
  by (cases m') auto

text \<open>\<open>for x in xs { check(x)?; }\<close> and \<open>for x in xs { s = step(s, x)?; }\<close>.\<close>

fun all_ok :: "('x \<Rightarrow> ('e, unit) result) \<Rightarrow> 'x list \<Rightarrow> ('e, unit) result" where
  "all_ok f [] = Ok ()"
| "all_ok f (x # xs) = bind_r (f x) (\<lambda>_. all_ok f xs)"

fun try_fold :: "('s \<Rightarrow> 'x \<Rightarrow> ('e, 's) result) \<Rightarrow> 's \<Rightarrow> 'x list \<Rightarrow> ('e, 's) result" where
  "try_fold f s [] = Ok s"
| "try_fold f s (x # xs) = bind_r (f s x) (\<lambda>s'. try_fold f s' xs)"

lemma all_ok_Ok [result_simps]: "all_ok f xs = Ok u \<longleftrightarrow> (\<forall>x\<in>set xs. f x = Ok ())"
  by (induction xs) (auto simp: result_simps)

lemma all_ok_Err: "all_ok f xs = Err e \<Longrightarrow> \<exists>x\<in>set xs. f x = Err e"
  by (induction xs) (auto simp: result_simps)

lemma all_ok_Panic: "all_ok f xs = Panic \<Longrightarrow> \<exists>x\<in>set xs. f x = Panic"
  by (induction xs) (auto simp: result_simps)

lemma all_ok_no_Panic: "(\<And>x. x \<in> set xs \<Longrightarrow> f x \<noteq> Panic) \<Longrightarrow> all_ok f xs \<noteq> Panic"
  using all_ok_Panic by metis

lemma try_fold_append:
  "try_fold f s (xs @ ys) = bind_r (try_fold f s xs) (\<lambda>s'. try_fold f s' ys)"
proof (induction xs arbitrary: s)
  case Nil
  show ?case by simp
next
  case (Cons x xs)
  then show ?case by (cases "f s x") simp_all
qed

lemma try_fold_inv:
  assumes "try_fold f s xs = Ok t" and "I s"
    and "\<And>s x s'. x \<in> set xs \<Longrightarrow> I s \<Longrightarrow> f s x = Ok s' \<Longrightarrow> I s'"
  shows "I t"
  using assms
proof (induction xs arbitrary: s)
  case Nil
  then show ?case by simp
next
  case (Cons x xs)
  from Cons.prems(1) obtain s' where s': "f s x = Ok s'" "try_fold f s' xs = Ok t"
    by (auto simp: result_simps)
  have "I s'" using Cons.prems(3) [of x s s'] Cons.prems(2) s'(1) by simp
  moreover have "\<And>s y s'. y \<in> set xs \<Longrightarrow> I s \<Longrightarrow> f s y = Ok s' \<Longrightarrow> I s'"
    using Cons.prems(3) by (meson list.set_intros(2))
  ultimately show ?case by (rule Cons.IH [OF s'(2)])
qed

lemma try_fold_no_Panic:
  assumes "I s"
    and "\<And>s x. x \<in> set xs \<Longrightarrow> I s \<Longrightarrow> f s x \<noteq> Panic"
    and "\<And>s x s'. x \<in> set xs \<Longrightarrow> I s \<Longrightarrow> f s x = Ok s' \<Longrightarrow> I s'"
  shows "try_fold f s xs \<noteq> Panic"
  using assms
proof (induction xs arbitrary: s)
  case Nil
  then show ?case by simp
next
  case (Cons x xs)
  show ?case
  proof (cases "f s x")
    case (Ok s')
    have "I s'" using Cons.prems(3) [of x s s'] Cons.prems(1) Ok by simp
    moreover have "\<And>s y. y \<in> set xs \<Longrightarrow> I s \<Longrightarrow> f s y \<noteq> Panic"
      using Cons.prems(2) by simp
    moreover have "\<And>s y s'. y \<in> set xs \<Longrightarrow> I s \<Longrightarrow> f s y = Ok s' \<Longrightarrow> I s'"
      using Cons.prems(3) by (meson list.set_intros(2))
    ultimately have "try_fold f s' xs \<noteq> Panic"
      by (rule Cons.IH)
    with Ok show ?thesis by simp
  next
    case (Err e)
    then show ?thesis by simp
  next
    case Panic
    with Cons.prems(1,2) show ?thesis by simp
  qed
qed

section \<open>Results over a mutable state\<close>

text \<open>
  Methods on \<open>&mut self\<close> and interior-mutable objects: the result together with the state
  that is left, failed or not. \<open>seq\<close> is the \<open>?\<close> operator between two of them.
\<close>

type_synonym ('s, 'e, 'a) action = "'s \<Rightarrow> ('e, 'a) result \<times> 's"

definition give :: "'a \<Rightarrow> ('s, 'e, 'a) action" where
  "give a s = (Ok a, s)"

definition lift_r :: "('e, 'a) result \<Rightarrow> ('s, 'e, 'a) action" where
  "lift_r r s = (r, s)"

definition seq :: "('s, 'e, 'a) action \<Rightarrow> ('a \<Rightarrow> ('s, 'e, 'b) action) \<Rightarrow> ('s, 'e, 'b) action" where
  "seq m f s =
     (case m s of
        (Ok a, t) \<Rightarrow> f a t
      | (Err e, t) \<Rightarrow> (Err e, t)
      | (Panic, t) \<Rightarrow> (Panic, t))"

lemma seq_Ok [result_simps]:
  "seq m f s = (Ok b, u) \<longleftrightarrow> (\<exists>a t. m s = (Ok a, t) \<and> f a t = (Ok b, u))"
  by (auto simp: seq_def split: prod.splits result.splits)

lemma seq_Err [result_simps]:
  "seq m f s = (Err e, u) \<longleftrightarrow>
     m s = (Err e, u) \<or> (\<exists>a t. m s = (Ok a, t) \<and> f a t = (Err e, u))"
  by (auto simp: seq_def split: prod.splits result.splits)

lemma seq_Panic [result_simps]:
  "seq m f s = (Panic, u) \<longleftrightarrow>
     m s = (Panic, u) \<or> (\<exists>a t. m s = (Ok a, t) \<and> f a t = (Panic, u))"
  by (auto simp: seq_def split: prod.splits result.splits)

lemma lift_r_eq [result_simps]: "lift_r r s = (r', t) \<longleftrightarrow> r = r' \<and> t = s"
  by (auto simp: lift_r_def)

lemma give_eq [result_simps]: "give a s = (r, t) \<longleftrightarrow> r = Ok a \<and> t = s"
  by (auto simp: give_def)

text \<open>A relation between the states before and after that every part of a sequence keeps.\<close>

lemma seq_state:
  assumes "seq m f s = (r, u)"
    and "\<And>q t. m s = (q, t) \<Longrightarrow> R s t"
    and "\<And>a t q v. m s = (Ok a, t) \<Longrightarrow> f a t = (q, v) \<Longrightarrow> R t v"
    and "\<And>x y z. R x y \<Longrightarrow> R y z \<Longrightarrow> R x z"
  shows "R s u"
proof -
  obtain q t where m: "m s = (q, t)" by force
  then have st: "R s t" by (rule assms(2))
  show ?thesis
  proof (cases q)
    case (Ok a)
    with m assms(1) have "f a t = (r, u)" by (simp add: seq_def)
    with m Ok assms(3) have "R t u" by blast
    with st show ?thesis by (rule assms(4))
  qed (use m assms(1) st in \<open>auto simp: seq_def\<close>)
qed

section \<open>Lists\<close>

lemma find_Some_in: "find P xs = Some x \<Longrightarrow> x \<in> set xs \<and> P x"
  by (induction xs) (auto split: if_splits)

end
