(* ===== verification/Rust_String.thy ===== *)
theory Rust_String
  imports Rust_Prelude "HOL-Library.List_Lexorder" "HOL-Library.Char_ord"
begin

text \<open>
  Rust's \<open>String\<close> and \<open>&str\<close> as the byte strings they are: a \<open>string\<close> is the list of
  its UTF-8 bytes, so \<open>len()\<close> is \<open>length\<close>, and \<open>Ord\<close> is the lexicographic order on
  bytes. The operations of the standard library the sources use are written on bytes:
  \<open>trim\<close> (the Unicode \<open>White_Space\<close> characters), \<open>chars().count()\<close>, the first
  character of a string, and the decimal rendering of integers.
\<close>

abbreviation byte_of :: "char \<Rightarrow> nat" where
  "byte_of c \<equiv> of_char c"

section \<open>UTF-8\<close>

definition utf8_char :: "nat \<Rightarrow> nat list" where
  "utf8_char p =
     (if p < 0x80 then [p]
      else if p < 0x800 then [0xC0 + p div 64, 0x80 + p mod 64]
      else if p < 0x10000 then [0xE0 + p div 4096, 0x80 + p div 64 mod 64, 0x80 + p mod 64]
      else [0xF0 + p div 262144, 0x80 + p div 4096 mod 64, 0x80 + p div 64 mod 64, 0x80 + p mod 64])"

definition utf8 :: "nat list \<Rightarrow> string" where
  "utf8 ps = map char_of (concat (map utf8_char ps))"

definition is_continuation :: "char \<Rightarrow> bool" where
  "is_continuation c \<longleftrightarrow> 0x80 \<le> byte_of c \<and> byte_of c < 0xC0"

text \<open>\<open>s.chars().count()\<close>: the bytes that start a character.\<close>

definition char_count :: "string \<Rightarrow> nat" where
  "char_count s = length (filter (\<lambda>c. \<not> is_continuation c) s)"

text \<open>The code point of the character a non-empty string starts with.\<close>

definition first_char :: "string \<Rightarrow> nat" where
  "first_char s =
     (case map byte_of s of
        [] \<Rightarrow> 0
      | b0 # r \<Rightarrow>
          if b0 < 0x80 then b0
          else if b0 < 0xE0 then (case r of b1 # _ \<Rightarrow> (b0 - 0xC0) * 64 + (b1 - 0x80) | _ \<Rightarrow> b0)
          else if b0 < 0xF0 then
            (case r of b1 # b2 # _ \<Rightarrow> (b0 - 0xE0) * 4096 + (b1 - 0x80) * 64 + (b2 - 0x80) | _ \<Rightarrow> b0)
          else
            (case r of b1 # b2 # b3 # _ \<Rightarrow>
               (b0 - 0xF0) * 262144 + (b1 - 0x80) * 4096 + (b2 - 0x80) * 64 + (b3 - 0x80)
             | _ \<Rightarrow> b0))"

text \<open>\<open>s.chars().take(n).collect()\<close> on the bytes of a string.\<close>

fun take_chars :: "nat \<Rightarrow> string \<Rightarrow> string" where
  "take_chars n [] = []"
| "take_chars n (c # s) =
     (if is_continuation c then c # take_chars n s
      else (case n of 0 \<Rightarrow> [] | Suc k \<Rightarrow> c # take_chars k s))"

lemma take_chars_count: "char_count (take_chars n s) \<le> n"
  by (induction n s rule: take_chars.induct) (auto simp: char_count_def split: nat.splits)

lemma char_count_le: "char_count s \<le> length s"
  by (simp add: char_count_def)

section \<open>White space and trimming\<close>

definition ws1 :: "nat \<Rightarrow> bool" where
  "ws1 b \<longleftrightarrow> (9 \<le> b \<and> b \<le> 13) \<or> b = 32"

definition ws2 :: "nat \<Rightarrow> nat \<Rightarrow> bool" where
  "ws2 b0 b1 \<longleftrightarrow> b0 = 0xC2 \<and> (b1 = 0x85 \<or> b1 = 0xA0)"

definition ws3 :: "nat \<Rightarrow> nat \<Rightarrow> nat \<Rightarrow> bool" where
  "ws3 b0 b1 b2 \<longleftrightarrow>
     (b0 = 0xE1 \<and> b1 = 0x9A \<and> b2 = 0x80) \<or>
     (b0 = 0xE2 \<and> b1 = 0x80 \<and>
        ((0x80 \<le> b2 \<and> b2 \<le> 0x8A) \<or> b2 = 0xA8 \<or> b2 = 0xA9 \<or> b2 = 0xAF)) \<or>
     (b0 = 0xE2 \<and> b1 = 0x81 \<and> b2 = 0x9F) \<or>
     (b0 = 0xE3 \<and> b1 = 0x80 \<and> b2 = 0x80)"

text \<open>The bytes of the white-space character at the front (0: there is none), and at the end
  of a string given in reverse.\<close>

definition ws_front :: "string \<Rightarrow> nat" where
  "ws_front s =
     (case s of
        [] \<Rightarrow> 0
      | c0 # r0 \<Rightarrow>
          if ws1 (byte_of c0) then 1
          else (case r0 of
                  [] \<Rightarrow> 0
                | c1 # r1 \<Rightarrow>
                    if ws2 (byte_of c0) (byte_of c1) then 2
                    else (case r1 of
                            [] \<Rightarrow> 0
                          | c2 # _ \<Rightarrow>
                              if ws3 (byte_of c0) (byte_of c1) (byte_of c2) then 3 else 0)))"

definition ws_back :: "string \<Rightarrow> nat" where
  "ws_back s =
     (case s of
        [] \<Rightarrow> 0
      | c0 # r0 \<Rightarrow>
          if ws1 (byte_of c0) then 1
          else (case r0 of
                  [] \<Rightarrow> 0
                | c1 # r1 \<Rightarrow>
                    if ws2 (byte_of c1) (byte_of c0) then 2
                    else (case r1 of
                            [] \<Rightarrow> 0
                          | c2 # _ \<Rightarrow>
                              if ws3 (byte_of c2) (byte_of c1) (byte_of c0) then 3 else 0)))"

function drop_ws :: "(string \<Rightarrow> nat) \<Rightarrow> string \<Rightarrow> string" where
  "drop_ws w s = (if s = [] \<or> w s = 0 then s else drop_ws w (drop (w s) s))"
  by pat_completeness auto
termination
  by (relation "measure (\<lambda>(w, s). length s)") auto

declare drop_ws.simps [simp del]

definition trim_start :: "string \<Rightarrow> string" where
  "trim_start s = drop_ws ws_front s"

definition trim_end :: "string \<Rightarrow> string" where
  "trim_end s = rev (drop_ws ws_back (rev s))"

definition trim :: "string \<Rightarrow> string" where
  "trim s = trim_end (trim_start s)"

text \<open>\<open>value.trim().is_empty()\<close>\<close>

definition is_blank :: "string \<Rightarrow> bool" where
  "is_blank s \<longleftrightarrow> trim s = []"

lemma length_drop_ws: "length (drop_ws w s) \<le> length s"
proof (induction w s rule: drop_ws.induct)
  case (1 w s)
  show ?case
  proof (cases "s = [] \<or> w s = 0")
    case True
    then show ?thesis by (subst drop_ws.simps) auto
  next
    case False
    with 1 have "length (drop_ws w (drop (w s) s)) \<le> length (drop (w s) s)" by blast
    with False show ?thesis by (subst drop_ws.simps) auto
  qed
qed

lemma length_trim: "length (trim s) \<le> length s"
  unfolding trim_def trim_end_def trim_start_def
  using length_drop_ws [of ws_back "rev (drop_ws ws_front s)"] length_drop_ws [of ws_front s]
  by (simp only: length_rev)

lemma drop_ws_Nil [simp]: "drop_ws w [] = []"
  by (subst drop_ws.simps) simp

lemma is_blank_Nil [simp]: "is_blank []"
  by (simp add: is_blank_def trim_def trim_end_def trim_start_def)

text \<open>A string that starts and ends with a byte outside the white-space characters is its
  own trimming; in particular no printable ASCII string is blank.\<close>

definition graphic :: "char \<Rightarrow> bool" where
  "graphic c \<longleftrightarrow> 33 \<le> byte_of c \<and> byte_of c < 0x7F"

lemma graphic_ws_front: "graphic c \<Longrightarrow> ws_front (c # s) = 0"
  by (auto simp: graphic_def ws_front_def ws1_def ws2_def ws3_def split: list.splits)

lemma graphic_ws_back: "graphic c \<Longrightarrow> ws_back (c # s) = 0"
  by (auto simp: graphic_def ws_back_def ws1_def ws2_def ws3_def split: list.splits)

lemma graphic_last_ws_back:
  assumes "graphic c"
  shows "ws_back (xs @ [c]) \<le> length xs"
proof -
  have no: "\<not> ws1 (byte_of c)" "\<not> ws2 (byte_of c) b" "\<not> ws3 (byte_of c) a b" for a b
    using assms by (simp_all add: graphic_def ws1_def ws2_def ws3_def)
  show ?thesis
  proof (cases xs)
    case Nil
    with no show ?thesis by (simp add: ws_back_def)
  next
    case (Cons x ys)
    note xs = Cons
    show ?thesis
    proof (cases ys)
      case Nil
      with xs no show ?thesis by (simp add: ws_back_def)
    next
      case (Cons y zs)
      with xs no show ?thesis by (cases zs) (simp_all add: ws_back_def)
    qed
  qed
qed

lemma graphic_not_blank:
  assumes "graphic c"
  shows "\<not> is_blank (c # s)"
proof
  assume "is_blank (c # s)"
  have front: "trim_start (c # s) = c # s"
    unfolding trim_start_def
    by (subst drop_ws.simps) (simp add: graphic_ws_front [OF assms])
  have keep: "drop_ws ws_back (xs @ [c]) \<noteq> []" for xs
  proof (induction "length xs" arbitrary: xs rule: less_induct)
    case less
    show ?case
    proof (cases "ws_back (xs @ [c]) = 0")
      case True
      then show ?thesis by (subst drop_ws.simps) simp
    next
      case False
      have "ws_back (xs @ [c]) \<le> length xs"
        by (rule graphic_last_ws_back [OF assms])
      then have "drop (ws_back (xs @ [c])) (xs @ [c]) = drop (ws_back (xs @ [c])) xs @ [c]"
        and "length (drop (ws_back (xs @ [c])) xs) < length xs"
        using False by simp_all
      then show ?thesis
        using less [of "drop (ws_back (xs @ [c])) xs"] False by (subst drop_ws.simps) simp
    qed
  qed
  have "drop_ws ws_back (rev s @ [c]) = []"
    using \<open>is_blank (c # s)\<close> by (simp add: is_blank_def trim_def front trim_end_def)
  with keep show False by blast
qed

section \<open>Decimal rendering\<close>

definition digit :: "nat \<Rightarrow> char" where
  "digit d = char_of (48 + d)"

fun decimal :: "nat \<Rightarrow> string" where
  "decimal n = (if n < 10 then [digit n] else decimal (n div 10) @ [digit (n mod 10)])"

declare decimal.simps [simp del]

definition is_digit :: "char \<Rightarrow> bool" where
  "is_digit c \<longleftrightarrow> 48 \<le> byte_of c \<and> byte_of c \<le> 57"

definition digits_value :: "string \<Rightarrow> nat" where
  "digits_value s = fold (\<lambda>c n. n * 10 + (byte_of c - 48)) s 0"

lemma byte_of_digit: "d < 10 \<Longrightarrow> byte_of (digit d) = 48 + d"
  by (simp add: digit_def)

lemma decimal_value: "digits_value (decimal n) = n"
proof (induction n rule: decimal.induct)
  case (1 n)
  show ?case
  proof (cases "n < 10")
    case True
    then show ?thesis
      by (subst decimal.simps) (simp add: digits_value_def byte_of_digit)
  next
    case False
    with 1 have "digits_value (decimal (n div 10)) = n div 10" by simp
    with False show ?thesis
      by (subst decimal.simps) (simp add: digits_value_def byte_of_digit)
  qed
qed

lemma decimal_inj: "decimal m = decimal n \<longleftrightarrow> m = n"
  by (metis decimal_value)

lemma decimal_digits: "c \<in> set (decimal n) \<Longrightarrow> is_digit c"
proof (induction n rule: decimal.induct)
  case (1 n)
  show ?case
  proof (cases "n < 10")
    case True
    with "1.prems" have "c = digit n" by (subst (asm) decimal.simps) simp
    with True show ?thesis by (simp add: is_digit_def byte_of_digit)
  next
    case False
    with "1.prems" have "c \<in> set (decimal (n div 10)) \<or> c = digit (n mod 10)"
      by (subst (asm) decimal.simps) auto
    with False "1.IH" show ?thesis by (auto simp: is_digit_def byte_of_digit)
  qed
qed

lemma decimal_nonempty: "decimal n \<noteq> []"
  by (subst decimal.simps) simp

lemma colon_not_digit: "\<not> is_digit CHR '':''"
  by (simp add: is_digit_def)

text \<open>Cutting a string after its first separator: what makes length-prefixed formats
  unambiguous.\<close>

lemma append_separator_eq:
  assumes "c \<notin> set xs" and "c \<notin> set ys" and "xs @ c # us = ys @ c # vs"
  shows "xs = ys \<and> us = vs"
  using assms
proof (induction xs arbitrary: ys)
  case Nil
  then show ?case by (cases ys) auto
next
  case (Cons x xs)
  then show ?case by (cases ys) auto
qed

lemma decimal_prefix_eq:
  assumes "decimal m @ CHR '':'' # us = decimal n @ CHR '':'' # vs"
  shows "m = n \<and> us = vs"
proof -
  have "CHR '':'' \<notin> set (decimal m)" and "CHR '':'' \<notin> set (decimal n)"
    using decimal_digits colon_not_digit by blast+
  from append_separator_eq [OF this assms] show ?thesis by (simp add: decimal_inj)
qed

end
