(* ===== verification/Ordered_Map.thy ===== *)
theory Ordered_Map
  imports Rust_Prelude
begin

text \<open>
  \<open>BTreeMap\<close> and \<open>BTreeSet\<close>: maps and sets that iterate in key order. A map is the list
  of its entries in ascending key order, so that the loops of the sources over
  \<open>keys()\<close>, \<open>values()\<close> and the entries visit them in the order the code does. The
  interface the components rely on is the locale \<open>registry\<close>; the list model is its
  interpretation \<open>bt\<close>.
\<close>

type_synonym ('k, 'v) btree = "('k \<times> 'v) list"
type_synonym 'k btree_set = "'k list"

abbreviation bt_get :: "('k, 'v) btree \<Rightarrow> 'k \<Rightarrow> 'v option" where
  "bt_get \<equiv> map_of"

abbreviation bt_keys :: "('k, 'v) btree \<Rightarrow> 'k list" where
  "bt_keys m \<equiv> map fst m"

abbreviation bt_values :: "('k, 'v) btree \<Rightarrow> 'v list" where
  "bt_values m \<equiv> map snd m"

definition bt_contains :: "('k, 'v) btree \<Rightarrow> 'k \<Rightarrow> bool" where
  "bt_contains m k \<longleftrightarrow> map_of m k \<noteq> None"

fun bt_insert :: "'k::linorder \<Rightarrow> 'v \<Rightarrow> ('k, 'v) btree \<Rightarrow> ('k, 'v) btree" where
  "bt_insert k v [] = [(k, v)]"
| "bt_insert k v ((a, b) # m) =
     (if k < a then (k, v) # (a, b) # m
      else if k = a then (k, v) # m
      else (a, b) # bt_insert k v m)"

definition bt_remove :: "'k \<Rightarrow> ('k, 'v) btree \<Rightarrow> ('k, 'v) btree" where
  "bt_remove k m = filter (\<lambda>e. fst e \<noteq> k) m"

text \<open>\<open>self.extend(other)\<close>\<close>

definition bt_extend :: "('k::linorder, 'v) btree \<Rightarrow> ('k, 'v) btree \<Rightarrow> ('k, 'v) btree" where
  "bt_extend m n = fold (\<lambda>e. bt_insert (fst e) (snd e)) n m"

definition bt_ok :: "('k::linorder, 'v) btree \<Rightarrow> bool" where
  "bt_ok m \<longleftrightarrow> sorted_wrt (<) (bt_keys m)"

fun bs_insert :: "'k::linorder \<Rightarrow> 'k btree_set \<Rightarrow> 'k btree_set" where
  "bs_insert k [] = [k]"
| "bs_insert k (a # s) =
     (if k < a then k # a # s else if k = a then a # s else a # bs_insert k s)"

lemma bt_contains_iff: "bt_contains m k \<longleftrightarrow> k \<in> set (bt_keys m)"
  by (simp add: bt_contains_def map_of_eq_None_iff)

lemma map_of_bt_insert [simp]: "map_of (bt_insert k v m) = (map_of m)(k \<mapsto> v)"
  by (induction k v m rule: bt_insert.induct) auto

lemma map_of_bt_remove [simp]: "map_of (bt_remove k m) = (map_of m)(k := None)"
  by (induction m) (auto simp: bt_remove_def)

lemma keys_bt_insert [simp]: "fst ` set (bt_insert k v m) = insert k (fst ` set m)"
  by (induction k v m rule: bt_insert.induct) auto

lemma keys_bt_remove [simp]: "fst ` set (bt_remove k m) = fst ` set m - {k}"
  by (auto simp: bt_remove_def)

lemma bt_contains_insert [simp]: "bt_contains (bt_insert k v m) a \<longleftrightarrow> a = k \<or> bt_contains m a"
  by (auto simp: bt_contains_def)

lemma bt_contains_Nil [simp]: "\<not> bt_contains [] k"
  by (simp add: bt_contains_def)

lemma bt_ok_Nil [simp]: "bt_ok []"
  by (simp add: bt_ok_def)

lemma bt_ok_Cons: "bt_ok ((k, v) # m) \<longleftrightarrow> (\<forall>a\<in>fst ` set m. k < a) \<and> bt_ok m"
  by (auto simp: bt_ok_def)

lemma bt_ok_insert [simp]: "bt_ok m \<Longrightarrow> bt_ok (bt_insert k v m)"
  by (induction k v m rule: bt_insert.induct) (auto simp: bt_ok_Cons)

lemma bt_ok_remove [simp]: "bt_ok m \<Longrightarrow> bt_ok (bt_remove k m)"
  by (induction m) (auto simp: bt_remove_def bt_ok_def)

lemma bt_ok_distinct: "bt_ok m \<Longrightarrow> distinct (bt_keys m)"
  unfolding bt_ok_def by (simp add: strict_sorted_iff)

lemma bt_ok_mem_iff: "bt_ok m \<Longrightarrow> (k, v) \<in> set m \<longleftrightarrow> bt_get m k = Some v"
  by (simp add: bt_ok_distinct)

lemma map_of_bt_extend:
  "bt_ok n \<Longrightarrow> map_of (bt_extend m n) = map_of m ++ map_of n"
proof (induction n arbitrary: m)
  case Nil
  then show ?case by (simp add: bt_extend_def)
next
  case (Cons e n)
  obtain k v where e: "e = (k, v)" by force
  from Cons.prems e have "bt_ok n" and k: "k \<notin> fst ` set n"
    by (auto simp: bt_ok_Cons)
  then have "map_of (bt_extend (bt_insert k v m) n) = (map_of m)(k \<mapsto> v) ++ map_of n"
    using Cons.IH by simp
  moreover have "(map_of m)(k \<mapsto> v) ++ map_of n = map_of m ++ map_of ((k, v) # n)"
    using k map_of_eq_None_iff [of n k]
    by (auto simp: map_add_def fun_eq_iff split: option.splits)
  moreover have "bt_extend m (e # n) = bt_extend (bt_insert k v m) n"
    by (simp add: bt_extend_def e)
  ultimately show ?case by (simp only: e)
qed

lemma bt_ok_extend: "bt_ok m \<Longrightarrow> bt_ok (bt_extend m n)"
  by (induction n arbitrary: m) (auto simp: bt_extend_def)

lemma keys_bt_extend: "fst ` set (bt_extend m n) = fst ` set m \<union> fst ` set n"
  by (induction n arbitrary: m) (auto simp: bt_extend_def)

lemma set_bs_insert [simp]: "set (bs_insert k s) = insert k (set s)"
  by (induction k s rule: bs_insert.induct) auto

section \<open>The interface\<close>

text \<open>
  What the components use of a map: a lookup, an insertion and a removal that touch one
  key, a representation invariant, and the keys in iteration order.
\<close>

locale registry =
  fixes empty :: "'m"
    and insert_at :: "'k \<Rightarrow> 'v \<Rightarrow> 'm \<Rightarrow> 'm"
    and remove_at :: "'k \<Rightarrow> 'm \<Rightarrow> 'm"
    and look :: "'m \<Rightarrow> 'k \<Rightarrow> 'v option"
    and keys_of :: "'m \<Rightarrow> 'k list"
    and wf_map :: "'m \<Rightarrow> bool"
  assumes look_empty: "look empty k = None"
    and wf_empty: "wf_map empty"
    and look_insert: "look (insert_at k v m) = (look m)(k \<mapsto> v)"
    and wf_insert: "wf_map m \<Longrightarrow> wf_map (insert_at k v m)"
    and look_remove: "look (remove_at k m) = (look m)(k := None)"
    and wf_remove: "wf_map m \<Longrightarrow> wf_map (remove_at k m)"
    and keys_look: "wf_map m \<Longrightarrow> k \<in> set (keys_of m) \<longleftrightarrow> look m k \<noteq> None"
    and keys_distinct: "wf_map m \<Longrightarrow> distinct (keys_of m)"
begin

text \<open>
  The idiom \<open>if map.contains_key(&k) { return Err(..) } map.insert(k, v)\<close> of the graph
  builders and of the checkpoint store: a key is never overwritten.
\<close>

lemma insert_fresh_keeps:
  "look m k = None \<Longrightarrow> look m a = Some b \<Longrightarrow> look (insert_at k v m) a = Some b"
  by (auto simp: look_insert)

lemma insert_fresh_keys:
  assumes "wf_map m" and "look m k = None"
  shows "set (keys_of (insert_at k v m)) = insert k (set (keys_of m))"
    and "length (keys_of (insert_at k v m)) = Suc (length (keys_of m))"
proof -
  have wf: "wf_map (insert_at k v m)" using assms(1) by (rule wf_insert)
  show eq: "set (keys_of (insert_at k v m)) = insert k (set (keys_of m))"
    using assms(1) wf by (simp add: set_eq_iff keys_look look_insert)
  have "k \<notin> set (keys_of m)" using assms by (simp add: keys_look)
  then have "card (set (keys_of (insert_at k v m))) = Suc (card (set (keys_of m)))"
    by (simp add: eq)
  then show "length (keys_of (insert_at k v m)) = Suc (length (keys_of m))"
    by (simp add: distinct_card keys_distinct wf assms(1))
qed

lemma take_once:
  "look (remove_at k m) k = None" and "a \<noteq> k \<Longrightarrow> look (remove_at k m) a = look m a"
  by (auto simp: look_remove)

lemma remove_keys:
  assumes "wf_map m"
  shows "set (keys_of (remove_at k m)) = set (keys_of m) - {k}"
  using assms by (simp add: set_eq_iff keys_look wf_remove look_remove)

end

interpretation bt: registry "[]" bt_insert bt_remove bt_get bt_keys bt_ok
  by unfold_locales (auto simp: map_of_eq_None_iff bt_ok_distinct)

end
