(* ===== verification/Graph_Id.thy ===== *)
theory Graph_Id
  imports Rust_String Ordered_Map
begin

text \<open>
  Identifiers of the agent graph (\<open>agent-core/src/graph/id.rs\<close>): validated graph, node and
  route names, and run ids. The three newtypes are ordered by their string, which is the
  iteration order of every \<open>BTreeMap\<close> of the graph.
\<close>

section \<open>Validation\<close>

definition MAX_ID_BYTES :: nat where
  "MAX_ID_BYTES = 64"

datatype graph_id_error =
    EmptyId (id_kind: string)
  | TooLong (id_kind: string) (id_max: nat) (id_actual: nat)
  | InvalidCharacter (id_kind: string) (id_index: nat) (id_character: nat)

definition is_ascii_alphanumeric :: "char \<Rightarrow> bool" where
  "is_ascii_alphanumeric c \<longleftrightarrow>
     (48 \<le> byte_of c \<and> byte_of c \<le> 57) \<or>
     (65 \<le> byte_of c \<and> byte_of c \<le> 90) \<or>
     (97 \<le> byte_of c \<and> byte_of c \<le> 122)"

definition id_char :: "char \<Rightarrow> bool" where
  "id_char c \<longleftrightarrow> is_ascii_alphanumeric c \<or> c \<in> {CHR ''.'', CHR ''_'', CHR ''-''}"

text \<open>\<open>value.char_indices().find(..)\<close>: every accepted character is one byte, so the first
  rejected character starts at the first rejected byte.\<close>

fun find_invalid :: "nat \<Rightarrow> string \<Rightarrow> (nat \<times> nat) option" where
  "find_invalid i [] = None"
| "find_invalid i (c # s) = (if id_char c then find_invalid (Suc i) s else Some (i, first_char (c # s)))"

definition validate_id :: "string \<Rightarrow> string \<Rightarrow> (graph_id_error, unit) result" where
  "validate_id v kind =
     (if v = [] then Err (EmptyId kind)
      else if length v > MAX_ID_BYTES then Err (TooLong kind MAX_ID_BYTES (length v))
      else (case find_invalid 0 v of
              Some (i, c) \<Rightarrow> Err (InvalidCharacter kind i c)
            | None \<Rightarrow> Ok ()))"

datatype graph_id = GraphId (graph_str: string)
datatype node_id = NodeId (node_str: string)
datatype route_key = RouteKey (route_str: string)

definition graph_id_try_from :: "string \<Rightarrow> (graph_id_error, graph_id) result" where
  "graph_id_try_from v = bind_r (validate_id v ''GraphId'') (\<lambda>_. Ok (GraphId v))"

definition node_id_try_from :: "string \<Rightarrow> (graph_id_error, node_id) result" where
  "node_id_try_from v = bind_r (validate_id v ''NodeId'') (\<lambda>_. Ok (NodeId v))"

definition route_key_try_from :: "string \<Rightarrow> (graph_id_error, route_key) result" where
  "route_key_try_from v = bind_r (validate_id v ''RouteKey'') (\<lambda>_. Ok (RouteKey v))"

text \<open>\<open>RunId(Uuid)\<close>: a 128-bit value.\<close>

type_synonym uuid = "128 word"

datatype run_id = RunId (run_uuid: uuid)

section \<open>Orders\<close>

instantiation node_id :: linorder
begin

definition less_eq_node_id :: "node_id \<Rightarrow> node_id \<Rightarrow> bool" where
  "less_eq_node_id a b \<longleftrightarrow> node_str a \<le> node_str b"

definition less_node_id :: "node_id \<Rightarrow> node_id \<Rightarrow> bool" where
  "less_node_id a b \<longleftrightarrow> node_str a < node_str b"

instance
  by standard (auto simp: less_eq_node_id_def less_node_id_def intro: node_id.expand)

end

instantiation route_key :: linorder
begin

definition less_eq_route_key :: "route_key \<Rightarrow> route_key \<Rightarrow> bool" where
  "less_eq_route_key a b \<longleftrightarrow> route_str a \<le> route_str b"

definition less_route_key :: "route_key \<Rightarrow> route_key \<Rightarrow> bool" where
  "less_route_key a b \<longleftrightarrow> route_str a < route_str b"

instance
  by standard (auto simp: less_eq_route_key_def less_route_key_def intro: route_key.expand)

end

lemma node_id_less_simps [simp]:
  "NodeId a < NodeId b \<longleftrightarrow> a < b" "NodeId a \<le> NodeId b \<longleftrightarrow> a \<le> b"
  by (simp_all add: less_node_id_def less_eq_node_id_def)

lemma route_key_less_simps [simp]:
  "RouteKey a < RouteKey b \<longleftrightarrow> a < b" "RouteKey a \<le> RouteKey b \<longleftrightarrow> a \<le> b"
  by (simp_all add: less_route_key_def less_eq_route_key_def)

section \<open>Properties\<close>

lemma find_invalid_None: "find_invalid i v = None \<longleftrightarrow> (\<forall>c\<in>set v. id_char c)"
  by (induction i v rule: find_invalid.induct) auto

lemma find_invalid_Some:
  "find_invalid i v = Some (j, c) \<Longrightarrow>
     i \<le> j \<and> j - i < length v \<and> \<not> id_char (v ! (j - i)) \<and>
     (\<forall>k < j - i. id_char (v ! k)) \<and> c = first_char (drop (j - i) v)"
proof (induction i v rule: find_invalid.induct)
  case (1 i)
  then show ?case by simp
next
  case (2 i d s)
  show ?case
  proof (cases "id_char d")
    case True
    with 2 have IH: "Suc i \<le> j \<and> j - Suc i < length s \<and> \<not> id_char (s ! (j - Suc i)) \<and>
      (\<forall>k < j - Suc i. id_char (s ! k)) \<and> c = first_char (drop (j - Suc i) s)"
      by simp
    then obtain m where "j - i = Suc m" "j - Suc i = m" by (metis Suc_diff_le diff_Suc_Suc)
    with IH True show ?thesis by (auto simp: nth_Cons split: nat.splits)
  next
    case False
    with 2 show ?thesis by auto
  qed
qed

definition valid_id :: "string \<Rightarrow> bool" where
  "valid_id v \<longleftrightarrow> v \<noteq> [] \<and> length v \<le> MAX_ID_BYTES \<and> (\<forall>c\<in>set v. id_char c)"

lemma validate_id_Ok [guard_simps]: "validate_id v kind = Ok u \<longleftrightarrow> valid_id v"
  by (auto simp: validate_id_def valid_id_def find_invalid_None not_le split: option.splits)
    (metis find_invalid_None option.distinct(1))

lemma validate_id_no_Panic [simp]: "validate_id v kind \<noteq> Panic"
  by (auto simp: validate_id_def split: option.splits prod.splits)

lemma node_id_try_from_Ok [guard_simps]:
  "node_id_try_from v = Ok n \<longleftrightarrow> valid_id v \<and> n = NodeId v"
  by (auto simp: node_id_try_from_def result_simps guard_simps)

lemma node_id_try_from_no_Panic [simp]: "node_id_try_from v \<noteq> Panic"
  by (auto simp: node_id_try_from_def result_simps)

lemma route_key_try_from_Ok [guard_simps]:
  "route_key_try_from v = Ok n \<longleftrightarrow> valid_id v \<and> n = RouteKey v"
  by (auto simp: route_key_try_from_def result_simps guard_simps)

lemma route_key_try_from_no_Panic [simp]: "route_key_try_from v \<noteq> Panic"
  by (auto simp: route_key_try_from_def result_simps)

end
