(* ===== verification/Agent_State.thy ===== *)
theory Agent_State
  imports Rust_String
begin

text \<open>
  The agent state (\<open>agent-core/src/state.rs\<close>, \<open>action.rs\<close>, \<open>message.rs\<close>): messages, prompt
  sections, pending actions, observations, the outcome and the business extension. The
  implementation of the trait \<open>AgentBusinessState\<close> is the record \<open>business_ops\<close>, an
  argument of every definition that uses it; its \<open>apply_update\<close> takes \<open>&mut self\<close>, so it
  returns the result together with the state it leaves, failed or not. A JSON value
  (\<open>serde_json::Value\<close>) is opaque.
\<close>

section \<open>Data\<close>

typedecl json_value

record agent_tool_call =
  call_id :: string
  call_name :: string
  call_arguments :: json_value

record agent_observation =
  obs_call :: agent_tool_call
  obs_result :: string
  obs_succeeded :: bool

datatype agent_outcome = OutcomeRespond string

primrec response_text :: "agent_outcome \<Rightarrow> string option" where
  "response_text (OutcomeRespond t) = Some t"

datatype agent_message =
    MsgSystem string
  | MsgUser string
  | MsgAssistant string "agent_tool_call list"
  | MsgTool string string string

primrec message_content :: "agent_message \<Rightarrow> string" where
  "message_content (MsgSystem c) = c"
| "message_content (MsgUser c) = c"
| "message_content (MsgAssistant c calls) = c"
| "message_content (MsgTool i n c) = c"

primrec message_tool_calls :: "agent_message \<Rightarrow> agent_tool_call list" where
  "message_tool_calls (MsgSystem c) = []"
| "message_tool_calls (MsgUser c) = []"
| "message_tool_calls (MsgAssistant c calls) = calls"
| "message_tool_calls (MsgTool i n c) = []"

datatype agent_action =
    ActRespond string
  | ActUseTool string json_value
  | ActCallTool agent_tool_call
  | ActSafetyEscalate string
  | ActClarify string

datatype prompt_source =
    SrcSystem | SrcConversation | SrcSummary | SrcMemory | SrcRag | SrcFreshContext
  | SrcProfile | SrcLocation | SrcBusiness string

datatype prompt_trust = Trusted | Untrusted

record prompt_section =
  sec_key :: string
  sec_content :: string
  sec_source :: prompt_source
  sec_trust :: prompt_trust
  sec_priority :: "32 word"

text \<open>\<open>StateSchemaVersion(NonZeroU32)\<close>\<close>

datatype state_schema_version = SchemaVersion (schema_number: u32)

definition schema_initial :: state_schema_version where
  "schema_initial = SchemaVersion 1"

definition schema_try_from :: "u32 \<Rightarrow> (unit, state_schema_version) result" where
  "schema_try_from v = ok_or (if v = 0 then None else Some (SchemaVersion v)) ()"

datatype agent_state_error = TerminalState | BusinessError string

datatype 'u agent_update =
    AppendMessages "agent_message list"
  | AppendPromptSections "prompt_section list"
  | ReplacePendingActions "agent_action list"
  | AppendObservations "agent_observation list"
  | SetOutcome agent_outcome
  | BusinessUpdate 'u

record ('b, 'u, 'r) business_ops =
  apply_update :: "'b \<Rightarrow> 'u \<Rightarrow> (agent_state_error, unit) result \<times> 'b"
  resume_updates :: "'r \<Rightarrow> 'u agent_update list"
  state_schema_version :: state_schema_version

record 'b agent_state =
  messages :: "agent_message list"
  prompt_sections :: "prompt_section list"
  pending_actions :: "agent_action list"
  observations :: "agent_observation list"
  outcome :: "agent_outcome option"
  business :: 'b

definition agent_state_new :: "'b \<Rightarrow> 'b agent_state" where
  "agent_state_new b =
     \<lparr>messages = [], prompt_sections = [], pending_actions = [], observations = [],
      outcome = None, business = b\<rparr>"

section \<open>Operations\<close>

fun is_business :: "'u agent_update \<Rightarrow> bool" where
  "is_business (BusinessUpdate u) = True"
| "is_business _ = False"

text \<open>\<open>fn apply_one(&mut self, update)\<close>: the result and the state it leaves behind.\<close>

definition apply_one ::
  "('b, 'u, 'r) business_ops \<Rightarrow> 'b agent_state \<Rightarrow> 'u agent_update \<Rightarrow>
     (agent_state_error, unit) result \<times> 'b agent_state" where
  "apply_one B s u =
     (if outcome s \<noteq> None \<and> \<not> is_business u then (Err TerminalState, s)
      else (case u of
          AppendMessages ms \<Rightarrow> (Ok (), s\<lparr>messages := messages s @ ms\<rparr>)
        | AppendPromptSections ps \<Rightarrow> (Ok (), s\<lparr>prompt_sections := prompt_sections s @ ps\<rparr>)
        | ReplacePendingActions acts \<Rightarrow> (Ok (), s\<lparr>pending_actions := acts\<rparr>)
        | AppendObservations obs \<Rightarrow> (Ok (), s\<lparr>observations := observations s @ obs\<rparr>)
        | SetOutcome r \<Rightarrow> (Ok (), s\<lparr>outcome := Some r\<rparr>)
        | BusinessUpdate v \<Rightarrow>
            (let (r, b) = apply_update B (business s) v in (r, s\<lparr>business := b\<rparr>))))"

text \<open>The loop over the candidate copy, left at the first error.\<close>

fun apply_all ::
  "('b, 'u, 'r) business_ops \<Rightarrow> 'b agent_state \<Rightarrow> 'u agent_update list \<Rightarrow>
     (agent_state_error, unit) result \<times> 'b agent_state" where
  "apply_all B candidate [] = (Ok (), candidate)"
| "apply_all B candidate (u # us) =
     (case apply_one B candidate u of
        (Ok _, candidate') \<Rightarrow> apply_all B candidate' us
      | (r, candidate') \<Rightarrow> (r, candidate'))"

text \<open>\<open>fn apply_updates(&mut self, updates)\<close>: the candidate replaces the state only when
  every update has succeeded.\<close>

definition apply_updates ::
  "('b, 'u, 'r) business_ops \<Rightarrow> 'b agent_state \<Rightarrow> 'u agent_update list \<Rightarrow>
     (agent_state_error, unit) result \<times> 'b agent_state" where
  "apply_updates B s us =
     (case apply_all B s us of
        (Ok _, candidate) \<Rightarrow> (Ok (), candidate)
      | (r, _) \<Rightarrow> (r, s))"

section \<open>Properties\<close>

lemma apply_updates_failed:
  "fst (apply_updates B s us) \<noteq> Ok () \<Longrightarrow> snd (apply_updates B s us) = s"
  by (auto simp: apply_updates_def split: prod.splits result.splits)

lemma apply_updates_Ok:
  "fst (apply_updates B s us) = Ok () \<longleftrightarrow> fst (apply_all B s us) = Ok ()"
  by (auto simp: apply_updates_def split: prod.splits result.splits)

lemma apply_updates_Ok_snd:
  "fst (apply_updates B s us) = Ok () \<Longrightarrow> snd (apply_updates B s us) = snd (apply_all B s us)"
  by (auto simp: apply_updates_def split: prod.splits result.splits)

lemma apply_all_append:
  "apply_all B s (us @ vs) =
     (case apply_all B s us of (Ok _, t) \<Rightarrow> apply_all B t vs | (r, t) \<Rightarrow> (r, t))"
  by (induction B s us rule: apply_all.induct) (auto split: prod.splits result.splits)

lemma apply_one_outcome_kept:
  "outcome s \<noteq> None \<Longrightarrow> outcome (snd (apply_one B s u)) = outcome s"
  by (cases u) (auto simp: apply_one_def Let_def split: prod.splits)

lemma apply_one_terminal_frame:
  assumes "outcome s \<noteq> None"
  shows "messages (snd (apply_one B s u)) = messages s"
    and "prompt_sections (snd (apply_one B s u)) = prompt_sections s"
    and "pending_actions (snd (apply_one B s u)) = pending_actions s"
    and "observations (snd (apply_one B s u)) = observations s"
  using assms by (cases u; auto simp: apply_one_def Let_def split: prod.splits)+

lemma apply_one_no_outcome_lost:
  "outcome s \<noteq> None \<Longrightarrow> outcome (snd (apply_one B s u)) \<noteq> None"
  by (simp add: apply_one_outcome_kept)

text \<open>What a transcript may do under any update: it only grows.\<close>

lemma apply_one_messages_prefix:
  "\<exists>ms. messages (snd (apply_one B s u)) = messages s @ ms"
  by (cases u) (auto simp: apply_one_def Let_def split: prod.splits)

lemma apply_all_messages_prefix:
  "\<exists>ms. messages (snd (apply_all B s us)) = messages s @ ms"
proof (induction us arbitrary: s)
  case Nil
  show ?case by simp
next
  case (Cons u us)
  obtain r t where one: "apply_one B s u = (r, t)" by force
  from apply_one_messages_prefix [of B s u] one
  obtain ms where "messages t = messages s @ ms" by auto
  with one Cons [of t] show ?case by (cases r) auto
qed

lemma apply_all_terminal:
  assumes "outcome s \<noteq> None"
  shows "outcome (snd (apply_all B s us)) = outcome s
       \<and> messages (snd (apply_all B s us)) = messages s
       \<and> prompt_sections (snd (apply_all B s us)) = prompt_sections s
       \<and> pending_actions (snd (apply_all B s us)) = pending_actions s
       \<and> observations (snd (apply_all B s us)) = observations s"
  using assms
proof (induction us arbitrary: s)
  case Nil
  show ?case by simp
next
  case (Cons u us)
  obtain r t where one: "apply_one B s u = (r, t)" by force
  have t: "outcome t = outcome s" "messages t = messages s"
    "prompt_sections t = prompt_sections s" "pending_actions t = pending_actions s"
    "observations t = observations s"
    using apply_one_outcome_kept [OF Cons.prems] apply_one_terminal_frame [OF Cons.prems] one
    by (metis snd_conv)+
  with Cons.prems Cons.IH [of t] one show ?case by (cases r) auto
qed

lemma apply_all_terminal_Ok:
  assumes "outcome s \<noteq> None" and "fst (apply_all B s us) = Ok ()"
  shows "\<forall>u\<in>set us. is_business u"
  using assms
proof (induction us arbitrary: s)
  case Nil
  show ?case by simp
next
  case (Cons u us)
  obtain r t where one: "apply_one B s u = (r, t)" by force
  with Cons.prems(2) have r: "r = Ok ()" by (cases r) auto
  have "is_business u"
    using one r Cons.prems(1) by (auto simp: apply_one_def split: if_splits)
  moreover have "outcome t \<noteq> None"
    using apply_one_outcome_kept [OF Cons.prems(1)] one Cons.prems(1) by (metis snd_conv)
  ultimately show ?case using Cons.IH [of t] Cons.prems(2) one r by simp
qed

end
