(* ===== verification/Graph_Error.thy ===== *)
theory Graph_Error
  imports Graph_Id Agent_State
begin

text \<open>
  Effects' identity and the error types of the graph (\<open>agent-core/src/graph/effect.rs\<close>,
  \<open>error.rs\<close>): \<open>RunStep\<close>, \<open>EffectId\<close>, \<open>EffectError\<close>, \<open>NodeError\<close>, \<open>GraphRunError\<close>,
  \<open>GraphBuildError\<close>, \<open>GraphCompileError\<close>, their rendering, and the conversions between node
  errors and run errors. The \<open>source\<close> chains (\<open>Box<dyn Error>\<close>) carry no value the graph
  reads and are left out. The rendering of a UUID is the \<open>uuid\<close> crate's, a parameter.
\<close>

section \<open>Effect identity\<close>

text \<open>\<open>RunStep(NonZeroU32)\<close>\<close>

datatype run_step = RunStep (step_get: u32)

definition run_step_try_from :: "u32 \<Rightarrow> (unit, run_step) result" where
  "run_step_try_from v = ok_or (if v = 0 then None else Some (RunStep v)) ()"

record effect_id =
  eff_run_id :: run_id
  eff_step :: run_step
  eff_node_id :: node_id
  eff_ordinal :: u32

definition effect_id_new :: "run_id \<Rightarrow> run_step \<Rightarrow> node_id \<Rightarrow> u32 \<Rightarrow> effect_id" where
  "effect_id_new r s n k = \<lparr>eff_run_id = r, eff_step = s, eff_node_id = n, eff_ordinal = k\<rparr>"

definition effect_id_display :: "(uuid \<Rightarrow> string) \<Rightarrow> effect_id \<Rightarrow> string" where
  "effect_id_display showu i =
     showu (run_uuid (eff_run_id i)) @ ''/'' @ decimal (unat (step_get (eff_step i))) @ ''/'' @
     node_str (eff_node_id i) @ ''/'' @ decimal (unat (eff_ordinal i))"

record 'e effect_envelope =
  env_id :: effect_id
  env_effect :: 'e

record 'r effect_receipt =
  rcpt_effect_id :: effect_id
  rcpt_value :: 'r

datatype effect_error_kind = EffTransient | EffPermanent | EffTimeout | EffUnknownCommit

record effect_error =
  eerr_kind :: effect_error_kind
  eerr_message :: string

definition effect_error_new :: "effect_error_kind \<Rightarrow> string \<Rightarrow> effect_error" where
  "effect_error_new k m = \<lparr>eerr_kind = k, eerr_message = m\<rparr>"

definition effect_unknown_commit :: "string \<Rightarrow> effect_error" where
  "effect_unknown_commit m = effect_error_new EffUnknownCommit m"

section \<open>Errors\<close>

datatype node_error_kind =
    KTransient | KTimeout | KRateLimited | KPermanent | KInvariant | KCancelled

datatype budget_resource = Steps | LlmCalls | ToolCalls | Tokens

record budget_failure =
  bf_resource :: budget_resource
  bf_limit :: u64
  bf_attempted :: u64

record node_error =
  nerr_kind :: node_error_kind
  nerr_message :: string
  nerr_budget :: "budget_failure option"

datatype graph_run_error =
    RunCancelled
  | DeadlineExceeded
  | BudgetExceeded budget_resource u64 u64
  | MissingNode node_id
  | RunMissingTransition node_id
  | NodeFailed node_id node_error
  | MissingEffectExecutor node_id
  | EffectFailed node_id effect_id "effect_id list" effect_error
  | PostEffectStateUpdateFailed node_id effect_id agent_state_error
  | StateUpdateFailed node_id agent_state_error
  | UnexpectedSuspend node_id
  | SuspendAtEnd node_id
  | UnknownRoute node_id route_key
  | MissingOutcome

datatype graph_build_error =
    DuplicateNode node_id
  | UnknownTransitionSource node_id
  | DuplicateTransition node_id
  | InvalidNamespace string graph_id_error
  | DuplicateNamespace string
  | NamespaceCollision string node_id
  | InvalidNamespacedNodeId string node_id graph_id_error
  | FragmentMissingEntry
  | FragmentEntryMissing node_id
  | FragmentMissingExit
  | FragmentMissingTransition node_id
  | FragmentContainsEnd node_id
  | FragmentDanglingTarget node_id node_id
  | InvalidFragmentExitName string graph_id_error
  | DuplicateFragmentExit string
  | FragmentExitSourceMissing string node_id
  | InvalidFragmentExitRoute string node_id route_key
  | UnresolvedFragmentRoute node_id route_key
  | DuplicateFragmentRoute node_id route_key
  | UnknownFragmentRouteTarget node_id route_key
  | UnknownFragmentExit string
  | UnknownFragmentExitTarget node_id

datatype graph_compile_error =
    UnresolvedFragmentExit string
  | MissingEntry
  | EntryNodeMissing node_id
  | MissingTransition node_id
  | DanglingTarget node_id node_id
  | EmptyBranch node_id
  | DuplicateKnownRoute node_id route_key
  | MissingRouteTarget node_id route_key
  | UnknownRouteTarget node_id route_key
  | UnreachableNode node_id
  | NoTerminalPath
  | NodeCannotReachEnd node_id

section \<open>Rendering\<close>

primrec effect_kind_debug :: "effect_error_kind \<Rightarrow> string" where
  "effect_kind_debug EffTransient = ''Transient''"
| "effect_kind_debug EffPermanent = ''Permanent''"
| "effect_kind_debug EffTimeout = ''Timeout''"
| "effect_kind_debug EffUnknownCommit = ''UnknownCommit''"

primrec node_kind_debug :: "node_error_kind \<Rightarrow> string" where
  "node_kind_debug KTransient = ''Transient''"
| "node_kind_debug KTimeout = ''Timeout''"
| "node_kind_debug KRateLimited = ''RateLimited''"
| "node_kind_debug KPermanent = ''Permanent''"
| "node_kind_debug KInvariant = ''Invariant''"
| "node_kind_debug KCancelled = ''Cancelled''"

primrec resource_debug :: "budget_resource \<Rightarrow> string" where
  "resource_debug Steps = ''Steps''"
| "resource_debug LlmCalls = ''LlmCalls''"
| "resource_debug ToolCalls = ''ToolCalls''"
| "resource_debug Tokens = ''Tokens''"

definition effect_error_display :: "effect_error \<Rightarrow> string" where
  "effect_error_display e = effect_kind_debug (eerr_kind e) @ '': '' @ eerr_message e"

definition node_error_display :: "node_error \<Rightarrow> string" where
  "node_error_display e = node_kind_debug (nerr_kind e) @ '': '' @ nerr_message e"

primrec state_error_display :: "agent_state_error \<Rightarrow> string" where
  "state_error_display TerminalState =
     ''Agent '' @ utf8 [0x5DF2, 0x8FDB, 0x5165, 0x7EC8, 0x6001, 0xFF0C, 0x53EA, 0x5141, 0x8BB8,
       0x4E1A, 0x52A1, 0x6536, 0x5C3E, 0x66F4, 0x65B0]"
| "state_error_display (BusinessError m) =
     utf8 [0x4E1A, 0x52A1, 0x72B6, 0x6001, 0x66F4, 0x65B0, 0x5931, 0x8D25] @ '': '' @ m"

text \<open>The messages Rust's \<open>#[error(..)]\<close> attributes give \<open>GraphRunError\<close>; the node of a
  failure comes first in most of them.\<close>

definition at_node :: "node_id \<Rightarrow> string \<Rightarrow> string" where
  "at_node n rest = utf8 [0x8282, 0x70B9] @ '' '' @ node_str n @ '' '' @ rest"

primrec run_error_display :: "(uuid \<Rightarrow> string) \<Rightarrow> graph_run_error \<Rightarrow> string" where
  "run_error_display showu RunCancelled = utf8 [0x56FE, 0x8FD0, 0x884C, 0x5DF2, 0x53D6, 0x6D88]"
| "run_error_display showu DeadlineExceeded =
     utf8 [0x56FE, 0x8FD0, 0x884C, 0x8D85, 0x8FC7, 0x622A, 0x6B62, 0x65F6, 0x95F4]"
| "run_error_display showu (BudgetExceeded r l a) =
     resource_debug r @ '' '' @ utf8 [0x9884, 0x7B97, 0x4E0D, 0x8DB3, 0xFF1A, 0x4E0A, 0x9650] @
     '' '' @ decimal (unat l) @ utf8 [0xFF0C, 0x8BF7, 0x6C42, 0x540E, 0x4E3A] @ '' '' @
     decimal (unat a)"
| "run_error_display showu (MissingNode n) =
     utf8 [0x7F16, 0x8BD1, 0x540E, 0x7684, 0x56FE, 0x7F3A, 0x5C11, 0x8282, 0x70B9] @ '': '' @
     node_str n"
| "run_error_display showu (RunMissingTransition n) =
     utf8 [0x7F16, 0x8BD1, 0x540E, 0x7684, 0x56FE, 0x7F3A, 0x5C11, 0x8282, 0x70B9] @ '' '' @
     node_str n @ '' '' @ utf8 [0x7684, 0x8F6C, 0x79FB, 0x89C4, 0x5219]"
| "run_error_display showu (NodeFailed n e) =
     at_node n (utf8 [0x6267, 0x884C, 0x5931, 0x8D25] @ '': '' @ node_error_display e)"
| "run_error_display showu (MissingEffectExecutor n) =
     at_node n (utf8 [0x8FD4, 0x56DE] @ '' Effect'' @
       utf8 [0xFF0C, 0x4F46, 0x56FE, 0x8FD0, 0x884C, 0x5668, 0x672A, 0x914D, 0x7F6E] @
       '' EffectExecutor'')"
| "run_error_display showu (EffectFailed n i done e) =
     at_node n (utf8 [0x7684] @ '' Effect '' @ effect_id_display showu i @ '' '' @
       utf8 [0x6267, 0x884C, 0x5931, 0x8D25] @ '': '' @ effect_error_display e)"
| "run_error_display showu (PostEffectStateUpdateFailed n i e) =
     at_node n (utf8 [0x7684] @ '' Effect '' @ effect_id_display showu i @ '' '' @
       utf8 [0x5DF2, 0x6210, 0x529F, 0xFF0C, 0x4F46, 0x56DE, 0x6267, 0x72B6, 0x6001, 0x66F4,
         0x65B0, 0x5931, 0x8D25] @ '': '' @ state_error_display e)"
| "run_error_display showu (StateUpdateFailed n e) =
     at_node n (utf8 [0x4EA7, 0x751F, 0x4E86, 0x975E, 0x6CD5, 0x72B6, 0x6001, 0x66F4, 0x65B0] @
       '': '' @ state_error_display e)"
| "run_error_display showu (UnexpectedSuspend n) =
     at_node n (utf8 [0x8BF7, 0x6C42, 0x6682, 0x505C, 0xFF0C, 0x4F46, 0x8C03, 0x7528, 0x65B9,
       0x4F7F, 0x7528, 0x4E86, 0x4EC5, 0x652F, 0x6301, 0x8FD0, 0x884C, 0x5230, 0x5B8C, 0x6210,
       0x7684, 0x5165, 0x53E3])"
| "run_error_display showu (SuspendAtEnd n) =
     at_node n (utf8 [0x8BF7, 0x6C42, 0x6682, 0x505C, 0xFF0C, 0x4F46, 0x8BE5, 0x8282, 0x70B9,
       0x7684, 0x8F6C, 0x79FB, 0x89C4, 0x5219, 0x662F] @ '' End'')"
| "run_error_display showu (UnknownRoute n r) =
     at_node n (utf8 [0x7684] @ '' Router '' @ utf8 [0x8FD4, 0x56DE, 0x672A, 0x58F0, 0x660E,
       0x8DEF, 0x7531] @ '' '' @ route_str r)"
| "run_error_display showu MissingOutcome =
     utf8 [0x56FE, 0x5230, 0x8FBE] @ '' End '' @
     utf8 [0x65F6, 0x5C1A, 0x672A, 0x4EA7, 0x751F] @ '' AgentOutcome''"

section \<open>Conversions\<close>

definition node_error_new :: "node_error_kind \<Rightarrow> string \<Rightarrow> node_error" where
  "node_error_new k m = \<lparr>nerr_kind = k, nerr_message = m, nerr_budget = None\<rparr>"

definition from_graph_run :: "(uuid \<Rightarrow> string) \<Rightarrow> graph_run_error \<Rightarrow> node_error" where
  "from_graph_run showu e =
     (case e of
        BudgetExceeded r l a \<Rightarrow>
          \<lparr>nerr_kind = KInvariant,
           nerr_message = resource_debug r @ '' '' @ utf8 [0x9884, 0x7B97, 0x4E0D, 0x8DB3],
           nerr_budget = Some \<lparr>bf_resource = r, bf_limit = l, bf_attempted = a\<rparr>\<rparr>
      | RunCancelled \<Rightarrow>
          node_error_new KCancelled (utf8 [0x56FE, 0x8FD0, 0x884C, 0x5DF2, 0x53D6, 0x6D88])
      | DeadlineExceeded \<Rightarrow>
          node_error_new KTimeout
            (utf8 [0x56FE, 0x8FD0, 0x884C, 0x8D85, 0x8FC7, 0x622A, 0x6B62, 0x65F6, 0x95F4])
      | other \<Rightarrow> node_error_new KInvariant (run_error_display showu other))"

definition into_graph_run :: "node_error \<Rightarrow> node_id \<Rightarrow> graph_run_error" where
  "into_graph_run e n =
     (case nerr_budget e of
        Some b \<Rightarrow> BudgetExceeded (bf_resource b) (bf_limit b) (bf_attempted b)
      | None \<Rightarrow> if nerr_kind e = KCancelled then RunCancelled else NodeFailed n e)"

section \<open>Properties\<close>

lemma run_step_try_from_Ok [guard_simps]:
  "run_step_try_from v = Ok s \<longleftrightarrow> v \<noteq> 0 \<and> s = RunStep v"
  by (auto simp: run_step_try_from_def result_simps)

lemma into_from_budget [simp]:
  "into_graph_run (from_graph_run showu (BudgetExceeded r l a)) n = BudgetExceeded r l a"
  by (simp add: into_graph_run_def from_graph_run_def)

lemma into_from_cancelled [simp]:
  "into_graph_run (from_graph_run showu RunCancelled) n = RunCancelled"
  by (simp add: into_graph_run_def from_graph_run_def node_error_new_def)

text \<open>A node id holds no slash, so the four parts of a rendered effect id can be read back.\<close>

lemma slash_not_id_char: "\<not> id_char CHR ''/''"
  by (simp add: id_char_def is_ascii_alphanumeric_def)

lemma slash_not_digit: "\<not> is_digit CHR ''/''"
  by (simp add: is_digit_def)

lemma effect_id_display_cong:
  assumes showu: "\<And>u. CHR ''/'' \<notin> set (showu u)" "inj showu"
    and ids: "valid_id (node_str (eff_node_id i))" "valid_id (node_str (eff_node_id j))"
    and eq: "effect_id_display showu i = effect_id_display showu j"
  shows "i = j"
proof -
  have dec: "CHR ''/'' \<notin> set (decimal k)" for k
    using decimal_digits slash_not_digit by blast
  have node: "CHR ''/'' \<notin> set (node_str (eff_node_id i))" "CHR ''/'' \<notin> set (node_str (eff_node_id j))"
    using ids slash_not_id_char by (auto simp: valid_id_def)
  have parts: "showu (run_uuid (eff_run_id i)) = showu (run_uuid (eff_run_id j))"
      "decimal (unat (step_get (eff_step i))) = decimal (unat (step_get (eff_step j)))"
      "node_str (eff_node_id i) = node_str (eff_node_id j)"
      "decimal (unat (eff_ordinal i)) = decimal (unat (eff_ordinal j))"
    using eq unfolding effect_id_display_def append_Cons append_Nil
    using append_separator_eq [OF showu(1) showu(1)] append_separator_eq [OF dec dec]
      append_separator_eq [OF node] by metis+
  have "run_uuid (eff_run_id i) = run_uuid (eff_run_id j)"
    using showu(2) parts(1) by (rule injD)
  moreover have "step_get (eff_step i) = step_get (eff_step j)"
    using parts(2) by (simp only: decimal_inj word_unat_eq_iff)
  moreover have "eff_ordinal i = eff_ordinal j"
    using parts(4) by (simp only: decimal_inj word_unat_eq_iff)
  ultimately show ?thesis
    using parts(3) by (simp add: effect_id.equality run_id.expand run_step.expand node_id.expand)
qed

end
