(* ===== verification/Run_Budget.thy ===== *)
theory Run_Budget
  imports Graph_Error
begin

text \<open>
  The budget of a run (\<open>agent-core/src/graph/budget.rs\<close>): hard limits on steps, LLM calls,
  tool calls and tokens, the usage counters shared by everything that runs under one
  \<open>RunContext\<close>, the deadline and the cancellation token. The usage behind
  \<open>Arc<Mutex<UsageSnapshot>>\<close> is threaded through the operations; a clock reading and the
  token are the \<open>signals\<close> an operation sees. \<open>Duration\<close> and \<open>Instant\<close> count nanoseconds.

  The counters keep their machine widths. The abstract specification below counts with
  natural numbers, and \<open>budget_call_refines\<close> says that the code implements it.
\<close>

section \<open>State\<close>

type_synonym duration = nat
type_synonym instant = nat

record graph_policy =
  policy_max_steps :: u32

record run_budget =
  max_steps :: u32
  max_llm_calls :: "u32 option"
  max_tool_calls :: "u32 option"
  max_tokens :: "u64 option"
  max_duration :: duration

definition run_budget_new :: "u32 \<Rightarrow> duration \<Rightarrow> run_budget" where
  "run_budget_new n d =
     \<lparr>max_steps = n, max_llm_calls = None, max_tool_calls = None, max_tokens = None,
      max_duration = d\<rparr>"

definition with_llm_calls :: "u32 \<Rightarrow> run_budget \<Rightarrow> run_budget" where
  "with_llm_calls n b = b\<lparr>max_llm_calls := Some n\<rparr>"

definition with_tool_calls :: "u32 \<Rightarrow> run_budget \<Rightarrow> run_budget" where
  "with_tool_calls n b = b\<lparr>max_tool_calls := Some n\<rparr>"

definition with_tokens :: "u64 \<Rightarrow> run_budget \<Rightarrow> run_budget" where
  "with_tokens n b = b\<lparr>max_tokens := Some n\<rparr>"

record usage_delta =
  delta_tokens :: u64

record usage_snapshot =
  steps :: u32
  llm_calls :: u32
  tool_calls :: u32
  tokens :: u64

definition usage_default :: usage_snapshot where
  "usage_default = \<lparr>steps = 0, llm_calls = 0, tool_calls = 0, tokens = 0\<rparr>"

section \<open>Reservations\<close>

definition check_optional_limit ::
  "budget_resource \<Rightarrow> u64 \<Rightarrow> u64 \<Rightarrow> u64 option \<Rightarrow> u64 \<Rightarrow> (graph_run_error, u64) result" where
  "check_optional_limit res current delta configured rep =
     bind_r (ok_or (checked_add current delta)
               (BudgetExceeded res (unwrap_or configured rep) (- 1)))
       (\<lambda>attempted.
         (let limit = unwrap_or configured rep in
          if attempted > limit then Err (BudgetExceeded res limit attempted)
          else Ok attempted))"

type_synonym 'a budget_op = "usage_snapshot \<Rightarrow> (graph_run_error, 'a) result \<times> usage_snapshot"

definition reserve_llm_call :: "run_budget \<Rightarrow> unit budget_op" where
  "reserve_llm_call limits usage =
     (case check_optional_limit LlmCalls (ucast (llm_calls usage)) 1
             (map_option ucast (max_llm_calls limits)) (ucast (- 1 :: u32)) of
        Ok nxt \<Rightarrow> (Ok (), usage\<lparr>llm_calls := ucast nxt\<rparr>)
      | Err e \<Rightarrow> (Err e, usage)
      | Panic \<Rightarrow> (Panic, usage))"

definition reserve_tool_calls :: "run_budget \<Rightarrow> u32 \<Rightarrow> unit budget_op" where
  "reserve_tool_calls limits count usage =
     (case check_optional_limit ToolCalls (ucast (tool_calls usage)) (ucast count)
             (map_option ucast (max_tool_calls limits)) (ucast (- 1 :: u32)) of
        Ok nxt \<Rightarrow> (Ok (), usage\<lparr>tool_calls := ucast nxt\<rparr>)
      | Err e \<Rightarrow> (Err e, usage)
      | Panic \<Rightarrow> (Panic, usage))"

definition record_tokens :: "run_budget \<Rightarrow> u64 \<Rightarrow> unit budget_op" where
  "record_tokens limits count usage =
     (case check_optional_limit Tokens (tokens usage) count (max_tokens limits) (- 1) of
        Ok nxt \<Rightarrow> (Ok (), usage\<lparr>tokens := nxt\<rparr>)
      | Err e \<Rightarrow> (Err e, usage)
      | Panic \<Rightarrow> (Panic, usage))"

definition record_usage :: "run_budget \<Rightarrow> usage_delta \<Rightarrow> unit budget_op" where
  "record_usage limits delta usage = record_tokens limits (delta_tokens delta) usage"

definition reserve_step :: "run_budget \<Rightarrow> u32 \<Rightarrow> run_step budget_op" where
  "reserve_step limits graph_max_steps usage =
     (let limit = min (max_steps limits) graph_max_steps;
          attempted = saturating_add (steps usage) 1 in
      if attempted > limit
      then (Err (BudgetExceeded Steps (ucast limit) (ucast attempted)), usage)
      else (case run_step_try_from attempted of
              Ok step \<Rightarrow> (Ok step, usage\<lparr>steps := attempted\<rparr>)
            | _ \<Rightarrow> (Panic, usage)))"

section \<open>The context of a run\<close>

record run_trace =
  trace_id :: "string option"
  trace_attributes :: "(string, string) btree"

definition run_trace_default :: run_trace where
  "run_trace_default = \<lparr>trace_id = None, trace_attributes = []\<rparr>"

record run_context =
  ctx_run_id :: run_id
  ctx_limits :: run_budget
  ctx_deadline :: instant
  ctx_trace :: run_trace

record signals =
  sig_cancelled :: bool
  sig_now :: instant

text \<open>\<open>RunContext::new\<close> (the fresh run id and the clock reading are arguments) starts from
  the default usage; \<open>RunContext::resume\<close> from the usage of the checkpoint.\<close>

definition run_context_new :: "run_id \<Rightarrow> instant \<Rightarrow> run_budget \<Rightarrow> run_trace \<Rightarrow> run_context \<times> usage_snapshot" where
  "run_context_new rid now budget trace =
     (\<lparr>ctx_run_id = rid, ctx_limits = budget, ctx_deadline = now + max_duration budget,
       ctx_trace = trace\<rparr>, usage_default)"

definition run_context_resume ::
  "run_id \<Rightarrow> run_budget \<Rightarrow> usage_snapshot \<Rightarrow> instant \<Rightarrow> run_trace \<Rightarrow> run_context \<times> usage_snapshot" where
  "run_context_resume rid budget usage now trace =
     (\<lparr>ctx_run_id = rid, ctx_limits = budget, ctx_deadline = now + max_duration budget,
       ctx_trace = trace\<rparr>, usage)"

definition check_active :: "run_context \<Rightarrow> signals \<Rightarrow> (graph_run_error, unit) result" where
  "check_active ctx sg =
     (if sig_cancelled sg then Err RunCancelled
      else if sig_now sg \<ge> ctx_deadline ctx then Err DeadlineExceeded
      else Ok ())"

definition check_ready :: "run_context \<Rightarrow> u32 \<Rightarrow> signals \<Rightarrow> run_step budget_op" where
  "check_ready ctx graph_max_steps sg usage =
     (case check_active ctx sg of
        Ok _ \<Rightarrow> reserve_step (ctx_limits ctx) graph_max_steps usage
      | Err e \<Rightarrow> (Err e, usage)
      | Panic \<Rightarrow> (Panic, usage))"

text \<open>
  What code that holds a \<open>RunContext\<close> can do to the shared usage: the public methods of the
  handle, and a step of another graph that runs under a clone of the context.
\<close>

datatype budget_call =
    ReserveLlmCall
  | ReserveToolCalls u32
  | RecordTokens u64
  | RecordUsage usage_delta
  | NestedStep u32

definition forget :: "('e, 'a) result \<times> 's \<Rightarrow> ('e, unit) result \<times> 's" where
  "forget p = (bind_r (fst p) (\<lambda>_. Ok ()), snd p)"

primrec run_budget_call :: "run_budget \<Rightarrow> budget_call \<Rightarrow> unit budget_op" where
  "run_budget_call limits ReserveLlmCall u = reserve_llm_call limits u"
| "run_budget_call limits (ReserveToolCalls n) u = reserve_tool_calls limits n u"
| "run_budget_call limits (RecordTokens n) u = record_tokens limits n u"
| "run_budget_call limits (RecordUsage d) u = record_usage limits d u"
| "run_budget_call limits (NestedStep m) u = forget (reserve_step limits m u)"

text \<open>A sequence of calls: the usage they leave, whatever each answered.\<close>

definition budget_calls :: "run_budget \<Rightarrow> budget_call list \<Rightarrow> usage_snapshot \<Rightarrow> usage_snapshot" where
  "budget_calls limits cs u = fold (\<lambda>c u. snd (run_budget_call limits c u)) cs u"

section \<open>Abstract specification\<close>

text \<open>Four counters of natural numbers, each with a limit; a request is granted exactly when
  the counter stays within it, and a refused request changes nothing.\<close>

type_synonym meter = "budget_resource \<Rightarrow> nat"

definition meter_of :: "usage_snapshot \<Rightarrow> meter" where
  "meter_of u r =
     (case r of Steps \<Rightarrow> unat (steps u) | LlmCalls \<Rightarrow> unat (llm_calls u)
      | ToolCalls \<Rightarrow> unat (tool_calls u) | Tokens \<Rightarrow> unat (tokens u))"

definition limit_of :: "run_budget \<Rightarrow> budget_resource \<Rightarrow> nat" where
  "limit_of b r =
     (case r of
        Steps \<Rightarrow> unat (max_steps b)
      | LlmCalls \<Rightarrow> (case max_llm_calls b of None \<Rightarrow> 2 ^ 32 - 1 | Some l \<Rightarrow> unat l)
      | ToolCalls \<Rightarrow> (case max_tool_calls b of None \<Rightarrow> 2 ^ 32 - 1 | Some l \<Rightarrow> unat l)
      | Tokens \<Rightarrow> (case max_tokens b of None \<Rightarrow> 2 ^ 64 - 1 | Some l \<Rightarrow> unat l))"

primrec request_of :: "budget_call \<Rightarrow> budget_resource \<times> nat" where
  "request_of ReserveLlmCall = (LlmCalls, 1)"
| "request_of (ReserveToolCalls n) = (ToolCalls, unat n)"
| "request_of (RecordTokens n) = (Tokens, unat n)"
| "request_of (RecordUsage d) = (Tokens, unat (delta_tokens d))"
| "request_of (NestedStep m) = (Steps, 1)"

primrec call_limit :: "run_budget \<Rightarrow> budget_call \<Rightarrow> nat" where
  "call_limit b ReserveLlmCall = limit_of b LlmCalls"
| "call_limit b (ReserveToolCalls n) = limit_of b ToolCalls"
| "call_limit b (RecordTokens n) = limit_of b Tokens"
| "call_limit b (RecordUsage d) = limit_of b Tokens"
| "call_limit b (NestedStep m) = min (limit_of b Steps) (unat m)"

definition spec_grants :: "run_budget \<Rightarrow> budget_call \<Rightarrow> meter \<Rightarrow> bool" where
  "spec_grants b c m \<longleftrightarrow> m (fst (request_of c)) + snd (request_of c) \<le> call_limit b c"

definition spec_call :: "run_budget \<Rightarrow> budget_call \<Rightarrow> meter \<Rightarrow> bool \<times> meter" where
  "spec_call b c m =
     (if spec_grants b c m
      then (True, m(fst (request_of c) := m (fst (request_of c)) + snd (request_of c)))
      else (False, m))"

definition within_limits :: "run_budget \<Rightarrow> usage_snapshot \<Rightarrow> bool" where
  "within_limits b u \<longleftrightarrow> (\<forall>r. meter_of u r \<le> limit_of b r)"

section \<open>The code implements the specification\<close>

lemma check_optional_limit_eq:
  "check_optional_limit res current delta configured rep =
     (let limit = unwrap_or configured rep in
      if unat current + unat delta \<le> unat limit then Ok (current + delta)
      else Err (BudgetExceeded res limit (saturating_add current delta)))"
proof (cases "unat current + unat delta < 2 ^ 64")
  case True
  then have "unat (current + delta) = unat current + unat delta"
    by (intro unat_add_no_overflow) simp
  with True show ?thesis
    by (simp add: check_optional_limit_def checked_add_def ok_or_def saturating_add_def Let_def
        word_less_nat_alt not_le)
next
  case False
  have "unat l < 2 ^ 64" for l :: u64
    using unat_bound [of l] by simp
  with False have "\<not> unat current + unat delta \<le> unat l" for l :: u64
    by (meson le_less_trans)
  with False show ?thesis
    by (simp add: check_optional_limit_def checked_add_def ok_or_def saturating_add_def Let_def)
qed

lemma unat_ucast_u32_u64 [simp]: "unat (ucast (x :: u32) :: u64) = unat x"
  using unat_bound [of x]
  by (simp add: unsigned_ucast_eq take_bit_nat_eq_self_iff)

lemma unat_u32_max: "unat (- 1 :: u32) = 2 ^ 32 - 1"
  using unat_max_word [where 'w = 32] by simp

lemma unat_u64_max: "unat (- 1 :: u64) = 2 ^ 64 - 1"
  using unat_max_word [where 'w = 64] by simp

lemma unat_u32_le: "unat (x :: u32) \<le> 4294967295"
  using unat_bound [of x] by simp

lemma unat_u64_le: "unat (x :: u64) \<le> 18446744073709551615"
  using unat_bound [of x] by simp

text \<open>The \<open>as u32\<close> of the reservations never truncates.\<close>

lemma ucast_sum_no_truncation:
  fixes a :: u32 and d :: u64
  assumes "unat a + unat d \<le> 2 ^ 32 - 1"
  shows "unat (ucast (ucast a + d :: u64) :: u32) = unat a + unat d"
proof -
  have "unat (ucast a + d :: u64) = unat a + unat d"
    using assms by (subst unat_add_no_overflow) auto
  with assms show ?thesis
    by (simp add: unsigned_ucast_eq take_bit_nat_eq_self_iff)
qed

lemma limit_of_u32_le:
  "limit_of b LlmCalls \<le> 2 ^ 32 - 1" "limit_of b ToolCalls \<le> 2 ^ 32 - 1"
  using unat_u32_le by (auto simp: limit_of_def split: option.splits)

lemma unat_limit_u32:
  fixes cfg :: "u32 option"
  shows "unat (unwrap_or (map_option ucast cfg) (ucast (- 1 :: u32)) :: u64) =
     (case cfg of None \<Rightarrow> 2 ^ 32 - 1 | Some l \<Rightarrow> unat l)"
  by (cases cfg) (simp_all only: option.map option.case unwrap_or_simps unat_ucast_u32_u64 unat_u32_max)

lemma unat_limit_u64:
  fixes cfg :: "u64 option"
  shows "unat (unwrap_or cfg (- 1)) = (case cfg of None \<Rightarrow> 2 ^ 64 - 1 | Some l \<Rightarrow> unat l)"
  by (cases cfg) (simp_all only: option.case unwrap_or_simps unat_u64_max)

text \<open>Each reservation, in terms of the meters.\<close>

lemma reserve_llm_call_granted:
  assumes "unat (llm_calls u) + 1 \<le> limit_of b LlmCalls"
  shows "\<exists>u'. reserve_llm_call b u = (Ok (), u')
           \<and> meter_of u' = (meter_of u)(LlmCalls := unat (llm_calls u) + 1)"
proof -
  have "unat (ucast (ucast (llm_calls u) + 1 :: u64) :: u32) = unat (llm_calls u) + 1"
    using assms limit_of_u32_le(1) [of b] by (subst ucast_sum_no_truncation) auto
  with assms show ?thesis
    by (auto simp: reserve_llm_call_def check_optional_limit_eq Let_def unat_limit_u32
        limit_of_def meter_of_def fun_eq_iff split: budget_resource.split)
qed

lemma reserve_llm_call_refused:
  assumes "\<not> unat (llm_calls u) + 1 \<le> limit_of b LlmCalls"
  shows "\<exists>l a. reserve_llm_call b u = (Err (BudgetExceeded LlmCalls l a), u)
           \<and> unat l = limit_of b LlmCalls"
  using assms
  by (auto simp: reserve_llm_call_def check_optional_limit_eq Let_def unat_limit_u32 limit_of_def)

lemma reserve_tool_calls_granted:
  assumes "unat (tool_calls u) + unat n \<le> limit_of b ToolCalls"
  shows "\<exists>u'. reserve_tool_calls b n u = (Ok (), u')
           \<and> meter_of u' = (meter_of u)(ToolCalls := unat (tool_calls u) + unat n)"
proof -
  have "unat (ucast (ucast (tool_calls u) + ucast n :: u64) :: u32) = unat (tool_calls u) + unat n"
    using assms limit_of_u32_le(2) [of b] by (subst ucast_sum_no_truncation) auto
  with assms show ?thesis
    by (auto simp: reserve_tool_calls_def check_optional_limit_eq Let_def unat_limit_u32
        limit_of_def meter_of_def fun_eq_iff split: budget_resource.split)
qed

lemma reserve_tool_calls_refused:
  assumes "\<not> unat (tool_calls u) + unat n \<le> limit_of b ToolCalls"
  shows "\<exists>l a. reserve_tool_calls b n u = (Err (BudgetExceeded ToolCalls l a), u)
           \<and> unat l = limit_of b ToolCalls"
  using assms
  by (auto simp: reserve_tool_calls_def check_optional_limit_eq Let_def unat_limit_u32 limit_of_def)

lemma record_tokens_granted:
  assumes "unat (tokens u) + unat n \<le> limit_of b Tokens"
  shows "\<exists>u'. record_tokens b n u = (Ok (), u')
           \<and> meter_of u' = (meter_of u)(Tokens := unat (tokens u) + unat n)"
proof -
  have "limit_of b Tokens \<le> 2 ^ 64 - 1"
    using unat_u64_le by (auto simp: limit_of_def split: option.splits)
  with assms have "unat (tokens u + n) = unat (tokens u) + unat n"
    by (intro unat_add_no_overflow) simp
  with assms show ?thesis
    by (auto simp: record_tokens_def check_optional_limit_eq Let_def unat_limit_u64
        limit_of_def meter_of_def fun_eq_iff split: budget_resource.split)
qed

lemma record_tokens_refused:
  assumes "\<not> unat (tokens u) + unat n \<le> limit_of b Tokens"
  shows "\<exists>l a. record_tokens b n u = (Err (BudgetExceeded Tokens l a), u)
           \<and> unat l = limit_of b Tokens"
  using assms
  by (auto simp: record_tokens_def check_optional_limit_eq Let_def unat_limit_u64 limit_of_def)

lemma unat_min: "unat (min a b) = min (unat a) (unat (b :: 'w::len word))"
  by (simp add: min_def word_le_nat_alt)

lemma step_limit_eq:
  "unat (min (max_steps b) m) = min (limit_of b Steps) (unat m)"
  by (simp add: unat_min limit_of_def)

lemma unat_next_step: "unat (saturating_add (steps u) 1) = min (unat (steps u) + 1) (2 ^ 32 - 1)"
  by (simp add: unat_saturating_add)

lemma next_step_nonzero: "saturating_add (steps u) 1 \<noteq> 0"
proof
  assume "saturating_add (steps u) 1 = 0"
  then have "unat (saturating_add (steps u) 1) = 0" by simp
  then show False by (simp only: unat_next_step) simp
qed

lemma reserve_step_cases:
  obtains (granted) "unat (saturating_add (steps u) 1) \<le> min (limit_of b Steps) (unat m)"
      "reserve_step b m u =
        (Ok (RunStep (saturating_add (steps u) 1)), u\<lparr>steps := saturating_add (steps u) 1\<rparr>)"
  | (refused) l a where "min (limit_of b Steps) (unat m) < unat (saturating_add (steps u) 1)"
      "reserve_step b m u = (Err (BudgetExceeded Steps l a), u)"
      "unat l = min (limit_of b Steps) (unat m)"
proof (cases "saturating_add (steps u) 1 > min (max_steps b) m")
  case True
  then have "min (limit_of b Steps) (unat m) < unat (saturating_add (steps u) 1)"
    by (simp only: word_less_nat_alt step_limit_eq)
  with True show ?thesis
    by (intro refused [of "ucast (min (max_steps b) m)" "ucast (saturating_add (steps u) 1)"])
      (simp_all only: reserve_step_def Let_def if_True unat_ucast_u32_u64 step_limit_eq)
next
  case False
  then have "unat (saturating_add (steps u) 1) \<le> min (limit_of b Steps) (unat m)"
    by (simp only: word_less_nat_alt step_limit_eq not_less)
  with False show ?thesis
    by (intro granted)
      (simp_all only: reserve_step_def Let_def if_False run_step_try_from_def next_step_nonzero
        ok_or_def option.case result.case)
qed

lemma reserve_step_no_Panic: "fst (reserve_step b m u) \<noteq> Panic"
  by (cases b m u rule: reserve_step_cases) auto

text \<open>Below the largest 32-bit limit the saturation of the step counter is never reached.\<close>

lemma reserve_step_granted:
  assumes "unat (steps u) + 1 \<le> min (limit_of b Steps) (unat m)"
  shows "\<exists>s u'. reserve_step b m u = (Ok (RunStep s), u') \<and> u' = u\<lparr>steps := s\<rparr>
      \<and> unat s = unat (steps u) + 1
      \<and> meter_of u' = (meter_of u)(Steps := unat (steps u) + 1)"
proof -
  have "min (limit_of b Steps) (unat m) \<le> 2 ^ 32 - 1"
    using unat_u32_le [of m] by simp
  with assms have eq: "unat (saturating_add (steps u) 1) = unat (steps u) + 1"
    using unat_next_step [of u] by linarith
  show ?thesis
  proof (cases b m u rule: reserve_step_cases)
    case granted
    with eq show ?thesis by (auto simp: meter_of_def fun_eq_iff split: budget_resource.split)
  next
    case (refused l a)
    with assms eq show ?thesis by linarith
  qed
qed

lemma reserve_step_refused:
  assumes "\<not> unat (steps u) + 1 \<le> min (limit_of b Steps) (unat m)"
    and "min (limit_of b Steps) (unat m) < 2 ^ 32 - 1"
  shows "\<exists>l a. reserve_step b m u = (Err (BudgetExceeded Steps l a), u)
           \<and> unat l = min (limit_of b Steps) (unat m)"
proof (cases b m u rule: reserve_step_cases)
  case granted
  have "min (limit_of b Steps) (unat m) < unat (saturating_add (steps u) 1)"
    using assms unat_next_step [of u] by linarith
  with granted show ?thesis by linarith
next
  case (refused l a)
  then show ?thesis by blast
qed

definition steps_bounded :: "run_budget \<Rightarrow> budget_call \<Rightarrow> bool" where
  "steps_bounded b c \<longleftrightarrow> (case c of NestedStep m \<Rightarrow> min (limit_of b Steps) (unat m) < 2 ^ 32 - 1 | _ \<Rightarrow> True)"

lemma budget_call_granted:
  assumes "spec_grants b c (meter_of u)"
  shows "fst (run_budget_call b c u) = Ok ()"
    and "meter_of (snd (run_budget_call b c u)) =
      (meter_of u)(fst (request_of c) := meter_of u (fst (request_of c)) + snd (request_of c))"
proof -
  have "fst (run_budget_call b c u) = Ok () \<and> meter_of (snd (run_budget_call b c u)) =
      (meter_of u)(fst (request_of c) := meter_of u (fst (request_of c)) + snd (request_of c))"
  proof (cases c)
    case ReserveLlmCall
    with assms reserve_llm_call_granted [of u b] show ?thesis
      by (auto simp: spec_grants_def meter_of_def)
  next
    case (ReserveToolCalls n)
    with assms reserve_tool_calls_granted [of u n b] show ?thesis
      by (auto simp: spec_grants_def meter_of_def)
  next
    case (RecordTokens n)
    with assms record_tokens_granted [of u n b] show ?thesis
      by (auto simp: spec_grants_def meter_of_def)
  next
    case (RecordUsage d)
    with assms record_tokens_granted [of u "delta_tokens d" b] show ?thesis
      by (auto simp: spec_grants_def meter_of_def record_usage_def)
  next
    case (NestedStep m)
    with assms reserve_step_granted [of u b m] show ?thesis
      by (auto simp: spec_grants_def meter_of_def forget_def)
  qed
  then show "fst (run_budget_call b c u) = Ok ()"
    and "meter_of (snd (run_budget_call b c u)) =
      (meter_of u)(fst (request_of c) := meter_of u (fst (request_of c)) + snd (request_of c))"
    by auto
qed

lemma budget_call_refused:
  assumes "\<not> spec_grants b c (meter_of u)" and "steps_bounded b c"
  shows "\<exists>l a. fst (run_budget_call b c u) = Err (BudgetExceeded (fst (request_of c)) l a)
           \<and> unat l = call_limit b c"
    and "snd (run_budget_call b c u) = u"
proof -
  have "\<exists>l a. run_budget_call b c u = (Err (BudgetExceeded (fst (request_of c)) l a), u)
           \<and> unat l = call_limit b c"
  proof (cases c)
    case ReserveLlmCall
    with assms reserve_llm_call_refused [of u b] show ?thesis
      by (auto simp: spec_grants_def meter_of_def)
  next
    case (ReserveToolCalls n)
    with assms reserve_tool_calls_refused [of u n b] show ?thesis
      by (auto simp: spec_grants_def meter_of_def)
  next
    case (RecordTokens n)
    with assms record_tokens_refused [of u n b] show ?thesis
      by (auto simp: spec_grants_def meter_of_def)
  next
    case (RecordUsage d)
    with assms record_tokens_refused [of u "delta_tokens d" b] show ?thesis
      by (auto simp: spec_grants_def meter_of_def record_usage_def)
  next
    case (NestedStep m)
    with assms reserve_step_refused [of u b m] show ?thesis
      by (auto simp: spec_grants_def meter_of_def forget_def steps_bounded_def)
  qed
  then show "\<exists>l a. fst (run_budget_call b c u) = Err (BudgetExceeded (fst (request_of c)) l a)
           \<and> unat l = call_limit b c"
    and "snd (run_budget_call b c u) = u"
    by auto
qed

section \<open>Limits\<close>

lemma call_limit_le: "call_limit b c \<le> limit_of b (fst (request_of c))"
  by (cases c) auto

lemma within_limits_granted:
  assumes "within_limits b u" and "spec_grants b c (meter_of u)"
  shows "within_limits b (snd (run_budget_call b c u))"
  using assms call_limit_le [of b c]
  by (auto simp: within_limits_def budget_call_granted(2) spec_grants_def intro: order_trans)

lemma within_limits_step:
  assumes "within_limits b u"
  shows "within_limits b (snd (reserve_step b m u))"
proof (cases b m u rule: reserve_step_cases)
  case granted
  with assms show ?thesis
    by (auto simp: within_limits_def meter_of_def split: budget_resource.splits)
next
  case (refused l a)
  with assms show ?thesis by simp
qed

lemma within_limits_call:
  assumes "within_limits b u"
  shows "within_limits b (snd (run_budget_call b c u))"
proof (cases "spec_grants b c (meter_of u)")
  case True
  with assms show ?thesis by (rule within_limits_granted)
next
  case refused: False
  show ?thesis
  proof (cases c)
    case (NestedStep m)
    with assms show ?thesis by (simp add: forget_def within_limits_step)
  qed (use assms refused budget_call_refused(2) [of b c u] in \<open>simp_all add: steps_bounded_def\<close>)
qed

lemma within_limits_calls:
  "within_limits b u \<Longrightarrow> within_limits b (budget_calls b cs u)"
  by (induction cs arbitrary: u) (auto simp: budget_calls_def within_limits_call)

lemma within_limits_default: "within_limits b usage_default"
  by (auto simp: within_limits_def usage_default_def meter_of_def split: budget_resource.splits)

text \<open>No counter ever decreases.\<close>

lemma meter_mono_step: "meter_of u r \<le> meter_of (snd (reserve_step b m u)) r"
proof (cases b m u rule: reserve_step_cases)
  case granted
  have "unat (steps u) \<le> unat (saturating_add (steps u) 1)"
    using unat_u32_le [of "steps u"] by (simp add: unat_next_step)
  with granted show ?thesis by (auto simp: meter_of_def split: budget_resource.splits)
next
  case (refused l a)
  then show ?thesis by simp
qed

lemma meter_mono_call: "meter_of u r \<le> meter_of (snd (run_budget_call b c u)) r"
proof (cases "spec_grants b c (meter_of u)")
  case True
  then show ?thesis by (simp add: budget_call_granted(2))
next
  case refused: False
  show ?thesis
  proof (cases c)
    case (NestedStep m)
    then show ?thesis by (simp add: forget_def meter_mono_step)
  qed (use refused budget_call_refused(2) [of b c u] in \<open>simp_all add: steps_bounded_def\<close>)
qed

lemma meter_mono_calls: "meter_of u r \<le> meter_of (budget_calls b cs u) r"
proof (induction cs arbitrary: u)
  case Nil
  show ?case by (simp add: budget_calls_def)
next
  case (Cons c cs)
  have "budget_calls b (c # cs) u = budget_calls b cs (snd (run_budget_call b c u))"
    by (simp add: budget_calls_def)
  with Cons [of "snd (run_budget_call b c u)"] meter_mono_call [of u r b c] show ?case by simp
qed

lemma budget_call_no_Panic: "fst (run_budget_call b c u) \<noteq> Panic"
proof (cases "spec_grants b c (meter_of u)")
  case True
  then show ?thesis by (simp add: budget_call_granted(1))
next
  case refused: False
  show ?thesis
  proof (cases c)
    case (NestedStep m)
    then show ?thesis
      by (cases b m u rule: reserve_step_cases) (auto simp: forget_def)
  qed (use refused budget_call_refused(1) [of b c u] in \<open>auto simp: steps_bounded_def\<close>)
qed

lemma check_active_cases:
  "check_active ctx sg = Ok () \<longleftrightarrow> \<not> sig_cancelled sg \<and> sig_now sg < ctx_deadline ctx"
  "check_active ctx sg \<noteq> Panic"
  by (auto simp: check_active_def)

section \<open>Properties\<close>

text \<open>
  C25: every public budget operation refines its abstract specification over natural numbers:
  it answers Ok exactly when the specification grants the request, it leaves the meters the
  specification leaves (a refused request changes no counter, a granted one moves one counter
  by exactly the requested amount, so no 32-bit conversion truncates), and a refusal names the
  resource and the limit that was hit. The only calls excluded are step reservations whose
  limit is the largest 32-bit number.
\<close>

theorem budget_call_refines:
  assumes "steps_bounded b c"
  shows "(fst (run_budget_call b c u) = Ok (), meter_of (snd (run_budget_call b c u)))
           = spec_call b c (meter_of u)
       \<and> (\<not> spec_grants b c (meter_of u) \<longrightarrow>
            (\<exists>l a. fst (run_budget_call b c u) = Err (BudgetExceeded (fst (request_of c)) l a)
               \<and> unat l = call_limit b c))"
  using assms budget_call_granted [of b c u] budget_call_refused [of b c u]
  by (cases "spec_grants b c (meter_of u)") (auto simp: spec_call_def)

theorem budget_call_refines_witness:
  "fst (run_budget_call (with_tool_calls 5 (run_budget_new 8 30)) (ReserveToolCalls 3)
          (usage_default\<lparr>tool_calls := 4\<rparr>)) \<noteq> Ok ()"
  using budget_call_refines [of "with_tool_calls 5 (run_budget_new 8 30)" "ReserveToolCalls 3"
      "usage_default\<lparr>tool_calls := 4\<rparr>"]
  by (simp add: steps_bounded_def spec_call_def spec_grants_def with_tool_calls_def
      run_budget_new_def limit_of_def meter_of_def usage_default_def)

text \<open>
  C26: From a fresh run on, whatever sequence of budget operations its nodes, executors and
  nested graphs perform, in whatever order and whatever they answer, no counter ever exceeds
  its configured limit, and no counter ever moves backwards.
\<close>

theorem budget_never_exceeded:
  "within_limits b (budget_calls b cs usage_default)
   \<and> (\<forall>r. meter_of (budget_calls b cs usage_default) r
          \<le> meter_of (budget_calls b (cs @ ds) usage_default) r)"
  using within_limits_calls [OF within_limits_default] meter_mono_calls
  by (auto simp: budget_calls_def)

text \<open>
  A step limit of \<open>u32::MAX\<close> is no limit: once the counter has saturated, every further
  reservation is granted with the same step number.
\<close>

theorem step_limit_max_unenforced:
  assumes "max_steps b = - 1" and "steps u = - 1"
  shows "reserve_step b (- 1) u = (Ok (RunStep (- 1)), u)"
  using assms
  by (simp add: reserve_step_def saturating_add_def run_step_try_from_def ok_or_def unat_u32_max
      Let_def usage_snapshot.equality)

theorem step_limit_max_unenforced_witness:
  "reserve_step (run_budget_new (- 1) 30) (- 1) (usage_default\<lparr>steps := - 1\<rparr>)
     = (Ok (RunStep (- 1)), usage_default\<lparr>steps := - 1\<rparr>)"
  using step_limit_max_unenforced [of "run_budget_new (- 1) 30" "usage_default\<lparr>steps := - 1\<rparr>"]
  by (simp add: run_budget_new_def)

end
