(* ===== verification/Checkpoint.thy ===== *)
theory Checkpoint
  imports Graph_Definition
begin

text \<open>
  Checkpoints and their store (\<open>agent-core/src/graph/checkpoint.rs\<close>,
  \<open>checkpoint_store.rs\<close>). A store is saved to, read from and taken from by id; the contract a
  resumed run relies on is the locale \<open>checkpoint_contract\<close>, which the in-memory store
  fulfils. The store's mutex may be poisoned, in which case every operation reports
  \<open>StoreUnavailable\<close>.
\<close>

section \<open>Data\<close>

datatype checkpoint_id = CheckpointId (checkpoint_uuid: uuid)

instantiation checkpoint_id :: linorder
begin

definition less_eq_checkpoint_id :: "checkpoint_id \<Rightarrow> checkpoint_id \<Rightarrow> bool" where
  "less_eq_checkpoint_id a b \<longleftrightarrow> checkpoint_uuid a \<le> checkpoint_uuid b"

definition less_checkpoint_id :: "checkpoint_id \<Rightarrow> checkpoint_id \<Rightarrow> bool" where
  "less_checkpoint_id a b \<longleftrightarrow> checkpoint_uuid a < checkpoint_uuid b"

instance
  by standard (auto simp: less_eq_checkpoint_id_def less_checkpoint_id_def
      intro: checkpoint_id.expand)

end

datatype suspend_reason = ExternalInput | Approval | ExternalEvent | BusinessReason

record 'sd suspend_request =
  sus_reason :: suspend_reason
  sus_data :: 'sd

record run_position =
  completed_step :: run_step
  next_node :: node_id

record ('b, 'rc, 'sd) agent_checkpoint =
  cp_id :: checkpoint_id
  cp_graph_id :: graph_id
  cp_graph_version :: graph_version
  cp_schema_version :: state_schema_version
  cp_run_id :: run_id
  cp_position :: run_position
  cp_state :: "'b agent_state"
  cp_budget :: run_budget
  cp_usage :: usage_snapshot
  cp_visited :: "node_id list"
  cp_receipts :: "'rc effect_receipt list"
  cp_suspend :: "'sd suspend_request"
  cp_trace :: run_trace

datatype checkpoint_error =
    NotFound checkpoint_id
  | DuplicateCheckpoint checkpoint_id
  | StoreUnavailable

record ('b, 'rc) graph_run_result =
  res_state :: "'b agent_state"
  res_usage :: usage_snapshot
  res_visited :: "node_id list"
  res_run_id :: run_id
  res_receipts :: "'rc effect_receipt list"

datatype ('b, 'rc, 'sd) graph_execution_result =
    Completed "('b, 'rc) graph_run_result"
  | Suspended "('b, 'rc, 'sd) agent_checkpoint"

datatype ('b, 'rc, 'sd) checkpoint_run_error =
    GraphFailure graph_run_error
  | MissingStore
  | SaveFailed checkpoint_id "('b, 'rc, 'sd) agent_checkpoint" checkpoint_error

datatype ('b, 'rc, 'sd) resume_error =
    CheckpointLoad checkpoint_error
  | GraphIdMismatch graph_id graph_id
  | GraphVersionMismatch graph_version graph_version
  | StateSchemaVersionMismatch state_schema_version state_schema_version
  | RunPositionMismatch u32 u32
  | ResumeMissingNode node_id
  | ResumeInputRejected agent_state_error
  | CheckpointAlreadyConsumed checkpoint_id
  | RunFailed "('b, 'rc, 'sd) checkpoint_run_error"

section \<open>The in-memory store\<close>

record ('b, 'rc, 'sd) memory_store =
  ms_poisoned :: bool
  ms_checkpoints :: "(checkpoint_id, ('b, 'rc, 'sd) agent_checkpoint) btree"
  ms_consumed :: "checkpoint_id btree_set"

type_synonym ('b, 'rc, 'sd, 'a) store_action =
  "(('b, 'rc, 'sd) memory_store, checkpoint_error, 'a) action"

definition memory_store_new :: "('b, 'rc, 'sd) memory_store" where
  "memory_store_new = \<lparr>ms_poisoned = False, ms_checkpoints = [], ms_consumed = []\<rparr>"

definition lock_store :: "('b, 'rc, 'sd, unit) store_action" where
  "lock_store s = (ensure (\<not> ms_poisoned s) StoreUnavailable, s)"

definition memory_is_empty :: "('b, 'rc, 'sd, bool) store_action" where
  "memory_is_empty = seq lock_store (\<lambda>_ s. (Ok (ms_checkpoints s = []), s))"

definition memory_save :: "('b, 'rc, 'sd) agent_checkpoint \<Rightarrow> ('b, 'rc, 'sd, unit) store_action" where
  "memory_save cp =
     seq lock_store (\<lambda>_ s.
       if bt_contains (ms_checkpoints s) (cp_id cp) \<or> cp_id cp \<in> set (ms_consumed s)
       then (Err (DuplicateCheckpoint (cp_id cp)), s)
       else (Ok (), s\<lparr>ms_checkpoints := bt_insert (cp_id cp) cp (ms_checkpoints s)\<rparr>))"

definition memory_load :: "checkpoint_id \<Rightarrow> ('b, 'rc, 'sd, ('b, 'rc, 'sd) agent_checkpoint) store_action" where
  "memory_load i = seq lock_store (\<lambda>_ s. (ok_or (bt_get (ms_checkpoints s) i) (NotFound i), s))"

definition memory_take :: "checkpoint_id \<Rightarrow> ('b, 'rc, 'sd, ('b, 'rc, 'sd) agent_checkpoint) store_action" where
  "memory_take i =
     seq lock_store (\<lambda>_ s.
       (case bt_get (ms_checkpoints s) i of
          None \<Rightarrow> (Err (NotFound i), s)
        | Some cp \<Rightarrow>
            (Ok cp, s\<lparr>ms_checkpoints := bt_remove i (ms_checkpoints s),
                      ms_consumed := bs_insert i (ms_consumed s)\<rparr>)))"

section \<open>The contract of a store\<close>

text \<open>The trait \<open>CheckpointStore\<close> as a record of operations on a store of any type.\<close>

record ('cp, 'st) store_ops =
  st_save :: "'cp \<Rightarrow> ('st, checkpoint_error, unit) action"
  st_load :: "checkpoint_id \<Rightarrow> ('st, checkpoint_error, 'cp) action"
  st_take :: "checkpoint_id \<Rightarrow> ('st, checkpoint_error, 'cp) action"

definition memory_ops ::
  "(('b, 'rc, 'sd) agent_checkpoint, ('b, 'rc, 'sd) memory_store) store_ops" where
  "memory_ops = \<lparr>st_save = memory_save, st_load = memory_load, st_take = memory_take\<rparr>"

text \<open>One request of a client, what it answers, and a sequence of requests of any number of
  concurrent clients in the order in which the store serves them.\<close>

datatype 'cp request = Save 'cp | Load checkpoint_id | Take checkpoint_id

datatype 'cp reply =
    Saved "(checkpoint_error, unit) result"
  | Loaded checkpoint_id "(checkpoint_error, 'cp) result"
  | Taken checkpoint_id "(checkpoint_error, 'cp) result"

fun serve :: "('cp, 'st) store_ops \<Rightarrow> 'cp request \<Rightarrow> 'st \<Rightarrow> 'cp reply \<times> 'st" where
  "serve ops (Save cp) s = (let (r, t) = st_save ops cp s in (Saved r, t))"
| "serve ops (Load i) s = (let (r, t) = st_load ops i s in (Loaded i r, t))"
| "serve ops (Take i) s = (let (r, t) = st_take ops i s in (Taken i r, t))"

fun serve_all :: "('cp, 'st) store_ops \<Rightarrow> 'cp request list \<Rightarrow> 'st \<Rightarrow> 'cp reply list \<times> 'st" where
  "serve_all ops [] s = ([], s)"
| "serve_all ops (q # qs) s =
     (let (r, t) = serve ops q s; (rs, u) = serve_all ops qs t in (r # rs, u))"

definition taken :: "checkpoint_id \<Rightarrow> 'cp reply \<Rightarrow> bool" where
  "taken i r \<longleftrightarrow> (case r of Taken j (Ok _) \<Rightarrow> j = i | _ \<Rightarrow> False)"

text \<open>
  What a resumed run relies on: \<open>held\<close> is the checkpoint the store keeps under an id, \<open>spent\<close>
  the ids it will never hand out again.
\<close>

locale checkpoint_contract =
  fixes ops :: "('cp, 'st) store_ops"
    and id_of :: "'cp \<Rightarrow> checkpoint_id"
    and held :: "'st \<Rightarrow> checkpoint_id \<Rightarrow> 'cp option"
    and spent :: "'st \<Rightarrow> checkpoint_id \<Rightarrow> bool"
    and inv :: "'st \<Rightarrow> bool"
  assumes save_inv: "inv s \<Longrightarrow> st_save ops cp s = (r, t) \<Longrightarrow> inv t"
    and load_inv: "inv s \<Longrightarrow> st_load ops i s = (r', t) \<Longrightarrow> t = s"
    and take_inv: "inv s \<Longrightarrow> st_take ops i s = (r', t) \<Longrightarrow> inv t"
    and save_held: "inv s \<Longrightarrow> st_save ops cp s = (Ok (), t) \<Longrightarrow>
          held s (id_of cp) = None \<and> \<not> spent s (id_of cp)
          \<and> held t = (held s)(id_of cp \<mapsto> cp) \<and> spent t = spent s"
    and save_failed: "inv s \<Longrightarrow> st_save ops cp s = (r, t) \<Longrightarrow> r \<noteq> Ok () \<Longrightarrow> t = s"
    and load_held: "inv s \<Longrightarrow> st_load ops i s = (Ok cp, t) \<Longrightarrow> held s i = Some cp"
    and take_held: "inv s \<Longrightarrow> st_take ops i s = (Ok cp, t) \<Longrightarrow>
          held s i = Some cp \<and> held t = (held s)(i := None) \<and> spent t = (spent s)(i := True)"
    and take_failed: "inv s \<Longrightarrow> st_take ops i s = (r', t) \<Longrightarrow> \<not> is_ok r' \<Longrightarrow> t = s"
    and spent_not_held: "inv s \<Longrightarrow> spent s i \<Longrightarrow> held s i = None"
begin

lemma serve_inv: "inv s \<Longrightarrow> inv (snd (serve ops q s))"
  by (cases q) (auto split: prod.splits dest: save_inv load_inv take_inv)

lemma serve_spent_mono:
  assumes "inv s" and "spent s i"
  shows "spent (snd (serve ops q s)) i"
proof (cases q)
  case (Save cp)
  obtain r t where st: "st_save ops cp s = (r, t)" by force
  with Save assms save_held [OF assms(1)] save_failed [OF assms(1) st] show ?thesis
    by (cases "r = Ok ()") auto
next
  case (Load j)
  with assms show ?thesis by (auto split: prod.splits dest: load_inv)
next
  case (Take j)
  obtain r t where st: "st_take ops j s = (r, t)" by force
  with Take assms take_held [OF assms(1)] take_failed [OF assms(1) st] show ?thesis
    by (cases r) (auto simp: is_ok_def)
qed

lemma spent_never_taken:
  assumes "inv s" and "spent s i"
  shows "\<not> taken i (fst (serve ops q s))"
  using assms spent_not_held [OF assms] take_held [OF assms(1)]
  by (cases q) (auto simp: taken_def split: prod.splits result.splits)

lemma serve_all_spent:
  assumes "inv s" and "spent s i"
  shows "\<forall>r\<in>set (fst (serve_all ops qs s)). \<not> taken i r"
  using assms
proof (induction qs arbitrary: s)
  case Nil
  show ?case by simp
next
  case (Cons q qs)
  obtain r t where one: "serve ops q s = (r, t)" by force
  with Cons.prems serve_inv [of s q] serve_spent_mono [OF Cons.prems, of q]
  have "inv t" and "spent t i" by simp_all
  with Cons.IH have "\<forall>r\<in>set (fst (serve_all ops qs t)). \<not> taken i r" by blast
  with one spent_never_taken [OF Cons.prems, of q] show ?case
    by (auto simp: Let_def split: prod.splits)
qed

text \<open>A checkpoint is handed out at most once, whatever the clients do.\<close>

lemma taken_at_most_once:
  assumes "inv s"
  shows "length (filter (taken i) (fst (serve_all ops qs s))) \<le> 1"
  using assms
proof (induction qs arbitrary: s)
  case Nil
  show ?case by simp
next
  case (Cons q qs)
  obtain r t where one: "serve ops q s = (r, t)" by force
  then have t: "inv t" using serve_inv [OF Cons.prems, of q] by simp
  have all: "fst (serve_all ops (q # qs) s) = r # fst (serve_all ops qs t)"
    using one by (simp add: Let_def split: prod.splits)
  show ?case
  proof (cases "taken i r")
    case False
    with all Cons.IH [OF t] show ?thesis by simp
  next
    case True
    then obtain cp where "q = Take i" and "st_take ops i s = (Ok cp, t)"
      using one by (cases q) (auto simp: taken_def split: prod.splits result.splits)
    then have "spent t i" using take_held [OF Cons.prems] by auto
    then have "filter (taken i) (fst (serve_all ops qs t)) = []"
      using serve_all_spent [OF t, of i qs] by (simp add: filter_empty_conv)
    with all True show ?thesis by simp
  qed
qed

end

definition store_held :: "('b, 'rc, 'sd) memory_store \<Rightarrow> checkpoint_id \<Rightarrow> ('b, 'rc, 'sd) agent_checkpoint option" where
  "store_held s i = bt_get (ms_checkpoints s) i"

definition store_spent :: "('b, 'rc, 'sd) memory_store \<Rightarrow> checkpoint_id \<Rightarrow> bool" where
  "store_spent s i \<longleftrightarrow> i \<in> set (ms_consumed s)"

definition store_inv :: "('b, 'rc, 'sd) memory_store \<Rightarrow> bool" where
  "store_inv s \<longleftrightarrow>
     bt_ok (ms_checkpoints s)
     \<and> (\<forall>i cp. store_held s i = Some cp \<longrightarrow> cp_id cp = i)
     \<and> (\<forall>i. store_spent s i \<longrightarrow> store_held s i = None)"

lemma lock_store_eq [simp]:
  "lock_store s = (if ms_poisoned s then Err StoreUnavailable else Ok (), s)"
  by (simp add: lock_store_def ensure_def)

lemma memory_save_cases:
  "memory_save cp s =
     (if ms_poisoned s then (Err StoreUnavailable, s)
      else if store_held s (cp_id cp) \<noteq> None \<or> store_spent s (cp_id cp)
      then (Err (DuplicateCheckpoint (cp_id cp)), s)
      else (Ok (), s\<lparr>ms_checkpoints := bt_insert (cp_id cp) cp (ms_checkpoints s)\<rparr>))"
  by (simp add: memory_save_def seq_def store_held_def store_spent_def bt_contains_def)

lemma memory_load_cases:
  "memory_load i s =
     (if ms_poisoned s then (Err StoreUnavailable, s)
      else (ok_or (store_held s i) (NotFound i), s))"
  by (simp add: memory_load_def seq_def store_held_def)

lemma memory_take_cases:
  "memory_take i s =
     (if ms_poisoned s then (Err StoreUnavailable, s)
      else (case store_held s i of
              None \<Rightarrow> (Err (NotFound i), s)
            | Some cp \<Rightarrow>
                (Ok cp, s\<lparr>ms_checkpoints := bt_remove i (ms_checkpoints s),
                          ms_consumed := bs_insert i (ms_consumed s)\<rparr>)))"
  by (simp add: memory_take_def seq_def store_held_def)

lemma store_inv_new: "store_inv memory_store_new"
  by (simp add: store_inv_def memory_store_new_def store_held_def store_spent_def)

lemma store_inv_save: "store_inv s \<Longrightarrow> memory_save cp s = (r, t) \<Longrightarrow> store_inv t"
  by (auto simp: memory_save_cases store_inv_def store_held_def store_spent_def split: if_splits)

lemma store_inv_take: "store_inv s \<Longrightarrow> memory_take i s = (r, t) \<Longrightarrow> store_inv t"
  by (auto simp: memory_take_cases store_inv_def store_held_def store_spent_def
      split: if_splits option.splits)

interpretation ms: checkpoint_contract
  "memory_ops :: (('b, 'rc, 'sd) agent_checkpoint, ('b, 'rc, 'sd) memory_store) store_ops"
  cp_id store_held store_spent store_inv
proof unfold_locales
  fix s t :: "('b, 'rc, 'sd) memory_store" and cp and i r and r' :: "(checkpoint_error, ('b, 'rc, 'sd) agent_checkpoint) result"
  show "store_inv s \<Longrightarrow> st_save memory_ops cp s = (r, t) \<Longrightarrow> store_inv t"
    by (simp add: memory_ops_def store_inv_save)
  show "store_inv s \<Longrightarrow> st_load memory_ops i s = (r', t) \<Longrightarrow> t = s"
    by (auto simp: memory_ops_def memory_load_cases split: if_splits)
  show "store_inv s \<Longrightarrow> st_take memory_ops i s = (r', t) \<Longrightarrow> store_inv t"
    by (simp add: memory_ops_def store_inv_take)
  show "store_inv s \<Longrightarrow> st_save memory_ops cp s = (Ok (), t) \<Longrightarrow>
      store_held s (cp_id cp) = None \<and> \<not> store_spent s (cp_id cp)
      \<and> store_held t = (store_held s)(cp_id cp \<mapsto> cp) \<and> store_spent t = store_spent s"
    by (auto simp: memory_ops_def memory_save_cases store_held_def store_spent_def fun_eq_iff
        split: if_splits)
  show "store_inv s \<Longrightarrow> st_save memory_ops cp s = (r, t) \<Longrightarrow> r \<noteq> Ok () \<Longrightarrow> t = s"
    by (auto simp: memory_ops_def memory_save_cases split: if_splits)
  show "store_inv s \<Longrightarrow> st_load memory_ops i s = (Ok cp, t) \<Longrightarrow> store_held s i = Some cp"
    by (auto simp: memory_ops_def memory_load_cases ok_or_def split: if_splits option.splits)
  show "store_inv s \<Longrightarrow> st_take memory_ops i s = (Ok cp, t) \<Longrightarrow>
      store_held s i = Some cp \<and> store_held t = (store_held s)(i := None)
      \<and> store_spent t = (store_spent s)(i := True)"
    by (auto simp: memory_ops_def memory_take_cases store_held_def store_spent_def fun_eq_iff
        split: if_splits option.splits)
  show "store_inv s \<Longrightarrow> st_take memory_ops i s = (r', t) \<Longrightarrow> \<not> is_ok r' \<Longrightarrow> t = s"
    by (auto simp: memory_ops_def memory_take_cases is_ok_def split: if_splits option.splits)
  show "store_inv s \<Longrightarrow> store_spent s i \<Longrightarrow> store_held s i = None"
    by (simp add: store_inv_def)
qed

section \<open>Properties\<close>

text \<open>
  However any number of clients save, load and take checkpoints of the in-memory store, in
  whatever order the store serves them, each checkpoint id is handed out by \<open>take\<close> at most
  once over the whole life of the store.
\<close>

theorem checkpoint_taken_at_most_once:
  "length (filter (taken i) (fst (serve_all memory_ops qs memory_store_new))) \<le> 1"
  by (rule ms.taken_at_most_once [OF store_inv_new])

text \<open>
  A checkpoint that was saved is loaded and taken back unchanged; once it has been taken,
  loading and taking it report NotFound and saving it again is refused as a duplicate.
\<close>

theorem checkpoint_save_take_roundtrip:
  assumes "memory_save cp s = (Ok (), t)"
  shows "fst (memory_load (cp_id cp) t) = Ok cp
       \<and> (\<exists>u. memory_take (cp_id cp) t = (Ok cp, u)
            \<and> fst (memory_load (cp_id cp) u) = Err (NotFound (cp_id cp))
            \<and> fst (memory_take (cp_id cp) u) = Err (NotFound (cp_id cp))
            \<and> memory_save cp u = (Err (DuplicateCheckpoint (cp_id cp)), u))"
proof -
  from assms have up: "\<not> ms_poisoned s"
    and t: "t = s\<lparr>ms_checkpoints := bt_insert (cp_id cp) cp (ms_checkpoints s)\<rparr>"
    by (auto simp: memory_save_cases split: if_splits)
  define u where "u = t\<lparr>ms_checkpoints := bt_remove (cp_id cp) (ms_checkpoints t),
      ms_consumed := bs_insert (cp_id cp) (ms_consumed t)\<rparr>"
  have "memory_take (cp_id cp) t = (Ok cp, u)"
    using up by (simp add: memory_take_cases store_held_def u_def t)
  moreover have "fst (memory_load (cp_id cp) t) = Ok cp"
    using up by (simp add: memory_load_cases store_held_def t ok_or_def)
  moreover have "fst (memory_load (cp_id cp) u) = Err (NotFound (cp_id cp))"
    "fst (memory_take (cp_id cp) u) = Err (NotFound (cp_id cp))"
    "memory_save cp u = (Err (DuplicateCheckpoint (cp_id cp)), u)"
    using up by (simp_all add: memory_load_cases memory_take_cases memory_save_cases store_held_def
        store_spent_def u_def t ok_or_def)
  ultimately show ?thesis by blast
qed

theorem checkpoint_save_take_roundtrip_witness:
  "\<exists>cp :: (unit, unit, unit) agent_checkpoint.
     fst (memory_load (cp_id cp) (snd (memory_save cp memory_store_new))) = Ok cp"
proof -
  define cp :: "(unit, unit, unit) agent_checkpoint" where
    "cp = \<lparr>cp_id = CheckpointId 1, cp_graph_id = GraphId ''g'', cp_graph_version = GraphVersion 1,
       cp_schema_version = SchemaVersion 1, cp_run_id = RunId 7,
       cp_position = \<lparr>completed_step = RunStep 1, next_node = NodeId ''b''\<rparr>,
       cp_state = agent_state_new (), cp_budget = run_budget_new 8 30, cp_usage = usage_default,
       cp_visited = [NodeId ''a''], cp_receipts = [],
       cp_suspend = \<lparr>sus_reason = Approval, sus_data = ()\<rparr>, cp_trace = run_trace_default\<rparr>"
  obtain t where "memory_save cp memory_store_new = (Ok (), t)"
    by (simp add: memory_save_cases memory_store_new_def store_held_def store_spent_def)
  moreover from checkpoint_save_take_roundtrip [OF this]
  have "fst (memory_load (cp_id cp) t) = Ok cp" by blast
  ultimately show ?thesis by (intro exI [of _ cp]) simp
qed

end
