(* ===== verification/Graph_Runtime.thy ===== *)
theory Graph_Runtime
  imports Checkpoint
begin

text \<open>
  The graph runtime (\<open>agent-core/src/graph/runtime.rs\<close>, \<open>NodeResult\<close> of \<open>node.rs\<close>).

  Asynchronous code. A future (a node's \<open>execute\<close>, an executor's \<open>execute\<close>) is a
  \<open>program\<close>: it is done, yields to its poller, or uses the shared budget of its context. The
  biased \<open>select!\<close> looks at the cancellation token, then at the deadline, then polls, at the
  start and after every yield. A future that never completes is one that yields until a
  signal fires, so finite programs represent every run. What the token and the clock show,
  what other clients do to the checkpoint store and the ids that \<open>CheckpointId::new\<close> draws are
  the \<open>world\<close>, indexed by a tick that every observation advances; nodes and executors are
  given the tick as well, so two calls with equal arguments may behave differently.
\<close>

section \<open>Futures\<close>

datatype 'a program =
    Done 'a
  | Yield "'a program"
  | Budget budget_call "(graph_run_error, unit) result \<Rightarrow> 'a program"
  | ReadUsage "usage_snapshot \<Rightarrow> 'a program"

datatype 'a selected = FiredCancelled | FiredDeadline | Output 'a

record 'st machine =
  mc_usage :: usage_snapshot
  mc_tick :: nat
  mc_store :: 'st

record 'st world =
  w_signals :: "nat \<Rightarrow> signals"
  w_others :: "nat \<Rightarrow> 'st \<Rightarrow> 'st"
  w_fresh :: "nat \<Rightarrow> checkpoint_id"

definition tick :: "'st machine \<Rightarrow> 'st machine" where
  "tick m = m\<lparr>mc_tick := Suc (mc_tick m)\<rparr>"

primrec run_program ::
  "'st world \<Rightarrow> run_context \<Rightarrow> 'a program \<Rightarrow> 'st machine \<Rightarrow> 'a selected \<times> 'st machine" where
  "run_program w ctx (Done a) m = (Output a, m)"
| "run_program w ctx (Yield p) m =
     (let sg = w_signals w (mc_tick m) in
      if sig_cancelled sg then (FiredCancelled, tick m)
      else if sig_now sg \<ge> ctx_deadline ctx then (FiredDeadline, tick m)
      else run_program w ctx p (tick m))"
| "run_program w ctx (Budget c f) m =
     (let (r, u) = run_budget_call (ctx_limits ctx) c (mc_usage m) in
      run_program w ctx (f r) (m\<lparr>mc_usage := u\<rparr>))"
| "run_program w ctx (ReadUsage f) m = run_program w ctx (f (mc_usage m)) m"

text \<open>\<open>tokio::select! { biased; cancelled => .., sleep_until(deadline) => .., result = p => .. }\<close>\<close>

definition select_biased ::
  "'st world \<Rightarrow> run_context \<Rightarrow> 'a program \<Rightarrow> 'st machine \<Rightarrow> 'a selected \<times> 'st machine" where
  "select_biased w ctx p m = run_program w ctx (Yield p) m"

section \<open>The runtime\<close>

datatype ('u, 'e, 'sd) node_result =
    Continue "'u agent_update list" "'e list" usage_delta
  | Suspend "'u agent_update list" "'e list" usage_delta "'sd suspend_request"

type_synonym ('b, 'u, 'e, 'sd) node_body =
  "'b agent_state \<Rightarrow> run_context \<Rightarrow> nat \<Rightarrow> (node_error, ('u, 'e, 'sd) node_result) result program"

type_synonym ('e, 'rc) executor =
  "'e effect_envelope \<Rightarrow> run_context \<Rightarrow> nat \<Rightarrow> (effect_error, 'rc) result program"

record ('b, 'u, 'e, 'rc, 'sd, 'ri, 'st) graph_runtime =
  rt_graph :: "(('b, 'u, 'e, 'sd) node_body, 'b agent_state) compiled_graph"
  rt_executor :: "('e, 'rc) executor option"
  rt_store :: "(('b, 'rc, 'sd) agent_checkpoint, 'st) store_ops option"
  rt_business :: "('b, 'u, 'ri) business_ops"
  rt_receipt_updates :: "'rc \<Rightarrow> 'u agent_update list"

definition rt_max_steps :: "('b, 'u, 'e, 'rc, 'sd, 'ri, 'st) graph_runtime \<Rightarrow> u32" where
  "rt_max_steps rt = policy_max_steps (c_policy (rt_graph rt))"

type_synonym ('st, 'a) run_action = "('st machine, graph_run_error, 'a) action"

text \<open>\<open>context.check_ready(..)\<close> and \<open>context.check_active()\<close> on the shared machine.\<close>

definition ready :: "'st world \<Rightarrow> run_context \<Rightarrow> u32 \<Rightarrow> ('st, run_step) run_action" where
  "ready w ctx graph_max m =
     (let (r, u) = check_ready ctx graph_max (w_signals w (mc_tick m)) (mc_usage m) in
      (r, tick (m\<lparr>mc_usage := u\<rparr>)))"

definition active :: "'st world \<Rightarrow> run_context \<Rightarrow> ('st, unit) run_action" where
  "active w ctx m = (check_active ctx (w_signals w (mc_tick m)), tick m)"

definition execute_node ::
  "'st world \<Rightarrow> run_context \<Rightarrow> ('b, 'u, 'e, 'sd) node_body agent_node \<Rightarrow> 'b agent_state \<Rightarrow> node_id \<Rightarrow>
     ('st, ('u, 'e, 'sd) node_result) run_action" where
  "execute_node w ctx nd st current m =
     (case select_biased w ctx (an_execute nd st ctx (mc_tick m)) m of
        (FiredCancelled, m') \<Rightarrow> (Err RunCancelled, m')
      | (FiredDeadline, m') \<Rightarrow> (Err DeadlineExceeded, m')
      | (Output r, m') \<Rightarrow> (map_err (\<lambda>e. into_graph_run e current) r, m'))"

definition take_apart ::
  "bool \<Rightarrow> node_id \<Rightarrow> ('u, 'e, 'sd) node_result \<Rightarrow>
     (graph_run_error, 'u agent_update list \<times> 'e list \<times> usage_delta \<times> 'sd suspend_request option) result" where
  "take_apart checkpointing current res =
     (case res of
        Continue updates effects usage \<Rightarrow> Ok (updates, effects, usage, None)
      | Suspend updates effects usage request \<Rightarrow>
          if \<not> checkpointing then Err (UnexpectedSuspend current)
          else Ok (updates, effects, usage, Some request))"

definition charge :: "run_context \<Rightarrow> usage_delta \<Rightarrow> ('st, unit) run_action" where
  "charge ctx delta m =
     (let (r, u) = record_usage (ctx_limits ctx) delta (mc_usage m) in (r, m\<lparr>mc_usage := u\<rparr>))"

text \<open>\<open>candidate.apply_updates(..).map_err(..)?\<close>: a failed update ends the run, so only the
  state of a successful one is used.\<close>

definition update_or ::
  "('b, 'u, 'ri) business_ops \<Rightarrow> (agent_state_error \<Rightarrow> graph_run_error) \<Rightarrow> 'b agent_state \<Rightarrow>
     'u agent_update list \<Rightarrow> (graph_run_error, 'b agent_state) result" where
  "update_or B err candidate updates =
     (let (r, candidate') = apply_updates B candidate updates in
      bind_r (map_err err r) (\<lambda>_. Ok candidate'))"

section \<open>Effects\<close>

definition too_many_effects :: string where
  "too_many_effects =
     utf8 [0x8282, 0x70B9, 0x8FD4, 0x56DE, 0x7684, 0x20, 0x45, 0x66, 0x66, 0x65, 0x63, 0x74,
       0x20, 0x6570, 0x91CF, 0x8D85, 0x8FC7, 0x20, 0x75, 0x33, 0x32]"

definition cancelled_commit :: string where
  "cancelled_commit =
     utf8 [0x45, 0x66, 0x66, 0x65, 0x63, 0x74, 0x20, 0x6267, 0x884C, 0x671F, 0x95F4, 0x8FD0,
       0x884C, 0x88AB, 0x53D6, 0x6D88, 0xFF0C, 0x5916, 0x90E8, 0x63D0, 0x4EA4, 0x72B6, 0x6001,
       0x672A, 0x77E5]"

definition deadline_commit :: string where
  "deadline_commit =
     utf8 [0x45, 0x66, 0x66, 0x65, 0x63, 0x74, 0x20, 0x6267, 0x884C, 0x671F, 0x95F4, 0x8D85,
       0x8FC7, 0x622A, 0x6B62, 0x65F6, 0x95F4, 0xFF0C, 0x5916, 0x90E8, 0x63D0, 0x4EA4, 0x72B6,
       0x6001, 0x672A, 0x77E5]"

definition execute_effect ::
  "'st world \<Rightarrow> run_context \<Rightarrow> ('e, 'rc) executor \<Rightarrow> 'e effect_envelope \<Rightarrow>
     ('st machine, effect_error, 'rc) action" where
  "execute_effect w ctx ex env m =
     (case select_biased w ctx (ex env ctx (mc_tick m)) m of
        (FiredCancelled, m') \<Rightarrow> (Err (effect_unknown_commit cancelled_commit), m')
      | (FiredDeadline, m') \<Rightarrow> (Err (effect_unknown_commit deadline_commit), m')
      | (Output r, m') \<Rightarrow> (r, m'))"

definition map_err_a :: "('e \<Rightarrow> 'f) \<Rightarrow> ('s, 'e, 'a) action \<Rightarrow> ('s, 'f, 'a) action" where
  "map_err_a g m s = (map_err g (fst (m s)), snd (m s))"

text \<open>The loop over the effects of a node. It carries the candidate state, the ids of the
  completed effects and the receipts.\<close>

fun run_effects ::
  "('b, 'u, 'e, 'rc, 'sd, 'ri, 'st) graph_runtime \<Rightarrow> 'st world \<Rightarrow> run_context \<Rightarrow> run_step \<Rightarrow> node_id \<Rightarrow>
     nat \<Rightarrow> 'e list \<Rightarrow> 'b agent_state \<times> effect_id list \<times> 'rc effect_receipt list \<Rightarrow>
     ('st, 'b agent_state \<times> effect_id list \<times> 'rc effect_receipt list) run_action" where
  "run_effects rt w ctx step current ordinal [] acc = give acc"
| "run_effects rt w ctx step current ordinal (effect # effects) (candidate, completed, receipts) =
     (if ordinal \<ge> 2 ^ 32
      then lift_r (Err (NodeFailed current (node_error_new KInvariant too_many_effects)))
      else (let eid = effect_id_new (ctx_run_id ctx) step current (word_of_nat ordinal) in
        case rt_executor rt of
          None \<Rightarrow> lift_r (Err (MissingEffectExecutor current))
        | Some ex \<Rightarrow>
            seq (active w ctx) (\<lambda>_.
            seq (map_err_a (EffectFailed current eid completed)
                   (execute_effect w ctx ex \<lparr>env_id = eid, env_effect = effect\<rparr>)) (\<lambda>value.
            seq (lift_r (update_or (rt_business rt) (PostEffectStateUpdateFailed current eid)
                   candidate (rt_receipt_updates rt value))) (\<lambda>candidate'.
              run_effects rt w ctx step current (Suc ordinal) effects
                (candidate', completed @ [eid],
                 receipts @ [\<lparr>rcpt_effect_id = eid, rcpt_value = value\<rparr>]))))))"

section \<open>The next node\<close>

definition choose_next ::
  "node_id \<Rightarrow> 'b agent_state transition_rule \<Rightarrow> 'b agent_state \<Rightarrow> (graph_run_error, node_id option) result" where
  "choose_next current t st =
     (case t of
        Goto n \<Rightarrow> Ok (Some n)
      | Branch rtr targets \<Rightarrow>
          bind_r (map_err (NodeFailed current) (select rtr st)) (\<lambda>route.
            bind_r (ok_or (bt_get targets route) (UnknownRoute current route)) (\<lambda>n. Ok (Some n)))
      | End \<Rightarrow> if outcome st = None then Err MissingOutcome else Ok None)"

section \<open>The loop\<close>

record ('b, 'rc) loop_state =
  ls_state :: "'b agent_state"
  ls_current :: node_id
  ls_visited :: "node_id list"
  ls_receipts :: "'rc effect_receipt list"

datatype ('b, 'rc, 'sd) iteration =
    Stop "('b, 'rc, 'sd) graph_execution_result"
  | NextNode "('b, 'rc) loop_state"

text \<open>What one turn of the loop has done when the node and its effects have completed: the
  reserved step, the suspension the node asked for, the state, the receipts, the next node.\<close>

record ('b, 'rc, 'sd) node_completion =
  nc_step :: run_step
  nc_request :: "'sd suspend_request option"
  nc_state :: "'b agent_state"
  nc_receipts :: "'rc effect_receipt list"
  nc_next :: "node_id option"

definition suspends_at_end :: "'sd suspend_request option \<Rightarrow> 's transition_rule \<Rightarrow> bool" where
  "suspends_at_end request t \<longleftrightarrow> request \<noteq> None \<and> is_end t"

definition complete_node ::
  "('b, 'u, 'e, 'rc, 'sd, 'ri, 'st) graph_runtime \<Rightarrow> 'st world \<Rightarrow> run_context \<Rightarrow> bool \<Rightarrow>
     ('b, 'rc) loop_state \<Rightarrow> ('st, ('b, 'rc, 'sd) node_completion) run_action" where
  "complete_node rt w ctx checkpointing ls =
     (let current = ls_current ls in
      seq (ready w ctx (rt_max_steps rt)) (\<lambda>step.
      seq (lift_r (ok_or (graph_node (rt_graph rt) current) (MissingNode current))) (\<lambda>nd.
      seq (execute_node w ctx nd (ls_state ls) current) (\<lambda>res.
      seq (lift_r (take_apart checkpointing current res)) (\<lambda>(updates, effects, usage, request).
      seq (lift_r (ok_or (graph_transition (rt_graph rt) current) (RunMissingTransition current))) (\<lambda>t.
      seq (lift_r (ensure (\<not> suspends_at_end request t) (SuspendAtEnd current))) (\<lambda>_.
      seq (charge ctx usage) (\<lambda>_.
      seq (lift_r (update_or (rt_business rt) (StateUpdateFailed current) (ls_state ls) updates)) (\<lambda>candidate.
      seq (run_effects rt w ctx step current 0 effects (candidate, [], [])) (\<lambda>(st, _, receipts).
      seq (lift_r (choose_next current t st)) (\<lambda>next.
        give \<lparr>nc_step = step, nc_request = request, nc_state = st, nc_receipts = receipts,
              nc_next = next\<rparr>)))))))))))"

definition make_checkpoint ::
  "('b, 'u, 'e, 'rc, 'sd, 'ri, 'st) graph_runtime \<Rightarrow> 'st world \<Rightarrow> run_context \<Rightarrow> ('b, 'rc) loop_state \<Rightarrow>
     ('b, 'rc, 'sd) node_completion \<Rightarrow> 'sd suspend_request \<Rightarrow> node_id \<Rightarrow> 'st machine \<Rightarrow>
     ('b, 'rc, 'sd) agent_checkpoint" where
  "make_checkpoint rt w ctx ls nc request next m =
     \<lparr>cp_id = w_fresh w (mc_tick m),
      cp_graph_id = c_id (rt_graph rt),
      cp_graph_version = c_version (rt_graph rt),
      cp_schema_version = state_schema_version (rt_business rt),
      cp_run_id = ctx_run_id ctx,
      cp_position = \<lparr>completed_step = nc_step nc, next_node = next\<rparr>,
      cp_state = nc_state nc,
      cp_budget = ctx_limits ctx,
      cp_usage = mc_usage m,
      cp_visited = ls_visited ls @ [ls_current ls],
      cp_receipts = ls_receipts ls @ nc_receipts nc,
      cp_suspend = request,
      cp_trace = ctx_trace ctx\<rparr>"

text \<open>An access to the store: whatever other clients did since the last one comes first.\<close>

definition on_store :: "'st world \<Rightarrow> ('st, 'e, 'a) action \<Rightarrow> ('st machine, 'e, 'a) action" where
  "on_store w f m =
     (let (r, s) = f (w_others w (mc_tick m) (mc_store m)) in (r, tick (m\<lparr>mc_store := s\<rparr>)))"

definition save_checkpoint ::
  "('b, 'u, 'e, 'rc, 'sd, 'ri, 'st) graph_runtime \<Rightarrow> 'st world \<Rightarrow> ('b, 'rc, 'sd) agent_checkpoint \<Rightarrow>
     ('st machine, ('b, 'rc, 'sd) checkpoint_run_error, unit) action" where
  "save_checkpoint rt w cp =
     (case rt_store rt of
        None \<Rightarrow> lift_r (Err MissingStore)
      | Some ops \<Rightarrow> map_err_a (SaveFailed (cp_id cp) cp) (on_store w (st_save ops cp)))"

definition turn ::
  "('b, 'u, 'e, 'rc, 'sd, 'ri, 'st) graph_runtime \<Rightarrow> 'st world \<Rightarrow> run_context \<Rightarrow> bool \<Rightarrow>
     ('b, 'rc) loop_state \<Rightarrow>
     ('st machine, ('b, 'rc, 'sd) checkpoint_run_error, ('b, 'rc, 'sd) iteration) action" where
  "turn rt w ctx checkpointing ls =
     seq (map_err_a GraphFailure (complete_node rt w ctx checkpointing ls)) (\<lambda>nc.
       let visited = ls_visited ls @ [ls_current ls]; receipts = ls_receipts ls @ nc_receipts nc in
       (case nc_request nc of
          Some request \<Rightarrow>
            seq (lift_r (expect (nc_next nc))) (\<lambda>next m.
              let cp = make_checkpoint rt w ctx ls nc request next m in
              seq (save_checkpoint rt w cp) (\<lambda>_. give (Stop (Suspended cp))) m)
        | None \<Rightarrow>
            (case nc_next nc of
               Some next \<Rightarrow>
                 give (NextNode \<lparr>ls_state = nc_state nc, ls_current = next, ls_visited = visited,
                                 ls_receipts = receipts\<rparr>)
             | None \<Rightarrow>
                 (\<lambda>m. (Ok (Stop (Completed \<lparr>res_state = nc_state nc, res_usage = mc_usage m,
                          res_visited = visited, res_run_id = ctx_run_id ctx,
                          res_receipts = receipts\<rparr>)), m)))))"

text \<open>\<open>execute_from\<close> with fuel for its \<open>loop\<close>; None is a loop that has not ended.\<close>

fun execute_from ::
  "nat \<Rightarrow> ('b, 'u, 'e, 'rc, 'sd, 'ri, 'st) graph_runtime \<Rightarrow> 'st world \<Rightarrow> run_context \<Rightarrow> bool \<Rightarrow>
     ('b, 'rc) loop_state \<Rightarrow> 'st machine \<Rightarrow>
     ((('b, 'rc, 'sd) checkpoint_run_error, ('b, 'rc, 'sd) graph_execution_result) result \<times> 'st machine) option" where
  "execute_from 0 rt w ctx checkpointing ls m = None"
| "execute_from (Suc fuel) rt w ctx checkpointing ls m =
     (case turn rt w ctx checkpointing ls m of
        (Ok (Stop res), m') \<Rightarrow> Some (Ok res, m')
      | (Ok (NextNode ls'), m') \<Rightarrow> execute_from fuel rt w ctx checkpointing ls' m'
      | (Err e, m') \<Rightarrow> Some (Err e, m')
      | (Panic, m') \<Rightarrow> Some (Panic, m'))"

definition start_state :: "('b, 'u, 'e, 'rc, 'sd, 'ri, 'st) graph_runtime \<Rightarrow> 'b agent_state \<Rightarrow> ('b, 'rc) loop_state" where
  "start_state rt st =
     \<lparr>ls_state = st, ls_current = c_entry (rt_graph rt), ls_visited = [], ls_receipts = []\<rparr>"

section \<open>Entry points\<close>

text \<open>\<open>run_with_context\<close>: the \<open>unreachable!\<close> arms are panics.\<close>

definition run_with_context ::
  "nat \<Rightarrow> ('b, 'u, 'e, 'rc, 'sd, 'ri, 'st) graph_runtime \<Rightarrow> 'st world \<Rightarrow> run_context \<Rightarrow>
     'b agent_state \<Rightarrow> 'st machine \<Rightarrow>
     ((graph_run_error, ('b, 'rc) graph_run_result) result \<times> 'st machine) option" where
  "run_with_context fuel rt w ctx st m =
     map_option (\<lambda>(r, m').
         (case r of
            Ok (Completed res) \<Rightarrow> Ok res
          | Ok (Suspended _) \<Rightarrow> Panic
          | Err (GraphFailure e) \<Rightarrow> Err e
          | Err MissingStore \<Rightarrow> Panic
          | Err (SaveFailed _ _ _) \<Rightarrow> Panic
          | Panic \<Rightarrow> Panic, m'))
       (execute_from fuel rt w ctx False (start_state rt st) m)"

definition run_checkpointed_with_context ::
  "nat \<Rightarrow> ('b, 'u, 'e, 'rc, 'sd, 'ri, 'st) graph_runtime \<Rightarrow> 'st world \<Rightarrow> run_context \<Rightarrow>
     'b agent_state \<Rightarrow> 'st machine \<Rightarrow>
     ((('b, 'rc, 'sd) checkpoint_run_error, ('b, 'rc, 'sd) graph_execution_result) result \<times> 'st machine) option" where
  "run_checkpointed_with_context fuel rt w ctx st m =
     (if rt_store rt = None then Some (Err MissingStore, m)
      else execute_from fuel rt w ctx True (start_state rt st) m)"

text \<open>\<open>run\<close> and \<open>run_checkpointed\<close>: a fresh context whose token is never cancelled.\<close>

definition uncancelled :: "'st world \<Rightarrow> 'st world" where
  "uncancelled w = w\<lparr>w_signals := (\<lambda>k. (w_signals w k)\<lparr>sig_cancelled := False\<rparr>)\<rparr>"

definition run ::
  "nat \<Rightarrow> ('b, 'u, 'e, 'rc, 'sd, 'ri, 'st) graph_runtime \<Rightarrow> 'st world \<Rightarrow> run_id \<Rightarrow> run_budget \<Rightarrow>
     'b agent_state \<Rightarrow> 'st machine \<Rightarrow>
     ((graph_run_error, ('b, 'rc) graph_run_result) result \<times> 'st machine) option" where
  "run fuel rt w rid budget st m =
     (let (ctx, usage) = run_context_new rid (sig_now (w_signals w (mc_tick m))) budget run_trace_default in
      run_with_context fuel rt (uncancelled w) ctx st (tick (m\<lparr>mc_usage := usage\<rparr>)))"

definition run_checkpointed ::
  "nat \<Rightarrow> ('b, 'u, 'e, 'rc, 'sd, 'ri, 'st) graph_runtime \<Rightarrow> 'st world \<Rightarrow> run_id \<Rightarrow> run_budget \<Rightarrow>
     'b agent_state \<Rightarrow> 'st machine \<Rightarrow>
     ((('b, 'rc, 'sd) checkpoint_run_error, ('b, 'rc, 'sd) graph_execution_result) result \<times> 'st machine) option" where
  "run_checkpointed fuel rt w rid budget st m =
     (let (ctx, usage) = run_context_new rid (sig_now (w_signals w (mc_tick m))) budget run_trace_default in
      run_checkpointed_with_context fuel rt (uncancelled w) ctx st (tick (m\<lparr>mc_usage := usage\<rparr>)))"

section \<open>Resuming\<close>

text \<open>The checks a checkpoint has to pass, in their order, and the state the resume input
  makes of it.\<close>

definition validate_checkpoint ::
  "('b, 'u, 'e, 'rc, 'sd, 'ri, 'st) graph_runtime \<Rightarrow> ('b, 'rc, 'sd) agent_checkpoint \<Rightarrow> 'ri \<Rightarrow>
     (('b, 'rc, 'sd) resume_error, 'b agent_state) result" where
  "validate_checkpoint rt cp input =
     (let g = rt_graph rt; schema = state_schema_version (rt_business rt);
          completed = step_get (completed_step (cp_position cp)); next = next_node (cp_position cp) in
      bind_r (ensure (cp_graph_id cp = c_id g) (GraphIdMismatch (c_id g) (cp_graph_id cp))) (\<lambda>_.
      bind_r (ensure (cp_graph_version cp = c_version g)
                (GraphVersionMismatch (c_version g) (cp_graph_version cp))) (\<lambda>_.
      bind_r (ensure (cp_schema_version cp = schema)
                (StateSchemaVersionMismatch schema (cp_schema_version cp))) (\<lambda>_.
      bind_r (ensure (completed = steps (cp_usage cp))
                (RunPositionMismatch completed (steps (cp_usage cp)))) (\<lambda>_.
      bind_r (ensure (graph_node g next \<noteq> None) (ResumeMissingNode next)) (\<lambda>_.
        (let (r, st) = apply_updates (rt_business rt) (cp_state cp)
                         (resume_updates (rt_business rt) input) in
         bind_r (map_err ResumeInputRejected r) (\<lambda>_. Ok st))))))))"

definition take_error ::
  "checkpoint_id \<Rightarrow> checkpoint_error \<Rightarrow> ('b, 'rc, 'sd) resume_error" where
  "take_error i e = (case e of NotFound _ \<Rightarrow> CheckpointAlreadyConsumed i | _ \<Rightarrow> CheckpointLoad e)"

definition restore_trace :: "run_trace \<Rightarrow> run_trace \<Rightarrow> run_trace" where
  "restore_trace saved given =
     \<lparr>trace_id = (if trace_id saved = None then trace_id given else trace_id saved),
      trace_attributes = bt_extend (trace_attributes saved) (trace_attributes given)\<rparr>"

text \<open>\<open>resume_with_context\<close> up to the run: load, validate, take.\<close>

definition claim_checkpoint ::
  "('b, 'u, 'e, 'rc, 'sd, 'ri, 'st) graph_runtime \<Rightarrow> (('b, 'rc, 'sd) agent_checkpoint, 'st) store_ops \<Rightarrow>
     'st world \<Rightarrow> checkpoint_id \<Rightarrow> 'ri \<Rightarrow>
     ('st machine, ('b, 'rc, 'sd) resume_error, ('b, 'rc, 'sd) agent_checkpoint \<times> 'b agent_state) action" where
  "claim_checkpoint rt ops w i input =
     seq (map_err_a CheckpointLoad (on_store w (st_load ops i))) (\<lambda>cp.
     seq (lift_r (validate_checkpoint rt cp input)) (\<lambda>st.
     seq (map_err_a (take_error i) (on_store w (st_take ops i))) (\<lambda>_.
       give (cp, st))))"

definition resume_with_context ::
  "nat \<Rightarrow> ('b, 'u, 'e, 'rc, 'sd, 'ri, 'st) graph_runtime \<Rightarrow> 'st world \<Rightarrow> checkpoint_id \<Rightarrow> 'ri \<Rightarrow>
     run_trace \<Rightarrow> 'st machine \<Rightarrow>
     ((('b, 'rc, 'sd) resume_error, ('b, 'rc, 'sd) graph_execution_result) result \<times> 'st machine) option" where
  "resume_with_context fuel rt w i input trace m =
     (case rt_store rt of
        None \<Rightarrow> Some (Err (RunFailed MissingStore), m)
      | Some ops \<Rightarrow>
          (case claim_checkpoint rt ops w i input m of
             (Err e, m') \<Rightarrow> Some (Err e, m')
           | (Panic, m') \<Rightarrow> Some (Panic, m')
           | (Ok (cp, st), m') \<Rightarrow>
               (let (ctx, usage) = run_context_resume (cp_run_id cp) (cp_budget cp) (cp_usage cp)
                      (sig_now (w_signals w (mc_tick m'))) (restore_trace (cp_trace cp) trace) in
                map_option (\<lambda>(r, m''). (map_err RunFailed r, m''))
                  (execute_from fuel rt w ctx True
                     \<lparr>ls_state = st, ls_current = next_node (cp_position cp),
                      ls_visited = cp_visited cp, ls_receipts = cp_receipts cp\<rparr>
                     (tick (m'\<lparr>mc_usage := usage\<rparr>))))))"

definition resume ::
  "nat \<Rightarrow> ('b, 'u, 'e, 'rc, 'sd, 'ri, 'st) graph_runtime \<Rightarrow> 'st world \<Rightarrow> checkpoint_id \<Rightarrow> 'ri \<Rightarrow>
     'st machine \<Rightarrow>
     ((('b, 'rc, 'sd) resume_error, ('b, 'rc, 'sd) graph_execution_result) result \<times> 'st machine) option" where
  "resume fuel rt w i input m =
     resume_with_context fuel rt (uncancelled w) i input run_trace_default m"

end
