(* ===== verification/Compile_Correct.thy ===== *)
theory Compile_Correct
  imports Graph_Definition
begin

text \<open>
  Correctness of \<open>GraphDefinition::compile\<close>: the edges of a graph, the two searches as
  reachability, the validators as conditions on the transitions, and from them the
  characterisation of the accepted graphs.
\<close>

section \<open>Edges and paths\<close>

definition edge :: "(node_id, 's transition_rule) btree \<Rightarrow> node_id \<Rightarrow> node_id \<Rightarrow> bool" where
  "edge ts a b \<longleftrightarrow> (\<exists>t. bt_get ts a = Some t \<and> b \<in> set (transition_targets t))"

abbreviation path :: "(node_id, 's transition_rule) btree \<Rightarrow> node_id \<Rightarrow> node_id \<Rightarrow> bool" where
  "path ts \<equiv> (edge ts)\<^sup>*\<^sup>*"

lemma closed_contains_reachable:
  assumes "E\<^sup>*\<^sup>* a b" and "a \<in> S" and "\<And>a b. a \<in> S \<Longrightarrow> E a b \<Longrightarrow> b \<in> S"
  shows "b \<in> S"
  using assms(1,2) by (induction rule: rtranclp_induct) (auto intro: assms(3))

section \<open>The forward search\<close>

lemma reach_loop_not_Err: "reach_loop ts seen q \<noteq> Err e"
  by (induction ts seen q rule: reach_loop.induct) (auto split: option.splits)

lemma reach_loop_sound:
  "reach_loop ts seen q = Ok r \<Longrightarrow> n \<in> set r \<Longrightarrow> n \<in> set seen \<or> (\<exists>a\<in>set q. path ts a n)"
proof (induction ts seen q rule: reach_loop.induct)
  case (1 ts seen)
  then show ?case by simp
next
  case (2 ts seen m q)
  show ?case
  proof (cases "m \<in> set seen")
    case True
    with 2 show ?thesis by auto
  next
    case False
    with "2.prems"(1) obtain t where t: "bt_get ts m = Some t"
        "reach_loop ts (bs_insert m seen) (q @ transition_targets t) = Ok r"
      by (auto split: option.splits)
    with False "2.IH"(2) "2.prems"(2)
    have "n = m \<or> n \<in> set seen \<or> (\<exists>a\<in>set q \<union> set (transition_targets t). path ts a n)"
      by auto
    moreover have "path ts m n" if "a \<in> set (transition_targets t)" "path ts a n" for a
      using that t(1) by (auto simp: edge_def intro: converse_rtranclp_into_rtranclp)
    ultimately show ?thesis by auto
  qed
qed

lemma reach_loop_complete:
  assumes "reach_loop ts seen q = Ok r"
    and "\<And>a b. a \<in> set seen \<Longrightarrow> edge ts a b \<Longrightarrow> b \<in> set seen \<union> set q"
  shows "set seen \<union> set q \<subseteq> set r \<and> (\<forall>a\<in>set r. \<forall>b. edge ts a b \<longrightarrow> b \<in> set r)"
  using assms
proof (induction ts seen q rule: reach_loop.induct)
  case (1 ts seen)
  then show ?case by auto
next
  case (2 ts seen m q)
  show ?case
  proof (cases "m \<in> set seen")
    case True
    have "\<And>a b. a \<in> set seen \<Longrightarrow> edge ts a b \<Longrightarrow> b \<in> set seen \<union> set q"
      using "2.prems"(2) True by fastforce
    with True 2 show ?thesis by auto
  next
    case False
    with "2.prems"(1) obtain t where t: "bt_get ts m = Some t"
        "reach_loop ts (bs_insert m seen) (q @ transition_targets t) = Ok r"
      by (auto split: option.splits)
    have "b \<in> set (bs_insert m seen) \<union> set (q @ transition_targets t)"
      if "a \<in> set (bs_insert m seen)" "edge ts a b" for a b
      using that "2.prems"(2) [of a b] t(1) by (auto simp: edge_def)
    with "2.IH"(2) [OF False t(1) t(2)] show ?thesis by auto
  qed
qed

lemma reach_loop_no_Panic:
  assumes "\<And>n. n \<in> set q \<Longrightarrow> bt_get ts n \<noteq> None"
    and "\<And>a b. edge ts a b \<Longrightarrow> bt_get ts b \<noteq> None"
  shows "reach_loop ts seen q \<noteq> Panic"
  using assms
proof (induction ts seen q rule: reach_loop.induct)
  case (1 ts seen)
  then show ?case by simp
next
  case (2 ts seen m q)
  show ?case
  proof (cases "m \<in> set seen")
    case True
    with 2 show ?thesis by auto
  next
    case False
    from "2.prems"(1) obtain t where t: "bt_get ts m = Some t" by fastforce
    have "bt_get ts n \<noteq> None" if "n \<in> set (q @ transition_targets t)" for n
      using that "2.prems"(1) "2.prems"(2) [of m n] t by (auto simp: edge_def)
    with "2.IH"(2) [OF False t] "2.prems"(2) False t show ?thesis by simp
  qed
qed

lemma reach_loop_result:
  assumes "\<And>n. n \<in> set q \<Longrightarrow> bt_get ts n \<noteq> None"
    and "\<And>a b. edge ts a b \<Longrightarrow> bt_get ts b \<noteq> None"
  obtains r where "reach_loop ts [] q = Ok r" "set r = {n. \<exists>a\<in>set q. path ts a n}"
proof -
  have "reach_loop ts [] q \<noteq> Panic"
    using assms by (rule reach_loop_no_Panic)
  then obtain r where r: "reach_loop ts [] q = Ok r"
    using reach_loop_not_Err [of ts "[]" q] by (cases "reach_loop ts [] q") auto
  have closed: "set q \<subseteq> set r" "\<And>a b. a \<in> set r \<Longrightarrow> edge ts a b \<Longrightarrow> b \<in> set r"
    using reach_loop_complete [OF r] by auto
  have "b \<in> set r" if "a \<in> set q" "path ts a b" for a b
    using that closed(1) by (blast intro: closed_contains_reachable closed(2))
  with reach_loop_sound [OF r] have "set r = {n. \<exists>a\<in>set q. path ts a n}"
    by auto
  with r show ?thesis by (rule that)
qed

section \<open>The backward search\<close>

definition pred_edge :: "(node_id, node_id list) btree \<Rightarrow> node_id \<Rightarrow> node_id \<Rightarrow> bool" where
  "pred_edge preds b a \<longleftrightarrow> a \<in> set (unwrap_or (bt_get preds b) [])"

lemma back_loop_sound:
  "n \<in> set (back_loop preds seen q) \<Longrightarrow> n \<in> set seen \<or> (\<exists>a\<in>set q. (pred_edge preds)\<^sup>*\<^sup>* a n)"
proof (induction preds seen q rule: back_loop.induct)
  case (1 preds seen)
  then show ?case by simp
next
  case (2 preds seen m q)
  have via: "(pred_edge preds)\<^sup>*\<^sup>* m n"
    if "bt_get preds m = Some p" "a \<in> set p" "(pred_edge preds)\<^sup>*\<^sup>* a n" for p a
    using that by (auto simp: pred_edge_def intro: converse_rtranclp_into_rtranclp)
  from 2 show ?case
    by (cases "m \<in> set seen"; cases "bt_get preds m") (auto dest: via)
qed

lemma back_loop_complete:
  assumes "\<And>a b. a \<in> set seen \<Longrightarrow> pred_edge preds a b \<Longrightarrow> b \<in> set seen \<union> set q"
  shows "set seen \<union> set q \<subseteq> set (back_loop preds seen q) \<and>
    (\<forall>a\<in>set (back_loop preds seen q). \<forall>b. pred_edge preds a b \<longrightarrow> b \<in> set (back_loop preds seen q))"
  using assms
proof (induction preds seen q rule: back_loop.induct)
  case (1 preds seen)
  then show ?case by auto
next
  case (2 preds seen m q)
  show ?case
  proof (cases "m \<in> set seen")
    case True
    have "\<And>a b. a \<in> set seen \<Longrightarrow> pred_edge preds a b \<Longrightarrow> b \<in> set seen \<union> set q"
      using "2.prems" True by fastforce
    with True 2 show ?thesis by auto
  next
    case False
    show ?thesis
    proof (cases "bt_get preds m")
      case None
      have "b \<in> set (bs_insert m seen) \<union> set q"
        if "a \<in> set (bs_insert m seen)" "pred_edge preds a b" for a b
        using that "2.prems" [of a b] None by (auto simp: pred_edge_def)
      with "2.IH"(2) [OF False None] False None show ?thesis by auto
    next
      case (Some p)
      have "b \<in> set (bs_insert m seen) \<union> set (q @ p)"
        if "a \<in> set (bs_insert m seen)" "pred_edge preds a b" for a b
        using that "2.prems" [of a b] Some by (auto simp: pred_edge_def)
      with "2.IH"(3) [OF False Some] False Some show ?thesis by auto
    qed
  qed
qed

lemma back_loop_result:
  "set (back_loop preds [] q) = {n. \<exists>a\<in>set q. (pred_edge preds)\<^sup>*\<^sup>* a n}"
proof -
  let ?r = "set (back_loop preds [] q)"
  have closed: "set q \<subseteq> ?r" "\<And>a b. a \<in> ?r \<Longrightarrow> pred_edge preds a b \<Longrightarrow> b \<in> ?r"
    using back_loop_complete [of "[]" preds q] by auto
  have "b \<in> ?r" if "a \<in> set q" "(pred_edge preds)\<^sup>*\<^sup>* a b" for a b
    using that closed(1) by (blast intro: closed_contains_reachable closed(2))
  with back_loop_sound [of _ preds "[]" q] show ?thesis
    by auto
qed

section \<open>Predecessors\<close>

lemma push_entry_get:
  "unwrap_or (bt_get (push_entry k v m) a) [] =
     unwrap_or (bt_get m a) [] @ (if a = k then [v] else [])"
  by (simp add: push_entry_def)

lemma push_all_get:
  "set (unwrap_or (bt_get (fold (\<lambda>target. push_entry target src) targets m) a) []) =
     set (unwrap_or (bt_get m a) []) \<union> (if a \<in> set targets then {src} else {})"
  by (induction targets arbitrary: m) (auto simp: push_entry_get)

lemma predecessors_fold:
  "set (unwrap_or (bt_get (fold (\<lambda>(src, t). fold (\<lambda>target. push_entry target src)
      (transition_targets t)) ts m) a) []) =
     set (unwrap_or (bt_get m a) []) \<union> {src. \<exists>t. (src, t) \<in> set ts \<and> a \<in> set (transition_targets t)}"
proof (induction ts arbitrary: m)
  case Nil
  show ?case by simp
next
  case (Cons e ts)
  obtain src t where e: "e = (src, t)" by force
  show ?case
    by (simp only: e fold_Cons o_apply prod.case Cons push_all_get) auto
qed

lemma pred_edge_edge:
  assumes "bt_ok ts"
  shows "pred_edge (predecessors ts) b a \<longleftrightarrow> edge ts a b"
proof -
  have "pred_edge (predecessors ts) b a \<longleftrightarrow> (\<exists>t. (a, t) \<in> set ts \<and> b \<in> set (transition_targets t))"
    using predecessors_fold [of ts "[]" b] by (simp add: pred_edge_def predecessors_def)
  with assms show ?thesis by (simp add: edge_def bt_ok_mem_iff)
qed

lemma pred_edge_path:
  assumes "bt_ok ts"
  shows "(pred_edge (predecessors ts))\<^sup>*\<^sup>* b a \<longleftrightarrow> path ts a b"
proof -
  have "pred_edge (predecessors ts) = (edge ts)\<inverse>\<inverse>"
    by (simp add: fun_eq_iff pred_edge_edge [OF assms])
  then show ?thesis by (simp add: rtranclp_conversep)
qed

section \<open>The validators\<close>

lemma first_outside_None: "first_outside nodes seen = None \<longleftrightarrow> set (bt_keys nodes) \<subseteq> set seen"
  by (auto simp: first_outside_def find_None_iff)

lemma first_outside_Some:
  "first_outside nodes seen = Some n \<Longrightarrow> n \<in> set (bt_keys nodes) \<and> n \<notin> set seen"
  unfolding first_outside_def by (rule find_Some_in)

lemma validate_target_Ok [guard_simps]:
  "validate_target nodes src target = Ok u \<longleftrightarrow> bt_contains nodes target"
  by (simp add: validate_target_def result_simps)

lemma validate_target_no_Panic [simp]: "validate_target nodes src target \<noteq> Panic"
  by (simp add: validate_target_def result_simps)

lemma collect_routes_Ok:
  "collect_routes src seen rs = Ok unique \<longleftrightarrow>
     distinct rs \<and> set rs \<inter> set seen = {} \<and> unique = fold bs_insert rs seen"
  by (induction src seen rs rule: collect_routes.induct) auto

lemma collect_routes_no_Panic [simp]: "collect_routes src seen rs \<noteq> Panic"
  by (induction src seen rs rule: collect_routes.induct) auto

lemma set_fold_bs_insert: "set (fold bs_insert rs seen) = set rs \<union> set seen"
  by (induction rs arbitrary: seen) auto

text \<open>What a branch has to satisfy: its targets name each route its router knows once, no
  other, and lead to nodes of the graph.\<close>

definition branch_ok ::
  "(node_id, 'x agent_node) btree \<Rightarrow> 's router \<Rightarrow> (route_key, node_id) btree \<Rightarrow> bool" where
  "branch_ok nodes rt targets \<longleftrightarrow>
     targets \<noteq> [] \<and> distinct (known_routes rt)
     \<and> set (known_routes rt) = set (bt_keys targets)
     \<and> set (bt_values targets) \<subseteq> set (bt_keys nodes)"

lemma validate_branch_Ok [guard_simps]:
  "validate_branch nodes src rt targets = Ok u \<longleftrightarrow> branch_ok nodes rt targets"
  by (auto simp: validate_branch_def branch_ok_def result_simps guard_simps collect_routes_Ok
      set_fold_bs_insert bt_contains_iff split_beta subset_iff)

lemma validate_branch_no_Panic [simp]: "validate_branch nodes src rt targets \<noteq> Panic"
  by (auto simp: validate_branch_def result_simps split_beta intro!: all_ok_no_Panic)

definition transition_ok :: "(node_id, 'x agent_node) btree \<Rightarrow> 's transition_rule \<Rightarrow> bool" where
  "transition_ok nodes t \<longleftrightarrow>
     (case t of
        Goto n \<Rightarrow> bt_contains nodes n
      | Branch rt targets \<Rightarrow> branch_ok nodes rt targets
      | End \<Rightarrow> True)"

lemma validate_transition_Ok:
  "validate_transition nodes e = Ok u \<longleftrightarrow> transition_ok nodes (snd e)"
  by (auto simp: validate_transition_def transition_ok_def guard_simps split: transition_rule.splits)

lemma validate_transitions_Ok [guard_simps]:
  "validate_transitions nodes ts = Ok u \<longleftrightarrow> (\<forall>t\<in>set (bt_values ts). transition_ok nodes t)"
  by (auto simp: validate_transitions_def result_simps validate_transition_Ok)

lemma validate_transitions_no_Panic [simp]: "validate_transitions nodes ts \<noteq> Panic"
  by (auto simp: validate_transitions_def validate_transition_def intro!: all_ok_no_Panic
      split: transition_rule.splits)

lemma transition_ok_targets:
  "transition_ok nodes t \<Longrightarrow> n \<in> set (transition_targets t) \<Longrightarrow> bt_contains nodes n"
  by (cases t) (auto simp: transition_ok_def branch_ok_def bt_contains_iff)

section \<open>The accepted graphs\<close>

text \<open>
  The representation invariant of a definition, kept by every builder method: ordered maps,
  nodes filed under their own id, transitions of existing nodes only.
\<close>

definition graph_ok :: "('x, 's) graph_definition \<Rightarrow> bool" where
  "graph_ok g \<longleftrightarrow>
     bt_ok (g_nodes g) \<and> bt_ok (g_transitions g) \<and> bt_ok (g_exits g)
     \<and> (\<forall>k n. bt_get (g_nodes g) k = Some n \<longrightarrow> an_id n = k)
     \<and> (\<forall>k. bt_contains (g_transitions g) k \<longrightarrow> bt_contains (g_nodes g) k)"

definition is_terminal :: "(node_id, 's transition_rule) btree \<Rightarrow> node_id \<Rightarrow> bool" where
  "is_terminal ts n \<longleftrightarrow> bt_get ts n = Some End"

definition wf_graph :: "('x, 's) graph_definition \<Rightarrow> node_id \<Rightarrow> bool" where
  "wf_graph g entry \<longleftrightarrow>
     g_exits g = [] \<and> g_entry g = Some entry \<and> bt_contains (g_nodes g) entry
     \<and> (\<forall>n\<in>set (bt_keys (g_nodes g)).
          (\<exists>t. bt_get (g_transitions g) n = Some t \<and> transition_ok (g_nodes g) t)
          \<and> path (g_transitions g) entry n
          \<and> (\<exists>m. is_terminal (g_transitions g) m \<and> path (g_transitions g) n m))"

definition compiled :: "graph_policy \<Rightarrow> ('x, 's) graph_definition \<Rightarrow> node_id \<Rightarrow> ('x, 's) compiled_graph" where
  "compiled policy g entry =
     \<lparr>c_id = g_id g, c_version = g_version g, c_nodes = g_nodes g, c_entry = entry,
      c_transitions = g_transitions g, c_policy = policy\<rparr>"

lemma is_end_iff: "is_end t \<longleftrightarrow> t = End"
  by (cases t) auto

lemma terminal_nodes_iff:
  "bt_ok ts \<Longrightarrow> n \<in> set (terminal_nodes ts) \<longleftrightarrow> is_terminal ts n"
  by (force simp: terminal_nodes_def is_terminal_def is_end_iff bt_ok_mem_iff [symmetric])

text \<open>What has been established when the two searches run.\<close>

definition closed_graph ::
  "(node_id, 'x agent_node) btree \<Rightarrow> (node_id, 's transition_rule) btree \<Rightarrow> bool" where
  "closed_graph nodes ts \<longleftrightarrow>
     (\<forall>n. bt_contains nodes n \<longrightarrow> bt_contains ts n) \<and> (\<forall>a b. edge ts a b \<longrightarrow> bt_contains nodes b)"

lemma closed_graphI:
  assumes "\<forall>n\<in>set (bt_keys nodes). bt_contains ts n"
    and "\<forall>t\<in>set (bt_values ts). transition_ok nodes t"
  shows "closed_graph nodes ts"
  using assms
  by (force simp: closed_graph_def edge_def bt_contains_iff dest!: map_of_SomeD
      dest: transition_ok_targets)

lemma search_result:
  assumes "closed_graph nodes ts" and "bt_contains nodes entry"
  obtains r where "reach_loop ts [] [entry] = Ok r" "set r = {n. path ts entry n}"
proof -
  have "bt_get ts n \<noteq> None" if "n \<in> set [entry]" for n
    using assms that by (auto simp: closed_graph_def bt_contains_def)
  moreover have "bt_get ts b \<noteq> None" if "edge ts a b" for a b
    using assms that by (auto simp: closed_graph_def bt_contains_def)
  ultimately obtain r where "reach_loop ts [] [entry] = Ok r" "set r = {n. \<exists>a\<in>set [entry]. path ts a n}"
    by (rule reach_loop_result)
  then show ?thesis by (intro that) auto
qed

lemma validate_reachability_cases:
  assumes "closed_graph nodes ts" and "bt_contains nodes entry"
  shows "validate_reachability entry nodes ts = Ok () \<longleftrightarrow> (\<forall>n\<in>set (bt_keys nodes). path ts entry n)"
    and "validate_reachability entry nodes ts = Err e \<Longrightarrow>
      \<exists>n. e = UnreachableNode n \<and> bt_contains nodes n \<and> \<not> path ts entry n"
    and "validate_reachability entry nodes ts \<noteq> Panic"
proof -
  obtain r where r: "reach_loop ts [] [entry] = Ok r" "set r = {n. path ts entry n}"
    using assms by (rule search_result)
  show "validate_reachability entry nodes ts = Ok () \<longleftrightarrow> (\<forall>n\<in>set (bt_keys nodes). path ts entry n)"
    using r first_outside_None [of nodes r]
    by (auto simp: validate_reachability_def split: option.splits)
  show "validate_reachability entry nodes ts \<noteq> Panic"
    using r by (simp add: validate_reachability_def split: option.splits)
  show "\<exists>n. e = UnreachableNode n \<and> bt_contains nodes n \<and> \<not> path ts entry n"
    if "validate_reachability entry nodes ts = Err e"
    using that r by (auto simp: validate_reachability_def bt_contains_iff split: option.splits
        dest!: first_outside_Some)
qed

lemma validate_terminal_paths_cases:
  assumes "bt_ok ts"
  shows "validate_terminal_paths nodes ts = Ok () \<longleftrightarrow>
      (\<exists>n. is_terminal ts n) \<and> (\<forall>n\<in>set (bt_keys nodes). \<exists>m. is_terminal ts m \<and> path ts n m)"
    and "validate_terminal_paths nodes ts = Err e \<Longrightarrow>
      (e = NoTerminalPath \<and> (\<nexists>n. is_terminal ts n))
      \<or> (\<exists>n. e = NodeCannotReachEnd n \<and> bt_contains nodes n \<and> (\<nexists>m. is_terminal ts m \<and> path ts n m))"
    and "validate_terminal_paths nodes ts \<noteq> Panic"
proof -
  have none: "terminal_nodes ts = [] \<longleftrightarrow> (\<nexists>n. is_terminal ts n)"
    using terminal_nodes_iff [OF assms] by (metis all_not_in_conv set_empty2)
  have bwd: "set (back_loop (predecessors ts) [] (terminal_nodes ts))
      = {n. \<exists>m. is_terminal ts m \<and> path ts n m}"
    by (auto simp: back_loop_result terminal_nodes_iff [OF assms] pred_edge_path [OF assms])
  show "validate_terminal_paths nodes ts = Ok () \<longleftrightarrow>
      (\<exists>n. is_terminal ts n) \<and> (\<forall>n\<in>set (bt_keys nodes). \<exists>m. is_terminal ts m \<and> path ts n m)"
    using first_outside_None [of nodes "back_loop (predecessors ts) [] (terminal_nodes ts)"]
    by (auto simp: validate_terminal_paths_def none bwd split: option.splits)
  show "(e = NoTerminalPath \<and> (\<nexists>n. is_terminal ts n))
      \<or> (\<exists>n. e = NodeCannotReachEnd n \<and> bt_contains nodes n \<and> (\<nexists>m. is_terminal ts m \<and> path ts n m))"
    if "validate_terminal_paths nodes ts = Err e"
    using that by (auto simp: validate_terminal_paths_def none bwd bt_contains_iff
        split: option.splits if_splits dest!: first_outside_Some)
  show "validate_terminal_paths nodes ts \<noteq> Panic"
    by (auto simp: validate_terminal_paths_def split: option.splits)
qed

section \<open>The builder keeps the invariant\<close>

lemma graph_ok_new: "graph_ok (new_versioned i v)"
  by (simp add: graph_ok_def new_versioned_def)

lemma graph_ok_add_node: "graph_ok g \<Longrightarrow> add_node n g = Ok g' \<Longrightarrow> graph_ok g'"
  by (auto simp: graph_ok_def add_node_def split: if_splits)

lemma graph_ok_set_entry: "graph_ok g \<Longrightarrow> graph_ok (set_entry n g)"
  by (simp add: graph_ok_def set_entry_def)

lemma graph_ok_set_transition: "graph_ok g \<Longrightarrow> set_transition n t g = Ok g' \<Longrightarrow> graph_ok g'"
  by (auto simp: graph_ok_def set_transition_def split: if_splits)

section \<open>The stages of compile\<close>

text \<open>The verdict of \<open>compile\<close> once the entry is known to be a node and every node to have a
  transition.\<close>

definition search_stage ::
  "node_id \<Rightarrow> ('x, 's) graph_definition \<Rightarrow> (graph_compile_error, unit) result" where
  "search_stage entry g =
     bind_r (validate_transitions (g_nodes g) (g_transitions g)) (\<lambda>_.
     bind_r (validate_reachability entry (g_nodes g) (g_transitions g)) (\<lambda>_.
       validate_terminal_paths (g_nodes g) (g_transitions g)))"

lemma compile_stages:
  "compile policy g =
     (case g_exits g of
        (exit, _) # _ \<Rightarrow> Err (UnresolvedFragmentExit (exit_key_display exit))
      | [] \<Rightarrow>
          (case g_entry g of
             None \<Rightarrow> Err MissingEntry
           | Some entry \<Rightarrow>
               if \<not> bt_contains (g_nodes g) entry then Err (EntryNodeMissing entry)
               else bind_r (all_ok (\<lambda>n. ensure (bt_contains (g_transitions g) n) (MissingTransition n))
                      (bt_keys (g_nodes g))) (\<lambda>_.
                    bind_r (search_stage entry g) (\<lambda>_. Ok (compiled policy g entry)))))"
  by (auto simp: compile_def ok_or_def ensure_def search_stage_def bind_r_assoc compiled_def
      split: list.splits option.splits)

lemma search_stage_cases:
  assumes "bt_ok (g_transitions g)" and "bt_contains (g_nodes g) entry"
    and "\<forall>n\<in>set (bt_keys (g_nodes g)). bt_contains (g_transitions g) n"
  shows "search_stage entry g = Ok () \<longleftrightarrow>
      (\<forall>t\<in>set (bt_values (g_transitions g)). transition_ok (g_nodes g) t)
      \<and> (\<forall>n\<in>set (bt_keys (g_nodes g)). path (g_transitions g) entry n
            \<and> (\<exists>m. is_terminal (g_transitions g) m \<and> path (g_transitions g) n m))"
    and "search_stage entry g \<noteq> Panic"
proof -
  have nonempty: "entry \<in> set (bt_keys (g_nodes g))"
    using assms(2) by (simp add: bt_contains_iff)
  show "search_stage entry g = Ok () \<longleftrightarrow>
      (\<forall>t\<in>set (bt_values (g_transitions g)). transition_ok (g_nodes g) t)
      \<and> (\<forall>n\<in>set (bt_keys (g_nodes g)). path (g_transitions g) entry n
            \<and> (\<exists>m. is_terminal (g_transitions g) m \<and> path (g_transitions g) n m))"
  proof (cases "\<forall>t\<in>set (bt_values (g_transitions g)). transition_ok (g_nodes g) t")
    case True
    note reach = validate_reachability_cases(1) [OF closed_graphI [OF assms(3) True] assms(2)]
    have "search_stage entry g = Ok () \<longleftrightarrow>
        validate_transitions (g_nodes g) (g_transitions g) = Ok ()
        \<and> validate_reachability entry (g_nodes g) (g_transitions g) = Ok ()
        \<and> validate_terminal_paths (g_nodes g) (g_transitions g) = Ok ()"
      by (simp add: search_stage_def result_simps)
    with True reach nonempty show ?thesis
      unfolding validate_transitions_Ok validate_terminal_paths_cases(1) [OF assms(1)] by blast
  next
    case False
    then have "validate_transitions (g_nodes g) (g_transitions g) \<noteq> Ok ()"
      by (simp only: validate_transitions_Ok) simp
    then have "search_stage entry g \<noteq> Ok ()" by (simp add: search_stage_def result_simps)
    with False show ?thesis by blast
  qed
  show "search_stage entry g \<noteq> Panic"
  proof
    assume "search_stage entry g = Panic"
    then have "\<forall>t\<in>set (bt_values (g_transitions g)). transition_ok (g_nodes g) t"
      and panic: "validate_reachability entry (g_nodes g) (g_transitions g) = Panic"
      using validate_terminal_paths_cases(3) [OF assms(1)]
      by (auto simp: search_stage_def result_simps guard_simps)
    then show False
      using validate_reachability_cases(3) [OF closed_graphI [OF assms(3)] assms(2)] by blast
  qed
qed

text \<open>What each compile error says of the graph.\<close>

definition graph_defect :: "('x, 's) graph_definition \<Rightarrow> graph_compile_error \<Rightarrow> bool" where
  "graph_defect g e =
     (let nodes = g_nodes g; ts = g_transitions g in
      case e of
        UnresolvedFragmentExit x \<Rightarrow> \<exists>k\<in>set (bt_keys (g_exits g)). x = exit_key_display k
      | MissingEntry \<Rightarrow> g_entry g = None
      | EntryNodeMissing n \<Rightarrow> g_entry g = Some n \<and> \<not> bt_contains nodes n
      | MissingTransition n \<Rightarrow> bt_contains nodes n \<and> \<not> bt_contains ts n
      | DanglingTarget a b \<Rightarrow> edge ts a b \<and> \<not> bt_contains nodes b
      | EmptyBranch n \<Rightarrow> \<exists>rt. bt_get ts n = Some (Branch rt [])
      | DuplicateKnownRoute n r \<Rightarrow>
          \<exists>rt tg. bt_get ts n = Some (Branch rt tg) \<and> r \<in> set (known_routes rt)
            \<and> \<not> distinct (known_routes rt)
      | MissingRouteTarget n r \<Rightarrow>
          \<exists>rt tg. bt_get ts n = Some (Branch rt tg) \<and> r \<in> set (known_routes rt)
            \<and> \<not> bt_contains tg r
      | UnknownRouteTarget n r \<Rightarrow>
          \<exists>rt tg. bt_get ts n = Some (Branch rt tg) \<and> r \<notin> set (known_routes rt)
            \<and> bt_contains tg r
      | UnreachableNode n \<Rightarrow>
          bt_contains nodes n \<and> (\<forall>entry. g_entry g = Some entry \<longrightarrow> \<not> path ts entry n)
      | NoTerminalPath \<Rightarrow> \<nexists>n. is_terminal ts n
      | NodeCannotReachEnd n \<Rightarrow> bt_contains nodes n \<and> (\<nexists>m. is_terminal ts m \<and> path ts n m))"

lemma collect_routes_Err:
  "collect_routes src seen rs = Err e \<Longrightarrow>
     \<exists>r. e = DuplicateKnownRoute src r \<and> r \<in> set rs \<and> (r \<in> set seen \<or> \<not> distinct rs)"
  by (induction src seen rs rule: collect_routes.induct) (auto split: if_splits)

lemma validate_target_Err:
  "validate_target nodes src target = Err e \<longleftrightarrow>
     e = DanglingTarget src target \<and> \<not> bt_contains nodes target"
  by (auto simp: validate_target_def result_simps)

lemma validate_branch_Err:
  assumes "validate_branch (g_nodes g) src rt targets = Err e"
    and "bt_get (g_transitions g) src = Some (Branch rt targets)"
  shows "graph_defect g e"
proof -
  consider (empty) "targets = []" "e = EmptyBranch src"
    | (dup) "targets \<noteq> []" "collect_routes src [] (known_routes rt) = Err e"
    | (routes) unique where "targets \<noteq> []" "collect_routes src [] (known_routes rt) = Ok unique"
      "all_ok (\<lambda>r. ensure (bt_contains targets r) (MissingRouteTarget src r)) unique = Err e"
    | (targets) unique where "targets \<noteq> []" "collect_routes src [] (known_routes rt) = Ok unique"
      "all_ok (\<lambda>(r, target).
              bind_r (ensure (r \<in> set unique) (UnknownRouteTarget src r)) (\<lambda>_.
                validate_target (g_nodes g) src target)) targets = Err e"
    using assms(1) by (auto simp: validate_branch_def result_simps split: if_splits)
  then show ?thesis
  proof cases
    case empty
    with assms(2) show ?thesis by (auto simp: graph_defect_def)
  next
    case dup
    with assms(2) collect_routes_Err [OF dup(2)] show ?thesis by (auto simp: graph_defect_def)
  next
    case routes
    from all_ok_Err [OF routes(3)] routes(2) assms(2) show ?thesis
      by (auto simp: result_simps collect_routes_Ok set_fold_bs_insert graph_defect_def)
  next
    case targets
    from all_ok_Err [OF targets(3)] obtain r target where e: "(r, target) \<in> set targets"
        "bind_r (ensure (r \<in> set unique) (UnknownRouteTarget src r))
          (\<lambda>_. validate_target (g_nodes g) src target) = Err e"
      by auto
    have "bt_contains targets r"
      using e(1) by (auto simp: bt_contains_iff image_iff intro!: bexI [of _ "(r, target)"])
    moreover have "edge (g_transitions g) src target"
      using e(1) assms(2) by (auto simp: edge_def image_iff intro!: bexI [of _ "(r, target)"])
    ultimately show ?thesis
      using e(2) targets(2) assms(2)
      by (auto simp: result_simps validate_target_Err collect_routes_Ok set_fold_bs_insert
          graph_defect_def)
  qed
qed

lemma validate_transitions_Err:
  assumes "bt_ok (g_transitions g)"
    and "validate_transitions (g_nodes g) (g_transitions g) = Err e"
  shows "graph_defect g e"
proof -
  from all_ok_Err [OF assms(2) [unfolded validate_transitions_def]]
  obtain src t where t: "(src, t) \<in> set (g_transitions g)"
      "validate_transition (g_nodes g) (src, t) = Err e"
    by auto
  with assms(1) have get: "bt_get (g_transitions g) src = Some t"
    by (simp add: bt_ok_mem_iff)
  show ?thesis
  proof (cases t)
    case (Goto n)
    with t(2) get show ?thesis
      by (auto simp: validate_transition_def validate_target_Err graph_defect_def edge_def)
  next
    case (Branch rt targets)
    with t(2) get show ?thesis
      by (auto simp: validate_transition_def intro: validate_branch_Err)
  next
    case End
    with t(2) show ?thesis by (simp add: validate_transition_def)
  qed
qed

text \<open>An accepted graph.\<close>

definition compiled_ok :: "('x, 's) compiled_graph \<Rightarrow> bool" where
  "compiled_ok c \<longleftrightarrow>
     bt_contains (c_nodes c) (c_entry c)
     \<and> (\<forall>n. bt_contains (c_nodes c) n \<longleftrightarrow> bt_contains (c_transitions c) n)
     \<and> (\<forall>n t. bt_get (c_transitions c) n = Some t \<longrightarrow> transition_ok (c_nodes c) t)
     \<and> (\<forall>n. bt_contains (c_nodes c) n \<longrightarrow>
          path (c_transitions c) (c_entry c) n
          \<and> (\<exists>m. is_terminal (c_transitions c) m \<and> path (c_transitions c) n m))"

lemma compile_Ok_iff:
  assumes "graph_ok g"
  shows "compile policy g = Ok c \<longleftrightarrow> (\<exists>entry. wf_graph g entry \<and> c = compiled policy g entry)"
proof (cases "g_exits g")
  case (Cons x xs)
  then show ?thesis by (auto simp: compile_stages wf_graph_def split: prod.splits)
next
  case Nil
  note exits = Nil
  show ?thesis
  proof (cases "g_entry g")
    case None
    with exits show ?thesis by (simp add: compile_stages wf_graph_def)
  next
    case (Some entry)
    show ?thesis
    proof (cases "bt_contains (g_nodes g) entry \<and>
        (\<forall>n\<in>set (bt_keys (g_nodes g)). bt_contains (g_transitions g) n)")
      case True
      have ts: "bt_ok (g_transitions g)"
        and sub: "\<And>k. bt_contains (g_transitions g) k \<Longrightarrow> bt_contains (g_nodes g) k"
        using assms by (auto simp: graph_ok_def)
      have "(\<forall>t\<in>set (bt_values (g_transitions g)). transition_ok (g_nodes g) t) \<longleftrightarrow>
          (\<forall>n\<in>set (bt_keys (g_nodes g)). \<exists>t. bt_get (g_transitions g) n = Some t \<and> transition_ok (g_nodes g) t)"
        (is "?all \<longleftrightarrow> ?each")
      proof
        assume ?all
        then show ?each
          using True bt_ok_mem_iff [OF ts] by (force simp: bt_contains_def)
      next
        assume each: ?each
        show ?all
        proof
          fix t assume "t \<in> set (bt_values (g_transitions g))"
          then obtain n where n: "bt_get (g_transitions g) n = Some t"
            using bt_ok_mem_iff [OF ts] by fastforce
          then have "n \<in> set (bt_keys (g_nodes g))"
            using sub [of n] by (simp only: bt_contains_iff [symmetric]) (simp add: bt_contains_def)
          with each n show "transition_ok (g_nodes g) t" by fastforce
        qed
      qed
      then have "wf_graph g entry \<longleftrightarrow> search_stage entry g = Ok ()"
        unfolding search_stage_cases(1) [OF ts conjunct1 [OF True] conjunct2 [OF True]]
        using exits Some True by (simp only: wf_graph_def) blast
      moreover have "compile policy g = Ok c \<longleftrightarrow> search_stage entry g = Ok () \<and> c = compiled policy g entry"
        using exits Some True by (auto simp: compile_stages result_simps)
      moreover have "wf_graph g e \<Longrightarrow> e = entry" for e
        using Some by (simp add: wf_graph_def)
      ultimately show ?thesis by blast
    next
      case False
      then have "compile policy g \<noteq> Ok c"
        using exits Some by (auto simp: compile_stages result_simps)
      moreover have "\<not> wf_graph g e" for e
      proof
        assume "wf_graph g e"
        then have "bt_contains (g_nodes g) entry"
          and "\<forall>n\<in>set (bt_keys (g_nodes g)). \<exists>t. bt_get (g_transitions g) n = Some t"
          using Some by (auto simp: wf_graph_def)
        then have "bt_contains (g_nodes g) entry"
          and "\<forall>n\<in>set (bt_keys (g_nodes g)). bt_contains (g_transitions g) n"
          by (simp_all only: bt_contains_def) auto
        with False show False by blast
      qed
      ultimately show ?thesis by blast
    qed
  qed
qed

lemma compile_compiled_ok:
  assumes "graph_ok g" and "compile policy g = Ok c"
  shows "compiled_ok c"
proof -
  obtain entry where wf: "wf_graph g entry" and c: "c = compiled policy g entry"
    using assms by (auto simp: compile_Ok_iff)
  have keys: "n \<in> set (bt_keys (g_nodes g)) \<longleftrightarrow> bt_contains (g_nodes g) n" for n
    by (simp add: bt_contains_iff)
  have sub: "bt_contains (g_transitions g) k \<Longrightarrow> bt_contains (g_nodes g) k" for k
    using assms(1) by (simp add: graph_ok_def)
  have each: "bt_contains (g_nodes g) n \<Longrightarrow>
      (\<exists>t. bt_get (g_transitions g) n = Some t \<and> transition_ok (g_nodes g) t)
      \<and> path (g_transitions g) entry n
      \<and> (\<exists>m. is_terminal (g_transitions g) m \<and> path (g_transitions g) n m)" for n
    using wf by (simp only: wf_graph_def keys)
  have "transition_ok (g_nodes g) t" if "bt_get (g_transitions g) n = Some t" for n t
    using each [of n] sub [of n] that by (auto simp: bt_contains_def)
  moreover have "bt_contains (g_transitions g) n" if "bt_contains (g_nodes g) n" for n
    using each [OF that] by (auto simp: bt_contains_def)
  moreover have "bt_contains (g_nodes g) entry"
    using wf by (simp add: wf_graph_def)
  ultimately show ?thesis
    using each sub by (auto simp: compiled_ok_def c compiled_def)
qed

lemma compile_not_Panic:
  assumes "graph_ok g"
  shows "compile policy g \<noteq> Panic"
proof
  assume panic: "compile policy g = Panic"
  then obtain entry where entry: "g_entry g = Some entry" and exits: "g_exits g = []"
    and node: "bt_contains (g_nodes g) entry"
    by (auto simp: compile_stages split: list.splits option.splits if_splits)
  have "all_ok (\<lambda>n. ensure (bt_contains (g_transitions g) n) (MissingTransition n))
      (bt_keys (g_nodes g)) \<noteq> Panic"
    by (rule all_ok_no_Panic) (simp add: result_simps)
  with panic entry exits node have "\<forall>n\<in>set (bt_keys (g_nodes g)). bt_contains (g_transitions g) n"
    and "search_stage entry g = Panic"
    by (auto simp: compile_stages result_simps)
  with node assms search_stage_cases(2) [of g entry] show False by (auto simp: graph_ok_def)
qed

lemma compile_Err_defect:
  assumes "graph_ok g" and err: "compile policy g = Err e"
  shows "graph_defect g e"
proof (cases "g_exits g")
  case (Cons x xs)
  with err show ?thesis by (auto simp: compile_stages graph_defect_def split: prod.splits)
next
  case Nil
  note exits = Nil
  show ?thesis
  proof (cases "g_entry g")
    case None
    with exits err show ?thesis by (auto simp: compile_stages graph_defect_def)
  next
    case (Some entry)
    have ts: "bt_ok (g_transitions g)" using assms(1) by (simp add: graph_ok_def)
    consider (no_entry) "\<not> bt_contains (g_nodes g) entry" "e = EntryNodeMissing entry"
      | (no_transition) "all_ok (\<lambda>n. ensure (bt_contains (g_transitions g) n) (MissingTransition n))
            (bt_keys (g_nodes g)) = Err e"
      | (search) "bt_contains (g_nodes g) entry" "search_stage entry g = Err e"
          "\<forall>n\<in>set (bt_keys (g_nodes g)). bt_contains (g_transitions g) n"
      using exits Some err by (auto simp: compile_stages result_simps split: if_splits)
    then show ?thesis
    proof cases
      case no_entry
      with Some show ?thesis by (simp add: graph_defect_def)
    next
      case no_transition
      from all_ok_Err [OF no_transition] show ?thesis
        by (force simp: result_simps graph_defect_def bt_contains_iff [of "g_nodes g"])
    next
      case search
      consider (transitions) "validate_transitions (g_nodes g) (g_transitions g) = Err e"
        | (reach) "validate_transitions (g_nodes g) (g_transitions g) = Ok ()"
          "validate_reachability entry (g_nodes g) (g_transitions g) = Err e"
        | (terminal) "validate_terminal_paths (g_nodes g) (g_transitions g) = Err e"
        using search(2) by (auto simp: search_stage_def result_simps)
      then show ?thesis
      proof cases
        case transitions
        with ts show ?thesis by (rule validate_transitions_Err)
      next
        case reach
        then have "closed_graph (g_nodes g) (g_transitions g)"
          using search(3) by (intro closed_graphI) (simp_all only: validate_transitions_Ok)
        from validate_reachability_cases(2) [OF this search(1) reach(2)] Some
        show ?thesis by (auto simp: graph_defect_def)
      next
        case terminal
        from validate_terminal_paths_cases(2) [OF ts terminal] show ?thesis
          by (auto simp: graph_defect_def)
      qed
    qed
  qed
qed

section \<open>Properties\<close>

text \<open>A two-node graph, the input of the witnesses.\<close>

definition two_nodes :: "(unit, unit) graph_definition" where
  "two_nodes =
     \<lparr>g_id = GraphId ''g'', g_version = GraphVersion 1,
      g_nodes = [(NodeId ''a'', \<lparr>an_id = NodeId ''a'', an_execute = ()\<rparr>),
                 (NodeId ''b'', \<lparr>an_id = NodeId ''b'', an_execute = ()\<rparr>)],
      g_entry = Some (NodeId ''a''),
      g_transitions = [(NodeId ''a'', Goto (NodeId ''b'')), (NodeId ''b'', End)],
      g_namespaces = [], g_exits = []\<rparr>"

lemma graph_ok_two_nodes: "graph_ok two_nodes"
  by (auto simp: graph_ok_def two_nodes_def bt_ok_def bt_contains_def split: if_splits)

lemma compile_two_nodes:
  "compile (\<lparr>policy_max_steps = 8\<rparr>) two_nodes = Ok (compiled (\<lparr>policy_max_steps = 8\<rparr>) two_nodes (NodeId ''a''))"
  by (simp add: compile_def two_nodes_def bt_contains_def ok_or_def ensure_def validate_transitions_def
      validate_transition_def validate_target_def validate_reachability_def first_outside_def
      validate_terminal_paths_def terminal_nodes_def predecessors_def push_entry_def compiled_def)

text \<open>
  C16: \<open>compile\<close> accepts exactly the well-formed graphs and returns them unchanged: no fragment
  exit is left open, the entry is a node, every node has a transition whose targets are nodes
  and whose branch covers the routes of its router exactly, every node is reachable from the
  entry, and from every node some \<open>End\<close> node is reachable.
\<close>

theorem compile_accepts_exactly:
  assumes "graph_ok g"
  shows "compile policy g = Ok c \<longleftrightarrow> (\<exists>entry. wf_graph g entry \<and> c = compiled policy g entry)"
  using assms by (rule compile_Ok_iff)

theorem compile_accepts_exactly_witness:
  "wf_graph two_nodes (NodeId ''a'')"
proof -
  have "\<exists>entry. wf_graph two_nodes entry
      \<and> compiled (\<lparr>policy_max_steps = 8\<rparr>) two_nodes (NodeId ''a'')
        = compiled (\<lparr>policy_max_steps = 8\<rparr>) two_nodes entry"
    using compile_accepts_exactly [OF graph_ok_two_nodes] compile_two_nodes by blast
  then show ?thesis by (auto simp: compiled_def)
qed

text \<open>
  \<open>compile\<close> never panics on a definition made by the builder (the \<open>expect\<close> of the search
  is never reached without a transition), and every error it returns describes a defect the
  definition has: the node it names is a node that cannot be reached, or cannot reach an end,
  the route it names is missing or undeclared, and so on for each error.
\<close>

theorem compile_errors_are_true:
  assumes "graph_ok g"
  shows "compile policy g \<noteq> Panic \<and> (\<forall>e. compile policy g = Err e \<longrightarrow> graph_defect g e)"
  using compile_not_Panic [OF assms] compile_Err_defect [OF assms] by blast

theorem compile_errors_are_true_witness:
  "graph_defect (two_nodes\<lparr>g_entry := Some (NodeId ''b'')\<rparr>) (UnreachableNode (NodeId ''a''))"
proof -
  have ok: "graph_ok (two_nodes\<lparr>g_entry := Some (NodeId ''b'')\<rparr>)"
    using graph_ok_two_nodes by (simp add: graph_ok_def)
  have "compile (\<lparr>policy_max_steps = 8\<rparr>) (two_nodes\<lparr>g_entry := Some (NodeId ''b'')\<rparr>)
      = Err (UnreachableNode (NodeId ''a''))"
    by (simp add: compile_def two_nodes_def bt_contains_def ok_or_def ensure_def
        validate_transitions_def validate_transition_def validate_target_def
        validate_reachability_def first_outside_def)
  then show ?thesis using compile_errors_are_true [OF ok] by blast
qed

end
