(* ===== verification/Runtime_Correct.thy ===== *)
theory Runtime_Correct
  imports Graph_Runtime Compile_Correct
begin

text \<open>
  What a run guarantees. The lemmas follow the composition of the runtime: futures and the
  primitives of a turn (they only move the budget forward, within its limits), the effects
  loop, one turn, the loop. The invariant \<open>progress_ok\<close> of a run is a condition on values that
  a checkpoint stores, so it carries over from a suspended run to the resumed one.
\<close>

section \<open>The budget moves forward\<close>

definition forward :: "run_budget \<Rightarrow> 'st machine \<Rightarrow> 'st machine \<Rightarrow> bool" where
  "forward b m m' \<longleftrightarrow>
     (within_limits b (mc_usage m) \<longrightarrow> within_limits b (mc_usage m'))
     \<and> (\<forall>r. meter_of (mc_usage m) r \<le> meter_of (mc_usage m') r)"

lemma forward_refl [simp]: "mc_usage m' = mc_usage m \<Longrightarrow> forward b m m'"
  by (simp add: forward_def)

lemma forward_trans: "forward b m m' \<Longrightarrow> forward b m' m'' \<Longrightarrow> forward b m m''"
  unfolding forward_def using order_trans by blast

lemma mc_usage_tick [simp]: "mc_usage (tick m) = mc_usage m"
  by (simp add: tick_def)

lemma mc_store_tick [simp]: "mc_store (tick m) = mc_store m"
  by (simp add: tick_def)

lemma forward_tick [simp]: "forward b m (tick m') \<longleftrightarrow> forward b m m'" "forward b (tick m) m' \<longleftrightarrow> forward b m m'"
  by (simp_all add: forward_def)

lemma forward_call: "forward b m (m\<lparr>mc_usage := snd (run_budget_call b c (mc_usage m))\<rparr>)"
  by (simp add: forward_def within_limits_call meter_mono_call)

lemma forward_steps: "forward b m m' \<Longrightarrow> unat (steps (mc_usage m)) \<le> unat (steps (mc_usage m'))"
  unfolding forward_def by (metis budget_resource.simps(13) meter_of_def)

lemma run_program_forward: "run_program w ctx p m = (r, m') \<Longrightarrow> forward (ctx_limits ctx) m m'"
proof (induction p arbitrary: m)
  case (Done a)
  then show ?case by simp
next
  case (Yield p)
  then show ?case
    by (auto simp: Let_def split: if_splits dest: Yield.IH)
next
  case (Budget c f)
  obtain q u where call: "run_budget_call (ctx_limits ctx) c (mc_usage m) = (q, u)" by force
  with Budget.prems have "run_program w ctx (f q) (m\<lparr>mc_usage := u\<rparr>) = (r, m')" by simp
  then have "forward (ctx_limits ctx) (m\<lparr>mc_usage := u\<rparr>) m'" by (rule Budget.IH [OF rangeI])
  with forward_call [of "ctx_limits ctx" m c] call show ?case
    by (auto intro: forward_trans)
next
  case (ReadUsage f)
  then show ?case by auto
qed

lemma run_program_store: "run_program w ctx p m = (r, m') \<Longrightarrow> mc_store m' = mc_store m"
proof (induction p arbitrary: m)
  case (Yield p)
  then show ?case by (auto simp: Let_def split: if_splits dest: Yield.IH)
next
  case (Budget c f)
  obtain q u where "run_budget_call (ctx_limits ctx) c (mc_usage m) = (q, u)" by force
  with Budget.prems Budget.IH [OF rangeI, of q "m\<lparr>mc_usage := u\<rparr>"] show ?case by simp
qed auto

section \<open>The primitives of a turn\<close>

text \<open>\<open>quiet\<close>: the budget moves forward and the store is not touched.\<close>

definition quiet :: "run_budget \<Rightarrow> 'st machine \<Rightarrow> 'st machine \<Rightarrow> bool" where
  "quiet b m m' \<longleftrightarrow> forward b m m' \<and> mc_store m' = mc_store m"

lemma quiet_refl [simp]: "quiet b m m"
  by (simp add: quiet_def)

lemma quiet_trans: "quiet b m m' \<Longrightarrow> quiet b m' m'' \<Longrightarrow> quiet b m m''"
  by (auto simp: quiet_def intro: forward_trans)

lemma quiet_lift_r: "lift_r x m = (r, m') \<Longrightarrow> quiet b m m'"
  by (simp add: lift_r_eq)

lemma quiet_give: "give x m = (r, m') \<Longrightarrow> quiet b m m'"
  by (simp add: give_eq)

lemma quiet_seq:
  assumes "seq f g m = (r, m')"
    and "\<And>q t. f m = (q, t) \<Longrightarrow> quiet b m t"
    and "\<And>a t q v. f m = (Ok a, t) \<Longrightarrow> g a t = (q, v) \<Longrightarrow> quiet b t v"
  shows "quiet b m m'"
  using assms by (rule seq_state) (auto intro: quiet_trans)

lemma quiet_ready: "ready w ctx gm m = (r, m') \<Longrightarrow> quiet (ctx_limits ctx) m m'"
  using forward_call [of "ctx_limits ctx" m "NestedStep gm"]
  by (auto simp: ready_def check_ready_def quiet_def forget_def Let_def check_active_def forward_def
      split: prod.splits result.splits if_splits)

lemma quiet_active: "active w ctx m = (r, m') \<Longrightarrow> quiet b m m'"
  by (auto simp: active_def quiet_def)

lemma quiet_execute_node: "execute_node w ctx nd st cur m = (r, m') \<Longrightarrow> quiet (ctx_limits ctx) m m'"
  by (auto simp: execute_node_def select_biased_def quiet_def
      simp del: run_program.simps split: prod.splits selected.splits
      dest: run_program_forward run_program_store)

lemma quiet_execute_effect:
  "map_err_a f (execute_effect w ctx ex env) m = (r, m') \<Longrightarrow> quiet (ctx_limits ctx) m m'"
  by (auto simp: execute_effect_def map_err_a_def select_biased_def quiet_def
      simp del: run_program.simps split: prod.splits selected.splits
      dest: run_program_forward run_program_store)

lemma quiet_charge: "charge ctx d m = (r, m') \<Longrightarrow> quiet (ctx_limits ctx) m m'"
  using forward_call [of "ctx_limits ctx" m "RecordUsage d"]
  by (auto simp: charge_def quiet_def Let_def split: prod.splits)

lemmas quiet_primitives = quiet_lift_r quiet_give quiet_ready quiet_active quiet_execute_node
  quiet_execute_effect quiet_charge

lemma quiet_run_effects:
  "run_effects rt w ctx step cur k effects acc m = (r, m') \<Longrightarrow> quiet (ctx_limits ctx) m m'"
proof (induction effects arbitrary: k acc m r m')
  case Nil
  then show ?case by (auto dest: quiet_give)
next
  case (Cons effect effects)
  obtain candidate completed receipts where acc: "acc = (candidate, completed, receipts)"
    by (cases acc)
  show ?case
  proof (cases "k \<ge> 2 ^ 32 \<or> rt_executor rt = None")
    case True
    with Cons.prems acc show ?thesis
      by (auto simp: Let_def split: option.splits if_splits dest: quiet_lift_r)
  next
    case False
    then obtain ex where ex: "rt_executor rt = Some ex" and k: "\<not> k \<ge> 2 ^ 32" by blast
    from Cons.prems ex k acc show ?thesis
      apply (simp only: run_effects.simps if_False Let_def option.case)
      apply (erule quiet_seq, erule quiet_active)
      apply (erule quiet_seq, erule quiet_execute_effect)
      apply (erule quiet_seq, erule quiet_lift_r)
      apply (erule Cons.IH)
      done
  qed
qed

lemma quiet_complete_node:
  "complete_node rt w ctx chk ls m = (r, m') \<Longrightarrow> quiet (ctx_limits ctx) m m'"
  unfolding complete_node_def Let_def
  apply (erule quiet_seq, erule quiet_primitives)+
  apply (simp only: split_beta)
  apply (erule quiet_seq, erule quiet_primitives)+
  apply (erule quiet_seq, erule quiet_run_effects)
  apply (simp only: split_beta)
  apply (erule quiet_seq, erule quiet_primitives)+
  apply (erule quiet_primitives)
  done

section \<open>Effect ids\<close>

text \<open>The ids of the effects of one step: consecutive ordinals under one run, step and node.\<close>

definition step_ids :: "run_id \<Rightarrow> run_step \<Rightarrow> node_id \<Rightarrow> nat \<Rightarrow> nat \<Rightarrow> effect_id list" where
  "step_ids rid step n k count = map (\<lambda>j. effect_id_new rid step n (word_of_nat j)) [k..<k + count]"

lemma step_ids_Cons:
  "step_ids rid step n k (Suc count) =
     effect_id_new rid step n (word_of_nat k) # step_ids rid step n (Suc k) count"
proof -
  have "[k..<k + Suc count] = k # [Suc k..<Suc k + count]"
    by (simp add: upt_conv_Cons del: upt_Suc)
  then show ?thesis by (simp only: step_ids_def list.map)
qed

lemma step_ids_distinct:
  assumes "k + count \<le> 2 ^ 32"
  shows "distinct (step_ids rid step n k count)"
proof -
  have "inj_on (\<lambda>j. word_of_nat j :: u32) {k..<k + count}"
  proof (rule inj_onI)
    fix i j assume "i \<in> {k..<k + count}" "j \<in> {k..<k + count}"
      and eq: "(word_of_nat i :: u32) = word_of_nat j"
    then have "i < 2 ^ 32" "j < 2 ^ 32" using assms by auto
    then show "i = j"
      using arg_cong [OF eq, of unat] by (simp add: unat_of_nat take_bit_nat_eq_self)
  qed
  then show ?thesis
    by (auto simp: step_ids_def distinct_map effect_id_new_def inj_on_def)
qed

lemma step_ids_parts:
  "i \<in> set (step_ids rid step n k count) \<Longrightarrow> eff_run_id i = rid \<and> eff_step i = step \<and> eff_node_id i = n"
  by (auto simp: step_ids_def effect_id_new_def)

lemma run_effects_Ok:
  assumes "run_effects rt w ctx step cur k effects (candidate, completed, receipts) m
      = (Ok (st, completed', receipts'), m')"
    and "k \<le> 2 ^ 32"
  shows "k + length effects \<le> 2 ^ 32
       \<and> (\<exists>new. receipts' = receipts @ new
            \<and> map rcpt_effect_id new = step_ids (ctx_run_id ctx) step cur k (length effects)
            \<and> completed' = completed @ map rcpt_effect_id new)
       \<and> (outcome candidate \<noteq> None \<longrightarrow> outcome st = outcome candidate)"
  using assms
proof (induction effects arbitrary: k candidate completed receipts m)
  case Nil
  then show ?case by (simp add: give_def step_ids_def)
next
  case (Cons effect effects)
  from Cons.prems(1) obtain ex where ex: "rt_executor rt = Some ex" and k: "\<not> k \<ge> 2 ^ 32"
    by (auto simp: Let_def lift_r_def split: option.splits if_splits)
  let ?eid = "effect_id_new (ctx_run_id ctx) step cur (word_of_nat k)"
  from Cons.prems(1) ex k obtain val candidate' m2 where
    upd: "update_or (rt_business rt) (PostEffectStateUpdateFailed cur ?eid) candidate
        (rt_receipt_updates rt val) = Ok candidate'"
    and rest: "run_effects rt w ctx step cur (Suc k) effects
        (candidate', completed @ [?eid],
         receipts @ [\<lparr>rcpt_effect_id = ?eid, rcpt_value = val\<rparr>]) m2
        = (Ok (st, completed', receipts'), m')"
    by (auto simp: Let_def result_simps)
  have out: "outcome candidate \<noteq> None \<longrightarrow> outcome candidate' = outcome candidate"
    using upd apply_all_terminal [of candidate "rt_business rt" "rt_receipt_updates rt val"]
    by (auto simp: update_or_def Let_def apply_updates_def result_simps
        split: prod.splits result.splits)
  from Cons.IH [OF rest] k out show ?case
    by (auto simp: step_ids_Cons)
qed

section \<open>One completed node\<close>

lemma ready_Ok:
  assumes "ready w ctx gm m = (Ok step, m')"
  shows "mc_store m' = mc_store m"
    and "step_get step = steps (mc_usage m')"
    and "unat (step_get step) \<le> min (limit_of (ctx_limits ctx) Steps) (unat gm)"
    and "min (limit_of (ctx_limits ctx) Steps) (unat gm) < 2 ^ 32 - 1 \<Longrightarrow>
      unat (step_get step) = unat (steps (mc_usage m)) + 1"
proof -
  obtain u where m': "m' = tick (m\<lparr>mc_usage := u\<rparr>)"
    and st: "reserve_step (ctx_limits ctx) gm (mc_usage m) = (Ok step, u)"
    using assms by (auto simp: ready_def check_ready_def Let_def split: prod.splits result.splits)
  show "mc_store m' = mc_store m" by (simp add: m')
  show "step_get step = steps (mc_usage m')"
    and "unat (step_get step) \<le> min (limit_of (ctx_limits ctx) Steps) (unat gm)"
    and "min (limit_of (ctx_limits ctx) Steps) (unat gm) < 2 ^ 32 - 1 \<Longrightarrow>
      unat (step_get step) = unat (steps (mc_usage m)) + 1"
    using st unat_next_step [of "mc_usage m"]
    by (cases "ctx_limits ctx" gm "mc_usage m" rule: reserve_step_cases; auto simp: m')+
qed

text \<open>Everything a completed node says about the machine, the graph and its effects.\<close>

lemma complete_node_Ok:
  assumes "complete_node rt w ctx chk ls m = (Ok nc, m')"
  obtains m1 t count where
    "ready w ctx (rt_max_steps rt) m = (Ok (nc_step nc), m1)"
    "quiet (ctx_limits ctx) m1 m'"
    "graph_transition (rt_graph rt) (ls_current ls) = Some t"
    "choose_next (ls_current ls) t (nc_state nc) = Ok (nc_next nc)"
    "nc_request nc \<noteq> None \<Longrightarrow> chk \<and> \<not> is_end t"
    "map rcpt_effect_id (nc_receipts nc) = step_ids (ctx_run_id ctx) (nc_step nc) (ls_current ls) 0 count"
    "count \<le> 2 ^ 32"
proof -
  from assms obtain step m1 nd res m2 updates effects usage request t m3 candidate st completed receipts nxt
    where nd: "graph_node (rt_graph rt) (ls_current ls) = Some nd"
      and parts: "ready w ctx (rt_max_steps rt) m = (Ok step, m1)"
      "execute_node w ctx nd (ls_state ls) (ls_current ls) m1 = (Ok res, m2)"
      "take_apart chk (ls_current ls) res = Ok (updates, effects, usage, request)"
      "graph_transition (rt_graph rt) (ls_current ls) = Some t"
      "\<not> suspends_at_end request t"
      "charge ctx usage m2 = (Ok (), m3)"
      "run_effects rt w ctx step (ls_current ls) 0 effects (candidate, [], []) m3
        = (Ok (st, completed, receipts), m')"
      "choose_next (ls_current ls) t st = Ok nxt"
      "nc = \<lparr>nc_step = step, nc_request = request, nc_state = st, nc_receipts = receipts,
             nc_next = nxt\<rparr>"
    by (auto simp: complete_node_def Let_def result_simps)
  have "quiet (ctx_limits ctx) m1 m'"
    using quiet_execute_node [OF parts(2)] quiet_charge [OF parts(6)] quiet_run_effects [OF parts(7)]
    by (auto intro: quiet_trans)
  moreover have "request \<noteq> None \<Longrightarrow> chk"
    using parts(3) by (auto simp: take_apart_def split: node_result.splits if_splits)
  moreover note run_effects_Ok [OF parts(7)]
  ultimately show ?thesis
    using parts by (intro that [of m1 t "length effects"]) (auto simp: suspends_at_end_def)
qed

section \<open>The invariant of a run\<close>

text \<open>
  \<open>progress_ok\<close>: the visited nodes and the current one form a path of the graph from the node
  the run started at; the counters are within the limits and no more nodes have completed than
  steps were reserved; every effect receipt carries an id of this run, of a step already taken
  and a node already visited, and no two receipts carry the same id.
\<close>

definition receipts_ok :: "run_id \<Rightarrow> usage_snapshot \<Rightarrow> node_id list \<Rightarrow> 'rc effect_receipt list \<Rightarrow> bool" where
  "receipts_ok rid usage visited receipts \<longleftrightarrow>
     distinct (map rcpt_effect_id receipts)
     \<and> (\<forall>r\<in>set receipts. eff_run_id (rcpt_effect_id r) = rid
          \<and> unat (step_get (eff_step (rcpt_effect_id r))) \<le> unat (steps usage)
          \<and> eff_node_id (rcpt_effect_id r) \<in> set visited)"

definition progress_ok ::
  "(node_id, 's transition_rule) btree \<Rightarrow> node_id \<Rightarrow> run_id \<Rightarrow> run_budget \<Rightarrow> usage_snapshot \<Rightarrow> node_id \<Rightarrow>
     node_id list \<Rightarrow> 'rc effect_receipt list \<Rightarrow> bool" where
  "progress_ok ts start rid limits usage current visited receipts \<longleftrightarrow>
     hd (visited @ [current]) = start
     \<and> successively (edge ts) (visited @ [current])
     \<and> within_limits limits usage
     \<and> length visited \<le> unat (steps usage)
     \<and> receipts_ok rid usage visited receipts"

definition loop_ok ::
  "('b, 'u, 'e, 'rc, 'sd, 'ri, 'st) graph_runtime \<Rightarrow> node_id \<Rightarrow> run_context \<Rightarrow> ('b, 'rc) loop_state \<Rightarrow>
     'st machine \<Rightarrow> bool" where
  "loop_ok rt start ctx ls m \<longleftrightarrow>
     bt_contains (c_nodes (rt_graph rt)) (ls_current ls)
     \<and> progress_ok (c_transitions (rt_graph rt)) start (ctx_run_id ctx) (ctx_limits ctx) (mc_usage m)
         (ls_current ls) (ls_visited ls) (ls_receipts ls)"

text \<open>The configured step limit of a run, and the assumption that it is not the largest 32-bit
  number (where the counter saturates).\<close>

definition step_cap :: "('b, 'u, 'e, 'rc, 'sd, 'ri, 'st) graph_runtime \<Rightarrow> run_context \<Rightarrow> nat" where
  "step_cap rt ctx = min (limit_of (ctx_limits ctx) Steps) (unat (rt_max_steps rt))"

definition capped :: "('b, 'u, 'e, 'rc, 'sd, 'ri, 'st) graph_runtime \<Rightarrow> run_context \<Rightarrow> bool" where
  "capped rt ctx \<longleftrightarrow> step_cap rt ctx < 2 ^ 32 - 1"

lemma choose_next_edge:
  assumes "graph_transition g cur = Some t" and "choose_next cur t st = Ok (Some n)"
  shows "edge (c_transitions g) cur n"
  using assms
  by (cases t) (auto simp: choose_next_def graph_transition_def edge_def result_simps image_iff
      dest!: map_of_SomeD split: if_splits intro!: bexI)

lemma choose_next_None:
  assumes "graph_transition g cur = Some t" and "choose_next cur t st = Ok None"
  shows "is_terminal (c_transitions g) cur \<and> outcome st \<noteq> None"
  using assms
  by (cases t) (auto simp: choose_next_def graph_transition_def is_terminal_def result_simps
      split: if_splits)

lemma edge_target_node:
  assumes "compiled_ok g" and "edge (c_transitions g) a b"
  shows "bt_contains (c_nodes g) b"
  using assms transition_ok_targets by (fastforce simp: compiled_ok_def edge_def)

lemma receipts_ok_mono:
  "receipts_ok rid u visited rs \<Longrightarrow> unat (steps u) \<le> unat (steps u') \<Longrightarrow> set visited \<subseteq> set visited' \<Longrightarrow>
     receipts_ok rid u' visited' rs"
  by (fastforce simp: receipts_ok_def)

text \<open>One completed node extends the progress of the run.\<close>

lemma complete_node_progress:
  assumes ok: "loop_ok rt start ctx ls m" and cap: "capped rt ctx"
    and completes: "complete_node rt w ctx chk ls m = (Ok nc, m')"
  shows "within_limits (ctx_limits ctx) (mc_usage m')"
    and "unat (steps (mc_usage m)) + 1 \<le> unat (steps (mc_usage m'))"
    and "unat (step_get (nc_step nc)) = unat (steps (mc_usage m)) + 1"
    and "unat (step_get (nc_step nc)) \<le> step_cap rt ctx"
    and "receipts_ok (ctx_run_id ctx) (mc_usage m') (ls_visited ls @ [ls_current ls])
          (ls_receipts ls @ nc_receipts nc)"
    and "length (ls_visited ls @ [ls_current ls]) \<le> unat (steps (mc_usage m'))"
proof -
  from completes obtain m1 t count where
    ready: "ready w ctx (rt_max_steps rt) m = (Ok (nc_step nc), m1)"
    and quiet: "quiet (ctx_limits ctx) m1 m'"
    and ids: "map rcpt_effect_id (nc_receipts nc)
        = step_ids (ctx_run_id ctx) (nc_step nc) (ls_current ls) 0 count" "count \<le> 2 ^ 32"
    by (rule complete_node_Ok)
  have all: "quiet (ctx_limits ctx) m m'"
    using quiet_ready [OF ready] quiet by (rule quiet_trans)
  have old: "receipts_ok (ctx_run_id ctx) (mc_usage m) (ls_visited ls) (ls_receipts ls)"
    and len: "length (ls_visited ls) \<le> unat (steps (mc_usage m))"
    and lim: "within_limits (ctx_limits ctx) (mc_usage m)"
    using ok by (simp_all add: loop_ok_def progress_ok_def)
  show "within_limits (ctx_limits ctx) (mc_usage m')"
    using all lim by (simp add: quiet_def forward_def)
  show step: "unat (step_get (nc_step nc)) = unat (steps (mc_usage m)) + 1"
    using ready_Ok(4) [OF ready] cap by (simp add: capped_def step_cap_def)
  have now: "unat (step_get (nc_step nc)) \<le> unat (steps (mc_usage m'))"
    using forward_steps [of "ctx_limits ctx" m1 m'] quiet ready_Ok(2) [OF ready]
    by (simp add: quiet_def)
  with step show more: "unat (steps (mc_usage m)) + 1 \<le> unat (steps (mc_usage m'))" by simp
  with len show "length (ls_visited ls @ [ls_current ls]) \<le> unat (steps (mc_usage m'))" by simp
  show "unat (step_get (nc_step nc)) \<le> step_cap rt ctx"
    using ready_Ok(3) [OF ready] by (simp add: step_cap_def)
  have new: "eff_run_id (rcpt_effect_id r) = ctx_run_id ctx \<and> eff_step (rcpt_effect_id r) = nc_step nc
      \<and> eff_node_id (rcpt_effect_id r) = ls_current ls" if "r \<in> set (nc_receipts nc)" for r
    using that ids(1) step_ids_parts by (metis image_eqI list.set_map)
  have "distinct (map rcpt_effect_id (nc_receipts nc))"
    using ids step_ids_distinct [of 0 count] by simp
  moreover have "rcpt_effect_id r \<noteq> rcpt_effect_id q"
    if "r \<in> set (ls_receipts ls)" "q \<in> set (nc_receipts nc)" for r q
    using that old new [of q] step by (fastforce simp: receipts_ok_def)
  ultimately show "receipts_ok (ctx_run_id ctx) (mc_usage m') (ls_visited ls @ [ls_current ls])
          (ls_receipts ls @ nc_receipts nc)"
    using old new now more by (fastforce simp: receipts_ok_def)
qed

section \<open>One turn of the loop\<close>

lemma map_err_a_eq [result_simps]:
  "map_err_a g f s = (Ok a, t) \<longleftrightarrow> f s = (Ok a, t)"
  "map_err_a g f s = (Err e, t) \<longleftrightarrow> (\<exists>d. f s = (Err d, t) \<and> e = g d)"
  "map_err_a g f s = (Panic, t) \<longleftrightarrow> f s = (Panic, t)"
  by (cases "f s"; auto simp: map_err_a_def result_simps)+

lemma turn_NextNode:
  assumes "turn rt w ctx chk ls m = (Ok (NextNode ls'), m')"
  obtains nc where "complete_node rt w ctx chk ls m = (Ok nc, m')" "nc_request nc = None"
    "nc_next nc = Some (ls_current ls')" "ls_state ls' = nc_state nc"
    "ls_visited ls' = ls_visited ls @ [ls_current ls]"
    "ls_receipts ls' = ls_receipts ls @ nc_receipts nc"
  using assms by (fastforce simp: turn_def Let_def result_simps split: option.splits)

lemma turn_Completed:
  assumes "turn rt w ctx chk ls m = (Ok (Stop (Completed res)), m')"
  obtains nc where "complete_node rt w ctx chk ls m = (Ok nc, m')" "nc_request nc = None"
    "nc_next nc = None" "res = \<lparr>res_state = nc_state nc, res_usage = mc_usage m',
       res_visited = ls_visited ls @ [ls_current ls], res_run_id = ctx_run_id ctx,
       res_receipts = ls_receipts ls @ nc_receipts nc\<rparr>"
  using assms by (fastforce simp: turn_def Let_def result_simps split: option.splits)

lemma turn_Suspended:
  assumes "turn rt w ctx chk ls m = (Ok (Stop (Suspended cp)), m')"
  obtains nc request nxt m2 where "complete_node rt w ctx chk ls m = (Ok nc, m2)"
    "nc_request nc = Some request" "nc_next nc = Some nxt"
    "cp = make_checkpoint rt w ctx ls nc request nxt m2"
    "save_checkpoint rt w cp m2 = (Ok (), m')"
  using assms by (fastforce simp: turn_def Let_def result_simps split: option.splits)

lemma on_store_usage: "on_store w f m = (r, m') \<Longrightarrow> mc_usage m' = mc_usage m"
  by (auto simp: on_store_def Let_def split: prod.splits)

lemma save_checkpoint_usage: "save_checkpoint rt w cp m = (r, m') \<Longrightarrow> mc_usage m' = mc_usage m"
  by (auto simp: save_checkpoint_def map_err_a_def lift_r_def on_store_def Let_def
      split: option.splits prod.splits)

lemma turn_NextNode_ok:
  assumes graph: "compiled_ok (rt_graph rt)" and ok: "loop_ok rt start ctx ls m"
    and cap: "capped rt ctx" and turn: "turn rt w ctx chk ls m = (Ok (NextNode ls'), m')"
  shows "loop_ok rt start ctx ls' m'"
    and "unat (steps (mc_usage m)) + 1 \<le> unat (steps (mc_usage m'))"
    and "unat (steps (mc_usage m)) + 1 \<le> step_cap rt ctx"
proof -
  from turn obtain nc where nc: "complete_node rt w ctx chk ls m = (Ok nc, m')"
    "nc_next nc = Some (ls_current ls')" "ls_visited ls' = ls_visited ls @ [ls_current ls]"
    "ls_receipts ls' = ls_receipts ls @ nc_receipts nc"
    by (rule turn_NextNode)
  obtain t where "graph_transition (rt_graph rt) (ls_current ls) = Some t"
    "choose_next (ls_current ls) t (nc_state nc) = Ok (Some (ls_current ls'))"
    using complete_node_Ok [OF nc(1)] nc(2) by metis
  then have e: "edge (c_transitions (rt_graph rt)) (ls_current ls) (ls_current ls')"
    by (rule choose_next_edge)
  note prog = complete_node_progress [OF ok cap nc(1)]
  show "loop_ok rt start ctx ls' m'"
    using ok e edge_target_node [OF graph e] prog(1,5,6) nc(3,4)
    by (auto simp: loop_ok_def progress_ok_def successively_append_iff hd_append split: if_splits)
  show "unat (steps (mc_usage m)) + 1 \<le> unat (steps (mc_usage m'))" by (rule prog(2))
  show "unat (steps (mc_usage m)) + 1 \<le> step_cap rt ctx" using prog(3,4) by simp
qed

text \<open>What holds of a completed run and of the checkpoint of a suspended one.\<close>

definition completed_ok ::
  "('b, 'u, 'e, 'rc, 'sd, 'ri, 'st) graph_runtime \<Rightarrow> node_id \<Rightarrow> run_context \<Rightarrow> ('b, 'rc) graph_run_result \<Rightarrow> bool" where
  "completed_ok rt start ctx res \<longleftrightarrow>
     (\<exists>vs last. res_visited res = vs @ [last]
        \<and> is_terminal (c_transitions (rt_graph rt)) last
        \<and> hd (res_visited res) = start
        \<and> successively (edge (c_transitions (rt_graph rt))) (res_visited res))
     \<and> outcome (res_state res) \<noteq> None
     \<and> res_run_id res = ctx_run_id ctx
     \<and> within_limits (ctx_limits ctx) (res_usage res)
     \<and> length (res_visited res) \<le> unat (steps (res_usage res))
     \<and> receipts_ok (ctx_run_id ctx) (res_usage res) (res_visited res) (res_receipts res)"

definition checkpoint_ok ::
  "('b, 'u, 'e, 'rc, 'sd, 'ri, 'st) graph_runtime \<Rightarrow> node_id \<Rightarrow> ('b, 'rc, 'sd) agent_checkpoint \<Rightarrow> bool" where
  "checkpoint_ok rt start cp \<longleftrightarrow>
     cp_graph_id cp = c_id (rt_graph rt)
     \<and> cp_graph_version cp = c_version (rt_graph rt)
     \<and> cp_schema_version cp = state_schema_version (rt_business rt)
     \<and> bt_contains (c_nodes (rt_graph rt)) (next_node (cp_position cp))
     \<and> progress_ok (c_transitions (rt_graph rt)) start (cp_run_id cp) (cp_budget cp) (cp_usage cp)
         (next_node (cp_position cp)) (cp_visited cp) (cp_receipts cp)"

lemma turn_Completed_ok:
  assumes ok: "loop_ok rt start ctx ls m"
    and cap: "capped rt ctx" and turn: "turn rt w ctx chk ls m = (Ok (Stop (Completed res)), m')"
  shows "completed_ok rt start ctx res"
proof -
  from turn obtain nc where nc: "complete_node rt w ctx chk ls m = (Ok nc, m')"
    "nc_next nc = None" "res = \<lparr>res_state = nc_state nc, res_usage = mc_usage m',
       res_visited = ls_visited ls @ [ls_current ls], res_run_id = ctx_run_id ctx,
       res_receipts = ls_receipts ls @ nc_receipts nc\<rparr>"
    by (rule turn_Completed)
  obtain t where "graph_transition (rt_graph rt) (ls_current ls) = Some t"
    "choose_next (ls_current ls) t (nc_state nc) = Ok None"
    using complete_node_Ok [OF nc(1)] nc(2) by metis
  then have "is_terminal (c_transitions (rt_graph rt)) (ls_current ls) \<and> outcome (nc_state nc) \<noteq> None"
    by (rule choose_next_None)
  then show ?thesis
    using ok complete_node_progress [OF ok cap nc(1)] nc(3)
    by (simp add: completed_ok_def loop_ok_def progress_ok_def)
qed

lemma turn_Suspended_ok:
  assumes graph: "compiled_ok (rt_graph rt)" and ok: "loop_ok rt start ctx ls m"
    and cap: "capped rt ctx" and turn: "turn rt w ctx chk ls m = (Ok (Stop (Suspended cp)), m')"
  shows "checkpoint_ok rt start cp" and "chk"
    and "cp_run_id cp = ctx_run_id ctx" and "cp_budget cp = ctx_limits ctx"
    and "mc_usage m' = cp_usage cp"
proof -
  from turn obtain nc request nxt m2 where nc: "complete_node rt w ctx chk ls m = (Ok nc, m2)"
    "nc_request nc = Some request" "nc_next nc = Some nxt"
    "cp = make_checkpoint rt w ctx ls nc request nxt m2"
    "save_checkpoint rt w cp m2 = (Ok (), m')"
    by (rule turn_Suspended)
  obtain t where t: "graph_transition (rt_graph rt) (ls_current ls) = Some t"
    "choose_next (ls_current ls) t (nc_state nc) = Ok (Some nxt)" and chk: "chk"
    using complete_node_Ok [OF nc(1)] nc(2,3) by (metis option.distinct(1))
  have e: "edge (c_transitions (rt_graph rt)) (ls_current ls) nxt"
    using t by (rule choose_next_edge)
  note prog = complete_node_progress [OF ok cap nc(1)]
  show "checkpoint_ok rt start cp"
    using ok e edge_target_node [OF graph e] prog(1,5,6) nc(4)
    by (auto simp: checkpoint_ok_def make_checkpoint_def loop_ok_def progress_ok_def
        successively_append_iff hd_append split: if_splits)
  show "chk" by (rule chk)
  show "cp_run_id cp = ctx_run_id ctx" "cp_budget cp = ctx_limits ctx" "mc_usage m' = cp_usage cp"
    using nc(4) save_checkpoint_usage [OF nc(5)] by (simp_all add: make_checkpoint_def)
qed

section \<open>The loop\<close>

definition ends_with ::
  "(('b, 'rc, 'sd) checkpoint_run_error, ('b, 'rc, 'sd) iteration) result \<Rightarrow>
     (('b, 'rc, 'sd) checkpoint_run_error, ('b, 'rc, 'sd) graph_execution_result) result \<Rightarrow> bool" where
  "ends_with q r \<longleftrightarrow>
     (case q of
        Ok (Stop res) \<Rightarrow> r = Ok res
      | Ok (NextNode ls) \<Rightarrow> False
      | Err e \<Rightarrow> r = Err e
      | Panic \<Rightarrow> r = Panic)"

text \<open>A loop that has ended has ended with its last turn, and what every turn keeps holds
  before that one.\<close>

lemma execute_from_last:
  assumes "execute_from fuel rt w ctx chk ls m = Some (r, m')" and "I ls m"
    and "\<And>ls m ls' m'. I ls m \<Longrightarrow> turn rt w ctx chk ls m = (Ok (NextNode ls'), m') \<Longrightarrow> I ls' m'"
  shows "\<exists>ls1 m1 q. I ls1 m1 \<and> turn rt w ctx chk ls1 m1 = (q, m') \<and> ends_with q r"
  using assms(1,2)
proof (induction fuel arbitrary: ls m)
  case 0
  then show ?case by simp
next
  case (Suc fuel)
  obtain q m2 where turn: "turn rt w ctx chk ls m = (q, m2)" by force
  show ?case
  proof (cases "\<exists>ls'. q = Ok (NextNode ls')")
    case True
    then obtain ls' where q: "q = Ok (NextNode ls')" ..
    with Suc.prems(1) turn have "execute_from fuel rt w ctx chk ls' m2 = Some (r, m')" by simp
    moreover have "I ls' m2" using assms(3) Suc.prems(2) turn q by blast
    ultimately show ?thesis by (rule Suc.IH)
  next
    case False
    then have "m2 = m' \<and> ends_with q r"
      using Suc.prems(1) turn by (cases q) (auto simp: ends_with_def split: iteration.splits)
    then show ?thesis using Suc.prems(2) turn by blast
  qed
qed

text \<open>The turns a loop takes, as a step relation.\<close>

inductive reaches ::
  "('b, 'u, 'e, 'rc, 'sd, 'ri, 'st) graph_runtime \<Rightarrow> 'st world \<Rightarrow> run_context \<Rightarrow> bool \<Rightarrow>
     ('b, 'rc) loop_state \<Rightarrow> 'st machine \<Rightarrow> ('b, 'rc) loop_state \<Rightarrow> 'st machine \<Rightarrow> bool"
  for rt w ctx chk ls m where
  reaches_start: "reaches rt w ctx chk ls m ls m"
| reaches_turn: "reaches rt w ctx chk ls m ls1 m1 \<Longrightarrow> turn rt w ctx chk ls1 m1 = (Ok (NextNode ls2), m2) \<Longrightarrow>
     reaches rt w ctx chk ls m ls2 m2"

lemma reaches_ok:
  assumes "reaches rt w ctx chk ls m ls1 m1" and "compiled_ok (rt_graph rt)" and "loop_ok rt start ctx ls m"
    and "capped rt ctx"
  shows "loop_ok rt start ctx ls1 m1"
  using assms by (induction rule: reaches.induct) (blast intro: turn_NextNode_ok(1))+

lemma execute_from_reaches:
  assumes "execute_from fuel rt w ctx chk ls m = Some (r, m')"
  shows "\<exists>ls1 m1 q. reaches rt w ctx chk ls m ls1 m1 \<and> turn rt w ctx chk ls1 m1 = (q, m') \<and> ends_with q r"
  using assms reaches_start
  by (rule execute_from_last [where I = "reaches rt w ctx chk ls m"]) (rule reaches_turn)

text \<open>No run completes more nodes than its step limit.\<close>

lemma turn_visits:
  assumes ok: "loop_ok rt start ctx ls m" and cap: "capped rt ctx"
  shows "turn rt w ctx chk ls m = (Ok (Stop (Completed c)), m') \<Longrightarrow> length (res_visited c) \<le> step_cap rt ctx"
    and "turn rt w ctx chk ls m = (Ok (Stop (Suspended cp)), m') \<Longrightarrow> length (cp_visited cp) \<le> step_cap rt ctx"
proof -
  have len: "length (ls_visited ls) \<le> unat (steps (mc_usage m))"
    using ok by (simp add: loop_ok_def progress_ok_def)
  have bound: "length (ls_visited ls) + 1 \<le> step_cap rt ctx"
    if "complete_node rt w ctx chk ls m = (Ok nc, m2)" for nc m2
    using complete_node_progress(3,4) [OF ok cap that] len by linarith
  show "length (res_visited c) \<le> step_cap rt ctx" if "turn rt w ctx chk ls m = (Ok (Stop (Completed c)), m')"
    using that by (rule turn_Completed) (auto dest: bound)
  show "length (cp_visited cp) \<le> step_cap rt ctx" if "turn rt w ctx chk ls m = (Ok (Stop (Suspended cp)), m')"
    using that by (rule turn_Suspended) (auto dest: bound simp: make_checkpoint_def)
qed

text \<open>With as much fuel as there are steps left, the loop has ended.\<close>

lemma execute_from_terminates:
  assumes "compiled_ok (rt_graph rt)" and "loop_ok rt start ctx ls m" and "capped rt ctx"
    and "step_cap rt ctx - unat (steps (mc_usage m)) < fuel"
  shows "execute_from fuel rt w ctx chk ls m \<noteq> None"
  using assms(2,4)
proof (induction fuel arbitrary: ls m)
  case 0
  then show ?case by simp
next
  case (Suc fuel)
  have "execute_from fuel rt w ctx chk ls' m' \<noteq> None"
    if "turn rt w ctx chk ls m = (Ok (NextNode ls'), m')" for ls' m'
    using Suc.IH [of ls' m'] turn_NextNode_ok [OF assms(1) Suc.prems(1) assms(3) that] Suc.prems(2)
    by simp
  then show ?case by (simp split: prod.splits result.splits iteration.splits)
qed

lemma execute_from_last_ok:
  assumes "compiled_ok (rt_graph rt)" and "loop_ok rt start ctx ls m" and "capped rt ctx"
    and "execute_from fuel rt w ctx chk ls m = Some (r, m')"
  shows "\<exists>ls1 m1 q. loop_ok rt start ctx ls1 m1 \<and> turn rt w ctx chk ls1 m1 = (q, m') \<and> ends_with q r"
  using assms(4,2)
  by (rule execute_from_last) (erule turn_NextNode_ok(1) [OF assms(1) _ assms(3)])

lemma execute_from_result:
  assumes "compiled_ok (rt_graph rt)" and "loop_ok rt start ctx ls m" and "capped rt ctx"
    and "execute_from fuel rt w ctx chk ls m = Some (Ok res, m')"
  shows "case res of
      Completed c \<Rightarrow> completed_ok rt start ctx c
    | Suspended cp \<Rightarrow> chk \<and> checkpoint_ok rt start cp \<and> cp_run_id cp = ctx_run_id ctx
        \<and> cp_budget cp = ctx_limits ctx"
proof -
  obtain ls1 m1 q where last: "loop_ok rt start ctx ls1 m1" "turn rt w ctx chk ls1 m1 = (q, m')"
    "ends_with q (Ok res)"
    using execute_from_last_ok [OF assms] by blast
  then have "q = Ok (Stop res)"
    by (auto simp: ends_with_def split: result.splits iteration.splits)
  with last show ?thesis
    using turn_Completed_ok [OF last(1) assms(3)] turn_Suspended_ok [OF assms(1) last(1) assms(3)]
    by (cases res) auto
qed

section \<open>Panics and errors\<close>

text \<open>Code behind a trait object that does not panic itself.\<close>

primrec calm :: "('e, 'a) result program \<Rightarrow> bool" where
  "calm (Done r) \<longleftrightarrow> r \<noteq> Panic"
| "calm (Yield p) \<longleftrightarrow> calm p"
| "calm (Budget c f) \<longleftrightarrow> (\<forall>r. calm (f r))"
| "calm (ReadUsage f) \<longleftrightarrow> (\<forall>u. calm (f u))"

definition calm_parts :: "('b, 'u, 'e, 'rc, 'sd, 'ri, 'st) graph_runtime \<Rightarrow> bool" where
  "calm_parts rt \<longleftrightarrow>
     (\<forall>n nd st ctx k. graph_node (rt_graph rt) n = Some nd \<longrightarrow> calm (an_execute nd st ctx k))
     \<and> (\<forall>ex env ctx k. rt_executor rt = Some ex \<longrightarrow> calm (ex env ctx k))
     \<and> (\<forall>n rtr targets st. graph_transition (rt_graph rt) n = Some (Branch rtr targets) \<longrightarrow>
          select rtr st \<noteq> Panic)
     \<and> (\<forall>b u. fst (apply_update (rt_business rt) b u) \<noteq> Panic)
     \<and> (\<forall>ops cp s. rt_store rt = Some ops \<longrightarrow> fst (st_save ops cp s) \<noteq> Panic)"

text \<open>The part of it that is not about the nodes, and the node of one turn.\<close>

definition calm_services :: "('b, 'u, 'e, 'rc, 'sd, 'ri, 'st) graph_runtime \<Rightarrow> bool" where
  "calm_services rt \<longleftrightarrow>
     (\<forall>ex env ctx k. rt_executor rt = Some ex \<longrightarrow> calm (ex env ctx k))
     \<and> (\<forall>n rtr targets st. graph_transition (rt_graph rt) n = Some (Branch rtr targets) \<longrightarrow>
          select rtr st \<noteq> Panic)
     \<and> (\<forall>b u. fst (apply_update (rt_business rt) b u) \<noteq> Panic)
     \<and> (\<forall>ops cp s. rt_store rt = Some ops \<longrightarrow> fst (st_save ops cp s) \<noteq> Panic)"

definition calm_node ::
  "('b, 'u, 'e, 'rc, 'sd, 'ri, 'st) graph_runtime \<Rightarrow> run_context \<Rightarrow> ('b, 'rc) loop_state \<Rightarrow> bool" where
  "calm_node rt ctx ls \<longleftrightarrow>
     (\<forall>nd k. graph_node (rt_graph rt) (ls_current ls) = Some nd \<longrightarrow> calm (an_execute nd (ls_state ls) ctx k))"

lemma calm_parts_split: "calm_parts rt \<Longrightarrow> calm_services rt \<and> calm_node rt ctx ls"
  unfolding calm_parts_def calm_services_def calm_node_def by blast

lemma run_program_calm: "calm p \<Longrightarrow> run_program w ctx p m = (Output r, m') \<Longrightarrow> r \<noteq> Panic"
  by (induction p arbitrary: m) (auto simp: Let_def split: if_splits prod.splits)

lemma apply_updates_calm:
  assumes "\<And>b u. fst (apply_update B b u) \<noteq> Panic"
  shows "fst (apply_updates B s us) \<noteq> Panic"
proof -
  have one: "fst (apply_one B s u) \<noteq> Panic" for s :: "'a agent_state" and u
    using assms [of "business s"]
    by (cases u) (auto simp: apply_one_def Let_def split: prod.splits; metis fst_conv)+
  have "fst (apply_all B s us) \<noteq> Panic"
  proof (induction us arbitrary: s)
    case Nil
    show ?case by simp
  next
    case (Cons u us)
    obtain r t where "apply_one B s u = (r, t)" by force
    with one [of s u] Cons show ?case by (cases r) auto
  qed
  then show ?thesis by (auto simp: apply_updates_def split: prod.splits result.splits)
qed

lemma update_or_calm:
  assumes "calm_services rt"
  shows "update_or (rt_business rt) f s us \<noteq> Panic"
  using assms apply_updates_calm [of "rt_business rt" s us]
  by (auto simp: update_or_def Let_def result_simps calm_services_def split: prod.splits; metis fst_conv)

lemma run_effects_calm:
  assumes "calm_services rt"
  shows "fst (run_effects rt w ctx step cur k effects acc m) \<noteq> Panic"
proof (induction effects arbitrary: k acc m)
  case Nil
  show ?case by (simp add: give_def)
next
  case (Cons effect effects)
  obtain candidate completed receipts where acc: "acc = (candidate, completed, receipts)"
    by (cases acc)
  show ?case
  proof
    assume "fst (run_effects rt w ctx step cur k (effect # effects) acc m) = Panic"
    then obtain m' where p: "run_effects rt w ctx step cur k (effect # effects) acc m = (Panic, m')"
      by (metis prod.collapse)
    then obtain ex where ex: "rt_executor rt = Some ex"
      by (auto simp: acc Let_def lift_r_def split: option.splits if_splits)
    have no_exec: "execute_effect w ctx ex env t \<noteq> (Panic, m')" for env t
      using assms ex
      by (auto simp: execute_effect_def select_biased_def calm_services_def simp del: run_program.simps
          split: prod.splits selected.splits dest!: run_program_calm [rotated])
    have no_active: "active w ctx t \<noteq> (Panic, m')" for t
      by (simp add: active_def check_active_cases)
    have no_rest: "run_effects rt w ctx step cur (Suc k) effects acc' t \<noteq> (Panic, m')" for acc' t
      using Cons.IH [of "Suc k" acc' t] by auto
    show False
      using p ex update_or_calm [OF assms]
      by (auto simp: acc Let_def result_simps no_exec no_active no_rest split: if_splits)
  qed
qed

lemma choose_next_calm:
  assumes "calm_services rt" and "graph_transition (rt_graph rt) cur = Some t"
  shows "choose_next cur t st \<noteq> Panic"
proof -
  have "select rtr st \<noteq> Panic" if "t = Branch rtr targets" for rtr targets
    using assms that unfolding calm_services_def by blast
  then show ?thesis by (cases t) (auto simp: choose_next_def result_simps)
qed

lemma complete_node_calm:
  assumes "calm_services rt" and "calm_node rt ctx ls"
  shows "fst (complete_node rt w ctx chk ls m) \<noteq> Panic"
proof
  assume "fst (complete_node rt w ctx chk ls m) = Panic"
  then obtain m' where p: "complete_node rt w ctx chk ls m = (Panic, m')" by (metis prod.collapse)
  have "ready w ctx gm t \<noteq> (Panic, m')" for gm t
    using reserve_step_no_Panic
    by (auto simp: ready_def check_ready_def check_active_cases Let_def split: prod.splits result.splits;
        metis fst_conv)
  moreover have "execute_node w ctx nd (ls_state ls) cur t \<noteq> (Panic, m')"
    if "graph_node (rt_graph rt) (ls_current ls) = Some nd" for nd cur t
    using assms(2) that
    by (auto simp: execute_node_def select_biased_def calm_node_def result_simps
        simp del: run_program.simps split: prod.splits selected.splits dest!: run_program_calm [rotated])
  moreover have "take_apart chk cur res \<noteq> Panic" for cur and res :: "('b, 'c, 'e) node_result"
    by (auto simp: take_apart_def split: node_result.splits)
  moreover have "charge ctx d t \<noteq> (Panic, m')" for d t
    using budget_call_no_Panic [of "ctx_limits ctx" "RecordUsage d"]
    by (auto simp: charge_def Let_def split: prod.splits; metis fst_conv)
  moreover have "run_effects rt w ctx step cur k effects acc t \<noteq> (Panic, m')" for step cur k effects acc t
    using run_effects_calm [OF assms(1)] by (metis fst_conv)
  moreover note update_or_calm [OF assms(1)] choose_next_calm [OF assms(1)]
  ultimately show False
    using p by (auto simp: complete_node_def Let_def result_simps)
qed

text \<open>What the errors of a run mean on a compiled graph. The two errors of a missing node or
  transition cannot occur, and the others name the situation they report.\<close>

definition error_true ::
  "('b, 'u, 'e, 'rc, 'sd, 'ri, 'st) graph_runtime \<Rightarrow> bool \<Rightarrow> graph_run_error \<Rightarrow> bool" where
  "error_true rt chk e \<longleftrightarrow>
     (case e of
        MissingNode n \<Rightarrow> False
      | RunMissingTransition n \<Rightarrow> False
      | UnexpectedSuspend n \<Rightarrow> \<not> chk
      | SuspendAtEnd n \<Rightarrow> chk \<and> is_terminal (c_transitions (rt_graph rt)) n
      | MissingEffectExecutor n \<Rightarrow> rt_executor rt = None
      | UnknownRoute n r \<Rightarrow>
          (\<exists>rtr targets. graph_transition (rt_graph rt) n = Some (Branch rtr targets)
             \<and> r \<notin> set (known_routes rtr))
      | MissingOutcome \<Rightarrow> True
      | _ \<Rightarrow> True)"

lemma error_true_plain [simp]:
  "error_true rt chk RunCancelled" "error_true rt chk DeadlineExceeded"
  "error_true rt chk (BudgetExceeded res l a)" "error_true rt chk (NodeFailed n e)"
  "error_true rt chk (EffectFailed n i ids e')" "error_true rt chk (PostEffectStateUpdateFailed n i e'')"
  "error_true rt chk (StateUpdateFailed n e'')" "error_true rt chk MissingOutcome"
  by (simp_all add: error_true_def)

lemma error_true_into [simp]: "error_true rt chk (into_graph_run e n)"
  by (simp add: into_graph_run_def split: option.splits)

lemma budget_call_error: "fst (run_budget_call b c u) = Err e \<Longrightarrow> \<exists>r l a. e = BudgetExceeded r l a"
proof (cases "spec_grants b c (meter_of u) \<or> \<not> steps_bounded b c")
  case False
  then show "fst (run_budget_call b c u) = Err e \<Longrightarrow> \<exists>r l a. e = BudgetExceeded r l a"
    using budget_call_refused(1) [of b c u] by auto
next
  case True
  assume err: "fst (run_budget_call b c u) = Err e"
  then obtain gm where c: "c = NestedStep gm"
    using True budget_call_granted(1) [of b c u]
    by (auto simp: steps_bounded_def split: budget_call.splits)
  with err show ?thesis
    by (cases b gm u rule: reserve_step_cases) (auto simp: forget_def)
qed

lemma update_or_error: "update_or B f s us = Err e \<Longrightarrow> \<exists>d. e = f d"
  by (auto simp: update_or_def Let_def result_simps split: prod.splits)

lemma active_error: "active w ctx t = (Err e, m') \<Longrightarrow> error_true rt chk e"
  by (auto simp: active_def check_active_def split: if_splits)

lemma ready_error: "ready w ctx gm t = (Err e, u) \<Longrightarrow> error_true rt chk e"
  using budget_call_error [of "ctx_limits ctx" "NestedStep gm" "mc_usage t" e]
  by (auto simp: ready_def check_ready_def Let_def check_active_def forget_def
      split: prod.splits result.splits if_splits)

lemma execute_node_error: "execute_node w ctx nd st cur t = (Err e, u) \<Longrightarrow> error_true rt chk e"
  by (auto simp: execute_node_def result_simps select_biased_def simp del: run_program.simps
      split: prod.splits selected.splits)

lemma charge_error: "charge ctx d t = (Err e, u) \<Longrightarrow> error_true rt chk e"
  using budget_call_error [of "ctx_limits ctx" "RecordUsage d" "mc_usage t" e]
  by (auto simp: charge_def Let_def split: prod.splits)

lemma take_apart_error: "take_apart chk cur res = Err e \<Longrightarrow> error_true rt chk e"
  by (auto simp: take_apart_def error_true_def split: node_result.splits if_splits)

lemma suspends_at_end_error:
  "take_apart chk cur res = Ok (us, es, d, req) \<Longrightarrow> suspends_at_end req t \<Longrightarrow>
     graph_transition (rt_graph rt) n = Some t \<Longrightarrow> error_true rt chk (SuspendAtEnd n)"
  by (auto simp: take_apart_def suspends_at_end_def error_true_def is_terminal_def is_end_iff
      graph_transition_def split: node_result.splits if_splits)

lemma choose_next_error:
  assumes graph: "compiled_ok (rt_graph rt)"
    and t: "graph_transition (rt_graph rt) cur = Some t" "choose_next cur t st = Err e"
  shows "error_true rt chk e"
proof (cases t)
  case (Branch rtr targets)
  have "transition_ok (c_nodes (rt_graph rt)) t"
    using graph t(1) by (auto simp: compiled_ok_def graph_transition_def)
  then have "set (known_routes rtr) = set (bt_keys targets)"
    using Branch by (simp add: transition_ok_def branch_ok_def)
  then have "r \<notin> set (known_routes rtr)" if "bt_get targets r = None" for r
    using that by (simp add: map_of_eq_None_iff)
  with t Branch show ?thesis
    by (auto simp: choose_next_def result_simps error_true_def)
qed (use t in \<open>auto simp: choose_next_def error_true_def split: if_splits\<close>)

lemma run_effects_error:
  "run_effects rt w ctx step cur k effects acc m = (Err e, m') \<Longrightarrow> error_true rt chk e"
proof (induction effects arbitrary: k acc m)
  case Nil
  then show ?case by (simp add: give_def)
next
  case (Cons effect effects)
  obtain candidate completed receipts where acc: "acc = (candidate, completed, receipts)"
    by (cases acc)
  from Cons show ?case
    by (auto simp: acc Let_def result_simps error_true_def [of rt chk "MissingEffectExecutor cur"]
        lift_r_def intro: active_error dest!: update_or_error split: if_splits option.splits)
qed

lemma complete_node_error:
  assumes graph: "compiled_ok (rt_graph rt)"
    and node: "bt_contains (c_nodes (rt_graph rt)) (ls_current ls)"
    and err: "complete_node rt w ctx chk ls m = (Err e, m')"
  shows "error_true rt chk e"
proof -
  let ?cur = "ls_current ls"
  obtain nd where nd: "graph_node (rt_graph rt) ?cur = Some nd"
    using node by (auto simp: graph_node_def bt_contains_def)
  obtain t where t: "graph_transition (rt_graph rt) ?cur = Some t"
    using node graph by (auto simp: graph_transition_def bt_contains_def compiled_ok_def)
  from err nd t show ?thesis
    by (auto simp: complete_node_def Let_def result_simps
        intro: ready_error execute_node_error charge_error take_apart_error run_effects_error
          suspends_at_end_error choose_next_error [OF graph t]
        dest!: update_or_error)
qed

section \<open>Whole runs\<close>

text \<open>What an answer of \<open>execute_from\<close> says, success or not.\<close>

definition outcome_true ::
  "('b, 'u, 'e, 'rc, 'sd, 'ri, 'st) graph_runtime \<Rightarrow> node_id \<Rightarrow> run_context \<Rightarrow> bool \<Rightarrow>
     (('b, 'rc, 'sd) checkpoint_run_error, ('b, 'rc, 'sd) graph_execution_result) result \<Rightarrow> bool" where
  "outcome_true rt start ctx chk r \<longleftrightarrow>
     (case r of
        Ok (Completed res) \<Rightarrow> completed_ok rt start ctx res
      | Ok (Suspended cp) \<Rightarrow>
          chk \<and> checkpoint_ok rt start cp \<and> cp_run_id cp = ctx_run_id ctx \<and> cp_budget cp = ctx_limits ctx
      | Err (GraphFailure e) \<Rightarrow> error_true rt chk e
      | Err MissingStore \<Rightarrow> chk \<and> rt_store rt = None
      | Err (SaveFailed i cp e) \<Rightarrow> chk \<and> i = cp_id cp \<and> rt_store rt \<noteq> None
      | Panic \<Rightarrow> False)"

lemma turn_calm:
  assumes "calm_services rt" and "calm_node rt ctx ls"
  shows "turn rt w ctx chk ls m \<noteq> (Panic, m')"
proof
  assume p: "turn rt w ctx chk ls m = (Panic, m')"
  have "complete_node rt w ctx chk ls m \<noteq> (Panic, m')"
    using complete_node_calm [OF assms] by (metis fst_conv)
  with p obtain nc m2 where nc: "complete_node rt w ctx chk ls m = (Ok nc, m2)"
    and "nc_request nc \<noteq> None" and after: "nc_next nc = None \<or> (\<exists>cp. save_checkpoint rt w cp m2 = (Panic, m'))"
    by (fastforce simp: turn_def Let_def result_simps split: option.splits)
  moreover have "save_checkpoint rt w cp m2 \<noteq> (Panic, m')" for cp
    using assms(1)
    by (auto simp: save_checkpoint_def on_store_def calm_services_def Let_def lift_r_def result_simps
        split: option.splits prod.splits; metis fst_conv)
  moreover have "nc_next nc \<noteq> None"
  proof
    assume none: "nc_next nc = None"
    obtain t where "graph_transition (rt_graph rt) (ls_current ls) = Some t"
      "choose_next (ls_current ls) t (nc_state nc) = Ok None" "\<not> is_end t"
      using complete_node_Ok [OF nc] none \<open>nc_request nc \<noteq> None\<close> by metis
    then show False by (cases t) (auto simp: choose_next_def result_simps)
  qed
  ultimately show False by blast
qed

lemma turn_Err_true:
  assumes "compiled_ok (rt_graph rt)" and "loop_ok rt start ctx ls m"
    and "turn rt w ctx chk ls m = (Err e, m')"
  shows "outcome_true rt start ctx chk (Err e)"
proof -
  from assms(3) consider (node) d where "complete_node rt w ctx chk ls m = (Err d, m')" "e = GraphFailure d"
    | (save) nc m2 cp where "complete_node rt w ctx chk ls m = (Ok nc, m2)" "nc_request nc \<noteq> None"
      "save_checkpoint rt w cp m2 = (Err e, m')"
    by (fastforce simp: turn_def Let_def result_simps split: option.splits)
  then show ?thesis
  proof cases
    case node
    with complete_node_error [OF assms(1) _ node(1)] assms(2) show ?thesis
      by (simp add: outcome_true_def loop_ok_def)
  next
    case save
    have "chk" using complete_node_Ok [OF save(1)] save(2) by metis
    with save(3) show ?thesis
      by (auto simp: outcome_true_def save_checkpoint_def lift_r_def result_simps split: option.splits)
  qed
qed

lemma execute_from_correct:
  assumes graph: "compiled_ok (rt_graph rt)" and ok: "loop_ok rt start ctx ls m"
    and cap: "capped rt ctx" and calm: "calm_parts rt" and fuel: "step_cap rt ctx < fuel"
  obtains r m' where "execute_from fuel rt w ctx chk ls m = Some (r, m')"
    "outcome_true rt start ctx chk r"
proof -
  have "execute_from fuel rt w ctx chk ls m \<noteq> None"
    using fuel by (intro execute_from_terminates [OF graph ok cap]) simp
  then obtain r m' where run: "execute_from fuel rt w ctx chk ls m = Some (r, m')" by force
  have "outcome_true rt start ctx chk r"
  proof (cases r)
    case (Ok res)
    with execute_from_result [OF graph ok cap run [unfolded Ok]] show ?thesis
      by (simp add: outcome_true_def split: graph_execution_result.splits)
  next
    case (Err e)
    obtain ls1 m1 q where last: "loop_ok rt start ctx ls1 m1" "turn rt w ctx chk ls1 m1 = (q, m')"
      "ends_with q (Err e)"
      using execute_from_last_ok [OF graph ok cap run] Err by blast
    then have "q = Err e"
      by (auto simp: ends_with_def split: result.splits iteration.splits)
    with last Err show ?thesis using turn_Err_true [OF graph last(1)] by blast
  next
    case Panic
    obtain ls1 m1 q where last: "loop_ok rt start ctx ls1 m1" "turn rt w ctx chk ls1 m1 = (q, m')"
      "ends_with q r"
      using execute_from_last_ok [OF graph ok cap run] by blast
    with Panic have "q = Panic"
      by (auto simp: ends_with_def split: result.splits iteration.splits)
    with last turn_calm calm_parts_split [OF calm] show ?thesis by blast
  qed
  with run show ?thesis by (rule that)
qed

lemma loop_ok_start:
  assumes "compiled_ok (rt_graph rt)" and "within_limits (ctx_limits ctx) (mc_usage m)"
  shows "loop_ok rt (c_entry (rt_graph rt)) ctx (start_state rt st) m"
proof -
  have "bt_contains (c_nodes (rt_graph rt)) (c_entry (rt_graph rt))"
    using assms(1) unfolding compiled_ok_def by (rule conjunct1)
  with assms(2) show ?thesis
    by (simp add: loop_ok_def progress_ok_def start_state_def receipts_ok_def)
qed

text \<open>The standing assumptions on a runtime and a context: a graph that \<open>compile\<close> accepted,
  trait objects that do not panic, a step limit below the largest 32-bit number.\<close>

definition runtime_ok :: "('b, 'u, 'e, 'rc, 'sd, 'ri, 'st) graph_runtime \<Rightarrow> run_context \<Rightarrow> bool" where
  "runtime_ok rt ctx \<longleftrightarrow> compiled_ok (rt_graph rt) \<and> capped rt ctx \<and> calm_parts rt"

lemma run_with_context_total:
  assumes "runtime_ok rt ctx" and "within_limits (ctx_limits ctx) (mc_usage m)"
    and "step_cap rt ctx < fuel"
  shows "\<exists>r m'. run_with_context fuel rt w ctx st m = Some (r, m')
       \<and> (case r of
            Ok res \<Rightarrow> completed_ok rt (c_entry (rt_graph rt)) ctx res
          | Err e \<Rightarrow> error_true rt False e
          | Panic \<Rightarrow> False)"
proof -
  have graph: "compiled_ok (rt_graph rt)" and cap: "capped rt ctx" and calm: "calm_parts rt"
    using assms(1) by (simp_all add: runtime_ok_def)
  obtain r m' where run: "execute_from fuel rt w ctx False (start_state rt st) m = Some (r, m')"
    and true: "outcome_true rt (c_entry (rt_graph rt)) ctx False r"
    using execute_from_correct [OF graph loop_ok_start [OF graph assms(2)] cap calm assms(3)] .
  from true show ?thesis
    by (auto simp: run_with_context_def run outcome_true_def
        split: result.splits graph_execution_result.splits checkpoint_run_error.splits)
qed

lemma run_checkpointed_total:
  assumes "runtime_ok rt ctx" and "within_limits (ctx_limits ctx) (mc_usage m)"
    and "step_cap rt ctx < fuel"
  shows "\<exists>r m'. run_checkpointed_with_context fuel rt w ctx st m = Some (r, m')
       \<and> outcome_true rt (c_entry (rt_graph rt)) ctx True r"
proof (cases "rt_store rt = None")
  case True
  then show ?thesis by (simp add: run_checkpointed_with_context_def outcome_true_def)
next
  case False
  have graph: "compiled_ok (rt_graph rt)" and cap: "capped rt ctx" and calm: "calm_parts rt"
    using assms(1) by (simp_all add: runtime_ok_def)
  obtain r m' where "execute_from fuel rt w ctx True (start_state rt st) m = Some (r, m')"
    and "outcome_true rt (c_entry (rt_graph rt)) ctx True r"
    using execute_from_correct [OF graph loop_ok_start [OF graph assms(2)] cap calm assms(3)] .
  with False show ?thesis by (auto simp: run_checkpointed_with_context_def)
qed

end
