(* ===== verification/Resume_Correct.thy ===== *)
theory Resume_Correct
  imports Runtime_Correct
begin

text \<open>
  Suspending and resuming: the report of a failed effect, the checkpoint of a suspended run
  and why a resumed run accepts it, what a refused resumption leaves behind, and the
  correctness of a resumed run.
\<close>

section \<open>Failed effects\<close>

lemma run_effects_failed:
  assumes "run_effects rt w ctx step cur k effects
      (candidate, step_ids (ctx_run_id ctx) step cur 0 k, receipts) m = (Err (EffectFailed n i ids e), m')"
    and "k \<le> 2 ^ 32"
  shows "\<exists>j. j < 2 ^ 32 \<and> n = cur \<and> ids = step_ids (ctx_run_id ctx) step cur 0 j
       \<and> i = effect_id_new (ctx_run_id ctx) step cur (word_of_nat j)"
  using assms
proof (induction effects arbitrary: k candidate receipts m)
  case Nil
  then show ?case by (simp add: give_def)
next
  case (Cons effect effects)
  from Cons.prems(1) obtain ex where ex: "rt_executor rt = Some ex" and k: "\<not> k \<ge> 2 ^ 32"
    by (auto simp: Let_def lift_r_def split: option.splits if_splits)
  let ?eid = "effect_id_new (ctx_run_id ctx) step cur (word_of_nat k)"
  have ids: "step_ids (ctx_run_id ctx) step cur 0 k @ [?eid] = step_ids (ctx_run_id ctx) step cur 0 (Suc k)"
    by (simp add: step_ids_def)
  have act: "active w ctx m \<noteq> (Err (EffectFailed n i ids e), m')"
    by (simp add: active_def check_active_def)
  from Cons.prems(1) ex k act consider
    (here) d where "EffectFailed n i ids e = EffectFailed cur ?eid (step_ids (ctx_run_id ctx) step cur 0 k) d"
  | (later) candidate' receipts' m2 where
      "run_effects rt w ctx step cur (Suc k) effects
        (candidate', step_ids (ctx_run_id ctx) step cur 0 (Suc k), receipts') m2
        = (Err (EffectFailed n i ids e), m')"
    by (auto simp: Let_def result_simps ids dest!: update_or_error)
  then show ?case
  proof cases
    case here
    with k show ?thesis by (intro exI [of _ k]) auto
  next
    case later
    from Cons.IH [OF this] k show ?thesis by simp
  qed
qed

lemma complete_node_failed_effect:
  assumes "complete_node rt w ctx chk ls m = (Err (EffectFailed n i ids e), m')"
  shows "\<exists>step j. j < 2 ^ 32 \<and> n = ls_current ls
       \<and> ids = step_ids (ctx_run_id ctx) step (ls_current ls) 0 j
       \<and> i = effect_id_new (ctx_run_id ctx) step (ls_current ls) (word_of_nat j)"
proof -
  have into: "into_graph_run d cur \<noteq> EffectFailed n i ids e" for d cur
    by (simp add: into_graph_run_def split: option.splits)
  have no_step: "ready w ctx gm t \<noteq> (Err (EffectFailed n i ids e), m')" for gm t
    using budget_call_error [of "ctx_limits ctx" "NestedStep gm" "mc_usage t" "EffectFailed n i ids e"]
    by (auto simp: ready_def check_ready_def Let_def check_active_def forget_def
        split: prod.splits result.splits if_splits)
  have no_exec: "execute_node w ctx nd st cur t \<noteq> (Err (EffectFailed n i ids e), m')" for nd st cur t
    using into [symmetric]
    by (auto simp: execute_node_def result_simps select_biased_def simp del: run_program.simps
        split: prod.splits selected.splits)
  have no_charge: "charge ctx d t \<noteq> (Err (EffectFailed n i ids e), m')" for d t
    using budget_call_error [of "ctx_limits ctx" "RecordUsage d" "mc_usage t" "EffectFailed n i ids e"]
    by (auto simp: charge_def Let_def split: prod.splits)
  have no_apart: "take_apart chk cur res \<noteq> Err (EffectFailed n i ids e)" for cur res
    by (auto simp: take_apart_def split: node_result.splits)
  have no_choice: "choose_next cur t st \<noteq> Err (EffectFailed n i ids e)" for cur t st
    by (cases t) (auto simp: choose_next_def result_simps)
  from assms obtain step effects candidate m2 where
    "run_effects rt w ctx step (ls_current ls) 0 effects (candidate, [], []) m2
      = (Err (EffectFailed n i ids e), m')"
    by (auto simp: complete_node_def Let_def result_simps no_step no_exec no_charge no_apart no_choice
        dest!: update_or_error)
  then show ?thesis
    using run_effects_failed [of rt w ctx step "ls_current ls" 0 effects candidate "[]" m2 n i ids e m']
    by (auto simp: step_ids_def)
qed

section \<open>The step of a suspended run\<close>

text \<open>Code that does not run another graph under its own context.\<close>

primrec flat :: "'a program \<Rightarrow> bool" where
  "flat (Done a) \<longleftrightarrow> True"
| "flat (Yield p) \<longleftrightarrow> flat p"
| "flat (Budget c f) \<longleftrightarrow> (case c of NestedStep m \<Rightarrow> False | _ \<Rightarrow> True) \<and> (\<forall>r. flat (f r))"
| "flat (ReadUsage f) \<longleftrightarrow> (\<forall>u. flat (f u))"

definition flat_parts :: "('b, 'u, 'e, 'rc, 'sd, 'ri, 'st) graph_runtime \<Rightarrow> bool" where
  "flat_parts rt \<longleftrightarrow>
     (\<forall>n nd st ctx k. graph_node (rt_graph rt) n = Some nd \<longrightarrow> flat (an_execute nd st ctx k))
     \<and> (\<forall>ex env ctx k. rt_executor rt = Some ex \<longrightarrow> flat (ex env ctx k))"

lemma flat_call_steps:
  "(case c of NestedStep m \<Rightarrow> False | _ \<Rightarrow> True) \<Longrightarrow> steps (snd (run_budget_call b c u)) = steps u"
  by (cases c) (auto simp: reserve_llm_call_def reserve_tool_calls_def record_usage_def
      record_tokens_def split: result.splits)

lemma run_program_flat:
  "flat p \<Longrightarrow> run_program w ctx p m = (r, m') \<Longrightarrow> steps (mc_usage m') = steps (mc_usage m)"
proof (induction p arbitrary: m)
  case (Yield p)
  then show ?case by (fastforce simp: Let_def split: if_splits)
next
  case (Budget c f)
  obtain q u where call: "run_budget_call (ctx_limits ctx) c (mc_usage m) = (q, u)" by force
  with Budget.prems flat_call_steps [of c "ctx_limits ctx" "mc_usage m"]
  have "steps u = steps (mc_usage m)" by simp
  with Budget.prems Budget.IH [OF rangeI, of q "m\<lparr>mc_usage := u\<rparr>"] call show ?case by simp
qed auto

lemma execute_node_flat:
  "flat (an_execute nd st ctx (mc_tick m)) \<Longrightarrow> execute_node w ctx nd st cur m = (r, m') \<Longrightarrow>
     steps (mc_usage m') = steps (mc_usage m)"
  using run_program_flat [of "Yield (an_execute nd st ctx (mc_tick m))" w ctx m]
  by (auto simp: execute_node_def select_biased_def simp del: run_program.simps
      split: prod.splits selected.splits)

lemma execute_effect_flat:
  "flat (ex env ctx (mc_tick m)) \<Longrightarrow> execute_effect w ctx ex env m = (r, m') \<Longrightarrow>
     steps (mc_usage m') = steps (mc_usage m)"
  using run_program_flat [of "Yield (ex env ctx (mc_tick m))" w ctx m]
  by (auto simp: execute_effect_def select_biased_def simp del: run_program.simps
      split: prod.splits selected.splits)

lemma charge_flat: "charge ctx d m = (r, m') \<Longrightarrow> steps (mc_usage m') = steps (mc_usage m)"
  using flat_call_steps [of "RecordUsage d" "ctx_limits ctx" "mc_usage m"]
  by (auto simp: charge_def Let_def split: prod.splits)

lemma run_effects_flat:
  assumes "flat_parts rt"
    and "run_effects rt w ctx step cur k effects acc m = (Ok acc', m')"
  shows "steps (mc_usage m') = steps (mc_usage m)"
  using assms(2)
proof (induction effects arbitrary: k acc m)
  case Nil
  then show ?case by (simp add: give_def)
next
  case (Cons effect effects)
  obtain candidate completed receipts where acc: "acc = (candidate, completed, receipts)"
    by (cases acc)
  from Cons.prems acc obtain ex where ex: "rt_executor rt = Some ex"
    by (auto simp: Let_def lift_r_def split: option.splits if_splits)
  then have flat: "flat (ex env ctx j)" for env j
    using assms(1) unfolding flat_parts_def by blast
  have exec: "execute_effect w ctx ex env t = (q, u) \<Longrightarrow> steps (mc_usage u) = steps (mc_usage t)"
    for env t q u
    using execute_effect_flat [of ex env ctx t w q u] flat by blast
  have act: "active w ctx m = (Ok (), t) \<Longrightarrow> mc_usage t = mc_usage m" for t
    by (auto simp: active_def)
  from Cons.prems acc ex show ?case
    by (auto simp: Let_def result_simps split: if_splits
        dest!: act exec Cons.IH)
qed

lemma complete_node_flat:
  assumes flat: "flat_parts rt" and node: "complete_node rt w ctx chk ls m = (Ok nc, m')"
  shows "steps (mc_usage m') = step_get (nc_step nc)"
proof -
  have exec: "execute_node w ctx nd st cur t = (Ok res, u) \<Longrightarrow> steps (mc_usage u) = steps (mc_usage t)"
    if "graph_node (rt_graph rt) n = Some nd" for nd n st cur t res u
    by (rule execute_node_flat) (use flat that in \<open>unfold flat_parts_def, blast\<close>)
  from node show ?thesis
    by (auto simp: complete_node_def Let_def result_simps
        dest!: exec charge_flat run_effects_flat [OF flat] ready_Ok(2))
qed

section \<open>The checkpoint of a suspended run\<close>

definition resumed_state ::
  "('b, 'u, 'e, 'rc, 'sd, 'ri, 'st) graph_runtime \<Rightarrow> ('b, 'rc, 'sd) agent_checkpoint \<Rightarrow> 'ri \<Rightarrow>
     (agent_state_error, unit) result \<times> 'b agent_state" where
  "resumed_state rt cp input =
     apply_updates (rt_business rt) (cp_state cp) (resume_updates (rt_business rt) input)"

lemma suspended_last_turn:
  assumes "compiled_ok (rt_graph rt)" and "loop_ok rt start ctx ls m" and "capped rt ctx"
    and "execute_from fuel rt w ctx chk ls m = Some (Ok (Suspended cp), m')"
  obtains ls1 m1 where "loop_ok rt start ctx ls1 m1"
    "turn rt w ctx chk ls1 m1 = (Ok (Stop (Suspended cp)), m')"
proof -
  obtain ls1 m1 q where last: "loop_ok rt start ctx ls1 m1" "turn rt w ctx chk ls1 m1 = (q, m')"
    "ends_with q (Ok (Suspended cp))"
    using execute_from_last_ok [OF assms] by blast
  then have "q = Ok (Stop (Suspended cp))"
    by (auto simp: ends_with_def split: result.splits iteration.splits)
  with last show ?thesis by (intro that) simp_all
qed

lemma suspended_step:
  assumes "flat_parts rt" and "turn rt w ctx chk ls m = (Ok (Stop (Suspended cp)), m')"
  shows "step_get (completed_step (cp_position cp)) = steps (cp_usage cp)"
proof -
  from assms(2) obtain nc request nxt m2 where nc: "complete_node rt w ctx chk ls m = (Ok nc, m2)"
    "cp = make_checkpoint rt w ctx ls nc request nxt m2"
    by (rule turn_Suspended)
  from complete_node_flat [OF assms(1) nc(1)] nc(2) show ?thesis
    by (simp add: make_checkpoint_def)
qed

lemma suspended_saved:
  assumes "turn rt w ctx chk ls m = (Ok (Stop (Suspended cp)), m')"
    and "rt_store rt = Some memory_ops"
  shows "store_held (mc_store m') (cp_id cp) = Some cp" and "\<not> ms_poisoned (mc_store m')"
proof -
  from assms(1) obtain m2 where "save_checkpoint rt w cp m2 = (Ok (), m')"
    by (rule turn_Suspended)
  then have "on_store w (memory_save cp) m2 = (Ok (), m')"
    using assms(2) by (simp add: save_checkpoint_def result_simps memory_ops_def)
  then show "store_held (mc_store m') (cp_id cp) = Some cp" and "\<not> ms_poisoned (mc_store m')"
    by (auto simp: on_store_def Let_def memory_save_cases store_held_def split: if_splits)
qed

text \<open>A checkpoint of this graph whose position agrees with its usage passes every check; what
  is left is whether the resume input is accepted.\<close>

lemma validate_checkpoint_ok:
  assumes "checkpoint_ok rt start cp"
    and "step_get (completed_step (cp_position cp)) = steps (cp_usage cp)"
  shows "validate_checkpoint rt cp input =
     bind_r (map_err ResumeInputRejected (fst (resumed_state rt cp input)))
       (\<lambda>_. Ok (snd (resumed_state rt cp input)))"
proof -
  have "graph_node (rt_graph rt) (next_node (cp_position cp)) \<noteq> None"
    using assms(1) by (simp add: checkpoint_ok_def graph_node_def bt_contains_def)
  with assms show ?thesis
    by (simp add: validate_checkpoint_def resumed_state_def checkpoint_ok_def Let_def ensure_def
        split_beta)
qed

section \<open>Claiming a checkpoint\<close>

text \<open>A world in which no other client touches the store.\<close>

definition undisturbed :: "'st world \<Rightarrow> bool" where
  "undisturbed w \<longleftrightarrow> (\<forall>k s. w_others w k s = s)"

definition consume :: "checkpoint_id \<Rightarrow> ('b, 'rc, 'sd) memory_store \<Rightarrow> ('b, 'rc, 'sd) memory_store" where
  "consume i s =
     s\<lparr>ms_checkpoints := bt_remove i (ms_checkpoints s), ms_consumed := bs_insert i (ms_consumed s)\<rparr>"

lemma claim_checkpoint_undisturbed:
  assumes "undisturbed w" and "store_held (mc_store m) i = Some cp" and "\<not> ms_poisoned (mc_store m)"
  shows "claim_checkpoint rt memory_ops w i input m =
     (case validate_checkpoint rt cp input of
        Ok st \<Rightarrow> (Ok (cp, st), tick (tick (m\<lparr>mc_store := consume i (mc_store m)\<rparr>)))
      | Err e \<Rightarrow> (Err e, tick m)
      | Panic \<Rightarrow> (Panic, tick m))"
  using assms
  by (simp add: claim_checkpoint_def seq_def map_err_a_def on_store_def memory_ops_def undisturbed_def
      memory_load_cases memory_take_cases ok_or_def lift_r_def give_def consume_def tick_def
      split: result.splits)

lemma claim_refused_keeps_store:
  assumes "undisturbed w" and "claim_checkpoint rt memory_ops w i input m = (Err e, m')"
  shows "mc_store m' = mc_store m"
proof (cases "ms_poisoned (mc_store m)")
  case True
  with assms show ?thesis
    by (auto simp: claim_checkpoint_def seq_def map_err_a_def on_store_def memory_ops_def
        undisturbed_def memory_load_cases)
next
  case False
  show ?thesis
  proof (cases "store_held (mc_store m) i")
    case None
    with assms False show ?thesis
      by (auto simp: claim_checkpoint_def seq_def map_err_a_def on_store_def memory_ops_def
          undisturbed_def memory_load_cases ok_or_def)
  next
    case (Some cp)
    with assms claim_checkpoint_undisturbed [OF assms(1) Some False, of rt input] show ?thesis
      by (auto split: result.splits)
  qed
qed

text \<open>Whoever claims a checkpoint has taken it from the store.\<close>

lemma claim_spends:
  assumes "claim_checkpoint rt memory_ops w i input m = (Ok x, m')"
  shows "store_spent (mc_store m') i"
  using assms
  by (auto simp: claim_checkpoint_def result_simps on_store_def Let_def memory_ops_def
      memory_take_cases store_spent_def split: prod.splits if_splits option.splits)

text \<open>Other clients of the in-memory store.\<close>

definition by_requests :: "('b, 'rc, 'sd) memory_store world \<Rightarrow> bool" where
  "by_requests w \<longleftrightarrow> (\<forall>k. \<exists>qs. \<forall>s. w_others w k s = snd (serve_all memory_ops qs s))"

lemma serve_all_inv_spent:
  assumes "store_inv s"
  shows "store_inv (snd (serve_all memory_ops qs s))"
    and "store_spent s i \<Longrightarrow> store_spent (snd (serve_all memory_ops qs s)) i"
proof -
  have "store_inv (snd (serve_all memory_ops qs s))
      \<and> (store_spent s i \<longrightarrow> store_spent (snd (serve_all memory_ops qs s)) i)"
    using assms
  proof (induction qs arbitrary: s)
    case Nil
    then show ?case by simp
  next
    case (Cons q qs)
    obtain r t where one: "serve memory_ops q s = (r, t)" by force
    have "store_inv t"
      using ms.serve_inv [OF Cons.prems, of q] unfolding one by simp
    moreover have "store_spent s i \<Longrightarrow> store_spent t i"
      using ms.serve_spent_mono [OF Cons.prems, of i q] unfolding one by simp
    moreover have "snd (serve_all memory_ops (q # qs) s) = snd (serve_all memory_ops qs t)"
      by (simp add: one Let_def split: prod.splits)
    ultimately show ?case using Cons.IH [of t] by simp
  qed
  then show "store_inv (snd (serve_all memory_ops qs s))"
    and "store_spent s i \<Longrightarrow> store_spent (snd (serve_all memory_ops qs s)) i"
    by simp_all
qed

lemma spent_claim_fails:
  assumes inv: "store_inv (mc_store m)" and spent: "store_spent (mc_store m) i" and w: "by_requests w"
  shows "\<exists>e m'. claim_checkpoint rt memory_ops w i input m = (Err (CheckpointLoad e), m')"
proof -
  let ?s = "w_others w (mc_tick m) (mc_store m)"
  obtain qs where "?s = snd (serve_all memory_ops qs (mc_store m))"
    using w unfolding by_requests_def by blast
  with serve_all_inv_spent(1) [OF inv, of qs] serve_all_inv_spent(2) [OF inv spent, of qs] have "store_inv ?s" "store_spent ?s i" by simp_all
  then have "store_held ?s i = None" by (rule ms.spent_not_held)
  then show ?thesis
    by (simp add: claim_checkpoint_def seq_def map_err_a_def on_store_def memory_ops_def
        memory_load_cases ok_or_def)
qed

section \<open>A resumed run\<close>

definition extends_loop ::
  "('b, 'rc) loop_state \<Rightarrow> ('b, 'rc) loop_state \<Rightarrow> bool" where
  "extends_loop ls ls' \<longleftrightarrow>
     (\<exists>vs rs. ls_visited ls' = ls_visited ls @ vs \<and> ls_receipts ls' = ls_receipts ls @ rs)"

lemma turn_extends:
  assumes "extends_loop ls ls1" and "turn rt w ctx chk ls1 m = (Ok (NextNode ls2), m')"
  shows "extends_loop ls ls2"
  using assms(2) by (rule turn_NextNode) (use assms(1) in \<open>auto simp: extends_loop_def\<close>)

lemma execute_from_extends:
  assumes "execute_from fuel rt w ctx chk ls m = Some (Ok res, m')"
  shows "case res of
      Completed c \<Rightarrow> (\<exists>vs rs. res_visited c = ls_visited ls @ vs \<and> res_receipts c = ls_receipts ls @ rs)
    | Suspended cp \<Rightarrow> (\<exists>vs rs. cp_visited cp = ls_visited ls @ vs \<and> cp_receipts cp = ls_receipts ls @ rs)"
proof -
  have "extends_loop ls ls" by (simp add: extends_loop_def)
  with assms have "\<exists>ls1 m1 q. extends_loop ls ls1 \<and> turn rt w ctx chk ls1 m1 = (q, m') \<and> ends_with q (Ok res)"
    by (rule execute_from_last [where I = "\<lambda>ls' _. extends_loop ls ls'"]) (rule turn_extends)
  then obtain ls1 m1 q where last: "extends_loop ls ls1" "turn rt w ctx chk ls1 m1 = (q, m')"
    "ends_with q (Ok res)" by blast
  then have q: "turn rt w ctx chk ls1 m1 = (Ok (Stop res), m')"
    by (auto simp: ends_with_def split: result.splits iteration.splits)
  show ?thesis
  proof (cases res)
    case (Completed c)
    show ?thesis
      by (rule turn_Completed [OF q [unfolded Completed]])
        (use last(1) Completed in \<open>auto simp: extends_loop_def\<close>)
  next
    case (Suspended cp)
    show ?thesis
      by (rule turn_Suspended [OF q [unfolded Suspended]])
        (use last(1) Suspended in \<open>auto simp: extends_loop_def make_checkpoint_def\<close>)
  qed
qed

section \<open>What a turn does to the machine\<close>

text \<open>A turn completes a node and saves at most one checkpoint after it.\<close>

lemma turn_split:
  assumes "turn rt w ctx chk ls m = (q, m')"
  obtains (node) r where "complete_node rt w ctx chk ls m = (r, m')"
    | (save) r m2 cp q' where "complete_node rt w ctx chk ls m = (r, m2)" "save_checkpoint rt w cp m2 = (q', m')"
proof -
  obtain r m2 where first: "complete_node rt w ctx chk ls m = (r, m2)" by force
  show thesis
  proof (cases "\<exists>nc request nxt. r = Ok nc \<and> nc_request nc = Some request \<and> nc_next nc = Some nxt")
    case False
    with first assms have "m' = m2"
      by (cases r) (auto simp: turn_def seq_def map_err_a_def expect_def lift_r_def give_def Let_def
          split: option.splits)
    with first show thesis by (intro node) simp
  next
    case True
    then obtain nc request nxt where r: "r = Ok nc" "nc_request nc = Some request" "nc_next nc = Some nxt"
      by blast
    let ?cp = "make_checkpoint rt w ctx ls nc request nxt m2"
    from first r assms have
      "seq (save_checkpoint rt w ?cp) (\<lambda>_. give (Stop (Suspended ?cp))) m2 = (q, m')"
      by (simp add: turn_def seq_def [of "map_err_a _ _"] seq_def [of "lift_r _"] map_err_a_def
          expect_def lift_r_def Let_def)
    then have "save_checkpoint rt w ?cp m2 = (fst (save_checkpoint rt w ?cp m2), m')"
      by (auto simp: seq_def give_def split: prod.splits result.splits)
    with first show thesis by (rule save)
  qed
qed

text \<open>No turn gives budget back, and a result carries the usage the machine is left with.\<close>

lemma turn_forward:
  assumes "turn rt w ctx chk ls m = (q, m')"
  shows "forward (ctx_limits ctx) m m'"
  using assms
proof (cases rule: turn_split)
  case (node r)
  from quiet_complete_node [OF this] show ?thesis by (simp add: quiet_def)
next
  case (save r m2 cp q')
  from quiet_complete_node [OF save(1)] save_checkpoint_usage [OF save(2)] show ?thesis
    by (simp add: quiet_def forward_def)
qed

lemma execute_from_spends:
  assumes "execute_from fuel rt w ctx chk ls m = Some (r, m')"
  shows "meter_of (mc_usage m) x \<le> meter_of (mc_usage m') x"
    and "r = Ok (Completed c) \<Longrightarrow> res_usage c = mc_usage m'"
    and "r = Ok (Suspended cp) \<Longrightarrow> cp_usage cp = mc_usage m'"
proof -
  have "\<exists>ls1 m1 q. (meter_of (mc_usage m) x \<le> meter_of (mc_usage m1) x) \<and> turn rt w ctx chk ls1 m1 = (q, m')
      \<and> ends_with q r"
    using assms
    by (rule execute_from_last [where I = "\<lambda>_ m1. meter_of (mc_usage m) x \<le> meter_of (mc_usage m1) x"])
      (auto dest!: turn_forward simp: forward_def intro: order_trans)
  then obtain ls1 m1 q where last: "meter_of (mc_usage m) x \<le> meter_of (mc_usage m1) x"
    "turn rt w ctx chk ls1 m1 = (q, m')" "ends_with q r" by blast
  with turn_forward [OF last(2)] show "meter_of (mc_usage m) x \<le> meter_of (mc_usage m') x"
    unfolding forward_def using order_trans by blast
  show "res_usage c = mc_usage m'" if "r = Ok (Completed c)"
  proof -
    have "turn rt w ctx chk ls1 m1 = (Ok (Stop (Completed c)), m')"
      using last(2,3) that by (auto simp: ends_with_def split: result.splits iteration.splits)
    then show ?thesis by (rule turn_Completed) simp
  qed
  show "cp_usage cp = mc_usage m'" if "r = Ok (Suspended cp)"
  proof -
    have "turn rt w ctx chk ls1 m1 = (Ok (Stop (Suspended cp)), m')"
      using last(2,3) that by (auto simp: ends_with_def split: result.splits iteration.splits)
    then show ?thesis by (rule turn_Suspended) (simp add: make_checkpoint_def save_checkpoint_usage)
  qed
qed

section \<open>A claimed checkpoint stays spent\<close>

definition spent_inv :: "checkpoint_id \<Rightarrow> ('b, 'rc, 'sd) memory_store machine \<Rightarrow> bool" where
  "spent_inv i m \<longleftrightarrow> store_inv (mc_store m) \<and> store_spent (mc_store m) i"

lemma others_keep_spent:
  assumes "by_requests w" and "store_inv s"
  shows "store_inv (w_others w k s)" and "store_spent s i \<Longrightarrow> store_spent (w_others w k s) i"
proof -
  obtain qs where "\<And>s. w_others w k s = snd (serve_all memory_ops qs s)"
    using assms(1) unfolding by_requests_def by blast
  with serve_all_inv_spent [OF assms(2)] show "store_inv (w_others w k s)"
    and "store_spent s i \<Longrightarrow> store_spent (w_others w k s) i"
    by simp_all
qed

lemma save_keeps_spent:
  assumes "by_requests w" and "rt_store rt = Some memory_ops" and "spent_inv i m"
    and "save_checkpoint rt w cp m = (r, m')"
  shows "spent_inv i m'"
proof -
  let ?s = "w_others w (mc_tick m) (mc_store m)"
  have inv: "store_inv ?s" "store_spent ?s i"
    using assms(1,3) others_keep_spent by (auto simp: spent_inv_def)
  obtain q t where save: "memory_save cp ?s = (q, t)" by force
  have m': "mc_store m' = t"
    using assms(2,4) save by (auto simp: save_checkpoint_def map_err_a_def on_store_def memory_ops_def)
  have "store_inv t" using store_inv_save [OF inv(1) save] .
  moreover have "store_spent t i"
    using inv(2) save by (auto simp: memory_save_cases store_spent_def split: if_splits)
  ultimately show ?thesis by (simp add: spent_inv_def m')
qed

lemma quiet_keeps_spent: "quiet b m m' \<Longrightarrow> spent_inv i m \<Longrightarrow> spent_inv i m'"
  by (simp add: quiet_def spent_inv_def)

lemma turn_keeps_spent:
  assumes "by_requests w" and "rt_store rt = Some memory_ops" and "spent_inv i m"
    and "turn rt w ctx chk ls m = (q, m')"
  shows "spent_inv i m'"
  using assms(4)
proof (cases rule: turn_split)
  case (node r)
  from quiet_complete_node [OF this] assms(3) show ?thesis by (rule quiet_keeps_spent)
next
  case (save r m2 cp q')
  from quiet_complete_node [OF save(1)] assms(3) have "spent_inv i m2" by (rule quiet_keeps_spent)
  from save_keeps_spent [OF assms(1,2) this save(2)] show ?thesis .
qed

lemma execute_from_keeps_spent:
  assumes "by_requests w" and "rt_store rt = Some memory_ops" and "spent_inv i m"
    and "execute_from fuel rt w ctx chk ls m = Some (r, m')"
  shows "spent_inv i m'"
proof -
  have "\<exists>ls1 m1 q. spent_inv i m1 \<and> turn rt w ctx chk ls1 m1 = (q, m') \<and> ends_with q r"
    using assms(4,3)
    by (rule execute_from_last [where I = "\<lambda>_. spent_inv i"])
      (rule turn_keeps_spent [OF assms(1,2)])
  then show ?thesis using turn_keeps_spent [OF assms(1,2)] by blast
qed

lemma claim_spent_inv:
  assumes "by_requests w" and "store_inv (mc_store m)"
    and "claim_checkpoint rt memory_ops w i input m = (Ok x, m')"
  shows "spent_inv i m'"
proof -
  from assms(3) obtain cp t u where load: "on_store w (memory_load i) m = (Ok cp, t)"
    and take: "on_store w (memory_take i) t = (Ok u, m')"
    by (auto simp: claim_checkpoint_def result_simps memory_ops_def)
  have "store_inv (mc_store t)"
    using load others_keep_spent(1) [OF assms(1,2)]
    by (auto simp: on_store_def Let_def memory_load_cases split: prod.splits if_splits)
  then have inv: "store_inv (w_others w (mc_tick t) (mc_store t))"
    by (rule others_keep_spent(1) [OF assms(1)])
  obtain q s where "memory_take i (w_others w (mc_tick t) (mc_store t)) = (q, s)" by force
  with take store_inv_take [OF inv this] have "store_inv (mc_store m')"
    by (auto simp: on_store_def)
  with claim_spends [OF assms(3)] show ?thesis by (simp add: spent_inv_def)
qed

text \<open>Splitting a resumption at its claim.\<close>

definition resume_context :: "'st world \<Rightarrow> ('b, 'rc, 'sd) agent_checkpoint \<Rightarrow> run_trace \<Rightarrow> 'st machine \<Rightarrow> run_context" where
  "resume_context w cp trace m =
     fst (run_context_resume (cp_run_id cp) (cp_budget cp) (cp_usage cp)
            (sig_now (w_signals w (mc_tick m))) (restore_trace (cp_trace cp) trace))"

definition resume_loop :: "('b, 'rc, 'sd) agent_checkpoint \<Rightarrow> 'b agent_state \<Rightarrow> ('b, 'rc) loop_state" where
  "resume_loop cp st =
     \<lparr>ls_state = st, ls_current = next_node (cp_position cp), ls_visited = cp_visited cp,
      ls_receipts = cp_receipts cp\<rparr>"

lemma resume_after_claim:
  assumes "rt_store rt = Some ops" and "claim_checkpoint rt ops w i input m = (Ok (cp, st), m1)"
  shows "resume_with_context fuel rt w i input trace m =
     map_option (\<lambda>(r, m''). (map_err RunFailed r, m''))
       (execute_from fuel rt w (resume_context w cp trace m1) True (resume_loop cp st)
          (tick (m1\<lparr>mc_usage := cp_usage cp\<rparr>)))"
  using assms
  by (simp add: resume_with_context_def resume_context_def resume_loop_def run_context_resume_def Let_def)

lemma resume_context_simps [simp]:
  "ctx_run_id (resume_context w cp trace m) = cp_run_id cp"
  "ctx_limits (resume_context w cp trace m) = cp_budget cp"
  by (simp_all add: resume_context_def run_context_resume_def)

lemma resume_loop_ok:
  assumes "checkpoint_ok rt start cp" and "mc_usage m = cp_usage cp"
  shows "loop_ok rt start (resume_context w cp trace m1) (resume_loop cp st) m"
  using assms by (simp add: loop_ok_def checkpoint_ok_def resume_loop_def)

end
