(* ===== verification/Run_Properties.thy ===== *)
theory Run_Properties
  imports Resume_Correct
begin

text \<open>
  The properties of the graph runtime, and a small runtime for their witnesses: two nodes, of
  which the first runs an effect and may suspend and the second sets the outcome.
\<close>

section \<open>A runtime for the witnesses\<close>

type_synonym demo_store = "(nat, unit, unit) memory_store"
type_synonym demo_runtime = "(nat, nat, unit, unit, unit, nat, demo_store) graph_runtime"

definition demo_ops :: "(nat, nat, nat) business_ops" where
  "demo_ops =
     \<lparr>apply_update = (\<lambda>b u. (Ok (), b + u)), resume_updates = (\<lambda>r. [BusinessUpdate r]),
      state_schema_version = schema_initial\<rparr>"

definition node_a :: "bool \<Rightarrow> (nat, nat, unit, unit) node_body" where
  "node_a suspends = (\<lambda>st ctx k.
     Yield (Done (Ok
       (if suspends
        then Suspend [BusinessUpdate 2] [()] \<lparr>delta_tokens = 5\<rparr> \<lparr>sus_reason = Approval, sus_data = ()\<rparr>
        else Continue [BusinessUpdate 2] [()] \<lparr>delta_tokens = 5\<rparr>))))"

definition node_b :: "(nat, nat, unit, unit) node_body" where
  "node_b = (\<lambda>st ctx k.
     Done (Ok (Continue [SetOutcome (OutcomeRespond ''done'')] [] \<lparr>delta_tokens = 0\<rparr>)))"

definition demo_graph :: "(nat, nat, unit, unit) node_body \<Rightarrow> ((nat, nat, unit, unit) node_body, nat agent_state) graph_definition" where
  "demo_graph a =
     \<lparr>g_id = GraphId ''g'', g_version = GraphVersion 1,
      g_nodes = [(NodeId ''a'', \<lparr>an_id = NodeId ''a'', an_execute = a\<rparr>),
                 (NodeId ''b'', \<lparr>an_id = NodeId ''b'', an_execute = node_b\<rparr>)],
      g_entry = Some (NodeId ''a''),
      g_transitions = [(NodeId ''a'', Goto (NodeId ''b'')), (NodeId ''b'', End)],
      g_namespaces = [], g_exits = []\<rparr>"

definition demo :: "(nat, nat, unit, unit) node_body \<Rightarrow> demo_runtime" where
  "demo a =
     \<lparr>rt_graph = compiled (\<lparr>policy_max_steps = 8\<rparr>) (demo_graph a) (NodeId ''a''),
      rt_executor = Some (\<lambda>env ctx k. Done (Ok ())),
      rt_store = Some memory_ops,
      rt_business = demo_ops,
      rt_receipt_updates = (\<lambda>r. [])\<rparr>"

definition demo_world :: "demo_store world" where
  "demo_world =
     \<lparr>w_signals = (\<lambda>k. \<lparr>sig_cancelled = False, sig_now = 0\<rparr>), w_others = (\<lambda>k s. s),
      w_fresh = (\<lambda>k. CheckpointId 9)\<rparr>"

definition demo_context :: run_context where
  "demo_context =
     \<lparr>ctx_run_id = RunId 7, ctx_limits = run_budget_new 8 30, ctx_deadline = 30,
      ctx_trace = run_trace_default\<rparr>"

definition demo_machine :: "demo_store machine" where
  "demo_machine = \<lparr>mc_usage = usage_default, mc_tick = 0, mc_store = memory_store_new\<rparr>"

lemma graph_ok_demo: "graph_ok (demo_graph a)"
  by (auto simp: graph_ok_def demo_graph_def bt_ok_def bt_contains_def split: if_splits)

lemma compile_demo:
  "compile (\<lparr>policy_max_steps = 8\<rparr>) (demo_graph a)
     = Ok (compiled (\<lparr>policy_max_steps = 8\<rparr>) (demo_graph a) (NodeId ''a''))"
  by (simp add: compile_def demo_graph_def bt_contains_def ok_or_def ensure_def validate_transitions_def
      validate_transition_def validate_target_def validate_reachability_def first_outside_def
      validate_terminal_paths_def terminal_nodes_def predecessors_def push_entry_def compiled_def)

lemma demo_graph_ok: "compiled_ok (rt_graph (demo a))"
  using compile_compiled_ok [OF graph_ok_demo compile_demo] by (simp add: demo_def)

lemma capped_demo: "capped (demo a) demo_context"
  by (simp add: capped_def step_cap_def limit_of_def demo_context_def run_budget_new_def)

lemma step_cap_demo: "step_cap (demo a) demo_context = 8"
  by (simp add: step_cap_def limit_of_def demo_context_def run_budget_new_def rt_max_steps_def
      demo_def compiled_def)

lemma calm_demo: "(\<And>st ctx k. calm (a st ctx k)) \<Longrightarrow> calm_parts (demo a)"
  by (auto simp: calm_parts_def demo_def compiled_def demo_graph_def graph_node_def
      graph_transition_def node_b_def demo_ops_def memory_ops_def memory_save_cases split: if_splits)

lemma runtime_ok_demo: "runtime_ok (demo (node_a b)) demo_context"
  by (simp add: runtime_ok_def demo_graph_ok capped_demo calm_demo node_a_def)

lemma within_demo: "within_limits (ctx_limits demo_context) (mc_usage demo_machine)"
  by (simp add: demo_machine_def within_limits_default)

text \<open>The suspended run of the witnesses, computed.\<close>

definition dm :: "u32 \<Rightarrow> u64 \<Rightarrow> nat \<Rightarrow> demo_store \<Rightarrow> demo_store machine" where
  "dm s t k st = \<lparr>mc_usage = \<lparr>steps = s, llm_calls = 0, tool_calls = 0, tokens = t\<rparr>, mc_tick = k, mc_store = st\<rparr>"

lemma demo_machine_dm: "demo_machine = dm 0 0 0 memory_store_new"
  by (simp add: demo_machine_def dm_def usage_default_def)

lemma demo_ready: "ready demo_world demo_context (rt_max_steps (demo a)) (dm 0 t k s) = (Ok (RunStep 1), dm 1 t (Suc k) s)"
  by (simp add: ready_def check_ready_def check_active_def demo_world_def demo_context_def dm_def
      reserve_step_def saturating_add_def run_budget_new_def rt_max_steps_def demo_def compiled_def
      run_step_try_from_def ok_or_def tick_def)

lemma demo_execute: "execute_node demo_world demo_context \<lparr>an_id = i, an_execute = node_a True\<rparr> st cur (dm x t k s)
   = (Ok (Suspend [BusinessUpdate 2] [()] \<lparr>delta_tokens = 5\<rparr> \<lparr>sus_reason = Approval, sus_data = ()\<rparr>), dm x t (Suc (Suc k)) s)"
  by (simp add: execute_node_def select_biased_def node_a_def demo_world_def demo_context_def dm_def tick_def)

lemma demo_charge: "charge demo_context \<lparr>delta_tokens = 5\<rparr> (dm x 0 k s) = (Ok (), dm x 5 k s)"
  by (simp add: charge_def record_usage_def record_tokens_def check_optional_limit_eq demo_context_def
     run_budget_new_def dm_def unat_u64_max)

lemma demo_node: "graph_node (rt_graph (demo a)) (NodeId ''a'') = Some \<lparr>an_id = NodeId ''a'', an_execute = a\<rparr>"
   "graph_transition (rt_graph (demo a)) (NodeId ''a'') = Some (Goto (NodeId ''b''))"
  by (simp_all add: graph_node_def graph_transition_def demo_def compiled_def demo_graph_def)

lemma demo_update: "update_or (rt_business (demo a)) f (agent_state_new 0) [BusinessUpdate 2] = Ok (agent_state_new 2)"
  by (simp add: update_or_def apply_updates_def apply_one_def demo_def demo_ops_def agent_state_new_def)

lemma demo_effects: "run_effects (demo a) demo_world demo_context (RunStep 1) (NodeId ''a'') 0 [()] (st, [], []) (dm x t k s)
   = (Ok (st, [effect_id_new (RunId 7) (RunStep 1) (NodeId ''a'') 0],
        [\<lparr>rcpt_effect_id = effect_id_new (RunId 7) (RunStep 1) (NodeId ''a'') 0, rcpt_value = ()\<rparr>]), dm x t (Suc (Suc k)) s)"
  by (simp add: demo_def seq_def active_def check_active_def map_err_a_def execute_effect_def select_biased_def
     demo_world_def demo_context_def dm_def tick_def lift_r_def update_or_def apply_updates_def give_def Let_def)

lemma demo_complete: "complete_node (demo (node_a True)) demo_world demo_context True
    (start_state (demo (node_a True)) (agent_state_new 0)) demo_machine =
  (Ok \<lparr>nc_step = RunStep 1, nc_request = Some \<lparr>sus_reason = Approval, sus_data = ()\<rparr>, nc_state = agent_state_new 2,
    nc_receipts = [\<lparr>rcpt_effect_id = effect_id_new (RunId 7) (RunStep 1) (NodeId ''a'') 0, rcpt_value = ()\<rparr>],
    nc_next = Some (NodeId ''b'')\<rparr>, dm 1 5 (Suc (Suc (Suc (Suc (Suc 0))))) memory_store_new)"
proof -
  have start: "start_state (demo (node_a True)) (agent_state_new 0) = \<lparr>ls_state = agent_state_new 0, ls_current = NodeId ''a'', ls_visited = [], ls_receipts = []\<rparr>"
    by (simp add: start_state_def demo_def compiled_def)
  show ?thesis
    by (simp add: complete_node_def start demo_machine_dm seq_def demo_ready lift_r_def ok_or_def demo_node demo_execute
       take_apart_def ensure_def suspends_at_end_def demo_charge demo_update demo_effects choose_next_def give_def Let_def
       del: run_effects.simps)
qed

definition demo_checkpoint :: "(nat, unit, unit) agent_checkpoint" where
  "demo_checkpoint =
     \<lparr>cp_id = CheckpointId 9, cp_graph_id = GraphId ''g'', cp_graph_version = GraphVersion 1,
      cp_schema_version = schema_initial, cp_run_id = RunId 7,
      cp_position = \<lparr>completed_step = RunStep 1, next_node = NodeId ''b''\<rparr>,
      cp_state = agent_state_new 2, cp_budget = run_budget_new 8 30,
      cp_usage = \<lparr>steps = 1, llm_calls = 0, tool_calls = 0, tokens = 5\<rparr>, cp_visited = [NodeId ''a''],
      cp_receipts = [\<lparr>rcpt_effect_id = effect_id_new (RunId 7) (RunStep 1) (NodeId ''a'') 0, rcpt_value = ()\<rparr>],
      cp_suspend = \<lparr>sus_reason = Approval, sus_data = ()\<rparr>, cp_trace = run_trace_default\<rparr>"

definition demo_saved :: demo_store where
  "demo_saved = \<lparr>ms_poisoned = False, ms_checkpoints = [(CheckpointId 9, demo_checkpoint)], ms_consumed = []\<rparr>"

lemma demo_suspends:
  "execute_from 9 (demo (node_a True)) demo_world demo_context True
     (start_state (demo (node_a True)) (agent_state_new 0)) demo_machine
   = Some (Ok (Suspended demo_checkpoint), dm 1 5 (Suc (Suc (Suc (Suc (Suc (Suc 0)))))) demo_saved)"
proof -
  have cp: "make_checkpoint (demo (node_a True)) demo_world demo_context
       (start_state (demo (node_a True)) (agent_state_new 0))
      \<lparr>nc_step = RunStep 1, nc_request = Some \<lparr>sus_reason = Approval, sus_data = ()\<rparr>, nc_state = agent_state_new 2,
    nc_receipts = [\<lparr>rcpt_effect_id = effect_id_new (RunId 7) (RunStep 1) (NodeId ''a'') 0, rcpt_value = ()\<rparr>],
    nc_next = Some (NodeId ''b'')\<rparr> \<lparr>sus_reason = Approval, sus_data = ()\<rparr> (NodeId ''b'') (dm 1 5 k s) = demo_checkpoint" for k s
    by (simp add: make_checkpoint_def demo_checkpoint_def demo_world_def demo_def compiled_def demo_graph_def
       demo_ops_def demo_context_def dm_def start_state_def)
  have save: "save_checkpoint (demo (node_a True)) demo_world demo_checkpoint (dm 1 5 k memory_store_new)
     = (Ok (), dm 1 5 (Suc k) demo_saved)" for k
    by (simp add: save_checkpoint_def demo_def map_err_a_def on_store_def memory_ops_def memory_save_cases
      memory_store_new_def store_held_def store_spent_def demo_world_def dm_def tick_def demo_saved_def demo_checkpoint_def)
  have "turn (demo (node_a True)) demo_world demo_context True
     (start_state (demo (node_a True)) (agent_state_new 0)) demo_machine
   = (Ok (Stop (Suspended demo_checkpoint)), dm 1 5 (Suc (Suc (Suc (Suc (Suc (Suc 0)))))) demo_saved)"
    by (simp add: turn_def seq_def map_err_a_def demo_complete expect_def lift_r_def Let_def cp save give_def)
  then show ?thesis by (simp add: eval_nat_numeral)
qed

section \<open>Properties\<close>

text \<open>
  C1: a run of a compiled graph always ends, at the latest after as many turns as the step limit
  allows, without reaching any of the \<open>unreachable!\<close> or \<open>expect\<close> of the runtime. When it
  succeeds, the visited nodes are a path of the graph from the entry to a terminal node, the
  outcome is set, no budget is exceeded, and no two effects ran under the same effect id. When
  it fails, the error is true of the situation: it never misses a node or a transition, and it
  reports an unknown route only when a router returned a route it had not declared.
\<close>

theorem run_total_and_correct:
  assumes "runtime_ok rt ctx" and "within_limits (ctx_limits ctx) (mc_usage m)"
    and "step_cap rt ctx < fuel"
  shows "\<exists>r m'. run_with_context fuel rt w ctx st m = Some (r, m')
       \<and> (case r of
            Ok res \<Rightarrow> completed_ok rt (c_entry (rt_graph rt)) ctx res
          | Err e \<Rightarrow> error_true rt False e
          | Panic \<Rightarrow> False)"
  using assms by (rule run_with_context_total)

theorem run_total_and_correct_witness:
  "\<exists>r m'. run_with_context 9 (demo (node_a False)) demo_world demo_context (agent_state_new 0) demo_machine
       = Some (r, m') \<and> r \<noteq> Panic"
proof -
  have "step_cap (demo (node_a False)) demo_context < 9" by (simp add: step_cap_demo)
  from run_total_and_correct [OF runtime_ok_demo within_demo this, of demo_world "agent_state_new 0"]
  obtain r m' where "run_with_context 9 (demo (node_a False)) demo_world demo_context
      (agent_state_new 0) demo_machine = Some (r, m')"
    and "case r of Ok res \<Rightarrow> completed_ok (demo (node_a False)) (c_entry (rt_graph (demo (node_a False)))) demo_context res
          | Err e \<Rightarrow> error_true (demo (node_a False)) False e | Panic \<Rightarrow> False"
    by blast
  then show ?thesis by (cases r) auto
qed

text \<open>
  C13: a checkpointed run ends as well, and it either completes, or suspends with a checkpoint
  that belongs to this graph, this run and this budget, whose next node exists and whose path,
  usage and receipts satisfy the invariant of the run, or reports an error that is true of the
  situation; it never panics.
\<close>

theorem checkpointed_run_total_and_correct:
  assumes "runtime_ok rt ctx" and "within_limits (ctx_limits ctx) (mc_usage m)"
    and "step_cap rt ctx < fuel"
  shows "\<exists>r m'. run_checkpointed_with_context fuel rt w ctx st m = Some (r, m')
       \<and> outcome_true rt (c_entry (rt_graph rt)) ctx True r"
  using assms by (rule run_checkpointed_total)

theorem checkpointed_run_total_and_correct_witness:
  "\<exists>r m'. run_checkpointed_with_context 9 (demo (node_a True)) demo_world demo_context (agent_state_new 0)
         demo_machine = Some (r, m')
       \<and> outcome_true (demo (node_a True)) (NodeId ''a'') demo_context True r"
proof -
  have "step_cap (demo (node_a True)) demo_context < 9" by (simp add: step_cap_demo)
  from checkpointed_run_total_and_correct [OF runtime_ok_demo within_demo this, of demo_world "agent_state_new 0"]
  show ?thesis by (simp add: demo_def compiled_def)
qed

text \<open>
  C23: when a run without nested graphs suspends, its checkpoint is in the store, and resuming it
  later, with nobody else touching the store, goes on exactly where it stopped: if the resume
  input is accepted, the checkpoint is consumed and the loop continues at the recorded next node
  with the updated state, the same run id, budget, usage, visited nodes and receipts; otherwise
  the checkpoint stays in the store and the error reports the refused input.
\<close>

theorem resume_continues_suspended_run:
  assumes "compiled_ok (rt_graph rt)" and "loop_ok rt start ctx ls m" and "capped rt ctx"
    and "flat_parts rt" and "rt_store rt = Some memory_ops"
    and "execute_from fuel rt w ctx chk ls m = Some (Ok (Suspended cp), m')"
    and "undisturbed w2" and "mc_store m2 = mc_store m'"
  shows "store_held (mc_store m2) (cp_id cp) = Some cp
     \<and> resume_with_context fuel' rt w2 (cp_id cp) input trace m2 =
       (case resumed_state rt cp input of
          (Ok _, st) \<Rightarrow>
            (let m3 = tick (tick (m2\<lparr>mc_store := consume (cp_id cp) (mc_store m2)\<rparr>)) in
             map_option (\<lambda>(r, m''). (map_err RunFailed r, m''))
               (execute_from fuel' rt w2 (resume_context w2 cp trace m3) True (resume_loop cp st)
                 (tick (m3\<lparr>mc_usage := cp_usage cp\<rparr>))))
        | (Err e, _) \<Rightarrow> Some (Err (ResumeInputRejected e), tick m2)
        | (Panic, _) \<Rightarrow> Some (Panic, tick m2))"
proof -
  obtain ls1 m1 where last: "loop_ok rt start ctx ls1 m1"
    "turn rt w ctx chk ls1 m1 = (Ok (Stop (Suspended cp)), m')"
    using assms(1,2,3,6) by (rule suspended_last_turn)
  have held: "store_held (mc_store m2) (cp_id cp) = Some cp" "\<not> ms_poisoned (mc_store m2)"
    using suspended_saved [OF last(2) assms(5)] by (simp_all add: assms(8))
  have valid: "validate_checkpoint rt cp input =
     bind_r (map_err ResumeInputRejected (fst (resumed_state rt cp input)))
       (\<lambda>_. Ok (snd (resumed_state rt cp input)))"
    using turn_Suspended_ok(1) [OF assms(1) last(1) assms(3) last(2)] suspended_step [OF assms(4) last(2)]
    by (rule validate_checkpoint_ok)
  note claim = claim_checkpoint_undisturbed [OF assms(7) held, of rt input, unfolded valid]
  show ?thesis
    using held(1) assms(5) resume_after_claim [OF assms(5), where i = "cp_id cp" and w = w2 and m = m2
        and input = input and fuel = fuel' and trace = trace]
    by (cases "resumed_state rt cp input"; cases "fst (resumed_state rt cp input)")
      (simp_all add: claim resume_with_context_def Let_def)
qed

theorem resume_continues_suspended_run_witness:
  "\<exists>r. resume_with_context 9 (demo (node_a True)) demo_world (CheckpointId 9) 3 run_trace_default
      (dm 0 0 0 demo_saved) = map_option (\<lambda>(q, m'). (map_err RunFailed q, m')) r"
proof -
  have flat: "flat_parts (demo (node_a True))"
    by (auto simp: flat_parts_def demo_def compiled_def demo_graph_def graph_node_def node_a_def
        node_b_def split: if_splits)
  have store: "rt_store (demo (node_a True)) = Some memory_ops" by (simp add: demo_def)
  have world: "undisturbed demo_world" by (simp add: undisturbed_def demo_world_def)
  have "mc_store (dm 0 0 0 demo_saved) = mc_store (dm 1 5 (Suc (Suc (Suc (Suc (Suc (Suc 0)))))) demo_saved)"
    by (simp add: dm_def)
  from resume_continues_suspended_run [OF demo_graph_ok loop_ok_start [OF demo_graph_ok within_demo]
      capped_demo flat store demo_suspends world this, where input = 3 and fuel' = 9
      and trace = run_trace_default]
  have "resume_with_context 9 (demo (node_a True)) demo_world (cp_id demo_checkpoint) 3
      run_trace_default (dm 0 0 0 demo_saved) =
       (case resumed_state (demo (node_a True)) demo_checkpoint 3 of
          (Ok _, st) \<Rightarrow>
            (let m3 = tick (tick (dm 0 0 0 demo_saved\<lparr>mc_store := consume (cp_id demo_checkpoint)
                        (mc_store (dm 0 0 0 demo_saved))\<rparr>)) in
             map_option (\<lambda>(r, m''). (map_err RunFailed r, m''))
               (execute_from 9 (demo (node_a True)) demo_world
                 (resume_context demo_world demo_checkpoint run_trace_default m3) True
                 (resume_loop demo_checkpoint st)
                 (tick (m3\<lparr>mc_usage := cp_usage demo_checkpoint\<rparr>))))
        | (Err e, _) \<Rightarrow> Some (Err (ResumeInputRejected e), tick (dm 0 0 0 demo_saved))
        | (Panic, _) \<Rightarrow> Some (Panic, tick (dm 0 0 0 demo_saved)))"
    by blast
  moreover have "fst (resumed_state (demo (node_a True)) demo_checkpoint 3) = Ok ()"
    by (simp add: resumed_state_def apply_updates_def apply_one_def demo_def demo_ops_def)
  moreover have "cp_id demo_checkpoint = CheckpointId 9" by (simp add: demo_checkpoint_def)
  ultimately show ?thesis
    by (cases "resumed_state (demo (node_a True)) demo_checkpoint 3") (auto simp: Let_def)
qed

text \<open>
  C14: a resumption that has claimed its checkpoint runs to an end without panicking, and its
  result continues the suspended run: the visited nodes and the effect receipts extend those of
  the checkpoint, the whole path still starts where the first run started, no effect id of
  the first part is used again, and the budget spent before the suspension still counts: whatever the
  end, no meter (steps, model calls, tool calls, tokens) is below the one
  the checkpoint recorded, and a result or a next checkpoint carries the usage of that end.
\<close>

theorem resume_total_and_correct:
  assumes "compiled_ok (rt_graph rt)" and "calm_parts rt" and "rt_store rt = Some ops"
    and "claim_checkpoint rt ops w i input m = (Ok (cp, st), m1)"
    and "checkpoint_ok rt start cp"
    and "min (limit_of (cp_budget cp) Steps) (unat (rt_max_steps rt)) < min fuel (2 ^ 32 - 1)"
  shows "\<exists>r m'. resume_with_context fuel rt w i input trace m = Some (map_err RunFailed r, m')
     \<and> outcome_true rt start (resume_context w cp trace m1) True r
     \<and> (\<forall>x. meter_of (cp_usage cp) x \<le> meter_of (mc_usage m') x)
     \<and> (\<forall>c. r = Ok (Completed c) \<longrightarrow> res_usage c = mc_usage m' \<and>
          (\<exists>vs rs. res_visited c = cp_visited cp @ vs \<and> res_receipts c = cp_receipts cp @ rs))
     \<and> (\<forall>cp'. r = Ok (Suspended cp') \<longrightarrow> cp_usage cp' = mc_usage m' \<and>
          (\<exists>vs rs. cp_visited cp' = cp_visited cp @ vs \<and> cp_receipts cp' = cp_receipts cp @ rs))"
proof -
  let ?ctx = "resume_context w cp trace m1" and ?m = "tick (m1\<lparr>mc_usage := cp_usage cp\<rparr>)"
  have cap: "capped rt ?ctx" and fuel: "step_cap rt ?ctx < fuel"
    using assms(6) by (simp_all add: capped_def step_cap_def)
  have loop: "loop_ok rt start ?ctx (resume_loop cp st) ?m"
    using assms(5) by (intro resume_loop_ok) simp_all
  obtain r m' where run: "execute_from fuel rt w ?ctx True (resume_loop cp st) ?m = Some (r, m')"
    and true: "outcome_true rt start ?ctx True r"
    using execute_from_correct [OF assms(1) loop cap assms(2) fuel] .
  have spent: "\<forall>x. meter_of (cp_usage cp) x \<le> meter_of (mc_usage m') x"
    using execute_from_spends(1) [OF run] by simp
  have "(\<forall>c. r = Ok (Completed c) \<longrightarrow> res_usage c = mc_usage m' \<and>
          (\<exists>vs rs. res_visited c = cp_visited cp @ vs \<and> res_receipts c = cp_receipts cp @ rs))
     \<and> (\<forall>cp'. r = Ok (Suspended cp') \<longrightarrow> cp_usage cp' = mc_usage m' \<and>
          (\<exists>vs rs. cp_visited cp' = cp_visited cp @ vs \<and> cp_receipts cp' = cp_receipts cp @ rs))"
    using execute_from_extends [of fuel rt w ?ctx True "resume_loop cp st" ?m _ m'] execute_from_spends(2,3) [OF run] run
    by (fastforce simp: resume_loop_def)
  with true spent show ?thesis
    by (auto simp: resume_after_claim [OF assms(3,4)] run)
qed

theorem resume_total_and_correct_witness:
  "\<exists>r m'. resume_with_context 9 (demo (node_a True)) demo_world (CheckpointId 9) 3 run_trace_default
      (dm 0 0 0 demo_saved) = Some (map_err RunFailed r, m')
     \<and> (\<forall>x. meter_of (cp_usage demo_checkpoint) x \<le> meter_of (mc_usage m') x)
     \<and> (\<forall>c. r = Ok (Completed c) \<longrightarrow> res_usage c = mc_usage m')"
proof -
  have store: "rt_store (demo (node_a True)) = Some memory_ops" by (simp add: demo_def)
  have held: "store_held (mc_store (dm 0 0 0 demo_saved)) (CheckpointId 9) = Some demo_checkpoint"
    "\<not> ms_poisoned (mc_store (dm 0 0 0 demo_saved))"
    by (simp_all add: dm_def demo_saved_def store_held_def)
  have world: "undisturbed demo_world" by (simp add: undisturbed_def demo_world_def)
  have ok: "checkpoint_ok (demo (node_a True)) (NodeId ''a'') demo_checkpoint"
    using execute_from_result [OF demo_graph_ok loop_ok_start [OF demo_graph_ok within_demo] capped_demo
        demo_suspends]
    by (simp add: demo_def compiled_def)
  have "validate_checkpoint (demo (node_a True)) demo_checkpoint 3 = Ok (agent_state_new 5)"
    using validate_checkpoint_ok [OF ok, of 3]
    by (simp add: demo_checkpoint_def resumed_state_def apply_updates_def apply_one_def demo_def
        demo_ops_def agent_state_new_def)
  with claim_checkpoint_undisturbed [OF world held, of "demo (node_a True)" 3]
  obtain m1 where "claim_checkpoint (demo (node_a True)) memory_ops demo_world (CheckpointId 9) 3
      (dm 0 0 0 demo_saved) = (Ok (demo_checkpoint, agent_state_new 5), m1)"
    by simp
  moreover have "min (limit_of (cp_budget demo_checkpoint) Steps) (unat (rt_max_steps (demo (node_a True))))
      < min 9 (2 ^ 32 - 1)"
    by (simp add: limit_of_def demo_checkpoint_def run_budget_new_def rt_max_steps_def demo_def compiled_def)
  moreover have "calm_parts (demo (node_a True))"
    by (rule calm_demo) (simp add: node_a_def)
  ultimately show ?thesis
    using resume_total_and_correct [OF demo_graph_ok _ store _ ok, of _ _ _ _ _ _ 9 run_trace_default]
    by blast
qed

text \<open>
  A resumption that is refused - unknown checkpoint, another graph or version, another state
  schema, a position that contradicts the usage, a next node that no longer exists, a resume
  input the state rejects - changes nothing in the store: the checkpoint can be resumed again.
\<close>

theorem resume_refused_keeps_checkpoint:
  assumes "rt_store rt = Some memory_ops" and "undisturbed w"
    and "resume_with_context fuel rt w i input trace m = Some (Err e, m')"
    and "\<And>d. e \<noteq> RunFailed d"
  shows "mc_store m' = mc_store m"
proof (cases "claim_checkpoint rt memory_ops w i input m")
  case (Pair r m1)
  show ?thesis
  proof (cases r)
    case (Ok x)
    obtain cp st where x: "x = (cp, st)" by force
    from assms(3) have "\<exists>d. e = RunFailed d"
      unfolding resume_after_claim [OF assms(1) Pair [unfolded Ok x]]
      by (auto simp: result_simps)
    with assms(4) show ?thesis by blast
  next
    case (Err d)
    with assms(1,3) Pair have "m' = m1" by (auto simp: resume_with_context_def)
    with claim_refused_keeps_store [OF assms(2) Pair [unfolded Err]] show ?thesis by simp
  next
    case Panic
    with assms(1,3) Pair show ?thesis by (simp add: resume_with_context_def)
  qed
qed

theorem resume_refused_keeps_checkpoint_witness:
  "\<exists>e m'. resume_with_context 9 (demo (node_a True)) demo_world (CheckpointId 8) 3 run_trace_default
      (dm 0 0 0 demo_saved) = Some (Err e, m') \<and> mc_store m' = demo_saved"
proof -
  have store: "rt_store (demo (node_a True)) = Some memory_ops" by (simp add: demo_def)
  have world: "undisturbed demo_world" by (simp add: undisturbed_def demo_world_def)
  have run: "resume_with_context 9 (demo (node_a True)) demo_world (CheckpointId 8) 3 run_trace_default
      (dm 0 0 0 demo_saved) = Some (Err (CheckpointLoad (NotFound (CheckpointId 8))), tick (dm 0 0 0 demo_saved))"
    by (simp add: resume_with_context_def store claim_checkpoint_def seq_def map_err_a_def on_store_def
        memory_ops_def memory_load_cases demo_world_def dm_def demo_saved_def store_held_def ok_or_def)
  have "CheckpointLoad (NotFound (CheckpointId 8)) \<noteq> RunFailed d" for d :: "(nat, unit, unit) checkpoint_run_error"
    by simp
  from resume_refused_keeps_checkpoint [OF store world run this] run show ?thesis
    by (simp add: dm_def)
qed

text \<open>
  C12: once a resumption has claimed a checkpoint, no resumption of the same checkpoint succeeds
  any more, on whatever runtime over that store, whatever other clients of the store saved,
  loaded or took before, during and after the first run: it reports a load error, and no node
  of the graph runs a second time.
\<close>

theorem resume_at_most_once:
  assumes "rt_store rt = Some memory_ops" and "by_requests w" and "store_inv (mc_store m)"
    and "claim_checkpoint rt memory_ops w i input m = (Ok (cp, st), m1)"
    and "resume_with_context fuel rt w i input trace m = Some (r, m')"
    and "rt_store rt' = Some memory_ops" and "by_requests w'" and "mc_store n = mc_store m'"
  shows "\<exists>e n'. resume_with_context fuel' rt' w' i input' trace' n = Some (Err (CheckpointLoad e), n')"
proof -
  have "spent_inv i (tick (m1\<lparr>mc_usage := cp_usage cp\<rparr>))"
    using claim_spent_inv [OF assms(2,3,4)] by (simp add: spent_inv_def)
  moreover obtain q where "execute_from fuel rt w (resume_context w cp trace m1) True (resume_loop cp st)
      (tick (m1\<lparr>mc_usage := cp_usage cp\<rparr>)) = Some (q, m')"
    using assms(5) unfolding resume_after_claim [OF assms(1,4)] by auto
  ultimately have "spent_inv i m'"
    by (rule execute_from_keeps_spent [OF assms(2,1)])
  then have inv: "store_inv (mc_store n)" and spent: "store_spent (mc_store n) i"
    by (simp_all add: spent_inv_def assms(8))
  have "\<exists>e n'. claim_checkpoint rt' memory_ops w' i input' n = (Err (CheckpointLoad e), n')"
    by (rule spent_claim_fails [OF inv spent assms(7)])
  then obtain e n' where "claim_checkpoint rt' memory_ops w' i input' n = (Err (CheckpointLoad e), n')"
    by (elim exE)
  with assms(6) show ?thesis by (simp add: resume_with_context_def)
qed

theorem resume_at_most_once_witness:
  "\<exists>r m' e n'. resume_with_context 9 (demo (node_a True)) demo_world (CheckpointId 9) 3 run_trace_default
      (dm 0 0 0 demo_saved) = Some (r, m')
    \<and> resume_with_context 9 (demo (node_a True)) demo_world (CheckpointId 9) 4 run_trace_default m'
      = Some (Err (CheckpointLoad e), n')"
proof -
  have store: "rt_store (demo (node_a True)) = Some memory_ops" by (simp add: demo_def)
  have held: "store_held (mc_store (dm 0 0 0 demo_saved)) (CheckpointId 9) = Some demo_checkpoint"
    "\<not> ms_poisoned (mc_store (dm 0 0 0 demo_saved))"
    by (simp_all add: dm_def demo_saved_def store_held_def)
  have world: "undisturbed demo_world" by (simp add: undisturbed_def demo_world_def)
  have reqs: "by_requests demo_world"
    unfolding by_requests_def by (intro allI exI [of _ "[]"]) (simp add: demo_world_def)
  have inv: "store_inv (mc_store (dm 0 0 0 demo_saved))"
    by (auto simp: store_inv_def dm_def demo_saved_def store_held_def store_spent_def demo_checkpoint_def
        bt_ok_def split: if_splits)
  have "validate_checkpoint (demo (node_a True)) demo_checkpoint 3 = Ok (agent_state_new 5)"
    by (simp add: validate_checkpoint_def demo_checkpoint_def demo_def compiled_def demo_graph_def
        demo_ops_def ensure_def graph_node_def apply_updates_def apply_one_def agent_state_new_def)
  with claim_checkpoint_undisturbed [OF world held, of "demo (node_a True)" 3]
  obtain m1 where claim: "claim_checkpoint (demo (node_a True)) memory_ops demo_world (CheckpointId 9) 3
      (dm 0 0 0 demo_saved) = (Ok (demo_checkpoint, agent_state_new 5), m1)"
    by simp
  have ok: "checkpoint_ok (demo (node_a True)) (NodeId ''a'') demo_checkpoint"
    using execute_from_result [OF demo_graph_ok loop_ok_start [OF demo_graph_ok within_demo] capped_demo
        demo_suspends]
    by (simp add: demo_def compiled_def)
  let ?m = "tick (m1\<lparr>mc_usage := cp_usage demo_checkpoint\<rparr>)"
  let ?ctx = "resume_context demo_world demo_checkpoint run_trace_default m1"
  have caps: "capped (demo (node_a True)) ?ctx"
    "step_cap (demo (node_a True)) ?ctx - unat (steps (mc_usage ?m)) < 9"
    by (simp_all add: capped_def step_cap_def limit_of_def demo_checkpoint_def run_budget_new_def
        rt_max_steps_def demo_def compiled_def)
  have usage: "mc_usage ?m = cp_usage demo_checkpoint" by simp
  have "execute_from 9 (demo (node_a True)) demo_world ?ctx True
      (resume_loop demo_checkpoint (agent_state_new 5)) ?m \<noteq> None"
    by (rule execute_from_terminates [OF demo_graph_ok resume_loop_ok [OF ok usage] caps])
  then obtain q m' where "execute_from 9 (demo (node_a True)) demo_world ?ctx True
      (resume_loop demo_checkpoint (agent_state_new 5)) ?m = Some (q, m')"
    by fast
  then have run: "resume_with_context 9 (demo (node_a True)) demo_world (CheckpointId 9) 3
      run_trace_default (dm 0 0 0 demo_saved) = Some (map_err RunFailed q, m')"
    by (simp add: resume_after_claim [OF store claim])
  from resume_at_most_once [OF store reqs inv claim run store reqs refl] run show ?thesis
    by blast
qed

text \<open>
  When an effect fails, or is interrupted by cancellation or the deadline, the error names
  exactly the effect that failed and, as completed, exactly the effects of the same node that
  ran before it, in order: ordinals 0 to j - 1 of the step, with the failed one at ordinal j.
\<close>

theorem failed_effect_report:
  assumes "turn rt w ctx chk ls m = (Err (GraphFailure (EffectFailed n i ids e)), m')"
  shows "n = ls_current ls \<and> (\<exists>step j. j < 2 ^ 32
       \<and> ids = step_ids (ctx_run_id ctx) step n 0 j
       \<and> i = effect_id_new (ctx_run_id ctx) step n (word_of_nat j)
       \<and> distinct (ids @ [i]))"
proof -
  have "complete_node rt w ctx chk ls m = (Err (EffectFailed n i ids e), m')"
    using assms
    by (auto simp: turn_def Let_def result_simps save_checkpoint_def split: option.splits)
  then obtain step j where j: "j < 2 ^ 32" "n = ls_current ls"
    "ids = step_ids (ctx_run_id ctx) step n 0 j"
    "i = effect_id_new (ctx_run_id ctx) step n (word_of_nat j)"
    using complete_node_failed_effect by blast
  have "step_ids (ctx_run_id ctx) step n 0 (Suc j) =
      step_ids (ctx_run_id ctx) step n 0 j @ [effect_id_new (ctx_run_id ctx) step n (word_of_nat j)]"
    by (simp add: step_ids_def)
  then have "ids @ [i] = step_ids (ctx_run_id ctx) step n 0 (Suc j)"
    by (simp only: j(3,4))
  moreover have "distinct (step_ids (ctx_run_id ctx) step n 0 (Suc j))"
    using j(1) by (intro step_ids_distinct) simp
  ultimately have "distinct (ids @ [i])" by metis
  with j show ?thesis by blast
qed

definition failing :: demo_runtime where
  "failing = (demo (node_a True))
     \<lparr>rt_executor := Some (\<lambda>env ctx k. Done (Err (effect_error_new EffPermanent ''refused'')))\<rparr>"

theorem failed_effect_report_witness:
  "\<exists>m'. turn failing demo_world demo_context True (start_state failing (agent_state_new 0)) demo_machine
     = (Err (GraphFailure (EffectFailed (NodeId ''a'') (effect_id_new (RunId 7) (RunStep 1) (NodeId ''a'') 0) []
          (effect_error_new EffPermanent ''refused''))), m')
   \<and> (\<exists>step j. [] = step_ids (RunId 7) step (NodeId ''a'') 0 j)"
proof -
  have parts: "rt_max_steps failing = rt_max_steps (demo (node_a True))"
    "rt_graph failing = rt_graph (demo (node_a True))"
    "rt_business failing = rt_business (demo (node_a True))"
    by (simp_all add: failing_def rt_max_steps_def)
  have start: "start_state failing (agent_state_new 0) =
      \<lparr>ls_state = agent_state_new 0, ls_current = NodeId ''a'', ls_visited = [], ls_receipts = []\<rparr>"
    by (simp add: start_state_def parts demo_def compiled_def)
  have effect: "\<exists>m'. run_effects failing demo_world demo_context (RunStep 1) (NodeId ''a'') 0 [()] (st, [], [])
      (dm x t k s) = (Err (EffectFailed (NodeId ''a'') (effect_id_new (RunId 7) (RunStep 1) (NodeId ''a'') 0) []
          (effect_error_new EffPermanent ''refused'')), m')" for st x t k s
    by (simp add: failing_def seq_def active_def check_active_def map_err_a_def execute_effect_def
        select_biased_def demo_world_def demo_context_def dm_def tick_def Let_def)
  obtain m' where m': "run_effects failing demo_world demo_context (RunStep 1) (NodeId ''a'') 0 [()]
      (agent_state_new 2, [], []) (dm 1 5 (Suc (Suc (Suc 0))) memory_store_new)
      = (Err (EffectFailed (NodeId ''a'') (effect_id_new (RunId 7) (RunStep 1) (NodeId ''a'') 0) []
          (effect_error_new EffPermanent ''refused'')), m')"
    using effect by blast
  have turn: "turn failing demo_world demo_context True (start_state failing (agent_state_new 0)) demo_machine
     = (Err (GraphFailure (EffectFailed (NodeId ''a'') (effect_id_new (RunId 7) (RunStep 1) (NodeId ''a'') 0) []
          (effect_error_new EffPermanent ''refused''))), m')"
    by (simp add: turn_def complete_node_def start parts demo_machine_dm seq_def demo_ready lift_r_def
        ok_or_def demo_node demo_execute take_apart_def ensure_def suspends_at_end_def demo_charge
        demo_update m' map_err_a_def Let_def del: run_effects.simps)
  from failed_effect_report [OF turn] have "\<exists>step j. [] = step_ids (RunId 7) step (NodeId ''a'') 0 j"
    unfolding start by (auto simp: demo_context_def)
  with turn show ?thesis by blast
qed

definition node_nested :: "(nat, nat, unit, unit) node_body" where
  "node_nested = (\<lambda>st ctx k. Budget (NestedStep 8) (\<lambda>r.
     Done (Ok (Suspend [] [] \<lparr>delta_tokens = 5\<rparr> \<lparr>sus_reason = Approval, sus_data = ()\<rparr>))))"

text \<open>
  A node that runs a step of another graph under a clone of its own context and then suspends
  leaves a checkpoint that no resumption accepts: the step counter has moved past the step that
  the checkpoint records as completed, so every resume input is refused with
  RunPositionMismatch.
\<close>

theorem nested_run_unresumable:
  "\<exists>cp m'. execute_from 9 (demo node_nested) demo_world demo_context True
       (start_state (demo node_nested) (agent_state_new 0)) demo_machine = Some (Ok (Suspended cp), m')
     \<and> (\<forall>input. validate_checkpoint (demo node_nested) cp input = Err (RunPositionMismatch 1 2))"
proof -
  let ?rt = "demo node_nested"
  have start: "start_state ?rt (agent_state_new 0) =
      \<lparr>ls_state = agent_state_new 0, ls_current = NodeId ''a'', ls_visited = [], ls_receipts = []\<rparr>"
    by (simp add: start_state_def demo_def compiled_def)
  have exec: "execute_node demo_world demo_context \<lparr>an_id = i, an_execute = node_nested\<rparr> st cur (dm 1 t k s)
      = (Ok (Suspend [] [] \<lparr>delta_tokens = 5\<rparr> \<lparr>sus_reason = Approval, sus_data = ()\<rparr>), dm 2 t (Suc k) s)"
    for i st cur t k s
    by (simp add: execute_node_def select_biased_def node_nested_def demo_world_def demo_context_def
        dm_def tick_def forget_def reserve_step_def saturating_add_def run_budget_new_def
        run_step_try_from_def ok_or_def)
  have upd: "update_or (rt_business ?rt) f (agent_state_new 0) [] = Ok (agent_state_new 0)" for f
    by (simp add: update_or_def apply_updates_def)
  have node: "complete_node ?rt demo_world demo_context True (start_state ?rt (agent_state_new 0)) demo_machine
      = (Ok \<lparr>nc_step = RunStep 1, nc_request = Some \<lparr>sus_reason = Approval, sus_data = ()\<rparr>,
            nc_state = agent_state_new 0, nc_receipts = [], nc_next = Some (NodeId ''b'')\<rparr>,
         dm 2 5 (Suc (Suc 0)) memory_store_new)"
    by (simp add: complete_node_def start demo_machine_dm seq_def demo_ready lift_r_def ok_or_def
        demo_node exec take_apart_def ensure_def suspends_at_end_def demo_charge upd choose_next_def
        give_def Let_def)
  define cp where "cp = make_checkpoint ?rt demo_world demo_context (start_state ?rt (agent_state_new 0))
      \<lparr>nc_step = RunStep 1, nc_request = Some \<lparr>sus_reason = Approval, sus_data = ()\<rparr>,
       nc_state = agent_state_new 0, nc_receipts = [], nc_next = Some (NodeId ''b'')\<rparr>
      \<lparr>sus_reason = Approval, sus_data = ()\<rparr> (NodeId ''b'') (dm 2 5 (Suc (Suc 0)) memory_store_new)"
  obtain m' where save: "save_checkpoint ?rt demo_world cp (dm 2 5 (Suc (Suc 0)) memory_store_new) = (Ok (), m')"
    by (simp add: save_checkpoint_def demo_def map_err_a_def on_store_def memory_ops_def memory_save_cases
        memory_store_new_def store_held_def store_spent_def demo_world_def dm_def)
  have "turn ?rt demo_world demo_context True (start_state ?rt (agent_state_new 0)) demo_machine
      = (Ok (Stop (Suspended cp)), m')"
    by (simp add: turn_def seq_def map_err_a_def node expect_def lift_r_def Let_def cp_def [symmetric]
        save give_def)
  then have "execute_from 9 ?rt demo_world demo_context True (start_state ?rt (agent_state_new 0)) demo_machine
      = Some (Ok (Suspended cp), m')"
    by (simp add: eval_nat_numeral)
  moreover have "validate_checkpoint ?rt cp input = Err (RunPositionMismatch 1 2)" for input
    by (simp add: validate_checkpoint_def cp_def make_checkpoint_def ensure_def dm_def Let_def)
  ultimately show ?thesis by blast
qed

end
