(* ===== verification/Graph_Fragment.thy ===== *)
theory Graph_Fragment
  imports Compile_Correct
begin

text \<open>
  Reusable fragments of a graph (\<open>agent-core/src/graph/fragment.rs\<close>): local nodes and exits,
  mounting under a namespace, and connecting the exits. Operations on \<open>&mut self\<close> that change
  the graph only when they succeed return the changed graph with their result.
\<close>

section \<open>Data\<close>

record local_exit =
  le_source :: node_id
  le_route :: route_key

record ('x, 's) graph_fragment =
  f_nodes :: "(node_id, 'x agent_node) btree"
  f_entry :: "node_id option"
  f_transitions :: "(node_id, 's transition_rule) btree"
  f_exits :: "(string, local_exit) btree"

record fragment_exit =
  fe_key :: fragment_exit_key
  fe_name :: string
  fe_source :: node_id
  fe_route :: route_key

record mounted_fragment =
  mf_namespace :: string
  mf_entry :: node_id
  mf_exits :: "(string, fragment_exit) btree"

section \<open>Building a fragment\<close>

definition fragment_new :: "('x, 's) graph_fragment" where
  "fragment_new = \<lparr>f_nodes = [], f_entry = None, f_transitions = [], f_exits = []\<rparr>"

definition fragment_add_node ::
  "'x agent_node \<Rightarrow> ('x, 's) graph_fragment \<Rightarrow> (graph_build_error, ('x, 's) graph_fragment) result" where
  "fragment_add_node n f =
     (if bt_contains (f_nodes f) (an_id n) then Err (DuplicateNode (an_id n))
      else Ok (f\<lparr>f_nodes := bt_insert (an_id n) n (f_nodes f)\<rparr>))"

definition fragment_set_entry :: "node_id \<Rightarrow> ('x, 's) graph_fragment \<Rightarrow> ('x, 's) graph_fragment" where
  "fragment_set_entry n f = f\<lparr>f_entry := Some n\<rparr>"

definition fragment_set_transition ::
  "node_id \<Rightarrow> 's transition_rule \<Rightarrow> ('x, 's) graph_fragment \<Rightarrow>
     (graph_build_error, ('x, 's) graph_fragment) result" where
  "fragment_set_transition src t f =
     (if \<not> bt_contains (f_nodes f) src then Err (UnknownTransitionSource src)
      else if bt_contains (f_transitions f) src then Err (DuplicateTransition src)
      else Ok (f\<lparr>f_transitions := bt_insert src t (f_transitions f)\<rparr>))"

definition declare_exit ::
  "string \<Rightarrow> node_id \<Rightarrow> route_key \<Rightarrow> ('x, 's) graph_fragment \<Rightarrow>
     (graph_build_error, ('x, 's) graph_fragment) result" where
  "declare_exit name src route f =
     bind_r (map_err (InvalidFragmentExitName name) (route_key_try_from name)) (\<lambda>_.
       if bt_contains (f_exits f) name then Err (DuplicateFragmentExit name)
       else Ok (f\<lparr>f_exits := bt_insert name \<lparr>le_source = src, le_route = route\<rparr> (f_exits f)\<rparr>))"

section \<open>Validation\<close>

definition validate_local_target ::
  "('x, 's) graph_fragment \<Rightarrow> node_id \<Rightarrow> node_id \<Rightarrow> (graph_build_error, unit) result" where
  "validate_local_target f src target =
     ensure (bt_contains (f_nodes f) target) (FragmentDanglingTarget src target)"

definition reject_exits_on_non_branch ::
  "('x, 's) graph_fragment \<Rightarrow> node_id \<Rightarrow> (graph_build_error, unit) result" where
  "reject_exits_on_non_branch f src =
     (case find (\<lambda>(name, e). le_source e = src) (f_exits f) of
        Some (name, e) \<Rightarrow> Err (InvalidFragmentExitRoute name src (le_route e))
      | None \<Rightarrow> Ok ())"

text \<open>\<open>exits_by_source\<close>: the routes declared as exits of each node, each once.\<close>

definition add_exit_route ::
  "('x, 's) graph_fragment \<Rightarrow> (node_id, route_key btree_set) btree \<Rightarrow> string \<times> local_exit \<Rightarrow>
     (graph_build_error, (node_id, route_key btree_set) btree) result" where
  "add_exit_route f by_source e =
     (let name = fst e; src = le_source (snd e); route = le_route (snd e);
          routes = unwrap_or (bt_get by_source src) [] in
      if \<not> bt_contains (f_nodes f) src then Err (FragmentExitSourceMissing name src)
      else if route \<in> set routes then Err (InvalidFragmentExitRoute name src route)
      else Ok (bt_insert src (bs_insert route routes) by_source))"

fun collect_known :: "node_id \<Rightarrow> route_key btree_set \<Rightarrow> route_key list \<Rightarrow> (graph_build_error, route_key btree_set) result" where
  "collect_known src seen [] = Ok seen"
| "collect_known src seen (r # rs) =
     (if r \<in> set seen then Err (DuplicateFragmentRoute src r)
      else collect_known src (bs_insert r seen) rs)"

definition exit_name_of ::
  "('x, 's) graph_fragment \<Rightarrow> node_id \<Rightarrow> route_key \<Rightarrow> (graph_build_error, string) result" where
  "exit_name_of f src route =
     expect (map_option fst (find (\<lambda>(name, e). le_source e = src \<and> le_route e = route) (f_exits f)))"

definition validate_fragment_branch ::
  "('x, 's) graph_fragment \<Rightarrow> (node_id, route_key btree_set) btree \<Rightarrow> node_id \<Rightarrow> 's router \<Rightarrow>
     (route_key, node_id) btree \<Rightarrow> (graph_build_error, unit) result" where
  "validate_fragment_branch f by_source src rt targets =
     bind_r (collect_known src [] (known_routes rt)) (\<lambda>known.
     bind_r (all_ok (\<lambda>(r, target).
               bind_r (ensure (r \<in> set known) (UnknownFragmentRouteTarget src r)) (\<lambda>_.
                 validate_local_target f src target)) targets) (\<lambda>_.
     bind_r (all_ok (\<lambda>r.
               ensure (bt_contains targets r
                       \<or> (case bt_get by_source src of None \<Rightarrow> False | Some routes \<Rightarrow> r \<in> set routes))
                 (UnresolvedFragmentRoute src r)) known) (\<lambda>_.
       (case bt_get by_source src of
          None \<Rightarrow> Ok ()
        | Some routes \<Rightarrow>
            all_ok (\<lambda>r.
              if r \<notin> set known \<or> bt_contains targets r
              then bind_r (exit_name_of f src r) (\<lambda>name. Err (InvalidFragmentExitRoute name src r))
              else Ok ()) routes))))"

definition validate_fragment_transition ::
  "('x, 's) graph_fragment \<Rightarrow> (node_id, route_key btree_set) btree \<Rightarrow> node_id \<times> 's transition_rule \<Rightarrow>
     (graph_build_error, unit) result" where
  "validate_fragment_transition f by_source e =
     (case snd e of
        Goto target \<Rightarrow>
          bind_r (validate_local_target f (fst e) target) (\<lambda>_. reject_exits_on_non_branch f (fst e))
      | Branch rt targets \<Rightarrow> validate_fragment_branch f by_source (fst e) rt targets
      | End \<Rightarrow> Err (FragmentContainsEnd (fst e)))"

definition validate_fragment :: "('x, 's) graph_fragment \<Rightarrow> (graph_build_error, unit) result" where
  "validate_fragment f =
     bind_r (ok_or (f_entry f) FragmentMissingEntry) (\<lambda>entry.
     bind_r (ensure (bt_contains (f_nodes f) entry) (FragmentEntryMissing entry)) (\<lambda>_.
     bind_r (ensure (f_exits f \<noteq> []) FragmentMissingExit) (\<lambda>_.
     bind_r (all_ok (\<lambda>n. ensure (bt_contains (f_transitions f) n) (FragmentMissingTransition n))
               (bt_keys (f_nodes f))) (\<lambda>_.
     bind_r (try_fold (add_exit_route f) [] (f_exits f)) (\<lambda>by_source.
       all_ok (validate_fragment_transition f by_source) (f_transitions f))))))"

section \<open>Mounting\<close>

definition global_name :: "string \<Rightarrow> node_id \<Rightarrow> string" where
  "global_name ns local = ns @ ''.'' @ node_str local"

definition map_node ::
  "('x, 's) graph_definition \<Rightarrow> string \<Rightarrow> (node_id, node_id) btree \<Rightarrow> node_id \<Rightarrow>
     (graph_build_error, (node_id, node_id) btree) result" where
  "map_node g ns id_map local =
     bind_r (map_err (InvalidNamespacedNodeId ns local) (node_id_try_from (global_name ns local))) (\<lambda>global.
       if bt_contains (g_nodes g) global then Err (NamespaceCollision ns global)
       else Ok (bt_insert local global id_map))"

text \<open>A loop that inserts into a map what an \<open>expect\<close> or a rewriting may panic on.\<close>

definition collect_entries ::
  "('e \<Rightarrow> ('err, 'k \<times> 'v) result) \<Rightarrow> 'e list \<Rightarrow> ('err, ('k::linorder, 'v) btree) result" where
  "collect_entries f xs =
     try_fold (\<lambda>m x. bind_r (f x) (\<lambda>(k, v). Ok (bt_insert k v m))) [] xs"

definition rewrite_transition ::
  "(node_id, node_id) btree \<Rightarrow> 's transition_rule \<Rightarrow> (graph_build_error, 's transition_rule) result" where
  "rewrite_transition id_map t =
     (case t of
        Goto target \<Rightarrow> bind_r (expect (bt_get id_map target)) (\<lambda>n. Ok (Goto n))
      | Branch rt targets \<Rightarrow>
          bind_r (collect_entries (\<lambda>(r, target). bind_r (expect (bt_get id_map target)) (\<lambda>n. Ok (r, n))) targets)
            (\<lambda>targets'. Ok (Branch rt targets'))
      | End \<Rightarrow> Panic)"

text \<open>\<open>NamespacedNode\<close>: the same body under the global id.\<close>

definition mount_node ::
  "(node_id, node_id) btree \<Rightarrow> node_id \<times> 'x agent_node \<Rightarrow> (graph_build_error, node_id \<times> 'x agent_node) result" where
  "mount_node id_map e =
     bind_r (expect (bt_get id_map (fst e))) (\<lambda>i. Ok (i, \<lparr>an_id = i, an_execute = an_execute (snd e)\<rparr>))"

definition mount_transition ::
  "(node_id, node_id) btree \<Rightarrow> node_id \<times> 's transition_rule \<Rightarrow>
     (graph_build_error, node_id \<times> 's transition_rule) result" where
  "mount_transition id_map e =
     bind_r (expect (bt_get id_map (fst e))) (\<lambda>src.
       bind_r (rewrite_transition id_map (snd e)) (\<lambda>t. Ok (src, t)))"

definition mount_exit ::
  "string \<Rightarrow> (node_id, node_id) btree \<Rightarrow> string \<times> local_exit \<Rightarrow> (graph_build_error, string \<times> fragment_exit) result" where
  "mount_exit ns id_map e =
     bind_r (expect (bt_get id_map (le_source (snd e)))) (\<lambda>src.
       Ok (fst e, \<lparr>fe_key = ExitKey ns (fst e), fe_name = fst e, fe_source = src,
                   fe_route = le_route (snd e)\<rparr>))"

definition mount ::
  "string \<Rightarrow> ('x, 's) graph_fragment \<Rightarrow> ('x, 's) graph_definition \<Rightarrow>
     (graph_build_error, mounted_fragment \<times> ('x, 's) graph_definition) result" where
  "mount ns f g =
     bind_r (map_err (InvalidNamespace ns) (node_id_try_from ns)) (\<lambda>_.
     bind_r (ensure (ns \<notin> set (g_namespaces g)) (DuplicateNamespace ns)) (\<lambda>_.
     bind_r (validate_fragment f) (\<lambda>_.
     bind_r (expect (f_entry f)) (\<lambda>entry.
     bind_r (try_fold (map_node g ns) [] (bt_keys (f_nodes f))) (\<lambda>id_map.
     bind_r (expect (bt_get id_map entry)) (\<lambda>global_entry.
     bind_r (collect_entries (mount_node id_map) (f_nodes f)) (\<lambda>nodes.
     bind_r (collect_entries (mount_transition id_map) (f_transitions f)) (\<lambda>ts.
     bind_r (collect_entries (mount_exit ns id_map) (f_exits f)) (\<lambda>exits.
       Ok (\<lparr>mf_namespace = ns, mf_entry = global_entry, mf_exits = exits\<rparr>,
           g\<lparr>g_nodes := bt_extend (g_nodes g) nodes,
             g_transitions := bt_extend (g_transitions g) ts,
             g_namespaces := bs_insert ns (g_namespaces g),
             g_exits := fold (\<lambda>e. bt_insert (fe_key e) (fe_source e, fe_route e)) (bt_values exits)
                          (g_exits g)\<rparr>))))))))))"

section \<open>Connecting an exit\<close>

definition connect_exit ::
  "fragment_exit \<Rightarrow> node_id \<Rightarrow> ('x, 's) graph_definition \<Rightarrow>
     (graph_build_error, ('x, 's) graph_definition) result" where
  "connect_exit e target g =
     bind_r (ok_or (bt_get (g_exits g) (fe_key e)) (UnknownFragmentExit (fe_name e))) (\<lambda>(src, route).
     bind_r (ensure (src = fe_source e \<and> route = fe_route e) (UnknownFragmentExit (fe_name e))) (\<lambda>_.
     bind_r (ensure (bt_contains (g_nodes g) target) (UnknownFragmentExitTarget target)) (\<lambda>_.
     bind_r (expect (bt_get (g_transitions g) (fe_source e))) (\<lambda>t.
       (case t of
          Branch rt targets \<Rightarrow>
            if bt_contains targets (fe_route e) then Err (UnknownFragmentExit (fe_name e))
            else Ok (g\<lparr>g_transitions :=
                         bt_insert (fe_source e) (Branch rt (bt_insert (fe_route e) target targets))
                           (g_transitions g),
                       g_exits := bt_remove (fe_key e) (g_exits g)\<rparr>)
        | _ \<Rightarrow> Err (InvalidFragmentExitRoute (fe_name e) (fe_source e) (fe_route e)))))))"

end
