(* ===== verification/Fragment_Correct.thy ===== *)
theory Fragment_Correct
  imports Graph_Fragment
begin

text \<open>
  Correctness of fragments: what validation establishes, that mounting never panics and adds
  exactly the renamed fragment, and that connecting an exit closes exactly that route. The
  invariant \<open>open_exits_ok\<close> ties the unresolved exits to the branches they are routes of.
\<close>

section \<open>Collecting entries\<close>

lemma collect_entries_total:
  assumes "\<forall>x\<in>set xs. f x = Ok (kf x, vf x)"
  shows "collect_entries f xs = Ok (fold (\<lambda>x. bt_insert (kf x) (vf x)) xs [])"
proof -
  have "try_fold (\<lambda>m x. bind_r (f x) (\<lambda>(k, v). Ok (bt_insert k v m))) m xs
      = Ok (fold (\<lambda>x. bt_insert (kf x) (vf x)) xs m)" for m
    using assms by (induction xs arbitrary: m) simp_all
  then show ?thesis by (simp add: collect_entries_def)
qed

lemma fold_insert_ok: "bt_ok m \<Longrightarrow> bt_ok (fold (\<lambda>x. bt_insert (kf x) (vf x)) xs m)"
  by (induction xs arbitrary: m) simp_all

lemma fold_insert_outside:
  "k \<notin> kf ` set xs \<Longrightarrow> bt_get (fold (\<lambda>x. bt_insert (kf x) (vf x)) xs m) k = bt_get m k"
  by (induction xs arbitrary: m) auto

lemma fold_insert_inside:
  assumes "x \<in> set xs" and "distinct (map kf xs)"
  shows "bt_get (fold (\<lambda>x. bt_insert (kf x) (vf x)) xs m) (kf x) = Some (vf x)"
  using assms
proof (induction xs arbitrary: m)
  case Nil
  then show ?case by simp
next
  case (Cons y ys)
  show ?case
  proof (cases "x = y")
    case True
    have "kf y \<notin> kf ` set ys" using Cons.prems(2) by auto
    with True show ?thesis by (simp add: fold_insert_outside)
  next
    case False
    with Cons show ?thesis by simp
  qed
qed

lemma bt_get_in_values: "bt_get m k = Some v \<Longrightarrow> v \<in> set (bt_values m)"
  by (force dest: map_of_SomeD)

section \<open>What validation establishes\<close>

definition exit_routes :: "('x, 's) graph_fragment \<Rightarrow> node_id \<Rightarrow> route_key set" where
  "exit_routes f src =
     {le_route e |name e. bt_get (f_exits f) name = Some e \<and> le_source e = src}"

lemma local_exit_ext: "le_source d = le_source e \<Longrightarrow> le_route d = le_route e \<Longrightarrow> d = (e :: local_exit)"
  by simp

definition fragment_ok :: "('x, 's) graph_fragment \<Rightarrow> bool" where
  "fragment_ok f \<longleftrightarrow>
     bt_ok (f_nodes f) \<and> bt_ok (f_transitions f) \<and> bt_ok (f_exits f)
     \<and> (\<forall>k. bt_contains (f_transitions f) k \<longrightarrow> bt_contains (f_nodes f) k)
     \<and> (\<forall>k rt targets. bt_get (f_transitions f) k = Some (Branch rt targets) \<longrightarrow> bt_ok targets)"

definition fragment_transition_ok ::
  "('x, 's) graph_fragment \<Rightarrow> node_id \<Rightarrow> 's transition_rule \<Rightarrow> bool" where
  "fragment_transition_ok f src t \<longleftrightarrow>
     (case t of
        Goto n \<Rightarrow> bt_contains (f_nodes f) n \<and> exit_routes f src = {}
      | Branch rt targets \<Rightarrow>
          distinct (known_routes rt)
          \<and> set (bt_values targets) \<subseteq> set (bt_keys (f_nodes f))
          \<and> set (known_routes rt) = set (bt_keys targets) \<union> exit_routes f src
          \<and> set (bt_keys targets) \<inter> exit_routes f src = {}
      | End \<Rightarrow> False)"

definition fragment_valid :: "('x, 's) graph_fragment \<Rightarrow> bool" where
  "fragment_valid f \<longleftrightarrow>
     (\<exists>entry. f_entry f = Some entry \<and> bt_contains (f_nodes f) entry)
     \<and> f_exits f \<noteq> []
     \<and> (\<forall>n. bt_contains (f_nodes f) n \<longrightarrow> bt_contains (f_transitions f) n)
     \<and> (\<forall>name e. bt_get (f_exits f) name = Some e \<longrightarrow> bt_contains (f_nodes f) (le_source e))
     \<and> (\<forall>name name' e. bt_get (f_exits f) name = Some e \<longrightarrow> bt_get (f_exits f) name' = Some e \<longrightarrow>
          name = name')
     \<and> (\<forall>src t. bt_get (f_transitions f) src = Some t \<longrightarrow> fragment_transition_ok f src t)"

text \<open>The table of declared exits, built up to some entry.\<close>

definition routes_at :: "(node_id, route_key btree_set) btree \<Rightarrow> node_id \<Rightarrow> route_key set" where
  "routes_at by_source src = set (unwrap_or (bt_get by_source src) [])"

lemma add_exit_route_Ok:
  "add_exit_route f m e = Ok m' \<longleftrightarrow>
     bt_contains (f_nodes f) (le_source (snd e))
     \<and> le_route (snd e) \<notin> routes_at m (le_source (snd e))
     \<and> m' = bt_insert (le_source (snd e))
              (bs_insert (le_route (snd e)) (unwrap_or (bt_get m (le_source (snd e))) [])) m"
  by (auto simp: add_exit_route_def Let_def routes_at_def)

lemma routes_at_insert:
  "routes_at (bt_insert src (bs_insert r (unwrap_or (bt_get m src) [])) m) a =
     (if a = src then insert r (routes_at m src) else routes_at m a)"
  by (simp add: routes_at_def)

lemma fold_exit_routes:
  assumes "try_fold (add_exit_route f) m es = Ok m'"
  shows "routes_at m' a = routes_at m a \<union> {le_route e |name e. (name, e) \<in> set es \<and> le_source e = a}
     \<and> (\<forall>(name, e)\<in>set es. bt_contains (f_nodes f) (le_source e)
           \<and> le_route e \<notin> routes_at m (le_source e))
     \<and> distinct (map (\<lambda>(name, e). (le_source e, le_route e)) es)"
  using assms
proof (induction es arbitrary: m)
  case Nil
  then show ?case by simp
next
  case (Cons x es)
  obtain name e where x: "x = (name, e)" by force
  from Cons.prems obtain m1 where add: "add_exit_route f m x = Ok m1"
    and rest: "try_fold (add_exit_route f) m1 es = Ok m'"
    by (auto simp: result_simps)
  then have m1: "routes_at m1 b = (if b = le_source e then insert (le_route e) (routes_at m b) else routes_at m b)" for b
    by (auto simp: x add_exit_route_Ok routes_at_insert)
  have head: "bt_contains (f_nodes f) (le_source e)" "le_route e \<notin> routes_at m (le_source e)"
    using add by (simp_all add: x add_exit_route_Ok)
  note ih = Cons.IH [OF rest]
  have "routes_at m' a = routes_at m a \<union> {le_route e |name e. (name, e) \<in> set (x # es) \<and> le_source e = a}"
    using conjunct1 [OF ih] by (auto simp: x m1)
  moreover have "\<forall>(name, d)\<in>set es. bt_contains (f_nodes f) (le_source d)
           \<and> le_route d \<notin> routes_at m1 (le_source d)"
    using ih by blast
  then have "\<forall>(name, d)\<in>set es. bt_contains (f_nodes f) (le_source d)
           \<and> le_route d \<notin> routes_at m (le_source d)
           \<and> (le_source d, le_route d) \<noteq> (le_source e, le_route e)"
    by (auto simp: m1 split: if_splits)
  moreover have "distinct (map (\<lambda>(name, e). (le_source e, le_route e)) es)"
    using ih by blast
  ultimately show ?case using head by (auto simp: x)
qed

lemma add_exit_route_no_Panic [simp]: "add_exit_route f m e \<noteq> Panic"
  by (simp add: add_exit_route_def Let_def)

lemma collect_known_Ok:
  "collect_known src seen rs = Ok known \<longleftrightarrow>
     distinct rs \<and> set rs \<inter> set seen = {} \<and> known = fold bs_insert rs seen"
  by (induction src seen rs rule: collect_known.induct) auto

lemma collect_known_no_Panic [simp]: "collect_known src seen rs \<noteq> Panic"
  by (induction src seen rs rule: collect_known.induct) auto

lemma exit_name_of_not_Panic:
  assumes "r \<in> exit_routes f src"
  shows "exit_name_of f src r \<noteq> Panic"
proof -
  obtain name e where "bt_get (f_exits f) name = Some e" "le_source e = src" "le_route e = r"
    using assms by (auto simp: exit_routes_def)
  then have "\<exists>x. x \<in> set (f_exits f) \<and> (\<lambda>(name, e). le_source e = src \<and> le_route e = r) x"
    by (intro exI [of _ "(name, e)"]) (simp add: map_of_SomeD)
  then have "find (\<lambda>(name, e). le_source e = src \<and> le_route e = r) (f_exits f) \<noteq> None"
    by (simp only: find_None_iff not_not)
  then show ?thesis by (auto simp: exit_name_of_def result_simps)
qed

lemma exit_name_of_not_Err: "exit_name_of f src r \<noteq> Err e"
  by (simp add: exit_name_of_def result_simps)

lemma validate_local_target_Ok:
  "validate_local_target f src n = Ok u \<longleftrightarrow> bt_contains (f_nodes f) n"
  "validate_local_target f src n \<noteq> Panic"
  by (simp_all add: validate_local_target_def result_simps)

lemma validate_fragment_branch_Ok:
  "validate_fragment_branch f by_source src rt targets = Ok u \<longleftrightarrow>
     distinct (known_routes rt)
     \<and> set (bt_values targets) \<subseteq> set (bt_keys (f_nodes f))
     \<and> set (known_routes rt) = set (bt_keys targets) \<union> routes_at by_source src
     \<and> set (bt_keys targets) \<inter> routes_at by_source src = {}"
proof -
  have no: "bind_r (exit_name_of f src r) (\<lambda>name. Err (InvalidFragmentExitRoute name src r)) \<noteq> Ok ()" for r
    by (auto simp: result_simps)
  show ?thesis
    unfolding validate_fragment_branch_def
    by (cases "bt_get by_source src")
      (auto simp: result_simps collect_known_Ok set_fold_bs_insert validate_local_target_Ok
        bt_contains_iff routes_at_def no subset_iff image_iff split_beta split: if_splits)
qed

lemma fold_exit_routes_total:
  assumes "\<forall>(name, e)\<in>set es. bt_contains (f_nodes f) (le_source e) \<and> le_route e \<notin> routes_at m (le_source e)"
    and "distinct (map (\<lambda>(name, e). (le_source e, le_route e)) es)"
  shows "\<exists>m'. try_fold (add_exit_route f) m es = Ok m'"
  using assms
proof (induction es arbitrary: m)
  case Nil
  then show ?case by simp
next
  case (Cons x es)
  obtain name e where x: "x = (name, e)" by force
  let ?m1 = "bt_insert (le_source e) (bs_insert (le_route e) (unwrap_or (bt_get m (le_source e)) [])) m"
  have "add_exit_route f m x = Ok ?m1"
    using Cons.prems(1) by (simp add: x add_exit_route_Ok)
  moreover have "\<forall>(name, d)\<in>set es. bt_contains (f_nodes f) (le_source d)
      \<and> le_route d \<notin> routes_at ?m1 (le_source d)"
  proof (clarify)
    fix n d assume d: "(n, d) \<in> set es"
    then have "(le_source d, le_route d) \<noteq> (le_source e, le_route e)"
      using Cons.prems(2) by (force simp: x)
    with d Cons.prems(1) show "bt_contains (f_nodes f) (le_source d) \<and> le_route d \<notin> routes_at ?m1 (le_source d)"
      by (auto simp: routes_at_insert)
  qed
  moreover have "distinct (map (\<lambda>(name, e). (le_source e, le_route e)) es)"
    using Cons.prems(2) by simp
  ultimately show ?case using Cons.IH [of ?m1] by simp
qed

lemma exit_distinct_iff:
  fixes m :: "('k::linorder, local_exit) btree"
  assumes "bt_ok m"
  shows "distinct (map (\<lambda>(name, e). (le_source e, le_route e)) m) \<longleftrightarrow>
     (\<forall>name name' e. bt_get m name = Some e \<longrightarrow> bt_get m name' = Some e \<longrightarrow> name = name')"
proof -
  have "distinct m" using bt_ok_distinct [OF assms] by (simp add: distinct_map)
  then have "distinct (map (\<lambda>(name, e). (le_source e, le_route e)) m) \<longleftrightarrow>
      inj_on (\<lambda>(name, e). (le_source e, le_route e)) (set m)"
    by (simp add: distinct_map)
  also have "\<dots> \<longleftrightarrow> (\<forall>name name' e. (name, e) \<in> set m \<longrightarrow> (name', e) \<in> set m \<longrightarrow> name = name')"
  proof
    assume inj: "inj_on (\<lambda>(name, e). (le_source e, le_route e)) (set m)"
    show "\<forall>name name' e. (name, e) \<in> set m \<longrightarrow> (name', e) \<in> set m \<longrightarrow> name = name'"
    proof (intro allI impI)
      fix name name' e assume "(name, e) \<in> set m" "(name', e) \<in> set m"
      then have "(name, e) = (name', e)" by (intro inj_onD [OF inj]) simp_all
      then show "name = name'" by simp
    qed
  next
    assume same: "\<forall>name name' e. (name, e) \<in> set m \<longrightarrow> (name', e) \<in> set m \<longrightarrow> name = name'"
    show "inj_on (\<lambda>(name, e). (le_source e, le_route e)) (set m)"
    proof (rule inj_onI, clarify)
      fix name d name' e
      assume in_m: "(name, d) \<in> set m" "(name', e) \<in> set m"
        and eq: "le_source d = le_source e" "le_route d = le_route e"
      from eq have "d = e" by (rule local_exit_ext)
      with in_m same show "name = name' \<and> d = e" by blast
    qed
  qed
  finally show ?thesis by (simp only: bt_ok_mem_iff [OF assms])
qed

lemma routes_at_exits:
  assumes "fragment_ok f" and "try_fold (add_exit_route f) [] (f_exits f) = Ok by_source"
  shows "routes_at by_source src = exit_routes f src"
proof -
  have mem: "(name, e) \<in> set (f_exits f) \<longleftrightarrow> bt_get (f_exits f) name = Some e" for name e
    using assms(1) by (simp add: fragment_ok_def bt_ok_mem_iff)
  have "routes_at by_source src = {le_route e |name e. bt_get (f_exits f) name = Some e \<and> le_source e = src}"
    using conjunct1 [OF fold_exit_routes [OF assms(2)], of src] by (simp add: routes_at_def mem)
  also have "\<dots> = exit_routes f src"
    unfolding exit_routes_def by blast
  finally show ?thesis .
qed

lemma reject_exits_Ok:
  assumes "fragment_ok f"
  shows "reject_exits_on_non_branch f src = Ok u \<longleftrightarrow> exit_routes f src = {}"
    and "reject_exits_on_non_branch f src \<noteq> Panic"
proof -
  have mem: "(name, e) \<in> set (f_exits f) \<longleftrightarrow> bt_get (f_exits f) name = Some e" for name e
    using assms(1) by (simp add: fragment_ok_def bt_ok_mem_iff)
  have "find (\<lambda>(name, e). le_source e = src) (f_exits f) = None \<longleftrightarrow> exit_routes f src = {}"
  proof -
    have "find (\<lambda>(name, e). le_source e = src) (f_exits f) = None \<longleftrightarrow>
        (\<forall>name e. (name, e) \<in> set (f_exits f) \<longrightarrow> le_source e \<noteq> src)"
      by (auto simp: find_None_iff)
    also have "\<dots> \<longleftrightarrow> exit_routes f src = {}"
      unfolding exit_routes_def mem
      by blast
    finally show ?thesis .
  qed
  then show "reject_exits_on_non_branch f src = Ok u \<longleftrightarrow> exit_routes f src = {}"
    by (auto simp: reject_exits_on_non_branch_def split: option.splits)
  show "reject_exits_on_non_branch f src \<noteq> Panic"
    by (auto simp: reject_exits_on_non_branch_def split: option.splits)
qed

lemma validate_fragment_transition_Ok:
  assumes "fragment_ok f" and "try_fold (add_exit_route f) [] (f_exits f) = Ok by_source"
  shows "validate_fragment_transition f by_source (src, t) = Ok u \<longleftrightarrow> fragment_transition_ok f src t"
  using reject_exits_Ok(1) [OF assms(1), of src]
  by (cases t) (auto simp: validate_fragment_transition_def fragment_transition_ok_def result_simps
      validate_local_target_Ok validate_fragment_branch_Ok routes_at_exits [OF assms])

lemma validate_fragment_transition_no_Panic:
  assumes "fragment_ok f" and "try_fold (add_exit_route f) [] (f_exits f) = Ok by_source"
  shows "validate_fragment_transition f by_source e \<noteq> Panic"
proof (cases "snd e")
  case (Branch rt targets)
  have "validate_fragment_branch f by_source (fst e) rt targets \<noteq> Panic"
  proof (cases "bt_get by_source (fst e)")
    case None
    then show ?thesis
      by (auto simp: validate_fragment_branch_def result_simps validate_local_target_Ok split_beta
          dest!: all_ok_Panic)
  next
    case (Some routes)
    have "exit_name_of f (fst e) r \<noteq> Panic" if "r \<in> set routes" for r
    proof -
      have "r \<in> exit_routes f (fst e)"
        using that Some routes_at_exits [OF assms, of "fst e"] by (auto simp: routes_at_def)
      then show ?thesis by (rule exit_name_of_not_Panic)
    qed
    with Some show ?thesis
      by (auto simp: validate_fragment_branch_def result_simps validate_local_target_Ok split_beta
          dest!: all_ok_Panic split: if_splits)
  qed
  with Branch show ?thesis by (simp add: validate_fragment_transition_def)
qed (auto simp: validate_fragment_transition_def result_simps validate_local_target_Ok
    reject_exits_Ok(2) [OF assms(1)])

lemma validate_fragment_iff:
  assumes "fragment_ok f"
  shows "validate_fragment f = Ok u \<longleftrightarrow> fragment_valid f"
proof -
  have ex: "bt_ok (f_exits f)" and tr: "bt_ok (f_transitions f)"
    using assms by (simp_all add: fragment_ok_def)
  have mem: "(name, e) \<in> set (f_exits f) \<longleftrightarrow> bt_get (f_exits f) name = Some e" for name e
    by (rule bt_ok_mem_iff [OF ex])
  have table: "(\<exists>m. try_fold (add_exit_route f) [] (f_exits f) = Ok m) \<longleftrightarrow>
      (\<forall>name e. bt_get (f_exits f) name = Some e \<longrightarrow> bt_contains (f_nodes f) (le_source e))
      \<and> (\<forall>name name' e. bt_get (f_exits f) name = Some e \<longrightarrow> bt_get (f_exits f) name' = Some e \<longrightarrow>
          name = name')"
  proof
    assume "\<exists>m. try_fold (add_exit_route f) [] (f_exits f) = Ok m"
    then obtain m where "try_fold (add_exit_route f) [] (f_exits f) = Ok m" ..
    from fold_exit_routes [OF this] show "(\<forall>name e. bt_get (f_exits f) name = Some e \<longrightarrow> bt_contains (f_nodes f) (le_source e))
      \<and> (\<forall>name name' e. bt_get (f_exits f) name = Some e \<longrightarrow> bt_get (f_exits f) name' = Some e \<longrightarrow>
          name = name')"
      unfolding exit_distinct_iff [OF ex] mem [symmetric] by fast
  next
    assume "(\<forall>name e. bt_get (f_exits f) name = Some e \<longrightarrow> bt_contains (f_nodes f) (le_source e))
      \<and> (\<forall>name name' e. bt_get (f_exits f) name = Some e \<longrightarrow> bt_get (f_exits f) name' = Some e \<longrightarrow>
          name = name')"
    then show "\<exists>m. try_fold (add_exit_route f) [] (f_exits f) = Ok m"
      using exit_distinct_iff [OF ex]
      by (intro fold_exit_routes_total) (auto simp: mem routes_at_def)
  qed
  have each: "all_ok (validate_fragment_transition f m) (f_transitions f) = Ok u \<longleftrightarrow>
      (\<forall>src t. bt_get (f_transitions f) src = Some t \<longrightarrow> fragment_transition_ok f src t)"
    if "try_fold (add_exit_route f) [] (f_exits f) = Ok m" for m u
    using validate_fragment_transition_Ok [OF assms that]
    by (auto simp: result_simps bt_ok_mem_iff [OF tr, symmetric])
  have nodes: "n \<in> set (bt_keys (f_nodes f)) \<longleftrightarrow> bt_contains (f_nodes f) n" for n
    by (simp add: bt_contains_iff)
  have all_nodes: "all_ok (\<lambda>n. ensure (bt_contains (f_transitions f) n) (FragmentMissingTransition n))
      (bt_keys (f_nodes f)) = Ok v \<longleftrightarrow> (\<forall>n. bt_contains (f_nodes f) n \<longrightarrow> bt_contains (f_transitions f) n)" for v
    by (simp only: all_ok_Ok ensure_inv Ball_def nodes)
  have "validate_fragment f = Ok u \<longleftrightarrow>
     (\<exists>entry. f_entry f = Some entry \<and> bt_contains (f_nodes f) entry)
     \<and> f_exits f \<noteq> []
     \<and> (\<forall>n. bt_contains (f_nodes f) n \<longrightarrow> bt_contains (f_transitions f) n)
     \<and> (\<exists>m. try_fold (add_exit_route f) [] (f_exits f) = Ok m
            \<and> all_ok (validate_fragment_transition f m) (f_transitions f) = Ok u)"
    unfolding validate_fragment_def bind_r_Ok ok_or_inv ensure_inv all_nodes by auto
  also have "\<dots> \<longleftrightarrow> fragment_valid f"
  proof -
    have "(\<exists>m. try_fold (add_exit_route f) [] (f_exits f) = Ok m
            \<and> all_ok (validate_fragment_transition f m) (f_transitions f) = Ok u) \<longleftrightarrow>
        (\<exists>m. try_fold (add_exit_route f) [] (f_exits f) = Ok m)
        \<and> (\<forall>src t. bt_get (f_transitions f) src = Some t \<longrightarrow> fragment_transition_ok f src t)"
      using each by auto
    then show ?thesis by (simp only: fragment_valid_def table conj_assoc)
  qed
  finally show ?thesis .
qed

lemma validate_fragment_no_Panic:
  assumes "fragment_ok f"
  shows "validate_fragment f \<noteq> Panic"
proof
  assume p: "validate_fragment f = Panic"
  have "try_fold (add_exit_route f) [] (f_exits f) \<noteq> Panic"
    by (rule try_fold_no_Panic [where I = "\<lambda>_. True"]) simp_all
  moreover have "all_ok (\<lambda>n. ensure (bt_contains (f_transitions f) n) (FragmentMissingTransition n))
      (bt_keys (f_nodes f)) \<noteq> Panic"
    by (rule all_ok_no_Panic) (simp add: result_simps)
  ultimately obtain m where "try_fold (add_exit_route f) [] (f_exits f) = Ok m"
    and "all_ok (validate_fragment_transition f m) (f_transitions f) = Panic"
    using p by (auto simp: validate_fragment_def result_simps)
  then show False
    using validate_fragment_transition_no_Panic [OF assms] all_ok_no_Panic by metis
qed

section \<open>Mounting\<close>

definition global_id :: "string \<Rightarrow> node_id \<Rightarrow> node_id" where
  "global_id ns l = NodeId (global_name ns l)"

lemma global_id_inj: "global_id ns l = global_id ns l' \<longleftrightarrow> l = l'"
  by (auto simp: global_id_def global_name_def node_id.expand)

text \<open>The renamings a mounted fragment goes through.\<close>

definition renamed_node :: "string \<Rightarrow> node_id \<times> 'x agent_node \<Rightarrow> 'x agent_node" where
  "renamed_node ns e = \<lparr>an_id = global_id ns (fst e), an_execute = an_execute (snd e)\<rparr>"

definition renamed_transition :: "string \<Rightarrow> 's transition_rule \<Rightarrow> 's transition_rule" where
  "renamed_transition ns t =
     (case t of
        Goto n \<Rightarrow> Goto (global_id ns n)
      | Branch rt targets \<Rightarrow>
          Branch rt (fold (\<lambda>e. bt_insert (fst e) (global_id ns (snd e))) targets [])
      | End \<Rightarrow> End)"

definition renamed_exit :: "string \<Rightarrow> string \<times> local_exit \<Rightarrow> fragment_exit" where
  "renamed_exit ns e =
     \<lparr>fe_key = ExitKey ns (fst e), fe_name = fst e, fe_source = global_id ns (le_source (snd e)),
      fe_route = le_route (snd e)\<rparr>"

definition mounted_graph ::
  "string \<Rightarrow> ('x, 's) graph_fragment \<Rightarrow> ('x, 's) graph_definition \<Rightarrow> ('x, 's) graph_definition" where
  "mounted_graph ns f g =
     g\<lparr>g_nodes := bt_extend (g_nodes g)
           (fold (\<lambda>e. bt_insert (global_id ns (fst e)) (renamed_node ns e)) (f_nodes f) []),
       g_transitions := bt_extend (g_transitions g)
           (fold (\<lambda>e. bt_insert (global_id ns (fst e)) (renamed_transition ns (snd e))) (f_transitions f) []),
       g_namespaces := bs_insert ns (g_namespaces g),
       g_exits := fold (\<lambda>e. bt_insert (fe_key e) (fe_source e, fe_route e))
           (bt_values (fold (\<lambda>e. bt_insert (fst e) (renamed_exit ns e)) (f_exits f) [])) (g_exits g)\<rparr>"

definition mounted_handle :: "string \<Rightarrow> ('x, 's) graph_fragment \<Rightarrow> node_id \<Rightarrow> mounted_fragment" where
  "mounted_handle ns f entry =
     \<lparr>mf_namespace = ns, mf_entry = global_id ns entry,
      mf_exits = fold (\<lambda>e. bt_insert (fst e) (renamed_exit ns e)) (f_exits f) []\<rparr>"

definition mountable :: "string \<Rightarrow> ('x, 's) graph_fragment \<Rightarrow> ('x, 's) graph_definition \<Rightarrow> bool" where
  "mountable ns f g \<longleftrightarrow>
     valid_id ns \<and> ns \<notin> set (g_namespaces g) \<and> fragment_valid f
     \<and> (\<forall>l. bt_contains (f_nodes f) l \<longrightarrow>
          valid_id (global_name ns l) \<and> \<not> bt_contains (g_nodes g) (global_id ns l))"

lemma map_nodes_Ok:
  "try_fold (map_node g ns) m ls = Ok m' \<longleftrightarrow>
     (\<forall>l\<in>set ls. valid_id (global_name ns l) \<and> \<not> bt_contains (g_nodes g) (global_id ns l))
     \<and> m' = fold (\<lambda>l. bt_insert l (global_id ns l)) ls m"
proof (induction ls arbitrary: m)
  case Nil
  show ?case by auto
next
  case (Cons l ls)
  have "map_node g ns m l = Ok m1 \<longleftrightarrow>
      valid_id (global_name ns l) \<and> \<not> bt_contains (g_nodes g) (global_id ns l)
      \<and> m1 = bt_insert l (global_id ns l) m" for m1
    by (auto simp: map_node_def result_simps guard_simps global_id_def)
  with Cons show ?case by (auto simp: result_simps)
qed

lemma map_nodes_no_Panic: "try_fold (map_node g ns) m ls \<noteq> Panic"
  by (rule try_fold_no_Panic [where I = "\<lambda>_. True"]) (auto simp: map_node_def result_simps)

lemma id_map_get:
  "bt_get (fold (\<lambda>l. bt_insert l (global_id ns l)) ls m) l =
     (if l \<in> set ls then Some (global_id ns l) else bt_get m l)"
  by (induction ls arbitrary: m) auto

definition ids_ok :: "string \<Rightarrow> ('x, 's) graph_fragment \<Rightarrow> (node_id, node_id) btree \<Rightarrow> bool" where
  "ids_ok ns f id_map \<longleftrightarrow> (\<forall>l. bt_contains (f_nodes f) l \<longrightarrow> bt_get id_map l = Some (global_id ns l))"

lemma expect_id:
  "ids_ok ns f id_map \<Longrightarrow> bt_contains (f_nodes f) l \<Longrightarrow> expect (bt_get id_map l) = Ok (global_id ns l)"
  by (simp add: ids_ok_def expect_def)

lemma rewrite_transition_renamed:
  assumes "ids_ok ns f id_map" and "fragment_transition_ok f src t"
  shows "rewrite_transition id_map t = Ok (renamed_transition ns t)"
proof (cases t)
  case (Goto n)
  with assms show ?thesis
    by (simp add: rewrite_transition_def renamed_transition_def fragment_transition_ok_def expect_id)
next
  case (Branch rt targets)
  have "\<forall>e\<in>set targets. (\<lambda>(r, target). bind_r (expect (bt_get id_map target)) (\<lambda>n. Ok (r, n))) e
      = (Ok (fst e, global_id ns (snd e)) :: (graph_build_error, _) result)"
  proof
    fix e assume e: "e \<in> set targets"
    have "snd e \<in> set (bt_keys (f_nodes f))"
      using assms(2) Branch e by (auto simp: fragment_transition_ok_def)
    then have "bt_contains (f_nodes f) (snd e)" by (simp add: bt_contains_iff)
    then show "(\<lambda>(r, target). bind_r (expect (bt_get id_map target)) (\<lambda>n. Ok (r, n))) e
        = (Ok (fst e, global_id ns (snd e)) :: (graph_build_error, _) result)"
      by (simp add: split_beta expect_id [OF assms(1)])
  qed
  then have "collect_entries (\<lambda>(r, target). bind_r (expect (bt_get id_map target)) (\<lambda>n. Ok (r, n))) targets
      = (Ok (fold (\<lambda>e. bt_insert (fst e) (global_id ns (snd e))) targets []) :: (graph_build_error, _) result)"
    by (rule collect_entries_total)
  with Branch show ?thesis by (simp add: rewrite_transition_def renamed_transition_def)
next
  case End
  with assms(2) show ?thesis by (simp add: fragment_transition_ok_def)
qed

lemma mount_parts:
  assumes ok: "fragment_ok f" and valid: "fragment_valid f" and ids: "ids_ok ns f id_map"
  shows "collect_entries (mount_node id_map) (f_nodes f)
      = Ok (fold (\<lambda>e. bt_insert (global_id ns (fst e)) (renamed_node ns e)) (f_nodes f) [])"
    and "collect_entries (mount_transition id_map) (f_transitions f)
      = Ok (fold (\<lambda>e. bt_insert (global_id ns (fst e)) (renamed_transition ns (snd e))) (f_transitions f) [])"
    and "collect_entries (mount_exit ns id_map) (f_exits f)
      = Ok (fold (\<lambda>e. bt_insert (fst e) (renamed_exit ns e)) (f_exits f) [])"
proof -
  have node: "bt_contains (f_nodes f) (fst e)" if "e \<in> set (f_nodes f)" for e
    using that by (simp add: bt_contains_iff)
  show "collect_entries (mount_node id_map) (f_nodes f)
      = Ok (fold (\<lambda>e. bt_insert (global_id ns (fst e)) (renamed_node ns e)) (f_nodes f) [])"
    by (rule collect_entries_total) (simp add: mount_node_def renamed_node_def expect_id [OF ids node])
  have "mount_transition id_map e = Ok (global_id ns (fst e), renamed_transition ns (snd e))"
    if e: "e \<in> set (f_transitions f)" for e
  proof -
    have "bt_get (f_transitions f) (fst e) = Some (snd e)"
      using e ok by (simp add: fragment_ok_def bt_ok_mem_iff [symmetric])
    then have "fragment_transition_ok f (fst e) (snd e)" "bt_contains (f_nodes f) (fst e)"
      using valid ok by (simp_all add: fragment_valid_def fragment_ok_def bt_contains_def)
    then show ?thesis
      by (simp add: mount_transition_def rewrite_transition_renamed [OF ids] expect_id [OF ids])
  qed
  then show "collect_entries (mount_transition id_map) (f_transitions f)
      = Ok (fold (\<lambda>e. bt_insert (global_id ns (fst e)) (renamed_transition ns (snd e))) (f_transitions f) [])"
    by (intro collect_entries_total) simp
  have "mount_exit ns id_map e = Ok (fst e, renamed_exit ns e)" if e: "e \<in> set (f_exits f)" for e
  proof -
    have "bt_get (f_exits f) (fst e) = Some (snd e)"
      using e ok by (simp add: fragment_ok_def bt_ok_mem_iff [symmetric])
    then have "bt_contains (f_nodes f) (le_source (snd e))"
      using valid unfolding fragment_valid_def by blast
    then show ?thesis by (simp add: mount_exit_def renamed_exit_def expect_id [OF ids])
  qed
  then show "collect_entries (mount_exit ns id_map) (f_exits f)
      = Ok (fold (\<lambda>e. bt_insert (fst e) (renamed_exit ns e)) (f_exits f) [])"
    by (intro collect_entries_total) simp
qed

lemma mount_result:
  assumes ok: "fragment_ok f"
  shows "mount ns f g = Ok (mf, g') \<longleftrightarrow>
      mountable ns f g \<and> mf = mounted_handle ns f (the (f_entry f)) \<and> g' = mounted_graph ns f g"
    and "mount ns f g \<noteq> Panic"
proof -
  let ?map = "fold (\<lambda>l. bt_insert l (global_id ns l)) (bt_keys (f_nodes f)) []"
  have ids: "ids_ok ns f ?map"
    by (simp add: ids_ok_def id_map_get bt_contains_iff)
  have fresh: "(\<forall>l\<in>set (bt_keys (f_nodes f)). valid_id (global_name ns l) \<and> \<not> bt_contains (g_nodes g) (global_id ns l))
      \<longleftrightarrow> (\<forall>l. bt_contains (f_nodes f) l \<longrightarrow> valid_id (global_name ns l) \<and> \<not> bt_contains (g_nodes g) (global_id ns l))"
    by (simp only: bt_contains_iff [of "f_nodes f"] Ball_def)
  have names: "map_err (InvalidNamespace ns) (node_id_try_from ns) = Ok n \<longleftrightarrow> valid_id ns \<and> n = NodeId ns" for n
    by (simp add: result_simps guard_simps)
  have mapped: "try_fold (map_node g ns) [] (bt_keys (f_nodes f)) = Ok m \<longleftrightarrow>
      (\<forall>l. bt_contains (f_nodes f) l \<longrightarrow> valid_id (global_name ns l) \<and> \<not> bt_contains (g_nodes g) (global_id ns l))
      \<and> m = ?map" for m
    by (simp only: map_nodes_Ok fresh)
  have entry: "\<exists>e. f_entry f = Some e \<and> bt_contains (f_nodes f) e" if "fragment_valid f"
    using that by (simp add: fragment_valid_def)
  show "mount ns f g = Ok (mf, g') \<longleftrightarrow>
      mountable ns f g \<and> mf = mounted_handle ns f (the (f_entry f)) \<and> g' = mounted_graph ns f g"
  proof (cases "fragment_valid f")
    case True
    then obtain e where e: "f_entry f = Some e" "bt_contains (f_nodes f) e" using entry by blast
    show ?thesis
      unfolding mount_def bind_r_Ok names ensure_inv validate_fragment_iff [OF ok] mapped
        mountable_def mounted_handle_def mounted_graph_def
      using True e mount_parts [OF ok True ids] expect_id [OF ids e(2)]
      by (auto simp: expect_def)
  next
    case False
    then show ?thesis
      by (auto simp: mount_def result_simps validate_fragment_iff [OF ok] mountable_def)
  qed
  show "mount ns f g \<noteq> Panic"
  proof
    assume p: "mount ns f g = Panic"
    then have valid: "fragment_valid f"
      using validate_fragment_no_Panic [OF ok]
      by (auto simp: mount_def result_simps validate_fragment_iff [OF ok])
    then obtain e where e: "f_entry f = Some e" "bt_contains (f_nodes f) e" using entry by blast
    from p e map_nodes_no_Panic [of g ns "[]" "bt_keys (f_nodes f)"] validate_fragment_no_Panic [OF ok] show False
      by (auto simp: mount_def result_simps mapped mount_parts [OF ok valid ids] expect_def ids_ok_def
          ids [unfolded ids_ok_def])
  qed
qed

section \<open>The mounted graph\<close>

lemma distinct_global: "bt_ok m \<Longrightarrow> distinct (map (\<lambda>e. global_id ns (fst e)) m)"
  using bt_ok_distinct [of m] by (auto simp: distinct_map inj_on_def global_id_inj)

lemma renamed_lookup:
  assumes "bt_ok m"
  shows "bt_get (fold (\<lambda>e. bt_insert (global_id ns (fst e)) (v e)) m []) n =
     (if \<exists>l x. n = global_id ns l \<and> bt_get m l = Some x
      then Some (v (THE e. e \<in> set m \<and> n = global_id ns (fst e))) else None)"
proof (cases "\<exists>l x. n = global_id ns l \<and> bt_get m l = Some x")
  case True
  then obtain l x where l: "n = global_id ns l" "(l, x) \<in> set m"
    by (auto dest: map_of_SomeD)
  have "(THE e. e \<in> set m \<and> n = global_id ns (fst e)) = (l, x)"
    using l assms by (intro the_equality) (auto simp: global_id_inj bt_ok_mem_iff)
  with True fold_insert_inside [OF l(2) distinct_global [OF assms], of ns v "[]"] l(1) show ?thesis
    by simp
next
  case False
  then have "n \<notin> (\<lambda>e. global_id ns (fst e)) ` set m"
    using assms by (force simp: bt_ok_mem_iff)
  then show ?thesis using False fold_insert_outside [of n "\<lambda>e. global_id ns (fst e)" m v "[]"] by auto
qed

lemma renamed_lookup_Some:
  assumes "bt_ok m" and "bt_get m l = Some x"
  shows "bt_get (fold (\<lambda>e. bt_insert (global_id ns (fst e)) (v e)) m []) (global_id ns l) = Some (v (l, x))"
  using fold_insert_inside [OF _ distinct_global [OF assms(1)], of "(l, x)" ns v "[]"] assms
  by (simp add: bt_ok_mem_iff)

lemma renamed_lookup_inv:
  assumes "bt_ok m" and "bt_get (fold (\<lambda>e. bt_insert (global_id ns (fst e)) (v e)) m []) n = Some y"
  shows "\<exists>l x. n = global_id ns l \<and> bt_get m l = Some x \<and> y = v (l, x)"
proof -
  obtain l x where l: "n = global_id ns l" "bt_get m l = Some x"
    using renamed_lookup [OF assms(1), of ns v n] assms(2) by (auto split: if_splits)
  with renamed_lookup_Some [OF assms(1) l(2), of ns v] assms(2) show ?thesis by auto
qed

lemma mounted_nodes:
  "bt_ok (f_nodes f) \<Longrightarrow> bt_get (g_nodes (mounted_graph ns f g)) n =
     (case bt_get (fold (\<lambda>e. bt_insert (global_id ns (fst e)) (renamed_node ns e)) (f_nodes f) []) n of
        None \<Rightarrow> bt_get (g_nodes g) n | Some nd \<Rightarrow> Some nd)"
  by (simp add: mounted_graph_def map_of_bt_extend fold_insert_ok map_add_def)

lemma mounted_transitions:
  "bt_ok (f_transitions f) \<Longrightarrow> bt_get (g_transitions (mounted_graph ns f g)) n =
     (case bt_get (fold (\<lambda>e. bt_insert (global_id ns (fst e)) (renamed_transition ns (snd e))) (f_transitions f) []) n of
        None \<Rightarrow> bt_get (g_transitions g) n | Some t \<Rightarrow> Some t)"
  by (simp add: mounted_graph_def map_of_bt_extend fold_insert_ok map_add_def)

lemma renamed_exits_values:
  assumes "bt_ok (f_exits f)"
  shows "e \<in> set (bt_values (fold (\<lambda>e. bt_insert (fst e) (renamed_exit ns e)) (f_exits f) []))
     \<longleftrightarrow> (\<exists>x\<in>set (f_exits f). e = renamed_exit ns x)"
proof -
  let ?m = "fold (\<lambda>e. bt_insert (fst e) (renamed_exit ns e)) (f_exits f) []"
  have ok: "bt_ok ?m" by (rule fold_insert_ok) simp
  have d: "distinct (map fst (f_exits f))" using assms by (rule bt_ok_distinct)
  have get: "bt_get ?m (fst x) = Some (renamed_exit ns x)" if "x \<in> set (f_exits f)" for x
    using fold_insert_inside [OF that d] .
  have "e \<in> set (bt_values ?m) \<longleftrightarrow> (\<exists>k. bt_get ?m k = Some e)"
    using bt_ok_mem_iff [OF ok] by force
  also have "\<dots> \<longleftrightarrow> (\<exists>x\<in>set (f_exits f). e = renamed_exit ns x)"
  proof
    assume "\<exists>k. bt_get ?m k = Some e"
    then obtain k where k: "bt_get ?m k = Some e" ..
    then have "k \<in> fst ` set (f_exits f)"
      using fold_insert_outside [of k fst "f_exits f" "renamed_exit ns" "[]"] by auto
    with k get show "\<exists>x\<in>set (f_exits f). e = renamed_exit ns x" by force
  next
    assume "\<exists>x\<in>set (f_exits f). e = renamed_exit ns x"
    with get show "\<exists>k. bt_get ?m k = Some e" by blast
  qed
  finally show ?thesis .
qed

lemma renamed_exits_keys:
  assumes "bt_ok (f_exits f)"
  shows "distinct (map fe_key (bt_values (fold (\<lambda>e. bt_insert (fst e) (renamed_exit ns e)) (f_exits f) [])))"
proof -
  let ?m = "fold (\<lambda>e. bt_insert (fst e) (renamed_exit ns e)) (f_exits f) []"
  have ok: "bt_ok ?m" by (rule fold_insert_ok) simp
  have d: "distinct (map fst (f_exits f))" using assms by (rule bt_ok_distinct)
  have "fe_key v = ExitKey ns k" if "(k, v) \<in> set ?m" for k v
  proof -
    have k: "bt_get ?m k = Some v" using that bt_ok_mem_iff [OF ok] by blast
    then have "k \<in> fst ` set (f_exits f)"
      using fold_insert_outside [of k fst "f_exits f" "renamed_exit ns" "[]"] by auto
    then obtain x where "x \<in> set (f_exits f)" "k = fst x" by blast
    with fold_insert_inside [OF _ d, of x "renamed_exit ns" "[]"] k show ?thesis
      by (auto simp: renamed_exit_def)
  qed
  then have "map fe_key (bt_values ?m) = map (ExitKey ns \<circ> fst) ?m" by auto
  moreover have "distinct (map (ExitKey ns \<circ> fst) ?m)"
    using bt_ok_distinct [OF ok] by (simp add: distinct_map comp_inj_on inj_on_def)
  ultimately show ?thesis by (simp only:)
qed

lemma mounted_exits:
  assumes "bt_ok (f_exits f)" and "bt_get (g_exits (mounted_graph ns f g)) k = Some (src, r)"
  shows "(\<exists>name e. bt_get (f_exits f) name = Some e \<and> k = ExitKey ns name
            \<and> src = global_id ns (le_source e) \<and> r = le_route e)
       \<or> (bt_get (g_exits g) k = Some (src, r) \<and> (\<forall>name. bt_get (f_exits f) name \<noteq> None \<longrightarrow> k \<noteq> ExitKey ns name))"
proof -
  let ?es = "bt_values (fold (\<lambda>e. bt_insert (fst e) (renamed_exit ns e)) (f_exits f) [])"
  have get: "bt_get (fold (\<lambda>e. bt_insert (fe_key e) (fe_source e, fe_route e)) ?es (g_exits g)) k = Some (src, r)"
    using assms(2) by (simp add: mounted_graph_def)
  show ?thesis
  proof (cases "k \<in> fe_key ` set ?es")
    case True
    then obtain e where e: "e \<in> set ?es" "k = fe_key e" by blast
    with fold_insert_inside [OF e(1) renamed_exits_keys [OF assms(1)],
        of "\<lambda>e. (fe_source e, fe_route e)" "g_exits g"] get
    have sr: "src = fe_source e" "r = fe_route e" by simp_all
    obtain x where x: "x \<in> set (f_exits f)" "e = renamed_exit ns x"
      using e(1) renamed_exits_values [OF assms(1)] by blast
    have "bt_get (f_exits f) (fst x) = Some (snd x)"
      using x(1) assms(1) by (simp add: bt_ok_mem_iff [symmetric])
    with x(2) e(2) sr show ?thesis by (auto simp: renamed_exit_def)
  next
    case False
    then have "bt_get (g_exits g) k = Some (src, r)"
      using get fold_insert_outside [OF False, of "\<lambda>e. (fe_source e, fe_route e)" "g_exits g"]
      by (simp only:)
    moreover have "k \<noteq> ExitKey ns name" if "bt_get (f_exits f) name = Some e" for name e
    proof -
      have "renamed_exit ns (name, e) \<in> set ?es"
        using that assms(1) renamed_exits_values [OF assms(1)] by (auto simp: bt_ok_mem_iff)
      with False show ?thesis by (force simp: renamed_exit_def)
    qed
    ultimately show ?thesis by auto
  qed
qed

lemma mounted_exits_new:
  assumes "bt_ok (f_exits f)" and "bt_get (f_exits f) name = Some e"
  shows "bt_get (g_exits (mounted_graph ns f g)) (ExitKey ns name)
     = Some (global_id ns (le_source e), le_route e)"
proof -
  let ?es = "bt_values (fold (\<lambda>e. bt_insert (fst e) (renamed_exit ns e)) (f_exits f) [])"
  have "renamed_exit ns (name, e) \<in> set ?es"
    using assms renamed_exits_values [OF assms(1)] by (auto simp: bt_ok_mem_iff)
  from fold_insert_inside [OF this renamed_exits_keys [OF assms(1)],
      of "\<lambda>e. (fe_source e, fe_route e)" "g_exits g"]
  show ?thesis by (simp add: mounted_graph_def renamed_exit_def)
qed

lemma mounted_exits_old:
  assumes "bt_ok (f_exits f)" and "bt_get (g_exits g) k = Some x" and "exit_namespace k \<noteq> ns"
  shows "bt_get (g_exits (mounted_graph ns f g)) k = Some x"
proof -
  let ?es = "bt_values (fold (\<lambda>e. bt_insert (fst e) (renamed_exit ns e)) (f_exits f) [])"
  have "k \<notin> fe_key ` set ?es"
  proof
    assume "k \<in> fe_key ` set ?es"
    then obtain e where e: "e \<in> set ?es" "k = fe_key e" by blast
    then obtain x where "e = renamed_exit ns x" using renamed_exits_values [OF assms(1)] by blast
    with e(2) assms(3) show False by (simp add: renamed_exit_def)
  qed
  with assms(2) show ?thesis
    using fold_insert_outside [of k fe_key ?es "\<lambda>e. (fe_source e, fe_route e)" "g_exits g"]
    by (simp add: mounted_graph_def)
qed

section \<open>Open exits\<close>

text \<open>
  The unresolved exits of a graph: each belongs to a mounted namespace, is a route of a branch
  of its source that has no target yet, and no two of them are the same route.
\<close>

definition open_exits_ok :: "('x, 's) graph_definition \<Rightarrow> bool" where
  "open_exits_ok g \<longleftrightarrow>
     (\<forall>k src r. bt_get (g_exits g) k = Some (src, r) \<longrightarrow>
        exit_namespace k \<in> set (g_namespaces g)
        \<and> bt_contains (g_nodes g) src
        \<and> (\<exists>rt targets. bt_get (g_transitions g) src = Some (Branch rt targets)
             \<and> r \<in> set (known_routes rt) \<and> bt_get targets r = None)
        \<and> (\<forall>k'. bt_get (g_exits g) k' = Some (src, r) \<longrightarrow> k' = k))"

lemma mounted_old_node:
  assumes "mountable ns f g" and "fragment_ok f" and "bt_contains (g_nodes g) n"
  shows "bt_get (g_nodes (mounted_graph ns f g)) n = bt_get (g_nodes g) n"
    and "graph_ok g \<Longrightarrow> bt_get (g_transitions (mounted_graph ns f g)) n = bt_get (g_transitions g) n"
proof -
  have ok: "bt_ok (f_nodes f)" "bt_ok (f_transitions f)" using assms(2) by (simp_all add: fragment_ok_def)
  have fresh: "n \<noteq> global_id ns l" if "bt_contains (f_nodes f) l" for l
    using assms(1,3) that by (auto simp: mountable_def)
  have "bt_get (fold (\<lambda>e. bt_insert (global_id ns (fst e)) (renamed_node ns e)) (f_nodes f) []) n = None"
  proof (rule ccontr)
    assume "\<not> ?thesis"
    then obtain y where "bt_get (fold (\<lambda>e. bt_insert (global_id ns (fst e)) (renamed_node ns e)) (f_nodes f) []) n = Some y"
      by blast
    from renamed_lookup_inv [OF ok(1) this] obtain l x
      where "n = global_id ns l" "bt_get (f_nodes f) l = Some x" by blast
    with fresh [of l] show False by (auto simp: bt_contains_def)
  qed
  then show "bt_get (g_nodes (mounted_graph ns f g)) n = bt_get (g_nodes g) n"
    by (simp add: mounted_nodes [OF ok(1)])
  have "bt_get (fold (\<lambda>e. bt_insert (global_id ns (fst e)) (renamed_transition ns (snd e))) (f_transitions f) []) n = None"
  proof (rule ccontr)
    assume "\<not> ?thesis"
    then obtain t where "bt_get (fold (\<lambda>e. bt_insert (global_id ns (fst e)) (renamed_transition ns (snd e))) (f_transitions f) []) n = Some t"
      by blast
    from renamed_lookup_inv [OF ok(2) this] obtain l x
      where "n = global_id ns l" "bt_get (f_transitions f) l = Some x" by blast
    with fresh [of l] assms(2) show False by (auto simp: fragment_ok_def bt_contains_def)
  qed
  then show "bt_get (g_transitions (mounted_graph ns f g)) n = bt_get (g_transitions g) n"
    by (simp add: mounted_transitions [OF ok(2)])
qed

lemma mounted_new_node:
  assumes "fragment_ok f" and "bt_get (f_nodes f) l = Some nd"
  shows "bt_get (g_nodes (mounted_graph ns f g)) (global_id ns l) = Some (nd\<lparr>an_id := global_id ns l\<rparr>)"
  using assms renamed_lookup_Some [of "f_nodes f" l nd ns "renamed_node ns"]
  by (simp add: mounted_nodes fragment_ok_def renamed_node_def)

lemma mounted_new_transition:
  assumes "fragment_ok f" and "bt_get (f_transitions f) l = Some t"
  shows "bt_get (g_transitions (mounted_graph ns f g)) (global_id ns l) = Some (renamed_transition ns t)"
  using assms renamed_lookup_Some [of "f_transitions f" l t ns "\<lambda>e. renamed_transition ns (snd e)"]
  by (simp add: mounted_transitions fragment_ok_def)

lemma fold_exits_bt_ok: "bt_ok m \<Longrightarrow> bt_ok (fold (\<lambda>e. bt_insert (kf e) (vf e)) es m)"
  by (rule fold_insert_ok)

lemma graph_ok_mounted:
  assumes g: "graph_ok g" and ok: "fragment_ok f" and m: "mountable ns f g"
  shows "graph_ok (mounted_graph ns f g)"
proof -
  let ?g = "mounted_graph ns f g"
  have oks: "bt_ok (f_nodes f)" "bt_ok (f_transitions f)" using ok by (simp_all add: fragment_ok_def)
  have "bt_ok (g_nodes ?g)" "bt_ok (g_transitions ?g)" "bt_ok (g_exits ?g)"
    using g by (simp_all add: mounted_graph_def graph_ok_def bt_ok_extend fold_insert_ok)
  moreover have "an_id n = k" if n: "bt_get (g_nodes ?g) k = Some n" for k n
  proof (cases "bt_get (fold (\<lambda>e. bt_insert (global_id ns (fst e)) (renamed_node ns e)) (f_nodes f) []) k")
    case None
    with n g show ?thesis by (simp add: mounted_nodes [OF oks(1)] graph_ok_def)
  next
    case (Some nd)
    from renamed_lookup_inv [OF oks(1) Some] n Some show ?thesis
      by (auto simp: mounted_nodes [OF oks(1)] renamed_node_def)
  qed
  moreover have "bt_contains (g_nodes ?g) k" if t: "bt_contains (g_transitions ?g) k" for k
  proof (cases "bt_get (fold (\<lambda>e. bt_insert (global_id ns (fst e)) (renamed_transition ns (snd e))) (f_transitions f) []) k")
    case None
    with t have "bt_contains (g_transitions g) k"
      by (simp add: mounted_transitions [OF oks(2)] bt_contains_def)
    with g have "bt_contains (g_nodes g) k" by (simp add: graph_ok_def)
    with mounted_old_node(1) [OF m ok this] show ?thesis by (simp add: bt_contains_def)
  next
    case (Some t)
    from renamed_lookup_inv [OF oks(2) Some] obtain l x
      where l: "k = global_id ns l" "bt_get (f_transitions f) l = Some x" by blast
    then obtain nd where "bt_get (f_nodes f) l = Some nd"
      using ok by (auto simp: fragment_ok_def bt_contains_def)
    with mounted_new_node [OF ok this, of ns g] l(1) show ?thesis by (simp add: bt_contains_def)
  qed
  ultimately show ?thesis unfolding graph_ok_def by blast
qed

lemma renamed_branch:
  assumes "bt_ok targets"
  shows "renamed_transition ns (Branch rt targets) =
      Branch rt (fold (\<lambda>e. bt_insert (fst e) (global_id ns (snd e))) targets [])"
    and "bt_get (fold (\<lambda>e. bt_insert (fst e) (global_id ns (snd e))) targets []) r
      = map_option (global_id ns) (bt_get targets r)"
proof -
  show "renamed_transition ns (Branch rt targets) =
      Branch rt (fold (\<lambda>e. bt_insert (fst e) (global_id ns (snd e))) targets [])"
    by (simp add: renamed_transition_def)
  show "bt_get (fold (\<lambda>e. bt_insert (fst e) (global_id ns (snd e))) targets []) r
      = map_option (global_id ns) (bt_get targets r)"
  proof (cases "bt_get targets r")
    case None
    then have "r \<notin> fst ` set targets" by (simp add: map_of_eq_None_iff)
    with None show ?thesis
      using fold_insert_outside [of r fst targets "\<lambda>e. global_id ns (snd e)" "[]"] by simp
  next
    case (Some n)
    then have "(r, n) \<in> set targets" by (rule map_of_SomeD)
    from fold_insert_inside [OF this, of fst "\<lambda>e. global_id ns (snd e)" "[]"] Some
      bt_ok_distinct [OF assms] show ?thesis
      by simp
  qed
qed

lemma open_exits_mounted:
  assumes g: "graph_ok g" and ex: "open_exits_ok g" and ok: "fragment_ok f" and m: "mountable ns f g"
  shows "open_exits_ok (mounted_graph ns f g)"
  unfolding open_exits_ok_def
proof (intro allI impI)
  let ?g = "mounted_graph ns f g"
  fix k src r assume get: "bt_get (g_exits ?g) k = Some (src, r)"
  have valid: "fragment_valid f" using m by (simp add: mountable_def)
  have fex: "bt_ok (f_exits f)" using ok by (simp add: fragment_ok_def)
  have ns: "ns \<notin> set (g_namespaces g)" using m by (simp add: mountable_def)
  have spaces: "set (g_namespaces ?g) = insert ns (set (g_namespaces g))"
    by (simp add: mounted_graph_def)
  have old: "bt_contains (g_nodes g) src'" "exit_namespace k' \<noteq> ns"
    if "bt_get (g_exits g) k' = Some (src', r')" for k' src' r'
    using ex ns that unfolding open_exits_ok_def by metis+
  have new: "\<not> bt_contains (g_nodes g) (global_id ns (le_source e))"
    if "bt_get (f_exits f) name = Some e" for name e
    using m valid that unfolding mountable_def fragment_valid_def by blast
  from mounted_exits [OF fex get] show "exit_namespace k \<in> set (g_namespaces ?g)
        \<and> bt_contains (g_nodes ?g) src
        \<and> (\<exists>rt targets. bt_get (g_transitions ?g) src = Some (Branch rt targets)
             \<and> r \<in> set (known_routes rt) \<and> bt_get targets r = None)
        \<and> (\<forall>k'. bt_get (g_exits ?g) k' = Some (src, r) \<longrightarrow> k' = k)"
  proof (elim disjE exE conjE)
    fix name e assume e: "bt_get (f_exits f) name = Some e" "k = ExitKey ns name"
      "src = global_id ns (le_source e)" "r = le_route e"
    have node: "bt_contains (f_nodes f) (le_source e)"
      using valid e(1) unfolding fragment_valid_def by blast
    then obtain nd where nd: "bt_get (f_nodes f) (le_source e) = Some nd" by (auto simp: bt_contains_def)
    obtain t where t: "bt_get (f_transitions f) (le_source e) = Some t"
      using node valid unfolding fragment_valid_def bt_contains_def by blast
    then have "fragment_transition_ok f (le_source e) t"
      using valid unfolding fragment_valid_def by blast
    moreover have "r \<in> exit_routes f (le_source e)" using e by (auto simp: exit_routes_def)
    ultimately obtain rt targets where b: "t = Branch rt targets" "r \<in> set (known_routes rt)"
      "bt_get targets r = None"
      by (cases t) (auto simp: fragment_transition_ok_def map_of_eq_None_iff)
    have "bt_ok targets" using ok t b(1) unfolding fragment_ok_def by blast
    note tr = mounted_new_transition [OF ok t, of ns g, unfolded b(1) renamed_branch(1) [OF this]]
    have "bt_contains (g_nodes ?g) src"
      using mounted_new_node [OF ok nd, of ns g] e(3) by (simp add: bt_contains_def)
    moreover have "k' = k" if k': "bt_get (g_exits ?g) k' = Some (src, r)" for k'
      using mounted_exits [OF fex k']
    proof (elim disjE exE conjE)
      fix name' e' assume e': "bt_get (f_exits f) name' = Some e'" "k' = ExitKey ns name'"
        "src = global_id ns (le_source e')" "r = le_route e'"
      then have "e' = e" using e(3,4) by (intro local_exit_ext) (simp_all add: global_id_inj)
      with e'(1) e(1) valid have "name' = name" unfolding fragment_valid_def by blast
      with e(2) e'(2) show ?thesis by simp
    next
      assume "bt_get (g_exits g) k' = Some (src, r)"
      with old(1) new [OF e(1)] e(3) show ?thesis by blast
    qed
    ultimately show ?thesis
      using tr b(2,3) e(2,3) renamed_branch(2) [OF \<open>bt_ok targets\<close>, of ns r]
      by (simp add: spaces)
  next
    assume o: "bt_get (g_exits g) k = Some (src, r)"
    have src: "bt_contains (g_nodes g) src" using o by (rule old(1))
    have "k' = k" if k': "bt_get (g_exits ?g) k' = Some (src, r)" for k'
      using mounted_exits [OF fex k']
    proof (elim disjE exE conjE)
      fix name' e' assume e': "bt_get (f_exits f) name' = Some e'" "src = global_id ns (le_source e')"
      with src new [OF e'(1)] show ?thesis by blast
    next
      assume "bt_get (g_exits g) k' = Some (src, r)"
      with o ex show ?thesis unfolding open_exits_ok_def by blast
    qed
    moreover have "exit_namespace k \<in> set (g_namespaces g)"
      "\<exists>rt targets. bt_get (g_transitions g) src = Some (Branch rt targets)
             \<and> r \<in> set (known_routes rt) \<and> bt_get targets r = None"
      using ex o unfolding open_exits_ok_def by blast+
    ultimately show ?thesis
      using mounted_old_node(1) [OF m ok src] mounted_old_node(2) [OF m ok src g] src
      by (simp add: spaces bt_contains_def)
  qed
qed

end
