(* ===== verification/Fragment_Properties.thy ===== *)
theory Fragment_Properties
  imports Fragment_Correct
begin

text \<open>
  What holds of every graph made by the builder methods of a definition, mounting and connecting
  included, and the properties of the fragment operations.
\<close>

section \<open>Fragments made by their builder\<close>

text \<open>The maps handed to \<open>set_transition\<close> are \<open>BTreeMap\<close>s, so their keys are sorted.\<close>

definition rule_ok :: "'s transition_rule \<Rightarrow> bool" where
  "rule_ok t \<longleftrightarrow> (case t of Branch rt targets \<Rightarrow> bt_ok targets | _ \<Rightarrow> True)"

lemma rule_ok_simps [simp]:
  "rule_ok (Branch rt targets) \<longleftrightarrow> bt_ok targets" "rule_ok (Goto n)" "rule_ok End"
  by (simp_all add: rule_ok_def)

inductive fragment_built :: "('x, 's) graph_fragment \<Rightarrow> bool" where
  built_new: "fragment_built fragment_new"
| built_node: "fragment_built f \<Longrightarrow> fragment_add_node n f = Ok f' \<Longrightarrow> fragment_built f'"
| built_entry: "fragment_built f \<Longrightarrow> fragment_built (fragment_set_entry n f)"
| built_transition:
    "fragment_built f \<Longrightarrow> rule_ok t \<Longrightarrow> fragment_set_transition n t f = Ok f' \<Longrightarrow> fragment_built f'"
| built_exit: "fragment_built f \<Longrightarrow> declare_exit name src r f = Ok f' \<Longrightarrow> fragment_built f'"

lemma fragment_built_ok: "fragment_built f \<Longrightarrow> fragment_ok f"
proof (induction rule: fragment_built.induct)
  case built_new
  show ?case by (simp add: fragment_ok_def fragment_new_def bt_contains_def)
next
  case (built_node f n f')
  then show ?case by (auto simp: fragment_ok_def fragment_add_node_def split: if_splits)
next
  case (built_entry f n)
  then show ?case by (simp add: fragment_ok_def fragment_set_entry_def)
next
  case (built_transition f t n f')
  then show ?case
    by (auto simp: fragment_ok_def fragment_set_transition_def split: if_splits)
next
  case (built_exit f name src r f')
  then show ?case
    by (auto simp: fragment_ok_def declare_exit_def result_simps split: if_splits)
qed

section \<open>Connecting an exit\<close>

text \<open>
  When an exit can be connected: the handle names an open exit of this graph, and the target is
  one of its nodes.
\<close>

definition connectable :: "fragment_exit \<Rightarrow> node_id \<Rightarrow> ('x, 's) graph_definition \<Rightarrow> bool" where
  "connectable e target g \<longleftrightarrow>
     bt_get (g_exits g) (fe_key e) = Some (fe_source e, fe_route e) \<and> bt_contains (g_nodes g) target"

lemma connect_exit_Ok_iff:
  assumes "graph_ok g" and "open_exits_ok g"
  shows "(\<exists>g'. connect_exit e target g = Ok g') \<longleftrightarrow> connectable e target g"
    and "connect_exit e target g \<noteq> Panic"
proof -
  have src: "\<exists>rt targets. bt_get (g_transitions g) (fe_source e) = Some (Branch rt targets)
      \<and> fe_route e \<in> set (known_routes rt) \<and> bt_get targets (fe_route e) = None"
    if "bt_get (g_exits g) (fe_key e) = Some (fe_source e, fe_route e)"
    using assms(2) that unfolding open_exits_ok_def by blast
  show "(\<exists>g'. connect_exit e target g = Ok g') \<longleftrightarrow> connectable e target g"
    using src
    by (cases "bt_get (g_exits g) (fe_key e)")
      (auto simp: connect_exit_def connectable_def result_simps ok_or_def ensure_def expect_def bt_contains_def
        split: option.splits transition_rule.splits if_splits)
  show "connect_exit e target g \<noteq> Panic"
    using src
    by (cases "bt_get (g_exits g) (fe_key e)")
      (auto simp: connect_exit_def result_simps ok_or_def ensure_def expect_def
        split: option.splits transition_rule.splits if_splits)
qed

lemma connect_exit_Ok:
  assumes "connect_exit e target g = Ok g'"
  obtains rt targets where "connectable e target g"
    and "bt_get (g_transitions g) (fe_source e) = Some (Branch rt targets)"
    and "bt_get targets (fe_route e) = None"
    and "g' = g\<lparr>g_transitions := bt_insert (fe_source e) (Branch rt (bt_insert (fe_route e) target targets))
                   (g_transitions g),
               g_exits := bt_remove (fe_key e) (g_exits g)\<rparr>"
  using assms
  by (auto simp: connect_exit_def connectable_def result_simps ok_or_def ensure_def expect_def bt_contains_def
      split: option.splits transition_rule.splits if_splits)

lemma graph_ok_connected:
  assumes "graph_ok g" and "connect_exit e target g = Ok g'"
  shows "graph_ok g'"
  using assms(2)
proof (rule connect_exit_Ok)
  fix rt targets
  assume "bt_get (g_transitions g) (fe_source e) = Some (Branch rt targets)"
    and g': "g' = g\<lparr>g_transitions := bt_insert (fe_source e) (Branch rt (bt_insert (fe_route e) target targets))
                   (g_transitions g), g_exits := bt_remove (fe_key e) (g_exits g)\<rparr>"
  then have "bt_contains (g_nodes g) (fe_source e)"
    using assms(1) by (auto simp: graph_ok_def bt_contains_def)
  with g' assms(1) show ?thesis by (auto simp: graph_ok_def)
qed

lemma open_exits_connected:
  assumes ok: "open_exits_ok g" and con: "connect_exit e target g = Ok g'"
  shows "open_exits_ok g'"
  using con
proof (rule connect_exit_Ok)
  fix rt targets
  assume c: "connectable e target g"
    and b: "bt_get (g_transitions g) (fe_source e) = Some (Branch rt targets)"
    and g': "g' = g\<lparr>g_transitions := bt_insert (fe_source e) (Branch rt (bt_insert (fe_route e) target targets))
                   (g_transitions g), g_exits := bt_remove (fe_key e) (g_exits g)\<rparr>"
  show ?thesis
    unfolding open_exits_ok_def
  proof (intro allI impI)
    fix k src r assume get: "bt_get (g_exits g') k = Some (src, r)"
    then have k: "k \<noteq> fe_key e" "bt_get (g_exits g) k = Some (src, r)"
      by (auto simp: g' split: if_splits)
    note * = ok [unfolded open_exits_ok_def, rule_format, OF k(2)]
    have other: "src \<noteq> fe_source e \<or> r \<noteq> fe_route e"
      using * k(1) c by (auto simp: connectable_def)
    obtain rt' targets' where b': "bt_get (g_transitions g) src = Some (Branch rt' targets')"
      "r \<in> set (known_routes rt')" "bt_get targets' r = None" using * by blast
    have "\<exists>rt targets. bt_get (g_transitions g') src = Some (Branch rt targets)
        \<and> r \<in> set (known_routes rt) \<and> bt_get targets r = None"
      using b b' other by (cases "src = fe_source e") (auto simp: g')
    moreover have "k' = k" if "bt_get (g_exits g') k' = Some (src, r)" for k'
      using that * by (auto simp: g' split: if_splits)
    ultimately show "exit_namespace k \<in> set (g_namespaces g') \<and> bt_contains (g_nodes g') src
        \<and> (\<exists>rt targets. bt_get (g_transitions g') src = Some (Branch rt targets)
             \<and> r \<in> set (known_routes rt) \<and> bt_get targets r = None)
        \<and> (\<forall>k'. bt_get (g_exits g') k' = Some (src, r) \<longrightarrow> k' = k)"
      using * by (simp add: g')
  qed
qed

section \<open>Graphs made by their builder\<close>

inductive graph_built :: "('x, 's) graph_definition \<Rightarrow> bool" where
  graph_new: "graph_built (new_versioned i v)"
| graph_node: "graph_built g \<Longrightarrow> add_node n g = Ok g' \<Longrightarrow> graph_built g'"
| graph_entry: "graph_built g \<Longrightarrow> graph_built (set_entry n g)"
| graph_transition: "graph_built g \<Longrightarrow> set_transition n t g = Ok g' \<Longrightarrow> graph_built g'"
| graph_mount: "graph_built g \<Longrightarrow> fragment_built f \<Longrightarrow> mount ns f g = Ok (mf, g') \<Longrightarrow> graph_built g'"
| graph_connect: "graph_built g \<Longrightarrow> connect_exit e target g = Ok g' \<Longrightarrow> graph_built g'"

lemma open_exits_new: "open_exits_ok (new_versioned i v)"
  by (simp add: open_exits_ok_def new_versioned_def)

lemma open_exits_add_node: "open_exits_ok g \<Longrightarrow> add_node n g = Ok g' \<Longrightarrow> open_exits_ok g'"
  unfolding add_node_def open_exits_ok_def by (auto split: if_splits)

lemma open_exits_set_entry: "open_exits_ok g \<Longrightarrow> open_exits_ok (set_entry n g)"
  by (simp add: open_exits_ok_def set_entry_def)

lemma open_exits_set_transition:
  assumes ok: "open_exits_ok g" and st: "set_transition n t g = Ok g'"
  shows "open_exits_ok g'"
proof -
  have g': "\<not> bt_contains (g_transitions g) n"
      "g' = g\<lparr>g_transitions := bt_insert n t (g_transitions g)\<rparr>"
    using st by (auto simp: set_transition_def split: if_splits)
  have "bt_get (g_transitions g') src = bt_get (g_transitions g) src"
    if "bt_get (g_exits g) k = Some (src, r)" for k src r
    using ok [unfolded open_exits_ok_def, rule_format, OF that] g'
    by (auto simp: bt_contains_def)
  then show ?thesis
    using ok unfolding open_exits_ok_def by (simp add: g')
qed

lemma graph_built_ok: "graph_built g \<Longrightarrow> graph_ok g \<and> open_exits_ok g"
proof (induction rule: graph_built.induct)
  case (graph_new i v)
  show ?case by (simp add: graph_ok_new open_exits_new)
next
  case (graph_node g n g')
  then show ?case using graph_ok_add_node open_exits_add_node by blast
next
  case (graph_entry g n)
  then show ?case by (simp add: graph_ok_set_entry open_exits_set_entry)
next
  case (graph_transition g n t g')
  then show ?case using graph_ok_set_transition open_exits_set_transition by blast
next
  case (graph_mount g f ns mf g')
  have f: "fragment_ok f" using graph_mount.hyps(2) by (rule fragment_built_ok)
  then have "mountable ns f g" "g' = mounted_graph ns f g"
    using graph_mount.hyps(3) by (simp_all add: mount_result)
  with f graph_mount.IH show ?case by (simp add: graph_ok_mounted open_exits_mounted)
next
  case (graph_connect g e target g')
  then show ?case using graph_ok_connected open_exits_connected by blast
qed

lemma renamed_transition_simps:
  "renamed_transition ns (Goto n) = Goto (global_id ns n)"
  "renamed_transition ns End = End"
  by (simp_all add: renamed_transition_def)

text \<open>
  What mounting adds: the nodes under their global ids with the same bodies, the transitions with
  every target renamed and the routers kept, the exits under the namespace, and the namespace; what
  the graph had stays as it was, and there is nothing else in it. The handle names the entry and
  exactly the exits of the fragment under their new keys and sources.
\<close>

definition mount_effect ::
  "string \<Rightarrow> ('x, 's) graph_fragment \<Rightarrow> ('x, 's) graph_definition \<Rightarrow> mounted_fragment \<Rightarrow>
     ('x, 's) graph_definition \<Rightarrow> bool" where
  "mount_effect ns f g mf g' \<longleftrightarrow>
     (\<forall>n. bt_contains (g_nodes g) n \<longrightarrow>
        bt_get (g_nodes g') n = bt_get (g_nodes g) n
        \<and> bt_get (g_transitions g') n = bt_get (g_transitions g) n)
     \<and> (\<forall>l nd. bt_get (f_nodes f) l = Some nd \<longrightarrow>
          bt_get (g_nodes g') (global_id ns l) = Some (nd\<lparr>an_id := global_id ns l\<rparr>))
     \<and> (\<forall>l n. bt_get (f_transitions f) l = Some (Goto n) \<longrightarrow>
          bt_get (g_transitions g') (global_id ns l) = Some (Goto (global_id ns n)))
     \<and> (\<forall>l rt targets. bt_get (f_transitions f) l = Some (Branch rt targets) \<longrightarrow>
          (\<exists>targets'. bt_get (g_transitions g') (global_id ns l) = Some (Branch rt targets')
             \<and> (\<forall>r. bt_get targets' r = map_option (global_id ns) (bt_get targets r))))
     \<and> (\<forall>name e. bt_get (f_exits f) name = Some e \<longrightarrow>
          bt_get (g_exits g') (ExitKey ns name) = Some (global_id ns (le_source e), le_route e))
     \<and> (\<forall>k x. bt_get (g_exits g) k = Some x \<longrightarrow> bt_get (g_exits g') k = Some x)
     \<and> set (bt_keys (g_nodes g')) = set (bt_keys (g_nodes g)) \<union> global_id ns ` set (bt_keys (f_nodes f))
     \<and> set (bt_keys (g_transitions g'))
         = set (bt_keys (g_transitions g)) \<union> global_id ns ` set (bt_keys (f_transitions f))
     \<and> set (bt_keys (g_exits g')) = set (bt_keys (g_exits g)) \<union> ExitKey ns ` set (bt_keys (f_exits f))
     \<and> set (g_namespaces g') = insert ns (set (g_namespaces g))
     \<and> g_id g' = g_id g \<and> g_version g' = g_version g \<and> g_entry g' = g_entry g
     \<and> mf_namespace mf = ns
     \<and> map_option (global_id ns) (f_entry f) = Some (mf_entry mf)
     \<and> (\<forall>name. bt_get (mf_exits mf) name =
          map_option (\<lambda>e. \<lparr>fe_key = ExitKey ns name, fe_name = name, fe_source = global_id ns (le_source e),
                           fe_route = le_route e\<rparr>) (bt_get (f_exits f) name))"

lemma fold_insert_keys: "set (bt_keys (fold (\<lambda>x. bt_insert (kf x) (vf x)) xs m)) = kf ` set xs \<union> set (bt_keys m)"
  by (induction xs arbitrary: m) auto

lemma in_keys: "k \<in> set (bt_keys m) \<longleftrightarrow> bt_get m k \<noteq> None"
  using bt_contains_iff [of m k] unfolding bt_contains_def by blast

lemma renamed_keys:
  "bt_get (fold (\<lambda>e. bt_insert (global_id ns (fst e)) (v e)) m []) n \<noteq> None \<longleftrightarrow> n \<in> global_id ns ` set (bt_keys m)"
proof -
  let ?m = "fold (\<lambda>e. bt_insert (global_id ns (fst e)) (v e)) m []"
  have "set (bt_keys ?m) = global_id ns ` set (bt_keys m)"
    unfolding fold_insert_keys by (simp add: image_image)
  then show ?thesis unfolding in_keys [symmetric] by simp
qed

lemma mounted_keys:
  assumes "fragment_ok f"
  shows "set (bt_keys (g_nodes (mounted_graph ns f g)))
         = set (bt_keys (g_nodes g)) \<union> global_id ns ` set (bt_keys (f_nodes f))"
    and "set (bt_keys (g_transitions (mounted_graph ns f g)))
         = set (bt_keys (g_transitions g)) \<union> global_id ns ` set (bt_keys (f_transitions f))"
    and "set (bt_keys (g_exits (mounted_graph ns f g)))
         = set (bt_keys (g_exits g)) \<union> ExitKey ns ` set (bt_keys (f_exits f))"
proof -
  have ok: "bt_ok (f_nodes f)" "bt_ok (f_transitions f)" "bt_ok (f_exits f)"
    using assms by (simp_all add: fragment_ok_def)
  show "set (bt_keys (g_nodes (mounted_graph ns f g)))
         = set (bt_keys (g_nodes g)) \<union> global_id ns ` set (bt_keys (f_nodes f))"
  proof (rule set_eqI)
    fix n
    show "n \<in> set (bt_keys (g_nodes (mounted_graph ns f g)))
        \<longleftrightarrow> n \<in> set (bt_keys (g_nodes g)) \<union> global_id ns ` set (bt_keys (f_nodes f))"
      using renamed_keys [where m = "f_nodes f" and v = "renamed_node ns" and n = n and ns = ns]
      unfolding Un_iff in_keys [of n] mounted_nodes [OF ok(1)] by (auto simp del: set_map split: option.split)
  qed
  show "set (bt_keys (g_transitions (mounted_graph ns f g)))
         = set (bt_keys (g_transitions g)) \<union> global_id ns ` set (bt_keys (f_transitions f))"
  proof (rule set_eqI)
    fix n
    show "n \<in> set (bt_keys (g_transitions (mounted_graph ns f g)))
        \<longleftrightarrow> n \<in> set (bt_keys (g_transitions g)) \<union> global_id ns ` set (bt_keys (f_transitions f))"
      using renamed_keys [where m = "f_transitions f" and v = "\<lambda>e. renamed_transition ns (snd e)" and n = n and ns = ns]
      unfolding Un_iff in_keys [of n] mounted_transitions [OF ok(2)] by (auto simp del: set_map split: option.split)
  qed
  have "set (bt_values (fold (\<lambda>e. bt_insert (fst e) (renamed_exit ns e)) (f_exits f) [])) = renamed_exit ns ` set (f_exits f)"
    using renamed_exits_values [OF ok(3)] by blast
  then have "fe_key ` set (bt_values (fold (\<lambda>e. bt_insert (fst e) (renamed_exit ns e)) (f_exits f) []))
      = ExitKey ns ` set (bt_keys (f_exits f))"
    by (simp add: image_image renamed_exit_def)
  then show "set (bt_keys (g_exits (mounted_graph ns f g)))
         = set (bt_keys (g_exits g)) \<union> ExitKey ns ` set (bt_keys (f_exits f))"
    using fold_insert_keys [of fe_key "\<lambda>e. (fe_source e, fe_route e)"
        "bt_values (fold (\<lambda>e. bt_insert (fst e) (renamed_exit ns e)) (f_exits f) [])" "g_exits g"]
    by (simp add: mounted_graph_def Un_commute)
qed

lemma mounted_handle_exits:
  assumes "fragment_ok f"
  shows "bt_get (mf_exits (mounted_handle ns f e0)) name =
     map_option (\<lambda>e. \<lparr>fe_key = ExitKey ns name, fe_name = name, fe_source = global_id ns (le_source e),
                      fe_route = le_route e\<rparr>) (bt_get (f_exits f) name)"
proof (cases "bt_get (f_exits f) name")
  case None
  then have "name \<notin> fst ` set (f_exits f)" by (simp add: map_of_eq_None_iff)
  with None show ?thesis
    using fold_insert_outside [of name fst "f_exits f" "renamed_exit ns" "[]"] by (simp add: mounted_handle_def)
next
  case (Some e)
  then have "(name, e) \<in> set (f_exits f)" by (rule map_of_SomeD)
  moreover have "distinct (map fst (f_exits f))" using assms bt_ok_distinct by (auto simp: fragment_ok_def)
  ultimately show ?thesis
    using fold_insert_inside [of "(name, e)" "f_exits f" fst "renamed_exit ns" "[]"] Some
    by (simp add: mounted_handle_def renamed_exit_def)
qed

lemma mount_effect:
  assumes g: "graph_ok g" and ex: "open_exits_ok g" and ok: "fragment_ok f" and m: "mountable ns f g"
  shows "mount_effect ns f g (mounted_handle ns f (the (f_entry f))) (mounted_graph ns f g)"
proof -
  have valid: "fragment_valid f" and fresh: "ns \<notin> set (g_namespaces g)"
    using m by (simp_all add: mountable_def)
  have fex: "bt_ok (f_exits f)" using ok by (simp add: fragment_ok_def)
  have branch: "\<exists>targets'. bt_get (g_transitions (mounted_graph ns f g)) (global_id ns l) = Some (Branch rt targets')
             \<and> (\<forall>r. bt_get targets' r = map_option (global_id ns) (bt_get targets r))"
    if t: "bt_get (f_transitions f) l = Some (Branch rt targets)" for l rt targets
  proof -
    have "bt_ok targets" using ok t unfolding fragment_ok_def by blast
    from mounted_new_transition [OF ok t, of ns g] show ?thesis
      by (simp add: renamed_branch [OF \<open>bt_ok targets\<close>])
  qed
  have new: "bt_get (g_exits (mounted_graph ns f g)) (ExitKey ns name)
      = Some (global_id ns (le_source e), le_route e)"
    if "bt_get (f_exits f) name = Some e" for name e
    using mounted_exits_new [OF fex that] .
  have old: "bt_get (g_exits (mounted_graph ns f g)) k = Some x" if x: "bt_get (g_exits g) k = Some x" for k x
  proof (rule mounted_exits_old [OF fex x])
    show "exit_namespace k \<noteq> ns"
      using ex x fresh by (cases x) (auto simp: open_exits_ok_def)
  qed
  have entry: "map_option (global_id ns) (f_entry f) = Some (global_id ns (the (f_entry f)))"
    using valid by (auto simp: fragment_valid_def)
  show ?thesis
    unfolding mount_effect_def
  proof (intro conjI allI impI)
    fix l n assume "bt_get (f_transitions f) l = Some (Goto n)"
    from mounted_new_transition [OF ok this, of ns g]
    show "bt_get (g_transitions (mounted_graph ns f g)) (global_id ns l) = Some (Goto (global_id ns n))"
      by (simp add: renamed_transition_simps)
  next
    fix name
    show "bt_get (mf_exits (mounted_handle ns f (the (f_entry f)))) name =
        map_option (\<lambda>e. \<lparr>fe_key = ExitKey ns name, fe_name = name, fe_source = global_id ns (le_source e),
                         fe_route = le_route e\<rparr>) (bt_get (f_exits f) name)"
      by (rule mounted_handle_exits [OF ok])
  qed (use mounted_old_node [OF m ok] g mounted_new_node [OF ok, of _ _ ns g] branch new old entry
          mounted_keys [OF ok, of ns g] in
        \<open>simp_all add: mounted_graph_def mounted_handle_def\<close>)
qed

section \<open>Properties\<close>

text \<open>A fragment with one branch node and one exit, the input of the witnesses.\<close>

definition ask_router :: "unit router" where
  "ask_router = \<lparr>known_routes = [RouteKey ''ok''], select = (\<lambda>_. Ok (RouteKey ''ok''))\<rparr>"

definition ask_fragment :: "(unit, unit) graph_fragment" where
  "ask_fragment =
     \<lparr>f_nodes = [(NodeId ''n'', \<lparr>an_id = NodeId ''n'', an_execute = ()\<rparr>)], f_entry = Some (NodeId ''n''),
      f_transitions = [(NodeId ''n'', Branch ask_router [])],
      f_exits = [(''done'', \<lparr>le_source = NodeId ''n'', le_route = RouteKey ''ok''\<rparr>)]\<rparr>"

lemma valid_done: "validate_id ''done'' ''RouteKey'' = Ok ()"
  by (simp add: validate_id_Ok valid_id_def id_char_def is_ascii_alphanumeric_def MAX_ID_BYTES_def)

lemma ask_fragment_built: "fragment_built ask_fragment"
proof -
  let ?n = "NodeId ''n''"
  let ?nd = "\<lparr>an_id = ?n, an_execute = ()\<rparr>"
  let ?f1 = "fragment_new\<lparr>f_nodes := [(?n, ?nd)]\<rparr> :: (unit, unit) graph_fragment"
  let ?f2 = "fragment_set_entry ?n ?f1"
  let ?f3 = "?f2\<lparr>f_transitions := [(?n, Branch ask_router [])]\<rparr>"
  have "fragment_built ?f1"
    by (rule built_node [OF built_new, of ?nd]) (simp add: fragment_add_node_def fragment_new_def)
  then have "fragment_built ?f2" by (rule built_entry)
  then have "fragment_built ?f3"
    by (rule built_transition [of _ "Branch ask_router []" ?n])
      (simp_all add: fragment_set_transition_def fragment_set_entry_def fragment_new_def bt_contains_def)
  then show ?thesis
    by (rule built_exit [of _ "''done''" ?n "RouteKey ''ok''"])
      (simp add: declare_exit_def route_key_try_from_def valid_done fragment_set_entry_def fragment_new_def
        bt_contains_def ask_fragment_def map_err_def)
qed

lemma two_nodes_built: "graph_built two_nodes"
proof -
  let ?a = "NodeId ''a''" and ?b = "NodeId ''b''"
  let ?na = "\<lparr>an_id = ?a, an_execute = ()\<rparr>" and ?nb = "\<lparr>an_id = ?b, an_execute = ()\<rparr>"
  let ?g0 = "new_versioned (GraphId ''g'') (GraphVersion 1) :: (unit, unit) graph_definition"
  let ?g1 = "?g0\<lparr>g_nodes := [(?a, ?na)]\<rparr>"
  let ?g2 = "?g0\<lparr>g_nodes := [(?a, ?na), (?b, ?nb)]\<rparr>"
  let ?g3 = "set_entry ?a ?g2"
  let ?g4 = "?g3\<lparr>g_transitions := [(?a, Goto ?b)]\<rparr>"
  have "graph_built ?g1"
    by (rule graph_node [OF graph_new, of ?na]) (simp add: add_node_def new_versioned_def)
  then have "graph_built ?g2"
    by (rule graph_node [of _ ?nb]) (simp add: add_node_def new_versioned_def bt_contains_def)
  then have "graph_built ?g3" by (rule graph_entry)
  then have "graph_built ?g4"
    by (rule graph_transition [of _ ?a "Goto ?b"])
      (simp add: set_transition_def set_entry_def new_versioned_def bt_contains_def)
  then show ?thesis
    by (rule graph_transition [of _ ?b End])
      (simp add: set_transition_def set_entry_def new_versioned_def bt_contains_def two_nodes_def)
qed

lemma mountable_ask: "mountable ''sub'' ask_fragment two_nodes"
proof -
  have "fragment_valid ask_fragment"
    by (auto simp: fragment_valid_def ask_fragment_def bt_contains_def fragment_transition_ok_def
        exit_routes_def ask_router_def split: if_splits)
  then show ?thesis
    by (auto simp: mountable_def ask_fragment_def two_nodes_def bt_contains_def global_id_def global_name_def
        valid_id_def id_char_def is_ascii_alphanumeric_def MAX_ID_BYTES_def split: if_splits)
qed

text \<open>The graph after mounting the fragment as \<open>sub\<close>, and the exit handle it gives.\<close>

definition asked :: "(unit, unit) graph_definition" where
  "asked = mounted_graph ''sub'' ask_fragment two_nodes"

definition done_exit :: fragment_exit where
  "done_exit = \<lparr>fe_key = ExitKey ''sub'' ''done'', fe_name = ''done'', fe_source = NodeId ''sub.n'',
                fe_route = RouteKey ''ok''\<rparr>"

lemma asked_built: "graph_built asked"
proof -
  have "mount ''sub'' ask_fragment two_nodes
      = Ok (mounted_handle ''sub'' ask_fragment (the (f_entry ask_fragment)), asked)"
    using mountable_ask by (simp add: mount_result fragment_built_ok [OF ask_fragment_built] asked_def)
  then show ?thesis by (rule graph_mount [OF two_nodes_built ask_fragment_built])
qed

lemma connectable_done: "connectable done_exit (NodeId ''b'') asked"
proof -
  have "mount_effect ''sub'' ask_fragment two_nodes
      (mounted_handle ''sub'' ask_fragment (the (f_entry ask_fragment))) asked"
    unfolding asked_def
    using mount_effect graph_built_ok [OF two_nodes_built] fragment_built_ok [OF ask_fragment_built]
      mountable_ask by blast
  then have "bt_get (g_exits asked) (ExitKey ''sub'' ''done'') = Some (NodeId ''sub.n'', RouteKey ''ok'')"
    and "bt_get (g_nodes asked) (NodeId ''b'') = bt_get (g_nodes two_nodes) (NodeId ''b'')"
    by (simp_all add: mount_effect_def ask_fragment_def two_nodes_def bt_contains_def global_id_def
        global_name_def)
  then show ?thesis
    by (simp add: connectable_def done_exit_def bt_contains_def two_nodes_def)
qed

text \<open>
  C27: mounting a fragment made by its builder never panics, and succeeds exactly when the name of
  the namespace is a valid id that is not taken, the fragment is valid and no global id is invalid
  or taken; then the graph has gained exactly the renamed nodes, transitions and exits and the
  namespace, nothing it had before has changed, and the handle names the renamed entry and exits.
\<close>

theorem mount_adds_renamed_fragment:
  assumes "graph_built g" and "fragment_built f"
  shows "mount ns f g \<noteq> Panic
    \<and> ((\<exists>r. mount ns f g = Ok r) \<longleftrightarrow> mountable ns f g)
    \<and> (\<forall>mf g'. mount ns f g = Ok (mf, g') \<longrightarrow> mount_effect ns f g mf g')"
  using mount_result [OF fragment_built_ok [OF assms(2)], of ns g] graph_built_ok [OF assms(1)]
    mount_effect [of g f ns] fragment_built_ok [OF assms(2)]
  by (auto simp: mount_result)

theorem mount_adds_renamed_fragment_witness:
  "\<exists>mf g'. mount ''sub'' ask_fragment two_nodes = Ok (mf, g')
     \<and> set (bt_keys (g_nodes g')) = {NodeId ''a'', NodeId ''b'', NodeId ''sub.n''} \<and> g_namespaces g' \<noteq> []"
proof -
  note all = mount_adds_renamed_fragment [OF two_nodes_built ask_fragment_built, of "''sub''"]
  then obtain mf g' where m: "mount ''sub'' ask_fragment two_nodes = Ok (mf, g')" using mountable_ask by fastforce
  with all have "mount_effect ''sub'' ask_fragment two_nodes mf g'" by blast
  then have "set (bt_keys (g_nodes g')) = {NodeId ''a'', NodeId ''b'', NodeId ''sub.n''}" "''sub'' \<in> set (g_namespaces g')"
    unfolding mount_effect_def by (auto simp: ask_fragment_def two_nodes_def global_id_def global_name_def)
  with m show ?thesis by auto
qed

text \<open>
  In every graph made by the builder, with fragments mounted and exits connected in any order,
  every exit still open belongs to a mounted namespace, is a route its branch node's router knows
  and has no target for, and is open under one name only; nodes are filed under their own ids and
  only nodes have transitions.
\<close>

theorem built_graph_invariant:
  assumes "graph_built g"
  shows "graph_ok g \<and> open_exits_ok g"
  using assms by (rule graph_built_ok)

theorem built_graph_invariant_witness: "graph_ok asked \<and> open_exits_ok asked"
  using asked_built by (rule built_graph_invariant)

text \<open>
  Connecting an exit never panics and succeeds exactly when the handle names an open exit of
  this graph and the target is a node; then the exit is closed, its route leads to the target, no
  other route, transition or exit changes, and connecting the same exit again is refused.
\<close>

theorem connect_exit_closes_one_route:
  assumes "graph_built g"
  shows "connect_exit e target g \<noteq> Panic
    \<and> ((\<exists>g'. connect_exit e target g = Ok g') \<longleftrightarrow> connectable e target g)
    \<and> (\<forall>g'. connect_exit e target g = Ok g' \<longrightarrow>
         bt_get (g_exits g') = (bt_get (g_exits g)) (fe_key e := None)
         \<and> (\<exists>rt targets targets'. bt_get (g_transitions g) (fe_source e) = Some (Branch rt targets)
              \<and> bt_get (g_transitions g') = (bt_get (g_transitions g)) (fe_source e \<mapsto> Branch rt targets')
              \<and> bt_get targets' = (bt_get targets) (fe_route e \<mapsto> target))
         \<and> g_nodes g' = g_nodes g
         \<and> (\<forall>t. connect_exit e t g' = Err (UnknownFragmentExit (fe_name e))))"
proof (intro conjI allI impI)
  show "connect_exit e target g \<noteq> Panic"
    "(\<exists>g'. connect_exit e target g = Ok g') \<longleftrightarrow> connectable e target g"
    using connect_exit_Ok_iff graph_built_ok [OF assms] by blast+
next
  fix g' assume "connect_exit e target g = Ok g'"
  then obtain rt targets where c: "bt_get (g_transitions g) (fe_source e) = Some (Branch rt targets)"
    and g': "g' = g\<lparr>g_transitions := bt_insert (fe_source e) (Branch rt (bt_insert (fe_route e) target targets))
                   (g_transitions g), g_exits := bt_remove (fe_key e) (g_exits g)\<rparr>"
    by (rule connect_exit_Ok)
  show "bt_get (g_exits g') = (bt_get (g_exits g)) (fe_key e := None)" "g_nodes g' = g_nodes g"
    by (simp_all add: g')
  show "\<exists>rt targets targets'. bt_get (g_transitions g) (fe_source e) = Some (Branch rt targets)
              \<and> bt_get (g_transitions g') = (bt_get (g_transitions g)) (fe_source e \<mapsto> Branch rt targets')
              \<and> bt_get targets' = (bt_get targets) (fe_route e \<mapsto> target)"
    using c by (intro exI [of _ rt] exI [of _ targets] exI [of _ "bt_insert (fe_route e) target targets"])
      (simp add: g')
  show "connect_exit e t g' = Err (UnknownFragmentExit (fe_name e))" for t
    by (simp add: connect_exit_def g' ok_or_def)
qed

theorem connect_exit_closes_one_route_witness:
  "\<exists>g'. connect_exit done_exit (NodeId ''b'') asked = Ok g'"
  using connect_exit_closes_one_route [OF asked_built] connectable_done by blast

end
