(* ===== verification/Inbound_Message.thy ===== *)
theory Inbound_Message
  imports Rust_String
begin

text \<open>
  Messages as the ingestion layer sees them (\<open>personal-secretary/src/domain/inbound.rs\<close>,
  \<open>continuity.rs\<close>, and the identifiers and batch entry of \<open>application/store.rs\<close>): the
  validated envelope, the role that decides whether a message may command the secretary, and
  the idempotency key of a delivery. Field names of the error are the strings of the source.
\<close>

section \<open>Errors and identifiers\<close>

datatype inbound_identity_error =
    EmptyField string
  | NegativeTimestamp i64
  | InvalidInbound string

definition require_non_empty :: "string \<Rightarrow> string \<Rightarrow> (inbound_identity_error, unit) result" where
  "require_non_empty field val = (if is_blank val then Err (EmptyField field) else Ok ())"

datatype continuity_identity_error = EmptyContinuityField string

datatype connection_epoch_id = ConnectionEpochId (epoch_str: string)
datatype ingestion_gap_id = IngestionGapId (gap_str: string)

definition connection_epoch_id_new :: "string \<Rightarrow> (continuity_identity_error, connection_epoch_id) result" where
  "connection_epoch_id_new v =
     (if is_blank v then Err (EmptyContinuityField ''connection_epoch_id'') else Ok (ConnectionEpochId v))"

definition ingestion_gap_id_new :: "string \<Rightarrow> (continuity_identity_error, ingestion_gap_id) result" where
  "ingestion_gap_id_new v =
     (if is_blank v then Err (EmptyContinuityField ''ingestion_gap_id'') else Ok (IngestionGapId v))"

datatype inbound_event_store_error =
    InvalidData string
  | Unavailable
  | Database string
  | LeaseLost

datatype source_event_id = SourceEventId (event_str: string)

definition source_event_id_new :: "string \<Rightarrow> (inbound_event_store_error, source_event_id) result" where
  "source_event_id_new v =
     (if is_blank v then Err (InvalidData ''source event id must not be empty'') else Ok (SourceEventId v))"

section \<open>Sources, conversations and actors\<close>

datatype message_source = NapCat | QqOpenPlatform

primrec message_source_str :: "message_source \<Rightarrow> string" where
  "message_source_str NapCat = ''napcat''"
| "message_source_str QqOpenPlatform = ''qq_open_platform''"

record source_message_ref =
  smr_channel :: message_source
  smr_account_id :: string
  smr_message_id :: string

record source_account_ref =
  sar_channel :: message_source
  sar_account_id :: string

definition source_account_ref_new ::
  "message_source \<Rightarrow> string \<Rightarrow> (inbound_identity_error, source_account_ref) result" where
  "source_account_ref_new ch acc =
     bind_r (require_non_empty ''source.account_id'' acc) (\<lambda>_.
       Ok \<lparr>sar_channel = ch, sar_account_id = acc\<rparr>)"

definition source_message_ref_validate :: "source_message_ref \<Rightarrow> (inbound_identity_error, unit) result" where
  "source_message_ref_validate r =
     bind_r (require_non_empty ''source.account_id'' (smr_account_id r)) (\<lambda>_.
       require_non_empty ''source.message_id'' (smr_message_id r))"

definition source_message_ref_new ::
  "message_source \<Rightarrow> string \<Rightarrow> string \<Rightarrow> (inbound_identity_error, source_message_ref) result" where
  "source_message_ref_new ch acc mid =
     (let v = \<lparr>smr_channel = ch, smr_account_id = acc, smr_message_id = mid\<rparr> in
      bind_r (source_message_ref_validate v) (\<lambda>_. Ok v))"

datatype idempotency_key = IdempotencyKey (key_str: string)

definition idempotency_key_of :: "source_message_ref \<Rightarrow> idempotency_key" where
  "idempotency_key_of r = IdempotencyKey (message_source_str (smr_channel r) @ '':''
     @ decimal (length (smr_account_id r)) @ '':'' @ smr_account_id r @ '':''
     @ decimal (length (smr_message_id r)) @ '':'' @ smr_message_id r)"

definition account_ref :: "source_message_ref \<Rightarrow> source_account_ref" where
  "account_ref r = \<lparr>sar_channel = smr_channel r, sar_account_id = smr_account_id r\<rparr>"

datatype conversation_kind = PrivateConversation | GroupConversation | OwnerControl

primrec conversation_kind_str :: "conversation_kind \<Rightarrow> string" where
  "conversation_kind_str PrivateConversation = ''private''"
| "conversation_kind_str GroupConversation = ''group''"
| "conversation_kind_str OwnerControl = ''owner_control''"

record conversation_ref =
  conv_kind :: conversation_kind
  conv_id :: string

definition conversation_ref_new ::
  "conversation_kind \<Rightarrow> string \<Rightarrow> (inbound_identity_error, conversation_ref) result" where
  "conversation_ref_new k i =
     bind_r (require_non_empty ''conversation.id'' i) (\<lambda>_. Ok \<lparr>conv_kind = k, conv_id = i\<rparr>)"

datatype verified_actor_kind = OwnerActor | OfficialBot | External

primrec verified_actor_kind_str :: "verified_actor_kind \<Rightarrow> string" where
  "verified_actor_kind_str OwnerActor = ''owner''"
| "verified_actor_kind_str OfficialBot = ''official_bot''"
| "verified_actor_kind_str External = ''external''"

record verified_actor =
  actor_kind :: verified_actor_kind
  actor_id :: string

definition verified_actor_new ::
  "verified_actor_kind \<Rightarrow> string \<Rightarrow> (inbound_identity_error, verified_actor) result" where
  "verified_actor_new k i =
     bind_r (require_non_empty ''actor.id'' i) (\<lambda>_. Ok \<lparr>actor_kind = k, actor_id = i\<rparr>)"

datatype message_role = OwnerCommand | OwnerObservation | ExternalObservation | AssistantOutput

primrec message_role_str :: "message_role \<Rightarrow> string" where
  "message_role_str OwnerCommand = ''owner_command''"
| "message_role_str OwnerObservation = ''owner_observation''"
| "message_role_str ExternalObservation = ''external_observation''"
| "message_role_str AssistantOutput = ''assistant_output''"

section \<open>Content\<close>

datatype media_kind = Image | Audio | Video | File
datatype rich_content_kind = Json | Xml | Card

datatype content_segment =
    TextSegment string
  | Mention string
  | MentionAll
  | ReplySegment string
  | Face string "string option"
  | Media media_kind string "string option" "string option"
  | FileVersionReference string string
  | Forward string
  | Rich rich_content_kind string "string option"
  | UnknownSegment string

definition content_segment_validate :: "content_segment \<Rightarrow> (inbound_identity_error, unit) result" where
  "content_segment_validate s =
     (case s of
        Mention actor \<Rightarrow> require_non_empty ''segment.mention.actor_id'' actor
      | ReplySegment mid \<Rightarrow> require_non_empty ''segment.reply.platform_message_id'' mid
      | Media _ key _ _ \<Rightarrow> require_non_empty ''segment.media.source_key'' key
      | FileVersionReference cur prev \<Rightarrow>
          bind_r (require_non_empty ''segment.file_version_reference.current_source_key'' cur) (\<lambda>_.
          bind_r (require_non_empty ''segment.file_version_reference.previous_source_key'' prev) (\<lambda>_.
            if cur = prev
            then Err (InvalidInbound ''file version current and previous source keys must differ'')
            else Ok ()))
      | Forward key \<Rightarrow> require_non_empty ''segment.forward.source_key'' key
      | Rich _ key _ \<Rightarrow> require_non_empty ''segment.rich.source_key'' key
      | _ \<Rightarrow> Ok ())"

record observed_sender_profile =
  nickname :: string
  group_card :: "string option"
  group_role :: "string option"

definition is_some_and :: "'a option \<Rightarrow> ('a \<Rightarrow> bool) \<Rightarrow> bool" where
  "is_some_and x P \<longleftrightarrow> (case x of None \<Rightarrow> False | Some a \<Rightarrow> P a)"

definition sender_profile_validate :: "observed_sender_profile \<Rightarrow> (inbound_identity_error, unit) result" where
  "sender_profile_validate p =
     (if 200 < char_count (nickname p)
      then Err (InvalidInbound ''sender_profile.nickname exceeds 200 chars'')
      else if is_some_and (group_card p) (\<lambda>c. 200 < char_count c)
      then Err (InvalidInbound ''sender_profile.group_card exceeds 200 chars'')
      else if is_some_and (group_role p) (\<lambda>r. 16 < char_count r)
      then Err (InvalidInbound ''sender_profile.group_role exceeds 16 chars'')
      else Ok ())"

section \<open>The envelope\<close>

record envelope =
  source :: source_message_ref
  conversation :: conversation_ref
  actor :: verified_actor
  occurred_at :: i64
  normalized_text :: string
  segments :: "content_segment list"
  epoch_id :: "connection_epoch_id option"
  sender_profile :: "observed_sender_profile option"

definition envelope_validate :: "envelope \<Rightarrow> (inbound_identity_error, unit) result" where
  "envelope_validate e =
     bind_r (source_message_ref_validate (source e)) (\<lambda>_.
     bind_r (require_non_empty ''conversation.id'' (conv_id (conversation e))) (\<lambda>_.
     bind_r (require_non_empty ''actor.id'' (actor_id (actor e))) (\<lambda>_.
     bind_r (ensure (\<not> occurred_at e < 0) (NegativeTimestamp (occurred_at e))) (\<lambda>_.
     bind_r (all_ok content_segment_validate (segments e)) (\<lambda>_.
       (case sender_profile e of
          None \<Rightarrow> Ok ()
        | Some p \<Rightarrow> sender_profile_validate p))))))"

definition envelope_new ::
  "source_message_ref \<Rightarrow> conversation_ref \<Rightarrow> verified_actor \<Rightarrow> i64 \<Rightarrow> string \<Rightarrow> content_segment list \<Rightarrow>
     (inbound_identity_error, envelope) result" where
  "envelope_new src conv act at txt segs =
     (let v = \<lparr>source = src, conversation = conv, actor = act, occurred_at = at,
               normalized_text = txt, segments = segs, epoch_id = None, sender_profile = None\<rparr> in
      bind_r (envelope_validate v) (\<lambda>_. Ok v))"

definition observed_in :: "connection_epoch_id \<Rightarrow> envelope \<Rightarrow> envelope" where
  "observed_in i e = e\<lparr>epoch_id := Some i\<rparr>"

definition with_sender_profile ::
  "observed_sender_profile option \<Rightarrow> envelope \<Rightarrow> (inbound_identity_error, envelope) result" where
  "with_sender_profile p e =
     bind_r (case p of None \<Rightarrow> Ok () | Some p \<Rightarrow> sender_profile_validate p) (\<lambda>_.
       Ok (e\<lparr>sender_profile := p\<rparr>))"

definition message_role_of :: "envelope \<Rightarrow> message_role" where
  "message_role_of e =
     (case (smr_channel (source e), conv_kind (conversation e), actor_kind (actor e)) of
        (QqOpenPlatform, OwnerControl, OwnerActor) \<Rightarrow> OwnerCommand
      | (_, _, OwnerActor) \<Rightarrow> OwnerObservation
      | (_, _, OfficialBot) \<Rightarrow> AssistantOutput
      | (_, _, External) \<Rightarrow> ExternalObservation)"

definition accepts_instructions :: "envelope \<Rightarrow> bool" where
  "accepts_instructions e \<longleftrightarrow> message_role_of e = OwnerCommand"

definition envelope_idempotency_key :: "envelope \<Rightarrow> idempotency_key" where
  "envelope_idempotency_key e = idempotency_key_of (source e)"

definition mentioned_actor_ids :: "envelope \<Rightarrow> string list" where
  "mentioned_actor_ids e =
     List.map_filter (\<lambda>s. case s of Mention a \<Rightarrow> Some a | _ \<Rightarrow> None) (segments e)"

definition mentions_all :: "envelope \<Rightarrow> bool" where
  "mentions_all e \<longleftrightarrow> list_ex (\<lambda>s. s = MentionAll) (segments e)"

fun find_reply :: "content_segment list \<Rightarrow> string option" where
  "find_reply [] = None"
| "find_reply (s # ss) = (case s of ReplySegment m \<Rightarrow> Some m | _ \<Rightarrow> find_reply ss)"

definition reply_to_platform_message_id :: "envelope \<Rightarrow> string option" where
  "reply_to_platform_message_id e = find_reply (segments e)"

section \<open>Continuity of the connections\<close>

datatype connection_epoch_status = Connecting | Connected | Disconnected | Shutdown | ConnectFailed

primrec connection_epoch_status_str :: "connection_epoch_status \<Rightarrow> string" where
  "connection_epoch_status_str Connecting = ''connecting''"
| "connection_epoch_status_str Connected = ''connected''"
| "connection_epoch_status_str Disconnected = ''disconnected''"
| "connection_epoch_status_str Shutdown = ''shutdown''"
| "connection_epoch_status_str ConnectFailed = ''connect_failed''"

datatype ingestion_cursor_scope = AccountScope | ConversationScope

primrec ingestion_cursor_scope_str :: "ingestion_cursor_scope \<Rightarrow> string" where
  "ingestion_cursor_scope_str AccountScope = ''account''"
| "ingestion_cursor_scope_str ConversationScope = ''conversation''"

datatype ingestion_gap_status = Uncertain | Backfilling | VerifiedComplete | Unrecoverable

primrec ingestion_gap_status_str :: "ingestion_gap_status \<Rightarrow> string" where
  "ingestion_gap_status_str Uncertain = ''uncertain''"
| "ingestion_gap_status_str Backfilling = ''backfilling''"
| "ingestion_gap_status_str VerifiedComplete = ''verified_complete''"
| "ingestion_gap_status_str Unrecoverable = ''unrecoverable''"

datatype ingestion_gap_reason =
  QueueOverflow | DatabaseUnavailable | HistoryUnprovable | InvalidEvent | NonMessageReference

primrec ingestion_gap_reason_str :: "ingestion_gap_reason \<Rightarrow> string" where
  "ingestion_gap_reason_str QueueOverflow = ''queue_overflow''"
| "ingestion_gap_reason_str DatabaseUnavailable = ''database_unavailable''"
| "ingestion_gap_reason_str HistoryUnprovable = ''history_unprovable''"
| "ingestion_gap_reason_str InvalidEvent = ''invalid_event''"
| "ingestion_gap_reason_str NonMessageReference = ''non_message_reference''"

datatype connection_end_reason =
  RemoteClosed | TransportError | ProcessShutdown | ObserverRejected | HeartbeatTimeout

primrec connection_end_reason_str :: "connection_end_reason \<Rightarrow> string" where
  "connection_end_reason_str RemoteClosed = ''remote_closed''"
| "connection_end_reason_str TransportError = ''transport_error''"
| "connection_end_reason_str ProcessShutdown = ''process_shutdown''"
| "connection_end_reason_str ObserverRejected = ''observer_rejected''"
| "connection_end_reason_str HeartbeatTimeout = ''heartbeat_timeout''"

section \<open>Storing messages\<close>

datatype ingest_message_outcome =
    Accepted source_event_id "source_event_id option"
  | Duplicate source_event_id

primrec outcome_source_event_id :: "ingest_message_outcome \<Rightarrow> source_event_id" where
  "outcome_source_event_id (Accepted i _) = i"
| "outcome_source_event_id (Duplicate i) = i"

text \<open>
  The default batch entry: one insertion after another, the first error ends it. The store
  behind \<open>insert_message_if_absent\<close> is the parameter \<open>ins\<close>.
\<close>

fun insert_messages_if_absent ::
  "(envelope \<Rightarrow> ('s, inbound_event_store_error, ingest_message_outcome) action) \<Rightarrow> envelope list \<Rightarrow>
     ('s, inbound_event_store_error, ingest_message_outcome list) action" where
  "insert_messages_if_absent ins [] = give []"
| "insert_messages_if_absent ins (m # ms) =
     seq (ins m) (\<lambda>r. seq (insert_messages_if_absent ins ms) (\<lambda>rs. give (r # rs)))"

section \<open>Lemmas\<close>

lemma require_non_empty_inv [guard_simps]:
  "require_non_empty field v = Ok u \<longleftrightarrow> \<not> is_blank v"
  "require_non_empty field v = Err e \<longleftrightarrow> is_blank v \<and> e = EmptyField field"
  "require_non_empty field v \<noteq> Panic"
  by (auto simp: require_non_empty_def)

lemma message_source_str_eq [simp]: "message_source_str a = message_source_str b \<longleftrightarrow> a = b"
  by (cases a; cases b) simp_all

lemma source_str_prefix_eq:
  "message_source_str a @ CHR '':'' # us = message_source_str b @ CHR '':'' # vs \<longleftrightarrow> a = b \<and> us = vs"
  by (cases a; cases b) auto

lemma sized_field_eq:
  assumes "decimal (length a) @ '':'' @ a @ us = decimal (length b) @ '':'' @ b @ vs"
  shows "a = b \<and> us = vs"
proof -
  have "decimal (length a) @ CHR '':'' # (a @ us) = decimal (length b) @ CHR '':'' # (b @ vs)"
    using assms by simp
  from decimal_prefix_eq [OF this] show ?thesis by auto
qed

lemma idempotency_key_inj: "idempotency_key_of r = idempotency_key_of r' \<longleftrightarrow> r = r'"
proof
  assume "idempotency_key_of r = idempotency_key_of r'"
  then have *: "smr_channel r = smr_channel r'"
    "decimal (length (smr_account_id r)) @ '':'' @ smr_account_id r @
       ('':'' @ decimal (length (smr_message_id r)) @ '':'' @ smr_message_id r @ [])
     = decimal (length (smr_account_id r')) @ '':'' @ smr_account_id r' @
       ('':'' @ decimal (length (smr_message_id r')) @ '':'' @ smr_message_id r' @ [])"
    by (simp_all add: idempotency_key_of_def source_str_prefix_eq)
  from sized_field_eq [OF *(2)] have acc: "smr_account_id r = smr_account_id r'"
    and "decimal (length (smr_message_id r)) @ '':'' @ smr_message_id r @ []
      = decimal (length (smr_message_id r')) @ '':'' @ smr_message_id r' @ []"
    by simp_all
  from sized_field_eq [OF this(2)] acc *(1) show "r = r'" by simp
qed simp

lemma envelope_valid_iff:
  "envelope_validate e = Ok u \<longleftrightarrow>
     source_message_ref_validate (source e) = Ok ()
     \<and> \<not> is_blank (conv_id (conversation e)) \<and> \<not> is_blank (actor_id (actor e))
     \<and> 0 \<le> occurred_at e \<and> (\<forall>s\<in>set (segments e). content_segment_validate s = Ok ())
     \<and> (\<forall>p. sender_profile e = Some p \<longrightarrow> sender_profile_validate p = Ok ())"
  by (auto simp: envelope_validate_def result_simps guard_simps split: option.splits)

lemma insert_messages_ok:
  "insert_messages_if_absent ins ms s = (Ok rs, t) \<Longrightarrow> length rs = length ms"
  by (induction ms arbitrary: s rs) (auto simp: result_simps)

text \<open>The envelopes that the constructors make.\<close>

inductive envelope_built :: "envelope \<Rightarrow> bool" where
  built_envelope: "envelope_new src conv act at txt segs = Ok e \<Longrightarrow> envelope_built e"
| built_observed: "envelope_built e \<Longrightarrow> envelope_built (observed_in i e)"
| built_profile: "envelope_built e \<Longrightarrow> with_sender_profile p e = Ok e' \<Longrightarrow> envelope_built e'"

lemma envelope_built_valid: "envelope_built e \<Longrightarrow> envelope_validate e = Ok ()"
proof (induction rule: envelope_built.induct)
  case (built_envelope src conv act t body segs e)
  then show ?case by (auto simp: envelope_new_def Let_def result_simps)
next
  case (built_observed e j)
  then show ?case by (simp add: envelope_valid_iff observed_in_def)
next
  case (built_profile e p e')
  then show ?case
    by (auto simp: envelope_valid_iff with_sender_profile_def result_simps split: option.splits)
qed

lemma accepts_instructions_iff:
  "accepts_instructions e \<longleftrightarrow>
     smr_channel (source e) = QqOpenPlatform \<and> conv_kind (conversation e) = OwnerControl
     \<and> actor_kind (actor e) = OwnerActor"
  by (auto simp: accepts_instructions_def message_role_of_def
      split: message_source.splits conversation_kind.splits verified_actor_kind.splits)

lemma role_frame:
  "message_role_of (observed_in i e) = message_role_of e"
  "with_sender_profile p e = Ok e' \<Longrightarrow> message_role_of e' = message_role_of e"
proof -
  have "message_role_of (e\<lparr>sender_profile := q\<rparr>) = message_role_of e" for q
    by (simp add: message_role_of_def cong: message_source.case_cong conversation_kind.case_cong
        verified_actor_kind.case_cong)
  then show "with_sender_profile p e = Ok e' \<Longrightarrow> message_role_of e' = message_role_of e"
    by (auto simp: with_sender_profile_def result_simps)
  show "message_role_of (observed_in i e) = message_role_of e"
    by (simp add: message_role_of_def observed_in_def cong: message_source.case_cong
        conversation_kind.case_cong verified_actor_kind.case_cong)
qed

section \<open>Properties\<close>

text \<open>An owner's command, the input of the witnesses.\<close>

definition owner_command :: envelope where
  "owner_command =
     \<lparr>source = \<lparr>smr_channel = QqOpenPlatform, smr_account_id = ''bot'', smr_message_id = ''m''\<rparr>,
      conversation = \<lparr>conv_kind = OwnerControl, conv_id = ''c''\<rparr>,
      actor = \<lparr>actor_kind = OwnerActor, actor_id = ''o''\<rparr>, occurred_at = 7, normalized_text = [],
      segments = [MentionAll], epoch_id = None, sender_profile = None\<rparr>"

lemma owner_command_built: "envelope_built owner_command"
proof (rule built_envelope)
  show "envelope_new \<lparr>smr_channel = QqOpenPlatform, smr_account_id = ''bot'', smr_message_id = ''m''\<rparr>
      \<lparr>conv_kind = OwnerControl, conv_id = ''c''\<rparr> \<lparr>actor_kind = OwnerActor, actor_id = ''o''\<rparr>
      7 [] [MentionAll] = Ok owner_command"
    by (simp add: envelope_new_def envelope_validate_def source_message_ref_validate_def
        require_non_empty_def graphic_not_blank graphic_def ensure_def content_segment_validate_def
        owner_command_def)
qed

text \<open>
  Two deliveries have the same idempotency key exactly when channel, account and message id
  all agree: no account or message id, whatever colons and digits it holds, can make the keys of
  different deliveries collide.
\<close>

theorem idempotency_key_injective:
  "envelope_idempotency_key e = envelope_idempotency_key e' \<longleftrightarrow> source e = source e'"
  by (simp add: envelope_idempotency_key_def idempotency_key_inj)

text \<open>
  Every envelope the constructors make passes \<open>validate\<close>, and keeps passing it when an epoch
  or a sender profile is attached; it may command the secretary exactly when it came through the
  open platform, in the owner control conversation, from the verified owner, so that nothing of
  its text, segments, profile or time can raise it to a command.
\<close>

theorem built_envelope_valid_and_role:
  assumes "envelope_built e"
  shows "envelope_validate e = Ok ()
    \<and> (accepts_instructions e \<longleftrightarrow>
         smr_channel (source e) = QqOpenPlatform \<and> conv_kind (conversation e) = OwnerControl
         \<and> actor_kind (actor e) = OwnerActor)
    \<and> (\<forall>i. envelope_validate (observed_in i e) = Ok ()
           \<and> message_role_of (observed_in i e) = message_role_of e)
    \<and> (\<forall>p e'. with_sender_profile p e = Ok e' \<longrightarrow>
           envelope_validate e' = Ok () \<and> message_role_of e' = message_role_of e)"
  using envelope_built_valid [OF assms] accepts_instructions_iff role_frame
    envelope_built_valid [OF built_observed [OF assms]] envelope_built_valid [OF built_profile [OF assms]]
  by blast

theorem built_envelope_valid_and_role_witness:
  "envelope_validate owner_command = Ok () \<and> accepts_instructions owner_command"
  using built_envelope_valid_and_role [OF owner_command_built] by (simp add: owner_command_def)

end
