(* ===== verification/Thread_Planner.thy ===== *)
theory Thread_Planner
  imports Inbound_Message "HOL-Library.Product_Lexorder"
begin

text \<open>
  The deterministic projection of messages into threads
  (\<open>personal-secretary/src/domain/threading.rs\<close>): identifiers, statuses, the batch of events
  with their context, and the planner, one definition per step of its loop. The hash maps of
  the loop are maps from strings; the random UUIDs of \<open>generate\<close> come from a supply
  \<open>gen\<close>, numbered in the order of the calls.
\<close>

section \<open>Identifiers and statuses\<close>

datatype threading_error = InvalidThreadData string

datatype event_thread_id = EventThreadId (thread_str: string)
datatype thread_relation_id = ThreadRelationId (relation_str: string)
datatype lease_token = LeaseToken (token_str: string)

definition thread_id_check :: "string \<Rightarrow> string \<Rightarrow> (threading_error, unit) result" where
  "thread_id_check field v =
     (if is_blank v then Err (InvalidThreadData (field @ '' must not be empty'')) else Ok ())"

definition event_thread_id_new :: "string \<Rightarrow> (threading_error, event_thread_id) result" where
  "event_thread_id_new v = bind_r (thread_id_check ''event_thread_id'' v) (\<lambda>_. Ok (EventThreadId v))"

definition thread_relation_id_new :: "string \<Rightarrow> (threading_error, thread_relation_id) result" where
  "thread_relation_id_new v = bind_r (thread_id_check ''thread_relation_id'' v) (\<lambda>_. Ok (ThreadRelationId v))"

definition lease_token_new :: "string \<Rightarrow> (threading_error, lease_token) result" where
  "lease_token_new v = bind_r (thread_id_check ''thread_projection_lease_token'' v) (\<lambda>_. Ok (LeaseToken v))"

datatype thread_status = ThreadOpen | Waiting | Resolved | ThreadClosed | Reopened

primrec thread_status_str :: "thread_status \<Rightarrow> string" where
  "thread_status_str ThreadOpen = ''open''"
| "thread_status_str Waiting = ''waiting''"
| "thread_status_str Resolved = ''resolved''"
| "thread_status_str ThreadClosed = ''closed''"
| "thread_status_str Reopened = ''reopened''"

datatype thread_relation_kind =
  ReplyRelation | SameConversationWindow | SameActorWithinConversationWindow | ExplicitProjectId | FileVersion

primrec thread_relation_kind_str :: "thread_relation_kind \<Rightarrow> string" where
  "thread_relation_kind_str ReplyRelation = ''reply''"
| "thread_relation_kind_str SameConversationWindow = ''same_conversation_window''"
| "thread_relation_kind_str SameActorWithinConversationWindow = ''same_actor_within_conversation_window''"
| "thread_relation_kind_str ExplicitProjectId = ''explicit_project_id''"
| "thread_relation_kind_str FileVersion = ''file_version''"

section \<open>Events, assignments and relations\<close>

record thread_relation =
  tr_id :: thread_relation_id
  tr_thread :: event_thread_id
  tr_from :: source_event_id
  tr_to :: source_event_id
  tr_kind :: thread_relation_kind
  tr_confidence_bps :: u16
  tr_reason :: string

record thread_context_event =
  tce_event :: source_event_id
  tce_thread :: event_thread_id
  tce_actor :: string
  tce_at :: i64

record projection_event =
  pe_id :: source_event_id
  pe_account :: source_account_ref
  pe_conversation :: conversation_ref
  pe_actor :: string
  pe_at :: i64
  pe_reply_to :: "source_event_id option"
  pe_parent_thread :: "event_thread_id option"
  pe_child_thread :: "event_thread_id option"
  pe_previous :: "thread_context_event option"
  pe_parent_terminal :: bool
  pe_child_terminal :: bool
  pe_previous_terminal :: bool

record projection_batch =
  pb_token :: lease_token
  pb_events :: "projection_event list"

record thread_assignment =
  ta_event :: source_event_id
  ta_thread :: event_thread_id
  ta_account :: source_account_ref
  ta_root :: source_event_id
  ta_at :: i64
  ta_creates :: bool

record projection_plan =
  pp_token :: lease_token
  pp_assignments :: "thread_assignment list"
  pp_relations :: "thread_relation list"

record thread_policy =
  window_secs :: i64

definition thread_policy_new :: "i64 \<Rightarrow> (threading_error, thread_policy) result" where
  "thread_policy_new w =
     (if w \<le> 0 then Err (InvalidThreadData ''same_conversation_window_secs must be positive'')
      else Ok \<lparr>window_secs = w\<rparr>)"

section \<open>Parents before their replies\<close>

fun position :: "('a \<Rightarrow> bool) \<Rightarrow> 'a list \<Rightarrow> nat option" where
  "position P [] = None"
| "position P (x # xs) = (if P x then Some 0 else map_option Suc (position P xs))"

text \<open>The event replies to none of the \<open>events\<close>.\<close>

definition no_parent_in :: "projection_event list \<Rightarrow> projection_event \<Rightarrow> bool" where
  "no_parent_in events e \<longleftrightarrow>
     (case pe_reply_to e of
        None \<Rightarrow> True
      | Some parent \<Rightarrow> \<not> list_ex (\<lambda>c. pe_id c = parent) events)"

definition remove_nth :: "nat \<Rightarrow> 'a list \<Rightarrow> 'a list" where
  "remove_nth i xs = take i xs @ drop (Suc i) xs"

definition next_index :: "projection_event list \<Rightarrow> nat" where
  "next_index events = unwrap_or (position (no_parent_in events) events) 0"

lemma position_Some: "position P xs = Some i \<Longrightarrow> i < length xs \<and> P (xs ! i)"
  by (induction xs arbitrary: i) (auto split: if_splits)

lemma position_None: "position P xs = None \<longleftrightarrow> (\<forall>x\<in>set xs. \<not> P x)"
  by (induction xs) auto

lemma next_index_less: "events \<noteq> [] \<Longrightarrow> next_index events < length events"
  using position_Some by (cases "position (no_parent_in events) events") (auto simp: next_index_def)

lemma length_remove_nth: "i < length xs \<Longrightarrow> length (remove_nth i xs) < length xs"
  by (simp add: remove_nth_def)

function reply_parents_first :: "projection_event list \<Rightarrow> projection_event list" where
  "reply_parents_first events =
     (if events = [] then []
      else let i = next_index events in events ! i # reply_parents_first (remove_nth i events))"
  by pat_completeness auto
termination
  by (relation "measure length") (auto simp: length_remove_nth next_index_less)

declare reply_parents_first.simps [simp del]

section \<open>The planner\<close>

definition conversation_key :: "projection_event \<Rightarrow> string" where
  "conversation_key e =
     message_source_str (sar_channel (pe_account e)) @ '':'' @ sar_account_id (pe_account e) @ '':''
     @ conversation_kind_str (conv_kind (pe_conversation e)) @ '':'' @ conv_id (pe_conversation e)"

definition or_else :: "'a option \<Rightarrow> 'a option \<Rightarrow> 'a option" where
  "or_else x y = (case x of None \<Rightarrow> y | Some a \<Rightarrow> Some a)"

definition option_filter :: "('a \<Rightarrow> bool) \<Rightarrow> 'a option \<Rightarrow> 'a option" where
  "option_filter P x = (case x of None \<Rightarrow> None | Some a \<Rightarrow> if P a then Some a else None)"

record plan_state =
  st_assigned :: "string \<rightharpoonup> event_thread_id"
  st_latest :: "string \<rightharpoonup> thread_context_event"
  st_assignments :: "thread_assignment list"
  st_relations :: "thread_relation list"
  st_ids :: nat

definition force_new_thread :: "projection_event \<Rightarrow> bool" where
  "force_new_thread e \<longleftrightarrow> pe_reply_to e \<noteq> None \<and> pe_parent_terminal e"

definition assigned_parent :: "plan_state \<Rightarrow> projection_event \<Rightarrow> event_thread_id option" where
  "assigned_parent st e = Option.bind (pe_reply_to e) (\<lambda>i. st_assigned st (event_str i))"

definition reply_thread :: "plan_state \<Rightarrow> projection_event \<Rightarrow> event_thread_id option" where
  "reply_thread st e =
     (if force_new_thread e then assigned_parent st e
      else or_else (or_else (assigned_parent st e)
                            (option_filter (\<lambda>_. \<not> pe_parent_terminal e) (pe_parent_thread e)))
                   (option_filter (\<lambda>_. \<not> pe_child_terminal e) (pe_child_thread e)))"

definition previous_event ::
  "thread_policy \<Rightarrow> plan_state \<Rightarrow> projection_event \<Rightarrow> thread_context_event option" where
  "previous_event policy st e =
     option_filter (\<lambda>p. i64_saturating_sub (pe_at e) (tce_at p) \<le> window_secs policy)
       (if force_new_thread e then None
        else if pe_previous_terminal e then st_latest st (conversation_key e)
        else or_else (st_latest st (conversation_key e)) (pe_previous e))"

text \<open>The thread of the event, whether it is new, its root event, and the ids still to come.\<close>

definition choose_thread ::
  "(nat \<Rightarrow> string) \<Rightarrow> plan_state \<Rightarrow> event_thread_id option \<Rightarrow> thread_context_event option \<Rightarrow>
     projection_event \<Rightarrow> event_thread_id \<times> bool \<times> source_event_id \<times> nat" where
  "choose_thread gen st reply previous e =
     (case reply of
        Some t \<Rightarrow> (t, False, unwrap_or (pe_reply_to e) (pe_id e), st_ids st)
      | None \<Rightarrow>
          (case previous of
             Some p \<Rightarrow> (tce_thread p, False, tce_event p, st_ids st)
           | None \<Rightarrow> (EventThreadId (gen (st_ids st)), True, pe_id e, Suc (st_ids st))))"

definition make_relation ::
  "string \<Rightarrow> event_thread_id \<Rightarrow> source_event_id \<Rightarrow> source_event_id \<Rightarrow> thread_relation_kind \<Rightarrow> string \<Rightarrow>
     thread_relation" where
  "make_relation rid t from to kind reason =
     \<lparr>tr_id = ThreadRelationId rid, tr_thread = t, tr_from = from, tr_to = to, tr_kind = kind,
      tr_confidence_bps = 10000, tr_reason = reason\<rparr>"

definition decimal_i64 :: "i64 \<Rightarrow> string" where
  "decimal_i64 i = (if i < 0 then ''-'' @ decimal (nat (- i)) else decimal (nat i))"

definition window_reason :: "thread_policy \<Rightarrow> string" where
  "window_reason policy =
     ''same conversation within '' @ decimal_i64 (window_secs policy) @ '' seconds''"

definition new_relations ::
  "(nat \<Rightarrow> string) \<Rightarrow> thread_policy \<Rightarrow> nat \<Rightarrow> event_thread_id \<Rightarrow> thread_context_event option \<Rightarrow>
     projection_event \<Rightarrow> thread_relation list" where
  "new_relations gen policy n t previous e =
     (case pe_reply_to e of
        Some parent \<Rightarrow>
          if \<not> pe_parent_terminal e
          then [make_relation (gen n) t (pe_id e) parent ReplyRelation ''structured reply_to_event_id'']
          else []
      | None \<Rightarrow>
          (case previous of
             None \<Rightarrow> []
           | Some p \<Rightarrow>
               make_relation (gen n) t (pe_id e) (tce_event p) SameConversationWindow (window_reason policy)
               # (if tce_actor p = pe_actor e
                  then [make_relation (gen (Suc n)) t (pe_id e) (tce_event p)
                          SameActorWithinConversationWindow
                          ''same verified actor inside the same conversation window'']
                  else [])))"

definition plan_event ::
  "(nat \<Rightarrow> string) \<Rightarrow> thread_policy \<Rightarrow> projection_event \<Rightarrow> plan_state \<Rightarrow> plan_state" where
  "plan_event gen policy e st =
     (let key = conversation_key e;
          reply = reply_thread st e;
          previous = previous_event policy st e;
          (t, creates, root, n) = choose_thread gen st reply previous e;
          rels = new_relations gen policy n t previous e in
      \<lparr>st_assigned = (st_assigned st)(event_str (pe_id e) \<mapsto> t),
       st_latest = (st_latest st)(key \<mapsto> \<lparr>tce_event = pe_id e, tce_thread = t, tce_actor = pe_actor e,
                                         tce_at = pe_at e\<rparr>),
       st_assignments = st_assignments st @
         [\<lparr>ta_event = pe_id e, ta_thread = t, ta_account = pe_account e, ta_root = root,
           ta_at = pe_at e, ta_creates = creates\<rparr>],
       st_relations = st_relations st @ rels,
       st_ids = n + length rels\<rparr>)"

definition plan_start :: plan_state where
  "plan_start =
     \<lparr>st_assigned = Map.empty, st_latest = Map.empty, st_assignments = [], st_relations = [], st_ids = 0\<rparr>"

definition plan_order :: "projection_event list \<Rightarrow> projection_event list" where
  "plan_order events = reply_parents_first (sort_key (\<lambda>e. (pe_at e, event_str (pe_id e))) events)"

definition plan ::
  "(nat \<Rightarrow> string) \<Rightarrow> thread_policy \<Rightarrow> projection_batch \<Rightarrow> (threading_error, projection_plan) result" where
  "plan gen policy batch =
     (let st = fold (plan_event gen policy) (plan_order (pb_events batch)) plan_start in
      Ok \<lparr>pp_token = pb_token batch, pp_assignments = st_assignments st, pp_relations = st_relations st\<rparr>)"

end
