(* ===== verification/Planner_Correct.thy ===== *)
theory Planner_Correct
  imports Thread_Planner "HOL-Library.Multiset"
begin

text \<open>
  The planner's order is a permutation of the batch with parents before their replies, and its
  loop keeps an invariant from which the properties of every plan follow.
\<close>

section \<open>The order\<close>

lemma mset_remove_nth: "i < length xs \<Longrightarrow> add_mset (xs ! i) (mset (remove_nth i xs)) = mset xs"
proof -
  assume i: "i < length xs"
  have "mset xs = mset (take i xs @ xs ! i # drop (Suc i) xs)"
    using id_take_nth_drop [OF i] by simp
  then show ?thesis by (simp add: remove_nth_def)
qed

lemma set_remove_nth: "i < length xs \<Longrightarrow> set (remove_nth i xs) \<subseteq> set xs"
  by (auto simp: remove_nth_def dest: in_set_takeD in_set_dropD)

lemma mset_reply_parents_first: "mset (reply_parents_first events) = mset events"
proof (induction events rule: reply_parents_first.induct)
  case (1 events)
  show ?case
  proof (cases "events = []")
    case True
    then show ?thesis by (subst reply_parents_first.simps) simp
  next
    case False
    then show ?thesis
      using 1 [OF False] mset_remove_nth [OF next_index_less [OF False]]
      by (subst reply_parents_first.simps) (simp add: Let_def)
  qed
qed

lemma mset_plan_order: "mset (plan_order events) = mset events"
  by (simp add: plan_order_def mset_reply_parents_first)

lemma set_plan_order: "set (plan_order events) = set events"
  by (rule mset_eq_setD [OF mset_plan_order])

text \<open>No event replies to itself or to a later one.\<close>

fun placed :: "projection_event list \<Rightarrow> bool" where
  "placed [] \<longleftrightarrow> True"
| "placed (e # es) \<longleftrightarrow> no_parent_in (e # es) e \<and> placed es"

text \<open>The replies inside the batch have no cycle: some ranking puts every parent first.\<close>

definition replies_ranked :: "(source_event_id \<Rightarrow> nat) \<Rightarrow> projection_event list \<Rightarrow> bool" where
  "replies_ranked rank events \<longleftrightarrow>
     (\<forall>e\<in>set events. \<forall>c\<in>set events. pe_reply_to e = Some (pe_id c) \<longrightarrow> rank (pe_id c) < rank (pe_id e))"

lemma replies_ranked_mono: "replies_ranked rank es \<Longrightarrow> set es' \<subseteq> set es \<Longrightarrow> replies_ranked rank es'"
  unfolding replies_ranked_def by blast

lemma no_parent_in_iff:
  "no_parent_in es e \<longleftrightarrow> (\<forall>c\<in>set es. pe_reply_to e \<noteq> Some (pe_id c))"
  by (auto simp: no_parent_in_def list_ex_iff split: option.splits)

lemma next_event_placed:
  assumes ranked: "replies_ranked rank es" and ne: "es \<noteq> []"
  shows "no_parent_in es (es ! next_index es)"
proof -
  obtain e where e: "e \<in> set es" "\<And>c. c \<in> set es \<Longrightarrow> rank (pe_id e) \<le> rank (pe_id c)"
    using ne arg_min_if_finite [of "set es" "\<lambda>e. rank (pe_id e)"]
    by (metis List.finite_set not_le set_empty)
  have "no_parent_in es e"
    unfolding no_parent_in_iff
  proof (intro ballI notI)
    fix c assume "c \<in> set es" "pe_reply_to e = Some (pe_id c)"
    with ranked e(1) have "rank (pe_id c) < rank (pe_id e)" unfolding replies_ranked_def by blast
    with e(2) [OF \<open>c \<in> set es\<close>] show False by simp
  qed
  with e(1) obtain i where i: "position (no_parent_in es) es = Some i"
    using position_None by (metis option.exhaust)
  from position_Some [OF this] i show ?thesis by (simp add: next_index_def)
qed

lemma placed_reply_parents_first:
  "replies_ranked rank es \<Longrightarrow> placed (reply_parents_first es)"
proof (induction es rule: reply_parents_first.induct)
  case (1 es)
  show ?case
  proof (cases "es = []")
    case True
    then show ?thesis by (subst reply_parents_first.simps) simp
  next
    case False
    let ?i = "next_index es"
    have i: "?i < length es" by (rule next_index_less [OF False])
    have rest: "placed (reply_parents_first (remove_nth ?i es))"
      using 1(1) [OF False refl] replies_ranked_mono [OF 1(2) set_remove_nth [OF i]] by blast
    have "set (es ! ?i # reply_parents_first (remove_nth ?i es)) = set es"
      using mset_remove_nth [OF i] mset_reply_parents_first
      by (metis mset.simps(2) mset_eq_setD)
    then have "no_parent_in (es ! ?i # reply_parents_first (remove_nth ?i es)) (es ! ?i)"
      using next_event_placed [OF 1(2) False] by (simp only: no_parent_in_iff) 
    with rest False show ?thesis by (subst reply_parents_first.simps) (simp add: Let_def)
  qed
qed

lemma placed_plan_order: "replies_ranked rank es \<Longrightarrow> placed (plan_order es)"
  unfolding plan_order_def
  by (rule placed_reply_parents_first) (rule replies_ranked_mono, auto)

section \<open>One event\<close>

text \<open>A thread that the context of an event offers as still open.\<close>

definition open_context :: "projection_event \<Rightarrow> event_thread_id \<Rightarrow> bool" where
  "open_context e t \<longleftrightarrow>
     (pe_parent_thread e = Some t \<and> \<not> pe_parent_terminal e)
     \<or> (pe_child_thread e = Some t \<and> \<not> pe_child_terminal e)
     \<or> (\<exists>c. pe_previous e = Some c \<and> tce_thread c = t \<and> \<not> pe_previous_terminal e)"

definition used_threads :: "thread_assignment list \<Rightarrow> event_thread_id set" where
  "used_threads as = ta_thread ` set as"

text \<open>The maps of the loop only hold events that have been assigned, with their threads.\<close>

definition maps_ok :: "plan_state \<Rightarrow> bool" where
  "maps_ok st \<longleftrightarrow>
     (\<forall>s t. st_assigned st s = Some t \<longrightarrow> t \<in> used_threads (st_assignments st))
     \<and> (\<forall>k c. st_latest st k = Some c \<longrightarrow>
          (\<exists>a\<in>set (st_assignments st). ta_event a = tce_event c \<and> ta_thread a = tce_thread c
             \<and> ta_at a = tce_at c))"

lemma or_else_Some: "or_else x y = Some a \<longleftrightarrow> x = Some a \<or> (x = None \<and> y = Some a)"
  by (auto simp: or_else_def split: option.splits)

lemma option_filter_Some: "option_filter P x = Some a \<longleftrightarrow> x = Some a \<and> P a"
  by (auto simp: option_filter_def split: option.splits)

lemma assigned_parent_used:
  "maps_ok st \<Longrightarrow> assigned_parent st e = Some t \<Longrightarrow> t \<in> used_threads (st_assignments st)"
  by (auto simp: maps_ok_def assigned_parent_def Option.bind_eq_Some_conv)

lemma reply_thread_origin:
  assumes "maps_ok st" and "reply_thread st e = Some t"
  shows "t \<in> used_threads (st_assignments st) \<or> open_context e t"
  using assms(2) assigned_parent_used [OF assms(1)]
  by (auto simp: reply_thread_def or_else_Some option_filter_Some open_context_def split: if_splits)

lemma previous_event_origin:
  assumes "maps_ok st" and "previous_event policy st e = Some c"
  shows "tce_thread c \<in> used_threads (st_assignments st) \<or> open_context e (tce_thread c)"
proof -
  have "st_latest st (conversation_key e) = Some c \<or> (pe_previous e = Some c \<and> \<not> pe_previous_terminal e)"
    using assms(2) by (auto simp: previous_event_def option_filter_Some or_else_Some split: if_splits)
  then show ?thesis
    using assms(1) unfolding maps_ok_def used_threads_def open_context_def by (metis imageI)
qed

lemma choose_thread_cases:
  assumes st: "maps_ok st"
    and c: "choose_thread gen st (reply_thread st e) (previous_event policy st e) e = (t, creates, root, n)"
  shows "if creates then t = EventThreadId (gen (st_ids st)) \<and> n = Suc (st_ids st) \<and> root = pe_id e
         else n = st_ids st \<and> (t \<in> used_threads (st_assignments st) \<or> open_context e t)"
    and "assigned_parent st e = Some p \<Longrightarrow> t = p \<and> \<not> creates"
proof -
  show "if creates then t = EventThreadId (gen (st_ids st)) \<and> n = Suc (st_ids st) \<and> root = pe_id e
         else n = st_ids st \<and> (t \<in> used_threads (st_assignments st) \<or> open_context e t)"
    using c reply_thread_origin [OF st, of e] previous_event_origin [OF st, of policy e]
    by (auto simp: choose_thread_def split: option.splits)
  show "assigned_parent st e = Some p \<Longrightarrow> t = p \<and> \<not> creates"
    using c by (auto simp: choose_thread_def reply_thread_def or_else_def split: option.splits if_splits)
qed

lemma plan_event_result:
  obtains t creates root n where
    "choose_thread gen st (reply_thread st e) (previous_event policy st e) e = (t, creates, root, n)"
    and "st_assigned (plan_event gen policy e st) = (st_assigned st)(event_str (pe_id e) \<mapsto> t)"
    and "st_latest (plan_event gen policy e st) = (st_latest st)(conversation_key e \<mapsto>
           \<lparr>tce_event = pe_id e, tce_thread = t, tce_actor = pe_actor e, tce_at = pe_at e\<rparr>)"
    and "st_assignments (plan_event gen policy e st) = st_assignments st @
           [\<lparr>ta_event = pe_id e, ta_thread = t, ta_account = pe_account e, ta_root = root,
             ta_at = pe_at e, ta_creates = creates\<rparr>]"
    and "st_relations (plan_event gen policy e st) = st_relations st @
           new_relations gen policy n t (previous_event policy st e) e"
    and "st_ids (plan_event gen policy e st) =
           n + length (new_relations gen policy n t (previous_event policy st e) e)"
proof -
  obtain t creates root n where c:
    "choose_thread gen st (reply_thread st e) (previous_event policy st e) e = (t, creates, root, n)"
    by (cases "choose_thread gen st (reply_thread st e) (previous_event policy st e) e") blast
  then show ?thesis by (rule that) (simp_all add: plan_event_def Let_def c)
qed

lemma used_threads_snoc: "used_threads (as @ [a]) = insert (ta_thread a) (used_threads as)"
  by (simp add: used_threads_def)

lemma maps_ok_plan_event: "maps_ok st \<Longrightarrow> maps_ok (plan_event gen policy e st)"
  by (rule plan_event_result [of gen st e policy])
    (auto simp: maps_ok_def used_threads_snoc split: if_splits)

lemma snoc_split:
  assumes "as @ [a] = pre @ b # post"
  shows "(pre = as \<and> b = a \<and> post = []) \<or> (\<exists>post'. post = post' @ [a] \<and> as = pre @ b # post')"
  using assms by (cases post rule: rev_cases) auto

section \<open>The whole loop\<close>

abbreviation plan_run :: "(nat \<Rightarrow> string) \<Rightarrow> thread_policy \<Rightarrow> projection_event list \<Rightarrow> plan_state" where
  "plan_run gen policy es \<equiv> fold (plan_event gen policy) es plan_start"

lemma plan_run_snoc: "plan_run gen policy (es @ [e]) = plan_event gen policy e (plan_run gen policy es)"
  by simp

lemma maps_ok_plan_run: "maps_ok (plan_run gen policy es)"
proof (induction es rule: rev_induct)
  case Nil
  show ?case by (simp add: maps_ok_def plan_start_def)
next
  case (snoc e es)
  then show ?case unfolding plan_run_snoc by (rule maps_ok_plan_event)
qed

lemma plan_run_events: "map ta_event (st_assignments (plan_run gen policy es)) = map pe_id es"
proof (induction es rule: rev_induct)
  case Nil
  show ?case by (simp add: plan_start_def)
next
  case (snoc e es)
  show ?case
    unfolding plan_run_snoc
    by (rule plan_event_result [of gen "plan_run gen policy es" e policy]) (simp add: snoc)
qed

text \<open>
  Where the thread of every assignment comes from: a new one, one assigned earlier in the plan,
  or one that the context of the event offers as open.
\<close>

definition thread_origin ::
  "(nat \<Rightarrow> string) \<Rightarrow> projection_event list \<Rightarrow> thread_assignment list \<Rightarrow> thread_assignment \<Rightarrow> bool" where
  "thread_origin gen es earlier a \<longleftrightarrow>
     (if ta_creates a then (\<exists>n. ta_thread a = EventThreadId (gen n)) \<and> ta_root a = ta_event a
      else ta_thread a \<in> used_threads earlier
        \<or> (\<exists>e\<in>set es. pe_id e = ta_event a \<and> open_context e (ta_thread a)))"

lemma thread_origin_mono: "thread_origin gen es as a \<Longrightarrow> set es \<subseteq> set es' \<Longrightarrow> thread_origin gen es' as a"
  by (auto simp: thread_origin_def split: if_splits)

lemma plan_run_origin:
  "st_assignments (plan_run gen policy es) = pre @ a # post \<Longrightarrow> thread_origin gen es pre a"
proof (induction es arbitrary: pre a post rule: rev_induct)
  case Nil
  then show ?case by (simp add: plan_start_def)
next
  case (snoc e es)
  let ?st = "plan_run gen policy es"
  obtain t creates root n where
    c: "choose_thread gen ?st (reply_thread ?st e) (previous_event policy ?st e) e = (t, creates, root, n)"
    and as: "st_assignments (plan_event gen policy e ?st) = st_assignments ?st @
           [\<lparr>ta_event = pe_id e, ta_thread = t, ta_account = pe_account e, ta_root = root,
             ta_at = pe_at e, ta_creates = creates\<rparr>]"
    by (rule plan_event_result [of gen ?st e policy])
  from snoc_split [OF snoc.prems [unfolded plan_run_snoc as]] show ?case
  proof (elim disjE exE conjE)
    fix post' assume "st_assignments ?st = pre @ a # post'"
    from snoc.IH [OF this] show ?thesis by (rule thread_origin_mono) auto
  next
    assume "pre = st_assignments ?st" and
      "a = \<lparr>ta_event = pe_id e, ta_thread = t, ta_account = pe_account e, ta_root = root,
             ta_at = pe_at e, ta_creates = creates\<rparr>"
    then show ?thesis
      using choose_thread_cases(1) [OF maps_ok_plan_run c] by (auto simp: thread_origin_def split: if_splits)
  qed
qed

lemma event_str_eq [simp]: "event_str i = event_str j \<longleftrightarrow> i = j"
  by (cases i; cases j) simp

lemma assigned_run:
  "distinct (map pe_id es) \<Longrightarrow> a \<in> set (st_assignments (plan_run gen policy es)) \<Longrightarrow>
     st_assigned (plan_run gen policy es) (event_str (ta_event a)) = Some (ta_thread a)"
proof (induction es rule: rev_induct)
  case Nil
  then show ?case by (simp add: plan_start_def)
next
  case (snoc e es)
  let ?st = "plan_run gen policy es"
  obtain t creates root n where
    up: "st_assigned (plan_event gen policy e ?st) = (st_assigned ?st)(event_str (pe_id e) \<mapsto> t)"
    and as: "st_assignments (plan_event gen policy e ?st) = st_assignments ?st @
           [\<lparr>ta_event = pe_id e, ta_thread = t, ta_account = pe_account e, ta_root = root,
             ta_at = pe_at e, ta_creates = creates\<rparr>]"
    by (rule plan_event_result [of gen ?st e policy])
  show ?case
  proof (cases "a \<in> set (st_assignments ?st)")
    case True
    then have "ta_event a \<in> set (map pe_id es)"
      using plan_run_events [of gen policy es] by (metis image_eqI list.set_map)
    then have "ta_event a \<noteq> pe_id e" using snoc.prems(1) by auto
    with snoc True show ?thesis unfolding plan_run_snoc up by simp
  next
    case False
    then have "ta_event a = pe_id e" "ta_thread a = t"
      using snoc.prems(2) unfolding plan_run_snoc as by auto
    then show ?thesis unfolding plan_run_snoc up by simp
  qed
qed

lemma assignments_extend: "\<exists>as. st_assignments (plan_run gen policy (es @ fs)) = st_assignments (plan_run gen policy es) @ as"
proof (induction fs rule: rev_induct)
  case Nil
  show ?case by simp
next
  case (snoc f fs)
  let ?st = "plan_run gen policy (es @ fs)"
  obtain b where "st_assignments (plan_event gen policy f ?st) = st_assignments ?st @ [b]"
    by (rule plan_event_result [of gen ?st f policy])
  moreover have "plan_run gen policy (es @ fs @ [f]) = plan_event gen policy f ?st" by simp
  ultimately show ?case using snoc by auto
qed

lemma placed_parent_before:
  "placed (pre @ e # post) \<Longrightarrow> c \<in> set (pre @ e # post) \<Longrightarrow> pe_reply_to e = Some (pe_id c) \<Longrightarrow>
     distinct (map pe_id (pre @ e # post)) \<Longrightarrow> c \<in> set pre"
proof (induction pre)
  case Nil
  then show ?case by (auto simp: no_parent_in_iff)
next
  case (Cons x pre)
  then show ?case by (cases "c = x") auto
qed

lemma child_joins_parent:
  assumes pl: "placed es" and di: "distinct (map pe_id es)"
    and e: "e \<in> set es" "pe_reply_to e = Some (pe_id c)" "c \<in> set es"
    and a: "a \<in> set (st_assignments (plan_run gen policy es))" "ta_event a = pe_id e"
    and b: "b \<in> set (st_assignments (plan_run gen policy es))" "ta_event b = pe_id c"
  shows "ta_thread a = ta_thread b \<and> \<not> ta_creates a"
proof -
  obtain pre post where es: "es = pre @ e # post" using e(1) split_list by fast
  have "c \<in> set pre" using placed_parent_before [of pre e post c] pl di e by (simp add: es)
  let ?st = "plan_run gen policy pre"
  from \<open>c \<in> set pre\<close> have "pe_id c \<in> set (map ta_event (st_assignments ?st))"
    unfolding plan_run_events by simp
  then obtain d where d: "d \<in> set (st_assignments ?st)" "ta_event d = pe_id c" by auto
  have "distinct (map pe_id pre)" using di by (simp add: es)
  from assigned_run [OF this d(1)] have parent: "assigned_parent ?st e = Some (ta_thread d)"
    by (simp add: assigned_parent_def e(2) d(2))
  obtain t creates root n where
    ch: "choose_thread gen ?st (reply_thread ?st e) (previous_event policy ?st e) e = (t, creates, root, n)"
    and as: "st_assignments (plan_event gen policy e ?st) = st_assignments ?st @
           [\<lparr>ta_event = pe_id e, ta_thread = t, ta_account = pe_account e, ta_root = root,
             ta_at = pe_at e, ta_creates = creates\<rparr>]"
    by (rule plan_event_result [of gen ?st e policy])
  have t: "t = ta_thread d" "\<not> creates"
    using choose_thread_cases(2) [OF maps_ok_plan_run ch parent] by simp_all
  let ?a = "\<lparr>ta_event = pe_id e, ta_thread = t, ta_account = pe_account e, ta_root = root,
             ta_at = pe_at e, ta_creates = creates\<rparr>"
  obtain rest where all: "st_assignments (plan_run gen policy es) = (st_assignments ?st @ [?a]) @ rest"
    using assignments_extend [of gen policy "pre @ [e]" post] as by (auto simp: es)
  have uniq: "x = y" if "x \<in> set (st_assignments (plan_run gen policy es))"
    "y \<in> set (st_assignments (plan_run gen policy es))" "ta_event x = ta_event y" for x y
    using that di plan_run_events [of gen policy es] by (metis distinct_map inj_onD)
  have "a = ?a" by (rule uniq) (use a in \<open>simp_all add: all\<close>)
  moreover have "b = d" by (rule uniq) (use b d in \<open>simp_all add: all\<close>)
  ultimately show ?thesis using t by simp
qed

section \<open>New threads\<close>

definition context_threads :: "projection_event \<Rightarrow> event_thread_id set" where
  "context_threads e =
     set_option (pe_parent_thread e) \<union> set_option (pe_child_thread e)
     \<union> tce_thread ` set_option (pe_previous e)"

text \<open>\<open>Uuid::new_v4\<close>: no two calls give the same id, and none is in use already.\<close>

definition fresh_supply :: "(nat \<Rightarrow> string) \<Rightarrow> projection_event list \<Rightarrow> bool" where
  "fresh_supply gen es \<longleftrightarrow>
     inj gen \<and> (\<forall>n. \<forall>e\<in>set es. EventThreadId (gen n) \<notin> context_threads e)"

lemma open_context_context: "open_context e t \<Longrightarrow> t \<in> context_threads e"
  by (auto simp: open_context_def context_threads_def)

lemma used_threads_run:
  "used_threads (st_assignments (plan_run gen policy es))
     \<subseteq> (\<lambda>i. EventThreadId (gen i)) ` {..< st_ids (plan_run gen policy es)} \<union> (\<Union>e\<in>set es. context_threads e)"
proof (induction es rule: rev_induct)
  case Nil
  show ?case by (simp add: plan_start_def used_threads_def)
next
  case (snoc e es)
  let ?st = "plan_run gen policy es"
  obtain t creates root n where
    ch: "choose_thread gen ?st (reply_thread ?st e) (previous_event policy ?st e) e = (t, creates, root, n)"
    and as: "st_assignments (plan_event gen policy e ?st) = st_assignments ?st @
           [\<lparr>ta_event = pe_id e, ta_thread = t, ta_account = pe_account e, ta_root = root,
             ta_at = pe_at e, ta_creates = creates\<rparr>]"
    and ids: "st_ids (plan_event gen policy e ?st) =
           n + length (new_relations gen policy n t (previous_event policy ?st e) e)"
    by (rule plan_event_result [of gen ?st e policy])
  have n: "st_ids ?st \<le> n" "creates \<Longrightarrow> t = EventThreadId (gen (st_ids ?st)) \<and> st_ids ?st < n"
    "\<not> creates \<Longrightarrow> t \<in> used_threads (st_assignments ?st) \<or> t \<in> context_threads e"
    using choose_thread_cases(1) [OF maps_ok_plan_run ch] open_context_context by (auto split: if_splits)
  have "(\<lambda>i. EventThreadId (gen i)) ` {..< st_ids ?st}
      \<subseteq> (\<lambda>i. EventThreadId (gen i)) ` {..< st_ids (plan_event gen policy e ?st)}"
    using n(1) by (intro image_mono) (auto simp: ids)
  then show ?case
    using snoc n unfolding plan_run_snoc as used_threads_snoc by (cases creates) (auto simp: ids)
qed

lemma plan_run_fresh:
  assumes "fresh_supply gen es"
  shows "st_assignments (plan_run gen policy es) = pre @ a # post \<Longrightarrow> ta_creates a \<Longrightarrow>
     ta_thread a \<notin> used_threads pre"
  using assms
proof (induction es arbitrary: pre a post rule: rev_induct)
  case Nil
  then show ?case by (simp add: plan_start_def)
next
  case (snoc e es)
  let ?st = "plan_run gen policy es"
  have fr: "fresh_supply gen es" using snoc.prems(3) by (simp add: fresh_supply_def)
  obtain t creates root n where
    ch: "choose_thread gen ?st (reply_thread ?st e) (previous_event policy ?st e) e = (t, creates, root, n)"
    and as: "st_assignments (plan_event gen policy e ?st) = st_assignments ?st @
           [\<lparr>ta_event = pe_id e, ta_thread = t, ta_account = pe_account e, ta_root = root,
             ta_at = pe_at e, ta_creates = creates\<rparr>]"
    by (rule plan_event_result [of gen ?st e policy])
  from snoc_split [OF snoc.prems(1) [unfolded plan_run_snoc as]] show ?case
  proof (elim disjE exE conjE)
    fix post' assume "st_assignments ?st = pre @ a # post'"
    from snoc.IH [OF this snoc.prems(2) fr] show ?thesis .
  next
    assume pre: "pre = st_assignments ?st" and
      "a = \<lparr>ta_event = pe_id e, ta_thread = t, ta_account = pe_account e, ta_root = root,
             ta_at = pe_at e, ta_creates = creates\<rparr>"
    then have a: "ta_thread a = EventThreadId (gen (st_ids ?st))"
      using choose_thread_cases(1) [OF maps_ok_plan_run ch] snoc.prems(2) by simp
    have "EventThreadId (gen (st_ids ?st)) \<notin> (\<Union>e\<in>set es. context_threads e)"
      using fr by (auto simp: fresh_supply_def)
    moreover have "EventThreadId (gen (st_ids ?st)) \<notin> (\<lambda>i. EventThreadId (gen i)) ` {..< st_ids ?st}"
      using fr by (auto simp: fresh_supply_def inj_def)
    ultimately show ?thesis
      using used_threads_run [of gen policy es] unfolding pre a by blast
  qed
qed

section \<open>Relations\<close>

text \<open>
  What a relation of a plan asserts: it starts at an event of the batch, inside the thread that
  event is assigned to; a reply edge follows the structured reply of the event, whose parent
  thread is not terminal; the other edges link an event that replies to nothing with the one
  before it in the conversation key, no further away than the window.
\<close>

definition in_window ::
  "thread_policy \<Rightarrow> thread_assignment list \<Rightarrow> projection_event \<Rightarrow> source_event_id \<Rightarrow> bool" where
  "in_window policy as e i \<longleftrightarrow>
     (\<exists>at. ((\<exists>b\<in>set as. ta_event b = i \<and> ta_at b = at)
            \<or> (\<exists>c. pe_previous e = Some c \<and> tce_event c = i \<and> tce_at c = at))
         \<and> i64_saturating_sub (pe_at e) at \<le> window_secs policy)"

definition relation_sound ::
  "thread_policy \<Rightarrow> projection_event list \<Rightarrow> thread_assignment list \<Rightarrow> thread_relation \<Rightarrow> bool" where
  "relation_sound policy es as r \<longleftrightarrow>
     tr_confidence_bps r = 10000
     \<and> (\<exists>e\<in>set es. tr_from r = pe_id e
          \<and> (\<exists>a\<in>set as. ta_event a = pe_id e \<and> ta_thread a = tr_thread r)
          \<and> (if tr_kind r = ReplyRelation
             then pe_reply_to e = Some (tr_to r) \<and> \<not> pe_parent_terminal e
             else tr_kind r \<in> {SameConversationWindow, SameActorWithinConversationWindow}
               \<and> pe_reply_to e = None \<and> in_window policy as e (tr_to r)))"

lemma in_window_mono: "in_window policy as e i \<Longrightarrow> in_window policy (as @ bs) e i"
  unfolding in_window_def by auto

lemma relation_sound_mono:
  "relation_sound policy es as r \<Longrightarrow> relation_sound policy (es @ fs) (as @ bs) r"
  unfolding relation_sound_def using in_window_mono by (auto split: if_splits)

lemma relation_sound_subset:
  "relation_sound policy es as r \<Longrightarrow> set es \<subseteq> set es' \<Longrightarrow> relation_sound policy es' as r"
  unfolding relation_sound_def by blast

lemma previous_in_window:
  assumes "maps_ok st" and "previous_event policy st e = Some c"
  shows "in_window policy (st_assignments st) e (tce_event c)"
proof -
  have "i64_saturating_sub (pe_at e) (tce_at c) \<le> window_secs policy"
    "st_latest st (conversation_key e) = Some c \<or> pe_previous e = Some c"
    using assms(2) by (auto simp: previous_event_def option_filter_Some or_else_Some split: if_splits)
  then show ?thesis using assms(1) unfolding in_window_def maps_ok_def by blast
qed

lemma new_relations_sound:
  assumes st: "maps_ok st" and r: "r \<in> set (new_relations gen policy n t (previous_event policy st e) e)"
    and as: "as = st_assignments st @ [a]" "ta_event a = pe_id e" "ta_thread a = t"
  shows "relation_sound policy [e] as r"
  using r previous_in_window [OF st, of policy e] as
  by (auto simp: new_relations_def relation_sound_def make_relation_def in_window_mono
      split: option.splits if_splits)

lemma relations_run:
  "r \<in> set (st_relations (plan_run gen policy es)) \<Longrightarrow>
     relation_sound policy es (st_assignments (plan_run gen policy es)) r"
proof (induction es rule: rev_induct)
  case Nil
  then show ?case by (simp add: plan_start_def)
next
  case (snoc e es)
  let ?st = "plan_run gen policy es"
  obtain t creates root n where
    as: "st_assignments (plan_event gen policy e ?st) = st_assignments ?st @
           [\<lparr>ta_event = pe_id e, ta_thread = t, ta_account = pe_account e, ta_root = root,
             ta_at = pe_at e, ta_creates = creates\<rparr>]"
    and rs: "st_relations (plan_event gen policy e ?st) = st_relations ?st @
           new_relations gen policy n t (previous_event policy ?st e) e"
    by (rule plan_event_result [of gen ?st e policy])
  show ?case
  proof (cases "r \<in> set (st_relations ?st)")
    case True
    from relation_sound_mono [OF snoc.IH [OF True]] show ?thesis unfolding plan_run_snoc as .
  next
    case False
    then have "r \<in> set (new_relations gen policy n t (previous_event policy ?st e) e)"
      using snoc.prems unfolding plan_run_snoc rs by simp
    then have "relation_sound policy [e] (st_assignments (plan_run gen policy (es @ [e]))) r"
      unfolding plan_run_snoc by (rule new_relations_sound [OF maps_ok_plan_run _ as]) simp_all
    then show ?thesis by (rule relation_sound_subset) simp
  qed
qed

lemma reply_relation_present:
  "e \<in> set es \<Longrightarrow> pe_reply_to e = Some p \<Longrightarrow> \<not> pe_parent_terminal e \<Longrightarrow>
     \<exists>r\<in>set (st_relations (plan_run gen policy es)).
       tr_kind r = ReplyRelation \<and> tr_from r = pe_id e \<and> tr_to r = p"
proof (induction es rule: rev_induct)
  case Nil
  then show ?case by simp
next
  case (snoc x es)
  let ?st = "plan_run gen policy es"
  obtain t creates root n where
    rs: "st_relations (plan_event gen policy x ?st) = st_relations ?st @
           new_relations gen policy n t (previous_event policy ?st x) x"
    by (rule plan_event_result [of gen ?st x policy])
  show ?case
  proof (cases "e \<in> set es")
    case True
    with snoc show ?thesis unfolding plan_run_snoc rs by auto
  next
    case False
    with snoc.prems have "x = e" by simp
    with snoc.prems show ?thesis
      unfolding plan_run_snoc rs by (simp add: new_relations_def make_relation_def)
  qed
qed

section \<open>Properties\<close>

lemma plan_result:
  "plan gen policy batch =
     Ok \<lparr>pp_token = pb_token batch,
         pp_assignments = st_assignments (plan_run gen policy (plan_order (pb_events batch))),
         pp_relations = st_relations (plan_run gen policy (plan_order (pb_events batch)))\<rparr>"
  by (simp add: plan_def Let_def)

text \<open>
  Planning always succeeds and assigns every event of the batch exactly once, whatever its
  order, its duplicates and its reply cycles; the reordering neither loses nor invents an event.
\<close>

theorem plan_assigns_each_event_once:
  "\<exists>p. plan gen policy batch = Ok p \<and> pp_token p = pb_token batch
     \<and> mset (map ta_event (pp_assignments p)) = mset (map pe_id (pb_events batch))"
proof -
  have "mset (map pe_id (plan_order (pb_events batch))) = mset (map pe_id (pb_events batch))"
    by (simp add: mset_plan_order)
  then have "mset (map ta_event (st_assignments (plan_run gen policy (plan_order (pb_events batch)))))
      = mset (map pe_id (pb_events batch))"
    by (simp only: plan_run_events)
  then show ?thesis unfolding plan_result by simp
qed

text \<open>
  The batch of the witnesses: a reply whose time stamp is before the message it replies to. The
  ids come from a supply that is never repeated.
\<close>

definition sample_account :: source_account_ref where
  "sample_account = \<lparr>sar_channel = NapCat, sar_account_id = ''2''\<rparr>"

definition sample_event :: "string \<Rightarrow> i64 \<Rightarrow> source_event_id option \<Rightarrow> projection_event" where
  "sample_event i at reply =
     \<lparr>pe_id = SourceEventId i, pe_account = sample_account,
      pe_conversation = \<lparr>conv_kind = GroupConversation, conv_id = ''3''\<rparr>, pe_actor = ''o'', pe_at = at,
      pe_reply_to = reply, pe_parent_thread = None, pe_child_thread = None, pe_previous = None,
      pe_parent_terminal = False, pe_child_terminal = False, pe_previous_terminal = False\<rparr>"

definition sample_batch :: projection_batch where
  "sample_batch = \<lparr>pb_token = LeaseToken ''t'',
     pb_events = [sample_event ''r'' 3 (Some (SourceEventId ''p'')), sample_event ''p'' 5 None]\<rparr>"

definition xs_supply :: "nat \<Rightarrow> string" where
  "xs_supply n = replicate n (CHR ''x'')"

lemma fresh_sample: "fresh_supply xs_supply (pb_events sample_batch)"
  by (auto simp: fresh_supply_def inj_def xs_supply_def sample_batch_def sample_event_def
      context_threads_def dest: arg_cong [of _ _ length])

lemma sample_order:
  "plan_order (pb_events sample_batch) = [sample_event ''p'' 5 None, sample_event ''r'' 3 (Some (SourceEventId ''p''))]"
  by (simp add: plan_order_def sample_batch_def sample_event_def reply_parents_first.simps
      next_index_def no_parent_in_def remove_nth_def)

abbreviation sample_policy :: thread_policy where
  "sample_policy \<equiv> \<lparr>window_secs = 60\<rparr>"

definition sample_plan :: projection_plan where
  "sample_plan = \<lparr>pp_token = LeaseToken ''t'',
     pp_assignments =
       [\<lparr>ta_event = SourceEventId ''p'', ta_thread = EventThreadId [], ta_account = sample_account,
         ta_root = SourceEventId ''p'', ta_at = 5, ta_creates = True\<rparr>,
        \<lparr>ta_event = SourceEventId ''r'', ta_thread = EventThreadId [], ta_account = sample_account,
         ta_root = SourceEventId ''p'', ta_at = 3, ta_creates = False\<rparr>],
     pp_relations =
       [make_relation ''x'' (EventThreadId []) (SourceEventId ''r'') (SourceEventId ''p'') ReplyRelation
          ''structured reply_to_event_id'']\<rparr>"

lemma plan_sample: "plan xs_supply sample_policy sample_batch = Ok sample_plan"
  unfolding plan_result sample_order
  by (simp add: sample_plan_def plan_event_def plan_start_def choose_thread_def
      reply_thread_def previous_event_def force_new_thread_def assigned_parent_def or_else_def
      option_filter_def new_relations_def sample_event_def sample_batch_def xs_supply_def)

lemma plan_Ok:
  assumes "plan gen policy batch = Ok p"
  obtains "pp_assignments p = st_assignments (plan_run gen policy (plan_order (pb_events batch)))"
    and "pp_relations p = st_relations (plan_run gen policy (plan_order (pb_events batch)))"
  using assms unfolding plan_result by auto

text \<open>
  C28: a reply joins the thread of the event it replies to whenever both are in the batch, in
  whatever order their time stamps put them, also when the parent's stored thread is flagged
  terminal, and never opens a thread of its own; only cycles of replies are excluded.
\<close>

theorem plan_reply_joins_parent:
  assumes "plan gen policy batch = Ok p"
    and "distinct (map pe_id (pb_events batch))" and "replies_ranked rank (pb_events batch)"
    and "e \<in> set (pb_events batch)" and "c \<in> set (pb_events batch)" and "pe_reply_to e = Some (pe_id c)"
    and "a \<in> set (pp_assignments p)" and "ta_event a = pe_id e"
    and "b \<in> set (pp_assignments p)" and "ta_event b = pe_id c"
  shows "ta_thread a = ta_thread b \<and> \<not> ta_creates a"
proof -
  let ?es = "plan_order (pb_events batch)"
  have "mset (map pe_id ?es) = mset (map pe_id (pb_events batch))" by (simp add: mset_plan_order)
  then have "distinct (map pe_id ?es)" using assms(2) mset_eq_imp_distinct_iff by blast
  with placed_plan_order [OF assms(3)] show ?thesis
    using assms by (elim plan_Ok, intro child_joins_parent [of ?es e c]) (simp_all add: set_plan_order)
qed

text \<open>
  C29: no plan puts an event or a relation into a thread its context does not offer as open: the
  thread of every assignment is new, or is the open parent, child or previous thread of some
  event of the batch, and every relation lies in the thread its event is assigned to.
\<close>

theorem plan_uses_open_threads_only:
  assumes "plan gen policy batch = Ok p"
  shows "(\<forall>a\<in>set (pp_assignments p). (\<exists>n. ta_thread a = EventThreadId (gen n))
        \<or> (\<exists>e\<in>set (pb_events batch). open_context e (ta_thread a)))
    \<and> (\<forall>r\<in>set (pp_relations p). relation_sound policy (pb_events batch) (pp_assignments p) r)"
proof -
  let ?es = "plan_order (pb_events batch)"
  have run: "pp_assignments p = st_assignments (plan_run gen policy ?es)"
    "pp_relations p = st_relations (plan_run gen policy ?es)"
    using assms by (auto elim: plan_Ok)
  have origin: "(\<exists>n. t = EventThreadId (gen n)) \<or> (\<exists>e\<in>set ?es. open_context e t)"
    if "t \<in> used_threads as" "\<And>pre a post. as = pre @ a # post \<Longrightarrow> thread_origin gen ?es pre a" for as t
    using that
  proof (induction as rule: rev_induct)
    case Nil
    then show ?case by (simp add: used_threads_def)
  next
    case (snoc a as)
    show ?case
    proof (cases "t \<in> used_threads as")
      case True
      then show ?thesis by (rule snoc.IH) (use snoc.prems(2) in force)
    next
      case False
      then have "t = ta_thread a" using snoc.prems(1) by (simp add: used_threads_snoc)
      with False snoc.prems(2) [of as a "[]"] show ?thesis by (auto simp: thread_origin_def split: if_splits)
    qed
  qed
  have "(\<exists>n. ta_thread a = EventThreadId (gen n)) \<or> (\<exists>e\<in>set (pb_events batch). open_context e (ta_thread a))"
    if "a \<in> set (pp_assignments p)" for a
  proof -
    from that have "ta_thread a \<in> used_threads (pp_assignments p)" by (simp add: used_threads_def)
    from origin [OF this] plan_run_origin [of gen policy ?es] show ?thesis
      unfolding run set_plan_order by blast
  qed
  moreover have "relation_sound policy (pb_events batch) (pp_assignments p) r"
    if "r \<in> set (pp_relations p)" for r
    using relations_run [OF that [unfolded run]] unfolding run
    by (rule relation_sound_subset) (simp add: set_plan_order)
  ultimately show ?thesis by blast
qed

text \<open>
  When the generated ids are fresh, each new thread of a plan is created by exactly one
  assignment, the first one that uses it, with its own event as root; an assignment that creates
  nothing uses a thread created before it or an open thread of its own context.
\<close>

theorem plan_creates_threads_once:
  assumes "plan gen policy batch = Ok p" and "fresh_supply gen (pb_events batch)"
    and "pp_assignments p = pre @ a # post"
  shows "if ta_creates a
         then ta_root a = ta_event a \<and> ta_thread a \<notin> used_threads pre
         else ta_thread a \<in> used_threads pre
            \<or> (\<exists>e\<in>set (pb_events batch). pe_id e = ta_event a \<and> open_context e (ta_thread a))"
proof -
  let ?es = "plan_order (pb_events batch)"
  have run: "st_assignments (plan_run gen policy ?es) = pre @ a # post"
    using assms(1,3) by (auto elim: plan_Ok)
  have "fresh_supply gen ?es" using assms(2) by (simp add: fresh_supply_def set_plan_order)
  from plan_run_fresh [OF this run] plan_run_origin [OF run] show ?thesis
    by (auto simp: thread_origin_def set_plan_order)
qed

theorem plan_reply_joins_parent_witness:
  "ta_thread (pp_assignments sample_plan ! 1) = ta_thread (pp_assignments sample_plan ! 0)
    \<and> \<not> ta_creates (pp_assignments sample_plan ! 1)"
proof (rule plan_reply_joins_parent [OF plan_sample])
  show "distinct (map pe_id (pb_events sample_batch))"
    by (simp add: sample_batch_def sample_event_def)
  show "replies_ranked (\<lambda>i. if i = SourceEventId ''p'' then 0 else 1) (pb_events sample_batch)"
    by (simp add: replies_ranked_def sample_batch_def sample_event_def)
  show "sample_event ''r'' 3 (Some (SourceEventId ''p'')) \<in> set (pb_events sample_batch)"
    "sample_event ''p'' 5 None \<in> set (pb_events sample_batch)"
    by (simp_all add: sample_batch_def)
qed (simp_all add: sample_event_def sample_plan_def)

theorem plan_uses_open_threads_only_witness:
  "relation_sound sample_policy (pb_events sample_batch) (pp_assignments sample_plan)
     (pp_relations sample_plan ! 0)"
  using plan_uses_open_threads_only [OF plan_sample] by (simp add: sample_plan_def)

theorem plan_creates_threads_once_witness:
  "ta_root (pp_assignments sample_plan ! 0) = ta_event (pp_assignments sample_plan ! 0)"
  using plan_creates_threads_once [OF plan_sample fresh_sample, of "[]" "pp_assignments sample_plan ! 0"
      "[pp_assignments sample_plan ! 1]"]
  by (simp add: sample_plan_def)

definition first_account_event :: projection_event where
  "first_account_event = (sample_event ''a'' 3 None)
     \<lparr>pe_account := \<lparr>sar_channel = NapCat, sar_account_id = ''2''\<rparr>,
      pe_conversation := \<lparr>conv_kind = GroupConversation, conv_id = ''4:group:5''\<rparr>\<rparr>"

definition second_account_event :: projection_event where
  "second_account_event = (sample_event ''b'' 5 None)
     \<lparr>pe_account := \<lparr>sar_channel = NapCat, sar_account_id = ''2:group:4''\<rparr>,
      pe_conversation := \<lparr>conv_kind = GroupConversation, conv_id = ''5''\<rparr>\<rparr>"

definition colliding_plan :: projection_plan where
  "colliding_plan =
     \<lparr>pp_token = LeaseToken ''t'',
      pp_assignments = st_assignments (plan_run xs_supply sample_policy [first_account_event, second_account_event]),
      pp_relations = st_relations (plan_run xs_supply sample_policy [first_account_event, second_account_event])\<rparr>"

lemma colliding_order:
  "plan_order [first_account_event, second_account_event] = [first_account_event, second_account_event]"
  by (simp add: plan_order_def sample_event_def reply_parents_first.simps first_account_event_def
      second_account_event_def next_index_def no_parent_in_def remove_nth_def)

text \<open>
  The conversation key joins account and conversation id with colons that it does not escape,
  so two different conversations of two different accounts can share a key, and then a message of
  one is planned into the thread of the other, with a same-conversation relation between them.
\<close>

theorem conversation_key_collides:
  "conversation_key first_account_event = conversation_key second_account_event
    \<and> pe_account first_account_event \<noteq> pe_account second_account_event
    \<and> plan xs_supply sample_policy
        \<lparr>pb_token = LeaseToken ''t'', pb_events = [first_account_event, second_account_event]\<rparr>
      = Ok colliding_plan
    \<and> ta_thread (pp_assignments colliding_plan ! 1) = ta_thread (pp_assignments colliding_plan ! 0)
    \<and> map tr_kind (pp_relations colliding_plan) = [SameConversationWindow, SameActorWithinConversationWindow]"
proof (intro conjI)
  show "plan xs_supply sample_policy
        \<lparr>pb_token = LeaseToken ''t'', pb_events = [first_account_event, second_account_event]\<rparr>
      = Ok colliding_plan"
    unfolding plan_result by (simp add: colliding_order colliding_plan_def)
  show "conversation_key first_account_event = conversation_key second_account_event"
    "pe_account first_account_event \<noteq> pe_account second_account_event"
    by (simp_all add: conversation_key_def first_account_event_def second_account_event_def sample_event_def)
  show "ta_thread (pp_assignments colliding_plan ! 1) = ta_thread (pp_assignments colliding_plan ! 0)"
    "map tr_kind (pp_relations colliding_plan) = [SameConversationWindow, SameActorWithinConversationWindow]"
    by (simp_all add: colliding_plan_def plan_event_def plan_start_def choose_thread_def
      reply_thread_def previous_event_def force_new_thread_def assigned_parent_def or_else_def
      option_filter_def new_relations_def sample_event_def xs_supply_def first_account_event_def
      second_account_event_def conversation_key_def i64_saturating_sub_def i64_min_def i64_max_def
      make_relation_def)
qed

end
