(* ===== verification/Backfill.thy ===== *)
theory Backfill
  imports Inbound_Message
begin

text \<open>
  The domain of history backfill (\<open>personal-secretary/src/domain/backfill.rs\<close>): cursors and
  anchors, budgets, evidence and the completeness drawn from it, and the state machine of an
  ingestion gap.
\<close>

section \<open>Errors and identifiers\<close>

datatype gap_transition_error =
    IllegalTransition ingestion_gap_status ingestion_gap_status
  | UnclaimedCannotComplete

datatype backfill_config_error =
    PageSizeOutOfRange
  | NotPositive string
  | TooLarge string
  | RetryMaxBelowInitial
  | EarliestOccurredAtBeforeUnixEpoch

datatype backfill_source_error =
    SourceUnavailable string
  | SourceProtocol string
  | SourcePermissionDenied

datatype backfill_error =
    InvalidIdentity string
  | StateError inbound_event_store_error
  | SourceError backfill_source_error
  | TransitionError gap_transition_error
  | BudgetExhaustedError

datatype backfill_run_id = BackfillRunId (run_str: string)
datatype backfill_lease_token = BackfillLeaseToken (lease_str: string)

definition backfill_run_id_new :: "string \<Rightarrow> (backfill_error, backfill_run_id) result" where
  "backfill_run_id_new v =
     (if is_blank v then Err (InvalidIdentity ''backfill_run_id must not be empty'')
      else Ok (BackfillRunId v))"

definition backfill_lease_token_new :: "string \<Rightarrow> (backfill_error, backfill_lease_token) result" where
  "backfill_lease_token_new v =
     (if is_blank v then Err (InvalidIdentity ''backfill lease token must not be empty'')
      else Ok (BackfillLeaseToken v))"

section \<open>Scopes, cursors and pages\<close>

record backfill_anchor =
  anchor_message_id :: string
  anchor_message_seq :: string

definition backfill_anchor_new :: "string \<Rightarrow> string \<Rightarrow> backfill_anchor" where
  "backfill_anchor_new mid sq = \<lparr>anchor_message_id = mid, anchor_message_seq = sq\<rparr>"

record backfill_cursor =
  cursor_account :: source_account_ref
  cursor_anchor :: backfill_anchor

definition backfill_cursor_new :: "source_account_ref \<Rightarrow> backfill_anchor \<Rightarrow> backfill_cursor" where
  "backfill_cursor_new acc a = \<lparr>cursor_account = acc, cursor_anchor = a\<rparr>"

record backfill_scope =
  scope_account :: source_account_ref
  scope_conversation :: conversation_ref
  boundary_cursor :: "backfill_cursor option"

definition scope_key_of :: "conversation_ref \<Rightarrow> string" where
  "scope_key_of c = conversation_kind_str (conv_kind c) @ '':'' @ conv_id c"

definition scope_key :: "backfill_scope \<Rightarrow> string" where
  "scope_key s = conversation_kind_str (conv_kind (scope_conversation s)) @ '':'' @ conv_id (scope_conversation s)"

record backfill_budget =
  page_size :: u32
  max_pages_per_scope :: u32
  max_events_per_run :: u32
  max_concurrency :: u32
  earliest_occurred_at :: "i64 option"
  lease_secs :: u64
  retry_initial_ms :: u64
  retry_max_ms :: u64

datatype backfill_continuation =
    NextPage backfill_cursor
  | ProvenHistoryStart
  | UnprovenStopPage

record backfill_history_item =
  item_envelope :: envelope
  item_anchor :: backfill_anchor

record backfill_page =
  page_items :: "backfill_history_item list"
  page_continuation :: backfill_continuation

section \<open>Statuses\<close>

datatype backfill_run_status =
  RunPending | RunBackfilling | RunVerifiedComplete | RunUnprovable | RunUnrecoverable

primrec run_status_str :: "backfill_run_status \<Rightarrow> string" where
  "run_status_str RunPending = ''pending''"
| "run_status_str RunBackfilling = ''backfilling''"
| "run_status_str RunVerifiedComplete = ''verified_complete''"
| "run_status_str RunUnprovable = ''unprovable''"
| "run_status_str RunUnrecoverable = ''unrecoverable''"

definition run_status_parse :: "string \<Rightarrow> backfill_run_status option" where
  "run_status_parse v =
     (if v = ''pending'' then Some RunPending
      else if v = ''backfilling'' then Some RunBackfilling
      else if v = ''verified_complete'' then Some RunVerifiedComplete
      else if v = ''unprovable'' then Some RunUnprovable
      else if v = ''unrecoverable'' then Some RunUnrecoverable
      else None)"

datatype backfill_scope_status =
  ScopePending | ScopeBackfilling | ScopeVerifiedComplete | ScopeUnprovable | ScopeUnrecoverable

primrec scope_status_str :: "backfill_scope_status \<Rightarrow> string" where
  "scope_status_str ScopePending = ''pending''"
| "scope_status_str ScopeBackfilling = ''backfilling''"
| "scope_status_str ScopeVerifiedComplete = ''verified_complete''"
| "scope_status_str ScopeUnprovable = ''unprovable''"
| "scope_status_str ScopeUnrecoverable = ''unrecoverable''"

definition scope_status_parse :: "string \<Rightarrow> backfill_scope_status option" where
  "scope_status_parse v =
     (if v = ''pending'' then Some ScopePending
      else if v = ''backfilling'' then Some ScopeBackfilling
      else if v = ''verified_complete'' then Some ScopeVerifiedComplete
      else if v = ''unprovable'' then Some ScopeUnprovable
      else if v = ''unrecoverable'' then Some ScopeUnrecoverable
      else None)"

section \<open>Evidence\<close>

datatype backfill_anomaly =
    EmptyPage | UnprovenStop | DuplicatePage | NoCursorAdvance | CursorAccountMismatch
  | MessageScopeMismatch | EmptyAnchor | DuplicateAnchor | InvalidContinuation | AnchorDisappeared
  | SortConflict | BoundaryStateMismatch | BoundaryNotFound | UntrustedHistoryStart
  | UntrustedPageOrder | ProtocolError string | PermissionDenied | BudgetExhausted
  | ConfiguredCutoffReached

definition anomaly_is_unrecoverable :: "backfill_anomaly \<Rightarrow> bool" where
  "anomaly_is_unrecoverable a \<longleftrightarrow> a = PermissionDenied"

record scope_evidence =
  se_scope_key :: string
  se_pages_read :: u32
  se_events_read :: u32
  se_accepted :: u32
  se_duplicates :: u32
  se_anchor_chain :: "backfill_anchor list"
  se_reached_boundary :: bool
  se_anomalies :: "backfill_anomaly list"

definition evidence_is_complete :: "scope_evidence \<Rightarrow> bool" where
  "evidence_is_complete e \<longleftrightarrow> 0 < se_pages_read e \<and> se_reached_boundary e \<and> se_anomalies e = []"

definition evidence_is_unrecoverable :: "scope_evidence \<Rightarrow> bool" where
  "evidence_is_unrecoverable e \<longleftrightarrow> list_ex anomaly_is_unrecoverable (se_anomalies e)"

record backfill_evidence =
  ev_scopes :: "scope_evidence list"
  ev_account_set_proven :: bool
  ev_budget_exhausted :: bool

definition all_scopes_complete :: "backfill_evidence \<Rightarrow> bool" where
  "all_scopes_complete e \<longleftrightarrow> ev_scopes e \<noteq> [] \<and> list_all evidence_is_complete (ev_scopes e)"

definition any_unrecoverable :: "backfill_evidence \<Rightarrow> bool" where
  "any_unrecoverable e \<longleftrightarrow> list_ex evidence_is_unrecoverable (ev_scopes e)"

definition configured_cutoff_reached :: "backfill_evidence \<Rightarrow> bool" where
  "configured_cutoff_reached e \<longleftrightarrow>
     list_ex (\<lambda>s. ConfiguredCutoffReached \<in> set (se_anomalies s)) (ev_scopes e)"

section \<open>Completeness\<close>

datatype reclaim_policy = Terminal | Backoff u64 | Suspended

datatype history_completeness = ProvenComplete | KnownScopesComplete | Unprovable | HistoryUnrecoverable

primrec completeness_str :: "history_completeness \<Rightarrow> string" where
  "completeness_str ProvenComplete = ''proven_complete''"
| "completeness_str KnownScopesComplete = ''known_scopes_complete''"
| "completeness_str Unprovable = ''unprovable''"
| "completeness_str HistoryUnrecoverable = ''unrecoverable''"

definition completeness_parse :: "string \<Rightarrow> history_completeness option" where
  "completeness_parse v =
     (if v = ''proven_complete'' then Some ProvenComplete
      else if v = ''known_scopes_complete'' then Some KnownScopesComplete
      else if v = ''unprovable'' then Some Unprovable
      else if v = ''unrecoverable'' then Some HistoryUnrecoverable
      else None)"

definition from_evidence :: "backfill_evidence \<Rightarrow> history_completeness" where
  "from_evidence e =
     (if any_unrecoverable e then HistoryUnrecoverable
      else if ev_budget_exhausted e \<or> \<not> all_scopes_complete e then Unprovable
      else if ev_account_set_proven e then ProvenComplete
      else KnownScopesComplete)"

primrec gap_target_status :: "history_completeness \<Rightarrow> ingestion_gap_status" where
  "gap_target_status ProvenComplete = VerifiedComplete"
| "gap_target_status KnownScopesComplete = Uncertain"
| "gap_target_status Unprovable = Uncertain"
| "gap_target_status HistoryUnrecoverable = Unrecoverable"

primrec gap_reason :: "history_completeness \<Rightarrow> ingestion_gap_reason option" where
  "gap_reason KnownScopesComplete = Some HistoryUnprovable"
| "gap_reason Unprovable = Some HistoryUnprovable"
| "gap_reason ProvenComplete = None"
| "gap_reason HistoryUnrecoverable = None"

primrec completeness_reclaim_policy :: "history_completeness \<Rightarrow> reclaim_policy" where
  "completeness_reclaim_policy KnownScopesComplete = Suspended"
| "completeness_reclaim_policy Unprovable = Backoff 30"
| "completeness_reclaim_policy ProvenComplete = Terminal"
| "completeness_reclaim_policy HistoryUnrecoverable = Terminal"

section \<open>The gap state machine\<close>

definition legal_transition :: "ingestion_gap_status \<Rightarrow> ingestion_gap_status \<Rightarrow> bool" where
  "legal_transition from to \<longleftrightarrow>
     (from, to) \<in> {(Uncertain, Backfilling), (Backfilling, VerifiedComplete), (Backfilling, Uncertain),
        (Backfilling, Unrecoverable), (VerifiedComplete, VerifiedComplete), (Unrecoverable, Unrecoverable)}"

definition validate_gap_transition ::
  "ingestion_gap_status \<Rightarrow> ingestion_gap_status \<Rightarrow> (gap_transition_error, unit) result" where
  "validate_gap_transition from to =
     (if legal_transition from to then Ok ()
      else if from = Uncertain \<and> to \<in> {VerifiedComplete, Unrecoverable}
      then Err UnclaimedCannotComplete
      else Err (IllegalTransition from to))"

section \<open>Budgets\<close>

definition check_positive :: "'w::len word \<Rightarrow> string \<Rightarrow> (backfill_config_error, unit) result" where
  "check_positive v field = (if v \<le> 0 then Err (NotPositive field) else Ok ())"

definition budget_validate :: "backfill_budget \<Rightarrow> (backfill_config_error, unit) result" where
  "budget_validate b =
     bind_r (ensure (\<not> (page_size b = 0 \<or> 100 < page_size b)) PageSizeOutOfRange) (\<lambda>_.
     bind_r (ensure (\<not> is_some_and (earliest_occurred_at b) (\<lambda>v. v < 0)) EarliestOccurredAtBeforeUnixEpoch) (\<lambda>_.
     bind_r (check_positive (max_pages_per_scope b) ''max_pages_per_scope'') (\<lambda>_.
     bind_r (check_positive (max_events_per_run b) ''max_events_per_run'') (\<lambda>_.
     bind_r (check_positive (max_concurrency b) ''max_concurrency'') (\<lambda>_.
     bind_r (check_positive (lease_secs b) ''lease_secs'') (\<lambda>_.
     bind_r (check_positive (retry_initial_ms b) ''retry_initial_ms'') (\<lambda>_.
     bind_r (check_positive (retry_max_ms b) ''retry_max_ms'') (\<lambda>_.
     bind_r (ensure (\<not> 10000 < max_pages_per_scope b) (TooLarge ''max_pages_per_scope'')) (\<lambda>_.
     bind_r (ensure (\<not> 1000000 < max_events_per_run b) (TooLarge ''max_events_per_run'')) (\<lambda>_.
     bind_r (ensure (\<not> 64 < max_concurrency b) (TooLarge ''max_concurrency'')) (\<lambda>_.
     bind_r (ensure (\<not> 3600 < lease_secs b) (TooLarge ''lease_secs'')) (\<lambda>_.
     bind_r (ensure (\<not> 300000 < retry_max_ms b) (TooLarge ''retry_max_ms'')) (\<lambda>_.
       ensure (\<not> retry_max_ms b < retry_initial_ms b) RetryMaxBelowInitial)))))))))))))"

section \<open>Runs\<close>

record claimed_gap =
  cg_run_id :: backfill_run_id
  cg_lease_token :: backfill_lease_token
  cg_gap_id :: ingestion_gap_id
  cg_account :: source_account_ref
  cg_epoch_id :: connection_epoch_id
  cg_is_resume :: bool

record known_scope =
  ks_conversation :: conversation_ref
  ks_boundary_cursor :: "backfill_cursor option"

record scope_progress =
  sp_conversation :: conversation_ref
  sp_status :: backfill_scope_status
  sp_last_cursor :: "backfill_cursor option"
  sp_pages_read :: u32
  sp_events_read :: u32
  sp_accepted :: u32
  sp_duplicates :: u32
  sp_reached_boundary :: bool
  sp_anomalies :: "backfill_anomaly list"

record backfill_outcome =
  bo_run_id :: backfill_run_id
  bo_gap_id :: ingestion_gap_id
  bo_completeness :: history_completeness
  bo_evidence :: backfill_evidence
  bo_gap_target_status :: ingestion_gap_status
  bo_gap_reason :: "ingestion_gap_reason option"
  bo_failure_class :: "string option"

definition outcome_reclaim_policy :: "backfill_outcome \<Rightarrow> reclaim_policy" where
  "outcome_reclaim_policy o1 =
     (if configured_cutoff_reached (bo_evidence o1) then Suspended
      else completeness_reclaim_policy (bo_completeness o1))"

end
