(* ===== verification/Backfill_Service.thy ===== *)
theory Backfill_Service
  imports Backfill Ordered_Map
begin

text \<open>
  The backfill use case (\<open>personal-secretary/src/application/backfill_service.rs\<close>): one gap
  is claimed, its scopes are read page by page within the budget, every message goes through the
  idempotent store entry, and the evidence decides the new status of the gap. The store and the
  history source are the record \<open>backfill_env\<close>, whose operations act on a state of their own;
  the mutable locals \<open>progress\<close> and \<open>total_events\<close> of the scope loop are the machine
  it runs on, so that they keep what they had when an error leaves the loop.
\<close>

section \<open>Ports\<close>

record 's backfill_env =
  be_claim :: "u64 \<Rightarrow> ('s, inbound_event_store_error, claimed_gap option) action"
  be_reclaim :: "u64 \<Rightarrow> u32 \<Rightarrow> ('s, inbound_event_store_error, claimed_gap list) action"
  be_known_scopes :: "ingestion_gap_id \<Rightarrow> ('s, inbound_event_store_error, known_scope list) action"
  be_record :: "backfill_run_id \<Rightarrow> backfill_lease_token \<Rightarrow> scope_progress \<Rightarrow>
                  ('s, inbound_event_store_error, unit) action"
  be_load :: "backfill_run_id \<Rightarrow> ('s, inbound_event_store_error, scope_progress list option) action"
  be_finalize :: "backfill_outcome \<Rightarrow> backfill_lease_token \<Rightarrow> ('s, inbound_event_store_error, unit) action"
  be_insert :: "envelope \<Rightarrow> ('s, inbound_event_store_error, ingest_message_outcome) action"
  be_fetch :: "backfill_scope \<Rightarrow> backfill_cursor option \<Rightarrow> u32 \<Rightarrow>
                 ('s, backfill_source_error, backfill_page) action"
  be_history_start_proven :: bool
  be_page_order_proven :: bool
  be_account_set_proven :: bool

record backfill_config =
  bc_budget :: backfill_budget
  bc_run_id :: backfill_run_id
  bc_token :: backfill_lease_token

record 's scope_machine =
  sm_progress :: scope_progress
  sm_total :: u32
  sm_env :: 's

definition on_env ::
  "('s, 'e, 'a) action \<Rightarrow> ('e \<Rightarrow> 'f) \<Rightarrow> ('s scope_machine, 'f, 'a) action" where
  "on_env act f m = (let (r, s) = act (sm_env m) in (map_err f r, m\<lparr>sm_env := s\<rparr>))"

definition push_anomaly :: "backfill_anomaly \<Rightarrow> scope_progress \<Rightarrow> scope_progress" where
  "push_anomaly a p = p\<lparr>sp_anomalies := sp_anomalies p @ [a]\<rparr>"

definition push_unique :: "backfill_anomaly \<Rightarrow> backfill_anomaly list \<Rightarrow> backfill_anomaly list" where
  "push_unique a as = (if a \<in> set as then as else as @ [a])"

definition push_unique_anomaly :: "backfill_anomaly \<Rightarrow> scope_progress \<Rightarrow> scope_progress" where
  "push_unique_anomaly a p = p\<lparr>sp_anomalies := push_unique a (sp_anomalies p)\<rparr>"

definition on_progress :: "(scope_progress \<Rightarrow> scope_progress) \<Rightarrow> 's scope_machine \<Rightarrow> 's scope_machine" where
  "on_progress f m = m\<lparr>sm_progress := f (sm_progress m)\<rparr>"

section \<open>Error messages\<close>

primrec store_error_display :: "inbound_event_store_error \<Rightarrow> string" where
  "store_error_display (InvalidData s) = ''invalid inbound event data: '' @ s"
| "store_error_display Unavailable = ''inbound event store is unavailable''"
| "store_error_display (Database s) = ''inbound event database operation failed: '' @ s"
| "store_error_display LeaseLost = ''backfill lease ownership was lost''"

primrec source_error_display :: "backfill_source_error \<Rightarrow> string" where
  "source_error_display (SourceUnavailable s) = ''history source is unavailable: '' @ s"
| "source_error_display (SourceProtocol s) = ''history source protocol error: '' @ s"
| "source_error_display SourcePermissionDenied = ''history source permission denied for scope''"

section \<open>Validation of a page\<close>

definition anchor_is_stable :: "backfill_anchor \<Rightarrow> bool" where
  "anchor_is_stable a \<longleftrightarrow> \<not> is_blank (anchor_message_id a) \<and> \<not> is_blank (anchor_message_seq a)"

definition item_anomalies ::
  "backfill_scope \<Rightarrow> backfill_anchor set \<Rightarrow> backfill_history_item \<Rightarrow> backfill_anomaly list \<Rightarrow>
     backfill_anomaly list" where
  "item_anomalies scope seen i as =
     (let env = item_envelope i; a = item_anchor i; mid = smr_message_id (source env);
          as1 = (if \<not> anchor_is_stable a \<or> is_blank mid \<or> mid \<noteq> anchor_message_id a
                 then push_unique EmptyAnchor as else as);
          as2 = (if account_ref (source env) \<noteq> scope_account scope
                    \<or> conversation env \<noteq> scope_conversation scope
                 then push_unique MessageScopeMismatch as1 else as1) in
      if a \<in> seen then push_unique DuplicateAnchor as2 else as2)"

fun items_anomalies ::
  "backfill_scope \<Rightarrow> backfill_anchor set \<Rightarrow> backfill_history_item list \<Rightarrow> backfill_anomaly list \<Rightarrow>
     backfill_anomaly list" where
  "items_anomalies scope seen [] as = as"
| "items_anomalies scope seen (i # is) as =
     items_anomalies scope (insert (item_anchor i) seen) is (item_anomalies scope seen i as)"

fun item_position :: "backfill_anchor \<Rightarrow> backfill_history_item list \<Rightarrow> nat option" where
  "item_position a [] = None"
| "item_position a (i # is) = (if item_anchor i = a then Some 0 else map_option Suc (item_position a is))"

definition current_anomalies ::
  "backfill_cursor \<Rightarrow> backfill_page \<Rightarrow> backfill_anchor set \<Rightarrow> bool \<Rightarrow> backfill_anomaly list \<Rightarrow>
     backfill_anomaly list" where
  "current_anomalies current page chain proven as =
     (let as1 = (case item_position (cursor_anchor current) (page_items page) of
                   None \<Rightarrow> push_unique AnchorDisappeared as
                 | Some n \<Rightarrow> if n = 0 then as else if proven then push_unique SortConflict as else as) in
      if proven \<and> list_ex (\<lambda>i. item_anchor i \<in> chain \<and> item_anchor i \<noteq> cursor_anchor current) (page_items page)
      then push_unique SortConflict as1 else as1)"

definition next_anomalies ::
  "backfill_scope \<Rightarrow> backfill_cursor option \<Rightarrow> backfill_page \<Rightarrow> bool \<Rightarrow> backfill_cursor \<Rightarrow>
     backfill_anomaly list \<Rightarrow> backfill_anomaly list" where
  "next_anomalies scope current page proven nxt as =
     (let items = page_items page;
          as1 = (if cursor_account nxt \<noteq> scope_account scope then push_unique CursorAccountMismatch as else as);
          as2 = (if \<not> anchor_is_stable (cursor_anchor nxt) then push_unique EmptyAnchor as1 else as1);
          as3 = (if cursor_anchor nxt \<notin> item_anchor ` set items
                    \<or> (proven \<and> (items = [] \<or> item_anchor (last items) \<noteq> cursor_anchor nxt))
                 then push_unique InvalidContinuation as2 else as2) in
      if current = Some nxt then push_unique NoCursorAdvance as3 else as3)"

definition validate_page ::
  "backfill_scope \<Rightarrow> backfill_cursor option \<Rightarrow> backfill_page \<Rightarrow> backfill_anchor set \<Rightarrow> bool \<Rightarrow>
     backfill_anomaly list" where
  "validate_page scope current page chain proven =
     (let items = page_items page;
          as0 = (if items = [] then [EmptyPage] else []);
          as1 = items_anomalies scope {} items as0;
          as2 = (if items \<noteq> [] \<and> list_all (\<lambda>i. item_anchor i \<in> chain) items
                 then push_unique DuplicatePage as1 else as1);
          as3 = (case current of None \<Rightarrow> as2 | Some c \<Rightarrow> current_anomalies c page chain proven as2) in
      (case page_continuation page of
         NextPage nxt \<Rightarrow> next_anomalies scope current page proven nxt as3
       | _ \<Rightarrow> as3))"

section \<open>The items of a page\<close>

record item_flags =
  fl_stop_at_boundary :: bool
  fl_cutoff_reached :: bool
  fl_budget_exhausted :: bool

definition no_flags :: item_flags where
  "no_flags = \<lparr>fl_stop_at_boundary = False, fl_cutoff_reached = False, fl_budget_exhausted = False\<rparr>"

definition is_boundary :: "bool \<Rightarrow> backfill_scope \<Rightarrow> backfill_history_item \<Rightarrow> bool" where
  "is_boundary proven scope i \<longleftrightarrow>
     proven \<and> is_some_and (boundary_cursor scope)
       (\<lambda>b. anchor_message_id (item_anchor i) = anchor_message_id (cursor_anchor b))"

definition count_event :: "'s scope_machine \<Rightarrow> 's scope_machine" where
  "count_event m =
     on_progress (\<lambda>p. p\<lparr>sp_events_read := sp_events_read p + 1\<rparr>) (m\<lparr>sm_total := sm_total m + 1\<rparr>)"

text \<open>What the outcome of an insertion changes, and whether the boundary stops the page.\<close>

definition note_outcome ::
  "bool \<Rightarrow> ingest_message_outcome \<Rightarrow> scope_progress \<Rightarrow> scope_progress" where
  "note_outcome boundary out p =
     (case out of
        Accepted _ _ \<Rightarrow>
          (let q = p\<lparr>sp_accepted := sp_accepted p + 1\<rparr> in
           if boundary then push_anomaly BoundaryStateMismatch q else q)
      | Duplicate _ \<Rightarrow>
          (let q = p\<lparr>sp_duplicates := sp_duplicates p + 1\<rparr> in
           if boundary then q\<lparr>sp_reached_boundary := True\<rparr> else q))"

definition insert_item ::
  "'s backfill_env \<Rightarrow> backfill_history_item \<Rightarrow> ('s scope_machine, backfill_error, ingest_message_outcome) action" where
  "insert_item env i =
     on_env (be_insert env (item_envelope i)) (\<lambda>e. SourceError (SourceUnavailable (store_error_display e)))"

fun process_items ::
  "'s backfill_env \<Rightarrow> backfill_budget \<Rightarrow> backfill_scope \<Rightarrow> backfill_history_item list \<Rightarrow> item_flags \<Rightarrow>
     backfill_anchor set \<Rightarrow> ('s scope_machine, backfill_error, item_flags \<times> backfill_anchor set) action" where
  "process_items env budget scope [] flags chain m = give (flags, chain) m"
| "process_items env budget scope (i # is) flags chain m =
     (if max_events_per_run budget \<le> sm_total m
      then give (flags\<lparr>fl_budget_exhausted := True\<rparr>, chain) (on_progress (push_anomaly BudgetExhausted) m)
      else if is_some_and (earliest_occurred_at budget) (\<lambda>cutoff. occurred_at (item_envelope i) < cutoff)
      then process_items env budget scope is (flags\<lparr>fl_cutoff_reached := True\<rparr>) chain (count_event m)
      else
        seq (insert_item env i) (\<lambda>out m1.
          let boundary = is_boundary (be_page_order_proven env) scope i;
              flags1 = (if boundary then flags\<lparr>fl_stop_at_boundary := True\<rparr> else flags);
              m2 = on_progress (note_outcome boundary out) m1;
              chain1 = insert (item_anchor i) chain in
          if fl_stop_at_boundary flags1 \<or> fl_budget_exhausted flags1 then give (flags1, chain1) m2
          else process_items env budget scope is flags1 chain1 m2) (count_event m))"

section \<open>A turn of the page loop\<close>

datatype page_turn = Continue "backfill_cursor option" "backfill_anchor set" | BreakLoop bool

definition break_with ::
  "bool \<Rightarrow> (scope_progress \<Rightarrow> scope_progress) \<Rightarrow> ('s scope_machine, backfill_error, page_turn) action" where
  "break_with exhausted f m = give (BreakLoop exhausted) (on_progress f m)"

definition record_progress ::
  "'s backfill_env \<Rightarrow> backfill_config \<Rightarrow> ('s scope_machine, backfill_error, unit) action" where
  "record_progress env cfg m = on_env (be_record env (bc_run_id cfg) (bc_token cfg) (sm_progress m)) StateError m"

definition after_items ::
  "'s backfill_env \<Rightarrow> backfill_config \<Rightarrow> backfill_scope \<Rightarrow> backfill_continuation \<Rightarrow> item_flags \<Rightarrow>
     backfill_anchor set \<Rightarrow> ('s scope_machine, backfill_error, page_turn) action" where
  "after_items env cfg scope cont flags chain =
     (if fl_cutoff_reached flags
      then break_with (fl_budget_exhausted flags) (push_unique_anomaly ConfiguredCutoffReached)
      else if fl_stop_at_boundary flags \<or> fl_budget_exhausted flags
      then break_with (fl_budget_exhausted flags) id
      else (case cont of
              NextPage nxt \<Rightarrow>
                (\<lambda>m. seq (record_progress env cfg) (\<lambda>_. give (Continue (Some nxt) chain))
                       (on_progress (\<lambda>p. p\<lparr>sp_last_cursor := Some nxt, sp_status := ScopeBackfilling\<rparr>) m))
            | ProvenHistoryStart \<Rightarrow>
                break_with False (\<lambda>p.
                  let q = p\<lparr>sp_last_cursor := None\<rparr> in
                  if boundary_cursor scope = None
                  then (if be_page_order_proven env then q\<lparr>sp_reached_boundary := True\<rparr> else q)
                  else push_anomaly BoundaryNotFound q)
            | UnprovenStopPage \<Rightarrow>
                break_with False (\<lambda>p. push_anomaly UnprovenStop (p\<lparr>sp_last_cursor := None\<rparr>))))"

text \<open>The anomalies of a page that is refused before any of its messages is stored.\<close>

definition refused_page ::
  "'s backfill_env \<Rightarrow> backfill_scope \<Rightarrow> backfill_page \<Rightarrow> backfill_anomaly list \<Rightarrow> scope_progress \<Rightarrow>
     scope_progress" where
  "refused_page env scope page as p =
     (let p1 = p\<lparr>sp_anomalies := sp_anomalies p @ as\<rparr>;
          p2 = (if page_continuation page = UnprovenStopPage then push_anomaly UnprovenStop p1 else p1);
          p3 = (if page_continuation page = ProvenHistoryStart \<and> \<not> be_history_start_proven env
                then push_anomaly UntrustedHistoryStart p2 else p2) in
      if page_continuation page = ProvenHistoryStart \<and> boundary_cursor scope \<noteq> None
      then push_anomaly BoundaryNotFound p3 else p3)"

definition read_page ::
  "'s backfill_env \<Rightarrow> backfill_config \<Rightarrow> backfill_scope \<Rightarrow> backfill_cursor option \<Rightarrow> backfill_anchor set \<Rightarrow>
     backfill_page \<Rightarrow> ('s scope_machine, backfill_error, page_turn) action" where
  "read_page env cfg scope cursor chain page m0 =
     (let m = on_progress (\<lambda>p. p\<lparr>sp_pages_read := sp_pages_read p + 1\<rparr>) m0;
          proven = be_page_order_proven env;
          as = validate_page scope cursor page chain proven in
      if as \<noteq> [] then break_with False (refused_page env scope page as) m
      else
        let m1 = (if proven then m else on_progress (push_unique_anomaly UntrustedPageOrder) m) in
        if page_continuation page = ProvenHistoryStart \<and> \<not> be_history_start_proven env
        then break_with False (push_anomaly UntrustedHistoryStart) m1
        else
          seq (process_items env (bc_budget cfg) scope (page_items page) no_flags chain)
            (\<lambda>(flags, chain'). after_items env cfg scope (page_continuation page) flags chain') m1)"

definition cursor_anomaly :: "backfill_scope \<Rightarrow> backfill_cursor option \<Rightarrow> backfill_anomaly option" where
  "cursor_anomaly scope cursor =
     (case cursor of
        None \<Rightarrow> None
      | Some c \<Rightarrow>
          if cursor_account c \<noteq> scope_account scope then Some CursorAccountMismatch
          else if \<not> anchor_is_stable (cursor_anchor c) then Some EmptyAnchor
          else None)"

definition scope_turn ::
  "'s backfill_env \<Rightarrow> backfill_config \<Rightarrow> backfill_scope \<Rightarrow> backfill_cursor option \<Rightarrow> backfill_anchor set \<Rightarrow>
     ('s scope_machine, backfill_error, page_turn) action" where
  "scope_turn env cfg scope cursor chain m =
     (if max_pages_per_scope (bc_budget cfg) \<le> sp_pages_read (sm_progress m)
      then break_with True (push_anomaly BudgetExhausted) m
      else if max_events_per_run (bc_budget cfg) \<le> sm_total m
      then break_with True (push_anomaly BudgetExhausted) m
      else (case cursor_anomaly scope cursor of
              Some a \<Rightarrow> break_with False (push_anomaly a) m
            | None \<Rightarrow>
                seq (record_progress env cfg) (\<lambda>_.
                seq (on_env (be_fetch env scope cursor (page_size (bc_budget cfg))) SourceError) (\<lambda>page.
                  read_page env cfg scope cursor chain page)) m))"

section \<open>The page loop\<close>

text \<open>Only reading a page counts it, which bounds the loop.\<close>

abbreviation pages_of :: "'s scope_machine \<Rightarrow> u32" where
  "pages_of m \<equiv> sp_pages_read (sm_progress m)"

lemma on_progress_simps [simp]:
  "sm_progress (on_progress f m) = f (sm_progress m)"
  "sm_total (on_progress f m) = sm_total m"
  "sm_env (on_progress f m) = sm_env m"
  by (simp_all add: on_progress_def)

lemma count_event_simps [simp]:
  "sm_progress (count_event m) = (sm_progress m)\<lparr>sp_events_read := sp_events_read (sm_progress m) + 1\<rparr>"
  "sm_total (count_event m) = sm_total m + 1"
  "sm_env (count_event m) = sm_env m"
  by (simp_all add: count_event_def)

lemma progress_pages [simp]:
  "sp_pages_read (push_anomaly a p) = sp_pages_read p"
  "sp_pages_read (push_unique_anomaly a p) = sp_pages_read p"
  "sp_pages_read (note_outcome b out p) = sp_pages_read p"
  by (auto simp: push_anomaly_def push_unique_anomaly_def note_outcome_def Let_def
      split: ingest_message_outcome.splits)

lemma on_env_frame:
  assumes "on_env act f m = (r, m')"
  shows "sm_progress m' = sm_progress m" and "sm_total m' = sm_total m"
  using assms by (auto simp: on_env_def split: prod.splits)

lemma process_items_pages:
  "process_items env budget scope is flags chain m = (r, m') \<Longrightarrow> pages_of m' = pages_of m"
proof (induction "is" arbitrary: flags chain m)
  case Nil
  then show ?case by (simp add: give_def)
next
  case (Cons i "is")
  note IH = Cons.IH
  obtain q m1 where ins: "insert_item env i (count_event m) = (q, m1)" by force
  then have m1: "pages_of m1 = pages_of m"
    by (auto simp: insert_item_def dest!: on_env_frame(1))
  show ?case
    using Cons.prems ins m1
    by (auto simp: Let_def give_def seq_def split: if_splits result.splits dest!: IH)
qed

lemma break_with_eq: "break_with b f m = (r, m') \<longleftrightarrow> r = Ok (BreakLoop b) \<and> m' = on_progress f m"
  by (auto simp: break_with_def give_def)

lemma after_items_pages:
  "after_items env cfg scope cont flags chain m = (Ok (Continue c ch), m') \<Longrightarrow> pages_of m' = pages_of m"
  by (auto simp: after_items_def break_with_eq seq_Ok give_def record_progress_def
      split: if_splits backfill_continuation.splits dest!: on_env_frame(1))

lemma read_page_Continue:
  assumes "read_page env cfg scope cursor chain page m = (Ok (Continue c ch), m')"
  shows "pages_of m' = pages_of m + 1"
  using assms
  by (auto simp: read_page_def Let_def break_with_eq seq_Ok split: if_splits
      dest!: after_items_pages process_items_pages)

lemma scope_turn_Continue:
  assumes "scope_turn env cfg scope cursor chain m = (Ok (Continue c ch), m')"
  shows "pages_of m < max_pages_per_scope (bc_budget cfg) \<and> pages_of m' = pages_of m + 1"
  using assms
  by (auto simp: scope_turn_def break_with_eq seq_Ok record_progress_def not_le
      split: if_splits option.splits dest!: read_page_Continue on_env_frame(1))

lemma unat_Suc_less: "a < b \<Longrightarrow> unat (a + 1) = Suc (unat a)" for a b :: "'w::len word"
proof -
  assume "a < b"
  then have "unat a < unat b" by (simp add: word_less_nat_alt)
  moreover have "unat b < 2 ^ LENGTH('w)" by (rule unat_bound)
  ultimately have "Suc (unat a) < 2 ^ LENGTH('w)" by linarith
  then show "unat (a + 1) = Suc (unat a)" by (simp add: unat_word_ariths)
qed

lemma scope_turn_decreases:
  assumes "scope_turn env cfg scope cursor chain m = (Ok (Continue c ch), m')"
  shows "unat (max_pages_per_scope (bc_budget cfg)) - unat (pages_of m')
    < unat (max_pages_per_scope (bc_budget cfg)) - unat (pages_of m)"
  using scope_turn_Continue [OF assms]
    unat_Suc_less [of "pages_of m" "max_pages_per_scope (bc_budget cfg)"]
  by (auto simp: word_less_nat_alt)

function (sequential) scope_loop ::
  "'s backfill_env \<Rightarrow> backfill_config \<Rightarrow> backfill_scope \<Rightarrow> backfill_cursor option \<Rightarrow> backfill_anchor set \<Rightarrow>
     ('s scope_machine, backfill_error, bool) action" where
  "scope_loop env cfg scope cursor chain m =
     (case scope_turn env cfg scope cursor chain m of
        (Ok (Continue c ch), m') \<Rightarrow> scope_loop env cfg scope c ch m'
      | (Ok (BreakLoop exhausted), m') \<Rightarrow> (Ok exhausted, m')
      | (Err e, m') \<Rightarrow> (Err e, m')
      | (Panic, m') \<Rightarrow> (Panic, m'))"
  by pat_completeness auto
termination
  by (relation "measure (\<lambda>(env, cfg, scope, cursor, chain, m).
        unat (max_pages_per_scope (bc_budget cfg)) - unat (pages_of m))")
    (auto dest: scope_turn_decreases [OF sym])

declare scope_loop.simps [simp del]

section \<open>A scope\<close>

definition process_scope ::
  "'s backfill_env \<Rightarrow> backfill_config \<Rightarrow> backfill_scope \<Rightarrow> ('s scope_machine, backfill_error, bool) action" where
  "process_scope env cfg scope m0 =
     (let m = on_progress (\<lambda>p. p\<lparr>sp_status := ScopeBackfilling\<rparr>) m0;
          loop = scope_loop env cfg scope (sp_last_cursor (sm_progress m)) {} m in
      (case boundary_cursor scope of
         None \<Rightarrow> loop
       | Some b \<Rightarrow>
           if cursor_account b \<noteq> scope_account scope
           then (Ok False, on_progress (push_anomaly CursorAccountMismatch) m)
           else if is_blank (anchor_message_id (cursor_anchor b))
           then (Ok False, on_progress (push_anomaly EmptyAnchor) m)
           else loop))"

definition fresh_progress :: "backfill_scope \<Rightarrow> scope_progress" where
  "fresh_progress scope =
     \<lparr>sp_conversation = scope_conversation scope, sp_status = ScopePending, sp_last_cursor = None,
      sp_pages_read = 0, sp_events_read = 0, sp_accepted = 0, sp_duplicates = 0,
      sp_reached_boundary = False, sp_anomalies = []\<rparr>"

definition progress_to_evidence :: "scope_progress \<Rightarrow> scope_evidence" where
  "progress_to_evidence p =
     \<lparr>se_scope_key = scope_key_of (sp_conversation p), se_pages_read = sp_pages_read p,
      se_events_read = sp_events_read p, se_accepted = sp_accepted p, se_duplicates = sp_duplicates p,
      se_anchor_chain = [], se_reached_boundary = sp_reached_boundary p, se_anomalies = sp_anomalies p\<rparr>"

definition scope_terminal_status :: "scope_progress \<Rightarrow> backfill_scope_status" where
  "scope_terminal_status p =
     (if evidence_is_complete (progress_to_evidence p) then ScopeVerifiedComplete
      else if evidence_is_unrecoverable (progress_to_evidence p) then ScopeUnrecoverable
      else ScopeUnprovable)"

text \<open>
  One scope of the run: an error of the source becomes an anomaly of the scope, any other error
  ends the run; then the final progress of the scope is stored.
\<close>

definition run_scope ::
  "'s backfill_env \<Rightarrow> backfill_config \<Rightarrow> backfill_scope \<Rightarrow> scope_progress \<Rightarrow> u32 \<Rightarrow>
     ('s, backfill_error, scope_progress \<times> u32 \<times> bool) action" where
  "run_scope env cfg scope p tot s =
     (let (r, m) = process_scope env cfg scope \<lparr>sm_progress = p, sm_total = tot, sm_env = s\<rparr>;
          q = sm_progress m in
      (case r of
         Ok exhausted \<Rightarrow> (Ok (q, sm_total m, exhausted), sm_env m)
       | Err (SourceError SourcePermissionDenied) \<Rightarrow>
           (Ok (push_anomaly PermissionDenied q, sm_total m, False), sm_env m)
       | Err (SourceError other) \<Rightarrow>
           (Ok (push_anomaly (ProtocolError (source_error_display other)) q, sm_total m, False), sm_env m)
       | Err e \<Rightarrow> (Err e, sm_env m)
       | Panic \<Rightarrow> (Panic, sm_env m)))"

definition on_store :: "('s, 'e, 'a) action \<Rightarrow> ('e \<Rightarrow> 'f) \<Rightarrow> ('s, 'f, 'a) action" where
  "on_store act f s = (let (r, t) = act s in (map_err f r, t))"

fun process_scopes ::
  "'s backfill_env \<Rightarrow> backfill_config \<Rightarrow> backfill_scope list \<Rightarrow> (string, scope_progress) btree \<Rightarrow> u32 \<Rightarrow>
     bool \<Rightarrow> scope_evidence list \<Rightarrow> ('s, backfill_error, bool \<times> scope_evidence list) action" where
  "process_scopes env cfg [] known tot exhausted evidence = give (exhausted, evidence)"
| "process_scopes env cfg (scope # scopes) known tot exhausted evidence =
     (let key = scope_key scope;
          p = unwrap_or (bt_get known key) (fresh_progress scope);
          rest = bt_remove key known in
      if sp_status p = ScopeVerifiedComplete
      then process_scopes env cfg scopes rest tot exhausted (evidence @ [progress_to_evidence p])
      else
        seq (run_scope env cfg scope p tot) (\<lambda>(q, tot', ex).
          let q' = q\<lparr>sp_status := scope_terminal_status q\<rparr> in
          seq (on_store (be_record env (bc_run_id cfg) (bc_token cfg) q') StateError) (\<lambda>_.
            process_scopes env cfg scopes rest tot' (exhausted \<or> ex)
              (evidence @ [progress_to_evidence q']))))"

section \<open>A gap\<close>

definition finalize ::
  "'s backfill_env \<Rightarrow> backfill_config \<Rightarrow> ingestion_gap_id \<Rightarrow> history_completeness \<Rightarrow> backfill_evidence \<Rightarrow>
     ('s, backfill_error, backfill_outcome) action" where
  "finalize env cfg gap c e =
     seq (lift_r (map_err TransitionError (validate_gap_transition Backfilling (gap_target_status c)))) (\<lambda>_.
       let out = \<lparr>bo_run_id = bc_run_id cfg, bo_gap_id = gap, bo_completeness = c, bo_evidence = e,
                  bo_gap_target_status = gap_target_status c, bo_gap_reason = gap_reason c,
                  bo_failure_class = None\<rparr> in
       seq (on_store (be_finalize env out (bc_token cfg)) StateError) (\<lambda>_. give out))"

definition initial_total :: "(string, scope_progress) btree \<Rightarrow> u32" where
  "initial_total known = foldl (\<lambda>tot p. saturating_add tot (sp_events_read p)) 0 (bt_values known)"

definition progress_map :: "scope_progress list \<Rightarrow> (string, scope_progress) btree" where
  "progress_map ps = fold (\<lambda>p. bt_insert (scope_key_of (sp_conversation p)) p) ps []"

definition gap_scopes :: "claimed_gap \<Rightarrow> known_scope list \<Rightarrow> backfill_scope list" where
  "gap_scopes g known =
     map (\<lambda>k. \<lparr>scope_account = cg_account g, scope_conversation = ks_conversation k,
               boundary_cursor = ks_boundary_cursor k\<rparr>) known"

text \<open>The scopes one after another, then the verdict on their evidence.\<close>

definition run_gap ::
  "'s backfill_env \<Rightarrow> backfill_config \<Rightarrow> ingestion_gap_id \<Rightarrow> backfill_scope list \<Rightarrow>
     (string, scope_progress) btree \<Rightarrow> ('s, backfill_error, backfill_outcome) action" where
  "run_gap env cfg gap scopes progress =
     (let start = \<lparr>ev_scopes = [], ev_account_set_proven = be_account_set_proven env,
                   ev_budget_exhausted = False\<rparr> in
      if scopes = [] then finalize env cfg gap (from_evidence start) start
      else
        seq (process_scopes env cfg scopes progress (initial_total progress) False []) (\<lambda>(exhausted, evs).
          let e = start\<lparr>ev_scopes := evs, ev_budget_exhausted := exhausted\<rparr> in
          finalize env cfg gap (from_evidence e) e))"

definition process_claimed ::
  "'s backfill_env \<Rightarrow> backfill_budget \<Rightarrow> claimed_gap \<Rightarrow> ('s, backfill_error, backfill_outcome) action" where
  "process_claimed env budget g =
     (let cfg = \<lparr>bc_budget = budget, bc_run_id = cg_run_id g, bc_token = cg_lease_token g\<rparr> in
      seq (on_store (be_known_scopes env (cg_gap_id g)) StateError) (\<lambda>known.
      seq (on_store (be_load env (cg_run_id g)) StateError) (\<lambda>persisted.
        run_gap env cfg (cg_gap_id g) (gap_scopes g known) (progress_map (unwrap_or persisted [])))))"

definition run_one ::
  "'s backfill_env \<Rightarrow> backfill_budget \<Rightarrow> ('s, backfill_error, backfill_outcome option) action" where
  "run_one env budget =
     seq (on_store (be_claim env (lease_secs budget)) StateError) (\<lambda>claimed.
       (case claimed of
          None \<Rightarrow> give None
        | Some g \<Rightarrow> seq (process_claimed env budget g) (\<lambda>out. give (Some out))))"

definition reclaim_expired ::
  "'s backfill_env \<Rightarrow> backfill_budget \<Rightarrow> u32 \<Rightarrow> ('s, backfill_error, claimed_gap list) action" where
  "reclaim_expired env budget limit =
     (if limit = 0 then give [] else on_store (be_reclaim env (lease_secs budget) limit) StateError)"

definition resume_claimed ::
  "'s backfill_env \<Rightarrow> backfill_budget \<Rightarrow> claimed_gap \<Rightarrow> ('s, backfill_error, backfill_outcome) action" where
  "resume_claimed env budget g = process_claimed env budget g"

end
