(* ===== verification/Backfill_Correct.thy ===== *)
theory Backfill_Correct
  imports Backfill_Service
begin

text \<open>
  What one scope of a backfill run may do, as a step relation over the machine of the page
  loop, and the proof that the loop refines it; the invariants of a run are then inductions over
  the steps. At the end, what a scope does to the stores: between a read and the insertions of its
  messages nothing else happens, which the steps alone do not say.
\<close>

section \<open>Accepted pages\<close>

lemma push_unique_nonempty [simp]: "push_unique a as \<noteq> []" "[] \<noteq> push_unique a as"
  by (auto simp: push_unique_def)

text \<open>A message of the scope, with an anchor that is its own id.\<close>

definition item_ok :: "backfill_scope \<Rightarrow> backfill_history_item \<Rightarrow> bool" where
  "item_ok scope i \<longleftrightarrow>
     anchor_is_stable (item_anchor i)
     \<and> smr_message_id (source (item_envelope i)) = anchor_message_id (item_anchor i)
     \<and> account_ref (source (item_envelope i)) = scope_account scope
     \<and> conversation (item_envelope i) = scope_conversation scope"

lemma item_anomalies_Nil: "item_anomalies scope seen i as = [] \<longleftrightarrow> as = [] \<and> item_ok scope i \<and> item_anchor i \<notin> seen"
  by (auto simp: item_anomalies_def item_ok_def Let_def anchor_is_stable_def)

lemma items_anomalies_Nil:
  "items_anomalies scope seen is as = [] \<longleftrightarrow>
     as = [] \<and> (\<forall>i\<in>set is. item_ok scope i \<and> item_anchor i \<notin> seen) \<and> distinct (map item_anchor is)"
  by (induction scope seen "is" as rule: items_anomalies.induct)
    (auto simp: item_anomalies_Nil image_iff)

lemma next_anomalies_Nil:
  "next_anomalies scope current page proven nxt as = [] \<Longrightarrow> as = []"
  by (auto simp: next_anomalies_def Let_def split: if_splits)

lemma current_anomalies_Nil:
  "current_anomalies c page chain proven as = [] \<Longrightarrow> as = []"
  by (auto simp: current_anomalies_def Let_def split: if_splits option.splits)

lemma validate_page_Nil:
  assumes "validate_page scope current page chain proven = []"
  shows "page_items page \<noteq> [] \<and> (\<forall>i\<in>set (page_items page). item_ok scope i)
    \<and> distinct (map item_anchor (page_items page))"
  using assms
  by (auto simp: validate_page_def Let_def items_anomalies_Nil
      split: backfill_continuation.splits option.splits if_splits
      dest!: next_anomalies_Nil current_anomalies_Nil)

section \<open>The steps of a scope\<close>

text \<open>The messages a scope may store.\<close>

definition admissible :: "backfill_budget \<Rightarrow> backfill_scope \<Rightarrow> envelope \<Rightarrow> bool" where
  "admissible budget scope e \<longleftrightarrow>
     account_ref (source e) = scope_account scope \<and> conversation e = scope_conversation scope
     \<and> \<not> is_blank (smr_message_id (source e))
     \<and> (\<forall>cutoff. earliest_occurred_at budget = Some cutoff \<longrightarrow> cutoff \<le> occurred_at e)"

text \<open>Changes of cursor and status, and anomalies added.\<close>

definition bookkeeping :: "(scope_progress \<Rightarrow> scope_progress) \<Rightarrow> bool" where
  "bookkeeping f \<longleftrightarrow>
     (\<forall>p. \<exists>as. sp_anomalies (f p) = sp_anomalies p @ as
        \<and> f p = p\<lparr>sp_anomalies := sp_anomalies p @ as, sp_status := sp_status (f p),
                  sp_last_cursor := sp_last_cursor (f p)\<rparr>)"

inductive scope_step ::
  "'s backfill_env \<Rightarrow> backfill_config \<Rightarrow> backfill_scope \<Rightarrow> 's scope_machine \<Rightarrow> 's scope_machine \<Rightarrow> bool"
  for env cfg scope where
  step_book: "bookkeeping f \<Longrightarrow> scope_step env cfg scope m (on_progress f m)"
| step_record: "be_record env (bc_run_id cfg) (bc_token cfg) (sm_progress m) (sm_env m) = (r, s) \<Longrightarrow>
     scope_step env cfg scope m (m\<lparr>sm_env := s\<rparr>)"
| step_fetch: "be_fetch env scope c (page_size (bc_budget cfg)) (sm_env m) = (r, s) \<Longrightarrow>
     scope_step env cfg scope m (m\<lparr>sm_env := s\<rparr>)"
| step_page: "pages_of m < max_pages_per_scope (bc_budget cfg) \<Longrightarrow>
     scope_step env cfg scope m (on_progress (\<lambda>p. p\<lparr>sp_pages_read := sp_pages_read p + 1\<rparr>) m)"
| step_skip: "sm_total m < max_events_per_run (bc_budget cfg) \<Longrightarrow> scope_step env cfg scope m (count_event m)"
| step_store: "sm_total m < max_events_per_run (bc_budget cfg) \<Longrightarrow> admissible (bc_budget cfg) scope e \<Longrightarrow>
     be_insert env e (sm_env m) = (Ok out, s) \<Longrightarrow> (boundary \<Longrightarrow> be_page_order_proven env \<and> boundary_cursor scope \<noteq> None) \<Longrightarrow>
     scope_step env cfg scope m (on_progress (note_outcome boundary out) ((count_event m)\<lparr>sm_env := s\<rparr>))"
| step_store_failed: "sm_total m < max_events_per_run (bc_budget cfg) \<Longrightarrow> admissible (bc_budget cfg) scope e \<Longrightarrow>
     be_insert env e (sm_env m) = (r, s) \<Longrightarrow> \<forall>out. r \<noteq> Ok out \<Longrightarrow>
     scope_step env cfg scope m ((count_event m)\<lparr>sm_env := s\<rparr>)"
| step_start: "boundary_cursor scope = None \<Longrightarrow> be_page_order_proven env \<Longrightarrow> be_history_start_proven env \<Longrightarrow>
     scope_step env cfg scope m (on_progress (\<lambda>p. p\<lparr>sp_reached_boundary := True\<rparr>) m)"

abbreviation scope_steps ::
  "'s backfill_env \<Rightarrow> backfill_config \<Rightarrow> backfill_scope \<Rightarrow> 's scope_machine \<Rightarrow> 's scope_machine \<Rightarrow> bool" where
  "scope_steps env cfg scope \<equiv> (scope_step env cfg scope)\<^sup>*\<^sup>*"

lemma bookkeeping_push [intro, simp]: "bookkeeping (push_anomaly a)"
  by (simp add: bookkeeping_def push_anomaly_def)

lemma bookkeeping_push_unique [intro, simp]: "bookkeeping (push_unique_anomaly a)"
  by (auto simp: bookkeeping_def push_unique_anomaly_def push_unique_def)

lemma bookkeeping_status [intro, simp]: "bookkeeping (\<lambda>p. p\<lparr>sp_status := x\<rparr>)"
  by (simp add: bookkeeping_def)

lemma bookkeeping_cursor [intro, simp]: "bookkeeping (\<lambda>p. p\<lparr>sp_last_cursor := c\<rparr>)"
  by (simp add: bookkeeping_def)

lemma bookkeeping_id [intro, simp]: "bookkeeping id" "bookkeeping (\<lambda>p. p)"
  by (simp_all add: bookkeeping_def)

lemma bookkeeping_comp:
  assumes "bookkeeping f" and "bookkeeping g"
  shows "bookkeeping (\<lambda>p. f (g p))"
  unfolding bookkeeping_def
proof
  fix p
  obtain as where g: "sp_anomalies (g p) = sp_anomalies p @ as"
      "g p = p\<lparr>sp_anomalies := sp_anomalies p @ as, sp_status := sp_status (g p),
               sp_last_cursor := sp_last_cursor (g p)\<rparr>"
    using assms(2) unfolding bookkeeping_def by blast
  obtain bs where f: "sp_anomalies (f (g p)) = sp_anomalies (g p) @ bs"
      "f (g p) = (g p)\<lparr>sp_anomalies := sp_anomalies (g p) @ bs, sp_status := sp_status (f (g p)),
               sp_last_cursor := sp_last_cursor (f (g p))\<rparr>"
    using assms(1) unfolding bookkeeping_def by blast
  show "\<exists>as. sp_anomalies (f (g p)) = sp_anomalies p @ as
        \<and> f (g p) = p\<lparr>sp_anomalies := sp_anomalies p @ as, sp_status := sp_status (f (g p)),
                  sp_last_cursor := sp_last_cursor (f (g p))\<rparr>"
  proof (intro exI conjI)
    show "sp_anomalies (f (g p)) = sp_anomalies p @ (as @ bs)" using f(1) g(1) by simp
    show "f (g p) = p\<lparr>sp_anomalies := sp_anomalies p @ (as @ bs), sp_status := sp_status (f (g p)),
                  sp_last_cursor := sp_last_cursor (f (g p))\<rparr>"
      by (subst f(2), subst g(2)) (simp add: g(1))
  qed
qed

section \<open>The page loop refines the steps\<close>

lemma on_env_result:
  "on_env act f m = (r, m') \<longleftrightarrow> (\<exists>q s. act (sm_env m) = (q, s) \<and> r = map_err f q \<and> m' = m\<lparr>sm_env := s\<rparr>)"
  by (auto simp: on_env_def split: prod.splits)

lemma on_progress_id [simp]: "on_progress id m = m"
  by (simp add: on_progress_def)

lemma on_progress_comp: "on_progress f (on_progress g m) = on_progress (\<lambda>p. f (g p)) m"
  by (simp add: on_progress_def)

lemma book_steps: "bookkeeping f \<Longrightarrow> scope_steps env cfg scope m (on_progress f m)"
  by (rule r_into_rtranclp) (rule step_book)

lemma break_with_steps:
  "break_with b f m = (r, m') \<Longrightarrow> bookkeeping f \<Longrightarrow> scope_steps env cfg scope m m'"
  by (auto simp: break_with_eq intro: book_steps)

lemma record_progress_steps:
  "record_progress env cfg m = (r, m') \<Longrightarrow> scope_steps env cfg scope m m'"
  by (auto simp: record_progress_def on_env_result intro: r_into_rtranclp step_record)

lemma admissible_item:
  assumes "item_ok scope i"
    and "\<not> is_some_and (earliest_occurred_at budget) (\<lambda>cutoff. occurred_at (item_envelope i) < cutoff)"
  shows "admissible budget scope (item_envelope i)"
  using assms by (auto simp: admissible_def item_ok_def anchor_is_stable_def is_some_and_def split: option.splits)

lemma process_items_steps:
  "process_items env (bc_budget cfg) scope is flags chain m = (r, m') \<Longrightarrow>
     (\<forall>i\<in>set is. item_ok scope i) \<Longrightarrow> scope_steps env cfg scope m m'"
proof (induction "is" arbitrary: flags chain m)
  case Nil
  then show ?case by (simp add: give_def)
next
  case (Cons i "is")
  let ?cut = "is_some_and (earliest_occurred_at (bc_budget cfg)) (\<lambda>cutoff. occurred_at (item_envelope i) < cutoff)"
  have items: "\<forall>i\<in>set is. item_ok scope i" using Cons.prems(2) by simp
  show ?case
  proof (cases "max_events_per_run (bc_budget cfg) \<le> sm_total m")
    case True
    with Cons.prems(1) show ?thesis by (auto simp: give_def intro: book_steps)
  next
    case False
    then have less: "sm_total m < max_events_per_run (bc_budget cfg)" by simp
    show ?thesis
    proof (cases ?cut)
      case True
      with False Cons.prems(1) have "process_items env (bc_budget cfg) scope is
          (flags\<lparr>fl_cutoff_reached := True\<rparr>) chain (count_event m) = (r, m')" by simp
      from Cons.IH [OF this items] have "scope_steps env cfg scope (count_event m) m'" .
      moreover have "scope_step env cfg scope m (count_event m)" by (rule step_skip [OF less])
      ultimately show ?thesis by (simp only: converse_rtranclp_into_rtranclp)
    next
      case no_cut: False
      have adm: "admissible (bc_budget cfg) scope (item_envelope i)"
        using Cons.prems(2) no_cut by (intro admissible_item) simp_all
      obtain q s where ins: "be_insert env (item_envelope i) (sm_env m) = (q, s)" by force
      show ?thesis
      proof (cases q)
        case (Ok out)
        let ?b = "is_boundary (be_page_order_proven env) scope i"
        let ?m = "on_progress (note_outcome ?b out) ((count_event m)\<lparr>sm_env := s\<rparr>)"
        have step: "scope_step env cfg scope m ?m"
          by (rule step_store [OF less adm ins [unfolded Ok]])
            (simp add: is_boundary_def is_some_and_def split: option.splits)
        have "m' = ?m \<or> (\<exists>fl ch. process_items env (bc_budget cfg) scope is fl ch ?m = (r, m'))"
          using Cons.prems(1) False no_cut ins Ok
          by (auto simp: seq_def insert_item_def on_env_def Let_def give_def split: if_splits)
        then show ?thesis
        proof (elim disjE exE)
          assume "m' = ?m"
          with step show ?thesis by (simp only: r_into_rtranclp)
        next
          fix fl ch assume "process_items env (bc_budget cfg) scope is fl ch ?m = (r, m')"
          from Cons.IH [OF this items] have "scope_steps env cfg scope ?m m'" .
          with step show ?thesis by (simp only: converse_rtranclp_into_rtranclp)
        qed
      next
        case (Err e)
        then have "m' = (count_event m)\<lparr>sm_env := s\<rparr>"
          using Cons.prems(1) False no_cut ins by (simp add: seq_def insert_item_def on_env_def)
        with step_store_failed [OF less adm ins] Err show ?thesis by auto
      next
        case Panic
        then have "m' = (count_event m)\<lparr>sm_env := s\<rparr>"
          using Cons.prems(1) False no_cut ins by (simp add: seq_def insert_item_def on_env_def)
        with step_store_failed [OF less adm ins] Panic show ?thesis by auto
      qed
    qed
  qed
qed

lemma bookkeeping_refused: "bookkeeping (refused_page env scope page as)"
  by (auto simp: bookkeeping_def refused_page_def push_anomaly_def Let_def)

lemma start_steps:
  assumes "be_history_start_proven env"
  shows "scope_steps env cfg scope m (on_progress (\<lambda>p.
                  let q = p\<lparr>sp_last_cursor := None\<rparr> in
                  if boundary_cursor scope = None
                  then (if be_page_order_proven env then q\<lparr>sp_reached_boundary := True\<rparr> else q)
                  else push_anomaly BoundaryNotFound q) m)"
proof (cases "boundary_cursor scope = None \<and> be_page_order_proven env")
  case True
  then have "scope_step env cfg scope (on_progress (\<lambda>p. p\<lparr>sp_last_cursor := None\<rparr>) m)
      (on_progress (\<lambda>p. p\<lparr>sp_reached_boundary := True\<rparr>) (on_progress (\<lambda>p. p\<lparr>sp_last_cursor := None\<rparr>) m))"
    using assms by (intro step_start) simp_all
  with True show ?thesis
    by (intro rtranclp.rtrancl_into_rtrancl [OF book_steps [OF bookkeeping_cursor]])
      (simp add: on_progress_comp)
next
  case False
  then show ?thesis
    by (intro book_steps) (auto simp: bookkeeping_def push_anomaly_def Let_def)
qed

lemma after_items_steps:
  assumes "after_items env cfg scope cont flags chain m = (r, m')"
    and "cont = ProvenHistoryStart \<Longrightarrow> be_history_start_proven env"
  shows "scope_steps env cfg scope m m'"
proof (cases "fl_cutoff_reached flags \<or> fl_stop_at_boundary flags \<or> fl_budget_exhausted flags")
  case True
  with assms(1) show ?thesis by (auto simp: after_items_def split: if_splits intro: break_with_steps)
next
  case False
  show ?thesis
  proof (cases cont)
    case (NextPage nxt)
    let ?f = "\<lambda>p. p\<lparr>sp_last_cursor := Some nxt, sp_status := ScopeBackfilling\<rparr>"
    have "bookkeeping ?f" by (simp add: bookkeeping_def)
    note book = book_steps [OF this, of env cfg scope m]
    obtain q m1 where rec: "record_progress env cfg (on_progress ?f m) = (q, m1)" by force
    have "m' = m1" using assms(1) False NextPage rec
      by (auto simp: after_items_def seq_def give_def split: result.splits)
    with rtranclp_trans [OF book record_progress_steps [OF rec]] show ?thesis by simp
  next
    case ProvenHistoryStart
    with assms False show ?thesis by (auto simp: after_items_def break_with_eq intro: start_steps)
  next
    case UnprovenStopPage
    with assms(1) False show ?thesis
      by (auto simp: after_items_def break_with_eq intro!: book_steps
          bookkeeping_comp [OF bookkeeping_push bookkeeping_cursor])
  qed
qed

lemma seq_steps:
  assumes "seq a f m = (r, m')" and "\<And>q t. a m = (q, t) \<Longrightarrow> scope_steps env cfg scope m t"
    and "\<And>x t q u. a m = (Ok x, t) \<Longrightarrow> f x t = (q, u) \<Longrightarrow> scope_steps env cfg scope t u"
  shows "scope_steps env cfg scope m m'"
  using assms(1)
proof (rule seq_state [where R = "scope_steps env cfg scope"])
  show "scope_steps env cfg scope m t" if "a m = (q, t)" for q t using that by (rule assms(2))
  show "scope_steps env cfg scope t v" if "a m = (Ok x, t)" "f x t = (q, v)" for x t q v
    using that by (rule assms(3))
qed (rule rtranclp_trans)

lemma read_page_steps:
  assumes "read_page env cfg scope cursor chain page m = (r, m')"
    and "pages_of m < max_pages_per_scope (bc_budget cfg)"
  shows "scope_steps env cfg scope m m'"
proof -
  let ?m = "on_progress (\<lambda>p. p\<lparr>sp_pages_read := sp_pages_read p + 1\<rparr>) m"
  let ?as = "validate_page scope cursor page chain (be_page_order_proven env)"
  note page = r_into_rtranclp [where r = "scope_step env cfg scope", OF step_page [OF assms(2)]]
  have "scope_steps env cfg scope ?m m'"
  proof (cases "?as = []")
    case False
    with assms(1) have "break_with False (refused_page env scope page ?as) ?m = (r, m')"
      by (simp add: read_page_def Let_def)
    then show ?thesis by (rule break_with_steps [OF _ bookkeeping_refused])
  next
    case True
    let ?m1 = "if be_page_order_proven env then ?m else on_progress (push_unique_anomaly UntrustedPageOrder) ?m"
    have m1: "scope_steps env cfg scope ?m ?m1" by (auto intro: book_steps)
    have "scope_steps env cfg scope ?m1 m'"
    proof (cases "page_continuation page = ProvenHistoryStart \<and> \<not> be_history_start_proven env")
      case start: True
      with True assms(1) have "break_with False (push_anomaly UntrustedHistoryStart) ?m1 = (r, m')"
        by (simp add: read_page_def Let_def)
      then show ?thesis by (rule break_with_steps) simp
    next
      case False
      with True assms(1) have "seq (process_items env (bc_budget cfg) scope (page_items page) no_flags chain)
            (\<lambda>(flags, chain'). after_items env cfg scope (page_continuation page) flags chain') ?m1 = (r, m')"
        by (simp add: read_page_def Let_def)
      then show ?thesis
      proof (rule seq_steps)
        fix q t assume "process_items env (bc_budget cfg) scope (page_items page) no_flags chain ?m1 = (q, t)"
        then show "scope_steps env cfg scope ?m1 t"
          using validate_page_Nil [OF True] by (intro process_items_steps) auto
      next
        fix x t q u
        assume "(case x of (flags, chain') \<Rightarrow> after_items env cfg scope (page_continuation page) flags chain') t = (q, u)"
        then show "scope_steps env cfg scope t u"
          using False by (cases x) (auto intro: after_items_steps)
      qed
    qed
    with m1 show ?thesis by (rule rtranclp_trans)
  qed
  with page show ?thesis by (rule rtranclp_trans)
qed

lemma scope_turn_steps:
  assumes "scope_turn env cfg scope cursor chain m = (r, m')"
  shows "scope_steps env cfg scope m m'"
proof -
  consider (budget) "break_with True (push_anomaly BudgetExhausted) m = (r, m')"
    | (cursor) a where "break_with False (push_anomaly a) m = (r, m')"
    | (read) "pages_of m < max_pages_per_scope (bc_budget cfg)"
        "seq (record_progress env cfg) (\<lambda>_.
                seq (on_env (be_fetch env scope cursor (page_size (bc_budget cfg))) SourceError) (\<lambda>page.
                  read_page env cfg scope cursor chain page)) m = (r, m')"
    using assms by (auto simp: scope_turn_def not_le split: if_splits option.splits)
  then show ?thesis
  proof cases
    case read
    from read(2) show ?thesis
    proof (rule seq_steps)
      fix q t assume "record_progress env cfg m = (q, t)"
      then show "scope_steps env cfg scope m t" by (rule record_progress_steps)
    next
      fix x t q u assume rec: "record_progress env cfg m = (Ok x, t)"
        and rest: "seq (on_env (be_fetch env scope cursor (page_size (bc_budget cfg))) SourceError) (\<lambda>page.
                  read_page env cfg scope cursor chain page) t = (q, u)"
      have pages: "pages_of t = pages_of m"
        using rec by (auto simp: record_progress_def dest!: on_env_frame(1))
      from rest show "scope_steps env cfg scope t u"
      proof (rule seq_steps)
        fix q v assume "on_env (be_fetch env scope cursor (page_size (bc_budget cfg))) SourceError t = (q, v)"
        then show "scope_steps env cfg scope t v"
          by (auto simp: on_env_result intro: r_into_rtranclp step_fetch)
      next
        fix page v q u
        assume f: "on_env (be_fetch env scope cursor (page_size (bc_budget cfg))) SourceError t = (Ok page, v)"
          and "read_page env cfg scope cursor chain page v = (q, u)"
        then show "scope_steps env cfg scope v u"
          using read(1) pages on_env_frame(1) [OF f] by (intro read_page_steps) simp_all
      qed
    qed
  qed (auto intro: break_with_steps)
qed

lemma scope_loop_steps:
  "scope_loop env cfg scope cursor chain m = (r, m') \<Longrightarrow> scope_steps env cfg scope m m'"
proof (induction env cfg scope cursor chain m rule: scope_loop.induct)
  case (1 env cfg scope cursor chain m)
  obtain q t where turn: "scope_turn env cfg scope cursor chain m = (q, t)" by force
  note st = scope_turn_steps [OF turn]
  show ?case
  proof (cases "\<exists>c ch. q = Ok (Continue c ch)")
    case True
    then obtain c ch where q: "q = Ok (Continue c ch)" by blast
    have "scope_loop env cfg scope c ch t = (r, m')"
      using "1.prems" turn q by (subst (asm) scope_loop.simps) simp
    then have "scope_steps env cfg scope t m'"
      using "1.IH" turn q by simp
    with st show ?thesis by (rule rtranclp_trans)
  next
    case False
    then have "m' = t"
      using "1.prems" turn by (subst (asm) scope_loop.simps) (auto split: result.splits page_turn.splits)
    with st show ?thesis by simp
  qed
qed

lemma process_scope_steps:
  assumes "process_scope env cfg scope m = (r, m')"
  shows "scope_steps env cfg scope m m'"
proof -
  let ?m = "on_progress (\<lambda>p. p\<lparr>sp_status := ScopeBackfilling\<rparr>) m"
  have "scope_steps env cfg scope ?m m'"
    using assms by (auto simp: process_scope_def Let_def split: option.splits if_splits
        intro: scope_loop_steps book_steps)
  with book_steps [OF bookkeeping_status] show ?thesis by (rule rtranclp_trans)
qed

section \<open>Invariants of the steps\<close>

text \<open>
  The budget: pages and events within their limits, and the counters consistent, so that none of
  the 32-bit additions wraps.
\<close>

definition within_budget :: "backfill_budget \<Rightarrow> 's scope_machine \<Rightarrow> bool" where
  "within_budget b m \<longleftrightarrow>
     sp_pages_read (sm_progress m) \<le> max_pages_per_scope b \<and> sm_total m \<le> max_events_per_run b
     \<and> unat (sp_events_read (sm_progress m)) \<le> unat (sm_total m)
     \<and> unat (sp_accepted (sm_progress m)) + unat (sp_duplicates (sm_progress m))
         \<le> unat (sp_events_read (sm_progress m))"

lemma bookkeeping_counters:
  assumes "bookkeeping f"
  shows "sp_pages_read (f p) = sp_pages_read p" "sp_events_read (f p) = sp_events_read p"
    "sp_accepted (f p) = sp_accepted p" "sp_duplicates (f p) = sp_duplicates p"
    "sp_reached_boundary (f p) = sp_reached_boundary p" "sp_conversation (f p) = sp_conversation p"
proof -
  obtain as where f: "f p = p\<lparr>sp_anomalies := sp_anomalies p @ as, sp_status := sp_status (f p),
                  sp_last_cursor := sp_last_cursor (f p)\<rparr>"
    using assms unfolding bookkeeping_def by blast
  show "sp_pages_read (f p) = sp_pages_read p" "sp_events_read (f p) = sp_events_read p"
    "sp_accepted (f p) = sp_accepted p" "sp_duplicates (f p) = sp_duplicates p"
    "sp_reached_boundary (f p) = sp_reached_boundary p" "sp_conversation (f p) = sp_conversation p"
    by (subst f, simp)+
qed

lemma note_outcome_counters:
  "sp_events_read (note_outcome b out p) = sp_events_read p"
  "sp_accepted (note_outcome b out p) = (case out of Accepted _ _ \<Rightarrow> sp_accepted p + 1 | Duplicate _ \<Rightarrow> sp_accepted p)"
  "sp_duplicates (note_outcome b out p) = (case out of Accepted _ _ \<Rightarrow> sp_duplicates p | Duplicate _ \<Rightarrow> sp_duplicates p + 1)"
  by (auto simp: note_outcome_def push_anomaly_def Let_def split: ingest_message_outcome.splits)

lemma unat_Suc_below: "unat a \<le> unat b \<Longrightarrow> b < c \<Longrightarrow> unat (a + 1) = Suc (unat a)"
  for a b c :: "'w::len word"
  using unat_Suc_less [of a c] by (simp add: word_less_nat_alt)

lemma count_event_budget:
  assumes "within_budget b m" and "sm_total m < max_events_per_run b"
  shows "unat (sm_total m + 1) = Suc (unat (sm_total m))"
    and "unat (sp_events_read (sm_progress m) + 1) = Suc (unat (sp_events_read (sm_progress m)))"
    and "sm_total m + 1 \<le> max_events_per_run b"
    and "unat (sp_accepted (sm_progress m) + 1) = Suc (unat (sp_accepted (sm_progress m)))"
    and "unat (sp_duplicates (sm_progress m) + 1) = Suc (unat (sp_duplicates (sm_progress m)))"
proof -
  let ?p = "sm_progress m"
  have le: "unat (sp_events_read ?p) \<le> unat (sm_total m)" "unat (sp_accepted ?p) \<le> unat (sm_total m)"
    "unat (sp_duplicates ?p) \<le> unat (sm_total m)"
    using assms(1) by (simp_all add: within_budget_def)
  note suc = unat_Suc_below [OF _ assms(2)]
  show t: "unat (sm_total m + 1) = Suc (unat (sm_total m))" by (rule suc) simp
  show "unat (sp_events_read ?p + 1) = Suc (unat (sp_events_read ?p))"
    "unat (sp_accepted ?p + 1) = Suc (unat (sp_accepted ?p))"
    "unat (sp_duplicates ?p + 1) = Suc (unat (sp_duplicates ?p))"
    using le by (auto intro: suc)
  show "sm_total m + 1 \<le> max_events_per_run b"
    using t assms(2) by (simp add: word_less_nat_alt word_le_nat_alt)
qed

lemma within_budget_step:
  "scope_step env cfg scope m m' \<Longrightarrow> within_budget (bc_budget cfg) m \<Longrightarrow> within_budget (bc_budget cfg) m'"
proof (induction rule: scope_step.induct)
  case (step_book f m)
  then show ?case by (simp add: within_budget_def bookkeeping_counters)
next
  case (step_page m)
  have "unat (pages_of m + 1) = Suc (unat (pages_of m))"
    by (rule unat_Suc_below [OF _ step_page.hyps]) simp
  with step_page show ?case by (simp add: within_budget_def word_less_nat_alt word_le_nat_alt)
next
  case (step_skip m)
  note c = count_event_budget [OF step_skip.prems step_skip.hyps]
  from c(1-3) step_skip.prems show ?case by (simp add: within_budget_def)
next
  case (step_store m e out s boundary)
  note c = count_event_budget [OF step_store.prems step_store.hyps(1)]
  from c step_store.prems show ?case
    by (cases out) (simp_all add: within_budget_def note_outcome_counters)
next
  case (step_store_failed m e r s)
  note c = count_event_budget [OF step_store_failed.prems step_store_failed.hyps(1)]
  from c(1-3) step_store_failed.prems show ?case by (simp add: within_budget_def)
qed (simp_all add: within_budget_def)

lemma within_budget_steps:
  "scope_steps env cfg scope m m' \<Longrightarrow> within_budget (bc_budget cfg) m \<Longrightarrow> within_budget (bc_budget cfg) m'"
  by (induction rule: rtranclp_induct) (auto intro: within_budget_step)

text \<open>A boundary is only reported by a source whose page order is proven.\<close>

definition honest :: "'s backfill_env \<Rightarrow> scope_progress \<Rightarrow> bool" where
  "honest env p \<longleftrightarrow> (sp_reached_boundary p \<longrightarrow> be_page_order_proven env)"

lemma honest_step: "scope_step env cfg scope m m' \<Longrightarrow> honest env (sm_progress m) \<Longrightarrow> honest env (sm_progress m')"
proof (induction rule: scope_step.induct)
  case (step_store m e out s boundary)
  then show ?case
    by (auto simp: honest_def note_outcome_def push_anomaly_def Let_def split: ingest_message_outcome.splits)
qed (simp_all add: honest_def bookkeeping_counters)

lemma honest_steps: "scope_steps env cfg scope m m' \<Longrightarrow> honest env (sm_progress m) \<Longrightarrow> honest env (sm_progress m')"
  by (induction rule: rtranclp_induct) (auto intro: honest_step)

text \<open>The progress of a scope stays that of its conversation.\<close>

lemma conversation_steps:
  "scope_steps env cfg scope m m' \<Longrightarrow> sp_conversation (sm_progress m') = sp_conversation (sm_progress m)"
proof (induction rule: rtranclp_induct)
  case (step m m')
  from step.hyps(2) have "sp_conversation (sm_progress m') = sp_conversation (sm_progress m)"
    by (induction rule: scope_step.induct)
      (auto simp: bookkeeping_counters note_outcome_def push_anomaly_def Let_def split: ingest_message_outcome.splits)
  with step.IH show ?case by simp
qed simp

text \<open>The anomalies of a scope are never taken back.\<close>

lemma anomalies_step:
  "scope_step env cfg scope m m' \<Longrightarrow> \<exists>as. sp_anomalies (sm_progress m') = sp_anomalies (sm_progress m) @ as"
proof (induction rule: scope_step.induct)
  case (step_book f m)
  then show ?case unfolding bookkeeping_def by auto
next
  case (step_store m e out s boundary)
  then show ?case
    by (auto simp: note_outcome_def push_anomaly_def Let_def split: ingest_message_outcome.splits)
qed simp_all

text \<open>What the stores keep when only admissible messages are put in.\<close>

definition keeps :: "('s \<Rightarrow> bool) \<Rightarrow> ('s, 'e, 'a) action \<Rightarrow> bool" where
  "keeps I act \<longleftrightarrow> (\<forall>s r t. I s \<longrightarrow> act s = (r, t) \<longrightarrow> I t)"

lemma keepsD: "keeps I act \<Longrightarrow> I s \<Longrightarrow> act s = (r, t) \<Longrightarrow> I t"
  unfolding keeps_def by blast

text \<open>
  An invariant \<open>I\<close> of the stores between two reads, and one \<open>J\<close> that holds from the
  moment the source has returned a page for a scope of the account: the stores may rely on
  messages being put in only while the page they are from is the last one read, and only if the
  scope it was read for admits them.
\<close>

definition reads_keep ::
  "('s \<Rightarrow> bool) \<Rightarrow> (backfill_scope \<Rightarrow> backfill_page \<Rightarrow> 's \<Rightarrow> bool) \<Rightarrow> 's backfill_env \<Rightarrow> backfill_budget \<Rightarrow>
     source_account_ref \<Rightarrow> bool" where
  "reads_keep I J env budget account \<longleftrightarrow>
     (\<forall>g. keeps I (be_known_scopes env g)) \<and> (\<forall>r. keeps I (be_load env r))
     \<and> (\<forall>r t p. keeps I (be_record env r t p)) \<and> (\<forall>out t. keeps I (be_finalize env out t))
     \<and> (\<forall>scope c n s r t. scope_account scope = account \<longrightarrow> I s \<longrightarrow> be_fetch env scope c n s = (r, t) \<longrightarrow>
          (case r of Ok page \<Rightarrow> J scope page t | _ \<Rightarrow> I t))
     \<and> (\<forall>scope page s. J scope page s \<longrightarrow> I s)
     \<and> (\<forall>scope page i. scope_account scope = account \<longrightarrow> i \<in> set (page_items page) \<longrightarrow>
          admissible budget scope (item_envelope i) \<longrightarrow> keeps (J scope page) (be_insert env (item_envelope i)))"

lemma process_items_keep:
  "process_items env budget scope is flags chain m = (r, m') \<Longrightarrow> J (sm_env m) \<Longrightarrow>
     (\<forall>i\<in>set is. item_ok scope i \<and>
        (admissible budget scope (item_envelope i) \<longrightarrow> keeps J (be_insert env (item_envelope i)))) \<Longrightarrow>
     J (sm_env m')"
proof (induction "is" arbitrary: flags chain m)
  case Nil
  then show ?case by (simp add: give_def)
next
  case (Cons i "is")
  let ?cut = "is_some_and (earliest_occurred_at budget) (\<lambda>cutoff. occurred_at (item_envelope i) < cutoff)"
  obtain q m1 where ins: "insert_item env i (count_event m) = (q, m1)" by force
  have m1: "J (sm_env m1)" if "\<not> ?cut"
  proof -
    have "keeps J (be_insert env (item_envelope i))"
      using Cons.prems(3) admissible_item [OF _ that] by simp
    from keepsD [OF this Cons.prems(2)] ins show ?thesis by (auto simp: insert_item_def on_env_result)
  qed
  show ?case
    using Cons.prems ins m1
    by (auto simp: Let_def give_def seq_def split: if_splits result.splits intro: Cons.IH)
qed

lemma after_items_keep:
  assumes "after_items env cfg scope cont flags chain m = (r, m')" and "I (sm_env m)"
    and "\<And>r t p. keeps I (be_record env r t p)"
  shows "I (sm_env m')"
  using assms(1,2)
  by (auto simp: after_items_def break_with_eq record_progress_def seq_def on_env_result give_def
      split: if_splits backfill_continuation.splits result.splits prod.splits dest: keepsD [OF assms(3)])

lemma read_page_keep:
  assumes "reads_keep I J env (bc_budget cfg) (scope_account scope)"
    and "read_page env cfg scope cursor chain page m = (r, m')" and "J scope page (sm_env m)"
  shows "I (sm_env m')"
proof -
  have rec: "keeps I (be_record env r t p)" and weak: "J scope page s \<Longrightarrow> I s" for r t p s
    using assms(1) by (auto simp: reads_keep_def)
  let ?as = "validate_page scope cursor page chain (be_page_order_proven env)"
  show ?thesis
  proof (cases "?as = []")
    case False
    with assms(2,3) show ?thesis by (auto simp: read_page_def Let_def break_with_eq intro: weak)
  next
    case True
    have items: "\<forall>i\<in>set (page_items page). item_ok scope i \<and> (admissible (bc_budget cfg) scope (item_envelope i) \<longrightarrow>
        keeps (J scope page) (be_insert env (item_envelope i)))"
      using validate_page_Nil [OF True] assms(1) by (auto simp: reads_keep_def)
    show ?thesis
    proof (cases "page_continuation page = ProvenHistoryStart \<and> \<not> be_history_start_proven env")
      case start: True
      with True assms(2,3) show ?thesis by (auto simp: read_page_def Let_def break_with_eq intro: weak)
    next
      case False
      let ?f = "if be_page_order_proven env then id else push_unique_anomaly UntrustedPageOrder"
      let ?m1 = "on_progress ?f (on_progress (\<lambda>p. p\<lparr>sp_pages_read := sp_pages_read p + 1\<rparr>) m)"
      have run: "seq (process_items env (bc_budget cfg) scope (page_items page) no_flags chain)
          (\<lambda>(flags, chain'). after_items env cfg scope (page_continuation page) flags chain') ?m1 = (r, m')"
        using True False assms(2) by (auto simp: read_page_def Let_def split: if_splits)
      obtain q m2 where pi: "process_items env (bc_budget cfg) scope (page_items page) no_flags chain ?m1 = (q, m2)" by force
      have m2: "J scope page (sm_env m2)"
        by (rule process_items_keep [OF pi _ items]) (simp add: assms(3))
      with run pi show ?thesis
        by (auto simp: seq_def split: result.splits prod.splits intro: weak after_items_keep [OF _ _ rec])
    qed
  qed
qed

lemma scope_turn_keep:
  assumes "reads_keep I J env (bc_budget cfg) (scope_account scope)"
    and "scope_turn env cfg scope cursor chain m = (r, m')" and "I (sm_env m)"
  shows "I (sm_env m')"
proof -
  have "keeps I (be_record env r t p)" for r t p using assms(1) by (simp add: reads_keep_def)
  note rec = keepsD [OF this]
  have fetch: "case x of Ok page \<Rightarrow> J scope page t | _ \<Rightarrow> I t" if "be_fetch env scope c n s = (x, t)" "I s" for c n s x t
    using assms(1) that unfolding reads_keep_def by blast
  obtain q1 m1 where recorded: "record_progress env cfg m = (q1, m1)" by force
  have m1: "I (sm_env m1)"
    using recorded assms(3) by (auto simp: record_progress_def on_env_result dest: rec)
  obtain q2 m2 where fetched: "on_env (be_fetch env scope cursor (page_size (bc_budget cfg))) SourceError m1 = (q2, m2)"
    by force
  have m2: "case q2 of Ok page \<Rightarrow> J scope page (sm_env m2) | _ \<Rightarrow> I (sm_env m2)"
  proof -
    obtain x t where "be_fetch env scope cursor (page_size (bc_budget cfg)) (sm_env m1) = (x, t)" by force
    with fetch [OF this m1] fetched show ?thesis by (cases x) (auto simp: on_env_result)
  qed
  consider "sm_env m' = sm_env m" | "m' = m1" | "q2 \<noteq> Panic" "\<exists>e. q2 = Err e" "m' = m2" | "q2 = Panic" "m' = m2"
    | page where "q2 = Ok page" "read_page env cfg scope cursor chain page m2 = (r, m')"
    using assms(2) recorded fetched
    by (cases q1; cases q2) (auto simp: scope_turn_def break_with_eq seq_def split: if_splits option.splits)
  then show ?thesis
    using assms(3) m1 m2 by cases (auto intro: read_page_keep [OF assms(1)])
qed

lemma scope_loop_keep:
  "reads_keep I J env (bc_budget cfg) (scope_account scope) \<Longrightarrow>
     scope_loop env cfg scope cursor chain m = (r, m') \<Longrightarrow> I (sm_env m) \<Longrightarrow> I (sm_env m')"
proof (induction env cfg scope cursor chain m rule: scope_loop.induct)
  case (1 env cfg scope cursor chain m)
  obtain q t where turn: "scope_turn env cfg scope cursor chain m = (q, t)" by force
  have t: "I (sm_env t)" by (rule scope_turn_keep [OF "1.prems"(1) turn "1.prems"(3)])
  show ?case
  proof (cases "\<exists>c ch. q = Ok (Continue c ch)")
    case True
    then obtain c ch where q: "q = Ok (Continue c ch)" by blast
    have "scope_loop env cfg scope c ch t = (r, m')"
      using "1.prems"(2) turn q by (subst (asm) scope_loop.simps) simp
    then show ?thesis using "1.IH" turn q "1.prems"(1) t by simp
  next
    case False
    then have "m' = t"
      using "1.prems"(2) turn by (subst (asm) scope_loop.simps) (auto split: result.splits page_turn.splits)
    with t show ?thesis by simp
  qed
qed

lemma process_scope_keep:
  assumes "reads_keep I J env (bc_budget cfg) (scope_account scope)"
    and "process_scope env cfg scope m = (r, m')" and "I (sm_env m)"
  shows "I (sm_env m')"
  using assms(2,3)
  by (auto simp: process_scope_def Let_def split: option.splits if_splits intro: scope_loop_keep [OF assms(1)])

end
