(* ===== verification/Backfill_Properties.thy ===== *)
theory Backfill_Properties
  imports Backfill_Correct
begin

text \<open>
  A whole backfill run: what it may store, when it may declare a gap complete, that it always
  ends with an outcome, and the properties of the gap state machine and the budget.
\<close>

section \<open>A run over its scopes\<close>

lemma run_scope_Ok:
  assumes "run_scope env cfg scope p tot s = (Ok (q, tot', ex), t)"
  obtains r m where "process_scope env cfg scope \<lparr>sm_progress = p, sm_total = tot, sm_env = s\<rparr> = (r, m)"
    and "sp_conversation q = sp_conversation p" and "honest env p \<Longrightarrow> honest env q"
    and "sp_anomalies q = [] \<Longrightarrow> r = Ok ex \<and> q = sm_progress m"
proof -
  let ?m0 = "\<lparr>sm_progress = p, sm_total = tot, sm_env = s\<rparr>"
  obtain r m where ps: "process_scope env cfg scope ?m0 = (r, m)" by force
  then have st: "scope_steps env cfg scope ?m0 m" by (rule process_scope_steps)
  obtain f where f: "bookkeeping f" "q = f (sm_progress m)"
    using assms ps bookkeeping_id(2) bookkeeping_push
    by (auto simp: run_scope_def Let_def split: result.splits backfill_error.splits backfill_source_error.splits)
  show ?thesis
  proof (rule that [OF ps])
    show "sp_conversation q = sp_conversation p"
      using conversation_steps [OF st] f by (simp add: bookkeeping_counters)
    show "honest env q" if "honest env p"
      using honest_steps [OF st] that f by (simp add: honest_def bookkeeping_counters)
    show "r = Ok ex \<and> q = sm_progress m" if "sp_anomalies q = []"
      using assms ps that
      by (auto simp: run_scope_def Let_def push_anomaly_def
          split: result.splits backfill_error.splits backfill_source_error.splits)
  qed
qed

lemma run_scope_env:
  "run_scope env cfg scope p tot s = (r, t) \<Longrightarrow>
     \<exists>q m. process_scope env cfg scope \<lparr>sm_progress = p, sm_total = tot, sm_env = s\<rparr> = (q, m) \<and> t = sm_env m"
  by (auto simp: run_scope_def Let_def split: prod.splits result.splits backfill_error.splits backfill_source_error.splits)

lemma honest_fresh: "honest env (fresh_progress scope)"
  by (simp add: honest_def fresh_progress_def)

lemma on_store_result:
  "on_store act f s = (r, t) \<longleftrightarrow> (\<exists>q. act s = (q, t) \<and> r = map_err f q)"
  by (auto simp: on_store_def split: prod.splits)

text \<open>
  What the evidence of a scope stands for: it is the evidence of that scope, and unless it names an
  anomaly, the scope was found complete by an earlier claim of the run, or the page loop has read
  it in this one without an error.
\<close>

definition evidenced ::
  "'s backfill_env \<Rightarrow> backfill_config \<Rightarrow> bool \<Rightarrow> scope_progress set \<Rightarrow> backfill_scope \<Rightarrow> scope_evidence \<Rightarrow> bool" where
  "evidenced env cfg exhausted ps scope e \<longleftrightarrow>
     se_scope_key e = scope_key scope \<and> (se_reached_boundary e \<longrightarrow> be_page_order_proven env)
     \<and> (se_anomalies e = [] \<longrightarrow>
          (\<exists>p\<in>ps. sp_status p = ScopeVerifiedComplete \<and> e = progress_to_evidence p)
          \<or> (\<exists>m x m'. process_scope env cfg scope m = (Ok x, m') \<and> (x \<longrightarrow> exhausted)
               \<and> e = progress_to_evidence (sm_progress m')))"

definition progress_of :: "'s backfill_env \<Rightarrow> scope_progress set \<Rightarrow> (string, scope_progress) btree \<Rightarrow> bool" where
  "progress_of env ps known \<longleftrightarrow>
     (\<forall>k p. bt_get known k = Some p \<longrightarrow> p \<in> ps \<and> honest env p \<and> scope_key_of (sp_conversation p) = k)"

lemma evidenced_read:
  assumes "evidenced env cfg False ps scope e" and "se_anomalies e = []"
  shows "se_scope_key e = scope_key scope
    \<and> ((\<exists>p\<in>ps. sp_status p = ScopeVerifiedComplete \<and> e = progress_to_evidence p)
       \<or> (\<exists>m m'. process_scope env cfg scope m = (Ok False, m') \<and> e = progress_to_evidence (sm_progress m')))"
proof -
  have "\<exists>m'. process_scope env cfg scope m = (Ok False, m') \<and> e = progress_to_evidence (sm_progress m')"
    if "process_scope env cfg scope m = (Ok x, m')" "x \<longrightarrow> False" "e = progress_to_evidence (sm_progress m')" for m x m'
    using that by (cases x) auto
  with assms show ?thesis unfolding evidenced_def by blast
qed

lemma evidence_status [simp]: "progress_to_evidence (p\<lparr>sp_status := x\<rparr>) = progress_to_evidence p"
  by (simp add: progress_to_evidence_def)

lemma key_of_scope: "scope_key scope = scope_key_of (scope_conversation scope)"
  by (simp add: scope_key_def scope_key_of_def)

lemma process_scopes_exhausted:
  "process_scopes env cfg scopes known tot ex evs s = (Ok (ex', evs'), t) \<Longrightarrow> ex \<Longrightarrow> ex'"
proof (induction scopes arbitrary: known tot ex evs s)
  case Nil
  then show ?case by (simp add: give_def)
next
  case (Cons scope scopes)
  then show ?case by (auto simp: Let_def seq_Ok split: if_splits)
qed

lemma process_scopes_evidenced:
  "process_scopes env cfg scopes known tot ex evs s = (Ok (ex', evs'), t) \<Longrightarrow> progress_of env ps known \<Longrightarrow>
     \<exists>new. evs' = evs @ new \<and> list_all2 (evidenced env cfg ex' ps) scopes new"
proof (induction scopes arbitrary: known tot ex evs s)
  case Nil
  then show ?case by (simp add: give_def)
next
  case (Cons scope scopes)
  let ?p = "unwrap_or (bt_get known (scope_key scope)) (fresh_progress scope)"
  let ?rest = "bt_remove (scope_key scope) known"
  have rest: "progress_of env ps ?rest" using Cons.prems(2) by (simp add: progress_of_def)
  have p: "honest env ?p" "scope_key_of (sp_conversation ?p) = scope_key scope"
    and known: "sp_status ?p = ScopeVerifiedComplete \<Longrightarrow> ?p \<in> ps"
    using Cons.prems(2) honest_fresh
    by (cases "bt_get known (scope_key scope)"; force simp: progress_of_def fresh_progress_def key_of_scope)+
  show ?case
  proof (cases "sp_status ?p = ScopeVerifiedComplete")
    case True
    with Cons.prems(1) have "process_scopes env cfg scopes ?rest tot ex (evs @ [progress_to_evidence ?p]) s
        = (Ok (ex', evs'), t)" by (simp add: Let_def)
    moreover have "evidenced env cfg ex' ps scope (progress_to_evidence ?p)"
      using True p known by (auto simp: evidenced_def progress_to_evidence_def honest_def)
    ultimately show ?thesis using Cons.IH [OF _ rest] by fastforce
  next
    case False
    with Cons.prems(1) obtain q tot' x s1 s2 where
      run: "run_scope env cfg scope ?p tot s = (Ok (q, tot', x), s1)"
      and go: "process_scopes env cfg scopes ?rest tot' (ex \<or> x) (evs @ [progress_to_evidence q]) s2 = (Ok (ex', evs'), t)"
      by (auto simp: Let_def seq_Ok split: prod.splits)
    obtain r m where scope: "process_scope env cfg scope \<lparr>sm_progress = ?p, sm_total = tot, sm_env = s\<rparr> = (r, m)"
      and q: "sp_conversation q = sp_conversation ?p" "honest env q"
      and clean: "sp_anomalies q = [] \<Longrightarrow> r = Ok x \<and> q = sm_progress m"
      using run_scope_Ok [OF run] p(1) by metis
    have "evidenced env cfg ex' ps scope (progress_to_evidence q)"
      unfolding evidenced_def
    proof (intro conjI impI disjI2)
      assume "se_anomalies (progress_to_evidence q) = []"
      then have "r = Ok x \<and> q = sm_progress m" using clean by (simp add: progress_to_evidence_def)
      with scope process_scopes_exhausted [OF go]
      show "\<exists>m x m'. process_scope env cfg scope m = (Ok x, m') \<and> (x \<longrightarrow> ex')
          \<and> progress_to_evidence q = progress_to_evidence (sm_progress m')" by blast
    qed (use q p in \<open>simp_all add: progress_to_evidence_def honest_def\<close>)
    with Cons.IH [OF go rest] show ?thesis by fastforce
  qed
qed

lemma process_scopes_keep:
  "process_scopes env cfg scopes known tot ex evs s = (r, t) \<Longrightarrow> I s \<Longrightarrow>
     (\<forall>scope\<in>set scopes. reads_keep I J env (bc_budget cfg) (scope_account scope)) \<Longrightarrow> I t"
proof (induction scopes arbitrary: known tot ex evs s)
  case Nil
  then show ?case by (simp add: give_def)
next
  case (Cons scope scopes)
  let ?p = "unwrap_or (bt_get known (scope_key scope)) (fresh_progress scope)"
  have reads: "reads_keep I J env (bc_budget cfg) (scope_account scope)"
    and rest: "\<forall>scope\<in>set scopes. reads_keep I J env (bc_budget cfg) (scope_account scope)"
    using Cons.prems(3) by simp_all
  show ?case
  proof (cases "sp_status ?p = ScopeVerifiedComplete")
    case True
    with Cons.prems(1) show ?thesis by (auto simp: Let_def intro: Cons.IH [OF _ Cons.prems(2) rest])
  next
    case False
    obtain q s1 where run: "run_scope env cfg scope ?p tot s = (q, s1)" by force
    have s1: "I s1"
      using run_scope_env [OF run] process_scope_keep [OF reads] Cons.prems(2) by fastforce
    have rec: "I v" if "on_store (be_record env (bc_run_id cfg) (bc_token cfg) q') StateError s1 = (x, v)" for q' x v
    proof -
      have "keeps I (be_record env (bc_run_id cfg) (bc_token cfg) q')"
        using reads by (simp add: reads_keep_def)
      from keepsD [OF this s1] that show ?thesis by (auto simp: on_store_result)
    qed
    from Cons.prems(1) False run rec Cons.IH [OF _ _ rest] s1 show ?thesis
      by (auto simp: Let_def seq_def split: result.splits prod.splits)
  qed
qed

lemma keeps_on_store: "keeps I act \<Longrightarrow> keeps I (on_store act f)"
  unfolding keeps_def on_store_result by blast

lemma keeps_give: "keeps I (give a)" and keeps_lift_r: "keeps I (lift_r x)"
  by (simp_all add: keeps_def give_def lift_r_def)

lemma keeps_seq:
  assumes "keeps I a" and "\<And>x. keeps I (f x)"
  shows "keeps I (seq a f)"
  unfolding keeps_def
proof (intro allI impI)
  fix s r t assume "I s" and sq: "seq a f s = (r, t)"
  obtain q u where a: "a s = (q, u)" by force
  have u: "I u" by (rule keepsD [OF assms(1) \<open>I s\<close> a])
  show "I t"
  proof (cases q)
    case (Ok x)
    with sq a have "f x u = (r, t)" by (simp add: seq_def)
    then show ?thesis by (rule keepsD [OF assms(2) u])
  qed (use sq a u in \<open>simp_all add: seq_def\<close>)
qed

lemma process_claimed_keeps:
  assumes reads: "reads_keep I J env budget (cg_account g)"
  shows "keeps I (process_claimed env budget g)"
proof -
  have ports: "keeps I (be_known_scopes env i)" "keeps I (be_load env r)" "keeps I (be_finalize env out tok)"
    for i r out tok
    using reads by (simp_all add: reads_keep_def)
  then have fin: "keeps I (finalize env cfg gap c e)" for cfg gap c e
    unfolding finalize_def Let_def by (intro keeps_seq keeps_lift_r keeps_on_store keeps_give)
  have scopes: "keeps I (process_scopes env \<lparr>bc_budget = budget, bc_run_id = rid, bc_token = tok\<rparr>
      (gap_scopes g ks) m tot ex evs)" for rid tok ks m tot ex evs
    unfolding keeps_def
  proof (intro allI impI)
    fix s r t
    assume s: "I s" and run: "process_scopes env \<lparr>bc_budget = budget, bc_run_id = rid, bc_token = tok\<rparr>
      (gap_scopes g ks) m tot ex evs s = (r, t)"
    show "I t"
      using run s
      by (rule process_scopes_keep [where I = I and J = J]) (use reads in \<open>auto simp: gap_scopes_def\<close>)
  qed
  show ?thesis
    unfolding process_claimed_def run_gap_def Let_def
    by (intro keeps_seq keeps_on_store ports) (auto intro!: keeps_seq scopes fin split: prod.splits)
qed

section \<open>The outcome of a run\<close>

lemma finalize_result:
  "finalize env cfg gap c e s = (Ok out, t) \<Longrightarrow>
     bo_completeness out = c \<and> bo_evidence out = e \<and> bo_gap_target_status out = gap_target_status c"
  by (auto simp: finalize_def Let_def seq_Ok give_def)

lemma gap_target_legal: "legal_transition Backfilling (gap_target_status c)"
  by (cases c) (simp_all add: legal_transition_def)

lemma fold_insert_values:
  "bt_get (fold (\<lambda>p. bt_insert (kf p) p) ps m) k = Some p \<Longrightarrow> p \<in> set ps \<and> kf p = k \<or> bt_get m k = Some p"
proof (induction ps arbitrary: m)
  case Nil
  then show ?case by simp
next
  case (Cons a ps)
  then have "bt_get (fold (\<lambda>p. bt_insert (kf p) p) ps (bt_insert (kf a) a m)) k = Some p" by simp
  from Cons.IH [OF this] show ?case by (auto split: if_splits)
qed

lemma progress_map_of: "\<forall>p\<in>set ps. honest env p \<Longrightarrow> progress_of env (set ps) (progress_map ps)"
  unfolding progress_map_def progress_of_def using fold_insert_values by fastforce

lemma run_gap_evidence:
  assumes "run_gap env cfg gap scopes progress s = (Ok out, t)" and "progress_of env ps progress"
  shows "bo_completeness out = from_evidence (bo_evidence out)
    \<and> bo_gap_target_status out = gap_target_status (bo_completeness out)
    \<and> ev_account_set_proven (bo_evidence out) = be_account_set_proven env
    \<and> list_all2 (evidenced env cfg (ev_budget_exhausted (bo_evidence out)) ps) scopes (ev_scopes (bo_evidence out))"
proof (cases "scopes = []")
  case True
  with assms(1) show ?thesis by (auto simp: run_gap_def Let_def dest!: finalize_result)
next
  case False
  let ?start = "\<lparr>ev_scopes = [], ev_account_set_proven = be_account_set_proven env, ev_budget_exhausted = False\<rparr>"
  from False assms(1) obtain ex evs s3 where
    run: "process_scopes env cfg scopes progress (initial_total progress) False [] s = (Ok (ex, evs), s3)"
    and fin: "finalize env cfg gap (from_evidence (?start\<lparr>ev_scopes := evs, ev_budget_exhausted := ex\<rparr>))
          (?start\<lparr>ev_scopes := evs, ev_budget_exhausted := ex\<rparr>) s3 = (Ok out, t)"
    by (auto simp: run_gap_def Let_def seq_Ok)
  from process_scopes_evidenced [OF run assms(2)] finalize_result [OF fin] show ?thesis by auto
qed

lemma process_claimed_run:
  assumes "process_claimed env budget g s = (Ok out, t)"
  obtains known s1 persisted s2 where
    "be_known_scopes env (cg_gap_id g) s = (Ok known, s1)"
    and "be_load env (cg_run_id g) s1 = (Ok persisted, s2)"
    and "run_gap env \<lparr>bc_budget = budget, bc_run_id = cg_run_id g, bc_token = cg_lease_token g\<rparr>
        (cg_gap_id g) (gap_scopes g known) (progress_map (unwrap_or persisted [])) s2 = (Ok out, t)"
  using assms by (auto simp: process_claimed_def Let_def seq_Ok on_store_result map_err_Ok dest!: sym [where s = "Ok _"])

lemma from_evidence_proven:
  "from_evidence e = ProvenComplete \<longleftrightarrow>
     ev_account_set_proven e \<and> \<not> ev_budget_exhausted e \<and> ev_scopes e \<noteq> []
     \<and> (\<forall>s\<in>set (ev_scopes e). 0 < se_pages_read s \<and> se_reached_boundary s \<and> se_anomalies s = [])"
  by (auto simp: from_evidence_def all_scopes_complete_def any_unrecoverable_def list_all_iff list_ex_iff
      evidence_is_complete_def evidence_is_unrecoverable_def)

lemma gap_verified_iff: "gap_target_status c = VerifiedComplete \<longleftrightarrow> c = ProvenComplete"
  by (cases c) simp_all

section \<open>A run always ends with an outcome\<close>

text \<open>
  The state store answers, whatever it answers; the message store and the history source may fail
  in every call, but do not panic.
\<close>

definition answering :: "'s backfill_env \<Rightarrow> bool" where
  "answering env \<longleftrightarrow>
     (\<forall>g s. \<exists>x t. be_known_scopes env g s = (Ok x, t)) \<and> (\<forall>r s. \<exists>x t. be_load env r s = (Ok x, t))
     \<and> (\<forall>r k p s. \<exists>t. be_record env r k p s = (Ok (), t)) \<and> (\<forall>out k s. \<exists>t. be_finalize env out k s = (Ok (), t))
     \<and> (\<forall>e s. fst (be_insert env e s) \<noteq> Panic) \<and> (\<forall>sc c n s. fst (be_fetch env sc c n s) \<noteq> Panic)"

definition source_failure :: "(backfill_error, 'a) result \<Rightarrow> bool" where
  "source_failure r \<longleftrightarrow> (\<exists>e. r = Err (SourceError e))"

definition ended :: "(backfill_error, 'a) result \<Rightarrow> bool" where
  "ended r \<longleftrightarrow> is_ok r \<or> source_failure r"

lemma ended_simps [simp]: "ended (Ok x)" "ended (Err (SourceError e))" "\<not> ended Panic"
  by (simp_all add: ended_def source_failure_def is_ok_def)

lemma ended_Err: "ended (Err e) \<longleftrightarrow> (\<exists>d. e = SourceError d)"
  by (simp add: ended_def source_failure_def is_ok_def)

lemma seq_ended:
  assumes "ended (fst (a m))" and "\<And>x t. a m = (Ok x, t) \<Longrightarrow> ended (fst (f x t))"
  shows "ended (fst (seq a f m))"
  using assms by (cases "a m") (auto simp: seq_def ended_Err split: result.splits)

lemma break_with_ended: "ended (fst (break_with b f m))"
  by (simp add: break_with_def give_def)

lemma record_progress_ok:
  assumes "answering env"
  shows "ended (fst (record_progress env cfg m))"
proof -
  obtain t where "be_record env (bc_run_id cfg) (bc_token cfg) (sm_progress m) (sm_env m) = (Ok (), t)"
    using assms unfolding answering_def by blast
  then show ?thesis by (simp add: record_progress_def on_env_def)
qed

lemma on_env_ended:
  assumes "fst (act (sm_env m)) \<noteq> Panic" and "\<And>e. \<exists>d. f e = SourceError d"
  shows "ended (fst (on_env act f m))"
proof -
  obtain q s where a: "act (sm_env m) = (q, s)" by force
  show ?thesis
  proof (cases q)
    case (Err e)
    with a assms(2) [of e] show ?thesis by (auto simp: on_env_def)
  qed (use a assms(1) in \<open>simp_all add: on_env_def\<close>)
qed

lemma process_items_ended:
  assumes "answering env"
  shows "ended (fst (process_items env b scope is flags chain m))"
proof (induction "is" arbitrary: flags chain m)
  case Nil
  then show ?case by (simp add: give_def)
next
  case (Cons i "is")
  have "ended (fst (insert_item env i (count_event m)))"
    unfolding insert_item_def
    by (rule on_env_ended) (use assms in \<open>simp_all add: answering_def\<close>)
  then show ?case
    using Cons.IH by (auto simp: give_def Let_def intro!: seq_ended)
qed

lemma after_items_ended:
  assumes "answering env"
  shows "ended (fst (after_items env cfg scope cont flags chain m))"
  by (auto simp: after_items_def break_with_ended intro!: seq_ended record_progress_ok [OF assms]
      split: backfill_continuation.splits) (simp add: give_def)

lemma read_page_ended:
  assumes "answering env"
  shows "ended (fst (read_page env cfg scope cursor chain page m))"
  by (auto simp: read_page_def Let_def break_with_ended
      intro!: seq_ended process_items_ended [OF assms] after_items_ended [OF assms])

lemma scope_turn_ended:
  assumes "answering env"
  shows "ended (fst (scope_turn env cfg scope cursor chain m))"
proof -
  have "ended (fst (on_env (be_fetch env scope cursor n) SourceError t))" for n t
    by (rule on_env_ended) (use assms in \<open>simp_all add: answering_def\<close>)
  then show ?thesis
    by (auto simp: scope_turn_def break_with_ended split: option.splits
        intro!: seq_ended record_progress_ok [OF assms] read_page_ended [OF assms])
qed

lemma scope_loop_ended:
  assumes "answering env"
  shows "ended (fst (scope_loop env cfg scope cursor chain m))"
  using assms
proof (induction env cfg scope cursor chain m rule: scope_loop.induct)
  case (1 env cfg scope cursor chain m)
  obtain q t where turn: "scope_turn env cfg scope cursor chain m = (q, t)" by force
  have "ended q" using scope_turn_ended [OF "1.prems", of cfg scope cursor chain m] turn by simp
  with "1.IH" turn "1.prems" show ?case
    by (subst scope_loop.simps) (auto simp: ended_Err split: result.splits page_turn.splits)
qed

lemma process_scope_ended: "answering env \<Longrightarrow> ended (fst (process_scope env cfg scope m))"
  by (simp add: process_scope_def Let_def scope_loop_ended split: option.splits)

lemma run_scope_ok:
  assumes "answering env"
  shows "is_ok (fst (run_scope env cfg scope p tot s))"
proof -
  obtain r m where ps: "process_scope env cfg scope \<lparr>sm_progress = p, sm_total = tot, sm_env = s\<rparr> = (r, m)" by force
  with process_scope_ended [OF assms, of cfg scope "\<lparr>sm_progress = p, sm_total = tot, sm_env = s\<rparr>"]
  have "ended r" by simp
  then consider (ok) x where "r = Ok x" | (err) d where "r = Err (SourceError d)"
    by (cases r) (auto simp: ended_Err)
  then show ?thesis
  proof cases
    case ok
    with ps show ?thesis by (simp add: run_scope_def is_ok_def)
  next
    case err
    with ps show ?thesis by (cases d) (simp_all add: run_scope_def is_ok_def)
  qed
qed

lemma on_store_record_ok:
  assumes "answering env"
  obtains t where "on_store (be_record env r k p) StateError s = (Ok (), t)"
proof -
  obtain t where "be_record env r k p s = (Ok (), t)" using assms unfolding answering_def by blast
  then show ?thesis by (intro that) (simp add: on_store_def)
qed

lemma process_scopes_ok:
  assumes "answering env"
  shows "\<exists>x t. process_scopes env cfg scopes known tot ex evs s = (Ok x, t)"
proof (induction scopes arbitrary: known tot ex evs s)
  case Nil
  then show ?case by (simp add: give_def)
next
  case (Cons scope scopes)
  let ?p = "unwrap_or (bt_get known (scope_key scope)) (fresh_progress scope)"
  obtain q tot' x s1 where run: "run_scope env cfg scope ?p tot s = (Ok (q, tot', x), s1)"
    using run_scope_ok [OF assms, of cfg scope ?p tot s]
    by (cases "run_scope env cfg scope ?p tot s") (auto simp: is_ok_def split: result.splits)
  obtain s2 where "on_store (be_record env (bc_run_id cfg) (bc_token cfg)
      (q\<lparr>sp_status := scope_terminal_status q\<rparr>)) StateError s1 = (Ok (), s2)"
    by (rule on_store_record_ok [OF assms])
  with run Cons.IH show ?case by (simp add: Let_def seq_def)
qed

lemma finalize_ok:
  assumes "answering env"
  shows "\<exists>out t. finalize env cfg gap c e s = (Ok out, t)"
proof -
  have "validate_gap_transition Backfilling (gap_target_status c) = Ok ()"
    by (simp add: validate_gap_transition_def gap_target_legal)
  moreover have "\<exists>t. on_store (be_finalize env out k) StateError s = (Ok (), t)" for out k
  proof -
    obtain t where "be_finalize env out k s = (Ok (), t)" using assms unfolding answering_def by blast
    then show ?thesis by (simp add: on_store_def)
  qed
  ultimately show ?thesis
    unfolding finalize_def Let_def
    by (auto simp: seq_Ok lift_r_def give_def)
qed

lemma process_claimed_ok:
  assumes "answering env"
  shows "\<exists>out t. process_claimed env budget g s = (Ok out, t)"
proof -
  obtain known s1 where k: "on_store (be_known_scopes env (cg_gap_id g)) StateError s = (Ok known, s1)"
  proof -
    obtain known s1 where "be_known_scopes env (cg_gap_id g) s = (Ok known, s1)"
      using assms unfolding answering_def by blast
    then show ?thesis by (intro that) (simp add: on_store_def)
  qed
  obtain persisted s2 where l: "on_store (be_load env (cg_run_id g)) StateError s1 = (Ok persisted, s2)"
  proof -
    obtain persisted s2 where "be_load env (cg_run_id g) s1 = (Ok persisted, s2)"
      using assms unfolding answering_def by blast
    then show ?thesis by (intro that) (simp add: on_store_def)
  qed
  let ?cfg = "\<lparr>bc_budget = budget, bc_run_id = cg_run_id g, bc_token = cg_lease_token g\<rparr>"
  have "\<exists>out t. run_gap env ?cfg (cg_gap_id g) scopes progress s2 = (Ok out, t)" for scopes progress
  proof (cases "scopes = []")
    case True
    then show ?thesis by (simp add: run_gap_def Let_def finalize_ok [OF assms])
  next
    case False
    obtain ex evs s3 where "process_scopes env ?cfg scopes progress (initial_total progress) False [] s2
        = (Ok (ex, evs), s3)"
      using process_scopes_ok [OF assms, of ?cfg scopes progress "initial_total progress" False "[]" s2] by auto
    with False show ?thesis by (simp add: run_gap_def Let_def seq_def finalize_ok [OF assms])
  qed
  with k l show ?thesis by (simp add: process_claimed_def Let_def seq_def)
qed

section \<open>Properties\<close>

text \<open>
  The environment of the witnesses: one scope with one page, from a source that proves the order
  of its pages, the start of the history and the set of conversations. Its state is the log of the
  reads of a page and of the messages stored.
\<close>

datatype backfill_event = Fetched backfill_scope | Stored envelope

definition demo_account :: source_account_ref where
  "demo_account = \<lparr>sar_channel = NapCat, sar_account_id = ''2''\<rparr>"

definition demo_conversation :: conversation_ref where
  "demo_conversation = \<lparr>conv_kind = GroupConversation, conv_id = ''3''\<rparr>"

definition demo_envelope :: envelope where
  "demo_envelope =
     \<lparr>source = \<lparr>smr_channel = NapCat, smr_account_id = ''2'', smr_message_id = ''m''\<rparr>,
      conversation = demo_conversation, actor = \<lparr>actor_kind = External, actor_id = ''o''\<rparr>,
      occurred_at = 7, normalized_text = [], segments = [], epoch_id = None, sender_profile = None\<rparr>"

definition demo_page :: backfill_page where
  "demo_page =
     \<lparr>page_items = [\<lparr>item_envelope = demo_envelope,
                      item_anchor = \<lparr>anchor_message_id = ''m'', anchor_message_seq = ''s''\<rparr>\<rparr>],
      page_continuation = ProvenHistoryStart\<rparr>"

definition demo_gap :: claimed_gap where
  "demo_gap =
     \<lparr>cg_run_id = BackfillRunId ''r'', cg_lease_token = BackfillLeaseToken ''t'',
      cg_gap_id = IngestionGapId ''g'', cg_account = demo_account, cg_epoch_id = ConnectionEpochId ''e'',
      cg_is_resume = False\<rparr>"

definition demo_env :: "backfill_event list backfill_env" where
  "demo_env =
     \<lparr>be_claim = (\<lambda>_. give (Some demo_gap)), be_reclaim = (\<lambda>_ _. give []),
      be_known_scopes = (\<lambda>_. give [\<lparr>ks_conversation = demo_conversation, ks_boundary_cursor = None\<rparr>]),
      be_record = (\<lambda>_ _ _. give ()), be_load = (\<lambda>_. give None), be_finalize = (\<lambda>_ _. give ()),
      be_insert = (\<lambda>e s. (Ok (Accepted (SourceEventId ''i'') None), s @ [Stored e])),
      be_fetch = (\<lambda>scope _ _ s. (Ok demo_page, s @ [Fetched scope])),
      be_history_start_proven = True, be_page_order_proven = True, be_account_set_proven = True\<rparr>"

definition demo_budget :: backfill_budget where
  "demo_budget =
     \<lparr>page_size = 20, max_pages_per_scope = 50, max_events_per_run = 500, max_concurrency = 2,
      earliest_occurred_at = Some 5, lease_secs = 60, retry_initial_ms = 500, retry_max_ms = 5000\<rparr>"

definition demo_config :: backfill_config where
  "demo_config = \<lparr>bc_budget = demo_budget, bc_run_id = BackfillRunId ''r'', bc_token = BackfillLeaseToken ''t''\<rparr>"

definition demo_scope :: backfill_scope where
  "demo_scope = \<lparr>scope_account = demo_account, scope_conversation = demo_conversation, boundary_cursor = None\<rparr>"

definition demo_start :: "backfill_event list scope_machine" where
  "demo_start = \<lparr>sm_progress = fresh_progress demo_scope, sm_total = 0, sm_env = []\<rparr>"

definition demo_progress :: scope_progress where
  "demo_progress =
     \<lparr>sp_conversation = demo_conversation, sp_status = ScopeBackfilling, sp_last_cursor = None,
      sp_pages_read = 1, sp_events_read = 1, sp_accepted = 1, sp_duplicates = 0,
      sp_reached_boundary = True, sp_anomalies = []\<rparr>"

lemma demo_valid: "validate_page demo_scope None demo_page {} True = []"
  by (simp add: validate_page_def demo_page_def demo_scope_def demo_envelope_def item_anomalies_def
      anchor_is_stable_def graphic_not_blank graphic_def account_ref_def demo_account_def Let_def)

definition demo_log :: "backfill_event list" where
  "demo_log = [Fetched demo_scope, Stored demo_envelope]"

lemma demo_turn:
  "scope_turn demo_env demo_config demo_scope None {} (on_progress (\<lambda>p. p\<lparr>sp_status := ScopeBackfilling\<rparr>) demo_start)
     = (Ok (BreakLoop False), \<lparr>sm_progress = demo_progress, sm_total = 1, sm_env = demo_log\<rparr>)"
proof -
  have "read_page demo_env demo_config demo_scope None {} demo_page
      ((on_progress (\<lambda>p. p\<lparr>sp_status := ScopeBackfilling\<rparr>) demo_start)\<lparr>sm_env := [Fetched demo_scope]\<rparr>)
      = (Ok (BreakLoop False), \<lparr>sm_progress = demo_progress, sm_total = 1, sm_env = demo_log\<rparr>)"
    using demo_valid
    by (simp add: read_page_def Let_def demo_env_def demo_page_def demo_config_def demo_budget_def
        demo_start_def fresh_progress_def on_progress_def seq_def insert_item_def on_env_def count_event_def
        is_some_and_def note_outcome_def is_boundary_def demo_scope_def no_flags_def give_def
        after_items_def break_with_def demo_progress_def demo_envelope_def demo_log_def)
  then show ?thesis
    by (simp add: scope_turn_def cursor_anomaly_def record_progress_def on_env_def seq_def give_def
        demo_env_def demo_config_def demo_budget_def demo_start_def fresh_progress_def on_progress_def)
qed

lemma demo_process_scope:
  "process_scope demo_env demo_config demo_scope demo_start
     = (Ok False, \<lparr>sm_progress = demo_progress, sm_total = 1, sm_env = demo_log\<rparr>)"
proof -
  have "scope_loop demo_env demo_config demo_scope None {}
      (on_progress (\<lambda>p. p\<lparr>sp_status := ScopeBackfilling\<rparr>) demo_start)
      = (Ok False, \<lparr>sm_progress = demo_progress, sm_total = 1, sm_env = demo_log\<rparr>)"
    by (subst scope_loop.simps) (simp add: demo_turn)
  then show ?thesis
    by (simp add: process_scope_def Let_def demo_scope_def demo_start_def fresh_progress_def)
qed

definition demo_outcome :: backfill_outcome where
  "demo_outcome =
     \<lparr>bo_run_id = BackfillRunId ''r'', bo_gap_id = IngestionGapId ''g'', bo_completeness = ProvenComplete,
      bo_evidence = \<lparr>ev_scopes = [progress_to_evidence (demo_progress\<lparr>sp_status := ScopeVerifiedComplete\<rparr>)],
                     ev_account_set_proven = True, ev_budget_exhausted = False\<rparr>,
      bo_gap_target_status = VerifiedComplete, bo_gap_reason = None, bo_failure_class = None\<rparr>"

lemma demo_run: "process_claimed demo_env demo_budget demo_gap [] = (Ok demo_outcome, demo_log)"
proof -
  have cfg: "\<lparr>bc_budget = demo_budget, bc_run_id = cg_run_id demo_gap, bc_token = cg_lease_token demo_gap\<rparr> = demo_config"
    by (simp add: demo_config_def demo_gap_def)
  have status: "scope_terminal_status demo_progress = ScopeVerifiedComplete"
    by (simp add: scope_terminal_status_def evidence_is_complete_def progress_to_evidence_def demo_progress_def)
  have run: "run_scope demo_env demo_config demo_scope (fresh_progress demo_scope) 0 []
      = (Ok (demo_progress, 1, False), demo_log)"
    using demo_process_scope by (simp add: run_scope_def demo_start_def)
  have fresh: "sp_status (fresh_progress demo_scope) \<noteq> ScopeVerifiedComplete" by (simp add: fresh_progress_def)
  have ports: "be_record demo_env r k p s = (Ok (), s)" "be_finalize demo_env o1 k s = (Ok (), s)" for r k p o1 s
    by (simp_all add: demo_env_def give_def)
  have scopes: "process_scopes demo_env demo_config [demo_scope] [] 0 False [] []
      = (Ok (False, [progress_to_evidence (demo_progress\<lparr>sp_status := ScopeVerifiedComplete\<rparr>)]), demo_log)"
    using fresh run by (simp add: Let_def seq_def on_store_def ports status bt_remove_def give_def)
  have verdict: "from_evidence (bo_evidence demo_outcome) = ProvenComplete"
    by (simp add: from_evidence_proven demo_outcome_def progress_to_evidence_def demo_progress_def)
  have "run_gap demo_env demo_config (IngestionGapId ''g'') [demo_scope] [] [] = (Ok demo_outcome, demo_log)"
    using scopes verdict
    by (simp add: run_gap_def Let_def seq_def initial_total_def demo_outcome_def finalize_def lift_r_def
        on_store_def ports give_def validate_gap_transition_def legal_transition_def demo_config_def)
      (simp add: demo_env_def)
  moreover have "gap_scopes demo_gap [\<lparr>ks_conversation = demo_conversation, ks_boundary_cursor = None\<rparr>] = [demo_scope]"
    by (simp add: gap_scopes_def demo_gap_def demo_scope_def)
  moreover have "be_known_scopes demo_env i s = (Ok [\<lparr>ks_conversation = demo_conversation, ks_boundary_cursor = None\<rparr>], s)"
    "be_load demo_env r s = (Ok None, s)" for i r s
    by (simp_all add: demo_env_def give_def)
  ultimately show ?thesis
    unfolding process_claimed_def Let_def cfg
    by (simp add: seq_def on_store_def progress_map_def) (simp add: demo_gap_def)
qed

text \<open>
  C17: a gap is only ever declared \<open>verified_complete\<close> when the source proves the account's set
  of conversations and the order of its pages, the budget was not exhausted, the store knows a
  scope of the gap, and the evidence holds, in order, one entry for each of the known scopes and
  no other: that of a scope whose pages were read to its boundary without an anomaly, by the page
  loop of this run, which ended without an error and within the budget, or, as stored, by an
  earlier claim of the run that verified the scope. With a source that proves neither, as the real
  one, no run can complete a gap, whatever its pages hold.
\<close>

theorem verified_complete_needs_proof:
  assumes "process_claimed env budget g s = (Ok out, t)"
    and "\<And>s ps t. be_load env (cg_run_id g) s = (Ok (Some ps), t) \<Longrightarrow> \<forall>p\<in>set ps. honest env p"
    and "bo_gap_target_status out = VerifiedComplete"
  shows "be_account_set_proven env \<and> be_page_order_proven env
    \<and> ev_scopes (bo_evidence out) \<noteq> [] \<and> \<not> ev_budget_exhausted (bo_evidence out)
    \<and> (\<exists>known s1 persisted s2.
          be_known_scopes env (cg_gap_id g) s = (Ok known, s1) \<and> be_load env (cg_run_id g) s1 = (Ok persisted, s2)
          \<and> list_all2 (\<lambda>scope e.
               se_scope_key e = scope_key scope \<and> 0 < se_pages_read e \<and> se_reached_boundary e \<and> se_anomalies e = []
               \<and> ((\<exists>p\<in>set (unwrap_or persisted []).
                      sp_status p = ScopeVerifiedComplete \<and> e = progress_to_evidence p)
                  \<or> (\<exists>m m'. process_scope env
                        \<lparr>bc_budget = budget, bc_run_id = cg_run_id g, bc_token = cg_lease_token g\<rparr> scope m
                        = (Ok False, m') \<and> e = progress_to_evidence (sm_progress m'))))
              (gap_scopes g known) (ev_scopes (bo_evidence out)))"
proof -
  let ?cfg = "\<lparr>bc_budget = budget, bc_run_id = cg_run_id g, bc_token = cg_lease_token g\<rparr>"
  from assms(1) obtain known s1 persisted s2 where
    known: "be_known_scopes env (cg_gap_id g) s = (Ok known, s1)"
    and load: "be_load env (cg_run_id g) s1 = (Ok persisted, s2)"
    and run: "run_gap env ?cfg (cg_gap_id g) (gap_scopes g known) (progress_map (unwrap_or persisted [])) s2
        = (Ok out, t)"
    by (rule process_claimed_run)
  let ?ps = "set (unwrap_or persisted [])" and ?es = "ev_scopes (bo_evidence out)"
  have "\<forall>p\<in>?ps. honest env p" using load assms(2) by (cases persisted) auto
  note ev = run_gap_evidence [OF run progress_map_of [OF this]]
  then have proven: "from_evidence (bo_evidence out) = ProvenComplete"
    using assms(3) by (metis gap_verified_iff)
  then have scopes: "?es \<noteq> []" and exhausted: "\<not> ev_budget_exhausted (bo_evidence out)"
    and complete: "\<And>e. e \<in> set ?es \<Longrightarrow> 0 < se_pages_read e \<and> se_reached_boundary e \<and> se_anomalies e = []"
    by (auto simp: from_evidence_proven)
  from ev exhausted have all: "list_all2 (evidenced env ?cfg False ?ps) (gap_scopes g known) ?es" by simp
  have order: "be_page_order_proven env"
    using all scopes complete by (cases ?es) (auto simp: list_all2_Cons2 evidenced_def)
  have "list_all2 (\<lambda>scope e.
               se_scope_key e = scope_key scope \<and> 0 < se_pages_read e \<and> se_reached_boundary e \<and> se_anomalies e = []
               \<and> ((\<exists>p\<in>?ps. sp_status p = ScopeVerifiedComplete \<and> e = progress_to_evidence p)
                  \<or> (\<exists>m m'. process_scope env ?cfg scope m = (Ok False, m')
                        \<and> e = progress_to_evidence (sm_progress m'))))
              (gap_scopes g known) ?es"
    by (rule list.rel_mono_strong [OF all]) (simp add: complete evidenced_read)
  with ev proven known load scopes exhausted order show ?thesis by (auto simp: from_evidence_proven)
qed

theorem verified_complete_needs_proof_witness:
  "be_account_set_proven demo_env \<and> be_page_order_proven demo_env
   \<and> list_all2 (\<lambda>scope e. se_scope_key e = scope_key scope \<and> 0 < se_pages_read e \<and> se_reached_boundary e
        \<and> se_anomalies e = []
        \<and> (\<exists>m m'. process_scope demo_env demo_config scope m = (Ok False, m')
             \<and> e = progress_to_evidence (sm_progress m')))
      [demo_scope] (ev_scopes (bo_evidence demo_outcome))"
proof -
  have "\<forall>p\<in>set ps. honest demo_env p" if "be_load demo_env (cg_run_id demo_gap) s = (Ok (Some ps), t)" for s ps t
    using that by (simp add: demo_env_def give_def)
  note verified = verified_complete_needs_proof [OF demo_run this]
  have "gap_scopes demo_gap [\<lparr>ks_conversation = demo_conversation, ks_boundary_cursor = None\<rparr>] = [demo_scope]"
    and "\<lparr>bc_budget = demo_budget, bc_run_id = cg_run_id demo_gap, bc_token = cg_lease_token demo_gap\<rparr> = demo_config"
    and "be_known_scopes demo_env i s = (Ok [\<lparr>ks_conversation = demo_conversation, ks_boundary_cursor = None\<rparr>], s)"
    and "be_load demo_env r s = (Ok None, s)" and "bo_gap_target_status demo_outcome = VerifiedComplete" for i r s
    by (simp_all add: demo_gap_def gap_scopes_def demo_scope_def demo_config_def demo_env_def give_def demo_outcome_def)
  with verified show ?thesis by simp
qed

text \<open>
  C30: whatever pages the source returns and in whatever order, and also when the run fails half
  way, a run stores a message only while the page it is from is the last one the source has
  returned, and only if it is of the gap's account and of the conversation of the scope that page
  was read for, has a stable id and is not older than the configured cutoff: every property of
  the stores and the source that such insertions keep is kept by the run.
\<close>

theorem backfill_stores_admissible_only:
  assumes "reads_keep I J env budget (cg_account g)"
    and "process_claimed env budget g s = (r, t)" and "I s"
  shows "I t"
  using keepsD [OF process_claimed_keeps [OF assms(1)] assms(3,2)] .

text \<open>In the witness, each message of the log is admitted by the scope of the read before it.\<close>

fun stored_in_scope :: "backfill_scope option \<Rightarrow> backfill_event list \<Rightarrow> bool" where
  "stored_in_scope prev [] = True"
| "stored_in_scope prev (Fetched scope # es) = stored_in_scope (Some scope) es"
| "stored_in_scope prev (Stored e # es) =
     (is_some_and prev (\<lambda>scope. admissible demo_budget scope e) \<and> stored_in_scope prev es)"

fun last_fetched :: "backfill_scope option \<Rightarrow> backfill_event list \<Rightarrow> backfill_scope option" where
  "last_fetched prev [] = prev"
| "last_fetched prev (Fetched scope # es) = last_fetched (Some scope) es"
| "last_fetched prev (Stored e # es) = last_fetched prev es"

lemma stored_in_scope_append:
  "stored_in_scope prev (es @ fs) \<longleftrightarrow> stored_in_scope prev es \<and> stored_in_scope (last_fetched prev es) fs"
  and last_fetched_append: "last_fetched prev (es @ fs) = last_fetched (last_fetched prev es) fs"
  by (induction prev es rule: stored_in_scope.induct) auto

theorem backfill_stores_admissible_only_witness:
  "process_claimed demo_env demo_budget demo_gap [] = (Ok demo_outcome, demo_log)
   \<and> stored_in_scope None demo_log"
proof (rule conjI [OF demo_run], rule backfill_stores_admissible_only [OF _ demo_run])
  show "reads_keep (stored_in_scope None)
      (\<lambda>scope page es. stored_in_scope None es \<and> last_fetched None es = Some scope)
      demo_env demo_budget (cg_account demo_gap)"
    by (auto simp: reads_keep_def keeps_def demo_env_def give_def stored_in_scope_append last_fetched_append
        is_some_and_def)
qed simp

text \<open>
  C31: the page loop of a scope always ends, and within the budget: it never reads more pages or
  counts more events than allowed, whatever the source returns, and its 32-bit counters never
  wrap and stay consistent (stored and duplicate messages are among the events read).
\<close>

theorem backfill_budget_respected:
  assumes "process_scope env cfg scope m = (r, m')" and "within_budget (bc_budget cfg) m"
  shows "within_budget (bc_budget cfg) m'"
  using within_budget_steps [OF process_scope_steps [OF assms(1)] assms(2)] .

theorem backfill_budget_respected_witness:
  "within_budget demo_budget \<lparr>sm_progress = demo_progress, sm_total = 1, sm_env = demo_log\<rparr>"
proof -
  have "within_budget (bc_budget demo_config) demo_start"
    by (simp add: within_budget_def demo_config_def demo_budget_def demo_start_def fresh_progress_def)
  from backfill_budget_respected [OF demo_process_scope this] show ?thesis by (simp add: demo_config_def)
qed

text \<open>
  The page loop of a scope refines the abstract steps of a scope: each change it makes to the
  stores, the counters and the evidence is one that the steps allow, in particular it stores only
  admissible messages while the event budget lasts, and reports a boundary only on the evidence
  of a proven order.
\<close>

theorem process_scope_refines_steps:
  assumes "process_scope env cfg scope m = (r, m')"
  shows "scope_steps env cfg scope m m'"
  using assms by (rule process_scope_steps)

theorem process_scope_refines_steps_witness:
  "scope_steps demo_env demo_config demo_scope demo_start
     \<lparr>sm_progress = demo_progress, sm_total = 1, sm_env = demo_log\<rparr>"
  using demo_process_scope by (rule process_scope_refines_steps)

text \<open>
  Every claimed gap is finalized: as long as the state store answers, a run ends with an
  outcome even when the message store and the history source fail in any call, and the status it
  gives the gap is a legal successor of \<open>backfilling\<close>.
\<close>

theorem claimed_gap_is_finalized:
  assumes "answering env"
  shows "\<exists>out t. process_claimed env budget g s = (Ok out, t)
    \<and> legal_transition Backfilling (gap_target_status (bo_completeness out))"
  using process_claimed_ok [OF assms] gap_target_legal by blast

theorem claimed_gap_is_finalized_witness:
  "\<exists>out t. process_claimed demo_env demo_budget demo_gap [] = (Ok out, t)
    \<and> legal_transition Backfilling (gap_target_status (bo_completeness out))"
  by (rule claimed_gap_is_finalized) (simp add: answering_def demo_env_def give_def)

end
