(* ===== verification/Gap_Properties.thy ===== *)
theory Gap_Properties
  imports Backfill
begin

text \<open>
  Properties of the backfill domain that need no run: the state machine of a gap, the validation
  of a budget, the stored forms of the statuses, and the policy for claiming a gap again.
\<close>

section \<open>The gap state machine\<close>

inductive gap_step :: "ingestion_gap_status \<Rightarrow> ingestion_gap_status \<Rightarrow> bool" where
  "validate_gap_transition a b = Ok () \<Longrightarrow> gap_step a b"

inductive_simps gap_step_iff: "gap_step a b"

definition terminal_gap :: "ingestion_gap_status \<Rightarrow> bool" where
  "terminal_gap a \<longleftrightarrow> a = VerifiedComplete \<or> a = Unrecoverable"

lemma validate_gap_transition_Ok: "validate_gap_transition a b = Ok u \<longleftrightarrow> legal_transition a b"
  by (simp add: validate_gap_transition_def)

lemma gap_step_cases:
  "gap_step a b \<longleftrightarrow>
     (a = Uncertain \<and> b = Backfilling) \<or> (a = Backfilling \<and> b \<noteq> Backfilling) \<or> (terminal_gap a \<and> b = a)"
  by (cases a; cases b)
    (simp_all add: gap_step_iff validate_gap_transition_Ok legal_transition_def terminal_gap_def)

lemma terminal_gap_absorbing:
  "gap_step\<^sup>*\<^sup>* a b \<Longrightarrow> terminal_gap a \<Longrightarrow> b = a"
  by (induction rule: rtranclp_induct) (auto simp: gap_step_cases terminal_gap_def)

lemma terminal_gap_from_backfilling:
  "gap_step\<^sup>*\<^sup>* a b \<Longrightarrow> terminal_gap b \<Longrightarrow> \<not> terminal_gap a \<Longrightarrow> gap_step\<^sup>*\<^sup>* a Backfilling \<and> gap_step Backfilling b"
proof (induction rule: rtranclp_induct)
  case base
  then show ?case by simp
next
  case (step b c)
  show ?case
  proof (cases "terminal_gap b")
    case True
    with step.hyps(2) have "c = b" by (auto simp: gap_step_cases terminal_gap_def)
    with True step show ?thesis by simp
  next
    case False
    with step.hyps(2) step.prems(1) have "b = Backfilling" by (auto simp: gap_step_cases terminal_gap_def)
    with step.hyps show ?thesis by simp
  qed
qed

section \<open>Budgets\<close>

definition budget_ok :: "backfill_budget \<Rightarrow> bool" where
  "budget_ok b \<longleftrightarrow>
     unat (page_size b) \<in> {1..100}
     \<and> (\<forall>v. earliest_occurred_at b = Some v \<longrightarrow> 0 \<le> v)
     \<and> unat (max_pages_per_scope b) \<in> {1..10000} \<and> unat (max_events_per_run b) \<in> {1..1000000}
     \<and> unat (max_concurrency b) \<in> {1..64} \<and> unat (lease_secs b) \<in> {1..3600}
     \<and> 1 \<le> unat (retry_initial_ms b) \<and> unat (retry_initial_ms b) \<le> unat (retry_max_ms b)
     \<and> unat (retry_max_ms b) \<le> 300000"

lemma check_positive_Ok: "check_positive v field = Ok u \<longleftrightarrow> 1 \<le> unat v"
  by (auto simp: check_positive_def Suc_le_eq unat_gt_0)

lemma check_positive_no_Panic: "check_positive v field \<noteq> Panic"
  by (simp add: check_positive_def)

lemma page_size_range: "page_size b = 0 \<or> 100 < page_size b \<longleftrightarrow> unat (page_size b) \<notin> {1..100}"
  by (auto simp: word_less_nat_alt Suc_le_eq unat_gt_0)

lemma budget_validate_Ok: "budget_validate b = Ok u \<longleftrightarrow> budget_ok b"
proof -
  have "budget_validate b = Ok u \<longleftrightarrow>
      unat (page_size b) \<in> {1..100} \<and> \<not> is_some_and (earliest_occurred_at b) (\<lambda>v. v < 0)
      \<and> 1 \<le> unat (max_pages_per_scope b) \<and> 1 \<le> unat (max_events_per_run b)
      \<and> 1 \<le> unat (max_concurrency b) \<and> 1 \<le> unat (lease_secs b) \<and> 1 \<le> unat (retry_initial_ms b)
      \<and> 1 \<le> unat (retry_max_ms b) \<and> unat (max_pages_per_scope b) \<le> 10000
      \<and> unat (max_events_per_run b) \<le> 1000000 \<and> unat (max_concurrency b) \<le> 64
      \<and> unat (lease_secs b) \<le> 3600 \<and> unat (retry_max_ms b) \<le> 300000
      \<and> unat (retry_initial_ms b) \<le> unat (retry_max_ms b)"
    unfolding budget_validate_def page_size_range
    by (simp add: result_simps check_positive_Ok word_less_nat_alt not_less)
  moreover have "\<not> is_some_and (earliest_occurred_at b) (\<lambda>v. v < 0) \<longleftrightarrow>
      (\<forall>v. earliest_occurred_at b = Some v \<longrightarrow> 0 \<le> v)"
    by (auto simp: is_some_and_def split: option.splits)
  ultimately show ?thesis by (auto simp: budget_ok_def)
qed

lemma budget_validate_no_Panic: "budget_validate b \<noteq> Panic"
  by (simp add: budget_validate_def result_simps check_positive_no_Panic)

text \<open>Two scopes of one run: one reached the cutoff, the other was refused for good.\<close>

definition mixed_evidence :: backfill_evidence where
  "mixed_evidence =
     (let e = \<lparr>se_scope_key = ''private:2'', se_pages_read = 2, se_events_read = 2, se_accepted = 2,
               se_duplicates = 0, se_anchor_chain = [], se_reached_boundary = False,
               se_anomalies = [ConfiguredCutoffReached]\<rparr> in
      \<lparr>ev_scopes = [e, e\<lparr>se_scope_key := ''private:3'', se_anomalies := [PermissionDenied]\<rparr>],
       ev_account_set_proven = False, ev_budget_exhausted = False\<rparr>)"

section \<open>Properties\<close>

text \<open>
  A gap is completed or given up only out of \<open>backfilling\<close>: along the transitions the
  validation accepts, a terminal status is never left, and it is only reached by a history that
  claims the gap for backfill and then takes one step from there.
\<close>

theorem gap_terminal_only_after_backfill:
  assumes "gap_step\<^sup>*\<^sup>* Uncertain b" and "terminal_gap b"
  shows "gap_step\<^sup>*\<^sup>* Uncertain Backfilling \<and> gap_step Backfilling b \<and> (\<forall>c. gap_step\<^sup>*\<^sup>* b c \<longrightarrow> c = b)"
  using terminal_gap_from_backfilling [OF assms] terminal_gap_absorbing assms(2)
  by (auto simp: terminal_gap_def)

theorem gap_terminal_only_after_backfill_witness: "gap_step Backfilling VerifiedComplete"
proof -
  have "gap_step Uncertain Backfilling" "gap_step Backfilling VerifiedComplete"
    by (simp_all add: gap_step_cases)
  then have "gap_step\<^sup>*\<^sup>* Uncertain VerifiedComplete" by auto
  from gap_terminal_only_after_backfill [OF this] show ?thesis by (simp add: terminal_gap_def)
qed

text \<open>
  The validation of a budget accepts exactly the budgets whose fields lie in their documented
  ranges: at most 100 events a page, positive and capped page, event, concurrency, lease and retry
  limits, a first retry delay no longer than the last, and no cutoff before the epoch.
\<close>

theorem budget_validation_exact:
  "(budget_validate b = Ok () \<longleftrightarrow> budget_ok b) \<and> budget_validate b \<noteq> Panic"
  by (simp add: budget_validate_Ok budget_validate_no_Panic)

text \<open>
  The stored form of every status is read back as that status, and nothing else is read as
  one: parsing and rendering are inverse for runs, scopes and completeness verdicts.
\<close>

theorem backfill_status_roundtrip:
  "(run_status_parse v = Some rs \<longleftrightarrow> v = run_status_str rs)
    \<and> (scope_status_parse v = Some ss \<longleftrightarrow> v = scope_status_str ss)
    \<and> (completeness_parse v = Some c \<longleftrightarrow> v = completeness_str c)"
  by (cases rs; cases ss; cases c)
    (auto simp: run_status_parse_def scope_status_parse_def completeness_parse_def)

text \<open>
  An outcome can give its gap the terminal status \<open>unrecoverable\<close> and at the same time ask to
  have it suspended instead of removed from the schedule: the cutoff of one scope hides that
  another scope was refused for good.
\<close>

theorem terminal_gap_suspended:
  "gap_target_status (from_evidence mixed_evidence) = Unrecoverable
    \<and> completeness_reclaim_policy (from_evidence mixed_evidence) = Terminal
    \<and> outcome_reclaim_policy
         \<lparr>bo_run_id = r, bo_gap_id = g, bo_completeness = from_evidence mixed_evidence,
          bo_evidence = mixed_evidence, bo_gap_target_status = Unrecoverable, bo_gap_reason = None,
          bo_failure_class = None\<rparr> = Suspended"
  by (simp add: mixed_evidence_def from_evidence_def any_unrecoverable_def evidence_is_unrecoverable_def
      anomaly_is_unrecoverable_def outcome_reclaim_policy_def configured_cutoff_reached_def Let_def)

end
