(* ===== verification/Realtime_Spool.thy ===== *)
theory Realtime_Spool
  imports Inbound_Message "HOL-Library.Sublist"
begin

text \<open>
  The realtime spool (\<open>personal-secretary/src/domain/realtime_spool.rs\<close>): admission of frames,
  recovery from the log, progress of a replay and the prefix of the log a checkpoint may cover,
  and the plan for an epoch left open; with the recall keys its hooks refer to
  (\<open>personal-secretary/src/domain/recall.rs\<close>).
\<close>

section \<open>Recall events\<close>

datatype recall_error = InvalidRecallIdentity string | CorrelationCollision string | RecallStore string

datatype recall_event_id = RecallEventId (recall_str: string)

definition recall_event_id_new :: "string \<Rightarrow> (recall_error, recall_event_id) result" where
  "recall_event_id_new v =
     (let trimmed = trim v in
      if trimmed = [] then Err (InvalidRecallIdentity ''recall_event_id must not be empty'')
      else if 36 < length trimmed
      then Err (InvalidRecallIdentity (''recall_event_id exceeds CHAR(36) limit (len='' @ decimal (length trimmed) @ '')''))
      else if length trimmed \<noteq> length v
      then Err (InvalidRecallIdentity ''recall_event_id must not contain leading/trailing whitespace'')
      else Ok (RecallEventId v))"

datatype recall_kind = GroupRecall | FriendRecall

primrec recall_kind_str :: "recall_kind \<Rightarrow> string" where
  "recall_kind_str GroupRecall = ''group''"
| "recall_kind_str FriendRecall = ''friend''"

definition recall_kind_parse :: "string \<Rightarrow> recall_kind option" where
  "recall_kind_parse v =
     (if v = ''group'' then Some GroupRecall else if v = ''friend'' then Some FriendRecall else None)"

record recall_correlation_key =
  rck_account :: source_account_ref
  rck_channel :: message_source
  rck_conversation :: conversation_ref
  rck_message_id :: string

definition recall_correlation_key_new ::
  "source_account_ref \<Rightarrow> message_source \<Rightarrow> conversation_ref \<Rightarrow> string \<Rightarrow>
     (recall_error, recall_correlation_key) result" where
  "recall_correlation_key_new acc ch conv mid =
     (if is_blank mid then Err (InvalidRecallIdentity ''platform_message_id must not be empty'')
      else Ok \<lparr>rck_account = acc, rck_channel = ch, rck_conversation = conv, rck_message_id = mid\<rparr>)"

definition recall_key_string :: "recall_correlation_key \<Rightarrow> string" where
  "recall_key_string k =
     message_source_str (sar_channel (rck_account k)) @ '':'' @ sar_account_id (rck_account k) @ '':''
     @ conversation_kind_str (conv_kind (rck_conversation k)) @ '':'' @ conv_id (rck_conversation k) @ '':''
     @ rck_message_id k"

record recall_event =
  re_id :: recall_event_id
  re_account :: source_account_ref
  re_kind :: recall_kind
  re_correlation :: recall_correlation_key
  re_operator :: "string option"
  re_occurred_at :: i64

datatype tombstone_status = TombstonePending | TombstoneApplied | IdempotentReapply

primrec tombstone_status_str :: "tombstone_status \<Rightarrow> string" where
  "tombstone_status_str TombstonePending = ''pending''"
| "tombstone_status_str TombstoneApplied = ''applied''"
| "tombstone_status_str IdempotentReapply = ''idempotent_reapply''"

definition tombstone_status_parse :: "string \<Rightarrow> tombstone_status option" where
  "tombstone_status_parse v =
     (if v = ''pending'' then Some TombstonePending
      else if v = ''applied'' then Some TombstoneApplied
      else if v = ''idempotent_reapply'' then Some IdempotentReapply
      else None)"

datatype invalidation_target =
    ThreadSemanticCandidates | OwnerResponseDraft | PlannerTemporaryResults | MemoryFactCandidates
  | CommitmentFollowUpCandidates | ArtifactReferences

primrec invalidation_target_str :: "invalidation_target \<Rightarrow> string" where
  "invalidation_target_str ThreadSemanticCandidates = ''thread_semantic_candidates''"
| "invalidation_target_str OwnerResponseDraft = ''owner_response_draft''"
| "invalidation_target_str PlannerTemporaryResults = ''planner_temporary_results''"
| "invalidation_target_str MemoryFactCandidates = ''memory_fact_candidates''"
| "invalidation_target_str CommitmentFollowUpCandidates = ''commitment_followup_candidates''"
| "invalidation_target_str ArtifactReferences = ''artifact_references''"

definition invalidation_targets :: "invalidation_target list" where
  "invalidation_targets =
     [ThreadSemanticCandidates, OwnerResponseDraft, PlannerTemporaryResults, MemoryFactCandidates,
      CommitmentFollowUpCandidates, ArtifactReferences]"

section \<open>Errors and identifiers of the spool\<close>

datatype spool_error = EmptySpoolField string | InvalidMessage | EpochMismatch

datatype spool_admission_id = SpoolAdmissionId (admission_str: string)
datatype spool_generation_id = SpoolGenerationId (generation_str: string)
datatype spool_record_id = SpoolRecordId (record_str: string)
datatype spool_lease_token = SpoolLeaseToken (spool_token_str: string)

definition spool_id_check :: "string \<Rightarrow> string \<Rightarrow> (spool_error, unit) result" where
  "spool_id_check field v = (if is_blank v then Err (EmptySpoolField field) else Ok ())"

definition spool_record_id_new :: "string \<Rightarrow> (spool_error, spool_record_id) result" where
  "spool_record_id_new v = bind_r (spool_id_check ''realtime_spool_record_id'' v) (\<lambda>_. Ok (SpoolRecordId v))"

datatype spool_rejection = InvalidBusinessFrame | UnsupportedBusinessFrame

datatype spool_fatal_kind =
    KeyUnavailable | LockUnavailable | CapacityExhausted | AppendFailed | SyncFailed | WriterStopped
  | CheckpointFailed | RecoveryCorruptFrame | RecoveryInvariantViolation | ReconciliationFailed

primrec spool_fatal_kind_str :: "spool_fatal_kind \<Rightarrow> string" where
  "spool_fatal_kind_str KeyUnavailable = ''key_unavailable''"
| "spool_fatal_kind_str LockUnavailable = ''lock_unavailable''"
| "spool_fatal_kind_str CapacityExhausted = ''capacity_exhausted''"
| "spool_fatal_kind_str AppendFailed = ''append_failed''"
| "spool_fatal_kind_str SyncFailed = ''sync_failed''"
| "spool_fatal_kind_str WriterStopped = ''writer_stopped''"
| "spool_fatal_kind_str CheckpointFailed = ''checkpoint_failed''"
| "spool_fatal_kind_str RecoveryCorruptFrame = ''recovery_corrupt_frame''"
| "spool_fatal_kind_str RecoveryInvariantViolation = ''recovery_invariant_violation''"
| "spool_fatal_kind_str ReconciliationFailed = ''reconciliation_failed''"

section \<open>Admission and recovered frames\<close>

record spool_admission =
  sa_id :: spool_admission_id
  sa_epoch :: connection_epoch_id
  sa_message :: envelope

definition check_ownership :: "connection_epoch_id \<Rightarrow> envelope \<Rightarrow> (spool_error, unit) result" where
  "check_ownership epoch msg =
     bind_r (map_err (\<lambda>_. InvalidMessage) (envelope_validate msg)) (\<lambda>_.
       ensure (epoch_id msg = Some epoch) EpochMismatch)"

definition spool_admission_new ::
  "spool_admission_id \<Rightarrow> connection_epoch_id \<Rightarrow> envelope \<Rightarrow> (spool_error, spool_admission) result" where
  "spool_admission_new i epoch msg =
     bind_r (check_ownership epoch msg) (\<lambda>_. Ok \<lparr>sa_id = i, sa_epoch = epoch, sa_message = msg\<rparr>)"

record spool_receipt =
  sr_admission :: spool_admission_id
  sr_generation :: spool_generation_id
  sr_record :: spool_record_id

record recovered_frame =
  rf_generation :: spool_generation_id
  rf_record :: spool_record_id
  rf_epoch :: connection_epoch_id
  rf_message :: envelope

definition recovered_frame_new ::
  "spool_generation_id \<Rightarrow> spool_record_id \<Rightarrow> connection_epoch_id \<Rightarrow> envelope \<Rightarrow>
     (spool_error, recovered_frame) result" where
  "recovered_frame_new g r epoch msg =
     bind_r (check_ownership epoch msg) (\<lambda>_.
       Ok \<lparr>rf_generation = g, rf_record = r, rf_epoch = epoch, rf_message = msg\<rparr>)"

datatype recovery_frame =
    Replay recovered_frame
  | TruncateIncompleteFinalTail
  | FrameFailClosed spool_fatal_kind

definition is_startup_replay_eligible :: "recovery_frame \<Rightarrow> bool" where
  "is_startup_replay_eligible f \<longleftrightarrow> (case f of Replay _ \<Rightarrow> True | _ \<Rightarrow> False)"

definition is_truncatable_final_tail :: "recovery_frame \<Rightarrow> bool" where
  "is_truncatable_final_tail f \<longleftrightarrow> f = TruncateIncompleteFinalTail"

section \<open>Progress of a replay\<close>

datatype spool_hook_key = RecallHook recall_correlation_key | ArtifactHook string

record replay_progress =
  rp_frame :: recovered_frame
  rp_ingestion :: "ingest_message_outcome option"
  rp_required :: "spool_hook_key list"
  rp_converged :: "spool_hook_key list"

definition unique_hook_keys :: "spool_hook_key list \<Rightarrow> spool_hook_key list" where
  "unique_hook_keys hooks = fold (\<lambda>h unique. if h \<in> set unique then unique else unique @ [h]) hooks []"

definition replay_pending :: "recovered_frame \<Rightarrow> spool_hook_key list \<Rightarrow> replay_progress" where
  "replay_pending f hooks =
     \<lparr>rp_frame = f, rp_ingestion = None, rp_required = unique_hook_keys hooks, rp_converged = []\<rparr>"

definition with_ingestion :: "ingest_message_outcome \<Rightarrow> replay_progress \<Rightarrow> replay_progress" where
  "with_ingestion out p = p\<lparr>rp_ingestion := Some out\<rparr>"

definition with_converged_hook :: "spool_hook_key \<Rightarrow> replay_progress \<Rightarrow> replay_progress" where
  "with_converged_hook h p =
     (if h \<in> set (rp_converged p) then p else p\<lparr>rp_converged := rp_converged p @ [h]\<rparr>)"

datatype checkpoint_eligibility = Eligible | PendingMysqlCommit | PendingHookConvergence

definition checkpoint_eligibility_of :: "replay_progress \<Rightarrow> checkpoint_eligibility" where
  "checkpoint_eligibility_of p =
     (if rp_ingestion p = None then PendingMysqlCommit
      else if list_ex (\<lambda>h. h \<notin> set (rp_converged p)) (rp_required p) then PendingHookConvergence
      else Eligible)"

record checkpoint_prefix =
  pre_generation :: spool_generation_id
  pre_records :: "spool_record_id list"

definition may_checkpoint :: "spool_generation_id \<Rightarrow> replay_progress \<Rightarrow> bool" where
  "may_checkpoint g p \<longleftrightarrow> rf_generation (rp_frame p) = g \<and> checkpoint_eligibility_of p = Eligible"

definition checkpointable_prefix :: "spool_generation_id \<Rightarrow> replay_progress list \<Rightarrow> checkpoint_prefix" where
  "checkpointable_prefix g ps =
     \<lparr>pre_generation = g,
      pre_records = map (\<lambda>p. rf_record (rp_frame p)) (takeWhile (may_checkpoint g) ps)\<rparr>"

section \<open>Epochs left open\<close>

record legacy_epoch =
  le_epoch :: connection_epoch_id
  le_account :: source_account_ref
  le_status :: connection_epoch_status

record claimed_epoch =
  ce_epoch :: legacy_epoch
  ce_token :: spool_lease_token

datatype recovery_plan =
    FinishConnectingWithoutFrames claimed_epoch
  | RecoverConnected claimed_epoch "recovered_frame list"
  | PlanFailClosed spool_fatal_kind

datatype recovery_stage =
  ReplayMysql | ConvergeRequiredHooks | DurableCheckpoint | FinalizeEpochAndUncertainGap

definition recovery_plan_for ::
  "claimed_epoch \<Rightarrow> recovered_frame list \<Rightarrow> recovery_plan" where
  "recovery_plan_for claim frames =
     (let epoch = ce_epoch claim in
      if \<not> list_all (\<lambda>f. rf_epoch f = le_epoch epoch
                      \<and> account_ref (source (rf_message f)) = le_account epoch) frames
      then PlanFailClosed RecoveryInvariantViolation
      else (case le_status epoch of
              Connecting \<Rightarrow>
                if frames = [] then FinishConnectingWithoutFrames claim
                else PlanFailClosed RecoveryInvariantViolation
            | Connected \<Rightarrow> RecoverConnected claim frames
            | _ \<Rightarrow> PlanFailClosed RecoveryInvariantViolation))"

definition connected_stages :: "recovery_plan \<Rightarrow> recovery_stage list" where
  "connected_stages p =
     (case p of
        RecoverConnected _ _ \<Rightarrow>
          [ReplayMysql, ConvergeRequiredHooks, DurableCheckpoint, FinalizeEpochAndUncertainGap]
      | _ \<Rightarrow> [])"

section \<open>Lemmas\<close>

lemma unique_hook_keys_fold:
  "distinct acc \<Longrightarrow>
     distinct (fold (\<lambda>h unique. if h \<in> set unique then unique else unique @ [h]) hooks acc)
     \<and> set (fold (\<lambda>h unique. if h \<in> set unique then unique else unique @ [h]) hooks acc) = set acc \<union> set hooks"
  by (induction hooks arbitrary: acc) auto

lemma unique_hook_keys: "distinct (unique_hook_keys hooks)" "set (unique_hook_keys hooks) = set hooks"
  using unique_hook_keys_fold [of "[]" hooks] by (simp_all add: unique_hook_keys_def)

lemma eligible_iff:
  "checkpoint_eligibility_of p = Eligible \<longleftrightarrow>
     rp_ingestion p \<noteq> None \<and> set (rp_required p) \<subseteq> set (rp_converged p)"
  by (auto simp: checkpoint_eligibility_of_def list_ex_iff)

text \<open>The replay goes on: messages are committed, hooks converge, frames and needs stay.\<close>

inductive replay_step :: "replay_progress \<Rightarrow> replay_progress \<Rightarrow> bool" where
  step_ingested: "replay_step p (with_ingestion out p)"
| step_converged: "replay_step p (with_converged_hook h p)"

lemma replay_step_keeps:
  "replay_step p q \<Longrightarrow> rp_frame q = rp_frame p \<and> (may_checkpoint g p \<longrightarrow> may_checkpoint g q)"
  by (induction rule: replay_step.induct)
    (auto simp: may_checkpoint_def eligible_iff with_ingestion_def with_converged_hook_def)

lemma replay_steps_keep:
  "replay_step\<^sup>*\<^sup>* p q \<Longrightarrow> rp_frame q = rp_frame p \<and> (may_checkpoint g p \<longrightarrow> may_checkpoint g q)"
  by (induction rule: rtranclp_induct) (auto dest: replay_step_keeps)

lemma prefix_grows:
  "list_all2 replay_step\<^sup>*\<^sup>* ps qs \<Longrightarrow>
     prefix (pre_records (checkpointable_prefix g ps)) (pre_records (checkpointable_prefix g qs))"
  by (induction rule: list_all2_induct) (auto simp: checkpointable_prefix_def dest: replay_steps_keep)

lemma prefix_records:
  "pre_records (checkpointable_prefix g ps)
     = map (\<lambda>p. rf_record (rp_frame p)) (take (length (pre_records (checkpointable_prefix g ps))) ps)"
  by (simp add: checkpointable_prefix_def takeWhile_eq_take [of "may_checkpoint g" ps, symmetric])

lemma prefix_complete:
  fixes g ps
  defines "k \<equiv> length (pre_records (checkpointable_prefix g ps))"
  shows "list_all (may_checkpoint g) (take k ps)" and "k = length ps \<or> \<not> may_checkpoint g (ps ! k)"
proof -
  have k: "k = length (takeWhile (may_checkpoint g) ps)" by (simp add: k_def checkpointable_prefix_def)
  have "take k ps = takeWhile (may_checkpoint g) ps" unfolding k by (simp add: takeWhile_eq_take [symmetric])
  then show "list_all (may_checkpoint g) (take k ps)" by (auto simp: list_all_iff dest: set_takeWhileD)
  have "k \<le> length ps" unfolding k by (rule length_takeWhile_le)
  then show "k = length ps \<or> \<not> may_checkpoint g (ps ! k)"
    unfolding k by (metis le_neq_implies_less nth_length_takeWhile)
qed

lemma recovered_frame_new_Ok [guard_simps]:
  "recovered_frame_new g r epoch msg = Ok f \<longleftrightarrow>
     f = \<lparr>rf_generation = g, rf_record = r, rf_epoch = epoch, rf_message = msg\<rparr>
     \<and> envelope_validate msg = Ok () \<and> epoch_id msg = Some epoch"
  by (auto simp: recovered_frame_new_def check_ownership_def result_simps)

lemma recovery_plan_cases:
  "recovery_plan_for claim frames =
     (if list_all (\<lambda>f. rf_epoch f = le_epoch (ce_epoch claim)
           \<and> account_ref (source (rf_message f)) = le_account (ce_epoch claim)) frames
       \<and> (le_status (ce_epoch claim) = Connected \<or> le_status (ce_epoch claim) = Connecting \<and> frames = [])
      then if le_status (ce_epoch claim) = Connected then RecoverConnected claim frames
           else FinishConnectingWithoutFrames claim
      else PlanFailClosed RecoveryInvariantViolation)"
  by (auto simp: recovery_plan_for_def Let_def split: connection_epoch_status.splits)

section \<open>Properties\<close>

text \<open>
  C22: the prefix of the log that a checkpoint may cover holds exactly the records of the longest
  run of leading frames of the generation that are committed to MySQL and whose required hooks
  have all converged; it never skips a frame that is not, and while the replay goes on (messages
  are committed, hooks converge) it only grows.
\<close>

theorem checkpoint_prefix_safe:
  assumes "list_all2 replay_step\<^sup>*\<^sup>* ps qs" and "k = length (pre_records (checkpointable_prefix g qs))"
  shows "prefix (pre_records (checkpointable_prefix g ps)) (pre_records (checkpointable_prefix g qs))
    \<and> pre_records (checkpointable_prefix g qs) = map (\<lambda>p. rf_record (rp_frame p)) (take k qs)
    \<and> list_all (\<lambda>p. rf_generation (rp_frame p) = g \<and> rp_ingestion p \<noteq> None
         \<and> set (rp_required p) \<subseteq> set (rp_converged p)) (take k qs)
    \<and> (k = length qs \<or> \<not> may_checkpoint g (qs ! k))"
  using prefix_grows [OF assms(1), of g] prefix_records [of g qs] prefix_complete [of g qs]
  unfolding assms(2)
  by (auto simp: list_all_iff may_checkpoint_def eligible_iff)

text \<open>
  An epoch left open is recovered as connected only from frames that carry valid messages of
  that epoch and that account, whatever the log held, and then through all four stages, the
  checkpoint before the epoch is finalized; it is finished as connecting only when no frame was
  logged; everything else fails closed.
\<close>

theorem recovery_plan_sound:
  assumes "list_all (\<lambda>f. \<exists>g r e m. recovered_frame_new g r e m = Ok f) frames"
  shows "case recovery_plan_for claim frames of
      RecoverConnected c fs \<Rightarrow>
        c = claim \<and> fs = frames \<and> le_status (ce_epoch claim) = Connected
        \<and> list_all (\<lambda>f. envelope_validate (rf_message f) = Ok ()
             \<and> epoch_id (rf_message f) = Some (le_epoch (ce_epoch claim))
             \<and> account_ref (source (rf_message f)) = le_account (ce_epoch claim)) frames
        \<and> connected_stages (recovery_plan_for claim frames)
            = [ReplayMysql, ConvergeRequiredHooks, DurableCheckpoint, FinalizeEpochAndUncertainGap]
    | FinishConnectingWithoutFrames c \<Rightarrow>
        c = claim \<and> frames = [] \<and> le_status (ce_epoch claim) = Connecting
        \<and> connected_stages (recovery_plan_for claim frames) = []
    | PlanFailClosed k \<Rightarrow>
        k = RecoveryInvariantViolation \<and> connected_stages (recovery_plan_for claim frames) = []
        \<and> (le_status (ce_epoch claim) \<noteq> Connected
           \<or> list_ex (\<lambda>f. rf_epoch f \<noteq> le_epoch (ce_epoch claim)
                 \<or> account_ref (source (rf_message f)) \<noteq> le_account (ce_epoch claim)) frames)"
proof -
  have "envelope_validate (rf_message f) = Ok () \<and> epoch_id (rf_message f) = Some (rf_epoch f)"
    if "f \<in> set frames" for f
    using that assms by (auto simp: list_all_iff recovered_frame_new_Ok)
  then show ?thesis
    by (auto simp: recovery_plan_cases connected_stages_def list_all_iff list_ex_iff)
qed

section \<open>Witnesses\<close>

definition sample_message :: "connection_epoch_id option \<Rightarrow> envelope" where
  "sample_message e =
     \<lparr>source = \<lparr>smr_channel = NapCat, smr_account_id = ''2'', smr_message_id = ''m''\<rparr>,
      conversation = \<lparr>conv_kind = GroupConversation, conv_id = ''3''\<rparr>,
      actor = \<lparr>actor_kind = External, actor_id = ''o''\<rparr>,
      occurred_at = 7, normalized_text = [], segments = [], epoch_id = e, sender_profile = None\<rparr>"

definition sample_frame :: "string \<Rightarrow> recovered_frame" where
  "sample_frame r =
     \<lparr>rf_generation = SpoolGenerationId ''g'', rf_record = SpoolRecordId r,
      rf_epoch = ConnectionEpochId ''e'', rf_message = sample_message (Some (ConnectionEpochId ''e''))\<rparr>"

definition sample_claim :: claimed_epoch where
  "sample_claim =
     \<lparr>ce_epoch = \<lparr>le_epoch = ConnectionEpochId ''e'',
        le_account = \<lparr>sar_channel = NapCat, sar_account_id = ''2''\<rparr>, le_status = Connected\<rparr>,
      ce_token = SpoolLeaseToken ''t''\<rparr>"

definition sample_progress :: "replay_progress list" where
  "sample_progress =
     [replay_pending (sample_frame ''a'') [ArtifactHook ''x''], replay_pending (sample_frame ''b'') []]"

definition sample_later :: "replay_progress list" where
  "sample_later =
     [with_converged_hook (ArtifactHook ''x'') (with_ingestion (Duplicate (SourceEventId ''s'')) (sample_progress ! 0)),
      sample_progress ! 1]"

theorem checkpoint_prefix_safe_witness:
  "pre_records (checkpointable_prefix (SpoolGenerationId ''g'') sample_later)
     = map (\<lambda>p. rf_record (rp_frame p)) (take 1 sample_later)
   \<and> \<not> may_checkpoint (SpoolGenerationId ''g'') (sample_later ! 1)"
proof -
  have "replay_step\<^sup>*\<^sup>* (sample_progress ! 0)
      (with_converged_hook (ArtifactHook ''x'') (with_ingestion (Duplicate (SourceEventId ''s'')) (sample_progress ! 0)))"
    by (rule converse_rtranclp_into_rtranclp, rule step_ingested, rule r_into_rtranclp, rule step_converged)
  then have "list_all2 replay_step\<^sup>*\<^sup>* sample_progress sample_later"
    by (simp add: sample_later_def sample_progress_def)
  moreover have "1 = length (pre_records (checkpointable_prefix (SpoolGenerationId ''g'') sample_later))"
    by (simp add: checkpointable_prefix_def may_checkpoint_def eligible_iff sample_later_def sample_progress_def
        replay_pending_def with_ingestion_def with_converged_hook_def unique_hook_keys_def sample_frame_def)
  ultimately show ?thesis
    using checkpoint_prefix_safe [of sample_progress sample_later 1 "SpoolGenerationId ''g''"]
    by (simp add: sample_later_def)
qed

theorem recovery_plan_sound_witness:
  "connected_stages (recovery_plan_for sample_claim [sample_frame ''a'', sample_frame ''b''])
     = [ReplayMysql, ConvergeRequiredHooks, DurableCheckpoint, FinalizeEpochAndUncertainGap]"
proof -
  have "recovered_frame_new (SpoolGenerationId ''g'') (SpoolRecordId r) (ConnectionEpochId ''e'')
      (sample_message (Some (ConnectionEpochId ''e''))) = Ok (sample_frame r)" for r
    by (simp add: recovered_frame_new_Ok sample_frame_def sample_message_def
        envelope_validate_def source_message_ref_validate_def require_non_empty_def graphic_not_blank
        graphic_def ensure_def)
  then have "\<exists>g r e m. recovered_frame_new g r e m = Ok (sample_frame r')" for r'
    by (intro exI)
  then have "list_all (\<lambda>f. \<exists>g r e m. recovered_frame_new g r e m = Ok f) [sample_frame ''a'', sample_frame ''b'']"
    by simp
  from recovery_plan_sound [OF this, of sample_claim] show ?thesis
    by (simp add: recovery_plan_cases sample_claim_def sample_frame_def sample_message_def account_ref_def)
qed

end
