(* ===== verification/Heartbeat.thy ===== *)
theory Heartbeat
  imports Rust_String
begin

text \<open>
  The heartbeat monitor of the OneBot connection (\<open>qqbot/src/napcat/heartbeat.rs\<close>): parsing of
  meta events, the validated configuration, and the state that decides when a silent connection
  has timed out. Instants of the monotonic clock are nanoseconds as natural numbers, and the
  instant that \<open>Instant::now()\<close> shows is an argument of every operation that reads it. A JSON
  value is seen only through \<open>get(..).and_then(as_str)\<close> and \<open>get(..).and_then(as_u64)\<close>, which are
  arguments of the parser.
\<close>

section \<open>Meta events\<close>

datatype lifecycle_state = LifecycleConnected | LifecycleReceived | Heartbeating | Ended

datatype meta_event = HeartbeatEvent "u64 option" | LifecycleEvent string

definition parse_meta_event ::
  "('j \<Rightarrow> string \<Rightarrow> string option) \<Rightarrow> ('j \<Rightarrow> string \<Rightarrow> u64 option) \<Rightarrow> 'j \<Rightarrow> meta_event option" where
  "parse_meta_event get_str get_u64 raw =
     (if get_str raw ''post_type'' \<noteq> Some ''meta_event'' then None
      else (case get_str raw ''meta_event_type'' of
              None \<Rightarrow> None
            | Some t \<Rightarrow>
                if t = ''heartbeat''
                then Some (HeartbeatEvent (map_option (\<lambda>ms. ms div 1000) (get_u64 raw ''interval'')))
                else if t = ''lifecycle''
                then Some (LifecycleEvent (unwrap_or (get_str raw ''sub_type'') []))
                else None))"

section \<open>Configuration\<close>

record heartbeat_config =
  hb_enabled :: bool
  startup_grace_secs :: u64
  min_interval_secs :: u64
  max_interval_secs :: u64
  default_interval_secs :: u64
  timeout_multiplier :: u32

definition heartbeat_config_default :: heartbeat_config where
  "heartbeat_config_default =
     \<lparr>hb_enabled = True, startup_grace_secs = 300, min_interval_secs = 5, max_interval_secs = 300,
      default_interval_secs = 30, timeout_multiplier = 3\<rparr>"

definition max_time_bound_secs :: u64 where "max_time_bound_secs = 3600"
definition max_multiplier :: u32 where "max_multiplier = 10"

definition heartbeat_config_validate :: "heartbeat_config \<Rightarrow> (string, unit) result" where
  "heartbeat_config_validate c =
     (if startup_grace_secs c = 0 \<or> max_time_bound_secs < startup_grace_secs c
      then Err ''heartbeat.startup_grace_secs must be in 1..=3600''
      else if min_interval_secs c = 0 \<or> max_time_bound_secs < min_interval_secs c
            \<or> max_interval_secs c < min_interval_secs c \<or> max_time_bound_secs < max_interval_secs c
      then Err ''heartbeat min/max interval must be in 1..=3600 and max >= min''
      else if default_interval_secs c < min_interval_secs c \<or> max_interval_secs c < default_interval_secs c
      then Err ''heartbeat.default_interval_secs out of [min, max]''
      else if timeout_multiplier c = 0 \<or> max_multiplier < timeout_multiplier c
      then Err ''heartbeat.timeout_multiplier must be in 1..=10''
      else Ok ())"

definition clamp_interval :: "heartbeat_config \<Rightarrow> u64 option \<Rightarrow> u64" where
  "clamp_interval c declared =
     (case declared of
        Some secs \<Rightarrow>
          if secs < min_interval_secs c then min_interval_secs c
          else if max_interval_secs c < secs then max_interval_secs c else secs
      | None \<Rightarrow> default_interval_secs c)"

section \<open>The monitor\<close>

type_synonym instant = nat

definition nanos :: "nat \<Rightarrow> nat" where "nanos secs = secs * 1000000000"

text \<open>\<open>Duration::from_secs(secs).checked_mul(m)\<close>: whole seconds that fit in 64 bits or nothing.\<close>

definition duration_checked_mul :: "u64 \<Rightarrow> u32 \<Rightarrow> nat option" where
  "duration_checked_mul secs m =
     (if unat secs * unat m < 2 ^ 64 then Some (nanos (unat secs * unat m)) else None)"

record heartbeat_state =
  hs_config :: heartbeat_config
  hs_lifecycle :: lifecycle_state
  hs_declared_interval :: u64
  hs_last_heartbeat_at :: "instant option"
  hs_last_business_event_at :: "instant option"
  hs_connected_at :: instant

definition heartbeat_state_new :: "instant \<Rightarrow> heartbeat_config \<Rightarrow> heartbeat_state" where
  "heartbeat_state_new now c =
     \<lparr>hs_config = c, hs_lifecycle = LifecycleConnected, hs_declared_interval = default_interval_secs c,
      hs_last_heartbeat_at = None, hs_last_business_event_at = None, hs_connected_at = now\<rparr>"

primrec observe_meta :: "instant \<Rightarrow> meta_event \<Rightarrow> heartbeat_state \<Rightarrow> heartbeat_state" where
  "observe_meta now (LifecycleEvent sub) s =
     (if hs_lifecycle s = LifecycleConnected then s\<lparr>hs_lifecycle := LifecycleReceived\<rparr> else s)"
| "observe_meta now (HeartbeatEvent interval) s =
     s\<lparr>hs_declared_interval := clamp_interval (hs_config s) interval,
       hs_last_heartbeat_at := Some now, hs_lifecycle := Heartbeating\<rparr>"

definition observe_business_event :: "instant \<Rightarrow> heartbeat_state \<Rightarrow> heartbeat_state" where
  "observe_business_event now s = s\<lparr>hs_last_business_event_at := Some now\<rparr>"

datatype heartbeat_deadline = MonitorDisabled | WaitingFor nat | Expired

definition deadline_offset :: "heartbeat_state \<Rightarrow> nat" where
  "deadline_offset s =
     (let grace = nanos (unat (startup_grace_secs (hs_config s))) in
      if hs_lifecycle s = Heartbeating
      then max (unwrap_or (duration_checked_mul (hs_declared_interval s) (timeout_multiplier (hs_config s))) grace) grace
      else grace)"

definition heartbeat_deadline_at :: "instant \<Rightarrow> heartbeat_state \<Rightarrow> heartbeat_deadline" where
  "heartbeat_deadline_at now s =
     (if \<not> hb_enabled (hs_config s) then MonitorDisabled
      else if hs_lifecycle s = Ended then MonitorDisabled
      else (let absolute = unwrap_or (hs_last_heartbeat_at s) (hs_connected_at s) + deadline_offset s in
            if absolute \<le> now then Expired else WaitingFor (absolute - now)))"

section \<open>Runs of the monitor\<close>

datatype observed = SawMeta meta_event | SawBusiness

primrec observe :: "instant \<times> observed \<Rightarrow> heartbeat_state \<Rightarrow> heartbeat_state" where
  "observe (now, ev) s =
     (case ev of SawMeta m \<Rightarrow> observe_meta now m s | SawBusiness \<Rightarrow> observe_business_event now s)"

definition monitor_run :: "heartbeat_config \<Rightarrow> instant \<Rightarrow> (instant \<times> observed) list \<Rightarrow> heartbeat_state" where
  "monitor_run c t0 evs = fold observe evs (heartbeat_state_new t0 c)"

fun is_heartbeat :: "instant \<times> observed \<Rightarrow> bool" where
  "is_heartbeat (_, SawMeta (HeartbeatEvent _)) = True"
| "is_heartbeat _ = False"

definition last_sign_of_life :: "instant \<Rightarrow> (instant \<times> observed) list \<Rightarrow> instant" where
  "last_sign_of_life t0 evs = last (t0 # map fst (filter is_heartbeat evs))"

text \<open>What the monitor keeps of a run: everything but the time of the last business event
  depends on the meta events only.\<close>

definition monitor_inv :: "heartbeat_config \<Rightarrow> instant \<Rightarrow> (instant \<times> observed) list \<Rightarrow> heartbeat_state \<Rightarrow> bool" where
  "monitor_inv c t0 evs s \<longleftrightarrow>
     hs_config s = c \<and> hs_connected_at s = t0 \<and> hs_lifecycle s \<noteq> Ended
     \<and> unwrap_or (hs_last_heartbeat_at s) (hs_connected_at s) = last_sign_of_life t0 evs
     \<and> (hs_lifecycle s = Heartbeating \<longleftrightarrow> list_ex is_heartbeat evs)
     \<and> min_interval_secs c \<le> hs_declared_interval s \<and> hs_declared_interval s \<le> max_interval_secs c"

lemma config_validate_Ok [guard_simps]:
  "heartbeat_config_validate c = Ok u \<longleftrightarrow>
     0 < startup_grace_secs c \<and> startup_grace_secs c \<le> 3600
     \<and> 0 < min_interval_secs c \<and> min_interval_secs c \<le> default_interval_secs c
     \<and> default_interval_secs c \<le> max_interval_secs c \<and> max_interval_secs c \<le> 3600
     \<and> 0 < timeout_multiplier c \<and> timeout_multiplier c \<le> 10"
  by (auto simp: heartbeat_config_validate_def max_time_bound_secs_def max_multiplier_def word_neq_0_conv
      split: if_splits)

lemma clamp_interval_bounds:
  "min_interval_secs c \<le> default_interval_secs c \<Longrightarrow> default_interval_secs c \<le> max_interval_secs c \<Longrightarrow>
     min_interval_secs c \<le> clamp_interval c d \<and> clamp_interval c d \<le> max_interval_secs c"
  by (auto simp: clamp_interval_def split: option.splits)

lemma monitor_inv_step:
  assumes "heartbeat_config_validate c = Ok ()" and "monitor_inv c t0 evs s"
  shows "monitor_inv c t0 (evs @ [ev]) (observe ev s)"
proof (cases ev)
  case (Pair now ob)
  have bounds: "min_interval_secs c \<le> clamp_interval c d \<and> clamp_interval c d \<le> max_interval_secs c" for d
    using assms(1) by (auto simp: config_validate_Ok intro!: clamp_interval_bounds)
  show ?thesis
  proof (cases ob)
    case SawBusiness
    then show ?thesis
      using assms(2) by (auto simp: Pair monitor_inv_def observe_business_event_def last_sign_of_life_def)
  next
    case (SawMeta m)
    then show ?thesis
      using assms(2) bounds
      by (cases m) (auto simp: Pair monitor_inv_def last_sign_of_life_def)
  qed
qed

lemma monitor_run_inv:
  assumes "heartbeat_config_validate c = Ok ()"
  shows "monitor_inv c t0 evs (monitor_run c t0 evs)"
proof (induction evs rule: rev_induct)
  case Nil
  show ?case
    using assms by (simp add: monitor_inv_def monitor_run_def heartbeat_state_new_def last_sign_of_life_def
        config_validate_Ok)
next
  case (snoc ev evs)
  then show ?case
    using monitor_inv_step [OF assms, of t0 evs "monitor_run c t0 evs" ev] by (simp add: monitor_run_def)
qed

lemma deadline_offset_bounds:
  assumes "heartbeat_config_validate c = Ok ()" and "monitor_inv c t0 evs s"
  shows "nanos (unat (startup_grace_secs c)) \<le> deadline_offset s" and "deadline_offset s \<le> nanos 36000"
proof -
  have cfg: "hs_config s = c" and le: "hs_declared_interval s \<le> max_interval_secs c"
    using assms(2) by (auto simp: monitor_inv_def)
  show "nanos (unat (startup_grace_secs c)) \<le> deadline_offset s"
    by (simp add: deadline_offset_def cfg Let_def)
  have grace: "unat (startup_grace_secs c) \<le> 3600" and mult: "unat (timeout_multiplier c) \<le> 10"
    and "unat (max_interval_secs c) \<le> 3600"
    using assms(1) by (simp_all add: config_validate_Ok word_le_nat_alt)
  with le have "unat (hs_declared_interval s) \<le> 3600" by (simp add: word_le_nat_alt)
  from mult_le_mono [OF this mult]
  have "unat (hs_declared_interval s) * unat (timeout_multiplier c) \<le> 36000" by simp
  with grace show "deadline_offset s \<le> nanos 36000"
    by (auto simp: deadline_offset_def cfg Let_def duration_checked_mul_def nanos_def)
qed

text \<open>
  With a valid configuration the monitor reports a timeout exactly from a fixed offset after
  the last heartbeat (after the connection when there was none), never before the startup grace
  and at the latest ten hours after it, whatever ordinary messages arrive in between.
\<close>

theorem heartbeat_timeout_detected:
  assumes "heartbeat_config_validate c = Ok ()" and "hb_enabled c"
  shows "\<exists>offset. nanos (unat (startup_grace_secs c)) \<le> offset \<and> offset \<le> nanos 36000
    \<and> offset = deadline_offset (monitor_run c t0 (filter (\<lambda>e. snd e \<noteq> SawBusiness) evs))
    \<and> heartbeat_deadline_at now (monitor_run c t0 evs) =
        (if now < last_sign_of_life t0 evs + offset
         then WaitingFor (last_sign_of_life t0 evs + offset - now) else Expired)"
proof -
  let ?s = "monitor_run c t0 evs" and ?metas = "filter (\<lambda>e. snd e \<noteq> SawBusiness) evs"
  have inv: "monitor_inv c t0 evs ?s" by (rule monitor_run_inv [OF assms(1)])
  have "fold observe (filter (\<lambda>e. snd e \<noteq> SawBusiness) es) (s\<lparr>hs_last_business_event_at := b\<rparr>)
      = (fold observe es s)\<lparr>hs_last_business_event_at := b\<rparr>" for es s b
  proof (induction es arbitrary: s)
    case (Cons e es)
    obtain t ob where "e = (t, ob)" by (cases e)
    with Cons.IH show ?case
    proof (cases ob)
      case (SawMeta m)
      have "observe_meta t m (s\<lparr>hs_last_business_event_at := b\<rparr>) = (observe_meta t m s)\<lparr>hs_last_business_event_at := b\<rparr>"
        by (cases m) simp_all
      with Cons.IH [of "observe_meta t m s"] show ?thesis by (simp add: \<open>e = (t, ob)\<close> SawMeta)
    qed (simp add: observe_business_event_def flip: Cons.IH)
  qed simp
  from this [of evs None "heartbeat_state_new t0 c"]
  have "monitor_run c t0 ?metas = ?s\<lparr>hs_last_business_event_at := None\<rparr>"
    by (simp add: monitor_run_def heartbeat_state_new_def)
  then have same: "deadline_offset (monitor_run c t0 ?metas) = deadline_offset ?s"
    by (simp add: deadline_offset_def Let_def)
  show ?thesis
    using deadline_offset_bounds [OF assms(1) inv] inv assms(2)
    by (intro exI [of _ "deadline_offset ?s"])
       (auto simp: same heartbeat_deadline_at_def monitor_inv_def Let_def)
qed

theorem heartbeat_timeout_detected_witness:
  "\<exists>offset. nanos 300 \<le> offset \<and> offset \<le> nanos 36000
    \<and> heartbeat_deadline_at (nanos 40000) (monitor_run heartbeat_config_default 0 [(nanos 7, SawBusiness)]) = Expired"
proof -
  have "heartbeat_config_validate heartbeat_config_default = Ok ()" "hb_enabled heartbeat_config_default"
    by (simp_all add: heartbeat_config_validate_def heartbeat_config_default_def max_time_bound_secs_def
        max_multiplier_def)
  from heartbeat_timeout_detected [OF this, of 0 "[(nanos 7, SawBusiness)]" "nanos 40000"]
  show ?thesis by (auto simp: last_sign_of_life_def heartbeat_config_default_def nanos_def)
qed

text \<open>The comments give \<open>interval * multiplier\<close> (and \<open>interval * multiplier + grace\<close>) as the offset
  after a heartbeat; with the default configuration and an interval of 30 seconds that would be
  90 (or 390) seconds, and the code waits 300.\<close>

theorem heartbeat_offset_documented_otherwise:
  "deadline_offset (monitor_run heartbeat_config_default t0 [(t, SawMeta (HeartbeatEvent (Some 30)))]) = nanos 300"
  by (simp add: monitor_run_def heartbeat_state_new_def deadline_offset_def heartbeat_config_default_def
      clamp_interval_def duration_checked_mul_def nanos_def)

end
