(* ===== verification/Notification_Policy.thy ===== *)
theory Notification_Policy
  imports Inbound_Message
begin

text \<open>
  The owner's notification policy (\<open>personal-secretary/src/domain/notification_policy.rs\<close>): match
  keys, rules and revisions, quiet hours, and the evaluator that turns a candidate into a decision.
  What the crates \<open>chrono\<close> and \<open>chrono-tz\<close> compute is the record \<open>chrono_ops\<close>, an argument: names
  of time zones, times of day (seconds since midnight) and dates (day numbers) are read from
  strings, an instant is shown in a zone, and a local time is resolved or not.
\<close>

section \<open>Errors and identifiers\<close>

datatype notification_policy_error =
    InvalidPolicyIdentity string
  | InvalidMatchKey string
  | UnknownMatchMetadata
  | InvalidCandidateRef
  | InvalidRevisionShape
  | InvalidQuietHours string
  | AmbiguousScheduleTime
  | ScheduleTimeAmbiguousError

definition max_notification_policy_id_bytes :: nat where "max_notification_policy_id_bytes = 36"
definition max_canonical_scope_key_bytes :: nat where "max_canonical_scope_key_bytes = 512"

definition notification_id_check :: "string \<Rightarrow> string \<Rightarrow> (notification_policy_error, unit) result" where
  "notification_id_check label v =
     (if is_blank v \<or> max_notification_policy_id_bytes < length v
      then Err (InvalidPolicyIdentity (label @ '' must contain 1..=36 bytes'')) else Ok ())"

datatype policy_family_id = PolicyFamilyId (family_str: string)
datatype policy_revision_id = PolicyRevisionId (revision_str: string)

definition policy_family_id_new :: "string \<Rightarrow> (notification_policy_error, policy_family_id) result" where
  "policy_family_id_new v = bind_r (notification_id_check ''policy family id'' v) (\<lambda>_. Ok (PolicyFamilyId v))"

definition policy_revision_id_new :: "string \<Rightarrow> (notification_policy_error, policy_revision_id) result" where
  "policy_revision_id_new v =
     bind_r (notification_id_check ''policy revision id'' v) (\<lambda>_. Ok (PolicyRevisionId v))"

section \<open>Match keys\<close>

datatype 'a match_field = Known 'a | Absent | Unknown

fun match_field_matches :: "'a match_field \<Rightarrow> 'a match_field \<Rightarrow> bool" where
  "match_field_matches (Known expected) (Known actual) = (expected = actual)"
| "match_field_matches Absent Absent = True"
| "match_field_matches _ _ = False"

definition match_field_is_unknown :: "'a match_field \<Rightarrow> bool" where
  "match_field_is_unknown f \<longleftrightarrow> (case f of Unknown \<Rightarrow> True | _ \<Rightarrow> False)"

datatype notification_category = AgendaCategory | FollowUpCategory
datatype structured_importance = LowImportance | NormalImportance | HighImportance
datatype event_kind = AgendaDue | FollowUpDue | ResponseOverdue | ProjectBlocked

record notification_match_key =
  mk_account :: source_account_ref
  mk_conversation :: "conversation_ref match_field"
  mk_actor_id :: "string match_field"
  mk_category :: "notification_category match_field"
  mk_mentioned_owner :: "bool match_field"
  mk_importance :: "structured_importance match_field"
  mk_event_kind :: "event_kind match_field"

definition match_key_validate :: "notification_match_key \<Rightarrow> (notification_policy_error, unit) result" where
  "match_key_validate k =
     (case mk_actor_id k of
        Known v \<Rightarrow>
          if is_blank v then Err (InvalidMatchKey ''actor id must not be empty when known'') else Ok ()
      | _ \<Rightarrow> Ok ())"

definition match_key_new ::
  "source_account_ref \<Rightarrow> conversation_ref match_field \<Rightarrow> string match_field \<Rightarrow>
     notification_category match_field \<Rightarrow> bool match_field \<Rightarrow> structured_importance match_field \<Rightarrow>
     event_kind match_field \<Rightarrow> (notification_policy_error, notification_match_key) result" where
  "match_key_new acc conv act cat owner imp ev =
     (let key = \<lparr>mk_account = acc, mk_conversation = conv, mk_actor_id = act, mk_category = cat,
                 mk_mentioned_owner = owner, mk_importance = imp, mk_event_kind = ev\<rparr> in
      bind_r (match_key_validate key) (\<lambda>_. Ok key))"

definition eligibility_for_long_term_rule ::
  "notification_match_key \<Rightarrow> (notification_policy_error, unit) result" where
  "eligibility_for_long_term_rule k =
     (if match_field_is_unknown (mk_conversation k) \<or> match_field_is_unknown (mk_actor_id k)
       \<or> match_field_is_unknown (mk_category k) \<or> match_field_is_unknown (mk_mentioned_owner k)
       \<or> match_field_is_unknown (mk_importance k) \<or> match_field_is_unknown (mk_event_kind k)
      then Err UnknownMatchMetadata else Ok ())"

record notification_candidate_ref =
  cand_source_kind :: string
  cand_source_id :: string
  cand_source_version :: u64
  cand_account :: source_account_ref

definition notification_candidate_ref_new ::
  "string \<Rightarrow> string \<Rightarrow> u64 \<Rightarrow> source_account_ref \<Rightarrow>
     (notification_policy_error, notification_candidate_ref) result" where
  "notification_candidate_ref_new kind i version acc =
     (if is_blank kind \<or> is_blank i then Err InvalidCandidateRef
      else Ok \<lparr>cand_source_kind = kind, cand_source_id = i, cand_source_version = version,
               cand_account = acc\<rparr>)"

section \<open>Rules and revisions\<close>

datatype notification_policy_kind =
    AccountDefaultKind | ConversationKind | ContactKind | CategoryKind | QuietHoursKind
  | SimilarNotificationKind | AutomaticReplyDeniedKind

datatype revision_kind = RuleRevision | TombstoneRevision

datatype notification_outcome =
    Remind | Delay | Suppress | CandidateExpired | EvaluationFailedTerminal | DeliveryWindowExpired
  | ScheduleTimeAmbiguous

datatype conversation_mode = NormalMode | FullySilent

record conversation_notification_rule =
  cnr_mode :: conversation_mode
  cnr_allow_bypass :: bool

record quiet_hours_rule =
  qh_timezone_name :: string
  qh_start_local_time :: string
  qh_end_local_time :: string
  qh_effective_from :: "string option"
  qh_effective_until :: "string option"
  qh_allow_bypass :: bool

record notification_policy_rule =
  npr_match_key :: notification_match_key
  npr_outcome :: notification_outcome
  npr_bypass_quiet :: bool
  npr_conversation :: "conversation_notification_rule option"
  npr_quiet_hours :: "quiet_hours_rule option"

record notification_policy_revision =
  rev_id :: policy_revision_id
  rev_family_id :: policy_family_id
  rev_number :: u64
  rev_supersedes :: "policy_revision_id option"
  rev_kind :: revision_kind
  rev_rule :: "notification_policy_rule option"

definition revision_validate :: "notification_policy_revision \<Rightarrow> (notification_policy_error, unit) result" where
  "revision_validate r =
     (case (rev_kind r, rev_rule r) of
        (RuleRevision, Some _) \<Rightarrow> Ok ()
      | (TombstoneRevision, None) \<Rightarrow> Ok ()
      | _ \<Rightarrow> Err InvalidRevisionShape)"

section \<open>Quiet hours\<close>

record 'tz chrono_ops =
  tz_parse :: "string \<Rightarrow> 'tz option"
  time_parse :: "string \<Rightarrow> nat option"
  date_parse :: "string \<Rightarrow> int option"
  timestamp_valid :: "i64 \<Rightarrow> bool"
  local_at :: "'tz \<Rightarrow> i64 \<Rightarrow> int \<times> nat"
  add_days :: "int \<Rightarrow> nat \<Rightarrow> int option"
  local_single :: "'tz \<Rightarrow> int \<Rightarrow> nat \<Rightarrow> bool"

definition quiet_timezone :: "'tz chrono_ops \<Rightarrow> quiet_hours_rule \<Rightarrow> (notification_policy_error, 'tz) result" where
  "quiet_timezone X q =
     ok_or (tz_parse X (qh_timezone_name q)) (InvalidQuietHours ''timezone must be a valid IANA name'')"

definition quiet_boundaries ::
  "'tz chrono_ops \<Rightarrow> quiet_hours_rule \<Rightarrow> (notification_policy_error, nat \<times> nat) result" where
  "quiet_boundaries X q =
     bind_r (ok_or (time_parse X (qh_start_local_time q)) (InvalidQuietHours ''start time must use HH:MM'')) (\<lambda>start.
     bind_r (ok_or (time_parse X (qh_end_local_time q)) (InvalidQuietHours ''end time must use HH:MM'')) (\<lambda>end_time.
       if start = end_time then Err (InvalidQuietHours ''start and end local times must differ'')
       else Ok (start, end_time)))"

definition quiet_date ::
  "'tz chrono_ops \<Rightarrow> string option \<Rightarrow> (notification_policy_error, int option) result" where
  "quiet_date X v =
     (case v of
        None \<Rightarrow> Ok None
      | Some d \<Rightarrow>
          bind_r (ok_or (date_parse X d) (InvalidQuietHours ''effective date must use YYYY-MM-DD'')) (\<lambda>n. Ok (Some n)))"

definition quiet_effective_range ::
  "'tz chrono_ops \<Rightarrow> quiet_hours_rule \<Rightarrow> (notification_policy_error, int option \<times> int option) result" where
  "quiet_effective_range X q =
     bind_r (quiet_date X (qh_effective_from q)) (\<lambda>from_date.
     bind_r (quiet_date X (qh_effective_until q)) (\<lambda>until_date.
       (case (from_date, until_date) of
          (Some a, Some b) \<Rightarrow>
            if b < a then Err (InvalidQuietHours ''effective start date must not exceed end date'')
            else Ok (from_date, until_date)
        | _ \<Rightarrow> Ok (from_date, until_date))))"

definition in_date_range :: "int option \<times> int option \<Rightarrow> int \<Rightarrow> bool" where
  "in_date_range date_range d \<longleftrightarrow>
     (case fst date_range of None \<Rightarrow> True | Some a \<Rightarrow> a \<le> d) \<and> (case snd date_range of None \<Rightarrow> True | Some b \<Rightarrow> d \<le> b)"

definition quiet_applies_on ::
  "'tz chrono_ops \<Rightarrow> quiet_hours_rule \<Rightarrow> int \<Rightarrow> (notification_policy_error, bool) result" where
  "quiet_applies_on X q d = bind_r (quiet_effective_range X q) (\<lambda>date_range. Ok (in_date_range date_range d))"

definition within_boundaries :: "nat \<Rightarrow> nat \<Rightarrow> nat \<Rightarrow> bool" where
  "within_boundaries start end_time t \<longleftrightarrow>
     (if start < end_time then start \<le> t \<and> t < end_time else start \<le> t \<or> t < end_time)"

definition quiet_contains_local_time ::
  "'tz chrono_ops \<Rightarrow> quiet_hours_rule \<Rightarrow> nat \<Rightarrow> (notification_policy_error, bool) result" where
  "quiet_contains_local_time X q t =
     bind_r (quiet_boundaries X q) (\<lambda>(start, end_time). Ok (within_boundaries start end_time t))"

text \<open>Both boundaries of a day resolve to one instant, start before end.\<close>

definition boundaries_single :: "'tz chrono_ops \<Rightarrow> 'tz \<Rightarrow> int \<Rightarrow> nat \<times> nat \<Rightarrow> bool" where
  "boundaries_single X tz d b \<longleftrightarrow> local_single X tz d (fst b) \<and> local_single X tz d (snd b)"

definition quiet_hours_result ::
  "'tz chrono_ops \<Rightarrow> quiet_hours_rule \<Rightarrow> i64 \<Rightarrow> (notification_policy_error, bool) result" where
  "quiet_hours_result X q now =
     bind_r (quiet_timezone X q) (\<lambda>tz.
     bind_r (ensure (timestamp_valid X now) (InvalidQuietHours ''clock timestamp is invalid'')) (\<lambda>_.
     (let (d, t) = local_at X tz now in
      bind_r (quiet_applies_on X q d) (\<lambda>applies.
        if \<not> applies then Ok False
        else bind_r (quiet_contains_local_time X q t) (\<lambda>inside.
          if \<not> inside then Ok False
          else bind_r (quiet_boundaries X q) (\<lambda>b.
            bind_r (ensure (boundaries_single X tz d b) ScheduleTimeAmbiguousError) (\<lambda>_. Ok True)))))))"

text \<open>\<open>validate_quiet_hours\<close>: the boundaries of each of the next 400 local days in force.\<close>

definition validate_quiet_hours ::
  "'tz chrono_ops \<Rightarrow> quiet_hours_rule \<Rightarrow> i64 \<Rightarrow> (notification_policy_error, unit) result" where
  "validate_quiet_hours X q now =
     bind_r (quiet_timezone X q) (\<lambda>tz.
     bind_r (quiet_boundaries X q) (\<lambda>b.
     bind_r (quiet_effective_range X q) (\<lambda>date_range.
     bind_r (ensure (timestamp_valid X now) (InvalidQuietHours ''clock timestamp is invalid'')) (\<lambda>_.
       all_ok (\<lambda>offset.
         bind_r (ok_or (add_days X (fst (local_at X tz now)) offset) (InvalidQuietHours ''date range overflow'')) (\<lambda>d.
           if \<not> in_date_range date_range d then Ok ()
           else ensure (boundaries_single X tz d b) AmbiguousScheduleTime)) [0..<400]))))"

section \<open>Evaluation\<close>

datatype decision_reason =
    ReasonCandidateExpired | ConversationFullySilent | ConversationPolicy | ContactPolicy
  | CategoryPolicy | AccountDefaultPolicy | QuietHoursReason | ReasonScheduleTimeAmbiguous
  | ReasonInvalidQuietHours

record evaluation_plan =
  ep_outcome :: notification_outcome
  ep_reason :: decision_reason
  ep_next_allowed_at :: "i64 option"

definition evaluation_plan_new :: "notification_outcome \<Rightarrow> decision_reason \<Rightarrow> evaluation_plan" where
  "evaluation_plan_new out r = \<lparr>ep_outcome = out, ep_reason = r, ep_next_allowed_at = None\<rparr>"

record evaluation_input =
  ei_candidate_is_current :: bool
  ei_matching_rule :: "notification_policy_rule option"
  ei_conversation_rule :: "conversation_notification_rule option"
  ei_contact_rule :: "notification_policy_rule option"
  ei_category_rule :: "notification_policy_rule option"
  ei_account_default_rule :: "notification_policy_rule option"
  ei_quiet_hours :: "quiet_hours_rule option"
  ei_now :: i64

definition silenced :: "evaluation_input \<Rightarrow> bool" where
  "silenced i \<longleftrightarrow>
     (case ei_conversation_rule i of
        None \<Rightarrow> False
      | Some c \<Rightarrow> cnr_mode c = FullySilent
          \<and> \<not> (case ei_matching_rule i of
                 Some r \<Rightarrow> npr_bypass_quiet r \<and> cnr_allow_bypass c | None \<Rightarrow> False))"

definition with_reason ::
  "notification_policy_rule option \<Rightarrow> decision_reason \<Rightarrow> (notification_policy_rule \<times> decision_reason) option" where
  "with_reason r why = map_option (\<lambda>x. (x, why)) r"

definition selected_rule :: "evaluation_input \<Rightarrow> (notification_policy_rule \<times> decision_reason) option" where
  "selected_rule i =
     (case with_reason (ei_matching_rule i) ConversationPolicy of
        Some x \<Rightarrow> Some x
      | None \<Rightarrow> (case with_reason (ei_contact_rule i) ContactPolicy of
          Some x \<Rightarrow> Some x
        | None \<Rightarrow> (case with_reason (ei_category_rule i) CategoryPolicy of
            Some x \<Rightarrow> Some x
          | None \<Rightarrow> with_reason (ei_account_default_rule i) AccountDefaultPolicy)))"

definition bypasses_quiet :: "evaluation_input \<Rightarrow> bool" where
  "bypasses_quiet i \<longleftrightarrow>
     (case selected_rule i of
        None \<Rightarrow> False
      | Some (r, _) \<Rightarrow> npr_bypass_quiet r
          \<and> (case ei_quiet_hours i of None \<Rightarrow> False | Some q \<Rightarrow> qh_allow_bypass q))"

definition by_selected_rule :: "evaluation_input \<Rightarrow> evaluation_plan" where
  "by_selected_rule i =
     (case selected_rule i of
        Some (r, why) \<Rightarrow> evaluation_plan_new (npr_outcome r) why
      | None \<Rightarrow> evaluation_plan_new Remind AccountDefaultPolicy)"

definition evaluate_notification :: "'tz chrono_ops \<Rightarrow> evaluation_input \<Rightarrow> evaluation_plan" where
  "evaluate_notification X i =
     (if \<not> ei_candidate_is_current i then evaluation_plan_new CandidateExpired ReasonCandidateExpired
      else if silenced i then evaluation_plan_new Suppress ConversationFullySilent
      else (case map_option (\<lambda>q. quiet_hours_result X q (ei_now i)) (ei_quiet_hours i) of
              None \<Rightarrow> by_selected_rule i
            | Some (Ok True) \<Rightarrow>
                if \<not> bypasses_quiet i then evaluation_plan_new Suppress QuietHoursReason
                else by_selected_rule i
            | Some (Ok False) \<Rightarrow> by_selected_rule i
            | Some (Err ScheduleTimeAmbiguousError) \<Rightarrow>
                evaluation_plan_new ScheduleTimeAmbiguous ReasonScheduleTimeAmbiguous
            | Some _ \<Rightarrow> evaluation_plan_new EvaluationFailedTerminal ReasonInvalidQuietHours))"

section \<open>Lemmas\<close>

lemma within_boundaries_cyclic:
  assumes "start < 86400" "end_time < 86400" "t < 86400" "start \<noteq> end_time"
  shows "within_boundaries start end_time t \<longleftrightarrow>
     (int t - int start) mod 86400 < (int end_time - int start) mod 86400"
proof -
  have cyc: "(int a - int start) mod 86400 = (if start \<le> a then int a - int start else int a - int start + 86400)"
    if "a < 86400" for a
  proof (cases "start \<le> a")
    case False
    have "(int a - int start) mod 86400 = (int a - int start + 86400) mod 86400" by simp
    also have "\<dots> = int a - int start + 86400" using that assms(1) False by (intro mod_pos_pos_trivial) auto
    finally show ?thesis using False by simp
  qed (use that in \<open>simp add: mod_pos_pos_trivial\<close>)
  show ?thesis
    using assms by (auto simp: within_boundaries_def cyc)
qed

lemma quiet_boundaries_Ok [result_simps]:
  "quiet_boundaries X q = Ok b \<longleftrightarrow>
     time_parse X (qh_start_local_time q) = Some (fst b) \<and> time_parse X (qh_end_local_time q) = Some (snd b)
     \<and> fst b \<noteq> snd b"
  by (cases b) (auto simp: quiet_boundaries_def result_simps)

lemma quiet_hours_result_Ok:
  "quiet_hours_result X q now = Ok inside \<longleftrightarrow>
     (\<exists>tz. tz_parse X (qh_timezone_name q) = Some tz \<and> timestamp_valid X now
        \<and> (\<exists>date_range. quiet_effective_range X q = Ok date_range
        \<and> (in_date_range date_range (fst (local_at X tz now)) \<longrightarrow>
              (\<exists>b. quiet_boundaries X q = Ok b \<and> inside = within_boundaries (fst b) (snd b) (snd (local_at X tz now))
                 \<and> (inside \<longrightarrow> boundaries_single X tz (fst (local_at X tz now)) b)))
        \<and> (\<not> in_date_range date_range (fst (local_at X tz now)) \<longrightarrow> \<not> inside)))"
proof -
  have "bind_r (quiet_applies_on X q d) (\<lambda>applies.
        if \<not> applies then Ok False
        else bind_r (quiet_contains_local_time X q t) (\<lambda>inside.
          if \<not> inside then Ok False
          else bind_r (quiet_boundaries X q) (\<lambda>b.
            bind_r (ensure (boundaries_single X tz d b) ScheduleTimeAmbiguousError) (\<lambda>_. Ok True)))) = Ok inside
      \<longleftrightarrow> (\<exists>date_range. quiet_effective_range X q = Ok date_range
        \<and> (in_date_range date_range d \<longrightarrow>
              (\<exists>b. quiet_boundaries X q = Ok b \<and> inside = within_boundaries (fst b) (snd b) t
                 \<and> (inside \<longrightarrow> boundaries_single X tz d b)))
        \<and> (\<not> in_date_range date_range d \<longrightarrow> \<not> inside))" for tz d t
    unfolding quiet_applies_on_def quiet_contains_local_time_def
    by (cases "quiet_effective_range X q"; cases "quiet_boundaries X q")
       (auto simp: ensure_def split: if_splits)
  then show ?thesis
    unfolding quiet_hours_result_def quiet_timezone_def
    by (simp add: bind_r_Ok ok_or_inv ensure_inv Let_def case_prod_unfold)
qed

lemma evaluate_Remind:
  "ep_outcome (evaluate_notification X i) = Remind \<longleftrightarrow>
     ei_candidate_is_current i \<and> \<not> silenced i
     \<and> (case ei_quiet_hours i of None \<Rightarrow> True
         | Some q \<Rightarrow> \<exists>inside. quiet_hours_result X q (ei_now i) = Ok inside \<and> (inside \<longrightarrow> bypasses_quiet i))
     \<and> (case selected_rule i of None \<Rightarrow> True | Some (r, _) \<Rightarrow> npr_outcome r = Remind)"
  by (cases "selected_rule i"; cases "ei_quiet_hours i")
     (auto simp: evaluate_notification_def evaluation_plan_new_def by_selected_rule_def
        split: result.splits notification_policy_error.splits bool.splits prod.splits)

lemma evaluate_next_allowed: "ep_next_allowed_at (evaluate_notification X i) = None"
  by (auto simp: evaluate_notification_def evaluation_plan_new_def by_selected_rule_def
      split: option.splits result.splits notification_policy_error.splits bool.splits prod.splits)

section \<open>Properties\<close>

text \<open>
  C38: a candidate under quiet hours is turned into a reminder only if it is current, its
  conversation is not fully silent (or both the conversation and the rule it matches allow the
  bypass), no rule that comes first says otherwise, and the local time lies outside the window of
  the day, read cyclically from start to end across midnight, unless both the selected rule and
  the quiet-hours rule allow the bypass.
\<close>

theorem reminder_respects_quiet_hours:
  assumes "ei_quiet_hours i = Some q" and "ep_outcome (evaluate_notification X i) = Remind"
    and "\<And>s n. time_parse X s = Some n \<Longrightarrow> n < 86400" and "\<And>tz now. snd (local_at X tz now) < 86400"
  shows "ei_candidate_is_current i
    \<and> \<not> (\<exists>c. ei_conversation_rule i = Some c \<and> cnr_mode c = FullySilent
          \<and> \<not> (\<exists>r. ei_matching_rule i = Some r \<and> npr_bypass_quiet r \<and> cnr_allow_bypass c))
    \<and> (case selected_rule i of None \<Rightarrow> True | Some (r, _) \<Rightarrow> npr_outcome r = Remind)
    \<and> (\<exists>tz date_range. tz_parse X (qh_timezone_name q) = Some tz
        \<and> quiet_effective_range X q = Ok date_range
        \<and> (in_date_range date_range (fst (local_at X tz (ei_now i)))
              \<and> \<not> (\<exists>r why. selected_rule i = Some (r, why) \<and> npr_bypass_quiet r \<and> qh_allow_bypass q) \<longrightarrow>
            (\<exists>start end_time. time_parse X (qh_start_local_time q) = Some start
               \<and> time_parse X (qh_end_local_time q) = Some end_time
               \<and> \<not> (int (snd (local_at X tz (ei_now i))) - int start) mod 86400
                      < (int end_time - int start) mod 86400)))"
proof -
  have quiet: "ei_candidate_is_current i" "\<not> silenced i"
    "case selected_rule i of None \<Rightarrow> True | Some (r, _) \<Rightarrow> npr_outcome r = Remind"
    using assms(2) unfolding evaluate_Remind by simp_all
  obtain inside where res: "quiet_hours_result X q (ei_now i) = Ok inside" "inside \<longrightarrow> bypasses_quiet i"
    using assms(1,2) unfolding evaluate_Remind by auto
  then obtain tz rg where tz: "tz_parse X (qh_timezone_name q) = Some tz"
    and rg: "quiet_effective_range X q = Ok rg"
    and win: "in_date_range rg (fst (local_at X tz (ei_now i))) \<Longrightarrow>
      \<exists>b. quiet_boundaries X q = Ok b \<and> inside = within_boundaries (fst b) (snd b) (snd (local_at X tz (ei_now i)))"
    unfolding quiet_hours_result_Ok by blast
  obtain d t where loc: "local_at X tz (ei_now i) = (d, t)" by force
  have "t < 86400" using assms(4) [of tz "ei_now i"] loc by simp
  with win res(2) have "in_date_range rg d \<and> \<not> bypasses_quiet i \<longrightarrow>
      (\<exists>start end_time. time_parse X (qh_start_local_time q) = Some start
         \<and> time_parse X (qh_end_local_time q) = Some end_time
         \<and> \<not> (int t - int start) mod 86400 < (int end_time - int start) mod 86400)"
    using within_boundaries_cyclic assms(3) unfolding loc by (fastforce simp: quiet_boundaries_Ok)
  moreover have "bypasses_quiet i \<longleftrightarrow>
      (\<exists>r why. selected_rule i = Some (r, why) \<and> npr_bypass_quiet r \<and> qh_allow_bypass q)"
    using assms(1) by (auto simp: bypasses_quiet_def split: option.splits)
  moreover have "\<not> (\<exists>c. ei_conversation_rule i = Some c \<and> cnr_mode c = FullySilent
      \<and> \<not> (\<exists>r. ei_matching_rule i = Some r \<and> npr_bypass_quiet r \<and> cnr_allow_bypass c))"
    using quiet(2) by (auto simp: silenced_def split: option.splits)
  ultimately show ?thesis using quiet tz loc rg by auto
qed

text \<open>
  A quiet-hours rule that passes validation can be evaluated without any error on every
  instant of the 400 local days that the validation looked at.
\<close>

theorem validated_quiet_hours_never_fail:
  assumes "validate_quiet_hours X q stored = Ok ()" and "tz_parse X (qh_timezone_name q) = Some tz"
    and "timestamp_valid X now" and "add_days X (fst (local_at X tz stored)) k = Some (fst (local_at X tz now))"
    and "k < 400"
  shows "\<exists>inside. quiet_hours_result X q now = Ok inside"
proof -
  obtain d t where loc: "local_at X tz now = (d, t)" by force
  obtain b rg where b: "quiet_boundaries X q = Ok b" and rg: "quiet_effective_range X q = Ok rg"
    and all: "\<forall>off\<in>{0..<400}. bind_r (ok_or (add_days X (fst (local_at X tz stored)) off)
          (InvalidQuietHours ''date range overflow''))
          (\<lambda>d. if \<not> in_date_range rg d then Ok () else ensure (boundaries_single X tz d b) AmbiguousScheduleTime) = Ok ()"
    using assms(1,2) by (auto simp: validate_quiet_hours_def quiet_timezone_def bind_r_Ok ok_or_inv all_ok_Ok)
  have "in_date_range rg d \<Longrightarrow> boundaries_single X tz d b"
    using bspec [OF all, of k] assms(4,5) loc by (simp add: ok_or_def ensure_def split: if_splits)
  with assms(2,3) loc b rg show ?thesis
    unfolding quiet_hours_result_Ok
    by (cases "in_date_range rg d") auto
qed

text \<open>The decision of a rule with outcome Delay never says until when: a Delay without
  \<open>next_allowed_at_unix_secs\<close> is what the evaluator makes of every such rule.\<close>

theorem delay_never_scheduled:
  assumes "ei_candidate_is_current i" and "ei_conversation_rule i = None" and "ei_quiet_hours i = None"
    and "ei_matching_rule i = Some r" and "npr_outcome r = Delay"
  shows "ep_outcome (evaluate_notification X i) = Delay \<and> ep_next_allowed_at (evaluate_notification X i) = None"
  using assms
  by (simp add: evaluate_notification_def silenced_def by_selected_rule_def selected_rule_def with_reason_def
      evaluation_plan_new_def)

section \<open>Witnesses\<close>

definition sample_chrono :: "unit chrono_ops" where
  "sample_chrono =
     \<lparr>tz_parse = (\<lambda>s. Some ()), time_parse = (\<lambda>s. if s = ''22:00'' then Some 79200 else Some 25200),
      date_parse = (\<lambda>s. None), timestamp_valid = (\<lambda>n. True),
      local_at = (\<lambda>tz n. (n div 86400, nat (n mod 86400))), add_days = (\<lambda>d n. Some (d + int n)),
      local_single = (\<lambda>tz d t. True)\<rparr>"

definition sample_quiet_hours :: quiet_hours_rule where
  "sample_quiet_hours =
     \<lparr>qh_timezone_name = ''UTC'', qh_start_local_time = ''22:00'', qh_end_local_time = ''07:00'',
      qh_effective_from = None, qh_effective_until = None, qh_allow_bypass = False\<rparr>"

definition sample_input :: evaluation_input where
  "sample_input =
     \<lparr>ei_candidate_is_current = True, ei_matching_rule = None, ei_conversation_rule = None,
      ei_contact_rule = None, ei_category_rule = None, ei_account_default_rule = None,
      ei_quiet_hours = Some sample_quiet_hours, ei_now = 43200\<rparr>"

lemma sample_chrono_laws:
  "time_parse sample_chrono s = Some n \<Longrightarrow> n < 86400" "snd (local_at sample_chrono tz now) < 86400"
  by (auto simp: sample_chrono_def split: if_splits)

lemma sample_quiet_result: "quiet_hours_result sample_chrono sample_quiet_hours 43200 = Ok False"
  by (simp add: quiet_hours_result_def quiet_timezone_def quiet_applies_on_def quiet_effective_range_def
      quiet_date_def quiet_contains_local_time_def quiet_boundaries_def within_boundaries_def
      in_date_range_def ok_or_def ensure_def sample_chrono_def sample_quiet_hours_def)

theorem reminder_respects_quiet_hours_witness:
  "\<exists>start end_time. time_parse sample_chrono ''22:00'' = Some start \<and> time_parse sample_chrono ''07:00'' = Some end_time
     \<and> \<not> (43200 - int start) mod 86400 < (int end_time - int start) mod 86400"
proof -
  have "ep_outcome (evaluate_notification sample_chrono sample_input) = Remind"
    by (auto simp: evaluate_Remind silenced_def selected_rule_def with_reason_def sample_input_def
        sample_quiet_result)
  from reminder_respects_quiet_hours [OF _ this sample_chrono_laws, of sample_quiet_hours]
  show ?thesis
    by (auto simp: sample_input_def sample_quiet_hours_def sample_chrono_def quiet_effective_range_def
        quiet_date_def in_date_range_def bypasses_quiet_def selected_rule_def with_reason_def)
qed

theorem validated_quiet_hours_never_fail_witness:
  "\<exists>inside. quiet_hours_result sample_chrono sample_quiet_hours 90000 = Ok inside"
proof (rule validated_quiet_hours_never_fail)
  show "validate_quiet_hours sample_chrono sample_quiet_hours 43200 = Ok ()"
    by (simp add: validate_quiet_hours_def quiet_timezone_def quiet_boundaries_def quiet_effective_range_def
        quiet_date_def ok_or_def ensure_def all_ok_Ok boundaries_single_def sample_chrono_def
        sample_quiet_hours_def)
  show "add_days sample_chrono (fst (local_at sample_chrono () 43200)) 1 = Some (fst (local_at sample_chrono () 90000))"
    by (simp add: sample_chrono_def)
qed (simp_all add: sample_chrono_def)

end
