(* ===== verification/Secretary_Types.thy ===== *)
theory Secretary_Types
  imports Thread_Planner
begin

text \<open>
  The domain types the secretary's actions carry: identities and memory payloads
  (\<open>personal-secretary/src/domain/memory.rs\<close>, \<open>memory_candidate.rs\<close>), follow-up identifiers
  (\<open>follow_up.rs\<close>), and the trust levels, identity kinds and page cursors of the retriever
  (\<open>retriever.rs\<close>), with their constructors.
\<close>

section \<open>Identities and trust\<close>

datatype content_trust_level = Normal | LocalOnly | EnvelopeOnly | NeverLongTerm

primrec content_trust_level_str :: "content_trust_level \<Rightarrow> string" where
  "content_trust_level_str Normal = ''normal''"
| "content_trust_level_str LocalOnly = ''local_only''"
| "content_trust_level_str EnvelopeOnly = ''envelope_only''"
| "content_trust_level_str NeverLongTerm = ''never_long_term''"

datatype platform_identity_kind = PlatformOwner | PlatformOfficialBot | PlatformExternal

primrec platform_identity_kind_str :: "platform_identity_kind \<Rightarrow> string" where
  "platform_identity_kind_str PlatformOwner = ''owner''"
| "platform_identity_kind_str PlatformOfficialBot = ''official_bot''"
| "platform_identity_kind_str PlatformExternal = ''external''"

primrec from_verified_actor_kind :: "verified_actor_kind \<Rightarrow> platform_identity_kind" where
  "from_verified_actor_kind OwnerActor = PlatformOwner"
| "from_verified_actor_kind OfficialBot = PlatformOfficialBot"
| "from_verified_actor_kind External = PlatformExternal"

datatype retriever_error = RetrieverInvalidData string

record participant_ref =
  pr_platform_kind :: platform_identity_kind
  pr_stable_id :: string

definition participant_ref_new ::
  "platform_identity_kind \<Rightarrow> string \<Rightarrow> (retriever_error, participant_ref) result" where
  "participant_ref_new k v =
     (if is_blank v then Err (RetrieverInvalidData ''ParticipantRef.stable_id must not be empty'')
      else Ok \<lparr>pr_platform_kind = k, pr_stable_id = v\<rparr>)"

record thread_actor_ref =
  tar_account :: source_account_ref
  tar_actor_id :: string
  tar_platform_identity_kind :: "platform_identity_kind option"

section \<open>Cursors\<close>

datatype thread_search_match_rank = MatchContains | MatchPrefix | MatchExact

record thread_search_cursor =
  tsc_query_text :: string
  tsc_match_rank :: thread_search_match_rank
  tsc_latest_event_at :: i64
  tsc_thread_id :: event_thread_id

definition thread_search_cursor_new ::
  "string \<Rightarrow> thread_search_match_rank \<Rightarrow> i64 \<Rightarrow> event_thread_id \<Rightarrow>
     (retriever_error, thread_search_cursor) result" where
  "thread_search_cursor_new q rank at t =
     (if is_blank q \<or> 1000 < char_count q
      then Err (RetrieverInvalidData ''thread search cursor query must contain 1..=1000 characters'')
      else if q \<noteq> trim q
      then Err (RetrieverInvalidData ''thread search cursor query must be normalized'')
      else if at < 0
      then Err (RetrieverInvalidData ''thread search cursor timestamp must be non-negative'')
      else Ok \<lparr>tsc_query_text = q, tsc_match_rank = rank, tsc_latest_event_at = at, tsc_thread_id = t\<rparr>)"

record pending_owner_work_cursor =
  pwc_due_at :: "i64 option"
  pwc_source_kind :: string
  pwc_source_id :: string

definition pending_owner_work_cursor_new ::
  "i64 option \<Rightarrow> string \<Rightarrow> string \<Rightarrow> (retriever_error, pending_owner_work_cursor) result" where
  "pending_owner_work_cursor_new due kind i =
     (if is_blank kind \<or> 64 < char_count kind
      then Err (RetrieverInvalidData ''pending work cursor source_kind must contain 1..=64 characters'')
      else if is_blank i \<or> 191 < char_count i
      then Err (RetrieverInvalidData ''pending work cursor source_id must contain 1..=191 characters'')
      else Ok \<lparr>pwc_due_at = due, pwc_source_kind = kind, pwc_source_id = i\<rparr>)"

datatype query_effect_next_cursor =
    ThreadSearchNext thread_search_cursor
  | PendingOwnerWorkNext pending_owner_work_cursor

section \<open>Identifiers\<close>

datatype thread_decision_id = ThreadDecisionId (decision_str: string)
datatype open_question_id = OpenQuestionId (question_str: string)

definition thread_decision_id_new :: "string \<Rightarrow> (threading_error, thread_decision_id) result" where
  "thread_decision_id_new v = bind_r (thread_id_check ''thread_decision_id'' v) (\<lambda>_. Ok (ThreadDecisionId v))"

definition open_question_id_new :: "string \<Rightarrow> (threading_error, open_question_id) result" where
  "open_question_id_new v = bind_r (thread_id_check ''open_question_id'' v) (\<lambda>_. Ok (OpenQuestionId v))"

datatype follow_up_id = FollowUpId (follow_up_str: string)
datatype response_expectation_id = ResponseExpectationId (expectation_str: string)

definition follow_up_id_new :: "string \<Rightarrow> (string, follow_up_id) result" where
  "follow_up_id_new v =
     (if is_blank v \<or> 36 < length v then Err ''follow_up_id must contain 1..=36 bytes'' else Ok (FollowUpId v))"

definition response_expectation_id_new :: "string \<Rightarrow> (string, response_expectation_id) result" where
  "response_expectation_id_new v =
     (if is_blank v \<or> 36 < length v then Err ''expectation_id must contain 1..=36 bytes''
      else Ok (ResponseExpectationId v))"

datatype memory_fact_error = InvalidMemoryFact string
datatype memory_candidate_error = InvalidMemoryCandidate string | CandidateSerialize string

datatype memory_fact_id = MemoryFactId (fact_str: string)
datatype memory_candidate_id = MemoryCandidateId (candidate_str: string)

definition memory_fact_id_new :: "string \<Rightarrow> (memory_fact_error, memory_fact_id) result" where
  "memory_fact_id_new v =
     (if is_blank v then Err (InvalidMemoryFact ''memory_fact_id must not be empty'') else Ok (MemoryFactId v))"

definition memory_candidate_id_new :: "string \<Rightarrow> (memory_candidate_error, memory_candidate_id) result" where
  "memory_candidate_id_new v =
     (if is_blank v \<or> 36 < length v
      then Err (InvalidMemoryCandidate ''candidate_id must contain 1..=36 bytes'')
      else Ok (MemoryCandidateId v))"

section \<open>Memory\<close>

datatype memory_fact_status = FactProposed | FactConfirmed | FactSuperseded | FactExpired | FactDeleted
datatype commitment_status = CommitmentProposed | CommitmentPending | CommitmentFulfilled | CommitmentCancelled
datatype memory_candidate_kind = PersonCandidate | ProjectCandidate | CommitmentCandidate
datatype memory_candidate_status =
  CandidateProposed | CandidateApproved | CandidateRejected | CandidateInvalidated

record person_memory =
  pm_person :: thread_actor_ref
  pm_relationship :: "string option"
  pm_responsibilities :: "string list"
  pm_communication_preferences :: "string list"

record project_member_ref =
  pmr_platform_identity_kind :: "platform_identity_kind option"
  pmr_actor_id :: string

definition member_id_check :: "string \<Rightarrow> (memory_fact_error, unit) result" where
  "member_id_check v =
     (if is_blank v \<or> 191 < length v
      then Err (InvalidMemoryFact ''ProjectMemberRef.actor_id must contain 1..=191 bytes'') else Ok ())"

definition project_member_ref_new ::
  "platform_identity_kind \<Rightarrow> string \<Rightarrow> (memory_fact_error, project_member_ref) result" where
  "project_member_ref_new k v =
     bind_r (member_id_check v) (\<lambda>_. Ok \<lparr>pmr_platform_identity_kind = Some k, pmr_actor_id = v\<rparr>)"

definition project_member_ref_legacy :: "string \<Rightarrow> (memory_fact_error, project_member_ref) result" where
  "project_member_ref_legacy v =
     bind_r (member_id_check v) (\<lambda>_. Ok \<lparr>pmr_platform_identity_kind = None, pmr_actor_id = v\<rparr>)"

record project_memory =
  pj_project_key :: string
  pj_goal :: string
  pj_member_actor_ids :: "string list"
  pj_member_actor_refs :: "project_member_ref list"
  pj_progress :: "string option"
  pj_decision_ids :: "thread_decision_id list"
  pj_risks :: "string list"
  pj_blockers :: "string list"
  pj_artifact_refs :: "string list"

definition effective_members :: "project_memory \<Rightarrow> project_member_ref list" where
  "effective_members p =
     (if pj_member_actor_refs p \<noteq> [] then pj_member_actor_refs p
      else map (\<lambda>i. \<lparr>pmr_platform_identity_kind = None, pmr_actor_id = i\<rparr>) (pj_member_actor_ids p))"

definition has_legacy_member_ids_only :: "project_memory \<Rightarrow> bool" where
  "has_legacy_member_ids_only p \<longleftrightarrow> pj_member_actor_refs p = [] \<and> pj_member_actor_ids p \<noteq> []"

record commitment_memory =
  cm_promisor :: thread_actor_ref
  cm_beneficiary :: thread_actor_ref
  cm_action :: string
  cm_due_at :: "i64 option"
  cm_status :: commitment_status
  cm_completion_source :: "source_event_id option"

datatype memory_payload =
    PersonPayload person_memory
  | ProjectPayload project_memory
  | CommitmentPayload commitment_memory

primrec memory_payload_kind :: "memory_payload \<Rightarrow> string" where
  "memory_payload_kind (PersonPayload _) = ''person''"
| "memory_payload_kind (ProjectPayload _) = ''project''"
| "memory_payload_kind (CommitmentPayload _) = ''commitment''"

primrec candidate_kind_from_payload :: "memory_payload \<Rightarrow> memory_candidate_kind" where
  "candidate_kind_from_payload (PersonPayload _) = PersonCandidate"
| "candidate_kind_from_payload (ProjectPayload _) = ProjectCandidate"
| "candidate_kind_from_payload (CommitmentPayload _) = CommitmentCandidate"

record memory_fact =
  mf_fact_id :: memory_fact_id
  mf_account :: source_account_ref
  mf_subject_key :: string
  mf_payload :: memory_payload
  mf_status :: memory_fact_status
  mf_confidence_bps :: u16
  mf_source_event_ids :: "source_event_id list"
  mf_valid_until :: "i64 option"
  mf_supersedes :: "memory_fact_id option"

record memory_source_excerpt =
  mse_source_event_id :: source_event_id
  mse_conversation_kind :: string
  mse_conversation_id :: string
  mse_actor_id :: string
  mse_occurred_at :: i64
  mse_excerpt :: string
  mse_trust_level :: content_trust_level

record memory_fact_view =
  mfv_fact :: memory_fact
  mfv_sources :: "memory_source_excerpt list"

end
