(* ===== verification/Secretary_Action.thy ===== *)
theory Secretary_Action
  imports Notification_Policy Secretary_Types
begin

text \<open>
  The white list of the secretary's actions
  (\<open>personal-secretary/src/domain/agent_runtime/action.rs\<close>): risk levels, tool kinds and their
  policies, the typed actions, proposals, effects and receipts. A proposal id is drawn by
  \<open>Uuid::new_v4\<close>, so it is an argument of the constructor.
\<close>

section \<open>Risks and tools\<close>

datatype secretary_risk_level = L0ReadOnly | L1Reversible | L2Impactful | L3ExternalSideEffect

text \<open>\<open>#[derive(PartialOrd, Ord)]\<close>: the order of the declaration.\<close>

primrec risk_rank :: "secretary_risk_level \<Rightarrow> nat" where
  "risk_rank L0ReadOnly = 0"
| "risk_rank L1Reversible = 1"
| "risk_rank L2Impactful = 2"
| "risk_rank L3ExternalSideEffect = 3"

instantiation secretary_risk_level :: linorder
begin

definition less_eq_secretary_risk_level :: "secretary_risk_level \<Rightarrow> secretary_risk_level \<Rightarrow> bool" where
  "less_eq_secretary_risk_level a b \<longleftrightarrow> risk_rank a \<le> risk_rank b"

definition less_secretary_risk_level :: "secretary_risk_level \<Rightarrow> secretary_risk_level \<Rightarrow> bool" where
  "less_secretary_risk_level a b \<longleftrightarrow> risk_rank a < risk_rank b"

instance
proof
  show "a \<le> b \<Longrightarrow> b \<le> a \<Longrightarrow> a = b" for a b :: secretary_risk_level
    by (cases a; cases b) (auto simp: less_eq_secretary_risk_level_def)
qed (auto simp: less_eq_secretary_risk_level_def less_secretary_risk_level_def)

end

datatype (plugins only: code size) secretary_tool_kind =
    SearchRecentEventsTool | ReadSourceEventTool | SearchEventThreadsTool | ResolveReferenceTool
  | ListUpcomingItemsTool | GetSecretaryStatusTool | ListPendingOwnerWorkTool
  | GetThreadContextTool | GetEventCausalContextTool | GetParticipantContextTool
  | GetParticipantContextByNameTool | DraftReminderTool | CreateScheduleTool | RescheduleItemTool
  | CancelItemTool | CreateTaskTool | CreateReminderTool | CompleteItemTool | SnoozeItemTool
  | SendOwnerMessageTool | AskOwnerClarificationTool | ListNotificationPoliciesTool
  | ExplainNotificationDecisionTool | SetAccountDefaultNotificationModeTool
  | SetConversationNotificationModeTool | SetQuietHoursTool | SetImportantContactTool
  | SetNotificationCategoryImportanceTool | RecordNotificationFeedbackTool
  | CreateSimilarNotificationRuleTool | DisableNotificationPolicyTool
  | SetAutomaticReplyDeniedForContactTool | ListMemoryFactsTool | ReadMemoryFactSourcesTool
  | CorrectMemoryFactTool | DeleteMemoryFactTool | SetMemoryFactTtlTool
  | SetConversationMemoryModeTool | ConfirmThreadDecisionTool | RevokeThreadDecisionTool
  | DismissThreadQuestionTool | ReconfirmThreadSemanticsTool | RetryFailedArtifactDerivationsTool
  | SetThreadLifecycleTool | MergeThreadsTool | SplitThreadTool | DismissFollowUpTool
  | SnoozeFollowUpTool | DismissFollowUpsTool | SnoozeFollowUpsTool | CompleteFollowUpTool
  | CompleteFollowUpsTool | DismissResponseExpectationTool | DismissResponseExpectationsTool
  | ListMemoryCandidatesTool | ApproveMemoryCandidateTool | RejectMemoryCandidateTool
  | ListThreadLinkCandidatesTool | ListProjectsTool | QueryProjectTool | ListCommitmentsTool

record secretary_tool_policy =
  tp_risk :: secretary_risk_level
  tp_requires_confirmation :: bool
  tp_reversible :: bool
  tp_timeout_ms :: u64
  tp_max_retries :: u8

definition read_only_policy :: secretary_tool_policy where
  "read_only_policy =
    \<lparr>tp_risk = L0ReadOnly, tp_requires_confirmation = False, tp_reversible = True, tp_timeout_ms = 10000,
     tp_max_retries = 2\<rparr>"

definition reversible_policy :: secretary_tool_policy where
  "reversible_policy =
    \<lparr>tp_risk = L1Reversible, tp_requires_confirmation = False, tp_reversible = True, tp_timeout_ms = 5000,
     tp_max_retries = 1\<rparr>"

definition impactful_policy :: "bool \<Rightarrow> secretary_tool_policy" where
  "impactful_policy reversible =
    \<lparr>tp_risk = L2Impactful, tp_requires_confirmation = True, tp_reversible = reversible, tp_timeout_ms = 15000,
     tp_max_retries = 1\<rparr>"

definition external_policy :: secretary_tool_policy where
  "external_policy =
    \<lparr>tp_risk = L3ExternalSideEffect, tp_requires_confirmation = True, tp_reversible = False, tp_timeout_ms = 30000,
     tp_max_retries = 0\<rparr>"

definition clarification_policy :: secretary_tool_policy where
  "clarification_policy =
    \<lparr>tp_risk = L0ReadOnly, tp_requires_confirmation = False, tp_reversible = True, tp_timeout_ms = 0,
     tp_max_retries = 0\<rparr>"

primrec tool_policy :: "secretary_tool_kind \<Rightarrow> secretary_tool_policy" where
  "tool_policy SearchRecentEventsTool = read_only_policy"
| "tool_policy ReadSourceEventTool = read_only_policy"
| "tool_policy SearchEventThreadsTool = read_only_policy"
| "tool_policy ResolveReferenceTool = read_only_policy"
| "tool_policy ListUpcomingItemsTool = read_only_policy"
| "tool_policy GetSecretaryStatusTool = read_only_policy"
| "tool_policy ListPendingOwnerWorkTool = read_only_policy"
| "tool_policy GetThreadContextTool = read_only_policy"
| "tool_policy GetEventCausalContextTool = read_only_policy"
| "tool_policy GetParticipantContextTool = read_only_policy"
| "tool_policy GetParticipantContextByNameTool = read_only_policy"
| "tool_policy DraftReminderTool = reversible_policy"
| "tool_policy CreateScheduleTool = impactful_policy True"
| "tool_policy RescheduleItemTool = impactful_policy True"
| "tool_policy CancelItemTool = impactful_policy True"
| "tool_policy CreateTaskTool = impactful_policy True"
| "tool_policy CreateReminderTool = impactful_policy True"
| "tool_policy CompleteItemTool = impactful_policy True"
| "tool_policy SnoozeItemTool = impactful_policy True"
| "tool_policy SendOwnerMessageTool = external_policy"
| "tool_policy AskOwnerClarificationTool = clarification_policy"
| "tool_policy ListNotificationPoliciesTool = read_only_policy"
| "tool_policy ExplainNotificationDecisionTool = read_only_policy"
| "tool_policy SetAccountDefaultNotificationModeTool = impactful_policy True"
| "tool_policy SetConversationNotificationModeTool = impactful_policy True"
| "tool_policy SetQuietHoursTool = impactful_policy True"
| "tool_policy SetImportantContactTool = impactful_policy True"
| "tool_policy SetNotificationCategoryImportanceTool = impactful_policy True"
| "tool_policy RecordNotificationFeedbackTool = reversible_policy"
| "tool_policy CreateSimilarNotificationRuleTool = impactful_policy True"
| "tool_policy DisableNotificationPolicyTool = impactful_policy True"
| "tool_policy SetAutomaticReplyDeniedForContactTool = impactful_policy True"
| "tool_policy ListMemoryFactsTool = read_only_policy"
| "tool_policy ReadMemoryFactSourcesTool = read_only_policy"
| "tool_policy CorrectMemoryFactTool = impactful_policy True"
| "tool_policy DeleteMemoryFactTool = impactful_policy True"
| "tool_policy SetMemoryFactTtlTool = impactful_policy True"
| "tool_policy SetConversationMemoryModeTool = impactful_policy True"
| "tool_policy ConfirmThreadDecisionTool = impactful_policy True"
| "tool_policy RevokeThreadDecisionTool = impactful_policy True"
| "tool_policy DismissThreadQuestionTool = impactful_policy True"
| "tool_policy ReconfirmThreadSemanticsTool = impactful_policy False"
| "tool_policy RetryFailedArtifactDerivationsTool = impactful_policy False"
| "tool_policy SetThreadLifecycleTool = impactful_policy True"
| "tool_policy MergeThreadsTool = impactful_policy True"
| "tool_policy SplitThreadTool = impactful_policy True"
| "tool_policy DismissFollowUpTool = impactful_policy True"
| "tool_policy SnoozeFollowUpTool = impactful_policy True"
| "tool_policy DismissFollowUpsTool = impactful_policy True"
| "tool_policy SnoozeFollowUpsTool = impactful_policy True"
| "tool_policy CompleteFollowUpTool = impactful_policy False"
| "tool_policy CompleteFollowUpsTool = impactful_policy False"
| "tool_policy DismissResponseExpectationTool = impactful_policy False"
| "tool_policy DismissResponseExpectationsTool = impactful_policy False"
| "tool_policy ListMemoryCandidatesTool = read_only_policy"
| "tool_policy ApproveMemoryCandidateTool = impactful_policy False"
| "tool_policy RejectMemoryCandidateTool = impactful_policy False"
| "tool_policy ListThreadLinkCandidatesTool = read_only_policy"
| "tool_policy ListProjectsTool = read_only_policy"
| "tool_policy QueryProjectTool = read_only_policy"
| "tool_policy ListCommitmentsTool = read_only_policy"

text \<open>\<open>{:?}\<close> of a tool kind\<close>

primrec tool_kind_debug :: "secretary_tool_kind \<Rightarrow> string" where
  "tool_kind_debug SearchRecentEventsTool = ''SearchRecentEvents''"
| "tool_kind_debug ReadSourceEventTool = ''ReadSourceEvent''"
| "tool_kind_debug SearchEventThreadsTool = ''SearchEventThreads''"
| "tool_kind_debug ResolveReferenceTool = ''ResolveReference''"
| "tool_kind_debug ListUpcomingItemsTool = ''ListUpcomingItems''"
| "tool_kind_debug GetSecretaryStatusTool = ''GetSecretaryStatus''"
| "tool_kind_debug ListPendingOwnerWorkTool = ''ListPendingOwnerWork''"
| "tool_kind_debug GetThreadContextTool = ''GetThreadContext''"
| "tool_kind_debug GetEventCausalContextTool = ''GetEventCausalContext''"
| "tool_kind_debug GetParticipantContextTool = ''GetParticipantContext''"
| "tool_kind_debug GetParticipantContextByNameTool = ''GetParticipantContextByName''"
| "tool_kind_debug DraftReminderTool = ''DraftReminder''"
| "tool_kind_debug CreateScheduleTool = ''CreateSchedule''"
| "tool_kind_debug RescheduleItemTool = ''RescheduleItem''"
| "tool_kind_debug CancelItemTool = ''CancelItem''"
| "tool_kind_debug CreateTaskTool = ''CreateTask''"
| "tool_kind_debug CreateReminderTool = ''CreateReminder''"
| "tool_kind_debug CompleteItemTool = ''CompleteItem''"
| "tool_kind_debug SnoozeItemTool = ''SnoozeItem''"
| "tool_kind_debug SendOwnerMessageTool = ''SendOwnerMessage''"
| "tool_kind_debug AskOwnerClarificationTool = ''AskOwnerClarification''"
| "tool_kind_debug ListNotificationPoliciesTool = ''ListNotificationPolicies''"
| "tool_kind_debug ExplainNotificationDecisionTool = ''ExplainNotificationDecision''"
| "tool_kind_debug SetAccountDefaultNotificationModeTool = ''SetAccountDefaultNotificationMode''"
| "tool_kind_debug SetConversationNotificationModeTool = ''SetConversationNotificationMode''"
| "tool_kind_debug SetQuietHoursTool = ''SetQuietHours''"
| "tool_kind_debug SetImportantContactTool = ''SetImportantContact''"
| "tool_kind_debug SetNotificationCategoryImportanceTool = ''SetNotificationCategoryImportance''"
| "tool_kind_debug RecordNotificationFeedbackTool = ''RecordNotificationFeedback''"
| "tool_kind_debug CreateSimilarNotificationRuleTool = ''CreateSimilarNotificationRule''"
| "tool_kind_debug DisableNotificationPolicyTool = ''DisableNotificationPolicy''"
| "tool_kind_debug SetAutomaticReplyDeniedForContactTool = ''SetAutomaticReplyDeniedForContact''"
| "tool_kind_debug ListMemoryFactsTool = ''ListMemoryFacts''"
| "tool_kind_debug ReadMemoryFactSourcesTool = ''ReadMemoryFactSources''"
| "tool_kind_debug CorrectMemoryFactTool = ''CorrectMemoryFact''"
| "tool_kind_debug DeleteMemoryFactTool = ''DeleteMemoryFact''"
| "tool_kind_debug SetMemoryFactTtlTool = ''SetMemoryFactTtl''"
| "tool_kind_debug SetConversationMemoryModeTool = ''SetConversationMemoryMode''"
| "tool_kind_debug ConfirmThreadDecisionTool = ''ConfirmThreadDecision''"
| "tool_kind_debug RevokeThreadDecisionTool = ''RevokeThreadDecision''"
| "tool_kind_debug DismissThreadQuestionTool = ''DismissThreadQuestion''"
| "tool_kind_debug ReconfirmThreadSemanticsTool = ''ReconfirmThreadSemantics''"
| "tool_kind_debug RetryFailedArtifactDerivationsTool = ''RetryFailedArtifactDerivations''"
| "tool_kind_debug SetThreadLifecycleTool = ''SetThreadLifecycle''"
| "tool_kind_debug MergeThreadsTool = ''MergeThreads''"
| "tool_kind_debug SplitThreadTool = ''SplitThread''"
| "tool_kind_debug DismissFollowUpTool = ''DismissFollowUp''"
| "tool_kind_debug SnoozeFollowUpTool = ''SnoozeFollowUp''"
| "tool_kind_debug DismissFollowUpsTool = ''DismissFollowUps''"
| "tool_kind_debug SnoozeFollowUpsTool = ''SnoozeFollowUps''"
| "tool_kind_debug CompleteFollowUpTool = ''CompleteFollowUp''"
| "tool_kind_debug CompleteFollowUpsTool = ''CompleteFollowUps''"
| "tool_kind_debug DismissResponseExpectationTool = ''DismissResponseExpectation''"
| "tool_kind_debug DismissResponseExpectationsTool = ''DismissResponseExpectations''"
| "tool_kind_debug ListMemoryCandidatesTool = ''ListMemoryCandidates''"
| "tool_kind_debug ApproveMemoryCandidateTool = ''ApproveMemoryCandidate''"
| "tool_kind_debug RejectMemoryCandidateTool = ''RejectMemoryCandidate''"
| "tool_kind_debug ListThreadLinkCandidatesTool = ''ListThreadLinkCandidates''"
| "tool_kind_debug ListProjectsTool = ''ListProjects''"
| "tool_kind_debug QueryProjectTool = ''QueryProject''"
| "tool_kind_debug ListCommitmentsTool = ''ListCommitments''"

section \<open>Actions\<close>

record follow_up_target =
  fut_follow_up_id :: follow_up_id
  fut_expected_source_version :: u64

record expectation_target =
  ext_expectation_id :: response_expectation_id
  ext_expected_source_version :: u64

datatype (plugins only: code size) secretary_action =
    SearchRecentEvents string u16 "i64 option" "i64 option" "conversation_ref option" "event_thread_id option" "string option"
  | ReadSourceEvent source_event_id
  | SearchEventThreads string u16 "thread_search_cursor option"
  | ResolveReference string "conversation_ref option" "event_thread_id option"
  | ListUpcomingItems u64
  | GetSecretaryStatus
  | ListPendingOwnerWork u16 "pending_owner_work_cursor option"
  | GetThreadContext event_thread_id
  | GetEventCausalContext source_event_id
  | GetParticipantContext platform_identity_kind string "conversation_ref option" "event_thread_id option"
  | GetParticipantContextByName string "conversation_ref option" "event_thread_id option"
  | DraftReminder string i64
  | CreateSchedule string i64 string
  | RescheduleItem string u64 i64 string
  | CancelItem string u64 string
  | CreateTask string "i64 option" string
  | CreateReminder string i64 string
  | CompleteItem string u64
  | SnoozeItem string u64 i64 string
  | SendOwnerMessage string
  | AskOwnerClarification string
  | ListNotificationPolicies u16
  | ExplainNotificationDecision string
  | SetAccountDefaultNotificationMode string notification_match_key notification_outcome bool
  | SetConversationNotificationMode string notification_match_key notification_outcome bool bool bool
  | SetQuietHours string notification_match_key quiet_hours_rule
  | SetImportantContact string notification_match_key notification_outcome bool
  | SetNotificationCategoryImportance string notification_match_key notification_outcome bool
  | RecordNotificationFeedback notification_candidate_ref notification_match_key bool bool
  | CreateSimilarNotificationRule string notification_match_key notification_outcome bool
  | DisableNotificationPolicy policy_family_id u64
  | SetAutomaticReplyDeniedForContact string notification_match_key
  | ListMemoryFacts u16
  | ReadMemoryFactSources memory_fact_id u16
  | CorrectMemoryFact memory_fact_id memory_payload u16 "source_event_id list" "i64 option"
  | DeleteMemoryFact memory_fact_id string
  | SetMemoryFactTtl memory_fact_id "i64 option"
  | SetConversationMemoryMode conversation_ref content_trust_level
  | ConfirmThreadDecision thread_decision_id
  | RevokeThreadDecision thread_decision_id string
  | DismissThreadQuestion open_question_id string
  | ReconfirmThreadSemantics event_thread_id string
  | RetryFailedArtifactDerivations u16 string
  | SetThreadLifecycle event_thread_id thread_status thread_status string
  | MergeThreads "event_thread_id list" string
  | SplitThread event_thread_id "source_event_id list" string
  | DismissFollowUp follow_up_id u64 string
  | SnoozeFollowUp follow_up_id u64 i64 string
  | DismissFollowUps "follow_up_target list" string
  | SnoozeFollowUps "follow_up_target list" i64 string
  | CompleteFollowUp follow_up_id u64 string
  | CompleteFollowUps "follow_up_target list" string
  | DismissResponseExpectation response_expectation_id u64 string
  | DismissResponseExpectations "expectation_target list" string
  | ListMemoryCandidates "memory_candidate_status option" "memory_candidate_kind option" u16
  | ListThreadLinkCandidates u16
  | ApproveMemoryCandidate memory_candidate_id u64 string
  | RejectMemoryCandidate memory_candidate_id u64 string
  | ListProjects u16
  | QueryProject string
  | ListCommitments "commitment_status option" "i64 option" "i64 option" "project_member_ref option" "project_member_ref option" u16

primrec action_kind :: "secretary_action \<Rightarrow> secretary_tool_kind" where
  "action_kind (SearchRecentEvents _ _ _ _ _ _ _) = SearchRecentEventsTool"
| "action_kind (ReadSourceEvent _) = ReadSourceEventTool"
| "action_kind (SearchEventThreads _ _ _) = SearchEventThreadsTool"
| "action_kind (ResolveReference _ _ _) = ResolveReferenceTool"
| "action_kind (ListUpcomingItems _) = ListUpcomingItemsTool"
| "action_kind GetSecretaryStatus = GetSecretaryStatusTool"
| "action_kind (ListPendingOwnerWork _ _) = ListPendingOwnerWorkTool"
| "action_kind (GetThreadContext _) = GetThreadContextTool"
| "action_kind (GetEventCausalContext _) = GetEventCausalContextTool"
| "action_kind (GetParticipantContext _ _ _ _) = GetParticipantContextTool"
| "action_kind (GetParticipantContextByName _ _ _) = GetParticipantContextByNameTool"
| "action_kind (DraftReminder _ _) = DraftReminderTool"
| "action_kind (CreateSchedule _ _ _) = CreateScheduleTool"
| "action_kind (RescheduleItem _ _ _ _) = RescheduleItemTool"
| "action_kind (CancelItem _ _ _) = CancelItemTool"
| "action_kind (CreateTask _ _ _) = CreateTaskTool"
| "action_kind (CreateReminder _ _ _) = CreateReminderTool"
| "action_kind (CompleteItem _ _) = CompleteItemTool"
| "action_kind (SnoozeItem _ _ _ _) = SnoozeItemTool"
| "action_kind (SendOwnerMessage _) = SendOwnerMessageTool"
| "action_kind (AskOwnerClarification _) = AskOwnerClarificationTool"
| "action_kind (ListNotificationPolicies _) = ListNotificationPoliciesTool"
| "action_kind (ExplainNotificationDecision _) = ExplainNotificationDecisionTool"
| "action_kind (SetAccountDefaultNotificationMode _ _ _ _) = SetAccountDefaultNotificationModeTool"
| "action_kind (SetConversationNotificationMode _ _ _ _ _ _) = SetConversationNotificationModeTool"
| "action_kind (SetQuietHours _ _ _) = SetQuietHoursTool"
| "action_kind (SetImportantContact _ _ _ _) = SetImportantContactTool"
| "action_kind (SetNotificationCategoryImportance _ _ _ _) = SetNotificationCategoryImportanceTool"
| "action_kind (RecordNotificationFeedback _ _ _ _) = RecordNotificationFeedbackTool"
| "action_kind (CreateSimilarNotificationRule _ _ _ _) = CreateSimilarNotificationRuleTool"
| "action_kind (DisableNotificationPolicy _ _) = DisableNotificationPolicyTool"
| "action_kind (SetAutomaticReplyDeniedForContact _ _) = SetAutomaticReplyDeniedForContactTool"
| "action_kind (ListMemoryFacts _) = ListMemoryFactsTool"
| "action_kind (ReadMemoryFactSources _ _) = ReadMemoryFactSourcesTool"
| "action_kind (CorrectMemoryFact _ _ _ _ _) = CorrectMemoryFactTool"
| "action_kind (DeleteMemoryFact _ _) = DeleteMemoryFactTool"
| "action_kind (SetMemoryFactTtl _ _) = SetMemoryFactTtlTool"
| "action_kind (SetConversationMemoryMode _ _) = SetConversationMemoryModeTool"
| "action_kind (ConfirmThreadDecision _) = ConfirmThreadDecisionTool"
| "action_kind (RevokeThreadDecision _ _) = RevokeThreadDecisionTool"
| "action_kind (DismissThreadQuestion _ _) = DismissThreadQuestionTool"
| "action_kind (ReconfirmThreadSemantics _ _) = ReconfirmThreadSemanticsTool"
| "action_kind (RetryFailedArtifactDerivations _ _) = RetryFailedArtifactDerivationsTool"
| "action_kind (SetThreadLifecycle _ _ _ _) = SetThreadLifecycleTool"
| "action_kind (MergeThreads _ _) = MergeThreadsTool"
| "action_kind (SplitThread _ _ _) = SplitThreadTool"
| "action_kind (DismissFollowUp _ _ _) = DismissFollowUpTool"
| "action_kind (SnoozeFollowUp _ _ _ _) = SnoozeFollowUpTool"
| "action_kind (DismissFollowUps _ _) = DismissFollowUpsTool"
| "action_kind (SnoozeFollowUps _ _ _) = SnoozeFollowUpsTool"
| "action_kind (CompleteFollowUp _ _ _) = CompleteFollowUpTool"
| "action_kind (CompleteFollowUps _ _) = CompleteFollowUpsTool"
| "action_kind (DismissResponseExpectation _ _ _) = DismissResponseExpectationTool"
| "action_kind (DismissResponseExpectations _ _) = DismissResponseExpectationsTool"
| "action_kind (ListMemoryCandidates _ _ _) = ListMemoryCandidatesTool"
| "action_kind (ListThreadLinkCandidates _) = ListThreadLinkCandidatesTool"
| "action_kind (ApproveMemoryCandidate _ _ _) = ApproveMemoryCandidateTool"
| "action_kind (RejectMemoryCandidate _ _ _) = RejectMemoryCandidateTool"
| "action_kind (ListProjects _) = ListProjectsTool"
| "action_kind (QueryProject _) = QueryProjectTool"
| "action_kind (ListCommitments _ _ _ _ _ _) = ListCommitmentsTool"

section \<open>Proposals, effects and receipts\<close>

record secretary_action_proposal =
  ap_proposal_id :: string
  ap_action :: secretary_action
  ap_rationale :: string
  ap_source_event_ids :: "source_event_id list"
  ap_idempotency_key :: "string option"

record secretary_action_effect =
  ae_proposal :: secretary_action_proposal

record secretary_action_receipt =
  ar_proposal_id :: string
  ar_result_ref :: string
  ar_tool_kind :: "secretary_tool_kind option"

definition action_policy :: "secretary_action_proposal \<Rightarrow> secretary_tool_policy" where
  "action_policy p = tool_policy (action_kind (ap_action p))"

section \<open>Replan and conflict white lists\<close>

text \<open>\<open>is_replan_observation_tool\<close> and \<open>is_allowed_after_memory_conflict\<close> of
  \<open>personal-secretary/src/domain/planner.rs\<close>, and its batch white list.\<close>

definition is_replan_observation_tool :: "secretary_tool_kind \<Rightarrow> bool" where
  "is_replan_observation_tool k \<longleftrightarrow>
     k \<in> {SearchRecentEventsTool, ReadSourceEventTool, SearchEventThreadsTool, ResolveReferenceTool
       , ListUpcomingItemsTool, GetSecretaryStatusTool, ListPendingOwnerWorkTool
       , ListMemoryCandidatesTool}"

definition is_allowed_after_memory_conflict :: "secretary_action \<Rightarrow> bool" where
  "is_allowed_after_memory_conflict a \<longleftrightarrow>
     (case a of AskOwnerClarification _ \<Rightarrow> True | CorrectMemoryFact _ _ _ _ _ \<Rightarrow> True | _ \<Rightarrow> False)"

definition is_allowed_action_in_batch :: "secretary_action \<Rightarrow> bool" where
  "is_allowed_action_in_batch a \<longleftrightarrow> action_kind a \<noteq> SendOwnerMessageTool"

section \<open>Lemmas\<close>

lemmas policy_defs =
  read_only_policy_def reversible_policy_def impactful_policy_def external_policy_def clarification_policy_def

lemma confirmation_iff_impactful:
  "tp_requires_confirmation (tool_policy k) \<longleftrightarrow> L2Impactful \<le> tp_risk (tool_policy k)"
  by (cases k) (simp_all add: policy_defs less_eq_secretary_risk_level_def)

lemma irreversible_needs_confirmation:
  "\<not> tp_reversible (tool_policy k) \<Longrightarrow> tp_requires_confirmation (tool_policy k)"
  by (cases k) (simp_all add: policy_defs)

lemma replan_tools_read_only:
  "is_replan_observation_tool k \<Longrightarrow> tp_risk (tool_policy k) = L0ReadOnly \<and> \<not> tp_requires_confirmation (tool_policy k)"
  by (auto simp: is_replan_observation_tool_def policy_defs)

end
