(* ===== verification/Working_Context.thy ===== *)
theory Working_Context
  imports Secretary_Types
begin

text \<open>
  The working context of the agent
  (\<open>personal-secretary/src/domain/agent_runtime/working_context.rs\<close>): bounded references that
  survive planning, retrieval, replanning, suspension and resumption, and the context of a memory
  conflict. The length of its JSON text (\<open>serde_json::to_string\<close>) is a function \<open>size\<close>, an argument
  of the validation; a failed serialization counts as the maximum, so \<open>None\<close> stands for it.
\<close>

section \<open>Bounds and errors\<close>

definition working_context_version :: u8 where "working_context_version = 1"
definition max_working_evidence_refs :: nat where "max_working_evidence_refs = 20"
definition max_working_resolved_conversations :: nat where "max_working_resolved_conversations = 8"
definition max_working_resolved_threads :: nat where "max_working_resolved_threads = 8"
definition max_working_resolved_participants :: nat where "max_working_resolved_participants = 20"
definition max_working_resolved_facts :: nat where "max_working_resolved_facts = 8"
definition max_working_open_references :: nat where "max_working_open_references = 10"
definition max_open_reference_sources :: nat where "max_open_reference_sources = 5"
definition max_working_text_chars :: nat where "max_working_text_chars = 1000"
definition max_working_bytes :: nat where "max_working_bytes = 32768"

lemmas working_bounds =
  max_working_evidence_refs_def max_working_resolved_conversations_def max_working_resolved_threads_def
  max_working_resolved_participants_def max_working_resolved_facts_def max_working_open_references_def
  max_open_reference_sources_def max_working_text_chars_def max_working_bytes_def

datatype working_context_error =
    ContextTooLarge string nat
  | ContextDuplicate string
  | ContextBlank string
  | SerializedTooLarge nat nat
  | UnsupportedVersion u8

section \<open>Data\<close>

datatype retrieval_trigger_kind = InitialOwnerCommand | ReplanObservation | MemoryConflictReRead

datatype open_reference_kind = AmbiguousReference

record open_reference =
  or_kind :: open_reference_kind
  or_label :: string
  or_source_event_ids :: "source_event_id list"
  or_reason :: string

datatype memory_conflict_reason_code =
  ActiveFactPayloadDiffers | ReReadSourcesInvalidated | ReReadAccountMismatch | ReReadFailed

record memory_conflict_context =
  mcc_candidate_id :: memory_candidate_id
  mcc_fact_id :: memory_fact_id
  mcc_fact_kind :: string
  mcc_reason_code :: memory_conflict_reason_code
  mcc_summary :: string
  mcc_source_event_ids :: "source_event_id list"
  mcc_fact_summary :: "string option"
  mcc_re_read_valid :: bool

record agent_working_context =
  wc_version :: u8
  wc_selected_evidence_refs :: "source_event_id list"
  wc_resolved_conversation_refs :: "conversation_ref list"
  wc_resolved_thread_refs :: "event_thread_id list"
  wc_resolved_participant_refs :: "participant_ref list"
  wc_resolved_fact_refs :: "memory_fact_id list"
  wc_open_references :: "open_reference list"
  wc_last_retrieval :: "retrieval_trigger_kind option"
  wc_conflict :: "memory_conflict_context option"

definition working_context_default :: agent_working_context where
  "working_context_default =
     \<lparr>wc_version = working_context_version, wc_selected_evidence_refs = [],
      wc_resolved_conversation_refs = [], wc_resolved_thread_refs = [],
      wc_resolved_participant_refs = [], wc_resolved_fact_refs = [], wc_open_references = [],
      wc_last_retrieval = None, wc_conflict = None\<rparr>"

section \<open>Validation\<close>

definition check_len :: "string \<Rightarrow> 'a list \<Rightarrow> nat \<Rightarrow> (working_context_error, unit) result" where
  "check_len field items limit = (if limit < length items then Err (ContextTooLarge field limit) else Ok ())"

fun has_duplicate :: "'a list \<Rightarrow> 'a list \<Rightarrow> bool" where
  "has_duplicate seen [] = False"
| "has_duplicate seen (x # xs) = (x \<in> set seen \<or> has_duplicate (seen @ [x]) xs)"

definition ensure_unique :: "string \<Rightarrow> 'a list \<Rightarrow> (working_context_error, unit) result" where
  "ensure_unique field items = (if has_duplicate [] items then Err (ContextDuplicate field) else Ok ())"

definition context_text :: "string \<Rightarrow> string \<Rightarrow> nat \<Rightarrow> (working_context_error, unit) result" where
  "context_text field v limit =
     (if is_blank v then Err (ContextBlank field)
      else if limit < char_count v then Err (ContextTooLarge field limit) else Ok ())"

definition validate_open_reference :: "open_reference \<Rightarrow> (working_context_error, unit) result" where
  "validate_open_reference r =
     bind_r (context_text ''open_reference.label'' (or_label r) max_working_text_chars) (\<lambda>_.
     bind_r (context_text ''open_reference.reason'' (or_reason r) max_working_text_chars) (\<lambda>_.
     bind_r (check_len ''open_reference.source_event_ids'' (or_source_event_ids r) max_open_reference_sources) (\<lambda>_.
       ensure_unique ''open_reference.source_event_ids'' (or_source_event_ids r))))"

definition validate_conflict_context :: "memory_conflict_context \<Rightarrow> (working_context_error, unit) result" where
  "validate_conflict_context c =
     bind_r (context_text ''conflict.fact_kind'' (mcc_fact_kind c) 16) (\<lambda>_.
     bind_r (context_text ''conflict.summary'' (mcc_summary c) max_working_text_chars) (\<lambda>_.
     bind_r (check_len ''conflict.source_event_ids'' (mcc_source_event_ids c) max_working_evidence_refs) (\<lambda>_.
     bind_r (ensure_unique ''conflict.source_event_ids'' (mcc_source_event_ids c)) (\<lambda>_.
     bind_r (case mcc_fact_summary c of
               Some t \<Rightarrow> context_text ''conflict.fact_summary'' t max_working_text_chars
             | None \<Rightarrow> Ok ()) (\<lambda>_.
     bind_r (ensure (\<not> (mcc_re_read_valid c \<and> mcc_fact_summary c = None)) (ContextBlank ''conflict.fact_summary'')) (\<lambda>_.
       ensure (\<not> (mcc_re_read_valid c \<and> mcc_source_event_ids c = [])) (ContextBlank ''conflict.source_event_ids'')))))))"

definition conflict_valid ::
  "memory_candidate_id \<Rightarrow> memory_fact_id \<Rightarrow> string \<Rightarrow> memory_conflict_reason_code \<Rightarrow> string \<Rightarrow>
     source_event_id list \<Rightarrow> string \<Rightarrow> (working_context_error, memory_conflict_context) result" where
  "conflict_valid cand fid kind reason summary sources fact_summary =
     (let c = \<lparr>mcc_candidate_id = cand, mcc_fact_id = fid, mcc_fact_kind = kind, mcc_reason_code = reason,
               mcc_summary = summary, mcc_source_event_ids = sources, mcc_fact_summary = Some fact_summary,
               mcc_re_read_valid = True\<rparr> in
      bind_r (validate_conflict_context c) (\<lambda>_. Ok c))"

definition conflict_invalid ::
  "memory_candidate_id \<Rightarrow> memory_fact_id \<Rightarrow> memory_conflict_reason_code \<Rightarrow> string \<Rightarrow>
     (working_context_error, memory_conflict_context) result" where
  "conflict_invalid cand fid reason summary =
     (let c = \<lparr>mcc_candidate_id = cand, mcc_fact_id = fid, mcc_fact_kind = [], mcc_reason_code = reason,
               mcc_summary = summary, mcc_source_event_ids = [], mcc_fact_summary = None,
               mcc_re_read_valid = False\<rparr> in
      bind_r (validate_conflict_context c) (\<lambda>_. Ok c))"

definition working_context_validate ::
  "(agent_working_context \<Rightarrow> nat option) \<Rightarrow> agent_working_context \<Rightarrow> (working_context_error, unit) result" where
  "working_context_validate json_size w =
     bind_r (ensure (wc_version w = working_context_version) (UnsupportedVersion (wc_version w))) (\<lambda>_.
     bind_r (check_len ''selected_evidence_refs'' (wc_selected_evidence_refs w) max_working_evidence_refs) (\<lambda>_.
     bind_r (check_len ''resolved_conversation_refs'' (wc_resolved_conversation_refs w) max_working_resolved_conversations) (\<lambda>_.
     bind_r (check_len ''resolved_thread_refs'' (wc_resolved_thread_refs w) max_working_resolved_threads) (\<lambda>_.
     bind_r (check_len ''resolved_participant_refs'' (wc_resolved_participant_refs w) max_working_resolved_participants) (\<lambda>_.
     bind_r (check_len ''resolved_fact_refs'' (wc_resolved_fact_refs w) max_working_resolved_facts) (\<lambda>_.
     bind_r (check_len ''open_references'' (wc_open_references w) max_working_open_references) (\<lambda>_.
     bind_r (ensure_unique ''selected_evidence_refs'' (wc_selected_evidence_refs w)) (\<lambda>_.
     bind_r (ensure_unique ''resolved_conversation_refs'' (wc_resolved_conversation_refs w)) (\<lambda>_.
     bind_r (ensure_unique ''resolved_thread_refs'' (wc_resolved_thread_refs w)) (\<lambda>_.
     bind_r (ensure_unique ''resolved_participant_refs'' (wc_resolved_participant_refs w)) (\<lambda>_.
     bind_r (ensure_unique ''resolved_fact_refs'' (wc_resolved_fact_refs w)) (\<lambda>_.
     bind_r (all_ok validate_open_reference (wc_open_references w)) (\<lambda>_.
     bind_r (case wc_conflict w of Some c \<Rightarrow> validate_conflict_context c | None \<Rightarrow> Ok ()) (\<lambda>_.
       (let bytes = unwrap_or (json_size w) (2 ^ 64 - 1) in
        ensure (bytes \<le> max_working_bytes) (SerializedTooLarge bytes max_working_bytes))))))))))))))))"

section \<open>Merging\<close>

definition append_unique :: "'a list \<Rightarrow> 'a list \<Rightarrow> 'a list" where
  "append_unique items added = fold (\<lambda>x acc. if x \<in> set acc then acc else acc @ [x]) added items"

definition append_open_references :: "open_reference list \<Rightarrow> open_reference list \<Rightarrow> open_reference list" where
  "append_open_references items added =
     fold (\<lambda>r acc. if list_ex (\<lambda>e. or_kind e = or_kind r \<and> or_label e = or_label r) acc then acc else acc @ [r])
       added items"

text \<open>The merges work on a copy that replaces the context only when it validates, so they return
  the copy.\<close>

definition merge_initial_retrieval ::
  "(agent_working_context \<Rightarrow> nat option) \<Rightarrow> source_event_id list \<Rightarrow> conversation_ref list \<Rightarrow>
     retrieval_trigger_kind \<Rightarrow> agent_working_context \<Rightarrow> (working_context_error, agent_working_context) result" where
  "merge_initial_retrieval json_size evidence convs trigger w =
     (let w' = w\<lparr>wc_selected_evidence_refs := append_unique (wc_selected_evidence_refs w) evidence,
                 wc_resolved_conversation_refs := append_unique (wc_resolved_conversation_refs w) convs,
                 wc_last_retrieval := Some trigger\<rparr> in
      bind_r (working_context_validate json_size w') (\<lambda>_. Ok w'))"

definition merge_replan_evidence ::
  "(agent_working_context \<Rightarrow> nat option) \<Rightarrow> source_event_id list \<Rightarrow> event_thread_id list \<Rightarrow>
     participant_ref list \<Rightarrow> memory_fact_id list \<Rightarrow> open_reference list \<Rightarrow> agent_working_context \<Rightarrow>
     (working_context_error, agent_working_context) result" where
  "merge_replan_evidence json_size evidence threads participants facts opens w =
     (let w' = w\<lparr>wc_selected_evidence_refs := append_unique (wc_selected_evidence_refs w) evidence,
                 wc_resolved_thread_refs := append_unique (wc_resolved_thread_refs w) threads,
                 wc_resolved_participant_refs := append_unique (wc_resolved_participant_refs w) participants,
                 wc_resolved_fact_refs := append_unique (wc_resolved_fact_refs w) facts,
                 wc_open_references := append_open_references (wc_open_references w) opens,
                 wc_last_retrieval := Some ReplanObservation\<rparr> in
      bind_r (working_context_validate json_size w') (\<lambda>_. Ok w'))"

definition merge_conflict ::
  "(agent_working_context \<Rightarrow> nat option) \<Rightarrow> memory_conflict_context \<Rightarrow> agent_working_context \<Rightarrow>
     (working_context_error, agent_working_context) result" where
  "merge_conflict json_size c w =
     (if (case wc_conflict w of Some e \<Rightarrow> mcc_candidate_id e = mcc_candidate_id c | None \<Rightarrow> False) then Ok w
      else (let w' = w\<lparr>wc_resolved_fact_refs := append_unique (wc_resolved_fact_refs w) [mcc_fact_id c],
                 wc_selected_evidence_refs := append_unique (wc_selected_evidence_refs w) (mcc_source_event_ids c),
                 wc_conflict := Some c, wc_last_retrieval := Some MemoryConflictReRead\<rparr> in
            bind_r (working_context_validate json_size w') (\<lambda>_. Ok w')))"

datatype working_context_update =
    InitialRetrieval "source_event_id list" "conversation_ref list" retrieval_trigger_kind
  | ReplanEvidence "source_event_id list" "event_thread_id list" "participant_ref list"
      "memory_fact_id list" "open_reference list"
  | ConflictReRead memory_conflict_context

text \<open>\<open>SecretaryAgentState::apply_working_context_update\<close> on the stored context.\<close>

definition apply_working_context_update ::
  "(agent_working_context \<Rightarrow> nat option) \<Rightarrow> working_context_update \<Rightarrow> agent_working_context option \<Rightarrow>
     (working_context_error, agent_working_context) result" where
  "apply_working_context_update json_size u stored =
     (let w = unwrap_or stored working_context_default in
      (case u of
         InitialRetrieval evidence convs trigger \<Rightarrow> merge_initial_retrieval json_size evidence convs trigger w
       | ReplanEvidence evidence threads participants facts opens \<Rightarrow>
           merge_replan_evidence json_size evidence threads participants facts opens w
       | ConflictReRead c \<Rightarrow> merge_conflict json_size c w))"

section \<open>The projection for the planner\<close>

record working_context_projection =
  wp_evidence_refs :: "source_event_id list"
  wp_resolved_conversation_refs :: "conversation_ref list"
  wp_resolved_thread_refs :: "event_thread_id list"
  wp_resolved_participant_refs :: "participant_ref list"
  wp_resolved_fact_refs :: "memory_fact_id list"
  wp_open_references :: "open_reference list"
  wp_last_retrieval :: "retrieval_trigger_kind option"
  wp_conflict :: "memory_conflict_context option"

definition working_context_project :: "agent_working_context \<Rightarrow> working_context_projection" where
  "working_context_project w =
     \<lparr>wp_evidence_refs = wc_selected_evidence_refs w,
      wp_resolved_conversation_refs = wc_resolved_conversation_refs w,
      wp_resolved_thread_refs = wc_resolved_thread_refs w,
      wp_resolved_participant_refs = wc_resolved_participant_refs w,
      wp_resolved_fact_refs = wc_resolved_fact_refs w,
      wp_open_references = wc_open_references w,
      wp_last_retrieval = wc_last_retrieval w, wp_conflict = wc_conflict w\<rparr>"

definition validate_working_context_projection ::
  "working_context_projection \<Rightarrow> (working_context_error, unit) result" where
  "validate_working_context_projection p =
     bind_r (check_len ''evidence_refs'' (wp_evidence_refs p) max_working_evidence_refs) (\<lambda>_.
     bind_r (check_len ''resolved_conversation_refs'' (wp_resolved_conversation_refs p) max_working_resolved_conversations) (\<lambda>_.
     bind_r (check_len ''resolved_thread_refs'' (wp_resolved_thread_refs p) max_working_resolved_threads) (\<lambda>_.
     bind_r (check_len ''resolved_participant_refs'' (wp_resolved_participant_refs p) max_working_resolved_participants) (\<lambda>_.
     bind_r (check_len ''resolved_fact_refs'' (wp_resolved_fact_refs p) max_working_resolved_facts) (\<lambda>_.
     bind_r (check_len ''open_references'' (wp_open_references p) max_working_open_references) (\<lambda>_.
     bind_r (ensure_unique ''evidence_refs'' (wp_evidence_refs p)) (\<lambda>_.
     bind_r (ensure_unique ''resolved_conversation_refs'' (wp_resolved_conversation_refs p)) (\<lambda>_.
     bind_r (ensure_unique ''resolved_thread_refs'' (wp_resolved_thread_refs p)) (\<lambda>_.
     bind_r (ensure_unique ''resolved_participant_refs'' (wp_resolved_participant_refs p)) (\<lambda>_.
     bind_r (ensure_unique ''resolved_fact_refs'' (wp_resolved_fact_refs p)) (\<lambda>_.
     bind_r (all_ok validate_open_reference (wp_open_references p)) (\<lambda>_.
       (case wp_conflict p of Some c \<Rightarrow> validate_conflict_context c | None \<Rightarrow> Ok ())))))))))))))"

section \<open>Lemmas\<close>

lemma has_duplicate_iff: "has_duplicate seen xs \<longleftrightarrow> \<not> (distinct xs \<and> set seen \<inter> set xs = {})"
  by (induction seen xs rule: has_duplicate.induct) auto

lemma check_len_Ok [guard_simps]: "check_len f xs n = Ok u \<longleftrightarrow> length xs \<le> n"
  by (auto simp: check_len_def)

lemma ensure_unique_Ok [guard_simps]: "ensure_unique f xs = Ok u \<longleftrightarrow> distinct xs"
  by (auto simp: ensure_unique_def has_duplicate_iff)

lemma context_text_Ok [guard_simps]: "context_text f v n = Ok u \<longleftrightarrow> \<not> is_blank v \<and> char_count v \<le> n"
  by (auto simp: context_text_def)

lemma context_no_panic:
  "check_len f xs n \<noteq> Panic" "ensure_unique f ys \<noteq> Panic" "context_text f v n \<noteq> Panic"
  by (simp_all add: check_len_def ensure_unique_def context_text_def)

lemma validate_open_reference_no_panic: "validate_open_reference r \<noteq> Panic"
  by (simp add: validate_open_reference_def result_simps context_no_panic)

lemma validate_conflict_no_panic: "validate_conflict_context c \<noteq> Panic"
  by (auto simp: validate_conflict_context_def result_simps context_no_panic split: option.splits)

lemma working_context_validate_no_panic: "working_context_validate json_size w \<noteq> Panic"
  by (auto simp: working_context_validate_def result_simps context_no_panic Let_def
      intro: all_ok_no_Panic validate_open_reference_no_panic validate_conflict_no_panic
      dest: all_ok_Panic simp: validate_open_reference_no_panic validate_conflict_no_panic split: option.splits)

lemma working_context_validate_Ok:
  "working_context_validate json_size w = Ok u \<longleftrightarrow>
     wc_version w = working_context_version
     \<and> length (wc_selected_evidence_refs w) \<le> 20 \<and> distinct (wc_selected_evidence_refs w)
     \<and> length (wc_resolved_conversation_refs w) \<le> 8 \<and> distinct (wc_resolved_conversation_refs w)
     \<and> length (wc_resolved_thread_refs w) \<le> 8 \<and> distinct (wc_resolved_thread_refs w)
     \<and> length (wc_resolved_participant_refs w) \<le> 20 \<and> distinct (wc_resolved_participant_refs w)
     \<and> length (wc_resolved_fact_refs w) \<le> 8 \<and> distinct (wc_resolved_fact_refs w)
     \<and> length (wc_open_references w) \<le> 10
     \<and> (\<forall>r\<in>set (wc_open_references w). validate_open_reference r = Ok ())
     \<and> (\<forall>c. wc_conflict w = Some c \<longrightarrow> validate_conflict_context c = Ok ())
     \<and> unwrap_or (json_size w) (2 ^ 64 - 1) \<le> max_working_bytes"
  unfolding working_context_validate_def Let_def
  by (auto simp: bind_r_Ok ensure_inv guard_simps all_ok_Ok working_bounds split: option.splits)

text \<open>The context of a conflict that could not be read back is rejected whatever it says: its fact
  kind is empty and the validation wants one.\<close>

lemma conflict_invalid_rejected:
  "conflict_invalid cand fid reason summary = Err (ContextBlank ''conflict.fact_kind'')"
  by (simp add: conflict_invalid_def validate_conflict_context_def context_text_def)

lemma append_unique_set: "set (append_unique items added) = set items \<union> set added"
  unfolding append_unique_def by (induction added arbitrary: items) auto

lemma append_unique_distinct: "distinct items \<Longrightarrow> distinct (append_unique items added)"
  unfolding append_unique_def by (induction added arbitrary: items) auto

lemma append_unique_prefix: "\<exists>new. append_unique items added = items @ new"
  unfolding append_unique_def
proof (induction added arbitrary: items)
  case (Cons x added)
  show ?case
    using Cons.IH [of items] Cons.IH [of "items @ [x]"] by auto
qed simp

definition context_ok :: "(agent_working_context \<Rightarrow> nat option) \<Rightarrow> agent_working_context option \<Rightarrow> bool" where
  "context_ok json_size stored \<longleftrightarrow>
     (case stored of None \<Rightarrow> True | Some w \<Rightarrow> working_context_validate json_size w = Ok ())"

lemma apply_working_context_valid:
  assumes "context_ok json_size stored" and "apply_working_context_update json_size u stored = Ok w"
  shows "working_context_validate json_size w = Ok () \<or> w = unwrap_or stored working_context_default"
  using assms
  by (auto simp: apply_working_context_update_def Let_def merge_initial_retrieval_def merge_replan_evidence_def
      merge_conflict_def bind_r_Ok split: working_context_update.splits if_splits)

lemma apply_working_context_no_panic: "apply_working_context_update json_size u stored \<noteq> Panic"
  by (auto simp: apply_working_context_update_def Let_def merge_initial_retrieval_def merge_replan_evidence_def
      merge_conflict_def bind_r_Panic working_context_validate_no_panic
      split: working_context_update.splits)

text \<open>A conflict once recorded stays: no update forgets it.\<close>

lemma apply_working_context_conflict:
  "apply_working_context_update json_size u stored = Ok w \<Longrightarrow>
     wc_conflict (unwrap_or stored working_context_default) \<noteq> None \<Longrightarrow> wc_conflict w \<noteq> None"
  by (auto simp: apply_working_context_update_def Let_def merge_initial_retrieval_def merge_replan_evidence_def
      merge_conflict_def bind_r_Ok split: working_context_update.splits if_splits option.splits)

end
