(* ===== verification/Secretary_Validation.thy ===== *)
theory Secretary_Validation
  imports Secretary_Action Working_Context
begin

text \<open>
  The bounded validation of the agent runtime
  (\<open>personal-secretary/src/domain/agent_runtime/validation.rs\<close>): proposals and each of their
  actions, the drafts of responses (\<open>response.rs\<close>), and the observations of query tools
  (\<open>personal-secretary/src/domain/planner.rs\<close>).
\<close>

section \<open>Errors and texts\<close>

datatype secretary_agent_runtime_error =
    InvalidProposal string
  | InvalidState string
  | InvalidResponseDraft string

primrec runtime_error_display :: "secretary_agent_runtime_error \<Rightarrow> string" where
  "runtime_error_display (InvalidProposal s) = ''invalid secretary action proposal: '' @ s"
| "runtime_error_display (InvalidState s) = ''invalid secretary agent state: '' @ s"
| "runtime_error_display (InvalidResponseDraft s) = ''invalid owner response draft: '' @ s"

type_synonym checked = "(secretary_agent_runtime_error, unit) result"

definition reject_unless :: "bool \<Rightarrow> string \<Rightarrow> checked" where
  "reject_unless b message = ensure b (InvalidProposal message)"

definition bounded_text :: "string \<Rightarrow> string \<Rightarrow> nat \<Rightarrow> nat \<Rightarrow> checked" where
  "bounded_text field v lo hi =
     reject_unless (lo \<le> char_count v \<and> char_count v \<le> hi)
       (field @ '' must contain '' @ decimal lo @ ''..='' @ decimal hi @ '' characters'')"

definition in_range :: "u16 \<Rightarrow> u16 \<Rightarrow> u16 \<Rightarrow> bool" where
  "in_range lo v hi \<longleftrightarrow> lo \<le> v \<and> v \<le> hi"

definition max_text_chars :: nat where "max_text_chars = 4000"
definition max_artifact_reprocess_batch :: u16 where "max_artifact_reprocess_batch = 100"

section \<open>Policies and references\<close>

definition validate_policy_scope :: "string \<Rightarrow> notification_match_key \<Rightarrow> checked" where
  "validate_policy_scope key match_key =
     bind_r (reject_unless (\<not> (is_blank key \<or> max_canonical_scope_key_bytes < length key))
              ''canonical_scope_key must contain 1..=512 bytes'') (\<lambda>_.
       map_err (\<lambda>_. InvalidProposal ''invalid policy match key'') (match_key_validate match_key))"

definition validate_policy_outcome :: "notification_outcome \<Rightarrow> checked" where
  "validate_policy_outcome out =
     reject_unless (out = Remind \<or> out = Delay \<or> out = Suppress)
       ''policy outcome must be remind, delay, or suppress''"

definition validate_quiet_hours_shape :: "quiet_hours_rule \<Rightarrow> checked" where
  "validate_quiet_hours_shape q =
     reject_unless (\<not> (is_blank (qh_timezone_name q) \<or> 128 < length (qh_timezone_name q)
         \<or> length (qh_start_local_time q) \<noteq> 5 \<or> length (qh_end_local_time q) \<noteq> 5
         \<or> (case qh_effective_from q of None \<Rightarrow> False | Some d \<Rightarrow> length d \<noteq> 10)
         \<or> (case qh_effective_until q of None \<Rightarrow> False | Some d \<Rightarrow> length d \<noteq> 10)))
       ''quiet-hours fields must use bounded IANA timezone and local date/time shapes''"

definition validate_project_member_ref :: "string \<Rightarrow> project_member_ref \<Rightarrow> checked" where
  "validate_project_member_ref field v =
     bind_r (reject_unless (pmr_platform_identity_kind v \<noteq> None)
              (field @ '' must have a known platform_identity_kind'')) (\<lambda>_.
       reject_unless (\<not> (is_blank (pmr_actor_id v) \<or> 191 < length (pmr_actor_id v)))
         (field @ ''.actor_id must contain 1..=191 bytes''))"

definition optional_check :: "('a \<Rightarrow> checked) \<Rightarrow> 'a option \<Rightarrow> checked" where
  "optional_check f v = (case v of None \<Rightarrow> Ok () | Some x \<Rightarrow> f x)"

definition ordered_range :: "i64 option \<Rightarrow> i64 option \<Rightarrow> string \<Rightarrow> checked" where
  "ordered_range since until message =
     (case (since, until) of
        (Some a, Some b) \<Rightarrow> reject_unless (\<not> b < a) message
      | _ \<Rightarrow> Ok ())"

text \<open>The targets of a batch: bounded ids, positive versions, no id twice.\<close>

fun batch_targets ::
  "string \<Rightarrow> string \<Rightarrow> string \<Rightarrow> ('a \<Rightarrow> string) \<Rightarrow> ('a \<Rightarrow> u64) \<Rightarrow> string list \<Rightarrow> 'a list \<Rightarrow> checked" where
  "batch_targets field version_message repeat_message ident version seen [] = Ok ()"
| "batch_targets field version_message repeat_message ident version seen (t # ts) =
     bind_r (bounded_text field (ident t) 1 36) (\<lambda>_.
     bind_r (reject_unless (version t \<noteq> 0) version_message) (\<lambda>_.
     bind_r (reject_unless (ident t \<notin> set seen) repeat_message) (\<lambda>_.
       batch_targets field version_message repeat_message ident version (ident t # seen) ts)))"

definition follow_up_version_message :: string where
  "follow_up_version_message = ''follow_up expected_source_version must be positive''"

definition single_follow_up :: "follow_up_id \<Rightarrow> u64 \<Rightarrow> checked \<Rightarrow> checked" where
  "single_follow_up i version rest =
     bind_r (bounded_text ''follow_up_id'' (follow_up_str i) 1 36) (\<lambda>_.
     bind_r (reject_unless (version \<noteq> 0) follow_up_version_message) (\<lambda>_. rest))"

definition follow_up_batch :: "follow_up_target list \<Rightarrow> string \<Rightarrow> checked" where
  "follow_up_batch targets reason =
     bind_r (reject_unless (\<not> (targets = [] \<or> 20 < length targets))
              ''follow_up batch targets must contain 1..=20 items'') (\<lambda>_.
     bind_r (batch_targets ''follow_up_id'' follow_up_version_message
              ''follow_up batch targets must not repeat follow_up_id''
              (\<lambda>t. follow_up_str (fut_follow_up_id t)) fut_expected_source_version [] targets) (\<lambda>_.
       bounded_text ''follow up reason'' reason 1 1000))"

definition snooze_time :: "i64 \<Rightarrow> checked" where
  "snooze_time t = reject_unless (\<not> t \<le> 0) ''follow_up snooze_until_unix_secs must be positive''"

definition expectation_version_message :: string where
  "expectation_version_message = ''response expectation expected_source_version must be positive''"

definition limited :: "u16 \<Rightarrow> u16 \<Rightarrow> string \<Rightarrow> checked" where
  "limited v hi message = reject_unless (in_range 1 v hi) message"

definition policy_rule_check :: "string \<Rightarrow> notification_match_key \<Rightarrow> notification_outcome \<Rightarrow> checked" where
  "policy_rule_check key match_key out =
     bind_r (validate_policy_scope key match_key) (\<lambda>_. validate_policy_outcome out)"

definition candidate_check :: "memory_candidate_id \<Rightarrow> u64 \<Rightarrow> string \<Rightarrow> checked" where
  "candidate_check i version reason =
     bind_r (bounded_text ''candidate_id'' (candidate_str i) 1 36) (\<lambda>_.
     bind_r (reject_unless (version \<noteq> 0) ''memory candidate expected_candidate_version must be positive'') (\<lambda>_.
       bounded_text ''memory candidate reason'' reason 1 1000))"

section \<open>Actions\<close>

primrec validate_action :: "secretary_action \<Rightarrow> checked" where
  "validate_action (SearchRecentEvents query limit since until conv thread who) =
     bind_r (bounded_text ''query'' query 1 1000) (\<lambda>_.
     bind_r (limited limit 100 ''search limit must be in 1..=100'') (\<lambda>_.
     bind_r (ordered_range since until ''search since_unix_secs must not exceed until_unix_secs'') (\<lambda>_.
       optional_check (\<lambda>a. bounded_text ''actor_id'' a 1 191) who)))"
| "validate_action (ReadSourceEvent i) = Ok ()"
| "validate_action (SearchEventThreads query limit cursor) =
     bind_r (bounded_text ''query'' query 1 1000) (\<lambda>_.
       limited limit 100 ''search limit must be in 1..=100'')"
| "validate_action (ResolveReference expression conv thread) = bounded_text ''expression'' expression 1 1000"
| "validate_action (ListUpcomingItems horizon) = reject_unless (horizon \<noteq> 0) ''horizon_secs must be positive''"
| "validate_action GetSecretaryStatus = Ok ()"
| "validate_action (ListPendingOwnerWork limit cursor) =
     limited limit 20 ''pending owner work limit must be in 1..=20''"
| "validate_action (GetThreadContext thread) = Ok ()"
| "validate_action (GetEventCausalContext i) = Ok ()"
| "validate_action (GetParticipantContext kind who conv thread) = bounded_text ''actor_id'' who 1 191"
| "validate_action (GetParticipantContextByName name conv thread) = bounded_text ''name'' name 1 200"
| "validate_action (DraftReminder body due) = bounded_text ''text'' body 1 max_text_chars"
| "validate_action (CreateSchedule title starts zone) = bounded_text ''title'' title 1 500"
| "validate_action (RescheduleItem item version starts zone) = bounded_text ''item_id'' item 1 191"
| "validate_action (CancelItem item version reason) =
     bind_r (bounded_text ''item_id'' item 1 191) (\<lambda>_. bounded_text ''reason'' reason 1 1000)"
| "validate_action (CreateTask title due zone) = bounded_text ''title'' title 1 500"
| "validate_action (CreateReminder body due zone) = bounded_text ''text'' body 1 max_text_chars"
| "validate_action (CompleteItem item version) = bounded_text ''item_id'' item 1 191"
| "validate_action (SnoozeItem item version due zone) = bounded_text ''item_id'' item 1 191"
| "validate_action (SendOwnerMessage body) = bounded_text ''text'' body 1 max_text_chars"
| "validate_action (AskOwnerClarification question) = bounded_text ''question'' question 1 1000"
| "validate_action (ListNotificationPolicies limit) =
     limited limit 20 ''notification policy list limit must be in 1..=20''"
| "validate_action (ExplainNotificationDecision decision) = bounded_text ''decision_id'' decision 1 191"
| "validate_action (SetAccountDefaultNotificationMode key match_key out bypass) =
     policy_rule_check key match_key out"
| "validate_action (SetConversationNotificationMode key match_key out bypass silent allow) =
     policy_rule_check key match_key out"
| "validate_action (SetQuietHours key match_key quiet) =
     bind_r (validate_policy_scope key match_key) (\<lambda>_. validate_quiet_hours_shape quiet)"
| "validate_action (SetImportantContact key match_key out bypass) = policy_rule_check key match_key out"
| "validate_action (SetNotificationCategoryImportance key match_key out bypass) =
     policy_rule_check key match_key out"
| "validate_action (RecordNotificationFeedback candidate match_key important promote) =
     bind_r (reject_unless (cand_account candidate = mk_account match_key)
              ''notification feedback candidate and match key accounts must agree'') (\<lambda>_.
       if promote
       then map_err (\<lambda>e. InvalidProposal (case e of
                UnknownMatchMetadata \<Rightarrow> ''similar notification rule requires known or absent metadata''
              | _ \<Rightarrow> ''invalid similar notification match key''))
            (eligibility_for_long_term_rule match_key)
       else Ok ())"
| "validate_action (CreateSimilarNotificationRule key match_key out bypass) =
     policy_rule_check key match_key out"
| "validate_action (DisableNotificationPolicy family generation) =
     reject_unless (generation \<noteq> 0) ''policy expected_generation must be positive''"
| "validate_action (SetAutomaticReplyDeniedForContact key match_key) =
     bind_r (validate_policy_scope key match_key) (\<lambda>_.
       reject_unless (case mk_actor_id match_key of Known _ \<Rightarrow> True | _ \<Rightarrow> False)
         ''automatic reply denial requires a known actor identity'')"
| "validate_action (ListMemoryFacts limit) = limited limit 20 ''memory fact list limit must be in 1..=20''"
| "validate_action (ReadMemoryFactSources i chars) =
     limited chars 1000 ''memory source excerpt limit must be in 1..=1000''"
| "validate_action (CorrectMemoryFact i payload confidence sources valid_until) =
     bind_r (reject_unless (\<not> (10000 < confidence \<or> sources = [] \<or> 20 < length sources))
              ''memory correction requires confidence <= 10000 and 1..=20 sources'') (\<lambda>_.
       optional_check (\<lambda>t. reject_unless (\<not> t \<le> 0) ''memory valid_until_unix_secs must be positive'') valid_until)"
| "validate_action (DeleteMemoryFact i reason) = bounded_text ''memory delete reason'' reason 1 1000"
| "validate_action (SetMemoryFactTtl i valid_until) =
     optional_check (\<lambda>t. reject_unless (\<not> t \<le> 0) ''memory valid_until_unix_secs must be positive'') valid_until"
| "validate_action (SetConversationMemoryMode conv mode) = bounded_text ''conversation.id'' (conv_id conv) 1 191"
| "validate_action (ConfirmThreadDecision decision) = Ok ()"
| "validate_action (RevokeThreadDecision decision reason) = bounded_text ''thread control reason'' reason 1 1000"
| "validate_action (DismissThreadQuestion question reason) = bounded_text ''thread control reason'' reason 1 1000"
| "validate_action (ReconfirmThreadSemantics thread reason) =
     bind_r (reject_unless (\<not> is_blank reason) ''thread control reason must not be blank'') (\<lambda>_.
       bounded_text ''thread control reason'' reason 1 1000)"
| "validate_action (RetryFailedArtifactDerivations limit reason) =
     bind_r (limited limit max_artifact_reprocess_batch ''artifact reprocess limit must be in 1..=100'') (\<lambda>_.
       bounded_text ''artifact reprocess reason'' reason 1 1000)"
| "validate_action (SetThreadLifecycle thread expected target reason) =
     bind_r (bounded_text ''thread lifecycle reason'' reason 1 1000) (\<lambda>_.
       reject_unless (\<not> (expected = target \<or> \<not> (target = ThreadClosed \<or> target = Reopened)))
         ''thread lifecycle target must be closed or reopened and differ from expected'')"
| "validate_action (MergeThreads threads reason) =
     bind_r (reject_unless (2 \<le> length threads \<and> length threads \<le> 10) ''merge requires 2..=10 threads'') (\<lambda>_.
     bind_r (reject_unless (distinct threads) ''merge thread ids must be unique'') (\<lambda>_.
       bounded_text ''thread mutation reason'' reason 1 1000))"
| "validate_action (SplitThread thread sources reason) =
     bind_r (reject_unless (\<not> (sources = [] \<or> 100 < length sources)) ''split requires 1..=100 source events'') (\<lambda>_.
     bind_r (reject_unless (distinct sources) ''split source event ids must be unique'') (\<lambda>_.
       bounded_text ''thread mutation reason'' reason 1 1000))"
| "validate_action (DismissFollowUp i version reason) =
     single_follow_up i version (bounded_text ''follow up reason'' reason 1 1000)"
| "validate_action (SnoozeFollowUp i version until reason) =
     single_follow_up i version
       (bind_r (snooze_time until) (\<lambda>_. bounded_text ''follow up snooze reason'' reason 1 1000))"
| "validate_action (DismissFollowUps targets reason) = follow_up_batch targets reason"
| "validate_action (SnoozeFollowUps targets until reason) =
     bind_r (follow_up_batch targets reason) (\<lambda>_. snooze_time until)"
| "validate_action (CompleteFollowUp i version reason) =
     single_follow_up i version (bounded_text ''follow up reason'' reason 1 1000)"
| "validate_action (CompleteFollowUps targets reason) = follow_up_batch targets reason"
| "validate_action (DismissResponseExpectation i version reason) =
     bind_r (bounded_text ''expectation_id'' (expectation_str i) 1 36) (\<lambda>_.
     bind_r (reject_unless (version \<noteq> 0) expectation_version_message) (\<lambda>_.
       bounded_text ''response expectation reason'' reason 1 1000))"
| "validate_action (DismissResponseExpectations targets reason) =
     bind_r (reject_unless (\<not> (targets = [] \<or> 20 < length targets))
              ''response expectation batch targets must contain 1..=20 items'') (\<lambda>_.
     bind_r (batch_targets ''expectation_id'' expectation_version_message
              ''response expectation batch targets must not repeat expectation_id''
              (\<lambda>t. expectation_str (ext_expectation_id t)) ext_expected_source_version [] targets) (\<lambda>_.
       bounded_text ''response expectation reason'' reason 1 1000))"
| "validate_action (ListMemoryCandidates status kind limit) =
     limited limit 100 ''memory candidate list limit must be in 1..=100''"
| "validate_action (ListThreadLinkCandidates limit) =
     limited limit 20 ''thread link candidate list limit must be in 1..=20''"
| "validate_action (ApproveMemoryCandidate i version reason) = candidate_check i version reason"
| "validate_action (RejectMemoryCandidate i version reason) = candidate_check i version reason"
| "validate_action (ListProjects limit) = limited limit 20 ''ListProjects limit must be in 1..=20''"
| "validate_action (QueryProject key) = bounded_text ''project_key'' key 1 191"
| "validate_action (ListCommitments status since until promisor beneficiary limit) =
     bind_r (limited limit 100 ''ListCommitments limit must be in 1..=100'') (\<lambda>_.
     bind_r (ordered_range since until ''due_since_unix_secs must not exceed due_until_unix_secs'') (\<lambda>_.
     bind_r (optional_check (validate_project_member_ref ''promisor'') promisor) (\<lambda>_.
       optional_check (validate_project_member_ref ''beneficiary'') beneficiary)))"

section \<open>Proposals\<close>

definition validate_action_proposal :: "secretary_action_proposal \<Rightarrow> checked" where
  "validate_action_proposal p =
     bind_r (reject_unless (\<not> (is_blank (ap_proposal_id p) \<or> 191 < length (ap_proposal_id p)))
              ''proposal_id must contain 1..=191 bytes'') (\<lambda>_.
     bind_r (bounded_text ''rationale'' (ap_rationale p) 1 1000) (\<lambda>_.
     bind_r (reject_unless (length (ap_source_event_ids p) \<le> 20)
              ''a proposal may reference at most 20 source events'') (\<lambda>_.
     bind_r (reject_unless (distinct (ap_source_event_ids p)) ''proposal source events must be unique'') (\<lambda>_.
     bind_r (validate_action (ap_action p)) (\<lambda>_.
       reject_unless (\<not> (L2Impactful \<le> tp_risk (action_policy p)
           \<and> (case ap_idempotency_key p of
                None \<Rightarrow> True | Some key \<Rightarrow> is_blank key \<or> 191 < length key)))
         ''L2/L3 actions require a bounded idempotency_key'')))))"

definition action_proposal_new ::
  "string \<Rightarrow> secretary_action \<Rightarrow> string \<Rightarrow> source_event_id list \<Rightarrow> string option \<Rightarrow>
     (secretary_agent_runtime_error, secretary_action_proposal) result" where
  "action_proposal_new uuid action rationale sources key =
     (let p = \<lparr>ap_proposal_id = uuid, ap_action = action, ap_rationale = rationale,
               ap_source_event_ids = sources, ap_idempotency_key = key\<rparr> in
      bind_r (validate_action_proposal p) (\<lambda>_. Ok p))"

section \<open>Drafts of responses\<close>

datatype response_segment = Excerpt source_event_id string | Summary string

primrec segment_text :: "response_segment \<Rightarrow> string" where
  "segment_text (Excerpt i body) = body"
| "segment_text (Summary body) = body"

primrec segment_source_event_id :: "response_segment \<Rightarrow> source_event_id option" where
  "segment_source_event_id (Excerpt i body) = Some i"
| "segment_source_event_id (Summary body) = None"

record owner_response_draft =
  ord_segments :: "response_segment list"
  ord_source_event_ids :: "source_event_id list"
  ord_created_at :: i64
  ord_invalidated :: bool

definition total_char_count :: "owner_response_draft \<Rightarrow> nat" where
  "total_char_count d = sum_list (map (\<lambda>s. char_count (segment_text s)) (ord_segments d))"

definition max_response_segments :: nat where "max_response_segments = 20"
definition max_segment_chars :: nat where "max_segment_chars = 1000"
definition max_draft_total_chars :: nat where "max_draft_total_chars = 8000"
definition max_evidence :: nat where "max_evidence = 100"

definition draft_unless :: "bool \<Rightarrow> string \<Rightarrow> checked" where
  "draft_unless b message = ensure b (InvalidResponseDraft message)"

definition validate_segment :: "response_segment \<Rightarrow> checked" where
  "validate_segment s =
     bind_r (draft_unless (char_count (segment_text s) \<le> max_segment_chars)
              ''segment text must not exceed 1000 characters'') (\<lambda>_.
       if (case s of Excerpt _ body \<Rightarrow> body = [] | Summary _ \<Rightarrow> False) then Ok ()
       else draft_unless (\<not> is_blank (segment_text s)) ''segment text must not be blank'')"

definition validate_response_draft :: "owner_response_draft \<Rightarrow> checked" where
  "validate_response_draft d =
     bind_r (draft_unless (ord_segments d \<noteq> []) ''response draft must contain at least one segment'') (\<lambda>_.
     bind_r (draft_unless (length (ord_segments d) \<le> max_response_segments)
              ''response draft must not exceed 20 segments'') (\<lambda>_.
     bind_r (all_ok validate_segment (ord_segments d)) (\<lambda>_.
     bind_r (draft_unless (total_char_count d \<le> max_draft_total_chars)
              ''response draft total characters must not exceed 8000'') (\<lambda>_.
     bind_r (draft_unless (length (ord_source_event_ids d) \<le> max_evidence)
              ''response draft source_event_ids must not exceed 100 items'') (\<lambda>_.
     bind_r (draft_unless (distinct (ord_source_event_ids d))
              ''response draft source_event_ids must be unique'') (\<lambda>_.
       draft_unless (\<not> ord_created_at d < 0) ''created_at_unix_secs must not be negative''))))))"

definition owner_response_draft_new ::
  "response_segment list \<Rightarrow> source_event_id list \<Rightarrow> i64 \<Rightarrow>
     (secretary_agent_runtime_error, owner_response_draft) result" where
  "owner_response_draft_new segs sources at =
     (let d = \<lparr>ord_segments = segs, ord_source_event_ids = sources, ord_created_at = at,
               ord_invalidated = False\<rparr> in
      bind_r (validate_response_draft d) (\<lambda>_. Ok d))"

definition invalidate_if_references ::
  "source_event_id list \<Rightarrow> owner_response_draft \<Rightarrow> bool \<times> owner_response_draft" where
  "invalidate_if_references removed d =
     (if ord_invalidated d then (False, d)
      else if list_ex (\<lambda>i. i \<in> set removed) (ord_source_event_ids d)
            \<or> list_ex (\<lambda>s. case segment_source_event_id s of None \<Rightarrow> False | Some i \<Rightarrow> i \<in> set removed)
                (ord_segments d)
      then (True, d\<lparr>ord_invalidated := True\<rparr>)
      else (False, d))"

section \<open>Lemmas\<close>

lemma reject_unless_Ok [guard_simps]: "reject_unless b m = Ok u \<longleftrightarrow> b"
  by (auto simp: reject_unless_def ensure_inv)

lemma bounded_text_Ok [guard_simps]: "bounded_text f v lo hi = Ok u \<longleftrightarrow> lo \<le> char_count v \<and> char_count v \<le> hi"
  by (simp add: bounded_text_def guard_simps)

lemma checked_no_panic:
  "reject_unless b m \<noteq> Panic" "bounded_text f v lo hi \<noteq> Panic" "draft_unless b m \<noteq> Panic"
  by (simp_all add: reject_unless_def bounded_text_def draft_unless_def ensure_def)

lemma batch_targets_no_panic: "batch_targets f vm rm ident version seen ts \<noteq> Panic"
  by (induction f vm rm ident version seen ts rule: batch_targets.induct)
    (auto simp: bind_r_Panic checked_no_panic)

lemma batch_targets_Ok:
  "batch_targets f vm rm ident version seen ts = Ok u \<longleftrightarrow>
     (\<forall>t\<in>set ts. 1 \<le> char_count (ident t) \<and> char_count (ident t) \<le> 36 \<and> version t \<noteq> 0)
     \<and> distinct (map ident ts) \<and> set seen \<inter> ident ` set ts = {}"
  by (induction f vm rm ident version seen ts rule: batch_targets.induct)
    (auto simp: bind_r_Ok guard_simps)

lemma validate_proposal_Ok:
  "validate_action_proposal p = Ok u \<longleftrightarrow>
     \<not> is_blank (ap_proposal_id p) \<and> length (ap_proposal_id p) \<le> 191
     \<and> 1 \<le> char_count (ap_rationale p) \<and> char_count (ap_rationale p) \<le> 1000
     \<and> length (ap_source_event_ids p) \<le> 20 \<and> distinct (ap_source_event_ids p)
     \<and> validate_action (ap_action p) = Ok ()
     \<and> (L2Impactful \<le> tp_risk (action_policy p) \<longrightarrow>
          (\<exists>key. ap_idempotency_key p = Some key \<and> \<not> is_blank key \<and> length key \<le> 191))"
  by (cases "ap_idempotency_key p") (auto simp: validate_action_proposal_def bind_r_Ok guard_simps not_le)

end
