(* ===== verification/Action_Planner.thy ===== *)
theory Action_Planner
  imports Secretary_Validation
begin

text \<open>
  The port of the action planner (\<open>personal-secretary/src/domain/planner.rs\<close>): observations of
  query tools, event views, the planner's input and output and their validation. Whether a string
  names an IANA time zone is \<open>chrono-tz\<close>'s answer, a predicate \<open>tz_known\<close>.
\<close>

section \<open>Bounds and errors\<close>

definition max_replan_rounds :: u8 where "max_replan_rounds = 2"
definition max_tool_observations :: nat where "max_tool_observations = 2"
definition max_tool_observation_chars :: nat where "max_tool_observation_chars = 2000"
definition max_tool_observation_total_chars :: nat where "max_tool_observation_total_chars = 4000"
definition max_observation_event_refs :: nat where "max_observation_event_refs = 30"
definition max_typed_events :: nat where "max_typed_events = 30"
definition max_typed_event_excerpt_chars :: nat where "max_typed_event_excerpt_chars = 200"
definition max_typed_event_actor_id_bytes :: nat where "max_typed_event_actor_id_bytes = 256"

datatype planner_error =
    InvalidPlannerInput string
  | InvalidPlannerOutput string
  | DisallowedAction string
  | LlmCall string
  | UnparseableOutput string
  | PlannerTimeout

primrec planner_error_display :: "planner_error \<Rightarrow> string" where
  "planner_error_display (InvalidPlannerInput s) = ''invalid planner input: '' @ s"
| "planner_error_display (InvalidPlannerOutput s) = ''invalid planner output: '' @ s"
| "planner_error_display (DisallowedAction s) = ''planner produced disallowed action: '' @ s"
| "planner_error_display (LlmCall s) = ''llm call failed: '' @ s"
| "planner_error_display (UnparseableOutput s) = ''llm returned unparseable output: '' @ s"
| "planner_error_display PlannerTimeout = ''planner timed out''"

type_synonym planner_check = "(planner_error, unit) result"

definition input_unless :: "bool \<Rightarrow> string \<Rightarrow> planner_check" where
  "input_unless b message = ensure b (InvalidPlannerInput message)"

definition planner_text :: "string \<Rightarrow> string \<Rightarrow> nat \<Rightarrow> nat \<Rightarrow> planner_check" where
  "planner_text field v lo hi =
     input_unless (lo \<le> char_count v \<and> char_count v \<le> hi)
       (field @ '' must contain '' @ decimal lo @ ''..='' @ decimal hi @ '' characters'')"

definition non_empty_planner_text :: "string \<Rightarrow> string \<Rightarrow> nat \<Rightarrow> nat \<Rightarrow> planner_check" where
  "non_empty_planner_text field v lo hi =
     bind_r (input_unless (\<not> is_blank v) (field @ '' must not be blank'')) (\<lambda>_. planner_text field v lo hi)"

section \<open>Observations\<close>

record query_effect_typed_event =
  qte_source_event_id :: source_event_id
  qte_actor_id :: string
  qte_actor_kind :: platform_identity_kind
  qte_occurred_at :: i64
  qte_excerpt :: string

record planner_tool_observation =
  pto_proposal_id :: string
  pto_tool_kind :: secretary_tool_kind
  pto_success :: bool
  pto_source_event_ids :: "source_event_id list"
  pto_summary :: string
  pto_typed_events :: "query_effect_typed_event list"
  pto_version :: u8
  pto_ambiguous :: bool
  pto_next_cursor :: "query_effect_next_cursor option"

definition cursor_matches_tool :: "query_effect_next_cursor option \<Rightarrow> secretary_tool_kind \<Rightarrow> bool" where
  "cursor_matches_tool cursor k \<longleftrightarrow>
     (case cursor of
        None \<Rightarrow> True
      | Some (ThreadSearchNext _) \<Rightarrow> k = SearchEventThreadsTool
      | Some (PendingOwnerWorkNext _) \<Rightarrow> k = ListPendingOwnerWorkTool)"

fun typed_events_check ::
  "source_event_id list \<Rightarrow> source_event_id list \<Rightarrow> query_effect_typed_event list \<Rightarrow> planner_check" where
  "typed_events_check refs seen [] = Ok ()"
| "typed_events_check refs seen (te # tes) =
     bind_r (input_unless (\<not> is_blank (qte_actor_id te)) ''typed_event.actor_id must not be empty'') (\<lambda>_.
     bind_r (input_unless (length (qte_actor_id te) \<le> max_typed_event_actor_id_bytes)
              ''typed_event.actor_id exceeds max 256 bytes'') (\<lambda>_.
     bind_r (input_unless (char_count (qte_excerpt te) \<le> max_typed_event_excerpt_chars)
              ''typed_event.excerpt exceeds max 200 chars'') (\<lambda>_.
     bind_r (input_unless (qte_source_event_id te \<notin> set seen)
              (''typed_events contains duplicate source_event_id: '' @ event_str (qte_source_event_id te))) (\<lambda>_.
     bind_r (input_unless (qte_source_event_id te \<in> set refs)
              (''typed_event.source_event_id '' @ event_str (qte_source_event_id te)
               @ '' not in observation.source_event_ids'')) (\<lambda>_.
       typed_events_check refs (qte_source_event_id te # seen) tes)))))"

definition validate_tool_observation :: "planner_tool_observation \<Rightarrow> planner_check" where
  "validate_tool_observation obs =
     bind_r (input_unless (\<not> is_blank (pto_proposal_id obs)) ''observation.proposal_id must not be empty'') (\<lambda>_.
     bind_r (input_unless (char_count (pto_summary obs) \<le> max_tool_observation_chars)
              ''observation summary exceeds max 2000 chars'') (\<lambda>_.
     bind_r (input_unless (length (pto_source_event_ids obs) \<le> max_observation_event_refs)
              ''observation source_event_ids exceeds max 30'') (\<lambda>_.
     bind_r (input_unless (cursor_matches_tool (pto_next_cursor obs) (pto_tool_kind obs))
              ''observation cursor does not match its tool kind'') (\<lambda>_.
     bind_r (input_unless (length (pto_typed_events obs) \<le> max_typed_events)
              ''observation typed_events exceeds max 30'') (\<lambda>_.
       typed_events_check (pto_source_event_ids obs) [] (pto_typed_events obs))))))"

record query_effect_result =
  qer_version :: u8
  qer_tool_kind :: secretary_tool_kind
  qer_summary :: string
  qer_source_event_ids :: "source_event_id list"
  qer_event_count :: u64
  qer_typed_events :: "query_effect_typed_event list"
  qer_ambiguous :: bool
  qer_next_cursor :: "query_effect_next_cursor option"

definition to_observation :: "query_effect_result \<Rightarrow> string \<Rightarrow> bool \<Rightarrow> planner_tool_observation" where
  "to_observation q proposal success =
     \<lparr>pto_proposal_id = proposal, pto_tool_kind = qer_tool_kind q, pto_success = success,
      pto_source_event_ids = qer_source_event_ids q, pto_summary = qer_summary q,
      pto_typed_events = qer_typed_events q, pto_version = 1, pto_ambiguous = qer_ambiguous q,
      pto_next_cursor = qer_next_cursor q\<rparr>"

record memory_candidate_conflict_result =
  mcr_version :: u8
  mcr_candidate_id :: memory_candidate_id
  mcr_fact_id :: memory_fact_id
  mcr_reason_code :: memory_conflict_reason_code
  mcr_summary :: string

section \<open>Input\<close>

record recent_event_ref =
  rer_source_event_id :: source_event_id
  rer_summary :: string

record planner_command_event =
  pce_source_event_id :: source_event_id
  pce_conversation :: conversation_ref
  pce_occurred_at :: i64
  pce_normalized_text :: string

record planner_retrieved_excerpt =
  pre_source_event_id :: source_event_id
  pre_excerpt :: string
  pre_occurred_at :: i64
  pre_actor_id :: string
  pre_actor_kind :: verified_actor_kind

record agent_event_view =
  aev_source_event_id :: source_event_id
  aev_conversation :: conversation_ref
  aev_actor :: thread_actor_ref
  aev_occurred_at :: i64
  aev_role :: message_role
  aev_trust_level :: content_trust_level
  aev_excerpt :: string
  aev_mentioned_actors :: "thread_actor_ref list"
  aev_mention_all :: bool
  aev_reply_to :: "source_event_id option"
  aev_thread_id :: "event_thread_id option"

datatype agent_event_view_error =
    ViewEmptyField string
  | ViewTooLarge string nat
  | ActorAccountMismatch
  | MentionedActorAccountMismatch nat

primrec view_error_display :: "agent_event_view_error \<Rightarrow> string" where
  "view_error_display (ViewEmptyField f) = ''event view '' @ f @ '' must not be empty''"
| "view_error_display (ViewTooLarge f n) = ''event view '' @ f @ '' exceeds max '' @ decimal n"
| "view_error_display ActorAccountMismatch = ''actor account mismatch''"
| "view_error_display (MentionedActorAccountMismatch i) = ''mentioned actor account mismatch at index '' @ decimal i"

definition max_excerpt_chars :: nat where "max_excerpt_chars = 1000"
definition max_mentioned_actors :: nat where "max_mentioned_actors = 20"

definition validate_agent_event_view ::
  "agent_event_view \<Rightarrow> source_account_ref \<Rightarrow> (agent_event_view_error, unit) result" where
  "validate_agent_event_view v acc =
     bind_r (ensure (tar_account (aev_actor v) = acc) ActorAccountMismatch) (\<lambda>_.
     bind_r (ensure (char_count (aev_excerpt v) \<le> max_excerpt_chars) (ViewTooLarge ''excerpt'' max_excerpt_chars)) (\<lambda>_.
     bind_r (ensure (length (aev_mentioned_actors v) \<le> max_mentioned_actors)
              (ViewTooLarge ''mentioned_actors'' max_mentioned_actors)) (\<lambda>_.
     bind_r (all_ok (\<lambda>(i, a). ensure (tar_account a = acc) (MentionedActorAccountMismatch i))
              (enumerate 0 (aev_mentioned_actors v))) (\<lambda>_.
     bind_r (ensure (case aev_reply_to v of None \<Rightarrow> True | Some r \<Rightarrow> \<not> is_blank (event_str r))
              (ViewEmptyField ''reply_to_event_id'')) (\<lambda>_.
       ensure (case aev_thread_id v of None \<Rightarrow> True | Some t \<Rightarrow> \<not> is_blank (thread_str t))
         (ViewEmptyField ''thread_id''))))))"

record planner_input =
  pi_account :: source_account_ref
  pi_command :: planner_command_event
  pi_recent_events :: "recent_event_ref list"
  pi_recent_event_views :: "agent_event_view list"
  pi_timezone_offset_secs :: i64
  pi_timezone :: string
  pi_now :: i64
  pi_retrieved :: "planner_retrieved_excerpt list"
  pi_observations :: "planner_tool_observation list"
  pi_working_context :: "working_context_projection option"
  pi_replan_round :: u8
  pi_remaining_query_budget :: u8

definition max_command_text_chars :: nat where "max_command_text_chars = 4000"
definition max_recent_events :: nat where "max_recent_events = 8"
definition max_recent_event_views :: nat where "max_recent_event_views = 8"
definition max_retrieved_excerpts :: nat where "max_retrieved_excerpts = 20"
definition max_timezone_name_bytes :: nat where "max_timezone_name_bytes = 64"
definition min_offset_secs :: i64 where "min_offset_secs = -50400"
definition max_offset_secs :: i64 where "max_offset_secs = 50400"

definition summary_chars :: "planner_tool_observation list \<Rightarrow> nat" where
  "summary_chars obs = sum_list (map (\<lambda>ob. char_count (pto_summary ob)) obs)"

primrec working_context_error_display :: "working_context_error \<Rightarrow> string" where
  "working_context_error_display (ContextTooLarge f n) = ''working context '' @ f @ '' exceeds max '' @ decimal n"
| "working_context_error_display (ContextDuplicate f) = ''working context '' @ f @ '' must be unique''"
| "working_context_error_display (ContextBlank f) = ''working context '' @ f @ '' must not be blank''"
| "working_context_error_display (SerializedTooLarge n m) =
     ''working context serialized size '' @ decimal n @ '' exceeds max '' @ decimal m"
| "working_context_error_display (UnsupportedVersion v) =
     ''working context version '' @ decimal (unat v) @ '' is not supported''"

definition validate_planner_input :: "(string \<Rightarrow> bool) \<Rightarrow> planner_input \<Rightarrow> planner_check" where
  "validate_planner_input tz_known inp =
     bind_r (non_empty_planner_text ''command.normalized_text'' (pce_normalized_text (pi_command inp)) 1
              max_command_text_chars) (\<lambda>_.
     bind_r (input_unless (length (pi_recent_events inp) \<le> max_recent_events)
              ''recent_events must not exceed 8 items'') (\<lambda>_.
     bind_r (input_unless (length (pi_recent_event_views inp) \<le> max_recent_event_views)
              ''recent_event_views must not exceed 8 items'') (\<lambda>_.
     bind_r (all_ok (\<lambda>v. map_err (\<lambda>e. InvalidPlannerInput (''invalid agent event view: '' @ view_error_display e))
              (validate_agent_event_view v (pi_account inp))) (pi_recent_event_views inp)) (\<lambda>_.
     bind_r (input_unless (min_offset_secs \<le> pi_timezone_offset_secs inp \<and> pi_timezone_offset_secs inp \<le> max_offset_secs)
              ''timezone_offset_secs must be in -50400..=50400'') (\<lambda>_.
     bind_r (input_unless (\<not> (is_blank (pi_timezone inp) \<or> max_timezone_name_bytes < length (pi_timezone inp)
                \<or> \<not> tz_known (pi_timezone inp))) ''timezone must be a valid IANA timezone'') (\<lambda>_.
     bind_r (input_unless (length (pi_retrieved inp) \<le> max_retrieved_excerpts)
              ''retrieved must not exceed 20 items'') (\<lambda>_.
     bind_r (all_ok (\<lambda>r. bind_r (planner_text ''retrieved.excerpt'' (pre_excerpt r) 0 max_excerpt_chars) (\<lambda>_.
              non_empty_planner_text ''retrieved.actor_id'' (pre_actor_id r) 1 191)) (pi_retrieved inp)) (\<lambda>_.
     bind_r (input_unless (length (pi_observations inp) \<le> max_tool_observations)
              ''observations must not exceed 2 items'') (\<lambda>_.
     bind_r (all_ok validate_tool_observation (pi_observations inp)) (\<lambda>_.
     bind_r (input_unless (summary_chars (pi_observations inp) \<le> max_tool_observation_total_chars)
              (''observation total chars '' @ decimal (summary_chars (pi_observations inp)) @ '' exceeds max 4000'')) (\<lambda>_.
     bind_r (input_unless (pi_replan_round inp \<le> max_replan_rounds)
              (''replan_round '' @ decimal (unat (pi_replan_round inp)) @ '' exceeds max 2'')) (\<lambda>_.
       (case pi_working_context inp of
          None \<Rightarrow> Ok ()
        | Some p \<Rightarrow> map_err (\<lambda>e. InvalidPlannerInput (''working_context: '' @ working_context_error_display e))
            (validate_working_context_projection p))))))))))))))"

section \<open>Output\<close>

datatype planner_output =
    PlanNoAction string
  | PlanClarification string "source_event_id list"
  | PlanProposal secretary_action_proposal

definition max_reason_chars :: nat where "max_reason_chars = 1000"
definition max_question_chars :: nat where "max_question_chars = 1000"
definition max_clarification_evidence :: nat where "max_clarification_evidence = 20"

definition validate_planner_output :: "planner_output \<Rightarrow> planner_check" where
  "validate_planner_output out =
     (case out of
        PlanNoAction reason \<Rightarrow> non_empty_planner_text ''NoAction.reason'' reason 1 max_reason_chars
      | PlanClarification question evidence \<Rightarrow>
          bind_r (non_empty_planner_text ''Clarification.question'' question 1 max_question_chars) (\<lambda>_.
            ensure (length evidence \<le> max_clarification_evidence)
              (InvalidPlannerOutput ''Clarification.evidence must not exceed 20 items''))
      | PlanProposal p \<Rightarrow>
          bind_r (map_err (\<lambda>e. InvalidPlannerOutput (runtime_error_display e)) (validate_action_proposal p)) (\<lambda>_.
            ensure (is_allowed_action_in_batch (ap_action p))
              (DisallowedAction (tool_kind_debug (action_kind (ap_action p)) @ '' is not allowed in this batch''))))"

section \<open>Lemmas\<close>

lemma input_unless_Ok [guard_simps]: "input_unless b m = Ok u \<longleftrightarrow> b"
  by (auto simp: input_unless_def ensure_inv)

lemma input_unless_no_panic: "input_unless b m \<noteq> Panic"
  by (simp add: input_unless_def ensure_def)

lemma typed_events_check_no_panic: "typed_events_check refs seen tes \<noteq> Panic"
  by (induction refs seen tes rule: typed_events_check.induct) (auto simp: bind_r_Panic input_unless_no_panic)

lemma validate_tool_observation_no_panic: "validate_tool_observation obs \<noteq> Panic"
  by (auto simp: validate_tool_observation_def bind_r_Panic input_unless_no_panic typed_events_check_no_panic)

lemma validate_observation_chars:
  "validate_tool_observation obs = Ok u \<Longrightarrow> char_count (pto_summary obs) \<le> 2000"
  by (auto simp: validate_tool_observation_def bind_r_Ok guard_simps max_tool_observation_chars_def)

end
