(* ===== verification/Secretary_State.thy ===== *)
theory Secretary_State
  imports Action_Planner Checkpoint
begin

text \<open>
  The state machine of the secretary's agent
  (\<open>personal-secretary/src/domain/agent_runtime/state.rs\<close>, \<open>approval.rs\<close>), its implementation of
  the trait \<open>AgentBusinessState\<close> and of \<open>AgentEffect\<close> (\<open>action.rs\<close>), and the policy gate that
  turns a proposal into an effect or a suspension (\<open>validation.rs\<close>).
\<close>

section \<open>Approval\<close>

record secretary_approval_request =
  sar_proposal_id :: string
  sar_tool :: secretary_tool_kind
  sar_risk :: secretary_risk_level
  sar_summary :: string
  sar_source_event_ids :: "source_event_id list"

datatype secretary_approval_decision = Approve | Reject

record secretary_resume_input =
  sri_proposal_id :: string
  sri_decision :: secretary_approval_decision
  sri_command_source_event_id :: source_event_id
  sri_approval_source_event_id :: "source_event_id option"

section \<open>State\<close>

datatype secretary_phase =
    Observe | PlanPhase | Retrieve | ProposeAction | Validate | Execute | SuspendedPhase | UpdateState
  | Respond | CompletedPhase

datatype secretary_update =
    ProposalAccepted secretary_action_proposal
  | ApprovalResolved secretary_resume_input
  | ActionCompleted secretary_action_receipt
  | ResponseReady owner_response_draft
  | ObservationAppended planner_tool_observation
  | WorkingContextChanged working_context_update
  | PhaseChanged secretary_phase

record secretary_state =
  ss_goal :: string
  ss_phase :: secretary_phase
  ss_invariants :: "string list"
  ss_evidence_source_event_ids :: "source_event_id list"
  ss_recent_events :: "recent_event_ref list"
  ss_pending_proposal :: "secretary_action_proposal option"
  ss_last_receipt :: "secretary_action_receipt option"
  ss_response_draft :: "owner_response_draft option"
  ss_replan_round :: u8
  ss_planning_observations :: "planner_tool_observation list"
  ss_working_context :: "agent_working_context option"

definition max_goal_chars :: nat where "max_goal_chars = 2000"
definition max_invariants :: nat where "max_invariants = 50"

definition state_unless :: "bool \<Rightarrow> string \<Rightarrow> checked" where
  "state_unless b message = ensure b (InvalidState message)"

fun distinct_observations :: "string list \<Rightarrow> planner_tool_observation list \<Rightarrow> checked" where
  "distinct_observations seen [] = Ok ()"
| "distinct_observations seen (ob # obs) =
     bind_r (map_err (\<lambda>e. InvalidState (planner_error_display e)) (validate_tool_observation ob)) (\<lambda>_.
     bind_r (state_unless (pto_proposal_id ob \<notin> set seen)
              (''duplicate proposal_id in planning_observations: '' @ pto_proposal_id ob)) (\<lambda>_.
       distinct_observations (pto_proposal_id ob # seen) obs))"

definition validate_agent_state :: "(agent_working_context \<Rightarrow> nat option) \<Rightarrow> secretary_state \<Rightarrow> checked" where
  "validate_agent_state json_size s =
     bind_r (bounded_text ''goal'' (ss_goal s) 1 max_goal_chars) (\<lambda>_.
     bind_r (state_unless (length (ss_invariants s) \<le> max_invariants
                \<and> length (ss_evidence_source_event_ids s) \<le> max_evidence
                \<and> length (ss_recent_events s) \<le> max_recent_events)
              ''agent state exceeds bounded context limits'') (\<lambda>_.
     bind_r (all_ok (\<lambda>i. bounded_text ''invariant'' i 1 1000) (ss_invariants s)) (\<lambda>_.
     bind_r (all_ok (\<lambda>r. bounded_text ''recent event summary'' (rer_summary r) 1 500) (ss_recent_events s)) (\<lambda>_.
     bind_r (state_unless (ss_replan_round s \<le> max_replan_rounds)
              (''replan_round '' @ decimal (unat (ss_replan_round s)) @ '' exceeds MAX_REPLAN_ROUNDS 2'')) (\<lambda>_.
     bind_r (state_unless (length (ss_planning_observations s) \<le> max_tool_observations)
              (''planning_observations count '' @ decimal (length (ss_planning_observations s)) @ '' exceeds max 2'')) (\<lambda>_.
     bind_r (distinct_observations [] (ss_planning_observations s)) (\<lambda>_.
     bind_r (state_unless (summary_chars (ss_planning_observations s) \<le> max_tool_observation_total_chars)
              (''planning_observations total chars '' @ decimal (summary_chars (ss_planning_observations s))
               @ '' exceeds max 4000'')) (\<lambda>_.
       (case ss_working_context s of
          None \<Rightarrow> Ok ()
        | Some w \<Rightarrow> map_err (\<lambda>e. InvalidState (''working_context violates bounded limits: ''
              @ working_context_error_display e)) (working_context_validate json_size w))))))))))"

definition secretary_state_new ::
  "(agent_working_context \<Rightarrow> nat option) \<Rightarrow> string \<Rightarrow> string list \<Rightarrow> source_event_id list \<Rightarrow>
     recent_event_ref list \<Rightarrow> (secretary_agent_runtime_error, secretary_state) result" where
  "secretary_state_new json_size goal invariants evidence recent =
     (let s = \<lparr>ss_goal = goal, ss_phase = Observe, ss_invariants = invariants,
               ss_evidence_source_event_ids = evidence, ss_recent_events = recent,
               ss_pending_proposal = None, ss_last_receipt = None, ss_response_draft = None,
               ss_replan_round = 0, ss_planning_observations = [], ss_working_context = None\<rparr> in
      bind_r (validate_agent_state json_size s) (\<lambda>_. Ok s))"

section \<open>Updates\<close>

definition no_pending_message :: string where
  "no_pending_message =
     utf8 [0x6CA1, 0x6709, 0x53EF, 0x6062, 0x590D, 0x7684, 0x5F85, 0x786E, 0x8BA4, 0x52A8, 0x4F5C]"

definition resume_mismatch_message :: string where
  "resume_mismatch_message =
     utf8 [0x6062, 0x590D, 0x8F93, 0x5165, 0x4E0E, 0x5F85, 0x786E, 0x8BA4, 0x52A8, 0x4F5C, 0x4E0D,
       0x5339, 0x914D]"

definition receipt_without_proposal_message :: string where
  "receipt_without_proposal_message =
     utf8 [0x52A8, 0x4F5C, 0x56DE, 0x6267, 0x7F3A, 0x5C11, 0x5F85, 0x6267, 0x884C] @ '' Proposal''"

definition receipt_mismatch_message :: string where
  "receipt_mismatch_message =
     utf8 [0x52A8, 0x4F5C, 0x56DE, 0x6267, 0x4E0E, 0x5F85, 0x6267, 0x884C] @ '' Proposal '' @
     utf8 [0x4E0D, 0x5339, 0x914D]"

definition receipt_kind_message :: "secretary_tool_kind \<Rightarrow> secretary_tool_kind \<Rightarrow> string" where
  "receipt_kind_message k canonical =
     utf8 [0x56DE, 0x6267] @ '' tool_kind '' @ tool_kind_debug k @ '' '' @ utf8 [0x4E0E] @
     '' Proposal '' @ tool_kind_debug canonical @ '' '' @ utf8 [0x4E0D, 0x4E00, 0x81F4]"

text \<open>\<open>fn apply_update(&mut self, update)\<close>: the state it leaves and its result.\<close>

definition secretary_apply_update ::
  "(agent_working_context \<Rightarrow> nat option) \<Rightarrow> secretary_state \<Rightarrow> secretary_update \<Rightarrow>
     (agent_state_error, unit) result \<times> secretary_state" where
  "secretary_apply_update json_size s u =
     (case u of
        ProposalAccepted p \<Rightarrow>
          (case map_err (\<lambda>e. BusinessError (runtime_error_display e)) (validate_action_proposal p) of
             Ok _ \<Rightarrow> (Ok (), s\<lparr>ss_pending_proposal := Some p, ss_phase := Execute\<rparr>)
           | r \<Rightarrow> (r, s))
      | ApprovalResolved input \<Rightarrow>
          (case ss_pending_proposal s of
             None \<Rightarrow> (Err (BusinessError no_pending_message), s)
           | Some pending \<Rightarrow>
               if ap_proposal_id pending \<noteq> sri_proposal_id input
               then (Err (BusinessError resume_mismatch_message), s)
               else (Ok (), s\<lparr>ss_phase := (case sri_decision input of Approve \<Rightarrow> Execute | Reject \<Rightarrow> Respond)\<rparr>))
      | ActionCompleted receipt \<Rightarrow>
          (case ss_pending_proposal s of
             None \<Rightarrow> (Err (BusinessError receipt_without_proposal_message), s)
           | Some pending \<Rightarrow>
               if ap_proposal_id pending \<noteq> ar_proposal_id receipt
               then (Err (BusinessError receipt_mismatch_message), s)
               else (let canonical = action_kind (ap_action pending);
                         accept = (\<lambda>r. (Ok (), s\<lparr>ss_last_receipt := Some r, ss_pending_proposal := None,
                                                 ss_phase := UpdateState\<rparr>)) in
                     (case ar_tool_kind receipt of
                        None \<Rightarrow> accept (receipt\<lparr>ar_tool_kind := Some canonical\<rparr>)
                      | Some k \<Rightarrow> if k \<noteq> canonical then (Err (BusinessError (receipt_kind_message k canonical)), s)
                                 else accept receipt)))
      | ResponseReady draft \<Rightarrow>
          (case map_err (\<lambda>e. BusinessError (runtime_error_display e)) (validate_response_draft draft) of
             Ok _ \<Rightarrow> (Ok (), s\<lparr>ss_response_draft := Some draft, ss_phase := Respond\<rparr>)
           | r \<Rightarrow> (r, s))
      | ObservationAppended obs \<Rightarrow>
          (case map_err (\<lambda>e. BusinessError (planner_error_display e)) (validate_tool_observation obs) of
             Ok _ \<Rightarrow>
               if list_ex (\<lambda>e. pto_proposal_id e = pto_proposal_id obs) (ss_planning_observations s) then (Ok (), s)
               else (Ok (), s\<lparr>ss_planning_observations := ss_planning_observations s @ [obs],
                              ss_replan_round := saturating_add (ss_replan_round s) 1,
                              ss_phase := UpdateState\<rparr>)
           | r \<Rightarrow> (r, s))
      | WorkingContextChanged change \<Rightarrow>
          (case apply_working_context_update json_size change (ss_working_context s) of
             Ok w \<Rightarrow> (Ok (), s\<lparr>ss_working_context := Some w\<rparr>)
           | Err e \<Rightarrow> (Err (BusinessError (working_context_error_display e)), s)
           | Panic \<Rightarrow> (Panic, s))
      | PhaseChanged phase \<Rightarrow> (Ok (), s\<lparr>ss_phase := phase\<rparr>))"

definition secretary_business ::
  "(agent_working_context \<Rightarrow> nat option) \<Rightarrow> (secretary_state, secretary_update, secretary_resume_input) business_ops" where
  "secretary_business json_size =
     \<lparr>apply_update = secretary_apply_update json_size,
      resume_updates = (\<lambda>input. [BusinessUpdate (ApprovalResolved input)]),
      state_schema_version = schema_initial\<rparr>"

definition receipt_updates :: "secretary_action_receipt \<Rightarrow> secretary_update agent_update list" where
  "receipt_updates r = [BusinessUpdate (ActionCompleted r)]"

section \<open>The gate\<close>

definition approval_request :: "secretary_action_proposal \<Rightarrow> secretary_tool_policy \<Rightarrow> secretary_approval_request" where
  "approval_request p policy =
     \<lparr>sar_proposal_id = ap_proposal_id p, sar_tool = action_kind (ap_action p), sar_risk = tp_risk policy,
      sar_summary = ap_rationale p, sar_source_event_ids = ap_source_event_ids p\<rparr>"

definition is_clarification :: "secretary_action \<Rightarrow> bool" where
  "is_clarification a \<longleftrightarrow> (case a of AskOwnerClarification _ \<Rightarrow> True | _ \<Rightarrow> False)"

section \<open>Lemmas\<close>

lemma is_clarification_kind: "is_clarification a \<longleftrightarrow> action_kind a = AskOwnerClarificationTool"
  by (cases a) (simp_all add: is_clarification_def)

lemma draft_unless_no_panic: "draft_unless b m \<noteq> Panic"
  by (simp add: draft_unless_def ensure_def)

lemma validate_segment_no_panic: "validate_segment s \<noteq> Panic"
  by (simp add: validate_segment_def bind_r_Panic draft_unless_no_panic)

lemma validate_draft_no_panic: "validate_response_draft d \<noteq> Panic"
  by (auto simp: validate_response_draft_def bind_r_Panic draft_unless_no_panic validate_segment_no_panic
      dest!: all_ok_Panic)

text \<open>A failed update leaves the state as it was.\<close>

lemma secretary_apply_update_failed:
  "fst (secretary_apply_update json_size s u) \<noteq> Ok () \<Longrightarrow> snd (secretary_apply_update json_size s u) = s"
  by (auto simp: secretary_apply_update_def Let_def split: secretary_update.splits result.splits option.splits
      if_splits)

end
