(* ===== verification/Owner_Response.thy ===== *)
theory Owner_Response
  imports Secretary_State
begin

text \<open>
  The response the owner gets for an executed action
  (\<open>personal-secretary/src/domain/agent_runtime/response.rs\<close>): the shared constructor of drafts
  and its rendering of policy artifacts and memory conflicts. What \<open>serde_json\<close> makes of a result
  reference, and the size of a serialized draft, are the record \<open>json_ops\<close>, an argument; None is
  a failure of \<open>serde_json\<close>.
\<close>

section \<open>JSON\<close>

text \<open>\<open>NotificationPolicyResponseArtifact\<close> of \<open>application/notification_policy_service.rs\<close>.\<close>

record policy_artifact =
  pa_scope :: string
  pa_policy_family_id :: "policy_family_id option"
  pa_policy_revision_id :: "policy_revision_id option"
  pa_decision_id :: "string option"
  pa_status :: string
  pa_priority :: string
  pa_typed_reason :: string
  pa_audit_reference :: string

record json_ops =
  parse_query_result :: "string \<Rightarrow> query_effect_result option"
  parse_conflict_result :: "string \<Rightarrow> memory_candidate_conflict_result option"
  parse_artifacts :: "string \<Rightarrow> policy_artifact list option"
  parse_optional_artifact :: "string \<Rightarrow> policy_artifact option option"
  parse_artifact :: "string \<Rightarrow> policy_artifact option"
  draft_json_size :: "owner_response_draft \<Rightarrow> nat option"
  context_json_size :: "agent_working_context \<Rightarrow> nat option"

section \<open>Lines\<close>

definition newline :: string where "newline = [CHR 0x0A]"

fun join_lines :: "string list \<Rightarrow> string" where
  "join_lines [] = []"
| "join_lines [l] = l"
| "join_lines (l # ls) = l @ newline @ join_lines ls"

section \<open>Rendering\<close>

definition is_notification_policy_action :: "secretary_tool_kind \<Rightarrow> bool" where
  "is_notification_policy_action k \<longleftrightarrow>
     k \<in> {ListNotificationPoliciesTool, ExplainNotificationDecisionTool,
          SetAccountDefaultNotificationModeTool, SetConversationNotificationModeTool,
          SetQuietHoursTool, SetImportantContactTool, SetNotificationCategoryImportanceTool,
          RecordNotificationFeedbackTool, CreateSimilarNotificationRuleTool,
          DisableNotificationPolicyTool, SetAutomaticReplyDeniedForContactTool}"

definition starts_with :: "string \<Rightarrow> string \<Rightarrow> bool" where
  "starts_with s p \<longleftrightarrow> take (length p) s = p"

definition str_contains :: "string \<Rightarrow> string \<Rightarrow> bool" where
  "str_contains s p \<longleftrightarrow> list_ex (\<lambda>k. starts_with (drop k s) p) [0..<Suc (length s)]"

definition scope_prefix :: "string \<Rightarrow> string" where
  "scope_prefix scope =
     (if starts_with scope ''conversation'' then utf8 [0x4F1A, 0x8BDD, 0x8303, 0x56F4]
      else if starts_with scope ''actor'' then utf8 [0x8054, 0x7CFB, 0x4EBA, 0x8303, 0x56F4]
      else if starts_with scope ''category'' then utf8 [0x7C7B, 0x522B, 0x8303, 0x56F4]
      else if starts_with scope ''account'' then utf8 [0x8D26, 0x53F7, 0x8303, 0x56F4]
      else utf8 [0x8303, 0x56F4])"

definition status_cn :: "string \<Rightarrow> string" where
  "status_cn s =
     (if s = ''rule'' then utf8 [0x89C4, 0x5219]
      else if s = ''tombstone'' then utf8 [0x5DF2, 0x505C, 0x7528]
      else if s = ''remind'' then utf8 [0x63D0, 0x9192]
      else if s = ''delay'' then utf8 [0x5EF6, 0x8FDF]
      else if s = ''suppress'' then utf8 [0x9759, 0x9ED8]
      else if s = ''recorded'' then utf8 [0x5DF2, 0x8BB0, 0x5F55]
      else utf8 [0x5DF2, 0x914D, 0x7F6E])"

definition outcome_cn :: "string \<Rightarrow> string" where
  "outcome_cn s =
     (if s = ''remind'' then utf8 [0x63D0, 0x9192]
      else if s = ''delay'' then utf8 [0x5EF6, 0x8FDF]
      else if s = ''suppress'' then utf8 [0x9759, 0x9ED8]
      else if s = ''candidate_expired'' then utf8 [0x5019, 0x9009, 0x5DF2, 0x8FC7, 0x671F]
      else if s = ''evaluation_failed_terminal'' then utf8 [0x8BC4, 0x4F30, 0x5931, 0x8D25]
      else if s = ''delivery_window_expired'' then utf8 [0x6295, 0x9012, 0x7A97, 0x53E3, 0x5DF2,
          0x8FC7, 0x671F]
      else if s = ''schedule_time_ambiguous'' then utf8 [0x65F6, 0x533A, 0x6B67, 0x4E49]
      else utf8 [0x7B56, 0x7565, 0x5224, 0x5B9A])"

definition translate_reason :: "string \<Rightarrow> string" where
  "translate_reason s =
     (if str_contains s ''schedule_time_ambiguous''
      then utf8 [0x89C4, 0x5219, 0x65F6, 0x95F4, 0x5B58, 0x5728, 0x65F6, 0x533A, 0x6B67, 0x4E49,
          0xFF0C, 0x9700, 0x8981, 0x91CD, 0x65B0, 0x786E, 0x8BA4, 0x9759, 0x9ED8, 0x65F6, 0x6BB5,
          0x3002]
      else if s = ''quiet_hours'' then utf8 [0x5F53, 0x524D, 0x5904, 0x4E8E, 0x9759, 0x9ED8,
          0x65F6, 0x6BB5, 0x3002]
      else if s = ''fully_silent'' then utf8 [0x8BE5, 0x4F1A, 0x8BDD, 0x5DF2, 0x8BBE, 0x4E3A,
          0x5B8C, 0x5168, 0x9759, 0x9ED8, 0x3002]
      else if s = ''account_default_policy'' then utf8 [0x6839, 0x636E, 0x8D26, 0x53F7, 0x9ED8,
          0x8BA4, 0x7B56, 0x7565, 0x3002]
      else if s = ''conversation_policy'' then utf8 [0x6839, 0x636E, 0x4F1A, 0x8BDD, 0x7B56,
          0x7565, 0x3002]
      else if s = ''contact_policy'' then utf8 [0x6839, 0x636E, 0x8054, 0x7CFB, 0x4EBA, 0x7B56,
          0x7565, 0x3002]
      else if s = ''category_policy'' then utf8 [0x6839, 0x636E, 0x7C7B, 0x522B, 0x7B56, 0x7565,
          0x3002]
      else if s = ''candidate_expired'' then utf8 [0x5019, 0x9009, 0x5DF2, 0x8FC7, 0x671F, 0x3002]
      else if s = ''delivery_window_expired'' then utf8 [0x6295, 0x9012, 0x7A97, 0x53E3, 0x5DF2,
          0x8FC7, 0x671F, 0x3002]
      else if s = ''evaluation_failed_terminal'' then utf8 [0x7B56, 0x7565, 0x8BC4, 0x4F30,
          0x5931, 0x8D25, 0x3002]
      else if s = ''invalid_quiet_hours'' then utf8 [0x9759, 0x9ED8, 0x65F6, 0x6BB5, 0x914D,
          0x7F6E, 0x65E0, 0x6548, 0x3002]
      else if s = ''feedback_recorded'' then utf8 [0x53CD, 0x9988, 0x5DF2, 0x8BB0, 0x5F55, 0x3002]
      else if s = ''policy_written'' then utf8 [0x7B56, 0x7565, 0x5DF2, 0x5199, 0x5165, 0x3002]
      else utf8 [0x7B56, 0x7565, 0x5F15, 0x64CE, 0x5224, 0x5B9A, 0x3002])"

definition fallback_segments :: "response_segment list" where
  "fallback_segments =
     [Summary (utf8 [0x64CD, 0x4F5C, 0x7ED3, 0x679C, 0x5DF2, 0x7ECF, 0x8BB0, 0x5F55, 0xFF0C,
         0x4F46, 0x65E0, 0x6CD5, 0x5B89, 0x5168, 0x5C55, 0x793A, 0x8BE6, 0x7EC6, 0x7ED3, 0x679C,
         0xFF0C, 0x8BF7, 0x901A, 0x8FC7, 0x5BA1, 0x8BA1, 0x8BB0, 0x5F55, 0x67E5, 0x8BE2, 0x3002])]"

definition list_header :: string where
  "list_header = utf8 [0x5F53, 0x524D, 0x63D0, 0x9192, 0x89C4, 0x5219, 0xFF1A] @ newline"

definition truncation_note :: string where
  "truncation_note = utf8 [0x5176, 0x4F59, 0x89C4, 0x5219, 0x5DF2, 0x7701, 0x7565, 0xFF0C,
      0x8BF7, 0x7F29, 0x5C0F, 0x67E5, 0x8BE2, 0x8303, 0x56F4, 0x3002]"

definition artifact_line :: "nat \<Rightarrow> policy_artifact \<Rightarrow> string" where
  "artifact_line i a =
     decimal (i + 1) @ ''. '' @ scope_prefix (pa_scope a) @ '' '' @ pa_scope a @
     utf8 [0xFF0C, 0x72B6, 0x6001] @ '' '' @ status_cn (pa_status a) @
     utf8 [0xFF0C, 0x7248, 0x672C] @ '' '' @ pa_typed_reason a"

text \<open>The loop over the artifacts: the lines so far, their characters, and whether it broke off.\<close>

fun artifact_lines :: "nat \<Rightarrow> nat \<Rightarrow> string list \<Rightarrow> policy_artifact list \<Rightarrow> string list \<times> bool" where
  "artifact_lines i total_chars ls [] = (ls, False)"
| "artifact_lines i total_chars ls (a # as) =
     (let line = artifact_line i a; projected = total_chars + char_count line + 1 in
      if projected + char_count truncation_note > 1000 \<and> i > 0 then (ls, True)
      else artifact_lines (Suc i) projected (ls @ [line]) as)"

definition build_list_segments :: "policy_artifact list \<Rightarrow> response_segment list" where
  "build_list_segments artifacts =
     (if artifacts = [] then [Summary (utf8 [0x5F53, 0x524D, 0x6CA1, 0x6709, 0x5DF2, 0x914D,
         0x7F6E, 0x7684, 0x63D0, 0x9192, 0x89C4, 0x5219, 0x3002])]
      else (let (ls, truncated) = artifact_lines 0 (char_count list_header) [] artifacts;
                body = list_header @ join_lines ls @ (if truncated then truncation_note else []) in
            [Summary (if 1000 < char_count body then take_chars 1000 body else body)]))"

definition build_explain_segments :: "policy_artifact option \<Rightarrow> response_segment list" where
  "build_explain_segments artifact =
     (case artifact of
        None \<Rightarrow> [Summary (utf8 [0x672A, 0x627E, 0x5230, 0x8BE5, 0x63D0, 0x9192,
            0x51B3, 0x7B56, 0xFF0C, 0x6216, 0x8BE5, 0x51B3, 0x7B56, 0x4E0D, 0x5C5E, 0x4E8E,
            0x5F53, 0x524D, 0x8D26, 0x53F7, 0x3002])]
      | Some a \<Rightarrow>
          [Summary (utf8 [0x8BE5, 0x63D0, 0x9192, 0x7684, 0x5904, 0x7406, 0x7ED3, 0x679C, 0x4E3A,
              0xFF1A] @ outcome_cn (pa_status a) @ utf8 [0x3002] @ newline @
             utf8 [0x539F, 0x56E0,
                 0xFF1A] @ translate_reason (pa_typed_reason a) @ utf8 [0x3002] @ newline @
             utf8 [0x5BA1, 0x8BA1, 0x5F15, 0x7528, 0xFF1A] @ pa_audit_reference a)])"

definition build_mutation_segments :: "secretary_tool_kind \<Rightarrow> response_segment list" where
  "build_mutation_segments k =
     [Summary
       (if k = RecordNotificationFeedbackTool then utf8 [0x4F60, 0x7684, 0x53CD, 0x9988, 0x5DF2,
           0x8BB0, 0x5F55, 0x3002]
        else if k = DisableNotificationPolicyTool then utf8 [0x63D0, 0x9192, 0x89C4, 0x5219,
            0x5DF2, 0x505C, 0x7528, 0x3002]
        else if k = SetAutomaticReplyDeniedForContactTool
        then utf8 [0x5DF2, 0x8BB0, 0x5F55, 0x8BE5, 0x8054, 0x7CFB, 0x4EBA, 0x7684, 0x81EA,
            0x52A8, 0x56DE, 0x590D, 0x7981, 0x7528, 0x7B56, 0x7565, 0x3002]
        else utf8 [0x63D0, 0x9192, 0x89C4, 0x5219, 0x5DF2, 0x66F4, 0x65B0, 0x3002])]"

definition build_policy_response :: "json_ops \<Rightarrow> secretary_tool_kind \<Rightarrow> string \<Rightarrow> response_segment list" where
  "build_policy_response J k result_ref =
     (if k = ListNotificationPoliciesTool
      then (case parse_artifacts J result_ref of
              Some artifacts \<Rightarrow> build_list_segments artifacts | None \<Rightarrow> fallback_segments)
      else if k = ExplainNotificationDecisionTool
      then (case parse_optional_artifact J result_ref of
              Some artifact \<Rightarrow> build_explain_segments artifact | None \<Rightarrow> fallback_segments)
      else (case parse_artifact J result_ref of
              Some _ \<Rightarrow> build_mutation_segments k | None \<Rightarrow> fallback_segments))"

definition conflict_reason_cn :: "memory_conflict_reason_code \<Rightarrow> string \<Rightarrow> string" where
  "conflict_reason_cn code summary =
     (case code of
        ActiveFactPayloadDiffers \<Rightarrow> utf8 [0x8BB0, 0x5FC6, 0x5185, 0x5BB9, 0x51B2, 0x7A81]
      | ReReadSourcesInvalidated \<Rightarrow> utf8 [0x8BB0, 0x5FC6, 0x6765, 0x6E90, 0x5DF2,
          0x5931, 0x6548]
      | ReReadAccountMismatch \<Rightarrow> utf8 [0x8BB0, 0x5FC6, 0x5F52, 0x5C5E, 0x5F02, 0x5E38]
      | ReReadFailed \<Rightarrow> utf8 [0x8BB0, 0x5FC6, 0x56DE, 0x8BFB, 0x5931,
          0x8D25]) @ utf8 [0xFF1A] @ summary"

definition executed_summary :: "secretary_action_receipt \<Rightarrow> response_segment list" where
  "executed_summary receipt = [Summary (utf8 [0x52A8, 0x4F5C, 0x5DF2, 0x6267, 0x884C,
      0xFF1A] @ ar_result_ref receipt)]"

definition response_segments :: "json_ops \<Rightarrow> secretary_action_receipt option \<Rightarrow> response_segment list" where
  "response_segments J receipt =
     (case receipt of
        None \<Rightarrow> [Summary (utf8 [0x65E0, 0x9700, 0x6267, 0x884C, 0x52A8, 0x4F5C])]
      | Some r \<Rightarrow>
          (case ar_tool_kind r of
             None \<Rightarrow> executed_summary r
           | Some k \<Rightarrow>
               if is_notification_policy_action k then build_policy_response J k (ar_result_ref r)
               else if k = ApproveMemoryCandidateTool
               then (case parse_conflict_result J (ar_result_ref r) of
                       Some c \<Rightarrow> if mcr_version c = 1 then [Summary (conflict_reason_cn (mcr_reason_code c) (mcr_summary c))]
                                 else executed_summary r
                     | None \<Rightarrow> executed_summary r)
               else executed_summary r))"

definition build_action_response_draft ::
  "json_ops \<Rightarrow> secretary_action_receipt option \<Rightarrow> source_event_id list \<Rightarrow> i64 \<Rightarrow>
     (secretary_agent_runtime_error, owner_response_draft) result" where
  "build_action_response_draft J receipt sources at =
     bind_r (owner_response_draft_new (response_segments J receipt) sources at) (\<lambda>draft.
       if (case receipt of
             None \<Rightarrow> False
           | Some r \<Rightarrow> (case ar_tool_kind r of None \<Rightarrow> False | Some k \<Rightarrow> is_notification_policy_action k))
       then bind_r (ok_or (draft_json_size J draft) (InvalidResponseDraft (utf8 [0x7B56, 0x7565,
           0x54CD, 0x5E94, 0x8349, 0x7A3F, 0x5E8F, 0x5217, 0x5316, 0x5931,
           0x8D25]))) (\<lambda>bytes.
              if 8192 < bytes
              then Err (InvalidResponseDraft (utf8 [0x7B56, 0x7565, 0x54CD, 0x5E94, 0x8349,
                  0x7A3F, 0x5E8F, 0x5217, 0x5316, 0x540E, 0x8D85,
                  0x8FC7] @ '' 8 KiB '' @ utf8 [0x4E0A, 0x9650]))
              else Ok draft)
       else Ok draft)"

section \<open>Lemmas\<close>

lemma owner_response_draft_no_panic: "owner_response_draft_new segs sources at \<noteq> Panic"
  by (simp add: owner_response_draft_new_def Let_def bind_r_Panic validate_draft_no_panic)

lemma build_action_response_no_panic: "build_action_response_draft J receipt sources at \<noteq> Panic"
  by (auto simp: build_action_response_draft_def bind_r_Panic owner_response_draft_no_panic ok_or_inv
      split: option.splits if_splits)

end
