(* ===== verification/Retriever.thy ===== *)
theory Retriever
  imports Action_Planner
begin

text \<open>
  The retrieval domain (\<open>personal-secretary/src/domain/retriever.rs\<close>): queries, views and bounds,
  who may see what (\<open>RetrievalVisibility\<close>), the resolution of references among the candidates of the
  store, and the checks a participant or causal context has to pass before it leaves the layer.
  The page cursors and trust levels are in \<open>Secretary_Types\<close>.
\<close>

section \<open>Visibility\<close>

datatype retrieval_visibility = InternalMetadata | NormalOnly | NormalAndLocalOnly

definition visibility_for_model :: "bool \<Rightarrow> bool \<Rightarrow> retrieval_visibility" where
  "visibility_for_model is_local_loopback allow_local_only =
     (if is_local_loopback \<and> allow_local_only then NormalAndLocalOnly else NormalOnly)"

primrec includes_local_only :: "retrieval_visibility \<Rightarrow> bool" where
  "includes_local_only InternalMetadata = False"
| "includes_local_only NormalOnly = False"
| "includes_local_only NormalAndLocalOnly = True"

primrec includes_internal_metadata :: "retrieval_visibility \<Rightarrow> bool" where
  "includes_internal_metadata InternalMetadata = True"
| "includes_internal_metadata NormalOnly = False"
| "includes_internal_metadata NormalAndLocalOnly = False"

primrec is_allowed_for_model :: "content_trust_level \<Rightarrow> bool \<Rightarrow> bool \<Rightarrow> bool" where
  "is_allowed_for_model Normal is_local_loopback allow_local_only = True"
| "is_allowed_for_model LocalOnly is_local_loopback allow_local_only = (is_local_loopback \<and> allow_local_only)"
| "is_allowed_for_model EnvelopeOnly is_local_loopback allow_local_only = False"
| "is_allowed_for_model NeverLongTerm is_local_loopback allow_local_only = False"

section \<open>Participants\<close>

primrec platform_identity_kind_serialized :: "platform_identity_kind \<Rightarrow> string" where
  "platform_identity_kind_serialized PlatformOwner = ''Owner''"
| "platform_identity_kind_serialized PlatformOfficialBot = ''OfficialBot''"
| "platform_identity_kind_serialized PlatformExternal = ''External''"

datatype identity_trust = VerifiedIdentity | ObservedIdentity | InferredIdentity

primrec identity_trust_str :: "identity_trust \<Rightarrow> string" where
  "identity_trust_str VerifiedIdentity = ''verified''"
| "identity_trust_str ObservedIdentity = ''observed''"
| "identity_trust_str InferredIdentity = ''inferred''"

record participant_identity =
  pid_platform_kind :: platform_identity_kind
  pid_stable_id :: string
  pid_display_name :: "string option"
  pid_aliases :: "string list"
  pid_trust :: identity_trust

definition participant_identity_new ::
  "platform_identity_kind \<Rightarrow> string \<Rightarrow> identity_trust \<Rightarrow> (retriever_error, participant_identity) result" where
  "participant_identity_new k v t =
     (if is_blank v then Err (RetrieverInvalidData ''ParticipantIdentity.stable_id must not be empty'')
      else Ok \<lparr>pid_platform_kind = k, pid_stable_id = v, pid_display_name = None, pid_aliases = [], pid_trust = t\<rparr>)"

definition all_names :: "participant_identity \<Rightarrow> string list" where
  "all_names p = (case pid_display_name p of Some d \<Rightarrow> [d] | None \<Rightarrow> []) @ pid_aliases p"

definition max_participant_aliases :: nat where "max_participant_aliases = 10"
definition max_participant_attributes :: nat where "max_participant_attributes = 10"
definition max_participant_source_refs :: nat where "max_participant_source_refs = 10"
definition max_related_event_refs :: nat where "max_related_event_refs = 10"
definition max_attribute_value_chars :: nat where "max_attribute_value_chars = 200"
definition max_causal_participants :: nat where "max_causal_participants = 20"
definition max_causal_relations :: nat where "max_causal_relations = 40"
definition max_causal_mentioned :: nat where "max_causal_mentioned = 20"
definition max_causal_source_refs :: nat where "max_causal_source_refs = 20"
definition max_relation_sources :: nat where "max_relation_sources = 3"

lemmas retrieval_bounds =
  max_participant_aliases_def max_participant_attributes_def max_related_event_refs_def
  max_attribute_value_chars_def max_causal_participants_def max_causal_relations_def
  max_causal_mentioned_def max_causal_source_refs_def max_relation_sources_def

record account_scoped_participant_ref =
  asp_account :: source_account_ref
  asp_identity :: participant_identity

definition account_scoped_participant_ref_new ::
  "source_account_ref \<Rightarrow> platform_identity_kind \<Rightarrow> string \<Rightarrow> identity_trust \<Rightarrow>
     (retriever_error, account_scoped_participant_ref) result" where
  "account_scoped_participant_ref_new account k v t =
     bind_r (participant_identity_new k v t) (\<lambda>i. Ok \<lparr>asp_account = account, asp_identity = i\<rparr>)"

definition asp_stable_id :: "account_scoped_participant_ref \<Rightarrow> string" where
  "asp_stable_id p = pid_stable_id (asp_identity p)"

datatype group_role = GroupOwner | GroupAdmin | GroupMember | GroupUnknown

primrec group_role_str :: "group_role \<Rightarrow> string" where
  "group_role_str GroupOwner = ''owner''"
| "group_role_str GroupAdmin = ''admin''"
| "group_role_str GroupMember = ''member''"
| "group_role_str GroupUnknown = ''unknown''"

definition group_role_parse_protocol :: "string option \<Rightarrow> group_role" where
  "group_role_parse_protocol v =
     (let t = map_option trim v in
      if t = Some ''owner'' then GroupOwner
      else if t = Some ''admin'' then GroupAdmin
      else if t = Some ''member'' then GroupMember
      else GroupUnknown)"

datatype participant_attribute_kind =
    AttrDisplayName
  | AttrGroupCard
  | AttrRemark
  | AttrHistoricalAlias
  | AttrRelationship
  | AttrResponsibility
  | AttrPermission
  | AttrCommunicationPreference

primrec participant_attribute_kind_str :: "participant_attribute_kind \<Rightarrow> string" where
  "participant_attribute_kind_str AttrDisplayName = ''display_name''"
| "participant_attribute_kind_str AttrGroupCard = ''group_card''"
| "participant_attribute_kind_str AttrRemark = ''remark''"
| "participant_attribute_kind_str AttrHistoricalAlias = ''historical_alias''"
| "participant_attribute_kind_str AttrRelationship = ''relationship''"
| "participant_attribute_kind_str AttrResponsibility = ''responsibility''"
| "participant_attribute_kind_str AttrPermission = ''permission''"
| "participant_attribute_kind_str AttrCommunicationPreference = ''communication_preference''"

definition participant_attribute_kind_parse :: "string \<Rightarrow> participant_attribute_kind option" where
  "participant_attribute_kind_parse v =
     (if v = ''display_name'' then Some AttrDisplayName
      else if v = ''group_card'' then Some AttrGroupCard
      else if v = ''remark'' then Some AttrRemark
      else if v = ''historical_alias'' then Some AttrHistoricalAlias
      else if v = ''relationship'' then Some AttrRelationship
      else if v = ''responsibility'' then Some AttrResponsibility
      else if v = ''permission'' then Some AttrPermission
      else if v = ''communication_preference'' then Some AttrCommunicationPreference
      else None)"

record participant_attribute =
  pa_kind :: participant_attribute_kind
  pa_value :: string
  pa_trust :: identity_trust
  pa_confirmed :: bool
  pa_source_event_ids :: "source_event_id list"
  pa_directory_snapshot_id :: "string option"
  pa_invalidated :: bool
  pa_invalidation_reason :: "string option"

record participant_context_view =
  pcv_participant :: account_scoped_participant_ref
  pcv_display_name :: "string option"
  pcv_group_card :: "string option"
  pcv_aliases :: "string list"
  pcv_group_role :: group_role
  pcv_attributes :: "participant_attribute list"
  pcv_conversation :: "conversation_ref option"
  pcv_thread_id :: "event_thread_id option"
  pcv_related_event_ids :: "source_event_id list"
  pcv_unresolved_ambiguity :: bool
  pcv_expired_or_invalidated :: bool

section \<open>Events and threads\<close>

record event_query =
  eq_account :: source_account_ref
  eq_conversation :: "conversation_ref option"
  eq_actor_id :: "string option"
  eq_thread_id :: "event_thread_id option"
  eq_since :: "i64 option"
  eq_until :: "i64 option"
  eq_query_text :: "string option"
  eq_limit :: u16

definition event_query_for_account :: "source_account_ref \<Rightarrow> event_query" where
  "event_query_for_account account =
     \<lparr>eq_account = account, eq_conversation = None, eq_actor_id = None, eq_thread_id = None,
      eq_since = None, eq_until = None, eq_query_text = None, eq_limit = 20\<rparr>"

record event_search_result =
  res_source_event_id :: source_event_id
  res_conversation :: conversation_ref
  res_actor :: verified_actor
  res_participant :: "participant_identity option"
  res_message_role :: message_role
  res_occurred_at :: i64
  res_excerpt :: string
  res_trust_level :: content_trust_level
  res_thread_id :: "event_thread_id option"

record source_event_detail =
  sed_source_event_id :: source_event_id
  sed_account :: source_account_ref
  sed_conversation :: conversation_ref
  sed_actor :: verified_actor
  sed_participant :: "participant_identity option"
  sed_message_role :: message_role
  sed_occurred_at :: i64
  sed_normalized_text :: string
  sed_trust_level :: content_trust_level
  sed_reply_to :: "source_event_id option"
  sed_thread_id :: "event_thread_id option"

record thread_search_result =
  tsr_thread_id :: event_thread_id
  tsr_status :: thread_status
  tsr_event_count :: u64
  tsr_latest_event_at :: i64
  tsr_source_event_id :: source_event_id
  tsr_conversation :: conversation_ref
  tsr_actor :: verified_actor
  tsr_occurred_at :: i64
  tsr_excerpt :: string
  tsr_trust_level :: content_trust_level
  tsr_match_rank :: thread_search_match_rank

record thread_search_page =
  tsp_threads :: "thread_search_result list"
  tsp_next_cursor :: "thread_search_cursor option"

record upcoming_item =
  up_item_id :: string
  up_kind :: string
  up_due_at :: i64
  up_excerpt :: string
  up_source_event_id :: source_event_id

record secretary_status_view =
  ssv_unresolved_gap_count :: u64
  ssv_open_gap_count :: u64
  ssv_earliest_gap_started_at :: "i64 option"
  ssv_open_thread_count :: u64
  ssv_waiting_thread_count :: u64
  ssv_active_response_expectation_count :: u64
  ssv_scheduled_follow_up_count :: u64
  ssv_pending_evaluation_count :: u64
  ssv_pending_outbox_count :: u64
  ssv_failed_outbox_count :: u64

record pending_owner_work_item =
  pwi_source_kind :: string
  pwi_source_id :: string
  pwi_due_at :: "i64 option"
  pwi_status :: string
  pwi_summary :: string
  pwi_source_version :: "u64 option"

record pending_owner_work_page =
  pwp_items :: "pending_owner_work_item list"
  pwp_next_cursor :: "pending_owner_work_cursor option"

record thread_actor_summary =
  tas_actor_kind :: string
  tas_actor_id :: string
  tas_event_count :: u64

record thread_claim_summary =
  tcs_claim_id :: string
  tcs_claim_kind :: string
  tcs_claimant_actor_id :: string
  tcs_status :: string
  tcs_statement :: string
  tcs_source_event_ids :: "source_event_id list"

record thread_decision_summary =
  tds_decision_id :: thread_decision_id
  tds_status :: string
  tds_statement :: string
  tds_confidence_bps :: u16
  tds_supersedes :: "thread_decision_id option"
  tds_created_at_micros :: i64
  tds_source_event_ids :: "source_event_id list"

record thread_decision_revision_cursor =
  drc_thread_id :: event_thread_id
  drc_created_at_micros :: i64
  drc_decision_id :: thread_decision_id

definition thread_decision_revision_cursor_new ::
  "event_thread_id \<Rightarrow> i64 \<Rightarrow> thread_decision_id \<Rightarrow> (retriever_error, thread_decision_revision_cursor) result" where
  "thread_decision_revision_cursor_new t at d =
     (if at < 0
      then Err (RetrieverInvalidData ''decision revision cursor timestamp must be non-negative'')
      else Ok \<lparr>drc_thread_id = t, drc_created_at_micros = at, drc_decision_id = d\<rparr>)"

record thread_decision_revision_page =
  drp_decisions :: "thread_decision_summary list"
  drp_next_cursor :: "thread_decision_revision_cursor option"

record thread_question_summary =
  tqs_question_id :: string
  tqs_raised_by_actor_id :: string
  tqs_status :: string
  tqs_question :: string
  tqs_source_event_ids :: "source_event_id list"

record thread_context_view =
  tcv_thread_id :: event_thread_id
  tcv_status :: thread_status
  tcv_event_count :: u64
  tcv_actors :: "thread_actor_summary list"
  tcv_claims :: "thread_claim_summary list"
  tcv_decisions :: "thread_decision_summary list"
  tcv_open_questions :: "thread_question_summary list"

section \<open>Causal context\<close>

datatype event_relation_kind =
    SentBy
  | Mentions
  | RepliesTo
  | MemberOfThread
  | ThreadRootBy
  | RequestedBy
  | AssignedTo
  | PromisedBy
  | Benefits

primrec event_relation_kind_str :: "event_relation_kind \<Rightarrow> string" where
  "event_relation_kind_str SentBy = ''sent_by''"
| "event_relation_kind_str Mentions = ''mentions''"
| "event_relation_kind_str RepliesTo = ''replies_to''"
| "event_relation_kind_str MemberOfThread = ''member_of_thread''"
| "event_relation_kind_str ThreadRootBy = ''thread_root_by''"
| "event_relation_kind_str RequestedBy = ''requested_by''"
| "event_relation_kind_str AssignedTo = ''assigned_to''"
| "event_relation_kind_str PromisedBy = ''promised_by''"
| "event_relation_kind_str Benefits = ''benefits''"

definition event_relation_kind_parse :: "string \<Rightarrow> event_relation_kind option" where
  "event_relation_kind_parse v =
     (if v = ''sent_by'' then Some SentBy
      else if v = ''mentions'' then Some Mentions
      else if v = ''replies_to'' then Some RepliesTo
      else if v = ''member_of_thread'' then Some MemberOfThread
      else if v = ''thread_root_by'' then Some ThreadRootBy
      else if v = ''requested_by'' then Some RequestedBy
      else if v = ''assigned_to'' then Some AssignedTo
      else if v = ''promised_by'' then Some PromisedBy
      else if v = ''benefits'' then Some Benefits
      else None)"

record event_relation =
  er_kind :: event_relation_kind
  er_account :: source_account_ref
  er_subject :: account_scoped_participant_ref
  er_thread_id :: "event_thread_id option"
  er_source_event_ids :: "source_event_id list"
  er_trust :: identity_trust
  er_confirmed :: bool
  er_invalidation_reason :: "string option"

record causal_event_ref =
  cer_source_event_id :: source_event_id
  cer_sender :: "participant_identity option"

record causal_thread_ref =
  ctr_thread_id :: event_thread_id
  ctr_status :: thread_status
  ctr_root_event_id :: source_event_id
  ctr_root_sender :: "participant_identity option"

record event_participant_summary =
  eps_participant :: account_scoped_participant_ref
  eps_display_name :: "string option"
  eps_group_role :: group_role
  eps_event_count :: u64

record event_causal_context_view =
  ecv_source_event_id :: source_event_id
  ecv_account :: source_account_ref
  ecv_sender :: "participant_identity option"
  ecv_reply_parent :: "causal_event_ref option"
  ecv_thread :: "causal_thread_ref option"
  ecv_mentioned :: "account_scoped_participant_ref list"
  ecv_requesters :: "account_scoped_participant_ref list"
  ecv_assignees :: "account_scoped_participant_ref list"
  ecv_promisors :: "account_scoped_participant_ref list"
  ecv_beneficiaries :: "account_scoped_participant_ref list"
  ecv_participants :: "event_participant_summary list"
  ecv_relations :: "event_relation list"
  ecv_ambiguous :: bool
  ecv_source_refs :: "source_event_id list"

section \<open>References, projects and commitments\<close>

record reference_candidate =
  rc_actor_id :: "string option"
  rc_participant :: "participant_identity option"
  rc_thread_id :: "event_thread_id option"
  rc_source_event_ids :: "source_event_id list"
  rc_evidence :: string

record reference_context =
  rx_account :: source_account_ref
  rx_current_event_id :: "source_event_id option"
  rx_current_conversation :: "conversation_ref option"
  rx_current_thread_id :: "event_thread_id option"
  rx_recent_events :: "recent_event_ref list"
  rx_now :: i64
  rx_timezone :: string

record reference_resolution =
  rr_actor_id :: "string option"
  rr_thread_id :: "event_thread_id option"
  rr_event_ids :: "source_event_id list"
  rr_ambiguous :: bool
  rr_evidence :: string

record project_memory_summary =
  pms_project_key :: string
  pms_goal :: string
  pms_member_count :: nat
  pms_progress :: "string option"
  pms_risk_count :: nat
  pms_blocker_count :: nat
  pms_fact_id :: memory_fact_id
  pms_updated_at :: "i64 option"

record project_context_view =
  pjv_project_key :: string
  pjv_goal :: string
  pjv_members :: "project_member_ref list"
  pjv_legacy_member_ids :: bool
  pjv_progress :: "string option"
  pjv_risks :: "string list"
  pjv_blockers :: "string list"
  pjv_artifact_refs :: "string list"
  pjv_decision_ids :: "thread_decision_id list"
  pjv_fact_id :: memory_fact_id
  pjv_confidence_bps :: u16
  pjv_source_event_ids :: "source_event_id list"
  pjv_valid_until :: "i64 option"

record commitment_query =
  cq_account :: source_account_ref
  cq_status :: "commitment_status option"
  cq_due_since :: "i64 option"
  cq_due_until :: "i64 option"
  cq_promisor :: "project_member_ref option"
  cq_beneficiary :: "project_member_ref option"
  cq_limit :: u16

record commitment_summary =
  cs_fact_id :: memory_fact_id
  cs_promisor :: project_member_ref
  cs_beneficiary :: project_member_ref
  cs_action :: string
  cs_due_at :: "i64 option"
  cs_status :: commitment_status
  cs_source_event_ids :: "source_event_id list"
  cs_follow_up_id :: "string option"
  cs_follow_up_status :: "string option"

section \<open>Checks\<close>

definition validate_event_query :: "event_query \<Rightarrow> (retriever_error, unit) result" where
  "validate_event_query q =
     bind_r (ensure (\<not> (eq_limit q = 0 \<or> 100 < eq_limit q))
               (RetrieverInvalidData ''EventQuery.limit must be in 1..=100'')) (\<lambda>_.
     bind_r (ensure (\<not> (case eq_query_text q of Some t \<Rightarrow> 1000 < char_count t | None \<Rightarrow> False))
               (RetrieverInvalidData ''EventQuery.query_text must not exceed 1000 chars'')) (\<lambda>_.
       ensure (\<not> (case (eq_since q, eq_until q) of (Some a, Some b) \<Rightarrow> b < a | _ \<Rightarrow> False))
         (RetrieverInvalidData ''EventQuery.since_unix_secs must not be after until_unix_secs'')))"

definition filter_for_model :: "event_search_result list \<Rightarrow> bool \<Rightarrow> bool \<Rightarrow> event_search_result list" where
  "filter_for_model results is_local_loopback allow_local_only =
     filter (\<lambda>r. is_allowed_for_model (res_trust_level r) is_local_loopback allow_local_only) results"

text \<open>The identities (kind and stable id), threads and events of the candidates, each once, in the
  order of their first occurrence.\<close>

definition push_participant :: "participant_identity list \<Rightarrow> participant_identity \<Rightarrow> participant_identity list" where
  "push_participant ps p =
     (if list_ex (\<lambda>e. pid_platform_kind e = pid_platform_kind p \<and> pid_stable_id e = pid_stable_id p) ps
      then ps else ps @ [p])"

definition collect_candidate ::
  "reference_candidate \<Rightarrow> participant_identity list \<times> event_thread_id list \<times> source_event_id list \<Rightarrow>
     participant_identity list \<times> event_thread_id list \<times> source_event_id list" where
  "collect_candidate c acc =
     (case acc of (ps, ts, es) \<Rightarrow>
        ((case rc_participant c of Some p \<Rightarrow> push_participant ps p | None \<Rightarrow> ps),
         (case rc_thread_id c of Some t \<Rightarrow> append_unique ts [t] | None \<Rightarrow> ts),
         append_unique es (rc_source_event_ids c)))"

definition resolve_reference_from_candidates ::
  "reference_candidate list \<Rightarrow> reference_context \<Rightarrow> reference_resolution" where
  "resolve_reference_from_candidates candidates cx =
     (if candidates = []
      then \<lparr>rr_actor_id = None, rr_thread_id = None, rr_event_ids = [], rr_ambiguous = True,
            rr_evidence = utf8 [0x5F53, 0x524D, 0x4F5C, 0x7528, 0x57DF, 0x5185, 0x65E0, 0x5339, 0x914D, 0x5019,
                0x9009, 0xFF0C, 0x9700] @ '' Owner '' @ utf8 [0x6F84, 0x6E05]\<rparr>
      else
        (case fold collect_candidate candidates ([], [], []) of (ps, ts, es) \<Rightarrow>
           (let scoped = rx_current_conversation cx \<noteq> None \<or> rx_current_thread_id cx \<noteq> None in
            if length ps = 1 \<and> length ts \<le> 1 \<and> scoped
            then \<lparr>rr_actor_id = map_option pid_stable_id (case ps of [] \<Rightarrow> None | p # _ \<Rightarrow> Some p),
                  rr_thread_id = (case ts of [] \<Rightarrow> None | t # _ \<Rightarrow> Some t),
                  rr_event_ids = es, rr_ambiguous = False,
                  rr_evidence = utf8 [0x5339, 0x914D, 0x5230, 0x552F, 0x4E00, 0x5019, 0x9009,
                      0xFF08] @ decimal (length candidates) @ utf8 [0x4E2A, 0x8BC1, 0x636E, 0xFF09]\<rparr>
            else \<lparr>rr_actor_id = None, rr_thread_id = None, rr_event_ids = es, rr_ambiguous = True,
                  rr_evidence = utf8 [0x5339, 0x914D,
                      0x5230] @ '' '' @ decimal (length candidates) @ '' '' @ utf8 [0x4E2A, 0x5019, 0x9009,
                      0xFF08]
                    @ decimal (length ps) @ '' '' @ utf8 [0x4E2A, 0x53C2, 0x4E0E, 0x8005, 0xFF0C] @ decimal (length ts)
                    @ '' '' @ utf8 [0x4E2A, 0x7EBF, 0x7A0B, 0xFF09, 0xFF0C,
                        0x9700] @ '' Owner '' @ utf8 [0x6F84, 0x6E05]\<rparr>)))"

definition validate_attribute :: "participant_attribute \<Rightarrow> (retriever_error, unit) result" where
  "validate_attribute a =
     bind_r (ensure (\<not> max_attribute_value_chars < char_count (pa_value a))
               (RetrieverInvalidData (''ParticipantAttribute '' @ participant_attribute_kind_str (pa_kind a)
                  @ '' value exceeds '' @ decimal max_attribute_value_chars @ '' chars''))) (\<lambda>_.
     bind_r (ensure (\<not> max_relation_sources < length (pa_source_event_ids a))
               (RetrieverInvalidData (''ParticipantAttribute '' @ participant_attribute_kind_str (pa_kind a)
                  @ '' source_event_ids exceeds '' @ decimal max_relation_sources))) (\<lambda>_.
       ensure (\<not> (pa_confirmed a \<and> pa_source_event_ids a = [] \<and> pa_directory_snapshot_id a = None))
         (RetrieverInvalidData (''confirmed ParticipantAttribute '' @ participant_attribute_kind_str (pa_kind a)
            @ '' lacks any source''))))"

definition validate_attributes :: "participant_attribute list \<Rightarrow> (retriever_error, unit) result" where
  "validate_attributes attributes = all_ok validate_attribute attributes"

definition too_many :: "string \<Rightarrow> 'a list \<Rightarrow> nat \<Rightarrow> (retriever_error, unit) result" where
  "too_many field xs limit =
     ensure (\<not> limit < length xs) (RetrieverInvalidData (field @ '' exceeds '' @ decimal limit))"

definition validate_participant_context :: "participant_context_view \<Rightarrow> (retriever_error, unit) result" where
  "validate_participant_context v =
     bind_r (too_many ''ParticipantContextView.aliases'' (pcv_aliases v) max_participant_aliases) (\<lambda>_.
     bind_r (all_ok (\<lambda>x. ensure (\<not> max_attribute_value_chars < char_count x)
               (RetrieverInvalidData (''alias exceeds '' @ decimal max_attribute_value_chars @ '' chars'')))
               (pcv_aliases v)) (\<lambda>_.
     bind_r (too_many ''ParticipantContextView.attributes'' (pcv_attributes v) max_participant_attributes) (\<lambda>_.
     bind_r (too_many ''ParticipantContextView.related_event_ids'' (pcv_related_event_ids v)
               max_related_event_refs) (\<lambda>_.
     bind_r (ensure (\<not> (case pcv_display_name v of Some d \<Rightarrow> max_attribute_value_chars < char_count d | None \<Rightarrow> False))
               (RetrieverInvalidData ''display_name too long'')) (\<lambda>_.
     bind_r (ensure (\<not> (case pcv_group_card v of Some d \<Rightarrow> max_attribute_value_chars < char_count d | None \<Rightarrow> False))
               (RetrieverInvalidData ''group_card too long'')) (\<lambda>_.
       validate_attributes (pcv_attributes v)))))))"

definition check_participant_permission_boundary :: "participant_context_view \<Rightarrow> string list" where
  "check_participant_permission_boundary v =
     (let i = asp_identity (pcv_participant v);
          allowed = (pid_platform_kind i = PlatformOwner \<and> pid_trust i = VerifiedIdentity) in
      map (\<lambda>a. ''permission attribute '' @ take_chars 80 (pa_value a) @ '' is not backed by verified owner binding'')
        (filter (\<lambda>a. pa_kind a = AttrPermission \<and> \<not> allowed) (pcv_attributes v)))"

definition validate_causal_context :: "event_causal_context_view \<Rightarrow> (retriever_error, unit) result" where
  "validate_causal_context v =
     bind_r (too_many ''EventCausalContextView.mentioned'' (ecv_mentioned v) max_causal_mentioned) (\<lambda>_.
     bind_r (too_many ''EventCausalContextView.participants'' (ecv_participants v) max_causal_participants) (\<lambda>_.
     bind_r (too_many ''EventCausalContextView.relations'' (ecv_relations v) max_causal_relations) (\<lambda>_.
     bind_r (too_many ''EventCausalContextView.source_refs'' (ecv_source_refs v) max_causal_source_refs) (\<lambda>_.
       all_ok (\<lambda>r. too_many (''EventRelation '' @ event_relation_kind_str (er_kind r) @ '' source_event_ids'')
                      (er_source_event_ids r) max_relation_sources) (ecv_relations v)))))"

definition is_role_kind :: "event_relation_kind \<Rightarrow> bool" where
  "is_role_kind k \<longleftrightarrow> k = RequestedBy \<or> k = AssignedTo \<or> k = PromisedBy \<or> k = Benefits"

definition confirmed_roles :: "event_causal_context_view \<Rightarrow> event_relation list" where
  "confirmed_roles v = filter (\<lambda>r. er_confirmed r \<and> is_role_kind (er_kind r)) (ecv_relations v)"

definition role_lists ::
  "event_causal_context_view \<Rightarrow> (string \<times> account_scoped_participant_ref list \<times> event_relation_kind) list" where
  "role_lists v =
     [(''requesters'', ecv_requesters v, RequestedBy), (''assignees'', ecv_assignees v, AssignedTo),
      (''promisors'', ecv_promisors v, PromisedBy), (''beneficiaries'', ecv_beneficiaries v, Benefits)]"

definition role_supported ::
  "event_relation list \<Rightarrow> event_relation_kind \<Rightarrow> account_scoped_participant_ref \<Rightarrow> bool" where
  "role_supported roles kind p \<longleftrightarrow>
     list_ex (\<lambda>r. er_kind r = kind \<and> asp_account (er_subject r) = asp_account p
                  \<and> asp_stable_id (er_subject r) = asp_stable_id p) roles"

definition check_causal_role_strictness :: "event_causal_context_view \<Rightarrow> string list" where
  "check_causal_role_strictness v =
     (let roles = confirmed_roles v in
      concat (map (\<lambda>(list_name, ps, kind).
          map (\<lambda>p. list_name @ '' contains '' @ asp_stable_id p @ '' without a confirmed ''
                   @ event_relation_kind_str kind @ '' relation'')
            (filter (\<lambda>p. \<not> role_supported roles kind p) ps)) (role_lists v))
      @ map (\<lambda>r. ''confirmed '' @ event_relation_kind_str (er_kind r) @ '' relation lacks a readable source ref'')
          (filter (\<lambda>r. er_source_event_ids r = []
                       \<or> \<not> list_ex (\<lambda>i. i \<in> set (ecv_source_refs v)) (er_source_event_ids r)) roles))"

definition grants_owner_authority :: "platform_identity_kind \<Rightarrow> identity_trust \<Rightarrow> group_role \<Rightarrow> bool" where
  "grants_owner_authority kind trust role \<longleftrightarrow> kind = PlatformOwner \<and> trust = VerifiedIdentity"

end
