(* ===== verification/Action_Graph.thy ===== *)
theory Action_Graph
  imports Owner_Response Graph_Runtime Retriever
begin

text \<open>
  The action graph of the secretary
  (\<open>personal-secretary/src/application/action_graph/nodes.rs\<close>, \<open>mod.rs\<close>, \<open>port.rs\<close>): the nodes that
  plan, execute, decide on another round and build the response, the router, and the assembly of
  the graph on the runtime of \<open>agent-core\<close>. The planner, the retriever, the memory and the effect
  executor are ports: each answers with a future (a \<open>program\<close>) that may depend on the tick of the
  call, an error as its rendered text; \<open>Uuid::new_v4\<close> is a supply indexed by the tick.
\<close>

section \<open>The gate\<close>

type_synonym secretary_node_result =
  "(secretary_update, secretary_action_effect, secretary_approval_request) node_result"

definition no_usage :: usage_delta where "no_usage = \<lparr>delta_tokens = 0\<rparr>"

definition node_result_new :: "'u agent_update list \<Rightarrow> ('u, 'e, 'sd) node_result" where
  "node_result_new updates = Continue updates [] no_usage"

definition node_result_empty :: "('u, 'e, 'sd) node_result" where
  "node_result_empty = Continue [] [] no_usage"

definition gate_secretary_action ::
  "secretary_action_proposal \<Rightarrow> (secretary_agent_runtime_error, secretary_node_result) result" where
  "gate_secretary_action p =
     bind_r (validate_action_proposal p) (\<lambda>_.
       let policy = action_policy p; update = BusinessUpdate (ProposalAccepted p) in
       if is_clarification (ap_action p)
       then Ok (Suspend [update] [] no_usage
                  \<lparr>sus_reason = ExternalInput, sus_data = approval_request p policy\<rparr>)
       else if tp_requires_confirmation policy
       then Ok (Suspend [update] [] no_usage
                  \<lparr>sus_reason = Approval, sus_data = approval_request p policy\<rparr>)
       else Ok (Continue [update] [\<lparr>ae_proposal = p\<rparr>] no_usage))"

section \<open>Context and ports\<close>

record action_run_context =
  arc_account :: source_account_ref
  arc_command_source_event_id :: source_event_id
  arc_command_text :: string
  arc_conversation_id :: string
  arc_occurred_at :: i64
  arc_timezone_offset_secs :: i64
  arc_timezone :: string
  arc_now :: i64
  arc_lease_token :: string
  arc_is_local_loopback :: bool

record retriever_port =
  rp_search_events :: "nat \<Rightarrow> event_query \<Rightarrow> bool \<Rightarrow> (string, event_search_result list) result program"
  rp_recent_views :: "nat \<Rightarrow> source_account_ref \<Rightarrow> nat \<Rightarrow> bool \<Rightarrow> (string, agent_event_view list) result program"

type_synonym planner_port = "nat \<Rightarrow> planner_input \<Rightarrow> (planner_error, planner_output) result program"

text \<open>\<open>MemoryUseCase::evidence(fact_id, max_excerpt_chars)\<close>\<close>

type_synonym memory_port = "nat \<Rightarrow> memory_fact_id \<Rightarrow> u32 \<Rightarrow> (string, memory_fact_view option) result program"

record action_env =
  en_json :: json_ops
  en_tz_known :: "string \<Rightarrow> bool"
  en_uuid :: "nat \<Rightarrow> string"
  en_planner :: planner_port
  en_retriever :: "retriever_port option"
  en_memory :: "memory_port option"
  en_context :: action_run_context

text \<open>\<open>.await\<close> inside a node: the rest of the node runs on the answer of the port.\<close>

primrec await :: "'a program \<Rightarrow> ('a \<Rightarrow> 'b program) \<Rightarrow> 'b program" where
  "await (Done a) f = f a"
| "await (Yield p) f = Yield (await p f)"
| "await (Budget c g) f = Budget c (\<lambda>r. await (g r) f)"
| "await (ReadUsage g) f = ReadUsage (\<lambda>u. await (g u) f)"

text \<open>\<open>.await.map_err(..)?\<close>\<close>

definition await_or :: "('e \<Rightarrow> 'f) \<Rightarrow> ('e, 'a) result program \<Rightarrow> ('a \<Rightarrow> ('f, 'b) result program) \<Rightarrow> ('f, 'b) result program" where
  "await_or err p f =
     await p (\<lambda>r. case map_err err r of Ok a \<Rightarrow> f a | Err e \<Rightarrow> Done (Err e) | Panic \<Rightarrow> Done Panic)"

definition invariant_error :: "string \<Rightarrow> node_error" where
  "invariant_error m = node_error_new KInvariant m"

definition transient_error :: "string \<Rightarrow> node_error" where
  "transient_error m = node_error_new KTransient m"

primrec identity_error_display :: "inbound_identity_error \<Rightarrow> string" where
  "identity_error_display (EmptyField f) = f @ '' must not be empty''"
| "identity_error_display (NegativeTimestamp t) =
     ''occurred_at_unix_secs must not be negative, got '' @
     (if t < 0 then ''-'' @ decimal (nat (- t)) else decimal (nat t))"
| "identity_error_display (InvalidInbound s) = ''invalid inbound value: '' @ s"

section \<open>The plan node\<close>

definition initial_query :: "action_run_context \<Rightarrow> event_query" where
  "initial_query cx =
     \<lparr>eq_account = arc_account cx, eq_conversation = None, eq_actor_id = None, eq_thread_id = None,
      eq_since = None, eq_until = None, eq_query_text = Some (arc_command_text cx), eq_limit = 20\<rparr>"

definition to_excerpt :: "event_search_result \<Rightarrow> planner_retrieved_excerpt" where
  "to_excerpt r =
     \<lparr>pre_source_event_id = res_source_event_id r, pre_excerpt = res_excerpt r,
      pre_occurred_at = res_occurred_at r, pre_actor_id = actor_id (res_actor r),
      pre_actor_kind = actor_kind (res_actor r)\<rparr>"

definition retrieve_for_plan ::
  "action_env \<Rightarrow> nat \<Rightarrow> (planner_retrieved_excerpt list \<Rightarrow> agent_event_view list \<Rightarrow> (node_error, 'a) result program) \<Rightarrow>
     (node_error, 'a) result program" where
  "retrieve_for_plan en k f =
     (case en_retriever en of
        None \<Rightarrow> f [] []
      | Some rp \<Rightarrow>
          await_or transient_error
            (rp_search_events rp k (initial_query (en_context en)) (arc_is_local_loopback (en_context en))) (\<lambda>hits.
          await_or transient_error
            (rp_recent_views rp k (arc_account (en_context en)) max_recent_event_views
               (arc_is_local_loopback (en_context en))) (\<lambda>views.
            f (map to_excerpt hits) views)))"

definition plan_input ::
  "action_run_context \<Rightarrow> secretary_state \<Rightarrow> planner_retrieved_excerpt list \<Rightarrow> agent_event_view list \<Rightarrow>
     (node_error, planner_input) result" where
  "plan_input cx s retrieved views =
     (let round = ss_replan_round s; spent = min round max_replan_rounds in
      bind_r (map_err (\<lambda>e. invariant_error (identity_error_display e))
                (conversation_ref_new OwnerControl (arc_conversation_id cx))) (\<lambda>conv.
        Ok \<lparr>pi_account = arc_account cx,
            pi_command = \<lparr>pce_source_event_id = arc_command_source_event_id cx, pce_conversation = conv,
              pce_occurred_at = arc_occurred_at cx, pce_normalized_text = arc_command_text cx\<rparr>,
            pi_recent_events = ss_recent_events s, pi_recent_event_views = views,
            pi_timezone_offset_secs = arc_timezone_offset_secs cx, pi_timezone = arc_timezone cx,
            pi_now = arc_now cx, pi_retrieved = retrieved,
            pi_observations = ss_planning_observations s,
            pi_working_context = map_option working_context_project (ss_working_context s),
            pi_replan_round = round, pi_remaining_query_budget = max_replan_rounds - spent\<rparr>))"

text \<open>The guards on a proposal: evidence of the command for every write, nothing but a
  clarification while a reference is open, and the white list after a memory conflict.\<close>

definition has_open_references :: "secretary_state \<Rightarrow> bool" where
  "has_open_references s \<longleftrightarrow>
     (case ss_working_context s of None \<Rightarrow> False | Some w \<Rightarrow> wc_open_references w \<noteq> [])"

definition has_conflict :: "secretary_state \<Rightarrow> bool" where
  "has_conflict s \<longleftrightarrow> (case ss_working_context s of None \<Rightarrow> False | Some w \<Rightarrow> wc_conflict w \<noteq> None)"

definition proposal_guards ::
  "action_run_context \<Rightarrow> secretary_state \<Rightarrow> secretary_action_proposal \<Rightarrow> (node_error, unit) result" where
  "proposal_guards cx s p =
     bind_r (ensure (\<not> (L0ReadOnly < tp_risk (action_policy p)
                \<and> arc_command_source_event_id cx \<notin> set (ap_source_event_ids p)))
              (invariant_error (planner_error_display (InvalidPlannerOutput
                (tool_kind_debug (action_kind (ap_action p)) @ '' '' @ utf8 [0x5199, 0x52A8,
                    0x4F5C, 0x7F3A, 0x5C11, 0x672C, 0x8F6E] @ '' OwnerCommand '' @ utf8 [0x8BC1,
                    0x636E]))))) (\<lambda>_.
     bind_r (ensure (\<not> (has_open_references s \<and> \<not> is_clarification (ap_action p)))
              (invariant_error (planner_error_display (DisallowedAction
                (utf8 [0x5B58, 0x5728, 0x672A, 0x89E3, 0x51B3, 0x6307, 0x4EE3, 0x65F6, 0x53EA,
                    0x80FD, 0x8BF7, 0x6C42] @ '' Owner '' @ utf8 [0x6F84, 0x6E05]))))) (\<lambda>_.
       ensure (\<not> (has_conflict s \<and> \<not> is_allowed_after_memory_conflict (ap_action p)))
         (invariant_error (planner_error_display (DisallowedAction
           (tool_kind_debug (action_kind (ap_action p)) @ '' '' @ utf8 [0x5728, 0x8BB0, 0x5FC6,
               0x5019, 0x9009, 0x51B2, 0x7A81, 0x8F6E, 0x6B21, 0x4E0D, 0x5141, 0x8BB8, 0x6267,
               0x884C]))))))"

definition prepend_update :: "'u agent_update \<Rightarrow> ('u, 'e, 'sd) node_result \<Rightarrow> ('u, 'e, 'sd) node_result" where
  "prepend_update u r =
     (case r of
        Continue updates effects usage \<Rightarrow> Continue (u # updates) effects usage
      | Suspend updates effects usage request \<Rightarrow> Suspend (u # updates) effects usage request)"

definition clarification_rationale :: string where
  "clarification_rationale = ''Planner '' @ utf8 [0x8BF7, 0x6C42] @ '' Owner '' @ utf8 [0x6F84,
      0x6E05]"

definition plan_result ::
  "string \<Rightarrow> secretary_update agent_update \<Rightarrow> planner_output \<Rightarrow> (node_error, secretary_node_result) result" where
  "plan_result uuid working out =
     (case out of
        PlanNoAction reason \<Rightarrow> Ok (node_result_new [working, SetOutcome (OutcomeRespond reason)])
      | PlanClarification question evidence \<Rightarrow>
          bind_r (map_err (\<lambda>e. invariant_error (runtime_error_display e))
                    (action_proposal_new uuid (AskOwnerClarification question) clarification_rationale evidence None)) (\<lambda>p.
          bind_r (map_err (\<lambda>e. invariant_error (runtime_error_display e)) (gate_secretary_action p)) (\<lambda>r.
            Ok (prepend_update working r)))
      | PlanProposal p \<Rightarrow>
          bind_r (map_err (\<lambda>e. invariant_error (runtime_error_display e)) (gate_secretary_action p)) (\<lambda>r.
            Ok (prepend_update working r)))"

definition after_plan ::
  "action_run_context \<Rightarrow> secretary_state \<Rightarrow> string \<Rightarrow> source_event_id list \<Rightarrow> planner_output \<Rightarrow>
     (node_error, secretary_node_result) result" where
  "after_plan cx s uuid evidence out =
     bind_r (map_err (\<lambda>e. invariant_error (planner_error_display e)) (validate_planner_output out)) (\<lambda>_.
     bind_r (case out of PlanProposal p \<Rightarrow> proposal_guards cx s p | _ \<Rightarrow> Ok ()) (\<lambda>_.
     bind_r (map_err (\<lambda>e. invariant_error (identity_error_display e))
               (conversation_ref_new OwnerControl (arc_conversation_id cx))) (\<lambda>conv.
       plan_result uuid
         (BusinessUpdate (WorkingContextChanged (InitialRetrieval evidence [conv] InitialOwnerCommand))) out)))"

definition plan_node ::
  "action_env \<Rightarrow> (secretary_state, secretary_update, secretary_action_effect, secretary_approval_request) node_body" where
  "plan_node en st ctx k =
     retrieve_for_plan en k (\<lambda>retrieved views.
       (case plan_input (en_context en) (business st) retrieved views of
          Err e \<Rightarrow> Done (Err e)
        | Panic \<Rightarrow> Done Panic
        | Ok inp \<Rightarrow>
            (case validate_planner_input (en_tz_known en) inp of
               Err e \<Rightarrow> Done (Err (invariant_error (planner_error_display e)))
             | Panic \<Rightarrow> Done Panic
             | Ok _ \<Rightarrow>
                 await_or (\<lambda>e. transient_error (planner_error_display e)) (en_planner en k inp) (\<lambda>out.
                   Done (after_plan (en_context en) (business st) (en_uuid en k)
                           (map pre_source_event_id retrieved) out)))))"

section \<open>The execution node\<close>

definition l0_execute_node ::
  "(secretary_state, secretary_update, secretary_action_effect, secretary_approval_request) node_body" where
  "l0_execute_node st ctx k =
     Done (Ok (case (ss_phase (business st), ss_pending_proposal (business st)) of
                 (Execute, Some p) \<Rightarrow> Continue [] [\<lparr>ae_proposal = p\<rparr>] no_usage
               | _ \<Rightarrow> node_result_empty))"

section \<open>The response node\<close>

definition dedup :: "'a list \<Rightarrow> 'a list" where
  "dedup xs = append_unique [] xs"

definition query_summary :: "query_effect_result \<Rightarrow> string" where
  "query_summary q = utf8 [0x67E5, 0x8BE2, 0x5B8C, 0x6210, 0xFF1A] @ take_chars 500 (qer_summary q)"

definition receipt_draft ::
  "json_ops \<Rightarrow> secretary_action_receipt option \<Rightarrow> source_event_id list \<Rightarrow> i64 \<Rightarrow>
     (secretary_agent_runtime_error, owner_response_draft) result" where
  "receipt_draft J receipt sources now =
     (case receipt of
        None \<Rightarrow> build_action_response_draft J None sources now
      | Some r \<Rightarrow>
          (case parse_query_result J (ar_result_ref r) of
             Some q \<Rightarrow> owner_response_draft_new [Summary (query_summary q)]
                         (append_unique sources (qer_source_event_ids q)) now
           | None \<Rightarrow> build_action_response_draft J (Some r) sources now))"

definition first_text :: "owner_response_draft \<Rightarrow> string" where
  "first_text d = (case ord_segments d of [] \<Rightarrow> [] | s # _ \<Rightarrow> segment_text s)"

definition build_response ::
  "action_env \<Rightarrow> secretary_state agent_state \<Rightarrow> (node_error, secretary_node_result) result" where
  "build_response en st =
     (let s = business st; now = arc_now (en_context en) in
      (case outcome st of
         Some out \<Rightarrow>
           (case response_text out of
              None \<Rightarrow> Ok node_result_empty
            | Some body \<Rightarrow>
                bind_r (map_err (\<lambda>e. invariant_error (runtime_error_display e))
                   (owner_response_draft_new [Summary body] (ss_evidence_source_event_ids s) now)) (\<lambda>draft.
                  Ok (node_result_new [BusinessUpdate (ResponseReady draft)])))
       | None \<Rightarrow>
           bind_r (map_err (\<lambda>e. invariant_error (runtime_error_display e))
              (receipt_draft (en_json en) (ss_last_receipt s) (dedup (ss_evidence_source_event_ids s)) now)) (\<lambda>draft.
             Ok (node_result_new [BusinessUpdate (ResponseReady draft),
                                  SetOutcome (OutcomeRespond (first_text draft))]))))"

definition build_response_node ::
  "action_env \<Rightarrow> (secretary_state, secretary_update, secretary_action_effect, secretary_approval_request) node_body" where
  "build_response_node en st ctx k = Done (build_response en st)"

definition no_action_node ::
  "(secretary_state, secretary_update, secretary_action_effect, secretary_approval_request) node_body" where
  "no_action_node st ctx k = Done (Ok node_result_empty)"

section \<open>Reading back a memory conflict\<close>

definition summarize_memory_payload :: "memory_payload \<Rightarrow> nat \<Rightarrow> string" where
  "summarize_memory_payload payload n =
     take_chars n
       (case payload of
          PersonPayload p \<Rightarrow>
            (case pm_relationship p of
               Some r \<Rightarrow> utf8 [0x4EBA, 0x7269, 0x8BB0, 0x5FC6, 0xFF08, 0x5173, 0x7CFB,
                   0xFF1A] @ r @ utf8 [0xFF09]
             | None \<Rightarrow> utf8 [0x4EBA, 0x7269, 0x8BB0, 0x5FC6])
        | ProjectPayload p \<Rightarrow> utf8 [0x9879, 0x76EE, 0x8BB0, 0x5FC6, 0xFF08, 0x76EE,
            0x6807, 0xFF1A] @ pj_goal p @ utf8 [0xFF09]
        | CommitmentPayload c \<Rightarrow> utf8 [0x627F, 0x8BFA, 0x8BB0, 0x5FC6, 0xFF08, 0x884C,
            0x52A8, 0xFF1A] @ cm_action c @ utf8 [0xFF09])"

text \<open>\<open>fallback\<close>: the second construction ends in \<open>expect(..)\<close>.\<close>

definition conflict_fallback ::
  "memory_candidate_conflict_result \<Rightarrow> memory_conflict_reason_code \<Rightarrow> string \<Rightarrow>
     (node_error, memory_conflict_context) result" where
  "conflict_fallback c reason summary =
     (case conflict_invalid (mcr_candidate_id c) (mcr_fact_id c) reason summary of
        Ok x \<Rightarrow> Ok x
      | _ \<Rightarrow>
          (case conflict_invalid (mcr_candidate_id c) (mcr_fact_id c) ReReadFailed
              (utf8 [0x8BB0, 0x5FC6, 0x5019, 0x9009, 0x4E0E, 0x73B0, 0x884C, 0x8BB0, 0x5FC6,
                  0x5B58, 0x5728, 0x51B2, 0x7A81, 0xFF0C, 0x6765, 0x6E90, 0x4FE1, 0x606F, 0x6682,
                  0x4E0D, 0x53EF, 0x7528, 0xFF0C, 0x8BF7, 0x4EBA, 0x5DE5, 0x590D, 0x6838,
                  0x3002]) of
             Ok x \<Rightarrow> Ok x
           | _ \<Rightarrow> Panic))"

definition re_read_view ::
  "action_run_context \<Rightarrow> memory_candidate_conflict_result \<Rightarrow> memory_fact_view \<Rightarrow>
     (node_error, memory_conflict_context) result" where
  "re_read_view cx c view =
     (let f = mfv_fact view in
      if mf_account f \<noteq> arc_account cx
      then conflict_fallback c ReReadAccountMismatch
        (utf8 [0x8BB0, 0x5FC6, 0x5019, 0x9009, 0x4E0E, 0x73B0, 0x884C, 0x8BB0, 0x5FC6, 0x5B58,
            0x5728, 0x51B2, 0x7A81, 0xFF0C, 0x4F46, 0x73B0, 0x884C, 0x8BB0, 0x5FC6, 0x4E0D,
            0x5C5E, 0x4E8E, 0x5F53, 0x524D, 0x8D26, 0x53F7, 0xFF0C, 0x8BF7, 0x4EBA, 0x5DE5,
            0x590D, 0x6838, 0x3002])
      else if mf_status f \<noteq> FactConfirmed
      then conflict_fallback c ReReadSourcesInvalidated
        (utf8 [0x8BB0, 0x5FC6, 0x5019, 0x9009, 0x4E0E, 0x73B0, 0x884C, 0x8BB0, 0x5FC6, 0x5B58,
            0x5728, 0x51B2, 0x7A81, 0xFF0C, 0x4F46, 0x73B0, 0x884C, 0x8BB0, 0x5FC6, 0x5DF2,
            0x5931, 0x6548, 0xFF0C, 0x8BF7, 0x4EBA, 0x5DE5, 0x590D, 0x6838, 0x3002])
      else if \<not> (mf_source_event_ids f \<noteq> []
                \<and> list_all (\<lambda>i. list_ex (\<lambda>src. mse_source_event_id src = i) (mfv_sources view)) (mf_source_event_ids f))
      then conflict_fallback c ReReadSourcesInvalidated
        (utf8 [0x8BB0, 0x5FC6, 0x5019, 0x9009, 0x4E0E, 0x73B0, 0x884C, 0x8BB0, 0x5FC6, 0x5B58,
            0x5728, 0x51B2, 0x7A81, 0xFF0C, 0x4F46, 0x73B0, 0x884C, 0x8BB0, 0x5FC6, 0x7684,
            0x90E8, 0x5206, 0x6765, 0x6E90, 0x5DF2, 0x5931, 0x6548, 0x6216, 0x4E0D, 0x518D,
            0x5141, 0x8BB8, 0x957F, 0x671F, 0x8BB0, 0x5FC6, 0xFF0C, 0x8BF7, 0x4EBA, 0x5DE5,
            0x590D, 0x6838, 0x3002])
      else if \<not> arc_is_local_loopback cx \<and> list_ex (\<lambda>src. mse_trust_level src = LocalOnly) (mfv_sources view)
      then conflict_fallback c ReReadSourcesInvalidated
        (utf8 [0x8BB0, 0x5FC6, 0x5019, 0x9009, 0x4E0E, 0x73B0, 0x884C, 0x8BB0, 0x5FC6, 0x5B58,
            0x5728, 0x51B2, 0x7A81, 0xFF0C, 0x4F46, 0x73B0, 0x884C, 0x8BB0, 0x5FC6, 0x4EC5,
            0x5141, 0x8BB8, 0x672C, 0x5730, 0x6A21, 0x578B, 0x8BFB, 0x53D6, 0xFF0C, 0x8BF7,
            0x4EBA, 0x5DE5, 0x590D, 0x6838, 0x3002])
      else (case conflict_valid (mcr_candidate_id c) (mcr_fact_id c) (memory_payload_kind (mf_payload f))
                  (mcr_reason_code c) (mcr_summary c) (mf_source_event_ids f)
                  (summarize_memory_payload (mf_payload f) 500) of
              Ok x \<Rightarrow> Ok x
            | _ \<Rightarrow> conflict_fallback c ReReadSourcesInvalidated
                (utf8 [0x8BB0, 0x5FC6, 0x5019, 0x9009, 0x4E0E, 0x73B0, 0x884C, 0x8BB0, 0x5FC6,
                    0x5B58, 0x5728, 0x51B2, 0x7A81, 0xFF0C, 0x4F46, 0x56DE, 0x8BFB, 0x7ED3,
                    0x679C, 0x4E0D, 0x53EF, 0x7528, 0xFF0C, 0x8BF7, 0x4EBA, 0x5DE5, 0x590D,
                    0x6838, 0x3002])))"

definition re_read_conflict ::
  "action_env \<Rightarrow> nat \<Rightarrow> memory_candidate_conflict_result \<Rightarrow> (node_error, memory_conflict_context) result program" where
  "re_read_conflict en k c =
     (case en_memory en of
        None \<Rightarrow> Done (conflict_fallback c ReReadFailed
          (utf8 [0x8BB0, 0x5FC6, 0x5019, 0x9009, 0x4E0E, 0x73B0, 0x884C, 0x8BB0, 0x5FC6, 0x5B58,
              0x5728, 0x51B2, 0x7A81, 0xFF0C, 0x4F46, 0x56DE, 0x8BFB, 0x80FD, 0x529B, 0x672A,
              0x914D, 0x7F6E, 0xFF0C, 0x8BF7, 0x4EBA, 0x5DE5, 0x590D, 0x6838, 0x3002]))
      | Some evidence \<Rightarrow>
          await (evidence k (mcr_fact_id c) 800) (\<lambda>r.
            Done (case r of
                Ok (Some view) \<Rightarrow> re_read_view (en_context en) c view
              | Ok None \<Rightarrow> conflict_fallback c ReReadSourcesInvalidated
                  (utf8 [0x8BB0, 0x5FC6, 0x5019, 0x9009, 0x4E0E, 0x73B0, 0x884C, 0x8BB0, 0x5FC6,
                      0x5B58, 0x5728, 0x51B2, 0x7A81, 0xFF0C, 0x4F46, 0x73B0, 0x884C, 0x4E8B,
                      0x5B9E, 0x5DF2, 0x4E0D, 0x5B58, 0x5728, 0x6216, 0x4E0D, 0x53EF, 0x89C1,
                      0xFF0C, 0x8BF7, 0x4EBA, 0x5DE5, 0x590D, 0x6838, 0x3002])
              | Err _ \<Rightarrow> conflict_fallback c ReReadFailed
                  (utf8 [0x8BB0, 0x5FC6, 0x5019, 0x9009, 0x4E0E, 0x73B0, 0x884C, 0x8BB0, 0x5FC6,
                      0x5B58, 0x5728, 0x51B2, 0x7A81, 0xFF0C, 0x4F46, 0x56DE, 0x8BFB, 0x73B0,
                      0x884C, 0x4E8B, 0x5B9E, 0x5931, 0x8D25, 0xFF0C, 0x8BF7, 0x7A0D, 0x540E,
                      0x91CD, 0x8BD5, 0x3002])
              | Panic \<Rightarrow> Panic)))"

section \<open>The replan node and the router\<close>

definition receipt_conflict :: "json_ops \<Rightarrow> secretary_action_receipt \<Rightarrow> memory_candidate_conflict_result option" where
  "receipt_conflict J r =
     (if ar_tool_kind r = Some ApproveMemoryCandidateTool
      then (case parse_conflict_result J (ar_result_ref r) of
              Some c \<Rightarrow> if mcr_version c = 1 then Some c else None
            | None \<Rightarrow> None)
      else None)"

definition conflict_recorded :: "secretary_state \<Rightarrow> memory_candidate_conflict_result \<Rightarrow> bool" where
  "conflict_recorded s c \<longleftrightarrow>
     (case ss_working_context s of
        None \<Rightarrow> False
      | Some w \<Rightarrow> (case wc_conflict w of
          None \<Rightarrow> False | Some x \<Rightarrow> mcc_candidate_id x = mcr_candidate_id c))"

definition ambiguous_reference :: "source_event_id list \<Rightarrow> open_reference" where
  "ambiguous_reference ids =
     \<lparr>or_kind = AmbiguousReference, or_label = utf8 [0x5B58, 0x5728, 0x672A, 0x89E3,
         0x51B3, 0x7684, 0x6307, 0x4EE3], or_source_event_ids = ids,
      or_reason = utf8 [0x6307, 0x4EE3, 0x89E3, 0x6790, 0x5B58, 0x5728, 0x591A, 0x4E2A, 0x5019,
          0x9009, 0xFF0C, 0x9700, 0x8981] @ '' Owner '' @ utf8 [0x6F84, 0x6E05]\<rparr>"

definition observation_updates :: "planner_tool_observation \<Rightarrow> secretary_update agent_update list" where
  "observation_updates ob =
     [BusinessUpdate (ObservationAppended ob),
      BusinessUpdate (WorkingContextChanged (ReplanEvidence (pto_source_event_ids ob) []
        (map (\<lambda>te. \<lparr>pr_platform_kind = qte_actor_kind te, pr_stable_id = qte_actor_id te\<rparr>) (pto_typed_events ob))
        [] (if pto_ambiguous ob then [ambiguous_reference (pto_source_event_ids ob)] else [])))]"

text \<open>The observation a receipt of a query tool carries, if it parses and agrees with itself.\<close>

definition receipt_observation :: "json_ops \<Rightarrow> secretary_action_receipt \<Rightarrow> planner_tool_observation option" where
  "receipt_observation J r =
     (case ar_tool_kind r of
        None \<Rightarrow> None
      | Some k \<Rightarrow>
          if \<not> is_replan_observation_tool k then None
          else (case parse_query_result J (ar_result_ref r) of
                  None \<Rightarrow> None
                | Some q \<Rightarrow>
                    if qer_version q \<noteq> 1 then None
                    else if qer_tool_kind q \<noteq> k then None
                    else Some (to_observation q (ar_proposal_id r) True)))"

definition replan_decision_node ::
  "action_env \<Rightarrow> (secretary_state, secretary_update, secretary_action_effect, secretary_approval_request) node_body" where
  "replan_decision_node en st ctx k =
     (let s = business st in
      if outcome st \<noteq> None then Done (Ok node_result_empty)
      else (case ss_last_receipt s of
              None \<Rightarrow> Done (Ok node_result_empty)
            | Some r \<Rightarrow>
                (case receipt_conflict (en_json en) r of
                   Some c \<Rightarrow>
                     if conflict_recorded s c then Done (Ok node_result_empty)
                     else await_or id (re_read_conflict en k c) (\<lambda>x.
                            Done (Ok (node_result_new [BusinessUpdate (WorkingContextChanged (ConflictReRead x))])))
                 | None \<Rightarrow>
                     (case receipt_observation (en_json en) r of
                        None \<Rightarrow> Done (Ok node_result_empty)
                      | Some ob \<Rightarrow> Done (Ok (node_result_new (observation_updates ob)))))))"

definition wants_replan :: "json_ops \<Rightarrow> secretary_state agent_state \<Rightarrow> bool" where
  "wants_replan J st \<longleftrightarrow>
     (let s = business st in
      if outcome st \<noteq> None then False
      else (case ss_last_receipt s of
              None \<Rightarrow> False
            | Some r \<Rightarrow>
                (case ar_tool_kind r of
                   None \<Rightarrow> False
                 | Some k \<Rightarrow>
                     (case receipt_conflict J r of
                        Some c \<Rightarrow> conflict_recorded s c
                      | None \<Rightarrow>
                          is_replan_observation_tool k \<and> ss_replan_round s < max_replan_rounds
                          \<and> list_ex (\<lambda>ob. pto_proposal_id ob = ar_proposal_id r) (ss_planning_observations s)))))"

definition replan_router :: "json_ops \<Rightarrow> secretary_state agent_state router" where
  "replan_router J =
     \<lparr>known_routes = [RouteKey ''continue'', RouteKey ''finish''],
      select = (\<lambda>st. Ok (if wants_replan J st then RouteKey ''continue'' else RouteKey ''finish''))\<rparr>"

section \<open>Assembly\<close>

definition unwrap_r :: "('e, 'a) result \<Rightarrow> ('f, 'a) result" where
  "unwrap_r r = (case r of Ok a \<Rightarrow> Ok a | _ \<Rightarrow> Panic)"

type_synonym secretary_graph =
  "((secretary_state, secretary_update, secretary_action_effect, secretary_approval_request) node_body,
    secretary_state agent_state) graph_definition"

type_synonym 'st secretary_runtime =
  "(secretary_state, secretary_update, secretary_action_effect, secretary_action_receipt,
    secretary_approval_request, secretary_resume_input, 'st) graph_runtime"

type_synonym 'st secretary_store =
  "((secretary_state, secretary_action_receipt, secretary_approval_request) agent_checkpoint, 'st) store_ops"

definition action_graph_definition :: "action_env \<Rightarrow> (graph_build_error, secretary_graph) result" where
  "action_graph_definition en =
     bind_r (add_node \<lparr>an_id = NodeId ''plan'', an_execute = plan_node en\<rparr> (graph_new (GraphId ''secretary_action''))) (\<lambda>g.
     bind_r (add_node \<lparr>an_id = NodeId ''l0_execute'', an_execute = l0_execute_node\<rparr> g) (\<lambda>g.
     bind_r (add_node \<lparr>an_id = NodeId ''replan_decision'', an_execute = replan_decision_node en\<rparr> g) (\<lambda>g.
     bind_r (add_node \<lparr>an_id = NodeId ''build_response'', an_execute = build_response_node en\<rparr> g) (\<lambda>g.
     bind_r (unwrap_r (set_transition (NodeId ''plan'') (Goto (NodeId ''l0_execute''))
               (set_entry (NodeId ''plan'') g))) (\<lambda>g.
     bind_r (unwrap_r (set_transition (NodeId ''l0_execute'') (Goto (NodeId ''replan_decision'')) g)) (\<lambda>g.
     bind_r (unwrap_r (set_transition (NodeId ''replan_decision'')
               (Branch (replan_router (en_json en))
                  (bt_insert (RouteKey ''finish'') (NodeId ''build_response'')
                    (bt_insert (RouteKey ''continue'') (NodeId ''plan'') []))) g)) (\<lambda>g.
       unwrap_r (set_transition (NodeId ''build_response'') End g))))))))"

definition build_action_graph ::
  "action_env \<Rightarrow> 'st secretary_store \<Rightarrow> (secretary_action_effect, secretary_action_receipt) executor \<Rightarrow>
     (graph_build_error, 'st secretary_runtime) result" where
  "build_action_graph en ops ex =
     bind_r (action_graph_definition en) (\<lambda>g.
     bind_r (unwrap_r (compile \<lparr>policy_max_steps = 16\<rparr> g)) (\<lambda>c.
       Ok \<lparr>rt_graph = c, rt_executor = Some ex, rt_store = Some ops,
           rt_business = secretary_business (context_json_size (en_json en)),
           rt_receipt_updates = receipt_updates\<rparr>))"

section \<open>Helpers of the module\<close>

definition is_l0_direct_execute :: "secretary_risk_level \<Rightarrow> bool" where
  "is_l0_direct_execute risk \<longleftrightarrow> risk = L0ReadOnly \<or> risk = L1Reversible"

definition backoff_ms :: "u32 \<Rightarrow> u64 \<Rightarrow> u64 \<Rightarrow> u64" where
  "backoff_ms attempt base limit =
     (if attempt = 0 then base
      else (let exponent = min (unat attempt - 1) 10;
                product = unat base * 2 ^ exponent in
            min (if product < 2 ^ 64 then word_of_nat product else - 1) limit))"

end
