(* ===== verification/Effect_Discipline.thy ===== *)
theory Effect_Discipline
  imports Resume_Correct
begin

text \<open>
  A contract between the nodes of a graph and its runtime: in every good state the nodes ask for
  permitted effects only, and leave a good state behind. The runtime turns the contract into a
  statement about a whole run: it never hands an effect that is not permitted to its executor.
  The locale \<open>effect_discipline\<close> states the contract; its conclusion compares two executors that
  agree on the permitted effects.
\<close>

section \<open>What a future can return\<close>

primrec outputs :: "('a \<Rightarrow> bool) \<Rightarrow> 'a program \<Rightarrow> bool" where
  "outputs P (Done a) \<longleftrightarrow> P a"
| "outputs P (Yield p) \<longleftrightarrow> outputs P p"
| "outputs P (Budget c f) \<longleftrightarrow> (\<forall>r. outputs P (f r))"
| "outputs P (ReadUsage f) \<longleftrightarrow> (\<forall>u. outputs P (f u))"

lemma run_program_outputs:
  "outputs P p \<Longrightarrow> run_program w ctx p m = (Output r, m') \<Longrightarrow> P r"
  by (induction p arbitrary: m) (auto simp: Let_def split: if_splits prod.splits)

lemma outputs_mono: "outputs P p \<Longrightarrow> (\<And>a. P a \<Longrightarrow> Q a) \<Longrightarrow> outputs Q p"
  by (induction p) auto

section \<open>Replacing the executor\<close>

abbreviation with_executor ::
  "('b, 'u, 'e, 'rc, 'sd, 'ri, 'st) graph_runtime \<Rightarrow> ('e, 'rc) executor \<Rightarrow>
     ('b, 'u, 'e, 'rc, 'sd, 'ri, 'st) graph_runtime" where
  "with_executor rt ex \<equiv> rt\<lparr>rt_executor := Some ex\<rparr>"

lemma seq_cong_Ok:
  "(\<And>a t. f s = (Ok a, t) \<Longrightarrow> g a t = g' a t) \<Longrightarrow> seq f g s = seq f g' s"
  by (simp add: seq_def split: prod.splits result.splits)

lemma seq_cong_start: "f s = f' s \<Longrightarrow> seq f g s = seq f' g s"
  by (simp add: seq_def)

lemma run_effects_agree:
  assumes "rt_executor rt = Some ex"
    and "\<And>i e k. e \<in> set effects \<Longrightarrow> ex \<lparr>env_id = i, env_effect = e\<rparr> ctx k = ex' \<lparr>env_id = i, env_effect = e\<rparr> ctx k"
  shows "run_effects rt w ctx step cur k effects acc m =
    run_effects (with_executor rt ex') w ctx step cur k effects acc m"
  using assms(2)
proof (induction effects arbitrary: k acc m)
  case Nil
  then show ?case by simp
next
  case (Cons effect effects)
  obtain candidate completed receipts where acc: "acc = (candidate, completed, receipts)"
    by (cases acc)
  have same: "execute_effect w ctx ex \<lparr>env_id = i, env_effect = effect\<rparr> =
      execute_effect w ctx ex' \<lparr>env_id = i, env_effect = effect\<rparr>" for i
    by (rule ext) (simp add: execute_effect_def Cons.prems)
  have IH: "run_effects rt w ctx step cur j effects a = run_effects (with_executor rt ex') w ctx step cur j effects a"
    for j a
    by (rule ext, rule Cons.IH) (simp add: Cons.prems)
  show ?case
    by (simp add: acc assms(1) Let_def same IH)
qed

lemma make_checkpoint_executor [simp]: "make_checkpoint (with_executor rt ex) = make_checkpoint rt"
  by (intro ext) (simp add: make_checkpoint_def)

lemma save_checkpoint_executor [simp]: "save_checkpoint (with_executor rt ex) = save_checkpoint rt"
  by (intro ext) (simp add: save_checkpoint_def)

primrec result_updates :: "('u, 'e, 'sd) node_result \<Rightarrow> 'u agent_update list" where
  "result_updates (Continue us es d) = us"
| "result_updates (Suspend us es d r) = us"

primrec result_effects :: "('u, 'e, 'sd) node_result \<Rightarrow> 'e list" where
  "result_effects (Continue us es d) = es"
| "result_effects (Suspend us es d r) = es"

text \<open>The parts of a completed node.\<close>

lemma complete_node_parts:
  assumes "complete_node rt w ctx chk ls m = (Ok nc, m')"
  obtains nd res m3 f step candidate c r t where
    "graph_node (rt_graph rt) (ls_current ls) = Some nd"
    "\<forall>P. (\<forall>k. outputs P (an_execute nd (ls_state ls) ctx k)) \<longrightarrow> P (Ok res)"
    "take_apart chk (ls_current ls) res = Ok (result_updates res, result_effects res, c, nc_request nc)"
    "update_or (rt_business rt) f (ls_state ls) (result_updates res) = Ok candidate"
    "run_effects rt w ctx step (ls_current ls) 0 (result_effects res) (candidate, [], []) m3
       = (Ok (nc_state nc, r), m')"
    "graph_transition (rt_graph rt) (ls_current ls) = Some t"
    "choose_next (ls_current ls) t (nc_state nc) = Ok (nc_next nc)"
proof -
  from assms obtain nd res m1 m2 updates effects usage request m3 candidate st c' r' step t f where
    parts: "graph_node (rt_graph rt) (ls_current ls) = Some nd"
      "execute_node w ctx nd (ls_state ls) (ls_current ls) m1 = (Ok res, m2)"
      "take_apart chk (ls_current ls) res = Ok (updates, effects, usage, request)"
      "update_or (rt_business rt) f (ls_state ls) updates = Ok candidate"
      "run_effects rt w ctx step (ls_current ls) 0 effects (candidate, [], []) m3 = (Ok (st, c', r'), m')"
      "graph_transition (rt_graph rt) (ls_current ls) = Some t"
      "choose_next (ls_current ls) t st = Ok (nc_next nc)" "nc_request nc = request" "nc_state nc = st"
    by (auto simp: complete_node_def Let_def result_simps)
  have split: "updates = result_updates res" "effects = result_effects res"
    using parts(3) by (auto simp: take_apart_def split: node_result.splits if_splits)
  obtain k where "run_program w ctx (Yield (an_execute nd (ls_state ls) ctx k)) m1 = (Output (Ok res), m2)"
    using parts(2)
    by (auto simp: execute_node_def select_biased_def result_simps simp del: run_program.simps
        split: prod.splits selected.splits)
  then have "\<forall>P. (\<forall>k. outputs P (an_execute nd (ls_state ls) ctx k)) \<longrightarrow> P (Ok res)"
    by (intro allI impI, rule run_program_outputs [rotated]) simp
  with parts split show ?thesis by (intro that) auto
qed

section \<open>The contract\<close>

text \<open>The updates alone: tame updates, and those of receipts among them, keep a state good.\<close>

locale update_discipline =
  fixes rt :: "('b, 'u, 'e, 'rc, 'sd, 'ri, 'st) graph_runtime"
    and good :: "'b \<Rightarrow> bool"
    and tame :: "'u \<Rightarrow> bool"
  assumes receipt_tame: "BusinessUpdate v \<in> set (rt_receipt_updates rt rc) \<Longrightarrow> tame v"
    and tame_good: "tame v \<Longrightarrow> good b \<Longrightarrow> apply_update (rt_business rt) b v = (Ok (), b') \<Longrightarrow> good b'"
begin

lemma apply_one_good:
  assumes "apply_one (rt_business rt) s u = (Ok (), s')" and "good (business s)"
    and "\<And>v. u = BusinessUpdate v \<Longrightarrow> tame v"
  shows "good (business s')"
  using assms tame_good
  by (cases u) (auto simp: apply_one_def Let_def split: if_splits prod.splits)

lemma apply_all_good:
  "apply_all (rt_business rt) s us = (Ok (), s') \<Longrightarrow> good (business s) \<Longrightarrow>
     (\<And>v. BusinessUpdate v \<in> set us \<Longrightarrow> tame v) \<Longrightarrow> good (business s')"
proof (induction us arbitrary: s)
  case Nil
  then show ?case by simp
next
  case (Cons u us)
  obtain q t where one: "apply_one (rt_business rt) s u = (q, t)" by force
  with Cons.prems(1) have q: "q = Ok ()" and rest: "apply_all (rt_business rt) t us = (Ok (), s')"
    by (auto split: result.splits)
  have "good (business t)"
    by (rule apply_one_good [OF one [unfolded q] Cons.prems(2)]) (simp add: Cons.prems(3))
  with rest show ?case by (rule Cons.IH) (simp add: Cons.prems(3))
qed

lemma update_or_good:
  assumes "update_or (rt_business rt) f s us = Ok s'" and "good (business s)"
    and "\<And>v. BusinessUpdate v \<in> set us \<Longrightarrow> tame v"
  shows "good (business s')"
proof -
  obtain q t where all: "apply_all (rt_business rt) s us = (q, t)" by force
  with assms(1) have "q = Ok ()" "s' = t"
    by (auto simp: update_or_def apply_updates_def Let_def result_simps split: result.splits)
  with all assms(2,3) show ?thesis by (auto intro: apply_all_good)
qed

lemma run_effects_good:
  "run_effects rt w ctx step cur k effects (s, completed, receipts) m = (Ok (s', c', r'), m') \<Longrightarrow>
     good (business s) \<Longrightarrow> good (business s')"
proof (induction effects arbitrary: k s completed receipts m)
  case Nil
  then show ?case by (simp add: give_def)
next
  case (Cons effect effects)
  then obtain ex where "rt_executor rt = Some ex"
    by (auto simp: Let_def lift_r_def split: option.splits if_splits)
  with Cons.prems(1) obtain f val t j c r n where
    upd: "update_or (rt_business rt) f s (rt_receipt_updates rt val) = Ok t"
    and rest: "run_effects rt w ctx step cur j effects (t, c, r) n = (Ok (s', c', r'), m')"
    by (auto simp: Let_def result_simps split: if_splits)
  have "good (business t)"
    using update_or_good [OF upd Cons.prems(2)] receipt_tame by blast
  with rest show ?case by (rule Cons.IH)
qed

end

text \<open>The nodes as well.\<close>

locale effect_discipline = update_discipline rt good tame
  for rt :: "('b, 'u, 'e, 'rc, 'sd, 'ri, 'st) graph_runtime" and good tame +
  fixes permitted :: "'e \<Rightarrow> bool"
  assumes node_effects: "graph_node (rt_graph rt) n = Some nd \<Longrightarrow> good (business st) \<Longrightarrow>
      outputs (\<lambda>r. \<forall>res. r = Ok res \<longrightarrow> list_all permitted (result_effects res)) (an_execute nd st ctx k)"
    and node_updates: "graph_node (rt_graph rt) n = Some nd \<Longrightarrow> good (business st) \<Longrightarrow>
      outputs (\<lambda>r. \<forall>us es d. r = Ok (Continue us es d) \<longrightarrow> (\<forall>v. BusinessUpdate v \<in> set us \<longrightarrow> tame v))
        (an_execute nd st ctx k)"
begin

lemma execute_node_contract:
  assumes "execute_node w ctx nd st cur m = (Ok res, m')"
    and "graph_node (rt_graph rt) n = Some nd" and "good (business st)"
  shows "list_all permitted (result_effects res)"
    and "\<And>us es d v. res = Continue us es d \<Longrightarrow> BusinessUpdate v \<in> set us \<Longrightarrow> tame v"
proof -
  obtain k where run: "run_program w ctx (Yield (an_execute nd st ctx k)) m = (Output (Ok res), m')"
    using assms(1)
    by (auto simp: execute_node_def select_biased_def result_simps simp del: run_program.simps
        split: prod.splits selected.splits)
  have out: "outputs P (an_execute nd st ctx k) \<Longrightarrow> P (Ok res)" for P
    by (rule run_program_outputs [OF _ run]) simp
  show "list_all permitted (result_effects res)"
    using out [OF node_effects [OF assms(2,3)]] by blast
  fix us es d v
  assume "res = Continue us es d" "BusinessUpdate v \<in> set us"
  with out [OF node_updates [OF assms(2,3)]] show "tame v"
    by blast
qed

text \<open>A turn that goes on leaves a good state, and it is the same turn under another executor that
  agrees on the permitted effects.\<close>

lemma complete_node_good:
  assumes "complete_node rt w ctx chk ls m = (Ok nc, m')" and "good (business (ls_state ls))"
    and "nc_request nc = None"
  shows "good (business (nc_state nc))"
proof -
  from assms(1) obtain nd res m3 f step candidate c r t where parts:
    "graph_node (rt_graph rt) (ls_current ls) = Some nd"
    "\<forall>P. (\<forall>k. outputs P (an_execute nd (ls_state ls) ctx k)) \<longrightarrow> P (Ok res)"
    "take_apart chk (ls_current ls) res = Ok (result_updates res, result_effects res, c, nc_request nc)"
    "update_or (rt_business rt) f (ls_state ls) (result_updates res) = Ok candidate"
    "run_effects rt w ctx step (ls_current ls) 0 (result_effects res) (candidate, [], []) m3
       = (Ok (nc_state nc, r), m')"
    "graph_transition (rt_graph rt) (ls_current ls) = Some t"
    "choose_next (ls_current ls) t (nc_state nc) = Ok (nc_next nc)"
    by (rule complete_node_parts)
  obtain us es d where res: "res = Continue us es d"
    using parts(3) assms(3) by (auto simp: take_apart_def split: node_result.splits if_splits)
  have "BusinessUpdate v \<in> set us \<Longrightarrow> tame v" for v
    using parts(2) [rule_format, OF node_updates [OF parts(1) assms(2)]] res by blast
  then have "good (business candidate)"
    using update_or_good [OF parts(4) assms(2)] res by simp
  with parts(5) show ?thesis by (cases r) (auto intro: run_effects_good)
qed

lemma complete_node_agree:
  assumes ex: "rt_executor rt = Some ex"
    and agree: "\<And>env. permitted (env_effect env) \<Longrightarrow> ex env = ex' env"
    and good: "good (business (ls_state ls))"
  shows "complete_node rt w ctx chk ls m = complete_node (with_executor rt ex') w ctx chk ls m"
proof -
  have effects: "run_effects rt w ctx step (ls_current ls) 0 effects acc t
      = run_effects (with_executor rt ex') w ctx step (ls_current ls) 0 effects acc t"
    if nd: "graph_node (rt_graph rt) (ls_current ls) = Some nd"
      and res: "execute_node w ctx nd (ls_state ls) (ls_current ls) m1 = (Ok res, m2)"
      and apart: "take_apart chk (ls_current ls) res = Ok (updates, effects, usage, request)"
    for nd m1 res m2 updates effects usage request step acc t
  proof (rule run_effects_agree [OF ex])
    fix i e k
    assume "e \<in> set effects"
    moreover have "result_effects res = effects"
      using apart by (auto simp: take_apart_def split: node_result.splits if_splits)
    ultimately have "permitted e"
      using execute_node_contract(1) [OF res nd good] by (auto simp: list_all_iff)
    then show "ex \<lparr>env_id = i, env_effect = e\<rparr> ctx k = ex' \<lparr>env_id = i, env_effect = e\<rparr> ctx k"
      using agree [of "\<lparr>env_id = i, env_effect = e\<rparr>"] by simp
  qed
  have same: "rt_max_steps (with_executor rt ex') = rt_max_steps rt"
    "rt_graph (with_executor rt ex') = rt_graph rt" "rt_business (with_executor rt ex') = rt_business rt"
    by (simp_all add: rt_max_steps_def)
  show ?thesis
    unfolding complete_node_def Let_def same
    apply (rule seq_cong_Ok)
    apply (rule seq_cong_Ok)
    apply (rule seq_cong_Ok)
    apply (rule seq_cong_Ok)
    apply (simp only: split_beta)
    apply (rule seq_cong_Ok)
    apply (rule seq_cong_Ok)
    apply (rule seq_cong_Ok)
    apply (rule seq_cong_Ok)
    apply (simp only: lift_r_eq ok_or_inv)
    apply (rule seq_cong_start)
    apply (elim conjE, hypsubst)
    apply (rule effects, assumption, assumption)
    apply (simp add: prod_eq_iff)
    done
qed

lemma turn_agree:
  assumes "rt_executor rt = Some ex"
    and "\<And>env. permitted (env_effect env) \<Longrightarrow> ex env = ex' env"
    and "good (business (ls_state ls))"
  shows "turn rt w ctx chk ls m = turn (with_executor rt ex') w ctx chk ls m"
  using complete_node_agree [OF assms, of w ctx chk m]
  by (simp only: turn_def seq_def map_err_a_def make_checkpoint_executor save_checkpoint_executor)

lemma turn_good:
  assumes "turn rt w ctx chk ls m = (Ok (NextNode ls'), m')" and "good (business (ls_state ls))"
  shows "good (business (ls_state ls'))"
proof -
  obtain nc where "complete_node rt w ctx chk ls m = (Ok nc, m')" "nc_request nc = None"
    "ls_state ls' = nc_state nc"
    by (rule turn_NextNode [OF assms(1)])
  with complete_node_good [of w ctx chk ls m nc m'] assms(2) show ?thesis by simp
qed

theorem execute_from_agree:
  assumes ex: "rt_executor rt = Some ex"
    and agree: "\<And>env. permitted (env_effect env) \<Longrightarrow> ex env = ex' env"
    and "good (business (ls_state ls))"
  shows "execute_from fuel rt w ctx chk ls m = execute_from fuel (with_executor rt ex') w ctx chk ls m"
  using assms(3)
proof (induction fuel arbitrary: ls m)
  case 0
  then show ?case by simp
next
  case (Suc fuel)
  have "execute_from fuel rt w ctx chk ls' t = execute_from fuel (with_executor rt ex') w ctx chk ls' t"
    if "turn rt w ctx chk ls m = (Ok (NextNode ls'), t)" for ls' t
    using Suc.IH turn_good [OF that Suc.prems] by blast
  then show ?case
    using turn_agree [OF ex agree Suc.prems, of w ctx chk m]
    by (simp split: prod.splits result.splits iteration.splits)
qed

end

section \<open>Claiming does not depend on the executor\<close>

lemma claim_checkpoint_executor [simp]:
  "claim_checkpoint (with_executor rt ex') ops w i input m = claim_checkpoint rt ops w i input m"
  by (simp add: claim_checkpoint_def validate_checkpoint_def)

end
