(* ===== verification/Action_Graph_Correct.thy ===== *)
theory Action_Graph_Correct
  imports Action_Graph Effect_Discipline
begin

text \<open>
  The action graph, computed: \<open>build_action_graph\<close> always returns the same compiled graph, and the
  nodes of that graph keep the contract \<open>effect_discipline\<close> with respect to the proposals that
  the owner has approved.
\<close>

section \<open>The graph that is built\<close>

definition action_nodes :: "action_env \<Rightarrow> (node_id, (secretary_state, secretary_update, secretary_action_effect,
     secretary_approval_request) node_body agent_node) btree" where
  "action_nodes en =
     [(NodeId ''build_response'', \<lparr>an_id = NodeId ''build_response'', an_execute = build_response_node en\<rparr>),
      (NodeId ''l0_execute'', \<lparr>an_id = NodeId ''l0_execute'', an_execute = l0_execute_node\<rparr>),
      (NodeId ''plan'', \<lparr>an_id = NodeId ''plan'', an_execute = plan_node en\<rparr>),
      (NodeId ''replan_decision'', \<lparr>an_id = NodeId ''replan_decision'', an_execute = replan_decision_node en\<rparr>)]"

definition action_transitions :: "action_env \<Rightarrow> (node_id, secretary_state agent_state transition_rule) btree" where
  "action_transitions en =
     [(NodeId ''build_response'', End),
      (NodeId ''l0_execute'', Goto (NodeId ''replan_decision'')),
      (NodeId ''plan'', Goto (NodeId ''l0_execute'')),
      (NodeId ''replan_decision'', Branch (replan_router (en_json en))
         [(RouteKey ''continue'', NodeId ''plan''), (RouteKey ''finish'', NodeId ''build_response'')])]"

definition action_graph :: "action_env \<Rightarrow> secretary_graph" where
  "action_graph en =
     \<lparr>g_id = GraphId ''secretary_action'', g_version = version_initial, g_nodes = action_nodes en,
      g_entry = Some (NodeId ''plan''), g_transitions = action_transitions en, g_namespaces = [], g_exits = []\<rparr>"

definition action_runtime ::
  "action_env \<Rightarrow> 'st secretary_store \<Rightarrow> (secretary_action_effect, secretary_action_receipt) executor \<Rightarrow>
     'st secretary_runtime" where
  "action_runtime en ops ex =
     \<lparr>rt_graph = compiled (\<lparr>policy_max_steps = 16\<rparr>) (action_graph en) (NodeId ''plan''),
      rt_executor = Some ex, rt_store = Some ops,
      rt_business = secretary_business (context_json_size (en_json en)),
      rt_receipt_updates = receipt_updates\<rparr>"

lemma id_order [simp]:
  "NodeId a < NodeId b \<longleftrightarrow> a < b" "RouteKey a < RouteKey b \<longleftrightarrow> a < b"
  by (simp_all add: less_node_id_def less_route_key_def)

lemma action_graph_definition_Ok: "action_graph_definition en = Ok (action_graph en)"
  by (simp add: action_graph_definition_def add_node_def graph_new_def new_versioned_def set_entry_def
      set_transition_def unwrap_r_def bt_contains_def action_graph_def action_nodes_def action_transitions_def)

lemma graph_ok_action: "graph_ok (action_graph en)"
  by (auto simp: graph_ok_def action_graph_def action_nodes_def action_transitions_def bt_ok_def
      bt_contains_def split: if_splits)

lemma compile_action:
  "compile (\<lparr>policy_max_steps = 16\<rparr>) (action_graph en)
     = Ok (compiled (\<lparr>policy_max_steps = 16\<rparr>) (action_graph en) (NodeId ''plan''))"
  by (simp add: compile_def action_graph_def action_nodes_def action_transitions_def bt_contains_def ok_or_def
      ensure_def validate_transitions_def validate_transition_def validate_target_def validate_branch_def
      replan_router_def validate_reachability_def first_outside_def validate_terminal_paths_def
      terminal_nodes_def predecessors_def push_entry_def compiled_def)

lemma build_action_graph_Ok: "build_action_graph en ops ex = Ok (action_runtime en ops ex)"
  by (simp add: build_action_graph_def action_graph_definition_Ok compile_action unwrap_r_def action_runtime_def)

lemma action_runtime_simps [simp]:
  "rt_executor (action_runtime en ops ex) = Some ex"
  "rt_store (action_runtime en ops ex) = Some ops"
  "rt_business (action_runtime en ops ex) = secretary_business (context_json_size (en_json en))"
  "rt_receipt_updates (action_runtime en ops ex) = receipt_updates"
  "rt_max_steps (action_runtime en ops ex) = 16"
  by (simp_all add: action_runtime_def rt_max_steps_def compiled_def)

lemma action_runtime_executor: "with_executor (action_runtime en ops ex) ex' = action_runtime en ops ex'"
  by (simp add: action_runtime_def)

lemma action_compiled_ok: "compiled_ok (rt_graph (action_runtime en ops ex))"
  using compile_compiled_ok [OF graph_ok_action compile_action] by (simp add: action_runtime_def)

lemma action_capped: "capped (action_runtime en ops ex) ctx" "step_cap (action_runtime en ops ex) ctx \<le> 16"
  by (simp_all add: capped_def step_cap_def)

lemma action_node_cases:
  assumes "graph_node (rt_graph (action_runtime en ops ex)) n = Some nd"
  shows "an_execute nd \<in> {plan_node en, l0_execute_node, replan_decision_node en, build_response_node en}"
  using assms
  by (auto simp: graph_node_def action_runtime_def compiled_def action_graph_def action_nodes_def
      split: if_splits)

section \<open>Approved proposals\<close>

text \<open>\<open>needs_owner\<close>: the proposal may only be executed after the owner has seen it.\<close>

definition needs_owner :: "secretary_action_proposal \<Rightarrow> bool" where
  "needs_owner p \<longleftrightarrow> is_clarification (ap_action p) \<or> tp_requires_confirmation (action_policy p)"

definition permitted :: "secretary_action_proposal set \<Rightarrow> secretary_action_effect \<Rightarrow> bool" where
  "permitted A e \<longleftrightarrow> \<not> needs_owner (ae_proposal e) \<or> ae_proposal e \<in> A"

definition exec_ok :: "secretary_action_proposal set \<Rightarrow> secretary_state \<Rightarrow> bool" where
  "exec_ok A s \<longleftrightarrow>
     (\<forall>p. ss_pending_proposal s = Some p \<longrightarrow> ss_phase s = Execute \<longrightarrow> permitted A \<lparr>ae_proposal = p\<rparr>)"

definition tame :: "secretary_action_proposal set \<Rightarrow> secretary_update \<Rightarrow> bool" where
  "tame A u \<longleftrightarrow>
     (case u of
        ProposalAccepted p \<Rightarrow> permitted A \<lparr>ae_proposal = p\<rparr>
      | ApprovalResolved _ \<Rightarrow> False
      | PhaseChanged _ \<Rightarrow> False
      | _ \<Rightarrow> True)"

lemma tame_simps [simp]:
  "tame A (ProposalAccepted p) \<longleftrightarrow> permitted A \<lparr>ae_proposal = p\<rparr>" "\<not> tame A (ApprovalResolved i)"
  "\<not> tame A (PhaseChanged ph)" "tame A (ActionCompleted r)" "tame A (ResponseReady d)"
  "tame A (ObservationAppended ob)" "tame A (WorkingContextChanged c)"
  by (simp_all add: tame_def)

lemma tame_keeps_exec_ok:
  assumes "tame A u" and "exec_ok A s" and "secretary_apply_update json_size s u = (Ok (), s')"
  shows "exec_ok A s'"
  using assms
  by (cases u) (auto simp: secretary_apply_update_def exec_ok_def Let_def split: result.splits option.splits if_splits)

section \<open>Futures of the nodes\<close>

lemma outputs_await:
  "outputs (\<lambda>a. outputs P (f a)) p \<Longrightarrow> outputs P (await p f)"
  by (induction p) auto

lemma outputs_True [simp]: "outputs (\<lambda>a. True) p"
  by (induction p) auto

lemma outputs_await_or:
  assumes "\<And>a. outputs P (f a)" and "\<And>e. P (Err e)" and "P Panic"
  shows "outputs P (await_or g p f)"
  unfolding await_or_def
  by (rule outputs_await, rule outputs_mono [OF outputs_True]) (simp add: assms split: result.split)

section \<open>The gate\<close>

lemma gate_cases:
  assumes "gate_secretary_action p = Ok res"
  shows "needs_owner p \<Longrightarrow>
      \<exists>request. res = Suspend [BusinessUpdate (ProposalAccepted p)] [] no_usage request
        \<and> sus_data request = approval_request p (action_policy p)
        \<and> sus_reason request = (if is_clarification (ap_action p) then ExternalInput else Approval)"
    and "\<not> needs_owner p \<Longrightarrow> res = Continue [BusinessUpdate (ProposalAccepted p)] [\<lparr>ae_proposal = p\<rparr>] no_usage"
    and "validate_action_proposal p = Ok ()"
  using assms
  by (auto simp: gate_secretary_action_def needs_owner_def Let_def result_simps split: if_splits)

text \<open>The part of the contract that a node result has to satisfy.\<close>

definition disciplined :: "secretary_action_proposal set \<Rightarrow> (node_error, secretary_node_result) result \<Rightarrow> bool" where
  "disciplined A r \<longleftrightarrow>
     (\<forall>res. r = Ok res \<longrightarrow> list_all (permitted A) (result_effects res))
     \<and> (\<forall>us es d. r = Ok (Continue us es d) \<longrightarrow> (\<forall>v. BusinessUpdate v \<in> set us \<longrightarrow> tame A v))"

lemma disciplined_failed [simp]: "disciplined A (Err e)" "disciplined A Panic"
  by (simp_all add: disciplined_def)

lemma disciplined_quiet [simp]: "disciplined A (Ok node_result_empty)"
  by (simp add: disciplined_def node_result_empty_def)

lemma disciplined_new:
  "(\<And>v. BusinessUpdate v \<in> set us \<Longrightarrow> tame A v) \<Longrightarrow> disciplined A (Ok (node_result_new us))"
  by (simp add: disciplined_def node_result_new_def)

lemma gate_disciplined:
  assumes "gate_secretary_action p = Ok res" and "\<And>v. u = BusinessUpdate v \<Longrightarrow> tame A v"
  shows "disciplined A (Ok (prepend_update u res))"
proof (cases "needs_owner p")
  case True
  with gate_cases(1) [OF assms(1)] show ?thesis
    by (auto simp: disciplined_def prepend_update_def)
next
  case False
  moreover from False have "res = Continue [BusinessUpdate (ProposalAccepted p)] [\<lparr>ae_proposal = p\<rparr>] no_usage"
    by (rule gate_cases(2) [OF assms(1)])
  ultimately show ?thesis
    using assms(2) by (auto simp: disciplined_def prepend_update_def permitted_def)
qed

lemma plan_result_disciplined:
  assumes "\<And>v. u = BusinessUpdate v \<Longrightarrow> tame A v"
  shows "disciplined A (plan_result uuid u out)"
proof (cases out)
  case (PlanNoAction reason)
  with assms show ?thesis by (auto simp: plan_result_def intro!: disciplined_new)
next
  case (PlanClarification question evidence)
  show ?thesis
  proof (cases "plan_result uuid u out")
    case (Ok res)
    with PlanClarification obtain p r where "gate_secretary_action p = Ok r" "res = prepend_update u r"
      by (auto simp: plan_result_def result_simps)
    with gate_disciplined assms Ok show ?thesis by simp
  qed simp_all
next
  case (PlanProposal p)
  show ?thesis
  proof (cases "plan_result uuid u out")
    case (Ok res)
    with PlanProposal obtain r where "gate_secretary_action p = Ok r" "res = prepend_update u r"
      by (auto simp: plan_result_def result_simps)
    with gate_disciplined assms Ok show ?thesis by simp
  qed simp_all
qed

lemma after_plan_disciplined: "disciplined A (after_plan cx s uuid evidence out)"
proof (cases "after_plan cx s uuid evidence out")
  case (Ok res)
  then obtain conv where "plan_result uuid (BusinessUpdate (WorkingContextChanged
      (InitialRetrieval evidence [conv] InitialOwnerCommand))) out = Ok res"
    by (auto simp: after_plan_def result_simps)
  with plan_result_disciplined [of "BusinessUpdate (WorkingContextChanged
      (InitialRetrieval evidence [conv] InitialOwnerCommand))" A uuid out] Ok
  show ?thesis by simp
qed simp_all

section \<open>The nodes keep the contract\<close>

lemma plan_node_disciplined: "outputs (disciplined A) (plan_node en st ctx k)"
proof -
  have body: "outputs (disciplined A)
      (case plan_input (en_context en) (business st) retrieved views of
          Err e \<Rightarrow> Done (Err e)
        | Panic \<Rightarrow> Done Panic
        | Ok inp \<Rightarrow>
            (case validate_planner_input (en_tz_known en) inp of
               Err e \<Rightarrow> Done (Err (invariant_error (planner_error_display e)))
             | Panic \<Rightarrow> Done Panic
             | Ok _ \<Rightarrow>
                 await_or (\<lambda>e. transient_error (planner_error_display e)) (en_planner en k inp) (\<lambda>out.
                   Done (after_plan (en_context en) (business st) (en_uuid en k)
                           (map pre_source_event_id retrieved) out))))" for retrieved views
    by (simp add: after_plan_disciplined outputs_await_or split: result.split)
  show ?thesis
    unfolding plan_node_def retrieve_for_plan_def
    by (simp add: body outputs_await_or split: option.split)
qed

lemma l0_execute_disciplined:
  assumes "exec_ok A (business st)"
  shows "outputs (disciplined A) (l0_execute_node st ctx k)"
  using assms
  by (auto simp: l0_execute_node_def exec_ok_def disciplined_def node_result_empty_def
      split: secretary_phase.split option.split)

lemma replan_decision_disciplined: "outputs (disciplined A) (replan_decision_node en st ctx k)"
  unfolding replan_decision_node_def Let_def
  by (auto simp: observation_updates_def split: option.split intro!: outputs_await_or disciplined_new)

lemma build_response_disciplined: "outputs (disciplined A) (build_response_node en st ctx k)"
proof (cases "build_response en st")
  case (Ok res)
  then have "disciplined A (Ok res)"
    by (auto simp: build_response_def Let_def result_simps split: option.splits intro: disciplined_new)
  with Ok show ?thesis by (simp add: build_response_node_def)
qed (simp_all add: build_response_node_def)

lemma action_node_disciplined:
  assumes "graph_node (rt_graph (action_runtime en ops ex)) n = Some nd" and "exec_ok A (business st)"
  shows "outputs (disciplined A) (an_execute nd st ctx k)"
  using action_node_cases [OF assms(1)] assms(2) plan_node_disciplined l0_execute_disciplined
    replan_decision_disciplined build_response_disciplined
  by auto

interpretation approved: effect_discipline "action_runtime en ops ex" "exec_ok A" "tame A" "permitted A"
  for en ops ex A
proof (unfold_locales, goal_cases)
  case (1 v rc)
  then show ?case by (simp add: receipt_updates_def)
next
  case (2 v b b')
  then show ?case by (simp add: secretary_business_def tame_keeps_exec_ok)
next
  case (3 n nd st ctx k)
  from action_node_disciplined [OF this] show ?case
    by (rule outputs_mono) (simp add: disciplined_def)
next
  case (4 n nd st ctx k)
  from action_node_disciplined [OF this] show ?case
    by (rule outputs_mono) (simp add: disciplined_def)
qed

end
