(* ===== verification/Replan_Bounds.thy ===== *)
theory Replan_Bounds
  imports Action_Graph_Correct
begin

text \<open>
  The rounds of the action graph. The bound of two observations is not enforced where an
  observation is appended: it follows from the router, which sends a run back to the plan node only
  while a round is left. The invariant of the loop says so for every node.
\<close>

section \<open>The rounds of a state\<close>

definition replan_rounds :: "secretary_state \<Rightarrow> u8 \<times> planner_tool_observation list" where
  "replan_rounds s = (ss_replan_round s, ss_planning_observations s)"

text \<open>The number of observations is the number of rounds, they belong to different proposals, and
  there are at most two of them; before the response, one more has to fit.\<close>

definition rounds_ok :: "bool \<Rightarrow> secretary_state \<Rightarrow> bool" where
  "rounds_ok room s \<longleftrightarrow>
     length (ss_planning_observations s) = unat (ss_replan_round s)
     \<and> distinct (map pto_proposal_id (ss_planning_observations s))
     \<and> unat (ss_replan_round s) \<le> (if room then 1 else 2)"

lemma rounds_ok_cong: "replan_rounds s = replan_rounds t \<Longrightarrow> rounds_ok b s \<longleftrightarrow> rounds_ok b t"
  by (simp add: replan_rounds_def rounds_ok_def)

lemma rounds_ok_weaken: "rounds_ok b s \<Longrightarrow> rounds_ok False s"
  by (auto simp: rounds_ok_def split: if_splits)

definition appends :: "secretary_update \<Rightarrow> bool" where
  "appends u \<longleftrightarrow> (case u of ObservationAppended _ \<Rightarrow> True | _ \<Rightarrow> False)"

lemma appends_simps [simp]:
  "appends (ObservationAppended ob)" "\<not> appends (ProposalAccepted p)" "\<not> appends (ApprovalResolved i)"
  "\<not> appends (PhaseChanged ph)" "\<not> appends (ActionCompleted r)" "\<not> appends (ResponseReady d)"
  "\<not> appends (WorkingContextChanged c)"
  by (simp_all add: appends_def)

lemma other_updates_keep_rounds:
  "\<not> appends u \<Longrightarrow> secretary_apply_update sz s u = (Ok (), s') \<Longrightarrow> replan_rounds s' = replan_rounds s"
  by (cases u) (auto simp: secretary_apply_update_def replan_rounds_def Let_def
      split: result.splits option.splits if_splits)

lemma appended_rounds:
  assumes "secretary_apply_update sz s (ObservationAppended ob) = (Ok (), s')" and "rounds_ok True s"
  shows "rounds_ok False s'" and "ss_last_receipt s' = ss_last_receipt s"
proof -
  have bound: "unat (ss_replan_round s) \<le> 1" using assms(2) by (simp add: rounds_ok_def)
  then have step: "unat (saturating_add (ss_replan_round s) 1) = unat (ss_replan_round s) + 1"
    by (simp add: unat_saturating_add)
  show "rounds_ok False s'"
    using assms bound
    by (force simp: secretary_apply_update_def rounds_ok_def step list_ex_iff split: result.splits if_splits)
  show "ss_last_receipt s' = ss_last_receipt s"
    using assms(1) by (auto simp: secretary_apply_update_def split: result.splits if_splits)
qed

lemma context_keeps_receipt:
  "secretary_apply_update sz s (WorkingContextChanged c) = (Ok (), s') \<Longrightarrow> ss_last_receipt s' = ss_last_receipt s"
  by (auto simp: secretary_apply_update_def split: result.splits)

interpretation rounds: update_discipline "action_runtime en ops ex" "\<lambda>s. replan_rounds s = R" "\<lambda>u. \<not> appends u"
  for en ops ex R
  by unfold_locales
    (auto simp: receipt_updates_def secretary_business_def dest: other_updates_keep_rounds)

section \<open>What the nodes append\<close>

definition no_appends :: "(node_error, secretary_node_result) result \<Rightarrow> bool" where
  "no_appends r \<longleftrightarrow> (\<forall>res v. r = Ok res \<longrightarrow> BusinessUpdate v \<in> set (result_updates res) \<longrightarrow> \<not> appends v)"

lemma no_appends_simps [simp]: "no_appends (Err e)" "no_appends Panic" "no_appends (Ok node_result_empty)"
  by (simp_all add: no_appends_def node_result_empty_def)

lemma gate_no_appends:
  assumes "gate_secretary_action p = Ok res" and "\<And>v. u = BusinessUpdate v \<Longrightarrow> \<not> appends v"
  shows "no_appends (Ok (prepend_update u res))"
  using assms gate_cases [OF assms(1)]
  by (cases "needs_owner p") (auto simp: no_appends_def prepend_update_def)

lemma after_plan_no_appends: "no_appends (after_plan cx s uuid evidence out)"
proof (cases "after_plan cx s uuid evidence out")
  case (Ok res)
  then obtain conv where plan: "plan_result uuid (BusinessUpdate (WorkingContextChanged
      (InitialRetrieval evidence [conv] InitialOwnerCommand))) out = Ok res"
    by (auto simp: after_plan_def result_simps)
  show ?thesis
  proof (cases out)
    case (PlanNoAction reason)
    with plan Ok show ?thesis by (auto simp: plan_result_def no_appends_def node_result_new_def)
  qed (use plan Ok in \<open>auto simp: plan_result_def result_simps intro!: gate_no_appends\<close>)
qed simp_all

lemma plan_node_no_appends: "outputs no_appends (plan_node en st ctx k)"
  unfolding plan_node_def retrieve_for_plan_def
  by (simp add: after_plan_no_appends outputs_await_or split: option.split result.split)

lemma l0_execute_no_appends: "outputs no_appends (l0_execute_node st ctx k)"
  by (auto simp: l0_execute_node_def no_appends_def node_result_empty_def split: secretary_phase.split option.split)

lemma build_response_no_appends: "outputs no_appends (build_response_node en st ctx k)"
proof (cases "build_response en st")
  case (Ok res)
  then show ?thesis
    by (auto simp: build_response_node_def build_response_def Let_def result_simps no_appends_def
        node_result_new_def node_result_empty_def split: option.splits)
qed (simp_all add: build_response_node_def)

text \<open>The replan node appends at most one observation, runs no effect and does not suspend; if it
  appends, the last receipt is no memory conflict.\<close>

definition replan_result :: "json_ops \<Rightarrow> secretary_state \<Rightarrow> (node_error, secretary_node_result) result \<Rightarrow> bool" where
  "replan_result J s r \<longleftrightarrow>
     (\<forall>res. r = Ok res \<longrightarrow>
        (\<exists>us. res = node_result_new us
           \<and> ((\<forall>v. BusinessUpdate v \<in> set us \<longrightarrow> \<not> appends v)
              \<or> (\<exists>ob r. us = observation_updates ob \<and> ss_last_receipt s = Some r \<and> receipt_conflict J r = None))))"

lemma node_result_empty_new: "node_result_empty = node_result_new []"
  by (simp add: node_result_empty_def node_result_new_def)

lemma node_result_new_inject: "node_result_new us = node_result_new vs \<longleftrightarrow> us = vs"
  by (simp add: node_result_new_def)

lemma replan_node_result: "outputs (replan_result (en_json en) (business st)) (replan_decision_node en st ctx k)"
proof -
  have quiet: "replan_result J s (Ok node_result_empty)" "replan_result J s (Err e)" "replan_result J s Panic" for J s e
    by (simp_all add: replan_result_def node_result_empty_new node_result_new_inject)
  have changed: "replan_result J s (Ok (node_result_new [BusinessUpdate (WorkingContextChanged c)]))" for J s c
    by (simp add: replan_result_def node_result_new_inject)
  have appended: "replan_result J s (Ok (node_result_new (observation_updates ob)))"
    if "ss_last_receipt s = Some r" "receipt_conflict J r = None" for J s ob r
    using that by (auto simp: replan_result_def node_result_new_inject)
  show ?thesis
    unfolding replan_decision_node_def Let_def
    by (auto simp: quiet changed appended split: option.split intro!: outputs_await_or)
qed

section \<open>The invariant\<close>

lemma action_transition_cases:
  assumes "graph_transition (rt_graph (action_runtime en ops ex)) n = Some t"
  shows "n = NodeId ''build_response'' \<and> t = End \<or> n = NodeId ''l0_execute'' \<and> t = Goto (NodeId ''replan_decision'')
    \<or> n = NodeId ''plan'' \<and> t = Goto (NodeId ''l0_execute'')
    \<or> n = NodeId ''replan_decision'' \<and> t = Branch (replan_router (en_json en))
         [(RouteKey ''continue'', NodeId ''plan''), (RouteKey ''finish'', NodeId ''build_response'')]"
  using assms
  by (auto simp: graph_transition_def action_runtime_def compiled_def action_graph_def action_transitions_def
      split: if_splits)

lemma action_node_at:
  assumes "graph_node (rt_graph (action_runtime en ops ex)) n = Some nd"
  shows "n = NodeId ''replan_decision'' \<Longrightarrow> an_execute nd = replan_decision_node en"
    and "n \<noteq> NodeId ''replan_decision'' \<Longrightarrow> outputs no_appends (an_execute nd st ctx k)"
  using assms plan_node_no_appends l0_execute_no_appends build_response_no_appends
  by (auto simp: graph_node_def action_runtime_def compiled_def action_graph_def action_nodes_def
      split: if_splits)

definition room_at :: "node_id \<Rightarrow> bool" where
  "room_at n \<longleftrightarrow> n \<noteq> NodeId ''build_response''"

text \<open>The two updates of the replan node, applied.\<close>

lemma observation_updates_rounds:
  assumes "update_or (secretary_business sz) f s (observation_updates ob) = Ok s'" and "rounds_ok True (business s)"
  shows "rounds_ok False (business s')" and "ss_last_receipt (business s') = ss_last_receipt (business s)"
proof -
  obtain c where us: "observation_updates ob = [BusinessUpdate (ObservationAppended ob), BusinessUpdate (WorkingContextChanged c)]"
    by (simp add: observation_updates_def)
  obtain q t where one: "secretary_apply_update sz (business s) (ObservationAppended ob) = (q, t)" by force
  obtain q' t' where two: "secretary_apply_update sz t (WorkingContextChanged c) = (q', t')" by force
  have "q = Ok () \<and> q' = Ok () \<and> t' = business s'"
    using assms(1)
    by (auto simp: update_or_def apply_updates_def apply_one_def us secretary_business_def one two result_simps
        split: result.splits)
  with one two have parts: "secretary_apply_update sz (business s) (ObservationAppended ob) = (Ok (), t)"
    "secretary_apply_update sz t (WorkingContextChanged c) = (Ok (), business s')"
    by simp_all
  have "replan_rounds (business s') = replan_rounds t"
    using other_updates_keep_rounds [OF _ parts(2)] by simp
  with appended_rounds(1) [OF parts(1) assms(2)] show "rounds_ok False (business s')"
    using rounds_ok_cong by blast
  show "ss_last_receipt (business s') = ss_last_receipt (business s)"
    using appended_rounds(2) [OF parts(1) assms(2)] context_keeps_receipt [OF parts(2)] by simp
qed

lemma wants_replan_room:
  assumes "wants_replan J st" and "rounds_ok False (business st)" and "ss_last_receipt (business st) = Some r"
    and "receipt_conflict J r = None"
  shows "rounds_ok True (business st)"
proof -
  have "ss_replan_round (business st) < 2"
    using assms(1,3,4) by (auto simp: wants_replan_def Let_def max_replan_rounds_def split: if_splits option.splits)
  then have "unat (ss_replan_round (business st)) < 2"
    by (simp add: word_less_nat_alt)
  with assms(2) show ?thesis by (auto simp: rounds_ok_def)
qed

lemma complete_node_rounds:
  assumes "complete_node (action_runtime en ops ex) w ctx chk ls m = (Ok nc, m')"
    and "rounds_ok (room_at (ls_current ls)) (business (ls_state ls))"
  shows "case nc_next nc of
      None \<Rightarrow> rounds_ok False (business (nc_state nc))
    | Some n \<Rightarrow> rounds_ok (room_at n) (business (nc_state nc))"
proof -
  let ?rt = "action_runtime en ops ex"
  from assms(1) obtain nd res m3 f step candidate c r t where parts:
    "graph_node (rt_graph ?rt) (ls_current ls) = Some nd"
    "\<forall>P. (\<forall>k. outputs P (an_execute nd (ls_state ls) ctx k)) \<longrightarrow> P (Ok res)"
    "take_apart chk (ls_current ls) res = Ok (result_updates res, result_effects res, c, nc_request nc)"
    "update_or (rt_business ?rt) f (ls_state ls) (result_updates res) = Ok candidate"
    "run_effects ?rt w ctx step (ls_current ls) 0 (result_effects res) (candidate, [], []) m3
       = (Ok (nc_state nc, r), m')"
    "graph_transition (rt_graph ?rt) (ls_current ls) = Some t"
    "choose_next (ls_current ls) t (nc_state nc) = Ok (nc_next nc)"
    by (rule complete_node_parts)
  obtain cs rs where r: "r = (cs, rs)" by force
  have effects: "replan_rounds (business (nc_state nc)) = replan_rounds (business candidate)"
    using rounds.run_effects_good [OF parts(5) [unfolded r] refl] .
  have unchanged: "replan_rounds (business (nc_state nc)) = replan_rounds (business (ls_state ls))"
    if "no_appends (Ok res)"
    using rounds.update_or_good [OF parts(4) refl] that effects by (auto simp: no_appends_def)
  show ?thesis
  proof (cases "ls_current ls = NodeId ''replan_decision''")
    case False
    then have "no_appends (Ok res)"
      using parts(2) action_node_at(2) [OF parts(1)] by blast
    from rounds_ok_cong [OF unchanged [OF this]] assms(2)
    have "rounds_ok (room_at (ls_current ls)) (business (nc_state nc))" by blast
    with False parts(7) action_transition_cases [OF parts(6)] show ?thesis
      by (auto simp: choose_next_def room_at_def split: if_splits option.splits intro: rounds_ok_weaken)
  next
    case True
    then have room: "rounds_ok True (business (ls_state ls))" using assms(2) by (simp add: room_at_def)
    have nd: "an_execute nd = replan_decision_node en" using action_node_at(1) [OF parts(1) True] .
    have next_: "nc_next nc = Some (if wants_replan (en_json en) (nc_state nc) then NodeId ''plan''
        else NodeId ''build_response'')"
      using True parts(7) action_transition_cases [OF parts(6)]
      by (auto simp: choose_next_def replan_router_def result_simps ok_or_def split: if_splits)
    have "replan_result (en_json en) (business (ls_state ls)) (Ok res)"
      using parts(2) [rule_format, of "replan_result (en_json en) (business (ls_state ls))"] replan_node_result [of en]
      by (simp add: nd)
    then obtain us where res: "res = node_result_new us" and
      us: "no_appends (Ok res) \<or> (\<exists>ob r. us = observation_updates ob
            \<and> ss_last_receipt (business (ls_state ls)) = Some r \<and> receipt_conflict (en_json en) r = None)"
      by (auto simp: replan_result_def no_appends_def node_result_new_def)
    from us show ?thesis
    proof
      assume "no_appends (Ok res)"
      from rounds_ok_cong [OF unchanged [OF this]] room
      have "rounds_ok True (business (nc_state nc))" by blast
      with next_ show ?thesis by (auto simp: room_at_def intro: rounds_ok_weaken)
    next
      assume "\<exists>ob r. us = observation_updates ob \<and> ss_last_receipt (business (ls_state ls)) = Some r
          \<and> receipt_conflict (en_json en) r = None"
      then obtain ob r' where ob: "us = observation_updates ob"
        and r': "ss_last_receipt (business (ls_state ls)) = Some r'" "receipt_conflict (en_json en) r' = None"
        by blast
      have same: "nc_state nc = candidate"
        using parts(5) by (simp add: res node_result_new_def give_def)
      have upd: "update_or (secretary_business (context_json_size (en_json en))) f (ls_state ls)
          (observation_updates ob) = Ok candidate"
        using parts(4) by (simp add: res node_result_new_def ob)
      note after = observation_updates_rounds [OF upd room]
      with r' wants_replan_room [of "en_json en" candidate r'] next_ show ?thesis
        by (auto simp: same room_at_def)
    qed
  qed
qed

lemma turn_rounds:
  assumes "turn (action_runtime en ops ex) w ctx chk ls m = (Ok it, m')"
    and "rounds_ok (room_at (ls_current ls)) (business (ls_state ls))"
  shows "case it of
      NextNode ls' \<Rightarrow> rounds_ok (room_at (ls_current ls')) (business (ls_state ls'))
    | Stop (Completed c) \<Rightarrow> rounds_ok False (business (res_state c))
    | Stop (Suspended cp) \<Rightarrow> rounds_ok (room_at (next_node (cp_position cp))) (business (cp_state cp))"
proof (cases it)
  case (NextNode ls')
  obtain nc where nc: "complete_node (action_runtime en ops ex) w ctx chk ls m = (Ok nc, m')"
    "nc_request nc = None" "nc_next nc = Some (ls_current ls')" "ls_state ls' = nc_state nc"
    "ls_visited ls' = ls_visited ls @ [ls_current ls]" "ls_receipts ls' = ls_receipts ls @ nc_receipts nc"
    by (rule turn_NextNode [OF assms(1) [unfolded NextNode]])
  from complete_node_rounds [OF nc(1) assms(2)] nc(3,4) NextNode show ?thesis by simp
next
  case (Stop res)
  show ?thesis
  proof (cases res)
    case (Completed c)
    obtain nc where nc: "complete_node (action_runtime en ops ex) w ctx chk ls m = (Ok nc, m')"
      "nc_next nc = None" "res_state c = nc_state nc"
      by (rule turn_Completed [OF assms(1) [unfolded Stop Completed]]) simp
    from complete_node_rounds [OF nc(1) assms(2)] nc(2,3) Stop Completed show ?thesis by simp
  next
    case (Suspended cp)
    obtain nc n m2 where nc: "complete_node (action_runtime en ops ex) w ctx chk ls m = (Ok nc, m2)"
      "nc_next nc = Some n" "cp_state cp = nc_state nc" "next_node (cp_position cp) = n"
      by (rule turn_Suspended [OF assms(1) [unfolded Stop Suspended]]) (simp add: make_checkpoint_def)
    from complete_node_rounds [OF nc(1) assms(2)] nc(2,3,4) Stop Suspended show ?thesis by simp
  qed
qed

lemma execute_from_rounds:
  assumes "execute_from fuel (action_runtime en ops ex) w ctx chk ls m = Some (Ok res, m')"
    and "rounds_ok (room_at (ls_current ls)) (business (ls_state ls))"
  shows "case res of
      Completed c \<Rightarrow> rounds_ok False (business (res_state c))
    | Suspended cp \<Rightarrow> rounds_ok (room_at (next_node (cp_position cp))) (business (cp_state cp))"
proof -
  let ?I = "\<lambda>ls m. rounds_ok (room_at (ls_current ls)) (business (ls_state ls))"
  obtain ls1 m1 q where last: "?I ls1 m1"
    "turn (action_runtime en ops ex) w ctx chk ls1 m1 = (q, m')" "ends_with q (Ok res)"
    using execute_from_last [OF assms(1), of ?I] assms(2) turn_rounds [of en ops ex w ctx chk] by fastforce
  then have "q = Ok (Stop res)"
    by (auto simp: ends_with_def split: result.splits iteration.splits)
  with turn_rounds [of en ops ex w ctx chk ls1 m1 "Stop res" m'] last show ?thesis
    by (simp split: graph_execution_result.splits)
qed

end
