(* ===== verification/Action_Graph_Calm.thy ===== *)
theory Action_Graph_Calm
  imports Replan_Bounds
begin

text \<open>
  Where a run of the action graph can panic: nowhere but in the services it calls and, with calm
  services, in the replan node, when a memory conflict cannot be read back.
\<close>

section \<open>Checks do not panic\<close>

named_theorems no_panic

lemma ensure_no_panic [no_panic]: "ensure b e \<noteq> Panic"
  by (simp add: ensure_def)

declare checked_no_panic [no_panic] batch_targets_no_panic [no_panic] input_unless_no_panic [no_panic]
  validate_tool_observation_no_panic [no_panic] context_no_panic [no_panic]
  validate_open_reference_no_panic [no_panic] validate_conflict_no_panic [no_panic]
  owner_response_draft_no_panic [no_panic] build_action_response_no_panic [no_panic]
  validate_draft_no_panic [no_panic] apply_working_context_no_panic [no_panic]

lemma all_ok_calm [no_panic]: "(\<And>x. f x \<noteq> Panic) \<Longrightarrow> all_ok f xs \<noteq> Panic"
  by (rule all_ok_no_Panic)

lemma limited_no_panic [no_panic]: "limited v hi m \<noteq> Panic"
  by (simp add: limited_def no_panic)

lemma validate_action_no_panic [no_panic]: "validate_action a \<noteq> Panic"
  by (cases a)
    (simp_all add: result_simps no_panic ordered_range_def optional_check_def policy_rule_check_def
      validate_policy_scope_def validate_policy_outcome_def validate_quiet_hours_shape_def
      validate_project_member_ref_def match_key_validate_def eligibility_for_long_term_rule_def
      single_follow_up_def follow_up_batch_def snooze_time_def candidate_check_def
      split: option.split match_field.split)

lemma validate_proposal_no_panic [no_panic]: "validate_action_proposal p \<noteq> Panic"
  by (simp add: validate_action_proposal_def result_simps no_panic)

lemma conversation_no_panic [no_panic]: "conversation_ref_new kind i \<noteq> Panic"
  by (simp add: conversation_ref_new_def require_non_empty_def result_simps)

lemma planner_text_no_panic [no_panic]:
  "planner_text f v lo hi \<noteq> Panic" "non_empty_planner_text f v lo hi \<noteq> Panic"
  by (simp_all add: planner_text_def non_empty_planner_text_def result_simps no_panic)

lemma event_view_no_panic [no_panic]: "validate_agent_event_view v acc \<noteq> Panic"
  by (auto simp: validate_agent_event_view_def result_simps no_panic dest!: all_ok_Panic)

lemma projection_no_panic [no_panic]: "validate_working_context_projection p \<noteq> Panic"
  by (auto simp: validate_working_context_projection_def result_simps no_panic dest!: all_ok_Panic
      split: option.splits)

lemma planner_input_no_panic [no_panic]: "validate_planner_input known inp \<noteq> Panic"
  by (auto simp: validate_planner_input_def result_simps no_panic dest!: all_ok_Panic split: option.splits)

lemma planner_output_no_panic [no_panic]: "validate_planner_output out \<noteq> Panic"
  by (cases out) (simp_all add: validate_planner_output_def result_simps no_panic)

lemma gate_no_panic [no_panic]: "gate_secretary_action p \<noteq> Panic"
  by (simp add: gate_secretary_action_def result_simps no_panic Let_def)

lemma after_plan_no_panic [no_panic]: "after_plan cx s uuid evidence out \<noteq> Panic"
  by (cases out) (simp_all add: after_plan_def plan_result_def proposal_guards_def action_proposal_new_def Let_def
      result_simps no_panic)

lemma plan_input_no_panic [no_panic]: "plan_input cx s retrieved views \<noteq> Panic"
  by (simp add: plan_input_def Let_def result_simps no_panic)

lemma build_response_no_panic [no_panic]: "build_response en st \<noteq> Panic"
  by (auto simp: build_response_def receipt_draft_def Let_def result_simps no_panic split: option.splits)

lemma secretary_update_no_panic [no_panic]: "fst (secretary_apply_update json_size s u) \<noteq> Panic"
  by (cases u)
    (auto simp: secretary_apply_update_def Let_def result_simps no_panic split: option.split result.split)

section \<open>Calm services\<close>

definition services_calm ::
  "action_env \<Rightarrow> 'st secretary_store \<Rightarrow> (secretary_action_effect, secretary_action_receipt) executor \<Rightarrow> bool" where
  "services_calm en ops ex \<longleftrightarrow>
     (\<forall>k inp. calm (en_planner en k inp))
     \<and> (\<forall>rp k q b. en_retriever en = Some rp \<longrightarrow> calm (rp_search_events rp k q b))
     \<and> (\<forall>rp k a n b. en_retriever en = Some rp \<longrightarrow> calm (rp_recent_views rp k a n b))
     \<and> (\<forall>f k i n. en_memory en = Some f \<longrightarrow> calm (f k i n))
     \<and> (\<forall>env ctx k. calm (ex env ctx k))
     \<and> (\<forall>cp s. fst (st_save ops cp s) \<noteq> Panic)"

text \<open>An approved memory candidate is in conflict with a fact, the conflict is not yet in the working
  context, and reading the fact back can fail.\<close>

definition unreadable_conflict :: "action_env \<Rightarrow> secretary_state agent_state \<Rightarrow> bool" where
  "unreadable_conflict en st \<longleftrightarrow>
     outcome st = None
     \<and> (case ss_last_receipt (business st) of
          None \<Rightarrow> False
        | Some r \<Rightarrow>
            (case receipt_conflict (en_json en) r of
               None \<Rightarrow> False
             | Some c \<Rightarrow> \<not> conflict_recorded (business st) c \<and> (\<exists>k. \<not> calm (re_read_conflict en k c))))"

lemma calm_await: "calm p \<Longrightarrow> (\<And>r. r \<noteq> Panic \<Longrightarrow> calm (f r)) \<Longrightarrow> calm (await p f)"
  by (induction p) auto

lemma calm_await_or: "calm p \<Longrightarrow> (\<And>a. calm (f a)) \<Longrightarrow> calm (await_or g p f)"
  unfolding await_or_def by (rule calm_await) (auto simp: result_simps split: result.split)

lemma plan_node_calm: "services_calm en ops ex \<Longrightarrow> calm (plan_node en st ctx k)"
  unfolding plan_node_def retrieve_for_plan_def services_calm_def
  by (auto intro!: calm_await_or simp: no_panic split: option.split result.split)

lemma replan_node_calm: "\<not> unreadable_conflict en st \<Longrightarrow> calm (replan_decision_node en st ctx k)"
  unfolding replan_decision_node_def unreadable_conflict_def
  by (auto simp: Let_def intro!: calm_await_or split: option.splits)

lemma action_services_calm:
  assumes "services_calm en ops ex"
  shows "calm_services (action_runtime en ops ex)"
proof -
  have "select rtr st \<noteq> Panic"
    if "graph_transition (rt_graph (action_runtime en ops ex)) n = Some (Branch rtr targets)" for n rtr targets st
    using that
    by (auto simp: graph_transition_def action_runtime_def compiled_def action_graph_def action_transitions_def
        replan_router_def split: if_splits)
  with assms show ?thesis
    by (auto simp: calm_services_def services_calm_def secretary_business_def no_panic)
qed

lemma action_node_body:
  assumes "graph_node (rt_graph (action_runtime en ops ex)) n = Some nd"
  shows "an_execute nd \<in> {plan_node en, l0_execute_node, build_response_node en}
     \<or> n = NodeId ''replan_decision'' \<and> an_execute nd = replan_decision_node en"
  using assms
  by (auto simp: graph_node_def action_runtime_def compiled_def action_graph_def action_nodes_def split: if_splits)

text \<open>With calm services the only turn that panics is one of the replan node before such a conflict.\<close>

lemma action_turn_panics:
  assumes "services_calm en ops ex" and "turn (action_runtime en ops ex) w ctx chk ls m = (Panic, m')"
  shows "ls_current ls = NodeId ''replan_decision'' \<and> unreadable_conflict en (ls_state ls)"
proof (rule ccontr)
  assume other: "\<not> ?thesis"
  have "calm (an_execute nd (ls_state ls) ctx k)"
    if "graph_node (rt_graph (action_runtime en ops ex)) (ls_current ls) = Some nd" for nd k
    using action_node_body [OF that] other plan_node_calm [OF assms(1)] replan_node_calm
    by (auto simp: l0_execute_node_def build_response_node_def no_panic)
  then have "calm_node (action_runtime en ops ex) ctx ls" by (simp add: calm_node_def)
  with turn_calm [OF action_services_calm [OF assms(1)]] assms(2) show False by blast
qed

end
