(* ===== verification/Action_Graph_Properties.thy ===== *)
theory Action_Graph_Properties
  imports Action_Graph_Calm
begin

text \<open>
  The properties of the secretary's action graph: nothing that needs the owner's approval is
  executed without it, whatever the planner and the ports answer; what the plan node lets pass;
  the runs end; and two behaviours of the memory conflicts and of the rejection that the sources
  did not intend.
\<close>

section \<open>A small environment for the witnesses\<close>

definition demo_json :: json_ops where
  "demo_json =
     \<lparr>parse_query_result = (\<lambda>s. None),
      parse_conflict_result = (\<lambda>s. Some \<lparr>mcr_version = 1, mcr_candidate_id = MemoryCandidateId ''c'',
        mcr_fact_id = MemoryFactId ''f'', mcr_reason_code = ActiveFactPayloadDiffers, mcr_summary = ''differs''\<rparr>),
      parse_artifacts = (\<lambda>s. None), parse_optional_artifact = (\<lambda>s. None), parse_artifact = (\<lambda>s. None),
      draft_json_size = (\<lambda>d. Some 10), context_json_size = (\<lambda>w. Some 10)\<rparr>"

definition demo_deletion :: secretary_action_proposal where
  "demo_deletion =
     \<lparr>ap_proposal_id = ''p'', ap_action = DeleteMemoryFact (MemoryFactId ''f'') ''outdated'',
      ap_rationale = ''asked for'', ap_source_event_ids = [SourceEventId ''e''], ap_idempotency_key = Some ''k''\<rparr>"

definition demo_run :: action_run_context where
  "demo_run =
     \<lparr>arc_account = \<lparr>sar_channel = NapCat, sar_account_id = ''1''\<rparr>, arc_command_source_event_id = SourceEventId ''e'',
      arc_command_text = ''forget it'', arc_conversation_id = ''owner'', arc_occurred_at = 5,
      arc_timezone_offset_secs = 0, arc_timezone = ''UTC'', arc_now = 6, arc_lease_token = ''t'',
      arc_is_local_loopback = True\<rparr>"

definition demo_env :: action_env where
  "demo_env =
     \<lparr>en_json = demo_json, en_tz_known = (\<lambda>z. True), en_uuid = (\<lambda>k. ''u''),
      en_planner = (\<lambda>k inp. Done (Ok (PlanProposal demo_deletion))), en_retriever = None, en_memory = None,
      en_context = demo_run\<rparr>"

definition demo_state :: secretary_state where
  "demo_state =
     \<lparr>ss_goal = ''g'', ss_phase = Observe, ss_invariants = [], ss_evidence_source_event_ids = [],
      ss_recent_events = [], ss_pending_proposal = None, ss_last_receipt = None, ss_response_draft = None,
      ss_replan_round = 0, ss_planning_observations = [], ss_working_context = None\<rparr>"

text \<open>An executor that obeys, and one that does not survive an effect that needed the owner.\<close>

definition obeying :: "(secretary_action_effect, secretary_action_receipt) executor" where
  "obeying env ctx k =
     Done (Ok \<lparr>ar_proposal_id = ap_proposal_id (ae_proposal (env_effect env)), ar_result_ref = ''done'',
               ar_tool_kind = None\<rparr>)"

definition trapping :: "(secretary_action_effect \<Rightarrow> bool) \<Rightarrow> (secretary_action_effect, secretary_action_receipt) executor" where
  "trapping ok env ctx k = (if ok (env_effect env) then obeying env ctx k else Done Panic)"

lemma trapping_agrees: "ok (env_effect env) \<Longrightarrow> obeying env = trapping ok env"
  by (intro ext) (simp add: trapping_def)

lemma demo_deletion_needs_owner: "needs_owner demo_deletion"
  by (simp add: needs_owner_def demo_deletion_def action_policy_def impactful_policy_def is_clarification_def)

section \<open>Approval\<close>

text \<open>
  C3: a run of the action graph from a state without an executable pending proposal never hands an
  action that needs the owner (one whose tool requires confirmation, or a clarification) to the
  effect executor, whatever the planner, the retriever, the memory and the executor itself
  answer: two executors that agree on all other actions give the same run.
\<close>

theorem run_needs_approval:
  assumes "\<And>env. \<not> needs_owner (ae_proposal (env_effect env)) \<Longrightarrow> ex env = ex' env"
    and "ss_phase (business st) \<noteq> Execute \<or> ss_pending_proposal (business st) = None"
    and "build_action_graph en ops ex = Ok rt" and "build_action_graph en ops ex' = Ok rt'"
  shows "run_checkpointed_with_context fuel rt w ctx st m = run_checkpointed_with_context fuel rt' w ctx st m"
proof -
  have rts: "rt = action_runtime en ops ex" "rt' = action_runtime en ops ex'"
    using assms(3,4) by (simp_all add: build_action_graph_Ok)
  have good: "exec_ok {} (business (ls_state (start_state rt st)))"
    using assms(2) by (auto simp: exec_ok_def start_state_def)
  have start: "start_state rt' st = start_state rt st"
    by (simp add: start_state_def rts action_runtime_def)
  have "execute_from fuel rt w ctx True (start_state rt st) m = execute_from fuel rt' w ctx True (start_state rt st) m"
    unfolding rts action_runtime_executor [where ex = ex and ex' = ex', symmetric]
    by (rule approved.execute_from_agree [where A = "{}", OF action_runtime_simps(1)])
      (use assms(1) good in \<open>simp_all add: permitted_def rts\<close>)
  then show ?thesis
    unfolding run_checkpointed_with_context_def start by (simp add: rts)
qed

text \<open>What the owner has approved with a resume input, given the suspended state.\<close>

definition approved_by :: "secretary_state \<Rightarrow> secretary_resume_input \<Rightarrow> secretary_action_proposal set" where
  "approved_by s input =
     {p. ss_pending_proposal s = Some p \<and> ap_proposal_id p = sri_proposal_id input
       \<and> sri_decision input = Approve}"

lemma resolution_exec_ok:
  "secretary_apply_update json_size s (ApprovalResolved input) = (Ok (), s') \<Longrightarrow> exec_ok (approved_by s input) s'"
  by (cases "sri_decision input")
    (auto simp: secretary_apply_update_def exec_ok_def approved_by_def permitted_def
      split: option.splits if_splits)

lemma resumed_exec_ok:
  assumes "validate_checkpoint (action_runtime en ops ex) cp input = Ok st"
  shows "exec_ok (approved_by (business (cp_state cp)) input) (business st)"
proof -
  let ?size = "context_json_size (en_json en)"
  let ?B = "secretary_business ?size"
  have "apply_updates ?B (cp_state cp) [BusinessUpdate (ApprovalResolved input)] = (Ok (), st)"
    using assms
    by (auto simp: validate_checkpoint_def Let_def result_simps secretary_business_def split: prod.splits)
  then have "secretary_apply_update ?size (business (cp_state cp)) (ApprovalResolved input) = (Ok (), business st)"
    by (cases "secretary_apply_update ?size (business (cp_state cp)) (ApprovalResolved input)")
      (auto simp: apply_updates_def apply_one_def secretary_business_def split: result.splits)
  then show ?thesis by (rule resolution_exec_ok)
qed

text \<open>
  C4: resuming a suspended run executes, of all actions that need the owner, at most the one
  proposal that the checkpoint holds as pending and that the resume input approves by its id;
  a rejection, or an approval of another proposal, executes none. This holds for every
  checkpoint that the store hands out, whatever was saved in it.
\<close>

theorem resume_executes_approved_only:
  assumes "claim_checkpoint rt ops w i input m = (Ok (cp, st), m1)"
    and "\<And>env. permitted (approved_by (business (cp_state cp)) input) (env_effect env) \<Longrightarrow> ex env = ex' env"
    and "build_action_graph en ops ex = Ok rt" and "build_action_graph en ops ex' = Ok rt'"
  shows "resume_with_context fuel rt w i input trace m = resume_with_context fuel rt' w i input trace m"
proof -
  let ?A = "approved_by (business (cp_state cp)) input"
  have rts: "rt = action_runtime en ops ex" "rt' = action_runtime en ops ex'"
    using assms(3,4) by (simp_all add: build_action_graph_Ok)
  have "validate_checkpoint rt cp input = Ok st"
    using assms(1) by (auto simp: claim_checkpoint_def result_simps)
  then have good: "exec_ok ?A (business (ls_state (resume_loop cp st)))"
    unfolding rts by (simp add: resume_loop_def resumed_exec_ok)
  have claim': "claim_checkpoint rt' ops w i input m = (Ok (cp, st), m1)"
    using assms(1) claim_checkpoint_executor [where rt = rt and ex' = ex' and ops = ops and w = w and i = i and input = input and m = m]
    by (simp add: rts action_runtime_executor)
  have "execute_from fuel rt w c True (resume_loop cp st) n = execute_from fuel rt' w c True (resume_loop cp st) n" for c n
    unfolding rts action_runtime_executor [where ex = ex and ex' = ex', symmetric]
    by (rule approved.execute_from_agree [where A = ?A, OF action_runtime_simps(1)]) (use assms(2) good in \<open>simp_all\<close>)
  then show ?thesis
    using resume_after_claim [OF _ assms(1)] resume_after_claim [OF _ claim'] by (simp add: rts)
qed

definition calm_world :: "(secretary_state, secretary_action_receipt, secretary_approval_request) memory_store world" where
  "calm_world =
     \<lparr>w_signals = (\<lambda>k. \<lparr>sig_cancelled = False, sig_now = 0\<rparr>), w_others = (\<lambda>k s. s), w_fresh = (\<lambda>k. CheckpointId 9)\<rparr>"

definition demo_ctx :: run_context where
  "demo_ctx =
     \<lparr>ctx_run_id = RunId 7, ctx_limits = run_budget_new 16 30, ctx_deadline = 30, ctx_trace = run_trace_default\<rparr>"

text \<open>The suspended deletion of the demo, and the owner's answer to it.\<close>

definition demo_suspended :: "(secretary_state, secretary_action_receipt, secretary_approval_request) agent_checkpoint" where
  "demo_suspended =
     \<lparr>cp_id = CheckpointId 9, cp_graph_id = GraphId ''secretary_action'', cp_graph_version = version_initial,
      cp_schema_version = schema_initial, cp_run_id = RunId 7,
      cp_position = \<lparr>completed_step = RunStep 1, next_node = NodeId ''l0_execute''\<rparr>,
      cp_state = agent_state_new (demo_state\<lparr>ss_pending_proposal := Some demo_deletion, ss_phase := Execute\<rparr>),
      cp_budget = run_budget_new 16 30,
      cp_usage = \<lparr>steps = 1, llm_calls = 0, tool_calls = 0, tokens = 0\<rparr>,
      cp_visited = [NodeId ''plan''], cp_receipts = [],
      cp_suspend = \<lparr>sus_reason = Approval, sus_data = approval_request demo_deletion (action_policy demo_deletion)\<rparr>,
      cp_trace = run_trace_default\<rparr>"

definition demo_answer :: "secretary_approval_decision \<Rightarrow> secretary_resume_input" where
  "demo_answer d =
     \<lparr>sri_proposal_id = ''p'', sri_decision = d, sri_command_source_event_id = SourceEventId ''a'',
      sri_approval_source_event_id = None\<rparr>"

definition demo_machine_suspended :: "(secretary_state, secretary_action_receipt, secretary_approval_request) memory_store machine" where
  "demo_machine_suspended =
     \<lparr>mc_usage = usage_default, mc_tick = 0,
      mc_store = memory_store_new\<lparr>ms_checkpoints := [(CheckpointId 9, demo_suspended)]\<rparr>\<rparr>"

theorem run_needs_approval_witness:
  "run_checkpointed_with_context 17 (action_runtime demo_env memory_ops obeying) calm_world demo_ctx
     (agent_state_new demo_state) demo_machine_suspended
   = run_checkpointed_with_context 17
       (action_runtime demo_env memory_ops (trapping (\<lambda>e. \<not> needs_owner (ae_proposal e)))) calm_world demo_ctx
       (agent_state_new demo_state) demo_machine_suspended"
  by (rule run_needs_approval [OF _ _ build_action_graph_Ok build_action_graph_Ok])
    (rule trapping_agrees, simp, simp add: agent_state_new_def demo_state_def)

lemma demo_claim:
  "\<exists>st m1. claim_checkpoint (action_runtime demo_env memory_ops ex) memory_ops calm_world (CheckpointId 9)
     (demo_answer d) demo_machine_suspended = (Ok (demo_suspended, st), m1)"
proof -
  have "\<exists>st. validate_checkpoint (action_runtime demo_env memory_ops ex) demo_suspended (demo_answer d) = Ok st"
    by (simp add: validate_checkpoint_def demo_suspended_def action_runtime_def compiled_def action_graph_def
        action_nodes_def graph_node_def ensure_def secretary_business_def apply_updates_def apply_one_def
        secretary_apply_update_def agent_state_new_def demo_deletion_def demo_answer_def demo_state_def)
  then obtain st where "validate_checkpoint (action_runtime demo_env memory_ops ex) demo_suspended (demo_answer d) = Ok st"
    by blast
  moreover have "undisturbed calm_world" by (simp add: undisturbed_def calm_world_def)
  ultimately show ?thesis
    using claim_checkpoint_undisturbed [of calm_world demo_machine_suspended "CheckpointId 9" demo_suspended
        "action_runtime demo_env memory_ops ex" "demo_answer d"]
    by (simp add: demo_machine_suspended_def memory_store_new_def store_held_def)
qed

theorem resume_executes_approved_only_witness:
  "resume_with_context 17 (action_runtime demo_env memory_ops obeying) calm_world (CheckpointId 9)
     (demo_answer Reject) run_trace_default demo_machine_suspended
   = resume_with_context 17 (action_runtime demo_env memory_ops (trapping (\<lambda>e. \<not> needs_owner (ae_proposal e))))
       calm_world (CheckpointId 9) (demo_answer Reject) run_trace_default demo_machine_suspended"
proof -
  obtain st m1 where claim: "claim_checkpoint (action_runtime demo_env memory_ops obeying) memory_ops
      calm_world (CheckpointId 9) (demo_answer Reject) demo_machine_suspended = (Ok (demo_suspended, st), m1)"
    using demo_claim by blast
  have none: "approved_by (business (cp_state demo_suspended)) (demo_answer Reject) = {}"
    by (simp add: approved_by_def demo_answer_def)
  show ?thesis
  proof (rule resume_executes_approved_only [OF claim _ build_action_graph_Ok build_action_graph_Ok])
    fix env :: "secretary_action_effect effect_envelope"
    assume "permitted (approved_by (business (cp_state demo_suspended)) (demo_answer Reject)) (env_effect env)"
    then show "obeying env = trapping (\<lambda>e. \<not> needs_owner (ae_proposal e)) env"
      by (intro trapping_agrees) (simp add: none permitted_def)
  qed
qed

section \<open>What the plan node lets pass\<close>

fun accepted :: "secretary_update agent_update list \<Rightarrow> secretary_action_proposal list" where
  "accepted [] = []"
| "accepted (BusinessUpdate (ProposalAccepted p) # us) = p # accepted us"
| "accepted (u # us) = accepted us"

text \<open>A proposal that may be put into the state of a run: valid, carrying the owner's command as
  evidence if it writes, a clarification while a reference is open, and one of the two
  permitted actions after a memory conflict.\<close>

definition admissible :: "action_run_context \<Rightarrow> secretary_state \<Rightarrow> secretary_action_proposal \<Rightarrow> bool" where
  "admissible cx s p \<longleftrightarrow>
     validate_action_proposal p = Ok ()
     \<and> (tp_risk (action_policy p) = L0ReadOnly \<or> arc_command_source_event_id cx \<in> set (ap_source_event_ids p))
     \<and> (\<not> has_open_references s \<or> is_clarification (ap_action p))
     \<and> (\<not> has_conflict s \<or> is_allowed_after_memory_conflict (ap_action p))"

definition plan_ok :: "action_run_context \<Rightarrow> secretary_state \<Rightarrow> (node_error, secretary_node_result) result \<Rightarrow> bool" where
  "plan_ok cx s r =
     (case r of
        Ok res \<Rightarrow>
          length (accepted (result_updates res)) \<le> 1
          \<and> list_all (admissible cx s) (accepted (result_updates res))
          \<and> map ae_proposal (result_effects res) = filter (\<lambda>p. \<not> needs_owner p) (accepted (result_updates res))
          \<and> (case res of
               Continue us es d \<Rightarrow> list_all (\<lambda>p. \<not> needs_owner p) (accepted us)
             | Suspend us es d request \<Rightarrow>
                 map (\<lambda>p. approval_request p (action_policy p)) (accepted us) = [sus_data request]
                 \<and> list_all needs_owner (accepted us))
      | _ \<Rightarrow> True)"

lemma risk_above_read_only: "L0ReadOnly < r \<longleftrightarrow> r \<noteq> L0ReadOnly"
  by (cases r) (simp_all add: less_secretary_risk_level_def)

lemma gate_plan_ok:
  assumes "gate_secretary_action p = Ok res" and "admissible cx s p" and "accepted [u] = []"
  shows "plan_ok cx s (Ok (prepend_update u res))"
proof -
  have u: "accepted (u # us) = accepted us" for us
    using assms(3) by (cases u rule: agent_update.exhaust; (rename_tac v, case_tac v)?; simp)
  show ?thesis
    using gate_cases [OF assms(1)] assms(2)
    by (cases "needs_owner p") (auto simp: plan_ok_def prepend_update_def u)
qed

lemma clarification_admissible:
  assumes "action_proposal_new uuid (AskOwnerClarification q) why ids None = Ok p"
  shows "admissible cx s p"
  using assms
  by (auto simp: action_proposal_new_def admissible_def Let_def result_simps action_policy_def
      clarification_policy_def is_clarification_def is_allowed_after_memory_conflict_def)

lemma proposal_guards_admissible:
  assumes "proposal_guards cx s p = Ok u" and "validate_action_proposal p = Ok ()"
  shows "admissible cx s p"
  using assms by (auto simp: proposal_guards_def admissible_def result_simps risk_above_read_only)

lemma after_plan_ok: "plan_ok cx s (after_plan cx s uuid evidence out)"
proof (cases "after_plan cx s uuid evidence out")
  case (Ok res)
  then obtain u conv where guards: "(case out of PlanProposal p \<Rightarrow> proposal_guards cx s p | _ \<Rightarrow> Ok ()) = Ok u"
    and plan: "plan_result uuid (BusinessUpdate (WorkingContextChanged
      (InitialRetrieval evidence [conv] InitialOwnerCommand))) out = Ok res"
    by (auto simp: after_plan_def result_simps)
  show ?thesis
  proof (cases out)
    case (PlanNoAction reason)
    with plan Ok show ?thesis by (auto simp: plan_result_def plan_ok_def node_result_new_def)
  next
    case (PlanClarification question ids)
    with plan obtain p r where "action_proposal_new uuid (AskOwnerClarification question)
        clarification_rationale ids None = Ok p" "gate_secretary_action p = Ok r"
      "res = prepend_update (BusinessUpdate (WorkingContextChanged
        (InitialRetrieval evidence [conv] InitialOwnerCommand))) r"
      by (auto simp: plan_result_def result_simps)
    with Ok show ?thesis by (simp add: gate_plan_ok clarification_admissible)
  next
    case (PlanProposal p)
    with plan obtain r where r: "gate_secretary_action p = Ok r"
      "res = prepend_update (BusinessUpdate (WorkingContextChanged
        (InitialRetrieval evidence [conv] InitialOwnerCommand))) r"
      by (auto simp: plan_result_def result_simps)
    have "admissible cx s p"
      using guards PlanProposal gate_cases(3) [OF r(1)] by (auto intro: proposal_guards_admissible)
    with r Ok show ?thesis by (simp add: gate_plan_ok)
  qed
qed (simp_all add: plan_ok_def)

text \<open>
  C15: whatever the planner answers, the plan node accepts at most one proposal, and only an
  admissible one: valid within all bounds, with the owner's command among its evidence unless it
  only reads, a clarification while a reference is unresolved, and only a clarification or a
  correction after a memory conflict. It asks for the effect exactly when the proposal does not
  need the owner, and suspends with the matching approval request exactly when it does.
\<close>

theorem plan_node_guards_proposals:
  "outputs (plan_ok (en_context en) (business st)) (plan_node en st ctx k)"
proof -
  have failed: "plan_ok (en_context en) (business st) (Err e)" "plan_ok (en_context en) (business st) Panic" for e
    by (simp_all add: plan_ok_def)
  show ?thesis
    unfolding plan_node_def retrieve_for_plan_def
    by (simp add: failed after_plan_ok outputs_await_or split: option.split result.split)
qed

section \<open>Runs end\<close>

text \<open>How the last turn of a run ends it.\<close>

lemma action_run_outcome:
  assumes "execute_from fuel (action_runtime en ops ex) w ctx True ls m = Some (r, m')"
    and ok: "loop_ok (action_runtime en ops ex) start ctx ls m"
  shows "case r of
      Ok (Completed res) \<Rightarrow> completed_ok (action_runtime en ops ex) start ctx res \<and> length (res_visited res) \<le> 16
    | Ok (Suspended cp) \<Rightarrow>
        checkpoint_ok (action_runtime en ops ex) start cp \<and> cp_run_id cp = ctx_run_id ctx
        \<and> cp_budget cp = ctx_limits ctx \<and> length (cp_visited cp) \<le> 16
    | Err (GraphFailure e) \<Rightarrow> error_true (action_runtime en ops ex) True e
    | Err MissingStore \<Rightarrow> False
    | Err (SaveFailed i cp e) \<Rightarrow> i = cp_id cp
    | Panic \<Rightarrow>
        (\<exists>ls1 m1. reaches (action_runtime en ops ex) w ctx True ls m ls1 m1
           \<and> turn (action_runtime en ops ex) w ctx True ls1 m1 = (Panic, m')
           \<and> (services_calm en ops ex \<longrightarrow>
                ls_current ls1 = NodeId ''replan_decision'' \<and> unreadable_conflict en (ls_state ls1)))"
proof -
  let ?rt = "action_runtime en ops ex"
  obtain ls1 m1 q where last: "reaches ?rt w ctx True ls m ls1 m1" "turn ?rt w ctx True ls1 m1 = (q, m')" "ends_with q r"
    using execute_from_reaches [OF assms(1)] by blast
  note ok1 = reaches_ok [OF last(1) action_compiled_ok ok action_capped(1)]
  show ?thesis
  proof (cases r)
    case (Ok res)
    then have q: "turn ?rt w ctx True ls1 m1 = (Ok (Stop res), m')"
      using last(2,3) by (auto simp: ends_with_def split: result.splits iteration.splits)
    show ?thesis
    proof (cases res)
      case (Completed c)
      with Ok q turn_Completed_ok [OF ok1 action_capped(1)] turn_visits(1) [OF ok1 action_capped(1)]
        action_capped(2) [of en ops ex ctx] show ?thesis by fastforce
    next
      case (Suspended cp)
      with Ok q turn_Suspended_ok [OF action_compiled_ok ok1 action_capped(1)] turn_visits(2) [OF ok1 action_capped(1)]
        action_capped(2) [of en ops ex ctx] show ?thesis by fastforce
    qed
  next
    case (Err e)
    then have "turn ?rt w ctx True ls1 m1 = (Err e, m')"
      using last(2,3) by (auto simp: ends_with_def split: result.splits iteration.splits)
    from turn_Err_true [OF action_compiled_ok ok1 this] Err show ?thesis
      by (auto simp: outcome_true_def split: checkpoint_run_error.splits)
  next
    case Panic
    then have "turn ?rt w ctx True ls1 m1 = (Panic, m')"
      using last(2,3) by (auto simp: ends_with_def split: result.splits iteration.splits)
    with Panic last(1) action_turn_panics show ?thesis by auto blast
  qed
qed

text \<open>
  C24: the action graph is always accepted by the compiler (the \<open>expect\<close>s of its assembly never
  fire), and every checkpointed run of it ends, with its result after at most sixteen nodes: a
  completed run has visited a path of the graph from the plan node to the response with its
  outcome set, a suspended one leaves a checkpoint of this graph, run and budget, an error is one the
  situation it names explains (never a missing node, transition or store), and a panic comes from a
  planner, retriever, memory, executor or store that panics itself, or from the replan node in a
  state with a memory conflict it cannot read back.
\<close>

theorem action_graph_run_ends:
  assumes "within_limits (ctx_limits ctx) (mc_usage m)" and "16 < fuel"
  shows "\<exists>rt r m'. build_action_graph en ops ex = Ok rt
     \<and> run_checkpointed_with_context fuel rt w ctx st m = Some (r, m')
     \<and> (case r of
          Ok (Completed res) \<Rightarrow> completed_ok rt (NodeId ''plan'') ctx res \<and> length (res_visited res) \<le> 16
        | Ok (Suspended cp) \<Rightarrow>
            checkpoint_ok rt (NodeId ''plan'') cp \<and> cp_run_id cp = ctx_run_id ctx
            \<and> cp_budget cp = ctx_limits ctx \<and> length (cp_visited cp) \<le> 16
        | Err (GraphFailure e) \<Rightarrow> error_true rt True e
        | Err MissingStore \<Rightarrow> False
        | Err (SaveFailed i cp e) \<Rightarrow> i = cp_id cp
        | Panic \<Rightarrow>
            (\<exists>ls1 m1. reaches rt w ctx True (start_state rt st) m ls1 m1
               \<and> turn rt w ctx True ls1 m1 = (Panic, m')
               \<and> (services_calm en ops ex \<longrightarrow>
                    ls_current ls1 = NodeId ''replan_decision'' \<and> unreadable_conflict en (ls_state ls1))))"
proof -
  let ?rt = "action_runtime en ops ex"
  have entry: "c_entry (rt_graph ?rt) = NodeId ''plan''"
    by (simp add: action_runtime_def compiled_def)
  have ok: "loop_ok ?rt (NodeId ''plan'') ctx (start_state ?rt st) m"
    unfolding entry [symmetric] by (rule loop_ok_start [OF action_compiled_ok assms(1)])
  have "step_cap ?rt ctx - unat (steps (mc_usage m)) < fuel"
    using action_capped(2) [of en ops ex ctx] assms(2) by simp
  then obtain r m' where run: "execute_from fuel ?rt w ctx True (start_state ?rt st) m = Some (r, m')"
    using execute_from_terminates [OF action_compiled_ok ok action_capped(1)] by fastforce
  then have "run_checkpointed_with_context fuel ?rt w ctx st m = Some (r, m')"
    by (simp add: run_checkpointed_with_context_def)
  with action_run_outcome [OF run ok] show ?thesis
    by (intro exI [of _ ?rt] exI [of _ r] exI [of _ m'] conjI build_action_graph_Ok)
qed

theorem action_graph_run_ends_witness:
  "\<exists>rt r m'. build_action_graph demo_env memory_ops obeying = Ok rt
     \<and> run_checkpointed_with_context 17 rt calm_world demo_ctx
         (agent_state_new demo_state) demo_machine_suspended = Some (r, m')
     \<and> (\<forall>res. r = Ok (Completed res) \<longrightarrow> completed_ok rt (NodeId ''plan'') demo_ctx res \<and> length (res_visited res) \<le> 16)
     \<and> (\<forall>cp. r = Ok (Suspended cp) \<longrightarrow> checkpoint_ok rt (NodeId ''plan'') cp \<and> length (cp_visited cp) \<le> 16)"
proof -
  have "within_limits (ctx_limits demo_ctx) (mc_usage demo_machine_suspended)"
    by (simp add: demo_machine_suspended_def within_limits_default)
  from action_graph_run_ends [OF this, of 17 demo_env memory_ops obeying calm_world "agent_state_new demo_state"]
  show ?thesis by (auto 0 3)
qed

section \<open>Rounds\<close>

text \<open>
  C21: in every state that a run of the action graph completes or suspends with, the planning
  observations belong to different proposals, their number is the number of replan rounds, and
  there are at most two; a checkpoint before the response leaves room for one more. This holds
  for a run started at any node in such a state, so it carries over from a suspended run to the
  resumed one, whatever the planner and the executor answer.
\<close>

theorem replan_rounds_bounded:
  assumes "build_action_graph en ops ex = Ok rt"
    and "rounds_ok (room_at (ls_current ls)) (business (ls_state ls))"
  shows "case execute_from fuel rt w ctx True ls m of
      Some (Ok (Completed c), _) \<Rightarrow> rounds_ok False (business (res_state c))
    | Some (Ok (Suspended cp), _) \<Rightarrow> rounds_ok (room_at (next_node (cp_position cp))) (business (cp_state cp))
    | _ \<Rightarrow> True"
  using assms execute_from_rounds [of fuel en ops ex w ctx True ls m]
  by (auto simp: build_action_graph_Ok split: option.split result.split graph_execution_result.split)

theorem replan_rounds_bounded_witness:
  "case execute_from 17 (action_runtime demo_env memory_ops obeying) calm_world demo_ctx True
      (start_state (action_runtime demo_env memory_ops obeying) (agent_state_new demo_state)) demo_machine_suspended of
      Some (Ok (Completed c), _) \<Rightarrow> rounds_ok False (business (res_state c))
    | Some (Ok (Suspended cp), _) \<Rightarrow> rounds_ok (room_at (next_node (cp_position cp))) (business (cp_state cp))
    | _ \<Rightarrow> True"
  by (rule replan_rounds_bounded [OF build_action_graph_Ok])
    (simp add: start_state_def agent_state_new_def demo_state_def rounds_ok_def)

section \<open>Memory conflicts\<close>

lemma conflict_fallback_panics: "conflict_fallback c reason summary = Panic"
  by (simp add: conflict_fallback_def conflict_invalid_rejected)

text \<open>
  C37: whenever an approved memory candidate conflicts with a fact that cannot be read back (no
  memory is configured, the fact is gone, or the memory fails), the replan node does not degrade
  to an invalid conflict context, as its comments say, but panics: the fallback context has an
  empty fact kind, which its own validation refuses, and so does the last resort under \<open>expect\<close>.
\<close>

theorem unreadable_conflict_panics:
  assumes "outcome st = None" and "ss_last_receipt (business st) = Some r"
    and "receipt_conflict (en_json en) r = Some c" and "\<not> conflict_recorded (business st) c"
    and "case en_memory en of
        None \<Rightarrow> True
      | Some evidence \<Rightarrow> evidence k (mcr_fact_id c) 800 \<in> {Done (Ok None), Done (Err e)}"
  shows "replan_decision_node en st ctx k = Done Panic"
  using assms
  by (auto simp: replan_decision_node_def re_read_conflict_def conflict_fallback_panics await_or_def
      split: option.splits)

theorem unreadable_conflict_panics_witness:
  "replan_decision_node demo_env
     (agent_state_new (demo_state\<lparr>ss_last_receipt := Some \<lparr>ar_proposal_id = ''p'', ar_result_ref = ''{}'',
        ar_tool_kind = Some ApproveMemoryCandidateTool\<rparr>\<rparr>)) demo_ctx 0 = Done Panic"
proof -
  let ?r = "\<lparr>ar_proposal_id = ''p'', ar_result_ref = ''{}'', ar_tool_kind = Some ApproveMemoryCandidateTool\<rparr>"
  let ?st = "agent_state_new (demo_state\<lparr>ss_last_receipt := Some ?r\<rparr>)"
  obtain c where c: "receipt_conflict (en_json demo_env) ?r = Some c"
    by (simp add: demo_env_def demo_json_def receipt_conflict_def)
  have "outcome ?st = None" "ss_last_receipt (business ?st) = Some ?r" "\<not> conflict_recorded (business ?st) c"
    by (simp_all add: agent_state_new_def conflict_recorded_def demo_state_def)
  from unreadable_conflict_panics [OF this(1,2) c this(3)] show ?thesis
    by (simp add: demo_env_def)
qed

section \<open>Rejection\<close>

text \<open>A rejected proposal runs no effect, but when an observation of an earlier query is the last
  receipt and a round is left, the router sends the run back to the plan node instead of to the
  response.\<close>

theorem rejection_returns_to_plan:
  assumes "ss_pending_proposal s = Some p" and "ap_proposal_id p = sri_proposal_id input"
    and "sri_decision input = Reject" and "ss_last_receipt s = Some r" and "ar_tool_kind r = Some k"
    and "is_replan_observation_tool k" and "ss_replan_round s < max_replan_rounds"
    and "list_ex (\<lambda>ob. pto_proposal_id ob = ar_proposal_id r) (ss_planning_observations s)"
    and "outcome st = None" and "secretary_apply_update json_size s (ApprovalResolved input) = (Ok (), business st)"
  shows "l0_execute_node st ctx t = Done (Ok node_result_empty)"
    and "select (replan_router J) st = Ok (RouteKey ''continue'')"
proof -
  have s: "business st = s\<lparr>ss_phase := Respond\<rparr>"
    using assms(1,2,3,10) by (simp add: secretary_apply_update_def)
  have "k \<noteq> ApproveMemoryCandidateTool"
    using assms(6) by (auto simp: is_replan_observation_tool_def)
  with assms s show "select (replan_router J) st = Ok (RouteKey ''continue'')"
    by (simp add: replan_router_def wants_replan_def receipt_conflict_def)
  show "l0_execute_node st ctx t = Done (Ok node_result_empty)"
    by (simp add: l0_execute_node_def s)
qed

end
