(* ===== verification/Spool_Files.thy ===== *)
theory Spool_Files
  imports Realtime_Spool
begin

text \<open>
  The files of the message spool and what the operating system does to them
  (\<open>qqbot-server/src/infrastructure/realtime_spool.rs\<close>). A file is its bytes with the number of
  bytes that \<open>sync_all\<close> has made durable. A call that may fail asks \<open>spool_io\<close>, an argument of every
  operation, at a label (and an index, for calls in a loop); a failed \<open>write_all\<close> leaves any
  prefix of its bytes. Allocated sizes follow the \<open>unix\<close> branch of the sources (blocks of 512
  bytes) and are answers of the system as well, not functions of the lengths. The five files are
  distinct here; the validation of the configuration refuses a checkpoint path equal to the log's
  and the like, but not every coincidence with the name of a temporary file, for instance a log
  whose path is that of the checkpoint's \<open>.tmp\<close> file.

  A crash of the machine keeps of each file at least the durable bytes, and may bring back what an
  unfinished replacement, creation or truncation has not yet made durable.
\<close>

section \<open>Errors\<close>

datatype spool_failure = SpoolFailure (failure_kind: spool_fatal_kind) (failure_stage: string)

section \<open>Files\<close>

datatype spool_file = WalFile | CheckpointFile | CompactTemp | CheckpointTemp | LockFile

record file_image =
  fi_data :: "u8 list"
  fi_synced :: nat

record spool_disk =
  dk_files :: "spool_file \<Rightarrow> file_image option"
  dk_stale :: "spool_file \<Rightarrow> file_image option option"

datatype file_metadata = RegularFile nat | OtherFile | NotFound | MetadataFails

datatype quarantine_entry = EntryFails | QuarantineEntry file_metadata file_metadata

record spool_io =
  io_fails :: "string \<Rightarrow> nat \<Rightarrow> bool"
  io_torn :: "string \<Rightarrow> nat"
  io_blocks :: "nat \<Rightarrow> spool_file \<Rightarrow> nat option"
  io_quarantine :: "nat \<Rightarrow> quarantine_entry list option"
  io_nonce :: "u8 list option"
  io_uuid :: "u8 list"
  io_env :: "string \<Rightarrow> string option"

definition file_data :: "spool_disk \<Rightarrow> spool_file \<Rightarrow> u8 list" where
  "file_data d f = (case dk_files d f of None \<Rightarrow> [] | Some i \<Rightarrow> fi_data i)"

definition file_exists :: "spool_disk \<Rightarrow> spool_file \<Rightarrow> bool" where
  "file_exists d f \<longleftrightarrow> dk_files d f \<noteq> None"

section \<open>Calls\<close>

definition io_check ::
  "spool_io \<Rightarrow> string \<Rightarrow> nat \<Rightarrow> spool_fatal_kind \<Rightarrow> string \<Rightarrow> (spool_failure, unit) result" where
  "io_check io label i kind stage = ensure (\<not> io_fails io label i) (SpoolFailure kind stage)"

text \<open>A step that only reads the disk.\<close>

definition reading :: "('s \<Rightarrow> ('e, 'a) result) \<Rightarrow> ('s, 'e, 'a) action" where
  "reading f s = (f s, s)"

definition put_image :: "spool_file \<Rightarrow> file_image option \<Rightarrow> spool_disk \<Rightarrow> spool_disk" where
  "put_image f i d = d\<lparr>dk_files := (dk_files d)(f := i)\<rparr>"

definition mark_stale :: "spool_file \<Rightarrow> spool_disk \<Rightarrow> spool_disk" where
  "mark_stale f d = d\<lparr>dk_stale := (dk_stale d)(f := Some (dk_files d f))\<rparr>"

definition settle :: "spool_file \<Rightarrow> spool_disk \<Rightarrow> spool_disk" where
  "settle f d = d\<lparr>dk_stale := (dk_stale d)(f := None)\<rparr>"

definition append_bytes :: "spool_file \<Rightarrow> u8 list \<Rightarrow> spool_disk \<Rightarrow> spool_disk" where
  "append_bytes f bs d =
     (case dk_files d f of
        None \<Rightarrow> d
      | Some i \<Rightarrow> put_image f (Some (i\<lparr>fi_data := fi_data i @ bs\<rparr>)) d)"

definition write_all ::
  "spool_io \<Rightarrow> string \<Rightarrow> nat \<Rightarrow> spool_file \<Rightarrow> u8 list \<Rightarrow> spool_failure \<Rightarrow>
     (spool_disk, spool_failure, unit) action" where
  "write_all io label i f bs err d =
     (if io_fails io label i then (Err err, append_bytes f (take (io_torn io label) bs) d)
      else (Ok (), append_bytes f bs d))"

definition sync_bytes :: "spool_file \<Rightarrow> spool_disk \<Rightarrow> spool_disk" where
  "sync_bytes f d =
     (case dk_files d f of
        None \<Rightarrow> d
      | Some i \<Rightarrow> put_image f (Some (i\<lparr>fi_synced := length (fi_data i)\<rparr>)) d)"

definition sync_all ::
  "spool_io \<Rightarrow> string \<Rightarrow> spool_file \<Rightarrow> spool_failure \<Rightarrow> (spool_disk, spool_failure, unit) action" where
  "sync_all io label f err d =
     (if io_fails io label 0 then (Err err, d) else (Ok (), sync_bytes f d))"

definition open_truncated ::
  "spool_io \<Rightarrow> string \<Rightarrow> spool_file \<Rightarrow> spool_failure \<Rightarrow> (spool_disk, spool_failure, unit) action" where
  "open_truncated io label f err d =
     (if io_fails io label 0 then (Err err, d)
      else (Ok (), put_image f (Some \<lparr>fi_data = [], fi_synced = 0\<rparr>) d))"

definition create_new ::
  "spool_io \<Rightarrow> string \<Rightarrow> spool_file \<Rightarrow> spool_failure \<Rightarrow> (spool_disk, spool_failure, unit) action" where
  "create_new io label f err d =
     (if io_fails io label 0 \<or> file_exists d f then (Err err, d)
      else (Ok (), put_image f (Some \<lparr>fi_data = [], fi_synced = 0\<rparr>) (mark_stale f d)))"

definition set_len ::
  "spool_io \<Rightarrow> string \<Rightarrow> spool_file \<Rightarrow> nat \<Rightarrow> spool_failure \<Rightarrow> (spool_disk, spool_failure, unit) action" where
  "set_len io label f n err d =
     (if io_fails io label 0 then (Err err, d)
      else (Ok (),
        case dk_files d f of
          None \<Rightarrow> d
        | Some i \<Rightarrow> put_image f (Some \<lparr>fi_data = take n (fi_data i), fi_synced = min n (fi_synced i)\<rparr>)
                     (mark_stale f d)))"

definition rename_file ::
  "spool_io \<Rightarrow> string \<Rightarrow> spool_file \<Rightarrow> spool_file \<Rightarrow> spool_failure \<Rightarrow>
     (spool_disk, spool_failure, unit) action" where
  "rename_file io label src dst err d =
     (if io_fails io label 0 then (Err err, d)
      else (Ok (), put_image src None (put_image dst (dk_files d src) (mark_stale dst d))))"

definition sync_parent ::
  "spool_io \<Rightarrow> string \<Rightarrow> spool_file \<Rightarrow> (spool_disk, spool_failure, unit) action" where
  "sync_parent io label f d =
     (if io_fails io label 0 then (Err (SpoolFailure SyncFailed ''parent_sync''), d) else (Ok (), settle f d))"

definition remove_non_authoritative_temp ::
  "spool_io \<Rightarrow> string \<Rightarrow> spool_file \<Rightarrow> (spool_disk, spool_failure, unit) action" where
  "remove_non_authoritative_temp io label f d =
     (if \<not> file_exists d f then (Ok (), d)
      else if io_fails io label 0 then (Err (SpoolFailure RecoveryInvariantViolation ''temp_cleanup''), d)
      else sync_parent io (label @ ''_sync'') f (put_image f None (mark_stale f d)))"

text \<open>
  \<open>durable_replace\<close>: the atomic replacement, then the durability of the new file and of the
  directory entry. (\<open>inject_failure\<close> is empty outside the tests.)
\<close>

definition durable_replace ::
  "spool_io \<Rightarrow> string \<Rightarrow> spool_file \<Rightarrow> spool_file \<Rightarrow> (spool_disk, spool_failure, unit) action" where
  "durable_replace io label src dst =
     seq (rename_file io (label @ ''_replace'') src dst (SpoolFailure CheckpointFailed ''replace'')) (\<lambda>_.
     seq (sync_all io (label @ ''_replace_sync'') dst (SpoolFailure SyncFailed ''replace_sync'')) (\<lambda>_.
       sync_parent io (label @ ''_parent_sync'') dst))"

section \<open>Sizes\<close>

text \<open>\<open>u64\<close> values are natural numbers below \<open>2 ^ 64\<close>.\<close>

definition u64_max :: nat where "u64_max = 2 ^ 64 - 1"

definition saturating_add64 :: "nat \<Rightarrow> nat \<Rightarrow> nat" where
  "saturating_add64 a b = min (a + b) u64_max"

definition metadata_at :: "spool_io \<Rightarrow> nat \<Rightarrow> spool_disk \<Rightarrow> spool_file \<Rightarrow> file_metadata" where
  "metadata_at io site d f =
     (if file_exists d f
      then (case io_blocks io site f of None \<Rightarrow> MetadataFails | Some blocks \<Rightarrow> RegularFile blocks)
      else NotFound)"

definition file_len :: "spool_io \<Rightarrow> nat \<Rightarrow> spool_disk \<Rightarrow> spool_file \<Rightarrow> (spool_failure, nat) result" where
  "file_len io site d f =
     (case metadata_at io site d f of
        RegularFile _ \<Rightarrow> Ok (length (file_data d f))
      | OtherFile \<Rightarrow> Err (SpoolFailure RecoveryInvariantViolation ''path_type'')
      | NotFound \<Rightarrow> Ok 0
      | MetadataFails \<Rightarrow> Err (SpoolFailure RecoveryInvariantViolation ''metadata''))"

definition allocated_bytes :: "file_metadata \<Rightarrow> (spool_failure, nat) result" where
  "allocated_bytes m =
     (case m of
        RegularFile blocks \<Rightarrow> Ok (min (blocks * 512) u64_max)
      | OtherFile \<Rightarrow> Err (SpoolFailure RecoveryInvariantViolation ''path_type'')
      | NotFound \<Rightarrow> Ok 0
      | MetadataFails \<Rightarrow> Err (SpoolFailure RecoveryInvariantViolation ''allocated_size''))"

definition allocated_file_bytes ::
  "spool_io \<Rightarrow> nat \<Rightarrow> spool_disk \<Rightarrow> spool_file \<Rightarrow> (spool_failure, nat) result" where
  "allocated_file_bytes io site d f = allocated_bytes (metadata_at io site d f)"

definition entry_bytes :: "nat \<Rightarrow> quarantine_entry \<Rightarrow> (spool_failure, nat) result" where
  "entry_bytes acc e =
     (case e of
        EntryFails \<Rightarrow> Err (SpoolFailure RecoveryInvariantViolation ''quarantine_entry'')
      | QuarantineEntry m alloc \<Rightarrow>
          (case m of
             RegularFile _ \<Rightarrow> bind_r (allocated_bytes alloc) (\<lambda>n. Ok (saturating_add64 acc n))
           | OtherFile \<Rightarrow> Err (SpoolFailure RecoveryInvariantViolation ''quarantine_type'')
           | _ \<Rightarrow> Err (SpoolFailure RecoveryInvariantViolation ''quarantine_metadata'')))"

definition directory_file_bytes :: "spool_io \<Rightarrow> nat \<Rightarrow> (spool_failure, nat) result" where
  "directory_file_bytes io site =
     (case io_quarantine io site of
        None \<Rightarrow> Err (SpoolFailure RecoveryInvariantViolation ''quarantine_read'')
      | Some es \<Rightarrow> try_fold entry_bytes 0 es)"

definition entry_count :: "nat \<Rightarrow> quarantine_entry \<Rightarrow> (spool_failure, nat) result" where
  "entry_count acc e =
     (case e of
        EntryFails \<Rightarrow> Err (SpoolFailure RecoveryInvariantViolation ''dir_entry'')
      | QuarantineEntry m _ \<Rightarrow>
          (case m of
             RegularFile _ \<Rightarrow> Ok (saturating_add64 acc 1)
           | OtherFile \<Rightarrow> Ok acc
           | _ \<Rightarrow> Err (SpoolFailure RecoveryInvariantViolation ''dir_type'')))"

definition directory_file_count :: "spool_io \<Rightarrow> nat \<Rightarrow> (spool_failure, nat) result" where
  "directory_file_count io site =
     (case io_quarantine io site of
        None \<Rightarrow> Err (SpoolFailure RecoveryInvariantViolation ''dir_read'')
      | Some es \<Rightarrow> try_fold entry_count 0 es)"

definition metadata_bytes :: "spool_io \<Rightarrow> nat \<Rightarrow> spool_disk \<Rightarrow> (spool_failure, nat) result" where
  "metadata_bytes io site d =
     bind_r (allocated_file_bytes io site d CheckpointFile) (\<lambda>a.
     bind_r (allocated_file_bytes io site d CheckpointTemp) (\<lambda>b.
     bind_r (allocated_file_bytes io site d LockFile) (\<lambda>c.
       Ok (saturating_add64 (saturating_add64 a b) c))))"

definition disk_usage :: "spool_io \<Rightarrow> nat \<Rightarrow> spool_disk \<Rightarrow> (spool_failure, nat) result" where
  "disk_usage io site d =
     bind_r (allocated_file_bytes io site d WalFile) (\<lambda>w.
     bind_r (allocated_file_bytes io site d CompactTemp) (\<lambda>t.
     bind_r (directory_file_bytes io site) (\<lambda>q.
     bind_r (metadata_bytes io site d) (\<lambda>m.
       Ok (saturating_add64 (saturating_add64 (saturating_add64 w t) q) m)))))"

section \<open>Crashes\<close>

definition crash_image :: "file_image option \<Rightarrow> file_image option \<Rightarrow> bool" where
  "crash_image v w \<longleftrightarrow>
     (case v of
        None \<Rightarrow> w = None
      | Some i \<Rightarrow>
          \<exists>n. fi_synced i \<le> n
            \<and> w = Some \<lparr>fi_data = take n (fi_data i), fi_synced = length (take n (fi_data i))\<rparr>)"

definition crashes :: "spool_disk \<Rightarrow> spool_disk \<Rightarrow> bool" where
  "crashes d d' \<longleftrightarrow>
     (\<forall>f. dk_stale d' f = None
        \<and> (crash_image (dk_files d f) (dk_files d' f)
           \<or> (\<exists>v. dk_stale d f = Some v \<and> crash_image v (dk_files d' f))))"

section \<open>Lemmas\<close>

lemmas spool_call_defs =
  io_check_def reading_def write_all_def sync_all_def open_truncated_def create_new_def set_len_def
  rename_file_def sync_parent_def remove_non_authoritative_temp_def

lemma reading_eq [result_simps]: "reading f s = (r, t) \<longleftrightarrow> f s = r \<and> t = s"
  by (auto simp: reading_def)

text \<open>A guard either ends the operation, with the disk as it was, or lets it go on.\<close>

definition not_ok :: "('e, 'a) result \<Rightarrow> bool" where
  "not_ok r \<longleftrightarrow> (\<forall>a. r \<noteq> Ok a)"

lemma not_ok_simps [simp]: "not_ok (Err e)" "not_ok Panic" "\<not> not_ok (Ok a)"
  by (simp_all add: not_ok_def)

lemma guard_lift:
  "seq (lift_r x) f d = (r, d') \<Longrightarrow> d' = d \<and> not_ok r \<or> (\<exists>a. x = Ok a \<and> f a d = (r, d'))"
  by (cases x) (auto simp: seq_def lift_r_def)

lemma guard_reading:
  "seq (reading g) f d = (r, d') \<Longrightarrow> d' = d \<and> not_ok r \<or> (\<exists>a. g d = Ok a \<and> f a d = (r, d'))"
  by (cases "g d") (auto simp: seq_def reading_def)

lemma guard_seq:
  "seq m f d = (r, d') \<Longrightarrow> (\<exists>q. m d = (q, d') \<and> not_ok q \<and> not_ok r) \<or> (\<exists>a t. m d = (Ok a, t) \<and> f a t = (r, d'))"
  by (auto simp: seq_def split: prod.splits result.splits)

lemma guard_seq_unit:
  fixes m :: "('s, 'e, unit) action"
  shows "seq m f d = (r, d') \<Longrightarrow>
    (\<exists>q. m d = (q, d') \<and> not_ok q \<and> not_ok r) \<or> (\<exists>t. m d = (Ok (), t) \<and> f () t = (r, d'))"
  by (auto simp: seq_def split: prod.splits result.splits)

text \<open>What the effects of the calls do to the files, one simplification rule each.\<close>

named_theorems disk_simps \<open>effects of the calls on files and stale images\<close>

lemma put_image_files [disk_simps]:
  "dk_files (put_image f i d) = (dk_files d)(f := i)" "dk_stale (put_image f i d) = dk_stale d"
  by (simp_all add: put_image_def)

lemma mark_stale_files [disk_simps]:
  "dk_files (mark_stale f d) = dk_files d" "dk_stale (mark_stale f d) = (dk_stale d)(f := Some (dk_files d f))"
  by (simp_all add: mark_stale_def)

lemma settle_files [disk_simps]:
  "dk_files (settle f d) = dk_files d" "dk_stale (settle f d) = (dk_stale d)(f := None)"
  by (simp_all add: settle_def)

lemma append_bytes_files [disk_simps]:
  "dk_files (append_bytes f bs d) =
     (dk_files d)(f := map_option (\<lambda>i. i\<lparr>fi_data := fi_data i @ bs\<rparr>) (dk_files d f))"
  "dk_stale (append_bytes f bs d) = dk_stale d"
  by (auto simp: append_bytes_def disk_simps fun_eq_iff split: option.splits)

lemma sync_bytes_files [disk_simps]:
  "dk_files (sync_bytes f d) =
     (dk_files d)(f := map_option (\<lambda>i. i\<lparr>fi_synced := length (fi_data i)\<rparr>) (dk_files d f))"
  "dk_stale (sync_bytes f d) = dk_stale d"
  by (auto simp: sync_bytes_def disk_simps fun_eq_iff split: option.splits)

text \<open>Durable files survive a crash; the calls of an operation touch the files they name.\<close>

definition durable :: "u8 list \<Rightarrow> file_image" where
  "durable bs = \<lparr>fi_data = bs, fi_synced = length bs\<rparr>"

lemma fi_durable [simp]: "fi_data (durable bs) = bs" "fi_synced (durable bs) = length bs"
  by (simp_all add: durable_def)

lemma crash_image_durable: "crash_image (Some (durable bs)) w \<longleftrightarrow> w = Some (durable bs)"
  by (auto simp: crash_image_def durable_def)

lemma crash_image_None: "crash_image None w \<longleftrightarrow> w = None"
  by (simp add: crash_image_def)

lemma crashes_kept:
  assumes "crashes d d'" "dk_stale d f = None"
  shows "crash_image (dk_files d f) (dk_files d' f)" "dk_stale d' f = None"
  using assms by (auto simp: crashes_def)

lemma crashes_stale:
  assumes "crashes d d'" "dk_stale d f = Some v"
  shows "crash_image (dk_files d f) (dk_files d' f) \<or> crash_image v (dk_files d' f)"
  using assms by (auto simp: crashes_def)

definition only :: "spool_file set \<Rightarrow> spool_disk \<Rightarrow> spool_disk \<Rightarrow> bool" where
  "only F d d' \<longleftrightarrow> (\<forall>f. f \<notin> F \<longrightarrow> dk_files d' f = dk_files d f \<and> dk_stale d' f = dk_stale d f)"

lemma onlyD: "only F d d' \<Longrightarrow> f \<notin> F \<Longrightarrow> dk_files d' f = dk_files d f \<and> dk_stale d' f = dk_stale d f"
  by (simp add: only_def)

lemma only_refl [intro, simp]: "only F d d"
  by (simp add: only_def)

lemma only_trans: "only F a b \<Longrightarrow> only F b c \<Longrightarrow> only F a c"
  by (simp add: only_def)

lemma only_seq:
  assumes "seq m f s = (r, u)"
    and "\<And>q t. m s = (q, t) \<Longrightarrow> only F s t"
    and "\<And>a t q v. m s = (Ok a, t) \<Longrightarrow> f a t = (q, v) \<Longrightarrow> only F t v"
  shows "only F s u"
  by (rule seq_state [OF assms(1)]) (use assms(2,3) only_trans in blast)+

text \<open>Work on a temporary file.\<close>

definition scratch :: "spool_file \<Rightarrow> spool_disk \<Rightarrow> spool_disk \<Rightarrow> bool" where
  "scratch f d d' \<longleftrightarrow> only {f} d d' \<and> dk_stale d' f = dk_stale d f"

lemma scratch_refl [intro, simp]: "scratch f d d"
  by (simp add: scratch_def)

lemma scratch_trans: "scratch f a b \<Longrightarrow> scratch f b c \<Longrightarrow> scratch f a c"
  by (auto simp: scratch_def intro: only_trans)

lemma scratchD:
  assumes "scratch f d d'"
  shows "g \<noteq> f \<Longrightarrow> dk_files d' g = dk_files d g" "dk_stale d' g = dk_stale d g"
  using assms by (cases "g = f"; simp add: scratch_def only_def)+

lemma scratch_calls:
  "write_all io l i f bs e d = (r, d') \<Longrightarrow> scratch f d d'"
  "sync_all io l f e d = (r, d') \<Longrightarrow> scratch f d d'"
  "open_truncated io l f e d = (r, d') \<Longrightarrow> scratch f d d'"
  by (auto simp: spool_call_defs scratch_def only_def disk_simps split: if_splits)

lemma calls_Ok:
  "write_all io l i f bs e d = (Ok u, d') \<Longrightarrow> d' = append_bytes f bs d"
  "sync_all io l f e d = (Ok u, d') \<Longrightarrow> d' = sync_bytes f d"
  "open_truncated io l f e d = (Ok u, d') \<Longrightarrow> dk_files d' f = Some \<lparr>fi_data = [], fi_synced = 0\<rparr>"
  by (auto simp: spool_call_defs disk_simps split: if_splits)

text \<open>\<open>durable_replace\<close>: the target holds the old file or the new one, and a crash cannot show
  anything else.\<close>

definition replaced :: "spool_file \<Rightarrow> spool_file \<Rightarrow> u8 list \<Rightarrow> spool_disk \<Rightarrow> spool_disk \<Rightarrow> bool" where
  "replaced src dst bs d d' \<longleftrightarrow>
     only {src, dst} d d'
     \<and> (dk_files d' dst = dk_files d dst \<and> dk_stale d' dst = dk_stale d dst
        \<or> dk_files d' dst = Some (durable bs) \<and> dk_stale d' dst \<in> {None, Some (dk_files d dst)})
     \<and> dk_stale d' src = dk_stale d src"

lemma durable_replace_state:
  assumes "durable_replace io l src dst d = (r, d')" and "src \<noteq> dst" and "dk_files d src = Some (durable bs)"
  shows "replaced src dst bs d d'"
    and "r = Ok () \<Longrightarrow> dk_files d' dst = Some (durable bs) \<and> dk_stale d' dst = None \<and> dk_files d' src = None"
  using assms
  by (auto simp: durable_replace_def seq_def rename_file_def sync_all_def sync_parent_def replaced_def only_def
      disk_simps durable_def split: if_splits)

lemma scratch_replaced:
  assumes "scratch src d e" "replaced src dst bs e d'" "src \<noteq> dst"
  shows "replaced src dst bs d d'"
  using assms scratchD [OF assms(1)]
  by (auto simp: replaced_def scratch_def only_def)

lemma scratch_is_replaced: "scratch src d d' \<Longrightarrow> src \<noteq> dst \<Longrightarrow> replaced src dst bs d d'"
  by (auto simp: replaced_def scratch_def only_def)

lemma crash_replaced:
  assumes "replaced src dst bs d d'" "crashes d' d''" "dk_stale d dst = None"
    and "dk_files d dst = None \<or> (\<exists>old. dk_files d dst = Some (durable old))"
  shows "dk_files d'' dst = dk_files d dst \<or> dk_files d'' dst = Some (durable bs)"
proof (cases "dk_stale d' dst")
  case None
  with crashes_kept(1) [OF assms(2) None] assms(1,3,4) show ?thesis
    by (auto simp: replaced_def crash_image_durable crash_image_None)
next
  case (Some v)
  with crashes_stale [OF assms(2) Some] assms(1,3,4) show ?thesis
    by (auto simp: replaced_def crash_image_durable crash_image_None)
qed

end
