(* ===== verification/Message_Spool.thy ===== *)
theory Message_Spool
  imports Spool_Files
begin

text \<open>
  The durable spool of ordinary messages (\<open>qqbot-server/src/infrastructure/realtime_spool.rs\<close>): the
  byte format of the write-ahead log and of the checkpoint, appending a frame, scanning and
  repairing the log, advancing the checkpoint, compaction and opening. What the crates \<open>ring\<close>,
  \<open>serde_json\<close>, \<open>base64\<close> and \<open>uuid\<close> compute is the record \<open>spool_lib\<close>, an argument; a UUID is its
  16 bytes. Every operation holds \<open>operation_lock\<close> from its first to its last step, so operations
  are transitions of the disk; a poisoned lock is a failing call.
\<close>

section \<open>Constants and configuration\<close>

definition bytes_of :: "string \<Rightarrow> u8 list" where
  "bytes_of s = map of_char s"

definition wal_magic :: "u8 list" where "wal_magic = bytes_of ''QMWL''"
definition frame_magic :: "u8 list" where "frame_magic = bytes_of ''QMFR''"
definition checkpoint_magic :: "u8 list" where "checkpoint_magic = bytes_of ''QMCP''"
definition format_version :: u8 where "format_version = 1"
definition tag_len :: nat where "tag_len = 16"
definition wal_header_len :: nat where "wal_header_len = 4 + 1 + 16 + 16 + 16"
definition frame_header_len :: nat where "frame_header_len = 4 + 1 + 16 + 4 + 12"
definition default_max_frame_plaintext :: nat where "default_max_frame_plaintext = 1024 * 1024"
definition active_wal_bytes :: nat where "active_wal_bytes = 240 * 1024 * 1024"
definition compact_temp_bytes :: nat where "compact_temp_bytes = 240 * 1024 * 1024"
definition quarantine_limit_bytes :: nat where "quarantine_limit_bytes = 16 * 1024 * 1024"
definition metadata_limit_bytes :: nat where "metadata_limit_bytes = 16 * 1024 * 1024"
definition total_limit_bytes :: nat where "total_limit_bytes = 512 * 1024 * 1024"
definition allocation_granularity_reserve :: nat where "allocation_granularity_reserve = 64 * 1024"

record spool_config =
  cfg_wal_path :: string
  cfg_checkpoint_path :: string
  cfg_quarantine_dir :: string
  cfg_key_env :: string
  cfg_max_plaintext :: nat

definition spool_config_new :: "string \<Rightarrow> string \<Rightarrow> string \<Rightarrow> string \<Rightarrow> spool_config" where
  "spool_config_new wal ckpt q key =
     \<lparr>cfg_wal_path = wal, cfg_checkpoint_path = ckpt, cfg_quarantine_dir = q, cfg_key_env = key,
      cfg_max_plaintext = default_max_frame_plaintext\<rparr>"

text \<open>Paths are compared by their components: repeated separators and inner dots do not count.\<close>

fun split_at_slash :: "string \<Rightarrow> string \<Rightarrow> string list" where
  "split_at_slash acc [] = [rev acc]"
| "split_at_slash acc (c # s) =
     (if c = CHR ''/'' then rev acc # split_at_slash [] s else split_at_slash (c # acc) s)"

definition path_components :: "string \<Rightarrow> bool \<times> string list" where
  "path_components p =
     (let cs = split_at_slash [] p in
      (take 1 p = ''/'',
       (if take 1 cs = [''.''] then [''.''] else [])
       @ filter (\<lambda>c. c \<noteq> [] \<and> c \<noteq> ''.'') cs))"

definition same_path :: "string \<Rightarrow> string \<Rightarrow> bool" where
  "same_path p q \<longleftrightarrow> path_components p = path_components q"

definition spool_config_validate :: "spool_config \<Rightarrow> (spool_failure, unit) result" where
  "spool_config_validate c =
     (if cfg_wal_path c = [] \<or> cfg_checkpoint_path c = [] \<or> cfg_quarantine_dir c = []
        \<or> is_blank (cfg_key_env c)
      then Err (SpoolFailure RecoveryInvariantViolation ''config'')
      else if same_path (cfg_wal_path c) (cfg_checkpoint_path c)
        \<or> same_path (cfg_wal_path c) (cfg_quarantine_dir c)
        \<or> same_path (cfg_checkpoint_path c) (cfg_quarantine_dir c)
        \<or> cfg_max_plaintext c = 0 \<or> default_max_frame_plaintext < cfg_max_plaintext c
      then Err (SpoolFailure RecoveryInvariantViolation ''config'')
      else Ok ())"

section \<open>Data\<close>

record stored_frame =
  stf_admission :: spool_admission_id
  stf_record :: spool_record_id
  stf_epoch :: connection_epoch_id
  stf_message :: envelope

record stored_checkpoint =
  sck_generation :: spool_generation_id
  sck_last :: "spool_record_id option"

record scanned_frame =
  scf_stored :: stored_frame
  scf_recovered :: recovered_frame
  scf_offset :: nat
  scf_len :: nat

record scanned_wal =
  scw_base :: "spool_record_id option"
  scw_frames :: "scanned_frame list"
  scw_truncated :: bool

record spool_lib =
  lib_seal :: "u8 list \<Rightarrow> u8 list \<Rightarrow> u8 list \<Rightarrow> u8 list \<Rightarrow> u8 list option"
  lib_open :: "u8 list \<Rightarrow> u8 list \<Rightarrow> u8 list \<Rightarrow> u8 list \<Rightarrow> u8 list option"
  lib_sha256 :: "u8 list \<Rightarrow> u8 list"
  lib_base64 :: "string \<Rightarrow> u8 list option"
  lib_uuid_str :: "u8 list \<Rightarrow> string"
  lib_uuid_parse :: "string \<Rightarrow> u8 list option"
  lib_enc_frame :: "stored_frame \<Rightarrow> u8 list option"
  lib_dec_frame :: "u8 list \<Rightarrow> stored_frame option"
  lib_enc_checkpoint :: "stored_checkpoint \<Rightarrow> u8 list option"
  lib_dec_checkpoint :: "u8 list \<Rightarrow> stored_checkpoint option"

record message_spool =
  spl_config :: spool_config
  spl_key :: "u8 list"
  spl_key_id :: "u8 list"
  spl_generation_uuid :: "u8 list"
  spl_generation :: spool_generation_id

definition uuid_nil :: "u8 list" where "uuid_nil = replicate 16 0"

definition spool_generation_id_new :: "string \<Rightarrow> (spool_error, spool_generation_id) result" where
  "spool_generation_id_new v =
     bind_r (spool_id_check ''realtime_spool_generation_id'' v) (\<lambda>_. Ok (SpoolGenerationId v))"

definition spool_admission_id_new :: "string \<Rightarrow> (spool_error, spool_admission_id) result" where
  "spool_admission_id_new v =
     bind_r (spool_id_check ''realtime_spool_admission_id'' v) (\<lambda>_. Ok (SpoolAdmissionId v))"

section \<open>Telemetry\<close>

record spool_telemetry =
  tm_observed :: bool
  tm_usable :: bool
  tm_bytes_used :: nat
  tm_pending_frames :: nat
  tm_oldest :: nat
  tm_quarantine :: nat
  tm_recent_error :: nat
  tm_reconciliation :: bool

definition telemetry_default :: spool_telemetry where
  "telemetry_default =
     \<lparr>tm_observed = False, tm_usable = False, tm_bytes_used = 0, tm_pending_frames = 0, tm_oldest = 0,
      tm_quarantine = 0, tm_recent_error = 0, tm_reconciliation = False\<rparr>"

definition oldest_of :: "scanned_frame list \<Rightarrow> nat" where
  "oldest_of pending =
     (case pending of
        [] \<Rightarrow> 0
      | f # _ \<Rightarrow> nat (max (occurred_at (rf_message (scf_recovered f))) 0))"

definition telemetry_initialize ::
  "nat \<Rightarrow> scanned_frame list \<Rightarrow> nat \<Rightarrow> spool_telemetry \<Rightarrow> spool_telemetry" where
  "telemetry_initialize bytes pending quarantined t =
     t\<lparr>tm_observed := True, tm_usable := True, tm_bytes_used := bytes,
       tm_pending_frames := length pending, tm_oldest := oldest_of pending, tm_quarantine := quarantined\<rparr>"

definition telemetry_append :: "nat \<Rightarrow> i64 \<Rightarrow> spool_telemetry \<Rightarrow> spool_telemetry" where
  "telemetry_append bytes at t =
     t\<lparr>tm_pending_frames := (tm_pending_frames t + 1) mod 2 ^ 64,
       tm_oldest := (if tm_pending_frames t = 0 then nat (max at 0) else tm_oldest t),
       tm_bytes_used := bytes, tm_usable := True, tm_recent_error := 0\<rparr>"

definition telemetry_checkpoint :: "nat \<Rightarrow> scanned_frame list \<Rightarrow> spool_telemetry \<Rightarrow> spool_telemetry" where
  "telemetry_checkpoint bytes remaining t =
     t\<lparr>tm_bytes_used := bytes, tm_pending_frames := length remaining, tm_oldest := oldest_of remaining,
       tm_usable := True, tm_recent_error := 0\<rparr>"

primrec fatal_code :: "spool_fatal_kind \<Rightarrow> nat" where
  "fatal_code KeyUnavailable = 1"
| "fatal_code LockUnavailable = 2"
| "fatal_code CapacityExhausted = 3"
| "fatal_code AppendFailed = 4"
| "fatal_code SyncFailed = 5"
| "fatal_code WriterStopped = 6"
| "fatal_code CheckpointFailed = 7"
| "fatal_code RecoveryCorruptFrame = 8"
| "fatal_code RecoveryInvariantViolation = 9"
| "fatal_code ReconciliationFailed = 10"

definition fatal_code_name :: "nat \<Rightarrow> string option" where
  "fatal_code_name code =
     (if code = 0 then None
      else Some
       (if code = 1 then ''key_unavailable''
        else if code = 2 then ''lock_unavailable''
        else if code = 3 then ''capacity_exhausted''
        else if code = 4 then ''append_failed''
        else if code = 5 then ''sync_failed''
        else if code = 6 then ''writer_stopped''
        else if code = 7 then ''checkpoint_failed''
        else if code = 8 then ''recovery_corrupt_frame''
        else if code = 9 then ''recovery_invariant_violation''
        else if code = 10 then ''reconciliation_failed''
        else ''unknown_spool_error''))"

definition mark_fatal :: "spool_fatal_kind \<Rightarrow> spool_telemetry \<Rightarrow> spool_telemetry" where
  "mark_fatal k t = t\<lparr>tm_observed := True, tm_usable := False, tm_recent_error := fatal_code k\<rparr>"

definition set_reconciliation_pending :: "bool \<Rightarrow> spool_telemetry \<Rightarrow> spool_telemetry" where
  "set_reconciliation_pending b t = t\<lparr>tm_reconciliation := b\<rparr>"

record telemetry_snapshot =
  sn_observed :: bool
  sn_usable :: bool
  sn_bytes_used :: nat
  sn_capacity :: nat
  sn_pending_frames :: nat
  sn_oldest :: "i64 option"
  sn_quarantine :: nat
  sn_recent_error :: "string option"
  sn_reconciliation :: bool

definition snapshot :: "spool_telemetry \<Rightarrow> telemetry_snapshot" where
  "snapshot t =
     \<lparr>sn_observed = tm_observed t, sn_usable = tm_usable t, sn_bytes_used = tm_bytes_used t,
      sn_capacity = total_limit_bytes, sn_pending_frames = tm_pending_frames t,
      sn_oldest = (if 0 < tm_oldest t then Some (min (int (tm_oldest t)) i64_max) else None),
      sn_quarantine = tm_quarantine t, sn_recent_error = fatal_code_name (tm_recent_error t),
      sn_reconciliation = tm_reconciliation t\<rparr>"

text \<open>An open spool: the disk and the telemetry.\<close>

record spool_state =
  sst_disk :: spool_disk
  sst_telemetry :: spool_telemetry

definition on_disk :: "(spool_disk, 'e, 'a) action \<Rightarrow> (spool_state, 'e, 'a) action" where
  "on_disk act st = (case act (sst_disk st) of (r, d) \<Rightarrow> (r, st\<lparr>sst_disk := d\<rparr>))"

definition on_telemetry :: "(spool_telemetry \<Rightarrow> spool_telemetry) \<Rightarrow> (spool_state, 'e, unit) action" where
  "on_telemetry f st = (Ok (), st\<lparr>sst_telemetry := f (sst_telemetry st)\<rparr>)"

section \<open>Byte formats\<close>

definition to_be_bytes :: "nat \<Rightarrow> u8 list" where
  "to_be_bytes n =
     [word_of_nat (n div 2 ^ 24), word_of_nat (n div 2 ^ 16), word_of_nat (n div 2 ^ 8), word_of_nat n]"

definition from_be_bytes :: "u8 list \<Rightarrow> nat" where
  "from_be_bytes bs = foldl (\<lambda>a b. a * 256 + unat b) 0 bs"

text \<open>Bytes \<open>a..a + n\<close> of a slice.\<close>

definition slice :: "nat \<Rightarrow> nat \<Rightarrow> u8 list \<Rightarrow> u8 list" where
  "slice a n bs = take n (drop a bs)"

definition wal_header :: "u8 list \<Rightarrow> u8 list \<Rightarrow> u8 list option \<Rightarrow> u8 list" where
  "wal_header key_id generation base =
     wal_magic @ [format_version] @ key_id @ generation @ unwrap_or base uuid_nil"

definition write_wal_header ::
  "spool_io \<Rightarrow> string \<Rightarrow> spool_file \<Rightarrow> u8 list \<Rightarrow> u8 list \<Rightarrow> u8 list option \<Rightarrow>
     (spool_disk, spool_failure, unit) action" where
  "write_wal_header io label f key_id generation base =
     write_all io label 0 f (wal_header key_id generation base)
       (SpoolFailure RecoveryInvariantViolation ''wal_header_write'')"

definition parse_wal_header ::
  "spool_lib \<Rightarrow> u8 list \<Rightarrow> u8 list \<Rightarrow> (spool_failure, u8 list \<times> spool_record_id option) result" where
  "parse_wal_header lib h key_id =
     (if slice 0 4 h \<noteq> wal_magic \<or> slice 4 1 h \<noteq> [format_version]
      then Err (SpoolFailure RecoveryCorruptFrame ''wal_header'')
      else if slice 5 16 h \<noteq> key_id then Err (SpoolFailure KeyUnavailable ''wal_key_id'')
      else (let generation = slice 21 16 h; base = slice 37 16 h in
        if generation = uuid_nil then Err (SpoolFailure RecoveryCorruptFrame ''wal_generation'')
        else if base = uuid_nil then Ok (generation, None)
        else bind_r (map_err (\<lambda>_. SpoolFailure RecoveryCorruptFrame ''wal_base'')
                      (spool_record_id_new (lib_uuid_str lib base))) (\<lambda>r. Ok (generation, Some r))))"

definition frame_header :: "u8 list \<Rightarrow> nat \<Rightarrow> u8 list \<Rightarrow> u8 list" where
  "frame_header key_id encrypted_len nonce =
     frame_magic @ [format_version] @ key_id @ to_be_bytes encrypted_len @ nonce"

definition frame_aad :: "u8 list \<Rightarrow> u8 list \<Rightarrow> u8 list" where
  "frame_aad h generation = h @ generation"

definition parse_frame_header ::
  "u8 list \<Rightarrow> u8 list \<Rightarrow> nat \<Rightarrow> (spool_failure, nat \<times> u8 list) result" where
  "parse_frame_header h key_id max_plaintext =
     (if slice 0 4 h \<noteq> frame_magic \<or> slice 4 1 h \<noteq> [format_version]
      then Err (SpoolFailure RecoveryCorruptFrame ''frame_header'')
      else if slice 5 16 h \<noteq> key_id then Err (SpoolFailure KeyUnavailable ''frame_key_id'')
      else (let encrypted_len = from_be_bytes (slice 21 4 h) in
        if encrypted_len < tag_len \<or> saturating_add64 max_plaintext tag_len < encrypted_len
        then Err (SpoolFailure RecoveryCorruptFrame ''frame_length'')
        else Ok (encrypted_len, slice 25 12 h)))"

definition checkpoint_header :: "u8 list \<Rightarrow> nat \<Rightarrow> u8 list \<Rightarrow> u8 list" where
  "checkpoint_header key_id encrypted_len nonce =
     checkpoint_magic @ [format_version] @ key_id @ to_be_bytes encrypted_len @ nonce"

definition parse_checkpoint_header ::
  "u8 list \<Rightarrow> u8 list \<Rightarrow> (spool_failure, nat \<times> u8 list) result" where
  "parse_checkpoint_header h key_id =
     (if length h \<noteq> frame_header_len \<or> slice 0 4 h \<noteq> checkpoint_magic \<or> slice 4 1 h \<noteq> [format_version]
      then Err (SpoolFailure RecoveryInvariantViolation ''checkpoint_header'')
      else if slice 5 16 h \<noteq> key_id then Err (SpoolFailure KeyUnavailable ''checkpoint_key_id'')
      else (let encrypted_len = from_be_bytes (slice 21 4 h) in
        if encrypted_len < tag_len \<or> metadata_limit_bytes < encrypted_len
        then Err (SpoolFailure RecoveryInvariantViolation ''checkpoint_length'')
        else Ok (encrypted_len, slice 25 12 h)))"

definition random_nonce :: "spool_io \<Rightarrow> (spool_failure, u8 list) result" where
  "random_nonce io = ok_or (io_nonce io) (SpoolFailure AppendFailed ''random_nonce'')"

definition record_uuid :: "spool_lib \<Rightarrow> spool_record_id \<Rightarrow> (spool_failure, u8 list) result" where
  "record_uuid lib r =
     ok_or (lib_uuid_parse lib (record_str r)) (SpoolFailure RecoveryInvariantViolation ''record_uuid'')"

text \<open>\<open>u32::try_from(len + TAG_LEN)\<close>\<close>

definition checked_encrypted_len :: "nat \<Rightarrow> spool_failure \<Rightarrow> (spool_failure, nat) result" where
  "checked_encrypted_len n err = (if n + tag_len < 2 ^ 32 then Ok (n + tag_len) else Err err)"

definition encrypt_frame ::
  "spool_lib \<Rightarrow> message_spool \<Rightarrow> spool_io \<Rightarrow> u8 list \<Rightarrow> (spool_failure, u8 list) result" where
  "encrypt_frame lib sp io plaintext =
     bind_r (random_nonce io) (\<lambda>nonce.
     bind_r (checked_encrypted_len (length plaintext) (SpoolFailure CapacityExhausted ''frame_length'')) (\<lambda>n.
     let h = frame_header (spl_key_id sp) n nonce;
         aad = frame_aad h (spl_generation_uuid sp) in
     bind_r (ok_or (lib_seal lib (spl_key sp) nonce aad plaintext)
              (SpoolFailure AppendFailed ''frame_encrypt'')) (\<lambda>encrypted.
       Ok (h @ encrypted))))"

section \<open>Budgets\<close>

definition ensure_append_budget :: "spool_io \<Rightarrow> nat \<Rightarrow> nat \<Rightarrow> spool_disk \<Rightarrow> (spool_failure, unit) result" where
  "ensure_append_budget io site additional d =
     (let reserved = saturating_add64 additional allocation_granularity_reserve in
      bind_r (file_len io site d WalFile) (\<lambda>wal_logical.
      bind_r (allocated_file_bytes io (site + 1) d WalFile) (\<lambda>wal_allocated.
      if active_wal_bytes < saturating_add64 wal_logical additional
         \<or> active_wal_bytes < saturating_add64 wal_allocated reserved
      then Err (SpoolFailure CapacityExhausted ''active_wal_partition'')
      else bind_r (disk_usage io (site + 2) d) (\<lambda>usage.
        ensure (\<not> total_limit_bytes < saturating_add64 usage reserved)
          (SpoolFailure CapacityExhausted ''total_budget'')))))"

definition ensure_compact_budget :: "spool_io \<Rightarrow> nat \<Rightarrow> nat \<Rightarrow> spool_disk \<Rightarrow> (spool_failure, unit) result" where
  "ensure_compact_budget io site compact_len d =
     bind_r (disk_usage io site d) (\<lambda>usage.
       ensure (\<not> total_limit_bytes
           < saturating_add64 (saturating_add64 usage compact_len) allocation_granularity_reserve)
         (SpoolFailure CapacityExhausted ''compact_peak_budget''))"

text \<open>The disjuncts of \<open>verify_budget_locked\<close> in their order; one that holds ends the check.\<close>

definition within :: "(spool_failure, nat) result \<Rightarrow> nat \<Rightarrow> (spool_failure, unit) result" where
  "within m limit =
     bind_r m (\<lambda>n. ensure (\<not> limit < n) (SpoolFailure CapacityExhausted ''budget_verify''))"

definition verify_budget :: "spool_io \<Rightarrow> nat \<Rightarrow> spool_disk \<Rightarrow> (spool_failure, unit) result" where
  "verify_budget io site d =
     bind_r (within (file_len io site d WalFile) active_wal_bytes) (\<lambda>_.
     bind_r (within (allocated_file_bytes io (site + 1) d WalFile) active_wal_bytes) (\<lambda>_.
     bind_r (within (file_len io (site + 2) d CompactTemp) compact_temp_bytes) (\<lambda>_.
     bind_r (within (allocated_file_bytes io (site + 3) d CompactTemp) compact_temp_bytes) (\<lambda>_.
     bind_r (within (directory_file_bytes io (site + 4)) quarantine_limit_bytes) (\<lambda>_.
     bind_r (within (metadata_bytes io (site + 5) d) metadata_limit_bytes) (\<lambda>_.
       within (disk_usage io (site + 6) d) total_limit_bytes))))))"

section \<open>Scanning the log\<close>

text \<open>What the loop does with one complete frame.\<close>

definition decode_frame ::
  "spool_lib \<Rightarrow> message_spool \<Rightarrow> nat \<Rightarrow> u8 list \<Rightarrow> u8 list \<Rightarrow> u8 list \<Rightarrow>
     spool_record_id set \<Rightarrow> spool_admission_id set \<Rightarrow> (spool_failure, scanned_frame) result" where
  "decode_frame lib sp off h nonce encrypted recs adms =
     bind_r (ok_or (lib_open lib (spl_key sp) nonce (frame_aad h (spl_generation_uuid sp)) encrypted)
              (SpoolFailure RecoveryCorruptFrame ''frame_auth'')) (\<lambda>plaintext.
     bind_r (ok_or (lib_dec_frame lib plaintext) (SpoolFailure RecoveryCorruptFrame ''frame_decode'')) (\<lambda>stored.
     bind_r (map_err (\<lambda>_. SpoolFailure RecoveryInvariantViolation ''admission_id'')
              (spool_admission_id_new (admission_str (stf_admission stored)))) (\<lambda>_.
     bind_r (record_uuid lib (stf_record stored)) (\<lambda>_.
     bind_r (ensure (stf_record stored \<notin> recs)
              (SpoolFailure RecoveryInvariantViolation ''duplicate_record'')) (\<lambda>_.
     bind_r (ensure (stf_admission stored \<notin> adms)
              (SpoolFailure RecoveryInvariantViolation ''duplicate_admission'')) (\<lambda>_.
     bind_r (map_err (\<lambda>_. SpoolFailure RecoveryInvariantViolation ''frame_identity'')
              (recovered_frame_new (spl_generation sp) (stf_record stored) (stf_epoch stored)
                (stf_message stored))) (\<lambda>recovered.
       Ok \<lparr>scf_stored = stored, scf_recovered = recovered, scf_offset = off,
           scf_len = frame_header_len + length encrypted\<rparr>)))))))"

text \<open>
  The \<open>while\<close> loop, on the bytes from the offset on; the second component is the offset of an
  incomplete frame at the end, on which the loop breaks.
\<close>

function scan_frames ::
  "spool_lib \<Rightarrow> message_spool \<Rightarrow> spool_io \<Rightarrow> nat \<Rightarrow> u8 list \<Rightarrow> spool_record_id set \<Rightarrow>
     spool_admission_id set \<Rightarrow> (spool_failure, scanned_frame list \<times> nat option) result" where
  "scan_frames lib sp io off rest recs adms =
     (if rest = [] then Ok ([], None)
      else if length rest < frame_header_len then Ok ([], Some off)
      else if io_fails io ''frame_seek'' off then Err (SpoolFailure RecoveryCorruptFrame ''frame_seek'')
      else if io_fails io ''frame_header'' off then Err (SpoolFailure RecoveryCorruptFrame ''frame_header'')
      else (let h = slice 0 frame_header_len rest in
        bind_r (parse_frame_header h (spl_key_id sp) (cfg_max_plaintext (spl_config sp))) (\<lambda>p.
        let encoded_len = frame_header_len + fst p in
        if length rest < encoded_len then Ok ([], Some off)
        else if io_fails io ''frame_read'' off then Err (SpoolFailure RecoveryCorruptFrame ''frame_read'')
        else
          bind_r (decode_frame lib sp off h (snd p) (slice frame_header_len (fst p) rest) recs adms) (\<lambda>f.
          bind_r (scan_frames lib sp io (off + encoded_len) (drop encoded_len rest)
                   (insert (stf_record (scf_stored f)) recs)
                   (insert (stf_admission (scf_stored f)) adms)) (\<lambda>r.
            Ok (f # fst r, snd r))))))"
  by pat_completeness auto
termination
  by (relation "measure (\<lambda>(lib, sp, io, off, rest, recs, adms). length rest)")
    (auto simp: frame_header_len_def)

declare scan_frames.simps [simp del]

definition truncate_final_tail ::
  "spool_io \<Rightarrow> nat \<Rightarrow> bool \<Rightarrow> (spool_disk, spool_failure, unit) action" where
  "truncate_final_tail io off repair_tail =
     (if \<not> repair_tail then lift_r (Err (SpoolFailure RecoveryCorruptFrame ''incomplete_tail''))
      else
        seq (set_len io ''tail_truncate'' WalFile off (SpoolFailure RecoveryCorruptFrame ''tail_truncate'')) (\<lambda>_.
        seq (sync_all io ''tail_sync'' WalFile (SpoolFailure SyncFailed ''tail_sync'')) (\<lambda>_ d.
          (Ok (), settle WalFile d))))"

definition read_scan ::
  "spool_lib \<Rightarrow> message_spool \<Rightarrow> spool_io \<Rightarrow> spool_disk \<Rightarrow>
     (spool_failure, spool_record_id option \<times> scanned_frame list \<times> nat option) result" where
  "read_scan lib sp io d =
     (let data = file_data d WalFile in
      bind_r (ensure (file_exists d WalFile \<and> \<not> io_fails io ''wal_open'' 0)
               (SpoolFailure RecoveryInvariantViolation ''wal_open'')) (\<lambda>_.
      bind_r (io_check io ''wal_metadata'' 0 RecoveryInvariantViolation ''wal_metadata'') (\<lambda>_.
      bind_r (ensure (wal_header_len \<le> length data) (SpoolFailure RecoveryCorruptFrame ''wal_header'')) (\<lambda>_.
      bind_r (io_check io ''wal_header'' 0 RecoveryCorruptFrame ''wal_header'') (\<lambda>_.
      bind_r (parse_wal_header lib (slice 0 wal_header_len data) (spl_key_id sp)) (\<lambda>p.
      bind_r (ensure (fst p = spl_generation_uuid sp)
               (SpoolFailure RecoveryInvariantViolation ''wal_generation'')) (\<lambda>_.
      bind_r (scan_frames lib sp io wal_header_len (drop wal_header_len data) {} {}) (\<lambda>r.
        Ok (snd p, fst r, snd r)))))))))"

definition scan_locked ::
  "spool_lib \<Rightarrow> message_spool \<Rightarrow> spool_io \<Rightarrow> bool \<Rightarrow> (spool_disk, spool_failure, scanned_wal) action" where
  "scan_locked lib sp io repair_tail =
     seq (reading (read_scan lib sp io)) (\<lambda>(base, frames, tail_at).
       (case tail_at of
          None \<Rightarrow> give \<lparr>scw_base = base, scw_frames = frames, scw_truncated = False\<rparr>
        | Some off \<Rightarrow>
            seq (truncate_final_tail io off repair_tail) (\<lambda>_.
              give \<lparr>scw_base = base, scw_frames = frames, scw_truncated = True\<rparr>)))"

text \<open>The frames after the one with the given record id (\<open>position\<close> and the slice after it).\<close>

fun frames_after :: "spool_record_id \<Rightarrow> scanned_frame list \<Rightarrow> scanned_frame list option" where
  "frames_after r [] = None"
| "frames_after r (f # fs) = (if stf_record (scf_stored f) = r then Some fs else frames_after r fs)"

definition pending_after_checkpoint ::
  "message_spool \<Rightarrow> scanned_wal \<Rightarrow> stored_checkpoint option \<Rightarrow>
     (spool_failure, scanned_frame list) result" where
  "pending_after_checkpoint sp scan ckpt =
     (case ckpt of
        None \<Rightarrow>
          (if scw_base scan \<noteq> None
           then Err (SpoolFailure RecoveryInvariantViolation ''checkpoint_missing'')
           else Ok (scw_frames scan))
      | Some c \<Rightarrow>
          if sck_generation c \<noteq> spl_generation sp
          then Err (SpoolFailure RecoveryInvariantViolation ''checkpoint_generation'')
          else (case sck_last c of
             None \<Rightarrow>
               (if scw_base scan \<noteq> None
                then Err (SpoolFailure RecoveryInvariantViolation ''checkpoint_base'')
                else Ok (scw_frames scan))
           | Some last_record_id \<Rightarrow>
               if scw_base scan = Some last_record_id then Ok (scw_frames scan)
               else ok_or (frames_after last_record_id (scw_frames scan))
                 (SpoolFailure RecoveryInvariantViolation ''checkpoint_record'')))"

section \<open>The checkpoint file\<close>

definition read_checkpoint ::
  "spool_lib \<Rightarrow> message_spool \<Rightarrow> spool_io \<Rightarrow> spool_disk \<Rightarrow> (spool_failure, stored_checkpoint option) result" where
  "read_checkpoint lib sp io d =
     (if \<not> file_exists d CheckpointFile then Ok None
      else (let bytes = file_data d CheckpointFile; h = slice 0 frame_header_len bytes in
        bind_r (io_check io ''checkpoint_read'' 0 RecoveryInvariantViolation ''checkpoint_read'') (\<lambda>_.
        bind_r (ensure (\<not> length bytes < frame_header_len + tag_len)
                 (SpoolFailure RecoveryInvariantViolation ''checkpoint_format'')) (\<lambda>_.
        bind_r (parse_checkpoint_header h (spl_key_id sp)) (\<lambda>p.
        bind_r (ensure (length bytes = frame_header_len + fst p)
                 (SpoolFailure RecoveryInvariantViolation ''checkpoint_length'')) (\<lambda>_.
        bind_r (ok_or (lib_open lib (spl_key sp) (snd p) h (drop frame_header_len bytes))
                 (SpoolFailure RecoveryInvariantViolation ''checkpoint_auth'')) (\<lambda>plaintext.
        bind_r (ok_or (lib_dec_checkpoint lib plaintext)
                 (SpoolFailure RecoveryInvariantViolation ''checkpoint_decode'')) (\<lambda>c.
        bind_r (case sck_last c of None \<Rightarrow> Ok [] | Some r \<Rightarrow> record_uuid lib r) (\<lambda>_.
          Ok (Some c))))))))))"

definition encrypt_checkpoint ::
  "spool_lib \<Rightarrow> message_spool \<Rightarrow> spool_io \<Rightarrow> stored_checkpoint \<Rightarrow> (spool_failure, u8 list) result" where
  "encrypt_checkpoint lib sp io c =
     bind_r (ok_or (lib_enc_checkpoint lib c) (SpoolFailure CheckpointFailed ''checkpoint_serialize'')) (\<lambda>plaintext.
     bind_r (random_nonce io) (\<lambda>nonce.
     bind_r (checked_encrypted_len (length plaintext) (SpoolFailure CheckpointFailed ''checkpoint_length'')) (\<lambda>n.
     let h = checkpoint_header (spl_key_id sp) n nonce in
     bind_r (ok_or (lib_seal lib (spl_key sp) nonce h plaintext)
              (SpoolFailure CheckpointFailed ''checkpoint_encrypt'')) (\<lambda>encrypted.
       Ok (h @ encrypted)))))"

definition ensure_metadata_budget :: "spool_io \<Rightarrow> nat \<Rightarrow> nat \<Rightarrow> spool_disk \<Rightarrow> (spool_failure, unit) result" where
  "ensure_metadata_budget io site total_len d =
     (let reserved = saturating_add64 total_len allocation_granularity_reserve;
          err = SpoolFailure CapacityExhausted ''metadata_partition'' in
      bind_r (ensure (\<not> metadata_limit_bytes < reserved) err) (\<lambda>_.
      bind_r (metadata_bytes io site d) (\<lambda>m.
      bind_r (ensure (\<not> metadata_limit_bytes < saturating_add64 m reserved) err) (\<lambda>_.
      bind_r (disk_usage io (site + 1) d) (\<lambda>u.
        ensure (\<not> total_limit_bytes < saturating_add64 u reserved) err)))))"

definition write_checkpoint ::
  "spool_lib \<Rightarrow> message_spool \<Rightarrow> spool_io \<Rightarrow> stored_checkpoint \<Rightarrow> (spool_disk, spool_failure, unit) action" where
  "write_checkpoint lib sp io c =
     seq (lift_r (encrypt_checkpoint lib sp io c)) (\<lambda>bytes.
     seq (reading (ensure_metadata_budget io 20 (length bytes))) (\<lambda>_.
     seq (open_truncated io ''checkpoint_open'' CheckpointTemp (SpoolFailure CheckpointFailed ''checkpoint_open'')) (\<lambda>_.
     seq (write_all io ''checkpoint_write'' 0 CheckpointTemp bytes
           (SpoolFailure CheckpointFailed ''checkpoint_write'')) (\<lambda>_.
     seq (sync_all io ''checkpoint_sync'' CheckpointTemp (SpoolFailure SyncFailed ''checkpoint_sync'')) (\<lambda>_.
     seq (durable_replace io ''checkpoint'' CheckpointTemp CheckpointFile) (\<lambda>_.
       reading (verify_budget io 30)))))))"

section \<open>Operations\<close>

definition lock_operation :: "spool_io \<Rightarrow> (spool_disk, spool_failure, unit) action" where
  "lock_operation io = lift_r (io_check io ''operation_lock'' 0 WriterStopped ''operation_lock'')"

definition append_frame ::
  "spool_lib \<Rightarrow> message_spool \<Rightarrow> spool_io \<Rightarrow> spool_admission \<Rightarrow>
     (spool_disk, spool_failure, spool_receipt \<times> nat) action" where
  "append_frame lib sp io adm =
     seq (lock_operation io) (\<lambda>_.
     seq (lift_r (map_err (\<lambda>_. SpoolFailure RecoveryInvariantViolation ''record_id'')
           (spool_record_id_new (lib_uuid_str lib (io_uuid io))))) (\<lambda>record_id.
     let stored = \<lparr>stf_admission = sa_id adm, stf_record = record_id, stf_epoch = sa_epoch adm,
                   stf_message = sa_message adm\<rparr> in
     seq (lift_r (ok_or (lib_enc_frame lib stored) (SpoolFailure AppendFailed ''serialize''))) (\<lambda>plaintext.
     seq (lift_r (ensure (\<not> cfg_max_plaintext (spl_config sp) < length plaintext)
           (SpoolFailure CapacityExhausted ''frame_limit''))) (\<lambda>_.
     seq (lift_r (encrypt_frame lib sp io plaintext)) (\<lambda>frame.
     seq (reading (ensure_append_budget io 0 (length frame))) (\<lambda>_.
     seq (reading (\<lambda>d. ensure (file_exists d WalFile \<and> \<not> io_fails io ''append_open'' 0)
           (SpoolFailure AppendFailed ''append_open''))) (\<lambda>_.
     seq (write_all io ''append_write'' 0 WalFile frame (SpoolFailure AppendFailed ''append_write'')) (\<lambda>_.
     seq (sync_all io ''append_sync'' WalFile (SpoolFailure SyncFailed ''append_sync'')) (\<lambda>_.
     seq (reading (disk_usage io 10)) (\<lambda>usage.
       give (\<lparr>sr_admission = sa_id adm, sr_generation = spl_generation sp, sr_record = record_id\<rparr>,
             usage)))))))))))"

definition spool_append ::
  "spool_lib \<Rightarrow> message_spool \<Rightarrow> spool_io \<Rightarrow> spool_admission \<Rightarrow>
     (spool_state, spool_failure, spool_receipt) action" where
  "spool_append lib sp io adm =
     seq (on_disk (append_frame lib sp io adm)) (\<lambda>(receipt, usage).
     seq (on_telemetry (telemetry_append usage (occurred_at (sa_message adm)))) (\<lambda>_.
       give receipt))"

text \<open>\<open>scan_locked(false)\<close>, the checkpoint and what is pending after it.\<close>

definition pending_frames ::
  "spool_lib \<Rightarrow> message_spool \<Rightarrow> spool_io \<Rightarrow> (spool_disk, spool_failure, scanned_frame list) action" where
  "pending_frames lib sp io =
     seq (scan_locked lib sp io False) (\<lambda>scan.
     seq (reading (read_checkpoint lib sp io)) (\<lambda>ckpt.
       lift_r (pending_after_checkpoint sp scan ckpt)))"

definition recover_pending ::
  "spool_lib \<Rightarrow> message_spool \<Rightarrow> spool_io \<Rightarrow> (spool_state, spool_failure, recovered_frame list) action" where
  "recover_pending lib sp io =
     on_disk (seq (lock_operation io) (\<lambda>_.
       seq (pending_frames lib sp io) (\<lambda>pending. give (map scf_recovered pending))))"

text \<open>\<open>prefix.zip(pending)\<close> with equal record ids everywhere, and no longer than the pending frames.\<close>

definition is_record_prefix :: "spool_record_id list \<Rightarrow> scanned_frame list \<Rightarrow> bool" where
  "is_record_prefix ids pending \<longleftrightarrow>
     \<not> (length pending < length ids
        \<or> list_ex (\<lambda>(expected, actual). expected \<noteq> stf_record (scf_stored actual)) (zip ids pending))"

definition checkpoint_records ::
  "spool_lib \<Rightarrow> message_spool \<Rightarrow> spool_io \<Rightarrow> checkpoint_prefix \<Rightarrow>
     (spool_disk, spool_failure, (nat \<times> scanned_frame list) option) action" where
  "checkpoint_records lib sp io pre =
     seq (lock_operation io) (\<lambda>_.
     seq (lift_r (ensure (pre_generation pre = spl_generation sp)
           (SpoolFailure CheckpointFailed ''checkpoint_generation''))) (\<lambda>_.
     if pre_records pre = [] then give None
     else
       seq (pending_frames lib sp io) (\<lambda>pending.
       seq (lift_r (ensure (is_record_prefix (pre_records pre) pending)
             (SpoolFailure CheckpointFailed ''checkpoint_prefix''))) (\<lambda>_.
       seq (write_checkpoint lib sp io
             \<lparr>sck_generation = spl_generation sp, sck_last = Some (last (pre_records pre))\<rparr>) (\<lambda>_.
       seq (reading (disk_usage io 40)) (\<lambda>usage.
         give (Some (usage, drop (length (pre_records pre)) pending))))))))"

definition advance_checkpoint ::
  "spool_lib \<Rightarrow> message_spool \<Rightarrow> spool_io \<Rightarrow> checkpoint_prefix \<Rightarrow>
     (spool_state, spool_failure, unit) action" where
  "advance_checkpoint lib sp io pre =
     seq (on_disk (checkpoint_records lib sp io pre)) (\<lambda>r.
       (case r of
          None \<Rightarrow> give ()
        | Some (usage, remaining) \<Rightarrow> on_telemetry (telemetry_checkpoint usage remaining)))"

section \<open>Compaction\<close>

definition copy_buffer_len :: nat where "copy_buffer_len = 64 * 1024"

text \<open>\<open>copy_exact\<close> from a source positioned at \<open>src\<close> into the temporary file.\<close>

function copy_exact :: "spool_io \<Rightarrow> u8 list \<Rightarrow> nat \<Rightarrow> (spool_disk, spool_failure, unit) action" where
  "copy_exact io src remaining =
     (if remaining = 0 then give ()
      else (let chunk = min remaining copy_buffer_len in
        seq (lift_r (ensure (chunk \<le> length src \<and> \<not> io_fails io ''compact_read'' remaining)
              (SpoolFailure CheckpointFailed ''compact_read''))) (\<lambda>_.
        seq (write_all io ''compact_write'' remaining CompactTemp (take chunk src)
              (SpoolFailure CheckpointFailed ''compact_write'')) (\<lambda>_.
          copy_exact io (drop chunk src) (remaining - chunk)))))"
  by pat_completeness auto
termination
  by (relation "measure (\<lambda>(io, src, remaining). remaining)") (auto simp: copy_buffer_len_def)

declare copy_exact.simps [simp del]

fun copy_frames ::
  "spool_io \<Rightarrow> scanned_frame list \<Rightarrow> (spool_disk, spool_failure, unit) action" where
  "copy_frames io [] = give ()"
| "copy_frames io (f # fs) =
     seq (lift_r (io_check io ''compact_seek'' (scf_offset f) CheckpointFailed ''compact_seek'')) (\<lambda>_.
     seq (\<lambda>d. copy_exact io (drop (scf_offset f) (file_data d WalFile)) (scf_len f) d) (\<lambda>_.
       copy_frames io fs))"

definition rewrite_log ::
  "spool_lib \<Rightarrow> message_spool \<Rightarrow> spool_io \<Rightarrow> spool_record_id \<Rightarrow> scanned_frame list \<Rightarrow>
     (spool_disk, spool_failure, unit) action" where
  "rewrite_log lib sp io last_record_id pending =
     seq (open_truncated io ''compact_open'' CompactTemp (SpoolFailure CheckpointFailed ''compact_open'')) (\<lambda>_.
     seq (lift_r (record_uuid lib last_record_id)) (\<lambda>base.
     seq (write_wal_header io ''compact_header'' CompactTemp (spl_key_id sp) (spl_generation_uuid sp) (Some base)) (\<lambda>_.
     seq (lift_r (io_check io ''compact_source'' 0 CheckpointFailed ''compact_source'')) (\<lambda>_.
     seq (copy_frames io pending) (\<lambda>_.
     seq (sync_all io ''compact_sync'' CompactTemp (SpoolFailure SyncFailed ''compact_sync'')) (\<lambda>_.
       durable_replace io ''compact'' CompactTemp WalFile))))))"

text \<open>The part of \<open>compact\<close> after the checkpoint has named a record.\<close>

definition compact_log ::
  "spool_lib \<Rightarrow> message_spool \<Rightarrow> spool_io \<Rightarrow> scanned_wal \<Rightarrow> stored_checkpoint \<Rightarrow> spool_record_id \<Rightarrow>
     (spool_disk, spool_failure, unit) action" where
  "compact_log lib sp io scan c last_record_id =
     seq (lift_r (pending_after_checkpoint sp scan (Some c))) (\<lambda>pending.
     let compact_len = wal_header_len + sum_list (map scf_len pending) in
     seq (lift_r (ensure (\<not> compact_temp_bytes < compact_len)
           (SpoolFailure CapacityExhausted ''compact_partition''))) (\<lambda>_.
     seq (reading (ensure_compact_budget io 50 compact_len)) (\<lambda>_.
     seq (rewrite_log lib sp io last_record_id pending) (\<lambda>_.
     seq (scan_locked lib sp io False) (\<lambda>_.
       reading (verify_budget io 60))))))"

definition compact :: "spool_lib \<Rightarrow> message_spool \<Rightarrow> spool_io \<Rightarrow> (spool_disk, spool_failure, unit) action" where
  "compact lib sp io =
     seq (lock_operation io) (\<lambda>_.
     seq (scan_locked lib sp io False) (\<lambda>scan.
     seq (reading (read_checkpoint lib sp io)) (\<lambda>ckpt.
       (case ckpt of
          None \<Rightarrow> give ()
        | Some c \<Rightarrow>
            (case sck_last c of
               None \<Rightarrow> give ()
             | Some last_record_id \<Rightarrow> compact_log lib sp io scan c last_record_id)))))"

definition spool_compact ::
  "spool_lib \<Rightarrow> message_spool \<Rightarrow> spool_io \<Rightarrow> (spool_state, spool_failure, unit) action" where
  "spool_compact lib sp io = on_disk (compact lib sp io)"

section \<open>Opening\<close>

definition load_key :: "spool_lib \<Rightarrow> spool_io \<Rightarrow> string \<Rightarrow> (spool_failure, u8 list \<times> u8 list) result" where
  "load_key lib io env_name =
     bind_r (ok_or (io_env io env_name) (SpoolFailure KeyUnavailable ''key_load'')) (\<lambda>encoded.
     bind_r (ok_or (lib_base64 lib (trim encoded)) (SpoolFailure KeyUnavailable ''key_decode'')) (\<lambda>raw.
     bind_r (ensure (length raw = 32) (SpoolFailure KeyUnavailable ''key_length'')) (\<lambda>_.
       Ok (raw, take 16 (lib_sha256 lib raw)))))"

definition generation_id_of ::
  "spool_lib \<Rightarrow> u8 list \<Rightarrow> (spool_failure, u8 list \<times> spool_generation_id) result" where
  "generation_id_of lib generation =
     bind_r (map_err (\<lambda>_. SpoolFailure RecoveryInvariantViolation ''generation_id'')
              (spool_generation_id_new (lib_uuid_str lib generation))) (\<lambda>g.
       Ok (generation, g))"

definition initialize_or_read_wal ::
  "spool_lib \<Rightarrow> spool_io \<Rightarrow> u8 list \<Rightarrow> (spool_disk, spool_failure, u8 list \<times> spool_generation_id) action" where
  "initialize_or_read_wal lib io key_id d =
     (if \<not> file_exists d WalFile then
        seq (create_new io ''wal_create'' WalFile (SpoolFailure RecoveryInvariantViolation ''wal_create'')) (\<lambda>_.
        seq (write_wal_header io ''wal_header_write'' WalFile key_id (io_uuid io) None) (\<lambda>_.
        seq (sync_all io ''wal_header_sync'' WalFile (SpoolFailure SyncFailed ''wal_header_sync'')) (\<lambda>_.
        seq (sync_parent io ''wal_parent_sync'' WalFile) (\<lambda>_.
          lift_r (generation_id_of lib (io_uuid io)))))) d
      else
        seq (lift_r (io_check io ''init_wal_open'' 0 RecoveryInvariantViolation ''wal_open'')) (\<lambda>_.
        seq (reading (\<lambda>d. ensure (wal_header_len \<le> length (file_data d WalFile)
                \<and> \<not> io_fails io ''init_wal_header'' 0)
              (SpoolFailure RecoveryCorruptFrame ''wal_header''))) (\<lambda>_.
        seq (reading (\<lambda>d. parse_wal_header lib (slice 0 wal_header_len (file_data d WalFile)) key_id)) (\<lambda>p.
          lift_r (generation_id_of lib (fst p))))) d)"

definition acquire_lock :: "spool_io \<Rightarrow> (spool_disk, spool_failure, unit) action" where
  "acquire_lock io d =
     (if io_fails io ''lock_open'' 0 then (Err (SpoolFailure LockUnavailable ''lock_open''), d)
      else
        (let d' = (if file_exists d LockFile then d
                   else put_image LockFile (Some \<lparr>fi_data = [], fi_synced = 0\<rparr>) d) in
         (io_check io ''lock_acquire'' 0 LockUnavailable ''lock_acquire'', d')))"

record spool_recovery =
  rec_frames :: "recovery_frame list"
  rec_truncated :: bool

text \<open>The part of \<open>open\<close> after the spool exists: repair, checkpoint, budgets.\<close>

definition open_recovery ::
  "spool_lib \<Rightarrow> message_spool \<Rightarrow> spool_io \<Rightarrow>
     (spool_disk, spool_failure, spool_recovery \<times> spool_telemetry) action" where
  "open_recovery lib sp io =
     seq (lock_operation io) (\<lambda>_.
     seq (scan_locked lib sp io True) (\<lambda>scan.
     seq (reading (read_checkpoint lib sp io)) (\<lambda>ckpt.
     seq (lift_r (pending_after_checkpoint sp scan ckpt)) (\<lambda>pending.
     seq (reading (verify_budget io 70)) (\<lambda>_.
     seq (reading (disk_usage io 80)) (\<lambda>usage.
     seq (lift_r (directory_file_count io 90)) (\<lambda>quarantined.
       give (\<lparr>rec_frames = map (Replay \<circ> scf_recovered) pending
                @ (if scw_truncated scan then [TruncateIncompleteFinalTail] else []),
              rec_truncated = scw_truncated scan\<rparr>,
             telemetry_initialize usage pending quarantined telemetry_default))))))))"

definition open_spool ::
  "spool_lib \<Rightarrow> spool_config \<Rightarrow> spool_io \<Rightarrow>
     (spool_disk, spool_failure, message_spool \<times> spool_recovery \<times> spool_telemetry) action" where
  "open_spool lib cfg io =
     seq (lift_r (spool_config_validate cfg)) (\<lambda>_.
     seq (lift_r (io_check io ''parent_create'' 0 RecoveryInvariantViolation ''parent_create'')) (\<lambda>_.
     seq (lift_r (io_check io ''parent_create'' 1 RecoveryInvariantViolation ''parent_create'')) (\<lambda>_.
     seq (lift_r (io_check io ''mkdir'' 0 RecoveryInvariantViolation ''mkdir'')) (\<lambda>_.
     seq (lift_r (load_key lib io (cfg_key_env cfg))) (\<lambda>(key, key_id).
     seq (acquire_lock io) (\<lambda>_.
     seq (remove_non_authoritative_temp io ''compact_temp'' CompactTemp) (\<lambda>_.
     seq (remove_non_authoritative_temp io ''checkpoint_temp'' CheckpointTemp) (\<lambda>_.
     seq (initialize_or_read_wal lib io key_id) (\<lambda>(generation_uuid, generation).
     let sp = \<lparr>spl_config = cfg, spl_key = key, spl_key_id = key_id,
               spl_generation_uuid = generation_uuid, spl_generation = generation\<rparr> in
     seq (open_recovery lib sp io) (\<lambda>(recovery, telemetry).
       give (sp, recovery, telemetry)))))))))))"

end
