(* ===== verification/Message_Spool_Log.thy ===== *)
theory Message_Spool_Log
  imports Message_Spool_Format
begin

text \<open>
  Logs of complete frames. A log is a list of stored frames with the bytes they were sealed to;
  \<open>scan_log\<close> says what the scan of its bytes returns, whatever incomplete frame follows them.
\<close>

type_synonym spool_log = "(stored_frame \<times> u8 list) list"

definition frame_of :: "spool_lib \<Rightarrow> message_spool \<Rightarrow> stored_frame \<Rightarrow> u8 list \<Rightarrow> bool" where
  "frame_of lib sp st bs \<longleftrightarrow>
     (\<exists>nonce p c. length nonce = 12 \<and> lib_enc_frame lib st = Some p
        \<and> length p \<le> cfg_max_plaintext (spl_config sp)
        \<and> lib_seal lib (spl_key sp) nonce
             (frame_aad (frame_header (spl_key_id sp) (length p + tag_len) nonce) (spl_generation_uuid sp)) p
           = Some c
        \<and> bs = frame_header (spl_key_id sp) (length p + tag_len) nonce @ c)"

definition stored_ok :: "spool_lib \<Rightarrow> stored_frame \<Rightarrow> bool" where
  "stored_ok lib st \<longleftrightarrow>
     \<not> is_blank (admission_str (stf_admission st))
     \<and> (\<exists>u. uuid_ok u \<and> stf_record st = record_of lib u)
     \<and> check_ownership (stf_epoch st) (stf_message st) = Ok ()"

definition spool_ok :: "spool_lib \<Rightarrow> message_spool \<Rightarrow> bool" where
  "spool_ok lib sp \<longleftrightarrow>
     length (spl_key_id sp) = 16 \<and> uuid_ok (spl_generation_uuid sp)
     \<and> spl_generation sp = SpoolGenerationId (lib_uuid_str lib (spl_generation_uuid sp))
     \<and> cfg_max_plaintext (spl_config sp) \<le> default_max_frame_plaintext"

definition log_bytes :: "spool_log \<Rightarrow> u8 list" where
  "log_bytes log = concat (map snd log)"

definition log_records :: "spool_log \<Rightarrow> spool_record_id list" where
  "log_records log = map (stf_record \<circ> fst) log"

definition log_admissions :: "spool_log \<Rightarrow> spool_admission_id list" where
  "log_admissions log = map (stf_admission \<circ> fst) log"

definition log_ok :: "spool_lib \<Rightarrow> message_spool \<Rightarrow> spool_log \<Rightarrow> bool" where
  "log_ok lib sp log \<longleftrightarrow>
     (\<forall>x\<in>set log. frame_of lib sp (fst x) (snd x) \<and> stored_ok lib (fst x))
     \<and> distinct (log_records log) \<and> distinct (log_admissions log)"

text \<open>A frame of which only a part is there.\<close>

definition torn_frame :: "spool_lib \<Rightarrow> message_spool \<Rightarrow> u8 list \<Rightarrow> bool" where
  "torn_frame lib sp tail \<longleftrightarrow> tail = [] \<or> (\<exists>st bs. frame_of lib sp st bs \<and> strict_prefix tail bs)"

definition recovered_of :: "message_spool \<Rightarrow> stored_frame \<Rightarrow> recovered_frame" where
  "recovered_of sp st =
     \<lparr>rf_generation = spl_generation sp, rf_record = stf_record st, rf_epoch = stf_epoch st,
      rf_message = stf_message st\<rparr>"

definition scanned_of :: "message_spool \<Rightarrow> nat \<Rightarrow> stored_frame \<times> u8 list \<Rightarrow> scanned_frame" where
  "scanned_of sp off x =
     \<lparr>scf_stored = fst x, scf_recovered = recovered_of sp (fst x), scf_offset = off, scf_len = length (snd x)\<rparr>"

fun scanned :: "message_spool \<Rightarrow> nat \<Rightarrow> spool_log \<Rightarrow> scanned_frame list" where
  "scanned sp off [] = []"
| "scanned sp off (x # log) = scanned_of sp off x # scanned sp (off + length (snd x)) log"

lemma log_simps [simp]:
  "log_bytes [] = []" "log_bytes (x # log) = snd x @ log_bytes log"
  "log_bytes (l1 @ l2) = log_bytes l1 @ log_bytes l2"
  "log_records [] = []" "log_records (x # log) = stf_record (fst x) # log_records log"
  "log_records (l1 @ l2) = log_records l1 @ log_records l2"
  "log_admissions [] = []" "log_admissions (x # log) = stf_admission (fst x) # log_admissions log"
  "log_admissions (l1 @ l2) = log_admissions l1 @ log_admissions l2"
  by (simp_all add: log_bytes_def log_records_def log_admissions_def)

lemma log_ok_Cons: "log_ok lib sp (x # log) \<longleftrightarrow>
     frame_of lib sp (fst x) (snd x) \<and> stored_ok lib (fst x) \<and> stf_record (fst x) \<notin> set (log_records log)
     \<and> stf_admission (fst x) \<notin> set (log_admissions log) \<and> log_ok lib sp log"
  by (auto simp: log_ok_def)

lemma log_ok_append: "log_ok lib sp (l1 @ l2) \<longleftrightarrow>
     log_ok lib sp l1 \<and> log_ok lib sp l2 \<and> set (log_records l1) \<inter> set (log_records l2) = {}
     \<and> set (log_admissions l1) \<inter> set (log_admissions l2) = {}"
  by (auto simp: log_ok_def)

lemma scanned_append: "scanned sp off (l1 @ l2) = scanned sp off l1 @ scanned sp (off + length (log_bytes l1)) l2"
  by (induction l1 arbitrary: off) (simp_all add: add.assoc)

lemma scanned_maps [simp]:
  "map scf_stored (scanned sp off log) = map fst log"
  "map scf_recovered (scanned sp off log) = map (recovered_of sp \<circ> fst) log"
  "length (scanned sp off log) = length log"
  by (induction log arbitrary: off; simp add: scanned_of_def)+

lemma sum_scanned: "sum_list (map scf_len (scanned sp off log)) = length (log_bytes log)"
  by (induction log arbitrary: off) (simp_all add: scanned_of_def)

lemma drop_scanned: "drop (length l1) (scanned sp off (l1 @ l2)) = scanned sp (off + length (log_bytes l1)) l2"
  by (simp add: scanned_append)

section \<open>One frame\<close>

lemma frame_of_length:
  assumes "spool_lib_ok lib" "spool_ok lib sp" "frame_of lib sp st bs"
  shows "frame_header_len + tag_len \<le> length bs"
    and "length bs \<le> frame_header_len + cfg_max_plaintext (spl_config sp) + tag_len"
proof -
  from assms(3) obtain nonce p c where n: "length nonce = 12"
    and p: "length p \<le> cfg_max_plaintext (spl_config sp)"
    and c: "lib_seal lib (spl_key sp) nonce
        (frame_aad (frame_header (spl_key_id sp) (length p + tag_len) nonce) (spl_generation_uuid sp)) p = Some c"
    and bs: "bs = frame_header (spl_key_id sp) (length p + tag_len) nonce @ c"
    unfolding frame_of_def by blast
  have "length bs = frame_header_len + length p + tag_len"
    using assms(2) n spool_lib_okD(1) [OF assms(1) c] by (simp add: bs length_frame_header spool_ok_def)
  with p show "frame_header_len + tag_len \<le> length bs"
    and "length bs \<le> frame_header_len + cfg_max_plaintext (spl_config sp) + tag_len" by simp_all
qed

lemma frame_of_parses:
  assumes "spool_lib_ok lib" "spool_ok lib sp" "frame_of lib sp st bs"
  obtains nonce where
    "parse_frame_header (take frame_header_len bs) (spl_key_id sp) (cfg_max_plaintext (spl_config sp))
       = Ok (length bs - frame_header_len, nonce)"
    "Option.bind (lib_open lib (spl_key sp) nonce (frame_aad (take frame_header_len bs) (spl_generation_uuid sp))
       (drop frame_header_len bs)) (lib_dec_frame lib) = Some st"
proof -
  from assms(3) obtain nonce p c where n: "length nonce = 12" and enc: "lib_enc_frame lib st = Some p"
    and p: "length p \<le> cfg_max_plaintext (spl_config sp)"
    and c: "lib_seal lib (spl_key sp) nonce
        (frame_aad (frame_header (spl_key_id sp) (length p + tag_len) nonce) (spl_generation_uuid sp)) p = Some c"
    and bs: "bs = frame_header (spl_key_id sp) (length p + tag_len) nonce @ c"
    unfolding frame_of_def by blast
  let ?h = "frame_header (spl_key_id sp) (length p + tag_len) nonce"
  have k: "length (spl_key_id sp) = 16" "cfg_max_plaintext (spl_config sp) \<le> default_max_frame_plaintext"
    using assms(2) by (simp_all add: spool_ok_def)
  have h: "length ?h = frame_header_len" by (simp add: length_frame_header k n)
  have parts: "take frame_header_len bs = ?h" "drop frame_header_len bs = c"
    "length bs - frame_header_len = length p + tag_len"
    using spool_lib_okD(1) [OF assms(1) c] by (simp_all add: bs h)
  show thesis
    by (rule that [of nonce])
      (simp_all only: parts parse_frame_header_ok [OF k(1) n _ _ k(2)] p add_le_mono1 le_add2
        spool_lib_okD(2) [OF assms(1) c] spool_lib_okD(6) [OF assms(1) enc] Option.bind.bind_lunit)
qed

lemma decode_frame_ok:
  assumes "stored_ok lib st" "spool_lib_ok lib"
    and "Option.bind (lib_open lib (spl_key sp) nonce (frame_aad h (spl_generation_uuid sp)) encrypted) (lib_dec_frame lib) = Some st"
    and "stf_record st \<notin> recs" "stf_admission st \<notin> adms"
    and "length bs = frame_header_len + length encrypted"
  shows "decode_frame lib sp off h nonce encrypted recs adms = Ok (scanned_of sp off (st, bs))"
proof -
  from assms(3) obtain p where p: "lib_open lib (spl_key sp) nonce (frame_aad h (spl_generation_uuid sp)) encrypted = Some p"
    "lib_dec_frame lib p = Some st"
    by (auto simp: bind_eq_Some_conv)
  from assms(1) obtain u where u: "length u = 16" "stf_record st = record_of lib u"
    by (auto simp: stored_ok_def uuid_ok_def)
  have "record_uuid lib (stf_record st) = Ok u" by (simp add: u record_uuid_of [OF assms(2)])
  moreover have "spool_admission_id_new (admission_str (stf_admission st))
      = Ok (SpoolAdmissionId (admission_str (stf_admission st)))"
    using assms(1) by (simp add: spool_admission_id_new_def spool_id_check_def stored_ok_def)
  moreover have "recovered_frame_new (spl_generation sp) (stf_record st) (stf_epoch st) (stf_message st)
      = Ok (recovered_of sp st)"
    using assms(1) by (simp add: recovered_frame_new_def recovered_of_def stored_ok_def)
  ultimately show ?thesis
    by (simp add: decode_frame_def p ok_or_def ensure_def assms(4-) scanned_of_def)
qed

section \<open>A log\<close>

lemma scan_frames_step:
  assumes "rest \<noteq> []" "frame_header_len \<le> length rest"
    and "parse_frame_header (slice 0 frame_header_len rest) (spl_key_id sp) (cfg_max_plaintext (spl_config sp))
           = Ok (e, nonce)"
    and "frame_header_len + e \<le> length rest"
    and "decode_frame lib sp off (slice 0 frame_header_len rest) nonce (slice frame_header_len e rest) recs adms
           = Ok f"
    and "\<not> io_fails io ''frame_seek'' off" "\<not> io_fails io ''frame_header'' off" "\<not> io_fails io ''frame_read'' off"
  shows "scan_frames lib sp io off rest recs adms
           = bind_r (scan_frames lib sp io (off + (frame_header_len + e)) (drop (frame_header_len + e) rest)
                      (insert (stf_record (scf_stored f)) recs) (insert (stf_admission (scf_stored f)) adms))
               (\<lambda>r. Ok (f # fst r, snd r))"
  unfolding scan_frames.simps [of lib sp io off rest recs adms] Let_def
  using assms by (simp only: bind_r.simps fst_conv snd_conv if_False not_less [symmetric])

lemma scan_frames_read_error:
  assumes "rest \<noteq> []" "frame_header_len \<le> length rest"
    and "parse_frame_header (slice 0 frame_header_len rest) (spl_key_id sp) (cfg_max_plaintext (spl_config sp))
           = Ok (e, nonce)"
    and "frame_header_len + e \<le> length rest"
    and "io_fails io ''frame_seek'' off \<or> io_fails io ''frame_header'' off \<or> io_fails io ''frame_read'' off"
  shows "\<exists>x. scan_frames lib sp io off rest recs adms = Err x"
  unfolding scan_frames.simps [of lib sp io off rest recs adms] Let_def
  using assms by (auto simp only: bind_r.simps fst_conv snd_conv if_False if_True not_less [symmetric] split: if_splits)

lemma scan_frames_incomplete:
  assumes "rest \<noteq> []" "frame_header_len \<le> length rest"
    and "parse_frame_header (slice 0 frame_header_len rest) (spl_key_id sp) (cfg_max_plaintext (spl_config sp))
           = Ok (e, nonce)"
    and "length rest < frame_header_len + e"
    and "\<not> io_fails io ''frame_seek'' off" "\<not> io_fails io ''frame_header'' off"
  shows "scan_frames lib sp io off rest recs adms = Ok ([], Some off)"
  unfolding scan_frames.simps [of lib sp io off rest recs adms] Let_def
  using assms by (simp only: bind_r.simps fst_conv snd_conv if_False if_True not_less [symmetric])

lemma scan_torn:
  assumes lib: "spool_lib_ok lib" and sp: "spool_ok lib sp"
    and bs: "frame_of lib sp st bs" and tail: "strict_prefix tail bs" "tail \<noteq> []"
  shows "scan_frames lib sp io off tail recs adms = Ok ([], Some off)
         \<or> (\<exists>e l n. scan_frames lib sp io off tail recs adms = Err e \<and> io_fails io l n)"
proof (cases "length tail < frame_header_len \<or> io_fails io ''frame_seek'' off \<or> io_fails io ''frame_header'' off")
  case True
  then show ?thesis using tail(2) by (subst (1 2) scan_frames.simps) auto
next
  case False
  then have len: "frame_header_len \<le> length tail" and io: "\<not> io_fails io ''frame_seek'' off"
    "\<not> io_fails io ''frame_header'' off" by simp_all
  from tail(1) obtain z where z: "bs = tail @ z" "z \<noteq> []" by (auto simp: strict_prefix_def prefix_def)
  obtain nonce where p: "parse_frame_header (take frame_header_len bs) (spl_key_id sp)
      (cfg_max_plaintext (spl_config sp)) = Ok (length bs - frame_header_len, nonce)"
    by (rule frame_of_parses [OF lib sp bs])
  have "slice 0 frame_header_len tail = take frame_header_len bs" using len by (simp add: z)
  moreover have "length tail < frame_header_len + (length bs - frame_header_len)"
    using len z by simp
  ultimately have "scan_frames lib sp io off tail recs adms = Ok ([], Some off)"
    by (intro scan_frames_incomplete [OF tail(2) len _ _ io]) (simp_all add: p)
  then show ?thesis by simp
qed

lemma scan_one:
  assumes lib: "spool_lib_ok lib" and sp: "spool_ok lib sp"
    and bs: "frame_of lib sp st bs" and st: "stored_ok lib st" "stf_record st \<notin> recs" "stf_admission st \<notin> adms"
  shows "scan_frames lib sp io off (bs @ rest) recs adms
           = bind_r (scan_frames lib sp io (off + length bs) rest (insert (stf_record st) recs)
                      (insert (stf_admission st) adms))
               (\<lambda>r. Ok (scanned_of sp off (st, bs) # fst r, snd r))
         \<or> (\<exists>e l n. scan_frames lib sp io off (bs @ rest) recs adms = Err e \<and> io_fails io l n)"
proof -
  note len = frame_of_length(1) [OF lib sp bs]
  obtain nonce where p: "parse_frame_header (take frame_header_len bs) (spl_key_id sp)
      (cfg_max_plaintext (spl_config sp)) = Ok (length bs - frame_header_len, nonce)"
    and o: "Option.bind (lib_open lib (spl_key sp) nonce (frame_aad (take frame_header_len bs) (spl_generation_uuid sp))
       (drop frame_header_len bs)) (lib_dec_frame lib) = Some st"
    by (rule frame_of_parses [OF lib sp bs])
  have d: "decode_frame lib sp off (take frame_header_len bs) nonce (drop frame_header_len bs) recs adms
      = Ok (scanned_of sp off (st, bs))"
    by (rule decode_frame_ok [OF st(1) lib o st(2,3)]) (use len in simp)
  have parts: "slice 0 frame_header_len (bs @ rest) = take frame_header_len bs"
    "slice frame_header_len (length bs - frame_header_len) (bs @ rest) = drop frame_header_len bs"
    "frame_header_len + (length bs - frame_header_len) = length bs"
    using len by (simp_all add: slice_def)
  have ne: "bs @ rest \<noteq> []" "frame_header_len \<le> length (bs @ rest)"
    "frame_header_len + (length bs - frame_header_len) \<le> length (bs @ rest)"
    using len by (auto simp: tag_len_def)
  show ?thesis
  proof (cases "io_fails io ''frame_seek'' off \<or> io_fails io ''frame_header'' off \<or> io_fails io ''frame_read'' off")
    case True
    from scan_frames_read_error [OF ne(1,2) p [folded parts(1)] ne(3) this] True show ?thesis by blast
  next
    case False
    then have io: "\<not> io_fails io ''frame_seek'' off" "\<not> io_fails io ''frame_header'' off"
      "\<not> io_fails io ''frame_read'' off" by simp_all
    from scan_frames_step [OF ne(1,2) p [folded parts(1)] ne(3) d [folded parts(1,2)] io] show ?thesis
      unfolding parts by (simp add: scanned_of_def)
  qed
qed

lemma scan_log:
  assumes lib: "spool_lib_ok lib" and sp: "spool_ok lib sp" and tail: "torn_frame lib sp tail"
  shows "log_ok lib sp log \<Longrightarrow> set (log_records log) \<inter> recs = {} \<Longrightarrow> set (log_admissions log) \<inter> adms = {} \<Longrightarrow>
     scan_frames lib sp io off (log_bytes log @ tail) recs adms
       = Ok (scanned sp off log, if tail = [] then None else Some (off + length (log_bytes log)))
     \<or> (\<exists>e l n. scan_frames lib sp io off (log_bytes log @ tail) recs adms = Err e \<and> io_fails io l n)"
proof (induction log arbitrary: off recs adms)
  case Nil
  show ?case
  proof (cases "tail = []")
    case True
    then show ?thesis by (simp add: scan_frames.simps)
  next
    case False
    with tail obtain st bs where "frame_of lib sp st bs" "strict_prefix tail bs"
      by (auto simp: torn_frame_def)
    from scan_torn [OF lib sp this False] False show ?thesis by simp
  qed
next
  case (Cons x log)
  have x: "frame_of lib sp (fst x) (snd x)" "stored_ok lib (fst x)"
    "stf_record (fst x) \<notin> recs" "stf_admission (fst x) \<notin> adms" and log: "log_ok lib sp log"
    and rec: "set (log_records log) \<inter> insert (stf_record (fst x)) recs = {}"
    "set (log_admissions log) \<inter> insert (stf_admission (fst x)) adms = {}"
    using Cons.prems by (auto simp: log_ok_Cons)
  let ?scan = "scan_frames lib sp io (off + length (snd x)) (log_bytes log @ tail)
    (insert (stf_record (fst x)) recs) (insert (stf_admission (fst x)) adms)"
  from Cons.IH [OF log rec, of "off + length (snd x)"]
  have ih: "?scan = Ok (scanned sp (off + length (snd x)) log,
        if tail = [] then None else Some (off + length (snd x) + length (log_bytes log)))
     \<or> (\<exists>e l n. ?scan = Err e \<and> io_fails io l n)" .
  from scan_one [OF lib sp x, of io off "log_bytes log @ tail"] show ?case
  proof
    assume one: "scan_frames lib sp io off (snd x @ log_bytes log @ tail) recs adms
      = bind_r ?scan (\<lambda>r. Ok (scanned_of sp off (fst x, snd x) # fst r, snd r))"
    from ih show ?case by (rule disjE) (use one in \<open>auto simp: add.assoc\<close>)
  qed auto
qed

end
