(* ===== verification/Message_Spool_Correct.thy ===== *)
theory Message_Spool_Correct
  imports Message_Spool_Log
begin

text \<open>
  The disk of an open spool as a queue. \<open>spool_holds\<close> ties the bytes of the log and of the
  checkpoint to a list of frames done and a list of frames pending; each operation is shown to keep
  it and to act on the pending frames as a queue does, also when it is cut short by a crash.
\<close>

section \<open>The checkpoint file\<close>

definition checkpoint_of :: "spool_lib \<Rightarrow> message_spool \<Rightarrow> spool_record_id \<Rightarrow> u8 list \<Rightarrow> bool" where
  "checkpoint_of lib sp r bs \<longleftrightarrow>
     (\<exists>nonce p c. length nonce = 12
        \<and> lib_enc_checkpoint lib \<lparr>sck_generation = spl_generation sp, sck_last = Some r\<rparr> = Some p
        \<and> length p + tag_len \<le> metadata_limit_bytes
        \<and> lib_seal lib (spl_key sp) nonce (checkpoint_header (spl_key_id sp) (length p + tag_len) nonce) p = Some c
        \<and> bs = checkpoint_header (spl_key_id sp) (length p + tag_len) nonce @ c)"

lemma read_checkpoint_ok:
  assumes lib: "spool_lib_ok lib" and sp: "spool_ok lib sp" and bs: "checkpoint_of lib sp r bs"
    and r: "r = record_of lib u" "length u = 16"
    and d: "dk_files d CheckpointFile = Some i" "fi_data i = bs"
  shows "read_checkpoint lib sp io d
           = (if io_fails io ''checkpoint_read'' 0
              then Err (SpoolFailure RecoveryInvariantViolation ''checkpoint_read'')
              else Ok (Some \<lparr>sck_generation = spl_generation sp, sck_last = Some r\<rparr>))"
proof -
  let ?c = "\<lparr>sck_generation = spl_generation sp, sck_last = Some r\<rparr>"
  from bs obtain nonce p c where n: "length nonce = 12" and enc: "lib_enc_checkpoint lib ?c = Some p"
    and p: "length p + tag_len \<le> metadata_limit_bytes"
    and c: "lib_seal lib (spl_key sp) nonce
        (checkpoint_header (spl_key_id sp) (length p + tag_len) nonce) p = Some c"
    and b: "bs = checkpoint_header (spl_key_id sp) (length p + tag_len) nonce @ c"
    unfolding checkpoint_of_def by blast
  let ?h = "checkpoint_header (spl_key_id sp) (length p + tag_len) nonce"
  have k: "length (spl_key_id sp) = 16" using sp by (simp add: spool_ok_def)
  have h: "length ?h = frame_header_len" by (rule length_checkpoint_header [OF k n])
  have parts: "slice 0 frame_header_len bs = ?h" "drop frame_header_len bs = c"
    "length bs = frame_header_len + (length p + tag_len)"
    using spool_lib_okD(1) [OF lib c] by (simp_all add: b h)
  show ?thesis
    using d parts
    by (simp add: read_checkpoint_def file_exists_def file_data_def Let_def io_check_def ensure_def
        parse_checkpoint_header_ok [OF k n _ p] ok_or_def spool_lib_okD(2) [OF lib c]
        spool_lib_okD(7) [OF lib enc] r record_uuid_of [OF lib])
qed

lemma encrypt_checkpoint_Ok:
  assumes "encrypt_checkpoint lib sp io \<lparr>sck_generation = spl_generation sp, sck_last = Some r\<rparr> = Ok bs"
    and "spool_lib_ok lib" "spool_ok lib sp" "io_ok io"
    and "length bs \<le> metadata_limit_bytes"
  shows "checkpoint_of lib sp r bs"
proof -
  from assms(1,4) obtain p nonce c where
    c: "lib_enc_checkpoint lib \<lparr>sck_generation = spl_generation sp, sck_last = Some r\<rparr> = Some p"
      "length nonce = 12"
      "lib_seal lib (spl_key sp) nonce (checkpoint_header (spl_key_id sp) (length p + tag_len) nonce) p = Some c"
      "bs = checkpoint_header (spl_key_id sp) (length p + tag_len) nonce @ c"
    by (auto simp: io_ok_def encrypt_checkpoint_def Let_def random_nonce_def checked_encrypted_len_def result_simps
        split: if_splits)
  moreover from c(4) assms(5) have "length p + tag_len \<le> metadata_limit_bytes"
    using spool_lib_okD(1) [OF assms(2) c(3)] by simp
  ultimately show ?thesis unfolding checkpoint_of_def by blast
qed

section \<open>The disk of a spool\<close>

text \<open>The record the checkpoint names: the last one done, or the base of a compacted log.\<close>

definition marker :: "spool_lib \<Rightarrow> u8 list option \<Rightarrow> spool_log \<Rightarrow> spool_record_id option" where
  "marker lib base done_frames =
     (if done_frames = [] then map_option (record_of lib) base
      else Some (stf_record (fst (last done_frames))))"

definition checkpoint_holds :: "spool_lib \<Rightarrow> message_spool \<Rightarrow> spool_record_id option \<Rightarrow> spool_disk \<Rightarrow> bool" where
  "checkpoint_holds lib sp m d \<longleftrightarrow>
     (case m of
        None \<Rightarrow> dk_files d CheckpointFile = None
      | Some r \<Rightarrow> \<exists>bs. dk_files d CheckpointFile = Some (durable bs) \<and> checkpoint_of lib sp r bs)"

definition log_state :: "spool_lib \<Rightarrow> message_spool \<Rightarrow> u8 list option \<Rightarrow> spool_log \<Rightarrow> bool" where
  "log_state lib sp base log \<longleftrightarrow>
     spool_ok lib sp \<and> log_ok lib sp log
     \<and> (\<forall>u. base = Some u \<longrightarrow> uuid_ok u \<and> record_of lib u \<notin> set (log_records log))"

definition wal_bytes :: "message_spool \<Rightarrow> u8 list option \<Rightarrow> spool_log \<Rightarrow> u8 list" where
  "wal_bytes sp base log = wal_header (spl_key_id sp) (spl_generation_uuid sp) base @ log_bytes log"

definition spool_holds_tail ::
  "spool_lib \<Rightarrow> message_spool \<Rightarrow> u8 list option \<Rightarrow> spool_log \<Rightarrow> spool_log \<Rightarrow> u8 list \<Rightarrow> spool_disk \<Rightarrow> bool" where
  "spool_holds_tail lib sp base done_frames q tail d \<longleftrightarrow>
     log_state lib sp base (done_frames @ q)
     \<and> torn_frame lib sp tail
     \<and> dk_files d WalFile = Some (durable (wal_bytes sp base (done_frames @ q) @ tail))
     \<and> length (wal_bytes sp base (done_frames @ q) @ tail) \<le> active_wal_bytes
     \<and> checkpoint_holds lib sp (marker lib base done_frames) d
     \<and> (\<forall>f. dk_stale d f = None)"

abbreviation spool_holds ::
  "spool_lib \<Rightarrow> message_spool \<Rightarrow> u8 list option \<Rightarrow> spool_log \<Rightarrow> spool_log \<Rightarrow> spool_disk \<Rightarrow> bool" where
  "spool_holds lib sp base done_frames q \<equiv> spool_holds_tail lib sp base done_frames q []"

lemma torn_Nil [simp]: "torn_frame lib sp []"
  by (simp add: torn_frame_def)

lemma spool_ok_header:
  assumes "spool_ok lib sp" "\<forall>u. base = Some u \<longrightarrow> uuid_ok u"
  shows "length (wal_header (spl_key_id sp) (spl_generation_uuid sp) base) = wal_header_len"
  using assms by (intro length_wal_header) (cases base; auto simp: spool_ok_def uuid_ok_def)+

lemma log_state_header:
  "log_state lib sp base log \<Longrightarrow> length (wal_header (spl_key_id sp) (spl_generation_uuid sp) base) = wal_header_len"
  by (rule spool_ok_header) (auto simp: log_state_def)

lemma read_scan_log:
  assumes lib: "spool_lib_ok lib" and log: "log_state lib sp base log" and tail: "torn_frame lib sp tail"
    and d: "dk_files d WalFile = Some i" "fi_data i = wal_bytes sp base log @ tail"
  shows "read_scan lib sp io d = Ok (map_option (record_of lib) base, scanned sp wal_header_len log,
            if tail = [] then None else Some (wal_header_len + length (log_bytes log)))
         \<or> (\<exists>e l n. read_scan lib sp io d = Err e \<and> io_fails io l n)"
proof (cases "io_fails io ''wal_open'' 0 \<or> io_fails io ''wal_metadata'' 0 \<or> io_fails io ''wal_header'' 0")
  case True
  note h = log_state_header [OF log]
  from True show ?thesis
    using d h by (auto simp: read_scan_def io_check_def ensure_def Let_def file_exists_def file_data_def
        wal_bytes_def split: if_splits)
next
  case False
  note h = log_state_header [OF log]
  have sp: "spool_ok lib sp" and ok: "log_ok lib sp log" using log by (simp_all add: log_state_def)
  have p: "parse_wal_header lib (wal_header (spl_key_id sp) (spl_generation_uuid sp) base) (spl_key_id sp)
      = Ok (spl_generation_uuid sp, map_option (record_of lib) base)"
    by (rule parse_wal_header_ok [OF lib]) (use log in \<open>auto simp: spool_ok_def log_state_def\<close>)
  have data: "file_data d WalFile = wal_header (spl_key_id sp) (spl_generation_uuid sp) base @ log_bytes log @ tail"
    using d by (simp add: file_data_def wal_bytes_def)
  have "read_scan lib sp io d = bind_r (scan_frames lib sp io wal_header_len (log_bytes log @ tail) {} {})
      (\<lambda>r. Ok (map_option (record_of lib) base, fst r, snd r))"
    using False d(1) h
    by (simp add: read_scan_def data io_check_def ensure_def Let_def file_exists_def p)
  moreover have "scan_frames lib sp io wal_header_len (log_bytes log @ tail) {} {}
      = Ok (scanned sp wal_header_len log, if tail = [] then None else Some (wal_header_len + length (log_bytes log)))
    \<or> (\<exists>e l n. scan_frames lib sp io wal_header_len (log_bytes log @ tail) {} {} = Err e \<and> io_fails io l n)"
    by (rule scan_log [OF lib sp tail ok]) simp_all
  ultimately show ?thesis by auto
qed

lemma frames_after_marker:
  "done_frames \<noteq> [] \<Longrightarrow> distinct (log_records (done_frames @ q)) \<Longrightarrow>
     frames_after (stf_record (fst (last done_frames))) (scanned sp off (done_frames @ q))
       = Some (scanned sp (off + length (log_bytes done_frames)) q)"
proof (induction done_frames arbitrary: off)
  case (Cons x xs)
  show ?case
  proof (cases "xs = []")
    case True
    then show ?thesis by (simp add: scanned_of_def)
  next
    case False
    then have "last xs \<in> set xs" by simp
    then have "stf_record (fst (last xs)) \<in> set (log_records xs)" by (force simp: log_records_def)
    with Cons.prems(2) have "stf_record (fst x) \<noteq> stf_record (fst (last xs))" by auto
    with Cons False show ?thesis by (simp add: scanned_of_def add.assoc)
  qed
qed simp

lemma pending_of_scan:
  assumes log: "log_state lib sp base (done_frames @ q)"
  shows "pending_after_checkpoint sp \<lparr>scw_base = map_option (record_of lib) base,
             scw_frames = scanned sp wal_header_len (done_frames @ q), scw_truncated = t\<rparr>
           (map_option (\<lambda>r. \<lparr>sck_generation = spl_generation sp, sck_last = Some r\<rparr>) (marker lib base done_frames))
         = Ok (scanned sp (wal_header_len + length (log_bytes done_frames)) q)"
proof (cases "done_frames = []")
  case True
  then show ?thesis by (cases base) (simp_all add: pending_after_checkpoint_def marker_def)
next
  case False
  then have m: "marker lib base done_frames = Some (stf_record (fst (last done_frames)))" by (simp add: marker_def)
  have d: "distinct (log_records (done_frames @ q))" using log by (simp add: log_state_def log_ok_def)
  have "last done_frames \<in> set done_frames" using False by simp
  then have "stf_record (fst (last done_frames)) \<in> set (log_records (done_frames @ q))"
    by (force simp: log_records_def)
  then have "map_option (record_of lib) base \<noteq> Some (stf_record (fst (last done_frames)))"
    using log by (auto simp: log_state_def)
  then show ?thesis
    by (auto simp: m pending_after_checkpoint_def frames_after_marker [OF False d] ok_or_def)
qed

lemma holdsD:
  assumes "spool_holds lib sp base done_frames q d"
  shows "dk_files d WalFile = Some (durable (wal_bytes sp base (done_frames @ q)))"
    and "dk_files d CheckpointFile = None \<or> (\<exists>bs. dk_files d CheckpointFile = Some (durable bs))"
    and "dk_stale d f = None"
  using assms by (auto simp: spool_holds_tail_def checkpoint_holds_def split: option.splits)

lemma scan_holds:
  assumes lib: "spool_lib_ok lib" and holds: "spool_holds lib sp base done_frames q d"
  shows "scan_locked lib sp io False d
           = (Ok \<lparr>scw_base = map_option (record_of lib) base,
                 scw_frames = scanned sp wal_header_len (done_frames @ q), scw_truncated = False\<rparr>, d)
         \<or> (\<exists>e l n. scan_locked lib sp io False d = (Err e, d) \<and> io_fails io l n)"
proof -
  have log: "log_state lib sp base (done_frames @ q)" using holds by (simp add: spool_holds_tail_def)
  show ?thesis
    using read_scan_log [OF lib log torn_Nil holdsD(1) [OF holds], of io]
    by (auto simp: scan_locked_def seq_def reading_def give_def)
qed

lemma marker_uuid:
  assumes "log_state lib sp base (done_frames @ q)" "marker lib base done_frames = Some r"
  obtains u where "r = record_of lib u" "uuid_ok u" "r \<notin> set (log_records q)"
proof (cases "done_frames = []")
  case True
  with assms that show thesis by (auto simp: marker_def log_state_def)
next
  case False
  then have l: "last done_frames \<in> set done_frames" and r: "r = stf_record (fst (last done_frames))"
    using assms(2) by (simp_all add: marker_def)
  have "stored_ok lib (fst (last done_frames))" using l assms(1) by (auto simp: log_state_def log_ok_def)
  moreover have "r \<in> set (log_records done_frames)" using l by (force simp: r log_records_def)
  then have "r \<notin> set (log_records q)" using assms(1) by (auto simp: log_state_def log_ok_append)
  ultimately show thesis using that by (auto simp: stored_ok_def r)
qed

lemma checkpoint_read_holds:
  assumes lib: "spool_lib_ok lib" and holds: "spool_holds lib sp base done_frames q d"
  shows "read_checkpoint lib sp io d
           = Ok (map_option (\<lambda>r. \<lparr>sck_generation = spl_generation sp, sck_last = Some r\<rparr>) (marker lib base done_frames))
         \<or> (\<exists>e l n. read_checkpoint lib sp io d = Err e \<and> io_fails io l n)"
proof (cases "marker lib base done_frames")
  case None
  then have "dk_files d CheckpointFile = None" using holds by (simp add: spool_holds_tail_def checkpoint_holds_def)
  with None show ?thesis by (simp add: read_checkpoint_def file_exists_def)
next
  case (Some r)
  have log: "log_state lib sp base (done_frames @ q)" using holds by (simp add: spool_holds_tail_def)
  from marker_uuid [OF log Some] obtain u where u: "r = record_of lib u" "length u = 16"
    by (auto simp: uuid_ok_def)
  from holds Some obtain bs where bs: "dk_files d CheckpointFile = Some (durable bs)" "checkpoint_of lib sp r bs"
    by (auto simp: spool_holds_tail_def checkpoint_holds_def)
  have sp: "spool_ok lib sp" using log by (simp add: log_state_def)
  from read_checkpoint_ok [OF lib sp bs(2) u bs(1) fi_durable(1), of io] Some show ?thesis
    by (auto split: if_splits)
qed

lemma pending_frames_holds:
  assumes lib: "spool_lib_ok lib" and holds: "spool_holds lib sp base done_frames q d"
  shows "pending_frames lib sp io d
           = (Ok (scanned sp (wal_header_len + length (log_bytes done_frames)) q), d)
         \<or> (\<exists>e l n. pending_frames lib sp io d = (Err e, d) \<and> io_fails io l n)"
proof -
  have log: "log_state lib sp base (done_frames @ q)" using holds by (simp add: spool_holds_tail_def)
  from scan_holds [OF lib holds, of io] checkpoint_read_holds [OF lib holds, of io] show ?thesis
    by (elim disjE exE conjE)
      (auto simp: pending_frames_def seq_def reading_def lift_r_def pending_of_scan [OF log])
qed

section \<open>Appending\<close>

definition stored_of :: "spool_lib \<Rightarrow> spool_admission \<Rightarrow> u8 list \<Rightarrow> stored_frame" where
  "stored_of lib adm u =
     \<lparr>stf_admission = sa_id adm, stf_record = record_of lib u, stf_epoch = sa_epoch adm,
      stf_message = sa_message adm\<rparr>"

text \<open>What the constructors of an admission have checked.\<close>

definition admissible :: "spool_admission \<Rightarrow> bool" where
  "admissible adm \<longleftrightarrow>
     \<not> is_blank (admission_str (sa_id adm)) \<and> check_ownership (sa_epoch adm) (sa_message adm) = Ok ()"

lemma stored_of_ok: "admissible adm \<Longrightarrow> uuid_ok u \<Longrightarrow> stored_ok lib (stored_of lib adm u)"
  by (auto simp: admissible_def stored_ok_def stored_of_def)

lemma encrypt_frame_Ok:
  assumes "encrypt_frame lib sp io p = Ok bs" "lib_enc_frame lib st = Some p"
    and "length p \<le> cfg_max_plaintext (spl_config sp)" "io_ok io"
  shows "frame_of lib sp st bs"
  using assms
  by (auto simp: io_ok_def encrypt_frame_def frame_of_def Let_def random_nonce_def checked_encrypted_len_def result_simps
      split: if_splits)

lemma saturating_add64_le: "saturating_add64 a b \<le> n \<Longrightarrow> n < u64_max \<Longrightarrow> a + b \<le> n"
  by (simp add: saturating_add64_def min_def split: if_splits)

lemma ensure_append_budget_Ok:
  assumes "ensure_append_budget io site n d = Ok u" "file_exists d WalFile"
  shows "length (file_data d WalFile) + n \<le> active_wal_bytes"
  using assms saturating_add64_le [of "length (file_data d WalFile)" n active_wal_bytes]
  by (auto simp: ensure_append_budget_def Let_def result_simps file_len_def metadata_at_def not_less
      active_wal_bytes_def u64_max_def split: if_splits option.splits)

text \<open>The state an append can leave: nothing written, a part of the frame, or all of it.\<close>

lemma append_frame_cases:
  assumes "append_frame lib sp io adm d = (r, d')" and lib: "spool_lib_ok lib"
    and u: "io_ok io"
  shows "d' = d \<and> not_ok r
    \<or> (\<exists>bs. frame_of lib sp (stored_of lib adm (io_uuid io)) bs
         \<and> file_exists d WalFile \<and> length (file_data d WalFile) + length bs \<le> active_wal_bytes
         \<and> ((\<exists>k. d' = append_bytes WalFile (take k bs) d) \<and> not_ok r
            \<or> d' = sync_bytes WalFile (append_bytes WalFile bs d)
              \<and> (not_ok r \<or> (\<exists>usage. r = Ok (\<lparr>sr_admission = sa_id adm, sr_generation = spl_generation sp,
                                    sr_record = record_of lib (io_uuid io)\<rparr>, usage)))))"
proof -
  have rid: "spool_record_id_new (lib_uuid_str lib (io_uuid io)) = Ok (record_of lib (io_uuid io))"
    using u by (intro spool_record_id_of [OF lib]) (simp add: io_ok_def uuid_ok_def)
  let ?st = "stored_of lib adm (io_uuid io)"
  let ?rest = "\<lambda>bs. seq (write_all io ''append_write'' 0 WalFile bs (SpoolFailure AppendFailed ''append_write'')) (\<lambda>_.
     seq (sync_all io ''append_sync'' WalFile (SpoolFailure SyncFailed ''append_sync'')) (\<lambda>_.
     seq (reading (disk_usage io 10)) (\<lambda>usage.
       give (\<lparr>sr_admission = sa_id adm, sr_generation = spl_generation sp, sr_record = record_of lib (io_uuid io)\<rparr>,
             usage))))"
  have "d' = d \<and> not_ok r \<or> (\<exists>p bs. lib_enc_frame lib ?st = Some p \<and> \<not> cfg_max_plaintext (spl_config sp) < length p
      \<and> encrypt_frame lib sp io p = Ok bs \<and> ensure_append_budget io 0 (length bs) d = Ok ()
      \<and> file_exists d WalFile \<and> ?rest bs d = (r, d'))"
    using assms(1) unfolding append_frame_def lock_operation_def Let_def
    by (auto simp: rid result_simps stored_of_def dest!: guard_lift guard_reading)
  then show ?thesis
  proof (elim disjE exE conjE)
    fix p bs
    assume p: "lib_enc_frame lib ?st = Some p" "\<not> cfg_max_plaintext (spl_config sp) < length p"
      and bs: "encrypt_frame lib sp io p = Ok bs" and b: "ensure_append_budget io 0 (length bs) d = Ok ()"
      and w: "file_exists d WalFile" and rest: "?rest bs d = (r, d')"
    have f: "frame_of lib sp ?st bs" by (rule encrypt_frame_Ok [OF bs p(1) _ u]) (use p(2) in simp)
    have "((\<exists>k. d' = append_bytes WalFile (take k bs) d) \<and> not_ok r)
      \<or> d' = sync_bytes WalFile (append_bytes WalFile bs d)
              \<and> (not_ok r \<or> (\<exists>usage. r = Ok (\<lparr>sr_admission = sa_id adm, sr_generation = spl_generation sp,
                                    sr_record = record_of lib (io_uuid io)\<rparr>, usage)))"
    proof (cases "io_fails io ''append_write'' 0")
      case True
      then show ?thesis using rest by (auto simp: seq_def write_all_def)
    next
      case False
      show ?thesis
      proof (cases "io_fails io ''append_sync'' 0")
        case True
        then have "d' = append_bytes WalFile (take (length bs) bs) d \<and> not_ok r"
          using rest False by (auto simp: seq_def write_all_def sync_all_def)
        then show ?thesis by blast
      next
        case sync: False
        have "seq (reading (disk_usage io 10)) (\<lambda>usage.
            give (\<lparr>sr_admission = sa_id adm, sr_generation = spl_generation sp, sr_record = record_of lib (io_uuid io)\<rparr>,
             usage)) (sync_bytes WalFile (append_bytes WalFile bs d)) = (r, d')"
          using rest False sync by (simp add: seq_def write_all_def sync_all_def)
        then show ?thesis by (auto dest!: guard_reading simp: give_eq)
      qed
    qed
    with f w ensure_append_budget_Ok [OF b w] show ?thesis by blast
  qed simp
qed

text \<open>The condition on a new frame: its ids are not in the log, nor its record the base of it.\<close>

definition fresh_in :: "spool_lib \<Rightarrow> u8 list option \<Rightarrow> spool_log \<Rightarrow> stored_frame \<Rightarrow> bool" where
  "fresh_in lib base log st \<longleftrightarrow>
     stf_record st \<notin> set (log_records log) \<and> stf_admission st \<notin> set (log_admissions log)
     \<and> map_option (record_of lib) base \<noteq> Some (stf_record st)"

lemma log_state_snoc:
  assumes "log_state lib sp base log" "frame_of lib sp st bs" "stored_ok lib st" "fresh_in lib base log st"
  shows "log_state lib sp base (log @ [(st, bs)])"
  using assms by (auto simp: log_state_def log_ok_append log_ok_Cons fresh_in_def log_ok_def)

lemma checkpoint_holds_cong:
  "dk_files d' CheckpointFile = dk_files d CheckpointFile \<Longrightarrow>
     checkpoint_holds lib sp m d' = checkpoint_holds lib sp m d"
  by (cases m) (simp_all add: checkpoint_holds_def)

lemma checkpoint_holds_crash:
  assumes "checkpoint_holds lib sp m d" "crashes d d'" "dk_stale d CheckpointFile = None"
  shows "dk_files d' CheckpointFile = dk_files d CheckpointFile"
  using crashes_kept(1) [OF assms(2,3)] assms(1)
  by (auto simp: checkpoint_holds_def crash_image_None crash_image_durable split: option.splits)

lemma append_holds:
  assumes lib: "spool_lib_ok lib" and holds: "spool_holds lib sp base done_frames q d"
    and ok: "admissible adm" "io_ok io"
    and fresh: "fresh_in lib base (done_frames @ q) (stored_of lib adm (io_uuid io))"
    and run: "append_frame lib sp io adm d = (r, d')"
  shows "r = Ok (receipt, usage) \<Longrightarrow>
      receipt = \<lparr>sr_admission = sa_id adm, sr_generation = spl_generation sp, sr_record = record_of lib (io_uuid io)\<rparr>
      \<and> (\<exists>bs. spool_holds lib sp base done_frames (q @ [(stored_of lib adm (io_uuid io), bs)]) d')"
    and "crashes d' d'' \<Longrightarrow>
      (\<exists>tail. spool_holds_tail lib sp base done_frames q tail d'')
      \<or> (\<exists>bs. spool_holds lib sp base done_frames (q @ [(stored_of lib adm (io_uuid io), bs)]) d'')"
proof -
  let ?st = "stored_of lib adm (io_uuid io)" and ?old = "wal_bytes sp base (done_frames @ q)"
  from holds have log: "log_state lib sp base (done_frames @ q)" and wal: "dk_files d WalFile = Some (durable ?old)"
    and len: "length ?old \<le> active_wal_bytes"
    and ckpt: "checkpoint_holds lib sp (marker lib base done_frames) d" and stale: "\<And>f. dk_stale d f = None"
    by (simp_all add: spool_holds_tail_def)
  have uuid: "uuid_ok (io_uuid io)" using ok(2) by (simp add: io_ok_def)
  have data: "file_data d WalFile = ?old" by (simp add: file_data_def wal)
  have whole: "wal_bytes sp base (done_frames @ q @ [(?st, bs)]) = ?old @ bs" for bs
    by (simp add: wal_bytes_def)
  have new: "spool_holds lib sp base done_frames (q @ [(?st, bs)]) e"
    if "frame_of lib sp ?st bs" "length ?old + length bs \<le> active_wal_bytes"
      "dk_files e WalFile = Some (durable (?old @ bs))" "dk_files e CheckpointFile = dk_files d CheckpointFile"
      "\<And>f. dk_stale e f = None" for e bs
    using that log_state_snoc [OF log that(1) stored_of_ok [OF ok(1) uuid] fresh] ckpt
    by (simp add: spool_holds_tail_def whole checkpoint_holds_cong [OF that(4)])
  note cases = append_frame_cases [OF run lib ok(2)]
  show "receipt = \<lparr>sr_admission = sa_id adm, sr_generation = spl_generation sp, sr_record = record_of lib (io_uuid io)\<rparr>
      \<and> (\<exists>bs. spool_holds lib sp base done_frames (q @ [(?st, bs)]) d')" if "r = Ok (receipt, usage)"
  proof -
    from cases [unfolded that data] obtain bs where bs: "frame_of lib sp ?st bs" "length ?old + length bs \<le> active_wal_bytes"
      and d': "d' = sync_bytes WalFile (append_bytes WalFile bs d)"
      and r: "receipt = \<lparr>sr_admission = sa_id adm, sr_generation = spl_generation sp,
                sr_record = record_of lib (io_uuid io)\<rparr>"
      by (elim disjE exE conjE) simp_all
    have "spool_holds lib sp base done_frames (q @ [(?st, bs)]) d'"
      by (rule new [OF bs]) (simp_all add: d' disk_simps wal durable_def stale)
    with r show ?thesis by blast
  qed
  show "(\<exists>tail. spool_holds_tail lib sp base done_frames q tail d'')
      \<or> (\<exists>bs. spool_holds lib sp base done_frames (q @ [(?st, bs)]) d'')" if crash: "crashes d' d''"
  proof -
    have stale': "dk_stale d'' f = None" for f using crash by (simp add: crashes_def)
    from cases consider (same) "d' = d"
      | (written) bs k where "frame_of lib sp ?st bs" "length ?old + length bs \<le> active_wal_bytes"
          "d' = append_bytes WalFile (take k bs) d"
      | (synced) bs where "frame_of lib sp ?st bs" "length ?old + length bs \<le> active_wal_bytes"
          "d' = sync_bytes WalFile (append_bytes WalFile bs d)"
      unfolding data by blast
    then show ?thesis
    proof cases
      case same
      have "dk_files d'' WalFile = Some (durable ?old)"
        using crashes_kept(1) [OF crash, of WalFile] stale by (simp add: same wal crash_image_durable)
      then have "spool_holds lib sp base done_frames q d''"
        using holds checkpoint_holds_cong [OF checkpoint_holds_crash [OF ckpt crash [unfolded same] stale]] stale'
        by (simp add: spool_holds_tail_def)
      then show ?thesis by blast
    next
      case (written bs k)
      then have ck: "dk_files d' CheckpointFile = dk_files d CheckpointFile" by (simp add: disk_simps)
      have st: "dk_stale d' f = None" for f using stale by (simp add: written disk_simps)
      have "dk_files d' WalFile = Some \<lparr>fi_data = ?old @ take k bs, fi_synced = length ?old\<rparr>"
        by (simp add: written disk_simps wal durable_def)
      with crashes_kept(1) [OF crash st, of WalFile] obtain j where j: "length ?old \<le> j"
        and w: "dk_files d'' WalFile = Some \<lparr>fi_data = take j (?old @ take k bs),
            fi_synced = length (take j (?old @ take k bs))\<rparr>"
        by (auto simp: crash_image_def)
      define t where "t = take (j - length ?old) (take k bs)"
      have w: "dk_files d'' WalFile = Some (durable (?old @ t))"
        using w j by (simp add: durable_def t_def)
      have pre: "prefix t bs" unfolding t_def by (meson prefix_order.trans take_is_prefix)
      have ck'': "dk_files d'' CheckpointFile = dk_files d CheckpointFile"
        using checkpoint_holds_crash [of lib sp _ d' d''] ckpt crash st ck
        by (simp add: checkpoint_holds_cong [OF ck])
      show ?thesis
      proof (cases "t = bs")
        case True
        have "spool_holds lib sp base done_frames (q @ [(?st, bs)]) d''"
          by (rule new) (use w written stale' ck'' True in simp_all)
        then show ?thesis by blast
      next
        case False
        then have "torn_frame lib sp t" using pre written(1) by (auto simp: torn_frame_def strict_prefix_def)
        moreover have "length t \<le> length bs" by (rule prefix_length_le [OF pre])
        ultimately have "spool_holds_tail lib sp base done_frames q t d''"
          using log w written(2) ckpt stale' by (simp add: spool_holds_tail_def checkpoint_holds_cong [OF ck''])
        then show ?thesis by blast
      qed
    next
      case (synced bs)
      then have ck: "dk_files d' CheckpointFile = dk_files d CheckpointFile" by (simp add: disk_simps)
      have st: "dk_stale d' f = None" for f using stale by (simp add: synced disk_simps)
      have "dk_files d' WalFile = Some (durable (?old @ bs))"
        by (simp add: synced disk_simps wal durable_def)
      then have w: "dk_files d'' WalFile = Some (durable (?old @ bs))"
        using crashes_kept(1) [OF crash st, of WalFile] by (simp add: crash_image_durable)
      have ck'': "dk_files d'' CheckpointFile = dk_files d CheckpointFile"
        using checkpoint_holds_crash [of lib sp _ d' d''] ckpt crash st ck
        by (simp add: checkpoint_holds_cong [OF ck])
      have "spool_holds lib sp base done_frames (q @ [(?st, bs)]) d''"
        by (rule new) (use w synced stale' ck'' in simp_all)
      then show ?thesis by blast
    qed
  qed
qed

section \<open>Advancing the checkpoint\<close>

lemma spool_holds_cong:
  assumes "spool_holds lib sp base done_frames q d"
    and "dk_files d' WalFile = dk_files d WalFile" "dk_files d' CheckpointFile = dk_files d CheckpointFile"
    and "\<And>f. dk_stale d' f = None"
  shows "spool_holds lib sp base done_frames q d'"
  using assms checkpoint_holds_cong [OF assms(3)] by (simp add: spool_holds_tail_def)

lemma spool_holds_crash:
  assumes "spool_holds lib sp base done_frames q d" "crashes d d'"
  shows "spool_holds lib sp base done_frames q d'"
proof (rule spool_holds_cong [OF assms(1)])
  note stale = holdsD(3) [OF assms(1)]
  show "dk_files d' WalFile = dk_files d WalFile"
    using crashes_kept(1) [OF assms(2) stale, of WalFile] holdsD(1) [OF assms(1)]
    by (simp add: crash_image_durable)
  show "dk_files d' CheckpointFile = dk_files d CheckpointFile"
    using crashes_kept(1) [OF assms(2) stale, of CheckpointFile] holdsD(2) [OF assms(1)]
    by (auto simp: crash_image_durable crash_image_None)
qed (use assms(2) in \<open>simp add: crashes_def\<close>)

lemma ensure_metadata_budget_Ok:
  "ensure_metadata_budget io site n d = Ok u \<Longrightarrow> n \<le> metadata_limit_bytes"
  using saturating_add64_le [of n allocation_granularity_reserve metadata_limit_bytes]
  by (auto simp: ensure_metadata_budget_def Let_def result_simps metadata_limit_bytes_def u64_max_def)

lemma write_checkpoint_state:
  assumes "write_checkpoint lib sp io c d = (r, d')"
  shows "scratch CheckpointTemp d d' \<and> not_ok r
    \<or> (\<exists>bs. encrypt_checkpoint lib sp io c = Ok bs \<and> length bs \<le> metadata_limit_bytes
         \<and> replaced CheckpointTemp CheckpointFile bs d d'
         \<and> (r = Ok () \<longrightarrow> dk_files d' CheckpointFile = Some (durable bs) \<and> dk_stale d' CheckpointFile = None))"
proof -
  let ?put = "\<lambda>bs. write_all io ''checkpoint_write'' 0 CheckpointTemp bs (SpoolFailure CheckpointFailed ''checkpoint_write'')"
  let ?sync = "sync_all io ''checkpoint_sync'' CheckpointTemp (SpoolFailure SyncFailed ''checkpoint_sync'')"
  let ?open = "open_truncated io ''checkpoint_open'' CheckpointTemp (SpoolFailure CheckpointFailed ''checkpoint_open'')"
  let ?finish = "seq (durable_replace io ''checkpoint'' CheckpointTemp CheckpointFile) (\<lambda>_. reading (verify_budget io 30))"
  from assms have "d' = d \<and> not_ok r \<or> (\<exists>bs. encrypt_checkpoint lib sp io c = Ok bs
      \<and> ensure_metadata_budget io 20 (length bs) d = Ok ()
      \<and> seq ?open (\<lambda>_. seq (?put bs) (\<lambda>_. seq ?sync (\<lambda>_. ?finish))) d = (r, d'))"
    unfolding write_checkpoint_def by (auto dest!: guard_lift guard_reading)
  then show ?thesis
  proof (elim disjE exE conjE)
    fix bs
    assume enc: "encrypt_checkpoint lib sp io c = Ok bs" and b: "ensure_metadata_budget io 20 (length bs) d = Ok ()"
      and run: "seq ?open (\<lambda>_. seq (?put bs) (\<lambda>_. seq ?sync (\<lambda>_. ?finish))) d = (r, d')"
    from guard_seq_unit [OF run] consider (fail1) x where "?open d = (x, d')" "not_ok r"
      | d1 where "?open d = (Ok (), d1)" "seq (?put bs) (\<lambda>_. seq ?sync (\<lambda>_. ?finish)) d1 = (r, d')" by blast
    then show ?thesis
    proof cases
      case fail1
      then show ?thesis using scratch_calls(3) by blast
    next
      case 2
      note s1 = scratch_calls(3) [OF 2(1)] and f1 = calls_Ok(3) [OF 2(1)]
      from guard_seq_unit [OF 2(2)] consider (fail2) x where "?put bs d1 = (x, d')" "not_ok r"
        | d2 where "?put bs d1 = (Ok (), d2)" "seq ?sync (\<lambda>_. ?finish) d2 = (r, d')" by blast
      then show ?thesis
      proof cases
        case fail2
        then show ?thesis using scratch_trans [OF s1 scratch_calls(1)] by blast
      next
        case 2
        note s2 = scratch_trans [OF s1 scratch_calls(1) [OF 2(1)]] and f2 = calls_Ok(1) [OF 2(1)]
        from guard_seq_unit [OF 2(2)] consider (fail3) x where "?sync d2 = (x, d')" "not_ok r"
          | d3 where "?sync d2 = (Ok (), d3)" "?finish d3 = (r, d')" by blast
        then show ?thesis
        proof cases
          case fail3
          then show ?thesis using scratch_trans [OF s2 scratch_calls(2)] by blast
        next
          case 2
          note s3 = scratch_trans [OF s2 scratch_calls(2) [OF 2(1)]]
          have f3: "dk_files d3 CheckpointTemp = Some (durable bs)"
            using f1 f2 calls_Ok(2) [OF 2(1)] by (simp add: disk_simps durable_def)
          obtain x where x: "durable_replace io ''checkpoint'' CheckpointTemp CheckpointFile d3 = (x, d')"
            and ok: "not_ok r \<or> x = Ok ()"
            using guard_seq_unit [OF 2(2)] by (elim disjE exE conjE) (auto simp: reading_def)
          note rep = durable_replace_state [OF x _ f3]
          have "replaced CheckpointTemp CheckpointFile bs d d'"
            by (rule scratch_replaced [OF s3 rep(1)]) simp_all
          with enc ensure_metadata_budget_Ok [OF b] rep(2) ok show ?thesis by auto
        qed
      qed
    qed
  qed simp
qed

lemma is_record_prefix_iff: "is_record_prefix ids (scanned sp off q) \<longleftrightarrow> prefix ids (log_records q)"
proof (induction ids arbitrary: off q)
  case Nil
  then show ?case by (simp add: is_record_prefix_def)
next
  case (Cons i ids)
  show ?case
  proof (cases q)
    case Nil
    then show ?thesis by (simp add: is_record_prefix_def)
  next
    case (Cons x xs)
    then show ?thesis using Cons.IH [of "off + length (snd x)" xs]
      by (auto simp: is_record_prefix_def scanned_of_def)
  qed
qed

text \<open>What a checkpoint of a prefix of the pending records does to the queue.\<close>

lemma checkpoint_moves:
  assumes holds: "spool_holds lib sp base done_frames q d"
    and ids: "prefix ids (log_records q)" "ids \<noteq> []"
    and bs: "checkpoint_of lib sp (last ids) bs"
    and d': "dk_files d' WalFile = dk_files d WalFile" "dk_files d' CheckpointFile = Some (durable bs)"
      "\<And>f. dk_stale d' f = None"
  shows "spool_holds lib sp base (done_frames @ take (length ids) q) (drop (length ids) q) d'"
proof -
  have n: "length ids \<le> length q" using prefix_length_le [OF ids(1)] by (simp add: log_records_def)
  have "ids = take (length ids) (log_records q)" using ids(1) by (metis append_eq_conv_conj prefixE)
  then have i: "ids = log_records (take (length ids) q)" by (simp add: log_records_def take_map)
  have ne: "take (length ids) q \<noteq> []" using ids(2) n by (cases q) auto
  have "last ids = stf_record (fst (last (take (length ids) q)))"
    by (subst i) (simp add: log_records_def last_map [OF ne])
  then have "marker lib base (done_frames @ take (length ids) q) = Some (last ids)"
    using ne by (simp add: marker_def)
  then show ?thesis
    using holds bs d' by (auto simp: spool_holds_tail_def checkpoint_holds_def)
qed

lemma checkpoint_records_holds:
  assumes lib: "spool_lib_ok lib" and holds: "spool_holds lib sp base done_frames q d" and io: "io_ok io"
    and run: "checkpoint_records lib sp io cp d = (r, d')"
  shows "not_ok r \<or> pre_generation cp = spl_generation sp \<and> prefix (pre_records cp) (log_records q)
           \<and> spool_holds lib sp base (done_frames @ take (length (pre_records cp)) q) (drop (length (pre_records cp)) q) d'"
    and "crashes d' d'' \<Longrightarrow> spool_holds lib sp base done_frames q d''
           \<or> pre_generation cp = spl_generation sp \<and> prefix (pre_records cp) (log_records q)
           \<and> spool_holds lib sp base (done_frames @ take (length (pre_records cp)) q) (drop (length (pre_records cp)) q) d''"
proof -
  let ?ids = "pre_records cp" and ?off = "wal_header_len + length (log_bytes done_frames)"
  let ?c = "\<lparr>sck_generation = spl_generation sp, sck_last = Some (last ?ids)\<rparr>"
  have sp: "spool_ok lib sp" using holds by (simp add: spool_holds_tail_def log_state_def)
  have "d' = d \<and> not_ok r \<or> ?ids = [] \<and> d' = d \<and> pre_generation cp = spl_generation sp
      \<or> pre_generation cp = spl_generation sp \<and> ?ids \<noteq> [] \<and> prefix ?ids (log_records q)
        \<and> (\<exists>x. write_checkpoint lib sp io ?c d = (x, d') \<and> (not_ok r \<or> x = Ok ()))"
  proof -
    let ?tail = "\<lambda>pending. seq (lift_r (ensure (is_record_prefix ?ids pending) (SpoolFailure CheckpointFailed ''checkpoint_prefix''))) (\<lambda>_.
       seq (write_checkpoint lib sp io ?c) (\<lambda>_.
       seq (reading (disk_usage io 40)) (\<lambda>usage. give (Some (usage, drop (length ?ids) pending)))))"
    from run have "d' = d \<and> not_ok r \<or> ?ids = [] \<and> d' = d \<and> pre_generation cp = spl_generation sp
        \<or> pre_generation cp = spl_generation sp \<and> ?ids \<noteq> [] \<and> seq (pending_frames lib sp io) ?tail d = (r, d')"
      unfolding checkpoint_records_def lock_operation_def
      by (auto simp: result_simps split: if_splits dest!: guard_lift)
    then show ?thesis
    proof (elim disjE conjE)
      assume g: "pre_generation cp = spl_generation sp" "?ids \<noteq> []"
        and t: "seq (pending_frames lib sp io) ?tail d = (r, d')"
      from pending_frames_holds [OF lib holds, of io] show ?thesis
      proof
        assume "pending_frames lib sp io d = (Ok (scanned sp ?off q), d)"
        with t have "?tail (scanned sp ?off q) d = (r, d')" by (simp add: seq_def)
        from guard_lift [OF this] show ?thesis
          using g by (auto simp: result_simps is_record_prefix_iff dest!: guard_seq guard_reading)
      next
        assume "\<exists>e l n. pending_frames lib sp io d = (Err e, d) \<and> io_fails io l n"
        with t show ?thesis by (auto simp: seq_def)
      qed
    qed simp_all
  qed
  then consider (same) "d' = d" "not_ok r"
    | (nothing) "?ids = []" "d' = d" "pre_generation cp = spl_generation sp"
    | (saved) x where "pre_generation cp = spl_generation sp" "?ids \<noteq> []" "prefix ?ids (log_records q)"
        "write_checkpoint lib sp io ?c d = (x, d')" "not_ok r \<or> x = Ok ()" by blast
  note three = this
  have wrote: "(scratch CheckpointTemp d d' \<and> not_ok x)
      \<or> (\<exists>bs. checkpoint_of lib sp (last ?ids) bs \<and> replaced CheckpointTemp CheckpointFile bs d d'
         \<and> (x = Ok () \<longrightarrow> dk_files d' CheckpointFile = Some (durable bs) \<and> dk_stale d' CheckpointFile = None))"
    if "write_checkpoint lib sp io ?c d = (x, d')" for x
    using write_checkpoint_state [OF that] encrypt_checkpoint_Ok [OF _ lib sp io] by blast
  show "not_ok r \<or> pre_generation cp = spl_generation sp \<and> prefix ?ids (log_records q)
     \<and> spool_holds lib sp base (done_frames @ take (length ?ids) q) (drop (length ?ids) q) d'"
    using three
  proof cases
    case (saved x)
    show ?thesis
    proof (cases "not_ok r")
      case False
      with saved(5) have x: "x = Ok ()" by simp
      with wrote [OF saved(4)] obtain bs where bs: "checkpoint_of lib sp (last ?ids) bs"
        "replaced CheckpointTemp CheckpointFile bs d d'" "dk_files d' CheckpointFile = Some (durable bs)"
        "dk_stale d' CheckpointFile = None" by auto
      have "dk_stale d' f = None" for f
        using bs(2,4) holdsD(3) [OF holds]
        by (cases "f \<in> {CheckpointTemp, CheckpointFile}") (auto simp: replaced_def only_def)
      moreover have "dk_files d' WalFile = dk_files d WalFile" using bs(2) by (simp add: replaced_def only_def)
      ultimately show ?thesis using checkpoint_moves [OF holds saved(3,2) bs(1) _ bs(3)] saved(1,3) by blast
    qed simp
  qed (use holds in auto)
  show "spool_holds lib sp base done_frames q d''
     \<or> pre_generation cp = spl_generation sp \<and> prefix ?ids (log_records q)
     \<and> spool_holds lib sp base (done_frames @ take (length ?ids) q) (drop (length ?ids) q) d''" if crash: "crashes d' d''"
    using three
  proof cases
    case (saved x)
    have stale: "dk_stale d'' f = None" for f using crash by (simp add: crashes_def)
    from wrote [OF saved(4)] obtain bs where bs: "checkpoint_of lib sp (last ?ids) bs \<or> scratch CheckpointTemp d d'"
      and rep: "replaced CheckpointTemp CheckpointFile bs d d'"
      using scratch_is_replaced [of CheckpointTemp d d' CheckpointFile] by blast
    have st: "dk_stale d' WalFile = None" and w: "dk_files d' WalFile = dk_files d WalFile"
      using rep holdsD(3) [OF holds] by (simp_all add: replaced_def only_def)
    have wal: "dk_files d'' WalFile = dk_files d WalFile"
      using crashes_kept(1) [OF crash st] w holdsD(1) [OF holds] by (simp add: crash_image_durable)
    from bs show ?thesis
    proof
      assume "scratch CheckpointTemp d d'"
      note sc = scratchD [OF this]
      have "dk_files d'' CheckpointFile = dk_files d CheckpointFile"
        using crashes_kept(1) [OF crash, of CheckpointFile] sc holdsD(2,3) [OF holds]
        by (auto simp: crash_image_durable crash_image_None)
      then show ?thesis using spool_holds_cong [OF holds wal _ stale] by blast
    next
      assume c: "checkpoint_of lib sp (last ?ids) bs"
      from crash_replaced [OF rep crash holdsD(3) [OF holds] holdsD(2) [OF holds]] show ?thesis
        using spool_holds_cong [OF holds wal _ stale] checkpoint_moves [OF holds saved(3,2) c wal _ stale] saved(1,3)
        by blast
    qed
  qed (use spool_holds_crash [OF holds] crash in auto)
qed

end
