(* ===== verification/Message_Spool_Crash.thy ===== *)
theory Message_Spool_Crash
  imports Message_Spool_Correct
begin

text \<open>
  Compaction and opening: compaction keeps the pending frames, opening repairs whatever a crash has
  left and returns the pending frames.
\<close>

section \<open>Compaction\<close>

lemma guard_scratch:
  assumes "seq m g d = (r, d')"
    and "\<And>x t. m d = (x, t) \<Longrightarrow> scratch f d t"
    and "\<And>a t. m d = (Ok a, t) \<Longrightarrow> g a t = (r, d') \<Longrightarrow> scratch f t d'"
  shows "scratch f d d'"
  using guard_seq [OF assms(1)] assms(2,3) scratch_trans by blast

lemma copy_exact_state:
  "copy_exact io src n d = (r, d') \<Longrightarrow> dk_files d CompactTemp = Some i \<Longrightarrow>
     scratch CompactTemp d d'
     \<and> (r = Ok () \<longrightarrow> dk_files d' CompactTemp = Some (i\<lparr>fi_data := fi_data i @ take n src\<rparr>))"
proof (induction io src n arbitrary: d i rule: copy_exact.induct)
  case (1 io src n)
  show ?case
  proof (cases "n = 0")
    case True
    with 1 show ?thesis by (auto simp: copy_exact.simps give_eq)
  next
    case False
    let ?k = "min n copy_buffer_len"
    let ?put = "write_all io ''compact_write'' n CompactTemp (take ?k src) (SpoolFailure CheckpointFailed ''compact_write'')"
    from 1(2) have "seq (lift_r (ensure (?k \<le> length src \<and> \<not> io_fails io ''compact_read'' n)
              (SpoolFailure CheckpointFailed ''compact_read''))) (\<lambda>_. seq ?put (\<lambda>_. copy_exact io (drop ?k src) (n - ?k))) d
        = (r, d')"
      using False by (subst (asm) copy_exact.simps) (simp add: Let_def)
    from guard_lift [OF this] consider "d' = d" "not_ok r"
      | "?k \<le> length src" "seq ?put (\<lambda>_. copy_exact io (drop ?k src) (n - ?k)) d = (r, d')"
      by (auto simp: result_simps)
    then show ?thesis
    proof cases
      case 1
      then show ?thesis by auto
    next
      case 2
      from guard_seq_unit [OF 2(2)] show ?thesis
      proof (elim disjE exE conjE)
        fix x assume "?put d = (x, d')" "not_ok r"
        then show ?thesis using scratch_calls(1) by auto
      next
        fix t assume w: "?put d = (Ok (), t)" and c: "copy_exact io (drop ?k src) (n - ?k) t = (r, d')"
        have t: "dk_files t CompactTemp = Some (i\<lparr>fi_data := fi_data i @ take ?k src\<rparr>)"
          using calls_Ok(1) [OF w] \<open>dk_files d CompactTemp = Some i\<close> by (simp add: disk_simps)
        have "take n src = take ?k src @ take (n - ?k) (drop ?k src)"
          by (metis le_add_diff_inverse min.cobounded1 take_add)
        with 1(1) [OF False refl c t] show ?thesis
          using scratch_trans [OF scratch_calls(1) [OF w]] by auto
      qed
    qed
  qed
qed

lemma copy_frames_state:
  "copy_frames io (scanned sp off q) d = (r, d') \<Longrightarrow> dk_files d CompactTemp = Some i \<Longrightarrow>
     file_data d WalFile = pre @ log_bytes q \<Longrightarrow> off = length pre \<Longrightarrow>
     scratch CompactTemp d d'
     \<and> (r = Ok () \<longrightarrow> dk_files d' CompactTemp = Some (i\<lparr>fi_data := fi_data i @ log_bytes q\<rparr>))"
proof (induction q arbitrary: off pre d i)
  case Nil
  then show ?case by (auto simp: give_eq)
next
  case (Cons x q)
  let ?copy = "\<lambda>d. copy_exact io (drop off (file_data d WalFile)) (length (snd x)) d"
  from Cons.prems(1) consider "d' = d" "not_ok r"
    | "seq ?copy (\<lambda>_. copy_frames io (scanned sp (off + length (snd x)) q)) d = (r, d')"
    by (auto simp: scanned_of_def dest!: guard_lift)
  then show ?case
  proof cases
    case 1
    then show ?thesis by auto
  next
    case 2
    from guard_seq_unit [OF 2] show ?thesis
    proof (elim disjE exE conjE)
      fix y assume "?copy d = (y, d')" "not_ok r"
      then show ?thesis using copy_exact_state [OF _ Cons.prems(2)] by auto
    next
      fix t assume c: "?copy d = (Ok (), t)" and rest: "copy_frames io (scanned sp (off + length (snd x)) q) t = (r, d')"
      note st = copy_exact_state [OF c Cons.prems(2)]
      have "drop off (file_data d WalFile) = snd x @ log_bytes q" using Cons.prems(3,4) by simp
      with st have t: "dk_files t CompactTemp = Some (i\<lparr>fi_data := fi_data i @ snd x\<rparr>)" by simp
      have "dk_files t WalFile = dk_files d WalFile" using st scratchD(1) by blast
      then have "file_data t WalFile = (pre @ snd x) @ log_bytes q" using Cons.prems(3) by (simp add: file_data_def)
      from Cons.IH [OF rest t this] Cons.prems(4) st show ?thesis
        using scratch_trans by auto
    qed
  qed
qed

lemma rewrite_log_state:
  assumes run: "rewrite_log lib sp io r (scanned sp off q) d = (res, d')"
    and u: "record_uuid lib r = Ok u"
    and wal: "file_data d WalFile = pre @ log_bytes q" "off = length pre"
  shows "replaced CompactTemp WalFile (wal_bytes sp (Some u) q) d d'"
    and "res = Ok () \<Longrightarrow> dk_files d' WalFile = Some (durable (wal_bytes sp (Some u) q)) \<and> dk_stale d' WalFile = None"
proof -
  let ?bytes = "wal_bytes sp (Some u) q" and ?h = "wal_header (spl_key_id sp) (spl_generation_uuid sp) (Some u)"
  let ?open = "open_truncated io ''compact_open'' CompactTemp (SpoolFailure CheckpointFailed ''compact_open'')"
  let ?put = "write_wal_header io ''compact_header'' CompactTemp (spl_key_id sp) (spl_generation_uuid sp) (Some u)"
  let ?copy = "copy_frames io (scanned sp off q)"
  let ?sync = "sync_all io ''compact_sync'' CompactTemp (SpoolFailure SyncFailed ''compact_sync'')"
  let ?finish = "durable_replace io ''compact'' CompactTemp WalFile"
  let ?goal = "replaced CompactTemp WalFile ?bytes d d' \<and> (res = Ok () \<longrightarrow>
    dk_files d' WalFile = Some (durable ?bytes) \<and> dk_stale d' WalFile = None)"
  have early: ?goal if "scratch CompactTemp d d'" "not_ok res"
    using that scratch_is_replaced by auto
  have ?goal
  proof -
    from guard_seq_unit [OF run [unfolded rewrite_log_def]] show ?thesis
    proof (elim disjE exE conjE)
      fix x assume "?open d = (x, d')" "not_ok res"
      then show ?thesis using early scratch_calls(3) by blast
    next
      fix d1 assume o: "?open d = (Ok (), d1)"
        and "seq (lift_r (record_uuid lib r)) (\<lambda>base. seq (write_wal_header io ''compact_header'' CompactTemp
            (spl_key_id sp) (spl_generation_uuid sp) (Some base)) (\<lambda>_.
          seq (lift_r (io_check io ''compact_source'' 0 CheckpointFailed ''compact_source'')) (\<lambda>_.
          seq ?copy (\<lambda>_. seq ?sync (\<lambda>_. ?finish))))) d1 = (res, d')"
      then have w0: "seq ?put (\<lambda>_. seq (lift_r (io_check io ''compact_source'' 0 CheckpointFailed ''compact_source'')) (\<lambda>_.
          seq ?copy (\<lambda>_. seq ?sync (\<lambda>_. ?finish)))) d1 = (res, d')" by (simp add: seq_def lift_r_def u)
      note s1 = scratch_calls(3) [OF o] and f1 = calls_Ok(3) [OF o]
      from guard_seq_unit [OF w0] show ?thesis
      proof (elim disjE exE conjE)
        fix x assume "?put d1 = (x, d')" "not_ok res"
        then show ?thesis unfolding write_wal_header_def using early scratch_trans [OF s1 scratch_calls(1)] by blast
      next
        fix d2 assume w: "?put d1 = (Ok (), d2)"
          and "seq (lift_r (io_check io ''compact_source'' 0 CheckpointFailed ''compact_source'')) (\<lambda>_.
            seq ?copy (\<lambda>_. seq ?sync (\<lambda>_. ?finish))) d2 = (res, d')"
        note s2 = scratch_trans [OF s1 scratch_calls(1) [OF w [unfolded write_wal_header_def]]]
        have f2: "dk_files d2 CompactTemp = Some \<lparr>fi_data = ?h, fi_synced = 0\<rparr>"
          using calls_Ok(1) [OF w [unfolded write_wal_header_def]] f1 by (simp add: disk_simps)
        from guard_lift [OF \<open>seq (lift_r (io_check _ _ _ _ _)) _ d2 = _\<close>] show ?thesis
        proof (elim disjE exE conjE)
          assume "d' = d2" "not_ok res" then show ?thesis using early s2 by blast
        next
          assume c: "seq ?copy (\<lambda>_. seq ?sync (\<lambda>_. ?finish)) d2 = (res, d')"
          have "file_data d2 WalFile = pre @ log_bytes q"
            using wal(1) scratchD(1) [OF s2, of WalFile] by (simp add: file_data_def)
          note copied = copy_frames_state [OF _ f2 this wal(2)]
          from guard_seq_unit [OF c] show ?thesis
          proof (elim disjE exE conjE)
            fix x assume "?copy d2 = (x, d')" "not_ok res"
            then show ?thesis using early scratch_trans [OF s2] copied by blast
          next
            fix d3 assume c3: "?copy d2 = (Ok (), d3)" and "seq ?sync (\<lambda>_. ?finish) d3 = (res, d')"
            note s3 = scratch_trans [OF s2 conjunct1 [OF copied [OF c3]]]
            have f3: "dk_files d3 CompactTemp = Some \<lparr>fi_data = ?bytes, fi_synced = 0\<rparr>"
              using copied [OF c3] by (simp add: wal_bytes_def)
            from guard_seq_unit [OF \<open>seq ?sync _ d3 = _\<close>] show ?thesis
            proof (elim disjE exE conjE)
              fix x assume "?sync d3 = (x, d')" "not_ok res"
              then show ?thesis using early scratch_trans [OF s3 scratch_calls(2)] by blast
            next
              fix d4 assume c4: "?sync d3 = (Ok (), d4)" and e: "?finish d4 = (res, d')"
              note s4 = scratch_trans [OF s3 scratch_calls(2) [OF c4]]
              have f4: "dk_files d4 CompactTemp = Some (durable ?bytes)"
                using calls_Ok(2) [OF c4] f3 by (simp add: disk_simps durable_def)
              note rep = durable_replace_state [OF e _ f4]
              show ?thesis using scratch_replaced [OF s4 rep(1)] rep(2) by auto
            qed
          qed
        qed
      qed
    qed
  qed
  then show "replaced CompactTemp WalFile ?bytes d d'"
    and "res = Ok () \<Longrightarrow> dk_files d' WalFile = Some (durable ?bytes) \<and> dk_stale d' WalFile = None" by auto
qed

text \<open>A compacted log: the done frames are gone, the base names the last of them.\<close>

lemma compacted_holds:
  assumes holds: "spool_holds lib sp base done_frames q d" and m: "marker lib base done_frames = Some r"
    and u: "r = record_of lib u" "uuid_ok u" "r \<notin> set (log_records q)"
    and d': "dk_files d' WalFile = Some (durable (wal_bytes sp (Some u) q))"
      "dk_files d' CheckpointFile = dk_files d CheckpointFile" "\<And>f. dk_stale d' f = None"
  shows "spool_holds lib sp (Some u) [] q d'"
proof -
  have log: "log_state lib sp base (done_frames @ q)" using holds by (simp add: spool_holds_tail_def)
  have new: "log_state lib sp (Some u) q"
    using log u by (auto simp: log_state_def log_ok_append)
  have "length (wal_bytes sp (Some u) q) \<le> length (wal_bytes sp base (done_frames @ q))"
    by (simp add: wal_bytes_def log_state_header [OF log] log_state_header [OF new])
  also have "\<dots> \<le> active_wal_bytes" using holds by (simp add: spool_holds_tail_def)
  finally have len: "length (wal_bytes sp (Some u) q) \<le> active_wal_bytes" .
  have "checkpoint_holds lib sp (Some r) d'"
    using holds m checkpoint_holds_cong [OF d'(2)] by (simp add: spool_holds_tail_def)
  then have "checkpoint_holds lib sp (marker lib (Some u) []) d'" by (simp add: marker_def u(1))
  with new len d' show ?thesis by (simp add: spool_holds_tail_def)
qed

text \<open>The queue on a disk, with bounds for the record ids and admission ids it has used.\<close>

definition used_records :: "spool_lib \<Rightarrow> u8 list option \<Rightarrow> spool_log \<Rightarrow> spool_record_id set" where
  "used_records lib base log = set (log_records log) \<union> set_option (map_option (record_of lib) base)"

definition spool_queue ::
  "spool_lib \<Rightarrow> message_spool \<Rightarrow> spool_record_id set \<Rightarrow> spool_admission_id set \<Rightarrow> stored_frame list \<Rightarrow>
     u8 list \<Rightarrow> spool_disk \<Rightarrow> bool" where
  "spool_queue lib sp R A frames tail d \<longleftrightarrow>
     (\<exists>base done_frames q. spool_holds_tail lib sp base done_frames q tail d \<and> frames = map fst q
        \<and> used_records lib base (done_frames @ q) \<subseteq> R \<and> set (log_admissions (done_frames @ q)) \<subseteq> A)"

lemma spool_queueI:
  assumes "spool_holds_tail lib sp base done_frames q tail d"
    and "used_records lib base (done_frames @ q) \<subseteq> R" "set (log_admissions (done_frames @ q)) \<subseteq> A"
  shows "spool_queue lib sp R A (map fst q) tail d"
  using assms unfolding spool_queue_def by blast

lemma spool_queue_crash:
  assumes "spool_queue lib sp R A frames [] d" "crashes d d'"
  shows "spool_queue lib sp R A frames [] d'"
  using assms spool_holds_crash unfolding spool_queue_def by blast

lemma rewrite_crash:
  assumes rep: "replaced CompactTemp WalFile (wal_bytes sp (Some u) q) d d'" and crash: "crashes d' d''"
    and holds: "spool_holds lib sp base done_frames q d"
  shows "(dk_files d'' WalFile = dk_files d WalFile \<or> dk_files d'' WalFile = Some (durable (wal_bytes sp (Some u) q)))
         \<and> dk_files d'' CheckpointFile = dk_files d CheckpointFile"
proof -
  have c: "dk_files d' CheckpointFile = dk_files d CheckpointFile" "dk_stale d' CheckpointFile = None"
    using rep holdsD(3) [OF holds] by (simp_all add: replaced_def only_def)
  have "dk_files d'' CheckpointFile = dk_files d CheckpointFile"
    using crashes_kept(1) [OF crash c(2)] c(1) holdsD(2) [OF holds]
    by (auto simp: crash_image_durable crash_image_None)
  with crash_replaced [OF rep crash holdsD(3) [OF holds]] holdsD(1) [OF holds] show ?thesis by blast
qed

lemma compact_cases:
  assumes lib: "spool_lib_ok lib" and holds: "spool_holds lib sp base done_frames q d"
    and run: "compact lib sp io d = (r, d')"
  obtains (same) "d' = d"
    | (rewritten) m u where "marker lib base done_frames = Some m" "m = record_of lib u" "uuid_ok u"
        "m \<notin> set (log_records q)" "replaced CompactTemp WalFile (wal_bytes sp (Some u) q) d d'"
        "not_ok r \<or> dk_files d' WalFile = Some (durable (wal_bytes sp (Some u) q)) \<and> dk_stale d' WalFile = None"
proof -
  have log: "log_state lib sp base (done_frames @ q)" using holds by (simp add: spool_holds_tail_def)
  let ?off = "wal_header_len + length (log_bytes done_frames)"
  let ?scan = "\<lparr>scw_base = map_option (record_of lib) base,
                 scw_frames = scanned sp wal_header_len (done_frames @ q), scw_truncated = False\<rparr>"
  show thesis
  proof (cases "d' = d")
    case False
    from run have r1: "seq (scan_locked lib sp io False) (\<lambda>scan.
       seq (reading (read_checkpoint lib sp io)) (\<lambda>ckpt.
       (case ckpt of None \<Rightarrow> give ()
        | Some c \<Rightarrow> (case sck_last c of None \<Rightarrow> give ()
             | Some last_record_id \<Rightarrow> compact_log lib sp io scan c last_record_id)))) d = (r, d')"
      unfolding compact_def lock_operation_def using False by (blast dest: guard_lift)
    from scan_holds [OF lib holds, of io] have scan: "scan_locked lib sp io False d = (Ok ?scan, d)"
    proof
      assume "\<exists>e l n. scan_locked lib sp io False d = (Err e, d) \<and> io_fails io l n"
      with r1 False show ?thesis by (auto simp: seq_def)
    qed
    with r1 have r2: "seq (reading (read_checkpoint lib sp io)) (\<lambda>ckpt.
       (case ckpt of None \<Rightarrow> give ()
        | Some c \<Rightarrow> (case sck_last c of None \<Rightarrow> give ()
             | Some last_record_id \<Rightarrow> compact_log lib sp io ?scan c last_record_id))) d = (r, d')"
      by (simp add: seq_def [of "scan_locked lib sp io False"])
    from guard_reading [OF r2] False obtain c0 where read: "read_checkpoint lib sp io d = Ok c0"
      and r3: "(case c0 of None \<Rightarrow> give ()
        | Some c \<Rightarrow> (case sck_last c of None \<Rightarrow> give ()
             | Some last_record_id \<Rightarrow> compact_log lib sp io ?scan c last_record_id)) d = (r, d')" by blast
    from checkpoint_read_holds [OF lib holds, of io] read
    have c0: "c0 = map_option (\<lambda>r. \<lparr>sck_generation = spl_generation sp, sck_last = Some r\<rparr>)
        (marker lib base done_frames)" by auto
    obtain m where m: "marker lib base done_frames = Some m"
      using r3 False by (cases "marker lib base done_frames") (auto simp: c0 give_eq)
    let ?c = "\<lparr>sck_generation = spl_generation sp, sck_last = Some m\<rparr>"
    have r4: "compact_log lib sp io ?scan ?c m d = (r, d')" using r3 by (simp add: c0 m)
    obtain u where u: "m = record_of lib u" "uuid_ok u" "m \<notin> set (log_records q)"
      by (rule marker_uuid [OF log m])
    have uu: "record_uuid lib m = Ok u" using u by (simp add: record_uuid_of [OF lib] uuid_ok_def)
    have pend: "pending_after_checkpoint sp ?scan (Some ?c) = Ok (scanned sp ?off q)"
      using pending_of_scan [OF log, of False] by (simp add: m)
    have "\<exists>x. rewrite_log lib sp io m (scanned sp ?off q) d = (x, d') \<and> (not_ok r \<or> x = Ok ())"
    proof -
      have "seq (rewrite_log lib sp io m (scanned sp ?off q)) (\<lambda>_.
          seq (scan_locked lib sp io False) (\<lambda>_. reading (verify_budget io 60))) d = (r, d')"
        using r4 False unfolding compact_log_def pend Let_def
        by (auto simp: result_simps dest!: guard_lift guard_reading)
      from guard_seq_unit [OF this] show ?thesis
      proof (elim disjE exE conjE)
        fix t assume t: "rewrite_log lib sp io m (scanned sp ?off q) d = (Ok (), t)"
          and rest: "seq (scan_locked lib sp io False) (\<lambda>_. reading (verify_budget io 60)) t = (r, d')"
        have "scan_locked lib sp io False t = (x, t') \<Longrightarrow> t' = t" for x t'
          by (auto simp: scan_locked_def truncate_final_tail_def seq_def reading_def give_def lift_r_def
              split: result.splits option.splits prod.splits)
        with rest have "d' = t" by (auto simp: seq_def reading_def split: prod.splits result.splits)
        with t show ?thesis by blast
      qed blast
    qed
    then obtain x where x: "rewrite_log lib sp io m (scanned sp ?off q) d = (x, d')" "not_ok r \<or> x = Ok ()" by blast
    have wal: "file_data d WalFile = (wal_header (spl_key_id sp) (spl_generation_uuid sp) base @ log_bytes done_frames) @ log_bytes q"
      using holdsD(1) [OF holds] by (simp add: file_data_def wal_bytes_def)
    note rw = rewrite_log_state [OF x(1) uu wal]
    show thesis
      by (rule rewritten [OF m u]) (use rw x(2) log_state_header [OF log] in auto)
  qed (rule same)
qed

lemma compact_queue:
  assumes lib: "spool_lib_ok lib" and queue: "spool_queue lib sp R A frames [] d"
    and run: "compact lib sp io d = (r, d')"
  shows "not_ok r \<or> spool_queue lib sp R A frames [] d'"
    and "crashes d' d'' \<Longrightarrow> spool_queue lib sp R A frames [] d''"
proof -
  from queue obtain base done_frames q where holds: "spool_holds lib sp base done_frames q d"
    and f: "frames = map fst q" and ids: "used_records lib base (done_frames @ q) \<subseteq> R"
      "set (log_admissions (done_frames @ q)) \<subseteq> A"
    unfolding spool_queue_def by blast
  have new: "spool_queue lib sp R A frames [] e"
    if m: "marker lib base done_frames = Some m" "m = record_of lib u" "uuid_ok u" "m \<notin> set (log_records q)"
      and e: "dk_files e WalFile = Some (durable (wal_bytes sp (Some u) q))"
      "dk_files e CheckpointFile = dk_files d CheckpointFile" "\<And>f. dk_stale e f = None" for m u e
  proof -
    have "m \<in> used_records lib base (done_frames @ q)"
      using m(1) by (cases "done_frames = []") (auto simp: marker_def used_records_def log_records_def)
    with ids m(2) have "used_records lib (Some u) ([] @ q) \<subseteq> R" "set (log_admissions ([] @ q)) \<subseteq> A"
      by (auto simp: used_records_def)
    from spool_queueI [OF compacted_holds [OF holds m e] this] show ?thesis unfolding f .
  qed
  show "not_ok r \<or> spool_queue lib sp R A frames [] d'"
    using lib holds run
  proof (cases rule: compact_cases)
    case same
    with queue show ?thesis by simp
  next
    case (rewritten m u)
    show ?thesis
    proof (cases "not_ok r")
      case False
      with rewritten(6) have w: "dk_files d' WalFile = Some (durable (wal_bytes sp (Some u) q))"
        "dk_stale d' WalFile = None" by simp_all
      have "dk_stale d' f = None" for f
        using rewritten(5) w(2) holdsD(3) [OF holds]
        by (cases "f \<in> {CompactTemp, WalFile}") (auto simp: replaced_def only_def)
      moreover have "dk_files d' CheckpointFile = dk_files d CheckpointFile"
        using rewritten(5) by (simp add: replaced_def only_def)
      ultimately show ?thesis using new [OF rewritten(1-4) w(1)] by blast
    qed simp
  qed
  show "spool_queue lib sp R A frames [] d''" if crash: "crashes d' d''"
    using lib holds run
  proof (cases rule: compact_cases)
    case same
    with queue spool_queue_crash crash show ?thesis by blast
  next
    case (rewritten m u)
    have stale: "dk_stale d'' f = None" for f using crash by (simp add: crashes_def)
    from rewrite_crash [OF rewritten(5) crash holds] show ?thesis
    proof (elim conjE disjE)
      assume "dk_files d'' WalFile = dk_files d WalFile" "dk_files d'' CheckpointFile = dk_files d CheckpointFile"
      from spool_holds_cong [OF holds this stale] ids show ?thesis unfolding f by (rule spool_queueI)
    next
      assume "dk_files d'' WalFile = Some (durable (wal_bytes sp (Some u) q))"
        "dk_files d'' CheckpointFile = dk_files d CheckpointFile"
      from new [OF rewritten(1-4) this stale] show ?thesis .
    qed
  qed
qed

end
