(* ===== verification/Message_Spool_Open.thy ===== *)
theory Message_Spool_Open
  imports Message_Spool_Crash
begin

text \<open>
  Opening a spool: on an empty directory, on one that was closed, and on one that a crash has left.
  Opening repairs an incomplete last frame and returns the pending frames in order.
\<close>

section \<open>Before the log\<close>

definition key_for :: "spool_lib \<Rightarrow> (string \<Rightarrow> string option) \<Rightarrow> message_spool \<Rightarrow> bool" where
  "key_for lib env sp \<longleftrightarrow>
     (\<forall>io. io_env io = env \<longrightarrow>
        load_key lib io (cfg_key_env (spl_config sp)) = Ok (spl_key sp, spl_key_id sp))"

lemma load_key_env:
  assumes "load_key lib io name = Ok (k, i)" "io_env io' = io_env io"
  shows "load_key lib io' name = Ok (k, i)"
  using assms by (simp add: load_key_def)

lemma load_key_length: "spool_lib_ok lib \<Longrightarrow> load_key lib io name = Ok (k, i) \<Longrightarrow> length i = 16"
  by (auto simp: load_key_def result_simps spool_lib_okD(3))

lemma acquire_lock_state: "acquire_lock io d = (r, d') \<Longrightarrow> scratch LockFile d d'"
  by (auto simp: acquire_lock_def Let_def scratch_def only_def disk_simps split: if_splits)

lemma remove_temp_Ok:
  "remove_non_authoritative_temp io l f d = (Ok u, d') \<Longrightarrow> dk_stale d f = None \<Longrightarrow>
     scratch f d d' \<and> dk_files d' f = None"
  by (auto simp: remove_non_authoritative_temp_def sync_parent_def file_exists_def scratch_def only_def disk_simps
      split: if_splits)

text \<open>The directory as the log is opened.\<close>

definition cleared :: "spool_disk \<Rightarrow> spool_disk \<Rightarrow> bool" where
  "cleared d d' \<longleftrightarrow>
     dk_files d' WalFile = dk_files d WalFile \<and> dk_files d' CheckpointFile = dk_files d CheckpointFile
     \<and> dk_files d' CompactTemp = None \<and> dk_files d' CheckpointTemp = None \<and> (\<forall>f. dk_stale d' f = None)"

lemma open_spool_Ok:
  assumes "open_spool lib cfg io d = (Ok (sp, rec, tm), d')" and "\<And>f. dk_stale d f = None"
  obtains k i e g gid e' where "spool_config_validate cfg = Ok ()" "load_key lib io (cfg_key_env cfg) = Ok (k, i)"
    "cleared d e" "initialize_or_read_wal lib io i e = (Ok (g, gid), e')"
    "sp = \<lparr>spl_config = cfg, spl_key = k, spl_key_id = i, spl_generation_uuid = g, spl_generation = gid\<rparr>"
    "open_recovery lib sp io e' = (Ok (rec, tm), d')"
proof -
  from assms(1) obtain k i d1 d2 e g gid e' where c: "spool_config_validate cfg = Ok ()"
    and k: "load_key lib io (cfg_key_env cfg) = Ok (k, i)" and d1: "acquire_lock io d = (Ok (), d1)"
    and d2: "remove_non_authoritative_temp io ''compact_temp'' CompactTemp d1 = (Ok (), d2)"
    and e: "remove_non_authoritative_temp io ''checkpoint_temp'' CheckpointTemp d2 = (Ok (), e)"
    and i: "initialize_or_read_wal lib io i e = (Ok (g, gid), e')"
    and sp: "sp = \<lparr>spl_config = cfg, spl_key = k, spl_key_id = i, spl_generation_uuid = g, spl_generation = gid\<rparr>"
    and r: "open_recovery lib sp io e' = (Ok (rec, tm), d')"
    unfolding open_spool_def by (auto simp: result_simps Let_def)
  note s1 = scratchD [OF acquire_lock_state [OF d1]]
  have st1: "dk_stale d1 f = None" for f using s1(2) assms(2) by simp
  note r2 = remove_temp_Ok [OF d2 st1]
  note s2 = scratchD [OF conjunct1 [OF r2]]
  have st2: "dk_stale d2 f = None" for f using s2(2) st1 by simp
  note r3 = remove_temp_Ok [OF e st2]
  note s3 = scratchD [OF conjunct1 [OF r3]]
  have "cleared d e"
    using s1 s2 s3 st2 r2 r3 by (simp add: cleared_def)
  from that [OF c k this i sp r] show thesis .
qed

lemma remove_temp_only: "remove_non_authoritative_temp io l f d = (r, d') \<Longrightarrow> only {f} d d'"
  by (auto simp: remove_non_authoritative_temp_def sync_parent_def only_def disk_simps split: if_splits)

lemma open_spool_cases:
  assumes "open_spool lib cfg io d = (r, d')"
  shows "not_ok r \<and> dk_files d' WalFile = dk_files d WalFile
    \<or> (\<exists>i e x e'. dk_files e WalFile = dk_files d WalFile \<and> initialize_or_read_wal lib io i e = (x, e')
         \<and> (not_ok x \<longrightarrow> not_ok r \<and> d' = e'))"
proof -
  let ?rest = "\<lambda>k i. seq (initialize_or_read_wal lib io i) (\<lambda>(g, gid).
     let sp = \<lparr>spl_config = cfg, spl_key = k, spl_key_id = i, spl_generation_uuid = g, spl_generation = gid\<rparr> in
     seq (open_recovery lib sp io) (\<lambda>(recovery, telemetry). give (sp, recovery, telemetry)))"
  let ?c = "remove_non_authoritative_temp io ''compact_temp'' CompactTemp"
  let ?t = "remove_non_authoritative_temp io ''checkpoint_temp'' CheckpointTemp"
  from assms have "d' = d \<and> not_ok r \<or> (\<exists>k i. seq (acquire_lock io) (\<lambda>_. seq ?c (\<lambda>_. seq ?t (\<lambda>_. ?rest k i))) d = (r, d'))"
    unfolding open_spool_def by (auto dest!: guard_lift)
  then show ?thesis
  proof (elim disjE exE)
    fix k i
    assume a: "seq (acquire_lock io) (\<lambda>_. seq ?c (\<lambda>_. seq ?t (\<lambda>_. ?rest k i))) d = (r, d')"
    from guard_seq_unit [OF a] show ?thesis
    proof (elim disjE exE conjE)
      fix x assume "acquire_lock io d = (x, d')" "not_ok r"
      then show ?thesis using scratchD(1) [OF acquire_lock_state, of io d x d' WalFile] by simp
    next
      fix d1 assume l: "acquire_lock io d = (Ok (), d1)" and b: "seq ?c (\<lambda>_. seq ?t (\<lambda>_. ?rest k i)) d1 = (r, d')"
      have w1: "dk_files d1 WalFile = dk_files d WalFile"
        using scratchD(1) [OF acquire_lock_state [OF l], of WalFile] by simp
      from guard_seq_unit [OF b] show ?thesis
      proof (elim disjE exE conjE)
        fix x assume "?c d1 = (x, d')" "not_ok r"
        then show ?thesis using onlyD [OF remove_temp_only, of _ _ _ _ _ _ WalFile] w1 by fastforce
      next
        fix d2 assume m: "?c d1 = (Ok (), d2)" and c: "seq ?t (\<lambda>_. ?rest k i) d2 = (r, d')"
        have w2: "dk_files d2 WalFile = dk_files d WalFile"
          using onlyD [OF remove_temp_only [OF m], of WalFile] w1 by simp
        from guard_seq_unit [OF c] show ?thesis
        proof (elim disjE exE conjE)
          fix x assume "?t d2 = (x, d')" "not_ok r"
          then show ?thesis using onlyD [OF remove_temp_only, of _ _ _ _ _ _ WalFile] w2 by fastforce
        next
          fix e assume n: "?t d2 = (Ok (), e)" and f: "?rest k i e = (r, d')"
          have w3: "dk_files e WalFile = dk_files d WalFile"
            using onlyD [OF remove_temp_only [OF n], of WalFile] w2 by simp
          obtain x e' where i: "initialize_or_read_wal lib io i e = (x, e')" by force
          have "not_ok x \<longrightarrow> not_ok r \<and> d' = e'" using f by (cases x) (auto simp: seq_def i)
          with w3 i show ?thesis by blast
        qed
      qed
    qed
  qed simp
qed

section \<open>The log\<close>

lemma initialize_existing:
  assumes lib: "spool_lib_ok lib" and holds: "spool_holds_tail lib sp base done_frames q tail d"
    and run: "initialize_or_read_wal lib io (spl_key_id sp) d = (r, d')"
  shows "d' = d \<and> (r = Ok (spl_generation_uuid sp, spl_generation sp) \<or> (\<exists>l n. not_ok r \<and> io_fails io l n))"
proof -
  let ?data = "wal_bytes sp base (done_frames @ q) @ tail"
  have log: "log_state lib sp base (done_frames @ q)" and wal: "dk_files d WalFile = Some (durable ?data)"
    using holds by (simp_all add: spool_holds_tail_def)
  note h = log_state_header [OF log]
  have sp: "spool_ok lib sp" using log by (simp add: log_state_def)
  have p: "parse_wal_header lib (wal_header (spl_key_id sp) (spl_generation_uuid sp) base) (spl_key_id sp)
      = Ok (spl_generation_uuid sp, map_option (record_of lib) base)"
    by (rule parse_wal_header_ok [OF lib]) (use log in \<open>auto simp: spool_ok_def log_state_def\<close>)
  have g: "generation_id_of lib (spl_generation_uuid sp) = Ok (spl_generation_uuid sp, spl_generation sp)"
    using sp spool_lib_okD(5) [OF lib]
    by (simp add: generation_id_of_def spool_generation_id_new_def spool_id_check_def spool_ok_def uuid_ok_def)
  have data: "file_data d WalFile = wal_header (spl_key_id sp) (spl_generation_uuid sp) base
      @ log_bytes (done_frames @ q) @ tail" "file_exists d WalFile"
    by (simp_all add: file_data_def file_exists_def wal wal_bytes_def)
  show ?thesis
    using run h
    by (auto simp: initialize_or_read_wal_def data seq_def lift_r_def reading_def io_check_def ensure_def p g
        split: if_splits)
qed

lemma scan_repairs:
  assumes lib: "spool_lib_ok lib" and holds: "spool_holds_tail lib sp base done_frames q tail d"
    and run: "scan_locked lib sp io True d = (r, d')"
  shows "r = Ok \<lparr>scw_base = map_option (record_of lib) base,
                 scw_frames = scanned sp wal_header_len (done_frames @ q), scw_truncated = (tail \<noteq> [])\<rparr>
           \<and> spool_holds lib sp base done_frames q d'
           \<and> dk_files d' CompactTemp = dk_files d CompactTemp
         \<or> (\<exists>l n. not_ok r \<and> io_fails io l n)"
proof -
  let ?log = "done_frames @ q"
  have log: "log_state lib sp base ?log" and tail: "torn_frame lib sp tail"
    and wal: "dk_files d WalFile = Some (durable (wal_bytes sp base ?log @ tail))"
    and len: "length (wal_bytes sp base ?log) \<le> active_wal_bytes"
    and ckpt: "checkpoint_holds lib sp (marker lib base done_frames) d" and stale: "\<And>f. dk_stale d f = None"
    using holds by (simp_all add: spool_holds_tail_def)
  have off: "wal_header_len + length (log_bytes ?log) = length (wal_bytes sp base ?log)"
    by (simp add: wal_bytes_def log_state_header [OF log])
  from read_scan_log [OF lib log tail wal fi_durable(1), of io] show ?thesis
  proof
    assume scan: "read_scan lib sp io d = Ok (map_option (record_of lib) base, scanned sp wal_header_len ?log,
        if tail = [] then None else Some (wal_header_len + length (log_bytes ?log)))"
    note scan = this [unfolded off]
    show ?thesis
    proof (cases "tail = []")
      case True
      with run scan holds show ?thesis by (auto simp: scan_locked_def seq_def reading_def give_def)
    next
      case False
      show ?thesis
      proof (cases "io_fails io ''tail_truncate'' 0 \<or> io_fails io ''tail_sync'' 0")
        case True
        with run scan False have "not_ok r"
          by (auto simp: scan_locked_def seq_def reading_def give_def truncate_final_tail_def set_len_def sync_all_def
              split: if_splits)
        with True show ?thesis by blast
      next
        case io: False
        let ?cut = "settle WalFile (sync_bytes WalFile (put_image WalFile (Some
          \<lparr>fi_data = wal_bytes sp base ?log, fi_synced = length (wal_bytes sp base ?log)\<rparr>) (mark_stale WalFile d)))"
        from run scan False io wal have d': "d' = ?cut"
          and r: "r = Ok \<lparr>scw_base = map_option (record_of lib) base,
                 scw_frames = scanned sp wal_header_len ?log, scw_truncated = True\<rparr>"
          by (simp_all add: scan_locked_def seq_def reading_def give_def truncate_final_tail_def set_len_def
              sync_all_def)
        have "dk_files d' WalFile = Some (durable (wal_bytes sp base ?log))"
          "dk_files d' CheckpointFile = dk_files d CheckpointFile" "\<And>f. dk_stale d' f = None"
          "dk_files d' CompactTemp = dk_files d CompactTemp"
          by (simp_all add: d' disk_simps durable_def stale)
        then show ?thesis
          using r False log len ckpt checkpoint_holds_cong [of d' d] by (simp add: spool_holds_tail_def)
      qed
    qed
  next
    assume "\<exists>e l n. read_scan lib sp io d = Err e \<and> io_fails io l n"
    with run show ?thesis by (auto simp: scan_locked_def seq_def reading_def)
  qed
qed

lemma open_recovery_holds:
  assumes lib: "spool_lib_ok lib" and holds: "spool_holds_tail lib sp base done_frames q tail d"
    and run: "open_recovery lib sp io d = (Ok (rec, tm), d')"
  shows "rec = \<lparr>rec_frames = map (Replay \<circ> recovered_of sp \<circ> fst) q
                   @ (if tail = [] then [] else [TruncateIncompleteFinalTail]), rec_truncated = (tail \<noteq> [])\<rparr>"
    and "tm_pending_frames tm = length q" and "spool_holds lib sp base done_frames q d'"
proof -
  have log: "log_state lib sp base (done_frames @ q)" using holds by (simp add: spool_holds_tail_def)
  from run obtain scan d1 ckpt pending usage n where s: "scan_locked lib sp io True d = (Ok scan, d1)"
    and c: "read_checkpoint lib sp io d1 = Ok ckpt" and p: "pending_after_checkpoint sp scan ckpt = Ok pending"
    and rec: "rec = \<lparr>rec_frames = map (Replay \<circ> scf_recovered) pending
                @ (if scw_truncated scan then [TruncateIncompleteFinalTail] else []), rec_truncated = scw_truncated scan\<rparr>"
    and tm: "tm = telemetry_initialize usage pending n telemetry_default" and d': "d' = d1"
    unfolding open_recovery_def lock_operation_def by (auto simp: result_simps)
  from scan_repairs [OF lib holds s]
  have scan: "scan = \<lparr>scw_base = map_option (record_of lib) base,
          scw_frames = scanned sp wal_header_len (done_frames @ q), scw_truncated = (tail \<noteq> [])\<rparr>"
    and h1: "spool_holds lib sp base done_frames q d1" by auto
  from checkpoint_read_holds [OF lib h1, of io] c
  have "ckpt = map_option (\<lambda>r. \<lparr>sck_generation = spl_generation sp, sck_last = Some r\<rparr>) (marker lib base done_frames)"
    by auto
  with p scan pending_of_scan [OF log] have "pending = scanned sp (wal_header_len + length (log_bytes done_frames)) q"
    by simp
  moreover have "map (Replay \<circ> scf_recovered) (scanned sp off q) = map (Replay \<circ> recovered_of sp \<circ> fst) q" for off
    by (metis (no_types) comp_assoc map_map scanned_maps(2))
  ultimately show "rec = \<lparr>rec_frames = map (Replay \<circ> recovered_of sp \<circ> fst) q
                   @ (if tail = [] then [] else [TruncateIncompleteFinalTail]), rec_truncated = (tail \<noteq> [])\<rparr>"
    and "tm_pending_frames tm = length q" and "spool_holds lib sp base done_frames q d'"
    using h1 by (simp_all add: rec tm d' scan telemetry_initialize_def)
qed

lemma holds_tail_cleared:
  assumes "spool_holds_tail lib sp base done_frames q tail d" "cleared d e"
  shows "spool_holds_tail lib sp base done_frames q tail e"
  using assms checkpoint_holds_cong [of e d] by (simp add: spool_holds_tail_def cleared_def)

text \<open>Opening a directory that holds a queue, however incomplete its last frame.\<close>

lemma open_queue:
  assumes lib: "spool_lib_ok lib" and queue: "spool_queue lib sp R A frames tail d"
    and key: "key_for lib env sp" "io_env io = env" "spl_config sp = cfg"
    and run: "open_spool lib cfg io d = (Ok (sp', rec, tm), d')"
  shows "sp' = sp \<and> spool_queue lib sp R A frames [] d' \<and> rec_frames rec = map (Replay \<circ> recovered_of sp) frames
           @ (if tail = [] then [] else [TruncateIncompleteFinalTail]) \<and> tm_pending_frames tm = length frames"
proof -
  from queue obtain base done_frames q where holds: "spool_holds_tail lib sp base done_frames q tail d"
    and f: "frames = map fst q" and ids: "used_records lib base (done_frames @ q) \<subseteq> R"
      "set (log_admissions (done_frames @ q)) \<subseteq> A"
    unfolding spool_queue_def by blast
  have stale: "\<And>f. dk_stale d f = None" using holds by (simp add: spool_holds_tail_def)
  obtain k i e g gid e' where "spool_config_validate cfg = Ok ()"
    and k: "load_key lib io (cfg_key_env cfg) = Ok (k, i)" and e: "cleared d e"
    and i: "initialize_or_read_wal lib io i e = (Ok (g, gid), e')"
    and sp': "sp' = \<lparr>spl_config = cfg, spl_key = k, spl_key_id = i, spl_generation_uuid = g, spl_generation = gid\<rparr>"
    and r: "open_recovery lib sp' io e' = (Ok (rec, tm), d')"
    by (rule open_spool_Ok [OF run stale])
  have "load_key lib io (cfg_key_env cfg) = Ok (spl_key sp, spl_key_id sp)"
    using key(1) [unfolded key_for_def, rule_format, OF key(2)] unfolding key(3) .
  with k have "k = spl_key sp" "i = spl_key_id sp" by simp_all
  note holds' = holds_tail_cleared [OF holds e]
  from initialize_existing [OF lib holds' i [unfolded \<open>i = _\<close>]]
  have "e' = e" "g = spl_generation_uuid sp" "gid = spl_generation sp" by auto
  then have "sp' = sp" using sp' \<open>k = _\<close> \<open>i = _\<close> key(3) by simp
  note rec = open_recovery_holds [OF lib holds' r [unfolded \<open>e' = e\<close> \<open>sp' = sp\<close>]]
  show ?thesis
    using spool_queueI [OF rec(3) ids] \<open>sp' = sp\<close> by (simp add: rec(1,2) f)
qed

text \<open>Opening an empty directory.\<close>

lemma wal_bytes_Nil: "wal_bytes sp b [] = wal_header (spl_key_id sp) (spl_generation_uuid sp) b"
  by (simp add: wal_bytes_def)

lemma new_log_holds:
  assumes lib: "spool_lib_ok lib" and io: "io_ok io" and c: "spool_config_validate (spl_config sp) = Ok ()"
    and k: "load_key lib io name = Ok (spl_key sp, spl_key_id sp)"
    and none: "\<not> file_exists e WalFile" "dk_files e CheckpointFile = None" "\<And>f. dk_stale e f = None"
    and i: "initialize_or_read_wal lib io (spl_key_id sp) e = (Ok (spl_generation_uuid sp, spl_generation sp), e')"
  shows "spool_holds lib sp None [] [] e'" and "dk_files e' CompactTemp = dk_files e CompactTemp"
proof -
  have len: "length (spl_key_id sp) = 16" by (rule load_key_length [OF lib k])
  have g: "spl_generation_uuid sp = io_uuid io" "spl_generation sp = SpoolGenerationId (lib_uuid_str lib (io_uuid io))"
    and e': "e' = settle WalFile (sync_bytes WalFile (append_bytes WalFile (wal_header (spl_key_id sp) (io_uuid io) None)
      (put_image WalFile (Some \<lparr>fi_data = [], fi_synced = 0\<rparr>) (mark_stale WalFile e))))"
    using i none(1)
    by (auto simp: initialize_or_read_wal_def result_simps create_new_def write_wal_header_def write_all_def
        sync_all_def sync_parent_def generation_id_of_def spool_generation_id_new_def spool_id_check_def
        split: if_splits)
  have ok: "spool_ok lib sp"
    using io c len by (auto simp: spool_ok_def g io_ok_def spool_config_validate_def split: if_splits)
  have log: "log_state lib sp None []"
    using ok by (simp add: log_state_def log_ok_def)
  have "dk_files e' WalFile = Some (durable (wal_bytes sp None []))" "dk_files e' CheckpointFile = None"
    "\<And>f. dk_stale e' f = None"
    by (simp_all add: e' disk_simps durable_def g wal_bytes_Nil none(2,3))
  moreover have "length (wal_bytes sp None []) \<le> active_wal_bytes"
    using log_state_header [OF log] by (simp add: wal_bytes_Nil wal_header_len_def active_wal_bytes_def)
  ultimately show "spool_holds lib sp None [] [] e'"
    using log by (simp add: spool_holds_tail_def checkpoint_holds_def marker_def)
  show "dk_files e' CompactTemp = dk_files e CompactTemp" by (simp add: e' disk_simps)
qed

lemma open_empty:
  assumes lib: "spool_lib_ok lib" and empty: "dk_files d = (\<lambda>_. None)" "\<And>f. dk_stale d f = None"
    and io: "io_ok io" and run: "open_spool lib cfg io d = (Ok (sp, rec, tm), d')"
  shows "spool_queue lib sp {} {} [] [] d'" and "key_for lib (io_env io) sp" and "spl_config sp = cfg"
    and "rec_frames rec = []"
proof -
  obtain k i e g gid e' where c: "spool_config_validate cfg = Ok ()"
    and k: "load_key lib io (cfg_key_env cfg) = Ok (k, i)" and e: "cleared d e"
    and i: "initialize_or_read_wal lib io i e = (Ok (g, gid), e')"
    and sp: "sp = \<lparr>spl_config = cfg, spl_key = k, spl_key_id = i, spl_generation_uuid = g, spl_generation = gid\<rparr>"
    and r: "open_recovery lib sp io e' = (Ok (rec, tm), d')"
    by (rule open_spool_Ok [OF run empty(2)])
  have none: "\<not> file_exists e WalFile" "dk_files e CheckpointFile = None" "\<And>f. dk_stale e f = None"
    using e empty by (auto simp: cleared_def file_exists_def)
  have holds: "spool_holds lib sp None [] [] e'"
    by (rule new_log_holds(1) [OF lib io _ _ none, where name = "cfg_key_env cfg"]) (simp_all add: sp c k i)
  note rec = open_recovery_holds [OF lib holds r]
  show "spool_queue lib sp {} {} [] [] d'"
    using spool_queueI [OF rec(3), of "{}" "{}"] by (simp add: used_records_def)
  show "key_for lib (io_env io) sp" using load_key_env [OF k] by (simp add: key_for_def sp)
  show "spl_config sp = cfg" by (simp add: sp)
  show "rec_frames rec = []" using rec(1) by simp
qed

section \<open>When nothing fails\<close>

text \<open>No call fails, and what the system reports as allocated is within the partitions.\<close>

definition io_calm :: "spool_io \<Rightarrow> bool" where
  "io_calm io \<longleftrightarrow>
     (\<forall>l n. \<not> io_fails io l n)
     \<and> (\<forall>site. \<exists>b. io_blocks io site WalFile = Some b \<and> b * 512 \<le> active_wal_bytes)
     \<and> (\<forall>site. \<forall>f. f \<noteq> WalFile \<longrightarrow> (\<exists>b. io_blocks io site f = Some b \<and> b * 512 \<le> 1024 * 1024))
     \<and> (\<forall>site. \<exists>n. directory_file_bytes io site = Ok n \<and> n \<le> quarantine_limit_bytes)
     \<and> (\<forall>site. \<exists>n. directory_file_count io site = Ok n)"

lemma allocated_calm:
  assumes "io_calm io"
  shows "\<exists>n. allocated_file_bytes io site d WalFile = Ok n \<and> n \<le> active_wal_bytes"
    and "f \<noteq> WalFile \<Longrightarrow> \<exists>n. allocated_file_bytes io site d f = Ok n \<and> n \<le> 1024 * 1024"
    and "\<not> file_exists d f \<Longrightarrow> allocated_file_bytes io site d f = Ok 0"
proof -
  from assms obtain b where "io_blocks io site WalFile = Some b" "b * 512 \<le> active_wal_bytes"
    unfolding io_calm_def by blast
  then show "\<exists>n. allocated_file_bytes io site d WalFile = Ok n \<and> n \<le> active_wal_bytes"
    by (auto simp: allocated_file_bytes_def allocated_bytes_def metadata_at_def min_le_iff_disj)
  show "\<exists>n. allocated_file_bytes io site d f = Ok n \<and> n \<le> 1024 * 1024" if "f \<noteq> WalFile"
  proof -
    from assms that obtain b where "io_blocks io site f = Some b" "b * 512 \<le> 1024 * 1024"
      unfolding io_calm_def by blast
    then show ?thesis
      by (auto simp: allocated_file_bytes_def allocated_bytes_def metadata_at_def min_le_iff_disj)
  qed
qed (simp add: allocated_file_bytes_def allocated_bytes_def metadata_at_def)

lemma metadata_calm:
  assumes "io_calm io"
  shows "\<exists>n. metadata_bytes io site d = Ok n \<and> n \<le> 3 * 1024 * 1024"
proof -
  from allocated_calm(2) [OF assms] obtain a b c where
    "allocated_file_bytes io site d CheckpointFile = Ok a" "a \<le> 1024 * 1024"
    "allocated_file_bytes io site d CheckpointTemp = Ok b" "b \<le> 1024 * 1024"
    "allocated_file_bytes io site d LockFile = Ok c" "c \<le> 1024 * 1024"
    by (metis spool_file.distinct(1,5,7))
  then show ?thesis by (simp add: metadata_bytes_def saturating_add64_def)
qed

lemma usage_calm:
  assumes "io_calm io"
  shows "\<exists>n. disk_usage io site d = Ok n \<and> n \<le> 260 * 1024 * 1024"
proof -
  obtain w where w: "allocated_file_bytes io site d WalFile = Ok w" "w \<le> active_wal_bytes"
    using allocated_calm(1) [OF assms] by blast
  obtain t where t: "allocated_file_bytes io site d CompactTemp = Ok t" "t \<le> 1024 * 1024"
    using allocated_calm(2) [OF assms, of CompactTemp site d] by auto
  obtain m where m: "metadata_bytes io site d = Ok m" "m \<le> 3 * 1024 * 1024"
    using metadata_calm [OF assms] by blast
  obtain q where q: "directory_file_bytes io site = Ok q" "q \<le> quarantine_limit_bytes"
    using assms unfolding io_calm_def by blast
  have "w + t + q + m \<le> 260 * 1024 * 1024"
    using w(2) t(2) m(2) q(2) by (simp add: active_wal_bytes_def quarantine_limit_bytes_def)
  then show ?thesis
    by (simp add: disk_usage_def w(1) t(1) m(1) q(1) saturating_add64_def)
qed

lemma verify_calm:
  assumes "io_calm io" "\<not> file_exists d CompactTemp" "length (file_data d WalFile) \<le> active_wal_bytes"
  shows "verify_budget io site d = Ok ()"
proof -
  have "\<exists>n. file_len io site d WalFile = Ok n \<and> n \<le> active_wal_bytes"
  proof -
    from assms(1) obtain b where "io_blocks io site WalFile = Some b" unfolding io_calm_def by blast
    with assms(3) show ?thesis by (auto simp: file_len_def metadata_at_def)
  qed
  then obtain l where l: "file_len io site d WalFile = Ok l" "l \<le> active_wal_bytes" by blast
  obtain w where w: "allocated_file_bytes io (site + 1) d WalFile = Ok w" "w \<le> active_wal_bytes"
    using allocated_calm(1) [OF assms(1)] by blast
  obtain q where q: "directory_file_bytes io (site + 4) = Ok q" "q \<le> quarantine_limit_bytes"
    using assms(1) unfolding io_calm_def by blast
  obtain m where m: "metadata_bytes io (site + 5) d = Ok m" "m \<le> 3 * 1024 * 1024"
    using metadata_calm [OF assms(1)] by blast
  obtain u where u: "disk_usage io (site + 6) d = Ok u" "u \<le> 260 * 1024 * 1024"
    using usage_calm [OF assms(1)] by blast
  have t: "file_len io (site + 2) d CompactTemp = Ok 0"
    using assms(2) by (simp add: file_len_def metadata_at_def)
  have "m \<le> metadata_limit_bytes" "u \<le> total_limit_bytes"
    using m(2) u(2) by (simp_all add: metadata_limit_bytes_def total_limit_bytes_def)
  then show ?thesis
    unfolding verify_budget_def l(1) w(1) q(1) t m(1) u(1) allocated_calm(3) [OF assms(1,2)]
    using l(2) w(2) q(2) by (simp add: within_def ensure_def not_less)
qed

lemma temps_calm:
  assumes "\<And>l n. \<not> io_fails io l n"
  shows "\<exists>e. remove_non_authoritative_temp io l f d = (Ok (), e)"
  using assms by (auto simp: remove_non_authoritative_temp_def sync_parent_def)

lemma open_recovery_calm:
  assumes lib: "spool_lib_ok lib" and holds: "spool_holds_tail lib sp base done_frames q tail d"
    and calm: "io_calm io" and temp: "dk_files d CompactTemp = None"
  shows "\<exists>rec tm d'. open_recovery lib sp io d = (Ok (rec, tm), d')"
proof -
  have io: "\<not> io_fails io l n" for l n using calm by (simp add: io_calm_def)
  have log: "log_state lib sp base (done_frames @ q)" using holds by (simp add: spool_holds_tail_def)
  obtain r d1 where s: "scan_locked lib sp io True d = (r, d1)" by force
  from scan_repairs [OF lib holds s] io
  have r: "r = Ok \<lparr>scw_base = map_option (record_of lib) base,
          scw_frames = scanned sp wal_header_len (done_frames @ q), scw_truncated = (tail \<noteq> [])\<rparr>"
    and h1: "spool_holds lib sp base done_frames q d1" and t1: "dk_files d1 CompactTemp = None"
    using temp by auto
  from checkpoint_read_holds [OF lib h1, of io] io
  have c: "read_checkpoint lib sp io d1
      = Ok (map_option (\<lambda>r. \<lparr>sck_generation = spl_generation sp, sck_last = Some r\<rparr>) (marker lib base done_frames))"
    by blast
  have "length (file_data d1 WalFile) \<le> active_wal_bytes"
    using h1 by (simp add: spool_holds_tail_def file_data_def)
  then have v: "verify_budget io 70 d1 = Ok ()"
    using verify_calm [OF calm] t1 by (simp add: file_exists_def)
  obtain u where u: "disk_usage io 80 d1 = Ok u"
    using usage_calm [OF calm] by blast
  obtain n where n: "directory_file_count io 90 = Ok n"
    using calm unfolding io_calm_def by blast
  show ?thesis
    unfolding open_recovery_def lock_operation_def
    by (simp add: seq_def lift_r_def reading_def give_def io_check_def ensure_def io s r c v u n pending_of_scan [OF log])
qed

text \<open>Opening succeeds on an empty directory, and after a crash.\<close>

lemma temps_cleared_calm:
  assumes io: "\<And>l n. \<not> io_fails io l n" and stale: "\<And>f. dk_stale d f = None"
  obtains d1 d2 e where "acquire_lock io d = (Ok (), d1)"
    "remove_non_authoritative_temp io ''compact_temp'' CompactTemp d1 = (Ok (), d2)"
    "remove_non_authoritative_temp io ''checkpoint_temp'' CheckpointTemp d2 = (Ok (), e)" "cleared d e"
proof -
  obtain d1 where d1: "acquire_lock io d = (Ok (), d1)"
    by (simp add: acquire_lock_def io_check_def ensure_def io Let_def)
  obtain d2 where d2: "remove_non_authoritative_temp io ''compact_temp'' CompactTemp d1 = (Ok (), d2)"
    using temps_calm [of io] io by blast
  obtain e where e: "remove_non_authoritative_temp io ''checkpoint_temp'' CheckpointTemp d2 = (Ok (), e)"
    using temps_calm [of io] io by blast
  note s1 = scratchD [OF acquire_lock_state [OF d1]]
  have st1: "dk_stale d1 f = None" for f using s1(2) stale by simp
  note r2 = remove_temp_Ok [OF d2 st1]
  note s2 = scratchD [OF conjunct1 [OF r2]]
  have st2: "dk_stale d2 f = None" for f using s2(2) st1 by simp
  note r3 = remove_temp_Ok [OF e st2]
  note s3 = scratchD [OF conjunct1 [OF r3]]
  have "cleared d e" using s1 s2 s3 st2 r2 r3 by (simp add: cleared_def)
  from that [OF d1 d2 e this] show thesis .
qed

lemma open_calm:
  assumes lib: "spool_lib_ok lib" and queue: "spool_queue lib sp R A frames tail d"
    and key: "key_for lib env sp" "io_env io = env" "spl_config sp = cfg" "spool_config_validate cfg = Ok ()"
    and calm: "io_calm io"
  shows "\<exists>rec tm d'. open_spool lib cfg io d = (Ok (sp, rec, tm), d')"
proof -
  have io: "\<not> io_fails io l n" for l n using calm by (simp add: io_calm_def)
  from queue obtain base done_frames q where holds: "spool_holds_tail lib sp base done_frames q tail d"
    unfolding spool_queue_def by blast
  have stale: "dk_stale d f = None" for f using holds by (simp add: spool_holds_tail_def)
  have k: "load_key lib io (cfg_key_env cfg) = Ok (spl_key sp, spl_key_id sp)"
    using key(1) [unfolded key_for_def, rule_format, OF key(2)] unfolding key(3) .
  obtain d1 d2 e where temps: "acquire_lock io d = (Ok (), d1)"
    "remove_non_authoritative_temp io ''compact_temp'' CompactTemp d1 = (Ok (), d2)"
    "remove_non_authoritative_temp io ''checkpoint_temp'' CheckpointTemp d2 = (Ok (), e)" and cleared: "cleared d e"
    by (rule temps_cleared_calm [OF io stale])
  note holds' = holds_tail_cleared [OF holds cleared]
  obtain r e' where i: "initialize_or_read_wal lib io (spl_key_id sp) e = (r, e')" by force
  from initialize_existing [OF lib holds' i] io
  have i: "initialize_or_read_wal lib io (spl_key_id sp) e = (Ok (spl_generation_uuid sp, spl_generation sp), e)"
    using i by auto
  have sp: "\<lparr>spl_config = cfg, spl_key = spl_key sp, spl_key_id = spl_key_id sp,
      spl_generation_uuid = spl_generation_uuid sp, spl_generation = spl_generation sp\<rparr> = sp"
    using key(3) by simp
  obtain rec tm d' where "open_recovery lib sp io e = (Ok (rec, tm), d')"
    using open_recovery_calm [OF lib holds' calm] cleared by (auto simp: cleared_def)
  then show ?thesis
    unfolding open_spool_def
    by (simp add: seq_def lift_r_def give_def io_check_def ensure_def io key(4) k temps i sp Let_def)
qed

lemma open_empty_calm:
  assumes lib: "spool_lib_ok lib" and empty: "dk_files d = (\<lambda>_. None)" "\<And>f. dk_stale d f = None"
    and c: "spool_config_validate cfg = Ok ()" and key: "load_key lib io (cfg_key_env cfg) = Ok (k, i)"
    and io: "io_ok io" "io_calm io"
  shows "\<exists>sp rec tm d'. open_spool lib cfg io d = (Ok (sp, rec, tm), d')"
proof -
  have no: "\<not> io_fails io l n" for l n using io(2) by (simp add: io_calm_def)
  obtain d1 d2 e where temps: "acquire_lock io d = (Ok (), d1)"
    "remove_non_authoritative_temp io ''compact_temp'' CompactTemp d1 = (Ok (), d2)"
    "remove_non_authoritative_temp io ''checkpoint_temp'' CheckpointTemp d2 = (Ok (), e)" and cleared: "cleared d e"
    by (rule temps_cleared_calm [OF no empty(2)])
  have none: "\<not> file_exists e WalFile" "dk_files e CheckpointFile = None" "\<And>f. dk_stale e f = None"
    "dk_files e CompactTemp = None"
    using cleared empty by (auto simp: cleared_def file_exists_def)
  let ?g = "SpoolGenerationId (lib_uuid_str lib (io_uuid io))"
  let ?sp = "\<lparr>spl_config = cfg, spl_key = k, spl_key_id = i, spl_generation_uuid = io_uuid io, spl_generation = ?g\<rparr>"
  have "generation_id_of lib (io_uuid io) = Ok (io_uuid io, ?g)"
    using io(1) spool_lib_okD(5) [OF lib]
    by (simp add: generation_id_of_def spool_generation_id_new_def spool_id_check_def io_ok_def uuid_ok_def)
  then obtain e' where init: "initialize_or_read_wal lib io i e = (Ok (io_uuid io, ?g), e')"
    using none(1) no
    by (simp add: initialize_or_read_wal_def seq_def create_new_def write_wal_header_def write_all_def sync_all_def
        sync_parent_def lift_r_def)
  have holds: "spool_holds lib ?sp None [] [] e'" and temp: "dk_files e' CompactTemp = None"
    using new_log_holds [OF lib io(1), of ?sp "cfg_key_env cfg" e e'] none init c key by simp_all
  obtain rec tm d' where "open_recovery lib ?sp io e' = (Ok (rec, tm), d')"
    using open_recovery_calm [OF lib holds io(2) temp] by blast
  then show ?thesis
    unfolding open_spool_def
    by (simp add: seq_def lift_r_def give_def io_check_def ensure_def no c key temps init Let_def)
qed

end
