(* ===== verification/Message_Spool_Properties.thy ===== *)
theory Message_Spool_Properties
  imports Message_Spool_Open
begin

text \<open>
  The message spool as a whole: runs of operations, failures and crashes refine a queue; opening
  after a crash succeeds; the log keeps within its partition; and the one crash the format does
  not survive.
\<close>

section \<open>Runs of a spool\<close>

datatype spool_op = AppendOp spool_admission "u8 list" | CheckpointOp checkpoint_prefix | CompactOp

datatype spool_event = Done spool_op | Crashed spool_op "recovered_frame list"

primrec run_op :: "spool_lib \<Rightarrow> message_spool \<Rightarrow> spool_io \<Rightarrow> spool_op \<Rightarrow> (spool_state, spool_failure, unit) action" where
  "run_op lib sp io (AppendOp adm u) = seq (spool_append lib sp io adm) (\<lambda>_. give ())"
| "run_op lib sp io (CheckpointOp pre) = advance_checkpoint lib sp io pre"
| "run_op lib sp io CompactOp = spool_compact lib sp io"

text \<open>An operation's admission is a valid one, its UUID the one that \<open>Uuid::new_v4\<close> drew.\<close>

definition op_ok :: "spool_io \<Rightarrow> spool_op \<Rightarrow> bool" where
  "op_ok io op \<longleftrightarrow> io_ok io \<and>
     (case op of AppendOp adm u \<Rightarrow> admissible adm \<and> io_uuid io = u | _ \<Rightarrow> True)"

fun replayed :: "recovery_frame list \<Rightarrow> recovered_frame list" where
  "replayed [] = []"
| "replayed (Replay f # fs) = f # replayed fs"
| "replayed (_ # fs) = replayed fs"

definition empty_disk :: spool_disk where
  "empty_disk = \<lparr>dk_files = \<lambda>_. None, dk_stale = \<lambda>_. None\<rparr>"

text \<open>
  A run starts by opening an empty directory. An operation succeeds, or ends in any way (it may also
  succeed) and the machine crashes, after which the spool is opened again.
\<close>

inductive spool_run ::
  "spool_lib \<Rightarrow> spool_config \<Rightarrow> (string \<Rightarrow> string option) \<Rightarrow> message_spool \<Rightarrow> spool_state \<Rightarrow> spool_event list \<Rightarrow> bool"
  for lib cfg env where
  run_opened: "open_spool lib cfg io empty_disk = (Ok (sp, rec, tm), d) \<Longrightarrow> io_ok io \<Longrightarrow> io_env io = env \<Longrightarrow>
     spool_run lib cfg env sp \<lparr>sst_disk = d, sst_telemetry = tm\<rparr> []"
| run_done: "spool_run lib cfg env sp st es \<Longrightarrow> run_op lib sp io op st = (Ok (), st') \<Longrightarrow> op_ok io op \<Longrightarrow>
     spool_run lib cfg env sp st' (es @ [Done op])"
| run_crashed: "spool_run lib cfg env sp st es \<Longrightarrow> run_op lib sp io op st = (r, st') \<Longrightarrow> op_ok io op \<Longrightarrow>
     crashes (sst_disk st') d \<Longrightarrow> open_spool lib cfg io' d = (Ok (sp', rec, tm), d') \<Longrightarrow> io_env io' = env \<Longrightarrow>
     spool_run lib cfg env sp' \<lparr>sst_disk = d', sst_telemetry = tm\<rparr> (es @ [Crashed op (replayed (rec_frames rec))])"

section \<open>The queue\<close>

text \<open>What an operation does to the queue of stored frames.\<close>

primrec op_effect :: "spool_lib \<Rightarrow> spool_op \<Rightarrow> stored_frame list \<Rightarrow> stored_frame list \<Rightarrow> bool" where
  "op_effect lib (AppendOp adm u) q q' \<longleftrightarrow> q' = q @ [stored_of lib adm u]"
| "op_effect lib (CheckpointOp pre) q q' \<longleftrightarrow>
     prefix (pre_records pre) (map stf_record q) \<and> q' = drop (length (pre_records pre)) q"
| "op_effect lib CompactOp q q' \<longleftrightarrow> q' = q"

text \<open>
  The specification: a finished operation has its effect; one that a crash interrupted has it or
  has none, and what is recovered is the queue.
\<close>

inductive queue_run :: "spool_lib \<Rightarrow> message_spool \<Rightarrow> spool_event list \<Rightarrow> stored_frame list \<Rightarrow> bool"
  for lib sp where
  queue_empty: "queue_run lib sp [] []"
| queue_done: "queue_run lib sp es q \<Longrightarrow> op_effect lib op q q' \<Longrightarrow> queue_run lib sp (es @ [Done op]) q'"
| queue_crashed: "queue_run lib sp es q \<Longrightarrow> q' = q \<or> op_effect lib op q q' \<Longrightarrow>
     queue_run lib sp (es @ [Crashed op (map (recovered_of sp) q')]) q'"

text \<open>The ids drawn in a run.\<close>

primrec op_ids :: "spool_op \<Rightarrow> (u8 list \<times> spool_admission_id) list" where
  "op_ids (AppendOp adm u) = [(u, sa_id adm)]"
| "op_ids (CheckpointOp pre) = []"
| "op_ids CompactOp = []"

primrec event_ids :: "spool_event \<Rightarrow> (u8 list \<times> spool_admission_id) list" where
  "event_ids (Done op) = op_ids op"
| "event_ids (Crashed op rs) = op_ids op"

definition run_ids :: "spool_event list \<Rightarrow> (u8 list \<times> spool_admission_id) list" where
  "run_ids es = concat (map event_ids es)"

definition fresh_ids :: "spool_event list \<Rightarrow> bool" where
  "fresh_ids es \<longleftrightarrow> distinct (map fst (run_ids es)) \<and> distinct (map snd (run_ids es))"

lemma run_ids_snoc [simp]: "run_ids [] = []" "run_ids (es @ [e]) = run_ids es @ event_ids e"
  by (simp_all add: run_ids_def)

lemma fresh_ids_snoc: "fresh_ids (es @ [e]) \<Longrightarrow> fresh_ids es"
  by (simp add: fresh_ids_def)

lemma replayed_append [simp]: "replayed (fs @ gs) = replayed fs @ replayed gs"
  by (induction fs rule: replayed.induct) simp_all

lemma replayed_map [simp]: "replayed (map (Replay \<circ> f) xs) = map f xs"
  by (induction xs) simp_all

section \<open>Operations on the queue\<close>

lemma on_disk_eq: "on_disk act st = (r, st') \<longleftrightarrow> (\<exists>d. act (sst_disk st) = (r, d) \<and> st' = st\<lparr>sst_disk := d\<rparr>)"
  by (auto simp: on_disk_def split: prod.splits)

lemma run_op_disk:
  assumes "run_op lib sp io op st = (r, st')"
  shows "case op of
      AppendOp adm u \<Rightarrow> \<exists>x. append_frame lib sp io adm (sst_disk st) = (x, sst_disk st') \<and> (not_ok r \<or> (\<exists>a. x = Ok a))
    | CheckpointOp pre \<Rightarrow> \<exists>x. checkpoint_records lib sp io pre (sst_disk st) = (x, sst_disk st') \<and> (not_ok r \<or> \<not> not_ok x)
    | CompactOp \<Rightarrow> compact lib sp io (sst_disk st) = (r, sst_disk st')"
proof (cases op)
  case (AppendOp adm u)
  from assms have "seq (spool_append lib sp io adm) (\<lambda>_. give ()) st = (r, st')" by (simp add: AppendOp)
  then show ?thesis
    unfolding AppendOp spool_append_def
    by (auto simp: seq_def on_disk_def on_telemetry_def give_def split: prod.splits result.splits)
next
  case (CheckpointOp pre)
  from assms have "advance_checkpoint lib sp io pre st = (r, st')" by (simp add: CheckpointOp)
  then show ?thesis
    unfolding CheckpointOp advance_checkpoint_def
    by (auto simp: seq_def on_disk_def on_telemetry_def give_def split: prod.splits result.splits option.splits)
next
  case CompactOp
  with assms show ?thesis by (auto simp: spool_compact_def on_disk_eq)
qed

definition used_by :: "spool_lib \<Rightarrow> (u8 list \<times> spool_admission_id) list \<Rightarrow> spool_record_id set" where
  "used_by lib ids = record_of lib ` set (map fst ids)"

text \<open>One operation on a disk that holds a queue.\<close>

lemma run_op_queue:
  assumes lib: "spool_lib_ok lib" and queue: "spool_queue lib sp (used_by lib ids) (set (map snd ids)) q [] (sst_disk st)"
    and run: "run_op lib sp io op st = (r, st')" and ok: "op_ok io op"
    and ids: "\<forall>u\<in>set (map fst ids). uuid_ok u" "distinct (map fst (ids @ op_ids op))" "distinct (map snd (ids @ op_ids op))"
  shows "not_ok r \<or> (\<exists>q'. op_effect lib op q q' \<and>
           spool_queue lib sp (used_by lib (ids @ op_ids op)) (set (map snd (ids @ op_ids op))) q' [] (sst_disk st'))"
    and "crashes (sst_disk st') d \<Longrightarrow> \<exists>q' tail. (q' = q \<or> op_effect lib op q q') \<and>
           spool_queue lib sp (used_by lib (ids @ op_ids op)) (set (map snd (ids @ op_ids op))) q' tail d"
proof -
  from queue obtain base done_frames log where holds: "spool_holds lib sp base done_frames log (sst_disk st)"
    and q: "q = map fst log" and used: "used_records lib base (done_frames @ log) \<subseteq> used_by lib ids"
      "set (log_admissions (done_frames @ log)) \<subseteq> set (map snd ids)"
    unfolding spool_queue_def by blast
  have "used_by lib ids \<subseteq> used_by lib (ids @ op_ids op)" by (auto simp: used_by_def)
  then have more: "used_records lib base (done_frames @ log) \<subseteq> used_by lib (ids @ op_ids op)"
    "set (log_admissions (done_frames @ log)) \<subseteq> set (map snd (ids @ op_ids op))"
    using used by auto
  note disk = run_op_disk [OF run]
  have "(not_ok r \<or> (\<exists>q'. op_effect lib op q q' \<and>
           spool_queue lib sp (used_by lib (ids @ op_ids op)) (set (map snd (ids @ op_ids op))) q' [] (sst_disk st')))
    \<and> (crashes (sst_disk st') d \<longrightarrow> (\<exists>q' tail. (q' = q \<or> op_effect lib op q q') \<and>
           spool_queue lib sp (used_by lib (ids @ op_ids op)) (set (map snd (ids @ op_ids op))) q' tail d))"
  proof (cases op)
    case (AppendOp adm u)
    from disk AppendOp obtain x where x: "append_frame lib sp io adm (sst_disk st) = (x, sst_disk st')"
      "not_ok r \<or> (\<exists>a. x = Ok a)" by auto
    have adm: "admissible adm" "io_ok io" "io_uuid io = u" using ok AppendOp by (auto simp: op_ok_def)
    have uu: "uuid_ok u" using adm(2,3) by (simp add: io_ok_def)
    let ?st = "stored_of lib adm u"
    have new_ids: "u \<notin> set (map fst ids)" "sa_id adm \<notin> set (map snd ids)" using ids(2,3) AppendOp by auto
    have "record_of lib u \<noteq> record_of lib v" if "v \<in> set (map fst ids)" for v
      using that new_ids(1) ids(1) uu record_of_inject [OF lib, of u v] by (auto simp: uuid_ok_def)
    then have "record_of lib u \<notin> used_by lib ids" unfolding used_by_def by blast
    then have "record_of lib u \<notin> used_records lib base (done_frames @ log)" using used(1) by blast
    then have fresh: "fresh_in lib base (done_frames @ log) (stored_of lib adm (io_uuid io))"
      using used(2) new_ids(2) adm(3) by (cases base) (auto simp: fresh_in_def stored_of_def used_records_def)
    note app = append_holds [OF lib holds adm(1,2) fresh x(1), unfolded adm(3)]
    have new: "spool_queue lib sp (used_by lib (ids @ op_ids op)) (set (map snd (ids @ op_ids op))) (q @ [?st]) tail e"
      if "spool_holds_tail lib sp base done_frames (log @ [(?st, bs)]) tail e" for bs tail e
    proof -
      have "used_records lib base (done_frames @ log @ [(?st, bs)]) \<subseteq> used_by lib (ids @ op_ids op)"
        "set (log_admissions (done_frames @ log @ [(?st, bs)])) \<subseteq> set (map snd (ids @ op_ids op))"
        using more by (auto simp: AppendOp used_records_def used_by_def stored_of_def)
      from spool_queueI [OF that this] show ?thesis by (simp add: q)
    qed
    have "not_ok r \<or> (\<exists>bs. spool_holds lib sp base done_frames (log @ [(?st, bs)]) (sst_disk st'))"
      using x(2) app(1) by (metis prod.exhaust)
    moreover have "(\<exists>tail. spool_holds_tail lib sp base done_frames log tail d)
        \<or> (\<exists>bs. spool_holds lib sp base done_frames (log @ [(?st, bs)]) d)" if "crashes (sst_disk st') d"
      using app(2) [OF that] .
    moreover have "spool_queue lib sp (used_by lib (ids @ op_ids op)) (set (map snd (ids @ op_ids op))) q tail d"
      if "spool_holds_tail lib sp base done_frames log tail d" for tail
      using spool_queueI [OF that more] by (simp add: q)
    ultimately show ?thesis using new unfolding AppendOp op_effect.simps by blast
  next
    case (CheckpointOp pre)
    from disk CheckpointOp obtain x where x: "checkpoint_records lib sp io pre (sst_disk st) = (x, sst_disk st')"
      "not_ok r \<or> \<not> not_ok x" by auto
    have io: "io_ok io" using ok by (simp add: op_ok_def)
    let ?n = "length (pre_records pre)"
    have rec: "log_records log = map stf_record q" by (simp add: q log_records_def)
    have new: "spool_queue lib sp (used_by lib (ids @ op_ids op)) (set (map snd (ids @ op_ids op))) (drop ?n q) [] e"
      if "spool_holds lib sp base (done_frames @ take ?n log) (drop ?n log) e" for e
      using spool_queueI [OF that] more by (simp add: q drop_map)
    have old: "spool_queue lib sp (used_by lib (ids @ op_ids op)) (set (map snd (ids @ op_ids op))) q [] e"
      if "spool_holds lib sp base done_frames log e" for e
      using spool_queueI [OF that more] by (simp add: q)
    note adv = checkpoint_records_holds [OF lib holds io x(1), unfolded rec]
    show ?thesis using adv x(2) new old unfolding CheckpointOp op_effect.simps by blast
  next
    case CompactOp
    from disk CompactOp have c: "compact lib sp io (sst_disk st) = (r, sst_disk st')" by simp
    have "op_ids op = []" by (simp add: CompactOp)
    then show ?thesis
      using compact_queue [OF lib queue c] unfolding CompactOp op_effect.simps by auto
  qed
  then show "not_ok r \<or> (\<exists>q'. op_effect lib op q q' \<and>
           spool_queue lib sp (used_by lib (ids @ op_ids op)) (set (map snd (ids @ op_ids op))) q' [] (sst_disk st'))"
    and "crashes (sst_disk st') d \<Longrightarrow> \<exists>q' tail. (q' = q \<or> op_effect lib op q q') \<and>
           spool_queue lib sp (used_by lib (ids @ op_ids op)) (set (map snd (ids @ op_ids op))) q' tail d" by blast+
qed

section \<open>Runs refine the queue\<close>

definition run_invariant ::
  "spool_lib \<Rightarrow> spool_config \<Rightarrow> (string \<Rightarrow> string option) \<Rightarrow> message_spool \<Rightarrow> spool_state \<Rightarrow> spool_event list \<Rightarrow> bool" where
  "run_invariant lib cfg env sp st es \<longleftrightarrow>
     key_for lib env sp \<and> spl_config sp = cfg \<and> spool_config_validate cfg = Ok ()
     \<and> (\<forall>u\<in>set (map fst (run_ids es)). uuid_ok u)
     \<and> (\<exists>q. queue_run lib sp es q
          \<and> spool_queue lib sp (used_by lib (run_ids es)) (set (map snd (run_ids es))) q [] (sst_disk st))"

lemma op_ids_ok: "op_ok io op \<Longrightarrow> \<forall>u\<in>set (map fst (op_ids op)). uuid_ok u"
  by (cases op) (auto simp: op_ok_def io_ok_def)

lemma run_invariant:
  assumes lib: "spool_lib_ok lib" and run: "spool_run lib cfg env sp st es"
  shows "fresh_ids es \<Longrightarrow> run_invariant lib cfg env sp st es"
  using run
proof (induction rule: spool_run.induct)
  case (run_opened io sp rec tm d)
  have empty: "dk_files empty_disk = (\<lambda>_. None)" "dk_stale empty_disk f = None" for f
    by (simp_all add: empty_disk_def)
  note opened = open_empty [OF lib empty run_opened(2,1)]
  have "spool_config_validate cfg = Ok ()"
    using run_opened(1) unfolding open_spool_def by (auto simp: result_simps)
  with opened run_opened(3) show ?case
    by (auto simp: run_invariant_def used_by_def intro: queue_empty)
next
  case (run_done sp st es io op st')
  then have inv: "run_invariant lib cfg env sp st es" using fresh_ids_snoc by blast
  then obtain q where q: "queue_run lib sp es q"
    "spool_queue lib sp (used_by lib (run_ids es)) (set (map snd (run_ids es))) q [] (sst_disk st)"
    and ids: "\<forall>u\<in>set (map fst (run_ids es)). uuid_ok u"
    unfolding run_invariant_def by blast
  have new: "distinct (map fst (run_ids es @ op_ids op))" "distinct (map snd (run_ids es @ op_ids op))"
    using run_done.prems by (simp_all add: fresh_ids_def)
  from run_op_queue(1) [OF lib q(2) run_done.hyps(2,3) ids new] obtain q' where "op_effect lib op q q'"
    "spool_queue lib sp (used_by lib (run_ids es @ op_ids op)) (set (map snd (run_ids es @ op_ids op))) q' [] (sst_disk st')"
    by auto
  with queue_done [OF q(1)] inv op_ids_ok [OF run_done.hyps(3)] show ?case
    unfolding run_invariant_def by (auto simp: ball_Un)
next
  case (run_crashed sp st es io op r st' d io' sp' rec tm d')
  then have inv: "run_invariant lib cfg env sp st es" using fresh_ids_snoc by blast
  then obtain q where q: "queue_run lib sp es q"
    "spool_queue lib sp (used_by lib (run_ids es)) (set (map snd (run_ids es))) q [] (sst_disk st)"
    and ids: "\<forall>u\<in>set (map fst (run_ids es)). uuid_ok u"
    and key: "key_for lib env sp" "spl_config sp = cfg" "spool_config_validate cfg = Ok ()"
    unfolding run_invariant_def by blast
  have new: "distinct (map fst (run_ids es @ op_ids op))" "distinct (map snd (run_ids es @ op_ids op))"
    using run_crashed.prems by (simp_all add: fresh_ids_def)
  from run_op_queue(2) [OF lib q(2) run_crashed.hyps(2,3) ids new run_crashed.hyps(4)] obtain q' tail
    where q': "q' = q \<or> op_effect lib op q q'"
      "spool_queue lib sp (used_by lib (run_ids es @ op_ids op)) (set (map snd (run_ids es @ op_ids op))) q' tail d"
    by blast
  from open_queue [OF lib q'(2) key(1) run_crashed.hyps(6) key(2) run_crashed.hyps(5)]
  have sp': "sp' = sp" and "spool_queue lib sp (used_by lib (run_ids es @ op_ids op))
      (set (map snd (run_ids es @ op_ids op))) q' [] d'" and "replayed (rec_frames rec) = map (recovered_of sp) q'"
    by (auto split: if_splits)
  with queue_crashed [OF q(1) q'(1)] key ids op_ids_ok [OF run_crashed.hyps(3)] show ?case
    unfolding run_invariant_def by (auto simp: ball_Un)
qed

lemma recover_pending_queue:
  assumes lib: "spool_lib_ok lib" and queue: "spool_queue lib sp R A q [] (sst_disk st)"
    and run: "recover_pending lib sp io st = (Ok frames, st')"
  shows "frames = map (recovered_of sp) q \<and> st' = st"
proof -
  from queue obtain base done_frames log where holds: "spool_holds lib sp base done_frames log (sst_disk st)"
    and q: "q = map fst log" unfolding spool_queue_def by blast
  from run obtain d pending where p: "pending_frames lib sp io (sst_disk st) = (Ok pending, d)"
    and f: "frames = map scf_recovered pending" "st' = st\<lparr>sst_disk := d\<rparr>"
    unfolding recover_pending_def lock_operation_def by (auto simp: on_disk_eq result_simps)
  from pending_frames_holds [OF lib holds, of io] p f q show ?thesis by auto
qed

text \<open>An append with room and without failing calls.\<close>

lemma append_calm:
  assumes lib: "spool_lib_ok lib" and holds: "spool_holds lib sp base done_frames log (sst_disk st)"
    and op: "op_ok io (AppendOp adm u)" and calm: "io_calm io" and nonce: "io_nonce io = Some nonce"
    and enc_p: "lib_enc_frame lib (stored_of lib adm u) = Some p" and max_p: "length p \<le> cfg_max_plaintext (spl_config sp)"
    and seal: "\<And>k n a x. lib_seal lib k n a x \<noteq> None"
    and space: "length (file_data (sst_disk st) WalFile) + length p + 64 * 1024 + 53 \<le> 240 * 1024 * 1024"
    and blocks: "\<And>site b. io_blocks io site WalFile = Some b \<Longrightarrow> b * 512 + length p + 64 * 1024 + 53 \<le> 240 * 1024 * 1024"
  shows "\<exists>st'. spool_append lib sp io adm st
           = (Ok \<lparr>sr_admission = sa_id adm, sr_generation = spl_generation sp, sr_record = record_of lib u\<rparr>, st')"
proof -
  have io: "\<not> io_fails io l n" for l n using calm by (simp add: io_calm_def)
  have sp: "spool_ok lib sp" using holds by (simp add: spool_holds_tail_def log_state_def)
  have u: "length u = 16" "io_uuid io = u" "length nonce = 12"
    using op nonce by (auto simp: op_ok_def io_ok_def uuid_ok_def)
  have max: "cfg_max_plaintext (spl_config sp) \<le> default_max_frame_plaintext" using sp by (simp add: spool_ok_def)
  let ?h = "frame_header (spl_key_id sp) (length p + tag_len) nonce"
  obtain c where c: "lib_seal lib (spl_key sp) nonce (frame_aad ?h (spl_generation_uuid sp)) p = Some c"
    using seal by blast
  have "checked_encrypted_len (length p) (SpoolFailure CapacityExhausted ''frame_length'') = Ok (length p + tag_len)"
    using max_p max by (simp add: checked_encrypted_len_def default_max_frame_plaintext_def tag_len_def)
  then have "encrypt_frame lib sp io p = Ok (?h @ c)"
    by (simp add: encrypt_frame_def random_nonce_def nonce ok_or_def Let_def c)
  moreover have "length (?h @ c) = length p + 53"
    using sp u(3) spool_lib_okD(1) [OF lib c]
    by (simp add: length_frame_header spool_ok_def frame_header_len_def tag_len_def)
  ultimately obtain frame where enc: "encrypt_frame lib sp io p = Ok frame" and len: "length frame = length p + 53"
    by blast
  obtain b where b: "io_blocks io 1 WalFile = Some b" and room: "b * 512 + length p + 64 * 1024 + 53 \<le> 240 * 1024 * 1024"
    using calm blocks unfolding io_calm_def by blast
  obtain b0 where b0: "io_blocks io 0 WalFile = Some b0" using calm unfolding io_calm_def by blast
  obtain usage where usage: "disk_usage io 2 (sst_disk st) = Ok usage" "usage \<le> 260 * 1024 * 1024"
    using usage_calm [OF calm] by blast
  have wal: "file_exists (sst_disk st) WalFile"
    using holdsD(1) [OF holds] by (simp add: file_exists_def)
  have small: "length p \<le> 1024 * 1024" using max_p max by (simp add: default_max_frame_plaintext_def)
  have sizes: "file_len io 0 (sst_disk st) WalFile = Ok (length (file_data (sst_disk st) WalFile))"
    "allocated_file_bytes io (0 + 1) (sst_disk st) WalFile = Ok (min (b * 512) u64_max)"
    "disk_usage io (0 + 2) (sst_disk st) = Ok usage"
    using wal b b0 usage(1)
    by (simp_all add: file_len_def metadata_at_def allocated_file_bytes_def allocated_bytes_def numeral_2_eq_2)
  have "ensure_append_budget io 0 (length p + 53) (sst_disk st) = Ok ()"
    unfolding ensure_append_budget_def Let_def sizes bind_r.simps
    using space room usage(2) small
    by (simp add: saturating_add64_def u64_max_def active_wal_bytes_def total_limit_bytes_def
        allocation_granularity_reserve_def ensure_def)
  then have budget: "ensure_append_budget io 0 (length frame) (sst_disk st) = Ok ()" unfolding len .
  have final: "\<exists>n. disk_usage io 10 d = Ok n" for d using usage_calm [OF calm] by blast
  have "\<exists>n d. append_frame lib sp io adm (sst_disk st) = (Ok (\<lparr>sr_admission = sa_id adm, sr_generation = spl_generation sp,
      sr_record = record_of lib u\<rparr>, n), d)"
    using final [of "sync_bytes WalFile (append_bytes WalFile frame (sst_disk st))"] enc_p max_p wal
    by (auto simp: append_frame_def lock_operation_def seq_def lift_r_def reading_def give_def io_check_def ensure_def io
        u spool_record_id_of [OF lib] Let_def stored_of_def ok_or_def enc budget write_all_def sync_all_def)
  then show ?thesis
    by (auto simp: spool_append_def seq_def on_disk_def on_telemetry_def give_def)
qed

section \<open>Properties\<close>

text \<open>
  C8: whatever fails and whenever the machine crashes, a spool is a durable queue. Every run of
  appends, checkpoints and compactions, each finished or interrupted by a crash at any point and
  followed by reopening, is a run of the queue: a frame with a receipt stays until a checkpoint
  covers it, an interrupted append or checkpoint happened completely or not at all, compaction
  changes nothing, and recovery returns the pending frames in the order they were appended.
\<close>

theorem spool_refines_queue:
  assumes "spool_lib_ok lib" and "spool_run lib cfg env sp st es" and "fresh_ids es"
  shows "\<exists>q. queue_run lib sp es q
           \<and> (\<forall>io frames st'. recover_pending lib sp io st = (Ok frames, st') \<longrightarrow>
                frames = map (recovered_of sp) q \<and> st' = st)"
proof -
  from run_invariant [OF assms] obtain q where q: "queue_run lib sp es q"
    "spool_queue lib sp (used_by lib (run_ids es)) (set (map snd (run_ids es))) q [] (sst_disk st)"
    unfolding run_invariant_def by blast
  with recover_pending_queue [OF assms(1) q(2)] show ?thesis by blast
qed

text \<open>
  C9: no crash during an operation makes the spool unusable. After any operation that ended in any
  way and any crash, opening succeeds when its calls succeed, and replays the queue as it was, or
  as the operation leaves it.
\<close>

theorem spool_opens_after_crash:
  assumes "spool_lib_ok lib" and "spool_run lib cfg env sp st es" and "op_ok io op"
    and "fresh_ids (es @ [Done op])" and "run_op lib sp io op st = (r, st')" and "crashes (sst_disk st') d"
    and "io_calm io'" and "io_env io' = env"
  shows "\<exists>q q' rec tm d'. queue_run lib sp es q \<and> (q' = q \<or> op_effect lib op q q')
           \<and> open_spool lib cfg io' d = (Ok (sp, rec, tm), d')
           \<and> replayed (rec_frames rec) = map (recovered_of sp) q' \<and> tm_pending_frames tm = length q'"
proof -
  note inv = run_invariant [OF assms(1,2) fresh_ids_snoc [OF assms(4)]]
  then obtain q where q: "queue_run lib sp es q"
    "spool_queue lib sp (used_by lib (run_ids es)) (set (map snd (run_ids es))) q [] (sst_disk st)"
    and ids: "\<forall>u\<in>set (map fst (run_ids es)). uuid_ok u"
    and key: "key_for lib env sp" "spl_config sp = cfg" "spool_config_validate cfg = Ok ()"
    unfolding run_invariant_def by blast
  have new: "distinct (map fst (run_ids es @ op_ids op))" "distinct (map snd (run_ids es @ op_ids op))"
    using assms(4) by (simp_all add: fresh_ids_def)
  from run_op_queue(2) [OF assms(1) q(2) assms(5,3) ids new assms(6)] obtain q' tail
    where q': "q' = q \<or> op_effect lib op q q'"
      "spool_queue lib sp (used_by lib (run_ids es @ op_ids op)) (set (map snd (run_ids es @ op_ids op))) q' tail d"
    by blast
  from open_calm [OF assms(1) q'(2) key(1) assms(8) key(2,3) assms(7)] obtain rec tm d'
    where o: "open_spool lib cfg io' d = (Ok (sp, rec, tm), d')" by blast
  from open_queue [OF assms(1) q'(2) key(1) assms(8) key(2) o]
  have "replayed (rec_frames rec) = map (recovered_of sp) q'" "tm_pending_frames tm = length q'"
    by (auto split: if_splits)
  with q(1) q'(1) o show ?thesis by blast
qed

text \<open>
  C32: the active log never exceeds its partition of 240 MiB, whatever is appended and however the
  operations end, and every frame in it holds at most the configured number of plaintext bytes.
\<close>

theorem spool_log_bounded:
  assumes "spool_lib_ok lib" and "spool_run lib cfg env sp st es" and "fresh_ids es"
  shows "length (file_data (sst_disk st) WalFile) \<le> 240 * 1024 * 1024
         \<and> (\<forall>io pending d. pending_frames lib sp io (sst_disk st) = (Ok pending, d) \<longrightarrow>
              (\<forall>f\<in>set pending. scf_len f \<le> 37 + cfg_max_plaintext cfg + 16))"
proof -
  from run_invariant [OF assms] obtain q where key: "spl_config sp = cfg"
    and "spool_queue lib sp (used_by lib (run_ids es)) (set (map snd (run_ids es))) q [] (sst_disk st)"
    unfolding run_invariant_def by blast
  then obtain base done_frames log where holds: "spool_holds lib sp base done_frames log (sst_disk st)"
    unfolding spool_queue_def by blast
  have sp: "spool_ok lib sp" and log: "log_ok lib sp log"
    using holds by (simp_all add: spool_holds_tail_def log_state_def log_ok_append)
  have "scf_len f \<le> 37 + cfg_max_plaintext cfg + 16" if "f \<in> set (scanned sp off log)" for f off
    using log that
  proof (induction log arbitrary: off)
    case (Cons x log)
    have "length (snd x) \<le> 37 + cfg_max_plaintext cfg + 16"
      using frame_of_length(2) [OF assms(1) sp, of "fst x" "snd x"] Cons.prems(1)
      by (simp add: log_ok_Cons key frame_header_len_def tag_len_def)
    with Cons show ?case by (auto simp: log_ok_Cons scanned_of_def)
  qed simp
  moreover have "pending = scanned sp (wal_header_len + length (log_bytes done_frames)) log"
    if "pending_frames lib sp io (sst_disk st) = (Ok pending, d)" for io pending d
    using pending_frames_holds [OF assms(1) holds, of io] that by auto
  moreover have "length (file_data (sst_disk st) WalFile) \<le> 240 * 1024 * 1024"
    using holds by (simp add: spool_holds_tail_def file_data_def active_wal_bytes_def)
  ultimately show ?thesis by blast
qed

text \<open>
  With room in the partition and calls that succeed, an append returns its receipt, whose record
  is the one the UUID names.
\<close>

theorem append_succeeds:
  assumes "spool_lib_ok lib" and "spool_run lib cfg env sp st es" and "fresh_ids (es @ [Done (AppendOp adm u)])"
    and "op_ok io (AppendOp adm u)" and "io_calm io" and "io_nonce io = Some nonce"
    and "lib_enc_frame lib (stored_of lib adm u) = Some p" and "length p \<le> cfg_max_plaintext cfg"
    and "\<And>k n a x. lib_seal lib k n a x \<noteq> None"
    and "length (file_data (sst_disk st) WalFile) + length p + 64 * 1024 + 53 \<le> 240 * 1024 * 1024"
    and "\<And>site b. io_blocks io site WalFile = Some b \<Longrightarrow> b * 512 + length p + 64 * 1024 + 53 \<le> 240 * 1024 * 1024"
  shows "\<exists>st'. spool_append lib sp io adm st
           = (Ok \<lparr>sr_admission = sa_id adm, sr_generation = spl_generation sp,
                  sr_record = SpoolRecordId (lib_uuid_str lib u)\<rparr>, st')"
proof -
  from run_invariant [OF assms(1,2) fresh_ids_snoc [OF assms(3)]] obtain q where key: "spl_config sp = cfg"
    and "spool_queue lib sp (used_by lib (run_ids es)) (set (map snd (run_ids es))) q [] (sst_disk st)"
    unfolding run_invariant_def by blast
  then obtain base done_frames log where holds: "spool_holds lib sp base done_frames log (sst_disk st)"
    unfolding spool_queue_def by blast
  from append_calm [OF assms(1) holds assms(4-7) _ assms(9-11)] assms(8) show ?thesis
    by (simp add: record_of_def key)
qed

text \<open>
  C33: the one crash the format does not survive. If writing the header of a new log is cut short, the
  file is there with less than a header, and no later opening succeeds: the directory has to be
  cleared by hand.
\<close>

theorem torn_header_is_permanent:
  assumes "open_spool lib cfg io empty_disk = (r, d)" and "io_fails io ''wal_header_write'' 0"
    and "io_torn io ''wal_header_write'' < 53" and "file_exists d WalFile"
    and "crashes d e" and "file_exists e WalFile"
    and "open_spool lib cfg io' e = (r', e')"
  shows "not_ok r' \<and> dk_files e' WalFile = dk_files e WalFile"
proof -
  have short: "\<exists>i. dk_files d WalFile = Some i \<and> length (fi_data i) < wal_header_len
      \<and> dk_stale d WalFile = Some None"
    using open_spool_cases [OF assms(1)]
  proof (elim disjE exE conjE)
    fix i e0 x d0
    assume w: "dk_files e0 WalFile = dk_files empty_disk WalFile"
      and run: "initialize_or_read_wal lib io i e0 = (x, d0)" and d: "not_ok x \<longrightarrow> not_ok r \<and> d = d0"
    have none: "\<not> file_exists e0 WalFile" using w by (simp add: file_exists_def empty_disk_def)
    show ?thesis
    proof (cases "io_fails io ''wal_create'' 0")
      case True
      then have "d0 = e0 \<and> not_ok x" using run none
        by (auto simp: initialize_or_read_wal_def seq_def create_new_def)
      with d none assms(4) show ?thesis by (auto simp: file_exists_def)
    next
      case False
      then have "not_ok x \<and> dk_files d0 WalFile
          = Some \<lparr>fi_data = take (io_torn io ''wal_header_write'') (wal_header i (io_uuid io) None), fi_synced = 0\<rparr>
          \<and> dk_stale d0 WalFile = Some None"
        using run none assms(2)
        by (auto simp: file_exists_def initialize_or_read_wal_def seq_def create_new_def write_wal_header_def write_all_def disk_simps)
      with d assms(3) show ?thesis by (auto simp: wal_header_len_def)
    qed
  qed (use assms(4) in \<open>simp add: file_exists_def empty_disk_def\<close>)
  have short_e: "file_exists e WalFile \<and> length (file_data e WalFile) < wal_header_len"
  proof -
    from short obtain i where i: "dk_files d WalFile = Some i" "length (fi_data i) < wal_header_len"
      "dk_stale d WalFile = Some None" by blast
    with crashes_stale [OF assms(5) i(3)] assms(6) have "crash_image (Some i) (dk_files e WalFile)"
      by (auto simp: file_exists_def crash_image_None)
    then show ?thesis using i(2) by (auto simp: crash_image_def file_exists_def file_data_def)
  qed
  show ?thesis
    using open_spool_cases [OF assms(7)]
  proof (elim disjE exE conjE)
    fix i e0 x d0
    assume w: "dk_files e0 WalFile = dk_files e WalFile"
      and run: "initialize_or_read_wal lib io' i e0 = (x, d0)" and d: "not_ok x \<longrightarrow> not_ok r' \<and> e' = d0"
    have "file_exists e0 WalFile" "\<not> wal_header_len \<le> length (file_data e0 WalFile)"
      using short_e w by (simp_all add: file_exists_def file_data_def)
    then have "not_ok x \<and> d0 = e0"
      using run by (auto simp: initialize_or_read_wal_def seq_def lift_r_def reading_def io_check_def ensure_def
          split: if_splits)
    with d w show ?thesis by simp
  qed simp
qed

section \<open>Witnesses\<close>

definition sample_uuid :: "u8 list" where "sample_uuid = replicate 15 0 @ [1]"

definition sample_admission :: spool_admission where
  "sample_admission = \<lparr>sa_id = SpoolAdmissionId ''a'', sa_epoch = ConnectionEpochId ''e'',
     sa_message = sample_message (Some (ConnectionEpochId ''e''))\<rparr>"

definition sample_stored :: stored_frame where
  "sample_stored = \<lparr>stf_admission = SpoolAdmissionId ''a'', stf_record = SpoolRecordId (CHR ''u'' # map (\<lambda>b. char_of (unat b)) sample_uuid),
     stf_epoch = ConnectionEpochId ''e'', stf_message = sample_message (Some (ConnectionEpochId ''e''))\<rparr>"

definition sample_lib :: spool_lib where
  "sample_lib =
     \<lparr>lib_seal = \<lambda>k n a p. Some (p @ replicate 16 0),
      lib_open = \<lambda>k n a c. Some (take (length c - 16) c),
      lib_sha256 = \<lambda>raw. replicate 32 7,
      lib_base64 = \<lambda>s. Some (replicate 32 9),
      lib_uuid_str = \<lambda>u. CHR ''u'' # map (\<lambda>b. char_of (unat b)) u,
      lib_uuid_parse = \<lambda>s. Some (map (\<lambda>c. word_of_nat (of_char c)) (drop 1 s)),
      lib_enc_frame = \<lambda>x. if x = sample_stored then Some [5] else None,
      lib_dec_frame = \<lambda>p. Some sample_stored,
      lib_enc_checkpoint = \<lambda>x. None,
      lib_dec_checkpoint = \<lambda>p. None\<rparr>"

definition sample_spool_config :: spool_config where
  "sample_spool_config = spool_config_new ''w'' ''c'' ''q'' ''K''"

definition sample_env :: "string \<Rightarrow> string option" where "sample_env = (\<lambda>_. Some ''k'')"

definition sample_io :: "(string \<Rightarrow> nat \<Rightarrow> bool) \<Rightarrow> spool_io" where
  "sample_io fails =
     \<lparr>io_fails = fails, io_torn = \<lambda>_. 9, io_blocks = \<lambda>_ _. Some 1, io_quarantine = \<lambda>_. Some [],
      io_nonce = Some (replicate 12 0), io_uuid = sample_uuid, io_env = sample_env\<rparr>"

lemma sample_lib_ok: "spool_lib_ok sample_lib"
proof -
  have "unat b mod 256 = unat b" for b :: u8 using unat_bound [of b] by simp
  then have "map (\<lambda>b. word_of_nat (of_char (char_of (unat b)))) u = u" for u :: "u8 list"
    by (induction u) simp_all
  then show ?thesis
    by (auto simp: spool_lib_ok_def sample_lib_def tag_len_def comp_def graphic_not_blank graphic_def split: if_splits)
qed

lemma sample_io_ok: "io_ok (sample_io fails)"
  by (simp add: io_ok_def sample_io_def uuid_ok_def sample_uuid_def uuid_nil_def replicate_eq_replicate
      numeral_eq_Suc)

lemma sample_io_calm: "io_calm (sample_io (\<lambda>_ _. False))"
  by (simp add: io_calm_def sample_io_def directory_file_bytes_def directory_file_count_def active_wal_bytes_def
      quarantine_limit_bytes_def)

lemma sample_op_ok: "op_ok (sample_io fails) (AppendOp sample_admission sample_uuid)"
  using sample_io_ok [of fails]
  by (simp add: op_ok_def sample_io_def admissible_def sample_admission_def check_ownership_def sample_message_def
      envelope_validate_def source_message_ref_validate_def require_non_empty_def graphic_not_blank graphic_def
      ensure_def)

lemma sample_config_ok: "spool_config_validate sample_spool_config = Ok ()"
  by (simp add: spool_config_validate_def sample_spool_config_def spool_config_new_def same_path_def
      path_components_def graphic_not_blank graphic_def default_max_frame_plaintext_def)

lemma sample_opened:
  "\<exists>sp st. spool_run sample_lib sample_spool_config sample_env sp st []"
proof -
  have k: "load_key sample_lib (sample_io (\<lambda>_ _. False)) (cfg_key_env sample_spool_config)
      = Ok (replicate 32 9, take 16 (replicate 32 7))"
    by (simp add: load_key_def sample_io_def sample_env_def sample_lib_def ok_or_def ensure_def)
  have "dk_files empty_disk = (\<lambda>_. None)" "\<And>f. dk_stale empty_disk f = None" by (simp_all add: empty_disk_def)
  from open_empty_calm [OF sample_lib_ok this sample_config_ok k sample_io_ok sample_io_calm] obtain sp rec tm d
    where "open_spool sample_lib sample_spool_config (sample_io (\<lambda>_ _. False)) empty_disk = (Ok (sp, rec, tm), d)" by blast
  from run_opened [OF this sample_io_ok] show ?thesis by (auto simp: sample_io_def)
qed

lemma crash_exists: "\<exists>d'. crashes d d'"
proof -
  let ?d = "\<lparr>dk_files = \<lambda>f. map_option (\<lambda>i. durable (fi_data i)) (dk_files d f), dk_stale = \<lambda>_. None\<rparr>"
  have "crash_image v (map_option (\<lambda>i. durable (fi_data i)) v)" for v
  proof (cases v)
    case (Some i)
    then show ?thesis
      by (auto simp: crash_image_def durable_def intro!: exI [of _ "max (fi_synced i) (length (fi_data i))"])
  qed (simp add: crash_image_def)
  then have "crashes d ?d" by (simp add: crashes_def)
  then show ?thesis by blast
qed

lemma sample_stored_of: "stored_of sample_lib sample_admission sample_uuid = sample_stored"
  by (simp add: stored_of_def sample_admission_def sample_stored_def record_of_def sample_lib_def)

lemma sample_append_room:
  assumes "spool_run sample_lib sample_spool_config sample_env sp st []"
  shows "length (file_data (sst_disk st) WalFile) + length [5::u8] + 64 * 1024 + 53 \<le> 240 * 1024 * 1024"
proof -
  have "run_invariant sample_lib sample_spool_config sample_env sp st []"
    by (rule run_invariant [OF sample_lib_ok assms]) (simp add: fresh_ids_def)
  then obtain q where "spool_queue sample_lib sp {} {} q [] (sst_disk st)"
    by (auto simp: run_invariant_def used_by_def)
  then obtain base done_frames log where h: "spool_holds sample_lib sp base done_frames log (sst_disk st)"
    and "used_records sample_lib base (done_frames @ log) \<subseteq> {}" unfolding spool_queue_def by blast
  then have "done_frames @ log = []" by (cases "done_frames @ log") (auto simp: used_records_def)
  with h have "file_data (sst_disk st) WalFile = wal_bytes sp base []" "log_state sample_lib sp base []"
    by (simp_all add: spool_holds_tail_def file_data_def)
  then show ?thesis using log_state_header [of sample_lib sp base "[]"]
    by (simp add: wal_bytes_Nil wal_header_len_def)
qed

lemma sample_fresh: "fresh_ids [Done (AppendOp sample_admission sample_uuid)]"
  by (simp add: fresh_ids_def run_ids_def)

theorem append_succeeds_witness:
  "\<exists>sp st st'. spool_run sample_lib sample_spool_config sample_env sp st []
     \<and> spool_append sample_lib sp (sample_io (\<lambda>_ _. False)) sample_admission st
         = (Ok \<lparr>sr_admission = SpoolAdmissionId ''a'', sr_generation = spl_generation sp,
                sr_record = stf_record sample_stored\<rparr>, st')"
proof -
  obtain sp st where run: "spool_run sample_lib sample_spool_config sample_env sp st []"
    using sample_opened by blast
  have "\<exists>st'. spool_append sample_lib sp (sample_io (\<lambda>_ _. False)) sample_admission st
      = (Ok \<lparr>sr_admission = sa_id sample_admission, sr_generation = spl_generation sp,
             sr_record = SpoolRecordId (lib_uuid_str sample_lib sample_uuid)\<rparr>, st')"
    by (rule append_succeeds [OF sample_lib_ok run _ sample_op_ok sample_io_calm, where p = "[5]" and nonce = "replicate 12 0"])
      (use sample_append_room [OF run] sample_stored_of sample_fresh in
        \<open>auto simp: sample_io_def sample_lib_def sample_spool_config_def spool_config_new_def
          default_max_frame_plaintext_def\<close>)
  with run show ?thesis by (auto simp: sample_admission_def sample_stored_def sample_lib_def)
qed

lemma sample_append:
  assumes run: "spool_run sample_lib sample_spool_config sample_env sp st []"
  obtains r st' where "spool_append sample_lib sp (sample_io (\<lambda>_ _. False)) sample_admission st = (Ok r, st')"
proof -
  have "run_invariant sample_lib sample_spool_config sample_env sp st []"
    by (rule run_invariant [OF sample_lib_ok run]) (simp add: fresh_ids_def)
  then obtain q where "spool_queue sample_lib sp {} {} q [] (sst_disk st)" and c: "spl_config sp = sample_spool_config"
    by (auto simp: run_invariant_def used_by_def)
  then obtain base done_frames log where "spool_holds sample_lib sp base done_frames log (sst_disk st)"
    unfolding spool_queue_def by blast
  from append_calm [OF sample_lib_ok this sample_op_ok sample_io_calm, where p = "[5]" and nonce = "replicate 12 0"]
  show thesis
    using that sample_append_room [OF run] sample_stored_of c
    by (auto simp: sample_io_def sample_lib_def sample_spool_config_def spool_config_new_def
          default_max_frame_plaintext_def)
qed

lemma sample_appended:
  "\<exists>sp st. spool_run sample_lib sample_spool_config sample_env sp st [Done (AppendOp sample_admission sample_uuid)]"
proof -
  obtain sp st where run: "spool_run sample_lib sample_spool_config sample_env sp st []"
    using sample_opened by blast
  obtain r st' where "spool_append sample_lib sp (sample_io (\<lambda>_ _. False)) sample_admission st = (Ok r, st')"
    by (rule sample_append [OF run])
  then have "run_op sample_lib sp (sample_io (\<lambda>_ _. False)) (AppendOp sample_admission sample_uuid) st = (Ok (), st')"
    by (simp add: seq_def give_def)
  from run_done [OF run this sample_op_ok] show ?thesis by auto
qed

theorem spool_refines_queue_witness:
  "\<exists>sp st q. spool_run sample_lib sample_spool_config sample_env sp st [Done (AppendOp sample_admission sample_uuid)]
     \<and> queue_run sample_lib sp [Done (AppendOp sample_admission sample_uuid)] q"
  using sample_appended spool_refines_queue [OF sample_lib_ok _ sample_fresh] by blast

theorem spool_log_bounded_witness:
  "\<exists>sp st. spool_run sample_lib sample_spool_config sample_env sp st [Done (AppendOp sample_admission sample_uuid)]
     \<and> length (file_data (sst_disk st) WalFile) \<le> 240 * 1024 * 1024"
  using sample_appended spool_log_bounded [OF sample_lib_ok _ sample_fresh] by blast

text \<open>A write that fails after nine bytes of the frame, and a crash.\<close>

definition torn_io :: spool_io where "torn_io = sample_io (\<lambda>l _. l = ''append_write'')"

theorem spool_opens_after_crash_witness:
  "\<exists>sp q' rec tm d d'. (q' = [] \<or> op_effect sample_lib (AppendOp sample_admission sample_uuid) [] q')
     \<and> open_spool sample_lib sample_spool_config (sample_io (\<lambda>_ _. False)) d = (Ok (sp, rec, tm), d')
     \<and> replayed (rec_frames rec) = map (recovered_of sp) q'"
proof -
  obtain sp st where run: "spool_run sample_lib sample_spool_config sample_env sp st []"
    using sample_opened by blast
  obtain r st' where op: "run_op sample_lib sp torn_io (AppendOp sample_admission sample_uuid) st = (r, st')"
    by force
  obtain d where crash: "crashes (sst_disk st') d" using crash_exists by blast
  have env: "io_env (sample_io (\<lambda>_ _. False)) = sample_env" by (simp add: sample_io_def)
  have ok: "op_ok torn_io (AppendOp sample_admission sample_uuid)" unfolding torn_io_def by (rule sample_op_ok)
  have fresh: "fresh_ids ([] @ [Done (AppendOp sample_admission sample_uuid)])" using sample_fresh by simp
  from spool_opens_after_crash [OF sample_lib_ok run ok fresh op crash sample_io_calm env]
  obtain q q' rec tm d' where q: "queue_run sample_lib sp [] q"
    and q': "q' = q \<or> op_effect sample_lib (AppendOp sample_admission sample_uuid) q q'"
      "open_spool sample_lib sample_spool_config (sample_io (\<lambda>_ _. False)) d = (Ok (sp, rec, tm), d')"
      "replayed (rec_frames rec) = map (recovered_of sp) q'" by blast
  have "q = []" using q by (auto elim: queue_run.cases)
  with q' show ?thesis by blast
qed

text \<open>A machine that crashes while it writes the header of a new log.\<close>

theorem torn_header_is_permanent_witness:
  "\<exists>e. file_exists e WalFile
     \<and> not_ok (fst (open_spool sample_lib sample_spool_config (sample_io (\<lambda>_ _. False)) e))"
proof -
  let ?io = "sample_io (\<lambda>l _. l = ''wal_header_write'')"
  let ?lock = "put_image LockFile (Some \<lparr>fi_data = [], fi_synced = 0\<rparr>) empty_disk"
  let ?new = "put_image WalFile (Some \<lparr>fi_data = [], fi_synced = 0\<rparr>) (mark_stale WalFile ?lock)"
  let ?d = "append_bytes WalFile (take 9 (wal_header (replicate 16 7) sample_uuid None)) ?new"
  let ?e = "\<lparr>dk_files = (dk_files ?d)(WalFile := Some \<lparr>fi_data = [], fi_synced = 0\<rparr>), dk_stale = \<lambda>_. None\<rparr>"
  have no: "\<not> file_exists empty_disk f" "\<not> file_exists ?lock WalFile" "\<not> file_exists ?lock CompactTemp"
    "\<not> file_exists ?lock CheckpointTemp" for f
    by (simp_all add: file_exists_def empty_disk_def put_image_def)
  have io: "io_fails ?io l n \<longleftrightarrow> l = ''wal_header_write''" "io_torn ?io l = 9" "io_uuid ?io = sample_uuid" for l n
    by (simp_all add: sample_io_def)
  have k: "load_key sample_lib ?io (cfg_key_env sample_spool_config) = Ok (replicate 32 9, take 16 (replicate 32 7))"
    by (simp add: load_key_def sample_io_def sample_env_def sample_lib_def ok_or_def ensure_def)
  have "initialize_or_read_wal sample_lib ?io (replicate 16 7) ?lock
      = (Err (SpoolFailure RecoveryInvariantViolation ''wal_header_write''), ?d)"
    by (simp add: initialize_or_read_wal_def no io seq_def create_new_def write_wal_header_def write_all_def)
  then have run: "open_spool sample_lib sample_spool_config ?io empty_disk
      = (Err (SpoolFailure RecoveryInvariantViolation ''wal_header_write''), ?d)"
    by (simp add: open_spool_def seq_def lift_r_def io_check_def ensure_def io sample_config_ok k acquire_lock_def
        remove_non_authoritative_temp_def no)
  have wal: "file_exists ?d WalFile" by (simp add: file_exists_def disk_simps)
  have "crashes ?d ?e"
    unfolding crashes_def
  proof
    fix f show "dk_stale ?e f = None \<and> (crash_image (dk_files ?d f) (dk_files ?e f)
        \<or> (\<exists>v. dk_stale ?d f = Some v \<and> crash_image v (dk_files ?e f)))"
      by (cases f) (auto simp: disk_simps empty_disk_def crash_image_def intro: exI [of _ 0])
  qed
  moreover have "file_exists ?e WalFile" by (simp add: file_exists_def)
  moreover obtain r' e' where o: "open_spool sample_lib sample_spool_config (sample_io (\<lambda>_ _. False)) ?e = (r', e')"
    by force
  ultimately have "not_ok r'"
    using torn_header_is_permanent [OF run _ _ wal, of ?e] io by auto
  with o \<open>file_exists ?e WalFile\<close> show ?thesis by (intro exI [of _ ?e]) simp
qed

end
