(* ===== verification/Artifact.thy ===== *)
theory Artifact
  imports Secretary_Types
begin

text \<open>
  References to rich content (\<open>personal-secretary/src/domain/artifact.rs\<close>): identifiers, kinds,
  availability and the bounded envelope. The name-based UUID of an identifier is a parameter.
\<close>

section \<open>Identifiers, kinds, availability\<close>

datatype artifact_error = InvalidArtifactIdentity string | PolicyViolation string | ArtifactStore string

datatype artifact_id = ArtifactId (artifact_str: string)

definition artifact_id_new :: "string \<Rightarrow> (artifact_error, artifact_id) result" where
  "artifact_id_new v =
     (if is_blank v then Err (InvalidArtifactIdentity ''artifact_id must not be empty'') else Ok (ArtifactId v))"

datatype artifact_kind =
    ArtifactImage | ArtifactFile | ArtifactRecord | ArtifactVideo | ArtifactForward
  | ArtifactRichJson | ArtifactRichXml | ArtifactRichCard

primrec artifact_kind_str :: "artifact_kind \<Rightarrow> string" where
  "artifact_kind_str ArtifactImage = ''image''"
| "artifact_kind_str ArtifactFile = ''file''"
| "artifact_kind_str ArtifactRecord = ''record''"
| "artifact_kind_str ArtifactVideo = ''video''"
| "artifact_kind_str ArtifactForward = ''forward''"
| "artifact_kind_str ArtifactRichJson = ''rich_json''"
| "artifact_kind_str ArtifactRichXml = ''rich_xml''"
| "artifact_kind_str ArtifactRichCard = ''rich_card''"

definition artifact_kind_parse :: "string \<Rightarrow> artifact_kind option" where
  "artifact_kind_parse v =
     (if v = ''image'' then Some ArtifactImage
      else if v = ''file'' then Some ArtifactFile
      else if v = ''record'' then Some ArtifactRecord
      else if v = ''video'' then Some ArtifactVideo
      else if v = ''forward'' then Some ArtifactForward
      else if v = ''rich_json'' then Some ArtifactRichJson
      else if v = ''rich_xml'' then Some ArtifactRichXml
      else if v = ''rich_card'' then Some ArtifactRichCard
      else None)"

text \<open>\<open>Uuid::new_v5\<close> over the name is the parameter \<open>v5\<close>.\<close>

definition artifact_name :: "source_event_id \<Rightarrow> nat \<Rightarrow> artifact_kind \<Rightarrow> string" where
  "artifact_name e ordinal k = event_str e @ '':'' @ decimal ordinal @ '':'' @ artifact_kind_str k"

definition for_source_segment ::
  "(string \<Rightarrow> string) \<Rightarrow> source_event_id \<Rightarrow> nat \<Rightarrow> artifact_kind \<Rightarrow> artifact_id" where
  "for_source_segment v5 e ordinal k = ArtifactId (v5 (artifact_name e ordinal k))"

datatype artifact_availability = Available | ArtifactExpired | Recalled | OwnerDeleted | PolicyBlocked

primrec artifact_availability_str :: "artifact_availability \<Rightarrow> string" where
  "artifact_availability_str Available = ''available''"
| "artifact_availability_str ArtifactExpired = ''expired''"
| "artifact_availability_str Recalled = ''recalled''"
| "artifact_availability_str OwnerDeleted = ''owner_deleted''"
| "artifact_availability_str PolicyBlocked = ''policy_blocked''"

definition artifact_availability_parse :: "string \<Rightarrow> artifact_availability option" where
  "artifact_availability_parse v =
     (if v = ''available'' then Some Available
      else if v = ''expired'' then Some ArtifactExpired
      else if v = ''recalled'' then Some Recalled
      else if v = ''owner_deleted'' then Some OwnerDeleted
      else if v = ''policy_blocked'' then Some PolicyBlocked
      else None)"

definition is_available :: "artifact_availability \<Rightarrow> bool" where
  "is_available a \<longleftrightarrow> a = Available"

section \<open>The envelope\<close>

definition max_platform_reference_chars :: nat where "max_platform_reference_chars = 500"
definition max_display_name_chars :: nat where "max_display_name_chars = 500"
definition max_mime_type_chars :: nat where "max_mime_type_chars = 200"
definition max_hash_chars :: nat where "max_hash_chars = 500"
definition max_description_chars :: nat where "max_description_chars = 2000"

definition bounded :: "nat \<Rightarrow> string \<Rightarrow> string" where
  "bounded n s = (if char_count s \<le> n then s else take_chars n s)"

record artifact_envelope =
  ae_id :: artifact_id
  ae_account :: source_account_ref
  ae_source :: source_event_id
  ae_conversation :: conversation_ref
  ae_kind :: artifact_kind
  ae_platform_reference :: string
  ae_display_name :: "string option"
  ae_mime_type :: "string option"
  ae_size_bytes :: "u64 option"
  ae_hash :: "string option"
  ae_description :: "string option"
  ae_availability :: artifact_availability
  ae_policy :: content_trust_level
  ae_created_at :: i64
  ae_ttl_expires_at :: "i64 option"

definition artifact_envelope_new ::
  "artifact_id \<Rightarrow> source_account_ref \<Rightarrow> source_event_id \<Rightarrow> conversation_ref \<Rightarrow> artifact_kind \<Rightarrow> string \<Rightarrow>
     content_trust_level \<Rightarrow> i64 \<Rightarrow> i64 option \<Rightarrow> (artifact_error, artifact_envelope) result" where
  "artifact_envelope_new i acc e conv k reference policy created ttl =
     (if policy = NeverLongTerm
      then Err (PolicyViolation ''never_long_term must not create persistent artifacts'')
      else Ok \<lparr>ae_id = i, ae_account = acc, ae_source = e, ae_conversation = conv, ae_kind = k,
               ae_platform_reference = bounded max_platform_reference_chars reference,
               ae_display_name = None, ae_mime_type = None, ae_size_bytes = None, ae_hash = None,
               ae_description = None, ae_availability = Available, ae_policy = policy,
               ae_created_at = created, ae_ttl_expires_at = ttl\<rparr>)"

text \<open>The setters leave an envelope of the policy \<open>EnvelopeOnly\<close> as it is.\<close>

definition unless_envelope_only :: "(artifact_envelope \<Rightarrow> artifact_envelope) \<Rightarrow> artifact_envelope \<Rightarrow> artifact_envelope" where
  "unless_envelope_only f a = (if ae_policy a = EnvelopeOnly then a else f a)"

definition with_display_name :: "string option \<Rightarrow> artifact_envelope \<Rightarrow> artifact_envelope" where
  "with_display_name v = unless_envelope_only (\<lambda>a. a\<lparr>ae_display_name := map_option (bounded max_display_name_chars) v\<rparr>)"

definition with_mime_type :: "string option \<Rightarrow> artifact_envelope \<Rightarrow> artifact_envelope" where
  "with_mime_type v = unless_envelope_only (\<lambda>a. a\<lparr>ae_mime_type := map_option (bounded max_mime_type_chars) v\<rparr>)"

definition with_size_bytes :: "u64 option \<Rightarrow> artifact_envelope \<Rightarrow> artifact_envelope" where
  "with_size_bytes v = unless_envelope_only (\<lambda>a. a\<lparr>ae_size_bytes := v\<rparr>)"

definition with_hash_or_source_key :: "string option \<Rightarrow> artifact_envelope \<Rightarrow> artifact_envelope" where
  "with_hash_or_source_key v = unless_envelope_only (\<lambda>a. a\<lparr>ae_hash := map_option (bounded max_hash_chars) v\<rparr>)"

definition with_description :: "string option \<Rightarrow> artifact_envelope \<Rightarrow> artifact_envelope" where
  "with_description v = unless_envelope_only (\<lambda>a. a\<lparr>ae_description := map_option (bounded max_description_chars) v\<rparr>)"

definition mark_recalled :: "artifact_envelope \<Rightarrow> artifact_envelope" where
  "mark_recalled a = a\<lparr>ae_availability := Recalled\<rparr>"

definition mark_expired :: "artifact_envelope \<Rightarrow> artifact_envelope" where
  "mark_expired a = a\<lparr>ae_availability := ArtifactExpired\<rparr>"

definition mark_owner_deleted :: "artifact_envelope \<Rightarrow> artifact_envelope" where
  "mark_owner_deleted a = a\<lparr>ae_availability := OwnerDeleted\<rparr>"

definition mark_policy_blocked :: "artifact_envelope \<Rightarrow> artifact_envelope" where
  "mark_policy_blocked a = a\<lparr>ae_availability := PolicyBlocked\<rparr>"

definition is_ttl_expired :: "artifact_envelope \<Rightarrow> i64 \<Rightarrow> bool" where
  "is_ttl_expired a now = is_some_and (ae_ttl_expires_at a) (\<lambda>expires. expires \<le> now)"

section \<open>Lemmas\<close>

lemma artifact_kind_parse_str: "artifact_kind_parse (artifact_kind_str k) = Some k"
  by (cases k) (simp_all add: artifact_kind_parse_def)

lemma artifact_availability_parse_str: "artifact_availability_parse (artifact_availability_str a) = Some a"
  by (cases a) (simp_all add: artifact_availability_parse_def)

lemma bounded_count: "char_count (bounded n s) \<le> n"
  by (simp add: bounded_def take_chars_count)

definition within_bound :: "nat \<Rightarrow> string option \<Rightarrow> bool" where
  "within_bound n v = (\<forall>s. v = Some s \<longrightarrow> char_count s \<le> n)"

lemma within_bound_simps [simp]: "within_bound n None" "within_bound n (map_option (bounded n) v)"
  by (auto simp: within_bound_def bounded_count)

text \<open>What a stored envelope keeps: the bounds of its fields, and nothing but the envelope where
  the policy says so.\<close>

definition artifact_ok :: "artifact_envelope \<Rightarrow> bool" where
  "artifact_ok a \<longleftrightarrow>
     char_count (ae_platform_reference a) \<le> 500 \<and> within_bound 500 (ae_display_name a)
     \<and> within_bound 200 (ae_mime_type a) \<and> within_bound 500 (ae_hash a) \<and> within_bound 2000 (ae_description a)
     \<and> ae_policy a \<noteq> NeverLongTerm
     \<and> (ae_policy a = EnvelopeOnly \<longrightarrow> ae_display_name a = None \<and> ae_mime_type a = None
          \<and> ae_size_bytes a = None \<and> ae_hash a = None \<and> ae_description a = None)"

lemmas artifact_limit_defs =
  max_platform_reference_chars_def max_display_name_chars_def max_mime_type_chars_def max_hash_chars_def
  max_description_chars_def

lemma artifact_new_ok: "artifact_envelope_new i acc e conv k reference policy created ttl = Ok a \<Longrightarrow> artifact_ok a"
  by (auto simp: artifact_envelope_new_def artifact_ok_def artifact_limit_defs bounded_count split: if_splits)

lemma artifact_setters_ok:
  assumes "artifact_ok a"
  shows "artifact_ok (with_display_name v a)" "artifact_ok (with_mime_type v a)" "artifact_ok (with_size_bytes n a)"
    "artifact_ok (with_hash_or_source_key v a)" "artifact_ok (with_description v a)" "artifact_ok (mark_recalled a)"
    "artifact_ok (mark_expired a)" "artifact_ok (mark_owner_deleted a)" "artifact_ok (mark_policy_blocked a)"
  using assms
  by (simp_all add: artifact_ok_def with_display_name_def with_mime_type_def with_size_bytes_def
      with_hash_or_source_key_def with_description_def unless_envelope_only_def artifact_limit_defs
      mark_recalled_def mark_expired_def mark_owner_deleted_def mark_policy_blocked_def)

lemma with_display_name_fields [simp]:
  "ae_id (with_display_name v a) = ae_id a" "ae_kind (with_display_name v a) = ae_kind a"
  "ae_source (with_display_name v a) = ae_source a"
  by (simp_all add: with_display_name_def unless_envelope_only_def)

lemma with_description_fields [simp]:
  "ae_id (with_description v a) = ae_id a" "ae_kind (with_description v a) = ae_kind a"
  "ae_source (with_description v a) = ae_source a"
  by (simp_all add: with_description_def unless_envelope_only_def)

end
