(* ===== verification/Ingestion_Worker.thy ===== *)
theory Ingestion_Worker
  imports Realtime_Spool Artifact
begin

text \<open>
  The ingestion worker (\<open>qqbot-server/src/application/ingestion_worker.rs\<close>): a bounded queue of
  messages, batches that are stored in one transaction each, bisection of batches the store
  refuses, hooks after the commit, and the checkpoint of the spool for messages that come from it.
  The store, the hooks, the checkpoint and the clocks are the record \<open>ingestion_ports\<close>, acting on a
  world of their own; a clock is read off the world, which every call may change. Loops that
  retry until a port answers are partial functions: no value means that they do not end.
\<close>

section \<open>Ports, configuration and state\<close>

type_synonym ('w, 'e, 'a) port = "'w \<Rightarrow> ('e + 'a) \<times> 'w"

record 'w ingestion_ports =
  ip_insert :: "envelope list \<Rightarrow> ('w, inbound_event_store_error, ingest_message_outcome list) port"
  ip_mark_uncertain :: "connection_epoch_id \<Rightarrow> ingestion_gap_reason \<Rightarrow>
                          ('w, inbound_event_store_error, ingestion_gap_id) port"
  ip_recall :: "(recall_correlation_key \<Rightarrow> string \<Rightarrow> ('w, recall_error, bool) port) option"
  ip_artifact :: "(artifact_envelope \<Rightarrow> ('w, artifact_error, unit) port) option"
  ip_uuid_v5 :: "string \<Rightarrow> string"
  ip_default_ttl :: u64
  ip_health_success :: "u64 \<Rightarrow> 'w \<Rightarrow> 'w"
  ip_health_failure :: "'w \<Rightarrow> 'w"
  ip_checkpoint :: "(checkpoint_prefix \<Rightarrow> ('w, spool_fatal_kind, unit) port) option"
  ip_sleep :: "nat \<Rightarrow> 'w \<Rightarrow> 'w"
  ip_unix_now :: "'w \<Rightarrow> u64"
  ip_instant_now :: "'w \<Rightarrow> nat"

record ingestion_config =
  ic_queue_capacity :: nat
  ic_batch_size :: nat
  ic_batch_flush_ms :: nat
  ic_retry_initial_ms :: nat
  ic_retry_max_ms :: nat
  ic_drain_timeout_secs :: nat

definition ingestion_config_default :: ingestion_config where
  "ingestion_config_default =
     \<lparr>ic_queue_capacity = 1024, ic_batch_size = 64, ic_batch_flush_ms = 10, ic_retry_initial_ms = 100,
      ic_retry_max_ms = 5000, ic_drain_timeout_secs = 10\<rparr>"

definition ingestion_config_valid :: "ingestion_config \<Rightarrow> bool" where
  "ingestion_config_valid c \<longleftrightarrow>
     \<not> (ic_queue_capacity c = 0 \<or> 65536 < ic_queue_capacity c)
     \<and> 1 \<le> ic_batch_size c \<and> ic_batch_size c \<le> 500
     \<and> 1 \<le> ic_batch_flush_ms c \<and> ic_batch_flush_ms c \<le> 1000
     \<and> \<not> ic_queue_capacity c < ic_batch_size c
     \<and> \<not> (ic_retry_initial_ms c = 0 \<or> ic_retry_max_ms c < ic_retry_initial_ms c)
     \<and> ic_drain_timeout_secs c \<noteq> 0"

record timestamped_envelope =
  te_envelope :: envelope
  te_enqueued_at :: nat
  te_frame :: "recovered_frame option"

section \<open>Overflow\<close>

record overflow_state =
  of_dropped :: u64
  of_gap_persisted :: bool

definition record_drop :: "overflow_state \<Rightarrow> overflow_state" where
  "record_drop f = f\<lparr>of_gap_persisted := False, of_dropped := of_dropped f + 1\<rparr>"

definition gap_needs_persistence :: "overflow_state \<Rightarrow> bool" where
  "gap_needs_persistence f \<longleftrightarrow> 0 < of_dropped f \<and> \<not> of_gap_persisted f"

definition mark_gap_persisted :: "overflow_state \<Rightarrow> overflow_state" where
  "mark_gap_persisted f = f\<lparr>of_gap_persisted := True\<rparr>"

section \<open>Metrics\<close>

record ingestion_metrics =
  im_queue_capacity :: u64
  im_queue_depth :: u64
  im_in_flight :: u64
  im_high_watermark :: u64
  im_accepted :: u64
  im_duplicates :: u64
  im_invalid :: u64
  im_retries :: u64
  im_dropped :: u64
  im_batches_committed :: u64
  im_last_batch_size :: u64
  im_overflow_pending :: u64
  im_last_success_at :: u64
  im_last_failure_at :: u64
  im_enqueued :: u64
  im_committed :: u64
  im_latency_count :: u64
  im_latency_sum_ms :: u64
  im_latency_max_ms :: u64
  im_last_latency_ms :: u64

definition record_enqueue :: "nat \<Rightarrow> nat \<Rightarrow> ingestion_metrics \<Rightarrow> ingestion_metrics" where
  "record_enqueue capacity available m =
     (let depth = word_of_nat (capacity - available) in
      m\<lparr>im_enqueued := saturating_add (im_enqueued m) 1,
        im_queue_capacity := word_of_nat capacity,
        im_queue_depth := depth,
        im_high_watermark := (if im_high_watermark m < depth then depth else im_high_watermark m)\<rparr>)"

definition record_dequeue :: "nat \<Rightarrow> nat \<Rightarrow> ingestion_metrics \<Rightarrow> ingestion_metrics" where
  "record_dequeue capacity depth m =
     m\<lparr>im_queue_capacity := word_of_nat capacity, im_queue_depth := word_of_nat (min depth capacity)\<rparr>"

definition record_metric_drop :: "ingestion_metrics \<Rightarrow> ingestion_metrics" where
  "record_metric_drop m = m\<lparr>im_dropped := saturating_add (im_dropped m) 1, im_overflow_pending := 1\<rparr>"

text \<open>Instants are nanoseconds; \<open>elapsed\<close> saturates at zero, its milliseconds at \<open>u64::MAX\<close>.\<close>

definition elapsed_ms :: "nat \<Rightarrow> nat \<Rightarrow> u64" where
  "elapsed_ms now started = word_of_nat (min ((now - started) div 10 ^ 6) (2 ^ 64 - 1))"

definition record_latency :: "nat \<Rightarrow> nat \<Rightarrow> ingestion_metrics \<Rightarrow> ingestion_metrics" where
  "record_latency now started m =
     (let ms = elapsed_ms now started in
      m\<lparr>im_committed := saturating_add (im_committed m) 1,
        im_latency_count := saturating_add (im_latency_count m) 1,
        im_latency_sum_ms := saturating_add (im_latency_sum_ms m) ms,
        im_latency_max_ms := max (im_latency_max_ms m) ms,
        im_last_latency_ms := ms\<rparr>)"

definition record_committed :: "nat \<Rightarrow> nat list \<Rightarrow> ingestion_metrics \<Rightarrow> ingestion_metrics" where
  "record_committed now starts m = fold (record_latency now) starts m"

record worker_report =
  wr_accepted :: u64
  wr_duplicates :: u64
  wr_invalid :: u64
  wr_retries :: u64
  wr_dropped :: u64
  wr_batches_committed :: u64

definition worker_report_of :: "ingestion_metrics \<Rightarrow> worker_report" where
  "worker_report_of m =
     \<lparr>wr_accepted = im_accepted m, wr_duplicates = im_duplicates m, wr_invalid = im_invalid m,
      wr_retries = im_retries m, wr_dropped = im_dropped m, wr_batches_committed = im_batches_committed m\<rparr>"

section \<open>The state of the worker\<close>

record 'w worker_state =
  ws_world :: 'w
  ws_metrics :: ingestion_metrics
  ws_overflow :: overflow_state

definition on_metrics :: "(ingestion_metrics \<Rightarrow> ingestion_metrics) \<Rightarrow> 'w worker_state \<Rightarrow> 'w worker_state" where
  "on_metrics f wk = wk\<lparr>ws_metrics := f (ws_metrics wk)\<rparr>"

definition on_world :: "('w \<Rightarrow> 'w) \<Rightarrow> 'w worker_state \<Rightarrow> 'w worker_state" where
  "on_world f wk = wk\<lparr>ws_world := f (ws_world wk)\<rparr>"

definition persist_overflow_gap ::
  "'w ingestion_ports \<Rightarrow> connection_epoch_id \<Rightarrow> 'w worker_state \<Rightarrow> 'w worker_state" where
  "persist_overflow_gap P ep wk =
     (if \<not> gap_needs_persistence (ws_overflow wk) then wk
      else (case ip_mark_uncertain P ep QueueOverflow (ws_world wk) of
          (Inl _, w) \<Rightarrow> wk\<lparr>ws_world := w\<rparr>
        | (Inr _, w) \<Rightarrow>
            (let flags = mark_gap_persisted (ws_overflow wk) in
             on_metrics (\<lambda>m. m\<lparr>im_overflow_pending := of_bool (gap_needs_persistence flags)\<rparr>)
               (wk\<lparr>ws_world := w, ws_overflow := flags\<rparr>))))"

section \<open>Hooks\<close>

primrec media_artifact_kind :: "media_kind \<Rightarrow> artifact_kind" where
  "media_artifact_kind Image = ArtifactImage"
| "media_artifact_kind Audio = ArtifactRecord"
| "media_artifact_kind Video = ArtifactVideo"
| "media_artifact_kind File = ArtifactFile"

primrec rich_artifact_kind :: "rich_content_kind \<Rightarrow> artifact_kind" where
  "rich_artifact_kind Json = ArtifactRichJson"
| "rich_artifact_kind Xml = ArtifactRichXml"
| "rich_artifact_kind Card = ArtifactRichCard"

definition artifact_kind_of :: "content_segment \<Rightarrow> artifact_kind option" where
  "artifact_kind_of s =
     (case s of
        Media k _ _ _ \<Rightarrow> Some (media_artifact_kind k)
      | Forward _ \<Rightarrow> Some ArtifactForward
      | Rich k _ _ \<Rightarrow> Some (rich_artifact_kind k)
      | _ \<Rightarrow> None)"

definition recall_correlation_of :: "envelope \<Rightarrow> (recall_error, recall_correlation_key) result" where
  "recall_correlation_of msg =
     recall_correlation_key_new (account_ref (source msg)) (smr_channel (source msg)) (conversation msg)
       (smr_message_id (source msg))"

definition artifact_hook :: "(string \<Rightarrow> string) \<Rightarrow> source_event_id \<Rightarrow> nat \<Rightarrow> artifact_kind \<Rightarrow> spool_hook_key" where
  "artifact_hook v5 e ordinal k = ArtifactHook (artifact_str (for_source_segment v5 e ordinal k))"

definition artifact_hooks :: "(string \<Rightarrow> string) \<Rightarrow> source_event_id \<Rightarrow> content_segment list \<Rightarrow> spool_hook_key list" where
  "artifact_hooks v5 e segs =
     concat (map (\<lambda>(ordinal, s). case artifact_kind_of s of
         None \<Rightarrow> [] | Some k \<Rightarrow> [artifact_hook v5 e ordinal k]) (enumerate 0 segs))"

definition required_hook_keys ::
  "(string \<Rightarrow> string) \<Rightarrow> envelope \<Rightarrow> ingest_message_outcome \<Rightarrow> bool \<Rightarrow> bool \<Rightarrow>
     (spool_fatal_kind, spool_hook_key list) result" where
  "required_hook_keys v5 msg out recall_enabled artifact_enabled =
     bind_r (if recall_enabled
             then bind_r (map_err (\<lambda>_. RecoveryInvariantViolation) (recall_correlation_of msg)) (\<lambda>k.
                    Ok [RecallHook k])
             else Ok []) (\<lambda>recalls.
     bind_r (if artifact_enabled
             then bind_r (map_err (\<lambda>_. RecoveryInvariantViolation)
                      (source_event_id_new (event_str (outcome_source_event_id out)))) (\<lambda>e.
                    Ok (artifact_hooks v5 e (segments msg)))
             else Ok []) (\<lambda>artifacts.
       Ok (recalls @ artifacts)))"

text \<open>The kind, key, display name and description of the artifact of a segment.\<close>

definition artifact_source ::
  "content_segment \<Rightarrow> (artifact_kind \<times> string \<times> string option \<times> string option) option" where
  "artifact_source s =
     (case s of
        Media k key _ name \<Rightarrow> Some (media_artifact_kind k, key, name, None)
      | Forward key \<Rightarrow> Some (ArtifactForward, key, None, None)
      | Rich k key summary \<Rightarrow> Some (rich_artifact_kind k, key, None, summary)
      | _ \<Rightarrow> None)"

definition i64_saturating_add :: "i64 \<Rightarrow> i64 \<Rightarrow> i64" where
  "i64_saturating_add a b = max i64_min (min i64_max (a + b))"

definition artifact_ttl :: "u64 \<Rightarrow> envelope \<Rightarrow> i64 option" where
  "artifact_ttl ttl msg =
     (if ttl = 0 then None else Some (i64_saturating_add (occurred_at msg) (sint ttl)))"

definition describe_artifact :: "string option \<Rightarrow> string option \<Rightarrow> artifact_envelope \<Rightarrow> artifact_envelope" where
  "describe_artifact name description a =
     (let a1 = (if name \<noteq> None then with_display_name name a else a) in
      if description \<noteq> None then with_description description a1 else a1)"

fun create_artifacts ::
  "(artifact_envelope \<Rightarrow> ('w, artifact_error, unit) port) \<Rightarrow> (string \<Rightarrow> string) \<Rightarrow> envelope \<Rightarrow> source_event_id \<Rightarrow>
     i64 option \<Rightarrow> nat \<Rightarrow> content_segment list \<Rightarrow> ('w, unit, unit) port" where
  "create_artifacts create v5 msg e ttl ordinal [] w = (Inr (), w)"
| "create_artifacts create v5 msg e ttl ordinal (s # segs) w =
     (case artifact_source s of
        None \<Rightarrow> create_artifacts create v5 msg e ttl (Suc ordinal) segs w
      | Some (k, key, name, description) \<Rightarrow>
          (case artifact_envelope_new (for_source_segment v5 e ordinal k) (account_ref (source msg)) e
                  (conversation msg) k key Normal (occurred_at msg) ttl of
             Ok a \<Rightarrow>
               (case create (describe_artifact name description a) w of
                  (Inl _, w') \<Rightarrow> (Inl (), w')
                | (Inr _, w') \<Rightarrow> create_artifacts create v5 msg e ttl (Suc ordinal) segs w')
           | _ \<Rightarrow> (Inl (), w)))"

definition maybe_create_artifacts ::
  "'w ingestion_ports \<Rightarrow> envelope \<Rightarrow> string \<Rightarrow> ('w, unit, unit) port" where
  "maybe_create_artifacts P msg event_id w =
     (case ip_artifact P of
        None \<Rightarrow> (Inr (), w)
      | Some create \<Rightarrow>
          (case source_event_id_new event_id of
             Ok e \<Rightarrow> create_artifacts create (ip_uuid_v5 P) msg e (artifact_ttl (ip_default_ttl P) msg) 0 (segments msg) w
           | _ \<Rightarrow> (Inl (), w)))"

definition maybe_apply_pending_recall ::
  "'w ingestion_ports \<Rightarrow> envelope \<Rightarrow> string \<Rightarrow> ('w, unit, unit) port" where
  "maybe_apply_pending_recall P msg event_id w =
     (case ip_recall P of
        None \<Rightarrow> (Inr (), w)
      | Some apply_pending \<Rightarrow>
          (case recall_correlation_of msg of
             Ok k \<Rightarrow>
               (case apply_pending k event_id w of
                  (Inl _, w') \<Rightarrow> (Inl (), w')
                | (Inr _, w') \<Rightarrow> (Inr (), w'))
           | _ \<Rightarrow> (Inl (), w)))"

definition fire_post_hooks ::
  "'w ingestion_ports \<Rightarrow> ingest_message_outcome \<Rightarrow> envelope \<Rightarrow> ('w, unit, unit) port" where
  "fire_post_hooks P out msg w =
     (let event_id = event_str (outcome_source_event_id out) in
      case maybe_apply_pending_recall P msg event_id w of
        (Inl _, w') \<Rightarrow> (Inl (), w')
      | (Inr _, w') \<Rightarrow> maybe_create_artifacts P msg event_id w')"

section \<open>Storing a batch\<close>

text \<open>What a failed attempt does before the next: counters, health, the delay.\<close>

definition note_failure :: "'w ingestion_ports \<Rightarrow> 'w worker_state \<Rightarrow> 'w worker_state" where
  "note_failure P wk =
     on_metrics (\<lambda>m. m\<lparr>im_last_failure_at := ip_unix_now P (ws_world wk)\<rparr>) wk"

definition note_retry :: "'w ingestion_ports \<Rightarrow> nat \<Rightarrow> 'w worker_state \<Rightarrow> 'w worker_state" where
  "note_retry P delay wk =
     on_world (ip_sleep P delay) (on_world (ip_health_failure P)
       (note_failure P (on_metrics (\<lambda>m. m\<lparr>im_retries := im_retries m + 1\<rparr>) wk)))"

definition next_delay :: "nat \<Rightarrow> nat \<Rightarrow> nat" where
  "next_delay max_delay delay = min (delay * 2) max_delay"

text \<open>The inner loop: until the store takes the messages or calls them invalid.\<close>

partial_function (option) insert_retrying ::
  "'w ingestion_ports \<Rightarrow> nat \<Rightarrow> envelope list \<Rightarrow> nat \<Rightarrow> 'w worker_state \<Rightarrow>
     ((string + ingest_message_outcome list) \<times> nat \<times> 'w worker_state) option" where
  "insert_retrying P max_delay msgs delay wk =
     (case ip_insert P msgs (ws_world wk) of (r, w) \<Rightarrow>
        (case r of
           Inr outs \<Rightarrow> Some (Inr outs, delay, wk\<lparr>ws_world := w\<rparr>)
         | Inl e \<Rightarrow>
             (case e of
                InvalidData s \<Rightarrow> Some (Inl s, delay, wk\<lparr>ws_world := w\<rparr>)
              | _ \<Rightarrow> insert_retrying P max_delay msgs (next_delay max_delay delay)
                       (note_retry P delay (wk\<lparr>ws_world := w\<rparr>)))))"

primrec is_accepted :: "ingest_message_outcome \<Rightarrow> bool" where
  "is_accepted (Accepted _ _) = True"
| "is_accepted (Duplicate _) = False"

definition count_outcomes :: "ingest_message_outcome list \<Rightarrow> ingestion_metrics \<Rightarrow> ingestion_metrics" where
  "count_outcomes outs m =
     m\<lparr>im_accepted := im_accepted m + word_of_nat (length (filter is_accepted outs)),
       im_duplicates := im_duplicates m + word_of_nat (length (filter (Not \<circ> is_accepted) outs)),
       im_batches_committed := im_batches_committed m + 1\<rparr>"

definition note_success :: "'w ingestion_ports \<Rightarrow> nat \<Rightarrow> 'w worker_state \<Rightarrow> 'w worker_state" where
  "note_success P n wk =
     on_metrics (\<lambda>m. m\<lparr>im_last_batch_size := word_of_nat n,
         im_last_success_at := ip_unix_now P (ws_world wk)\<rparr>) wk"

definition note_committed :: "'w ingestion_ports \<Rightarrow> nat list \<Rightarrow> 'w worker_state \<Rightarrow> 'w worker_state" where
  "note_committed P starts wk = on_metrics (record_committed (ip_instant_now P (ws_world wk)) starts) wk"

definition report_success :: "'w ingestion_ports \<Rightarrow> 'w worker_state \<Rightarrow> 'w worker_state" where
  "report_success P wk = on_world (\<lambda>w. ip_health_success P (ip_unix_now P w) w) wk"

text \<open>The hooks of a committed batch: their failures are ignored here, but an outcome without a
  message is an index out of range.\<close>

fun fire_all_hooks ::
  "'w ingestion_ports \<Rightarrow> envelope list \<Rightarrow> ingest_message_outcome list \<Rightarrow>
     ('w, spool_fatal_kind, unit) action" where
  "fire_all_hooks P msgs [] w = (Ok (), w)"
| "fire_all_hooks P [] (out # outs) w = (Panic, w)"
| "fire_all_hooks P (msg # msgs) (out # outs) w =
     fire_all_hooks P msgs outs (snd (fire_post_hooks P out msg w))"

definition commit_batch ::
  "'w ingestion_ports \<Rightarrow> envelope list \<Rightarrow> nat list \<Rightarrow> ingest_message_outcome list \<Rightarrow>
     ('w worker_state, spool_fatal_kind, unit) action" where
  "commit_batch P msgs starts outs wk =
     (let wk1 = report_success P (note_committed P starts
                  (note_success P (length msgs) (on_metrics (count_outcomes outs) wk)));
          (r, w) = fire_all_hooks P msgs outs (ws_world wk1) in
      (r, wk1\<lparr>ws_world := w\<rparr>))"

text \<open>A message the store refuses alone: counted, flagged by a gap if the store can, and skipped.\<close>

definition skip_poison ::
  "'w ingestion_ports \<Rightarrow> connection_epoch_id \<Rightarrow> 'w worker_state \<Rightarrow> 'w worker_state" where
  "skip_poison P ep wk =
     on_world (\<lambda>w. snd (ip_mark_uncertain P ep InvalidEvent w)) (on_world (ip_health_failure P)
       (note_failure P (on_metrics (\<lambda>m. m\<lparr>im_invalid := im_invalid m + 1\<rparr>) wk)))"

text \<open>The queue of index lists: refused batches are split in two, the left half first.\<close>

partial_function (option) process_queue ::
  "'w ingestion_ports \<Rightarrow> nat \<Rightarrow> connection_epoch_id \<Rightarrow> timestamped_envelope list \<Rightarrow> nat list list \<Rightarrow> nat \<Rightarrow>
     'w worker_state \<Rightarrow> ((spool_fatal_kind, unit) result \<times> 'w worker_state) option" where
  "process_queue P max_delay ep batch queue delay wk =
     (case queue of
        [] \<Rightarrow> Some (Ok (), wk)
      | cur # rest \<Rightarrow>
          if cur = [] then process_queue P max_delay ep batch rest delay wk
          else
            Option.bind
              (insert_retrying P max_delay (map (\<lambda>i. te_envelope (batch ! i)) cur) delay
                 (persist_overflow_gap P ep wk))
              (\<lambda>(r, delay', wk1).
                case r of
                  Inr outs \<Rightarrow>
                    (case commit_batch P (map (\<lambda>i. te_envelope (batch ! i)) cur)
                            (map (\<lambda>i. te_enqueued_at (batch ! i)) cur) outs wk1 of (q, wk2) \<Rightarrow>
                      (case q of
                         Ok _ \<Rightarrow> process_queue P max_delay ep batch rest delay' wk2
                       | _ \<Rightarrow> Some (q, wk2)))
                | Inl _ \<Rightarrow>
                    if length cur = 1
                    then process_queue P max_delay ep batch rest delay' (skip_poison P ep wk1)
                    else process_queue P max_delay ep batch
                           (take (length cur div 2) cur # drop (length cur div 2) cur # rest) delay' wk1))"

section \<open>Storing a batch that comes from the spool\<close>

partial_function (option) hooks_retrying ::
  "'w ingestion_ports \<Rightarrow> nat \<Rightarrow> ingest_message_outcome \<Rightarrow> envelope \<Rightarrow> nat \<Rightarrow> 'w worker_state \<Rightarrow>
     'w worker_state option" where
  "hooks_retrying P max_delay out msg delay wk =
     (case fire_post_hooks P out msg (ws_world wk) of (r, w) \<Rightarrow>
        (case r of
           Inr _ \<Rightarrow> Some (wk\<lparr>ws_world := w\<rparr>)
         | Inl _ \<Rightarrow> hooks_retrying P max_delay out msg (next_delay max_delay delay)
                      (note_retry P delay (wk\<lparr>ws_world := w\<rparr>))))"

definition converged_entry ::
  "recovered_frame \<Rightarrow> spool_hook_key list \<Rightarrow> ingest_message_outcome \<Rightarrow> replay_progress" where
  "converged_entry frame hooks out =
     fold with_converged_hook hooks (with_ingestion out (replay_pending frame hooks))"

primrec converge_items ::
  "'w ingestion_ports \<Rightarrow> ingestion_config \<Rightarrow> (timestamped_envelope \<times> ingest_message_outcome) list \<Rightarrow>
     'w worker_state \<Rightarrow> ((spool_fatal_kind, replay_progress list) result \<times> 'w worker_state) option" where
  "converge_items P cfg [] wk = Some (Ok [], wk)"
| "converge_items P cfg (x # xs) wk =
     (let (i, out) = x in
      case required_hook_keys (ip_uuid_v5 P) (te_envelope i) out (ip_recall P \<noteq> None) (ip_artifact P \<noteq> None) of
        Err e \<Rightarrow> Some (Err e, wk)
      | Panic \<Rightarrow> Some (Panic, wk)
      | Ok hooks \<Rightarrow>
          Option.bind (hooks_retrying P (ic_retry_max_ms cfg) out (te_envelope i) (ic_retry_initial_ms cfg) wk)
            (\<lambda>wk1. case te_frame i of
                None \<Rightarrow> Some (Err RecoveryInvariantViolation, wk1)
              | Some frame \<Rightarrow>
                  Option.bind (converge_items P cfg xs wk1) (\<lambda>(r, wk2).
                    Some (bind_r r (\<lambda>ps. Ok (converged_entry frame hooks out # ps)), wk2))))"

text \<open>After the hooks: the checkpoint, then the counters.\<close>

definition checkpoint_batch ::
  "'w ingestion_ports \<Rightarrow> (checkpoint_prefix \<Rightarrow> ('w, spool_fatal_kind, unit) port) \<Rightarrow> nat \<Rightarrow>
     ingest_message_outcome list \<Rightarrow> replay_progress list \<Rightarrow> ('w worker_state, spool_fatal_kind, unit) action" where
  "checkpoint_batch P advance n outs progress wk =
     (case progress of
        [] \<Rightarrow> (Err RecoveryInvariantViolation, wk)
      | first # _ \<Rightarrow>
          (case advance (checkpointable_prefix (rf_generation (rp_frame first)) progress) (ws_world wk) of
             (Inl k, w) \<Rightarrow> (Err k, wk\<lparr>ws_world := w\<rparr>)
           | (Inr _, w) \<Rightarrow>
               (Ok (), report_success P (note_success P n
                         (on_metrics (count_outcomes outs) (wk\<lparr>ws_world := w\<rparr>))))))"

definition process_spooled_batch ::
  "'w ingestion_ports \<Rightarrow> ingestion_config \<Rightarrow> timestamped_envelope list \<Rightarrow>
     (checkpoint_prefix \<Rightarrow> ('w, spool_fatal_kind, unit) port) \<Rightarrow> 'w worker_state \<Rightarrow>
     ((spool_fatal_kind, unit) result \<times> 'w worker_state) option" where
  "process_spooled_batch P cfg batch advance wk =
     Option.bind (insert_retrying P (ic_retry_max_ms cfg) (map te_envelope batch) (ic_retry_initial_ms cfg) wk)
       (\<lambda>(r, delay, wk1).
         case r of
           Inl _ \<Rightarrow> Some (Err RecoveryInvariantViolation,
             note_failure P (on_metrics (\<lambda>m. m\<lparr>im_invalid := im_invalid m + 1\<rparr>) wk1))
         | Inr outs \<Rightarrow>
             Option.bind
               (converge_items P cfg (zip batch outs) (note_committed P (map te_enqueued_at batch) wk1))
               (\<lambda>(q, wk2).
                 case q of
                   Ok progress \<Rightarrow> Some (checkpoint_batch P advance (length batch) outs progress wk2)
                 | Err k \<Rightarrow> Some (Err k, wk2)
                 | Panic \<Rightarrow> Some (Panic, wk2)))"

definition process_batch ::
  "'w ingestion_ports \<Rightarrow> ingestion_config \<Rightarrow> connection_epoch_id \<Rightarrow> timestamped_envelope list \<Rightarrow>
     'w worker_state \<Rightarrow> ((spool_fatal_kind, unit) result \<times> 'w worker_state) option" where
  "process_batch P cfg ep batch wk =
     (if list_ex (\<lambda>i. te_frame i \<noteq> None) batch
      then (if list_ex (\<lambda>i. te_frame i = None) batch then Some (Err RecoveryInvariantViolation, wk)
            else (case ip_checkpoint P of
                None \<Rightarrow> Some (Err RecoveryInvariantViolation, wk)
              | Some advance \<Rightarrow> process_spooled_batch P cfg batch advance wk))
      else process_queue P (ic_retry_max_ms cfg) ep batch [[0..<length batch]] (ic_retry_initial_ms cfg) wk)"

section \<open>Leaving the retry loops\<close>

text \<open>A loop that returns has failed a number of times, keeping what failures keep, and then got its
  answer.\<close>

lemma insert_retrying_last:
  assumes run: "insert_retrying P mx msgs d wk = Some (r, d', wk')" and "I wk"
    and again: "\<And>wk e w d. I wk \<Longrightarrow> ip_insert P msgs (ws_world wk) = (Inl e, w) \<Longrightarrow>
      I (note_retry P d (wk\<lparr>ws_world := w\<rparr>))"
  shows "\<exists>wk1 w. I wk1 \<and> wk' = wk1\<lparr>ws_world := w\<rparr>
     \<and> ip_insert P msgs (ws_world wk1) = (map_sum InvalidData id r, w)"
proof -
  let ?Q = "\<lambda>((((P', mx), ms), d), wk) (r, d', wk'). P' = P \<longrightarrow> ms = msgs \<longrightarrow> I wk \<longrightarrow>
     (\<exists>wk1 w. I wk1 \<and> wk' = wk1\<lparr>ws_world := w\<rparr> \<and> ip_insert P msgs (ws_world wk1) = (map_sum InvalidData id r, w))"
  have "?Q ((((P, mx), msgs), d), wk) (r, d', wk')"
  proof (rule insert_retrying.raw_induct [of ?Q, OF _ run])
    fix rec P' mx ms d wk y
    assume IH: "\<And>P' ms mx d wk y. rec P' ms mx d wk = Some y \<Longrightarrow> ?Q ((((P', ms), mx), d), wk) y"
      and body: "(case ip_insert P' ms (ws_world wk) of (r, w) \<Rightarrow>
        (case r of Inl e \<Rightarrow> (case e of InvalidData s \<Rightarrow> Some (Inl s, d, wk\<lparr>ws_world := w\<rparr>)
              | _ \<Rightarrow> rec P' mx ms (next_delay mx d) (note_retry P' d (wk\<lparr>ws_world := w\<rparr>)))
          | Inr outs \<Rightarrow> Some (Inr outs, d, wk\<lparr>ws_world := w\<rparr>))) = Some y"
    show "?Q ((((P', mx), ms), d), wk) y"
    proof (cases "P' = P \<and> ms = msgs \<and> I wk")
      case True
      obtain q w where i: "ip_insert P msgs (ws_world wk) = (q, w)" by force
      consider outs where "q = Inr outs" | s where "q = Inl (InvalidData s)"
        | e where "q = Inl e" "rec P mx msgs (next_delay mx d) (note_retry P d (wk\<lparr>ws_world := w\<rparr>)) = Some y"
        using body True i by (auto split: sum.splits inbound_event_store_error.splits)
      then show ?thesis
      proof cases
        case (3 e)
        from IH [OF 3(2)] again [of wk e w d] True i 3(1) show ?thesis by (cases y) simp
      qed (use body True i in \<open>auto intro!: exI [of _ wk]\<close>)
    qed (cases y, auto)
  qed
  with \<open>I wk\<close> show ?thesis by simp
qed

lemma hooks_retrying_last:
  assumes run: "hooks_retrying P mx out msg d wk = Some wk'" and "I wk"
    and again: "\<And>wk w d. I wk \<Longrightarrow> fire_post_hooks P out msg (ws_world wk) = (Inl (), w) \<Longrightarrow>
      I (note_retry P d (wk\<lparr>ws_world := w\<rparr>))"
  shows "\<exists>wk1 w. I wk1 \<and> wk' = wk1\<lparr>ws_world := w\<rparr> \<and> fire_post_hooks P out msg (ws_world wk1) = (Inr (), w)"
proof -
  let ?Q = "\<lambda>(((((P', mx), out'), msg'), d), wk) wk'. P' = P \<longrightarrow> out' = out \<longrightarrow> msg' = msg \<longrightarrow> I wk \<longrightarrow>
     (\<exists>wk1 w. I wk1 \<and> wk' = wk1\<lparr>ws_world := w\<rparr> \<and> fire_post_hooks P out msg (ws_world wk1) = (Inr (), w))"
  have "?Q (((((P, mx), out), msg), d), wk) wk'"
  proof (rule hooks_retrying.raw_induct [of ?Q, OF _ run])
    fix rec P' mx out' msg' d wk y
    assume IH: "\<And>P' mx out' msg' d wk y. rec P' mx out' msg' d wk = Some y \<Longrightarrow> ?Q (((((P', mx), out'), msg'), d), wk) y"
      and body: "(case fire_post_hooks P' out' msg' (ws_world wk) of (r, w) \<Rightarrow>
        (case r of Inl _ \<Rightarrow> rec P' mx out' msg' (next_delay mx d) (note_retry P' d (wk\<lparr>ws_world := w\<rparr>))
          | Inr _ \<Rightarrow> Some (wk\<lparr>ws_world := w\<rparr>))) = Some y"
    show "?Q (((((P', mx), out'), msg'), d), wk) y"
    proof (cases "P' = P \<and> out' = out \<and> msg' = msg \<and> I wk")
      case True
      obtain q w where f: "fire_post_hooks P out msg (ws_world wk) = (q, w)" by force
      show ?thesis
      proof (cases q)
        case (Inl u)
        with body True f have "rec P mx out msg (next_delay mx d) (note_retry P d (wk\<lparr>ws_world := w\<rparr>)) = Some y" by simp
        from IH [OF this] again [of wk w d] True f Inl show ?thesis by simp
      next
        case (Inr u)
        with body True f show ?thesis by (auto intro!: exI [of _ wk])
      qed
    qed auto
  qed
  with \<open>I wk\<close> show ?thesis by simp
qed

end
