(* ===== verification/Ingestion_Correct.thy ===== *)
theory Ingestion_Correct
  imports Ingestion_Worker
begin

text \<open>
  Batches of the ingestion worker: with a transactional store that recovers, bisection ends, leaves
  in the store exactly the messages it does not refuse and did not hold, each once and in their
  order, and counts the refused ones.
\<close>

section \<open>Insertion of what is absent\<close>

text \<open>
  \<open>insert_messages_if_absent\<close> of \<open>personal-secretary/src/application/store.rs\<close>: a delivery whose
  idempotency key the store holds changes nothing, any other is added at the end.
\<close>

definition keep_new :: "envelope \<Rightarrow> envelope list \<Rightarrow> envelope list" where
  "keep_new m held =
     (if envelope_idempotency_key m \<in> envelope_idempotency_key ` set held then held else held @ [m])"

definition keep_all :: "envelope list \<Rightarrow> envelope list \<Rightarrow> envelope list" where
  "keep_all ms held = fold keep_new ms held"

lemma keep_all_simps [simp]:
  "keep_all [] held = held" "keep_all (ms @ ns) held = keep_all ns (keep_all ms held)"
  by (simp_all add: keep_all_def)

lemma keep_all_keys:
  "envelope_idempotency_key ` set (keep_all ms held) =
     envelope_idempotency_key ` set held \<union> envelope_idempotency_key ` set ms"
  by (induction ms arbitrary: held) (auto simp: keep_all_def keep_new_def)

lemma keep_all_distinct:
  "distinct (map envelope_idempotency_key held) \<Longrightarrow> distinct (map envelope_idempotency_key (keep_all ms held))"
  by (induction ms arbitrary: held) (auto simp: keep_all_def keep_new_def)

lemma keep_all_held:
  "envelope_idempotency_key ` set ms \<subseteq> envelope_idempotency_key ` set held \<Longrightarrow> keep_all ms held = held"
  by (induction ms) (auto simp: keep_all_def keep_new_def)

lemma keep_all_again [simp]: "keep_all ms (keep_all ms held) = keep_all ms held"
  by (rule keep_all_held) (simp add: keep_all_keys)

section \<open>What the worker relies on\<close>

text \<open>
  The store takes a batch as a whole or leaves nothing of it, and calls a batch invalid only if a
  message of it is: \<open>stored\<close> reads the messages it holds, \<open>bad\<close> is its notion of an invalid one.
  After any other error the batch may have been committed all the same (the connection was lost
  before the answer); inserting it again then changes nothing.
\<close>

definition transactional :: "'w ingestion_ports \<Rightarrow> ('w \<Rightarrow> envelope list) \<Rightarrow> (envelope \<Rightarrow> bool) \<Rightarrow> bool" where
  "transactional P stored bad \<longleftrightarrow>
     (\<forall>ms w outs w'. ip_insert P ms w = (Inr outs, w') \<longrightarrow>
        filter bad ms = [] \<and> length outs = length ms \<and> stored w' = keep_all ms (stored w))
     \<and> (\<forall>ms w s w'. ip_insert P ms w = (Inl (InvalidData s), w') \<longrightarrow>
          filter bad ms \<noteq> [] \<and> stored w' = stored w)
     \<and> (\<forall>ms w e w'. ip_insert P ms w = (Inl e, w') \<longrightarrow>
          stored w' = stored w \<or> filter bad ms = [] \<and> stored w' = keep_all ms (stored w))
     \<and> (\<forall>ep g w. stored (snd (ip_mark_uncertain P ep g w)) = stored w)
     \<and> (\<forall>f k i w. ip_recall P = Some f \<longrightarrow> stored (snd (f k i w)) = stored w)
     \<and> (\<forall>f a w. ip_artifact P = Some f \<longrightarrow> stored (snd (f a w)) = stored w)
     \<and> (\<forall>t w. stored (ip_health_success P t w) = stored w) \<and> (\<forall>w. stored (ip_health_failure P w) = stored w)
     \<and> (\<forall>d w. stored (ip_sleep P d w) = stored w)"

text \<open>After finitely many transient errors in a row, counted by \<open>left\<close>, the store answers.\<close>

definition recovers :: "'w ingestion_ports \<Rightarrow> ('w \<Rightarrow> nat) \<Rightarrow> bool" where
  "recovers P left \<longleftrightarrow>
     (\<forall>ms w e w' d. ip_insert P ms w = (Inl e, w') \<longrightarrow> (\<forall>s. e \<noteq> InvalidData s) \<longrightarrow>
        left (ip_sleep P d (ip_health_failure P w')) < left w)"

lemma transactionalD:
  assumes "transactional P stored bad"
  shows "ip_insert P ms w = (Inr outs, w') \<Longrightarrow>
           filter bad ms = [] \<and> length outs = length ms \<and> stored w' = keep_all ms (stored w)"
    and "ip_insert P ms w = (Inl (InvalidData s), w') \<Longrightarrow> filter bad ms \<noteq> [] \<and> stored w' = stored w"
    and "ip_insert P ms w = (Inl e, w') \<Longrightarrow>
           stored w' = stored w \<or> filter bad ms = [] \<and> stored w' = keep_all ms (stored w)"
    and "stored (snd (ip_mark_uncertain P ep g w)) = stored w"
    and "ip_recall P = Some f \<Longrightarrow> stored (snd (f k i w)) = stored w"
    and "ip_artifact P = Some h \<Longrightarrow> stored (snd (h a w)) = stored w"
    and "stored (ip_health_success P t w) = stored w" and "stored (ip_health_failure P w) = stored w"
    and "stored (ip_sleep P n w) = stored w"
  using assms unfolding transactional_def by simp_all

section \<open>Steps that touch neither the store nor the count of invalid messages\<close>

lemma worker_state_simps [simp]:
  "ws_world (on_metrics f wk) = ws_world wk" "ws_overflow (on_metrics f wk) = ws_overflow wk"
  "ws_metrics (on_metrics f wk) = f (ws_metrics wk)" "ws_world (on_world g wk) = g (ws_world wk)"
  "ws_metrics (on_world g wk) = ws_metrics wk" "ws_overflow (on_world g wk) = ws_overflow wk"
  by (simp_all add: on_metrics_def on_world_def)

lemma record_committed_invalid [simp]: "im_invalid (record_committed now starts m) = im_invalid m"
  by (induction starts arbitrary: m) (simp_all add: record_committed_def record_latency_def Let_def)

lemma metrics_invalid [simp]:
  "im_invalid (ws_metrics (note_retry P d wk)) = im_invalid (ws_metrics wk)"
  "im_invalid (ws_metrics (note_failure P wk)) = im_invalid (ws_metrics wk)"
  "im_invalid (ws_metrics (note_success P n wk)) = im_invalid (ws_metrics wk)"
  "im_invalid (ws_metrics (note_committed P starts wk)) = im_invalid (ws_metrics wk)"
  "im_invalid (ws_metrics (report_success P wk)) = im_invalid (ws_metrics wk)"
  "im_invalid (count_outcomes outs m) = im_invalid m"
  by (simp_all add: note_retry_def note_failure_def note_success_def note_committed_def report_success_def
      count_outcomes_def)

lemma worlds [simp]:
  "ws_world (note_retry P d wk) = ip_sleep P d (ip_health_failure P (ws_world wk))"
  "ws_world (note_failure P wk) = ws_world wk" "ws_world (note_success P n wk) = ws_world wk"
  "ws_world (note_committed P starts wk) = ws_world wk"
  "ws_world (report_success P wk) = ip_health_success P (ip_unix_now P (ws_world wk)) (ws_world wk)"
  by (simp_all add: note_retry_def note_failure_def note_success_def note_committed_def report_success_def)

lemma persist_overflow_gap_keeps:
  assumes "transactional P stored bad"
  shows "stored (ws_world (persist_overflow_gap P ep wk)) = stored (ws_world wk)
     \<and> im_invalid (ws_metrics (persist_overflow_gap P ep wk)) = im_invalid (ws_metrics wk)"
  using transactionalD(4) [OF assms, of ep QueueOverflow "ws_world wk"]
  by (auto simp: persist_overflow_gap_def Let_def split: prod.splits sum.splits)

lemma create_artifacts_keeps:
  assumes "transactional P stored bad" "ip_artifact P = Some create"
  shows "stored (snd (create_artifacts create v5 msg e ttl n segs w)) = stored w"
proof (induction segs arbitrary: n w)
  case (Cons s segs)
  have "stored (snd (create a w)) = stored w" for a using transactionalD(6) [OF assms] .
  then show ?case
    using Cons.IH by (auto split: option.splits prod.splits result.splits sum.splits) (metis snd_conv)+
qed simp

lemma fire_post_hooks_keeps:
  assumes "transactional P stored bad"
  shows "stored (snd (fire_post_hooks P out msg w)) = stored w"
proof -
  have "stored (snd (maybe_apply_pending_recall P msg i w)) = stored w" for i w
    unfolding maybe_apply_pending_recall_def
    by (auto split: option.splits result.splits prod.splits sum.splits) (metis transactionalD(5) [OF assms] snd_conv)+
  moreover have "stored (snd (maybe_create_artifacts P msg i w)) = stored w" for i w
    unfolding maybe_create_artifacts_def
    by (auto split: option.splits result.splits dest: create_artifacts_keeps [OF assms])
  ultimately show ?thesis
    by (auto simp: fire_post_hooks_def Let_def split: prod.splits sum.splits) (metis snd_conv)+
qed

lemma fire_all_hooks_keeps:
  assumes "transactional P stored bad"
  shows "stored (snd (fire_all_hooks P msgs outs w)) = stored w
     \<and> (length outs \<le> length msgs \<longrightarrow> fst (fire_all_hooks P msgs outs w) = Ok ())"
  using assms by (induction P msgs outs w rule: fire_all_hooks.induct) (simp_all add: fire_post_hooks_keeps)

lemma commit_batch_Ok:
  assumes "transactional P stored bad" and "length outs = length msgs"
  shows "\<exists>wk'. commit_batch P msgs starts outs wk = (Ok (), wk')
     \<and> stored (ws_world wk') = stored (ws_world wk) \<and> im_invalid (ws_metrics wk') = im_invalid (ws_metrics wk)"
proof -
  define wk1 where "wk1 = report_success P (note_committed P starts
      (note_success P (length msgs) (on_metrics (count_outcomes outs) wk)))"
  obtain r w where f: "fire_all_hooks P msgs outs (ws_world wk1) = (r, w)" by force
  with fire_all_hooks_keeps [OF assms(1), of msgs outs "ws_world wk1"] assms(2)
  have "r = Ok ()" "stored w = stored (ws_world wk1)" by simp_all
  moreover have "stored (ws_world wk1) = stored (ws_world wk)" "im_invalid (ws_metrics wk1) = im_invalid (ws_metrics wk)"
    by (simp_all add: wk1_def transactionalD(7) [OF assms(1)])
  ultimately show ?thesis using f by (auto simp: commit_batch_def Let_def wk1_def [symmetric])
qed

section \<open>The retry loop\<close>

text \<open>What an answer of the store means.\<close>

definition answered ::
  "('w \<Rightarrow> envelope list) \<Rightarrow> (envelope \<Rightarrow> bool) \<Rightarrow> envelope list \<Rightarrow> string + ingest_message_outcome list \<Rightarrow>
     'w worker_state \<Rightarrow> 'w worker_state \<Rightarrow> bool" where
  "answered stored bad msgs r wk wk' \<longleftrightarrow>
     im_invalid (ws_metrics wk') = im_invalid (ws_metrics wk) \<and>
     (case r of
        Inr outs \<Rightarrow> filter bad msgs = [] \<and> length outs = length msgs
          \<and> stored (ws_world wk') = keep_all msgs (stored (ws_world wk))
      | Inl _ \<Rightarrow> filter bad msgs \<noteq> [] \<and> stored (ws_world wk') = stored (ws_world wk))"

lemma insert_retrying_answers:
  assumes tr: "transactional P stored bad" and rc: "recovers P left"
  shows "\<exists>r d' wk'. insert_retrying P mx msgs d wk = Some (r, d', wk') \<and> answered stored bad msgs r wk wk'"
proof (induction "left (ws_world wk)" arbitrary: wk d rule: less_induct)
  case less
  obtain r w where i: "ip_insert P msgs (ws_world wk) = (r, w)" by force
  consider outs where "r = Inr outs" | s where "r = Inl (InvalidData s)"
    | e where "r = Inl e" "\<forall>s. e \<noteq> InvalidData s"
    by (cases r) auto
  then show ?case
  proof cases
    case (1 outs)
    with i transactionalD(1) [OF tr, of msgs "ws_world wk" outs w] show ?thesis
      by (subst insert_retrying.simps) (auto simp: answered_def)
  next
    case (2 s)
    with i transactionalD(2) [OF tr, of msgs "ws_world wk" s w] show ?thesis
      by (subst insert_retrying.simps) (auto simp: answered_def)
  next
    case (3 e)
    let ?wk = "note_retry P d (wk\<lparr>ws_world := w\<rparr>)"
    have "left (ws_world ?wk) < left (ws_world wk)"
      using rc i 3 unfolding recovers_def by simp
    from less [OF this] obtain q d' wk' where q:
      "insert_retrying P mx msgs (next_delay mx d) ?wk = Some (q, d', wk')" "answered stored bad msgs q ?wk wk'"
      by blast
    have "stored w = stored (ws_world wk) \<or> filter bad msgs = [] \<and> stored w = keep_all msgs (stored (ws_world wk))"
      using transactionalD(3) [OF tr] i 3(1) by blast
    then have "answered stored bad msgs q wk wk'"
      using q(2) transactionalD(8,9) [OF tr] by (auto simp: answered_def split: sum.splits)
    moreover have "insert_retrying P mx msgs d wk = Some (q, d', wk')"
      using i 3 q(1) by (subst insert_retrying.simps) (auto split: inbound_event_store_error.splits)
    ultimately show ?thesis by blast
  qed
qed

section \<open>Bisection\<close>

text \<open>The work left in the queue: a batch of \<open>n\<close> messages is split at most \<open>n - 1\<close> times.\<close>

definition queue_work :: "nat list list \<Rightarrow> nat" where
  "queue_work queue = sum_list (map (\<lambda>c. 2 * length c - 1 + of_bool (c = [])) queue)"

lemma queue_work_split:
  assumes "cur \<noteq> []" "length cur \<noteq> 1"
  shows "queue_work (take (length cur div 2) cur # drop (length cur div 2) cur # rest) < queue_work (cur # rest)"
proof -
  have "2 \<le> length cur" using assms by (cases cur) (auto simp: Suc_le_eq)
  then show ?thesis by (auto simp: queue_work_def)
qed

lemma process_queue_bisects:
  fixes batch :: "timestamped_envelope list"
  defines "msgs \<equiv> \<lambda>is. map (\<lambda>i. te_envelope (batch ! i)) is"
  assumes tr: "transactional P stored bad" and rc: "recovers P left"
  shows "\<exists>wk'. process_queue P mx ep batch queue d wk = Some (Ok (), wk')
     \<and> stored (ws_world wk') = keep_all (filter (Not \<circ> bad) (msgs (concat queue))) (stored (ws_world wk))
     \<and> im_invalid (ws_metrics wk')
         = im_invalid (ws_metrics wk) + word_of_nat (length (filter bad (msgs (concat queue))))"
proof (induction "queue_work queue" arbitrary: queue d wk rule: less_induct)
  case less
  show ?case
  proof (cases queue)
    case Nil
    then show ?thesis by (subst process_queue.simps) (simp add: msgs_def)
  next
    case (Cons cur rest)
    show ?thesis
    proof (cases "cur = []")
      case True
      then have "queue_work rest < queue_work queue" by (simp add: Cons queue_work_def)
      from less [OF this, of d wk] show ?thesis
        unfolding Cons True by (subst process_queue.simps) simp
    next
      case False
      let ?wk0 = "persist_overflow_gap P ep wk"
      from insert_retrying_answers [OF tr rc, of mx "msgs cur" d ?wk0] obtain r d' wk1 where
        i: "insert_retrying P mx (msgs cur) d ?wk0 = Some (r, d', wk1)" and a: "answered stored bad (msgs cur) r ?wk0 wk1"
        by blast
      note keep = persist_overflow_gap_keeps [OF tr, of ep wk]
      show ?thesis
      proof (cases r)
        case (Inr outs)
        with a have good: "filter bad (msgs cur) = []" and len: "length outs = length (msgs cur)"
          and st: "stored (ws_world wk1) = keep_all (msgs cur) (stored (ws_world wk))"
          and inv: "im_invalid (ws_metrics wk1) = im_invalid (ws_metrics wk)"
          using keep by (simp_all add: answered_def)
        from commit_batch_Ok [OF tr len] obtain wk2 where
          c: "commit_batch P (msgs cur) (map (\<lambda>i. te_enqueued_at (batch ! i)) cur) outs wk1 = (Ok (), wk2)"
          "stored (ws_world wk2) = stored (ws_world wk1)" "im_invalid (ws_metrics wk2) = im_invalid (ws_metrics wk1)"
          by blast
        have all: "filter (Not \<circ> bad) (msgs cur) = msgs cur"
          using good by (auto simp: filter_empty_conv intro: filter_True)
        have "queue_work rest < queue_work queue" using False by (cases cur) (simp_all add: Cons queue_work_def)
        from less [OF this, of d' wk2] obtain wk' where rest:
          "process_queue P mx ep batch rest d' wk2 = Some (Ok (), wk')"
          "stored (ws_world wk') = keep_all (filter (Not \<circ> bad) (msgs (concat rest))) (stored (ws_world wk2))"
          "im_invalid (ws_metrics wk') = im_invalid (ws_metrics wk2) + word_of_nat (length (filter bad (msgs (concat rest))))"
          by blast
        have "process_queue P mx ep batch queue d wk = Some (Ok (), wk')"
          unfolding Cons using False i Inr c(1) rest(1) by (subst process_queue.simps) (simp add: msgs_def)
        moreover have "msgs (concat queue) = msgs cur @ msgs (concat rest)" by (simp add: msgs_def Cons)
        ultimately show ?thesis using rest(2,3) c(2,3) st inv all good by simp
      next
        case (Inl s)
        with a have bad: "filter bad (msgs cur) \<noteq> []" and st: "stored (ws_world wk1) = stored (ws_world wk)"
          and inv: "im_invalid (ws_metrics wk1) = im_invalid (ws_metrics wk)"
          using keep by (simp_all add: answered_def)
        show ?thesis
        proof (cases "length cur = 1")
          case True
          then obtain j where cur: "cur = [j]" by (cases cur) auto
          have b: "bad (te_envelope (batch ! j))" using bad by (auto simp: cur msgs_def split: if_splits)
          let ?wk2 = "skip_poison P ep wk1"
          have skip: "stored (ws_world ?wk2) = stored (ws_world wk1)"
            "im_invalid (ws_metrics ?wk2) = im_invalid (ws_metrics wk1) + 1"
            by (simp_all add: skip_poison_def transactionalD(4,8) [OF tr])
          have "queue_work rest < queue_work queue" by (simp add: Cons cur queue_work_def)
          from less [OF this, of d' ?wk2] obtain wk' where rest:
            "process_queue P mx ep batch rest d' ?wk2 = Some (Ok (), wk')"
            "stored (ws_world wk') = keep_all (filter (Not \<circ> bad) (msgs (concat rest))) (stored (ws_world ?wk2))"
            "im_invalid (ws_metrics wk') = im_invalid (ws_metrics ?wk2) + word_of_nat (length (filter bad (msgs (concat rest))))"
            by blast
          have "process_queue P mx ep batch queue d wk = Some (Ok (), wk')"
            unfolding Cons using i Inl rest(1) by (subst process_queue.simps) (simp add: msgs_def cur)
          with rest(2,3) skip st inv b show ?thesis by (simp add: Cons cur msgs_def)
        next
          case two: False
          let ?q = "take (length cur div 2) cur # drop (length cur div 2) cur # rest"
          have "queue_work ?q < queue_work queue" unfolding Cons by (rule queue_work_split [OF False two])
          from less [OF this, of d' wk1] obtain wk' where rest:
            "process_queue P mx ep batch ?q d' wk1 = Some (Ok (), wk')"
            "stored (ws_world wk') = keep_all (filter (Not \<circ> bad) (msgs (concat ?q))) (stored (ws_world wk1))"
            "im_invalid (ws_metrics wk') = im_invalid (ws_metrics wk1) + word_of_nat (length (filter bad (msgs (concat ?q))))"
            by blast
          have same: "concat ?q = concat queue" by (simp add: Cons flip: append_assoc)
          have "process_queue P mx ep batch queue d wk = Some (Ok (), wk')"
            unfolding Cons using False two i Inl rest(1) by (subst process_queue.simps) (simp add: msgs_def)
          with rest(2,3) st inv show ?thesis unfolding same by simp
        qed
      qed
    qed
  qed
qed

lemma process_batch_bisects:
  assumes "transactional P stored bad" and "recovers P left" and "list_all (\<lambda>i. te_frame i = None) batch"
  shows "\<exists>wk'. process_batch P cfg ep batch wk = Some (Ok (), wk')
     \<and> stored (ws_world wk') = keep_all (filter (Not \<circ> bad) (map te_envelope batch)) (stored (ws_world wk))
     \<and> im_invalid (ws_metrics wk')
         = im_invalid (ws_metrics wk) + word_of_nat (length (filter bad (map te_envelope batch)))"
proof -
  have "\<not> list_ex (\<lambda>i. te_frame i \<noteq> None) batch" using assms(3) by (auto simp: list_ex_iff list_all_iff)
  then have run: "process_batch P cfg ep batch wk
      = process_queue P (ic_retry_max_ms cfg) ep batch [[0..<length batch]] (ic_retry_initial_ms cfg) wk"
    by (simp only: process_batch_def if_False)
  have all: "map (\<lambda>i. te_envelope (batch ! i)) (concat [[0..<length batch]]) = map te_envelope batch"
    by (intro nth_equalityI) simp_all
  show ?thesis
    unfolding run by (rule process_queue_bisects [OF assms(1,2), where batch = batch and queue = "[[0..<length batch]]", unfolded all])
qed

end
