(* ===== verification/Ingestion_Pipeline.thy ===== *)
theory Ingestion_Pipeline
  imports Ingestion_Correct
begin

text \<open>
  The queue in front of the ingestion worker and the loop of the worker
  (\<open>qqbot-server/src/application/ingestion_worker.rs\<close>) as a transition system: producers enqueue or
  are refused at any time, the worker collects batches, flushes them whenever its timer says so,
  and drains the channel after the last producer has gone.
\<close>

section \<open>The queue\<close>

datatype worker_phase =
    Idle | Waiting | Collecting "timestamped_envelope list" | Ended "spool_fatal_kind option" | Died

record 'w pipeline =
  pl_channel :: "timestamped_envelope list"
  pl_senders :: bool
  pl_phase :: worker_phase
  pl_worker :: "'w worker_state"

datatype enqueue_error = QueueFull | QueueClosed

definition receiver_open :: "'w pipeline \<Rightarrow> bool" where
  "receiver_open pl \<longleftrightarrow> (case pl_phase pl of Ended _ \<Rightarrow> False | Died \<Rightarrow> False | _ \<Rightarrow> True)"

definition on_worker :: "('w worker_state \<Rightarrow> 'w worker_state) \<Rightarrow> 'w pipeline \<Rightarrow> 'w pipeline" where
  "on_worker f pl = pl\<lparr>pl_worker := f (pl_worker pl)\<rparr>"

definition push_item :: "ingestion_config \<Rightarrow> timestamped_envelope \<Rightarrow> 'w pipeline \<Rightarrow> 'w pipeline" where
  "push_item cfg i pl =
     (let channel = pl_channel pl @ [i] in
      on_worker (on_metrics (record_enqueue (ic_queue_capacity cfg) (ic_queue_capacity cfg - length channel)))
        (pl\<lparr>pl_channel := channel\<rparr>))"

definition live_item :: "connection_epoch_id \<Rightarrow> nat \<Rightarrow> envelope \<Rightarrow> timestamped_envelope" where
  "live_item ep now msg = \<lparr>te_envelope = observed_in ep msg, te_enqueued_at = now, te_frame = None\<rparr>"

definition spooled_item :: "nat \<Rightarrow> recovered_frame \<Rightarrow> timestamped_envelope" where
  "spooled_item now f = \<lparr>te_envelope = rf_message f, te_enqueued_at = now, te_frame = Some f\<rparr>"

definition try_enqueue ::
  "ingestion_config \<Rightarrow> connection_epoch_id \<Rightarrow> nat \<Rightarrow> envelope \<Rightarrow> ('w pipeline, enqueue_error, unit) action" where
  "try_enqueue cfg ep now msg pl =
     (if \<not> receiver_open pl then (Err QueueClosed, pl)
      else if length (pl_channel pl) < ic_queue_capacity cfg
      then (Ok (), push_item cfg (live_item ep now msg) pl)
      else (Err QueueFull, on_worker (\<lambda>wk. on_metrics record_metric_drop
              (wk\<lparr>ws_overflow := record_drop (ws_overflow wk)\<rparr>)) pl))"

text \<open>\<open>enqueue_spooled\<close> waits for room; this is its step once there is room or the worker is gone.\<close>

definition enqueue_spooled ::
  "ingestion_config \<Rightarrow> nat \<Rightarrow> recovered_frame \<Rightarrow> ('w pipeline, enqueue_error, unit) action" where
  "enqueue_spooled cfg now f pl =
     (if \<not> receiver_open pl then (Err QueueClosed, pl) else (Ok (), push_item cfg (spooled_item now f) pl))"

section \<open>The loop\<close>

definition fill_batch ::
  "nat \<Rightarrow> timestamped_envelope list \<Rightarrow> timestamped_envelope list \<Rightarrow>
     timestamped_envelope list \<times> timestamped_envelope list" where
  "fill_batch capacity batch channel =
     (batch @ take (capacity - length batch) channel, drop (capacity - length batch) channel)"

definition collect ::
  "ingestion_config \<Rightarrow> timestamped_envelope list \<Rightarrow> timestamped_envelope list \<Rightarrow> 'w pipeline \<Rightarrow> 'w pipeline" where
  "collect cfg batch channel pl =
     (let (b, ch) = fill_batch (ic_batch_size cfg) batch channel in
      on_worker (on_metrics (record_dequeue (ic_queue_capacity cfg) (length ch)))
        (pl\<lparr>pl_channel := ch, pl_phase := Collecting b\<rparr>))"

definition start_batch :: "timestamped_envelope list \<Rightarrow> 'w worker_state \<Rightarrow> 'w worker_state" where
  "start_batch batch = on_metrics (\<lambda>m. m\<lparr>im_in_flight := word_of_nat (length batch)\<rparr>)"

definition finish_batch :: "ingestion_config \<Rightarrow> timestamped_envelope list \<Rightarrow> 'w worker_state \<Rightarrow> 'w worker_state" where
  "finish_batch cfg channel =
     on_metrics (\<lambda>m. (record_dequeue (ic_queue_capacity cfg) (length channel) m)\<lparr>im_in_flight := 0\<rparr>)"

datatype worker_event =
    Admitted timestamped_envelope | Refused envelope | Processed "timestamped_envelope list"

inductive worker_step ::
  "'w ingestion_ports \<Rightarrow> ingestion_config \<Rightarrow> connection_epoch_id \<Rightarrow> 'w pipeline \<Rightarrow> worker_event list \<Rightarrow>
     'w pipeline \<Rightarrow> bool"
  for P cfg ep where
  step_admit: "pl_senders pl \<Longrightarrow> try_enqueue cfg ep now msg pl = (Ok (), pl') \<Longrightarrow>
     worker_step P cfg ep pl [Admitted (live_item ep now msg)] pl'"
| step_refuse: "pl_senders pl \<Longrightarrow> try_enqueue cfg ep now msg pl = (Err e, pl') \<Longrightarrow>
     worker_step P cfg ep pl [Refused msg] pl'"
| step_admit_spooled: "pl_senders pl \<Longrightarrow> length (pl_channel pl) < ic_queue_capacity cfg \<Longrightarrow>
     enqueue_spooled cfg now f pl = (Ok (), pl') \<Longrightarrow>
     worker_step P cfg ep pl [Admitted (spooled_item now f)] pl'"
| step_close: "worker_step P cfg ep pl [] (pl\<lparr>pl_senders := False\<rparr>)"
| step_gap: "pl_phase pl = Idle \<Longrightarrow>
     worker_step P cfg ep pl [] (on_worker (persist_overflow_gap P ep) (pl\<lparr>pl_phase := Waiting\<rparr>))"
| step_receive: "pl_phase pl = Waiting \<Longrightarrow> pl_channel pl = i # rest \<Longrightarrow>
     worker_step P cfg ep pl [] (collect cfg [i] rest pl)"
| step_more: "pl_phase pl = Collecting b \<Longrightarrow> length b < ic_batch_size cfg \<Longrightarrow> pl_channel pl = i # rest \<Longrightarrow>
     worker_step P cfg ep pl [] (collect cfg (b @ [i]) rest pl)"
| step_process: "pl_phase pl = Collecting b \<Longrightarrow>
     process_batch P cfg ep b (start_batch b (pl_worker pl)) = Some (Ok (), wk) \<Longrightarrow>
     worker_step P cfg ep pl [Processed b]
       (pl\<lparr>pl_phase := Idle, pl_worker := finish_batch cfg (pl_channel pl) wk\<rparr>)"
| step_fatal: "pl_phase pl = Collecting b \<Longrightarrow>
     process_batch P cfg ep b (start_batch b (pl_worker pl)) = Some (Err k, wk) \<Longrightarrow>
     worker_step P cfg ep pl [Processed b]
       (pl\<lparr>pl_phase := Ended (Some k), pl_worker := persist_overflow_gap P ep wk\<rparr>)"
| step_panic: "pl_phase pl = Collecting b \<Longrightarrow>
     process_batch P cfg ep b (start_batch b (pl_worker pl)) = Some (Panic, wk) \<Longrightarrow>
     worker_step P cfg ep pl [Processed b] (pl\<lparr>pl_phase := Died, pl_worker := wk\<rparr>)"
| step_end: "pl_phase pl = Waiting \<Longrightarrow> pl_channel pl = [] \<Longrightarrow> \<not> pl_senders pl \<Longrightarrow>
     worker_step P cfg ep pl []
       (pl\<lparr>pl_phase := Ended None, pl_worker := persist_overflow_gap P ep (pl_worker pl)\<rparr>)"

inductive worker_run ::
  "'w ingestion_ports \<Rightarrow> ingestion_config \<Rightarrow> connection_epoch_id \<Rightarrow> 'w pipeline \<Rightarrow> worker_event list \<Rightarrow>
     'w pipeline \<Rightarrow> bool"
  for P cfg ep pl where
  run_start: "worker_run P cfg ep pl [] pl"
| run_step: "worker_run P cfg ep pl es pl' \<Longrightarrow> worker_step P cfg ep pl' new pl'' \<Longrightarrow>
     worker_run P cfg ep pl (es @ new) pl''"

definition pipeline_start :: "'w worker_state \<Rightarrow> 'w pipeline" where
  "pipeline_start wk = \<lparr>pl_channel = [], pl_senders = True, pl_phase = Idle, pl_worker = wk\<rparr>"

section \<open>What a run has admitted and processed\<close>

fun admitted :: "worker_event list \<Rightarrow> timestamped_envelope list" where
  "admitted [] = []"
| "admitted (Admitted i # es) = i # admitted es"
| "admitted (_ # es) = admitted es"

fun processed :: "worker_event list \<Rightarrow> timestamped_envelope list list" where
  "processed [] = []"
| "processed (Processed b # es) = b # processed es"
| "processed (_ # es) = processed es"

definition collected :: "'w pipeline \<Rightarrow> timestamped_envelope list" where
  "collected pl = (case pl_phase pl of Collecting b \<Rightarrow> b | _ \<Rightarrow> [])"

lemma events_append [simp]:
  "admitted (es @ fs) = admitted es @ admitted fs" "processed (es @ fs) = processed es @ processed fs"
  by (induction es rule: admitted.induct) simp_all

section \<open>The invariant of the queue\<close>

definition queue_invariant :: "ingestion_config \<Rightarrow> worker_event list \<Rightarrow> 'w pipeline \<Rightarrow> bool" where
  "queue_invariant cfg es pl \<longleftrightarrow>
     admitted es = concat (processed es) @ collected pl @ pl_channel pl
     \<and> length (pl_channel pl) \<le> ic_queue_capacity cfg
     \<and> (\<forall>b. pl_phase pl = Collecting b \<longrightarrow> b \<noteq> [] \<and> length b \<le> ic_batch_size cfg)
     \<and> (\<forall>b\<in>set (processed es). b \<noteq> [] \<and> length b \<le> ic_batch_size cfg)
     \<and> (pl_phase pl = Ended None \<longrightarrow> pl_channel pl = [])"

lemma pipeline_simps [simp]:
  "pl_channel (on_worker f pl) = pl_channel pl" "pl_phase (on_worker f pl) = pl_phase pl"
  "pl_senders (on_worker f pl) = pl_senders pl" "pl_worker (on_worker f pl) = f (pl_worker pl)"
  by (simp_all add: on_worker_def)

lemma push_item_simps [simp]:
  "pl_channel (push_item cfg i pl) = pl_channel pl @ [i]" "pl_phase (push_item cfg i pl) = pl_phase pl"
  by (simp_all add: push_item_def Let_def)

lemma collect_simps [simp]:
  "pl_channel (collect cfg batch channel pl) = drop (ic_batch_size cfg - length batch) channel"
  "pl_senders (collect cfg batch channel pl) = pl_senders pl"
  "pl_phase (collect cfg batch channel pl) = Collecting (batch @ take (ic_batch_size cfg - length batch) channel)"
  by (simp_all add: collect_def fill_batch_def Let_def)

lemma try_enqueue_cases:
  "try_enqueue cfg ep now msg pl = (Ok (), pl') \<longleftrightarrow>
     receiver_open pl \<and> length (pl_channel pl) < ic_queue_capacity cfg \<and> pl' = push_item cfg (live_item ep now msg) pl"
  "try_enqueue cfg ep now msg pl = (Err e, pl') \<Longrightarrow>
     pl_channel pl' = pl_channel pl \<and> pl_phase pl' = pl_phase pl \<and> ws_world (pl_worker pl') = ws_world (pl_worker pl)
     \<and> im_invalid (ws_metrics (pl_worker pl')) = im_invalid (ws_metrics (pl_worker pl))"
  by (auto simp: try_enqueue_def record_metric_drop_def split: if_splits)

lemma queue_step:
  assumes "worker_step P cfg ep pl new pl'" and "queue_invariant cfg es pl" and "1 \<le> ic_batch_size cfg"
  shows "queue_invariant cfg (es @ new) pl'"
  using assms
proof (induction rule: worker_step.induct)
  case (step_refuse pl now msg e pl')
  from try_enqueue_cases(2) [OF step_refuse(2)] step_refuse(3) show ?case
    by (simp add: queue_invariant_def collected_def)
next
  case (step_admit pl now msg pl')
  then show ?case by (auto simp: queue_invariant_def collected_def try_enqueue_cases(1) receiver_open_def)
next
  case (step_admit_spooled pl now f pl')
  then show ?case
    by (auto simp: queue_invariant_def collected_def enqueue_spooled_def receiver_open_def split: if_splits)
next
  case (step_receive pl i rest)
  then show ?case by (auto simp: queue_invariant_def collected_def)
next
  case (step_more pl b i rest)
  then show ?case by (auto simp: queue_invariant_def collected_def)
qed (auto simp: queue_invariant_def collected_def)

lemma queue_run:
  assumes "worker_run P cfg ep (pipeline_start wk) es pl" and "1 \<le> ic_batch_size cfg"
  shows "queue_invariant cfg es pl"
  using assms(1)
proof (induction rule: worker_run.induct)
  case run_start
  show ?case by (simp add: queue_invariant_def collected_def pipeline_start_def)
qed (use queue_step [OF _ _ assms(2)] in blast)

section \<open>The store follows the queue\<close>

definition stored_invariant ::
  "('w \<Rightarrow> envelope list) \<Rightarrow> (envelope \<Rightarrow> bool) \<Rightarrow> 'w worker_state \<Rightarrow> worker_event list \<Rightarrow> 'w pipeline \<Rightarrow> bool" where
  "stored_invariant stored bad wk0 es pl \<longleftrightarrow>
     (let msgs = map te_envelope (concat (processed es)); wk = pl_worker pl in
      stored (ws_world wk) = keep_all (filter (Not \<circ> bad) msgs) (stored (ws_world wk0))
      \<and> im_invalid (ws_metrics wk) = im_invalid (ws_metrics wk0) + word_of_nat (length (filter bad msgs))
      \<and> pl_phase pl \<noteq> Died \<and> (\<forall>k. pl_phase pl \<noteq> Ended (Some k)))"

lemma record_metrics_invalid [simp]:
  "im_invalid (record_enqueue c n m) = im_invalid m" "im_invalid (record_dequeue c n m) = im_invalid m"
  by (simp_all add: record_enqueue_def record_dequeue_def Let_def)

lemma worker_updates [simp]:
  "ws_world (start_batch b wk) = ws_world wk" "im_invalid (ws_metrics (start_batch b wk)) = im_invalid (ws_metrics wk)"
  "ws_world (finish_batch cfg ch wk) = ws_world wk"
  "im_invalid (ws_metrics (finish_batch cfg ch wk)) = im_invalid (ws_metrics wk)"
  "ws_world (pl_worker (push_item cfg i pl)) = ws_world (pl_worker pl)"
  "im_invalid (ws_metrics (pl_worker (push_item cfg i pl))) = im_invalid (ws_metrics (pl_worker pl))"
  "ws_world (pl_worker (collect cfg batch ch pl)) = ws_world (pl_worker pl)"
  "im_invalid (ws_metrics (pl_worker (collect cfg batch ch pl))) = im_invalid (ws_metrics (pl_worker pl))"
  by (simp_all add: start_batch_def finish_batch_def push_item_def collect_def Let_def fill_batch_def)

text \<open>Items that do not come from the spool stay so.\<close>

lemma live_admitted:
  assumes "queue_invariant cfg es pl" and "list_all (\<lambda>i. te_frame i = None) (admitted es)" and "pl_phase pl = Collecting b"
  shows "list_all (\<lambda>i. te_frame i = None) b"
  using assms by (auto simp: queue_invariant_def collected_def)

lemma stored_step:
  assumes step: "worker_step P cfg ep pl new pl'" and tr: "transactional P stored bad" and rc: "recovers P left"
    and inv: "stored_invariant stored bad wk0 es pl" and q: "queue_invariant cfg es pl"
    and live: "list_all (\<lambda>i. te_frame i = None) (admitted es)"
  shows "stored_invariant stored bad wk0 (es @ new) pl'"
proof -
  note gap = persist_overflow_gap_keeps [OF tr]
  have batch: "\<exists>wk'. process_batch P cfg ep b (start_batch b (pl_worker pl)) = Some (Ok (), wk')
      \<and> stored (ws_world wk') = keep_all (filter (Not \<circ> bad) (map te_envelope b)) (stored (ws_world (pl_worker pl)))
      \<and> im_invalid (ws_metrics wk') = im_invalid (ws_metrics (pl_worker pl))
          + word_of_nat (length (filter bad (map te_envelope b)))"
    if "pl_phase pl = Collecting b" for b
    using process_batch_bisects [OF tr rc live_admitted [OF q live that], of cfg ep "start_batch b (pl_worker pl)"]
    by simp
  show ?thesis
    using step inv
  proof cases
    case (step_admit now msg)
    with inv show ?thesis by (simp add: stored_invariant_def Let_def try_enqueue_cases(1))
  next
    case (step_refuse now msg e)
    with try_enqueue_cases(2) [OF step_refuse(3)] inv show ?thesis by (simp add: stored_invariant_def Let_def)
  next
    case (step_admit_spooled now f)
    with inv show ?thesis by (auto simp: stored_invariant_def Let_def enqueue_spooled_def split: if_splits)
  next
    case (step_process b wk)
    with batch [OF step_process(3)] inv show ?thesis by (simp add: stored_invariant_def Let_def)
  next
    case (step_fatal b k wk)
    with batch [OF step_fatal(3)] show ?thesis by simp
  next
    case (step_panic b wk)
    with batch [OF step_panic(3)] show ?thesis by simp
  qed (use inv gap in \<open>simp_all add: stored_invariant_def Let_def\<close>)
qed

lemma stored_run:
  assumes "worker_run P cfg ep (pipeline_start wk0) es pl" and "transactional P stored bad" and "recovers P left"
    and "1 \<le> ic_batch_size cfg"
  shows "list_all (\<lambda>i. te_frame i = None) (admitted es) \<Longrightarrow> stored_invariant stored bad wk0 es pl"
  using assms(1)
proof (induction rule: worker_run.induct)
  case run_start
  show ?case by (simp add: stored_invariant_def pipeline_start_def Let_def)
next
  case (run_step es pl new pl')
  then have live: "list_all (\<lambda>i. te_frame i = None) (admitted es)" by simp
  from stored_step [OF run_step.hyps(2) assms(2,3) run_step.IH [OF live] queue_run [OF run_step.hyps(1) assms(4)] live]
  show ?case .
qed

section \<open>Properties\<close>

text \<open>
  C35: whatever the producers do and however the timers of the worker fire, the messages it has
  admitted are, in their order, those of the batches it has processed, of the batch it collects and
  of its queue; the queue keeps within its capacity and every batch within its size.
\<close>

theorem worker_keeps_order:
  assumes "worker_run P cfg ep (pipeline_start wk) es pl" and "ingestion_config_valid cfg"
  shows "admitted es = concat (processed es) @ collected pl @ pl_channel pl
         \<and> length (pl_channel pl) \<le> ic_queue_capacity cfg
         \<and> (\<forall>b\<in>set (processed es). b \<noteq> [] \<and> length b \<le> ic_batch_size cfg)"
  using queue_run [OF assms(1)] assms(2) by (simp add: queue_invariant_def ingestion_config_valid_def)

text \<open>What a worker that has ended leaves, whatever ended it.\<close>

lemma ended_has_stored:
  assumes run: "worker_run P cfg ep (pipeline_start wk0) es pl" and n: "1 \<le> ic_batch_size cfg"
    and tr: "transactional P stored bad" and rc: "recovers P left"
    and live: "list_all (\<lambda>i. te_frame i = None) (admitted es)" and gone: "\<not> receiver_open pl"
  shows "pl_phase pl = Ended None
         \<and> stored (ws_world (pl_worker pl))
             = keep_all (filter (Not \<circ> bad) (map te_envelope (admitted es))) (stored (ws_world wk0))
         \<and> im_invalid (ws_metrics (pl_worker pl))
             = im_invalid (ws_metrics wk0) + word_of_nat (length (filter bad (map te_envelope (admitted es))))"
proof -
  note inv = stored_run [OF run tr rc n live]
  have e: "pl_phase pl = Ended None"
    using inv gone unfolding stored_invariant_def Let_def receiver_open_def
    by (auto split: worker_phase.splits)
  then have "admitted es = concat (processed es)"
    using queue_run [OF run n] by (simp add: queue_invariant_def collected_def)
  with inv e show ?thesis by (simp add: stored_invariant_def Let_def)
qed

text \<open>
  C11: a worker that has ended, with an atomic and idempotent store that recovers, has left in the
  store what it held before and, in the order of admission, the admitted messages the store does not
  refuse and whose delivery it did not yet hold, each once; it has counted exactly the refused
  ones as invalid. It neither panics nor stops with a fatal error on the way.
\<close>

theorem worker_stores_all_admitted:
  assumes "worker_run P cfg ep (pipeline_start wk0) es pl" and "ingestion_config_valid cfg"
    and "transactional P stored bad" and "recovers P left"
    and "list_all (\<lambda>i. te_frame i = None) (admitted es)" and "\<not> receiver_open pl"
  shows "pl_phase pl = Ended None
         \<and> stored (ws_world (pl_worker pl))
             = keep_all (filter (Not \<circ> bad) (map te_envelope (admitted es))) (stored (ws_world wk0))
         \<and> im_invalid (ws_metrics (pl_worker pl))
             = im_invalid (ws_metrics wk0) + word_of_nat (length (filter bad (map te_envelope (admitted es))))"
  by (rule ended_has_stored [OF assms(1) _ assms(3-6)]) (use assms(2) in \<open>simp add: ingestion_config_valid_def\<close>)

text \<open>What is left to do before the end.\<close>

definition drain_work :: "'w pipeline \<Rightarrow> nat" where
  "drain_work pl = 3 * length (pl_channel pl)
     + (case pl_phase pl of Collecting _ \<Rightarrow> 2 | Idle \<Rightarrow> 1 | _ \<Rightarrow> 0)"

lemma drain_step:
  assumes run: "worker_run P cfg ep (pipeline_start wk0) es pl" and n: "1 \<le> ic_batch_size cfg"
    and tr: "transactional P stored bad" and rc: "recovers P left"
    and live: "list_all (\<lambda>i. te_frame i = None) (admitted es)" and closed: "\<not> pl_senders pl"
    and phase: "pl_phase pl \<noteq> Ended None"
  shows "\<exists>new pl'. worker_step P cfg ep pl new pl' \<and> admitted new = [] \<and> \<not> pl_senders pl'
     \<and> (drain_work pl' < drain_work pl \<or> pl_phase pl' = Ended None)"
proof (cases "pl_phase pl")
  case Idle
  with closed show ?thesis by (fastforce intro: step_gap simp: drain_work_def)
next
  case Waiting
  show ?thesis
  proof (cases "pl_channel pl")
    case Nil
    from step_end [OF Waiting Nil closed] closed show ?thesis
      by (intro exI [where x = "[]"] exI conjI) (assumption | simp)+
  next
    case (Cons i rest)
    have "drain_work (collect cfg [i] rest pl) < drain_work pl"
      by (simp add: drain_work_def Waiting Cons)
    with closed show ?thesis
      by (intro exI [of _ "[]"] exI [of _ "collect cfg [i] rest pl"]) (simp add: step_receive [OF Waiting Cons])
  qed
next
  case (Collecting b)
  from process_batch_bisects [OF tr rc live_admitted [OF queue_run [OF run n] live Collecting]]
  obtain wk where p: "process_batch P cfg ep b (start_batch b (pl_worker pl)) = Some (Ok (), wk)" by blast
  show ?thesis
    by (intro exI conjI, rule step_process [OF Collecting p]) (simp_all add: drain_work_def Collecting closed)
next
  case (Ended k)
  with stored_run [OF run tr rc n live] phase show ?thesis
    by (cases k) (simp_all add: stored_invariant_def Let_def)
next
  case Died
  with stored_run [OF run tr rc n live] show ?thesis by (simp add: stored_invariant_def Let_def)
qed

lemma drains:
  assumes "worker_run P cfg ep (pipeline_start wk0) es pl" and "\<not> pl_senders pl"
    and n: "1 \<le> ic_batch_size cfg" and tr: "transactional P stored bad" and rc: "recovers P left"
    and "list_all (\<lambda>i. te_frame i = None) (admitted es)"
  shows "\<exists>fs pl'. worker_run P cfg ep (pipeline_start wk0) (es @ fs) pl' \<and> admitted fs = []
     \<and> pl_phase pl' = Ended None"
  using assms(1,2,6)
proof (induction "drain_work pl" arbitrary: es pl rule: less_induct)
  case less
  show ?case
  proof (cases "pl_phase pl = Ended None")
    case True
    with less.prems(1) show ?thesis by (intro exI [of _ "[]"] exI [of _ pl]) simp
  next
    case False
    from drain_step [OF less.prems(1) n tr rc less.prems(3,2) False] obtain new pl' where
      s: "worker_step P cfg ep pl new pl'" "admitted new = []" "\<not> pl_senders pl'"
        "drain_work pl' < drain_work pl \<or> pl_phase pl' = Ended None" by blast
    note run = run_step [OF less.prems(1) s(1)]
    show ?thesis
    proof (cases "pl_phase pl' = Ended None")
      case True
      with run s(2) show ?thesis by blast
    next
      case False
      with s(4) have "drain_work pl' < drain_work pl" by simp
      from less.hyps [OF this run s(3)] less.prems(3) s(2) obtain fs pl'' where
        "worker_run P cfg ep (pipeline_start wk0) ((es @ new) @ fs) pl''" "admitted fs = []" "pl_phase pl'' = Ended None"
        by auto
      with s(2) show ?thesis by (intro exI [of _ "new @ fs"] exI [of _ pl'']) simp
    qed
  qed
qed

text \<open>
  C36: a worker can always drain its queue: from every reachable state, once the producers have
  gone, there is a way to its end without a further admission, and at that end its queue is empty
  and the store holds every admitted message it does not refuse.
\<close>

theorem worker_can_drain:
  assumes "worker_run P cfg ep (pipeline_start wk0) es pl" and "ingestion_config_valid cfg"
    and "transactional P stored bad" and "recovers P left"
    and "list_all (\<lambda>i. te_frame i = None) (admitted es)"
  shows "\<exists>fs pl'. worker_run P cfg ep (pipeline_start wk0) (es @ fs) pl' \<and> admitted fs = []
         \<and> pl_phase pl' = Ended None \<and> pl_channel pl' = []
         \<and> stored (ws_world (pl_worker pl'))
             = keep_all (filter (Not \<circ> bad) (map te_envelope (admitted es))) (stored (ws_world wk0))"
proof -
  have n: "1 \<le> ic_batch_size cfg" using assms(2) by (simp add: ingestion_config_valid_def)
  have run: "worker_run P cfg ep (pipeline_start wk0) es (pl\<lparr>pl_senders := False\<rparr>)"
    using run_step [OF assms(1) step_close] by simp
  have "\<not> pl_senders (pl\<lparr>pl_senders := False\<rparr>)" by simp
  from drains [OF run this n assms(3-5)] obtain fs pl' where
    d: "worker_run P cfg ep (pipeline_start wk0) (es @ fs) pl'" "admitted fs = []" "pl_phase pl' = Ended None" by blast
  then have "stored (ws_world (pl_worker pl'))
      = keep_all (filter (Not \<circ> bad) (map te_envelope (admitted es))) (stored (ws_world wk0))"
    using ended_has_stored [OF d(1) n assms(3,4)] assms(5) by (simp add: receiver_open_def)
  with d queue_run [OF d(1) n] show ?thesis by (auto simp: queue_invariant_def)
qed

section \<open>Witnesses\<close>

text \<open>
  A store in memory that inserts what is absent, answers \<open>Duplicate\<close> for the rest and refuses
  a batch that holds a message of no conversation.
\<close>

fun sample_outcomes :: "envelope list \<Rightarrow> envelope list \<Rightarrow> ingest_message_outcome list" where
  "sample_outcomes [] held = []"
| "sample_outcomes (m # ms) held =
     (if envelope_idempotency_key m \<in> envelope_idempotency_key ` set held
      then Duplicate (SourceEventId (key_str (envelope_idempotency_key m)))
      else Accepted (SourceEventId (key_str (envelope_idempotency_key m))) None) # sample_outcomes ms (keep_new m held)"

definition astray :: "envelope \<Rightarrow> bool" where
  "astray m \<longleftrightarrow> conv_id (conversation m) = ''''"

definition sample_ports :: "envelope list ingestion_ports" where
  "sample_ports =
     \<lparr>ip_insert = \<lambda>ms w. if list_ex astray ms then (Inl (InvalidData ''no conversation''), w)
                          else (Inr (sample_outcomes ms w), keep_all ms w),
      ip_mark_uncertain = \<lambda>ep g w. (Inl Unavailable, w), ip_recall = None, ip_artifact = None,
      ip_uuid_v5 = id, ip_default_ttl = 0, ip_health_success = \<lambda>_ w. w, ip_health_failure = \<lambda>w. w,
      ip_checkpoint = None, ip_sleep = \<lambda>_ w. w, ip_unix_now = \<lambda>_. 0, ip_instant_now = \<lambda>_. 0\<rparr>"

definition sample_worker :: "envelope list worker_state" where
  "sample_worker =
     \<lparr>ws_world = [],
      ws_metrics = \<lparr>im_queue_capacity = 0, im_queue_depth = 0, im_in_flight = 0, im_high_watermark = 0,
        im_accepted = 0, im_duplicates = 0, im_invalid = 0, im_retries = 0, im_dropped = 0,
        im_batches_committed = 0, im_last_batch_size = 0, im_overflow_pending = 0, im_last_success_at = 0,
        im_last_failure_at = 0, im_enqueued = 0, im_committed = 0, im_latency_count = 0,
        im_latency_sum_ms = 0, im_latency_max_ms = 0, im_last_latency_ms = 0\<rparr>,
      ws_overflow = \<lparr>of_dropped = 0, of_gap_persisted = False\<rparr>\<rparr>"

lemma sample_outcomes_length [simp]: "length (sample_outcomes ms held) = length ms"
  by (induction ms held rule: sample_outcomes.induct) simp_all

lemma sample_transactional: "transactional sample_ports id astray" "recovers sample_ports (\<lambda>_. 0)"
  by (auto simp: transactional_def recovers_def sample_ports_def list_ex_iff filter_empty_conv split: if_splits)

lemma sample_config_valid: "ingestion_config_valid ingestion_config_default"
  by (simp add: ingestion_config_valid_def ingestion_config_default_def)

text \<open>One message delivered twice, and one the store refuses.\<close>

definition sample_item :: timestamped_envelope where
  "sample_item = live_item (ConnectionEpochId ''c'') 0 (sample_message None)"

definition refused_message :: envelope where
  "refused_message = (sample_message None)\<lparr>conversation := \<lparr>conv_kind = PrivateConversation, conv_id = ''''\<rparr>\<rparr>"

definition refused_item :: timestamped_envelope where
  "refused_item = live_item (ConnectionEpochId ''c'') 0 refused_message"

abbreviation sample_events :: "worker_event list" where
  "sample_events \<equiv> [Admitted sample_item, Admitted refused_item, Admitted sample_item]"

abbreviation sample_worker_run :: "worker_event list \<Rightarrow> envelope list pipeline \<Rightarrow> bool" where
  "sample_worker_run \<equiv> worker_run sample_ports ingestion_config_default (ConnectionEpochId ''c'')
     (pipeline_start sample_worker)"

lemma sample_admits:
  assumes "sample_worker_run es pl" "pl_phase pl = Idle" "pl_senders pl" "length (pl_channel pl) < 1024"
  shows "\<exists>pl'. sample_worker_run (es @ [Admitted (live_item (ConnectionEpochId ''c'') 0 msg)]) pl' \<and> pl_phase pl' = Idle
     \<and> pl_senders pl' \<and> length (pl_channel pl') = Suc (length (pl_channel pl))"
proof -
  let ?pl = "push_item ingestion_config_default (live_item (ConnectionEpochId ''c'') 0 msg) pl"
  have "try_enqueue ingestion_config_default (ConnectionEpochId ''c'') 0 msg pl = (Ok (), ?pl)"
    using assms by (simp add: try_enqueue_cases(1) receiver_open_def ingestion_config_default_def)
  from run_step [OF assms(1) step_admit [OF assms(3) this]] assms(2,3) show ?thesis
    by (intro exI [of _ ?pl]) (simp add: push_item_def Let_def)
qed

lemma sample_run: "\<exists>pl. sample_worker_run sample_events pl"
proof -
  let ?start = "pipeline_start sample_worker"
  have 0: "sample_worker_run [] ?start" "pl_phase ?start = Idle" "pl_senders ?start" "length (pl_channel ?start) = 0"
    by (simp_all add: run_start pipeline_start_def)
  from sample_admits [OF 0(1-3), of "sample_message None"] 0(4) obtain p1 where
    1: "sample_worker_run [Admitted sample_item] p1" "pl_phase p1 = Idle" "pl_senders p1" "length (pl_channel p1) = 1"
    by (auto simp: sample_item_def)
  from sample_admits [OF 1(1-3), of refused_message] 1(4) obtain p2 where
    2: "sample_worker_run [Admitted sample_item, Admitted refused_item] p2" "pl_phase p2 = Idle" "pl_senders p2"
      "length (pl_channel p2) = 2" by (auto simp: refused_item_def)
  from sample_admits [OF 2(1-3), of "sample_message None"] 2(4) show ?thesis by (auto simp: sample_item_def)
qed

lemma sample_live: "list_all (\<lambda>i. te_frame i = None) (admitted sample_events)"
  by (simp add: sample_item_def refused_item_def live_item_def)

text \<open>The store keeps one copy of the message delivered twice and nothing of the refused one.\<close>

lemma sample_kept:
  "keep_all (filter (Not \<circ> astray) (map te_envelope (admitted sample_events))) [] = [te_envelope sample_item]"
  "length (filter astray (map te_envelope (admitted sample_events))) = 1"
  by (simp_all add: sample_item_def refused_item_def live_item_def observed_in_def refused_message_def sample_message_def
      astray_def keep_all_def keep_new_def)

theorem worker_keeps_order_witness:
  "\<exists>pl. admitted sample_events = collected pl @ pl_channel (pl :: envelope list pipeline)
     \<and> length (pl_channel pl) \<le> 1024"
  using sample_run worker_keeps_order [OF _ sample_config_valid, of sample_ports _ sample_worker sample_events]
  by (fastforce simp: ingestion_config_default_def)

theorem worker_can_drain_witness:
  "\<exists>fs pl. sample_worker_run (sample_events @ fs) pl \<and> admitted fs = [] \<and> pl_phase pl = Ended None
     \<and> pl_channel pl = [] \<and> ws_world (pl_worker pl) = [te_envelope sample_item]"
proof -
  obtain pl where "sample_worker_run sample_events pl" using sample_run by blast
  from worker_can_drain [OF this sample_config_valid sample_transactional sample_live] show ?thesis
    by (simp only: id_apply sample_kept(1) sample_worker_def worker_state.simps)
qed

lemma sample_ended:
  "\<exists>fs pl. sample_worker_run (sample_events @ fs) pl \<and> admitted fs = [] \<and> pl_phase pl = Ended None"
proof -
  obtain pl where run: "sample_worker_run sample_events pl" using sample_run by blast
  have "sample_worker_run sample_events (pl\<lparr>pl_senders := False\<rparr>)" using run_step [OF run step_close] by simp
  from drains [OF this _ _ sample_transactional sample_live] show ?thesis
    by (auto simp: ingestion_config_default_def)
qed

theorem worker_stores_all_admitted_witness:
  "\<exists>pl :: envelope list pipeline. pl_phase pl = Ended None \<and> ws_world (pl_worker pl) = [te_envelope sample_item]
     \<and> im_invalid (ws_metrics (pl_worker pl)) = 1"
proof -
  obtain fs pl where run: "sample_worker_run (sample_events @ fs) pl" and e: "admitted fs = []" "pl_phase pl = Ended None"
    using sample_ended by blast
  have a: "admitted (sample_events @ fs) = admitted sample_events" using e(1) by simp
  have live: "list_all (\<lambda>i. te_frame i = None) (admitted (sample_events @ fs))" unfolding a by (rule sample_live)
  have "\<not> receiver_open pl" using e(2) by (simp add: receiver_open_def)
  from worker_stores_all_admitted [OF run sample_config_valid sample_transactional live this] e(2) show ?thesis
    unfolding a sample_kept by (auto simp: sample_worker_def sample_kept(1) simp del: admitted.simps filter.simps)
qed

end
