(* ===== verification/Spool_Runtime.thy ===== *)
theory Spool_Runtime
  imports Ingestion_Pipeline Message_Spool
begin

text \<open>
  The bridge between reader, message spool and store
  (\<open>qqbot-server/src/runtime/realtime_spool_runtime.rs\<close>): admission of messages, the writer thread,
  the checkpoint adapter of the ingestion worker, and the recovery before a connection is opened.
  The state is the spool together with the world of the store; the answers of the operating system
  in a call of the spool are read off that world.
\<close>

section \<open>Admission\<close>

datatype admission_error = AdmissionFull | AdmissionClosed | AdmissionInvalid

record admission_queue =
  aq_channel :: "spool_admission list"
  aq_capacity :: nat
  aq_open :: bool
  aq_epoch :: connection_epoch_id
  aq_fatals :: "spool_fatal_kind list"

definition send_fatal :: "spool_fatal_kind \<Rightarrow> admission_queue \<Rightarrow> admission_queue" where
  "send_fatal k aq = aq\<lparr>aq_fatals := aq_fatals aq @ [k]\<rparr>"

definition try_admit :: "string \<Rightarrow> envelope \<Rightarrow> (admission_queue, admission_error, unit) action" where
  "try_admit uuid msg aq =
     (case bind_r (map_err (\<lambda>_. AdmissionInvalid) (spool_admission_id_new uuid)) (\<lambda>i.
             map_err (\<lambda>_. AdmissionInvalid)
               (spool_admission_new i (aq_epoch aq) (observed_in (aq_epoch aq) msg))) of
        Ok adm \<Rightarrow>
          (if \<not> aq_open aq then (Err AdmissionClosed, send_fatal WriterStopped aq)
           else if length (aq_channel aq) < aq_capacity aq
           then (Ok (), aq\<lparr>aq_channel := aq_channel aq @ [adm]\<rparr>)
           else (Err AdmissionFull, send_fatal CapacityExhausted aq))
      | Err e \<Rightarrow> (Err e, aq)
      | Panic \<Rightarrow> (Panic, aq))"

section \<open>The writer\<close>

record writer_state =
  wt_spool :: spool_state
  wt_enqueued :: "recovered_frame list"
  wt_fatals :: "spool_fatal_kind list"
  wt_receipts :: u64

definition writer_fatal :: "spool_fatal_kind \<Rightarrow> spool_state \<Rightarrow> writer_state \<Rightarrow> writer_state" where
  "writer_fatal k st s =
     s\<lparr>wt_spool := st\<lparr>sst_telemetry := mark_fatal k (sst_telemetry st)\<rparr>,
       wt_fatals := wt_fatals s @ [k]\<rparr>"

text \<open>The loop over the admissions received until the channel closes: with each, the answers of the
  operating system and whether the ingestion queue still takes frames.\<close>

fun run_writer ::
  "spool_lib \<Rightarrow> message_spool \<Rightarrow> (spool_io \<times> bool \<times> spool_admission) list \<Rightarrow> writer_state \<Rightarrow> writer_state" where
  "run_writer lib sp [] s = s"
| "run_writer lib sp ((io, ingestion_open, adm) # rest) s =
     (case spool_append lib sp io adm (wt_spool s) of
        (Err e, st) \<Rightarrow> writer_fatal (failure_kind e) st s
      | (Panic, st) \<Rightarrow> s\<lparr>wt_spool := st\<rparr>
      | (Ok receipt, st) \<Rightarrow>
          if sr_admission receipt \<noteq> sa_id adm then writer_fatal RecoveryInvariantViolation st s
          else (case recovered_frame_new (sr_generation receipt) (sr_record receipt) (sa_epoch adm) (sa_message adm) of
              Ok f \<Rightarrow>
                if ingestion_open
                then run_writer lib sp rest
                       (s\<lparr>wt_spool := st, wt_enqueued := wt_enqueued s @ [f],
                         wt_receipts := saturating_add (wt_receipts s) 1\<rparr>)
                else writer_fatal WriterStopped st s
            | _ \<Rightarrow> writer_fatal RecoveryInvariantViolation st s))"

section \<open>Calls of the spool and of the store\<close>

text \<open>\<open>spawn_blocking\<close>: a panic of the call is reported as a stopped writer.\<close>

definition spool_port ::
  "('v \<Rightarrow> spool_io) \<Rightarrow> (spool_io \<Rightarrow> (spool_state, spool_failure, 'a) action) \<Rightarrow>
     (spool_state \<times> 'v, spool_fatal_kind, 'a) port" where
  "spool_port io_of act s =
     (case act (io_of (snd s)) (fst s) of
        (Ok a, st) \<Rightarrow> (Inr a, (st, snd s))
      | (Err e, st) \<Rightarrow> (Inl (failure_kind e), (st, snd s))
      | (Panic, st) \<Rightarrow> (Inl WriterStopped, (st, snd s)))"

definition checkpoint_adapter ::
  "spool_lib \<Rightarrow> message_spool \<Rightarrow> ('v \<Rightarrow> spool_io) \<Rightarrow> checkpoint_prefix \<Rightarrow>
     (spool_state \<times> 'v, spool_fatal_kind, unit) port" where
  "checkpoint_adapter lib sp io_of pre = spool_port io_of (\<lambda>io. advance_checkpoint lib sp io pre)"

definition on_store :: "('v, 'e, 'a) port \<Rightarrow> ('s \<times> 'v, 'e, 'a) port" where
  "on_store p s = (case p (snd s) of (r, v) \<Rightarrow> (r, (fst s, v)))"

text \<open>The ports of the worker of a durable connection.\<close>

definition spooled_ports ::
  "(checkpoint_prefix \<Rightarrow> ('s \<times> 'v, spool_fatal_kind, unit) port) \<Rightarrow> 'v ingestion_ports \<Rightarrow>
     ('s \<times> 'v) ingestion_ports" where
  "spooled_ports advance P =
     \<lparr>ip_insert = \<lambda>ms. on_store (ip_insert P ms),
      ip_mark_uncertain = \<lambda>ep g. on_store (ip_mark_uncertain P ep g),
      ip_recall = map_option (\<lambda>f k i. on_store (f k i)) (ip_recall P),
      ip_artifact = map_option (\<lambda>f a. on_store (f a)) (ip_artifact P),
      ip_uuid_v5 = ip_uuid_v5 P, ip_default_ttl = ip_default_ttl P,
      ip_health_success = \<lambda>t s. (fst s, ip_health_success P t (snd s)),
      ip_health_failure = \<lambda>s. (fst s, ip_health_failure P (snd s)),
      ip_checkpoint = Some advance,
      ip_sleep = \<lambda>d s. (fst s, ip_sleep P d (snd s)),
      ip_unix_now = \<lambda>s. ip_unix_now P (snd s), ip_instant_now = \<lambda>s. ip_instant_now P (snd s)\<rparr>"

section \<open>Recovery\<close>

record 'v recovery_ports =
  rv_ingestion :: "'v ingestion_ports"
  rv_claim :: "source_account_ref \<Rightarrow> ('v, inbound_event_store_error, claimed_epoch list) port"
  rv_renew :: "claimed_epoch \<Rightarrow> ('v, inbound_event_store_error, unit) port"
  rv_finish_connecting :: "claimed_epoch \<Rightarrow> ('v, inbound_event_store_error, unit) port"
  rv_finalize :: "claimed_epoch \<Rightarrow> ('v, inbound_event_store_error, ingestion_gap_id) port"

partial_function (option) claim_epochs ::
  "('v, inbound_event_store_error, claimed_epoch list) port \<Rightarrow> claimed_epoch list \<Rightarrow> 'v \<Rightarrow>
     ((spool_fatal_kind, claimed_epoch list) result \<times> 'v) option" where
  "claim_epochs claim claims v =
     (case claim v of (r, v') \<Rightarrow>
        (case r of
           Inl _ \<Rightarrow> Some (Err ReconciliationFailed, v')
         | Inr claimed \<Rightarrow>
             if claimed = [] then Some (Ok claims, v') else claim_epochs claim (claims @ claimed) v'))"

text \<open>\<open>call.await.map_err(|_| fatal)?\<close>\<close>

definition await :: "'f \<Rightarrow> ('s, 'e, 'a) port \<Rightarrow> ('s, 'f, 'a) action" where
  "await fatal p s = (case p s of (Inl _, t) \<Rightarrow> (Err fatal, t) | (Inr a, t) \<Rightarrow> (Ok a, t))"

definition await_spool :: "('s, 'e, 'a) port \<Rightarrow> ('s, 'e, 'a) action" where
  "await_spool p s = (case p s of (Inl e, t) \<Rightarrow> (Err e, t) | (Inr a, t) \<Rightarrow> (Ok a, t))"

definition epoch_claim :: "claimed_epoch list \<Rightarrow> recovered_frame \<Rightarrow> claimed_epoch option" where
  "epoch_claim claims f = find (\<lambda>c. le_epoch (ce_epoch c) = rf_epoch f) claims"

definition check_owned :: "source_account_ref \<Rightarrow> claimed_epoch list \<Rightarrow> recovered_frame list \<Rightarrow> (spool_fatal_kind, unit) result" where
  "check_owned account claims frames =
     all_ok (\<lambda>f. ensure (list_ex (\<lambda>c. le_epoch (ce_epoch c) = rf_epoch f \<and> le_account (ce_epoch c) = account) claims)
                  RecoveryInvariantViolation) frames"

definition check_plans :: "claimed_epoch list \<Rightarrow> recovered_frame list \<Rightarrow> (spool_fatal_kind, unit) result" where
  "check_plans claims frames =
     all_ok (\<lambda>c. case recovery_plan_for c (filter (\<lambda>f. rf_epoch f = le_epoch (ce_epoch c)) frames) of
                    PlanFailClosed _ \<Rightarrow> Err RecoveryInvariantViolation
                  | _ \<Rightarrow> Ok ()) claims"

text \<open>One frame: renew the lease, store the message, run its hooks, checkpoint it.\<close>

definition replay_frame ::
  "(checkpoint_prefix \<Rightarrow> ('s \<times> 'v, spool_fatal_kind, unit) port) \<Rightarrow> 'v recovery_ports \<Rightarrow> claimed_epoch list \<Rightarrow>
     recovered_frame \<Rightarrow> ('s \<times> 'v, spool_fatal_kind, unit) action" where
  "replay_frame advance R claims f =
     (let P = rv_ingestion R in
      seq (lift_r (ok_or (epoch_claim claims f) RecoveryInvariantViolation)) (\<lambda>claim.
      seq (await ReconciliationFailed (on_store (rv_renew R claim))) (\<lambda>_.
      seq (await ReconciliationFailed (on_store (ip_insert P [rf_message f]))) (\<lambda>outs.
      seq (lift_r (case outs of [] \<Rightarrow> Err RecoveryInvariantViolation | out # _ \<Rightarrow> Ok out)) (\<lambda>out.
      seq (lift_r (required_hook_keys (ip_uuid_v5 P) (rf_message f) out (ip_recall P \<noteq> None) (ip_artifact P \<noteq> None))) (\<lambda>hooks.
      seq (await ReconciliationFailed (on_store (fire_post_hooks P out (rf_message f)))) (\<lambda>_.
        await_spool (advance (checkpointable_prefix (rf_generation f) [converged_entry f hooks out])))))))))"

primrec replay_frames ::
  "(checkpoint_prefix \<Rightarrow> ('s \<times> 'v, spool_fatal_kind, unit) port) \<Rightarrow> 'v recovery_ports \<Rightarrow> claimed_epoch list \<Rightarrow>
     recovered_frame list \<Rightarrow> ('s \<times> 'v, spool_fatal_kind, unit) action" where
  "replay_frames advance R claims [] = give ()"
| "replay_frames advance R claims (f # fs) =
     seq (replay_frame advance R claims f) (\<lambda>_. replay_frames advance R claims fs)"

definition finish_epoch ::
  "'v recovery_ports \<Rightarrow> claimed_epoch \<Rightarrow> ('s \<times> 'v, spool_fatal_kind, unit) action" where
  "finish_epoch R claim =
     seq (await ReconciliationFailed (on_store (rv_renew R claim))) (\<lambda>_.
       (case le_status (ce_epoch claim) of
          Connecting \<Rightarrow> await ReconciliationFailed (on_store (rv_finish_connecting R claim))
        | Connected \<Rightarrow> seq (await ReconciliationFailed (on_store (rv_finalize R claim))) (\<lambda>_. give ())
        | _ \<Rightarrow> lift_r (Err RecoveryInvariantViolation)))"

primrec finish_epochs ::
  "'v recovery_ports \<Rightarrow> claimed_epoch list \<Rightarrow> ('s \<times> 'v, spool_fatal_kind, unit) action" where
  "finish_epochs R [] = give ()"
| "finish_epochs R (c # cs) = seq (finish_epoch R c) (\<lambda>_. finish_epochs R cs)"

definition recover_claimed ::
  "(checkpoint_prefix \<Rightarrow> ('s \<times> 'v, spool_fatal_kind, unit) port) \<Rightarrow> 'v recovery_ports \<Rightarrow> source_account_ref \<Rightarrow>
     recovered_frame list \<Rightarrow> claimed_epoch list \<Rightarrow> ('s \<times> 'v, spool_fatal_kind, unit) action" where
  "recover_claimed advance R account frames claims =
     seq (lift_r (check_owned account claims frames)) (\<lambda>_.
     seq (lift_r (check_plans claims frames)) (\<lambda>_.
     seq (replay_frames advance R claims frames) (\<lambda>_.
       finish_epochs R claims)))"

definition recover_inner ::
  "spool_lib \<Rightarrow> message_spool \<Rightarrow> ('v \<Rightarrow> spool_io) \<Rightarrow> 'v recovery_ports \<Rightarrow> source_account_ref \<Rightarrow>
     spool_state \<times> 'v \<Rightarrow> ((spool_fatal_kind, unit) result \<times> (spool_state \<times> 'v)) option" where
  "recover_inner lib sp io_of R account s =
     (case spool_port io_of (recover_pending lib sp) s of
        (Inl k, s1) \<Rightarrow> Some (Err k, s1)
      | (Inr frames, s1) \<Rightarrow>
          Option.bind (claim_epochs (rv_claim R account) [] (snd s1)) (\<lambda>(r, v).
            case r of
              Ok claims \<Rightarrow> Some (recover_claimed (checkpoint_adapter lib sp io_of) R account frames claims (fst s1, v))
            | Err k \<Rightarrow> Some (Err k, (fst s1, v))
            | Panic \<Rightarrow> Some (Panic, (fst s1, v))))"

definition set_telemetry :: "(spool_telemetry \<Rightarrow> spool_telemetry) \<Rightarrow> spool_state \<times> 'v \<Rightarrow> spool_state \<times> 'v" where
  "set_telemetry f s = ((fst s)\<lparr>sst_telemetry := f (sst_telemetry (fst s))\<rparr>, snd s)"

definition recover_before_connect ::
  "spool_lib \<Rightarrow> message_spool \<Rightarrow> ('v \<Rightarrow> spool_io) \<Rightarrow> 'v recovery_ports \<Rightarrow> source_account_ref \<Rightarrow>
     spool_state \<times> 'v \<Rightarrow> ((spool_fatal_kind, unit) result \<times> (spool_state \<times> 'v)) option" where
  "recover_before_connect lib sp io_of R account s =
     Option.bind (recover_inner lib sp io_of R account (set_telemetry (set_reconciliation_pending True) s))
       (\<lambda>(r, s1).
         let s2 = set_telemetry (set_reconciliation_pending False) s1 in
         case r of
           Err k \<Rightarrow> Some (Err k, set_telemetry (mark_fatal k) s2)
         | _ \<Rightarrow> Some (r, s2))"

end
