(* ===== verification/Store_Delivery.thy ===== *)
theory Store_Delivery
  imports Spool_Runtime
begin

text \<open>
  What the store promises the worker and the recovery (\<open>delivery_laws\<close>), and what follows for a
  message: the insertion that succeeds at last stores it, the hooks that converge at last apply every
  required hook, and the frames of a converged batch are delivered.
\<close>

section \<open>What the store promises\<close>

datatype store_fact = MessageStored envelope | HookApplied spool_hook_key

definition grows :: "('v \<Rightarrow> store_fact \<Rightarrow> bool) \<Rightarrow> 'v \<Rightarrow> 'v \<Rightarrow> bool" where
  "grows facts v v' \<longleftrightarrow> (\<forall>x. facts v x \<longrightarrow> facts v' x)"

text \<open>
  A call that succeeds makes its facts true, and no call makes a fact false: what has been committed
  stays committed.
\<close>

definition makes :: "('v \<Rightarrow> store_fact \<Rightarrow> bool) \<Rightarrow> ('v, 'e, 'a) port \<Rightarrow> store_fact list \<Rightarrow> bool" where
  "makes facts p xs \<longleftrightarrow>
     (\<forall>v. grows facts v (snd (p v)) \<and> (\<not> isl (fst (p v)) \<longrightarrow> (\<forall>x\<in>set xs. facts (snd (p v)) x)))"

definition delivery_laws :: "'v ingestion_ports \<Rightarrow> ('v \<Rightarrow> store_fact \<Rightarrow> bool) \<Rightarrow> bool" where
  "delivery_laws P facts \<longleftrightarrow>
     (\<forall>ms. makes facts (ip_insert P ms) (map MessageStored ms))
     \<and> (\<forall>f k i. ip_recall P = Some f \<longrightarrow> makes facts (f k i) [HookApplied (RecallHook k)])
     \<and> (\<forall>f a. ip_artifact P = Some f \<longrightarrow> makes facts (f a) [HookApplied (ArtifactHook (artifact_str (ae_id a)))])
     \<and> (\<forall>t v. grows facts v (ip_health_success P t v)) \<and> (\<forall>v. grows facts v (ip_health_failure P v))
     \<and> (\<forall>d v. grows facts v (ip_sleep P d v))"

lemma makes_grows: "makes facts p xs \<Longrightarrow> p v = (r, v') \<Longrightarrow> grows facts v v'"
  unfolding makes_def by (metis snd_conv)

lemma makes_fact: "makes facts p xs \<Longrightarrow> p v = (Inr a, v') \<Longrightarrow> x \<in> set xs \<Longrightarrow> facts v' x"
  unfolding makes_def by (metis fst_conv snd_conv sum.disc(2))

lemma delivery_lawsD:
  assumes "delivery_laws P facts"
  shows "ip_insert P ms v = (r, v') \<Longrightarrow> grows facts v v'"
    and "ip_insert P ms v = (Inr outs, v') \<Longrightarrow> m \<in> set ms \<Longrightarrow> facts v' (MessageStored m)"
    and "ip_recall P = Some f \<Longrightarrow> f k i v = (q, v') \<Longrightarrow> grows facts v v'"
    and "ip_recall P = Some f \<Longrightarrow> f k i v = (Inr b, v') \<Longrightarrow> facts v' (HookApplied (RecallHook k))"
    and "ip_artifact P = Some g \<Longrightarrow> g a v = (p, v') \<Longrightarrow> grows facts v v'"
    and "ip_artifact P = Some g \<Longrightarrow> g a v = (Inr u, v') \<Longrightarrow> facts v' (HookApplied (ArtifactHook (artifact_str (ae_id a))))"
    and "grows facts v (ip_health_success P t v)" "grows facts v (ip_health_failure P v)" "grows facts v (ip_sleep P d v)"
proof -
  have i: "makes facts (ip_insert P ms) (map MessageStored ms)"
    and r: "ip_recall P = Some f \<Longrightarrow> makes facts (f k i) [HookApplied (RecallHook k)]"
    and a: "ip_artifact P = Some g \<Longrightarrow> makes facts (g a) [HookApplied (ArtifactHook (artifact_str (ae_id a)))]"
    using assms by (simp_all add: delivery_laws_def)
  show "ip_insert P ms v = (r, v') \<Longrightarrow> grows facts v v'" by (rule makes_grows [OF i])
  show "ip_insert P ms v = (Inr outs, v') \<Longrightarrow> m \<in> set ms \<Longrightarrow> facts v' (MessageStored m)"
    using makes_fact [OF i] by simp
  show "ip_recall P = Some f \<Longrightarrow> f k i v = (q, v') \<Longrightarrow> grows facts v v'" by (rule makes_grows [OF r])
  show "ip_recall P = Some f \<Longrightarrow> f k i v = (Inr b, v') \<Longrightarrow> facts v' (HookApplied (RecallHook k))"
    using makes_fact [OF r] by simp
  show "ip_artifact P = Some g \<Longrightarrow> g a v = (p, v') \<Longrightarrow> grows facts v v'" by (rule makes_grows [OF a])
  show "ip_artifact P = Some g \<Longrightarrow> g a v = (Inr u, v') \<Longrightarrow> facts v' (HookApplied (ArtifactHook (artifact_str (ae_id a))))"
    using makes_fact [OF a] by simp
qed (use assms in \<open>simp_all add: delivery_laws_def\<close>)

lemma grows_refl [simp]: "grows facts v v"
  by (simp add: grows_def)

lemma grows_trans [trans]: "grows facts u v \<Longrightarrow> grows facts v w \<Longrightarrow> grows facts u w"
  by (simp add: grows_def)

definition hooks_applied :: "('v \<Rightarrow> store_fact \<Rightarrow> bool) \<Rightarrow> 'v \<Rightarrow> spool_hook_key list \<Rightarrow> bool" where
  "hooks_applied facts v hooks \<longleftrightarrow> (\<forall>h\<in>set hooks. facts v (HookApplied h))"

lemma hooks_applied_grows: "hooks_applied facts v hooks \<Longrightarrow> grows facts v v' \<Longrightarrow> hooks_applied facts v' hooks"
  by (auto simp: hooks_applied_def grows_def)

text \<open>A frame is delivered: its message is stored and all hooks it needs have been applied.\<close>

definition delivered :: "'v ingestion_ports \<Rightarrow> ('v \<Rightarrow> store_fact \<Rightarrow> bool) \<Rightarrow> 'v \<Rightarrow> recovered_frame \<Rightarrow> bool" where
  "delivered P facts v f \<longleftrightarrow>
     facts v (MessageStored (rf_message f))
     \<and> (\<exists>out hooks. required_hook_keys (ip_uuid_v5 P) (rf_message f) out (ip_recall P \<noteq> None) (ip_artifact P \<noteq> None)
            = Ok hooks \<and> hooks_applied facts v hooks)"

lemma delivered_grows: "delivered P facts v f \<Longrightarrow> grows facts v v' \<Longrightarrow> delivered P facts v' f"
  unfolding delivered_def using hooks_applied_grows by (metis grows_def)

section \<open>Hooks\<close>

text \<open>The hooks that have to converge are the hooks that are fired.\<close>

lemma artifact_kind_source: "artifact_kind_of s = map_option fst (artifact_source s)"
  by (cases s) (simp_all add: artifact_kind_of_def artifact_source_def)

lemma describe_artifact_id [simp]: "ae_id (describe_artifact name description a) = ae_id a"
  by (simp add: describe_artifact_def Let_def)

lemma artifact_envelope_Normal:
  "\<exists>a. artifact_envelope_new i acc e conv k key Normal created ttl = Ok a \<and> ae_id a = i"
  by (simp add: artifact_envelope_new_def)

lemma create_artifacts_applies:
  assumes laws: "delivery_laws P facts" and create: "ip_artifact P = Some create"
  shows "create_artifacts create v5 msg e ttl n segs v = (r, v') \<Longrightarrow>
     grows facts v v' \<and> (r = Inr () \<longrightarrow> hooks_applied facts v'
        (concat (map (\<lambda>(ordinal, s). case artifact_kind_of s of
            None \<Rightarrow> [] | Some k \<Rightarrow> [artifact_hook v5 e ordinal k]) (enumerate n segs))))"
proof (induction segs arbitrary: n v)
  case Nil
  then show ?case by (simp add: hooks_applied_def)
next
  case (Cons s segs)
  show ?case
  proof (cases "artifact_source s")
    case None
    with Cons.prems have "create_artifacts create v5 msg e ttl (Suc n) segs v = (r, v')" by simp
    from Cons.IH [OF this] None show ?thesis by (simp add: artifact_kind_source)
  next
    case (Some x)
    then obtain k key name description where x: "artifact_source s = Some (k, key, name, description)"
      by (cases x) auto
    obtain a where a: "artifact_envelope_new (for_source_segment v5 e n k) (account_ref (source msg)) e (conversation msg)
        k key Normal (occurred_at msg) ttl = Ok a" "ae_id a = for_source_segment v5 e n k"
      using artifact_envelope_Normal by blast
    obtain q u where c: "create (describe_artifact name description a) v = (q, u)" by force
    note g = delivery_lawsD(5) [OF laws create c]
    show ?thesis
    proof (cases q)
      case (Inl err)
      with Cons.prems x a c g show ?thesis by auto
    next
      case (Inr y)
      with Cons.prems x a c have "create_artifacts create v5 msg e ttl (Suc n) segs u = (r, v')" by simp
      note IH = Cons.IH [OF this]
      have "facts u (HookApplied (artifact_hook v5 e n k))"
        using delivery_lawsD(6) [OF laws create c [unfolded Inr]] a(2) by (simp add: artifact_hook_def)
      with IH g have "grows facts v v'" "facts v' (HookApplied (artifact_hook v5 e n k))"
        by (auto simp: grows_def)
      with IH show ?thesis by (simp add: artifact_kind_source x hooks_applied_def)
    qed
  qed
qed

lemma fire_post_hooks_applies:
  assumes laws: "delivery_laws P facts" and run: "fire_post_hooks P out msg v = (r, v')"
  shows "grows facts v v'"
    and "r = Inr () \<Longrightarrow> required_hook_keys (ip_uuid_v5 P) msg out (ip_recall P \<noteq> None) (ip_artifact P \<noteq> None) = Ok hooks \<Longrightarrow>
      hooks_applied facts v' hooks"
proof -
  let ?i = "event_str (outcome_source_event_id out)"
  have recall: "grows facts v u \<and> (q = Inr () \<longrightarrow> (\<forall>k. recall_correlation_of msg = Ok k \<longrightarrow> ip_recall P \<noteq> None \<longrightarrow>
      facts u (HookApplied (RecallHook k))))"
    if "maybe_apply_pending_recall P msg ?i v = (q, u)" for q u
    using that delivery_lawsD(3,4) [OF laws]
    by (auto simp: maybe_apply_pending_recall_def split: option.splits result.splits prod.splits sum.splits)
  have artifact: "grows facts u w \<and> (q = Inr () \<longrightarrow> (\<forall>e. source_event_id_new ?i = Ok e \<longrightarrow> ip_artifact P \<noteq> None \<longrightarrow>
      hooks_applied facts w (artifact_hooks (ip_uuid_v5 P) e (segments msg))))"
    if "maybe_create_artifacts P msg ?i u = (q, w)" for q u w
    using that create_artifacts_applies [OF laws]
    by (auto simp: maybe_create_artifacts_def artifact_hooks_def split: option.splits result.splits)
  obtain q u where q: "maybe_apply_pending_recall P msg ?i v = (q, u)" by force
  show "grows facts v v'"
    using run q recall [OF q] artifact
    by (cases q) (auto simp: fire_post_hooks_def Let_def intro: grows_trans)
  assume r: "r = Inr ()"
    and keys: "required_hook_keys (ip_uuid_v5 P) msg out (ip_recall P \<noteq> None) (ip_artifact P \<noteq> None) = Ok hooks"
  have qu: "q = Inr ()" and w: "maybe_create_artifacts P msg ?i u = (Inr (), v')"
    using run q r by (cases q; simp add: fire_post_hooks_def Let_def)+
  from recall [OF q] artifact [OF w] qu have
    "\<And>k. recall_correlation_of msg = Ok k \<Longrightarrow> ip_recall P \<noteq> None \<Longrightarrow> facts v' (HookApplied (RecallHook k))"
    "\<And>e. source_event_id_new ?i = Ok e \<Longrightarrow> ip_artifact P \<noteq> None \<Longrightarrow>
       hooks_applied facts v' (artifact_hooks (ip_uuid_v5 P) e (segments msg))"
    by (auto simp: grows_def)
  with keys show "hooks_applied facts v' hooks"
    by (auto simp: required_hook_keys_def result_simps hooks_applied_def split: if_splits)
qed

section \<open>Ports over the spool and the store\<close>

lemma on_store_eq: "on_store p s = (r, t) \<longleftrightarrow> p (snd s) = (r, snd t) \<and> fst t = fst s"
  by (cases t) (auto simp: on_store_def split: prod.splits)

lemma create_artifacts_on_store:
  "create_artifacts (\<lambda>a. on_store (f a)) v5 msg e ttl n segs s = on_store (create_artifacts f v5 msg e ttl n segs) s"
  by (induction segs arbitrary: n s)
    (auto simp: on_store_def split: option.splits prod.splits result.splits sum.splits)

lemma fire_post_hooks_on_store:
  "fire_post_hooks (spooled_ports advance P) out msg s = on_store (fire_post_hooks P out msg) s"
  by (auto simp: fire_post_hooks_def maybe_apply_pending_recall_def maybe_create_artifacts_def spooled_ports_def
      on_store_def create_artifacts_on_store Let_def comp_def split: option.splits prod.splits result.splits sum.splits)

lemma spooled_ports_simps [simp]:
  "ip_uuid_v5 (spooled_ports advance P) = ip_uuid_v5 P"
  "ip_recall (spooled_ports advance P) = None \<longleftrightarrow> ip_recall P = None"
  "ip_artifact (spooled_ports advance P) = None \<longleftrightarrow> ip_artifact P = None"
  "ip_insert (spooled_ports advance P) ms = on_store (ip_insert P ms)"
  by (simp_all add: spooled_ports_def)

text \<open>Only the store is touched, and its facts grow.\<close>

definition only_store :: "('v \<Rightarrow> store_fact \<Rightarrow> bool) \<Rightarrow> 's \<times> 'v \<Rightarrow> 's \<times> 'v \<Rightarrow> bool" where
  "only_store facts s t \<longleftrightarrow> fst t = fst s \<and> grows facts (snd s) (snd t)"

lemma only_store_refl [simp]: "only_store facts s s"
  by (simp add: only_store_def)

lemma only_store_trans [trans]: "only_store facts s t \<Longrightarrow> only_store facts t u \<Longrightarrow> only_store facts s u"
  by (auto simp: only_store_def intro: grows_trans)

lemma note_retry_only_store:
  assumes "delivery_laws P facts"
  shows "only_store facts (ws_world wk) (ws_world (note_retry (spooled_ports advance P) d wk))"
  using delivery_lawsD(8,9) [OF assms] by (auto simp: only_store_def spooled_ports_def intro: grows_trans)

lemma report_success_only_store:
  assumes "delivery_laws P facts"
  shows "only_store facts (ws_world wk) (ws_world (report_success (spooled_ports advance P) wk))"
  using delivery_lawsD(7) [OF assms] by (auto simp: only_store_def spooled_ports_def)

lemma insert_retrying_stores:
  assumes laws: "delivery_laws P facts"
    and run: "insert_retrying (spooled_ports advance P) mx msgs d wk = Some (r, d', wk')"
  shows "only_store facts (ws_world wk) (ws_world wk')"
    and "r = Inr outs \<Longrightarrow> m \<in> set msgs \<Longrightarrow> facts (snd (ws_world wk')) (MessageStored m)"
proof -
  have keep: "only_store facts w0 w" if "only_store facts w0 u" "on_store (ip_insert P msgs) u = (q, w)" for w0 u q w
    using that delivery_lawsD(1) [OF laws] by (auto simp: on_store_eq only_store_def intro: grows_trans)
  have "\<exists>wk1 w. only_store facts (ws_world wk) (ws_world wk1) \<and> wk' = wk1\<lparr>ws_world := w\<rparr>
      \<and> ip_insert (spooled_ports advance P) msgs (ws_world wk1) = (map_sum InvalidData id r, w)"
  proof (rule insert_retrying_last [OF run])
    fix wk1 :: "_ worker_state" and e w d
    assume "only_store facts (ws_world wk) (ws_world wk1)" "ip_insert (spooled_ports advance P) msgs (ws_world wk1) = (Inl e, w)"
    with keep have "only_store facts (ws_world wk) (ws_world (wk1\<lparr>ws_world := w\<rparr>))" by simp
    then show "only_store facts (ws_world wk) (ws_world (note_retry (spooled_ports advance P) d (wk1\<lparr>ws_world := w\<rparr>)))"
      using note_retry_only_store [OF laws] by (rule only_store_trans)
  qed simp
  then obtain wk1 w where w: "only_store facts (ws_world wk) (ws_world wk1)" "wk' = wk1\<lparr>ws_world := w\<rparr>"
    "on_store (ip_insert P msgs) (ws_world wk1) = (map_sum InvalidData id r, w)"
    unfolding spooled_ports_simps by blast
  show "only_store facts (ws_world wk) (ws_world wk')" using keep [OF w(1,3)] w(2) by simp
  show "r = Inr outs \<Longrightarrow> m \<in> set msgs \<Longrightarrow> facts (snd (ws_world wk')) (MessageStored m)"
    using delivery_lawsD(2) [OF laws] w(2,3) by (auto simp: on_store_eq)
qed

lemma hooks_retrying_applies:
  assumes laws: "delivery_laws P facts"
    and run: "hooks_retrying (spooled_ports advance P) mx out msg d wk = Some wk'"
  shows "only_store facts (ws_world wk) (ws_world wk')"
    and "required_hook_keys (ip_uuid_v5 P) msg out (ip_recall P \<noteq> None) (ip_artifact P \<noteq> None) = Ok hooks \<Longrightarrow>
      hooks_applied facts (snd (ws_world wk')) hooks"
proof -
  have keep: "only_store facts w0 w" if "only_store facts w0 u" "on_store (fire_post_hooks P out msg) u = (q, w)" for w0 u q w
    using that fire_post_hooks_applies(1) [OF laws] by (auto simp: on_store_eq only_store_def intro: grows_trans)
  have "\<exists>wk1 w. only_store facts (ws_world wk) (ws_world wk1) \<and> wk' = wk1\<lparr>ws_world := w\<rparr>
      \<and> fire_post_hooks (spooled_ports advance P) out msg (ws_world wk1) = (Inr (), w)"
  proof (rule hooks_retrying_last [OF run])
    fix wk1 :: "_ worker_state" and w d
    assume "only_store facts (ws_world wk) (ws_world wk1)"
      "fire_post_hooks (spooled_ports advance P) out msg (ws_world wk1) = (Inl (), w)"
    with keep have "only_store facts (ws_world wk) (ws_world (wk1\<lparr>ws_world := w\<rparr>))"
      by (simp add: fire_post_hooks_on_store)
    then show "only_store facts (ws_world wk) (ws_world (note_retry (spooled_ports advance P) d (wk1\<lparr>ws_world := w\<rparr>)))"
      using note_retry_only_store [OF laws] by (rule only_store_trans)
  qed simp
  then obtain wk1 w where w: "only_store facts (ws_world wk) (ws_world wk1)" "wk' = wk1\<lparr>ws_world := w\<rparr>"
    "on_store (fire_post_hooks P out msg) (ws_world wk1) = (Inr (), w)"
    unfolding fire_post_hooks_on_store by blast
  show "only_store facts (ws_world wk) (ws_world wk')" using keep [OF w(1,3)] w(2) by simp
  show "required_hook_keys (ip_uuid_v5 P) msg out (ip_recall P \<noteq> None) (ip_artifact P \<noteq> None) = Ok hooks \<Longrightarrow>
      hooks_applied facts (snd (ws_world wk')) hooks"
    using fire_post_hooks_applies(2) [OF laws] w(2,3) by (auto simp: on_store_eq)
qed

section \<open>Progress of a batch\<close>

lemma converged_entry_frame [simp]: "rp_frame (converged_entry f hooks out) = f"
proof -
  have "rp_frame (fold with_converged_hook hooks p) = rp_frame p" for p
    by (induction hooks arbitrary: p) (simp_all add: with_converged_hook_def)
  then show ?thesis by (simp add: converged_entry_def with_ingestion_def replay_pending_def)
qed

lemma converge_items_delivers:
  assumes laws: "delivery_laws P facts"
  shows "converge_items (spooled_ports advance P) cfg xs wk = Some (r, wk') \<Longrightarrow>
      \<forall>(i, out)\<in>set xs. facts (snd (ws_world wk)) (MessageStored (te_envelope i))
        \<and> (\<forall>f. te_frame i = Some f \<longrightarrow> te_envelope i = rf_message f) \<Longrightarrow>
      only_store facts (ws_world wk) (ws_world wk')
      \<and> (\<forall>ps. r = Ok ps \<longrightarrow> (\<forall>p\<in>set ps. delivered P facts (snd (ws_world wk')) (rp_frame p)
           \<and> rp_frame p \<in> (the \<circ> te_frame \<circ> fst) ` set xs))"
proof (induction xs arbitrary: wk r wk')
  case Nil
  then show ?case by auto
next
  case (Cons x xs)
  obtain i out where x: "x = (i, out)" by force
  let ?keys = "required_hook_keys (ip_uuid_v5 P) (te_envelope i) out (ip_recall P \<noteq> None) (ip_artifact P \<noteq> None)"
  show ?case
  proof (cases ?keys)
    case (Ok hooks)
    with Cons.prems(1) obtain wk1 where h: "hooks_retrying (spooled_ports advance P) (ic_retry_max_ms cfg) out (te_envelope i)
        (ic_retry_initial_ms cfg) wk = Some wk1"
      by (auto simp: x split: Option.bind_splits)
    note one = hooks_retrying_applies [OF laws h]
    show ?thesis
    proof (cases "te_frame i")
      case None
      with Cons.prems(1) Ok h one(1) show ?thesis by (auto simp: x)
    next
      case (Some f)
      with Cons.prems(1) Ok h obtain q wk2 where rest: "converge_items (spooled_ports advance P) cfg xs wk1 = Some (q, wk2)"
        and r: "r = bind_r q (\<lambda>ps. Ok (converged_entry f hooks out # ps))" "wk' = wk2"
        by (auto simp: x split: Option.bind_splits)
      have "\<forall>(i, out)\<in>set xs. facts (snd (ws_world wk1)) (MessageStored (te_envelope i))
        \<and> (\<forall>f. te_frame i = Some f \<longrightarrow> te_envelope i = rf_message f)"
        using Cons.prems(2) one(1) by (auto simp: only_store_def grows_def)
      note IH = Cons.IH [OF rest this]
      have "delivered P facts (snd (ws_world wk1)) f"
        using Cons.prems(2) one(1) one(2) [OF Ok] Ok Some x
        unfolding delivered_def by (auto simp: only_store_def grows_def)
      then have "delivered P facts (snd (ws_world wk2)) f"
        using IH delivered_grows by (auto simp: only_store_def)
      with IH one(1) show ?thesis
        using only_store_trans [OF one(1)] by (auto simp: r result_simps x Some)
    qed
  qed (use Cons.prems in \<open>auto simp: x\<close>)
qed

end
