(* ===== verification/Spool_Delivery.thy ===== *)
theory Spool_Delivery
  imports Store_Delivery
begin

text \<open>
  Delivery from a durable log to the store: the contract of the log is the locale \<open>durable_log\<close>.
  A batch of the worker and a recovery drop from the log only frames that the store has taken and
  whose hooks have converged.
\<close>

section \<open>Frames that leave the log\<close>

definition settled ::
  "'v ingestion_ports \<Rightarrow> ('v \<Rightarrow> store_fact \<Rightarrow> bool) \<Rightarrow> 'v \<Rightarrow> recovered_frame list \<Rightarrow> recovered_frame list \<Rightarrow> bool" where
  "settled P facts v q q' \<longleftrightarrow> (\<exists>n. q' = drop n q \<and> (\<forall>f\<in>set (take n q). delivered P facts v f))"

lemma settled_refl [simp]: "settled P facts v q q"
  unfolding settled_def by (rule exI [of _ 0]) simp

lemma settled_grows: "settled P facts v q q' \<Longrightarrow> grows facts v v' \<Longrightarrow> settled P facts v' q q'"
  unfolding settled_def by (metis delivered_grows)

lemma settled_Cons: "settled P facts v fs q' \<Longrightarrow> delivered P facts v f \<Longrightarrow> settled P facts v (f # fs) q'"
  unfolding settled_def by (metis drop_Suc_Cons list.set_cases set_ConsD take_Suc_Cons)

lemma settled_in: "settled P facts v q q' \<Longrightarrow> f \<in> set q \<Longrightarrow> f \<in> set q' \<or> delivered P facts v f"
  unfolding settled_def by (metis Un_iff append_take_drop_id set_append)

definition same_record_same_frame :: "recovered_frame list \<Rightarrow> recovered_frame list \<Rightarrow> bool" where
  "same_record_same_frame fs q \<longleftrightarrow> (\<forall>f\<in>set fs. \<forall>g\<in>set q. rf_record f = rf_record g \<longrightarrow> f = g)"

lemma prefix_frames:
  "prefix (map rf_record fs) (map rf_record q) \<Longrightarrow> same_record_same_frame fs q \<Longrightarrow> take (length fs) q = fs"
proof (induction fs arbitrary: q)
  case (Cons f fs)
  then obtain g gs where q: "q = g # gs" by (cases q) auto
  with Cons.prems have "f = g" "prefix (map rf_record fs) (map rf_record gs)" "same_record_same_frame fs gs"
    by (auto simp: same_record_same_frame_def)
  with Cons.IH show ?case by (simp add: q)
qed simp

lemma prefix_settles:
  assumes "prefix (map rf_record fs) (map rf_record q)" and "same_record_same_frame fs q"
    and "\<forall>f\<in>set fs. delivered P facts v f"
  shows "settled P facts v q (drop (length fs) q)"
  using assms(3) unfolding settled_def by (intro exI [of _ "length fs"]) (simp add: prefix_frames [OF assms(1,2)])

section \<open>What the log promises\<close>

text \<open>
  A log holds a queue of frames; a checkpoint that succeeds drops a prefix of it, and when the
  machine crashes and the log is opened again it has dropped that prefix or nothing.
\<close>

locale durable_log =
  fixes holds :: "'s \<Rightarrow> recovered_frame list \<Rightarrow> bool"
    and reopens :: "'s \<Rightarrow> 's \<Rightarrow> bool"
    and advance :: "checkpoint_prefix \<Rightarrow> ('s \<times> 'v, spool_fatal_kind, unit) port"
  assumes advance_store: "snd (snd (advance pre s)) = snd s"
    and advance_drops: "holds (fst s) q \<Longrightarrow> advance pre s = (Inr u, t) \<Longrightarrow>
      prefix (pre_records pre) (map rf_record q) \<and> holds (fst t) (drop (length (pre_records pre)) q)"
    and advance_crash: "holds (fst s) q \<Longrightarrow> advance pre s = (r, t) \<Longrightarrow> reopens (fst t) z \<Longrightarrow>
      holds z q \<or> prefix (pre_records pre) (map rf_record q) \<and> holds z (drop (length (pre_records pre)) q)"
    and reopens_holds: "holds z q \<Longrightarrow> reopens z z' \<Longrightarrow> holds z' q"
begin

text \<open>A checkpoint of delivered frames.\<close>

lemma advance_settles:
  assumes q: "holds (fst s) q" and run: "advance pre s = (r, t)"
    and pre: "pre_records pre = map rf_record fs" "same_record_same_frame fs q" "\<forall>f\<in>set fs. delivered P facts (snd s) f"
  shows "snd t = snd s"
    and "r = Inr u \<Longrightarrow> holds (fst t) (drop (length fs) q) \<and> settled P facts (snd s) q (drop (length fs) q)"
    and "reopens (fst t) z \<Longrightarrow> \<exists>q'. holds z q' \<and> settled P facts (snd s) q q'"
proof -
  show "snd t = snd s" using advance_store [of pre s] run by simp
  have settles: "settled P facts (snd s) q (drop (length fs) q)" if "prefix (pre_records pre) (map rf_record q)"
    using prefix_settles that pre by metis
  show "r = Inr u \<Longrightarrow> holds (fst t) (drop (length fs) q) \<and> settled P facts (snd s) q (drop (length fs) q)"
    using advance_drops [OF q, of pre u t] run settles by (simp add: pre(1))
  show "reopens (fst t) z \<Longrightarrow> \<exists>q'. holds z q' \<and> settled P facts (snd s) q q'"
    using advance_crash [OF q run] settles by (metis length_map pre(1) settled_refl)
qed

lemma only_store_crash:
  "holds (fst s) q \<Longrightarrow> only_store facts s t \<Longrightarrow> reopens (fst t) z \<Longrightarrow> \<exists>q'. holds z q' \<and> settled P facts (snd t) q q'"
  using reopens_holds settled_refl by (metis only_store_def)

lemma batch_settles:
  assumes laws: "delivery_laws P facts" and q: "holds (fst (ws_world wk)) q"
    and items: "\<forall>i\<in>set batch. \<exists>f. te_frame i = Some f \<and> te_envelope i = rf_message f"
    and same: "same_record_same_frame (map (the \<circ> te_frame) batch) q"
    and run: "process_spooled_batch (spooled_ports advance P) cfg batch advance wk = Some (r, wk')"
  shows "grows facts (snd (ws_world wk)) (snd (ws_world wk'))
     \<and> (r = Ok () \<longrightarrow> (\<exists>q'. holds (fst (ws_world wk')) q' \<and> settled P facts (snd (ws_world wk')) q q'))
     \<and> (reopens (fst (ws_world wk')) z \<longrightarrow> (\<exists>q'. holds z q' \<and> settled P facts (snd (ws_world wk')) q q'))"
proof -
  let ?P = "spooled_ports advance P"
  have before: ?thesis if "only_store facts (ws_world wk) (ws_world wk')" "r \<noteq> Ok ()"
    using that only_store_crash [OF q that(1), of z P] by (auto simp: only_store_def)
  from run obtain x d wk1 where i: "insert_retrying ?P (ic_retry_max_ms cfg) (map te_envelope batch)
      (ic_retry_initial_ms cfg) wk = Some (x, d, wk1)"
    unfolding process_spooled_batch_def by (auto split: Option.bind_splits)
  note ins = insert_retrying_stores [OF laws i]
  show ?thesis
  proof (cases x)
    case (Inl e)
    with run i have "r = Err RecoveryInvariantViolation" "ws_world wk' = ws_world wk1"
      by (auto simp: process_spooled_batch_def)
    with ins(1) before show ?thesis by simp
  next
    case (Inr outs)
    let ?wk1 = "note_committed ?P (map te_enqueued_at batch) wk1"
    from run i Inr obtain y wk2 where c: "converge_items ?P cfg (zip batch outs) ?wk1 = Some (y, wk2)"
      and rest: "(case y of Ok progress \<Rightarrow> Some (checkpoint_batch ?P advance (length batch) outs progress wk2)
          | Err k \<Rightarrow> Some (Err k, wk2) | Panic \<Rightarrow> Some (Panic, wk2)) = Some (r, wk')"
      by (auto simp: process_spooled_batch_def split: Option.bind_splits)
    have "\<forall>(i, out)\<in>set (zip batch outs). facts (snd (ws_world ?wk1)) (MessageStored (te_envelope i))
        \<and> (\<forall>f. te_frame i = Some f \<longrightarrow> te_envelope i = rf_message f)"
      using ins(2) [OF Inr] items by (fastforce dest: set_zip_leftD)
    note conv = converge_items_delivers [OF laws c this]
    have two: "only_store facts (ws_world wk) (ws_world wk2)"
      using only_store_trans [OF ins(1)] conv by simp
    show ?thesis
    proof (cases y)
      case (Ok ps)
      show ?thesis
      proof (cases ps)
        case Nil
        with rest Ok have "r = Err RecoveryInvariantViolation" "wk' = wk2" by (simp_all add: checkpoint_batch_def)
        with two before show ?thesis by simp
      next
        case (Cons p ps')
        let ?pre = "checkpointable_prefix (rf_generation (rp_frame p)) ps"
        let ?fs = "map rp_frame (take (length (pre_records ?pre)) ps)"
        obtain a t where a: "advance ?pre (ws_world wk2) = (a, t)" by (metis prod.exhaust)
        have q2: "holds (fst (ws_world wk2)) q" using q two by (simp add: only_store_def)
        have recs: "pre_records ?pre = map rf_record ?fs"
          using prefix_records [of "rf_generation (rp_frame p)" ps] by (simp add: comp_def)
        have fs: "f \<in> (the \<circ> te_frame) ` set batch \<and> delivered P facts (snd (ws_world wk2)) f" if "f \<in> set ?fs" for f
          using that conv Ok by (fastforce dest: in_set_takeD set_zip_leftD)
        then have same': "same_record_same_frame ?fs q" using same unfolding same_record_same_frame_def
          by (metis list.set_map)
        have del: "\<forall>f\<in>set ?fs. delivered P facts (snd (ws_world wk2)) f" using fs by blast
        note adv = advance_settles [OF q2 a recs same' del]
        have w: "fst (ws_world wk') = fst t" "grows facts (snd (ws_world wk2)) (snd (ws_world wk'))"
          using rest Ok Cons a adv(1) delivery_lawsD(7) [OF laws]
          by (auto simp: checkpoint_batch_def spooled_ports_def split: sum.splits)
        have ok: "\<exists>u. a = Inr u" if "r = Ok ()"
          using that rest Ok Cons a by (auto simp: checkpoint_batch_def split: sum.splits)
        have "grows facts (snd (ws_world wk)) (snd (ws_world wk'))"
          using two w(2) grows_trans by (auto simp: only_store_def)
        moreover have "\<exists>q'. holds (fst (ws_world wk')) q' \<and> settled P facts (snd (ws_world wk')) q q'" if "r = Ok ()"
          using ok [OF that] adv(2) w settled_grows by metis
        moreover have "\<exists>q'. holds z q' \<and> settled P facts (snd (ws_world wk')) q q'" if "reopens (fst (ws_world wk')) z"
          using adv(3) that w settled_grows by metis
        ultimately show ?thesis by blast
      qed
    qed (use rest two before in auto)
  qed
qed

end

end
