(* ===== verification/Recovery_Delivery.thy ===== *)
theory Recovery_Delivery
  imports Spool_Delivery
begin

text \<open>
  The recovery before a connection is opened, over any log that keeps the contract
  \<open>durable_log\<close>: frames are delivered one by one, each before its checkpoint, so that a recovery that
  succeeds leaves an empty log behind, and one that fails, or after which the machine crashes,
  leaves every frame that has not been delivered.
\<close>

section \<open>Steps that only touch the store\<close>

definition store_only :: "('v \<Rightarrow> store_fact \<Rightarrow> bool) \<Rightarrow> ('s \<times> 'v, 'e, 'a) action \<Rightarrow> bool" where
  "store_only facts m \<longleftrightarrow> (\<forall>s. only_store facts s (snd (m s)))"

lemma store_onlyD: "store_only facts m \<Longrightarrow> m s = (r, t) \<Longrightarrow> only_store facts s t"
  unfolding store_only_def by (metis snd_conv)

lemma store_onlyI: "(\<And>s r t. m s = (r, t) \<Longrightarrow> only_store facts s t) \<Longrightarrow> store_only facts m"
  unfolding store_only_def by (metis prod.collapse)

lemma store_only_lift_r [simp]: "store_only facts (lift_r x)"
  by (simp add: store_only_def lift_r_def)

lemma store_only_give [simp]: "store_only facts (give x)"
  by (simp add: store_only_def give_def)

lemma seq_reaches:
  assumes "seq m k s = (r, t)" and "store_only facts m"
  obtains (fails) "only_store facts s t" "\<And>x. r \<noteq> Ok x"
    | (runs) a u where "m s = (Ok a, u)" "only_store facts s u" "k a u = (r, t)"
proof -
  obtain q u where m: "m s = (q, u)" by (rule prod.exhaust)
  note u = store_onlyD [OF assms(2) m]
  show thesis
  proof (cases q)
    case (Ok a)
    with assms(1) m u runs show thesis by (simp add: seq_def)
  qed (use assms(1) m u fails in \<open>auto simp: seq_def\<close>)
qed

lemma store_only_seq [intro]:
  assumes "store_only facts m" and "\<And>a. store_only facts (k a)"
  shows "store_only facts (seq m k)"
proof (rule store_onlyI)
  fix s r t
  assume "seq m k s = (r, t)"
  then show "only_store facts s t"
  proof (rule seq_reaches [OF _ assms(1)])
    fix a u
    assume "only_store facts s u" "k a u = (r, t)"
    then show ?thesis using store_onlyD [OF assms(2)] only_store_trans by metis
  qed
qed

lemma await_eq:
  "await e p s = (q, u) \<longleftrightarrow> (\<exists>y. p s = (y, u) \<and> q = (case y of Inl _ \<Rightarrow> Err e | Inr a \<Rightarrow> Ok a))"
  by (auto simp: await_def split: prod.splits sum.splits)

lemma await_on_store:
  assumes "await e (on_store p) s = (q, u)" and "makes facts p xs"
  shows "only_store facts s u" and "\<And>a. q = Ok a \<Longrightarrow> p (snd s) = (Inr a, snd u) \<and> (\<forall>x\<in>set xs. facts (snd u) x)"
proof -
  from assms(1) obtain y where y: "p (snd s) = (y, snd u)" "fst u = fst s" "q = (case y of Inl _ \<Rightarrow> Err e | Inr a \<Rightarrow> Ok a)"
    by (auto simp: await_eq on_store_eq)
  show "only_store facts s u" using y makes_grows [OF assms(2) y(1)] by (simp add: only_store_def)
  show "\<And>a. q = Ok a \<Longrightarrow> p (snd s) = (Inr a, snd u) \<and> (\<forall>x\<in>set xs. facts (snd u) x)"
    using y makes_fact [OF assms(2)] by (cases y) auto
qed

lemma store_only_await: "makes facts p xs \<Longrightarrow> store_only facts (await e (on_store p))"
  by (rule store_onlyI) (rule await_on_store)

lemma makes_hooks: "delivery_laws P facts \<Longrightarrow> makes facts (fire_post_hooks P out msg) []"
  by (simp add: makes_def) (metis fire_post_hooks_applies(1) prod.collapse)

section \<open>What the recovery store promises\<close>

definition recovery_laws :: "'v recovery_ports \<Rightarrow> ('v \<Rightarrow> store_fact \<Rightarrow> bool) \<Rightarrow> bool" where
  "recovery_laws R facts \<longleftrightarrow>
     delivery_laws (rv_ingestion R) facts
     \<and> (\<forall>acc. makes facts (rv_claim R acc) []) \<and> (\<forall>c. makes facts (rv_renew R c) [])
     \<and> (\<forall>c. makes facts (rv_finish_connecting R c) []) \<and> (\<forall>c. makes facts (rv_finalize R c) [])"

lemma recovery_lawsD:
  assumes "recovery_laws R facts"
  shows "delivery_laws (rv_ingestion R) facts" "makes facts (rv_claim R acc) []" "makes facts (rv_renew R c) []"
    "makes facts (rv_finish_connecting R c) []" "makes facts (rv_finalize R c) []"
    "makes facts (ip_insert (rv_ingestion R) ms) (map MessageStored ms)"
  using assms by (simp_all add: recovery_laws_def delivery_laws_def)

lemma finish_epoch_only_store: "recovery_laws R facts \<Longrightarrow> store_only facts (finish_epoch R c)"
  unfolding finish_epoch_def
  by (intro store_only_seq, erule recovery_lawsD(3) [THEN store_only_await])
    (auto split: connection_epoch_status.split intro!: store_only_seq
      dest: recovery_lawsD(4,5) [THEN store_only_await])

lemma finish_epochs_only_store: "recovery_laws R facts \<Longrightarrow> store_only facts (finish_epochs R cs)"
  by (induction cs) (auto intro: finish_epoch_only_store)

lemma claim_epochs_grows:
  assumes laws: "makes facts claim []" and run: "claim_epochs claim claims v = Some (r, v')"
  shows "grows facts v v'"
proof -
  let ?Q = "\<lambda>c (cs :: claimed_epoch list) v y. c = claim \<longrightarrow> grows facts v (snd (y :: (spool_fatal_kind, claimed_epoch list) result \<times> _))"
  have "?Q claim claims v (r, v')"
  proof (rule claim_epochs.raw_induct [of ?Q, OF _ run])
    fix rec c claims v y
    assume IH: "\<And>c claims v y. rec c claims v = Some y \<Longrightarrow> ?Q c claims v y"
      and body: "(case c v of (r, v') \<Rightarrow> (case r of Inl _ \<Rightarrow> Some (Err ReconciliationFailed, v')
         | Inr claimed \<Rightarrow> if claimed = [] then Some (Ok claims, v') else rec c (claims @ claimed) v')) = Some y"
    show "?Q c claims v y"
    proof
      assume c: "c = claim"
      obtain q w where q: "claim v = (q, w)" by force
      note g = makes_grows [OF laws q]
      consider "snd y = w" | cs where "rec claim (claims @ cs) w = Some y"
        using body q c by (auto split: sum.splits if_splits)
      then show "grows facts v (snd y)"
      proof cases
        case 2
        from IH [OF this] g show ?thesis by (auto intro: grows_trans)
      qed (use g in simp)
    qed
  qed
  then show ?thesis by simp
qed

section \<open>One frame\<close>

lemma converged_is_checkpointable:
  "pre_records (checkpointable_prefix (rf_generation f) [converged_entry f hooks out]) = [rf_record f]"
proof -
  have "rp_required (fold with_converged_hook hs p) = rp_required p \<and> rp_ingestion (fold with_converged_hook hs p) = rp_ingestion p
     \<and> set hs \<union> set (rp_converged p) \<subseteq> set (rp_converged (fold with_converged_hook hs p))" for hs p
    by (induction hs arbitrary: p) (fastforce simp: with_converged_hook_def)+
  from this [of hooks "with_ingestion out (replay_pending f hooks)"]
  have "checkpoint_eligibility_of (converged_entry f hooks out) = Eligible"
    by (simp add: eligible_iff converged_entry_def with_ingestion_def replay_pending_def unique_hook_keys)
  then show ?thesis by (simp add: checkpointable_prefix_def may_checkpoint_def)
qed

lemma replay_frame_reaches:
  assumes laws: "recovery_laws R facts" and run: "replay_frame advance R claims f s = (r, t)"
  obtains (stopped) "only_store facts s t" "\<And>x. r \<noteq> Ok x"
    | (checkpoints) pre u where "only_store facts s u" "delivered (rv_ingestion R) facts (snd u) f"
        "pre_records pre = [rf_record f]" "await_spool (advance pre) u = (r, t)"
proof -
  let ?P = "rv_ingestion R"
  note L = recovery_lawsD [OF laws]
  note step = store_only_await [OF L(3)] store_only_await [OF L(6)]
  from run have "seq (lift_r (ok_or (epoch_claim claims f) RecoveryInvariantViolation)) (\<lambda>claim.
      seq (await ReconciliationFailed (on_store (rv_renew R claim))) (\<lambda>_.
      seq (await ReconciliationFailed (on_store (ip_insert ?P [rf_message f]))) (\<lambda>outs.
      seq (lift_r (case outs of [] \<Rightarrow> Err RecoveryInvariantViolation | out # _ \<Rightarrow> Ok out)) (\<lambda>out.
      seq (lift_r (required_hook_keys (ip_uuid_v5 ?P) (rf_message f) out (ip_recall ?P \<noteq> None) (ip_artifact ?P \<noteq> None))) (\<lambda>hooks.
      seq (await ReconciliationFailed (on_store (fire_post_hooks ?P out (rf_message f)))) (\<lambda>_.
        await_spool (advance (checkpointable_prefix (rf_generation f) [converged_entry f hooks out])))))))) s = (r, t)"
    by (simp add: replay_frame_def Let_def)
  from this store_only_lift_r [of facts] show thesis
  proof (cases rule: seq_reaches)
    case (runs claim u1)
    note 1 = runs(2)
    from runs(3) step(1) show thesis
    proof (cases rule: seq_reaches)
      case (runs x u2)
      note 2 = only_store_trans [OF 1 runs(2)]
      from runs(3) step(2) show thesis
      proof (cases rule: seq_reaches)
        case (runs outs u3)
        note 3 = only_store_trans [OF 2 runs(2)]
        from await_on_store(2) [OF runs(1) L(6)] have stored: "facts (snd u3) (MessageStored (rf_message f))" by simp
        from runs(3) store_only_lift_r [of facts] show thesis
        proof (cases rule: seq_reaches)
          case (runs out u4)
          then have u4: "u4 = u3" by (simp add: result_simps)
          from runs(3) store_only_lift_r [of facts] show thesis
          proof (cases rule: seq_reaches)
            case (runs hooks u5)
            then have keys: "required_hook_keys (ip_uuid_v5 ?P) (rf_message f) out (ip_recall ?P \<noteq> None) (ip_artifact ?P \<noteq> None) = Ok hooks"
              and u5: "u5 = u3" by (simp_all add: result_simps u4)
            from runs(3) store_only_await [OF makes_hooks [OF L(1)]] show thesis
            proof (cases rule: seq_reaches)
              case (runs x u6)
              have "fire_post_hooks ?P out (rf_message f) (snd u5) = (Inr (), snd u6)"
                using await_on_store(2) [OF runs(1) makes_hooks [OF L(1)]] by simp
              from fire_post_hooks_applies(2) [OF L(1) this refl keys]
              have "hooks_applied facts (snd u6) hooks" .
              moreover have "facts (snd u6) (MessageStored (rf_message f))"
                using stored runs(2) u5 by (simp add: only_store_def grows_def)
              ultimately have "delivered ?P facts (snd u6) f" using keys by (auto simp: delivered_def)
              then show thesis
                using checkpoints [OF only_store_trans [OF 3] _ converged_is_checkpointable runs(3)] runs(2) u5 by simp
            qed (use stopped 3 u5 only_store_trans in metis)
          qed (use stopped 3 u4 only_store_trans in metis)
        qed (use stopped 3 only_store_trans in metis)
      qed (use stopped 2 only_store_trans in metis)
    qed (use stopped 1 only_store_trans in metis)
  qed (use stopped in metis)
qed

section \<open>The whole recovery\<close>

context durable_log
begin

lemma replay_frame_settles:
  assumes laws: "recovery_laws R facts" and q: "holds (fst s) (f # q)" and run: "replay_frame advance R claims f s = (r, t)"
  shows "grows facts (snd s) (snd t)"
    and "r = Ok () \<Longrightarrow> holds (fst t) q \<and> delivered (rv_ingestion R) facts (snd t) f"
    and "reopens (fst t) z \<Longrightarrow> holds z (f # q) \<or> holds z q \<and> delivered (rv_ingestion R) facts (snd t) f"
proof -
  have "grows facts (snd s) (snd t)
    \<and> (r = Ok () \<longrightarrow> holds (fst t) q \<and> delivered (rv_ingestion R) facts (snd t) f)
    \<and> (reopens (fst t) z \<longrightarrow> holds z (f # q) \<or> holds z q \<and> delivered (rv_ingestion R) facts (snd t) f)"
    using laws run
  proof (cases rule: replay_frame_reaches)
    case stopped
    then show ?thesis using q reopens_holds by (metis only_store_def)
  next
    case (checkpoints pre u)
    obtain a where a: "advance pre u = (a, t)" "\<And>y. r = Ok y \<Longrightarrow> a = Inr y"
      using checkpoints(4) by (auto simp: await_spool_def split: prod.splits sum.splits)
    have w: "snd t = snd u" using advance_store [of pre u] a(1) by simp
    have u: "holds (fst u) (f # q)" "grows facts (snd s) (snd u)" using checkpoints(1) q by (simp_all add: only_store_def)
    have "holds (fst t) q" if "r = Ok ()"
      using advance_drops [OF u(1), of pre "()" t] a(1) a(2) [OF that] checkpoints(3) by simp
    moreover have "holds z (f # q) \<or> holds z q" if "reopens (fst t) z"
      using advance_crash [OF u(1) a(1) that] checkpoints(3) by auto
    ultimately show ?thesis using checkpoints(2) u(2) w by auto
  qed
  then show "grows facts (snd s) (snd t)"
    "r = Ok () \<Longrightarrow> holds (fst t) q \<and> delivered (rv_ingestion R) facts (snd t) f"
    "reopens (fst t) z \<Longrightarrow> holds z (f # q) \<or> holds z q \<and> delivered (rv_ingestion R) facts (snd t) f"
    by blast+
qed

text \<open>After a replay: it succeeded and the log is empty, or the log holds what is left.\<close>

lemma replay_frames_settles:
  assumes laws: "recovery_laws R facts"
  shows "holds (fst s) q \<Longrightarrow> replay_frames advance R claims q s = (r, t) \<Longrightarrow>
    grows facts (snd s) (snd t)
    \<and> (r = Ok () \<longrightarrow> holds (fst t) [] \<and> (\<forall>f\<in>set q. delivered (rv_ingestion R) facts (snd t) f))
    \<and> (reopens (fst t) z \<longrightarrow> (\<exists>q'. holds z q' \<and> settled (rv_ingestion R) facts (snd t) q q'))"
proof (induction q arbitrary: s)
  case Nil
  then have "t = s" by (simp add: result_simps)
  moreover have "holds z []" if "reopens (fst s) z" using reopens_holds [OF Nil.prems(1) that] .
  ultimately show ?case using Nil.prems(1) by (auto intro!: exI [of _ "[]"])
next
  case (Cons f q)
  obtain x u where x: "replay_frame advance R claims f s = (x, u)" by (rule prod.exhaust)
  note F = replay_frame_settles [OF laws Cons.prems(1) x]
  show ?case
  proof (cases "x = Ok ()")
    case True
    with Cons.prems(2) x have "replay_frames advance R claims q u = (r, t)" by (simp add: seq_def)
    note IH = Cons.IH [OF conjunct1 [OF F(2) [OF True]] this]
    have d: "delivered (rv_ingestion R) facts (snd t) f"
      using delivered_grows [OF conjunct2 [OF F(2) [OF True]] conjunct1 [OF IH]] .
    have "grows facts (snd s) (snd t)" using grows_trans [OF F(1) conjunct1 [OF IH]] .
    moreover have "\<exists>q'. holds z q' \<and> settled (rv_ingestion R) facts (snd t) (f # q) q'" if "reopens (fst t) z"
      using IH that settled_Cons [OF _ d] by meson
    ultimately show ?thesis using IH d by simp
  next
    case False
    with Cons.prems(2) x have "u = t" "r \<noteq> Ok ()" by (cases x; simp add: seq_def)+
    moreover have "settled (rv_ingestion R) facts (snd u) (f # q) q" if "delivered (rv_ingestion R) facts (snd u) f"
      using settled_Cons [OF settled_refl that] .
    ultimately show ?thesis using F(1) F(3) settled_refl by metis
  qed
qed

lemma recover_claimed_settles:
  assumes laws: "recovery_laws R facts" and q: "holds (fst s) q"
    and run: "recover_claimed advance R account q claims s = (r, t)"
  shows "grows facts (snd s) (snd t)
    \<and> (r = Ok () \<longrightarrow> holds (fst t) [] \<and> (\<forall>f\<in>set q. delivered (rv_ingestion R) facts (snd t) f))
    \<and> (reopens (fst t) z \<longrightarrow> (\<exists>q'. holds z q' \<and> settled (rv_ingestion R) facts (snd t) q q'))"
proof -
  have still: ?thesis if "t = s" "r \<noteq> Ok ()" using that q reopens_holds settled_refl by (metis grows_refl)
  show ?thesis
  proof (cases "check_owned account claims q = Ok () \<and> check_plans claims q = Ok ()")
    case False
    then show ?thesis
      using run still unfolding recover_claimed_def seq_def lift_r_def
      by (cases "check_owned account claims q"; cases "check_plans claims q"; simp; metis result.distinct)
  next
    case True
    then have rest: "seq (replay_frames advance R claims q) (\<lambda>_. finish_epochs R claims) s = (r, t)"
      using run by (simp add: recover_claimed_def seq_def lift_r_def)
    obtain x u where x: "replay_frames advance R claims q s = (x, u)" by (rule prod.exhaust)
    note F = replay_frames_settles [OF laws q x, of z]
    show ?thesis
    proof (cases "x = Ok ()")
      case True
      with rest x have fin: "finish_epochs R claims u = (r, t)" by (simp add: seq_def)
      have t: "fst t = fst u" "grows facts (snd u) (snd t)"
        using store_onlyD [OF finish_epochs_only_store [OF laws] fin] by (simp_all add: only_store_def)
      with F True show ?thesis by (metis grows_trans delivered_grows settled_grows)
    next
      case False
      with rest x have "t = u" "r \<noteq> Ok ()" by (cases x; simp add: seq_def)+
      with F show ?thesis by blast
    qed
  qed
qed

end

end
