(* ===== verification/Delivery_Properties.thy ===== *)
theory Delivery_Properties
  imports Recovery_Delivery Message_Spool_Properties
begin

text \<open>
  The message spool keeps the contract \<open>durable_log\<close>; with it, admission, writer, ingestion worker and
  recovery together lose no message that has been logged, from the append to the store.
\<close>

section \<open>The message spool as a durable log\<close>

type_synonym drawn_ids = "(u8 list \<times> spool_admission_id) list"

definition ids_fresh :: "drawn_ids \<Rightarrow> bool" where
  "ids_fresh ids \<longleftrightarrow> (\<forall>u\<in>set (map fst ids). uuid_ok u) \<and> distinct (map fst ids) \<and> distinct (map snd ids)"

definition logs ::
  "spool_lib \<Rightarrow> spool_config \<Rightarrow> (string \<Rightarrow> string option) \<Rightarrow> message_spool \<Rightarrow> drawn_ids \<Rightarrow> spool_state \<Rightarrow>
     recovered_frame list \<Rightarrow> bool" where
  "logs lib cfg env sp ids st q \<longleftrightarrow>
     spool_lib_ok lib \<and> key_for lib env sp \<and> spl_config sp = cfg \<and> ids_fresh ids
     \<and> (\<exists>stored. q = map (recovered_of sp) stored
          \<and> spool_queue lib sp (used_by lib ids) (set (map snd ids)) stored [] (sst_disk st))"

text \<open>The machine crashes and the spool is opened again.\<close>

definition reopened ::
  "spool_lib \<Rightarrow> spool_config \<Rightarrow> (string \<Rightarrow> string option) \<Rightarrow> spool_state \<Rightarrow> spool_state \<Rightarrow> bool" where
  "reopened lib cfg env st z \<longleftrightarrow>
     (\<exists>d io sp rec d'. crashes (sst_disk st) d \<and> open_spool lib cfg io d = (Ok (sp, rec, sst_telemetry z), d')
        \<and> io_env io = env \<and> sst_disk z = d')"

lemma records_of_queue: "map rf_record (map (recovered_of sp) stored) = map stf_record stored"
  by (simp add: recovered_of_def)

lemma logs_opened:
  assumes "spool_lib_ok lib" "key_for lib env sp" "spl_config sp = cfg" "ids_fresh ids"
    and "spool_queue lib sp (used_by lib ids) (set (map snd ids)) stored tail d"
    and "open_spool lib cfg io d = (Ok (sp', rec, sst_telemetry z), d')" "io_env io = env" "sst_disk z = d'"
  shows "logs lib cfg env sp ids z (map (recovered_of sp) stored)"
  using open_queue [OF assms(1,5,2,7,3,6)] assms unfolding logs_def by blast

lemma logs_reopened:
  assumes logs: "logs lib cfg env sp ids st q" and re: "reopened lib cfg env st z"
  shows "logs lib cfg env sp ids z q"
proof -
  from logs obtain stored where L: "spool_lib_ok lib" "key_for lib env sp" "spl_config sp = cfg" "ids_fresh ids"
    and q: "q = map (recovered_of sp) stored" "spool_queue lib sp (used_by lib ids) (set (map snd ids)) stored [] (sst_disk st)"
    unfolding logs_def by blast
  from re obtain d io sp' rec d' where o: "crashes (sst_disk st) d"
    "open_spool lib cfg io d = (Ok (sp', rec, sst_telemetry z), d')" "io_env io = env" "sst_disk z = d'"
    unfolding reopened_def by blast
  from logs_opened [OF L spool_queue_crash [OF q(2) o(1)] o(2-4)] show ?thesis by (simp only: q(1))
qed

lemma logs_checkpoint:
  assumes logs: "logs lib cfg env sp ids st q" and io: "io_ok io" and run: "advance_checkpoint lib sp io pre st = (r, st')"
  shows "r = Ok u \<Longrightarrow> prefix (pre_records pre) (map rf_record q)
      \<and> logs lib cfg env sp ids st' (drop (length (pre_records pre)) q)"
    and "reopened lib cfg env st' z \<Longrightarrow> logs lib cfg env sp ids z q
      \<or> prefix (pre_records pre) (map rf_record q) \<and> logs lib cfg env sp ids z (drop (length (pre_records pre)) q)"
proof -
  from logs obtain stored where L: "spool_lib_ok lib" "key_for lib env sp" "spl_config sp = cfg" "ids_fresh ids"
    and q: "q = map (recovered_of sp) stored" "spool_queue lib sp (used_by lib ids) (set (map snd ids)) stored [] (sst_disk st)"
    unfolding logs_def by blast
  have op: "run_op lib sp io (CheckpointOp pre) st = (r, st')" "op_ok io (CheckpointOp pre)"
    using run io by (simp_all add: op_ok_def)
  have ids: "\<forall>u\<in>set (map fst ids). uuid_ok u" "distinct (map fst (ids @ op_ids (CheckpointOp pre)))"
    "distinct (map snd (ids @ op_ids (CheckpointOp pre)))"
    using L(4) by (simp_all add: ids_fresh_def)
  note rq = run_op_queue [OF L(1) q(2) op ids]
  show "r = Ok u \<Longrightarrow> prefix (pre_records pre) (map rf_record q)
      \<and> logs lib cfg env sp ids st' (drop (length (pre_records pre)) q)"
    using rq(1) L unfolding logs_def q(1) records_of_queue by (auto simp: drop_map)
  assume "reopened lib cfg env st' z"
  then obtain d io' sp' rec d' where o: "crashes (sst_disk st') d"
    "open_spool lib cfg io' d = (Ok (sp', rec, sst_telemetry z), d')" "io_env io' = env" "sst_disk z = d'"
    unfolding reopened_def by blast
  from rq(2) [OF o(1)] obtain q' tail where q': "q' = stored \<or> op_effect lib (CheckpointOp pre) stored q'"
    "spool_queue lib sp (used_by lib ids) (set (map snd ids)) q' tail d" by auto
  from logs_opened [OF L q'(2) o(2-4)] q'(1) show "logs lib cfg env sp ids z q
      \<or> prefix (pre_records pre) (map rf_record q) \<and> logs lib cfg env sp ids z (drop (length (pre_records pre)) q)"
    unfolding q(1) records_of_queue by (auto simp: drop_map)
qed

lemma spool_port_eq:
  "spool_port io_of act s = (r, t) \<longleftrightarrow>
     (\<exists>x. act (io_of (snd s)) (fst s) = (x, fst t) \<and> snd t = snd s
        \<and> r = (case x of Ok a \<Rightarrow> Inr a | Err e \<Rightarrow> Inl (failure_kind e) | Panic \<Rightarrow> Inl WriterStopped))"
  by (cases t) (auto simp: spool_port_def split: prod.splits result.splits)

definition spool_durable ::
  "spool_lib \<Rightarrow> spool_config \<Rightarrow> (string \<Rightarrow> string option) \<Rightarrow> message_spool \<Rightarrow> ('v \<Rightarrow> spool_io) \<Rightarrow> drawn_ids \<Rightarrow> spool_state \<Rightarrow>
     recovered_frame list \<Rightarrow> bool" where
  "spool_durable lib cfg env sp io_of ids st q \<longleftrightarrow> (\<forall>v. io_ok (io_of v)) \<and> logs lib cfg env sp ids st q"

interpretation message_log: durable_log "spool_durable lib cfg env sp io_of ids" "reopened lib cfg env"
  "checkpoint_adapter lib sp io_of" for lib cfg env sp and io_of :: "'v \<Rightarrow> spool_io" and ids
proof unfold_locales
  fix pre :: checkpoint_prefix and s :: "spool_state \<times> 'v" and q u t r z
  show "snd (snd (checkpoint_adapter lib sp io_of pre s)) = snd s"
    by (auto simp: checkpoint_adapter_def spool_port_def split: prod.splits result.splits)
  assume q: "spool_durable lib cfg env sp io_of ids (fst s) q"
  {
    assume "checkpoint_adapter lib sp io_of pre s = (Inr u, t)"
    then obtain x where x: "advance_checkpoint lib sp (io_of (snd s)) pre (fst s) = (x, fst t)"
      "Inr u = (case x of Ok a \<Rightarrow> Inr a | Err e \<Rightarrow> Inl (failure_kind e) | Panic \<Rightarrow> Inl WriterStopped)"
      by (auto simp: checkpoint_adapter_def spool_port_eq)
    then have "x = Ok u" by (cases x) auto
    with q x(1) show "prefix (pre_records pre) (map rf_record q)
        \<and> spool_durable lib cfg env sp io_of ids (fst t) (drop (length (pre_records pre)) q)"
      using logs_checkpoint(1) unfolding spool_durable_def by blast
  next
    assume "checkpoint_adapter lib sp io_of pre s = (r, t)" and z: "reopened lib cfg env (fst t) z"
    then obtain x where "advance_checkpoint lib sp (io_of (snd s)) pre (fst s) = (x, fst t)"
      by (auto simp: checkpoint_adapter_def spool_port_eq)
    with q z show "spool_durable lib cfg env sp io_of ids z q
        \<or> prefix (pre_records pre) (map rf_record q)
          \<and> spool_durable lib cfg env sp io_of ids z (drop (length (pre_records pre)) q)"
      using logs_checkpoint(2) unfolding spool_durable_def by blast
  }
next
  show "spool_durable lib cfg env sp io_of ids z' q" if "spool_durable lib cfg env sp io_of ids z q" "reopened lib cfg env z z'" for z z' q
    using that logs_reopened unfolding spool_durable_def by blast
qed

section \<open>The writer\<close>

type_synonym write_call = "spool_io \<times> bool \<times> spool_admission"

definition call_id :: "write_call \<Rightarrow> u8 list \<times> spool_admission_id" where
  "call_id c = (case c of (io, _, adm) \<Rightarrow> (io_uuid io, sa_id adm))"

definition call_ok :: "write_call \<Rightarrow> bool" where
  "call_ok c \<longleftrightarrow> (case c of (io, _, adm) \<Rightarrow> io_ok io \<and> admissible adm)"

text \<open>Frames that were logged under the first of the ids that were drawn.\<close>

definition logged_as :: "spool_lib \<Rightarrow> drawn_ids \<Rightarrow> recovered_frame list \<Rightarrow> bool" where
  "logged_as lib new fs \<longleftrightarrow> map rf_record fs = map (record_of lib) (map fst (take (length fs) new))"

lemma spool_queue_mono:
  assumes "spool_queue lib sp R A stored tail d" "R \<subseteq> R'" "A \<subseteq> A'"
  shows "spool_queue lib sp R' A' stored tail d"
proof -
  from assms(1) obtain base done_frames log where h: "spool_holds_tail lib sp base done_frames log tail d" "stored = map fst log"
    "used_records lib base (done_frames @ log) \<subseteq> R" "set (log_admissions (done_frames @ log)) \<subseteq> A"
    unfolding spool_queue_def by blast
  show ?thesis using spool_queueI [OF h(1) subset_trans [OF h(3) assms(2)] subset_trans [OF h(4) assms(3)]] by (simp only: h(2))
qed

lemma logs_more:
  assumes "logs lib cfg env sp ids st q" "ids_fresh (ids @ new)"
  shows "logs lib cfg env sp (ids @ new) st q"
proof -
  have "used_by lib ids \<subseteq> used_by lib (ids @ new)" "set (map snd ids) \<subseteq> set (map snd (ids @ new))"
    by (auto simp: used_by_def)
  with assms show ?thesis unfolding logs_def by (metis spool_queue_mono)
qed

lemma logs_telemetry [simp]: "logs lib cfg env sp ids (st\<lparr>sst_telemetry := t\<rparr>) q = logs lib cfg env sp ids st q"
  by (simp add: logs_def)

lemma reopened_telemetry [simp]: "reopened lib cfg env (st\<lparr>sst_telemetry := t\<rparr>) z = reopened lib cfg env st z"
  by (simp add: reopened_def)

lemma ids_fresh_prefix: "ids_fresh (ids @ new) \<Longrightarrow> ids_fresh ids"
  by (simp add: ids_fresh_def)

text \<open>One append: a receipt means that the frame is the last of the log.\<close>

lemma append_logs:
  assumes logs: "logs lib cfg env sp ids st q" and call: "call_ok (io, ready, adm)"
    and fresh: "ids_fresh (ids @ [call_id (io, ready, adm)])" and run: "spool_append lib sp io adm st = (r, st')"
  defines "f \<equiv> recovered_of sp (stored_of lib adm (io_uuid io))" and "ids' \<equiv> ids @ [call_id (io, ready, adm)]"
  shows "r = Ok receipt \<Longrightarrow>
      receipt = \<lparr>sr_admission = sa_id adm, sr_generation = spl_generation sp, sr_record = record_of lib (io_uuid io)\<rparr>
      \<and> logs lib cfg env sp ids' st' (q @ [f])"
    and "reopened lib cfg env st' z \<Longrightarrow> logs lib cfg env sp ids' z q \<or> logs lib cfg env sp ids' z (q @ [f])"
proof -
  from logs obtain stored where L: "spool_lib_ok lib" "key_for lib env sp" "spl_config sp = cfg" "ids_fresh ids"
    and q: "q = map (recovered_of sp) stored" "spool_queue lib sp (used_by lib ids) (set (map snd ids)) stored [] (sst_disk st)"
    unfolding logs_def by blast
  let ?op = "AppendOp adm (io_uuid io)"
  have new: "op_ids ?op = [call_id (io, ready, adm)]" by (simp add: call_id_def)
  obtain q0 where op: "run_op lib sp io ?op st = (q0, st')" and q0: "r = Ok receipt \<Longrightarrow> q0 = Ok ()"
    using run by (cases r) (auto simp: seq_def give_def)
  have ok: "op_ok io ?op" using call by (simp add: op_ok_def call_ok_def)
  have ids: "\<forall>u\<in>set (map fst ids). uuid_ok u" "distinct (map fst (ids @ op_ids ?op))" "distinct (map snd (ids @ op_ids ?op))"
    using fresh L(4) unfolding new by (simp_all add: ids_fresh_def)
  note rq = run_op_queue [OF L(1) q(2) op ok ids, unfolded new]
  {
    assume r: "r = Ok receipt"
    with run obtain usage d where a: "append_frame lib sp io adm (sst_disk st) = (Ok (receipt, usage), d)"
      by (auto simp: spool_append_def result_simps on_disk_eq on_telemetry_def)
    have "receipt = \<lparr>sr_admission = sa_id adm, sr_generation = spl_generation sp, sr_record = record_of lib (io_uuid io)\<rparr>"
      using append_frame_cases [OF a L(1)] call by (auto simp: call_ok_def)
    moreover have "spool_queue lib sp (used_by lib ids') (set (map snd ids')) (stored @ [stored_of lib adm (io_uuid io)]) [] (sst_disk st')"
      using rq(1) q0 [OF r] unfolding ids'_def by auto
    then have "logs lib cfg env sp ids' st' (q @ [f])"
      unfolding logs_def using L(1-3) fresh [folded ids'_def]
      by (intro conjI exI [of _ "stored @ [stored_of lib adm (io_uuid io)]"]) (simp_all add: q(1) f_def)
    ultimately show "receipt = \<lparr>sr_admission = sa_id adm, sr_generation = spl_generation sp,
        sr_record = record_of lib (io_uuid io)\<rparr> \<and> logs lib cfg env sp ids' st' (q @ [f])" by blast
  }
  assume "reopened lib cfg env st' z"
  then obtain d io' sp' rec d' where o: "crashes (sst_disk st') d"
    "open_spool lib cfg io' d = (Ok (sp', rec, sst_telemetry z), d')" "io_env io' = env" "sst_disk z = d'"
    unfolding reopened_def by blast
  from rq(2) [OF o(1)] obtain q' tail where q': "q' = stored \<or> op_effect lib ?op stored q'"
    "spool_queue lib sp (used_by lib ids') (set (map snd ids')) q' tail d" unfolding ids'_def by auto
  from logs_opened [OF L(1-3) fresh [folded ids'_def] q'(2) o(2-4)] q'(1)
  show "logs lib cfg env sp ids' z q \<or> logs lib cfg env sp ids' z (q @ [f])"
    unfolding q(1) f_def by auto
qed

text \<open>
  The writer: what it has handed on is in the log, in that order, whatever happens next; after a
  crash the log holds at most one frame more.
\<close>

lemma writer_logs:
  assumes "logs lib cfg env sp ids (wt_spool s) q" "\<forall>c\<in>set cs. call_ok c" "ids_fresh (ids @ map call_id cs)"
    and "run_writer lib sp cs s = s'"
  shows "\<exists>fs. wt_enqueued s' = wt_enqueued s @ fs \<and> length fs \<le> length cs \<and> logged_as lib (map call_id cs) fs
    \<and> (length fs = length cs \<longrightarrow> logs lib cfg env sp (ids @ map call_id cs) (wt_spool s') (q @ fs))
    \<and> (\<forall>z. reopened lib cfg env (wt_spool s') z \<longrightarrow>
         (\<exists>extra. length extra \<le> 1 \<and> logged_as lib (map call_id cs) (fs @ extra)
            \<and> logs lib cfg env sp (ids @ map call_id cs) z (q @ fs @ extra)))"
  using assms
proof (induction cs arbitrary: s ids q)
  case Nil
  then have "logs lib cfg env sp ids z q" if "reopened lib cfg env (wt_spool s) z" for z
    using that logs_reopened by blast
  with Nil show ?case by (intro exI [of _ "[]"]) (auto simp: logged_as_def)
next
  case (Cons c cs)
  obtain io ready adm where c: "c = (io, ready, adm)" by (rule prod_cases3)
  obtain r st where r: "spool_append lib sp io adm (wt_spool s) = (r, st)" by (rule prod.exhaust)
  let ?f = "recovered_of sp (stored_of lib adm (io_uuid io))"
  let ?ids = "ids @ [call_id c]" and ?all = "ids @ map call_id (c # cs)"
  have fresh: "ids_fresh (?ids @ map call_id cs)" using Cons.prems(3) by simp
  have ok: "call_ok (io, ready, adm)" using Cons.prems(2) c by simp
  note app = append_logs [OF Cons.prems(1) ok ids_fresh_prefix [OF fresh, unfolded c] r, folded c]
  have f: "map rf_record (?f # fs) = record_of lib (fst (call_id c)) # map rf_record fs" for fs
    by (simp add: recovered_of_def stored_of_def c call_id_def)
  show ?case
  proof (cases "wt_enqueued s' = wt_enqueued s \<and> (\<exists>t. wt_spool s' = st\<lparr>sst_telemetry := t\<rparr>)")
    case True
    then have re: "reopened lib cfg env (wt_spool s') z = reopened lib cfg env st z" for z by auto
    have "\<exists>extra. length extra \<le> 1 \<and> logged_as lib (map call_id (c # cs)) ([] @ extra) \<and> logs lib cfg env sp ?all z (q @ [] @ extra)"
      if "reopened lib cfg env (wt_spool s') z" for z
    proof -
      from app(2) that re consider "logs lib cfg env sp ?ids z q" | "logs lib cfg env sp ?ids z (q @ [?f])" by blast
      then show ?thesis
      proof cases
        case 1
        from logs_more [OF this fresh] show ?thesis by (intro exI [of _ "[]"]) (simp add: logged_as_def)
      next
        case 2
        from logs_more [OF this fresh] show ?thesis by (intro exI [of _ "[?f]"]) (use f [of "[]"] in \<open>simp add: logged_as_def\<close>)
      qed
    qed
    with True show ?thesis by (intro exI [of _ "[]"]) (simp add: logged_as_def)
  next
    case False
    let ?s = "s\<lparr>wt_spool := st, wt_enqueued := wt_enqueued s @ [?f], wt_receipts := saturating_add (wt_receipts s) 1\<rparr>"
    have run: "run_writer lib sp ((io, ready, adm) # cs) s = s'" using Cons.prems(4) c by simp
    obtain receipt where ro: "r = Ok receipt" "run_writer lib sp cs ?s = s'"
    proof (cases r)
      case (Ok receipt)
      note receipt = conjunct1 [OF app(1) [OF Ok]]
      show thesis
      proof (rule that [OF Ok])
        show "run_writer lib sp cs ?s = s'"
          using run False r Ok receipt
          by (auto simp: writer_fatal_def recovered_frame_new_Ok recovered_of_def stored_of_def split: result.splits if_splits)
      qed
    next
      case (Err e)
      with run False r show thesis by (auto simp: writer_fatal_def)
    next
      case Panic
      have "\<exists>t. st = st\<lparr>sst_telemetry := t\<rparr>" by (rule exI [of _ "sst_telemetry st"]) simp
      with run False r Panic show thesis by auto
    qed
    have logs: "logs lib cfg env sp ?ids (wt_spool ?s) (q @ [?f])" using app(1) [OF ro(1)] by simp
    have oks: "\<forall>c\<in>set cs. call_ok c" using Cons.prems(2) by simp
    from Cons.IH [OF logs oks fresh ro(2)] obtain fs where
      IH: "wt_enqueued s' = wt_enqueued ?s @ fs" "length fs \<le> length cs" "logged_as lib (map call_id cs) fs"
        "length fs = length cs \<longrightarrow> logs lib cfg env sp (?ids @ map call_id cs) (wt_spool s') ((q @ [?f]) @ fs)"
      and re: "\<And>z. reopened lib cfg env (wt_spool s') z \<Longrightarrow>
         \<exists>extra. length extra \<le> 1 \<and> logged_as lib (map call_id cs) (fs @ extra)
            \<and> logs lib cfg env sp (?ids @ map call_id cs) z ((q @ [?f]) @ fs @ extra)"
      by blast
    have as: "logged_as lib (map call_id (c # cs)) (?f # gs)" if "logged_as lib (map call_id cs) gs" for gs
      using that unfolding logged_as_def f by simp
    have "\<exists>extra. length extra \<le> 1 \<and> logged_as lib (map call_id (c # cs)) ((?f # fs) @ extra)
       \<and> logs lib cfg env sp ?all z (q @ (?f # fs) @ extra)" if z: "reopened lib cfg env (wt_spool s') z" for z
    proof -
      from re [OF z] obtain extra where "length extra \<le> 1" "logged_as lib (map call_id cs) (fs @ extra)"
        "logs lib cfg env sp (?ids @ map call_id cs) z ((q @ [?f]) @ fs @ extra)" by blast
      with as show ?thesis by (intro exI [of _ extra]) simp
    qed
    with IH as show ?thesis by (intro exI [of _ "?f # fs"]) simp
  qed
qed

section \<open>Runs of the whole path\<close>

text \<open>
  What happens to the log and the store: the writer takes admissions, the worker converges a batch of
  frames that had a receipt, a recovery replays one frame or all. A step can end in any way; it tells whether it
  succeeded, the ids it drew and the frames it handed on.
\<close>

definition writer_start :: "spool_state \<Rightarrow> writer_state" where
  "writer_start st = \<lparr>wt_spool = st, wt_enqueued = [], wt_fatals = [], wt_receipts = 0\<rparr>"

inductive delivery_step ::
  "spool_lib \<Rightarrow> ('v \<Rightarrow> spool_io) \<Rightarrow> 'v recovery_ports \<Rightarrow> message_spool \<Rightarrow> recovered_frame list \<Rightarrow> spool_state \<times> 'v \<Rightarrow>
     bool \<Rightarrow> drawn_ids \<Rightarrow> recovered_frame list \<Rightarrow> spool_state \<times> 'v \<Rightarrow> bool"
  for lib io_of R sp acked s where
  step_writes: "run_writer lib sp cs (writer_start (fst s)) = w \<Longrightarrow> \<forall>c\<in>set cs. call_ok c \<Longrightarrow>
     delivery_step lib io_of R sp acked s (length (wt_enqueued w) = length cs) (map call_id cs) (wt_enqueued w) (wt_spool w, snd s)"
| step_batch: "process_spooled_batch (spooled_ports (checkpoint_adapter lib sp io_of) (rv_ingestion R)) cfg batch
       (checkpoint_adapter lib sp io_of) wk = Some (r, wk') \<Longrightarrow> ws_world wk = s \<Longrightarrow>
     \<forall>i\<in>set batch. \<exists>f\<in>set acked. te_frame i = Some f \<and> te_envelope i = rf_message f \<Longrightarrow>
     delivery_step lib io_of R sp acked s (r = Ok ()) [] [] (ws_world wk')"
| step_replays: "recover_pending lib sp io (fst s) = (Ok (f # fs), st) \<Longrightarrow>
     replay_frame (checkpoint_adapter lib sp io_of) R claims f s = (r, s') \<Longrightarrow>
     delivery_step lib io_of R sp acked s (r = Ok ()) [] [] s'"
| step_recovers: "recover_before_connect lib sp io_of R account s = Some (r, s') \<Longrightarrow>
     delivery_step lib io_of R sp acked s (r = Ok ()) [] [] s'"

text \<open>
  A run starts with an empty directory. A step succeeds, or ends in any way and the machine stops,
  after which the spool is opened again; meanwhile others use the store. A stop in the middle of a
  step between two calls is a stop after a shorter step or after a change of the store alone.
\<close>

inductive delivery_run ::
  "spool_lib \<Rightarrow> spool_config \<Rightarrow> (string \<Rightarrow> string option) \<Rightarrow> ('v \<Rightarrow> spool_io) \<Rightarrow> 'v recovery_ports \<Rightarrow>
     ('v \<Rightarrow> store_fact \<Rightarrow> bool) \<Rightarrow> message_spool \<Rightarrow> spool_state \<times> 'v \<Rightarrow> drawn_ids \<Rightarrow> recovered_frame list \<Rightarrow> bool"
  for lib cfg env io_of R facts where
  delivery_opened: "open_spool lib cfg io empty_disk = (Ok (sp, rec, tm), d) \<Longrightarrow> io_ok io \<Longrightarrow> io_env io = env \<Longrightarrow>
     delivery_run lib cfg env io_of R facts sp (\<lparr>sst_disk = d, sst_telemetry = tm\<rparr>, v) [] []"
| delivery_goes_on: "delivery_run lib cfg env io_of R facts sp s ids acked \<Longrightarrow>
     delivery_step lib io_of R sp acked s True new fs s' \<Longrightarrow>
     delivery_run lib cfg env io_of R facts sp s' (ids @ new) (acked @ fs)"
| delivery_crashed: "delivery_run lib cfg env io_of R facts sp s ids acked \<Longrightarrow>
     delivery_step lib io_of R sp acked s ok new fs s' \<Longrightarrow> reopened lib cfg env (fst s') z \<Longrightarrow>
     delivery_run lib cfg env io_of R facts sp (z, snd s') (ids @ new) (acked @ fs)"
| delivery_elsewhere: "delivery_run lib cfg env io_of R facts sp (st, v) ids acked \<Longrightarrow> grows facts v v' \<Longrightarrow>
     delivery_run lib cfg env io_of R facts sp (st, v') ids acked"

text \<open>
  The invariant: of the frames logged so far, those with a receipt among them, a prefix is delivered
  and the rest is what the log holds.
\<close>

definition nothing_lost ::
  "spool_lib \<Rightarrow> 'v ingestion_ports \<Rightarrow> ('v \<Rightarrow> store_fact \<Rightarrow> bool) \<Rightarrow> drawn_ids \<Rightarrow> recovered_frame list \<Rightarrow> 'v \<Rightarrow>
     recovered_frame list \<Rightarrow> bool" where
  "nothing_lost lib P facts ids acked v q \<longleftrightarrow>
     (\<exists>logged. subseq acked logged \<and> settled P facts v logged q
        \<and> distinct (map rf_record logged) \<and> set (map rf_record logged) \<subseteq> used_by lib ids)"

lemma nothing_lost_settles:
  assumes "nothing_lost lib P facts ids acked v q" "grows facts v v'" "settled P facts v' q q'"
  shows "nothing_lost lib P facts ids acked v' q'"
proof -
  from assms(1) obtain logged where l: "subseq acked logged" "settled P facts v logged q"
    "distinct (map rf_record logged)" "set (map rf_record logged) \<subseteq> used_by lib ids"
    unfolding nothing_lost_def by blast
  from settled_grows [OF l(2) assms(2)] obtain n where n: "q = drop n logged" "\<forall>f\<in>set (take n logged). delivered P facts v' f"
    unfolding settled_def by blast
  from assms(3) obtain m where m: "q' = drop m q" "\<forall>f\<in>set (take m q). delivered P facts v' f"
    unfolding settled_def by blast
  have "q' = drop (n + m) logged" "take (n + m) logged = take n logged @ take m q"
    using n(1) m(1) take_add [of n m logged] by (simp_all add: add.commute)
  with n(2) m(2) have "settled P facts v' logged q'"
    unfolding settled_def by (intro exI [of _ "n + m"]) auto
  with l show ?thesis unfolding nothing_lost_def by blast
qed

lemma nothing_lost_logs:
  assumes "nothing_lost lib P facts ids acked v q" "logged_as lib new (fs @ extra)" "length (fs @ extra) \<le> length new"
    and "ids_fresh (ids @ new)" "spool_lib_ok lib"
  shows "nothing_lost lib P facts (ids @ new) (acked @ fs) v (q @ fs @ extra)"
proof -
  from assms(1) obtain logged n where l: "subseq acked logged" "q = drop n logged" "\<forall>f\<in>set (take n logged). delivered P facts v f"
    "distinct (map rf_record logged)" "set (map rf_record logged) \<subseteq> used_by lib ids"
    unfolding nothing_lost_def settled_def by blast
  let ?us = "map fst (take (length (fs @ extra)) new)"
  have us: "set ?us \<subseteq> set (map fst new)" by (auto dest: in_set_takeD)
  have inj: "inj_on (record_of lib) (set (map fst (ids @ new)))"
    using assms(4) record_of_inject [OF assms(5)] by (auto simp: inj_on_def ids_fresh_def uuid_ok_def)
  have records: "map rf_record (fs @ extra) = map (record_of lib) ?us" using assms(2) by (simp add: logged_as_def)
  have "distinct ?us" using assms(4) by (simp add: ids_fresh_def take_map [symmetric] del: take_map)
  then have d: "distinct (map rf_record (fs @ extra))"
    unfolding records using inj_on_subset [OF inj, of "set ?us"] us by (metis distinct_map le_supI2 map_append set_append)
  have "set (map fst ids) \<inter> set ?us = {}" using assms(4) us by (auto simp: ids_fresh_def)
  then have "used_by lib ids \<inter> set (map rf_record (fs @ extra)) = {}"
    unfolding records used_by_def set_map [of "record_of lib"]
    using us by (subst inj_on_image_Int [OF inj, symmetric]) auto
  with l(4,5) d have "distinct (map rf_record (logged @ fs @ extra))" by auto
  moreover have "used_by lib ids \<subseteq> used_by lib (ids @ new)" by (auto simp: used_by_def)
  moreover have "set (map rf_record (fs @ extra)) \<subseteq> used_by lib (ids @ new)"
    unfolding records used_by_def set_map [of "record_of lib"] using us by (intro image_mono) auto
  ultimately have "distinct (map rf_record (logged @ fs @ extra))"
    "set (map rf_record (logged @ fs @ extra)) \<subseteq> used_by lib (ids @ new)" using l(5) by auto
  moreover have "subseq (acked @ fs) (logged @ fs @ extra)"
    using l(1) by (metis append_assoc list_emb_append_mono list_emb_prefix subseq_order.refl)
  moreover have "settled P facts v (logged @ fs @ extra) (q @ fs @ extra)"
  proof (cases "n \<le> length logged")
    case True
    with l(2,3) show ?thesis unfolding settled_def by (intro exI [of _ n]) simp
  next
    case False
    with l(2,3) show ?thesis unfolding settled_def by (intro exI [of _ "length logged"]) simp
  qed
  ultimately show ?thesis unfolding nothing_lost_def by blast
qed

lemma subseq_in: "subseq xs ys \<Longrightarrow> x \<in> set xs \<Longrightarrow> x \<in> set ys"
  by (metis subseq_order.trans subseq_singleton_left)

lemma nothing_lost_same:
  assumes "nothing_lost lib P facts ids acked v q" "set fs \<subseteq> set acked"
  shows "same_record_same_frame fs q"
proof -
  from assms(1) obtain logged n where l: "subseq acked logged" "q = drop n logged" "distinct (map rf_record logged)"
    unfolding nothing_lost_def settled_def by blast
  have "set fs \<subseteq> set logged" "set q \<subseteq> set logged"
    using assms(2) l(1) set_drop_subset [of n logged] l(2) by (auto dest: subseq_in)
  with l(3) show ?thesis
    unfolding same_record_same_frame_def distinct_map inj_on_def by blast
qed

lemma logs_pending:
  assumes "logs lib cfg env sp ids st q" "recover_pending lib sp io st = (y, st')"
  shows "st' = st" and "y = Ok frames \<Longrightarrow> frames = q"
proof -
  from assms(1) obtain base done_frames log where "spool_lib_ok lib" "spool_holds lib sp base done_frames log (sst_disk st)"
    unfolding logs_def spool_queue_def by blast
  from pending_frames_holds [OF this, of io] assms(2) show "st' = st"
    by (auto simp: recover_pending_def on_disk_eq seq_def lock_operation_def lift_r_def give_def split: result.splits)
  show "y = Ok frames \<Longrightarrow> frames = q"
    using assms recover_pending_queue unfolding logs_def by blast
qed

lemma set_telemetry_twice: "set_telemetry f (set_telemetry g s) = set_telemetry (f \<circ> g) s"
  by (simp add: set_telemetry_def)

lemma recover_before_connect_inner:
  assumes "recover_before_connect lib sp io_of R account s = Some (r, s')"
  obtains h s1 where "recover_inner lib sp io_of R account (set_telemetry (set_reconciliation_pending True) s) = Some (r, s1)"
    and "s' = set_telemetry h s1"
proof -
  from assms obtain r1 s1 where inner: "recover_inner lib sp io_of R account
      (set_telemetry (set_reconciliation_pending True) s) = Some (r1, s1)"
    and rest: "(case r1 of Err k \<Rightarrow> Some (Err k, set_telemetry (mark_fatal k) (set_telemetry (set_reconciliation_pending False) s1))
       | _ \<Rightarrow> Some (r1, set_telemetry (set_reconciliation_pending False) s1)) = Some (r, s')"
    by (auto simp: recover_before_connect_def Let_def split: Option.bind_splits)
  have "r = r1 \<and> (\<exists>h. s' = set_telemetry h s1)"
    using rest by (cases r1) (auto simp: set_telemetry_twice simp del: split_paired_Ex)
  with inner that show thesis by blast
qed

text \<open>A recovery is a replay of all frames of the log, or stops before the first.\<close>

lemma recover_settles:
  assumes laws: "recovery_laws R facts" and logs: "spool_durable lib cfg env sp io_of ids (fst s) q"
    and run: "recover_before_connect lib sp io_of R account s = Some (r, s')"
  shows "grows facts (snd s) (snd s')
    \<and> (r = Ok () \<longrightarrow> spool_durable lib cfg env sp io_of ids (fst s') [] \<and> (\<forall>f\<in>set q. delivered (rv_ingestion R) facts (snd s') f))
    \<and> (reopened lib cfg env (fst s') z \<longrightarrow> (\<exists>q'. spool_durable lib cfg env sp io_of ids z q'
         \<and> settled (rv_ingestion R) facts (snd s') q q'))"
proof -
  let ?result = "\<lambda>r s'. grows facts (snd s) (snd s')
    \<and> (r = Ok () \<longrightarrow> spool_durable lib cfg env sp io_of ids (fst s') [] \<and> (\<forall>f\<in>set q. delivered (rv_ingestion R) facts (snd s') f))
    \<and> (reopened lib cfg env (fst s') z \<longrightarrow> (\<exists>q'. spool_durable lib cfg env sp io_of ids z q'
         \<and> settled (rv_ingestion R) facts (snd s') q q'))"
  have tele: "?result r (set_telemetry h t) = ?result r t" for r h t
    by (simp add: set_telemetry_def spool_durable_def)
  let ?s = "set_telemetry (set_reconciliation_pending True) s"
  have q: "spool_durable lib cfg env sp io_of ids (fst ?s) q" "snd ?s = snd s"
    using logs by (simp_all add: set_telemetry_def spool_durable_def)
  obtain h s1 where inner: "recover_inner lib sp io_of R account ?s = Some (r, s1)" and s': "s' = set_telemetry h s1"
    by (rule recover_before_connect_inner [OF run])
  have early: "?result r t" if "fst t = fst ?s" "grows facts (snd s) (snd t)" "r \<noteq> Ok ()" for t
    using that q(1) message_log.reopens_holds settled_refl by metis
  have "?result r s1"
  proof -
    obtain x s2 where Pair: "spool_port io_of (recover_pending lib sp) ?s = (x, s2)" by (rule prod.exhaust)
    obtain y where y: "recover_pending lib sp (io_of (snd ?s)) (fst ?s) = (y, fst s2)" "snd s2 = snd s"
      "x = (case y of Ok a \<Rightarrow> Inr a | Err e \<Rightarrow> Inl (failure_kind e) | Panic \<Rightarrow> Inl WriterStopped)"
      using Pair q(2) by (auto simp: spool_port_eq)
    show ?thesis
    proof (cases x)
      case (Inl k)
      have "fst s2 = fst ?s" using logs_pending(1) y(1) q(1) unfolding spool_durable_def by blast
      moreover have "r = Err k" "s1 = s2" using inner Pair Inl by (auto simp: recover_inner_def)
      ultimately have "fst s1 = fst ?s" "grows facts (snd s) (snd s1)" "r \<noteq> Ok ()" using y(2) by simp_all
      then show ?thesis by (rule early)
    next
      case (Inr frames)
      then have "y = Ok frames" using y(3) by (cases y) auto
      then have f: "frames = q" "fst s2 = fst ?s"
        using logs_pending(1) [OF _ y(1)] logs_pending(2) [OF _ y(1)] q(1) unfolding spool_durable_def by blast+
      from inner Pair Inr obtain c v where c: "claim_epochs (rv_claim R account) [] (snd s2) = Some (c, v)"
        and rest: "(case c of Ok claims \<Rightarrow> recover_claimed (checkpoint_adapter lib sp io_of) R account frames claims (fst s2, v)
            | Err k \<Rightarrow> (Err k, (fst s2, v)) | Panic \<Rightarrow> (Panic, (fst s2, v))) = (r, s1)"
        by (auto simp: recover_inner_def split: Option.bind_splits result.splits)
      have g: "grows facts (snd s) v"
        using claim_epochs_grows [OF recovery_lawsD(2) [OF laws] c] y(2) by simp
      show ?thesis
      proof (cases c)
        case (Ok claims)
        with rest f have rc: "recover_claimed (checkpoint_adapter lib sp io_of) R account q claims (fst ?s, v) = (r, s1)" by simp
        have "spool_durable lib cfg env sp io_of ids (fst (fst ?s, v)) q" using q(1) by simp
        note F = message_log.recover_claimed_settles [OF laws this rc, of z]
        then have "grows facts v (snd s1)" by simp
        with F g show ?thesis using grows_trans by metis
      qed (use rest f(2) g early [of s1] in auto)
    qed
  qed
  then show ?thesis unfolding s' tele .
qed

section \<open>Properties\<close>

lemma delivery_step_keeps:
  assumes laws: "recovery_laws R facts" and fresh: "ids_fresh (ids @ new)"
    and logs: "spool_durable lib cfg env sp io_of ids (fst s) q" and kept: "nothing_lost lib (rv_ingestion R) facts ids acked (snd s) q"
    and step: "delivery_step lib io_of R sp acked s ok new fs s'"
  shows "(ok \<longrightarrow> (\<exists>q'. spool_durable lib cfg env sp io_of (ids @ new) (fst s') q'
           \<and> nothing_lost lib (rv_ingestion R) facts (ids @ new) (acked @ fs) (snd s') q'))
    \<and> (reopened lib cfg env (fst s') z \<longrightarrow> (\<exists>q'. spool_durable lib cfg env sp io_of (ids @ new) z q'
           \<and> nothing_lost lib (rv_ingestion R) facts (ids @ new) (acked @ fs) (snd s') q'))"
proof -
  let ?P = "rv_ingestion R"
  have io: "\<forall>v. io_ok (io_of v)" and lg: "logs lib cfg env sp ids (fst s) q" and lib: "spool_lib_ok lib"
    using logs by (auto simp: spool_durable_def logs_def)
  have moved: "nothing_lost lib ?P facts ids acked (snd t) q'"
    if "grows facts (snd s) (snd t)" "settled ?P facts (snd t) q q'" for t q'
    using nothing_lost_settles [OF kept that] .
  from step show ?thesis
  proof cases
    case (step_writes cs w)
    from writer_logs [of lib cfg env sp ids "writer_start (fst s)" q cs w] lg fresh step_writes
    obtain gs where g: "wt_enqueued w = gs" "length gs \<le> length cs" "logged_as lib new gs"
      "length gs = length cs \<longrightarrow> logs lib cfg env sp (ids @ new) (wt_spool w) (q @ gs)"
      and re: "\<And>z. reopened lib cfg env (wt_spool w) z \<Longrightarrow> \<exists>extra. length extra \<le> 1 \<and> logged_as lib new (gs @ extra)
            \<and> logs lib cfg env sp (ids @ new) z (q @ gs @ extra)"
      by (auto simp: writer_start_def)
    have len: "length (gs @ extra) \<le> length new" if "logged_as lib new (gs @ extra)" for extra
      using that by (metis length_map length_take logged_as_def min.cobounded1)
    have more: "nothing_lost lib ?P facts (ids @ new) (acked @ gs) (snd s) (q @ gs @ extra)" if "logged_as lib new (gs @ extra)" for extra
      using nothing_lost_logs [OF kept that len [OF that] fresh lib] .
    show ?thesis using more [of "[]"] more re g io step_writes by (fastforce simp: spool_durable_def)
  next
    case (step_batch cfg' batch wk r wk')
    have items: "\<forall>i\<in>set batch. \<exists>f. te_frame i = Some f \<and> te_envelope i = rf_message f"
      and frames: "set (map (the \<circ> te_frame) batch) \<subseteq> set acked" using step_batch(7) by force+
    have "spool_durable lib cfg env sp io_of ids (fst (ws_world wk)) q" using logs step_batch(6) by simp
    note F = message_log.batch_settles [OF recovery_lawsD(1) [OF laws] this items nothing_lost_same [OF kept frames] step_batch(5), of z]
    then have "grows facts (snd s) (snd s')" using step_batch(4,6) by simp
    with F moved step_batch show ?thesis by auto
  next
    case (step_replays io f gs st claims r)
    have "q = f # gs" using logs_pending(2) [OF lg step_replays(4)] by simp
    with logs have "spool_durable lib cfg env sp io_of ids (fst s) (f # gs)" by simp
    note F = message_log.replay_frame_settles [OF laws this step_replays(5)]
    have "settled ?P facts (snd s') q gs" if "delivered ?P facts (snd s') f"
      using settled_Cons [OF settled_refl that] \<open>q = f # gs\<close> by simp
    with F moved [OF F(1)] settled_refl \<open>q = f # gs\<close> step_replays(1-3) show ?thesis by (metis append_Nil2)
  next
    case (step_recovers account r)
    note F = recover_settles [OF laws logs step_recovers(4), of z]
    have "settled ?P facts (snd s') q []" if "\<forall>f\<in>set q. delivered ?P facts (snd s') f"
      using that unfolding settled_def by (intro exI [of _ "length q"]) simp
    with F moved step_recovers(1-3) show ?thesis by (metis append_Nil2)
  qed
qed

lemma delivery_invariant:
  assumes "spool_lib_ok lib" "recovery_laws R facts" "\<forall>v. io_ok (io_of v)"
    and "delivery_run lib cfg env io_of R facts sp s ids acked"
  shows "ids_fresh ids \<Longrightarrow> \<exists>q. spool_durable lib cfg env sp io_of ids (fst s) q
     \<and> nothing_lost lib (rv_ingestion R) facts ids acked (snd s) q"
  using assms(4)
proof (induction rule: delivery_run.induct)
  case (delivery_opened io sp rec tm d v)
  have empty: "dk_files empty_disk = (\<lambda>_. None)" "dk_stale empty_disk f = None" for f
    by (simp_all add: empty_disk_def)
  note o = open_empty [OF assms(1) empty delivery_opened(2,1)]
  have "logs lib cfg env sp [] \<lparr>sst_disk = d, sst_telemetry = tm\<rparr> []"
    using o assms(1) delivery_opened(3) by (simp add: logs_def ids_fresh_def used_by_def)
  moreover have "nothing_lost lib (rv_ingestion R) facts [] [] v []"
    unfolding nothing_lost_def by (rule exI [of _ "[]"]) simp
  ultimately show ?case using assms(3) by (auto simp: spool_durable_def)
next
  case (delivery_goes_on sp s ids acked new fs s')
  from delivery_goes_on.IH [OF ids_fresh_prefix [OF delivery_goes_on.prems]] obtain q where
    "spool_durable lib cfg env sp io_of ids (fst s) q" "nothing_lost lib (rv_ingestion R) facts ids acked (snd s) q" by blast
  from delivery_step_keeps [OF assms(2) delivery_goes_on.prems this delivery_goes_on.hyps(2)] show ?case by blast
next
  case (delivery_crashed sp s ids acked ok new fs s' z)
  from delivery_crashed.IH [OF ids_fresh_prefix [OF delivery_crashed.prems]] obtain q where
    "spool_durable lib cfg env sp io_of ids (fst s) q" "nothing_lost lib (rv_ingestion R) facts ids acked (snd s) q" by blast
  from delivery_step_keeps [OF assms(2) delivery_crashed.prems this delivery_crashed.hyps(2)] delivery_crashed.hyps(3)
  show ?case by auto
next
  case (delivery_elsewhere sp st v ids acked v')
  then show ?case using nothing_lost_settles settled_refl by fastforce
qed

text \<open>
  C2: no logged message is lost. Whatever steps writer, worker and recovery take, however they end and
  whenever the machine stops, the frames that were handed on with a receipt are among
  the frames logged so far, of these a prefix has been delivered, with its message in the store and
  its hooks applied, and the spool returns exactly the others, in the order they were logged.
\<close>

theorem no_logged_message_lost:
  assumes "spool_lib_ok lib" and "recovery_laws R facts" and "\<forall>v. io_ok (io_of v)"
    and "delivery_run lib cfg env io_of R facts sp (st, v) ids acked" and "ids_fresh ids"
  shows "\<exists>logged n. subseq acked logged
           \<and> (\<forall>f\<in>set (take n logged). delivered (rv_ingestion R) facts v f)
           \<and> (\<forall>io frames st'. recover_pending lib sp io st = (Ok frames, st') \<longrightarrow> frames = drop n logged)"
proof -
  from delivery_invariant [OF assms] obtain q where "logs lib cfg env sp ids st q"
    and kept: "nothing_lost lib (rv_ingestion R) facts ids acked v q" by (auto simp: spool_durable_def)
  then have "frames = q" if "recover_pending lib sp io st = (Ok frames, st')" for io frames st'
    using logs_pending(2) that by blast
  with kept show ?thesis unfolding nothing_lost_def settled_def by blast
qed

text \<open>
  C10: a connection is opened only on a delivered log. When the recovery before a connection succeeds,
  every message that was ever handed on with a receipt is in the store with its hooks applied, and the
  spool has nothing left to replay.
\<close>

theorem recovery_delivers_everything:
  assumes "spool_lib_ok lib" and "recovery_laws R facts" and "\<forall>v. io_ok (io_of v)"
    and "delivery_run lib cfg env io_of R facts sp s ids acked" and "ids_fresh ids"
    and "recover_before_connect lib sp io_of R account s = Some (Ok (), s')"
  shows "(\<forall>f\<in>set acked. delivered (rv_ingestion R) facts (snd s') f)
    \<and> (\<forall>io frames st'. recover_pending lib sp io (fst s') = (Ok frames, st') \<longrightarrow> frames = [])"
proof -
  from delivery_invariant [OF assms(1-5)] obtain q where q: "spool_durable lib cfg env sp io_of ids (fst s) q"
    and kept: "nothing_lost lib (rv_ingestion R) facts ids acked (snd s) q" by blast
  note F = recover_settles [OF assms(2) q assms(6)]
  from kept obtain logged where l: "subseq acked logged" "settled (rv_ingestion R) facts (snd s) logged q"
    unfolding nothing_lost_def by blast
  have "delivered (rv_ingestion R) facts (snd s') f" if "f \<in> set acked" for f
    using settled_in [OF settled_grows [OF l(2)] subseq_in [OF l(1) that]] F by blast
  moreover have "frames = []" if "recover_pending lib sp io (fst s') = (Ok frames, st')" for io frames st'
    using F logs_pending(2) [OF _ that refl] unfolding spool_durable_def by blast
  ultimately show ?thesis by blast
qed

text \<open>
  C34: the writer hands a message on only once it is durable. However its loop ends, after a crash of
  the machine the spool returns, after the older frames, what the writer has handed to the ingestion
  queue, in that order, and at most one message more.
\<close>

theorem writer_logs_before_ingestion:
  assumes "spool_lib_ok lib" and "recovery_laws R facts" and "\<forall>v. io_ok (io_of v)"
    and "delivery_run lib cfg env io_of R facts sp (st, v) ids acked" and "ids_fresh (ids @ map call_id calls)"
    and "\<forall>c\<in>set calls. call_ok c" and "reopened lib cfg env (wt_spool (run_writer lib sp calls (writer_start st))) z"
    and "recover_pending lib sp io z = (Ok frames, z')"
  shows "\<exists>older extra. frames = older @ wt_enqueued (run_writer lib sp calls (writer_start st)) @ extra
           \<and> length extra \<le> 1 \<and> (\<forall>io' pending st'. recover_pending lib sp io' st = (Ok pending, st') \<longrightarrow> older = pending)"
proof -
  from delivery_invariant [OF assms(1-4) ids_fresh_prefix [OF assms(5)]] obtain q
    where q: "logs lib cfg env sp ids st q" by (auto simp: spool_durable_def)
  have "logs lib cfg env sp ids (wt_spool (writer_start st)) q" using q by (simp add: writer_start_def)
  from writer_logs [OF this assms(6,5) refl] assms(7) obtain fs extra
    where w: "wt_enqueued (run_writer lib sp calls (writer_start st)) = fs" "length extra \<le> 1"
      "logs lib cfg env sp (ids @ map call_id calls) z (q @ fs @ extra)"
    by (auto simp: writer_start_def)
  have "frames = q @ fs @ extra" using logs_pending(2) [OF w(3) assms(8) refl] .
  moreover have "q = pending" if "recover_pending lib sp io' st = (Ok pending, st')" for io' pending st'
    using logs_pending(2) [OF q that refl] by simp
  ultimately show ?thesis using w(1,2) by blast
qed

section \<open>Witnesses\<close>

text \<open>A store that takes everything, in memory, and has no epoch to recover.\<close>

definition sample_store :: "store_fact list recovery_ports" where
  "sample_store =
     \<lparr>rv_ingestion =
        \<lparr>ip_insert = \<lambda>ms v. (Inr (map (\<lambda>_. Duplicate (SourceEventId ''e'')) ms), v @ map MessageStored ms),
         ip_mark_uncertain = \<lambda>ep g v. (Inl Unavailable, v), ip_recall = None, ip_artifact = None,
         ip_uuid_v5 = id, ip_default_ttl = 0, ip_health_success = \<lambda>_ v. v, ip_health_failure = \<lambda>v. v,
         ip_checkpoint = None, ip_sleep = \<lambda>_ v. v, ip_unix_now = \<lambda>_. 0, ip_instant_now = \<lambda>_. 0\<rparr>,
      rv_claim = \<lambda>_ v. (Inr [], v), rv_renew = \<lambda>_ v. (Inr (), v),
      rv_finish_connecting = \<lambda>_ v. (Inr (), v), rv_finalize = \<lambda>_ v. (Inl Unavailable, v)\<rparr>"

definition in_store :: "store_fact list \<Rightarrow> store_fact \<Rightarrow> bool" where "in_store v x \<longleftrightarrow> x \<in> set v"

abbreviation calm_io :: "store_fact list \<Rightarrow> spool_io" where "calm_io v \<equiv> sample_io (\<lambda>_ _. False)"

abbreviation sample_delivery ::
  "message_spool \<Rightarrow> spool_state \<times> store_fact list \<Rightarrow> drawn_ids \<Rightarrow> recovered_frame list \<Rightarrow> bool" where
  "sample_delivery \<equiv> delivery_run sample_lib sample_spool_config sample_env calm_io sample_store in_store"

definition sample_call :: write_call where
  "sample_call = (sample_io (\<lambda>_ _. False), True, sample_admission)"

lemma sample_store_laws: "recovery_laws sample_store in_store"
  by (auto simp: recovery_laws_def delivery_laws_def makes_def grows_def sample_store_def in_store_def)

lemma sample_calls_ok: "\<forall>v. io_ok (calm_io v)" "call_ok sample_call" "ids_fresh [call_id sample_call]"
proof -
  have "uuid_ok sample_uuid" using sample_io_ok [of "\<lambda>_ _. False"] by (simp add: io_ok_def sample_io_def)
  then show "\<forall>v. io_ok (calm_io v)" "call_ok sample_call" "ids_fresh [call_id sample_call]"
    using sample_io_ok sample_op_ok [of "\<lambda>_ _. False"]
    by (simp_all add: call_ok_def sample_call_def op_ok_def ids_fresh_def call_id_def sample_io_def)
qed

lemma sample_start:
  obtains sp st where "sample_delivery sp (st, []) [] []" "spool_run sample_lib sample_spool_config sample_env sp st []"
proof -
  obtain sp st where run: "spool_run sample_lib sample_spool_config sample_env sp st []"
    using sample_opened by blast
  then show thesis
  proof cases
    case (run_opened io rec tm d)
    show thesis by (rule that [OF delivery_opened [OF run_opened(2-4)] run [unfolded run_opened(1)]])
  qed auto
qed

lemma sample_written:
  assumes "spool_run sample_lib sample_spool_config sample_env sp st []" "sample_delivery sp (st, []) [] []"
  obtains f where "wt_enqueued (run_writer sample_lib sp [sample_call] (writer_start st)) = [f]"
    and "sample_delivery sp (wt_spool (run_writer sample_lib sp [sample_call] (writer_start st)), []) [call_id sample_call] [f]"
proof -
  let ?w = "run_writer sample_lib sp [sample_call] (writer_start st)"
  from delivery_invariant [OF sample_lib_ok sample_store_laws sample_calls_ok(1) assms(2)]
  obtain q where q: "logs sample_lib sample_spool_config sample_env sp [] st q"
    by (auto simp: spool_durable_def ids_fresh_def)
  obtain r st' where a: "spool_append sample_lib sp (sample_io (\<lambda>_ _. False)) sample_admission st = (Ok r, st')"
    by (rule sample_append [OF assms(1)])
  have ok: "call_ok (sample_io (\<lambda>_ _. False), True, sample_admission)"
    "ids_fresh ([] @ [call_id (sample_io (\<lambda>_ _. False), True, sample_admission)])"
    using sample_calls_ok by (simp_all add: sample_call_def)
  have "check_ownership (sa_epoch sample_admission) (sa_message sample_admission) = Ok ()"
    using ok(1) by (simp add: call_ok_def admissible_def)
  with append_logs(1) [OF q ok a refl] a obtain f where "wt_enqueued ?w = [f]"
    by (auto simp: sample_call_def writer_start_def recovered_frame_new_def)
  moreover have "delivery_step sample_lib calm_io sample_store sp [] (st, []) (length (wt_enqueued ?w) = length [sample_call])
      (map call_id [sample_call]) (wt_enqueued ?w) (wt_spool ?w, snd (st, []))"
    by (rule step_writes) (simp_all add: sample_calls_ok)
  ultimately show thesis using delivery_goes_on [OF assms(2)] that by fastforce
qed

theorem no_logged_message_lost_witness:
  "\<exists>sp st f logged n. sample_delivery sp (st, []) [call_id sample_call] [f] \<and> subseq [f] logged
     \<and> list_all (delivered (rv_ingestion sample_store) in_store []) (take n logged)"
proof -
  obtain sp st where s: "sample_delivery sp (st, []) [] []" "spool_run sample_lib sample_spool_config sample_env sp st []"
    by (rule sample_start)
  obtain f where d: "sample_delivery sp (wt_spool (run_writer sample_lib sp [sample_call] (writer_start st)), [])
      [call_id sample_call] [f]" by (rule sample_written [OF s(2,1)])
  from no_logged_message_lost [OF sample_lib_ok sample_store_laws sample_calls_ok(1) d sample_calls_ok(3)] d
  show ?thesis unfolding list_all_iff by blast
qed

text \<open>When nothing fails, a log can be opened after a crash and read.\<close>

lemma sample_pending:
  assumes "logs sample_lib cfg env sp ids st q"
  shows "recover_pending sample_lib sp (sample_io (\<lambda>_ _. False)) st = (Ok q, st)"
proof -
  from assms obtain stored base done_frames log where h: "spool_holds sample_lib sp base done_frames log (sst_disk st)"
    and q: "q = map (recovered_of sp) stored" "stored = map fst log"
    unfolding logs_def spool_queue_def by blast
  have "\<not> io_fails (sample_io (\<lambda>_ _. False)) l n" for l n by (simp add: sample_io_def)
  with pending_frames_holds [OF sample_lib_ok h, of "sample_io (\<lambda>_ _. False)"] q show ?thesis
    by (auto simp: recover_pending_def on_disk_eq seq_def lock_operation_def lift_r_def give_def io_check_def ensure_def)
qed

lemma sample_reopens:
  assumes "logs sample_lib sample_spool_config sample_env sp ids st q"
  obtains z where "reopened sample_lib sample_spool_config sample_env st z"
    and "recover_pending sample_lib sp (sample_io (\<lambda>_ _. False)) z = (Ok q, z)"
proof -
  from assms obtain stored where key: "key_for sample_lib sample_env sp" "spl_config sp = sample_spool_config"
    and q: "spool_queue sample_lib sp (used_by sample_lib ids) (set (map snd ids)) stored [] (sst_disk st)"
    unfolding logs_def by blast
  obtain d where d: "crashes (sst_disk st) d" using crash_exists by blast
  have env: "io_env (sample_io (\<lambda>_ _. False)) = sample_env" by (simp add: sample_io_def)
  from open_calm [OF sample_lib_ok spool_queue_crash [OF q d] key(1) env key(2) sample_config_ok sample_io_calm]
  obtain rec tm d' where o: "open_spool sample_lib sample_spool_config (sample_io (\<lambda>_ _. False)) d = (Ok (sp, rec, tm), d')"
    by blast
  let ?z = "\<lparr>sst_disk = d', sst_telemetry = tm\<rparr>"
  have z: "reopened sample_lib sample_spool_config sample_env st ?z"
    unfolding reopened_def using d o env by fastforce
  show thesis by (rule that [OF z sample_pending [OF logs_reopened [OF assms z]]])
qed

theorem writer_logs_before_ingestion_witness:
  "\<exists>sp st frames older f extra z z'. sample_delivery sp (st, []) [] []
     \<and> wt_enqueued (run_writer sample_lib sp [sample_call] (writer_start st)) = [f]
     \<and> reopened sample_lib sample_spool_config sample_env (wt_spool (run_writer sample_lib sp [sample_call] (writer_start st))) z
     \<and> recover_pending sample_lib sp (sample_io (\<lambda>_ _. False)) z = (Ok frames, z')
     \<and> frames = older @ [f] @ extra \<and> length extra \<le> 1"
proof -
  obtain sp st where s: "sample_delivery sp (st, []) [] []" "spool_run sample_lib sample_spool_config sample_env sp st []"
    by (rule sample_start)
  obtain f where f: "wt_enqueued (run_writer sample_lib sp [sample_call] (writer_start st)) = [f]"
    "sample_delivery sp (wt_spool (run_writer sample_lib sp [sample_call] (writer_start st)), []) [call_id sample_call] [f]"
    by (rule sample_written [OF s(2,1)])
  from delivery_invariant [OF sample_lib_ok sample_store_laws sample_calls_ok(1) f(2) sample_calls_ok(3)] obtain q
    where "logs sample_lib sample_spool_config sample_env sp [call_id sample_call]
      (wt_spool (run_writer sample_lib sp [sample_call] (writer_start st))) q" by (auto simp: spool_durable_def)
  then obtain z where z: "reopened sample_lib sample_spool_config sample_env
      (wt_spool (run_writer sample_lib sp [sample_call] (writer_start st))) z"
    "recover_pending sample_lib sp (sample_io (\<lambda>_ _. False)) z = (Ok q, z)" by (rule sample_reopens)
  have ids: "ids_fresh ([] @ map call_id [sample_call])" "\<forall>c\<in>set [sample_call]. call_ok c"
    using sample_calls_ok by simp_all
  from writer_logs_before_ingestion [OF sample_lib_ok sample_store_laws sample_calls_ok(1) s(1) ids z] f(1)
  obtain older extra where "q = older @ [f] @ extra" "length extra \<le> 1" by auto
  with s(1) f(1) z show ?thesis by blast
qed

theorem recovery_delivers_everything_witness:
  "\<exists>account sp st s' st'. sample_delivery sp (st, []) [] []
     \<and> recover_before_connect sample_lib sp calm_io sample_store account (st, []) = Some (Ok (), s')
     \<and> recover_pending sample_lib sp (sample_io (\<lambda>_ _. False)) (fst s') = (Ok [], st')"
proof -
  obtain sp st where s: "sample_delivery sp (st, []) [] []"
    by (rule sample_start)
  have fresh: "ids_fresh []" by (simp add: ids_fresh_def)
  from delivery_invariant [OF sample_lib_ok sample_store_laws sample_calls_ok(1) s fresh] obtain q
    where q: "logs sample_lib sample_spool_config sample_env sp [] st q"
      and "nothing_lost sample_lib (rv_ingestion sample_store) in_store [] [] [] q" by (auto simp: spool_durable_def)
  then have "q = []" by (auto simp: nothing_lost_def settled_def used_by_def)
  let ?st = "st\<lparr>sst_telemetry := set_reconciliation_pending True (sst_telemetry st)\<rparr>"
  have p: "recover_pending sample_lib sp (sample_io (\<lambda>_ _. False)) ?st = (Ok [], ?st)"
    using sample_pending [of _ _ sp _ ?st] q \<open>q = []\<close> by simp
  have "claim_epochs (rv_claim sample_store account) [] v = Some (Ok [], v)" for account v
    by (simp add: claim_epochs.simps sample_store_def)
  with p have "\<exists>s'. recover_before_connect sample_lib sp calm_io sample_store account (st, []) = Some (Ok (), s')" for account
    by (simp add: recover_before_connect_def recover_inner_def set_telemetry_def spool_port_def recover_claimed_def
        seq_def lift_r_def give_def check_owned_def check_plans_def Let_def)
  then obtain account s' where s': "recover_before_connect sample_lib sp calm_io sample_store account (st, []) = Some (Ok (), s')"
    by blast
  have "spool_durable sample_lib sample_spool_config sample_env sp calm_io [] (fst (st, [])) q"
    using q sample_calls_ok(1) by (simp add: spool_durable_def)
  from recover_settles [OF sample_store_laws this s']
  obtain q' where "logs sample_lib sample_spool_config sample_env sp [] (fst s') q'" by (auto simp: spool_durable_def)
  from sample_pending [OF this] have "recover_pending sample_lib sp (sample_io (\<lambda>_ _. False)) (fst s') = (Ok q', fst s')" .
  with recovery_delivers_everything [OF sample_lib_ok sample_store_laws sample_calls_ok(1) s fresh s'] s s'
  show ?thesis by blast
qed

end
