(* ===== verification/Retriever_Service.thy ===== *)
theory Retriever_Service
  imports Retriever
begin

text \<open>
  The retriever use case (\<open>personal-secretary/src/application/retriever_service.rs\<close>) over the port
  \<open>RetrieverStoreT\<close>: input checks, the visibility handed to the store, the fail-closed checks of
  causal and participant contexts, and the resolution of references to the running command. The
  store is the record \<open>retriever_store\<close> of actions on a world of its own.
\<close>

section \<open>The port\<close>

type_synonym ('w, 'a) store_read = "('w, inbound_event_store_error, 'a) action"

record 'w retriever_store =
  rs_search_events :: "event_query \<Rightarrow> retrieval_visibility \<Rightarrow> ('w, event_search_result list) store_read"
  rs_list_recent_event_views ::
    "source_account_ref \<Rightarrow> u16 \<Rightarrow> retrieval_visibility \<Rightarrow> ('w, agent_event_view list) store_read"
  rs_read_source_event ::
    "source_event_id \<Rightarrow> source_account_ref \<Rightarrow> retrieval_visibility \<Rightarrow> ('w, source_event_detail option) store_read"
  rs_search_threads ::
    "source_account_ref \<Rightarrow> string \<Rightarrow> u16 \<Rightarrow> retrieval_visibility \<Rightarrow> ('w, thread_search_result list) store_read"
  rs_search_threads_page ::
    "source_account_ref \<Rightarrow> string \<Rightarrow> thread_search_cursor option \<Rightarrow> u16 \<Rightarrow> retrieval_visibility \<Rightarrow>
       ('w, thread_search_page) store_read"
  rs_find_reference_candidates ::
    "source_account_ref \<Rightarrow> string \<Rightarrow> reference_context \<Rightarrow> ('w, reference_candidate list) store_read"
  rs_list_upcoming :: "source_account_ref \<Rightarrow> u64 \<Rightarrow> ('w, upcoming_item list) store_read"
  rs_secretary_status :: "source_account_ref \<Rightarrow> ('w, secretary_status_view) store_read"
  rs_list_pending_owner_work :: "source_account_ref \<Rightarrow> u16 \<Rightarrow> ('w, pending_owner_work_item list) store_read"
  rs_list_pending_owner_work_page ::
    "source_account_ref \<Rightarrow> pending_owner_work_cursor option \<Rightarrow> u16 \<Rightarrow> ('w, pending_owner_work_page) store_read"
  rs_thread_context :: "source_account_ref \<Rightarrow> event_thread_id \<Rightarrow> ('w, thread_context_view option) store_read"
  rs_thread_decision_revisions ::
    "source_account_ref \<Rightarrow> event_thread_id \<Rightarrow> thread_decision_revision_cursor option \<Rightarrow> u16 \<Rightarrow>
       ('w, thread_decision_revision_page) store_read"
  rs_event_causal_context ::
    "source_account_ref \<Rightarrow> source_event_id \<Rightarrow> ('w, event_causal_context_view option) store_read"
  rs_participant_context ::
    "source_account_ref \<Rightarrow> string \<Rightarrow> conversation_ref option \<Rightarrow> event_thread_id option \<Rightarrow>
       ('w, participant_context_view option) store_read"
  rs_participant_context_by_ref ::
    "account_scoped_participant_ref \<Rightarrow> conversation_ref option \<Rightarrow> event_thread_id option \<Rightarrow>
       ('w, participant_context_view option) store_read"
  rs_participants_by_display_name ::
    "source_account_ref \<Rightarrow> string \<Rightarrow> conversation_ref option \<Rightarrow> event_thread_id option \<Rightarrow> u16 \<Rightarrow>
       ('w, account_scoped_participant_ref list) store_read"
  rs_list_projects :: "source_account_ref \<Rightarrow> u16 \<Rightarrow> ('w, project_memory_summary list) store_read"
  rs_query_project :: "source_account_ref \<Rightarrow> string \<Rightarrow> ('w, project_context_view option) store_read"
  rs_list_commitments :: "commitment_query \<Rightarrow> ('w, commitment_summary list) store_read"

text \<open>The bodies the trait gives the paged reads of a store without paging.\<close>

definition default_search_threads_page ::
  "(source_account_ref \<Rightarrow> string \<Rightarrow> u16 \<Rightarrow> retrieval_visibility \<Rightarrow> ('w, thread_search_result list) store_read) \<Rightarrow>
     source_account_ref \<Rightarrow> string \<Rightarrow> thread_search_cursor option \<Rightarrow> u16 \<Rightarrow> retrieval_visibility \<Rightarrow>
     ('w, thread_search_page) store_read" where
  "default_search_threads_page search account q cursor limit vis =
     seq (lift_r (ensure (cursor = None) (InvalidData ''thread search paging is not supported by this store''))) (\<lambda>_.
     seq (search account q limit vis) (\<lambda>ts. give \<lparr>tsp_threads = ts, tsp_next_cursor = None\<rparr>))"

definition default_list_pending_owner_work_page ::
  "(source_account_ref \<Rightarrow> u16 \<Rightarrow> ('w, pending_owner_work_item list) store_read) \<Rightarrow>
     source_account_ref \<Rightarrow> pending_owner_work_cursor option \<Rightarrow> u16 \<Rightarrow> ('w, pending_owner_work_page) store_read" where
  "default_list_pending_owner_work_page list_work account cursor limit =
     seq (lift_r (ensure (cursor = None) (InvalidData ''pending owner work paging is not supported by this store''))) (\<lambda>_.
     seq (list_work account limit) (\<lambda>items. give \<lparr>pwp_items = items, pwp_next_cursor = None\<rparr>))"

section \<open>The use case\<close>

datatype retriever_use_case_error =
    RetrieverStore inbound_event_store_error
  | RetrieverDomain retriever_error
  | RetrieverInvalidInput string

record 'w retriever_use_case =
  ru_store :: "'w retriever_store"
  ru_allow_local_only :: bool
  ru_clock :: "'w \<Rightarrow> i64"

definition from_store :: "('w, 'a) store_read \<Rightarrow> ('w, retriever_use_case_error, 'a) action" where
  "from_store m w = (case m w of (r, w') \<Rightarrow> (map_err RetrieverStore r, w'))"

definition invalid_unless :: "bool \<Rightarrow> string \<Rightarrow> ('w, retriever_use_case_error, unit) action" where
  "invalid_unless b msg = lift_r (ensure b (RetrieverInvalidInput msg))"

definition model_visibility :: "'w retriever_use_case \<Rightarrow> bool \<Rightarrow> retrieval_visibility" where
  "model_visibility u is_local_loopback = visibility_for_model is_local_loopback (ru_allow_local_only u)"

definition uc_list_recent_event_views ::
  "'w retriever_use_case \<Rightarrow> source_account_ref \<Rightarrow> u16 \<Rightarrow> bool \<Rightarrow>
     ('w, retriever_use_case_error, agent_event_view list) action" where
  "uc_list_recent_event_views u account limit is_local_loopback =
     from_store (rs_list_recent_event_views (ru_store u) account limit (model_visibility u is_local_loopback))"

definition uc_search_events ::
  "'w retriever_use_case \<Rightarrow> event_query \<Rightarrow> bool \<Rightarrow>
     ('w, retriever_use_case_error, event_search_result list) action" where
  "uc_search_events u q is_local_loopback =
     seq (lift_r (map_err RetrieverDomain (validate_event_query q))) (\<lambda>_.
       from_store (rs_search_events (ru_store u) q (model_visibility u is_local_loopback)))"

definition uc_read_source_event ::
  "'w retriever_use_case \<Rightarrow> source_event_id \<Rightarrow> source_account_ref \<Rightarrow>
     ('w, retriever_use_case_error, source_event_detail option) action" where
  "uc_read_source_event u i account =
     from_store (rs_read_source_event (ru_store u) i account InternalMetadata)"

definition uc_read_source_event_for_model ::
  "'w retriever_use_case \<Rightarrow> source_event_id \<Rightarrow> source_account_ref \<Rightarrow> bool \<Rightarrow>
     ('w, retriever_use_case_error, source_event_detail option) action" where
  "uc_read_source_event_for_model u i account is_local_loopback =
     from_store (rs_read_source_event (ru_store u) i account (model_visibility u is_local_loopback))"

definition limit_within :: "nat \<Rightarrow> nat \<Rightarrow> u16 \<Rightarrow> bool" where
  "limit_within lo hi n \<longleftrightarrow> lo \<le> unat n \<and> unat n \<le> hi"

definition uc_search_threads ::
  "'w retriever_use_case \<Rightarrow> source_account_ref \<Rightarrow> string \<Rightarrow> u16 \<Rightarrow>
     ('w, retriever_use_case_error, thread_search_result list) action" where
  "uc_search_threads u account q limit =
     seq (invalid_unless (\<not> is_blank q) ''query_text must not be empty'') (\<lambda>_.
     seq (invalid_unless (limit_within 1 100 limit) ''limit must be in 1..=100'') (\<lambda>_.
       from_store (rs_search_threads (ru_store u) account q limit NormalOnly)))"

definition validate_thread_search_page ::
  "string \<Rightarrow> thread_search_cursor option \<Rightarrow> u16 \<Rightarrow> ('w, retriever_use_case_error, unit) action" where
  "validate_thread_search_page q cursor limit =
     seq (invalid_unless (trim q \<noteq> []) ''query_text must not be empty'') (\<lambda>_.
     seq (invalid_unless (limit_within 1 100 limit) ''limit must be in 1..=100'') (\<lambda>_.
       invalid_unless (\<not> is_some_and cursor (\<lambda>c. tsc_query_text c \<noteq> trim q))
         ''thread search cursor does not belong to this query''))"

definition uc_search_threads_page ::
  "'w retriever_use_case \<Rightarrow> source_account_ref \<Rightarrow> string \<Rightarrow> thread_search_cursor option \<Rightarrow> u16 \<Rightarrow>
     ('w, retriever_use_case_error, thread_search_page) action" where
  "uc_search_threads_page u account q cursor limit =
     seq (validate_thread_search_page q cursor limit) (\<lambda>_.
       from_store (rs_search_threads_page (ru_store u) account (trim q) cursor limit NormalOnly))"

definition uc_search_threads_for_model ::
  "'w retriever_use_case \<Rightarrow> source_account_ref \<Rightarrow> string \<Rightarrow> u16 \<Rightarrow> bool \<Rightarrow>
     ('w, retriever_use_case_error, thread_search_result list) action" where
  "uc_search_threads_for_model u account q limit is_local_loopback =
     seq (invalid_unless (\<not> is_blank q) ''query_text must not be empty'') (\<lambda>_.
     seq (invalid_unless (limit_within 1 100 limit) ''limit must be in 1..=100'') (\<lambda>_.
       from_store (rs_search_threads (ru_store u) account q limit (model_visibility u is_local_loopback))))"

definition uc_search_threads_page_for_model ::
  "'w retriever_use_case \<Rightarrow> source_account_ref \<Rightarrow> string \<Rightarrow> thread_search_cursor option \<Rightarrow> u16 \<Rightarrow> bool \<Rightarrow>
     ('w, retriever_use_case_error, thread_search_page) action" where
  "uc_search_threads_page_for_model u account q cursor limit is_local_loopback =
     seq (validate_thread_search_page q cursor limit) (\<lambda>_.
       from_store (rs_search_threads_page (ru_store u) account (trim q) cursor limit
                     (model_visibility u is_local_loopback)))"

definition uc_list_upcoming ::
  "'w retriever_use_case \<Rightarrow> source_account_ref \<Rightarrow> u64 \<Rightarrow>
     ('w, retriever_use_case_error, upcoming_item list) action" where
  "uc_list_upcoming u account horizon =
     seq (invalid_unless (\<not> (horizon = 0 \<or> 31536000 < horizon)) ''horizon_secs must be in 1..=31536000'') (\<lambda>_.
       from_store (rs_list_upcoming (ru_store u) account horizon))"

definition uc_secretary_status ::
  "'w retriever_use_case \<Rightarrow> source_account_ref \<Rightarrow>
     ('w, retriever_use_case_error, secretary_status_view) action" where
  "uc_secretary_status u account = from_store (rs_secretary_status (ru_store u) account)"

definition uc_list_pending_owner_work ::
  "'w retriever_use_case \<Rightarrow> source_account_ref \<Rightarrow> u16 \<Rightarrow>
     ('w, retriever_use_case_error, pending_owner_work_item list) action" where
  "uc_list_pending_owner_work u account limit =
     seq (invalid_unless (limit_within 1 20 limit) ''pending owner work limit must be in 1..=20'') (\<lambda>_.
       from_store (rs_list_pending_owner_work (ru_store u) account limit))"

definition uc_list_pending_owner_work_page ::
  "'w retriever_use_case \<Rightarrow> source_account_ref \<Rightarrow> pending_owner_work_cursor option \<Rightarrow> u16 \<Rightarrow>
     ('w, retriever_use_case_error, pending_owner_work_page) action" where
  "uc_list_pending_owner_work_page u account cursor limit =
     seq (invalid_unless (limit_within 1 20 limit) ''pending owner work limit must be in 1..=20'') (\<lambda>_.
       from_store (rs_list_pending_owner_work_page (ru_store u) account cursor limit))"

definition uc_thread_context ::
  "'w retriever_use_case \<Rightarrow> source_account_ref \<Rightarrow> event_thread_id \<Rightarrow>
     ('w, retriever_use_case_error, thread_context_view option) action" where
  "uc_thread_context u account t = from_store (rs_thread_context (ru_store u) account t)"

definition uc_thread_decision_revisions ::
  "'w retriever_use_case \<Rightarrow> source_account_ref \<Rightarrow> event_thread_id \<Rightarrow>
     thread_decision_revision_cursor option \<Rightarrow> u16 \<Rightarrow>
     ('w, retriever_use_case_error, thread_decision_revision_page) action" where
  "uc_thread_decision_revisions u account t cursor limit =
     seq (invalid_unless (limit_within 1 50 limit) ''decision revision page limit must be in 1..=50'') (\<lambda>_.
     seq (invalid_unless (\<not> is_some_and cursor (\<lambda>c. drc_thread_id c \<noteq> t))
            ''decision revision cursor belongs to another thread'') (\<lambda>_.
       from_store (rs_thread_decision_revisions (ru_store u) account t cursor limit)))"

section \<open>Contexts that fail closed\<close>

definition join_violations :: "string list \<Rightarrow> string" where
  "join_violations vs =
     (case vs of [] \<Rightarrow> [] | v # rest \<Rightarrow> v @ concat (map (\<lambda>x. ''; '' @ x) rest))"

definition reject_violations :: "string \<Rightarrow> string list \<Rightarrow> (retriever_error, unit) result" where
  "reject_violations prefix vs = ensure (vs = []) (RetrieverInvalidData (prefix @ join_violations vs))"

definition checked_view ::
  "('v \<Rightarrow> (retriever_error, unit) result) \<Rightarrow> string \<Rightarrow> ('v \<Rightarrow> string list) \<Rightarrow> 'v option \<Rightarrow>
     (retriever_use_case_error, 'v option) result" where
  "checked_view valid prefix violations view =
     (case view of
        None \<Rightarrow> Ok None
      | Some v \<Rightarrow>
          map_err RetrieverDomain
            (bind_r (valid v) (\<lambda>_. bind_r (reject_violations prefix (violations v)) (\<lambda>_. Ok (Some v)))))"

definition uc_event_causal_context ::
  "'w retriever_use_case \<Rightarrow> source_account_ref \<Rightarrow> source_event_id \<Rightarrow>
     ('w, retriever_use_case_error, event_causal_context_view option) action" where
  "uc_event_causal_context u account i =
     seq (from_store (rs_event_causal_context (ru_store u) account i)) (\<lambda>view.
       lift_r (checked_view validate_causal_context ''causal role strictness violations: ''
                 check_causal_role_strictness view))"

definition checked_participant ::
  "participant_context_view option \<Rightarrow> (retriever_use_case_error, participant_context_view option) result" where
  "checked_participant view =
     checked_view validate_participant_context ''participant permission boundary violations: ''
       check_participant_permission_boundary view"

definition uc_participant_context ::
  "'w retriever_use_case \<Rightarrow> source_account_ref \<Rightarrow> string \<Rightarrow> conversation_ref option \<Rightarrow>
     event_thread_id option \<Rightarrow> ('w, retriever_use_case_error, participant_context_view option) action" where
  "uc_participant_context u account aid conv t =
     seq (invalid_unless (\<not> is_blank aid) ''actor_id must not be empty'') (\<lambda>_.
     seq (from_store (rs_participant_context (ru_store u) account aid conv t)) (\<lambda>view.
       lift_r (checked_participant view)))"

definition uc_participant_context_by_ref ::
  "'w retriever_use_case \<Rightarrow> account_scoped_participant_ref \<Rightarrow> conversation_ref option \<Rightarrow>
     event_thread_id option \<Rightarrow> ('w, retriever_use_case_error, participant_context_view option) action" where
  "uc_participant_context_by_ref u p conv t =
     seq (invalid_unless (\<not> is_blank (asp_stable_id p)) ''participant stable_id must not be empty'') (\<lambda>_.
     seq (from_store (rs_participant_context_by_ref (ru_store u) p conv t)) (\<lambda>view.
       lift_r (checked_participant view)))"

definition uc_participants_by_display_name ::
  "'w retriever_use_case \<Rightarrow> source_account_ref \<Rightarrow> string \<Rightarrow> conversation_ref option \<Rightarrow>
     event_thread_id option \<Rightarrow> u16 \<Rightarrow>
     ('w, retriever_use_case_error, account_scoped_participant_ref list) action" where
  "uc_participants_by_display_name u account nm conv t limit =
     (let n = trim nm in
      seq (invalid_unless (\<not> (n = [] \<or> 200 < char_count n)) ''name must be non-empty and bounded to 200 chars'') (\<lambda>_.
        from_store (rs_participants_by_display_name (ru_store u) account n conv t (max 1 (min 5 limit)))))"

section \<open>References\<close>

datatype context_reference_intent =
  CurrentMessage | PreviousMessage | ReplyParent | ReplyParentActor | CurrentThread | ThreadStarter

text \<open>The characters that do not count: white space and six punctuation marks. The front of a string
  is looked at byte by byte; a continuation byte starts neither.\<close>

definition reference_punctuation :: "string list" where
  "reference_punctuation =
     [utf8 [0xFF0C], utf8 [0x3002], utf8 [0xFF1F], ''?'', utf8 [0xFF01], ''!'']"

definition ignored_front :: "string \<Rightarrow> nat" where
  "ignored_front s =
     (case find (\<lambda>p. take (length p) s = p) reference_punctuation of
        Some p \<Rightarrow> length p
      | None \<Rightarrow> ws_front s)"

function squeeze :: "string \<Rightarrow> string" where
  "squeeze [] = []"
| "squeeze (c # s) =
     (if ignored_front (c # s) = 0 then c # squeeze s else squeeze (drop (ignored_front (c # s) - 1) s))"
  by pat_completeness auto
termination by (relation "measure length") (simp_all add: less_Suc_eq_le)

definition classify_context_reference :: "string \<Rightarrow> context_reference_intent option" where
  "classify_context_reference expression =
     (let n = squeeze (trim expression) in
      if n \<in> set [utf8 [0x8FD9, 0x6761, 0x6D88, 0x606F], utf8 [0x5F53, 0x524D, 0x6D88, 0x606F],
          utf8 [0x672C, 0x6761, 0x6D88, 0x606F]] then Some CurrentMessage
      else if n \<in> set [utf8 [0x4E0A, 0x4E00, 0x6761], utf8 [0x4E0A, 0x4E00, 0x6761, 0x6D88, 0x606F],
          utf8 [0x524D, 0x4E00, 0x6761, 0x6D88, 0x606F], utf8 [0x521A, 0x624D, 0x90A3, 0x6761, 0x6D88,
          0x606F]] then Some PreviousMessage
      else if n \<in> set [utf8 [0x56DE, 0x590D, 0x7684, 0x539F, 0x6D88, 0x606F], utf8 [0x6211, 0x56DE, 0x590D,
          0x7684, 0x539F, 0x6D88, 0x606F], utf8 [0x88AB, 0x56DE, 0x590D, 0x7684, 0x6D88, 0x606F], utf8 [0x56DE,
          0x590D, 0x7236, 0x6D88, 0x606F]] then Some ReplyParent
      else if n \<in> set [utf8 [0x88AB, 0x56DE, 0x590D, 0x7684, 0x4EBA], utf8 [0x539F, 0x6D88, 0x606F, 0x53D1,
          0x9001, 0x8005], utf8 [0x56DE, 0x590D, 0x5BF9, 0x8C61]] then Some ReplyParentActor
      else if n \<in> set [utf8 [0x8FD9, 0x4E2A, 0x7EBF, 0x7A0B], utf8 [0x5F53, 0x524D, 0x7EBF, 0x7A0B],
          utf8 [0x8FD9, 0x4E2A, 0x8BDD, 0x9898], utf8 [0x5F53, 0x524D, 0x8BDD, 0x9898]] then Some CurrentThread
      else if n \<in> set [utf8 [0x7EBF, 0x7A0B, 0x53D1, 0x8D77, 0x4EBA], utf8 [0x8FD9, 0x4E2A, 0x7EBF, 0x7A0B,
          0x7684, 0x53D1, 0x8D77, 0x4EBA], utf8 [0x8BDD, 0x9898, 0x53D1, 0x8D77, 0x4EBA], utf8 [0x8FD9, 0x4E2A,
          0x8BDD, 0x9898, 0x7684, 0x53D1, 0x8D77, 0x4EBA]] then Some ThreadStarter
      else None)"

definition unresolved_reference :: "string \<Rightarrow> reference_resolution" where
  "unresolved_reference evidence =
     \<lparr>rr_actor_id = None, rr_thread_id = None, rr_event_ids = [], rr_ambiguous = True, rr_evidence = evidence\<rparr>"

text \<open>The loop over the recent events, newest first.\<close>

primrec find_previous_message ::
  "'w retriever_use_case \<Rightarrow> reference_context \<Rightarrow> conversation_ref \<Rightarrow> recent_event_ref list \<Rightarrow>
     ('w, retriever_use_case_error, reference_resolution) action" where
  "find_previous_message u cx conv [] =
     give (unresolved_reference (utf8 [0x5F53, 0x524D, 0x4F1A, 0x8BDD, 0x5185, 0x6CA1, 0x6709, 0x53EF, 0x8BC1,
         0x660E, 0x7684, 0x4E0A, 0x4E00, 0x6761, 0x6D88, 0x606F, 0xFF0C, 0x9700] @ '' Owner '' @ utf8 [0x6F84,
         0x6E05]))"
| "find_previous_message u cx conv (e # es) =
     (if Some (rer_source_event_id e) = rx_current_event_id cx then find_previous_message u cx conv es
      else
        seq (from_store (rs_read_source_event (ru_store u) (rer_source_event_id e) (rx_account cx) NormalOnly)) (\<lambda>d.
          case d of
            Some detail \<Rightarrow>
              if sed_conversation detail = conv
              then give \<lparr>rr_actor_id = None, rr_thread_id = sed_thread_id detail,
                         rr_event_ids = [rer_source_event_id e], rr_ambiguous = False,
                         rr_evidence = utf8 [0x7531, 0x5F53, 0x524D, 0x8FD0, 0x884C, 0x7684, 0x6709, 0x754C,
                             0x6700, 0x8FD1, 0x7A97, 0x53E3, 0x89E3, 0x6790, 0x4E0A, 0x4E00, 0x6761, 0x6D88,
                             0x606F]\<rparr>
              else find_previous_message u cx conv es
          | None \<Rightarrow> find_previous_message u cx conv es))"

definition resolve_reply_parent ::
  "bool \<Rightarrow> event_causal_context_view \<Rightarrow> reference_resolution" where
  "resolve_reply_parent want_actor causal =
     (case ecv_reply_parent causal of
        Some parent \<Rightarrow>
          \<lparr>rr_actor_id = (if want_actor then map_option pid_stable_id (cer_sender parent) else None),
           rr_thread_id = map_option ctr_thread_id (ecv_thread causal),
           rr_event_ids = [cer_source_event_id parent],
           rr_ambiguous = (want_actor \<and> cer_sender parent = None),
           rr_evidence = (if want_actor then utf8 [0x7531, 0x5DF2, 0x786E,
               0x8BA4] @ '' replies_to '' @ utf8 [0x5173, 0x7CFB, 0x89E3, 0x6790, 0x88AB, 0x56DE, 0x590D,
               0x8005]
                          else utf8 [0x7531, 0x5DF2, 0x786E, 0x8BA4] @ '' replies_to '' @ utf8 [0x5173, 0x7CFB,
                              0x89E3, 0x6790, 0x56DE, 0x590D, 0x7236, 0x6D88, 0x606F])\<rparr>
      | None \<Rightarrow> unresolved_reference (utf8 [0x5F53, 0x524D, 0x6D88, 0x606F, 0x6CA1, 0x6709, 0x5DF2,
          0x786E, 0x8BA4, 0x7684, 0x56DE, 0x590D, 0x7236, 0x6D88, 0x606F, 0xFF0C,
          0x9700] @ '' Owner '' @ utf8 [0x6F84, 0x6E05]))"

definition resolve_thread_reference ::
  "bool \<Rightarrow> event_causal_context_view \<Rightarrow> reference_resolution" where
  "resolve_thread_reference want_starter causal =
     (case ecv_thread causal of
        Some t \<Rightarrow>
          \<lparr>rr_actor_id = (if want_starter then map_option pid_stable_id (ctr_root_sender t) else None),
           rr_thread_id = Some (ctr_thread_id t),
           rr_event_ids = [ctr_root_event_id t],
           rr_ambiguous = (want_starter \<and> ctr_root_sender t = None),
           rr_evidence = (if want_starter then utf8 [0x7531, 0x6709, 0x6548, 0x7EBF, 0x7A0B, 0x6839, 0x4E8B,
               0x4EF6, 0x89E3, 0x6790, 0x7EBF, 0x7A0B, 0x53D1, 0x8D77, 0x4EBA]
                          else utf8 [0x7531, 0x6709, 0x6548, 0x7EBF, 0x7A0B, 0x6295, 0x5F71, 0x89E3, 0x6790,
                              0x5F53, 0x524D, 0x7EBF, 0x7A0B])\<rparr>
      | None \<Rightarrow> unresolved_reference (utf8 [0x5F53, 0x524D, 0x6D88, 0x606F, 0x6CA1, 0x6709, 0x6709,
          0x6548, 0x7EBF, 0x7A0B, 0x5F52, 0x5C5E, 0xFF0C, 0x9700] @ '' Owner '' @ utf8 [0x6F84, 0x6E05]))"

definition resolve_from_causal ::
  "context_reference_intent \<Rightarrow> event_causal_context_view \<Rightarrow>
     (retriever_use_case_error, reference_resolution) result" where
  "resolve_from_causal intent causal =
     (case intent of
        ReplyParent \<Rightarrow> Ok (resolve_reply_parent False causal)
      | ReplyParentActor \<Rightarrow> Ok (resolve_reply_parent True causal)
      | CurrentThread \<Rightarrow> Ok (resolve_thread_reference False causal)
      | ThreadStarter \<Rightarrow> Ok (resolve_thread_reference True causal)
      | CurrentMessage \<Rightarrow> Panic
      | PreviousMessage \<Rightarrow> Panic)"

definition resolve_intent ::
  "'w retriever_use_case \<Rightarrow> reference_context \<Rightarrow> context_reference_intent \<Rightarrow>
     ('w, retriever_use_case_error, reference_resolution) action" where
  "resolve_intent u cx intent =
     (if intent = PreviousMessage
      then
        (case rx_current_conversation cx of
           None \<Rightarrow> give (unresolved_reference (utf8 [0x672A, 0x63D0, 0x4F9B, 0x5F53, 0x524D, 0x4F1A,
               0x8BDD, 0xFF0C, 0x4E0D, 0x80FD, 0x4ECE, 0x8D26, 0x53F7, 0x7EA7, 0x6700, 0x8FD1, 0x7A97, 0x53E3,
               0x731C, 0x6D4B, 0x4E0A, 0x4E00, 0x6761, 0x6D88, 0x606F]))
         | Some conv \<Rightarrow> find_previous_message u cx conv (rev (rx_recent_events cx)))
      else
        (case rx_current_event_id cx of
           None \<Rightarrow> give (unresolved_reference (utf8 [0x5F53, 0x524D, 0x8FD0, 0x884C, 0x7F3A, 0x5C11,
               0x6743, 0x5A01, 0x547D, 0x4EE4, 0x4E8B, 0x4EF6, 0xFF0C, 0x4E0D, 0x80FD, 0x89E3, 0x6790, 0x4E0A,
               0x4E0B, 0x6587, 0x6307, 0x4EE3]))
         | Some cur \<Rightarrow>
             if intent = CurrentMessage
             then give \<lparr>rr_actor_id = None, rr_thread_id = rx_current_thread_id cx, rr_event_ids = [cur],
                        rr_ambiguous = False, rr_evidence = utf8 [0x7531, 0x5F53, 0x524D, 0x8FD0, 0x884C,
                            0x7684, 0x6743, 0x5A01, 0x547D, 0x4EE4, 0x4E8B, 0x4EF6, 0x89E3, 0x6790, 0x5F53,
                            0x524D, 0x6D88, 0x606F]\<rparr>
             else
               seq (uc_event_causal_context u (rx_account cx) cur) (\<lambda>view.
                 case view of
                   None \<Rightarrow> give (unresolved_reference (utf8 [0x5F53, 0x524D, 0x4E8B, 0x4EF6, 0x6CA1,
                       0x6709, 0x53EF, 0x9A8C, 0x8BC1, 0x7684, 0x56E0, 0x679C, 0x4E0A, 0x4E0B, 0x6587, 0xFF0C,
                       0x9700] @ '' Owner '' @ utf8 [0x6F84, 0x6E05]))
                 | Some causal \<Rightarrow> lift_r (resolve_from_causal intent causal))))"

definition resolve_bounded_context_reference ::
  "'w retriever_use_case \<Rightarrow> string \<Rightarrow> reference_context \<Rightarrow>
     ('w, retriever_use_case_error, reference_resolution option) action" where
  "resolve_bounded_context_reference u expression cx =
     (case classify_context_reference expression of
        None \<Rightarrow> give None
      | Some intent \<Rightarrow> seq (resolve_intent u cx intent) (\<lambda>r. give (Some r)))"

definition uc_resolve_reference ::
  "'w retriever_use_case \<Rightarrow> source_account_ref \<Rightarrow> string \<Rightarrow> reference_context \<Rightarrow>
     ('w, retriever_use_case_error, reference_resolution) action" where
  "uc_resolve_reference u account expression cx =
     seq (invalid_unless (rx_account cx = account) ''reference context account must match the requested account'') (\<lambda>_.
     seq (invalid_unless (\<not> is_blank expression) ''expression must not be empty'') (\<lambda>_.
     seq (resolve_bounded_context_reference u expression cx) (\<lambda>bounded.
       case bounded of
         Some r \<Rightarrow> give r
       | None \<Rightarrow>
           seq (from_store (rs_find_reference_candidates (ru_store u) account expression cx)) (\<lambda>candidates.
             give (resolve_reference_from_candidates candidates cx)))))"

section \<open>Policy, projects and commitments\<close>

definition uc_is_allowed_for_model :: "'w retriever_use_case \<Rightarrow> content_trust_level \<Rightarrow> bool \<Rightarrow> bool" where
  "uc_is_allowed_for_model u trust is_local_loopback =
     is_allowed_for_model trust is_local_loopback (ru_allow_local_only u)"

definition uc_list_projects ::
  "'w retriever_use_case \<Rightarrow> source_account_ref \<Rightarrow> u16 \<Rightarrow>
     ('w, retriever_use_case_error, project_memory_summary list) action" where
  "uc_list_projects u account limit =
     seq (invalid_unless (limit_within 1 20 limit) ''project list limit must be in 1..=20'') (\<lambda>_.
       from_store (rs_list_projects (ru_store u) account limit))"

definition uc_query_project ::
  "'w retriever_use_case \<Rightarrow> source_account_ref \<Rightarrow> string \<Rightarrow>
     ('w, retriever_use_case_error, project_context_view option) action" where
  "uc_query_project u account key =
     seq (invalid_unless (\<not> (is_blank key \<or> 191 < char_count key)) ''project_key must be non-empty and bounded'') (\<lambda>_.
       from_store (rs_query_project (ru_store u) account key))"

definition uc_list_commitments ::
  "'w retriever_use_case \<Rightarrow> commitment_query \<Rightarrow>
     ('w, retriever_use_case_error, commitment_summary list) action" where
  "uc_list_commitments u q =
     seq (invalid_unless (limit_within 1 100 (cq_limit q)) ''commitment query limit must be in 1..=100'') (\<lambda>_.
       from_store (rs_list_commitments (ru_store u) q))"

definition uc_now_unix_secs :: "'w retriever_use_case \<Rightarrow> 'w \<Rightarrow> i64" where
  "uc_now_unix_secs u w = ru_clock u w"

end
