(* ===== verification/Memory.thy ===== *)
theory Memory
  imports Secretary_Types
begin

text \<open>
  Long-term memory (\<open>personal-secretary/src/domain/memory.rs\<close>,
  \<open>application/memory_service.rs\<close>): the validation of facts and payloads, deletion and mode inputs,
  and the use case over its store. The payload types are in \<open>Secretary_Types\<close>.
\<close>

section \<open>Receipts and inputs\<close>

primrec memory_fact_error_display :: "memory_fact_error \<Rightarrow> string" where
  "memory_fact_error_display (InvalidMemoryFact s) = ''invalid memory fact: '' @ s"

primrec memory_fact_status_str :: "memory_fact_status \<Rightarrow> string" where
  "memory_fact_status_str FactProposed = ''proposed''"
| "memory_fact_status_str FactConfirmed = ''confirmed''"
| "memory_fact_status_str FactSuperseded = ''superseded''"
| "memory_fact_status_str FactExpired = ''expired''"
| "memory_fact_status_str FactDeleted = ''deleted''"

primrec commitment_status_str :: "commitment_status \<Rightarrow> string" where
  "commitment_status_str CommitmentProposed = ''proposed''"
| "commitment_status_str CommitmentPending = ''pending''"
| "commitment_status_str CommitmentFulfilled = ''fulfilled''"
| "commitment_status_str CommitmentCancelled = ''cancelled''"

record memory_write_receipt =
  mwr_fact_id :: memory_fact_id
  mwr_changed :: bool

record memory_delete_input =
  mdi_fact_id :: memory_fact_id
  mdi_command_source_event_id :: source_event_id
  mdi_reason :: string

record memory_delete_receipt =
  mdr_fact_id :: memory_fact_id
  mdr_changed :: bool

record conversation_memory_mode_input =
  cmi_account :: source_account_ref
  cmi_conversation :: conversation_ref
  cmi_command_source_event_id :: source_event_id
  cmi_mode :: content_trust_level

record derived_state_invalidation =
  dsi_semantic_claims :: u64
  dsi_semantic_decisions :: u64
  dsi_open_questions :: u64
  dsi_response_expectations :: u64
  dsi_thread_link_candidates :: u64
  dsi_memory_candidates :: u64
  dsi_memory_facts :: u64
  dsi_follow_ups :: u64
  dsi_notification_outbox :: u64
  dsi_participant_profiles :: u64
  dsi_participant_observations :: u64
  dsi_owner_response_drafts :: u64
  dsi_revoked_action_runs :: u64
  dsi_reopened_threads :: u64
  dsi_revoked_worker_leases :: u64

record conversation_memory_mode_receipt =
  cmr_changed :: bool
  cmr_previous_mode :: content_trust_level
  cmr_current_mode :: content_trust_level
  cmr_invalidated :: derived_state_invalidation

definition invalidation_counts :: "derived_state_invalidation \<Rightarrow> u64 list" where
  "invalidation_counts d =
     [dsi_semantic_claims d, dsi_semantic_decisions d, dsi_open_questions d, dsi_response_expectations d,
      dsi_thread_link_candidates d, dsi_memory_candidates d, dsi_memory_facts d, dsi_follow_ups d,
      dsi_notification_outbox d, dsi_participant_profiles d, dsi_participant_observations d,
      dsi_owner_response_drafts d, dsi_revoked_action_runs d, dsi_reopened_threads d,
      dsi_revoked_worker_leases d]"

definition invalidation_total :: "derived_state_invalidation \<Rightarrow> u64" where
  "invalidation_total d =
     fold (\<lambda>x acc. saturating_add acc x) (tl (invalidation_counts d)) (hd (invalidation_counts d))"

section \<open>Validation\<close>

type_synonym fact_check = "(memory_fact_error, unit) result"

definition fact_unless :: "bool \<Rightarrow> string \<Rightarrow> fact_check" where
  "fact_unless b msg = ensure b (InvalidMemoryFact msg)"

definition memory_text :: "string \<Rightarrow> string \<Rightarrow> nat \<Rightarrow> fact_check" where
  "memory_text field v hi =
     fact_unless (\<not> (is_blank v \<or> hi < char_count v))
       (field @ '' must contain 1..='' @ decimal hi @ '' characters'')"

definition memory_optional_text :: "string \<Rightarrow> string option \<Rightarrow> nat \<Rightarrow> fact_check" where
  "memory_optional_text field v hi = (case v of Some t \<Rightarrow> memory_text field t hi | None \<Rightarrow> Ok ())"

definition memory_text_list :: "string \<Rightarrow> string list \<Rightarrow> nat \<Rightarrow> nat \<Rightarrow> fact_check" where
  "memory_text_list field vs items hi =
     bind_r (fact_unless (\<not> items < length vs) (field @ '' must not exceed '' @ decimal items @ '' items'')) (\<lambda>_.
       all_ok (\<lambda>v. memory_text field v hi) vs)"

definition ensure_actor_account :: "source_account_ref \<Rightarrow> thread_actor_ref \<Rightarrow> fact_check" where
  "ensure_actor_account account a =
     bind_r (fact_unless (tar_account a = account) ''memory actor must belong to the managed account scope'') (\<lambda>_.
       memory_text ''actor_id'' (tar_actor_id a) 191)"

definition validate_memory_delete :: "memory_delete_input \<Rightarrow> fact_check" where
  "validate_memory_delete i = memory_text ''memory delete reason'' (mdi_reason i) 1000"

definition validate_person :: "source_account_ref \<Rightarrow> person_memory \<Rightarrow> fact_check" where
  "validate_person account p =
     bind_r (ensure_actor_account account (pm_person p)) (\<lambda>_.
     bind_r (memory_optional_text ''relationship'' (pm_relationship p) 1000) (\<lambda>_.
     bind_r (memory_text_list ''responsibilities'' (pm_responsibilities p) 50 1000) (\<lambda>_.
       memory_text_list ''communication_preferences'' (pm_communication_preferences p) 50 1000)))"

text \<open>The match on \<open>platform_identity_kind\<close> covers every kind and rejects none.\<close>

definition validate_project :: "project_memory \<Rightarrow> fact_check" where
  "validate_project p =
     bind_r (memory_text ''project_key'' (pj_project_key p) 191) (\<lambda>_.
     bind_r (memory_text ''goal'' (pj_goal p) 4000) (\<lambda>_.
     bind_r (memory_optional_text ''progress'' (pj_progress p) 4000) (\<lambda>_.
     bind_r (fact_unless (\<not> 100 < length (pj_member_actor_ids p)) ''member_actor_ids must not exceed 100 items'') (\<lambda>_.
     bind_r (all_ok (\<lambda>m. fact_unless (\<not> (is_blank m \<or> 191 < length m))
               (''member_actor_id '' @ m @ '' must contain 1..=191 bytes'')) (pj_member_actor_ids p)) (\<lambda>_.
     bind_r (fact_unless (\<not> 100 < length (pj_member_actor_refs p)) ''member_actor_refs must not exceed 100 items'') (\<lambda>_.
     bind_r (all_ok (\<lambda>m. fact_unless (\<not> (is_blank (pmr_actor_id m) \<or> 191 < length (pmr_actor_id m)))
               (''ProjectMemberRef.actor_id '' @ pmr_actor_id m @ '' must contain 1..=191 bytes''))
               (pj_member_actor_refs p)) (\<lambda>_.
     bind_r (memory_text_list ''risks'' (pj_risks p) 100 1000) (\<lambda>_.
     bind_r (memory_text_list ''blockers'' (pj_blockers p) 100 1000) (\<lambda>_.
       memory_text_list ''artifact_refs'' (pj_artifact_refs p) 100 1000)))))))))"

definition validate_commitment ::
  "source_account_ref \<Rightarrow> source_event_id list \<Rightarrow> commitment_memory \<Rightarrow> fact_check" where
  "validate_commitment account sources c =
     bind_r (ensure_actor_account account (cm_promisor c)) (\<lambda>_.
     bind_r (ensure_actor_account account (cm_beneficiary c)) (\<lambda>_.
     bind_r (memory_text ''commitment.action'' (cm_action c) 4000) (\<lambda>_.
     bind_r (fact_unless (\<not> (cm_status c = CommitmentFulfilled \<and> cm_completion_source c = None))
               ''fulfilled commitment requires completion evidence'') (\<lambda>_.
       fact_unless (case cm_completion_source c of Some e \<Rightarrow> e \<in> set sources | None \<Rightarrow> True)
         ''completion evidence must be included in source_event_ids''))))"

definition validate_memory_payload ::
  "memory_payload \<Rightarrow> source_account_ref \<Rightarrow> source_event_id list \<Rightarrow> fact_check" where
  "validate_memory_payload payload account sources =
     bind_r (fact_unless (\<not> (sources = [] \<or> 100 < length sources))
               ''memory fact must reference 1..=100 source events'') (\<lambda>_.
     bind_r (fact_unless (distinct sources) ''memory fact contains duplicate source events'') (\<lambda>_.
       (case payload of
          PersonPayload p \<Rightarrow> validate_person account p
        | ProjectPayload p \<Rightarrow> validate_project p
        | CommitmentPayload c \<Rightarrow> validate_commitment account sources c)))"

definition validate_memory_fact :: "memory_fact \<Rightarrow> fact_check" where
  "validate_memory_fact f =
     bind_r (fact_unless (\<not> (is_blank (mf_subject_key f) \<or> 191 < char_count (mf_subject_key f)))
               ''subject_key must contain 1..=191 characters'') (\<lambda>_.
     bind_r (fact_unless (mf_status f = FactProposed \<or> mf_status f = FactConfirmed)
               ''new memory fact status must be proposed or confirmed'') (\<lambda>_.
     bind_r (fact_unless (\<not> 10000 < mf_confidence_bps f) ''memory confidence_bps must not exceed 10000'') (\<lambda>_.
     bind_r (fact_unless (mf_supersedes f \<noteq> Some (mf_fact_id f)) ''memory fact cannot supersede itself'') (\<lambda>_.
       validate_memory_payload (mf_payload f) (mf_account f) (mf_source_event_ids f)))))"

section \<open>The use case\<close>

datatype memory_use_case_error =
    MemoryInvalidLimit
  | MemoryInvalidExcerptLimit
  | MemoryDomain memory_fact_error
  | MemoryStoreError inbound_event_store_error

record 'w fact_store =
  ms_append_fact :: "memory_fact \<Rightarrow> ('w, inbound_event_store_error, memory_write_receipt) action"
  ms_list_active :: "source_account_ref \<Rightarrow> u32 \<Rightarrow> ('w, inbound_event_store_error, memory_fact list) action"
  ms_expire_due :: "i64 \<Rightarrow> u32 \<Rightarrow> ('w, inbound_event_store_error, u64) action"
  ms_load_with_sources ::
    "memory_fact_id \<Rightarrow> u32 \<Rightarrow> ('w, inbound_event_store_error, memory_fact_view option) action"
  ms_delete_derived :: "memory_delete_input \<Rightarrow> ('w, inbound_event_store_error, memory_delete_receipt) action"
  ms_set_conversation_mode ::
    "conversation_memory_mode_input \<Rightarrow>
       ('w, inbound_event_store_error, conversation_memory_mode_receipt) action"

definition memory_call :: "('w, inbound_event_store_error, 'a) action \<Rightarrow> ('w, memory_use_case_error, 'a) action" where
  "memory_call m w = (case m w of (r, w') \<Rightarrow> (map_err MemoryStoreError r, w'))"

definition remember :: "'w fact_store \<Rightarrow> memory_fact \<Rightarrow> ('w, memory_use_case_error, memory_write_receipt) action" where
  "remember M f =
     seq (lift_r (map_err MemoryDomain (validate_memory_fact f))) (\<lambda>_. memory_call (ms_append_fact M f))"

definition memory_active ::
  "'w fact_store \<Rightarrow> source_account_ref \<Rightarrow> u32 \<Rightarrow> ('w, memory_use_case_error, memory_fact list) action" where
  "memory_active M account limit =
     seq (lift_r (ensure (1 \<le> limit \<and> limit \<le> 200) MemoryInvalidLimit)) (\<lambda>_.
       memory_call (ms_list_active M account limit))"

definition memory_evidence ::
  "'w fact_store \<Rightarrow> memory_fact_id \<Rightarrow> u32 \<Rightarrow> ('w, memory_use_case_error, memory_fact_view option) action" where
  "memory_evidence M i chars =
     seq (lift_r (ensure (1 \<le> chars \<and> chars \<le> 2000) MemoryInvalidExcerptLimit)) (\<lambda>_.
       memory_call (ms_load_with_sources M i chars))"

definition memory_delete_derived ::
  "'w fact_store \<Rightarrow> memory_delete_input \<Rightarrow> ('w, memory_use_case_error, memory_delete_receipt) action" where
  "memory_delete_derived M i =
     seq (lift_r (map_err MemoryDomain (validate_memory_delete i))) (\<lambda>_. memory_call (ms_delete_derived M i))"

definition memory_set_conversation_mode ::
  "'w fact_store \<Rightarrow> conversation_memory_mode_input \<Rightarrow>
     ('w, memory_use_case_error, conversation_memory_mode_receipt) action" where
  "memory_set_conversation_mode M i = memory_call (ms_set_conversation_mode M i)"

section \<open>Lemmas\<close>

lemma fact_unless_Ok [guard_simps]: "fact_unless b msg = Ok u \<longleftrightarrow> b"
  by (auto simp: fact_unless_def ensure_inv)

lemma fact_unless_Err [guard_simps]: "fact_unless b msg = Err e \<longleftrightarrow> \<not> b \<and> e = InvalidMemoryFact msg"
  by (auto simp: fact_unless_def ensure_def)

lemma memory_text_Ok [guard_simps]: "memory_text field v hi = Ok u \<longleftrightarrow> \<not> is_blank v \<and> char_count v \<le> hi"
  by (auto simp: memory_text_def guard_simps)

lemma ensure_actor_account_Ok [guard_simps]:
  "ensure_actor_account account a = Ok u \<longleftrightarrow>
     tar_account a = account \<and> \<not> is_blank (tar_actor_id a) \<and> char_count (tar_actor_id a) \<le> 191"
  by (auto simp: ensure_actor_account_def result_simps guard_simps)

text \<open>The payload of a confirmed commitment: pending and without completion.\<close>

lemma validate_commitment_pending:
  "validate_commitment account sources c = Ok u \<Longrightarrow>
     validate_commitment account sources (c\<lparr>cm_status := CommitmentPending, cm_completion_source := None\<rparr>) = Ok ()"
  by (auto simp: validate_commitment_def result_simps guard_simps)

lemma unat_fold_saturating:
  fixes xs :: "'w::len word list"
  shows "unat (fold (\<lambda>x acc. saturating_add acc x) xs a)
    = min (unat a + sum_list (map unat xs)) (2 ^ LENGTH('w) - 1)"
proof (induction xs arbitrary: a)
  case Nil
  have "unat a \<le> 2 ^ LENGTH('w) - 1" using unat_bound [of a] by linarith
  then show ?case by simp
next
  case (Cons x xs)
  have "unat (fold (\<lambda>x acc. saturating_add acc x) (x # xs) a)
      = min (min (unat a + unat x) (2 ^ LENGTH('w) - 1) + sum_list (map unat xs)) (2 ^ LENGTH('w) - 1)"
    using Cons.IH [of "saturating_add a x"] by (simp add: unat_saturating_add)
  also have "\<dots> = min (unat a + unat x + sum_list (map unat xs)) (2 ^ LENGTH('w) - 1)"
    by linarith
  finally show ?case by simp
qed

lemma invalidation_total_sum:
  "unat (invalidation_total d) = min (sum_list (map unat (invalidation_counts d))) (2 ^ 64 - 1)"
  using unat_fold_saturating [of "tl (invalidation_counts d)" "hd (invalidation_counts d)"]
  by (simp add: invalidation_total_def invalidation_counts_def)

end
