(* ===== verification/Memory_Candidate.thy ===== *)
theory Memory_Candidate
  imports Memory
begin

text \<open>
  Candidates for the memory (\<open>personal-secretary/src/domain/memory_candidate.rs\<close>,
  \<open>application/memory_candidate_service.rs\<close>): what an extractor may propose from one claimed batch
  of events, the check every proposal has to pass, the fact an approval makes of it, one scan of the
  worker, and the conservative extractor. The UUIDv5 of a candidate's canonical JSON text is the
  parameter \<open>fp\<close>, the JSON text of a payload the parameter \<open>json\<close>, \<open>Uuid::new_v4\<close> a supply.
\<close>

section \<open>Data\<close>

definition max_candidate_sources :: nat where "max_candidate_sources = 20"
definition max_candidate_payload_bytes :: nat where "max_candidate_payload_bytes = 16 * 1024"
definition initial_candidate_version :: u64 where "initial_candidate_version = 1"
definition approved_candidate_confidence_bps :: u16 where "approved_candidate_confidence_bps = 10000"
definition max_invalidate_per_scan :: u32 where "max_invalidate_per_scan = 500"
definition max_candidates_per_batch :: nat where "max_candidates_per_batch = 20"

lemmas candidate_bounds =
  max_candidate_sources_def max_candidate_payload_bytes_def initial_candidate_version_def
  approved_candidate_confidence_bps_def max_candidates_per_batch_def

primrec memory_candidate_kind_str :: "memory_candidate_kind \<Rightarrow> string" where
  "memory_candidate_kind_str PersonCandidate = ''person''"
| "memory_candidate_kind_str ProjectCandidate = ''project''"
| "memory_candidate_kind_str CommitmentCandidate = ''commitment''"

primrec memory_candidate_status_str :: "memory_candidate_status \<Rightarrow> string" where
  "memory_candidate_status_str CandidateProposed = ''proposed''"
| "memory_candidate_status_str CandidateApproved = ''approved''"
| "memory_candidate_status_str CandidateRejected = ''rejected''"
| "memory_candidate_status_str CandidateInvalidated = ''invalidated''"

definition memory_candidate_version_new :: "u64 \<Rightarrow> (memory_candidate_error, u64) result" where
  "memory_candidate_version_new v =
     (if v = 0 then Err (InvalidMemoryCandidate ''candidate version must be >= 1'') else Ok v)"

record memory_candidate_source =
  mcs_source_event_id :: source_event_id
  mcs_actor :: thread_actor_ref
  mcs_occurred_at :: i64
  mcs_trust_level :: content_trust_level

record memory_candidate =
  mc_candidate_id :: memory_candidate_id
  mc_account :: source_account_ref
  mc_subject_key :: string
  mc_payload :: memory_payload
  mc_status :: memory_candidate_status
  mc_version :: u64
  mc_extractor_version :: string
  mc_fingerprint :: string
  mc_sources :: "memory_candidate_source list"

record memory_candidate_event =
  mce_source_event_id :: source_event_id
  mce_actor :: thread_actor_ref
  mce_role :: message_role
  mce_occurred_at :: i64
  mce_trust_level :: content_trust_level
  mce_normalized_text :: string
  mce_content_omitted :: bool

record memory_candidate_cursor =
  mcu_received_at_micros :: i64
  mcu_source_event_id :: source_event_id

record memory_candidate_batch =
  mcb_account :: source_account_ref
  mcb_conversation :: conversation_ref
  mcb_lease_token :: string
  mcb_events :: "memory_candidate_event list"
  mcb_next_cursor :: memory_candidate_cursor

record memory_candidate_source_excerpt =
  mcx_source_event_id :: source_event_id
  mcx_actor_id :: string
  mcx_occurred_at :: i64
  mcx_trust_level :: content_trust_level

record memory_candidate_view =
  mcv_candidate_id :: memory_candidate_id
  mcv_kind :: memory_candidate_kind
  mcv_subject_key :: string
  mcv_status :: memory_candidate_status
  mcv_version :: u64
  mcv_payload :: memory_payload
  mcv_source_excerpts :: "memory_candidate_source_excerpt list"
  mcv_conflicts :: bool

primrec eligible_for_candidate_extraction :: "content_trust_level \<Rightarrow> bool \<Rightarrow> bool" where
  "eligible_for_candidate_extraction Normal allow_local_only = True"
| "eligible_for_candidate_extraction LocalOnly allow_local_only = allow_local_only"
| "eligible_for_candidate_extraction EnvelopeOnly allow_local_only = False"
| "eligible_for_candidate_extraction NeverLongTerm allow_local_only = False"

section \<open>Validation\<close>

type_synonym fingerprint_fun = "source_account_ref \<Rightarrow> memory_payload \<Rightarrow> string \<Rightarrow> string list \<Rightarrow> string \<Rightarrow> string"

definition candidate_fingerprint ::
  "fingerprint_fun \<Rightarrow> source_account_ref \<Rightarrow> memory_payload \<Rightarrow> string \<Rightarrow> memory_candidate_source list \<Rightarrow>
     string \<Rightarrow> string" where
  "candidate_fingerprint fp account payload subject sources version =
     fp account payload (trim subject)
       (remdups_adj (sort (map (\<lambda>s. event_str (mcs_source_event_id s)) sources))) version"

type_synonym candidate_check = "(memory_candidate_error, unit) result"

definition candidate_unless :: "bool \<Rightarrow> string \<Rightarrow> candidate_check" where
  "candidate_unless b msg = ensure b (InvalidMemoryCandidate msg)"

definition batch_event :: "memory_candidate_batch \<Rightarrow> source_event_id \<Rightarrow> memory_candidate_event option" where
  "batch_event b i = find (\<lambda>e. mce_source_event_id e = i) (mcb_events b)"

definition check_candidate_source :: "memory_candidate_batch \<Rightarrow> source_event_id list \<Rightarrow> memory_candidate_source \<Rightarrow> candidate_check" where
  "check_candidate_source b seen s =
     bind_r (candidate_unless (tar_account (mcs_actor s) = mcb_account b)
               ''candidate source actor must belong to the managed account'') (\<lambda>_.
     bind_r (candidate_unless (list_ex (\<lambda>e. mce_source_event_id e = mcs_source_event_id s) (mcb_events b))
               ''candidate cites an event outside the claimed batch'') (\<lambda>_.
     bind_r (candidate_unless (mcs_source_event_id s \<notin> set seen)
               ''candidate contains duplicate source events'') (\<lambda>_.
     bind_r (ok_or (batch_event b (mcs_source_event_id s)) (InvalidMemoryCandidate ''source event not found'')) (\<lambda>e.
     bind_r (candidate_unless (tar_actor_id (mce_actor e) = tar_actor_id (mcs_actor s))
               ''candidate source actor does not match the authoritative source event actor'') (\<lambda>_.
       candidate_unless (\<not> (mcs_trust_level s \<noteq> mce_trust_level e
                            \<or> \<not> eligible_for_candidate_extraction (mce_trust_level e) True))
         ''candidate source trust level does not match the batch event'')))))"

fun check_candidate_sources ::
  "memory_candidate_batch \<Rightarrow> source_event_id list \<Rightarrow> memory_candidate_source list \<Rightarrow> candidate_check" where
  "check_candidate_sources b seen [] = Ok ()"
| "check_candidate_sources b seen (s # ss) =
     bind_r (check_candidate_source b seen s) (\<lambda>_. check_candidate_sources b (mcs_source_event_id s # seen) ss)"

definition payload_actors :: "memory_payload \<Rightarrow> string list" where
  "payload_actors payload =
     (case payload of
        PersonPayload p \<Rightarrow> [tar_actor_id (pm_person p)]
      | ProjectPayload p \<Rightarrow> pj_member_actor_ids p
      | CommitmentPayload c \<Rightarrow> [tar_actor_id (cm_promisor c), tar_actor_id (cm_beneficiary c)])"

definition observed_actors_required :: "memory_payload \<Rightarrow> string list" where
  "observed_actors_required payload =
     (case payload of
        PersonPayload p \<Rightarrow> [tar_actor_id (pm_person p)]
      | ProjectPayload p \<Rightarrow>
          fold (\<lambda>i acc. if i \<in> set acc then acc else acc @ [i]) (pj_member_actor_ids p)
            (map pmr_actor_id (pj_member_actor_refs p))
      | CommitmentPayload c \<Rightarrow> [tar_actor_id (cm_promisor c), tar_actor_id (cm_beneficiary c)])"

definition payload_actors_observed_in_batch :: "memory_payload \<Rightarrow> memory_candidate_batch \<Rightarrow> bool" where
  "payload_actors_observed_in_batch payload b \<longleftrightarrow>
     list_all (\<lambda>i. i \<in> set (map (\<lambda>e. tar_actor_id (mce_actor e)) (mcb_events b))) (observed_actors_required payload)"

definition check_payload_evidence :: "memory_candidate \<Rightarrow> candidate_check" where
  "check_payload_evidence c =
     (case find (\<lambda>i. i \<notin> set (map (\<lambda>s. tar_actor_id (mcs_actor s)) (mc_sources c))) (payload_actors (mc_payload c)) of
        Some i \<Rightarrow> Err (InvalidMemoryCandidate (''candidate payload actor '' @ i @ '' has no source evidence''))
      | None \<Rightarrow> Ok ())"

definition validate_memory_candidate ::
  "fingerprint_fun \<Rightarrow> (memory_payload \<Rightarrow> (string, string) result) \<Rightarrow> memory_candidate \<Rightarrow> memory_candidate_batch \<Rightarrow>
     candidate_check" where
  "validate_memory_candidate fp json c b =
     bind_r (candidate_unless (mc_status c = CandidateProposed \<and> mc_version c = initial_candidate_version)
               ''candidate must start as proposed with version 1'') (\<lambda>_.
     bind_r (candidate_unless (mc_account c = mcb_account b)
               ''candidate account must match the claimed batch account'') (\<lambda>_.
     bind_r (candidate_unless (\<not> (is_blank (mc_subject_key c) \<or> 191 < char_count (mc_subject_key c)))
               ''subject_key must contain 1..=191 characters'') (\<lambda>_.
     bind_r (candidate_unless (\<not> (is_blank (mc_extractor_version c) \<or> 32 < length (mc_extractor_version c)))
               ''extractor_version must contain 1..=32 bytes'') (\<lambda>_.
     bind_r (candidate_unless (\<not> (mc_sources c = [] \<or> max_candidate_sources < length (mc_sources c)))
               ''candidate must cite 1..=20 source events'') (\<lambda>_.
     bind_r (check_candidate_sources b [] (mc_sources c)) (\<lambda>_.
     bind_r (check_payload_evidence c) (\<lambda>_.
     bind_r (map_err (\<lambda>e. InvalidMemoryCandidate (memory_fact_error_display e))
               (validate_memory_payload (mc_payload c) (mc_account c) (map mcs_source_event_id (mc_sources c)))) (\<lambda>_.
     bind_r (candidate_unless (payload_actors_observed_in_batch (mc_payload c) b)
               ''candidate payload references an actor outside the claimed batch'') (\<lambda>_.
     bind_r (map_err CandidateSerialize (json (mc_payload c))) (\<lambda>serialized.
     bind_r (candidate_unless (\<not> max_candidate_payload_bytes < length serialized)
               ''candidate payload exceeds the 16 KiB size limit'') (\<lambda>_.
       candidate_unless (mc_fingerprint c =
           candidate_fingerprint fp (mc_account c) (mc_payload c) (mc_subject_key c) (mc_sources c) (mc_extractor_version c))
         ''candidate fingerprint does not match its content'')))))))))))"

section \<open>Approval\<close>

definition candidate_to_confirmed_fact ::
  "memory_candidate \<Rightarrow> memory_fact_id \<Rightarrow> (memory_candidate_error, memory_fact) result" where
  "candidate_to_confirmed_fact c i =
     bind_r (candidate_unless (mc_status c = CandidateProposed) ''only a proposed candidate can be approved'') (\<lambda>_.
       (let payload =
              (case mc_payload c of
                 CommitmentPayload cm \<Rightarrow>
                   CommitmentPayload (cm\<lparr>cm_status := CommitmentPending, cm_completion_source := None\<rparr>)
               | other \<Rightarrow> other);
            f = \<lparr>mf_fact_id = i, mf_account = mc_account c, mf_subject_key = mc_subject_key c, mf_payload = payload,
                 mf_status = FactConfirmed, mf_confidence_bps = approved_candidate_confidence_bps,
                 mf_source_event_ids = map mcs_source_event_id (mc_sources c),
                 mf_valid_until = None, mf_supersedes = None\<rparr> in
        bind_r (map_err (\<lambda>e. InvalidMemoryCandidate (memory_fact_error_display e)) (validate_memory_fact f)) (\<lambda>_. Ok f)))"

section \<open>One scan of the worker\<close>

datatype candidate_use_case_error =
    CandidateConfiguration string
  | CandidateExtractor string
  | CandidateDomain memory_candidate_error
  | CandidateStore inbound_event_store_error

definition extractor_error_display :: "string \<Rightarrow> string" where
  "extractor_error_display m = ''memory candidate extractor failed: '' @ m"

record 'w candidate_store =
  cst_claim ::
    "source_account_ref \<Rightarrow> u32 \<Rightarrow> u32 \<Rightarrow> u32 \<Rightarrow> u64 \<Rightarrow> bool \<Rightarrow>
       ('w, inbound_event_store_error, memory_candidate_batch option) action"
  cst_commit ::
    "memory_candidate_batch \<Rightarrow> memory_candidate list \<Rightarrow> ('w, inbound_event_store_error, u64) action"
  cst_release :: "string \<Rightarrow> string \<Rightarrow> ('w, inbound_event_store_error, unit) action"
  cst_invalidate :: "source_account_ref \<Rightarrow> u32 \<Rightarrow> ('w, inbound_event_store_error, u64) action"
  cst_list ::
    "source_account_ref \<Rightarrow> memory_candidate_status option \<Rightarrow> memory_candidate_kind option \<Rightarrow> u32 \<Rightarrow>
       ('w, inbound_event_store_error, memory_candidate_view list) action"

record 'w candidate_use_case =
  cu_store :: "'w candidate_store"
  cu_extract :: "memory_candidate_batch \<Rightarrow> ('w, string, memory_candidate list) action"
  cu_account :: source_account_ref
  cu_max_events :: u32
  cu_max_event_chars :: u32
  cu_max_total_chars :: u32
  cu_lease_secs :: u64
  cu_allow_local_only :: bool

definition within :: "nat \<Rightarrow> 'a::len word \<Rightarrow> bool" where
  "within hi v \<longleftrightarrow> \<not> (v = 0 \<or> hi < unat v)"

definition candidate_use_case_new ::
  "'w candidate_use_case \<Rightarrow> (candidate_use_case_error, 'w candidate_use_case) result" where
  "candidate_use_case_new u =
     bind_r (ensure (within 100 (cu_max_events u)) (CandidateConfiguration ''max_events must be between 1 and 100'')) (\<lambda>_.
     bind_r (ensure (within 4000 (cu_max_event_chars u)) (CandidateConfiguration ''max_event_chars must be between 1 and 4000'')) (\<lambda>_.
     bind_r (ensure (within 16000 (cu_max_total_chars u)) (CandidateConfiguration ''max_total_chars must be between 1 and 16000'')) (\<lambda>_.
     bind_r (ensure (within 3600 (cu_lease_secs u)) (CandidateConfiguration ''lease_secs must be between 1 and 3600'')) (\<lambda>_.
       Ok u))))"

record candidate_run =
  cr_events_read :: nat
  cr_committed :: u64
  cr_skipped :: u64
  cr_invalidated :: u64

fun select_candidates ::
  "(memory_candidate \<Rightarrow> candidate_check) \<Rightarrow> memory_candidate list \<Rightarrow> u64 \<Rightarrow> memory_candidate list \<Rightarrow>
     memory_candidate list \<times> u64" where
  "select_candidates check valid skipped [] = (valid, skipped)"
| "select_candidates check valid skipped (c # cs) =
     (case check c of
        Ok _ \<Rightarrow>
          if max_candidates_per_batch \<le> length valid then select_candidates check valid (skipped + 1) cs
          else select_candidates check (valid @ [c]) skipped cs
      | _ \<Rightarrow> select_candidates check valid (skipped + 1) cs)"

definition candidate_call :: "('w, inbound_event_store_error, 'a) action \<Rightarrow> ('w, candidate_use_case_error, 'a) action" where
  "candidate_call m w = (case m w of (r, w') \<Rightarrow> (map_err CandidateStore r, w'))"

definition scan_batch ::
  "fingerprint_fun \<Rightarrow> (memory_payload \<Rightarrow> (string, string) result) \<Rightarrow> 'w candidate_use_case \<Rightarrow> u64 \<Rightarrow>
     memory_candidate_batch \<Rightarrow> ('w, candidate_use_case_error, candidate_run option) action" where
  "scan_batch fp json u invalidated b w =
     (case cu_extract u b w of
        (Panic, w1) \<Rightarrow> (Panic, w1)
      | (Err e, w1) \<Rightarrow>
          (case cst_release (cu_store u) (mcb_lease_token b) (extractor_error_display e) w1 of
             (Panic, w2) \<Rightarrow> (Panic, w2)
           | (_, w2) \<Rightarrow> (Err (CandidateExtractor e), w2))
      | (Ok cs, w1) \<Rightarrow>
          (case select_candidates (\<lambda>c. validate_memory_candidate fp json c b) [] 0 cs of
             (valid, skipped) \<Rightarrow>
               seq (candidate_call (cst_commit (cu_store u) b valid)) (\<lambda>committed.
                 give (Some \<lparr>cr_events_read = length (mcb_events b), cr_committed = committed,
                             cr_skipped = skipped, cr_invalidated = invalidated\<rparr>)) w1))"

definition candidate_run_once ::
  "fingerprint_fun \<Rightarrow> (memory_payload \<Rightarrow> (string, string) result) \<Rightarrow> 'w candidate_use_case \<Rightarrow>
     ('w, candidate_use_case_error, candidate_run option) action" where
  "candidate_run_once fp json u =
     seq (candidate_call (cst_invalidate (cu_store u) (cu_account u) max_invalidate_per_scan)) (\<lambda>invalidated.
     seq (candidate_call (cst_claim (cu_store u) (cu_account u) (cu_max_events u) (cu_max_event_chars u)
            (cu_max_total_chars u) (cu_lease_secs u) (cu_allow_local_only u))) (\<lambda>batch.
       case batch of None \<Rightarrow> give None | Some b \<Rightarrow> scan_batch fp json u invalidated b))"

definition candidate_list ::
  "'w candidate_use_case \<Rightarrow> source_account_ref \<Rightarrow> memory_candidate_status option \<Rightarrow>
     memory_candidate_kind option \<Rightarrow> u32 \<Rightarrow> ('w, inbound_event_store_error, memory_candidate_view list) action" where
  "candidate_list u account status kind limit =
     seq (lift_r (ensure (1 \<le> limit \<and> limit \<le> 100)
                    (InvalidData ''memory candidate list limit must be in 1..=100''))) (\<lambda>_.
       cst_list (cu_store u) account status kind limit)"

section \<open>The conservative extractor\<close>

definition strip_prefix :: "string \<Rightarrow> string \<Rightarrow> string option" where
  "strip_prefix p s = (if take (length p) s = p then Some (drop (length p) s) else None)"

definition explicit_value :: "string \<Rightarrow> string list \<Rightarrow> string option" where
  "explicit_value s prefixes =
     (case filter (\<lambda>v. v \<noteq> []) (concat (map (\<lambda>p. case strip_prefix p s of Some r \<Rightarrow> [trim r] | None \<Rightarrow> []) prefixes)) of
        [] \<Rightarrow> None | v # _ \<Rightarrow> Some v)"

fun split_at_ws :: "string \<Rightarrow> string \<times> string" where
  "split_at_ws [] = ([], [])"
| "split_at_ws (c # s) =
     (if ws_front (c # s) \<noteq> 0 then ([], c # s) else (case split_at_ws s of (a, b) \<Rightarrow> (c # a, b)))"

definition split_first_token :: "string \<Rightarrow> string \<times> string" where
  "split_first_token s = (case split_at_ws (trim s) of (a, b) \<Rightarrow> (a, trim b))"

definition candidate_source :: "memory_candidate_event \<Rightarrow> memory_candidate_source" where
  "candidate_source e =
     \<lparr>mcs_source_event_id = mce_source_event_id e, mcs_actor = mce_actor e,
      mcs_occurred_at = mce_occurred_at e, mcs_trust_level = mce_trust_level e\<rparr>"

definition build_candidate ::
  "fingerprint_fun \<Rightarrow> string \<Rightarrow> memory_candidate_batch \<Rightarrow> string \<Rightarrow> memory_payload \<Rightarrow>
     memory_candidate_source list \<Rightarrow> string \<Rightarrow> memory_candidate option" where
  "build_candidate fp uuid b subject payload sources version =
     (if sources = [] then None
      else Some \<lparr>mc_candidate_id = MemoryCandidateId uuid, mc_account = mcb_account b, mc_subject_key = subject,
                 mc_payload = payload, mc_status = CandidateProposed, mc_version = initial_candidate_version,
                 mc_extractor_version = version,
                 mc_fingerprint = candidate_fingerprint fp (mcb_account b) payload subject sources version,
                 mc_sources = sources\<rparr>)"

definition person_proposal :: "memory_candidate_event \<Rightarrow> string \<Rightarrow> (string \<times> memory_payload \<times> memory_candidate_source list) option" where
  "person_proposal e body =
     (case explicit_value body [utf8 [0x4EBA, 0x7269, 0xFF1A], utf8 [0x4EBA, 0x7269] @ '':'', utf8 [0x4EBA, 0xFF1A]] of
        None \<Rightarrow> None
      | Some relationship \<Rightarrow>
          Some (''person:'' @ tar_actor_id (mce_actor e),
                PersonPayload \<lparr>pm_person = mce_actor e, pm_relationship = Some relationship,
                               pm_responsibilities = [], pm_communication_preferences = []\<rparr>,
                [candidate_source e]))"

definition project_proposal :: "memory_candidate_event \<Rightarrow> string \<Rightarrow> (string \<times> memory_payload \<times> memory_candidate_source list) option" where
  "project_proposal e body =
     (case explicit_value body [utf8 [0x9879, 0x76EE, 0xFF1A], utf8 [0x9879, 0x76EE] @ '':''] of
        None \<Rightarrow> None
      | Some rest \<Rightarrow>
          (case split_first_token rest of (key, goal) \<Rightarrow>
             if key = [] then None
             else Some (''project:'' @ key,
                ProjectPayload \<lparr>pj_project_key = key, pj_goal = goal, pj_member_actor_ids = [], pj_member_actor_refs = [],
                  pj_progress = None, pj_decision_ids = [], pj_risks = [], pj_blockers = [], pj_artifact_refs = []\<rparr>,
                [candidate_source e])))"

definition commitment_proposal ::
  "memory_candidate_batch \<Rightarrow> memory_candidate_event \<Rightarrow> string \<Rightarrow> (string \<times> memory_payload \<times> memory_candidate_source list) option" where
  "commitment_proposal b e body =
     (case explicit_value body [utf8 [0x627F, 0x8BFA, 0xFF1A], utf8 [0x627F, 0x8BFA] @ '':'', utf8 [0x7B54,
         0x5E94, 0xFF1A]] of
        None \<Rightarrow> None
      | Some rest0 \<Rightarrow>
          (let rest = unwrap_or (map_option trim (strip_prefix (utf8 [0x7ED9]) rest0)) rest0 in
           case split_first_token rest of (who, act) \<Rightarrow>
             if act = [] then None
             else (case find (\<lambda>x. tar_actor_id (mce_actor x) = who) (mcb_events b) of
                     None \<Rightarrow> None
                   | Some ben \<Rightarrow>
                       Some (''commitment:'' @ tar_actor_id (mce_actor e) @ '':'' @ tar_actor_id (mce_actor ben) @ '':''
                               @ take_chars 160 act,
                             CommitmentPayload \<lparr>cm_promisor = mce_actor e, cm_beneficiary = mce_actor ben, cm_action = act,
                               cm_due_at = None, cm_status = CommitmentProposed, cm_completion_source = None\<rparr>,
                             candidate_source e #
                               (if mce_source_event_id ben \<noteq> mce_source_event_id e then [candidate_source ben] else [])))))"

definition event_proposals ::
  "nat \<Rightarrow> memory_candidate_batch \<Rightarrow> memory_candidate_event \<Rightarrow>
     (string \<times> memory_payload \<times> memory_candidate_source list) list" where
  "event_proposals max_chars b e =
     (let t = trim (mce_normalized_text e) in
      if mce_content_omitted e \<or> t = [] \<or> max_chars < char_count t then []
      else List.map_filter id [person_proposal e t, project_proposal e t, commitment_proposal b e t])"

text \<open>The candidates in the order of the events; the n-th is named by the n-th UUID.\<close>

definition conservative_extract ::
  "fingerprint_fun \<Rightarrow> (nat \<Rightarrow> string) \<Rightarrow> nat \<Rightarrow> string \<Rightarrow> memory_candidate_batch \<Rightarrow> memory_candidate list" where
  "conservative_extract fp uuid max_chars version b =
     fold (\<lambda>(subject, payload, sources) acc.
             case build_candidate fp (uuid (length acc)) b subject payload sources version of
               Some c \<Rightarrow> acc @ [c] | None \<Rightarrow> acc)
       (concat (map (event_proposals max_chars b) (mcb_events b))) []"

definition conservative_extractor_new ::
  "nat \<Rightarrow> string \<Rightarrow> (candidate_use_case_error, nat \<times> string) result" where
  "conservative_extractor_new max_chars version =
     bind_r (ensure (\<not> (max_chars = 0 \<or> 4000 < max_chars))
               (CandidateConfiguration ''max_event_chars must be between 1 and 4000'')) (\<lambda>_.
     bind_r (ensure (\<not> (is_blank version \<or> 32 < length version))
               (CandidateConfiguration ''extractor_version must contain 1..=32 bytes'')) (\<lambda>_.
       Ok (max_chars, version)))"

end
