(* ===== verification/Thread_Mutation.thy ===== *)
theory Thread_Mutation
  imports Graph_Runtime Secretary_Action
begin

text \<open>
  Splitting and merging threads (\<open>personal-secretary/src/domain/thread_mutations.rs\<close>,
  \<open>application/thread_mutation_service.rs\<close>): the preview of what a change affects, its validation,
  the approval as business state of the graph runtime, the nodes, and the use case that applies an
  approved action. The store is a record of actions on a world of its own; the nodes are functions
  of the answer of the store.
\<close>

section \<open>Data\<close>

datatype thread_mutation_error = InvalidImpact string | InvalidRevert string

datatype thread_mutation_kind = MergeMutation | SplitMutation
datatype thread_mutation_decision = ApproveMutation | RejectMutation

datatype thread_mutation_status =
    AwaitingApproval | MutationApproved | MutationRejected | MutationApplying | MutationApplied
  | MutationFailed | MutationUnknownCommit

primrec thread_mutation_kind_str :: "thread_mutation_kind \<Rightarrow> string" where
  "thread_mutation_kind_str MergeMutation = ''merge''"
| "thread_mutation_kind_str SplitMutation = ''split''"

primrec thread_mutation_decision_str :: "thread_mutation_decision \<Rightarrow> string" where
  "thread_mutation_decision_str ApproveMutation = ''approve''"
| "thread_mutation_decision_str RejectMutation = ''reject''"

primrec thread_mutation_status_str :: "thread_mutation_status \<Rightarrow> string" where
  "thread_mutation_status_str AwaitingApproval = ''awaiting_approval''"
| "thread_mutation_status_str MutationApproved = ''approved''"
| "thread_mutation_status_str MutationRejected = ''rejected''"
| "thread_mutation_status_str MutationApplying = ''applying''"
| "thread_mutation_status_str MutationApplied = ''applied''"
| "thread_mutation_status_str MutationFailed = ''failed''"
| "thread_mutation_status_str MutationUnknownCommit = ''unknown_commit''"

datatype thread_mutation_proposal_id = ThreadMutationProposalId (mutation_str: string)

definition thread_mutation_proposal_id_new :: "string \<Rightarrow> (thread_mutation_error, thread_mutation_proposal_id) result" where
  "thread_mutation_proposal_id_new v =
     (if is_blank v then Err (InvalidImpact ''proposal_id must not be empty'') else Ok (ThreadMutationProposalId v))"

record thread_mutation_impact =
  tmi_proposal_id :: thread_mutation_proposal_id
  tmi_kind :: thread_mutation_kind
  tmi_account :: source_account_ref
  tmi_thread_ids :: "event_thread_id list"
  tmi_event_count :: u32
  tmi_conversation_count :: u32
  tmi_source_event_ids :: "source_event_id list"
  tmi_reason :: string

record thread_mutation_approval_request =
  tma_proposal_id :: thread_mutation_proposal_id
  tma_kind :: thread_mutation_kind
  tma_account :: source_account_ref
  tma_thread_ids :: "event_thread_id list"
  tma_event_count :: u32
  tma_conversation_count :: u32
  tma_source_event_ids :: "source_event_id list"
  tma_warning :: string

record thread_mutation_resume_input =
  tmr_proposal_id :: thread_mutation_proposal_id
  tmr_decision :: thread_mutation_decision
  tmr_command_source_event_id :: source_event_id

record thread_mutation_effect =
  tme_proposal_id :: thread_mutation_proposal_id
  tme_kind :: thread_mutation_kind

record thread_mutation_receipt =
  tmc_proposal_id :: thread_mutation_proposal_id
  tmc_effect_id :: string
  tmc_status :: thread_mutation_status
  tmc_changed :: bool

record thread_mutation_revert_input =
  tmv_proposal_id :: thread_mutation_proposal_id
  tmv_command_source_event_id :: source_event_id
  tmv_reason :: string

record thread_mutation_revert_receipt =
  tmw_proposal_id :: thread_mutation_proposal_id
  tmw_changed :: bool

datatype thread_mutation_update =
    OwnerDecision thread_mutation_resume_input
  | RejectedUpdate
  | AppliedUpdate thread_mutation_receipt

record thread_mutation_state =
  tms_impact :: thread_mutation_impact
  tms_resume_input :: "thread_mutation_resume_input option"
  tms_status :: thread_mutation_status
  tms_receipt :: "thread_mutation_receipt option"

section \<open>Validation\<close>

definition impact_unless :: "bool \<Rightarrow> string \<Rightarrow> (thread_mutation_error, unit) result" where
  "impact_unless b msg = ensure b (InvalidImpact msg)"

definition validate_thread_mutation_impact :: "thread_mutation_impact \<Rightarrow> (thread_mutation_error, unit) result" where
  "validate_thread_mutation_impact i =
     bind_r (case tmi_kind i of
               MergeMutation \<Rightarrow>
                 impact_unless (2 \<le> length (tmi_thread_ids i) \<and> length (tmi_thread_ids i) \<le> 10)
                   ''merge preview must contain 2..=10 threads''
             | SplitMutation \<Rightarrow>
                 impact_unless (length (tmi_thread_ids i) = 1)
                   ''split preview must contain exactly one source thread'') (\<lambda>_.
     bind_r (impact_unless (\<not> (tmi_event_count i = 0 \<or> tmi_conversation_count i = 0))
               ''thread mutation must affect at least one event and conversation'') (\<lambda>_.
     bind_r (impact_unless (\<not> (tmi_source_event_ids i = [] \<or> 100 < length (tmi_source_event_ids i)))
               ''impact preview must contain 1..=100 affected source events'') (\<lambda>_.
     bind_r (impact_unless (unat (tmi_event_count i) = length (tmi_source_event_ids i))
               ''affected_event_count must equal the exact affected source event id count'') (\<lambda>_.
     bind_r (impact_unless (\<not> (is_blank (tmi_reason i) \<or> 1000 < char_count (tmi_reason i)))
               ''impact reason must contain 1..=1000 characters'') (\<lambda>_.
       impact_unless (distinct (tmi_thread_ids i) \<and> distinct (tmi_source_event_ids i))
         ''impact preview contains duplicate thread or source event ids'')))))"

definition validate_thread_mutation_revert :: "thread_mutation_revert_input \<Rightarrow> (thread_mutation_error, unit) result" where
  "validate_thread_mutation_revert i =
     ensure (\<not> (is_blank (tmv_reason i) \<or> 1000 < char_count (tmv_reason i)))
       (InvalidRevert ''revert reason must contain 1..=1000 characters'')"

section \<open>The business state\<close>

definition thread_mutation_state_new :: "thread_mutation_impact \<Rightarrow> (thread_mutation_error, thread_mutation_state) result" where
  "thread_mutation_state_new i =
     bind_r (validate_thread_mutation_impact i) (\<lambda>_.
       Ok \<lparr>tms_impact = i, tms_resume_input = None, tms_status = AwaitingApproval, tms_receipt = None\<rparr>)"

definition mutation_apply_update ::
  "thread_mutation_state \<Rightarrow> thread_mutation_update \<Rightarrow> (agent_state_error, unit) result \<times> thread_mutation_state" where
  "mutation_apply_update s u =
     (case u of
        OwnerDecision input \<Rightarrow>
          if tmr_proposal_id input \<noteq> tmi_proposal_id (tms_impact s) \<or> tms_resume_input s \<noteq> None
          then (Err (BusinessError (utf8 [0x7EBF, 0x7A0B, 0x53D8, 0x66F4] @ '' Resume '' @ utf8 [0x4E0E,
              0x5F85, 0x786E, 0x8BA4] @ '' Proposal '' @ utf8 [0x4E0D, 0x5339, 0x914D, 0x6216, 0x5DF2, 0x6D88,
              0x8D39])), s)
          else (Ok (), s\<lparr>tms_resume_input := Some input\<rparr>)
      | RejectedUpdate \<Rightarrow> (Ok (), s\<lparr>tms_status := MutationRejected\<rparr>)
      | AppliedUpdate receipt \<Rightarrow>
          if tmc_proposal_id receipt \<noteq> tmi_proposal_id (tms_impact s) \<or> tmc_status receipt \<noteq> MutationApplied
          then (Err (BusinessError (utf8 [0x7EBF, 0x7A0B, 0x53D8,
              0x66F4] @ '' Effect Receipt '' @ utf8 [0x4E0E] @ '' Proposal '' @ utf8 [0x4E0D, 0x5339,
              0x914D])), s)
          else (Ok (), s\<lparr>tms_status := MutationApplied, tms_receipt := Some receipt\<rparr>))"

definition mutation_business ::
  "(thread_mutation_state, thread_mutation_update, thread_mutation_resume_input) business_ops" where
  "mutation_business =
     \<lparr>apply_update = mutation_apply_update, resume_updates = (\<lambda>input. [BusinessUpdate (OwnerDecision input)]),
      state_schema_version = schema_initial\<rparr>"

definition mutation_receipt_updates :: "thread_mutation_receipt \<Rightarrow> thread_mutation_update agent_update list" where
  "mutation_receipt_updates r = [BusinessUpdate (AppliedUpdate r)]"

section \<open>The nodes\<close>

definition mutation_warning :: "thread_mutation_kind \<Rightarrow> string" where
  "mutation_warning k =
     (case k of
        MergeMutation \<Rightarrow> utf8 [0x5408, 0x5E76, 0x4F1A, 0x6539, 0x53D8, 0x540E, 0x7EED, 0x68C0,
            0x7D22, 0x4E0E, 0x8BB0, 0x5FC6, 0x6295, 0x5F71, 0xFF1B, 0x786E, 0x8BA4, 0x524D, 0x4E0D, 0x4F1A,
            0x79FB, 0x52A8, 0x4EFB, 0x4F55, 0x4E8B, 0x4EF6]
      | SplitMutation \<Rightarrow> utf8 [0x62C6, 0x5206, 0x4F1A, 0x6539, 0x53D8, 0x540E, 0x7EED, 0x56E0,
          0x679C, 0x7EBF, 0x7A0B, 0x5F52, 0x5C5E, 0xFF1B, 0x786E, 0x8BA4, 0x524D, 0x4E0D, 0x4F1A, 0x79FB,
          0x52A8, 0x4EFB, 0x4F55, 0x4E8B, 0x4EF6])"

definition mutation_approval :: "thread_mutation_impact \<Rightarrow> thread_mutation_approval_request" where
  "mutation_approval i =
     \<lparr>tma_proposal_id = tmi_proposal_id i, tma_kind = tmi_kind i, tma_account = tmi_account i,
      tma_thread_ids = tmi_thread_ids i, tma_event_count = tmi_event_count i,
      tma_conversation_count = tmi_conversation_count i, tma_source_event_ids = tmi_source_event_ids i,
      tma_warning = mutation_warning (tmi_kind i)\<rparr>"

type_synonym mutation_node_result =
  "(thread_mutation_update, thread_mutation_effect, thread_mutation_approval_request) node_result"

definition suspend_thread_mutation_for_approval ::
  "thread_mutation_impact \<Rightarrow> (thread_mutation_error, mutation_node_result) result" where
  "suspend_thread_mutation_for_approval i =
     bind_r (validate_thread_mutation_impact i) (\<lambda>_.
       Ok (Suspend [] [] \<lparr>delta_tokens = 0\<rparr> \<lparr>sus_reason = Approval, sus_data = mutation_approval i\<rparr>))"

primrec mutation_error_display :: "thread_mutation_error \<Rightarrow> string" where
  "mutation_error_display (InvalidImpact s) = ''invalid thread mutation impact: '' @ s"
| "mutation_error_display (InvalidRevert s) = ''invalid thread mutation revert: '' @ s"

definition mutation_approval_node :: "thread_mutation_state \<Rightarrow> (node_error, mutation_node_result) result" where
  "mutation_approval_node s =
     map_err (\<lambda>e. node_error_new KInvariant (mutation_error_display e))
       (suspend_thread_mutation_for_approval (tms_impact s))"

primrec store_error_display :: "inbound_event_store_error \<Rightarrow> string" where
  "store_error_display (InvalidData s) = ''invalid inbound event data: '' @ s"
| "store_error_display Unavailable = ''inbound event store is unavailable''"
| "store_error_display (Database s) = ''inbound event database operation failed: '' @ s"
| "store_error_display LeaseLost = ''backfill lease ownership was lost''"

definition mutation_node_error :: "inbound_event_store_error \<Rightarrow> node_error" where
  "mutation_node_error e =
     (case e of
        Unavailable \<Rightarrow> node_error_new KTransient (store_error_display e)
      | Database _ \<Rightarrow> node_error_new KTransient (store_error_display e)
      | _ \<Rightarrow> node_error_new KPermanent (store_error_display e))"

text \<open>The decision node calls \<open>authorize_resume\<close> on its input and goes on with the answer.\<close>

definition mutation_decision_node ::
  "(thread_mutation_resume_input \<Rightarrow> (inbound_event_store_error, thread_mutation_status) result) \<Rightarrow>
     thread_mutation_state \<Rightarrow> (node_error, mutation_node_result) result" where
  "mutation_decision_node authorize s =
     bind_r (ok_or (tms_resume_input s)
               (node_error_new KInvariant (utf8 [0x7EBF, 0x7A0B, 0x53D8, 0x66F4, 0x51B3, 0x7B56, 0x8282,
                   0x70B9, 0x7F3A, 0x5C11] @ '' ResumeInput''))) (\<lambda>input.
     bind_r (map_err mutation_node_error (authorize input)) (\<lambda>status.
       (case (tmr_decision input, status) of
          (RejectMutation, MutationRejected) \<Rightarrow>
            Ok (Continue [BusinessUpdate RejectedUpdate,
                          SetOutcome (OutcomeRespond (utf8 [0x7EBF, 0x7A0B, 0x53D8, 0x66F4, 0x5DF2, 0x62D2,
                              0x7EDD, 0xFF0C, 0x672A, 0x4FEE, 0x6539, 0x7EBF, 0x7A0B, 0x6295,
                              0x5F71]))] [] \<lparr>delta_tokens = 0\<rparr>)
        | (ApproveMutation, MutationApproved) \<Rightarrow>
            Ok (Continue [SetOutcome (OutcomeRespond (utf8 [0x7EBF, 0x7A0B, 0x53D8, 0x66F4, 0x5DF2, 0x6279,
                0x51C6, 0x5E76, 0x5E94, 0x7528]))]
                  [\<lparr>tme_proposal_id = tmr_proposal_id input, tme_kind = tmi_kind (tms_impact s)\<rparr>] \<lparr>delta_tokens = 0\<rparr>)
        | _ \<Rightarrow> Err (node_error_new KInvariant (utf8 [0x7EBF, 0x7A0B, 0x53D8,
            0x66F4] @ '' Resume '' @ utf8 [0x51B3, 0x7B56, 0x4E0E, 0x6301, 0x4E45, 0x5316, 0x72B6, 0x6001,
            0x4E0D, 0x4E00, 0x81F4])))))"

definition mutation_effect_error :: "inbound_event_store_error \<Rightarrow> effect_error" where
  "mutation_effect_error e =
     (case e of
        InvalidData _ \<Rightarrow> effect_error_new EffPermanent (store_error_display e)
      | LeaseLost \<Rightarrow> effect_error_new EffPermanent (store_error_display e)
      | _ \<Rightarrow> effect_error_new EffUnknownCommit (store_error_display e))"

section \<open>The use case\<close>

record thread_mutation_impact_request =
  tmq_proposal_id :: thread_mutation_proposal_id
  tmq_kind :: thread_mutation_kind
  tmq_account :: source_account_ref
  tmq_thread_ids :: "event_thread_id list"
  tmq_selected_source_event_ids :: "source_event_id list"
  tmq_reason :: string

datatype thread_mutation_use_case_error =
    MutationConfiguration string
  | MutationDomain thread_mutation_error
  | MutationStore inbound_event_store_error

primrec mutation_use_case_error_display :: "thread_mutation_use_case_error \<Rightarrow> string" where
  "mutation_use_case_error_display (MutationConfiguration s) = ''invalid thread mutation configuration: '' @ s"
| "mutation_use_case_error_display (MutationDomain e) = mutation_error_display e"
| "mutation_use_case_error_display (MutationStore e) = store_error_display e"

record 'w thread_mutation_store =
  tmt_build_impact :: "thread_mutation_impact_request \<Rightarrow> ('w, inbound_event_store_error, thread_mutation_impact) action"
  tmt_persist_proposal :: "thread_mutation_impact \<Rightarrow> ('w, inbound_event_store_error, unit) action"
  tmt_authorize_resume :: "thread_mutation_resume_input \<Rightarrow> ('w, inbound_event_store_error, thread_mutation_status) action"
  tmt_apply_effect :: "thread_mutation_effect \<Rightarrow> string \<Rightarrow> ('w, inbound_event_store_error, thread_mutation_receipt) action"
  tmt_revert_applied ::
    "thread_mutation_revert_input \<Rightarrow> ('w, inbound_event_store_error, thread_mutation_revert_receipt) action"

definition mutation_call ::
  "('w, inbound_event_store_error, 'a) action \<Rightarrow> ('w, thread_mutation_use_case_error, 'a) action" where
  "mutation_call m w = (case m w of (r, w') \<Rightarrow> (map_err MutationStore r, w'))"

definition mutation_executor ::
  "'w thread_mutation_store \<Rightarrow> (effect_id \<Rightarrow> string) \<Rightarrow> thread_mutation_effect effect_envelope \<Rightarrow>
     ('w, effect_error, thread_mutation_receipt) action" where
  "mutation_executor S shown env w =
     (case tmt_apply_effect S (env_effect env) (shown (env_id env)) w of
        (r, w') \<Rightarrow> (map_err mutation_effect_error r, w'))"

definition mutation_revert ::
  "'w thread_mutation_store \<Rightarrow> thread_mutation_revert_input \<Rightarrow>
     ('w, thread_mutation_use_case_error, thread_mutation_revert_receipt) action" where
  "mutation_revert S i =
     seq (lift_r (map_err MutationDomain (validate_thread_mutation_revert i))) (\<lambda>_.
       mutation_call (tmt_revert_applied S i))"

definition mutation_prepare ::
  "'w thread_mutation_store \<Rightarrow> thread_mutation_impact \<Rightarrow>
     ('w, thread_mutation_use_case_error, thread_mutation_state) action" where
  "mutation_prepare S i =
     seq (lift_r (map_err MutationDomain (validate_thread_mutation_impact i))) (\<lambda>_.
     seq (mutation_call (tmt_persist_proposal S i)) (\<lambda>_.
       lift_r (map_err MutationDomain (thread_mutation_state_new i))))"

definition impact_request ::
  "source_account_ref \<Rightarrow> thread_mutation_proposal_id \<Rightarrow> secretary_action \<Rightarrow>
     (thread_mutation_use_case_error, thread_mutation_impact_request) result" where
  "impact_request account pid a =
     (case a of
        MergeThreads thread_ids reason \<Rightarrow>
          Ok \<lparr>tmq_proposal_id = pid, tmq_kind = MergeMutation, tmq_account = account, tmq_thread_ids = thread_ids,
              tmq_selected_source_event_ids = [], tmq_reason = reason\<rparr>
      | SplitThread thread_id source_event_ids reason \<Rightarrow>
          Ok \<lparr>tmq_proposal_id = pid, tmq_kind = SplitMutation, tmq_account = account, tmq_thread_ids = [thread_id],
              tmq_selected_source_event_ids = source_event_ids, tmq_reason = reason\<rparr>
      | _ \<Rightarrow> Err (MutationDomain (InvalidImpact ''action is not a thread mutation'')))"

definition approve_input :: "thread_mutation_proposal_id \<Rightarrow> source_event_id \<Rightarrow> thread_mutation_resume_input" where
  "approve_input pid command =
     \<lparr>tmr_proposal_id = pid, tmr_decision = ApproveMutation, tmr_command_source_event_id = command\<rparr>"

definition apply_approved_action ::
  "'w thread_mutation_store \<Rightarrow> source_account_ref \<Rightarrow> string \<Rightarrow> secretary_action \<Rightarrow> source_event_id \<Rightarrow> string \<Rightarrow>
     ('w, thread_mutation_use_case_error, thread_mutation_receipt) action" where
  "apply_approved_action S account proposal a command effect_key =
     seq (lift_r (map_err MutationDomain (thread_mutation_proposal_id_new proposal))) (\<lambda>pid.
     seq (lift_r (impact_request account pid a)) (\<lambda>request.
     seq (mutation_call (tmt_build_impact S request)) (\<lambda>impact.
     seq (lift_r (map_err MutationDomain (validate_thread_mutation_impact impact))) (\<lambda>_.
     seq (mutation_call (tmt_persist_proposal S impact)) (\<lambda>_.
     seq (mutation_call (tmt_authorize_resume S (approve_input pid command))) (\<lambda>status.
     seq (lift_r (ensure (status = MutationApproved)
            (MutationStore (InvalidData ''thread mutation approval did not converge to approved'')))) (\<lambda>_.
       mutation_call (tmt_apply_effect S \<lparr>tme_proposal_id = pid, tme_kind = tmi_kind impact\<rparr> effect_key))))))))"

section \<open>Lemmas\<close>

lemma mutation_call_Ok [result_simps]: "mutation_call m w = (Ok a, w') \<longleftrightarrow> m w = (Ok a, w')"
  by (auto simp: mutation_call_def result_simps split: prod.splits)

lemma mutation_call_Err [result_simps]:
  "mutation_call m w = (Err e, w') \<longleftrightarrow> (\<exists>d. m w = (Err d, w') \<and> e = MutationStore d)"
  by (auto simp: mutation_call_def result_simps split: prod.splits)

lemma impact_unless_Ok [guard_simps]: "impact_unless b msg = Ok u \<longleftrightarrow> b"
  by (auto simp: impact_unless_def ensure_inv)

lemma valid_impact:
  assumes "validate_thread_mutation_impact i = Ok u"
  shows "distinct (tmi_thread_ids i)" "distinct (tmi_source_event_ids i)" "tmi_source_event_ids i \<noteq> []"
    "length (tmi_source_event_ids i) \<le> 100" "unat (tmi_event_count i) = length (tmi_source_event_ids i)"
    "length (tmi_thread_ids i) \<le> 10" "tmi_thread_ids i \<noteq> []"
  using assms by (auto simp: validate_thread_mutation_impact_def result_simps guard_simps
      split: thread_mutation_kind.splits)

end
