(* ===== verification/Thread_Link.thy ===== *)
theory Thread_Link
  imports Memory_Candidate Thread_Mutation
begin

text \<open>
  Links between threads of different conversations (\<open>personal-secretary/src/domain/thread_links.rs\<close>,
  \<open>application/thread_link_service.rs\<close>): the signals and their fingerprints, the extractor of hints,
  the validation of candidates and of the owner's review, one scan of the worker, and the review use
  case. SHA-256 (\<open>sha\<close>, on bytes) and \<open>Uuid::new_v4\<close> are parameters.
\<close>

section \<open>Data\<close>

datatype thread_link_error =
    LinkInvalidData string
  | LinkWeakEvidence string
  | LinkOwnerCommandRequired
  | LinkCrossAccountReview
  | LinkReviewConflict string

primrec thread_link_error_display :: "thread_link_error \<Rightarrow> string" where
  "thread_link_error_display (LinkInvalidData s) = ''invalid thread link data: '' @ s"
| "thread_link_error_display (LinkWeakEvidence s) =
     ''weak evidence cannot create a cross-conversation candidate: '' @ s"
| "thread_link_error_display LinkOwnerCommandRequired =
     ''thread link review requires a verified OwnerCommand event''"
| "thread_link_error_display LinkCrossAccountReview = ''thread link review command belongs to another account''"
| "thread_link_error_display (LinkReviewConflict s) =
     ''thread link candidate has already left proposed state: '' @ s"

datatype thread_link_candidate_id = ThreadLinkCandidateId (link_candidate_str: string)
datatype thread_link_lease_token = ThreadLinkLeaseToken (link_lease_str: string)
datatype thread_link_review_id = ThreadLinkReviewId (link_review_str: string)

definition link_id_check :: "string \<Rightarrow> string \<Rightarrow> (thread_link_error, unit) result" where
  "link_id_check field v = ensure (\<not> is_blank v) (LinkInvalidData (field @ '' must not be empty''))"

datatype thread_link_signal_kind =
    ExplicitProjectIdSignal
  | ExactFileSourceKeySignal
  | ExplicitFileVersionSignal
  | ExactForwardSourceKeySignal
  | ExactRichContentKeySignal
  | SharedActorSignal
  | SimilarTopicSignal
  | SameFileNameSignal

primrec link_signal_str :: "thread_link_signal_kind \<Rightarrow> string" where
  "link_signal_str ExplicitProjectIdSignal = ''explicit_project_id''"
| "link_signal_str ExactFileSourceKeySignal = ''exact_file_source_key''"
| "link_signal_str ExplicitFileVersionSignal = ''explicit_file_version''"
| "link_signal_str ExactForwardSourceKeySignal = ''exact_forward_source_key''"
| "link_signal_str ExactRichContentKeySignal = ''exact_rich_content_key''"
| "link_signal_str SharedActorSignal = ''shared_actor''"
| "link_signal_str SimilarTopicSignal = ''similar_topic''"
| "link_signal_str SameFileNameSignal = ''same_file_name''"

definition link_signal_is_strong :: "thread_link_signal_kind \<Rightarrow> bool" where
  "link_signal_is_strong k \<longleftrightarrow>
     k \<in> {ExplicitProjectIdSignal, ExactFileSourceKeySignal, ExplicitFileVersionSignal, ExactForwardSourceKeySignal, ExactRichContentKeySignal}"

primrec link_signal_confidence_bps :: "thread_link_signal_kind \<Rightarrow> u16" where
  "link_signal_confidence_bps ExplicitProjectIdSignal = 9500"
| "link_signal_confidence_bps ExactFileSourceKeySignal = 9000"
| "link_signal_confidence_bps ExplicitFileVersionSignal = 9800"
| "link_signal_confidence_bps ExactForwardSourceKeySignal = 9000"
| "link_signal_confidence_bps ExactRichContentKeySignal = 8500"
| "link_signal_confidence_bps SharedActorSignal = 0"
| "link_signal_confidence_bps SimilarTopicSignal = 0"
| "link_signal_confidence_bps SameFileNameSignal = 0"

datatype thread_link_confidence_band = LowConfidence | ModerateConfidence | StrongConfidence

definition confidence_band_from_bps :: "u16 \<Rightarrow> (thread_link_error, thread_link_confidence_band) result" where
  "confidence_band_from_bps c =
     (if 1 \<le> c \<and> c \<le> 8999 then Ok LowConfidence
      else if 9000 \<le> c \<and> c \<le> 9499 then Ok ModerateConfidence
      else if 9500 \<le> c \<and> c \<le> 10000 then Ok StrongConfidence
      else Err (LinkInvalidData ''confidence_bps must be between 1 and 10000''))"

primrec owner_label :: "thread_link_confidence_band \<Rightarrow> string" where
  "owner_label LowConfidence = utf8 [0x4F4E, 0x7F6E, 0x4FE1, 0x5EA6, 0x5019, 0x9009]"
| "owner_label ModerateConfidence = utf8 [0x4E2D, 0x7B49, 0x7F6E, 0x4FE1, 0x5EA6, 0x5019, 0x9009]"
| "owner_label StrongConfidence = utf8 [0x5F3A, 0x8BC1, 0x636E, 0x5019, 0x9009]"

datatype thread_link_candidate_status = LinkProposed | LinkAccepted | LinkRejected | LinkExpired

primrec link_status_str :: "thread_link_candidate_status \<Rightarrow> string" where
  "link_status_str LinkProposed = ''proposed''"
| "link_status_str LinkAccepted = ''accepted''"
| "link_status_str LinkRejected = ''rejected''"
| "link_status_str LinkExpired = ''expired''"

record thread_link_event =
  tle_source_event_id :: source_event_id
  tle_account :: source_account_ref
  tle_conversation :: conversation_ref
  tle_thread_id :: event_thread_id
  tle_normalized_text :: string
  tle_segments :: "content_segment list"
  tle_content_omitted :: bool

record claimed_thread_link_batch =
  clb_lease_token :: thread_link_lease_token
  clb_events :: "thread_link_event list"

record thread_link_hint =
  tlh_source_event_id :: source_event_id
  tlh_account :: source_account_ref
  tlh_conversation :: conversation_ref
  tlh_thread_id :: event_thread_id
  tlh_kind :: thread_link_signal_kind
  tlh_fingerprint :: string

record thread_link_evidence =
  tlv_kind :: thread_link_signal_kind
  tlv_fingerprint :: string
  tlv_left_source_event_id :: source_event_id
  tlv_right_source_event_id :: source_event_id

record thread_link_candidate =
  tlc_candidate_id :: thread_link_candidate_id
  tlc_account :: source_account_ref
  tlc_left_thread_id :: event_thread_id
  tlc_right_thread_id :: event_thread_id
  tlc_left_conversation :: conversation_ref
  tlc_right_conversation :: conversation_ref
  tlc_status :: thread_link_candidate_status
  tlc_confidence_bps :: u16
  tlc_reason_code :: string
  tlc_evidence :: thread_link_evidence

datatype thread_link_review_action = AcceptLink | RejectLink

primrec link_review_str :: "thread_link_review_action \<Rightarrow> string" where
  "link_review_str AcceptLink = ''accept''"
| "link_review_str RejectLink = ''reject''"

primrec review_target_status :: "thread_link_review_action \<Rightarrow> thread_link_candidate_status" where
  "review_target_status AcceptLink = LinkAccepted"
| "review_target_status RejectLink = LinkRejected"

record thread_link_review_command =
  lrc_source_event_id :: source_event_id
  lrc_actor :: thread_actor_ref
  lrc_role :: message_role
  lrc_authorized_account :: source_account_ref

record thread_link_review_context =
  lrx_candidate_id :: thread_link_candidate_id
  lrx_candidate_account :: source_account_ref
  lrx_candidate_status :: thread_link_candidate_status
  lrx_command :: thread_link_review_command

record validated_thread_link_review =
  vlr_review_id :: thread_link_review_id
  vlr_candidate_id :: thread_link_candidate_id
  vlr_action :: thread_link_review_action
  vlr_target_status :: thread_link_candidate_status
  vlr_command_source_event_id :: source_event_id
  vlr_owner :: thread_actor_ref

record thread_link_candidate_cursor =
  lcu_created_at_micros :: i64
  lcu_candidate_id :: thread_link_candidate_id

record thread_link_source_excerpt =
  lse_source_event_id :: source_event_id
  lse_conversation :: conversation_ref
  lse_actor_id :: string
  lse_occurred_at :: i64
  lse_excerpt :: string

record thread_link_candidate_view =
  lcv_candidate_id :: thread_link_candidate_id
  lcv_left_thread_id :: event_thread_id
  lcv_right_thread_id :: event_thread_id
  lcv_left_conversation :: conversation_ref
  lcv_right_conversation :: conversation_ref
  lcv_status :: thread_link_candidate_status
  lcv_confidence_bps :: u16
  lcv_reason_code :: string
  lcv_sources :: "thread_link_source_excerpt list"
  lcv_cursor :: thread_link_candidate_cursor

section \<open>Validation\<close>

definition validate_thread_link_review ::
  "string \<Rightarrow> thread_link_review_context \<Rightarrow> thread_link_review_action \<Rightarrow>
     (thread_link_error, validated_thread_link_review) result" where
  "validate_thread_link_review uuid cx action =
     (let cmd = lrx_command cx in
      bind_r (ensure (\<not> (lrx_candidate_status cx \<noteq> LinkProposed
                         \<and> lrx_candidate_status cx \<noteq> review_target_status action))
                (LinkReviewConflict (link_status_str (lrx_candidate_status cx)))) (\<lambda>_.
      bind_r (ensure (lrc_role cmd = OwnerCommand) LinkOwnerCommandRequired) (\<lambda>_.
      bind_r (ensure (lrc_authorized_account cmd = lrx_candidate_account cx) LinkCrossAccountReview) (\<lambda>_.
      bind_r (ensure (\<not> is_blank (tar_actor_id (lrc_actor cmd)))
                (LinkInvalidData ''review owner actor id must not be empty'')) (\<lambda>_.
        Ok \<lparr>vlr_review_id = ThreadLinkReviewId uuid, vlr_candidate_id = lrx_candidate_id cx, vlr_action = action,
            vlr_target_status = review_target_status action,
            vlr_command_source_event_id = lrc_source_event_id cmd, vlr_owner = lrc_actor cmd\<rparr>)))))"

definition is_hex_digit :: "char \<Rightarrow> bool" where
  "is_hex_digit c \<longleftrightarrow> (CHR ''0'' \<le> c \<and> c \<le> CHR ''9'') \<or> (CHR ''a'' \<le> c \<and> c \<le> CHR ''f'') \<or> (CHR ''A'' \<le> c \<and> c \<le> CHR ''F'')"

definition is_alphanumeric :: "char \<Rightarrow> bool" where
  "is_alphanumeric c \<longleftrightarrow> (CHR ''0'' \<le> c \<and> c \<le> CHR ''9'') \<or> (CHR ''a'' \<le> c \<and> c \<le> CHR ''z'') \<or> (CHR ''A'' \<le> c \<and> c \<le> CHR ''Z'')"

definition link_unless :: "bool \<Rightarrow> string \<Rightarrow> (thread_link_error, unit) result" where
  "link_unless b msg = ensure b (LinkInvalidData msg)"

definition validate_thread_link_candidate :: "thread_link_candidate \<Rightarrow> (thread_link_error, unit) result" where
  "validate_thread_link_candidate c =
     bind_r (link_unless (tlc_status c = LinkProposed) ''new cross-conversation link candidate must be proposed'') (\<lambda>_.
     bind_r (link_unless (\<not> (tlc_left_thread_id c = tlc_right_thread_id c
                             \<or> tlc_left_conversation c = tlc_right_conversation c))
               ''cross-conversation link candidate requires two different conversations and threads'') (\<lambda>_.
     bind_r (link_unless (\<not> thread_str (tlc_right_thread_id c) \<le> thread_str (tlc_left_thread_id c))
               ''thread link pair must use canonical lexical order'') (\<lambda>_.
     bind_r (ensure (link_signal_is_strong (tlv_kind (tlc_evidence c)))
               (LinkWeakEvidence (link_signal_str (tlv_kind (tlc_evidence c))))) (\<lambda>_.
     bind_r (link_unless (\<not> (tlc_confidence_bps c = 0 \<or> 10000 < tlc_confidence_bps c))
               ''confidence_bps must be between 1 and 10000'') (\<lambda>_.
     bind_r (link_unless (\<not> (length (tlv_fingerprint (tlc_evidence c)) \<noteq> 64
                             \<or> \<not> list_all is_hex_digit (tlv_fingerprint (tlc_evidence c))))
               ''link evidence fingerprint must be SHA-256 hex'') (\<lambda>_.
       link_unless (tlc_reason_code c = link_signal_str (tlv_kind (tlc_evidence c)))
         ''reason_code must match the typed evidence kind''))))))"

section \<open>The extractor\<close>

text \<open>\<open>str::lines\<close>: the line feeds end lines, a carriage return before one is dropped, and a last
  line need not be ended.\<close>

definition strip_cr :: "string \<Rightarrow> string" where
  "strip_cr l = (if l \<noteq> [] \<and> last l = CHR 0x0D then butlast l else l)"

fun lines_from :: "string \<Rightarrow> string \<Rightarrow> string list" where
  "lines_from acc [] = (if acc = [] then [] else [rev acc])"
| "lines_from acc (c # s) = (if c = CHR 0x0A then strip_cr (rev acc) # lines_from [] s else lines_from (c # acc) s)"

definition str_lines :: "string \<Rightarrow> string list" where
  "str_lines s = lines_from [] s"

definition project_prefixes :: "string list" where
  "project_prefixes =
     [utf8 [0x9879, 0x76EE] @ ''ID:'', utf8 [0x9879, 0x76EE] @ ''ID'' @ utf8 [0xFF1A], utf8 [0x9879, 0x76EE,
         0x7F16, 0x53F7] @ '':'', utf8 [0x9879, 0x76EE, 0x7F16, 0x53F7, 0xFF1A], ''project_id:'']"

definition is_project_id :: "string \<Rightarrow> bool" where
  "is_project_id v \<longleftrightarrow>
     v \<noteq> [] \<and> length v \<le> 191 \<and> list_all (\<lambda>c. is_alphanumeric c \<or> c = CHR ''-'' \<or> c = CHR ''_'') v"

definition line_project_id :: "string \<Rightarrow> string option" where
  "line_project_id l =
     (case List.map_filter (\<lambda>p. strip_prefix p (trim l)) project_prefixes of
        [] \<Rightarrow> None
      | r # _ \<Rightarrow> (if is_project_id (trim r) then Some (trim r) else None))"

definition explicit_project_ids :: "string \<Rightarrow> string list" where
  "explicit_project_ids text = List.map_filter line_project_id (str_lines text)"

datatype hint_value_normalization = ExactValue | AsciiCaseInsensitive

definition ascii_lower :: "char \<Rightarrow> char" where
  "ascii_lower c = (if CHR ''A'' \<le> c \<and> c \<le> CHR ''Z'' then char_of (of_char c + 32 :: nat) else c)"

definition hex_digit :: "nat \<Rightarrow> char" where
  "hex_digit n = ''0123456789abcdef'' ! (n mod 16)"

definition hex_of :: "string \<Rightarrow> string" where
  "hex_of bytes = concat (map (\<lambda>b. [hex_digit (of_char b div 16), hex_digit (of_char b mod 16)]) bytes)"

definition make_hint ::
  "(string \<Rightarrow> string) \<Rightarrow> thread_link_event \<Rightarrow> thread_link_signal_kind \<Rightarrow> string \<Rightarrow>
     hint_value_normalization \<Rightarrow> thread_link_hint" where
  "make_hint sha e kind raw normalization =
     (let v = (case normalization of ExactValue \<Rightarrow> trim raw | AsciiCaseInsensitive \<Rightarrow> map ascii_lower (trim raw)) in
      \<lparr>tlh_source_event_id = tle_source_event_id e, tlh_account = tle_account e,
       tlh_conversation = tle_conversation e, tlh_thread_id = tle_thread_id e, tlh_kind = kind,
       tlh_fingerprint = hex_of (sha v)\<rparr>)"

definition is_content_digest_reference :: "string \<Rightarrow> bool" where
  "is_content_digest_reference v =
     (case strip_prefix ''sha256:'' v of
        None \<Rightarrow> False
      | Some d \<Rightarrow> length d = 64 \<and> list_all is_hex_digit d)"

definition segment_hints :: "(string \<Rightarrow> string) \<Rightarrow> thread_link_event \<Rightarrow> content_segment \<Rightarrow> thread_link_hint list" where
  "segment_hints sha e s =
     (case s of
        Media kind key _ _ \<Rightarrow>
          if kind = File then [make_hint sha e ExactFileSourceKeySignal key AsciiCaseInsensitive] else []
      | FileVersionReference cur prev \<Rightarrow>
          [make_hint sha e ExactFileSourceKeySignal cur AsciiCaseInsensitive,
           make_hint sha e ExplicitFileVersionSignal prev AsciiCaseInsensitive]
      | Forward key \<Rightarrow> [make_hint sha e ExactForwardSourceKeySignal key ExactValue]
      | Rich _ key _ \<Rightarrow>
          if is_content_digest_reference key then [make_hint sha e ExactRichContentKeySignal key ExactValue] else []
      | _ \<Rightarrow> [])"

definition event_hints :: "(string \<Rightarrow> string) \<Rightarrow> thread_link_event \<Rightarrow> thread_link_hint list" where
  "event_hints sha e =
     (if tle_content_omitted e then []
      else map (\<lambda>v. make_hint sha e ExplicitProjectIdSignal v AsciiCaseInsensitive) (explicit_project_ids (tle_normalized_text e))
           @ concat (map (segment_hints sha e) (tle_segments e)))"

definition hint_key :: "thread_link_hint \<Rightarrow> string \<times> string \<times> string" where
  "hint_key h = (event_str (tlh_source_event_id h), link_signal_str (tlh_kind h), tlh_fingerprint h)"

text \<open>\<open>Vec::dedup_by\<close> keeps the first of a run of equal elements.\<close>

fun dedup_hints :: "thread_link_hint list \<Rightarrow> thread_link_hint list" where
  "dedup_hints (a # b # hs) =
     (if tlh_source_event_id a = tlh_source_event_id b \<and> tlh_kind a = tlh_kind b
         \<and> tlh_fingerprint a = tlh_fingerprint b
      then dedup_hints (a # hs) else a # dedup_hints (b # hs))"
| "dedup_hints hs = hs"

definition extract_hints :: "(string \<Rightarrow> string) \<Rightarrow> claimed_thread_link_batch \<Rightarrow> thread_link_hint list" where
  "extract_hints sha b = dedup_hints (sort_key hint_key (concat (map (event_hints sha) (clb_events b))))"

section \<open>The use cases\<close>

record thread_link_review_receipt =
  lrr_review_id :: thread_link_review_id
  lrr_candidate_id :: thread_link_candidate_id
  lrr_status :: thread_link_candidate_status
  lrr_changed :: bool

record thread_link_run =
  tlr_events_read :: nat
  tlr_hints_created :: nat
  tlr_candidates_created :: nat

record 'w thread_link_store =
  tls_claim_batch ::
    "u32 \<Rightarrow> u32 \<Rightarrow> u64 \<Rightarrow> ('w, inbound_event_store_error, claimed_thread_link_batch option) action"
  tls_commit_hints ::
    "thread_link_lease_token \<Rightarrow> thread_link_hint list \<Rightarrow> ('w, inbound_event_store_error, nat) action"
  tls_fail_batch :: "thread_link_lease_token \<Rightarrow> string \<Rightarrow> ('w, inbound_event_store_error, unit) action"
  tls_list_candidates ::
    "source_account_ref \<Rightarrow> thread_link_candidate_cursor option \<Rightarrow> u32 \<Rightarrow>
       ('w, inbound_event_store_error, thread_link_candidate_view list) action"
  tls_list_pending ::
    "source_account_ref \<Rightarrow> u32 \<Rightarrow> ('w, inbound_event_store_error, thread_link_candidate_view list) action"
  tls_load_review_context ::
    "thread_link_candidate_id \<Rightarrow> source_event_id \<Rightarrow>
       ('w, inbound_event_store_error, thread_link_review_context) action"
  tls_commit_review ::
    "validated_thread_link_review \<Rightarrow> ('w, inbound_event_store_error, thread_link_review_receipt) action"

text \<open>The body the trait gives \<open>list_pending_link_candidates\<close>.\<close>

definition default_list_pending ::
  "(source_account_ref \<Rightarrow> thread_link_candidate_cursor option \<Rightarrow> u32 \<Rightarrow>
      ('w, inbound_event_store_error, thread_link_candidate_view list) action) \<Rightarrow>
     source_account_ref \<Rightarrow> u32 \<Rightarrow> ('w, inbound_event_store_error, thread_link_candidate_view list) action" where
  "default_list_pending list_all_links account limit =
     seq (list_all_links account None limit) (\<lambda>vs. give (filter (\<lambda>v. lcv_status v = LinkProposed) vs))"

datatype thread_link_use_case_error =
    LinkConfiguration string
  | LinkDomain thread_link_error
  | LinkStore inbound_event_store_error

primrec link_use_case_error_display :: "thread_link_use_case_error \<Rightarrow> string" where
  "link_use_case_error_display (LinkConfiguration s) = ''invalid thread link configuration: '' @ s"
| "link_use_case_error_display (LinkDomain e) = thread_link_error_display e"
| "link_use_case_error_display (LinkStore e) = store_error_display e"

record 'w thread_link_use_case =
  lu_store :: "'w thread_link_store"
  lu_sha :: "string \<Rightarrow> string"
  lu_max_events :: u32
  lu_max_total_chars :: u32
  lu_lease_secs :: u64

definition thread_link_use_case_new ::
  "'w thread_link_use_case \<Rightarrow> (thread_link_use_case_error, 'w thread_link_use_case) result" where
  "thread_link_use_case_new u =
     (if lu_max_events u = 0 \<or> lu_max_total_chars u = 0 \<or> lu_lease_secs u = 0
      then Err (LinkConfiguration ''link scan budgets and lease must be positive'')
      else Ok u)"

definition link_call :: "('w, inbound_event_store_error, 'a) action \<Rightarrow> ('w, thread_link_use_case_error, 'a) action" where
  "link_call m w = (case m w of (r, w') \<Rightarrow> (map_err LinkStore r, w'))"

definition link_run_batch ::
  "'w thread_link_use_case \<Rightarrow> claimed_thread_link_batch \<Rightarrow>
     ('w, thread_link_use_case_error, thread_link_run option) action" where
  "link_run_batch u b w =
     (let hints = extract_hints (lu_sha u) b in
      case tls_commit_hints (lu_store u) (clb_lease_token b) hints w of
        (Ok n, w1) \<Rightarrow>
          (Ok (Some \<lparr>tlr_events_read = length (clb_events b), tlr_hints_created = length hints,
                     tlr_candidates_created = n\<rparr>), w1)
      | (Err e, w1) \<Rightarrow>
          (case tls_fail_batch (lu_store u) (clb_lease_token b) (store_error_display e) w1 of
             (Panic, w2) \<Rightarrow> (Panic, w2)
           | (_, w2) \<Rightarrow> (Err (LinkStore e), w2))
      | (Panic, w1) \<Rightarrow> (Panic, w1))"

definition link_run_once ::
  "'w thread_link_use_case \<Rightarrow> ('w, thread_link_use_case_error, thread_link_run option) action" where
  "link_run_once u =
     seq (link_call (tls_claim_batch (lu_store u) (lu_max_events u) (lu_max_total_chars u) (lu_lease_secs u))) (\<lambda>batch.
       case batch of None \<Rightarrow> give None | Some b \<Rightarrow> link_run_batch u b)"

definition link_list ::
  "'w thread_link_store \<Rightarrow> source_account_ref \<Rightarrow> thread_link_candidate_cursor option \<Rightarrow> u32 \<Rightarrow>
     ('w, thread_link_use_case_error, thread_link_candidate_view list) action" where
  "link_list S account cursor limit =
     seq (lift_r (ensure (\<not> (limit = 0 \<or> 100 < limit))
            (LinkConfiguration ''thread link review page limit must be between 1 and 100''))) (\<lambda>_.
       link_call (tls_list_candidates S account cursor limit))"

definition link_list_pending ::
  "'w thread_link_store \<Rightarrow> source_account_ref \<Rightarrow> u32 \<Rightarrow>
     ('w, thread_link_use_case_error, thread_link_candidate_view list) action" where
  "link_list_pending S account limit =
     seq (lift_r (ensure (\<not> (limit = 0 \<or> 20 < limit))
            (LinkConfiguration ''pending thread link candidate limit must be between 1 and 20''))) (\<lambda>_.
       link_call (tls_list_pending S account limit))"

definition link_review ::
  "string \<Rightarrow> 'w thread_link_store \<Rightarrow> thread_link_candidate_id \<Rightarrow> source_event_id \<Rightarrow>
     thread_link_review_action \<Rightarrow> ('w, thread_link_use_case_error, thread_link_review_receipt) action" where
  "link_review uuid S i command action =
     seq (link_call (tls_load_review_context S i command)) (\<lambda>cx.
     seq (lift_r (map_err LinkDomain (validate_thread_link_review uuid cx action))) (\<lambda>review.
       link_call (tls_commit_review S review)))"

section \<open>Lemmas\<close>

lemma link_call_Ok [result_simps]: "link_call m w = (Ok a, w') \<longleftrightarrow> m w = (Ok a, w')"
  by (auto simp: link_call_def result_simps split: prod.splits)

lemma link_unless_Ok [guard_simps]: "link_unless b msg = Ok u \<longleftrightarrow> b"
  by (auto simp: link_unless_def ensure_inv)

lemma dedup_hints_subset: "set (dedup_hints hs) \<subseteq> set hs"
  by (induction hs rule: dedup_hints.induct) auto

lemma dedup_hints_keys: "hint_key ` set (dedup_hints hs) = hint_key ` set hs"
  by (induction hs rule: dedup_hints.induct) (auto simp: hint_key_def)

lemma link_signal_str_inj: "link_signal_str a = link_signal_str b \<Longrightarrow> a = b"
  by (cases a; cases b) simp_all

lemma hint_key_eq:
  "hint_key a = hint_key b \<longleftrightarrow>
     tlh_source_event_id a = tlh_source_event_id b \<and> tlh_kind a = tlh_kind b \<and> tlh_fingerprint a = tlh_fingerprint b"
  by (auto simp: hint_key_def dest: link_signal_str_inj source_event_id.expand)

lemma dedup_hints_distinct:
  "sorted (map hint_key hs) \<Longrightarrow> distinct (map hint_key (dedup_hints hs))"
proof (induction hs rule: dedup_hints.induct)
  case (1 a b hs)
  show ?case
  proof (cases "hint_key a = hint_key b")
    case True
    then show ?thesis using 1 by (simp add: hint_key_eq)
  next
    case False
    have "hint_key a \<noteq> hint_key h" if "h \<in> set (b # hs)" for h
    proof -
      have "hint_key a \<le> hint_key b" "hint_key b \<le> hint_key h" using 1(3) that by auto
      then show ?thesis using False by auto
    qed
    then have "hint_key a \<notin> hint_key ` set (dedup_hints (b # hs))"
      unfolding dedup_hints_keys by blast
    then show ?thesis using 1 False by (simp add: hint_key_eq)
  qed
qed simp_all

lemma make_hint_fields [simp]:
  "tlh_source_event_id (make_hint sha e k raw n) = tle_source_event_id e"
  "tlh_account (make_hint sha e k raw n) = tle_account e"
  "tlh_conversation (make_hint sha e k raw n) = tle_conversation e"
  "tlh_thread_id (make_hint sha e k raw n) = tle_thread_id e"
  "tlh_kind (make_hint sha e k raw n) = k"
  by (simp_all add: make_hint_def Let_def)

lemma event_hint_made:
  assumes "h \<in> set (event_hints sha e)"
  shows "\<not> tle_content_omitted e \<and> (\<exists>k raw n. link_signal_is_strong k \<and> h = make_hint sha e k raw n)"
proof -
  have "\<exists>k raw n. link_signal_is_strong k \<and> h = make_hint sha e k raw n" if "h \<in> set (segment_hints sha e s)" for s
    using that by (cases s) (auto simp: segment_hints_def link_signal_is_strong_def split: if_splits)
  then show ?thesis
    using assms by (auto simp: event_hints_def link_signal_is_strong_def split: if_splits)
qed

end
