(* ===== verification/Health.thy ===== *)
theory Health
  imports Rust_Prelude Ordered_Map Rust_String
begin

text \<open>
  Health of the running system (\<open>personal-secretary/src/domain/health.rs\<close>,
  \<open>application/health_service.rs\<close>): the state of a subsystem, the overall state as the worst of
  them, and the aggregator with its bounded cache. The aggregator's producers, its clock
  (\<open>Instant\<close>, nanoseconds on a monotonic clock) and the cell of its cache are in the world \<open>'w\<close>.
\<close>

section \<open>States\<close>

datatype health_status = HealthHealthy | HealthDegraded | HealthUncertain | HealthUnavailable

primrec health_status_str :: "health_status \<Rightarrow> string" where
  "health_status_str HealthHealthy = ''healthy''"
| "health_status_str HealthDegraded = ''degraded''"
| "health_status_str HealthUncertain = ''uncertain''"
| "health_status_str HealthUnavailable = ''unavailable''"

fun worse_status :: "health_status \<Rightarrow> health_status \<Rightarrow> health_status" where
  "worse_status HealthUnavailable _ = HealthUnavailable"
| "worse_status _ HealthUnavailable = HealthUnavailable"
| "worse_status HealthUncertain _ = HealthUncertain"
| "worse_status _ HealthUncertain = HealthUncertain"
| "worse_status HealthDegraded _ = HealthDegraded"
| "worse_status _ HealthDegraded = HealthDegraded"
| "worse_status HealthHealthy HealthHealthy = HealthHealthy"

definition health_aggregate :: "health_status list \<Rightarrow> health_status" where
  "health_aggregate statuses =
     (if statuses = [] then HealthUncertain else fold (\<lambda>s worst. worse_status worst s) statuses HealthHealthy)"

record subsystem_health =
  sh_name :: string
  sh_status :: health_status
  sh_last_success_at :: "i64 option"
  sh_last_error :: "string option"
  sh_metrics :: "(string, u64) btree"

record health_snapshot =
  hs_overall_status :: health_status
  hs_subsystems :: "subsystem_health list"
  hs_snapshot_at :: i64
  hs_account_id :: "string option"
  hs_connection_epoch_id :: "string option"

definition health_snapshot_new :: "subsystem_health list \<Rightarrow> i64 \<Rightarrow> health_snapshot" where
  "health_snapshot_new subsystems at =
     \<lparr>hs_overall_status = health_aggregate (map sh_status subsystems), hs_subsystems = subsystems,
      hs_snapshot_at = at, hs_account_id = None, hs_connection_epoch_id = None\<rparr>"

section \<open>The aggregator\<close>

record cached_snapshot =
  csn_snapshot :: health_snapshot
  csn_cached_at :: nat

record 'w health_aggregator =
  ha_producers :: "('w \<Rightarrow> subsystem_health \<times> 'w) list"
  ha_cache_ttl :: nat
  ha_instant :: "'w \<Rightarrow> nat"
  ha_cache :: "'w \<Rightarrow> cached_snapshot option"
  ha_set_cache :: "cached_snapshot option \<Rightarrow> 'w \<Rightarrow> 'w"

definition add_producer ::
  "'w health_aggregator \<Rightarrow> ('w \<Rightarrow> subsystem_health \<times> 'w) \<Rightarrow> 'w \<Rightarrow> 'w health_aggregator \<times> 'w" where
  "add_producer H p w = (H\<lparr>ha_producers := ha_producers H @ [p]\<rparr>, ha_set_cache H None w)"

fun collect_health :: "('w \<Rightarrow> subsystem_health \<times> 'w) list \<Rightarrow> 'w \<Rightarrow> subsystem_health list \<times> 'w" where
  "collect_health [] w = ([], w)"
| "collect_health (p # ps) w =
     (case p w of (s, w1) \<Rightarrow> (case collect_health ps w1 of (ss, w2) \<Rightarrow> (s # ss, w2)))"

definition refresh_snapshot :: "'w health_aggregator \<Rightarrow> i64 \<Rightarrow> 'w \<Rightarrow> health_snapshot \<times> 'w" where
  "refresh_snapshot H now w =
     (case collect_health (ha_producers H) w of (ss, w1) \<Rightarrow>
        (let snap = health_snapshot_new ss now in
         (snap, ha_set_cache H (Some \<lparr>csn_snapshot = snap, csn_cached_at = ha_instant H w1\<rparr>) w1)))"

definition aggregator_snapshot :: "'w health_aggregator \<Rightarrow> i64 \<Rightarrow> 'w \<Rightarrow> health_snapshot \<times> 'w" where
  "aggregator_snapshot H now w =
     (case ha_cache H w of
        Some c \<Rightarrow>
          if ha_instant H w - csn_cached_at c < ha_cache_ttl H then (csn_snapshot c, w) else refresh_snapshot H now w
      | None \<Rightarrow> refresh_snapshot H now w)"

definition invalidate_cache :: "'w health_aggregator \<Rightarrow> 'w \<Rightarrow> 'w" where
  "invalidate_cache H w = ha_set_cache H None w"

section \<open>The worst state\<close>

instantiation health_status :: linorder
begin

primrec health_rank :: "health_status \<Rightarrow> nat" where
  "health_rank HealthHealthy = 0"
| "health_rank HealthDegraded = 1"
| "health_rank HealthUncertain = 2"
| "health_rank HealthUnavailable = 3"

definition less_eq_health_status :: "health_status \<Rightarrow> health_status \<Rightarrow> bool" where
  "a \<le> b \<longleftrightarrow> health_rank a \<le> health_rank b"

definition less_health_status :: "health_status \<Rightarrow> health_status \<Rightarrow> bool" where
  "a < b \<longleftrightarrow> health_rank a < health_rank b"

instance
proof
  fix a b :: health_status
  show "a \<le> b \<Longrightarrow> b \<le> a \<Longrightarrow> a = b"
    by (cases a; cases b) (simp_all add: less_eq_health_status_def)
qed (auto simp: less_eq_health_status_def less_health_status_def)

end

lemma worse_status_max: "worse_status a b = max a b"
  by (cases a; cases b) (simp_all add: max_def less_eq_health_status_def)

lemma fold_worse: "fold (\<lambda>s worst. worse_status worst s) xs a = Max (insert a (set xs))"
  using Max.set_eq_fold [of a xs] by (simp add: worse_status_max max.commute)

lemma healthy_least: "HealthHealthy \<le> s"
  by (cases s) (simp_all add: less_eq_health_status_def)

lemma aggregate_is_worst:
  assumes "xs \<noteq> []"
  shows "health_aggregate xs = Max (set xs)"
  using assms Max_insert [of "set xs" HealthHealthy] healthy_least
  by (simp add: health_aggregate_def fold_worse max.absorb2)

lemma snapshot_of_producers:
  "collect_health ps w = (ss, w1) \<Longrightarrow> length ss = length ps"
  by (induction ps arbitrary: w ss w1) (auto split: prod.splits)

end
