(* ===== verification/Policy_Service.thy ===== *)
theory Policy_Service
  imports Owner_Response
begin

text \<open>
  The notification policy service
  (\<open>personal-secretary/src/application/notification_policy_service.rs\<close>): the snapshot a worker loads
  and the input of the evaluator it gives, the authorization of an owner command, and the use case
  over the store, a record of actions on a world of its own.
\<close>

section \<open>Snapshots\<close>

record owner_binding_snapshot =
  obs_managed_account :: source_account_ref
  obs_command_account :: source_account_ref
  obs_owner_actor_id :: string

record policy_rule_snapshot =
  prs_family_id :: policy_family_id
  prs_revision_id :: policy_revision_id
  prs_generation :: u64
  prs_kind :: notification_policy_kind
  prs_rule :: notification_policy_rule

record family_generation_snapshot =
  fgs_family_id :: policy_family_id
  fgs_current_revision_id :: policy_revision_id
  fgs_generation :: u64

record evaluation_snapshot =
  esn_request_id :: string
  esn_candidate :: notification_candidate_ref
  esn_match_key :: notification_match_key
  esn_candidate_is_current :: bool
  esn_account_policy_epoch :: u64
  esn_family_generations :: "family_generation_snapshot list"
  esn_active_rules :: "policy_rule_snapshot list"
  esn_owner_binding :: owner_binding_snapshot

datatype policy_store_error = PolicyUnauthorized | PolicyUnavailable | PolicyConflict | PolicyDatabase

datatype policy_use_case_error =
    PolicyDomain notification_policy_error
  | PolicyStore policy_store_error
  | OwnerCommandRequired
  | OwnerBindingMismatch
  | CrossAccountAction
  | InvalidRecoveryLimit
  | InvalidListLimit
  | AmbiguousPolicyRules

definition match_key_matches :: "notification_match_key \<Rightarrow> notification_match_key \<Rightarrow> bool" where
  "match_key_matches expected actual \<longleftrightarrow>
     mk_account expected = mk_account actual
     \<and> match_field_matches (mk_conversation expected) (mk_conversation actual)
     \<and> match_field_matches (mk_actor_id expected) (mk_actor_id actual)
     \<and> match_field_matches (mk_category expected) (mk_category actual)
     \<and> match_field_matches (mk_mentioned_owner expected) (mk_mentioned_owner actual)
     \<and> match_field_matches (mk_importance expected) (mk_importance actual)
     \<and> match_field_matches (mk_event_kind expected) (mk_event_kind actual)"

text \<open>The first of the rules, unless there are two.\<close>

definition unique_rule :: "policy_rule_snapshot list \<Rightarrow> (policy_use_case_error, policy_rule_snapshot option) result" where
  "unique_rule rs =
     (case rs of [] \<Rightarrow> Ok None | [r] \<Rightarrow> Ok (Some r) | _ \<Rightarrow> Err AmbiguousPolicyRules)"

definition configured_rule_for ::
  "evaluation_snapshot \<Rightarrow> notification_policy_kind \<Rightarrow> (policy_use_case_error, notification_policy_rule option) result" where
  "configured_rule_for s k =
     bind_r (unique_rule (filter (\<lambda>r. prs_kind r = k) (esn_active_rules s))) (\<lambda>r. Ok (map_option prs_rule r))"

definition matching_rule_snapshot ::
  "evaluation_snapshot \<Rightarrow> notification_policy_kind \<Rightarrow> (policy_use_case_error, policy_rule_snapshot option) result" where
  "matching_rule_snapshot s k =
     unique_rule (filter (\<lambda>r. prs_kind r = k \<and> match_key_matches (npr_match_key (prs_rule r)) (esn_match_key s))
                    (esn_active_rules s))"

definition rule_for ::
  "evaluation_snapshot \<Rightarrow> notification_policy_kind \<Rightarrow> (policy_use_case_error, notification_policy_rule option) result" where
  "rule_for s k = bind_r (matching_rule_snapshot s k) (\<lambda>r. Ok (map_option prs_rule r))"

definition evaluation_input_of :: "evaluation_snapshot \<Rightarrow> i64 \<Rightarrow> (policy_use_case_error, evaluation_input) result" where
  "evaluation_input_of s now =
     bind_r (rule_for s ConversationKind) (\<lambda>conversation.
     bind_r (rule_for s ContactKind) (\<lambda>contact.
     bind_r (rule_for s CategoryKind) (\<lambda>category.
     bind_r (rule_for s AccountDefaultKind) (\<lambda>account_default.
     bind_r (configured_rule_for s QuietHoursKind) (\<lambda>quiet.
       Ok \<lparr>ei_candidate_is_current = esn_candidate_is_current s,
           ei_matching_rule = conversation,
           ei_conversation_rule = Option.bind conversation npr_conversation,
           ei_contact_rule = contact, ei_category_rule = category, ei_account_default_rule = account_default,
           ei_quiet_hours = Option.bind quiet npr_quiet_hours, ei_now = now\<rparr>)))))"

section \<open>Claims, requests and receipts\<close>

record claimed_evaluation =
  cev_request_id :: string
  cev_lease_token :: string
  cev_lease_expires_at :: i64
  cev_attempt :: u64

record evaluation_commit =
  eco_claim :: claimed_evaluation
  eco_snapshot :: evaluation_snapshot
  eco_plan :: evaluation_plan

datatype evaluation_commit_result = CommitApplied | CommitLeaseLost | CommitSnapshotStale

record candidate_production_report =
  cpr_candidates_created :: u64
  cpr_requests_created :: u64
  cpr_legacy_outbox_suppressed :: u64
  cpr_sources_skipped_stale :: u64

record notification_feedback_request =
  nfr_candidate :: notification_candidate_ref
  nfr_match_key :: notification_match_key
  nfr_important :: bool
  nfr_promote_to_rule :: bool
  nfr_command_source_event_id :: string

record policy_write_request =
  pwr_account :: source_account_ref
  pwr_family_id :: "policy_family_id option"
  pwr_canonical_scope_key :: string
  pwr_kind :: notification_policy_kind
  pwr_rule :: notification_policy_rule
  pwr_command_source_event_id :: "string option"
  pwr_audit_summary :: string

record policy_disable_request =
  pdr_account :: source_account_ref
  pdr_family_id :: policy_family_id
  pdr_expected_generation :: u64
  pdr_command_source_event_id :: "string option"
  pdr_audit_summary :: string

record policy_effect_request =
  pfr_account :: source_account_ref
  pfr_command_source_event_id :: source_event_id
  pfr_run_id :: string
  pfr_effect_id :: string
  pfr_proposal_id :: string
  pfr_proposal_json :: string
  pfr_lease_token :: string
  pfr_action :: secretary_action

record notification_policy_family =
  npf_family_id :: policy_family_id
  npf_account :: source_account_ref
  npf_canonical_scope_key :: string
  npf_kind :: notification_policy_kind
  npf_current_revision_id :: policy_revision_id
  npf_generation :: u64

section \<open>Authorization\<close>

record policy_authorization =
  pau_owner_binding_account :: source_account_ref
  pau_owner_actor_id :: string
  pau_command_account :: source_account_ref
  pau_command_actor_id :: string
  pau_command_role :: message_role
  pau_target_account :: source_account_ref

definition authorize_policy_action :: "policy_authorization \<Rightarrow> (policy_use_case_error, unit) result" where
  "authorize_policy_action a =
     bind_r (ensure (pau_command_role a = OwnerCommand) OwnerCommandRequired) (\<lambda>_.
     bind_r (ensure (\<not> (is_blank (pau_owner_actor_id a) \<or> is_blank (pau_command_actor_id a)
                        \<or> pau_owner_actor_id a \<noteq> pau_command_actor_id a)) OwnerBindingMismatch) (\<lambda>_.
       ensure (pau_owner_binding_account a = pau_target_account a) CrossAccountAction))"

section \<open>The use case\<close>

record 'w policy_store =
  pos_authorization :: "source_account_ref \<Rightarrow> source_event_id \<Rightarrow> ('w, policy_store_error, policy_authorization) action"
  pos_create_or_replace :: "policy_write_request \<Rightarrow> ('w, policy_store_error, notification_policy_family) action"
  pos_disable :: "policy_disable_request \<Rightarrow> ('w, policy_store_error, notification_policy_family) action"
  pos_record_feedback :: "notification_feedback_request \<Rightarrow> ('w, policy_store_error, unit) action"
  pos_apply_effect :: "policy_effect_request \<Rightarrow> ('w, policy_store_error, secretary_action_receipt) action"
  pos_list_artifacts :: "source_account_ref \<Rightarrow> u16 \<Rightarrow> ('w, policy_store_error, policy_artifact list) action"
  pos_explain_decision :: "source_account_ref \<Rightarrow> string \<Rightarrow> ('w, policy_store_error, policy_artifact option) action"
  pos_claim_evaluation :: "string \<Rightarrow> i64 \<Rightarrow> u64 \<Rightarrow> ('w, policy_store_error, claimed_evaluation option) action"
  pos_load_snapshot :: "claimed_evaluation \<Rightarrow> ('w, policy_store_error, evaluation_snapshot) action"
  pos_commit_evaluation :: "evaluation_commit \<Rightarrow> ('w, policy_store_error, evaluation_commit_result) action"
  pos_recover_expired :: "i64 \<Rightarrow> u32 \<Rightarrow> ('w, policy_store_error, u64) action"
  pos_reply_denied :: "source_account_ref \<Rightarrow> string \<Rightarrow> ('w, policy_store_error, bool) action"

definition policy_call :: "('w, policy_store_error, 'a) action \<Rightarrow> ('w, policy_use_case_error, 'a) action" where
  "policy_call m w = (case m w of (r, w') \<Rightarrow> (map_err PolicyStore r, w'))"

datatype reply_gate_decision = ReplyAllowed | ReplyDenied

text \<open>Only a store that answers \<open>false\<close> for a known actor allows an automatic reply.\<close>

definition evaluate_reply_gate ::
  "'w policy_store \<Rightarrow> source_account_ref \<Rightarrow> string match_field \<Rightarrow> ('w, unit, reply_gate_decision) action" where
  "evaluate_reply_gate S account who w =
     (case who of
        Known i \<Rightarrow>
          (case pos_reply_denied S account i w of
             (Ok False, w') \<Rightarrow> (Ok ReplyAllowed, w')
           | (Panic, w') \<Rightarrow> (Panic, w')
           | (_, w') \<Rightarrow> (Ok ReplyDenied, w'))
      | _ \<Rightarrow> (Ok ReplyDenied, w))"

definition policy_authorization_for ::
  "'w policy_store \<Rightarrow> source_account_ref \<Rightarrow> source_event_id \<Rightarrow> ('w, policy_use_case_error, policy_authorization) action" where
  "policy_authorization_for S account command =
     seq (policy_call (pos_authorization S account command)) (\<lambda>a.
     seq (lift_r (authorize_policy_action a)) (\<lambda>_. give a))"

definition authorized_for ::
  "policy_authorization \<Rightarrow> source_account_ref \<Rightarrow> ('w, policy_use_case_error, unit) action" where
  "authorized_for a account =
     seq (lift_r (authorize_policy_action a)) (\<lambda>_. lift_r (ensure (pau_target_account a = account) CrossAccountAction))"

definition check_quiet_hours ::
  "'tz chrono_ops \<Rightarrow> i64 \<Rightarrow> quiet_hours_rule option \<Rightarrow> ('w, policy_use_case_error, unit) action" where
  "check_quiet_hours X now q =
     (case q of None \<Rightarrow> give () | Some r \<Rightarrow> lift_r (map_err PolicyDomain (validate_quiet_hours X r now)))"

definition policy_create_or_replace ::
  "'tz chrono_ops \<Rightarrow> i64 \<Rightarrow> 'w policy_store \<Rightarrow> policy_authorization \<Rightarrow> policy_write_request \<Rightarrow>
     ('w, policy_use_case_error, notification_policy_family) action" where
  "policy_create_or_replace X now S a r =
     seq (authorized_for a (pwr_account r)) (\<lambda>_.
     seq (check_quiet_hours X now (npr_quiet_hours (pwr_rule r))) (\<lambda>_.
       policy_call (pos_create_or_replace S r)))"

definition policy_disable ::
  "'w policy_store \<Rightarrow> policy_authorization \<Rightarrow> policy_disable_request \<Rightarrow>
     ('w, policy_use_case_error, notification_policy_family) action" where
  "policy_disable S a r = seq (authorized_for a (pdr_account r)) (\<lambda>_. policy_call (pos_disable S r))"

definition policy_record_feedback ::
  "'w policy_store \<Rightarrow> notification_feedback_request \<Rightarrow> ('w, policy_use_case_error, unit) action" where
  "policy_record_feedback S r =
     seq (if nfr_promote_to_rule r
          then lift_r (map_err PolicyDomain (eligibility_for_long_term_rule (nfr_match_key r))) else give ()) (\<lambda>_.
       policy_call (pos_record_feedback S r))"

definition policy_record_authorized_feedback ::
  "'w policy_store \<Rightarrow> policy_authorization \<Rightarrow> notification_feedback_request \<Rightarrow> ('w, policy_use_case_error, unit) action" where
  "policy_record_authorized_feedback S a r =
     seq (lift_r (authorize_policy_action a)) (\<lambda>_.
     seq (lift_r (ensure (\<not> (pau_target_account a \<noteq> cand_account (nfr_candidate r)
                             \<or> cand_account (nfr_candidate r) \<noteq> mk_account (nfr_match_key r))) CrossAccountAction)) (\<lambda>_.
       policy_record_feedback S r))"

definition requested_quiet_hours :: "secretary_action \<Rightarrow> quiet_hours_rule option" where
  "requested_quiet_hours a = (case a of SetQuietHours _ _ q \<Rightarrow> Some q | _ \<Rightarrow> None)"

definition policy_apply_fenced ::
  "'tz chrono_ops \<Rightarrow> i64 \<Rightarrow> 'w policy_store \<Rightarrow> policy_effect_request \<Rightarrow>
     ('w, policy_use_case_error, secretary_action_receipt) action" where
  "policy_apply_fenced X now S r =
     seq (check_quiet_hours X now (requested_quiet_hours (pfr_action r))) (\<lambda>_. policy_call (pos_apply_effect S r))"

definition policy_apply_effect ::
  "'tz chrono_ops \<Rightarrow> i64 \<Rightarrow> 'w policy_store \<Rightarrow> policy_authorization \<Rightarrow> policy_effect_request \<Rightarrow>
     ('w, policy_use_case_error, secretary_action_receipt) action" where
  "policy_apply_effect X now S a r =
     seq (authorized_for a (pfr_account r)) (\<lambda>_. policy_apply_fenced X now S r)"

definition policy_list_artifacts ::
  "'w policy_store \<Rightarrow> policy_authorization \<Rightarrow> u16 \<Rightarrow> ('w, policy_use_case_error, policy_artifact list) action" where
  "policy_list_artifacts S a limit =
     seq (lift_r (authorize_policy_action a)) (\<lambda>_.
     seq (lift_r (ensure (1 \<le> limit \<and> limit \<le> 20) InvalidListLimit)) (\<lambda>_.
       policy_call (pos_list_artifacts S (pau_target_account a) limit)))"

definition policy_explain_decision ::
  "'w policy_store \<Rightarrow> policy_authorization \<Rightarrow> string \<Rightarrow> ('w, policy_use_case_error, policy_artifact option) action" where
  "policy_explain_decision S a i =
     seq (lift_r (authorize_policy_action a)) (\<lambda>_. policy_call (pos_explain_decision S (pau_target_account a) i))"

definition policy_recover_expired ::
  "'w policy_store \<Rightarrow> i64 \<Rightarrow> u32 \<Rightarrow> ('w, policy_use_case_error, u64) action" where
  "policy_recover_expired S now limit =
     seq (lift_r (ensure (1 \<le> limit \<and> limit \<le> 1000) InvalidRecoveryLimit)) (\<lambda>_.
       policy_call (pos_recover_expired S now limit))"

definition policy_evaluate_next ::
  "'w policy_store \<Rightarrow> i64 \<Rightarrow> string \<Rightarrow> u64 \<Rightarrow> (evaluation_snapshot \<Rightarrow> evaluation_plan) \<Rightarrow>
     ('w, policy_use_case_error, evaluation_commit_result option) action" where
  "policy_evaluate_next S now worker lease evaluator =
     seq (policy_call (pos_claim_evaluation S worker now lease)) (\<lambda>claimed.
       case claimed of
         None \<Rightarrow> give None
       | Some claim \<Rightarrow>
           seq (policy_call (pos_load_snapshot S claim)) (\<lambda>s.
           seq (policy_call (pos_commit_evaluation S \<lparr>eco_claim = claim, eco_snapshot = s, eco_plan = evaluator s\<rparr>)) (\<lambda>r.
             give (Some r))))"

section \<open>Rendering of errors\<close>

primrec policy_error_display :: "notification_policy_error \<Rightarrow> string" where
  "policy_error_display (InvalidPolicyIdentity s) = ''invalid notification policy identity: '' @ s"
| "policy_error_display (InvalidMatchKey s) = ''invalid notification policy match key: '' @ s"
| "policy_error_display UnknownMatchMetadata = ''long-term rule requires known or absent match metadata''"
| "policy_error_display InvalidCandidateRef = ''invalid notification candidate reference''"
| "policy_error_display InvalidRevisionShape = ''rule and tombstone revision shapes are mutually exclusive''"
| "policy_error_display (InvalidQuietHours s) = ''invalid quiet-hours rule: '' @ s"
| "policy_error_display AmbiguousScheduleTime = ''quiet-hours boundary has an ambiguous or nonexistent local time''"
| "policy_error_display ScheduleTimeAmbiguousError = ''quiet-hours evaluation encountered an ambiguous local time''"

primrec policy_store_error_display :: "policy_store_error \<Rightarrow> string" where
  "policy_store_error_display PolicyUnauthorized = ''notification policy authorization is no longer valid''"
| "policy_store_error_display PolicyUnavailable = ''notification policy storage is unavailable''"
| "policy_store_error_display PolicyConflict = ''notification policy storage rejected the request''"
| "policy_store_error_display PolicyDatabase = ''notification policy storage failed''"

primrec policy_use_case_error_display :: "policy_use_case_error \<Rightarrow> string" where
  "policy_use_case_error_display (PolicyDomain e) = policy_error_display e"
| "policy_use_case_error_display (PolicyStore e) = policy_store_error_display e"
| "policy_use_case_error_display OwnerCommandRequired = ''notification policy action requires a verified OwnerCommand''"
| "policy_use_case_error_display OwnerBindingMismatch =
     ''notification policy action owner binding does not match the command''"
| "policy_use_case_error_display CrossAccountAction = ''notification policy action cannot target another account''"
| "policy_use_case_error_display InvalidRecoveryLimit =
     ''notification policy recovery limit must be between 1 and 1000''"
| "policy_use_case_error_display InvalidListLimit = ''notification policy list limit must be between 1 and 20''"
| "policy_use_case_error_display AmbiguousPolicyRules =
     ''multiple current notification rules match the same evaluation priority''"

section \<open>Lemmas\<close>

lemma authorize_policy_action_Ok [guard_simps]:
  "authorize_policy_action a = Ok x \<longleftrightarrow>
     pau_command_role a = OwnerCommand \<and> \<not> is_blank (pau_owner_actor_id a)
     \<and> pau_owner_actor_id a = pau_command_actor_id a \<and> pau_owner_binding_account a = pau_target_account a"
  by (auto simp: authorize_policy_action_def result_simps)

lemma policy_call_Ok [result_simps]: "policy_call m w = (Ok a, w') \<longleftrightarrow> m w = (Ok a, w')"
  by (auto simp: policy_call_def result_simps split: prod.splits)

lemma unique_rule_Ok:
  "unique_rule rs = Ok (Some r) \<longleftrightarrow> rs = [r]" "unique_rule rs = Ok None \<longleftrightarrow> rs = []"
  by (auto simp: unique_rule_def split: list.splits)

end
