(* ===== verification/Agenda.thy ===== *)
theory Agenda
  imports Policy_Service
begin

text \<open>
  Schedules, tasks and reminders of the owner (\<open>personal-secretary/src/domain/agenda.rs\<close>,
  \<open>application/agenda_service.rs\<close>): the mutations, their validation against the clock, and the use
  case in front of its store. Parsing an IANA time zone (\<open>chrono-tz\<close>) is the parameter \<open>valid_tz\<close>.
\<close>

section \<open>Data\<close>

definition max_title_chars :: nat where "max_title_chars = 500"
definition max_timezone_bytes :: nat where "max_timezone_bytes = 64"

datatype agenda_error =
    AgendaInvalid string
  | AgendaNotFound
  | AgendaVersionConflict
  | AgendaUnauthorized
  | AgendaLeaseLost
  | AgendaDatabase string
  | AgendaStoreFailed string

primrec agenda_error_display :: "agenda_error \<Rightarrow> string" where
  "agenda_error_display (AgendaInvalid s) = ''invalid agenda data: '' @ s"
| "agenda_error_display AgendaNotFound = ''agenda item was not found''"
| "agenda_error_display AgendaVersionConflict = ''agenda item version conflict''"
| "agenda_error_display AgendaUnauthorized = ''agenda mutation is not authorized''"
| "agenda_error_display AgendaLeaseLost = ''agenda action lease was lost''"
| "agenda_error_display (AgendaDatabase s) = ''agenda database operation failed: '' @ s"
| "agenda_error_display (AgendaStoreFailed s) = ''agenda store failed: '' @ s"

datatype agenda_item_id = AgendaItemId (agenda_item_str: string)

definition agenda_item_id_new :: "string \<Rightarrow> (agenda_error, agenda_item_id) result" where
  "agenda_item_id_new v =
     (if is_blank v \<or> 36 < length v then Err (AgendaInvalid ''agenda item id must contain 1..=36 bytes'')
      else Ok (AgendaItemId v))"

datatype agenda_item_kind = AgendaSchedule | AgendaTask | AgendaReminder

primrec agenda_item_kind_str :: "agenda_item_kind \<Rightarrow> string" where
  "agenda_item_kind_str AgendaSchedule = ''schedule''"
| "agenda_item_kind_str AgendaTask = ''task''"
| "agenda_item_kind_str AgendaReminder = ''reminder''"

datatype agenda_item_status = AgendaScheduled | AgendaCompleted | AgendaCancelled

primrec agenda_item_status_str :: "agenda_item_status \<Rightarrow> string" where
  "agenda_item_status_str AgendaScheduled = ''scheduled''"
| "agenda_item_status_str AgendaCompleted = ''completed''"
| "agenda_item_status_str AgendaCancelled = ''cancelled''"

record agenda_item =
  ai_item_id :: agenda_item_id
  ai_account :: source_account_ref
  ai_kind :: agenda_item_kind
  ai_title :: string
  ai_scheduled_at :: "i64 option"
  ai_timezone :: string
  ai_status :: agenda_item_status
  ai_version :: u64
  ai_created_by_command :: source_event_id
  ai_current_version_command :: source_event_id
  ai_created_at :: i64
  ai_updated_at :: i64

datatype agenda_mutation =
    AgendaCreate agenda_item_kind string "i64 option" string
  | AgendaReschedule agenda_item_id u64 i64 string
  | AgendaComplete agenda_item_id u64
  | AgendaCancel agenda_item_id u64
  | AgendaSnooze agenda_item_id u64 i64 string

primrec agenda_mutation_kind :: "agenda_mutation \<Rightarrow> string" where
  "agenda_mutation_kind (AgendaCreate _ _ _ _) = ''create''"
| "agenda_mutation_kind (AgendaReschedule _ _ _ _) = ''reschedule''"
| "agenda_mutation_kind (AgendaComplete _ _) = ''complete''"
| "agenda_mutation_kind (AgendaCancel _ _) = ''cancel''"
| "agenda_mutation_kind (AgendaSnooze _ _ _ _) = ''snooze''"

section \<open>Validation\<close>

type_synonym agenda_check = "(agenda_error, unit) result"

definition agenda_time :: "i64 \<Rightarrow> i64 \<Rightarrow> agenda_check" where
  "agenda_time now v = ensure (\<not> v \<le> now) (AgendaInvalid ''agenda time must be in the future'')"

definition agenda_timezone :: "(string \<Rightarrow> bool) \<Rightarrow> string \<Rightarrow> agenda_check" where
  "agenda_timezone valid_tz v =
     ensure (\<not> (is_blank v \<or> max_timezone_bytes < length v \<or> \<not> valid_tz v))
       (AgendaInvalid ''agenda timezone must be a valid IANA name'')"

definition validate_agenda_mutation :: "(string \<Rightarrow> bool) \<Rightarrow> agenda_mutation \<Rightarrow> i64 \<Rightarrow> agenda_check" where
  "validate_agenda_mutation valid_tz m now =
     (case m of
        AgendaCreate _ title at tz \<Rightarrow>
          bind_r (ensure (\<not> (is_blank title \<or> max_title_chars < char_count title))
                    (AgendaInvalid ''agenda title must contain 1..=500 characters'')) (\<lambda>_.
          bind_r (agenda_timezone valid_tz tz) (\<lambda>_.
            (case at of Some v \<Rightarrow> agenda_time now v | None \<Rightarrow> Ok ())))
      | AgendaReschedule _ _ at tz \<Rightarrow> bind_r (agenda_timezone valid_tz tz) (\<lambda>_. agenda_time now at)
      | AgendaSnooze _ _ at tz \<Rightarrow> bind_r (agenda_timezone valid_tz tz) (\<lambda>_. agenda_time now at)
      | AgendaComplete _ _ \<Rightarrow> Ok ()
      | AgendaCancel _ _ \<Rightarrow> Ok ())"

section \<open>The use case\<close>

record agenda_apply_request =
  aar_account :: source_account_ref
  aar_command_source_event_id :: source_event_id
  aar_run_id :: string
  aar_effect_id :: string
  aar_proposal_id :: string
  aar_proposal_json :: string
  aar_lease_token :: string
  aar_idempotency_key :: string
  aar_mutation :: agenda_mutation

record agenda_mutation_receipt =
  amr_item :: agenda_item
  amr_result_ref :: string

record 'w agenda_store =
  as_apply :: "agenda_apply_request \<Rightarrow> i64 \<Rightarrow> ('w, agenda_error, agenda_mutation_receipt) action"
  as_list_upcoming :: "source_account_ref \<Rightarrow> i64 \<Rightarrow> u64 \<Rightarrow> u32 \<Rightarrow> ('w, agenda_error, agenda_item list) action"
  as_produce_due :: "i64 \<Rightarrow> u32 \<Rightarrow> ('w, agenda_error, candidate_production_report) action"

record 'w agenda_use_case =
  au_store :: "'w agenda_store"
  au_clock :: "'w \<Rightarrow> i64"
  au_valid_tz :: "string \<Rightarrow> bool"

definition agenda_identity_valid :: "agenda_apply_request \<Rightarrow> bool" where
  "agenda_identity_valid r \<longleftrightarrow>
     \<not> (is_blank (aar_run_id r) \<or> is_blank (aar_effect_id r) \<or> is_blank (aar_idempotency_key r)
        \<or> 191 < length (aar_idempotency_key r))"

definition agenda_apply ::
  "'w agenda_use_case \<Rightarrow> agenda_apply_request \<Rightarrow> ('w, agenda_error, agenda_mutation_receipt) action" where
  "agenda_apply U r w =
     (let now = au_clock U w in
      seq (lift_r (ensure (agenda_identity_valid r)
             (AgendaInvalid ''agenda effect identity is missing or unbounded''))) (\<lambda>_.
      seq (lift_r (validate_agenda_mutation (au_valid_tz U) (aar_mutation r) now)) (\<lambda>_.
        as_apply (au_store U) r now)) w)"

definition agenda_list_upcoming ::
  "'w agenda_use_case \<Rightarrow> source_account_ref \<Rightarrow> u64 \<Rightarrow> ('w, agenda_error, agenda_item list) action" where
  "agenda_list_upcoming U account horizon w =
     seq (lift_r (ensure (1 \<le> horizon \<and> horizon \<le> 31536000)
            (AgendaInvalid ''agenda horizon must be in 1..=31536000 seconds''))) (\<lambda>_.
       as_list_upcoming (au_store U) account (au_clock U w) horizon 100) w"

definition agenda_produce_due ::
  "'w agenda_use_case \<Rightarrow> u32 \<Rightarrow> ('w, agenda_error, candidate_production_report) action" where
  "agenda_produce_due U limit w =
     seq (lift_r (ensure (1 \<le> limit \<and> limit \<le> 1000)
            (AgendaInvalid ''agenda notification candidate scan limit must be in 1..=1000''))) (\<lambda>_.
       as_produce_due (au_store U) (au_clock U w) limit) w"

section \<open>Lemmas\<close>

text \<open>What a mutation schedules; completing and cancelling schedule nothing.\<close>

fun scheduled_time :: "agenda_mutation \<Rightarrow> i64 option" where
  "scheduled_time (AgendaCreate _ _ at _) = at"
| "scheduled_time (AgendaReschedule _ _ at _) = Some at"
| "scheduled_time (AgendaSnooze _ _ at _) = Some at"
| "scheduled_time _ = None"

fun mutation_timezone :: "agenda_mutation \<Rightarrow> string option" where
  "mutation_timezone (AgendaCreate _ _ _ tz) = Some tz"
| "mutation_timezone (AgendaReschedule _ _ _ tz) = Some tz"
| "mutation_timezone (AgendaSnooze _ _ _ tz) = Some tz"
| "mutation_timezone _ = None"

lemma agenda_time_Ok [guard_simps]: "agenda_time now v = Ok u \<longleftrightarrow> now < v"
  by (auto simp: agenda_time_def ensure_inv)

lemma agenda_timezone_Ok [guard_simps]:
  "agenda_timezone valid_tz v = Ok u \<longleftrightarrow> \<not> is_blank v \<and> length v \<le> 64 \<and> valid_tz v"
  by (auto simp: agenda_timezone_def max_timezone_bytes_def ensure_inv)

lemma validated_mutation_is_future:
  assumes "validate_agenda_mutation valid_tz m now = Ok u"
  shows "(\<forall>t. scheduled_time m = Some t \<longrightarrow> now < t) \<and> (\<forall>tz. mutation_timezone m = Some tz \<longrightarrow> valid_tz tz)"
  using assms by (cases m) (auto simp: validate_agenda_mutation_def result_simps guard_simps split: option.splits)

lemma agenda_apply_reaches_store:
  assumes "agenda_apply U r w = (Ok rc, w')"
  shows "as_apply (au_store U) r (au_clock U w) w = (Ok rc, w') \<and> agenda_identity_valid r
    \<and> validate_agenda_mutation (au_valid_tz U) (aar_mutation r) (au_clock U w) = Ok ()"
  using assms by (auto simp: agenda_apply_def Let_def result_simps ensure_inv)

end
