(* ===== verification/Effect_Format.thy ===== *)
theory Effect_Format
  imports Retriever_Service Thread_Link Health Agenda
begin

text \<open>
  The texts the effect executor renders for the owner and the planner
  (\<open>personal-secretary/src/application/action_graph/effect_executor.rs\<close>, the \<open>format_*\<close> functions):
  bounded lists of results, contexts and states. Texts are UTF-8 bytes and bounded in characters.
  Rendering the JSON of a payload is the parameter \<open>json\<close>.
\<close>

section \<open>Bounded output\<close>

primrec str_join :: "string \<Rightarrow> string list \<Rightarrow> string" where
  "str_join sep [] = []"
| "str_join sep (x # xs) = x @ concat (map (\<lambda>y. sep @ y) xs)"

text \<open>The loop that ends a listing at the first item for which there is no room.\<close>

fun push_until :: "nat \<Rightarrow> string \<Rightarrow> string \<Rightarrow> string list \<Rightarrow> string" where
  "push_until limit omitted out [] = out"
| "push_until limit omitted out (item # items) =
     (if limit < char_count out + char_count item then out @ omitted
      else push_until limit omitted (out @ item) items)"

definition append_bounded_line :: "string \<Rightarrow> string \<Rightarrow> string" where
  "append_bounded_line out line = (if char_count out + char_count line \<le> 900 then out @ line else out)"

definition append_bounded_lines :: "string \<Rightarrow> string list \<Rightarrow> string" where
  "append_bounded_lines out ls = fold (\<lambda>l acc. append_bounded_line acc l) ls out"



definition numbered :: "nat \<Rightarrow> 'a list \<Rightarrow> (nat \<times> 'a) list" where
  "numbered n xs = zip [n..<n + length xs] xs"

definition debug_i64_option :: "i64 option \<Rightarrow> string" where
  "debug_i64_option v = (case v of Some t \<Rightarrow> ''Some('' @ decimal_i64 t @ '')'' | None \<Rightarrow> ''None'')"

primrec thread_status_debug :: "thread_status \<Rightarrow> string" where
  "thread_status_debug ThreadOpen = ''Open''"
| "thread_status_debug Waiting = ''Waiting''"
| "thread_status_debug Resolved = ''Resolved''"
| "thread_status_debug ThreadClosed = ''Closed''"
| "thread_status_debug Reopened = ''Reopened''"

section \<open>Memory\<close>

definition format_memory_facts :: "memory_fact list \<Rightarrow> string" where
  "format_memory_facts facts =
     (if facts = [] then utf8 [0x5F53, 0x524D, 0x6CA1, 0x6709, 0x6709, 0x6548, 0x7684, 0x957F, 0x671F, 0x8BB0, 0x5FC6]
      else push_until 900 (newline @ utf8 [0x5176, 0x4F59, 0x8BB0, 0x5FC6, 0x5DF2, 0x7701, 0x7565])
             (utf8 [0x5F53, 0x524D, 0x6709] @ '' '' @ decimal (length facts) @ '' '' @ utf8 [0x6761, 0x6709,
                 0x6548, 0x8BB0, 0x5FC6, 0xFF1A])
             (map (\<lambda>f. newline @ fact_str (mf_fact_id f) @ '' | '' @ memory_payload_kind (mf_payload f)
                       @ '' | '' @ mf_subject_key f) (take 10 facts)))"

definition format_memory_evidence :: "memory_fact_view \<Rightarrow> string" where
  "format_memory_evidence v =
     push_until 900 (newline @ utf8 [0x5176, 0x4F59, 0x6765, 0x6E90, 0x5DF2, 0x7701, 0x7565])
       (utf8 [0x8BB0,
           0x5FC6] @ '' '' @ fact_str (mf_fact_id (mfv_fact v)) @ utf8 [0xFF08] @ memory_payload_kind (mf_payload (mfv_fact v))
        @ '' / '' @ mf_subject_key (mfv_fact v) @ utf8 [0xFF09, 0x6765, 0x6E90, 0xFF1A])
       (map (\<lambda>s. newline @ event_str (mse_source_event_id s) @ '' | '' @ mse_actor_id s @ '' | ''
                 @ take_chars 100 (mse_excerpt s)) (take 5 (mfv_sources v)))"

definition payload_excerpt :: "(memory_payload \<Rightarrow> (string, string) result) \<Rightarrow> memory_payload \<Rightarrow> string" where
  "payload_excerpt json p = take_chars 80 (case json p of Ok t \<Rightarrow> t | _ \<Rightarrow> [])"

definition format_memory_candidates ::
  "(memory_payload \<Rightarrow> (string, string) result) \<Rightarrow> memory_candidate_view list \<Rightarrow> string" where
  "format_memory_candidates json views =
     (if views = [] then utf8 [0x5F53, 0x524D, 0x6CA1, 0x6709, 0x53EF, 0x5C55, 0x793A, 0x7684, 0x8BB0, 0x5FC6,
         0x5019, 0x9009]
      else push_until 900 (newline @ utf8 [0x5176, 0x4F59, 0x5019, 0x9009, 0x5DF2, 0x7701, 0x7565])
             (utf8 [0x5F53, 0x524D, 0x6709] @ '' '' @ decimal (length views) @ '' '' @ utf8 [0x6761, 0x8BB0,
                 0x5FC6, 0x5019, 0x9009, 0xFF1A])
             (map (\<lambda>v. newline @ candidate_str (mcv_candidate_id v) @ '' | '' @ memory_candidate_kind_str (mcv_kind v)
                       @ '' | '' @ memory_candidate_status_str (mcv_status v) @ '' | v'' @ decimal (unat (mcv_version v))
                       @ '' | '' @ take_chars 60 (mcv_subject_key v) @ '' | payload '' @ payload_excerpt json (mcv_payload v)
                       @ '' | '' @ (if mcv_conflicts v then utf8 [0x6709, 0x51B2, 0x7A81] else utf8 [0x65E0,
                           0x51B2, 0x7A81]) @ '' | '' @ utf8 [0x6765, 0x6E90] @ '' ''
                       @ decimal (length (mcv_source_excerpts v))) (take 8 views)))"

section \<open>Thread links\<close>

definition percent :: "u16 \<Rightarrow> string" where
  "percent bps =
     (let r = unat bps mod 100 in
      decimal (unat bps div 100) @ ''.'' @ (if r < 10 then ''0'' @ decimal r else decimal r) @ ''%'')"

definition link_line :: "thread_link_candidate_view \<Rightarrow> thread_link_confidence_band \<Rightarrow> string" where
  "link_line v band =
     newline @ utf8 [0x5019,
         0x9009] @ '' '' @ link_candidate_str (lcv_candidate_id v) @ '' | '' @ owner_label band @ utf8 [0xFF08]
       @ percent (lcv_confidence_bps v) @ utf8 [0xFF09] @ ''| '' @ conversation_kind_str (conv_kind (lcv_left_conversation v))
       @ '' '' @ utf8 [0x4E0E] @ '' '' @ conversation_kind_str (conv_kind (lcv_right_conversation v))
       @ utf8 [0x3002, 0x8BF7, 0x786E, 0x8BA4, 0x63A5, 0x53D7, 0x6216, 0x62D2, 0x7EDD, 0xFF1B, 0x672A, 0x786E,
           0x8BA4, 0x524D, 0x4E0D, 0x4F1A, 0x5408, 0x5E76, 0x3002]"

definition link_excerpts :: "thread_link_candidate_view \<Rightarrow> string list" where
  "link_excerpts v =
     filter (\<lambda>x. \<not> is_blank x) (map (\<lambda>s. take_chars 60 (lse_excerpt s)) (take 2 (lcv_sources v)))"

definition with_excerpts :: "thread_link_candidate_view \<Rightarrow> string \<Rightarrow> string" where
  "with_excerpts v out =
     (if link_excerpts v = [] then out
      else (let line = newline @ utf8 [0x6765, 0x6E90, 0x6458, 0x5F55,
          0xFF1A] @ str_join (utf8 [0xFF1B]) (link_excerpts v) in
            if char_count out + char_count line \<le> 480 then out @ line else out))"

fun format_link_views ::
  "string \<Rightarrow> source_event_id list \<Rightarrow> thread_link_candidate_view list \<Rightarrow>
     (effect_error, string \<times> source_event_id list) result" where
  "format_link_views out ids [] = Ok (out, ids)"
| "format_link_views out ids (v # vs) =
     (if lcv_status v \<noteq> LinkProposed then format_link_views out ids vs
      else
        (case confidence_band_from_bps (lcv_confidence_bps v) of
           Err e \<Rightarrow> Err (effect_error_new EffPermanent (thread_link_error_display e))
         | Panic \<Rightarrow> Panic
         | Ok band \<Rightarrow>
             if 480 < char_count out + char_count (link_line v band)
             then Ok (out @ newline @ utf8 [0x5176, 0x4F59, 0x5019, 0x9009, 0x5DF2, 0x7701, 0x7565, 0xFF0C,
                 0x8BF7, 0x7F29, 0x5C0F, 0x67E5, 0x8BE2, 0x8303, 0x56F4, 0x3002], ids)
             else format_link_views (with_excerpts v (out @ link_line v band))
                    (append_unique ids (map lse_source_event_id (lcv_sources v))) vs))"

definition format_thread_link_candidates ::
  "thread_link_candidate_view list \<Rightarrow> (effect_error, string \<times> source_event_id list) result" where
  "format_thread_link_candidates views =
     (if views = [] then Ok (utf8 [0x5F53, 0x524D, 0x6CA1, 0x6709, 0x5F85, 0x786E, 0x8BA4, 0x7684, 0x8DE8,
         0x4F1A, 0x8BDD, 0x7EBF, 0x7A0B, 0x5173, 0x8054, 0x5019, 0x9009, 0x3002], [])
      else format_link_views
             (utf8 [0x5F53, 0x524D, 0x6709] @ '' '' @ decimal (length views) @ '' ''
              @ utf8 [0x4E2A, 0x5F85, 0x786E, 0x8BA4, 0x7684, 0x8DE8, 0x4F1A, 0x8BDD, 0x7EBF, 0x7A0B, 0x5173,
                  0x8054, 0x5019, 0x9009, 0x3002, 0x7CFB, 0x7EDF, 0x4E0D, 0x4F1A, 0x81EA, 0x52A8, 0x5408,
                  0x5E76, 0xFF0C, 0x8BF7, 0x9010, 0x9879, 0x786E, 0x8BA4, 0x662F, 0x5426, 0x63A5, 0x53D7,
                  0x6216, 0x62D2, 0x7EDD, 0xFF1A])
             [] (take 8 views))"

section \<open>Projects and commitments\<close>

definition format_project_list :: "project_memory_summary list \<Rightarrow> string" where
  "format_project_list ps =
     (if ps = [] then utf8 [0x5F53, 0x524D, 0x6CA1, 0x6709, 0x6D3B, 0x8DC3, 0x7684, 0x9879, 0x76EE, 0x8BB0, 0x5FC6]
      else push_until 1500 (newline @ utf8 [0x5176, 0x4F59, 0x9879, 0x76EE, 0x5DF2, 0x7701, 0x7565])
             (utf8 [0x5F53, 0x524D, 0x6709] @ '' '' @ decimal (length ps) @ '' '' @ utf8 [0x4E2A, 0x9879,
                 0x76EE, 0xFF1A])
             (map (\<lambda>(i, s). newline @ decimal i @ ''. '' @ pms_project_key s @ '' | '' @ utf8 [0x76EE,
                 0x6807] @ '': '' @ pms_goal s
                       @ '' | '' @ utf8 [0x6210,
                           0x5458] @ '' '' @ decimal (pms_member_count s) @ '' | '' @ utf8 [0x98CE,
                           0x9669] @ '' ''
                       @ decimal (pms_risk_count s) @ '' | '' @ utf8 [0x963B,
                           0x585E] @ '' '' @ decimal (pms_blocker_count s) @ '' | ''
                       @ (case pms_progress s of Some p \<Rightarrow> p | None \<Rightarrow> utf8 [0x65E0]))
               (numbered 1 (take 10 ps))))"

definition member_text :: "project_member_ref \<Rightarrow> string" where
  "member_text m =
     pmr_actor_id m @ ''('' @ (case pmr_platform_identity_kind m of
        Some k \<Rightarrow> platform_identity_kind_str k | None \<Rightarrow> utf8 [0x672A, 0x77E5, 0x8EAB,
            0x4EFD]) @ '')''"

definition format_project_detail :: "project_context_view \<Rightarrow> string" where
  "format_project_detail v =
     utf8 [0x9879, 0x76EE, 0x300C] @ pjv_project_key v @ utf8 [0x300D] @ newline @ utf8 [0x76EE,
         0x6807] @ '': '' @ pjv_goal v @ newline
     @ (if pjv_members v = [] then []
        else utf8 [0x6210, 0x5458] @ '': '' @ str_join '', '' (map member_text (pjv_members v)) @ newline
             @ (if pjv_legacy_member_ids v then utf8 [0xFF08, 0x6210, 0x5458, 0x8EAB, 0x4EFD, 0x7C7B, 0x578B,
                 0x6765, 0x81EA, 0x65E7, 0x6570, 0x636E, 0xFF0C, 0x663E, 0x793A, 0x4E3A, 0x672A, 0x77E5,
                 0xFF09] @ newline else []))
     @ (case pjv_progress v of Some p \<Rightarrow> utf8 [0x8FDB,
         0x5C55] @ '': '' @ p @ newline | None \<Rightarrow> [])
     @ (if pjv_risks v = [] then [] else utf8 [0x98CE, 0x9669] @ '': '' @ str_join ''; '' (pjv_risks v) @ newline)
     @ (if pjv_blockers v = [] then [] else utf8 [0x963B, 0x585E] @ '': '' @ str_join ''; '' (pjv_blockers v) @ newline)
     @ (if pjv_decision_ids v = [] then []
        else utf8 [0x51B3, 0x7B56, 0x6570] @ '': '' @ decimal (length (pjv_decision_ids v)) @ newline)
     @ (if pjv_artifact_refs v = [] then []
        else utf8 [0x4EA7, 0x51FA, 0x7269] @ '': '' @ str_join '', '' (pjv_artifact_refs v) @ newline)
     @ utf8 [0x8BB0, 0x5FC6, 0x7248, 0x672C] @ '': '' @ fact_str (pjv_fact_id v)"

definition format_commitment_list :: "commitment_summary list \<Rightarrow> string" where
  "format_commitment_list cs =
     (if cs = [] then utf8 [0x672A, 0x627E, 0x5230, 0x5339, 0x914D, 0x7684, 0x627F, 0x8BFA]
      else push_until 1500 (newline @ utf8 [0x5176, 0x4F59, 0x627F, 0x8BFA, 0x5DF2, 0x7701, 0x7565])
             (utf8 [0x627E, 0x5230] @ '' '' @ decimal (length cs) @ '' '' @ utf8 [0x6761, 0x627F, 0x8BFA, 0xFF1A])
             (map (\<lambda>(i,
                 c). newline @ decimal i @ ''. '' @ pmr_actor_id (cs_promisor c) @ '' '' @ utf8 [0x2192] @ '' ''
                       @ pmr_actor_id (cs_beneficiary c) @ '' @ ''
                       @ (case cs_due_at c of Some t \<Rightarrow> decimal_i64 t | None \<Rightarrow> utf8 [0x65E0,
                           0x622A, 0x6B62]) @ '' | ''
                       @ commitment_status_str (cs_status c) @ '' | '' @ utf8 [0x8DDF, 0x8FDB] @ '': ''
                       @ (case cs_follow_up_id c of Some f \<Rightarrow> f | None \<Rightarrow> utf8 [0x65E0,
                           0x8DDF, 0x8FDB]))
               (numbered 1 (take 10 cs))))"

section \<open>Events and status\<close>

definition format_event_results :: "event_search_result list \<Rightarrow> string" where
  "format_event_results rs =
     (if rs = [] then utf8 [0x672A, 0x627E, 0x5230, 0x5339, 0x914D, 0x4E8B, 0x4EF6]
      else (let show = min (length rs) 3 in
            utf8 [0x547D, 0x4E2D] @ '' '' @ decimal (length rs) @ '' '' @ utf8 [0x6761]
            @ (if show < length rs then utf8 [0xFF0C, 0x4EC5, 0x5C55, 0x793A,
                0x524D] @ '' '' @ decimal show @ '' '' @ utf8 [0x6761] else [])
            @ '': '' @ str_join ''; '' (map (\<lambda>r. event_str (res_source_event_id r) @ '' | '' @ actor_id (res_actor r)
                 @ '' | '' @ take_chars 80 (res_excerpt r)) (take show rs))))"

definition continuity_text :: "secretary_status_view \<Rightarrow> string" where
  "continuity_text s =
     (if ssv_unresolved_gap_count s = 0 then utf8 [0x65E0, 0x672A, 0x95ED, 0x5408, 0x7A7A, 0x7A97]
      else decimal (unat (ssv_unresolved_gap_count s)) @ '' '' @ utf8 [0x4E2A, 0x672A, 0x95ED, 0x5408, 0x7A7A,
          0x7A97, 0xFF08, 0x5176, 0x4E2D] @ '' ''
           @ decimal (unat (ssv_open_gap_count s)) @ '' '' @ utf8 [0x4E2A, 0x4ECD, 0x5F00, 0x653E, 0xFF0C,
               0x6700, 0x65E9, 0x8D77, 0x70B9] @ '' ''
           @ debug_i64_option (ssv_earliest_gap_started_at s) @ utf8 [0xFF09])"

definition status_base :: "secretary_status_view \<Rightarrow> string" where
  "status_base s =
     utf8 [0x8FDE, 0x7EED, 0x6027, 0xFF1A] @ continuity_text s @ utf8 [0xFF1B, 0x7EBF, 0x7A0B, 0xFF1A, 0x5F00,
         0x653E] @ '' '' @ decimal (unat (ssv_open_thread_count s)) @ utf8 [0x3001, 0x7B49, 0x5F85]
     @ '' '' @ decimal (unat (ssv_waiting_thread_count s)) @ utf8 [0xFF1B, 0x5F85, 0x529E, 0xFF1A, 0x56DE,
         0x590D, 0x671F, 0x5F85] @ '' ''
     @ decimal (unat (ssv_active_response_expectation_count s)) @ utf8 [0x3001, 0x8DDF, 0x8FDB] @ '' ''
     @ decimal (unat (ssv_scheduled_follow_up_count s)) @ utf8 [0xFF1B, 0x901A, 0x77E5, 0xFF1A, 0x5F85, 0x6C42,
         0x503C] @ '' ''
     @ decimal (unat (ssv_pending_evaluation_count s)) @ utf8 [0x3001, 0x5F85, 0x6295,
         0x9012] @ '' '' @ decimal (unat (ssv_pending_outbox_count s))
     @ utf8 [0x3001, 0x5F02, 0x5E38] @ '' '' @ decimal (unat (ssv_failed_outbox_count s))"

definition subsystem_text :: "subsystem_health \<Rightarrow> string" where
  "subsystem_text h =
     sh_name h @ ''='' @ health_status_str (sh_status h)
     @ concat (map (\<lambda>(k, v). '' '' @ k @ '':'' @ decimal (unat v)) (take 12 (sh_metrics h)))
     @ (case sh_last_error h of Some e \<Rightarrow> '' error:'' @ e | None \<Rightarrow> [])"

definition format_secretary_status :: "secretary_status_view \<Rightarrow> health_snapshot option \<Rightarrow> string" where
  "format_secretary_status s health =
     (case health of
        None \<Rightarrow> status_base s
      | Some h \<Rightarrow>
          (let out = status_base s @ utf8 [0xFF1B, 0x8FD0, 0x884C, 0x5065, 0x5EB7,
              0xFF1A] @ health_status_str (hs_overall_status h) @ utf8 [0xFF1B, 0x5B50, 0x7CFB, 0x7EDF, 0xFF1A]
                     @ str_join '', '' (map subsystem_text (take 12 (hs_subsystems h))) in
           if 1800 < char_count out then take_chars 1790 out @ utf8 [0x2026, 0x2026] else out))"

definition format_pending_owner_work :: "pending_owner_work_page \<Rightarrow> (effect_error, string) result" where
  "format_pending_owner_work page =
     (if pwp_items page = [] then Ok (utf8 [0x5F53, 0x524D, 0x6CA1, 0x6709, 0x9700,
         0x8981] @ '' Owner '' @ utf8 [0x5904, 0x7406, 0x7684, 0x4E8B, 0x9879])
      else Ok (push_until 900 (newline @ utf8 [0x5176, 0x4F59, 0x4E8B, 0x9879, 0x5DF2, 0x7701, 0x7565])
             (utf8 [0x672C, 0x9875, 0x6709] @ '' '' @ decimal (length (pwp_items page)) @ '' '' @ utf8 [0x9879,
                 0x5F85, 0x5904, 0x7406, 0xFF1A])
             (map (\<lambda>i. newline @ pwi_source_kind i @ '':'' @ pwi_source_id i @ '' | ''
                       @ (case pwi_source_version i of Some v \<Rightarrow> ''version '' @ decimal (unat v) @ '' | '' | None \<Rightarrow> [])
                       @ pwi_status i @ '' | '' @ utf8 [0x5230,
                           0x671F] @ '' '' @ debug_i64_option (pwi_due_at i) @ '' | ''
                       @ take_chars 80 (pwi_summary i)) (take 8 (pwp_items page)))))"

section \<open>Contexts\<close>

definition format_thread_context :: "thread_context_view \<Rightarrow> string" where
  "format_thread_context c =
     append_bounded_lines
       (utf8 [0x7EBF,
           0x7A0B] @ '' '' @ thread_str (tcv_thread_id c) @ '' | '' @ thread_status_debug (tcv_status c) @ '' | ''
        @ decimal (unat (tcv_event_count c)) @ '' '' @ utf8 [0x6761, 0x4E8B, 0x4EF6] @ '' | '' @ utf8 [0x53C2,
            0x4E0E, 0x8005] @ '' [''
        @ str_join '','' (map (\<lambda>a. tas_actor_kind a @ '':'' @ tas_actor_id a @ ''('' @ decimal (unat (tas_event_count a)) @ '')'')
            (take 5 (tcv_actors c))) @ '']'')
       (map (\<lambda>k. newline @ utf8 [0x8981, 0x6C42] @ ''/'' @ utf8 [0x610F,
           0x89C1] @ '' '' @ tcs_claim_kind k @ '':'' @ tcs_claimant_actor_id k
                 @ '':'' @ tcs_status k @ '' | '' @ take_chars 80 (tcs_statement k)) (take 3 (tcv_claims c))
        @ map (\<lambda>d. newline @ utf8 [0x7ED3,
            0x8BBA] @ '' '' @ decision_str (tds_decision_id d) @ '':'' @ tds_status d @ '' | ''
                   @ take_chars 80 (tds_statement d)) (take 3 (tcv_decisions c))
        @ map (\<lambda>q. newline @ utf8 [0x672A,
            0x51B3] @ '' '' @ tqs_question_id q @ '':'' @ tqs_raised_by_actor_id q @ '' | ''
                   @ take_chars 80 (tqs_question q)) (take 3 (tcv_open_questions c)))"

definition no_display_name :: string where "no_display_name = utf8 [0xFF08, 0x65E0, 0x663E, 0x793A, 0x540D, 0xFF09]"

definition shown_name :: "string option \<Rightarrow> string" where
  "shown_name d = take_chars 40 (case d of Some n \<Rightarrow> n | None \<Rightarrow> no_display_name)"

definition participant_name :: "account_scoped_participant_ref \<Rightarrow> string" where
  "participant_name p =
     take_chars 40 (case pid_display_name (asp_identity p) of
        Some n \<Rightarrow> n | None \<Rightarrow> take_chars 20 (asp_stable_id p))"

definition causal_typed_event ::
  "source_event_id \<Rightarrow> string \<Rightarrow> platform_identity_kind \<Rightarrow> string \<Rightarrow> query_effect_typed_event" where
  "causal_typed_event i who kind excerpt =
     \<lparr>qte_source_event_id = i, qte_actor_id = who, qte_actor_kind = kind, qte_occurred_at = 0,
      qte_excerpt = take_chars 120 excerpt\<rparr>"

definition participant_typed_event ::
  "event_causal_context_view \<Rightarrow> string \<Rightarrow> account_scoped_participant_ref \<Rightarrow> query_effect_typed_event" where
  "participant_typed_event v excerpt p =
     causal_typed_event (ecv_source_event_id v) (asp_stable_id p) (pid_platform_kind (asp_identity p)) excerpt"

definition role_labels :: "event_causal_context_view \<Rightarrow> (string \<times> account_scoped_participant_ref list) list" where
  "role_labels v =
     [(utf8 [0x5DF2, 0x786E, 0x8BA4, 0x8981, 0x6C42, 0x8005], ecv_requesters v), (utf8 [0x5DF2, 0x786E, 0x8BA4,
         0x8D1F, 0x8D23, 0x4EBA], ecv_assignees v),
      (utf8 [0x5DF2, 0x786E, 0x8BA4, 0x627F, 0x8BFA, 0x4EBA], ecv_promisors v), (utf8 [0x5DF2, 0x786E, 0x8BA4,
          0x53D7, 0x76CA, 0x65B9], ecv_beneficiaries v)]"

text \<open>The lines and the typed events, in the order the code writes them.\<close>

definition causal_lines :: "event_causal_context_view \<Rightarrow> string list" where
  "causal_lines v =
     (case ecv_sender v of
        Some s \<Rightarrow> [newline @ utf8 [0x53D1, 0x9001,
            0x8005] @ '': '' @ shown_name (pid_display_name s) @ utf8 [0xFF08]
                   @ platform_identity_kind_str (pid_platform_kind s) @ utf8 [0xFF09]]
      | None \<Rightarrow> [])
     @ (case ecv_reply_parent v of
          Some p \<Rightarrow> [newline @ utf8 [0x56DE, 0x590D, 0x5BF9, 0x8C61] @ '': ''
                     @ shown_name (case cer_sender p of Some s \<Rightarrow> pid_display_name s | None \<Rightarrow> None)]
        | None \<Rightarrow> [])
     @ (case ecv_thread v of
          Some t \<Rightarrow>
            (newline @ utf8 [0x6240, 0x5C5E, 0x7EBF,
                0x7A0B] @ '': '' @ thread_str (ctr_thread_id t) @ utf8 [0xFF08] @ thread_status_debug (ctr_status t)
             @ utf8 [0xFF0C] @ decimal (length (ecv_participants v)) @ '' '' @ utf8 [0x6761, 0x4E8B, 0x4EF6, 0xFF09])
            # (case ctr_root_sender t of
                 Some r \<Rightarrow> [newline @ utf8 [0x7EBF, 0x7A0B, 0x53D1, 0x8D77,
                     0x4EBA] @ '': '' @ shown_name (pid_display_name r)]
               | None \<Rightarrow> [])
        | None \<Rightarrow> [])
     @ map (\<lambda>p. newline @ utf8 [0x88AB] @ ''@'' @ utf8 [0x53C2, 0x4E0E,
         0x8005] @ '': '' @ participant_name p) (ecv_mentioned v)
     @ concat (map (\<lambda>(label, ps). map (\<lambda>p. newline @ label @ '': '' @ participant_name p) ps) (role_labels v))
     @ (if ecv_ambiguous v then [newline @ utf8 [0x8BED, 0x4E49, 0x5B58, 0x5728, 0x6B67, 0x4E49, 0xFF0C,
         0x9700, 0x8981] @ '' Owner '' @ utf8 [0x6F84, 0x6E05]] else [])
     @ [newline @ utf8 [0x6765, 0x6E90, 0x4E8B,
         0x4EF6] @ '' '' @ decimal (length (ecv_source_refs v)) @ '' '' @ utf8 [0x6761]]"

definition causal_typed_events :: "event_causal_context_view \<Rightarrow> query_effect_typed_event list" where
  "causal_typed_events v =
     (case ecv_sender v of
        Some s \<Rightarrow> [causal_typed_event (ecv_source_event_id v) (pid_stable_id s) (pid_platform_kind s) (utf8 [0x4E8B,
            0x4EF6, 0x53D1, 0x9001, 0x8005])]
      | None \<Rightarrow> [])
     @ (case ecv_reply_parent v of
          Some p \<Rightarrow>
            (case cer_sender p of
               Some s \<Rightarrow> [causal_typed_event (cer_source_event_id p) (pid_stable_id s) (pid_platform_kind s)
                            (utf8 [0x88AB, 0x56DE, 0x590D, 0x7684, 0x7236, 0x4E8B, 0x4EF6, 0x53D1, 0x9001, 0x8005])]
             | None \<Rightarrow> [])
        | None \<Rightarrow> [])
     @ (case ecv_thread v of
          Some t \<Rightarrow>
            (case ctr_root_sender t of
               Some r \<Rightarrow> [causal_typed_event (ctr_root_event_id t) (pid_stable_id r) (pid_platform_kind r)
                            (utf8 [0x7EBF, 0x7A0B, 0x53D1, 0x8D77, 0x4EBA, 0xFF08, 0x6839, 0x4E8B, 0x4EF6,
                                0x53D1, 0x9001, 0x8005, 0xFF09])]
             | None \<Rightarrow> [])
        | None \<Rightarrow> [])
     @ map (participant_typed_event v (utf8 [0x88AB] @ ''@'' @ utf8 [0x5230, 0x7684, 0x53C2, 0x4E0E, 0x8005,
         0xFF08, 0x63D0, 0x53CA, 0x4E0D, 0x7B49, 0x4E8E, 0x6307, 0x6D3E, 0xFF09])) (ecv_mentioned v)
     @ concat (map (\<lambda>(label, ps). map (participant_typed_event v label) ps) (role_labels v))"

definition format_causal_context ::
  "event_causal_context_view \<Rightarrow> string \<times> source_event_id list \<times> query_effect_typed_event list" where
  "format_causal_context v =
     (append_bounded_lines [] (causal_lines v), ecv_source_refs v, take 20 (causal_typed_events v))"

definition participant_lines :: "participant_context_view \<Rightarrow> string list" where
  "participant_lines v =
     (case pcv_group_card v of Some c \<Rightarrow> [newline @ utf8 [0x7FA4, 0x540D,
         0x7247] @ '': '' @ take_chars 40 c] | None \<Rightarrow> [])
     @ (if pcv_aliases v = [] then []
        else [newline @ utf8 [0x5386, 0x53F2, 0x522B,
            0x540D] @ '': '' @ str_join (utf8 [0x3001]) (map (take_chars 30) (take 3 (pcv_aliases v)))])
     @ map (\<lambda>a. newline @ participant_attribute_kind_str (pa_kind a) @ '': '' @ take_chars 60 (pa_value a))
         (take 5 (pcv_attributes v))
     @ (if pcv_expired_or_invalidated v then [newline @ utf8 [0x8BE5, 0x53C2, 0x4E0E, 0x8005, 0x7684, 0x6863,
         0x6848, 0x5DF2, 0x5931, 0x6548, 0x6216, 0x6765, 0x6E90, 0x5DF2, 0x88AB, 0x53EC, 0x56DE]] else [])"

fun attribute_events ::
  "participant_context_view \<Rightarrow> source_event_id list \<Rightarrow> query_effect_typed_event list \<Rightarrow> participant_attribute list \<Rightarrow>
     source_event_id list \<times> query_effect_typed_event list" where
  "attribute_events v ids tes [] = (ids, tes)"
| "attribute_events v ids tes (a # attrs) =
     (case pa_source_event_ids a of
        [] \<Rightarrow> attribute_events v ids tes attrs
      | src # _ \<Rightarrow>
          attribute_events v (take 10 (append_unique ids [src]))
            (if length tes < 10
             then tes @ [\<lparr>qte_source_event_id = src, qte_actor_id = asp_stable_id (pcv_participant v),
                          qte_actor_kind = pid_platform_kind (asp_identity (pcv_participant v)), qte_occurred_at = 0,
                          qte_excerpt = participant_attribute_kind_str (pa_kind a) @ '': '' @ take_chars 80 (pa_value a)\<rparr>]
             else tes) attrs)"

definition format_participant_context ::
  "participant_context_view \<Rightarrow> string \<times> source_event_id list \<times> query_effect_typed_event list" where
  "format_participant_context v =
     (append_bounded_lines
        (utf8 [0x53C2, 0x4E0E, 0x8005] @ '': ''
         @ take_chars 40 (case pcv_display_name v of
              Some n \<Rightarrow> n | None \<Rightarrow> take_chars 20 (asp_stable_id (pcv_participant v)))
         @ utf8 [0xFF08] @ platform_identity_kind_str (pid_platform_kind (asp_identity (pcv_participant v))) @ utf8 [0xFF09]
         @ ''| '' @ utf8 [0x7FA4, 0x89D2, 0x8272] @ '': '' @ group_role_str (pcv_group_role v)) (participant_lines v),
      attribute_events v (pcv_related_event_ids v) [] (pcv_attributes v))"

definition format_participant_candidates :: "account_scoped_participant_ref list \<Rightarrow> string" where
  "format_participant_candidates ps =
     append_bounded_lines
       (utf8 [0x627E, 0x5230] @ '' '' @ decimal (length ps) @ '' ''
        @ utf8 [0x4E2A, 0x5019, 0x9009, 0x53C2, 0x4E0E, 0x8005, 0xFF08, 0x663E, 0x793A, 0x540D, 0x53EF, 0x80FD,
            0x91CD, 0x590D, 0xFF09, 0xFF0C, 0x8BF7, 0x63D0, 0x4F9B, 0x7FA4, 0x540D, 0x7247, 0x7B49, 0x66F4,
            0x591A, 0x4FE1, 0x606F, 0x4EE5, 0x6F84, 0x6E05, 0xFF1A])
       (map (\<lambda>(i, p). newline @ decimal i @ ''. '' @ participant_name p) (numbered 1 (take 5 ps)))"

section \<open>Bounds\<close>

lemma char_count_append: "char_count (a @ b) = char_count a + char_count b"
  by (simp add: char_count_def)

lemma push_until_bounded:
  "char_count out \<le> limit \<Longrightarrow> char_count (push_until limit omitted out items) \<le> limit + char_count omitted"
  by (induction limit omitted out items rule: push_until.induct) (auto simp: char_count_append)

lemma append_bounded_lines_bounded:
  "char_count out \<le> n \<Longrightarrow> 900 \<le> n \<Longrightarrow> char_count (append_bounded_lines out ls) \<le> n"
  by (induction ls arbitrary: out) (auto simp: append_bounded_lines_def append_bounded_line_def char_count_append)

end
