(* ===== verification/Owner_Control.thy ===== *)
theory Owner_Control
  imports Secretary_Action
begin

text \<open>
  The control services behind approved actions
  (\<open>personal-secretary/src/application/thread_control_service.rs\<close>,
  \<open>follow_up_control_service.rs\<close>, \<open>response_expectation_control_service.rs\<close>,
  \<open>artifact_reprocess_service.rs\<close>, the control half of \<open>memory_candidate_service.rs\<close> and
  \<open>apply_owner_effect\<close> of \<open>memory_service.rs\<close>). Each checks the identifiers of the effect, that the
  proposal it carries as JSON text is the one of the request, and the action itself, and hands the
  request to its store. The request structs of the five control services have the same fields and are
  one record; parsing a proposal from its JSON text is the parameter \<open>parse\<close>.
\<close>

section \<open>Requests\<close>

record control_request =
  ctl_account :: source_account_ref
  ctl_command_source_event_id :: source_event_id
  ctl_run_id :: string
  ctl_lease_token :: string
  ctl_effect_id :: string
  ctl_proposal_id :: string
  ctl_proposal_json :: string
  ctl_action :: secretary_action

record memory_effect_request =
  mer_request :: control_request
  mer_now :: i64

datatype control_store_error = ControlUnauthorized | ControlInvalidData string | ControlLeaseLost | ControlDatabase

type_synonym 'w control_store = "control_request \<Rightarrow> ('w, control_store_error, secretary_action_receipt) action"

type_synonym control_check = "(control_store_error, unit) result"

definition control_unless :: "bool \<Rightarrow> string \<Rightarrow> control_check" where
  "control_unless b msg = ensure b (ControlInvalidData msg)"

text \<open>The checks the services share: identifiers of bounded length, and the proposal of the request.\<close>

definition effect_ids_valid :: "control_request \<Rightarrow> bool" where
  "effect_ids_valid r \<longleftrightarrow>
     \<not> (is_blank (ctl_effect_id r) \<or> 255 < length (ctl_effect_id r) \<or> is_blank (ctl_proposal_id r)
        \<or> 65536 < length (ctl_proposal_json r))"

definition check_proposal ::
  "(string \<Rightarrow> secretary_action_proposal option) \<Rightarrow> string \<Rightarrow> string \<Rightarrow> control_request \<Rightarrow> control_check" where
  "check_proposal parse bad mismatch r =
     bind_r (ok_or (parse (ctl_proposal_json r)) (ControlInvalidData bad)) (\<lambda>p.
       control_unless (\<not> (ap_proposal_id p \<noteq> ctl_proposal_id r \<or> ap_action p \<noteq> ctl_action r)) mismatch)"

definition valid_reason :: "string \<Rightarrow> bool" where
  "valid_reason s \<longleftrightarrow> \<not> (is_blank s \<or> 1000 < char_count s)"

text \<open>The loop over the targets of a batch: a positive version and a new id each.\<close>

fun batch_versions_ok :: "('a \<Rightarrow> string) \<Rightarrow> ('a \<Rightarrow> u64) \<Rightarrow> string list \<Rightarrow> 'a list \<Rightarrow> bool" where
  "batch_versions_ok ident version seen [] = True"
| "batch_versions_ok ident version seen (t # ts) =
     (version t \<noteq> 0 \<and> ident t \<notin> set seen \<and> batch_versions_ok ident version (ident t # seen) ts)"

definition batch_valid :: "('a \<Rightarrow> string) \<Rightarrow> ('a \<Rightarrow> u64) \<Rightarrow> 'a list \<Rightarrow> string \<Rightarrow> bool" where
  "batch_valid ident version targets reason \<longleftrightarrow>
     \<not> (targets = [] \<or> 20 < length targets \<or> \<not> valid_reason reason) \<and> batch_versions_ok ident version [] targets"

section \<open>Threads\<close>

definition accepted_thread_control :: "secretary_action \<Rightarrow> bool" where
  "accepted_thread_control a \<longleftrightarrow>
     (case a of
        ConfirmThreadDecision _ \<Rightarrow> True
      | RevokeThreadDecision _ _ \<Rightarrow> True
      | DismissThreadQuestion _ _ \<Rightarrow> True
      | SetThreadLifecycle _ _ _ _ \<Rightarrow> True
      | _ \<Rightarrow> False)"

definition thread_control_apply ::
  "'w control_store \<Rightarrow> control_request \<Rightarrow> ('w, control_store_error, secretary_action_receipt) action" where
  "thread_control_apply S r =
     seq (lift_r (control_unless (effect_ids_valid r) ''thread control effect identifiers or proposal are invalid'')) (\<lambda>_.
     seq (lift_r (control_unless (accepted_thread_control (ctl_action r)) ''action is not a thread control'')) (\<lambda>_.
       S r))"

section \<open>Follow-ups\<close>

definition follow_up_reason_check :: "u64 \<Rightarrow> string \<Rightarrow> control_check" where
  "follow_up_reason_check version reason =
     control_unless (\<not> (version = 0 \<or> \<not> valid_reason reason)) ''follow-up version or reason is invalid''"

definition validate_batch_targets :: "follow_up_target list \<Rightarrow> string \<Rightarrow> control_check" where
  "validate_batch_targets targets reason =
     control_unless (batch_valid (\<lambda>t. follow_up_str (fut_follow_up_id t)) fut_expected_source_version targets reason)
       ''follow-up batch targets or reason is invalid''"

definition follow_up_action_check :: "secretary_action \<Rightarrow> control_check" where
  "follow_up_action_check a =
     (case a of
        DismissFollowUp _ version reason \<Rightarrow> follow_up_reason_check version reason
      | SnoozeFollowUp _ version _ reason \<Rightarrow> follow_up_reason_check version reason
      | CompleteFollowUp _ version reason \<Rightarrow> follow_up_reason_check version reason
      | DismissFollowUps targets reason \<Rightarrow> validate_batch_targets targets reason
      | SnoozeFollowUps targets until reason \<Rightarrow>
          bind_r (validate_batch_targets targets reason) (\<lambda>_.
            control_unless (\<not> until \<le> 0) ''follow-up batch snooze_until must be positive'')
      | CompleteFollowUps targets reason \<Rightarrow> validate_batch_targets targets reason
      | _ \<Rightarrow> Err (ControlInvalidData ''action is not a follow-up control''))"

text \<open>The four services that parse the proposal differ in their messages and their action check.\<close>

definition controlled_apply ::
  "(string \<Rightarrow> secretary_action_proposal option) \<Rightarrow> string \<Rightarrow> (secretary_action \<Rightarrow> control_check) \<Rightarrow>
     'w control_store \<Rightarrow> control_request \<Rightarrow> ('w, control_store_error, secretary_action_receipt) action" where
  "controlled_apply parse name check S r =
     seq (lift_r (control_unless (effect_ids_valid r \<and> \<not> 36 < length (ctl_proposal_id r))
            (name @ '' effect identifiers or proposal are invalid''))) (\<lambda>_.
     seq (lift_r (check_proposal parse (name @ '' proposal_json is invalid'')
            (name @ '' proposal does not match the requested action'') r)) (\<lambda>_.
     seq (lift_r (check (ctl_action r))) (\<lambda>_. S r)))"

definition follow_up_control_apply ::
  "(string \<Rightarrow> secretary_action_proposal option) \<Rightarrow> 'w control_store \<Rightarrow> control_request \<Rightarrow>
     ('w, control_store_error, secretary_action_receipt) action" where
  "follow_up_control_apply parse = controlled_apply parse ''follow-up control'' follow_up_action_check"

section \<open>Response expectations\<close>

definition validate_expectation_batch_targets :: "expectation_target list \<Rightarrow> string \<Rightarrow> control_check" where
  "validate_expectation_batch_targets targets reason =
     control_unless (batch_valid (\<lambda>t. expectation_str (ext_expectation_id t)) ext_expected_source_version targets reason)
       ''response expectation batch targets or reason is invalid''"

definition expectation_action_check :: "secretary_action \<Rightarrow> control_check" where
  "expectation_action_check a =
     (case a of
        DismissResponseExpectation _ version reason \<Rightarrow>
          control_unless (\<not> (version = 0 \<or> \<not> valid_reason reason)) ''response expectation version or reason is invalid''
      | DismissResponseExpectations targets reason \<Rightarrow> validate_expectation_batch_targets targets reason
      | _ \<Rightarrow> Err (ControlInvalidData ''action is not a response expectation control''))"

definition expectation_control_apply ::
  "(string \<Rightarrow> secretary_action_proposal option) \<Rightarrow> 'w control_store \<Rightarrow> control_request \<Rightarrow>
     ('w, control_store_error, secretary_action_receipt) action" where
  "expectation_control_apply parse = controlled_apply parse ''response expectation control'' expectation_action_check"

section \<open>Artifacts\<close>

definition max_reprocess_batch :: u16 where "max_reprocess_batch = 100"
definition max_reprocess_reason_chars :: nat where "max_reprocess_reason_chars = 1000"

definition reprocess_action_check :: "secretary_action \<Rightarrow> control_check" where
  "reprocess_action_check a =
     (case a of
        RetryFailedArtifactDerivations limit reason \<Rightarrow>
          control_unless (1 \<le> limit \<and> limit \<le> max_reprocess_batch \<and> \<not> is_blank reason
                          \<and> char_count reason \<le> max_reprocess_reason_chars)
            ''artifact reprocess limit or reason is invalid''
      | _ \<Rightarrow> Err (ControlInvalidData ''action is not an artifact reprocess control''))"

definition artifact_reprocess_apply ::
  "(string \<Rightarrow> secretary_action_proposal option) \<Rightarrow> 'w control_store \<Rightarrow> control_request \<Rightarrow>
     ('w, control_store_error, secretary_action_receipt) action" where
  "artifact_reprocess_apply parse = controlled_apply parse ''artifact reprocess'' reprocess_action_check"

section \<open>Memory candidates and facts\<close>

definition candidate_action_check :: "secretary_action \<Rightarrow> control_check" where
  "candidate_action_check a =
     (case a of
        ApproveMemoryCandidate _ version reason \<Rightarrow>
          control_unless (\<not> (version = 0 \<or> \<not> valid_reason reason)) ''memory candidate version or reason is invalid''
      | RejectMemoryCandidate _ version reason \<Rightarrow>
          control_unless (\<not> (version = 0 \<or> \<not> valid_reason reason)) ''memory candidate version or reason is invalid''
      | _ \<Rightarrow> Err (ControlInvalidData ''action is not a memory candidate control''))"

definition candidate_control_apply ::
  "(string \<Rightarrow> secretary_action_proposal option) \<Rightarrow> 'w control_store \<Rightarrow> control_request \<Rightarrow>
     ('w, control_store_error, secretary_action_receipt) action" where
  "candidate_control_apply parse = controlled_apply parse ''memory candidate control'' candidate_action_check"

definition is_memory_mutation :: "secretary_action \<Rightarrow> bool" where
  "is_memory_mutation a \<longleftrightarrow>
     (case a of
        CorrectMemoryFact _ _ _ _ _ \<Rightarrow> True
      | DeleteMemoryFact _ _ \<Rightarrow> True
      | SetMemoryFactTtl _ _ \<Rightarrow> True
      | SetConversationMemoryMode _ _ \<Rightarrow> True
      | _ \<Rightarrow> False)"

type_synonym 'w memory_effect_store =
  "memory_effect_request \<Rightarrow> ('w, control_store_error, secretary_action_receipt) action"

definition memory_apply_owner_effect ::
  "(string \<Rightarrow> secretary_action_proposal option) \<Rightarrow> 'w memory_effect_store \<Rightarrow> memory_effect_request \<Rightarrow>
     ('w, control_store_error, secretary_action_receipt) action" where
  "memory_apply_owner_effect parse S m =
     (let r = mer_request m in
      seq (lift_r (control_unless (effect_ids_valid r \<and> \<not> mer_now m \<le> 0)
             ''memory effect identifiers, proposal, or clock are invalid'')) (\<lambda>_.
      seq (lift_r (check_proposal parse ''proposal JSON is invalid''
             ''proposal identity or action does not match the effect'' r)) (\<lambda>_.
      seq (lift_r (control_unless (is_memory_mutation (ctl_action r)) ''action is not an Owner memory mutation'')) (\<lambda>_.
        S m))))"

section \<open>Rendering of errors\<close>

text \<open>The renderings differ in the name of the service and in the word before the data.\<close>

definition control_error_display :: "string \<Rightarrow> string \<Rightarrow> string \<Rightarrow> control_store_error \<Rightarrow> string" where
  "control_error_display name data lease e =
     (case e of
        ControlUnauthorized \<Rightarrow> name @ '' is unauthorized''
      | ControlInvalidData s \<Rightarrow> name @ '' '' @ data @ '' is invalid: '' @ s
      | ControlLeaseLost \<Rightarrow> name @ lease @ '' lease was lost''
      | ControlDatabase \<Rightarrow> name @ '' database operation failed'')"

section \<open>Lemmas\<close>

lemma control_unless_Ok [guard_simps]: "control_unless b msg = Ok u \<longleftrightarrow> b"
  by (auto simp: control_unless_def ensure_inv)

lemma control_unless_Err [guard_simps]: "control_unless b msg = Err e \<longleftrightarrow> \<not> b \<and> e = ControlInvalidData msg"
  by (auto simp: control_unless_def ensure_def)

lemma check_proposal_Ok [guard_simps]:
  "check_proposal parse bad mismatch r = Ok u \<longleftrightarrow>
     (\<exists>p. parse (ctl_proposal_json r) = Some p \<and> ap_proposal_id p = ctl_proposal_id r \<and> ap_action p = ctl_action r)"
  by (auto simp: check_proposal_def result_simps guard_simps)

lemma batch_versions_ok_iff:
  "batch_versions_ok ident version seen ts \<longleftrightarrow>
     (\<forall>t\<in>set ts. version t \<noteq> 0) \<and> distinct (map ident ts) \<and> set seen \<inter> ident ` set ts = {}"
  by (induction ident version seen ts rule: batch_versions_ok.induct) auto

lemma controlled_apply_reaches_store:
  assumes "controlled_apply parse name check S r w = (Ok rc, w')"
  shows "S r w = (Ok rc, w') \<and> check (ctl_action r) = Ok () \<and> length (ctl_proposal_id r) \<le> 36
    \<and> (\<exists>p. parse (ctl_proposal_json r) = Some p \<and> ap_proposal_id p = ctl_proposal_id r \<and> ap_action p = ctl_action r)"
  using assms by (auto simp: controlled_apply_def result_simps guard_simps)

end
