(* ===== verification/Effect_Executor.thy ===== *)
theory Effect_Executor
  imports Effect_Format Owner_Control
begin

text \<open>
  The executor of the secretary's effects
  (\<open>personal-secretary/src/application/action_graph/effect_executor.rs\<close>, with the receipt store of
  \<open>action_graph/port.rs\<close>): the classification of actions, the services behind them, the query
  results as JSON, and the dispatch of one effect. Every store is a set of actions on one world
  \<open>'w\<close>; a use case that is not configured is None; rendering and parsing JSON is the record
  \<open>effect_json\<close>.
\<close>

section \<open>The receipt store\<close>

datatype action_store_error =
    ActionInvalidData string
  | ActionUnavailable
  | ActionDatabase string
  | ActionLeaseLost
  | ActionUnknownCommit string

primrec action_store_error_display :: "action_store_error \<Rightarrow> string" where
  "action_store_error_display (ActionInvalidData s) = ''invalid action data: '' @ s"
| "action_store_error_display ActionUnavailable = ''action store is unavailable''"
| "action_store_error_display (ActionDatabase s) = ''action database operation failed: '' @ s"
| "action_store_error_display ActionLeaseLost = ''action lease ownership was lost''"
| "action_store_error_display (ActionUnknownCommit s) =
     ''action effect may have been committed but result is unknown: '' @ s"

primrec action_error_from_inbound :: "inbound_event_store_error \<Rightarrow> action_store_error" where
  "action_error_from_inbound (InvalidData s) = ActionInvalidData s"
| "action_error_from_inbound Unavailable = ActionUnavailable"
| "action_error_from_inbound (Database s) = ActionDatabase s"
| "action_error_from_inbound LeaseLost = ActionLeaseLost"

definition to_effect_error :: "action_store_error \<Rightarrow> effect_error" where
  "to_effect_error e =
     effect_error_new
       (case e of
          ActionInvalidData _ \<Rightarrow> EffPermanent
        | ActionLeaseLost \<Rightarrow> EffPermanent
        | ActionUnavailable \<Rightarrow> EffUnknownCommit
        | ActionDatabase _ \<Rightarrow> EffUnknownCommit
        | ActionUnknownCommit _ \<Rightarrow> EffUnknownCommit) (action_store_error_display e)"

definition action_id_new :: "string \<Rightarrow> string \<Rightarrow> (action_store_error, string) result" where
  "action_id_new field v =
     (if is_blank v then Err (ActionInvalidData (field @ '' must not be empty''))
      else if 36 < length v then Err (ActionInvalidData (field @ '' must not exceed 36 bytes''))
      else Ok v)"

text \<open>The two operations of \<open>ActionStoreT\<close> the executor uses.\<close>

record 'w receipt_store =
  rst_load_effect_receipt :: "string \<Rightarrow> string \<Rightarrow> ('w, action_store_error, secretary_action_receipt option) action"
  rst_apply_effect ::
    "string \<Rightarrow> secretary_action_effect \<Rightarrow> string \<Rightarrow> string \<Rightarrow> string \<Rightarrow>
       ('w, action_store_error, secretary_action_receipt) action"

section \<open>The executor\<close>

record effect_json =
  ej_query_result :: "query_effect_result \<Rightarrow> (string, string) result"
  ej_proposal :: "secretary_action_proposal \<Rightarrow> (string, string) result"
  ej_parse_proposal :: "string \<Rightarrow> secretary_action_proposal option"
  ej_payload :: "memory_payload \<Rightarrow> (string, string) result"
  ej_mutation_receipt :: "thread_mutation_receipt \<Rightarrow> (string, string) result"
  ej_artifacts :: "policy_artifact list \<Rightarrow> (string, string) result"
  ej_artifact :: "policy_artifact option \<Rightarrow> (string, string) result"

record ('w, 'tz) policy_use_case =
  pu_store :: "'w policy_store"
  pu_chrono :: "'tz chrono_ops"
  pu_clock :: "'w \<Rightarrow> i64"

record 'w memory_use_case =
  mu_store :: "'w fact_store"
  mu_effects :: "'w memory_effect_store"

record ('w, 'tz) effect_executor =
  ex_store :: "'w receipt_store"
  ex_run_id :: string
  ex_lease_token :: string
  ex_retriever :: "'w retriever_use_case option"
  ex_health :: "'w health_aggregator option"
  ex_notification_policy :: "('w, 'tz) policy_use_case option"
  ex_agenda :: "'w agenda_use_case option"
  ex_memory :: "'w memory_use_case option"
  ex_thread_control :: "'w control_store option"
  ex_thread_mutation :: "'w thread_mutation_store option"
  ex_follow_up_control :: "'w control_store option"
  ex_response_expectation_control :: "'w control_store option"
  ex_memory_candidate :: "'w candidate_use_case option"
  ex_memory_candidate_control :: "'w control_store option"
  ex_thread_link_review :: "'w thread_link_store option"
  ex_artifact_reprocess :: "'w control_store option"
  ex_command_source_event_id :: "source_event_id option"
  ex_recent_events :: "recent_event_ref list"
  ex_account :: source_account_ref
  ex_now_unix_secs :: i64
  ex_is_local_loopback :: bool
  ex_json :: effect_json

definition effect_executor_new ::
  "effect_json \<Rightarrow> 'w receipt_store \<Rightarrow> string \<Rightarrow> string \<Rightarrow> 'w retriever_use_case option \<Rightarrow>
     source_account_ref \<Rightarrow> i64 \<Rightarrow> ('w, 'tz) effect_executor" where
  "effect_executor_new J S rid lease ret account now =
     \<lparr>ex_store = S, ex_run_id = rid, ex_lease_token = lease, ex_retriever = ret, ex_health = None,
      ex_notification_policy = None, ex_agenda = None, ex_memory = None, ex_thread_control = None,
      ex_thread_mutation = None, ex_follow_up_control = None, ex_response_expectation_control = None,
      ex_memory_candidate = None, ex_memory_candidate_control = None, ex_thread_link_review = None,
      ex_artifact_reprocess = None, ex_command_source_event_id = None, ex_recent_events = [],
      ex_account = account, ex_now_unix_secs = now, ex_is_local_loopback = False, ex_json = J\<rparr>"

section \<open>Classification\<close>

definition is_mutable_notification_policy_action :: "secretary_action \<Rightarrow> bool" where
  "is_mutable_notification_policy_action a \<longleftrightarrow>
     (case a of
        SetAccountDefaultNotificationMode _ _ _ _ \<Rightarrow> True
      | SetConversationNotificationMode _ _ _ _ _ _ \<Rightarrow> True
      | SetQuietHours _ _ _ \<Rightarrow> True
      | SetImportantContact _ _ _ _ \<Rightarrow> True
      | SetNotificationCategoryImportance _ _ _ _ \<Rightarrow> True
      | RecordNotificationFeedback _ _ _ _ \<Rightarrow> True
      | CreateSimilarNotificationRule _ _ _ _ \<Rightarrow> True
      | DisableNotificationPolicy _ _ \<Rightarrow> True
      | SetAutomaticReplyDeniedForContact _ _ \<Rightarrow> True
      | _ \<Rightarrow> False)"

definition is_thread_control_action :: "secretary_action \<Rightarrow> bool" where
  "is_thread_control_action a \<longleftrightarrow>
     (case a of
        ConfirmThreadDecision _ \<Rightarrow> True
      | RevokeThreadDecision _ _ \<Rightarrow> True
      | DismissThreadQuestion _ _ \<Rightarrow> True
      | ReconfirmThreadSemantics _ _ \<Rightarrow> True
      | SetThreadLifecycle _ _ _ _ \<Rightarrow> True
      | _ \<Rightarrow> False)"

definition is_thread_mutation_action :: "secretary_action \<Rightarrow> bool" where
  "is_thread_mutation_action a \<longleftrightarrow>
     (case a of MergeThreads _ _ \<Rightarrow> True | SplitThread _ _ _ \<Rightarrow> True | _ \<Rightarrow> False)"

definition is_follow_up_control_action :: "secretary_action \<Rightarrow> bool" where
  "is_follow_up_control_action a \<longleftrightarrow>
     (case a of
        DismissFollowUp _ _ _ \<Rightarrow> True
      | SnoozeFollowUp _ _ _ _ \<Rightarrow> True
      | DismissFollowUps _ _ \<Rightarrow> True
      | SnoozeFollowUps _ _ _ \<Rightarrow> True
      | CompleteFollowUp _ _ _ \<Rightarrow> True
      | CompleteFollowUps _ _ \<Rightarrow> True
      | _ \<Rightarrow> False)"

definition is_response_expectation_control_action :: "secretary_action \<Rightarrow> bool" where
  "is_response_expectation_control_action a \<longleftrightarrow>
     (case a of
        DismissResponseExpectation _ _ _ \<Rightarrow> True
      | DismissResponseExpectations _ _ \<Rightarrow> True
      | _ \<Rightarrow> False)"

definition is_memory_candidate_control_action :: "secretary_action \<Rightarrow> bool" where
  "is_memory_candidate_control_action a \<longleftrightarrow>
     (case a of
        ApproveMemoryCandidate _ _ _ \<Rightarrow> True
      | RejectMemoryCandidate _ _ _ \<Rightarrow> True
      | _ \<Rightarrow> False)"

definition is_artifact_reprocess_action :: "secretary_action \<Rightarrow> bool" where
  "is_artifact_reprocess_action a \<longleftrightarrow> (case a of RetryFailedArtifactDerivations _ _ \<Rightarrow> True | _ \<Rightarrow> False)"

definition is_owner_work_control_action :: "secretary_action \<Rightarrow> bool" where
  "is_owner_work_control_action a \<longleftrightarrow>
     is_follow_up_control_action a \<or> is_response_expectation_control_action a
     \<or> is_memory_candidate_control_action a \<or> is_artifact_reprocess_action a \<or> is_memory_mutation a"

section \<open>Errors\<close>

definition permanent :: "string \<Rightarrow> effect_error" where
  "permanent msg = effect_error_new EffPermanent msg"

definition transient :: "string \<Rightarrow> effect_error" where
  "transient msg = effect_error_new EffTransient msg"

primrec retriever_error_display :: "retriever_error \<Rightarrow> string" where
  "retriever_error_display (RetrieverInvalidData s) = ''invalid retriever data: '' @ s"

primrec retriever_use_case_error_display :: "retriever_use_case_error \<Rightarrow> string" where
  "retriever_use_case_error_display (RetrieverStore e) = store_error_display e"
| "retriever_use_case_error_display (RetrieverDomain e) = retriever_error_display e"
| "retriever_use_case_error_display (RetrieverInvalidInput s) = ''invalid retriever input: '' @ s"

primrec memory_use_case_error_display :: "memory_use_case_error \<Rightarrow> string" where
  "memory_use_case_error_display MemoryInvalidLimit = ''memory query limit must be in 1..=200''"
| "memory_use_case_error_display MemoryInvalidExcerptLimit = ''memory source excerpt limit must be in 1..=2000''"
| "memory_use_case_error_display (MemoryDomain e) = memory_fact_error_display e"
| "memory_use_case_error_display (MemoryStoreError e) = store_error_display e"

definition policy_effect_error :: "policy_use_case_error \<Rightarrow> effect_error" where
  "policy_effect_error e =
     effect_error_new
       (case e of
          PolicyStore PolicyUnavailable \<Rightarrow> EffTransient
        | PolicyStore PolicyDatabase \<Rightarrow> EffTransient
        | _ \<Rightarrow> EffPermanent) (policy_use_case_error_display e)"

definition agenda_effect_error :: "agenda_error \<Rightarrow> effect_error" where
  "agenda_effect_error e =
     effect_error_new (case e of AgendaDatabase _ \<Rightarrow> EffUnknownCommit | _ \<Rightarrow> EffPermanent) (agenda_error_display e)"

definition memory_effect_error :: "memory_use_case_error \<Rightarrow> effect_error" where
  "memory_effect_error e =
     effect_error_new (case e of MemoryStoreError (Database _) \<Rightarrow> EffTransient | _ \<Rightarrow> EffPermanent)
       (memory_use_case_error_display e)"

definition thread_mutation_effect_error :: "thread_mutation_use_case_error \<Rightarrow> effect_error" where
  "thread_mutation_effect_error e =
     effect_error_new
       (case e of
          MutationStore Unavailable \<Rightarrow> EffUnknownCommit
        | MutationStore (Database _) \<Rightarrow> EffUnknownCommit
        | _ \<Rightarrow> EffPermanent) (mutation_use_case_error_display e)"

text \<open>The five control services and the memory effects differ in the rendering only.\<close>

definition control_effect_error :: "string \<Rightarrow> string \<Rightarrow> string \<Rightarrow> control_store_error \<Rightarrow> effect_error" where
  "control_effect_error name data lease e =
     effect_error_new (case e of ControlDatabase \<Rightarrow> EffUnknownCommit | _ \<Rightarrow> EffPermanent)
       (control_error_display name data lease e)"

definition on_err :: "('e \<Rightarrow> 'f) \<Rightarrow> ('w, 'e, 'a) action \<Rightarrow> ('w, 'f, 'a) action" where
  "on_err f m w = (case m w of (r, w') \<Rightarrow> (map_err f r, w'))"

definition need :: "'a option \<Rightarrow> string \<Rightarrow> ('w, effect_error, 'a) action" where
  "need v msg = lift_r (ok_or v (permanent msg))"

definition rendered :: "(string, string) result \<Rightarrow> ('w, effect_error, string) action" where
  "rendered r = lift_r (map_err permanent r)"

section \<open>Services\<close>

definition control_request_of ::
  "('w, 'tz) effect_executor \<Rightarrow> source_event_id \<Rightarrow> string \<Rightarrow> secretary_action_proposal \<Rightarrow> string \<Rightarrow> control_request" where
  "control_request_of X command eid p json =
     \<lparr>ctl_account = ex_account X, ctl_command_source_event_id = command, ctl_run_id = ex_run_id X,
      ctl_lease_token = ex_lease_token X, ctl_effect_id = eid, ctl_proposal_id = ap_proposal_id p,
      ctl_proposal_json = json, ctl_action = ap_action p\<rparr>"

text \<open>The common body of the five control services: configured, commanded by the owner, the proposal
  as JSON, and the call with its errors mapped.\<close>

definition execute_control ::
  "('w, 'tz) effect_executor \<Rightarrow> string \<Rightarrow> string \<Rightarrow> 'w control_store option \<Rightarrow>
     ('w control_store \<Rightarrow> 'w control_store) \<Rightarrow> (control_store_error \<Rightarrow> effect_error) \<Rightarrow>
     secretary_action_proposal \<Rightarrow> string \<Rightarrow> ('w, effect_error, secretary_action_receipt) action" where
  "execute_control X missing uncommanded service apply_service err p eid =
     seq (need service missing) (\<lambda>S.
     seq (need (ex_command_source_event_id X) uncommanded) (\<lambda>command.
     seq (rendered (ej_proposal (ex_json X) p)) (\<lambda>json.
       on_err err (apply_service S (control_request_of X command eid p json)))))"

definition handled :: "bool \<Rightarrow> ('w, effect_error, 'a) action \<Rightarrow> ('w, effect_error, 'a option) action" where
  "handled b m = (if b then seq m (\<lambda>r. give (Some r)) else give None)"

type_synonym ('w, 'tz) effect_step =
  "('w, 'tz) effect_executor \<Rightarrow> secretary_action_proposal \<Rightarrow> string \<Rightarrow>
     ('w, effect_error, secretary_action_receipt option) action"

definition execute_artifact_reprocess :: "('w, 'tz) effect_step" where
  "execute_artifact_reprocess X p eid =
     handled (is_artifact_reprocess_action (ap_action p))
       (execute_control X (''ArtifactReprocessUseCase '' @ utf8 [0x672A, 0x6CE8, 0x5165])
          (''Artifact '' @ utf8 [0x91CD, 0x5904, 0x7406, 0x9700, 0x8981, 0x539F,
              0x59CB] @ '' OwnerCommand '' @ utf8 [0x8EAB, 0x4EFD]) (ex_artifact_reprocess X)
          (artifact_reprocess_apply (ej_parse_proposal (ex_json X)))
          (control_effect_error ''artifact reprocess'' ''request or state'' '' action'') p eid)"

definition execute_follow_up_control :: "('w, 'tz) effect_step" where
  "execute_follow_up_control X p eid =
     handled (is_follow_up_control_action (ap_action p))
       (execute_control X (''FollowUpControlUseCase '' @ utf8 [0x672A, 0x6CE8, 0x5165])
          (''FollowUp '' @ utf8 [0x63A7, 0x5236, 0x9700, 0x8981, 0x539F,
              0x59CB] @ '' OwnerCommand '' @ utf8 [0x8EAB, 0x4EFD]) (ex_follow_up_control X)
          (follow_up_control_apply (ej_parse_proposal (ex_json X)))
          (control_effect_error ''follow-up control'' ''target or state'' []) p eid)"

definition execute_response_expectation_control :: "('w, 'tz) effect_step" where
  "execute_response_expectation_control X p eid =
     handled (is_response_expectation_control_action (ap_action p))
       (execute_control X (''ResponseExpectationControlUseCase '' @ utf8 [0x672A, 0x6CE8, 0x5165])
          (utf8 [0x56DE, 0x590D, 0x671F, 0x5F85, 0x63A7, 0x5236, 0x9700, 0x8981, 0x539F,
              0x59CB] @ '' OwnerCommand '' @ utf8 [0x8EAB, 0x4EFD]) (ex_response_expectation_control X)
          (expectation_control_apply (ej_parse_proposal (ex_json X)))
          (control_effect_error ''response expectation control'' ''target or state'' []) p eid)"

definition execute_memory_candidate_control :: "('w, 'tz) effect_step" where
  "execute_memory_candidate_control X p eid =
     handled (is_memory_candidate_control_action (ap_action p))
       (execute_control X (''MemoryCandidateControlUseCase '' @ utf8 [0x672A, 0x6CE8, 0x5165])
          (utf8 [0x8BB0, 0x5FC6, 0x5019, 0x9009, 0x63A7, 0x5236, 0x9700, 0x8981, 0x539F,
              0x59CB] @ '' OwnerCommand '' @ utf8 [0x8EAB, 0x4EFD]) (ex_memory_candidate_control X)
          (candidate_control_apply (ej_parse_proposal (ex_json X)))
          (control_effect_error ''memory candidate control'' ''target or state'' []) p eid)"

definition execute_thread_control :: "('w, 'tz) effect_step" where
  "execute_thread_control X p eid =
     handled (is_thread_control_action (ap_action p))
       (execute_control X (''ThreadControlUseCase '' @ utf8 [0x672A, 0x6CE8, 0x5165])
          (utf8 [0x7EBF, 0x7A0B, 0x63A7, 0x5236, 0x9700, 0x8981, 0x539F,
              0x59CB] @ '' OwnerCommand '' @ utf8 [0x8EAB, 0x4EFD]) (ex_thread_control X) thread_control_apply
          (control_effect_error ''thread control'' ''target or state'' []) p eid)"

definition execute_thread_mutation :: "('w, 'tz) effect_step" where
  "execute_thread_mutation X p eid =
     handled (is_thread_mutation_action (ap_action p))
       (seq (need (ex_thread_mutation X) (''ThreadMutationUseCase '' @ utf8 [0x672A, 0x6CE8, 0x5165])) (\<lambda>S.
        seq (need (ex_command_source_event_id X) (utf8 [0x7EBF, 0x7A0B, 0x62C6, 0x5206] @ ''/'' @ utf8 [0x5408,
            0x5E76, 0x9700, 0x8981, 0x539F, 0x59CB] @ '' OwnerCommand '' @ utf8 [0x8EAB,
            0x4EFD])) (\<lambda>command.
        seq (on_err thread_mutation_effect_error
               (apply_approved_action S (ex_account X) (ap_proposal_id p) (ap_action p) command eid)) (\<lambda>r.
        seq (rendered (ej_mutation_receipt (ex_json X) r)) (\<lambda>json.
          give \<lparr>ar_proposal_id = ap_proposal_id p, ar_result_ref = json, ar_tool_kind = None\<rparr>)))))"

definition with_tool_kind :: "secretary_action \<Rightarrow> secretary_action_receipt \<Rightarrow> secretary_action_receipt" where
  "with_tool_kind a r = r\<lparr>ar_tool_kind := Some (action_kind a)\<rparr>"

definition commit_result ::
  "('w, 'tz) effect_executor \<Rightarrow> secretary_action_proposal \<Rightarrow> string \<Rightarrow> string \<Rightarrow>
     ('w, effect_error, secretary_action_receipt) action" where
  "commit_result X p eid text =
     seq (on_err to_effect_error
            (rst_apply_effect (ex_store X) (ex_run_id X) \<lparr>ae_proposal = p\<rparr> eid text (ex_lease_token X))) (\<lambda>r.
       give (with_tool_kind (ap_action p) r))"

definition is_memory_action :: "secretary_action \<Rightarrow> bool" where
  "is_memory_action a \<longleftrightarrow>
     (case a of ListMemoryFacts _ \<Rightarrow> True | ReadMemoryFactSources _ _ \<Rightarrow> True | _ \<Rightarrow> is_memory_mutation a)"

definition execute_memory_mutation ::
  "('w, 'tz) effect_executor \<Rightarrow> 'w memory_use_case \<Rightarrow> secretary_action_proposal \<Rightarrow> string \<Rightarrow>
     ('w, effect_error, secretary_action_receipt) action" where
  "execute_memory_mutation X M p eid =
     seq (need (ex_command_source_event_id X) (utf8 [0x8BB0, 0x5FC6, 0x5199, 0x547D, 0x4EE4, 0x9700, 0x8981,
         0x539F, 0x59CB] @ '' OwnerCommand '' @ utf8 [0x8EAB, 0x4EFD])) (\<lambda>command.
     seq (rendered (ej_proposal (ex_json X) p)) (\<lambda>json.
       on_err (control_effect_error ''memory effect'' ''data'' [])
         (memory_apply_owner_effect (ej_parse_proposal (ex_json X)) (mu_effects M)
            \<lparr>mer_request = control_request_of X command eid p json, mer_now = ex_now_unix_secs X\<rparr>)))"

definition evidence_text :: "source_account_ref \<Rightarrow> memory_fact_view option \<Rightarrow> string" where
  "evidence_text account v =
     (case v of
        Some view \<Rightarrow>
          if mf_account (mfv_fact view) = account then format_memory_evidence view
          else utf8 [0x672A, 0x627E, 0x5230, 0x8BE5, 0x8D26, 0x53F7, 0x4E0B, 0x7684, 0x8BB0, 0x5FC6, 0x6216,
              0x6765, 0x6E90, 0x5DF2, 0x4E0D, 0x53EF, 0x89C1]
      | None \<Rightarrow> utf8 [0x672A, 0x627E, 0x5230, 0x8BE5, 0x8D26, 0x53F7, 0x4E0B, 0x7684, 0x8BB0,
          0x5FC6, 0x6216, 0x6765, 0x6E90, 0x5DF2, 0x4E0D, 0x53EF, 0x89C1])"

definition execute_memory :: "('w, 'tz) effect_step" where
  "execute_memory X p eid =
     handled (is_memory_action (ap_action p))
       (seq (need (ex_memory X) (''MemoryUseCase '' @ utf8 [0x672A, 0x6CE8, 0x5165])) (\<lambda>M.
          case ap_action p of
            ListMemoryFacts limit \<Rightarrow>
              seq (on_err memory_effect_error (memory_active (mu_store M) (ex_account X) (ucast limit))) (\<lambda>facts.
                commit_result X p eid (format_memory_facts facts))
          | ReadMemoryFactSources i chars \<Rightarrow>
              seq (on_err memory_effect_error (memory_evidence (mu_store M) i (ucast chars))) (\<lambda>v.
                commit_result X p eid (evidence_text (ex_account X) v))
          | _ \<Rightarrow> execute_memory_mutation X M p eid))"

definition item_id :: "string \<Rightarrow> (effect_error, agenda_item_id) result" where
  "item_id v = map_err (\<lambda>e. permanent (agenda_error_display e)) (agenda_item_id_new v)"

text \<open>The mutation an agenda action stands for; None for other actions.\<close>

definition agenda_mutation_of :: "secretary_action \<Rightarrow> (effect_error, agenda_mutation option) result" where
  "agenda_mutation_of a =
     (case a of
        CreateSchedule title at tz \<Rightarrow> Ok (Some (AgendaCreate AgendaSchedule title (Some at) tz))
      | CreateTask title due tz \<Rightarrow> Ok (Some (AgendaCreate AgendaTask title due tz))
      | CreateReminder text due tz \<Rightarrow> Ok (Some (AgendaCreate AgendaReminder text (Some due) tz))
      | RescheduleItem i version at tz \<Rightarrow>
          bind_r (item_id i) (\<lambda>x. Ok (Some (AgendaReschedule x version at tz)))
      | CompleteItem i version \<Rightarrow> bind_r (item_id i) (\<lambda>x. Ok (Some (AgendaComplete x version)))
      | CancelItem i version _ \<Rightarrow> bind_r (item_id i) (\<lambda>x. Ok (Some (AgendaCancel x version)))
      | SnoozeItem i version due tz \<Rightarrow> bind_r (item_id i) (\<lambda>x. Ok (Some (AgendaSnooze x version due tz)))
      | _ \<Rightarrow> Ok None)"

definition execute_agenda_mutation ::
  "('w, 'tz) effect_executor \<Rightarrow> secretary_action_proposal \<Rightarrow> string \<Rightarrow> agenda_mutation \<Rightarrow>
     ('w, effect_error, secretary_action_receipt option) action" where
  "execute_agenda_mutation X p eid m =
     seq (need (ex_agenda X) (''AgendaUseCase '' @ utf8 [0x672A, 0x6CE8, 0x5165])) (\<lambda>U.
     seq (rendered (ej_proposal (ex_json X) p)) (\<lambda>json.
     seq (need (ex_command_source_event_id X) ''Agenda action requires command source event identity'') (\<lambda>command.
     seq (need (ap_idempotency_key p) ''Agenda action missing idempotency key'') (\<lambda>key.
     seq (on_err agenda_effect_error
            (agenda_apply U
               \<lparr>aar_account = ex_account X, aar_command_source_event_id = command, aar_run_id = ex_run_id X,
                aar_effect_id = eid, aar_proposal_id = ap_proposal_id p, aar_proposal_json = json,
                aar_lease_token = ex_lease_token X, aar_idempotency_key = key, aar_mutation = m\<rparr>)) (\<lambda>r.
       give (Some \<lparr>ar_proposal_id = ap_proposal_id p, ar_result_ref = amr_result_ref r,
                   ar_tool_kind = Some (action_kind (ap_action p))\<rparr>))))))"

definition execute_agenda :: "('w, 'tz) effect_step" where
  "execute_agenda X p eid =
     seq (lift_r (agenda_mutation_of (ap_action p))) (\<lambda>m.
       case m of None \<Rightarrow> give None | Some mutation \<Rightarrow> execute_agenda_mutation X p eid mutation)"

datatype policy_execution =
    PolicyNotHandled
  | PolicyReadOnly string
  | PolicyMutable secretary_action_receipt

definition policy_request_of ::
  "('w, 'tz) effect_executor \<Rightarrow> source_event_id \<Rightarrow> secretary_action_proposal \<Rightarrow> string \<Rightarrow> string \<Rightarrow>
     policy_effect_request" where
  "policy_request_of X command p eid json =
     \<lparr>pfr_account = ex_account X, pfr_command_source_event_id = command, pfr_run_id = ex_run_id X,
      pfr_effect_id = eid, pfr_proposal_id = ap_proposal_id p, pfr_proposal_json = json,
      pfr_lease_token = ex_lease_token X, pfr_action = ap_action p\<rparr>"

text \<open>A mutation is tried with the authorization read before, and else left to the repository, which
  authorizes it in its own transaction.\<close>

definition apply_policy_mutation ::
  "('w, 'tz) policy_use_case \<Rightarrow> source_account_ref \<Rightarrow> source_event_id \<Rightarrow> policy_effect_request \<Rightarrow>
     ('w, policy_use_case_error, secretary_action_receipt) action" where
  "apply_policy_mutation U account command r w =
     (case policy_authorization_for (pu_store U) account command w of
        (Ok a, w') \<Rightarrow> policy_apply_effect (pu_chrono U) (pu_clock U w') (pu_store U) a r w'
      | (Err _, w') \<Rightarrow> policy_apply_fenced (pu_chrono U) (pu_clock U w') (pu_store U) r w'
      | (Panic, w') \<Rightarrow> (Panic, w'))"

definition execute_policy_with ::
  "('w, 'tz) effect_executor \<Rightarrow> ('w, 'tz) policy_use_case \<Rightarrow> source_event_id \<Rightarrow> secretary_action_proposal \<Rightarrow> string \<Rightarrow>
     ('w, effect_error, policy_execution) action" where
  "execute_policy_with X U command p eid =
     (case ap_action p of
        ListNotificationPolicies limit \<Rightarrow>
          seq (on_err policy_effect_error (policy_authorization_for (pu_store U) (ex_account X) command)) (\<lambda>a.
          seq (on_err policy_effect_error (policy_list_artifacts (pu_store U) a limit)) (\<lambda>artifacts.
          seq (rendered (ej_artifacts (ex_json X) artifacts)) (\<lambda>text. give (PolicyReadOnly text))))
      | ExplainNotificationDecision i \<Rightarrow>
          seq (on_err policy_effect_error (policy_authorization_for (pu_store U) (ex_account X) command)) (\<lambda>a.
          seq (lift_r (map_err (\<lambda>e. permanent (policy_error_display e))
                 (notification_id_check ''notification decision id'' i))) (\<lambda>_.
          seq (on_err policy_effect_error (policy_explain_decision (pu_store U) a i)) (\<lambda>artifact.
          seq (rendered (ej_artifact (ex_json X) artifact)) (\<lambda>text. give (PolicyReadOnly text)))))
      | a \<Rightarrow>
          if is_mutable_notification_policy_action a
          then
            seq (rendered (ej_proposal (ex_json X) p)) (\<lambda>json.
            seq (on_err policy_effect_error
                   (apply_policy_mutation U (ex_account X) command (policy_request_of X command p eid json))) (\<lambda>r.
              give (PolicyMutable r)))
          else give PolicyNotHandled)"

definition execute_notification_policy ::
  "('w, 'tz) effect_executor \<Rightarrow> secretary_action_proposal \<Rightarrow> string \<Rightarrow> ('w, effect_error, policy_execution) action" where
  "execute_notification_policy X p eid =
     (case ex_notification_policy X of
        None \<Rightarrow> give PolicyNotHandled
      | Some U \<Rightarrow>
          seq (need (ex_command_source_event_id X) (utf8 [0x901A, 0x77E5, 0x7B56,
              0x7565] @ '' Action '' @ utf8 [0x7F3A, 0x5C11, 0x539F,
              0x59CB] @ '' OwnerCommand '' @ utf8 [0x8EAB, 0x4EFD])) (\<lambda>command.
            execute_policy_with X U command p eid))"

section \<open>Queries\<close>

definition query_result_of ::
  "secretary_tool_kind \<Rightarrow> string \<Rightarrow> source_event_id list \<Rightarrow> query_effect_typed_event list \<Rightarrow> bool \<Rightarrow>
     query_effect_next_cursor option \<Rightarrow> query_effect_result" where
  "query_result_of k summary ids tes ambiguous cursor =
     \<lparr>qer_version = 1, qer_tool_kind = k, qer_summary = take_chars 2000 summary, qer_source_event_ids = ids,
      qer_event_count = of_nat (length ids), qer_typed_events = tes, qer_ambiguous = ambiguous,
      qer_next_cursor = cursor\<rparr>"

definition query_effect_json ::
  "('w, 'tz) effect_executor \<Rightarrow> query_effect_result \<Rightarrow> ('w, effect_error, string) action" where
  "query_effect_json X q = rendered (ej_query_result (ex_json X) q)"

definition plain_query ::
  "('w, 'tz) effect_executor \<Rightarrow> secretary_tool_kind \<Rightarrow> string \<Rightarrow> source_event_id list \<Rightarrow>
     query_effect_typed_event list \<Rightarrow> ('w, effect_error, string) action" where
  "plain_query X k summary ids tes = query_effect_json X (query_result_of k summary ids tes False None)"

definition retrieve ::
  "('w, retriever_use_case_error, 'a) action \<Rightarrow> ('w, effect_error, 'a) action" where
  "retrieve m = on_err (\<lambda>e. transient (retriever_use_case_error_display e)) m"

definition search_typed_event :: "event_search_result \<Rightarrow> query_effect_typed_event" where
  "search_typed_event r =
     \<lparr>qte_source_event_id = res_source_event_id r, qte_actor_id = actor_id (res_actor r),
      qte_actor_kind = from_verified_actor_kind (actor_kind (res_actor r)),
      qte_occurred_at = res_occurred_at r, qte_excerpt = take_chars 120 (res_excerpt r)\<rparr>"

definition detail_typed_event :: "source_event_detail \<Rightarrow> string \<Rightarrow> query_effect_typed_event" where
  "detail_typed_event d excerpt =
     \<lparr>qte_source_event_id = sed_source_event_id d, qte_actor_id = actor_id (sed_actor d),
      qte_actor_kind = from_verified_actor_kind (actor_kind (sed_actor d)),
      qte_occurred_at = sed_occurred_at d, qte_excerpt = excerpt\<rparr>"

definition thread_typed_event :: "thread_search_result \<Rightarrow> query_effect_typed_event" where
  "thread_typed_event r =
     \<lparr>qte_source_event_id = tsr_source_event_id r, qte_actor_id = actor_id (tsr_actor r),
      qte_actor_kind = from_verified_actor_kind (actor_kind (tsr_actor r)),
      qte_occurred_at = tsr_occurred_at r, qte_excerpt = tsr_excerpt r\<rparr>"

definition thread_search_query_effect ::
  "('w, 'tz) effect_executor \<Rightarrow> thread_search_page \<Rightarrow> ('w, effect_error, string) action" where
  "thread_search_query_effect X page =
     query_effect_json X
       (query_result_of SearchEventThreadsTool
          (utf8 [0x672C, 0x9875, 0x641C, 0x7D22,
              0x5230] @ '' '' @ decimal (length (tsp_threads page)) @ '' '' @ utf8 [0x4E2A, 0x7EBF, 0x7A0B])
          (map tsr_source_event_id (tsp_threads page)) (map thread_typed_event (tsp_threads page)) False
          (map_option ThreadSearchNext (tsp_next_cursor page)))"

text \<open>The sources of the commitments, each once and at most twenty.\<close>

definition commitment_sources :: "commitment_summary list \<Rightarrow> source_event_id list" where
  "commitment_sources cs =
     fold (\<lambda>i acc. if 20 \<le> length acc then acc else if i \<in> set acc then acc else acc @ [i])
       (concat (map cs_source_event_ids cs)) []"

definition execute_search ::
  "('w, 'tz) effect_executor \<Rightarrow> 'w retriever_use_case \<Rightarrow> string \<Rightarrow> u16 \<Rightarrow> i64 option \<Rightarrow> i64 option \<Rightarrow>
     conversation_ref option \<Rightarrow> event_thread_id option \<Rightarrow> string option \<Rightarrow> ('w, effect_error, string) action" where
  "execute_search X R q limit since until conv t who =
     seq (lift_r (ensure (\<not> is_some_and until (\<lambda>u. ex_now_unix_secs X + 60 < u))
            (permanent ''search until_unix_secs must not exceed the trusted current time''))) (\<lambda>_.
     seq (retrieve (uc_search_events R
            \<lparr>eq_account = ex_account X, eq_conversation = conv, eq_actor_id = who, eq_thread_id = t,
             eq_since = since, eq_until = until, eq_query_text = Some q, eq_limit = limit\<rparr>
            (ex_is_local_loopback X))) (\<lambda>results.
       plain_query X SearchRecentEventsTool (format_event_results results) (map res_source_event_id results)
         (map search_typed_event results)))"

definition execute_read_event ::
  "('w, 'tz) effect_executor \<Rightarrow> 'w retriever_use_case \<Rightarrow> source_event_id \<Rightarrow> ('w, effect_error, string) action" where
  "execute_read_event X R i =
     seq (retrieve (uc_read_source_event_for_model R i (ex_account X) (ex_is_local_loopback X))) (\<lambda>d.
       case d of
         Some detail \<Rightarrow>
           plain_query X ReadSourceEventTool
             (utf8 [0x4E8B,
                 0x4EF6] @ '' '' @ event_str (sed_source_event_id detail) @ '' | '' @ actor_id (sed_actor detail) @ '' | ''
              @ decimal_i64 (sed_occurred_at detail) @ '' | '' @ utf8 [0x6458, 0x5F55] @ '': ''
              @ take_chars 120 (sed_normalized_text detail))
             [sed_source_event_id detail] [detail_typed_event detail (take_chars 120 (sed_normalized_text detail))]
       | None \<Rightarrow> plain_query X ReadSourceEventTool (utf8 [0x672A, 0x627E, 0x5230, 0x4E8B,
           0x4EF6] @ '' '' @ event_str i) [] [])"

definition reference_context_of ::
  "('w, 'tz) effect_executor \<Rightarrow> conversation_ref option \<Rightarrow> event_thread_id option \<Rightarrow> reference_context" where
  "reference_context_of X conv t =
     \<lparr>rx_account = ex_account X, rx_current_event_id = ex_command_source_event_id X,
      rx_current_conversation = conv, rx_current_thread_id = t, rx_recent_events = ex_recent_events X,
      rx_now = ex_now_unix_secs X, rx_timezone = ''UTC''\<rparr>"

fun read_resolved ::
  "('w, 'tz) effect_executor \<Rightarrow> 'w retriever_use_case \<Rightarrow> source_event_id list \<Rightarrow>
     ('w, effect_error, source_event_detail list) action" where
  "read_resolved X R [] = give []"
| "read_resolved X R (i # is) =
     seq (retrieve (uc_read_source_event_for_model R i (ex_account X) (ex_is_local_loopback X))) (\<lambda>d.
     seq (read_resolved X R is) (\<lambda>ds.
       give (case d of Some detail \<Rightarrow> detail # ds | None \<Rightarrow> ds)))"

definition execute_resolve ::
  "('w, 'tz) effect_executor \<Rightarrow> 'w retriever_use_case \<Rightarrow> string \<Rightarrow> conversation_ref option \<Rightarrow>
     event_thread_id option \<Rightarrow> ('w, effect_error, string) action" where
  "execute_resolve X R expression conv t =
     seq (retrieve (uc_resolve_reference R (ex_account X) expression (reference_context_of X conv t))) (\<lambda>r.
     seq (if rr_ambiguous r then give [] else read_resolved X R (take 20 (rr_event_ids r))) (\<lambda>ds.
       query_effect_json X
         (query_result_of ResolveReferenceTool
            ((if rr_ambiguous r then utf8 [0x6307, 0x4EE3, 0x6B67, 0x4E49, 0xFF1A] else utf8 [0x6307, 0x4EE3,
                0x5DF2, 0x89E3, 0x6790, 0xFF1A]) @ rr_evidence r)
            (map sed_source_event_id ds) (map (\<lambda>d. detail_typed_event d []) ds) (rr_ambiguous r) None)))"

definition execute_participant ::
  "('w, 'tz) effect_executor \<Rightarrow> 'w retriever_use_case \<Rightarrow> secretary_tool_kind \<Rightarrow> account_scoped_participant_ref \<Rightarrow>
     conversation_ref option \<Rightarrow> event_thread_id option \<Rightarrow> string \<Rightarrow> ('w, effect_error, string) action" where
  "execute_participant X R k p conv t missing =
     seq (retrieve (uc_participant_context_by_ref R p conv t)) (\<lambda>view.
       case view of
         None \<Rightarrow> plain_query X k missing [] []
       | Some v \<Rightarrow>
           (case format_participant_context v of (summary, ids, tes) \<Rightarrow> plain_query X k summary ids tes))"

definition execute_participant_by_name ::
  "('w, 'tz) effect_executor \<Rightarrow> 'w retriever_use_case \<Rightarrow> string \<Rightarrow> conversation_ref option \<Rightarrow>
     event_thread_id option \<Rightarrow> ('w, effect_error, string) action" where
  "execute_participant_by_name X R nm conv t =
     seq (retrieve (uc_participants_by_display_name R (ex_account X) nm conv t 5)) (\<lambda>ps.
       case ps of
         [] \<Rightarrow> plain_query X GetParticipantContextByNameTool
                 (utf8 [0x672A, 0x627E, 0x5230, 0x663E, 0x793A, 0x540D, 0x6216, 0x522B, 0x540D, 0x5339, 0x914D,
                     0x300C] @ nm @ utf8 [0x300D, 0x7684, 0x53C2, 0x4E0E, 0x8005]) [] []
       | [p] \<Rightarrow> execute_participant X R GetParticipantContextByNameTool p conv t
                 (utf8 [0x5DF2, 0x89E3, 0x6790, 0x5230, 0x53C2, 0x4E0E,
                     0x8005] @ '' '' @ asp_stable_id p @ utf8 [0xFF0C, 0x4F46, 0x5F53, 0x524D, 0x8D26, 0x53F7,
                     0x5185, 0x65E0, 0x4E0A, 0x4E0B, 0x6587, 0x8BC1, 0x636E])
       | _ \<Rightarrow> plain_query X GetParticipantContextByNameTool (format_participant_candidates ps) [] [])"

definition execute_status ::
  "('w, 'tz) effect_executor \<Rightarrow> 'w retriever_use_case \<Rightarrow> ('w, effect_error, string) action" where
  "execute_status X R =
     seq (retrieve (uc_secretary_status R (ex_account X))) (\<lambda>status.
     seq (\<lambda>w. case ex_health X of
              None \<Rightarrow> (Ok None, w)
            | Some H \<Rightarrow> (case aggregator_snapshot H (ex_now_unix_secs X) w of (snap, w') \<Rightarrow> (Ok (Some snap), w'))) (\<lambda>health.
       plain_query X GetSecretaryStatusTool (format_secretary_status status health) [] []))"

definition execute_with_retriever ::
  "('w, 'tz) effect_executor \<Rightarrow> 'w retriever_use_case \<Rightarrow> secretary_action \<Rightarrow> ('w, effect_error, string) action" where
  "execute_with_retriever X R a =
     (case a of
        ListMemoryCandidates status kind limit \<Rightarrow>
          seq (need (ex_memory_candidate X) (''MemoryCandidateUseCase '' @ utf8 [0x672A, 0x6CE8, 0x5165,
              0xFF0C, 0x65E0, 0x6CD5, 0x5217, 0x51FA, 0x8BB0, 0x5FC6, 0x5019, 0x9009])) (\<lambda>U.
          seq (on_err (\<lambda>e. transient (store_error_display e))
                 (candidate_list U (ex_account X) status kind (ucast limit))) (\<lambda>views.
            plain_query X ListMemoryCandidatesTool (format_memory_candidates (ej_payload (ex_json X)) views) [] []))
      | ListProjects limit \<Rightarrow>
          seq (retrieve (uc_list_projects R (ex_account X) limit)) (\<lambda>ps.
            plain_query X ListProjectsTool (format_project_list ps) [] [])
      | QueryProject key \<Rightarrow>
          seq (retrieve (uc_query_project R (ex_account X) key)) (\<lambda>v.
            case v of
              Some view \<Rightarrow> plain_query X QueryProjectTool (format_project_detail view) (pjv_source_event_ids view) []
            | None \<Rightarrow> plain_query X QueryProjectTool (utf8 [0x672A, 0x627E, 0x5230, 0x9879, 0x76EE,
                0x300C] @ key @ utf8 [0x300D, 0x6216, 0x6765, 0x6E90, 0x5DF2, 0x5931, 0x6548]) [] [])
      | ListCommitments status since until promisor beneficiary limit \<Rightarrow>
          seq (retrieve (uc_list_commitments R
                 \<lparr>cq_account = ex_account X, cq_status = status, cq_due_since = since, cq_due_until = until,
                  cq_promisor = promisor, cq_beneficiary = beneficiary, cq_limit = limit\<rparr>)) (\<lambda>items.
            plain_query X ListCommitmentsTool (format_commitment_list items) (commitment_sources items) [])
      | SearchRecentEvents q limit since until conv t who \<Rightarrow> execute_search X R q limit since until conv t who
      | ReadSourceEvent i \<Rightarrow> execute_read_event X R i
      | SearchEventThreads q limit cursor \<Rightarrow>
          seq (retrieve (uc_search_threads_page_for_model R (ex_account X) q cursor limit (ex_is_local_loopback X)))
            (thread_search_query_effect X)
      | ResolveReference expression conv t \<Rightarrow> execute_resolve X R expression conv t
      | GetSecretaryStatus \<Rightarrow> execute_status X R
      | ListPendingOwnerWork limit cursor \<Rightarrow>
          seq (retrieve (uc_list_pending_owner_work_page R (ex_account X) cursor limit)) (\<lambda>page.
          seq (lift_r (format_pending_owner_work page)) (\<lambda>summary.
            query_effect_json X
              (query_result_of ListPendingOwnerWorkTool summary [] [] False
                 (map_option PendingOwnerWorkNext (pwp_next_cursor page)))))
      | GetThreadContext t \<Rightarrow>
          seq (retrieve (uc_thread_context R (ex_account X) t)) (\<lambda>cx.
            plain_query X GetThreadContextTool
              (case cx of Some c \<Rightarrow> format_thread_context c
               | None \<Rightarrow> utf8 [0x672A, 0x627E, 0x5230, 0x5F53, 0x524D, 0x8D26, 0x53F7, 0x4E0B,
                   0x7684, 0x7EBF, 0x7A0B] @ '' '' @ thread_str t) [] [])
      | GetEventCausalContext i \<Rightarrow>
          seq (retrieve (uc_event_causal_context R (ex_account X) i)) (\<lambda>view.
            case view of
              None \<Rightarrow> plain_query X GetEventCausalContextTool (utf8 [0x672A, 0x627E, 0x5230, 0x5F53,
                  0x524D, 0x8D26, 0x53F7, 0x4E0B, 0x7684, 0x4E8B, 0x4EF6] @ '' '' @ event_str i) [] []
            | Some v \<Rightarrow>
                (case format_causal_context v of (summary, ids, tes) \<Rightarrow>
                   plain_query X GetEventCausalContextTool summary ids tes))
      | GetParticipantContext kind who conv t \<Rightarrow>
          seq (lift_r (map_err (\<lambda>e. permanent (retriever_error_display e))
                 (account_scoped_participant_ref_new (ex_account X) kind who ObservedIdentity))) (\<lambda>p.
            execute_participant X R GetParticipantContextTool p conv t
              (utf8 [0x672A, 0x627E, 0x5230, 0x5F53, 0x524D, 0x8D26, 0x53F7, 0x5185, 0x53C2, 0x4E0E,
                  0x8005] @ '' '' @ who @ '' '' @ utf8 [0x7684, 0x8BC1, 0x636E]))
      | GetParticipantContextByName nm conv t \<Rightarrow> execute_participant_by_name X R nm conv t
      | ListUpcomingItems _ \<Rightarrow>
          lift_r (Err (permanent (''ListUpcomingItems '' @ utf8 [0x5E94,
              0x7531] @ '' AgendaUseCase '' @ utf8 [0x6267, 0x884C])))
      | DraftReminder text _ \<Rightarrow> give (utf8 [0x5DF2, 0x8D77, 0x8349, 0x63D0, 0x9192,
          0xFF1A] @ take_chars 50 text)
      | AskOwnerClarification q \<Rightarrow> give (utf8 [0x5DF2, 0x5411] @ '' Owner '' @ utf8 [0x63D0, 0x95EE,
          0xFF1A] @ take_chars 50 q)
      | other \<Rightarrow>
          lift_r (Err (permanent (utf8 [0x672C, 0x6279, 0x4E0D, 0x652F, 0x6301, 0x6267,
              0x884C] @ '' Action: '' @ tool_kind_debug (action_kind other)))))"

definition execute_action ::
  "('w, 'tz) effect_executor \<Rightarrow> secretary_action \<Rightarrow> ('w, effect_error, string) action" where
  "execute_action X a =
     (case a of
        ListUpcomingItems horizon \<Rightarrow>
          seq (need (ex_agenda X) (''AgendaUseCase '' @ utf8 [0x672A, 0x6CE8, 0x5165])) (\<lambda>U.
          seq (on_err (\<lambda>e. transient (agenda_error_display e)) (agenda_list_upcoming U (ex_account X) horizon)) (\<lambda>items.
            plain_query X ListUpcomingItemsTool
              (utf8 [0x67E5, 0x5230] @ '' '' @ decimal (length items) @ '' '' @ utf8 [0x4E2A, 0x5373, 0x5C06,
                  0x5230, 0x671F, 0x4E8B, 0x9879]) [] []))
      | ListThreadLinkCandidates limit \<Rightarrow>
          seq (need (ex_thread_link_review X) (''ThreadLinkReviewUseCase '' @ utf8 [0x672A, 0x6CE8, 0x5165,
              0xFF0C, 0x65E0, 0x6CD5, 0x5217, 0x51FA, 0x7EBF, 0x7A0B, 0x5173, 0x8054, 0x5019,
              0x9009])) (\<lambda>S.
          seq (on_err (\<lambda>e. transient (link_use_case_error_display e))
                 (link_list_pending S (ex_account X) (ucast limit))) (\<lambda>views.
          seq (lift_r (format_thread_link_candidates views)) (\<lambda>(summary, ids).
            plain_query X ListThreadLinkCandidatesTool summary ids [])))
      | _ \<Rightarrow>
          seq (need (ex_retriever X) (''Retriever '' @ utf8 [0x672A, 0x6CE8, 0x5165, 0xFF0C, 0x65E0, 0x6CD5,
              0x6267, 0x884C, 0x67E5, 0x8BE2, 0x578B] @ '' Action'')) (\<lambda>R.
            execute_with_retriever X R a))"

section \<open>One effect\<close>

text \<open>Actions whose repository checks the receipt against the whole action itself.\<close>

definition has_own_receipt :: "secretary_action \<Rightarrow> bool" where
  "has_own_receipt a \<longleftrightarrow>
     is_mutable_notification_policy_action a \<or> is_thread_control_action a \<or> is_thread_mutation_action a
     \<or> is_owner_work_control_action a \<or> is_memory_candidate_control_action a"

definition stored_receipt ::
  "('w, 'tz) effect_executor \<Rightarrow> secretary_action \<Rightarrow> string \<Rightarrow>
     ('w, effect_error, secretary_action_receipt option) action" where
  "stored_receipt X a eid =
     (if has_own_receipt a then give None
      else on_err to_effect_error (rst_load_effect_receipt (ex_store X) (ex_run_id X) eid))"

definition execute_policy_step :: "('w, 'tz) effect_step" where
  "execute_policy_step X p eid =
     seq (execute_notification_policy X p eid) (\<lambda>r.
       case r of
         PolicyReadOnly text \<Rightarrow> seq (commit_result X p eid text) (\<lambda>rc. give (Some rc))
       | PolicyMutable rc \<Rightarrow> give (Some rc)
       | PolicyNotHandled \<Rightarrow> give None)"

text \<open>The first step that handles the action gives the receipt.\<close>

fun first_step ::
  "('w, 'tz) effect_step list \<Rightarrow> ('w, 'tz) effect_executor \<Rightarrow> secretary_action_proposal \<Rightarrow> string \<Rightarrow>
     ('w, effect_error, secretary_action_receipt) action \<Rightarrow> ('w, effect_error, secretary_action_receipt) action" where
  "first_step [] X p eid otherwise = otherwise"
| "first_step (st # rest) X p eid otherwise =
     seq (st X p eid) (\<lambda>r.
       case r of Some rc \<Rightarrow> give rc | None \<Rightarrow> first_step rest X p eid otherwise)"

definition effect_steps :: "('w, 'tz) effect_step list" where
  "effect_steps =
     [\<lambda>X p eid. stored_receipt X (ap_action p) eid, execute_policy_step, execute_thread_control, execute_thread_mutation, execute_follow_up_control,
      execute_response_expectation_control, execute_memory_candidate_control, execute_artifact_reprocess,
      execute_agenda, execute_memory]"

definition execute_effect ::
  "('w, 'tz) effect_executor \<Rightarrow> secretary_action_proposal \<Rightarrow> string \<Rightarrow>
     ('w, effect_error, secretary_action_receipt) action" where
  "execute_effect X p eid =
     seq (first_step effect_steps X p eid
            (seq (execute_action X (ap_action p)) (\<lambda>text. commit_result X p eid text))) (\<lambda>r.
       give (with_tool_kind (ap_action p) r))"

end
