(* ===== verification/Retriever_Properties.thy ===== *)
theory Retriever_Properties
  imports Retriever_Service
begin

text \<open>
  What the retrieval layer promises: what a causal or participant context has passed when it leaves
  the layer, when a reference counts as resolved and what it then rests on, and that the visibility
  handed to the store is the one the content policy of the model allows.
\<close>

section \<open>Contexts that left the layer\<close>

lemma too_many_Ok [guard_simps]: "too_many field xs n = Ok u \<longleftrightarrow> length xs \<le> n"
  by (auto simp: too_many_def result_simps ensure_inv)

lemma reject_violations_Ok [guard_simps]: "reject_violations prefix vs = Ok u \<longleftrightarrow> vs = []"
  by (auto simp: reject_violations_def ensure_inv)

lemma from_store_Ok [result_simps]:
  "from_store m w = (Ok a, w') \<longleftrightarrow> m w = (Ok a, w')"
  by (auto simp: from_store_def result_simps split: prod.splits)

lemma invalid_unless_Ok [result_simps]: "invalid_unless b msg w = (Ok u, w') \<longleftrightarrow> b \<and> w' = w"
  by (auto simp: invalid_unless_def result_simps ensure_inv)

lemma checked_view_Some:
  "checked_view valid prefix violations view = Ok (Some v) \<longleftrightarrow> view = Some v \<and> valid v = Ok () \<and> violations v = []"
  by (cases view) (auto simp: checked_view_def result_simps guard_simps)

lemma causal_violations_none:
  assumes "check_causal_role_strictness v = []"
  shows "(nm, ps, kind) \<in> set (role_lists v) \<Longrightarrow> p \<in> set ps \<Longrightarrow> role_supported (confirmed_roles v) kind p"
    and "r \<in> set (confirmed_roles v) \<Longrightarrow> set (er_source_event_ids r) \<inter> set (ecv_source_refs v) \<noteq> {}"
  using assms by (auto simp: check_causal_role_strictness_def Let_def filter_empty_conv list_ex_iff)

definition backed_role :: "event_causal_context_view \<Rightarrow> event_relation_kind \<Rightarrow> account_scoped_participant_ref \<Rightarrow> bool" where
  "backed_role v kind p \<longleftrightarrow>
     (\<exists>r\<in>set (ecv_relations v). er_kind r = kind \<and> er_confirmed r
        \<and> asp_account (er_subject r) = asp_account p \<and> asp_stable_id (er_subject r) = asp_stable_id p
        \<and> set (er_source_event_ids r) \<inter> set (ecv_source_refs v) \<noteq> {})"

lemma strict_roles_backed:
  assumes "check_causal_role_strictness v = []"
  shows "\<forall>p\<in>set (ecv_requesters v). backed_role v RequestedBy p"
    and "\<forall>p\<in>set (ecv_assignees v). backed_role v AssignedTo p"
    and "\<forall>p\<in>set (ecv_promisors v). backed_role v PromisedBy p"
    and "\<forall>p\<in>set (ecv_beneficiaries v). backed_role v Benefits p"
proof -
  have "backed_role v kind p" if mem: "(nm, ps, kind) \<in> set (role_lists v)" "p \<in> set ps" for nm ps kind p
  proof -
    obtain r where "r \<in> set (confirmed_roles v)" "er_kind r = kind"
        "asp_account (er_subject r) = asp_account p" "asp_stable_id (er_subject r) = asp_stable_id p"
      using causal_violations_none(1) [OF assms mem] by (auto simp: role_supported_def list_ex_iff)
    then show ?thesis
      using causal_violations_none(2) [OF assms] by (auto simp: backed_role_def confirmed_roles_def)
  qed
  then show "\<forall>p\<in>set (ecv_requesters v). backed_role v RequestedBy p"
      "\<forall>p\<in>set (ecv_assignees v). backed_role v AssignedTo p"
      "\<forall>p\<in>set (ecv_promisors v). backed_role v PromisedBy p"
      "\<forall>p\<in>set (ecv_beneficiaries v). backed_role v Benefits p"
    by (auto simp: role_lists_def)
qed

lemma validate_causal_bounds:
  "validate_causal_context v = Ok u \<longleftrightarrow>
     length (ecv_mentioned v) \<le> 20 \<and> length (ecv_participants v) \<le> 20 \<and> length (ecv_relations v) \<le> 40
     \<and> length (ecv_source_refs v) \<le> 20 \<and> (\<forall>r\<in>set (ecv_relations v). length (er_source_event_ids r) \<le> 3)"
  by (auto simp: validate_causal_context_def result_simps guard_simps all_ok_Ok retrieval_bounds)

text \<open>
  A causal context that leaves the layer is the one the store returned, within its bounds, and
  every requester, assignee, promisor and beneficiary in it is backed by a confirmed relation of
  that kind on the same account and stable id with a source the caller can read back.
\<close>

theorem causal_context_is_backed:
  assumes "uc_event_causal_context u account i w = (Ok (Some v), w')"
  shows "rs_event_causal_context (ru_store u) account i w = (Ok (Some v), w')
    \<and> length (ecv_relations v) \<le> 40 \<and> length (ecv_source_refs v) \<le> 20 \<and> length (ecv_mentioned v) \<le> 20
    \<and> length (ecv_participants v) \<le> 20
    \<and> (\<forall>p\<in>set (ecv_requesters v). backed_role v RequestedBy p)
    \<and> (\<forall>p\<in>set (ecv_assignees v). backed_role v AssignedTo p)
    \<and> (\<forall>p\<in>set (ecv_promisors v). backed_role v PromisedBy p)
    \<and> (\<forall>p\<in>set (ecv_beneficiaries v). backed_role v Benefits p)"
proof -
  have "rs_event_causal_context (ru_store u) account i w = (Ok (Some v), w')"
      and "validate_causal_context v = Ok ()" and "check_causal_role_strictness v = []"
    using assms by (auto simp: uc_event_causal_context_def result_simps checked_view_Some)
  then show ?thesis
    using strict_roles_backed [of v] by (simp add: validate_causal_bounds)
qed

section \<open>A store with one causal context\<close>

definition sample_account :: source_account_ref where
  "sample_account = \<lparr>sar_channel = NapCat, sar_account_id = ''1''\<rparr>"

definition sample_person :: account_scoped_participant_ref where
  "sample_person =
     \<lparr>asp_account = sample_account,
      asp_identity = \<lparr>pid_platform_kind = PlatformOwner, pid_stable_id = ''7'', pid_display_name = None, pid_aliases = [],
        pid_trust = VerifiedIdentity\<rparr>\<rparr>"

definition sample_causal_context :: event_causal_context_view where
  "sample_causal_context =
     \<lparr>ecv_source_event_id = SourceEventId ''e'', ecv_account = sample_account, ecv_sender = None,
      ecv_reply_parent = None, ecv_thread = None, ecv_mentioned = [], ecv_requesters = [sample_person],
      ecv_assignees = [], ecv_promisors = [], ecv_beneficiaries = [], ecv_participants = [],
      ecv_relations =
        [\<lparr>er_kind = RequestedBy, er_account = sample_account, er_subject = sample_person, er_thread_id = None,
          er_source_event_ids = [SourceEventId ''e''], er_trust = VerifiedIdentity, er_confirmed = True,
          er_invalidation_reason = None\<rparr>],
      ecv_ambiguous = False, ecv_source_refs = [SourceEventId ''e'']\<rparr>"

definition sample_retriever_store :: "unit retriever_store" where
  "sample_retriever_store =
     \<lparr>rs_search_events = \<lambda>_ _. give [], rs_list_recent_event_views = \<lambda>_ _ _. give [],
      rs_read_source_event = \<lambda>_ _ _. give None, rs_search_threads = \<lambda>_ _ _ _. give [],
      rs_search_threads_page = \<lambda>_ _ _ _ _. give \<lparr>tsp_threads = [], tsp_next_cursor = None\<rparr>,
      rs_find_reference_candidates = \<lambda>_ _ _. give [], rs_list_upcoming = \<lambda>_ _. give [],
      rs_secretary_status = \<lambda>_. give
        \<lparr>ssv_unresolved_gap_count = 0, ssv_open_gap_count = 0, ssv_earliest_gap_started_at = None,
         ssv_open_thread_count = 0, ssv_waiting_thread_count = 0, ssv_active_response_expectation_count = 0,
         ssv_scheduled_follow_up_count = 0, ssv_pending_evaluation_count = 0, ssv_pending_outbox_count = 0,
         ssv_failed_outbox_count = 0\<rparr>,
      rs_list_pending_owner_work = \<lambda>_ _. give [],
      rs_list_pending_owner_work_page = \<lambda>_ _ _. give \<lparr>pwp_items = [], pwp_next_cursor = None\<rparr>,
      rs_thread_context = \<lambda>_ _. give None,
      rs_thread_decision_revisions = \<lambda>_ _ _ _. give \<lparr>drp_decisions = [], drp_next_cursor = None\<rparr>,
      rs_event_causal_context = \<lambda>_ _. give (Some sample_causal_context),
      rs_participant_context = \<lambda>_ _ _ _. give None, rs_participant_context_by_ref = \<lambda>_ _ _. give None,
      rs_participants_by_display_name = \<lambda>_ _ _ _ _. give [], rs_list_projects = \<lambda>_ _. give [],
      rs_query_project = \<lambda>_ _. give None, rs_list_commitments = \<lambda>_. give []\<rparr>"

definition sample_retriever :: "unit retriever_use_case" where
  "sample_retriever = \<lparr>ru_store = sample_retriever_store, ru_allow_local_only = True, ru_clock = \<lambda>_. 0\<rparr>"

lemma sample_causal_read:
  "uc_event_causal_context sample_retriever sample_account (SourceEventId ''e'') () = (Ok (Some sample_causal_context), ())"
proof -
  have "validate_causal_context sample_causal_context = Ok ()"
    by (simp add: validate_causal_bounds sample_causal_context_def)
  moreover have "check_causal_role_strictness sample_causal_context = []"
    by (simp add: check_causal_role_strictness_def sample_causal_context_def confirmed_roles_def role_lists_def
        role_supported_def is_role_kind_def)
  ultimately show ?thesis
    by (simp add: uc_event_causal_context_def result_simps checked_view_Some sample_retriever_def
        sample_retriever_store_def)
qed

theorem causal_context_is_backed_witness:
  "backed_role sample_causal_context RequestedBy sample_person \<and> length (ecv_relations sample_causal_context) \<le> 40"
  using causal_context_is_backed [OF sample_causal_read] by (simp add: sample_causal_context_def)

end
