(* ===== verification/Effect_Properties.thy ===== *)
theory Effect_Properties
  imports Effect_Executor Retriever_Properties
begin

text \<open>
  What the executor guarantees: an owner's change needs the owner's command and reaches its own
  service once, checked and on an untouched world; a stored receipt is replayed; and what a query
  shows the model is read at the visibility its content policy allows.
\<close>

section \<open>Steps that do not handle an action\<close>

lemma first_step_skip: "st X p eid w = (Ok None, w) \<Longrightarrow> first_step (st # rest) X p eid m w = first_step rest X p eid m w"
  by (simp add: seq_def)

lemma first_step_takes: "st X p eid w = (Ok (Some rc), w') \<Longrightarrow> first_step (st # rest) X p eid m w = (Ok rc, w')"
  by (simp add: seq_def give_def)

lemma first_step_fails: "st X p eid w = (Err e, w') \<Longrightarrow> first_step (st # rest) X p eid m w = (Err e, w')"
  by (simp add: seq_def)

lemma first_step_panics: "st X p eid w = (Panic, w') \<Longrightarrow> first_step (st # rest) X p eid m w = (Panic, w')"
  by (simp add: seq_def)

declare first_step.simps [simp del]

lemmas first_step_cases = first_step_skip first_step_takes first_step_fails first_step_panics

lemma handled_False [simp]: "handled False m w = (Ok None, w)"
  by (simp add: handled_def give_def)

definition refused :: "('w, effect_error, 'a) action \<Rightarrow> 'w \<Rightarrow> bool" where
  "refused m w \<longleftrightarrow> (\<exists>msg. m w = (Err (permanent msg), w))"

lemma refusedI: "m w = (Err (permanent msg), w) \<Longrightarrow> refused m w"
  by (auto simp: refused_def)

lemma refused_seq: "refused m w \<Longrightarrow> refused (seq m f) w"
  by (auto simp: refused_def seq_def)

lemma refused_after: "m w = (Ok a, w) \<Longrightarrow> refused (f a) w \<Longrightarrow> refused (seq m f) w"
  by (auto simp: refused_def seq_def)

lemma refused_need [simp]: "refused (need v msg) w \<longleftrightarrow> v = None"
  by (cases v) (auto simp: refused_def need_def lift_r_def ok_or_def)

lemma need_Some [simp]: "need (Some x) msg w = (Ok x, w)"
  by (simp add: need_def lift_r_def ok_or_def)

lemma seq_need: "seq (need (Some x) msg) f = f x"
  by (simp add: fun_eq_iff seq_def)

lemma refused_handled: "b \<Longrightarrow> refused m w \<Longrightarrow> refused (handled b m) w"
  by (simp add: handled_def refused_seq)

lemma refused_first: "refused (st X p eid) w \<Longrightarrow> refused (first_step (st # rest) X p eid m) w"
  by (auto simp: refused_def dest: first_step_fails)

lemma refused_skip: "st X p eid w = (Ok None, w) \<Longrightarrow> refused (first_step rest X p eid m) w
    \<Longrightarrow> refused (first_step (st # rest) X p eid m) w"
  by (simp add: refused_def first_step_skip)

lemma step_refuses:
  assumes "K \<Longrightarrow> refused (st X p eid) w" and "\<not> K \<Longrightarrow> st X p eid w = (Ok None, w)"
    and "\<not> K \<Longrightarrow> refused (first_step rest X p eid m) w"
  shows "refused (first_step (st # rest) X p eid m) w"
  using assms by (cases K) (simp_all add: refused_first refused_skip)

lemma need_then:
  "(\<And>x. v = Some x \<Longrightarrow> refused (f x) w) \<Longrightarrow> refused (seq (need v msg) f) w"
  by (cases v) (auto intro: refused_seq refused_after)

section \<open>Which step handles which action\<close>

lemma own_receipt_not_agenda: "has_own_receipt a \<Longrightarrow> agenda_mutation_of a = Ok None"
  by (cases a) (simp_all add: has_own_receipt_def agenda_mutation_of_def is_mutable_notification_policy_action_def
      is_thread_control_action_def is_thread_mutation_action_def is_owner_work_control_action_def
      is_follow_up_control_action_def is_response_expectation_control_action_def
      is_memory_candidate_control_action_def is_artifact_reprocess_action_def is_memory_mutation_def)

lemma policy_action_unsupported: "is_mutable_notification_policy_action a \<Longrightarrow> refused (execute_action X a) w"
proof -
  assume a: "is_mutable_notification_policy_action a"
  then have "execute_action X a = seq (need (ex_retriever X) (''Retriever '' @ utf8 [0x672A, 0x6CE8, 0x5165,
      0xFF0C, 0x65E0, 0x6CD5, 0x6267, 0x884C, 0x67E5, 0x8BE2, 0x578B] @ '' Action''))
      (\<lambda>R. execute_with_retriever X R a)"
    by (cases a) (simp_all add: is_mutable_notification_policy_action_def execute_action_def)
  moreover have "refused (execute_with_retriever X R a) w" for R
    using a by (cases a) (auto simp: is_mutable_notification_policy_action_def execute_with_retriever_def
        lift_r_def intro: refusedI)
  ultimately show ?thesis by (simp add: need_then)
qed

text \<open>A step leaves an action it does not know alone.\<close>

lemma silent_steps:
  "has_own_receipt (ap_action p) \<Longrightarrow> stored_receipt X (ap_action p) eid w = (Ok None, w)"
  "ex_notification_policy X = None \<Longrightarrow> execute_policy_step X p eid w = (Ok None, w)"
  "\<not> is_thread_control_action (ap_action p) \<Longrightarrow> execute_thread_control X p eid w = (Ok None, w)"
  "\<not> is_thread_mutation_action (ap_action p) \<Longrightarrow> execute_thread_mutation X p eid w = (Ok None, w)"
  "\<not> is_follow_up_control_action (ap_action p) \<Longrightarrow> execute_follow_up_control X p eid w = (Ok None, w)"
  "\<not> is_response_expectation_control_action (ap_action p) \<Longrightarrow>
     execute_response_expectation_control X p eid w = (Ok None, w)"
  "\<not> is_memory_candidate_control_action (ap_action p) \<Longrightarrow> execute_memory_candidate_control X p eid w = (Ok None, w)"
  "\<not> is_artifact_reprocess_action (ap_action p) \<Longrightarrow> execute_artifact_reprocess X p eid w = (Ok None, w)"
  "\<not> is_memory_action (ap_action p) \<Longrightarrow> execute_memory X p eid w = (Ok None, w)"
  "agenda_mutation_of (ap_action p) = Ok None \<Longrightarrow> execute_agenda X p eid w = (Ok None, w)"
  by (simp_all add: stored_receipt_def execute_policy_step_def execute_notification_policy_def
      execute_thread_control_def execute_thread_mutation_def execute_follow_up_control_def
      execute_response_expectation_control_def execute_memory_candidate_control_def execute_artifact_reprocess_def
      execute_memory_def execute_agenda_def give_def seq_def lift_r_def)

section \<open>Without a command\<close>

lemma uncommanded_control: "ex_command_source_event_id X = None \<Longrightarrow> refused (execute_control X m u s f err p eid) w"
  by (auto simp: execute_control_def intro!: need_then)

lemma uncommanded_steps:
  assumes "ex_command_source_event_id X = None"
  shows "ex_notification_policy X \<noteq> None \<Longrightarrow> refused (execute_policy_step X p eid) w"
    "is_thread_control_action (ap_action p) \<Longrightarrow> refused (execute_thread_control X p eid) w"
    "is_thread_mutation_action (ap_action p) \<Longrightarrow> refused (execute_thread_mutation X p eid) w"
    "is_follow_up_control_action (ap_action p) \<Longrightarrow> refused (execute_follow_up_control X p eid) w"
    "is_response_expectation_control_action (ap_action p) \<Longrightarrow> refused (execute_response_expectation_control X p eid) w"
    "is_memory_candidate_control_action (ap_action p) \<Longrightarrow> refused (execute_memory_candidate_control X p eid) w"
    "is_artifact_reprocess_action (ap_action p) \<Longrightarrow> refused (execute_artifact_reprocess X p eid) w"
  using assms
  by (auto simp: execute_policy_step_def execute_notification_policy_def execute_thread_control_def
      execute_thread_mutation_def execute_follow_up_control_def execute_response_expectation_control_def
      execute_memory_candidate_control_def execute_artifact_reprocess_def
      intro!: refused_handled uncommanded_control need_then intro: refused_seq)

lemma uncommanded_memory:
  assumes "ex_command_source_event_id X = None" and "is_memory_mutation (ap_action p)"
  shows "refused (execute_memory X p eid) w"
proof -
  have "refused (execute_memory_mutation X M p eid) w" for M
    using assms(1) by (simp add: execute_memory_mutation_def refused_seq)
  then show ?thesis
    using assms(2) by (cases "ap_action p")
      (auto simp: execute_memory_def is_memory_action_def is_memory_mutation_def intro!: refused_handled need_then)
qed

lemma uncommanded_own_receipt:
  assumes "ex_command_source_event_id X = None" and "has_own_receipt (ap_action p)"
  shows "refused (execute_effect X p eid) w"
proof -
  let ?a = "ap_action p"
  note silent = silent_steps
  note refuses = uncommanded_steps [OF assms(1)] uncommanded_memory [OF assms(1)]
  have memory: "is_memory_action ?a \<longleftrightarrow> is_memory_mutation ?a"
    using assms(2) by (cases ?a) (simp_all add: is_memory_action_def has_own_receipt_def
        is_mutable_notification_policy_action_def is_thread_control_action_def is_thread_mutation_action_def
        is_owner_work_control_action_def is_follow_up_control_action_def is_response_expectation_control_action_def
        is_memory_candidate_control_action_def is_artifact_reprocess_action_def is_memory_mutation_def)
  have "refused (first_step effect_steps X p eid (seq (execute_action X ?a) (\<lambda>text. commit_result X p eid text))) w"
    unfolding effect_steps_def
    apply (rule refused_skip, simp add: silent(1) assms(2))
    apply (rule step_refuses [where K = "ex_notification_policy X \<noteq> None"], erule refuses(1), simp add: silent(2))
    apply (rule step_refuses [where K = "is_thread_control_action ?a"], erule refuses(2), erule silent(3))
    apply (rule step_refuses [where K = "is_thread_mutation_action ?a"], erule refuses(3), erule silent(4))
    apply (rule step_refuses [where K = "is_follow_up_control_action ?a"], erule refuses(4), erule silent(5))
    apply (rule step_refuses [where K = "is_response_expectation_control_action ?a"], erule refuses(5), erule silent(6))
    apply (rule step_refuses [where K = "is_memory_candidate_control_action ?a"], erule refuses(6), erule silent(7))
    apply (rule step_refuses [where K = "is_artifact_reprocess_action ?a"], erule refuses(7), erule silent(8))
    apply (rule refused_skip, rule silent(10), rule own_receipt_not_agenda, rule assms(2))
    apply (rule step_refuses [where K = "is_memory_action ?a"], rule refuses(8), simp add: memory, erule silent(9))
    using assms(2) memory
    by (auto simp: first_step.simps has_own_receipt_def is_owner_work_control_action_def
        intro!: refused_seq policy_action_unsupported)
  then show ?thesis by (simp add: execute_effect_def refused_seq)
qed

text \<open>The other actions the owner has to confirm: those on the agenda, and messages, which no step sends.\<close>

lemma confirmed_unowned:
  assumes "\<not> has_own_receipt a" and "tp_requires_confirmation (tool_policy (action_kind a))"
  shows "(\<exists>t. a = SendOwnerMessage t) \<or> (\<exists>k t d z. a = CreateSchedule k t z \<or> a = CreateTask k d z \<or> a = CreateReminder k t z)
    \<or> (\<exists>i v t z. a = RescheduleItem i v t z \<or> a = CompleteItem i v \<or> a = CancelItem i v z \<or> a = SnoozeItem i v t z)"
  using assms
  by (cases a) (simp_all add: has_own_receipt_def is_mutable_notification_policy_action_def
      is_thread_control_action_def is_thread_mutation_action_def is_owner_work_control_action_def
      is_follow_up_control_action_def is_response_expectation_control_action_def
      is_memory_candidate_control_action_def is_artifact_reprocess_action_def is_memory_mutation_def
      read_only_policy_def reversible_policy_def clarification_policy_def)

lemma confirmed_classes:
  assumes "\<not> has_own_receipt a" and "tp_requires_confirmation (tool_policy (action_kind a))"
  shows "\<not> is_thread_control_action a" "\<not> is_thread_mutation_action a" "\<not> is_follow_up_control_action a"
    "\<not> is_response_expectation_control_action a" "\<not> is_memory_candidate_control_action a"
    "\<not> is_artifact_reprocess_action a" "\<not> is_memory_action a"
    "agenda_mutation_of a \<noteq> Ok None \<or> (\<exists>t. a = SendOwnerMessage t)"
  using assms(1) confirmed_unowned [OF assms]
  by (auto simp: has_own_receipt_def is_owner_work_control_action_def is_memory_action_def is_memory_mutation_def
      agenda_mutation_of_def result_simps)

lemma message_unsupported: "refused (execute_action X (SendOwnerMessage t)) w"
proof -
  have "refused (execute_with_retriever X R (SendOwnerMessage t)) w" for R
    by (rule refusedI) (simp add: execute_with_retriever_def lift_r_def)
  then show ?thesis by (simp add: execute_action_def need_then)
qed

text \<open>
  The proposal is rendered before the command is asked for: only if that panics is there no refusal.
\<close>

definition barred ::
  "('w, 'tz) effect_executor \<Rightarrow> secretary_action_proposal \<Rightarrow> ('w, effect_error, 'a) action \<Rightarrow> 'w \<Rightarrow> bool" where
  "barred X p m w \<longleftrightarrow> refused m w \<or> ej_proposal (ex_json X) p = Panic \<and> m w = (Panic, w)"

lemma uncommanded_agenda:
  assumes "ex_command_source_event_id X = None" and "agenda_mutation_of (ap_action p) \<noteq> Ok None"
  shows "barred X p (execute_agenda X p eid) w"
proof -
  have mutation: "barred X p (execute_agenda_mutation X p eid m) w" for m
    using assms(1)
    by (cases "ex_agenda X"; cases "ej_proposal (ex_json X) p")
      (auto simp: barred_def refused_def execute_agenda_mutation_def need_def rendered_def lift_r_def ok_or_def
        seq_def map_err_def)
  have "agenda_mutation_of (ap_action p) \<noteq> Panic" and "\<And>e. agenda_mutation_of (ap_action p) = Err e \<Longrightarrow> \<exists>msg. e = permanent msg"
    by (auto simp: agenda_mutation_of_def item_id_def agenda_item_id_new_def split: secretary_action.splits if_splits)
  with mutation assms(2) show ?thesis
    by (cases "agenda_mutation_of (ap_action p)")
      (auto simp: barred_def refused_def execute_agenda_def seq_def lift_r_def split: option.splits)
qed

lemma barred_skip: "st X p eid w = (Ok None, w) \<Longrightarrow> barred X p (first_step rest X p eid m) w
    \<Longrightarrow> barred X p (first_step (st # rest) X p eid m) w"
  by (simp add: barred_def refused_def first_step_skip)

lemma barred_first: "barred X p (st X p eid) w \<Longrightarrow> barred X p (first_step (st # rest) X p eid m) w"
  by (auto simp: barred_def refused_def first_step_fails first_step_panics)

lemma barred_policy:
  assumes "ex_command_source_event_id X = None" and "barred X p (first_step rest X p eid m) w"
  shows "barred X p (first_step (execute_policy_step # rest) X p eid m) w"
proof (cases "ex_notification_policy X = None")
  case True
  show ?thesis by (rule barred_skip, rule silent_steps(2), rule True, rule assms(2))
next
  case False
  from uncommanded_steps(1) [OF assms(1) False] show ?thesis by (intro barred_first) (simp add: barred_def)
qed

lemma uncommanded_confirmed:
  assumes "ex_command_source_event_id X = None" and "\<not> has_own_receipt (ap_action p)"
    and "tp_requires_confirmation (tool_policy (action_kind (ap_action p)))"
  shows "barred X p (first_step (tl effect_steps) X p eid (seq (execute_action X (ap_action p)) f)) w"
proof -
  note class_ = confirmed_classes [OF assms(2,3)]
  have "barred X p (first_step [execute_agenda, execute_memory] X p eid (seq (execute_action X (ap_action p)) f)) w"
  proof (cases "agenda_mutation_of (ap_action p) = Ok None")
    case True
    with class_(8) obtain t where "ap_action p = SendOwnerMessage t" by blast
    then have "refused (seq (execute_action X (ap_action p)) f) w" by (simp add: message_unsupported refused_seq)
    then have "barred X p (first_step [] X p eid (seq (execute_action X (ap_action p)) f)) w"
      by (simp add: barred_def first_step.simps)
    then show ?thesis
      by (rule barred_skip [rotated, OF barred_skip [rotated]]) (rule silent_steps class_ True)+
  next
    case False
    then show ?thesis by (intro barred_first uncommanded_agenda assms(1))
  qed
  then show ?thesis
    unfolding effect_steps_def list.sel
    apply (intro barred_policy [OF assms(1)])
    apply (rule barred_skip, rule silent_steps(3), rule class_(1))
    apply (rule barred_skip, rule silent_steps(4), rule class_(2))
    apply (rule barred_skip, rule silent_steps(5), rule class_(3))
    apply (rule barred_skip, rule silent_steps(6), rule class_(4))
    apply (rule barred_skip, rule silent_steps(7), rule class_(5))
    apply (rule barred_skip, rule silent_steps(8), rule class_(6))
    by assumption
qed

text \<open>
  C5: Without the identity of the owner's command no action that changes something is executed, that is
  no action that keeps a receipt of its own (notification policies, threads, follow-ups,
  expectations, memory, artifacts) and none that the tool policies want confirmed (the agenda, and
  messages): the former are refused for good before any call; of the latter the receipt of an
  earlier execution is looked up and replayed, and if there is none they are refused for good with no
  call after that one. Only the rendering of a proposal can panic instead.
\<close>

theorem change_needs_owner_command:
  assumes "ex_command_source_event_id X = None"
    and "has_own_receipt (ap_action p) \<or> tp_requires_confirmation (tool_policy (action_kind (ap_action p)))"
  shows "if has_own_receipt (ap_action p)
         then \<exists>msg. execute_effect X p eid w = (Err (permanent msg), w)
         else
           (case rst_load_effect_receipt (ex_store X) (ex_run_id X) eid w of
              (Ok (Some rc), w1) \<Rightarrow> execute_effect X p eid w = (Ok (with_tool_kind (ap_action p) rc), w1)
            | (Ok None, w1) \<Rightarrow>
                (\<exists>msg. execute_effect X p eid w = (Err (permanent msg), w1))
                \<or> ej_proposal (ex_json X) p = Panic \<and> execute_effect X p eid w = (Panic, w1)
            | (Err e, w1) \<Rightarrow> execute_effect X p eid w = (Err (to_effect_error e), w1)
            | (Panic, w1) \<Rightarrow> execute_effect X p eid w = (Panic, w1))"
proof (cases "has_own_receipt (ap_action p)")
  case True
  with uncommanded_own_receipt [OF assms(1) True, of eid w] show ?thesis by (simp add: refused_def)
next
  case False
  note barred = uncommanded_confirmed [OF assms(1) False, of eid "\<lambda>text. commit_result X p eid text"]
  have steps: "effect_steps = (\<lambda>X p eid. stored_receipt X (ap_action p) eid) # tl effect_steps"
    by (simp add: effect_steps_def)
  obtain r w1 where load: "rst_load_effect_receipt (ex_store X) (ex_run_id X) eid w = (r, w1)" by force
  then have "stored_receipt X (ap_action p) eid w = (map_err to_effect_error r, w1)"
    using False by (simp add: stored_receipt_def on_err_def)
  then have run: "first_step effect_steps X p eid (seq (execute_action X (ap_action p)) (\<lambda>text. commit_result X p eid text)) w
      = (case r of
           Ok None \<Rightarrow> first_step (tl effect_steps) X p eid
             (seq (execute_action X (ap_action p)) (\<lambda>text. commit_result X p eid text)) w1
         | Ok (Some rc) \<Rightarrow> (Ok rc, w1) | Err e \<Rightarrow> (Err (to_effect_error e), w1) | Panic \<Rightarrow> (Panic, w1))"
    by (subst steps) (simp add: first_step.simps(2) seq_def give_def split: result.split option.split)
  show ?thesis
    using False barred [of w1] assms(2)
    by (auto simp: load run execute_effect_def seq_def give_def barred_def refused_def split: result.split option.split)
qed

section \<open>The controls of the owner\<close>

definition is_control_action :: "secretary_action \<Rightarrow> bool" where
  "is_control_action a \<longleftrightarrow>
     is_thread_control_action a \<or> is_follow_up_control_action a \<or> is_response_expectation_control_action a
     \<or> is_memory_candidate_control_action a \<or> is_artifact_reprocess_action a"

definition control_service :: "('w, 'tz) effect_executor \<Rightarrow> secretary_action \<Rightarrow> 'w control_store option" where
  "control_service X a =
     (if is_thread_control_action a then ex_thread_control X
      else if is_follow_up_control_action a then ex_follow_up_control X
      else if is_response_expectation_control_action a then ex_response_expectation_control X
      else if is_memory_candidate_control_action a then ex_memory_candidate_control X
      else ex_artifact_reprocess X)"

lemmas action_class_defs =
  has_own_receipt_def is_mutable_notification_policy_action_def is_thread_control_action_def
  is_thread_mutation_action_def is_owner_work_control_action_def is_follow_up_control_action_def
  is_response_expectation_control_action_def is_memory_candidate_control_action_def
  is_artifact_reprocess_action_def is_memory_mutation_def

lemma control_is_no_policy: "is_control_action (ap_action p) \<Longrightarrow> execute_policy_with X U command p eid = give PolicyNotHandled"
  by (cases "ap_action p") (simp_all add: is_control_action_def action_class_defs execute_policy_with_def)

lemma control_at_policy:
  assumes "is_control_action (ap_action p)"
  shows "execute_policy_step X p eid w = (Ok None, w) \<or> refused (execute_policy_step X p eid) w"
proof (cases "ex_notification_policy X = None \<or> ex_command_source_event_id X \<noteq> None")
  case True
  then have "execute_policy_step X p eid w = (Ok None, w)"
    by (auto simp: control_is_no_policy [OF assms] execute_policy_step_def execute_notification_policy_def give_def
        seq_def split: option.split)
  then show ?thesis ..
qed (auto intro: uncommanded_steps(1))

lemma control_passes_policy:
  assumes "is_control_action (ap_action p)" and "first_step (execute_policy_step # rest) X p eid m w = (Ok r, w')"
  shows "first_step rest X p eid m w = (Ok r, w')"
  using control_at_policy [OF assms(1), of X eid w] assms(2)
  by (auto simp: first_step_skip first_step_fails refused_def)

lemma control_receipt: "is_control_action a \<Longrightarrow> has_own_receipt a"
  by (auto simp: is_control_action_def has_own_receipt_def is_owner_work_control_action_def)

lemma control_classes:
  "is_thread_control_action a \<Longrightarrow> \<not> is_thread_mutation_action a \<and> \<not> is_follow_up_control_action a
     \<and> \<not> is_response_expectation_control_action a \<and> \<not> is_memory_candidate_control_action a \<and> \<not> is_artifact_reprocess_action a"
  "is_follow_up_control_action a \<Longrightarrow> \<not> is_thread_control_action a \<and> \<not> is_thread_mutation_action a"
  "is_response_expectation_control_action a \<Longrightarrow> \<not> is_thread_control_action a \<and> \<not> is_thread_mutation_action a
     \<and> \<not> is_follow_up_control_action a"
  "is_memory_candidate_control_action a \<Longrightarrow> \<not> is_thread_control_action a \<and> \<not> is_thread_mutation_action a
     \<and> \<not> is_follow_up_control_action a \<and> \<not> is_response_expectation_control_action a"
  "is_artifact_reprocess_action a \<Longrightarrow> \<not> is_thread_control_action a \<and> \<not> is_thread_mutation_action a
     \<and> \<not> is_follow_up_control_action a \<and> \<not> is_response_expectation_control_action a
     \<and> \<not> is_memory_candidate_control_action a"
  by (cases a; simp add: action_class_defs)+

lemma handled_step: "first_step (st # rest) X p eid m w = (Ok r, w') \<Longrightarrow> st X p eid = handled True c \<Longrightarrow> c w = (Ok r, w')"
  by (auto simp: handled_def first_step.simps result_simps split: option.splits)

lemma on_err_Ok [result_simps]: "on_err f m w = (Ok a, w') \<longleftrightarrow> m w = (Ok a, w')"
  by (auto simp: on_err_def result_simps split: prod.splits)

lemma need_Ok [result_simps]: "need v msg w = (Ok a, w') \<longleftrightarrow> v = Some a \<and> w' = w"
  by (auto simp: need_def result_simps)

lemma rendered_Ok [result_simps]: "rendered r w = (Ok a, w') \<longleftrightarrow> r = Ok a \<and> w' = w"
  by (auto simp: rendered_def result_simps)

lemma execute_control_Ok:
  assumes "execute_control X missing uncommanded svc app err p eid w = (Ok r, w')"
  shows "\<exists>S command json. svc = Some S \<and> ex_command_source_event_id X = Some command
    \<and> ej_proposal (ex_json X) p = Ok json \<and> app S (control_request_of X command eid p json) w = (Ok r, w')"
  using assms by (auto simp: execute_control_def result_simps)

lemma control_step_done:
  assumes "first_step (st # rest) X p eid m w = (Ok rc, w')"
    and "st X p eid = handled K (execute_control X missing uncommanded svc app err p eid)" and K
    and "svc = control_service X (ap_action p)" and "r = with_tool_kind (ap_action p) rc"
    and "app = thread_control_apply \<or> (\<exists>name check. app = controlled_apply (ej_parse_proposal (ex_json X)) name check)"
  shows "\<exists>missing uncommanded app err rc.
    execute_control X missing uncommanded (control_service X (ap_action p)) app err p eid w = (Ok rc, w')
    \<and> r = with_tool_kind (ap_action p) rc
    \<and> (app = thread_control_apply \<or> (\<exists>name check. app = controlled_apply (ej_parse_proposal (ex_json X)) name check))"
proof -
  have "st X p eid = handled True (execute_control X missing uncommanded svc app err p eid)"
    using assms(2,3) by simp
  then have "execute_control X missing uncommanded svc app err p eid w = (Ok rc, w')"
    by (rule handled_step [OF assms(1)])
  then show ?thesis using assms(4-6) by blast
qed

text \<open>Where an effect of a control ends up.\<close>

lemma control_step:
  assumes "is_control_action (ap_action p)" and "execute_effect X p eid w = (Ok r, w')"
  shows "\<exists>missing uncommanded app err rc.
    execute_control X missing uncommanded (control_service X (ap_action p)) app err p eid w = (Ok rc, w')
    \<and> r = with_tool_kind (ap_action p) rc
    \<and> (app = thread_control_apply \<or> (\<exists>name check. app = controlled_apply (ej_parse_proposal (ex_json X)) name check))"
proof -
  let ?a = "ap_action p" and ?m = "seq (execute_action X (ap_action p)) (\<lambda>text. commit_result X p eid text)"
  obtain rc where r: "r = with_tool_kind ?a rc" and run: "first_step effect_steps X p eid ?m w = (Ok rc, w')"
    using assms(2) by (auto simp: execute_effect_def result_simps)
  have "stored_receipt X ?a eid w = (Ok None, w)"
    using silent_steps(1) control_receipt [OF assms(1)] .
  then have "first_step (tl effect_steps) X p eid ?m w = (Ok rc, w')"
    using run by (simp add: effect_steps_def first_step_skip)
  then have rest: "first_step (tl (tl effect_steps)) X p eid ?m w = (Ok rc, w')"
    using control_passes_policy [OF assms(1)] by (simp add: effect_steps_def)
  consider "is_thread_control_action ?a" | "is_follow_up_control_action ?a" | "is_response_expectation_control_action ?a"
    | "is_memory_candidate_control_action ?a" | "is_artifact_reprocess_action ?a"
    using assms(1) by (auto simp: is_control_action_def)
  then show ?thesis
  proof cases
    case 1
    have "first_step (execute_thread_control # drop 3 effect_steps) X p eid ?m w = (Ok rc, w')"
      using rest by (simp add: effect_steps_def first_step_skip silent_steps)
    then show ?thesis
      by (rule control_step_done [OF _ execute_thread_control_def]) (use 1 r in \<open>auto simp: control_service_def\<close>)
  next
    case 2
    have "first_step (execute_follow_up_control # drop 5 effect_steps) X p eid ?m w = (Ok rc, w')"
      using rest control_classes(2) [OF 2] by (simp add: effect_steps_def first_step_skip silent_steps)
    then show ?thesis
      by (rule control_step_done [OF _ execute_follow_up_control_def]) (use 2 control_classes(2) [OF 2] r in \<open>auto simp: control_service_def follow_up_control_apply_def\<close>)
  next
    case 3
    have "first_step (execute_response_expectation_control # drop 6 effect_steps) X p eid ?m w = (Ok rc, w')"
      using rest control_classes(3) [OF 3] by (simp add: effect_steps_def first_step_skip silent_steps)
    then show ?thesis
      by (rule control_step_done [OF _ execute_response_expectation_control_def]) (use 3 control_classes(3) [OF 3] r in \<open>auto simp: control_service_def expectation_control_apply_def\<close>)
  next
    case 4
    have "first_step (execute_memory_candidate_control # drop 7 effect_steps) X p eid ?m w = (Ok rc, w')"
      using rest control_classes(4) [OF 4] by (simp add: effect_steps_def first_step_skip silent_steps)
    then show ?thesis
      by (rule control_step_done [OF _ execute_memory_candidate_control_def]) (use 4 control_classes(4) [OF 4] r in \<open>auto simp: control_service_def candidate_control_apply_def\<close>)
  next
    case 5
    have "first_step (execute_artifact_reprocess # drop 8 effect_steps) X p eid ?m w = (Ok rc, w')"
      using rest control_classes(5) [OF 5] by (simp add: effect_steps_def first_step_skip silent_steps)
    then show ?thesis
      by (rule control_step_done [OF _ execute_artifact_reprocess_def]) (use 5 control_classes(5) [OF 5] r in \<open>auto simp: control_service_def artifact_reprocess_apply_def\<close>)
  qed
qed

text \<open>
  C6: A control of the owner (of a thread, a follow-up, a response expectation, a memory candidate or
  an artifact) that is executed was handed, on an untouched world and once, to the store of its own
  kind, with the owner's command, the account, the lease and the effect's id; the receipt is the
  store's.
\<close>

theorem control_reaches_its_store:
  assumes "is_control_action (ap_action p)" and "execute_effect X p eid w = (Ok r, w')"
  shows "\<exists>S command json rc.
      control_service X (ap_action p) = Some S \<and> ex_command_source_event_id X = Some command
    \<and> ej_proposal (ex_json X) p = Ok json
    \<and> effect_ids_valid (control_request_of X command eid p json)
    \<and> S (control_request_of X command eid p json) w = (Ok rc, w') \<and> r = with_tool_kind (ap_action p) rc"
proof -
  obtain missing uncommanded app err rc where
      run: "execute_control X missing uncommanded (control_service X (ap_action p)) app err p eid w = (Ok rc, w')"
      and r: "r = with_tool_kind (ap_action p) rc"
      and app: "app = thread_control_apply \<or> (\<exists>name check. app = controlled_apply (ej_parse_proposal (ex_json X)) name check)"
    using control_step [OF assms] by blast
  obtain S command json where *: "control_service X (ap_action p) = Some S" "ex_command_source_event_id X = Some command"
      "ej_proposal (ex_json X) p = Ok json" and call: "app S (control_request_of X command eid p json) w = (Ok rc, w')"
    using execute_control_Ok [OF run] by blast
  have "effect_ids_valid (control_request_of X command eid p json)
      \<and> S (control_request_of X command eid p json) w = (Ok rc, w')"
    using app call by (auto simp: thread_control_apply_def controlled_apply_def result_simps guard_simps)
  then show ?thesis using * r by blast
qed

text \<open>
  C39: The request to confirm the meaning of a thread again, which the executor dispatches as a thread
  control, never succeeds and reaches no store, whatever the services answer.
\<close>

theorem reconfirmation_never_succeeds:
  assumes "ap_action p = ReconfirmThreadSemantics t v"
  shows "\<exists>res. execute_effect X p eid w = (res, w) \<and> (\<forall>rc. res \<noteq> Ok rc)"
proof -
  have a: "is_control_action (ap_action p)" "is_thread_control_action (ap_action p)"
    using assms by (simp_all add: is_control_action_def is_thread_control_action_def)
  let ?m = "seq (execute_action X (ap_action p)) (\<lambda>text. commit_result X p eid text)"
  have "\<exists>res. execute_thread_control X p eid w = (res, w) \<and> (\<forall>rc. res \<noteq> Ok rc)"
    by (cases "ex_thread_control X"; cases "ex_command_source_event_id X"; cases "ej_proposal (ex_json X) p")
      (auto simp: execute_thread_control_def handled_def is_thread_control_action_def execute_control_def need_def ok_or_def rendered_def
        on_err_def lift_r_def map_err_def seq_def thread_control_apply_def accepted_thread_control_def
        control_request_of_def assms control_unless_def ensure_def)
  then have rest: "\<exists>res. first_step (tl (tl effect_steps)) X p eid ?m w = (res, w) \<and> (\<forall>rc. res \<noteq> Ok rc)"
    by (auto simp: effect_steps_def first_step.simps seq_def split: result.splits)
  have "\<exists>res. first_step (tl effect_steps) X p eid ?m w = (res, w) \<and> (\<forall>rc. res \<noteq> Ok rc)"
    using control_at_policy [OF a(1), of X eid w] rest
    by (auto simp: effect_steps_def first_step_skip first_step_fails refused_def)
  moreover have "stored_receipt X (ap_action p) eid w = (Ok None, w)"
    using silent_steps(1) control_receipt [OF a(1)] .
  ultimately show ?thesis
    by (auto simp: execute_effect_def effect_steps_def first_step_skip seq_def split: result.splits)
qed

section \<open>Queries\<close>

text \<open>
  An effect whose receipt is stored, for the run and the id of the effect, is not executed again: its
  receipt is returned after that one call.
\<close>

theorem stored_receipt_is_replayed:
  assumes "\<not> has_own_receipt (ap_action p)"
    and "rst_load_effect_receipt (ex_store X) (ex_run_id X) eid w = (Ok (Some rc), w')"
  shows "execute_effect X p eid w = (Ok (with_tool_kind (ap_action p) rc), w')"
proof -
  have "stored_receipt X (ap_action p) eid w = (Ok (Some rc), w')"
    using assms by (simp add: stored_receipt_def on_err_def map_err_def)
  then show ?thesis
    by (simp add: execute_effect_def effect_steps_def first_step_takes seq_def give_def)
qed

text \<open>Two stores that give the same to a model with this visibility.\<close>

definition with_content_reads ::
  "'w retriever_store \<Rightarrow> 'w retriever_store \<Rightarrow> 'w retriever_store" where
  "with_content_reads S C =
     S\<lparr>rs_search_events := rs_search_events C, rs_list_recent_event_views := rs_list_recent_event_views C,
       rs_read_source_event := rs_read_source_event C, rs_search_threads := rs_search_threads C,
       rs_search_threads_page := rs_search_threads_page C\<rparr>"

definition same_content :: "retrieval_visibility \<Rightarrow> 'w retriever_store \<Rightarrow> 'w retriever_store \<Rightarrow> bool" where
  "same_content vis S C \<longleftrightarrow>
     (\<forall>q. rs_search_events C q vis = rs_search_events S q vis)
     \<and> (\<forall>a n. rs_list_recent_event_views C a n vis = rs_list_recent_event_views S a n vis)
     \<and> (\<forall>i a. rs_read_source_event C i a vis = rs_read_source_event S i a vis)
     \<and> (\<forall>a q n. rs_search_threads C a q n vis = rs_search_threads S a q n vis)
     \<and> (\<forall>a q c n. rs_search_threads_page C a q c n vis = rs_search_threads_page S a q c n vis)"

definition reading_from :: "'w retriever_store \<Rightarrow> 'w retriever_use_case \<Rightarrow> 'w retriever_use_case" where
  "reading_from C R = R\<lparr>ru_store := with_content_reads (ru_store R) C\<rparr>"

definition executor_reading_from :: "'w retriever_store \<Rightarrow> ('w, 'tz) effect_executor \<Rightarrow> ('w, 'tz) effect_executor" where
  "executor_reading_from C X = X\<lparr>ex_retriever := map_option (reading_from C) (ex_retriever X)\<rparr>"

lemma content_uses:
  assumes "same_content (model_visibility R b) (ru_store R) C"
  shows "uc_search_events (reading_from C R) q b = uc_search_events R q b"
    "uc_read_source_event_for_model (reading_from C R) i a b = uc_read_source_event_for_model R i a b"
    "uc_search_threads_page_for_model (reading_from C R) a t c n b = uc_search_threads_page_for_model R a t c n b"
  using assms
  by (simp_all add: reading_from_def same_content_def with_content_reads_def uc_search_events_def
      uc_read_source_event_for_model_def uc_search_threads_page_for_model_def model_visibility_def)

lemma metadata_uses:
  "uc_list_projects (reading_from C R) = uc_list_projects R" "uc_query_project (reading_from C R) = uc_query_project R"
  "uc_list_commitments (reading_from C R) = uc_list_commitments R"
  "uc_secretary_status (reading_from C R) = uc_secretary_status R"
  "uc_list_pending_owner_work_page (reading_from C R) = uc_list_pending_owner_work_page R"
  "uc_thread_context (reading_from C R) = uc_thread_context R"
  "uc_event_causal_context (reading_from C R) = uc_event_causal_context R"
  "uc_participant_context_by_ref (reading_from C R) = uc_participant_context_by_ref R"
  "uc_participants_by_display_name (reading_from C R) = uc_participants_by_display_name R"
  by (simp_all add: reading_from_def with_content_reads_def fun_eq_iff uc_list_projects_def uc_query_project_def
      uc_list_commitments_def uc_secretary_status_def uc_list_pending_owner_work_page_def uc_thread_context_def
      uc_event_causal_context_def uc_participant_context_by_ref_def uc_participants_by_display_name_def)

lemma read_event_uses:
  "same_content v (ru_store R) C \<Longrightarrow>
     rs_read_source_event (ru_store (reading_from C R)) i a v = rs_read_source_event (ru_store R) i a v"
  by (simp add: reading_from_def with_content_reads_def same_content_def)

lemma previous_message_uses:
  "same_content NormalOnly (ru_store R) C \<Longrightarrow>
     find_previous_message (reading_from C R) cx conv es = find_previous_message R cx conv es"
  by (induction es) (simp_all add: read_event_uses cong: option.case_cong if_cong)

lemma reference_uses:
  assumes "same_content NormalOnly (ru_store R) C"
  shows "uc_resolve_reference (reading_from C R) a e cx = uc_resolve_reference R a e cx"
proof -
  have "resolve_intent (reading_from C R) cx k = resolve_intent R cx k" for k
    by (simp add: resolve_intent_def previous_message_uses [OF assms] metadata_uses cong: option.case_cong if_cong)
  moreover have "rs_find_reference_candidates (ru_store (reading_from C R)) = rs_find_reference_candidates (ru_store R)"
    by (simp add: reading_from_def with_content_reads_def)
  ultimately show ?thesis
    by (simp add: uc_resolve_reference_def resolve_bounded_context_reference_def cong: option.case_cong)
qed

lemma read_resolved_uses:
  "same_content (model_visibility R (ex_is_local_loopback X)) (ru_store R) C \<Longrightarrow>
     read_resolved X (reading_from C R) is = read_resolved X R is"
  by (induction "is") (simp_all add: content_uses)

lemma queries_use:
  assumes "same_content (model_visibility R (ex_is_local_loopback X)) (ru_store R) C"
    and "same_content NormalOnly (ru_store R) C"
  shows "execute_with_retriever X (reading_from C R) a = execute_with_retriever X R a"
  by (simp add: execute_with_retriever_def metadata_uses content_uses [OF assms(1)] reference_uses [OF assms(2)]
      read_resolved_uses [OF assms(1)] execute_search_def execute_read_event_def execute_resolve_def execute_status_def
      execute_participant_def execute_participant_by_name_def
      cong: secretary_action.case_cong option.case_cong list.case_cong if_cong)

lemma reading_fields [simp]:
  "ex_store (executor_reading_from C X) = ex_store X" "ex_run_id (executor_reading_from C X) = ex_run_id X"
  "ex_lease_token (executor_reading_from C X) = ex_lease_token X" "ex_health (executor_reading_from C X) = ex_health X"
  "ex_notification_policy (executor_reading_from C X) = ex_notification_policy X"
  "ex_agenda (executor_reading_from C X) = ex_agenda X" "ex_memory (executor_reading_from C X) = ex_memory X"
  "ex_thread_control (executor_reading_from C X) = ex_thread_control X"
  "ex_thread_mutation (executor_reading_from C X) = ex_thread_mutation X"
  "ex_follow_up_control (executor_reading_from C X) = ex_follow_up_control X"
  "ex_response_expectation_control (executor_reading_from C X) = ex_response_expectation_control X"
  "ex_memory_candidate (executor_reading_from C X) = ex_memory_candidate X"
  "ex_memory_candidate_control (executor_reading_from C X) = ex_memory_candidate_control X"
  "ex_thread_link_review (executor_reading_from C X) = ex_thread_link_review X"
  "ex_artifact_reprocess (executor_reading_from C X) = ex_artifact_reprocess X"
  "ex_command_source_event_id (executor_reading_from C X) = ex_command_source_event_id X"
  "ex_recent_events (executor_reading_from C X) = ex_recent_events X"
  "ex_account (executor_reading_from C X) = ex_account X"
  "ex_now_unix_secs (executor_reading_from C X) = ex_now_unix_secs X"
  "ex_is_local_loopback (executor_reading_from C X) = ex_is_local_loopback X"
  "ex_json (executor_reading_from C X) = ex_json X"
  "ex_retriever (executor_reading_from C X) = map_option (reading_from C) (ex_retriever X)"
  by (simp_all add: executor_reading_from_def)

lemma reading_shared:
  "control_request_of (executor_reading_from C X) = control_request_of X"
  "execute_control (executor_reading_from C X) = execute_control X"
  "commit_result (executor_reading_from C X) = commit_result X"
  "execute_memory_mutation (executor_reading_from C X) = execute_memory_mutation X"
  "execute_agenda_mutation (executor_reading_from C X) = execute_agenda_mutation X"
  "policy_request_of (executor_reading_from C X) = policy_request_of X"
  "query_effect_json (executor_reading_from C X) = query_effect_json X"
  "plain_query (executor_reading_from C X) = plain_query X"
  "thread_search_query_effect (executor_reading_from C X) = thread_search_query_effect X"
  "reference_context_of (executor_reading_from C X) = reference_context_of X"
  by (simp_all add: fun_eq_iff control_request_of_def execute_control_def commit_result_def execute_memory_mutation_def
      execute_agenda_mutation_def policy_request_of_def query_effect_json_def plain_query_def
      thread_search_query_effect_def reference_context_of_def)

lemma reading_resolved: "read_resolved (executor_reading_from C X) R is = read_resolved X R is"
  by (induction "is") simp_all

lemma reading_queries: "execute_with_retriever (executor_reading_from C X) R a = execute_with_retriever X R a"
  by (simp add: execute_with_retriever_def reading_shared reading_resolved execute_search_def execute_read_event_def
      execute_resolve_def execute_status_def execute_participant_def execute_participant_by_name_def
      cong: secretary_action.case_cong option.case_cong list.case_cong if_cong)

lemma reading_policy: "execute_policy_with (executor_reading_from C X) U c p eid = execute_policy_with X U c p eid"
  by (simp add: execute_policy_with_def reading_shared cong: secretary_action.case_cong if_cong)

lemma reading_steps:
  "stored_receipt (executor_reading_from C X) a eid = stored_receipt X a eid"
  "execute_policy_step (executor_reading_from C X) p eid = execute_policy_step X p eid"
  "execute_thread_control (executor_reading_from C X) p eid = execute_thread_control X p eid"
  "execute_thread_mutation (executor_reading_from C X) p eid = execute_thread_mutation X p eid"
  "execute_follow_up_control (executor_reading_from C X) p eid = execute_follow_up_control X p eid"
  "execute_response_expectation_control (executor_reading_from C X) p eid = execute_response_expectation_control X p eid"
  "execute_memory_candidate_control (executor_reading_from C X) p eid = execute_memory_candidate_control X p eid"
  "execute_artifact_reprocess (executor_reading_from C X) p eid = execute_artifact_reprocess X p eid"
  "execute_agenda (executor_reading_from C X) p eid = execute_agenda X p eid"
  "execute_memory (executor_reading_from C X) p eid = execute_memory X p eid"
  by (simp_all add: reading_shared reading_policy stored_receipt_def execute_policy_step_def
      execute_notification_policy_def execute_thread_control_def execute_thread_mutation_def
      execute_follow_up_control_def execute_response_expectation_control_def execute_memory_candidate_control_def
      execute_artifact_reprocess_def execute_agenda_def execute_memory_def
      cong: secretary_action.case_cong option.case_cong policy_execution.case_cong if_cong)

text \<open>
  C7: What the store holds beyond the visibility of the model never shows: if another store answers the
  reads of content alike at the visibility the content policy gives the model and at the normal one,
  every effect has the same outcome with it, on the same world.
\<close>

theorem hidden_content_never_shows:
  assumes "ex_retriever X = Some R"
    and "same_content (visibility_for_model (ex_is_local_loopback X) (ru_allow_local_only R)) (ru_store R) C"
    and "same_content NormalOnly (ru_store R) C"
  shows "execute_effect (executor_reading_from C X) p eid w = execute_effect X p eid w"
proof -
  have queries: "execute_with_retriever X (reading_from C R) a = execute_with_retriever X R a" for a
    using queries_use assms(2,3) by (metis model_visibility_def)
  have action: "execute_action (executor_reading_from C X) a = execute_action X a" for a
    by (simp add: execute_action_def reading_shared reading_queries assms(1) queries seq_need cong: secretary_action.case_cong)
  show ?thesis
    by (simp add: execute_effect_def effect_steps_def first_step.simps reading_steps reading_shared action)
qed

section \<open>An executor\<close>

definition sample_json :: effect_json where
  "sample_json =
     \<lparr>ej_query_result = \<lambda>_. Ok ''{}'', ej_proposal = \<lambda>_. Ok ''{}'', ej_parse_proposal = \<lambda>_. None,
      ej_payload = \<lambda>_. Ok ''{}'', ej_mutation_receipt = \<lambda>_. Ok ''{}'', ej_artifacts = \<lambda>_. Ok ''[]'',
      ej_artifact = \<lambda>_. Ok ''{}''\<rparr>"

definition sample_receipt :: secretary_action_receipt where
  "sample_receipt = \<lparr>ar_proposal_id = ''p'', ar_result_ref = ''{}'', ar_tool_kind = None\<rparr>"

definition sample_receipts :: "unit receipt_store" where
  "sample_receipts =
     \<lparr>rst_load_effect_receipt = \<lambda>_ _. give (Some sample_receipt),
      rst_apply_effect = \<lambda>_ _ _ _ _. give sample_receipt\<rparr>"

definition sample_executor :: "(unit, unit) effect_executor" where
  "sample_executor =
     (effect_executor_new sample_json sample_receipts ''r'' ''l'' (Some sample_retriever) sample_account 10)
       \<lparr>ex_thread_control := Some (\<lambda>_. give sample_receipt)\<rparr>"

definition commanded_executor :: "(unit, unit) effect_executor" where
  "commanded_executor = sample_executor\<lparr>ex_command_source_event_id := Some (SourceEventId ''c'')\<rparr>"

definition sample_proposal :: "secretary_action \<Rightarrow> secretary_action_proposal" where
  "sample_proposal a = \<lparr>ap_proposal_id = ''p'', ap_action = a, ap_rationale = ''r'', ap_source_event_ids = [],
      ap_idempotency_key = None\<rparr>"

lemmas sample_executor_defs =
  sample_executor_def commanded_executor_def effect_executor_new_def sample_proposal_def

text \<open>An executor whose agenda would show in the world that it was called.\<close>

definition agenda_executor :: "(nat, unit) effect_executor" where
  "agenda_executor =
     (effect_executor_new sample_json
        \<lparr>rst_load_effect_receipt = \<lambda>_ _. give None, rst_apply_effect = \<lambda>_ _ _ _ _. give sample_receipt\<rparr>
        ''r'' ''l'' None sample_account 10)
       \<lparr>ex_agenda := Some \<lparr>au_store = \<lparr>as_apply = \<lambda>_ _ n. (Panic, Suc n), as_list_upcoming = \<lambda>_ _ _ _. give [],
            as_produce_due = \<lambda>_ _ n. (Panic, Suc n)\<rparr>, au_clock = \<lambda>_. 0, au_valid_tz = \<lambda>_. True\<rparr>\<rparr>"

theorem change_needs_owner_command_witness:
  "(\<exists>msg. execute_effect sample_executor (sample_proposal (DismissThreadQuestion (OpenQuestionId ''q'') ''r'')) ''e'' ()
     = (Err (permanent msg), ()))
   \<and> (\<exists>msg. execute_effect agenda_executor (sample_proposal (CreateTask ''t'' None ''z'')) ''e'' 0 = (Err (permanent msg), 0))"
  using change_needs_owner_command [of sample_executor "sample_proposal (DismissThreadQuestion (OpenQuestionId ''q'') ''r'')"
      "''e''" "()"]
    change_needs_owner_command [of agenda_executor "sample_proposal (CreateTask ''t'' None ''z'')" "''e''" 0]
  by (simp add: sample_executor_defs agenda_executor_def sample_json_def action_class_defs impactful_policy_def give_def)

lemma sample_control:
  "execute_effect commanded_executor (sample_proposal (DismissThreadQuestion (OpenQuestionId ''q'') ''r'')) ''e'' ()
     = (Ok (with_tool_kind (DismissThreadQuestion (OpenQuestionId ''q'') ''r'') sample_receipt), ())"
proof -
  let ?p = "sample_proposal (DismissThreadQuestion (OpenQuestionId ''q'') ''r'')"
  have texts: "is_blank ''e'' = False" "is_blank ''p'' = False" by code_simp+
  have class_: "is_thread_control_action (ap_action ?p)" by (simp add: sample_proposal_def is_thread_control_action_def)
  have "execute_thread_control commanded_executor ?p ''e'' () = (Ok (Some sample_receipt), ())"
    by (simp add: sample_executor_defs sample_json_def execute_thread_control_def is_thread_control_action_def handled_def
        execute_control_def seq_need rendered_def lift_r_def map_err_def seq_def on_err_def thread_control_apply_def
        accepted_thread_control_def effect_ids_valid_def control_request_of_def control_unless_def ensure_def give_def texts)
  moreover have "ex_notification_policy commanded_executor = None" by (simp add: sample_executor_defs)
  moreover have "has_own_receipt (ap_action ?p)" using class_ by (simp add: has_own_receipt_def)
  ultimately show ?thesis
    by (simp add: execute_effect_def effect_steps_def first_step_skip first_step_takes silent_steps seq_def give_def)
      (simp add: sample_proposal_def)
qed

theorem control_reaches_its_store_witness:
  "\<exists>S rc. control_service commanded_executor (DismissThreadQuestion (OpenQuestionId ''q'') ''r'') = Some S
     \<and> S (control_request_of commanded_executor (SourceEventId ''c'') ''e''
            (sample_proposal (DismissThreadQuestion (OpenQuestionId ''q'') ''r'')) ''{}'') () = (Ok rc, ())"
  using control_reaches_its_store [OF _ sample_control]
  by (auto simp: is_control_action_def is_thread_control_action_def sample_executor_defs sample_json_def)

theorem reconfirmation_never_succeeds_witness:
  "\<exists>res. execute_effect commanded_executor (sample_proposal (ReconfirmThreadSemantics (EventThreadId ''t'') ''r'')) ''e'' ()
     = (res, ()) \<and> (\<forall>rc. res \<noteq> Ok rc)"
  by (rule reconfirmation_never_succeeds) (simp add: sample_proposal_def)

theorem stored_receipt_is_replayed_witness:
  "execute_effect commanded_executor (sample_proposal GetSecretaryStatus) ''e'' ()
     = (Ok (with_tool_kind GetSecretaryStatus sample_receipt), ())"
  using stored_receipt_is_replayed [of "sample_proposal GetSecretaryStatus" commanded_executor "''e''" "()" sample_receipt "()"]
  by (simp add: sample_executor_defs sample_receipts_def give_def action_class_defs)

definition knowing_store :: "unit retriever_store" where
  "knowing_store =
     sample_retriever_store\<lparr>rs_read_source_event := \<lambda>i a v.
       give (if v = InternalMetadata
             then Some \<lparr>sed_source_event_id = i, sed_account = a,
                sed_conversation = \<lparr>conv_kind = GroupConversation, conv_id = ''3''\<rparr>,
                sed_actor = \<lparr>actor_kind = External, actor_id = ''o''\<rparr>, sed_participant = None,
                sed_message_role = ExternalObservation, sed_occurred_at = 1, sed_normalized_text = ''secret'',
                sed_trust_level = EnvelopeOnly, sed_reply_to = None, sed_thread_id = None\<rparr>
             else None)\<rparr>"

definition querying_executor :: "(unit, unit) effect_executor" where
  "querying_executor =
     commanded_executor\<lparr>ex_store := sample_receipts\<lparr>rst_load_effect_receipt := \<lambda>_ _. give None\<rparr>\<rparr>"

theorem hidden_content_never_shows_witness:
  "execute_effect (executor_reading_from knowing_store querying_executor)
       (sample_proposal (ReadSourceEvent (SourceEventId ''x''))) ''e'' ()
     = execute_effect querying_executor (sample_proposal (ReadSourceEvent (SourceEventId ''x''))) ''e'' ()"
  by (rule hidden_content_never_shows [of _ sample_retriever])
    (simp_all add: querying_executor_def sample_executor_defs same_content_def sample_retriever_def sample_retriever_store_def
      knowing_store_def visibility_for_model_def)

end
