(* ===== verification/Reference_Properties.thy ===== *)
theory Reference_Properties
  imports Retriever_Properties
begin

text \<open>
  When a reference counts as resolved: the candidates of the store name one participant (account
  identities are compared by kind and stable id), at most one thread, and the owner gave a scope.
\<close>

section \<open>What the candidates name\<close>

definition identity_key :: "participant_identity \<Rightarrow> platform_identity_kind \<times> string" where
  "identity_key p = (pid_platform_kind p, pid_stable_id p)"

definition named_identities :: "reference_candidate list \<Rightarrow> (platform_identity_kind \<times> string) set" where
  "named_identities cs = identity_key ` {p. \<exists>c\<in>set cs. rc_participant c = Some p}"

definition named_threads :: "reference_candidate list \<Rightarrow> event_thread_id set" where
  "named_threads cs = {t. \<exists>c\<in>set cs. rc_thread_id c = Some t}"

definition cited_events :: "reference_candidate list \<Rightarrow> source_event_id set" where
  "cited_events cs = (\<Union>c\<in>set cs. set (rc_source_event_ids c))"

definition scoped_reference :: "reference_context \<Rightarrow> bool" where
  "scoped_reference cx \<longleftrightarrow> rx_current_conversation cx \<noteq> None \<or> rx_current_thread_id cx \<noteq> None"

lemmas named_defs = named_identities_def named_threads_def cited_events_def

lemma named_Nil [simp]: "named_identities [] = {}" "named_threads [] = {}" "cited_events [] = {}"
  by (simp_all add: named_defs)

lemma named_Cons:
  "named_identities (c # cs) = identity_key ` set_option (rc_participant c) \<union> named_identities cs"
  "named_threads (c # cs) = set_option (rc_thread_id c) \<union> named_threads cs"
  "cited_events (c # cs) = set (rc_source_event_ids c) \<union> cited_events cs"
  by (auto simp: named_defs)

section \<open>The collection\<close>

lemma known_identity:
  "list_ex (\<lambda>e. pid_platform_kind e = pid_platform_kind p \<and> pid_stable_id e = pid_stable_id p) ps
     \<longleftrightarrow> identity_key p \<in> identity_key ` set ps"
proof
  assume "identity_key p \<in> identity_key ` set ps"
  then show "list_ex (\<lambda>e. pid_platform_kind e = pid_platform_kind p \<and> pid_stable_id e = pid_stable_id p) ps"
    by (auto simp: list_ex_iff identity_key_def)
next
  assume "list_ex (\<lambda>e. pid_platform_kind e = pid_platform_kind p \<and> pid_stable_id e = pid_stable_id p) ps"
  then obtain e where "e \<in> set ps" "identity_key p = identity_key e"
    by (auto simp: list_ex_iff identity_key_def)
  then show "identity_key p \<in> identity_key ` set ps" by simp
qed

lemma push_participant_keys:
  "identity_key ` set (push_participant ps p) = insert (identity_key p) (identity_key ` set ps)"
  by (auto simp: push_participant_def known_identity)

lemma push_participant_distinct:
  "distinct (map identity_key ps) \<Longrightarrow> distinct (map identity_key (push_participant ps p))"
  by (auto simp: push_participant_def known_identity)

definition collected ::
  "participant_identity list \<times> event_thread_id list \<times> source_event_id list \<Rightarrow> bool" where
  "collected acc = (case acc of (ps, ts, es) \<Rightarrow> distinct (map identity_key ps) \<and> distinct ts \<and> distinct es)"

lemma collect_keeps:
  assumes "collected acc" and "collect_candidate c acc = (ps', ts', es')" and "acc = (ps, ts, es)"
  shows "collected (ps', ts', es')
    \<and> identity_key ` set ps' = identity_key ` set_option (rc_participant c) \<union> identity_key ` set ps
    \<and> set ts' = set_option (rc_thread_id c) \<union> set ts \<and> set es' = set (rc_source_event_ids c) \<union> set es"
proof -
  have "ps' = (case rc_participant c of Some p \<Rightarrow> push_participant ps p | None \<Rightarrow> ps)"
      and "ts' = (case rc_thread_id c of Some t \<Rightarrow> append_unique ts [t] | None \<Rightarrow> ts)"
      and "es' = append_unique es (rc_source_event_ids c)"
    using assms(2,3) by (simp_all add: collect_candidate_def)
  then show ?thesis
    using assms(1,3)
    by (simp add: collected_def push_participant_keys push_participant_distinct append_unique_distinct append_unique_set
        Un_commute split: option.split)
qed

lemma collect_all:
  assumes "collected (ps, ts, es)" and "fold collect_candidate cs (ps, ts, es) = (ps', ts', es')"
  shows "collected (ps', ts', es') \<and> identity_key ` set ps' = named_identities cs \<union> identity_key ` set ps
    \<and> set ts' = named_threads cs \<union> set ts \<and> set es' = cited_events cs \<union> set es"
  using assms
proof (induction cs arbitrary: ps ts es)
  case (Cons c cs)
  obtain ps1 ts1 es1 where first: "collect_candidate c (ps, ts, es) = (ps1, ts1, es1)"
    by (metis prod_cases3)
  note step = collect_keeps [OF Cons.prems(1) first refl]
  have "fold collect_candidate cs (ps1, ts1, es1) = (ps', ts', es')"
    using Cons.prems(2) first by simp
  from Cons.IH [OF _ this] step show ?case by (auto simp: named_Cons)
qed simp

lemma collected_candidates:
  assumes "fold collect_candidate cs ([], [], []) = (ps, ts, es)"
  shows "length ps = card (named_identities cs)" "identity_key ` set ps = named_identities cs"
    "length ts = card (named_threads cs)" "set ts = named_threads cs" "distinct es" "set es = cited_events cs"
proof -
  have c: "collected (ps, ts, es) \<and> identity_key ` set ps = named_identities cs
      \<and> set ts = named_threads cs \<and> set es = cited_events cs"
    using collect_all [OF _ assms] by (simp add: collected_def)
  then show "identity_key ` set ps = named_identities cs" "set ts = named_threads cs" "distinct es"
      "set es = cited_events cs"
    by (auto simp: collected_def)
  show "length ps = card (named_identities cs)" "length ts = card (named_threads cs)"
    using c distinct_card [of "map identity_key ps"] distinct_card [of ts] by (auto simp: collected_def)
qed

text \<open>
  C20: A reference is resolved exactly if a scope is given, the candidates name exactly one participant
  and at most one thread, and the resolution then names that participant and thread; an ambiguous
  one names no participant and no thread, so that none is guessed. In either case it carries the
  events the candidates cite, each once: the comment on the function, that in case of ambiguity
  everything resolved is \<open>None\<close>, does not hold for the events.
\<close>

theorem reference_resolved_exactly:
  "let r = resolve_reference_from_candidates cs cx in
     (\<not> rr_ambiguous r
        \<longleftrightarrow> scoped_reference cx \<and> card (named_identities cs) = 1 \<and> card (named_threads cs) \<le> 1)
    \<and> (if rr_ambiguous r then rr_actor_id r = None \<and> rr_thread_id r = None
        else (\<exists>k i. named_identities cs = {(k, i)} \<and> rr_actor_id r = Some i)
           \<and> named_threads cs = set_option (rr_thread_id r))
    \<and> set (rr_event_ids r) = cited_events cs \<and> distinct (rr_event_ids r)"
proof -
  define r where "r = resolve_reference_from_candidates cs cx"
  obtain ps ts es where all: "fold collect_candidate cs ([], [], []) = (ps, ts, es)"
    by (metis prod_cases3)
  note c = collected_candidates [OF all]
  have empty: "cs = [] \<Longrightarrow> named_identities cs = {} \<and> cited_events cs = {}" by simp
  have resolved: "\<not> rr_ambiguous r
      \<longleftrightarrow> scoped_reference cx \<and> card (named_identities cs) = 1 \<and> card (named_threads cs) \<le> 1"
    using c empty by (auto simp: r_def resolve_reference_from_candidates_def all scoped_reference_def Let_def)
  have events: "set (rr_event_ids r) = cited_events cs \<and> distinct (rr_event_ids r)"
    using c empty by (auto simp: r_def resolve_reference_from_candidates_def all Let_def)
  have guess: "rr_actor_id r = None \<and> rr_thread_id r = None" if "rr_ambiguous r"
    using that by (auto simp: r_def resolve_reference_from_candidates_def all Let_def split: if_splits)
  have "(\<exists>k i. named_identities cs = {(k, i)} \<and> rr_actor_id r = Some i)
      \<and> named_threads cs = set_option (rr_thread_id r)" if "\<not> rr_ambiguous r"
  proof -
    have one: "length ps = 1" "length ts \<le> 1" "cs \<noteq> []" "scoped_reference cx"
      using that resolved c empty by auto
    then obtain p where p: "ps = [p]" by (cases ps) auto
    have res: "rr_actor_id r = Some (pid_stable_id p)"
        "rr_thread_id r = (case ts of [] \<Rightarrow> None | t # _ \<Rightarrow> Some t)"
      using one p by (auto simp: r_def resolve_reference_from_candidates_def all scoped_reference_def Let_def)
    have "named_identities cs = {(pid_platform_kind p, pid_stable_id p)}"
      using c(2) p by (simp add: identity_key_def)
    moreover have "set ts = set_option (rr_thread_id r)"
      using one(2) res(2) by (cases ts) auto
    ultimately show ?thesis using res(1) c(4) by simp
  qed
  with resolved events guess show ?thesis unfolding Let_def r_def [symmetric] by simp
qed

end
