(* ===== verification/Replan_Overflow.thy ===== *)
theory Replan_Overflow
  imports Action_Graph Reference_Properties
begin

text \<open>
  When the observation of a query is too much for the agent: the context holds twenty references and
  refuses an update that needs more, so that the run fails with the error of that update.
\<close>

section \<open>The bound of the context\<close>

lemma append_unique_length: "card (set xs \<union> set ys) \<le> length (append_unique xs ys)"
  by (metis append_unique_set card_length)

lemma long_context_invalid:
  assumes "20 < length (wc_selected_evidence_refs w)"
  shows "\<exists>e. working_context_validate json_size w = Err e"
proof (cases "working_context_validate json_size w")
  case (Ok u)
  then show ?thesis
    using assms by (auto simp: working_context_validate_def check_len_def max_working_evidence_refs_def result_simps)
qed (simp_all add: working_context_validate_no_panic)

definition context_evidence :: "secretary_state \<Rightarrow> source_event_id list" where
  "context_evidence s = wc_selected_evidence_refs (unwrap_or (ss_working_context s) working_context_default)"

lemma evidence_refused:
  assumes "20 < card (set (context_evidence s) \<union> set evidence)"
  shows "\<exists>e. secretary_apply_update json_size s (WorkingContextChanged (ReplanEvidence evidence ts ps fs os)) = (Err e, s)"
proof -
  let ?w = "unwrap_or (ss_working_context s) working_context_default"
  have "20 < length (append_unique (wc_selected_evidence_refs ?w) evidence)"
    using assms append_unique_length [of "wc_selected_evidence_refs ?w" evidence] by (simp add: context_evidence_def)
  then obtain e where "working_context_validate json_size
      (?w\<lparr>wc_selected_evidence_refs := append_unique (wc_selected_evidence_refs ?w) evidence,
          wc_resolved_thread_refs := append_unique (wc_resolved_thread_refs ?w) ts,
          wc_resolved_participant_refs := append_unique (wc_resolved_participant_refs ?w) ps,
          wc_resolved_fact_refs := append_unique (wc_resolved_fact_refs ?w) fs,
          wc_open_references := append_open_references (wc_open_references ?w) os,
          wc_last_retrieval := Some ReplanObservation\<rparr>) = Err e"
    using long_context_invalid by force
  then have "merge_replan_evidence json_size evidence ts ps fs os ?w = Err e"
    by (simp add: merge_replan_evidence_def)
  then show ?thesis
    by (simp add: secretary_apply_update_def apply_working_context_update_def)
qed

lemma observation_keeps_context:
  "secretary_apply_update json_size s (ObservationAppended ob) = (Ok u, s') \<Longrightarrow> context_evidence s' = context_evidence s"
  by (auto simp: secretary_apply_update_def context_evidence_def split: result.splits if_splits)

lemma observation_refused:
  assumes "30 < length (pto_source_event_ids ob)"
  shows "\<exists>e. secretary_apply_update json_size s (ObservationAppended ob) = (Err e, s)"
proof -
  have "validate_tool_observation ob \<noteq> Ok u" for u
    using assms by (auto simp: validate_tool_observation_def input_unless_def max_observation_event_refs_def result_simps)
  then obtain e where "validate_tool_observation ob = Err e"
    using validate_tool_observation_no_panic by (cases "validate_tool_observation ob") auto
  then show ?thesis by (simp add: secretary_apply_update_def map_err_def)
qed

lemma observation_no_panic: "fst (secretary_apply_update json_size s (ObservationAppended ob)) \<noteq> Panic"
  using validate_tool_observation_no_panic [of ob]
  by (cases "validate_tool_observation ob") (simp_all add: secretary_apply_update_def map_err_def)

text \<open>
  C40: The updates with which the agent takes in the result of a query fail, and change nothing, when the
  result cites more than thirty events, or when its events and the references that the context holds
  already are more than twenty.
\<close>

theorem observation_beyond_bound_fails:
  assumes "30 < length (pto_source_event_ids ob)
    \<or> 20 < card (set (context_evidence (business st)) \<union> set (pto_source_event_ids ob))"
  shows "\<exists>e. apply_updates (secretary_business json_size) st (observation_updates ob) = (Err e, st)"
proof -
  let ?first = "secretary_apply_update json_size (business st) (ObservationAppended ob)"
  obtain r s' where first: "?first = (r, s')" by (cases ?first)
  show ?thesis
  proof (cases r)
    case (Ok u)
    then have "\<not> 30 < length (pto_source_event_ids ob)"
      using observation_refused [of ob json_size "business st"] first by auto
    then have "20 < card (set (context_evidence s') \<union> set (pto_source_event_ids ob))"
      using assms observation_keeps_context first Ok by metis
    then obtain e where "secretary_apply_update json_size s' (WorkingContextChanged (ReplanEvidence (pto_source_event_ids ob) []
        (map (\<lambda>te. \<lparr>pr_platform_kind = qte_actor_kind te, pr_stable_id = qte_actor_id te\<rparr>) (pto_typed_events ob)) []
        (if pto_ambiguous ob then [ambiguous_reference (pto_source_event_ids ob)] else []))) = (Err e, s')"
      using evidence_refused by blast
    then show ?thesis
      using first Ok by (simp add: apply_updates_def observation_updates_def apply_one_def secretary_business_def)
  next
    case (Err e)
    then show ?thesis
      using first by (simp add: apply_updates_def observation_updates_def apply_one_def secretary_business_def)
  next
    case Panic
    then show ?thesis using observation_no_panic first by (metis fst_conv)
  qed
qed

section \<open>A full context\<close>

definition known_events :: "source_event_id list" where
  "known_events = map (\<lambda>k. SourceEventId (decimal k)) (upt 0 20)"

definition full_state :: secretary_state where
  "full_state =
     \<lparr>ss_goal = ''g'', ss_phase = UpdateState, ss_invariants = [], ss_evidence_source_event_ids = [],
      ss_recent_events = [], ss_pending_proposal = None, ss_last_receipt = None, ss_response_draft = None,
      ss_replan_round = 0, ss_planning_observations = [],
      ss_working_context = Some (working_context_default\<lparr>wc_selected_evidence_refs := known_events\<rparr>)\<rparr>"

definition new_observation :: planner_tool_observation where
  "new_observation =
     \<lparr>pto_proposal_id = ''p'', pto_tool_kind = SearchRecentEventsTool, pto_success = True,
      pto_source_event_ids = [SourceEventId ''new''], pto_summary = ''s'', pto_typed_events = [], pto_version = 1,
      pto_ambiguous = False, pto_next_cursor = None\<rparr>"

lemma one_more_event: "20 < card (set (context_evidence full_state) \<union> set (pto_source_event_ids new_observation))"
proof -
  have "distinct known_events \<and> length known_events = 20 \<and> SourceEventId ''new'' \<notin> set known_events"
    by code_simp
  then show ?thesis
    using distinct_card [of "SourceEventId ''new'' # known_events"]
    by (simp add: context_evidence_def full_state_def new_observation_def)
qed

theorem observation_beyond_bound_fails_witness:
  "\<exists>e. apply_updates (secretary_business (\<lambda>_. Some 10)) (agent_state_new full_state) (observation_updates new_observation)
     = (Err e, agent_state_new full_state)"
  by (rule observation_beyond_bound_fails) (simp add: agent_state_new_def one_more_event)

end
