(* ===== verification/Service_Properties.thy ===== *)
theory Service_Properties
  imports Memory_Candidate Thread_Mutation Thread_Link "HOL-Library.Sublist"
begin

text \<open>
  What the memory and thread services guarantee to those behind them: which candidates a scan
  commits, that an approved candidate becomes a valid fact, under what authority a thread mutation is
  applied, and what a review of a thread link rests on.
\<close>

section \<open>An account with one project\<close>

definition sample_account :: source_account_ref where
  "sample_account = \<lparr>sar_channel = NapCat, sar_account_id = ''1''\<rparr>"

definition sample_actor :: thread_actor_ref where
  "sample_actor = \<lparr>tar_account = sample_account, tar_actor_id = ''7'', tar_platform_identity_kind = None\<rparr>"

definition sample_batch :: memory_candidate_batch where
  "sample_batch =
     \<lparr>mcb_account = sample_account, mcb_conversation = \<lparr>conv_kind = GroupConversation, conv_id = ''3''\<rparr>, mcb_lease_token = ''l'',
      mcb_events =
        [\<lparr>mce_source_event_id = SourceEventId ''e'', mce_actor = sample_actor, mce_role = OwnerCommand,
          mce_occurred_at = 5, mce_trust_level = Normal, mce_normalized_text = utf8 [0x9879, 0x76EE] @ '':p goal'',
          mce_content_omitted = False\<rparr>],
      mcb_next_cursor = \<lparr>mcu_received_at_micros = 5, mcu_source_event_id = SourceEventId ''e''\<rparr>\<rparr>"

definition sample_candidate :: memory_candidate where
  "sample_candidate =
     \<lparr>mc_candidate_id = MemoryCandidateId ''u'', mc_account = sample_account, mc_subject_key = ''project:p'',
      mc_payload = ProjectPayload \<lparr>pj_project_key = ''p'', pj_goal = ''goal'', pj_member_actor_ids = [],
        pj_member_actor_refs = [], pj_progress = None, pj_decision_ids = [], pj_risks = [], pj_blockers = [],
        pj_artifact_refs = []\<rparr>,
      mc_status = CandidateProposed, mc_version = 1, mc_extractor_version = ''v1'', mc_fingerprint = ''f'',
      mc_sources = [\<lparr>mcs_source_event_id = SourceEventId ''e'', mcs_actor = sample_actor, mcs_occurred_at = 5,
                     mcs_trust_level = Normal\<rparr>]\<rparr>"

definition sample_scan :: "unit candidate_use_case" where
  "sample_scan =
     \<lparr>cu_store =
        \<lparr>cst_claim = \<lambda>_ _ _ _ _ _. give (Some sample_batch), cst_commit = \<lambda>_ cs. give (of_nat (length cs)),
         cst_release = \<lambda>_ _. give (), cst_invalidate = \<lambda>_ _. give 0, cst_list = \<lambda>_ _ _ _. give []\<rparr>,
      cu_extract = \<lambda>_. give [sample_candidate\<lparr>mc_version := 2\<rparr>, sample_candidate],
      cu_account = sample_account, cu_max_events = 10, cu_max_event_chars = 100, cu_max_total_chars = 1000,
      cu_lease_secs = 60, cu_allow_local_only = False\<rparr>"

lemma sample_texts:
  "is_blank ''project:p'' = False" "char_count ''project:p'' = 9" "is_blank ''v1'' = False"
  "is_blank ''p'' = False" "char_count ''p'' = 1" "is_blank ''goal'' = False" "char_count ''goal'' = 4"
  "is_blank ''r'' = False" "char_count ''r'' = 1" "is_blank ''7'' = False"
  by code_simp+

lemma sample_candidate_valid:
  "validate_memory_candidate (\<lambda>_ _ _ _ _. ''f'') (\<lambda>_. Ok ''{}'') sample_candidate sample_batch = Ok ()"
  by (simp add: validate_memory_candidate_def sample_candidate_def sample_batch_def sample_actor_def sample_texts
      candidate_unless_def ensure_def bind_r_def candidate_bounds check_candidate_source_def batch_event_def ok_or_def
      check_payload_evidence_def payload_actors_def validate_memory_payload_def validate_project_def map_err_def
      payload_actors_observed_in_batch_def observed_actors_required_def candidate_fingerprint_def fact_unless_def
      memory_text_def memory_optional_text_def memory_text_list_def)

section \<open>Candidates\<close>

lemma candidate_unless_Ok [guard_simps]: "candidate_unless b msg = Ok u \<longleftrightarrow> b"
  by (auto simp: candidate_unless_def ensure_inv)

lemma candidate_call_Ok [result_simps]: "candidate_call m w = (Ok a, w') \<longleftrightarrow> m w = (Ok a, w')"
  by (auto simp: candidate_call_def result_simps split: prod.splits)

definition backed_source :: "memory_candidate_batch \<Rightarrow> memory_candidate_source \<Rightarrow> bool" where
  "backed_source b s \<longleftrightarrow>
     tar_account (mcs_actor s) = mcb_account b
     \<and> (\<exists>e\<in>set (mcb_events b). mce_source_event_id e = mcs_source_event_id s
          \<and> tar_actor_id (mce_actor e) = tar_actor_id (mcs_actor s) \<and> mce_trust_level e = mcs_trust_level s
          \<and> (mce_trust_level e = Normal \<or> mce_trust_level e = LocalOnly))"

lemma eligible_levels: "eligible_for_candidate_extraction t True \<longleftrightarrow> t = Normal \<or> t = LocalOnly"
  by (cases t) simp_all

lemma checked_source_backed:
  assumes "check_candidate_source b seen s = Ok u"
  shows "backed_source b s \<and> mcs_source_event_id s \<notin> set seen"
proof -
  obtain e where "batch_event b (mcs_source_event_id s) = Some e"
      and checks: "tar_account (mcs_actor s) = mcb_account b" "mcs_source_event_id s \<notin> set seen"
        "tar_actor_id (mce_actor e) = tar_actor_id (mcs_actor s)" "mce_trust_level e = mcs_trust_level s"
        "mce_trust_level e = Normal \<or> mce_trust_level e = LocalOnly"
    using assms by (auto simp: check_candidate_source_def result_simps guard_simps eligible_levels)
  then have "e \<in> set (mcb_events b)" "mce_source_event_id e = mcs_source_event_id s"
    by (auto simp: batch_event_def find_Some_iff)
  then show ?thesis using checks by (auto simp: backed_source_def)
qed

lemma checked_sources_backed:
  "check_candidate_sources b seen ss = Ok u \<Longrightarrow>
     (\<forall>s\<in>set ss. backed_source b s) \<and> distinct (map mcs_source_event_id ss)
     \<and> set seen \<inter> mcs_source_event_id ` set ss = {}"
proof (induction b seen ss arbitrary: u rule: check_candidate_sources.induct)
  case (2 b seen s ss)
  then have "check_candidate_source b seen s = Ok ()"
      and rest: "check_candidate_sources b (mcs_source_event_id s # seen) ss = Ok u"
    by (auto simp: result_simps)
  then show ?case using checked_source_backed [of b seen s] "2.IH" [OF _ rest] by auto
qed simp

lemma validated_candidate:
  assumes "validate_memory_candidate fp json c b = Ok u"
  shows "mc_status c = CandidateProposed" "mc_account c = mcb_account b" "mc_version c = initial_candidate_version"
    "\<not> is_blank (mc_subject_key c)" "char_count (mc_subject_key c) \<le> 191"
    "mc_sources c \<noteq> []" "length (mc_sources c) \<le> 20"
    "check_candidate_sources b [] (mc_sources c) = Ok ()"
    "validate_memory_payload (mc_payload c) (mc_account c) (map mcs_source_event_id (mc_sources c)) = Ok ()"
  using assms by (auto simp: validate_memory_candidate_def result_simps guard_simps max_candidate_sources_def)

lemma confirmed_payload_valid:
  assumes "validate_memory_payload p account sources = Ok u"
  shows "validate_memory_payload
      (case p of CommitmentPayload c \<Rightarrow> CommitmentPayload (c\<lparr>cm_status := CommitmentPending, cm_completion_source := None\<rparr>)
       | other \<Rightarrow> other) account sources = Ok ()"
  using assms by (cases p) (auto simp: validate_memory_payload_def result_simps guard_simps
      dest: validate_commitment_pending)

text \<open>
  C19: Approving a candidate that passed the check of its batch never fails: the fact is confirmed and
  valid, and cites exactly the candidate's sources, each an event of the batch by the same actor whose
  trust level allows it into the memory.
\<close>

theorem approved_candidate_is_valid_fact:
  assumes "validate_memory_candidate fp json c b = Ok u"
  shows "\<exists>f. candidate_to_confirmed_fact c i = Ok f \<and> validate_memory_fact f = Ok ()
    \<and> mf_fact_id f = i \<and> mf_account f = mcb_account b \<and> mf_status f = FactConfirmed
    \<and> mf_source_event_ids f = map mcs_source_event_id (mc_sources c) \<and> distinct (mf_source_event_ids f)
    \<and> (\<forall>s\<in>set (mc_sources c). backed_source b s)"
proof -
  note v = validated_candidate [OF assms]
  let ?p = "case mc_payload c of
      CommitmentPayload cm \<Rightarrow> CommitmentPayload (cm\<lparr>cm_status := CommitmentPending, cm_completion_source := None\<rparr>)
    | other \<Rightarrow> other"
  let ?f = "\<lparr>mf_fact_id = i, mf_account = mc_account c, mf_subject_key = mc_subject_key c, mf_payload = ?p,
      mf_status = FactConfirmed, mf_confidence_bps = approved_candidate_confidence_bps,
      mf_source_event_ids = map mcs_source_event_id (mc_sources c), mf_valid_until = None, mf_supersedes = None\<rparr>"
  have "validate_memory_fact ?f = Ok ()"
    using v confirmed_payload_valid [OF v(9)]
    by (simp add: validate_memory_fact_def result_simps guard_simps approved_candidate_confidence_bps_def)
  then have "candidate_to_confirmed_fact c i = Ok ?f"
    using v(1) by (simp add: candidate_to_confirmed_fact_def Let_def candidate_unless_def ensure_def bind_r_def map_err_def)
  then show ?thesis
    using \<open>validate_memory_fact ?f = Ok ()\<close> v(2) checked_sources_backed [OF v(8)] by simp
qed

theorem approved_candidate_is_valid_fact_witness:
  "\<exists>f. candidate_to_confirmed_fact sample_candidate (MemoryFactId ''x'') = Ok f \<and> mf_status f = FactConfirmed
     \<and> validate_memory_fact f = Ok ()"
  using approved_candidate_is_valid_fact [OF sample_candidate_valid, of "MemoryFactId ''x''"] by blast

definition accepted :: "(memory_candidate \<Rightarrow> candidate_check) \<Rightarrow> nat \<Rightarrow> memory_candidate list \<Rightarrow> memory_candidate list" where
  "accepted check n cs = take n (filter (\<lambda>c. check c = Ok ()) cs)"

lemma accepted_le: "length (accepted check n cs) \<le> length cs"
  unfolding accepted_def by (metis length_filter_le length_take min.coboundedI1 min.commute)

lemma skip_count:
  "(k :: u64) + 1 + of_nat (length cs - length (accepted check n cs))
     = k + of_nat (Suc (length cs) - length (accepted check n cs))"
  by (simp add: Suc_diff_le [OF accepted_le])

lemma selected_candidates:
  assumes "length valid \<le> 20"
  shows "select_candidates check valid skipped cs =
    (valid @ accepted check (20 - length valid) cs,
     skipped + of_nat (length cs - length (accepted check (20 - length valid) cs)))"
  using assms
proof (induction check valid skipped cs rule: select_candidates.induct)
  case (1 check valid skipped)
  then show ?case by (simp add: accepted_def)
next
  case (2 check valid skipped c cs)
  consider (take_it) "check c = Ok ()" "length valid < 20" | (full) "check c = Ok ()" "length valid = 20"
    | (refused) "check c \<noteq> Ok ()"
    using "2.prems" by linarith
  then show ?case
  proof cases
    case take_it
    then have "20 - length valid = Suc (20 - length (valid @ [c]))" by simp
    then have "accepted check (20 - length valid) (c # cs) = c # accepted check (20 - length (valid @ [c])) cs"
      using take_it by (simp only: accepted_def filter.simps if_True take_Suc_Cons simp_thms)
    then show ?thesis using "2.IH"(2) [OF take_it(1)] take_it by (simp add: max_candidates_per_batch_def)
  next
    case full
    then have "accepted check (20 - length valid) (c # cs) = accepted check (20 - length valid) cs"
      by (simp add: accepted_def)
    then show ?thesis
      using "2.IH"(1) [OF full(1)] full by (simp add: max_candidates_per_batch_def skip_count)
  next
    case refused
    then have "accepted check (20 - length valid) (c # cs) = accepted check (20 - length valid) cs"
      by (simp add: accepted_def)
    then show ?thesis
      using "2.IH"(3,4) "2.prems" refused by (cases "check c") (simp_all add: skip_count)
  qed
qed

text \<open>
  C18: A scan that reports a run has handed its store, for the batch it claimed, exactly the first twenty
  of the extractor's candidates that pass the check against that batch, in the extractor's order; all
  others are counted as skipped.
\<close>

theorem scan_commits_checked_candidates:
  assumes "candidate_run_once fp json u w = (Ok (Some done_run), w')"
  shows "\<exists>n b cs ys w1 w2 w3.
      cst_invalidate (cu_store u) (cu_account u) max_invalidate_per_scan w = (Ok n, w1)
    \<and> cst_claim (cu_store u) (cu_account u) (cu_max_events u) (cu_max_event_chars u) (cu_max_total_chars u)
        (cu_lease_secs u) (cu_allow_local_only u) w1 = (Ok (Some b), w2)
    \<and> cu_extract u b w2 = (Ok cs, w3)
    \<and> ys = take 20 (filter (\<lambda>c. validate_memory_candidate fp json c b = Ok ()) cs)
    \<and> cst_commit (cu_store u) b ys w3 = (Ok (cr_committed done_run), w')
    \<and> cr_skipped done_run = of_nat (length cs - length ys)"
proof -
  obtain b n w1 w2 where inval: "cst_invalidate (cu_store u) (cu_account u) max_invalidate_per_scan w = (Ok n, w1)"
      and claim: "cst_claim (cu_store u) (cu_account u) (cu_max_events u) (cu_max_event_chars u)
        (cu_max_total_chars u) (cu_lease_secs u) (cu_allow_local_only u) w1 = (Ok (Some b), w2)"
      and scan: "scan_batch fp json u n b w2 = (Ok (Some done_run), w')"
    using assms by (auto simp: candidate_run_once_def result_simps split: option.splits)
  obtain cs w3 where ex: "cu_extract u b w2 = (Ok cs, w3)"
    using scan by (auto simp: scan_batch_def split: prod.splits result.splits)
  let ?check = "\<lambda>c. validate_memory_candidate fp json c b"
  have "select_candidates ?check [] 0 cs =
      (accepted ?check 20 cs, of_nat (length cs - length (accepted ?check 20 cs)))"
    by (simp add: selected_candidates)
  then have "cst_commit (cu_store u) b (accepted ?check 20 cs) w3 = (Ok (cr_committed done_run), w')"
      and "cr_skipped done_run = of_nat (length cs - length (accepted ?check 20 cs))"
    using scan ex by (auto simp: scan_batch_def result_simps)
  then show ?thesis using inval claim ex unfolding accepted_def by blast
qed

lemma sample_scan_run:
  "candidate_run_once (\<lambda>_ _ _ _ _. ''f'') (\<lambda>_. Ok ''{}'') sample_scan () =
     (Ok (Some \<lparr>cr_events_read = 1, cr_committed = 1, cr_skipped = 1, cr_invalidated = 0\<rparr>), ())"
proof -
  have "validate_memory_candidate (\<lambda>_ _ _ _ _. ''f'') (\<lambda>_. Ok ''{}'') (sample_candidate\<lparr>mc_version := 2\<rparr>) sample_batch
      \<noteq> Ok ()"
    using validated_candidate(3) by (fastforce simp: initial_candidate_version_def)
  then have "select_candidates (\<lambda>c. validate_memory_candidate (\<lambda>_ _ _ _ _. ''f'') (\<lambda>_. Ok ''{}'') c sample_batch) [] 0
      [sample_candidate\<lparr>mc_version := 2\<rparr>, sample_candidate] = ([sample_candidate], 1)"
    by (simp add: selected_candidates accepted_def sample_candidate_valid del: select_candidates.simps)
  moreover have "length (mcb_events sample_batch) = 1" by (simp add: sample_batch_def)
  ultimately show ?thesis
    by (simp add: candidate_run_once_def sample_scan_def scan_batch_def candidate_call_def seq_def give_def map_err_def
        del: select_candidates.simps)
qed

theorem scan_commits_checked_candidates_witness:
  "\<exists>b cs. cu_extract sample_scan b () = (Ok cs, ())
     \<and> cst_commit (cu_store sample_scan) b
         (take 20 (filter (\<lambda>c. validate_memory_candidate (\<lambda>_ _ _ _ _. ''f'') (\<lambda>_. Ok ''{}'') c b = Ok ()) cs)) ()
         = (Ok 1, ())"
  using scan_commits_checked_candidates [OF sample_scan_run] by auto

section \<open>Thread mutations\<close>

text \<open>
  A merge or split is applied only after its impact was built for the approved action and found
  valid, persisted as a proposal, and the store has authorized this very proposal on the owner's
  command; it is applied under the key of the effect.
\<close>

theorem applied_mutation_was_authorized:
  assumes "apply_approved_action S account proposal a command key w = (Ok receipt, w')"
  shows "\<exists>request impact w1 w2 w3.
      impact_request account (ThreadMutationProposalId proposal) a = Ok request
    \<and> tmt_build_impact S request w = (Ok impact, w1) \<and> validate_thread_mutation_impact impact = Ok ()
    \<and> tmt_persist_proposal S impact w1 = (Ok (), w2)
    \<and> tmt_authorize_resume S (approve_input (ThreadMutationProposalId proposal) command) w2 = (Ok MutationApproved, w3)
    \<and> tmt_apply_effect S \<lparr>tme_proposal_id = ThreadMutationProposalId proposal, tme_kind = tmi_kind impact\<rparr> key w3
        = (Ok receipt, w')"
  using assms by (auto simp: apply_approved_action_def thread_mutation_proposal_id_new_def result_simps ensure_inv
      split: if_splits)

definition sample_threads :: "unit thread_mutation_store" where
  "sample_threads =
     \<lparr>tmt_build_impact = \<lambda>q. give
        \<lparr>tmi_proposal_id = tmq_proposal_id q, tmi_kind = tmq_kind q, tmi_account = tmq_account q,
         tmi_thread_ids = tmq_thread_ids q, tmi_event_count = 1, tmi_conversation_count = 1,
         tmi_source_event_ids = [SourceEventId ''e''], tmi_reason = tmq_reason q\<rparr>,
      tmt_persist_proposal = \<lambda>_. give (), tmt_authorize_resume = \<lambda>_. give MutationApproved,
      tmt_apply_effect = \<lambda>e key. give
        \<lparr>tmc_proposal_id = tme_proposal_id e, tmc_effect_id = key, tmc_status = MutationApplied, tmc_changed = True\<rparr>,
      tmt_revert_applied = \<lambda>_. lift_r (Err Unavailable)\<rparr>"

lemma sample_merge:
  "apply_approved_action sample_threads sample_account ''p'' (MergeThreads [EventThreadId ''s'', EventThreadId ''t''] ''r'')
     (SourceEventId ''c'') ''k'' () =
   (Ok \<lparr>tmc_proposal_id = ThreadMutationProposalId ''p'', tmc_effect_id = ''k'', tmc_status = MutationApplied,
        tmc_changed = True\<rparr>, ())"
  by (simp add: apply_approved_action_def sample_threads_def thread_mutation_proposal_id_new_def impact_request_def
      validate_thread_mutation_impact_def impact_unless_def ensure_def bind_r_def mutation_call_def seq_def give_def
      lift_r_def map_err_def sample_texts approve_input_def)

theorem applied_mutation_was_authorized_witness:
  "\<exists>impact. validate_thread_mutation_impact impact = Ok ()
     \<and> tmt_authorize_resume sample_threads (approve_input (ThreadMutationProposalId ''p'') (SourceEventId ''c'')) ()
         = (Ok MutationApproved, ())
     \<and> tmt_persist_proposal sample_threads impact () = (Ok (), ())"
  using applied_mutation_was_authorized [OF sample_merge] by auto

section \<open>Thread links\<close>

lemma validated_review:
  assumes "validate_thread_link_review uuid cx action = Ok review"
  shows "vlr_candidate_id review = lrx_candidate_id cx" "vlr_target_status review = review_target_status action"
    "lrx_candidate_status cx = LinkProposed \<or> lrx_candidate_status cx = review_target_status action"
    "lrc_role (lrx_command cx) = OwnerCommand" "lrc_authorized_account (lrx_command cx) = lrx_candidate_account cx"
    "\<not> is_blank (tar_actor_id (lrc_actor (lrx_command cx)))"
  using assms by (auto simp: validate_thread_link_review_def Let_def result_simps guard_simps)

text \<open>
  The store receives a review only if the candidate is still proposed or already has the status the
  review asks for, on the owner's command, by an identified actor and for the account the owner manages.
\<close>

theorem review_needs_owner:
  assumes "link_review uuid S i command action w = (Ok receipt, w')"
  shows "\<exists>cx review w1.
      tls_load_review_context S i command w = (Ok cx, w1) \<and> tls_commit_review S review w1 = (Ok receipt, w')
    \<and> vlr_candidate_id review = lrx_candidate_id cx \<and> vlr_target_status review = review_target_status action
    \<and> (lrx_candidate_status cx = LinkProposed \<or> lrx_candidate_status cx = review_target_status action)
    \<and> lrc_role (lrx_command cx) = OwnerCommand \<and> lrc_authorized_account (lrx_command cx) = lrx_candidate_account cx
    \<and> \<not> is_blank (tar_actor_id (lrc_actor (lrx_command cx)))"
proof -
  obtain cx review w1 where "tls_load_review_context S i command w = (Ok cx, w1)"
      and "validate_thread_link_review uuid cx action = Ok review" and "tls_commit_review S review w1 = (Ok receipt, w')"
    using assms by (auto simp: link_review_def result_simps)
  then show ?thesis using validated_review [of uuid cx action review] by blast
qed

definition sample_links :: "unit thread_link_store" where
  "sample_links =
     \<lparr>tls_claim_batch = \<lambda>_ _ _. give None, tls_commit_hints = \<lambda>_ hs. give (length hs), tls_fail_batch = \<lambda>_ _. give (),
      tls_list_candidates = \<lambda>_ _ _. give [], tls_list_pending = \<lambda>_ _. give [],
      tls_load_review_context = \<lambda>i command. give
        \<lparr>lrx_candidate_id = i, lrx_candidate_account = sample_account, lrx_candidate_status = LinkProposed,
         lrx_command = \<lparr>lrc_source_event_id = command, lrc_actor = sample_actor, lrc_role = OwnerCommand,
                       lrc_authorized_account = sample_account\<rparr>\<rparr>,
      tls_commit_review = \<lambda>v. give
        \<lparr>lrr_review_id = vlr_review_id v, lrr_candidate_id = vlr_candidate_id v, lrr_status = vlr_target_status v,
         lrr_changed = True\<rparr>\<rparr>"

lemma sample_review:
  "link_review ''u'' sample_links (ThreadLinkCandidateId ''k'') (SourceEventId ''c'') AcceptLink () =
   (Ok \<lparr>lrr_review_id = ThreadLinkReviewId ''u'', lrr_candidate_id = ThreadLinkCandidateId ''k'',
        lrr_status = LinkAccepted, lrr_changed = True\<rparr>, ())"
  by code_simp

theorem review_needs_owner_witness:
  "\<exists>cx. tls_load_review_context sample_links (ThreadLinkCandidateId ''k'') (SourceEventId ''c'') () = (Ok cx, ())
     \<and> lrc_role (lrx_command cx) = OwnerCommand \<and> lrc_authorized_account (lrx_command cx) = lrx_candidate_account cx"
  using review_needs_owner [OF sample_review] by auto

text \<open>The hints of a batch: each once, from an event that is not omitted, of a strong kind.\<close>

lemma extracted_hints:
  "distinct (map hint_key (extract_hints sha b))"
  "h \<in> set (extract_hints sha b) \<Longrightarrow>
     \<exists>e\<in>set (clb_events b). \<not> tle_content_omitted e \<and> tlh_source_event_id h = tle_source_event_id e
       \<and> tlh_thread_id h = tle_thread_id e \<and> link_signal_is_strong (tlh_kind h)"
proof -
  show "distinct (map hint_key (extract_hints sha b))"
    by (simp add: extract_hints_def dedup_hints_distinct)
  assume "h \<in> set (extract_hints sha b)"
  then have "h \<in> (\<Union>e\<in>set (clb_events b). set (event_hints sha e))"
    using dedup_hints_subset by (fastforce simp: extract_hints_def)
  then show "\<exists>e\<in>set (clb_events b). \<not> tle_content_omitted e \<and> tlh_source_event_id h = tle_source_event_id e
       \<and> tlh_thread_id h = tle_thread_id e \<and> link_signal_is_strong (tlh_kind h)"
    using event_hint_made by (fastforce dest: event_hint_made)
qed

end
