(* ===== verification/Spec2Isabelle.thy ===== *)
theory Spec2Isabelle
  imports Run_Properties Fragment_Properties Planner_Correct Backfill_Properties Gap_Properties
    Realtime_Spool Heartbeat Action_Graph_Properties Message_Spool_Properties Ingestion_Pipeline
    Delivery_Properties Effect_Properties Replan_Overflow Service_Properties
begin

text \<open>
  Verification of ServerRS.

  \<^bold>\<open>The program.\<close> ServerRS runs a personal secretary for a QQ account. The crate \<open>agent-core\<close>
  (under \<open>src/agent-core/src\<close>) is an engine for agents written as graphs: a definition is
  compiled, run within a budget, suspended into a checkpoint and resumed once. The crate
  \<open>personal-secretary\<close> holds the domain: inbound messages and their continuity, the assignment of
  messages to threads, the backfill of gaps in the history, the notification policy, the spool of
  messages not yet stored, and the secretary's agent, whose action graph is an instance of
  \<open>agent-core\<close>. The crate \<open>qqbot\<close> speaks the OneBot protocol and watches the connection;
  \<open>qqbot-server\<close> wires everything to MySQL, an LLM and the message spool on disk.

  \<^bold>\<open>Foundations.\<close> \<open>Rust_Prelude\<close>: machine integers, \<open>Result\<close> with a third constructor for
  panics, loops with early return, results over mutable state, and the collections \<open>result_simps\<close>
  and \<open>guard_simps\<close> that the component proofs use. \<open>Rust_String\<close>: strings as UTF-8 bytes, \<open>trim\<close>,
  \<open>chars().count()\<close>, decimal rendering. \<open>Ordered_Map\<close>: \<open>BTreeMap\<close> and \<open>BTreeSet\<close>, with the
  locale \<open>registry\<close> as their interface.

  \<^bold>\<open>The graph engine\<close> (\<open>agent-core/src\<close>). \<open>Graph_Id\<close> (\<open>graph/id.rs\<close>), \<open>Agent_State\<close>
  (\<open>state.rs\<close>, \<open>action.rs\<close>, \<open>message.rs\<close>), \<open>Graph_Error\<close> (\<open>graph/error.rs\<close>, \<open>graph/effect.rs\<close>),
  \<open>Run_Budget\<close> (\<open>graph/budget.rs\<close>), \<open>Graph_Definition\<close> (\<open>graph/definition.rs\<close>, \<open>graph/node.rs\<close>),
  \<open>Checkpoint\<close> (\<open>graph/checkpoint.rs\<close>, \<open>graph/checkpoint_store.rs\<close>), \<open>Graph_Runtime\<close>
  (\<open>graph/runtime.rs\<close>) and \<open>Graph_Fragment\<close> (\<open>graph/fragment.rs\<close>) hold the model, one definition
  per method. \<open>Compile_Correct\<close> characterises the accepted graphs; \<open>Runtime_Correct\<close> follows the
  composition of the runtime with an invariant of a run's progress; \<open>Resume_Correct\<close> carries it
  over suspension and resumption; \<open>Run_Properties\<close> states the results; \<open>Fragment_Correct\<close> and
  \<open>Fragment_Properties\<close> do the same for the builder. \<open>Run_Budget\<close> refines its counters to
  natural numbers. The locale \<open>checkpoint_contract\<close> is what a resumed run needs of a store, and
  the in-memory store is its interpretation.

  \<^bold>\<open>The secretary's agent\<close> (\<open>personal-secretary/src\<close>). \<open>Secretary_Types\<close>, \<open>Secretary_Action\<close>,
  \<open>Working_Context\<close>, \<open>Secretary_Validation\<close>, \<open>Action_Planner\<close>, \<open>Secretary_State\<close> and
  \<open>Owner_Response\<close> model the files of \<open>domain/agent_runtime\<close> and the planner's port;
  \<open>Action_Graph\<close> models the nodes, the router and the assembly of
  \<open>application/action_graph\<close>. The locale \<open>effect_discipline\<close> (\<open>Effect_Discipline\<close>) is a contract
  between the nodes of a graph and the runtime: in good states only permitted effects are asked
  for. Its conclusion, that two executors which agree on the permitted effects give the same run,
  says that the others are never executed. \<open>Action_Graph_Correct\<close> and \<open>Replan_Bounds\<close> interpret it
  on the action graph; \<open>Action_Graph_Calm\<close> finds the only node that can panic when its ports do
  not; \<open>Action_Graph_Properties\<close> draws the conclusions.

  \<^bold>\<open>What the agent reads and changes\<close> (\<open>personal-secretary/src\<close>). \<open>Retriever\<close> and
  \<open>Retriever_Service\<close> (\<open>domain/retriever.rs\<close>, \<open>application/retriever_service.rs\<close>) hold the views the
  store returns, their bounds, the strict check of causal roles, the resolution of references and the
  use cases; \<open>Retriever_Properties\<close> shows what a view that leaves this layer has passed. \<open>Memory\<close> and
  \<open>Memory_Candidate\<close> (\<open>domain/memory.rs\<close>, \<open>domain/memory_candidate.rs\<close> and their services) are the
  facts of the long-term memory and the scan that proposes them; \<open>Thread_Mutation\<close> and
  \<open>Thread_Link\<close> the merging, splitting and linking of threads; \<open>Agenda\<close>, \<open>Health\<close>,
  \<open>Policy_Service\<close> the agenda, the state of the subsystems and the notification policy's use case;
  \<open>Owner_Control\<close> the services that check an approved command of the owner and hand it to their
  store. \<open>Effect_Format\<close> and \<open>Effect_Executor\<close> (\<open>application/action_graph/effect_executor.rs\<close>)
  are the executor behind the action graph: it classifies an action, looks for a stored receipt,
  passes the action to the service that handles it and renders the result. Each store is a record of
  actions on one world, which may answer anything. \<open>Effect_Properties\<close> shows that an owner's change
  needs the owner's command, that a control reaches the store of its kind once and checked, and, as
  an equality of two executors, that content beyond the model's visibility never shows;
  \<open>Reference_Properties\<close> when a reference counts as resolved, \<open>Replan_Overflow\<close> which results the
  agent's context refuses, \<open>Service_Properties\<close> which candidates a scan commits and that an approved
  one is a valid fact.

  \<^bold>\<open>Messages, threads and gaps\<close> (\<open>personal-secretary/src\<close>). \<open>Inbound_Message\<close>
  (\<open>domain/inbound.rs\<close>, \<open>domain/continuity.rs\<close>), \<open>Thread_Planner\<close> and \<open>Planner_Correct\<close>
  (\<open>domain/threading.rs\<close>), \<open>Backfill\<close> (\<open>domain/backfill.rs\<close>), \<open>Backfill_Service\<close>
  (\<open>application/backfill_service.rs\<close>), with \<open>Backfill_Correct\<close> (a step relation that the page loop
  refines, and what the page loop does to the stores between two reads), \<open>Backfill_Properties\<close>
  (what may be stored, and what the evidence of a gap declared complete stands for) and
  \<open>Gap_Properties\<close>.

  \<^bold>\<open>Policy and connection.\<close> \<open>Notification_Policy\<close> (\<open>domain/notification_policy.rs\<close>), \<open>Heartbeat\<close>
  (\<open>qqbot/src/napcat/heartbeat.rs\<close>), \<open>Realtime_Spool\<close> (\<open>domain/realtime_spool.rs\<close>,
  \<open>domain/recall.rs\<close>).

  \<^bold>\<open>The durable message spool\<close> (\<open>qqbot-server/src/infrastructure/realtime_spool.rs\<close>).
  \<open>Spool_Files\<close> models the files: their bytes, how many of them are synced, directory entries that
  are not, and what a crash of the machine may leave of them: at least the synced bytes of a file,
  and a creation, a replacement or a truncation that was not synced may be undone. The log, the
  checkpoint, their temporary files and the lock are taken to be five distinct files; the validation
  of the configuration does not exclude every coincidence of their paths. \<open>Message_Spool\<close>
  holds the formats and the operations, one definition per function of the file; every call that
  can fail asks an oracle, and a failing write leaves a prefix of its bytes. \<open>Message_Spool_Format\<close>
  shows the round trips of the headers, \<open>Message_Spool_Log\<close> what scanning a log returns, also with
  an incomplete frame at its end, \<open>Message_Spool_Correct\<close> and \<open>Message_Spool_Crash\<close> what each
  operation and each crash in it leave on disk, \<open>Message_Spool_Open\<close> that opening restores the
  invariant. \<open>Message_Spool_Properties\<close> puts them together: with failures and crashes the spool
  refines a queue. The hypotheses on libraries (\<open>spool_lib_ok\<close>) are that sealing adds a tag and
  opening inverts it, that encoding and decoding of JSON and of UUIDs round trip; drawn UUIDs and
  admission ids are fresh. Where the source asks for allocated blocks, the branch for unix is
  modelled. A restart of the process without a crash of the machine, which leaves unsynced bytes
  visible, is outside these runs.

  \<^bold>\<open>From the connection to the store\<close> (\<open>qqbot-server/src\<close>). \<open>Artifact\<close> (\<open>domain/artifact.rs\<close>)
  holds the artifacts that a hook registers. \<open>Ingestion_Worker\<close>
  (\<open>application/ingestion_worker.rs\<close>) models the storing of a batch: retries, the bisection of a
  batch the store refuses, hooks, checkpoints, metrics; \<open>Ingestion_Correct\<close> shows by induction over
  these loops what they store. \<open>Ingestion_Pipeline\<close> is the queue and the loop of the worker as a
  transition system, with producers that come in between at any step. \<open>Spool_Runtime\<close>
  (\<open>runtime/realtime_spool_runtime.rs\<close>) is the bridge to the spool: admission, the writer, the
  checkpoint adapter, the recovery before a connection. \<open>Store_Delivery\<close> says what the store
  promises (\<open>delivery_laws\<close>: a call that succeeds makes its facts true, and facts stay true) and
  what follows for a batch; the locale \<open>durable_log\<close> (\<open>Spool_Delivery\<close>, \<open>Recovery_Delivery\<close>) is the
  contract between the log and those who checkpoint it; \<open>Delivery_Properties\<close> interprets it on the
  message spool and concludes that no logged message is lost. The theorems on live messages assume
  that an insertion is atomic, judges each message alone and adds it only if the store holds no
  message of its idempotency key (\<open>transactional\<close>, \<open>keep_all\<close>), and those that end a
  loop that an outage delays that it answers in the end (\<open>recovers\<close>). Clocks are read off the world, which
  every call may change; a batch is one step of the transition system, producers that enqueue
  while it is processed come before or after it.

  \<^bold>\<open>Bounds and fuel.\<close> The loop of the runtime is a function with fuel; the action graph reserves
  a step per turn and the step limit is checked before the turn, so fuel above the limit is never
  used up, and the theorems on runs prove that enough fuel gives a result. Futures are finite
  \<open>program\<close>s: one that never completes is represented by one that yields until the deadline or the
  token fires. The loops of the compiler, the planner and the scanners have termination proofs. Loops
  that retry until a store answers are \<open>partial_function\<close>s, for which not to end is the value
  \<open>None\<close>; \<open>worker_can_drain\<close> shows that the worker's do end when the store recovers.

  \<^bold>\<open>Parameters.\<close> What is not under \<open>src\<close> is an argument: the supply of UUIDs, clock readings and
  cancellation (the \<open>world\<close> of a run), the JSON functions of \<open>serde_json\<close>, dates and zones of
  \<open>chrono\<close>, and the stores, planners and message sources behind the ports, each with a state
  of its own and any answer, errors included.

  \<^bold>\<open>Not modelled.\<close> SQL (the MySQL repositories), HTTP and WebSocket clients, LLM prompts, process
  wiring, logging and metrics: their meaning is that of a service. The extraction of the meaning of a
  thread is a dialogue with an LLM; the directory, the follow-up scan, the reconciliation, recall and
  delivery loops of the secretary pass calls on to a store. Rendering of error messages is
  modelled where a value of the program depends on it. The manifest lists every component.
\<close>

end
